(* ===== verification/Prelude.thy ===== *)
theory Prelude
  imports Main "HOL-Library.Word" "HOL-Library.Signed_Division"
begin

text \<open>
  Shared vocabulary of the development: the emulator's fixed-width integer types, the
  lanes of its register unions, little-endian access to a store of bytes, results that
  may be a C++ exception, and the lemmas about them that every component uses.

  Conventions.  A C++ \<open>uN\<close> or \<open>sN\<close> is an \<open>N word\<close>; the signed reading of a value
  is written where the source uses it (\<open>sint\<close>, \<open><s\<close>, \<open>signed_drop_bit\<close>).  A widening
  cast of a signed value is \<open>scast\<close>, any other cast is \<open>ucast\<close>.
\<close>

unbundle bit_operations_syntax

type_synonym u8 = "8 word"
type_synonym u16 = "16 word"
type_synonym u32 = "32 word"
type_synonym u64 = "64 word"
type_synonym u128 = "128 word"

named_theorems lane_simps \<open>reading a lane of a register after a lane was written\<close>
named_theorems ee_defs \<open>definitions of the instruction handlers\<close>
named_theorems frame_simps \<open>fields a handler leaves alone\<close>


section \<open>Words\<close>

lemma unat_bound: "unat (x :: 'a::len word) < 2 ^ LENGTH('a)"
  by (rule unsigned_less)

lemma unat_drop_bit: "unat (drop_bit n (x :: 'a::len word)) = unat x div 2 ^ n"
  by (simp only: unsigned_drop_bit_eq) (simp add: drop_bit_eq_div take_bit_nat_eq_self)

lemma word_unat_eqI: "unat x = unat (y :: 'a::len word) \<Longrightarrow> x = y"
  by (simp add: word_unat_eq_iff)

lemma unat_ucast_up:
  assumes "LENGTH('a) \<le> LENGTH('b)"
  shows "unat (ucast (x :: 'a::len word) :: 'b::len word) = unat x"
proof -
  have "unat x < 2 ^ LENGTH('a)" by simp
  also have "\<dots> \<le> 2 ^ LENGTH('b)" using assms by simp
  finally show ?thesis by (simp add: unsigned_ucast_eq take_bit_nat_eq_self)
qed

lemma uint_ucast_up:
  "LENGTH('a) \<le> LENGTH('b) \<Longrightarrow> uint (ucast (x :: 'a::len word) :: 'b::len word) = uint x"
  by (simp only: uint_nat unat_ucast_up)

text \<open>A narrowing cast commutes with the ring operations.\<close>

lemma ucast_add_down:
  assumes "LENGTH('b) \<le> LENGTH('a)"
  shows "(ucast (x + y :: 'a::len word) :: 'b::len word) = ucast x + ucast y"
proof -
  have "take_bit LENGTH('b) (uint x + uint y) = take_bit LENGTH('b) (uint (ucast x :: 'b word) + uint (ucast y :: 'b word))"
    by (metis take_bit_add unsigned_ucast_eq)
  with assms show ?thesis
    by (intro word_uint_eqI)
      (simp add: unsigned_ucast_eq uint_word_ariths(1) min_absorb1 flip: take_bit_eq_mod)
qed

lemma ucast_minus_down:
  assumes "LENGTH('b) \<le> LENGTH('a)"
  shows "(ucast (x - y :: 'a::len word) :: 'b::len word) = ucast x - ucast y"
proof -
  have "ucast (x - y + y) = (ucast (x - y) + ucast y :: 'b word)"
    using assms by (rule ucast_add_down)
  then show ?thesis by simp
qed

lemma ucast_ucast_down:
  "LENGTH('c) \<le> LENGTH('b) \<Longrightarrow>
     (ucast (ucast (x :: 'a::len word) :: 'b::len word) :: 'c::len word) = ucast x"
  by (rule bit_word_eqI) (auto simp: bit_simps)

lemma clear_bit_minus:
  assumes "bit (x :: 'a::len word) n" and "p = push_bit n 1"
  shows "x AND NOT p = x - p"
proof -
  have "(x AND NOT p) AND p = 0" by (rule bit_word_eqI) (auto simp: bit_simps)
  then have "(x AND NOT p) + p = (x AND NOT p) OR p" by (rule disjunctive_add_eq_or)
  also have "\<dots> = x"
    by (rule bit_word_eqI) (use assms in \<open>auto simp: bit_simps\<close>)
  finally show ?thesis by (simp add: eq_diff_eq)
qed

lemma neg_iff_bit: "v <s (0 :: 'a::len word) \<longleftrightarrow> bit v (LENGTH('a) - 1)"
  by (simp add: word_sless_alt flip: bit_last_iff)

text \<open>Signed values of words, and when a sum of two of them leaves the range.\<close>

lemma sint_bounds: "- (2 ^ (LENGTH('a) - 1)) \<le> sint (x :: 'a::len word)" "sint (x :: 'a::len word) < 2 ^ (LENGTH('a) - 1)"
  using sint_greater_eq [of x] sint_less [of x] by auto

lemma sint_word_of_int:
  assumes "- (2 ^ (LENGTH('a) - 1)) \<le> i" "i < 2 ^ (LENGTH('a) - 1)"
  shows "sint (word_of_int i :: 'a::len word) = i"
  using assms by (simp add: signed_of_int signed_take_bit_int_eq_self)

lemma sint_scast_up:
  assumes "LENGTH('a) \<le> LENGTH('b)"
  shows "sint (scast (x :: 'a::len word) :: 'b::len word) = sint x"
proof -
  have "(2 :: int) ^ (LENGTH('a) - 1) \<le> 2 ^ (LENGTH('b) - 1)" using assms by (intro power_increasing) auto
  then have "sint (word_of_int (sint x) :: 'b word) = sint x"
    using sint_bounds [of x] by (intro sint_word_of_int) linarith+
  then show ?thesis by simp
qed

lemma sint32_range: "- 2147483648 \<le> sint (x :: u32)" "sint (x :: u32) < 2147483648"
  using sint_bounds [of x] by simp_all
lemma sint64_range: "- 9223372036854775808 \<le> sint (x :: u64)" "sint (x :: u64) < 9223372036854775808"
  using sint_bounds [of x] by simp_all

lemma two_bits_differ:
  fixes z :: int
  assumes "- 2 * 2 ^ k \<le> z" "z < 2 * 2 ^ k"
  shows "bit z k \<noteq> bit z (Suc k) \<longleftrightarrow> \<not> (- (2 ^ k) \<le> z \<and> z < 2 ^ k)"
proof -
  define P q m :: int where "P = 2 ^ k" and "q = z div P" and "m = z mod P"
  have P: "0 < P" by (simp add: P_def)
  have z: "z = q * P + m" and m: "0 \<le> m" "m < P"
    using P by (simp_all add: q_def m_def)
  have "q < 2"
  proof (rule ccontr)
    assume "\<not> q < 2"
    then have "2 * P \<le> q * P" using P by (intro mult_right_mono) auto
    with z m assms(2) [folded P_def] show False by linarith
  qed
  moreover have "- 3 < q"
  proof (rule ccontr)
    assume "\<not> - 3 < q"
    then have "q * P \<le> - 3 * P" using P by (intro mult_right_mono) auto
    with z m assms(1) [folded P_def] show False by linarith
  qed
  ultimately consider "q = -2" | "q = -1" | "q = 0" | "q = 1" by linarith
  moreover have "bit z k \<longleftrightarrow> odd q" "bit z (Suc k) \<longleftrightarrow> odd (q div 2)"
    by (simp_all add: bit_iff_odd q_def P_def mult.commute [of 2] flip: zdiv_zmult2_eq)
  ultimately show ?thesis using z m P by cases (auto simp: P_def)
qed

lemma bit_top_int:
  fixes z :: int
  assumes "- (2 ^ k) \<le> z" "z < 2 ^ k"
  shows "bit z k \<longleftrightarrow> z < 0"
proof (cases "z < 0")
  case True
  then have "(NOT z) div 2 ^ k = 0" using assms by (simp add: not_int_def div_pos_pos_trivial)
  then have "\<not> bit (NOT z) k" by (simp add: bit_iff_odd)
  with True show ?thesis by (simp add: bit_not_iff)
next
  case False
  then show ?thesis using assms by (simp add: bit_iff_odd div_pos_pos_trivial)
qed

lemma bit63_sint: "bit (x :: u64) 63 \<longleftrightarrow> sint x < 0"
  using bit_top_int [of 63 "sint x"] sint64_range [of x] by (simp add: bit_sint_iff)

section \<open>Lanes of a union\<close>

text \<open>
  The unions \<open>GPR_reg\<close>, \<open>GPR_reg64\<close> read one block of storage as an array of 64, 32, 16
  or 8 bit elements.  \<open>lane n r\<close> is element \<open>n\<close> of the block \<open>r\<close> at the width of the
  result type; \<open>set_lane n v r\<close> stores \<open>v\<close> there.
\<close>

definition lane :: "nat \<Rightarrow> 'r::len word \<Rightarrow> 'w::len word" where
  "lane n r = ucast (drop_bit (LENGTH('w) * n) r)"

definition set_lane :: "nat \<Rightarrow> 'w::len word \<Rightarrow> 'r::len word \<Rightarrow> 'r word" where
  "set_lane n v r =
     (r AND NOT (push_bit (LENGTH('w) * n) (mask LENGTH('w))))
       OR push_bit (LENGTH('w) * n) (ucast v)"

lemma bit_lane:
  "bit (lane n (r :: 'r::len word) :: 'w::len word) k \<longleftrightarrow>
     k < LENGTH('w) \<and> bit r (LENGTH('w) * n + k)"
  by (auto simp: lane_def bit_simps dest: bit_imp_le_length)

lemma bit_set_lane:
  "bit (set_lane n (v :: 'w::len word) (r :: 'r::len word)) k \<longleftrightarrow>
     k < LENGTH('r) \<and>
     (if LENGTH('w) * n \<le> k \<and> k < LENGTH('w) * n + LENGTH('w)
      then bit v (k - LENGTH('w) * n) else bit r k)"
  by (auto simp: set_lane_def bit_simps dest: bit_imp_le_length)

lemma lane_set_lane:
  "LENGTH('w) * Suc n \<le> LENGTH('r) \<Longrightarrow>
     (lane n (set_lane n (v :: 'w::len word) (r :: 'r::len word)) :: 'w word) = v"
  by (rule bit_word_eqI) (auto simp: bit_lane bit_set_lane)

lemma lane_index_inj:
  assumes "w * n \<le> w * m + k" and "w * m + k < w * n + w" and "k < (w :: nat)"
  shows "n = m"
proof -
  have "(w * m + k) div w = n"
    using assms(1,2) by (intro div_nat_eqI) (auto simp: algebra_simps)
  with assms(3) show ?thesis by simp
qed

lemma lane_set_lane_other:
  "m \<noteq> n \<Longrightarrow> (lane m (set_lane n (v :: 'w::len word) (r :: 'r::len word)) :: 'w word) = lane m r"
  by (rule bit_word_eqI)
    (auto simp: bit_lane bit_set_lane dest: lane_index_inj bit_imp_le_length)

lemma lane_eqI:
  assumes N: "LENGTH('r) = LENGTH('w) * N"
    and eq: "\<And>n. n < N \<Longrightarrow> (lane n r :: 'w::len word) = lane n (q :: 'r::len word)"
  shows "r = q"
proof (rule bit_word_eqI)
  fix k
  assume k: "k < LENGTH('r)"
  let ?w = "LENGTH('w)"
  have "k div ?w < N" using k N by (simp add: less_mult_imp_div_less mult.commute)
  then have "bit (lane (k div ?w) r :: 'w word) (k mod ?w) = bit (lane (k div ?w) q :: 'w word) (k mod ?w)"
    using eq by simp
  then show "bit r k = bit q k" by (simp add: bit_lane)
qed

text \<open>
  What the handlers rely on: the elements of one width are independent cells that
  together are the whole register.
\<close>

locale lane_array =
  fixes get :: "nat \<Rightarrow> 'r \<Rightarrow> 'w"
    and put :: "nat \<Rightarrow> 'w \<Rightarrow> 'r \<Rightarrow> 'r"
    and N :: nat
  assumes get_put: "n < N \<Longrightarrow> get n (put n v r) = v"
    and get_put_other: "m \<noteq> n \<Longrightarrow> get m (put n v r) = get m r"
    and array_eqI: "(\<And>n. n < N \<Longrightarrow> get n r = get n q) \<Longrightarrow> r = q"
begin

lemma get_put_if: "n < N \<Longrightarrow> get m (put n v r) = (if m = n then v else get m r)"
  by (simp add: get_put get_put_other)

lemma put_get: "n < N \<Longrightarrow> put n (get n r) r = r"
  by (rule array_eqI) (simp add: get_put_if)

lemma put_put: "n < N \<Longrightarrow> put n v (put n w r) = put n v r"
  by (rule array_eqI) (simp add: get_put_if)

lemma put_commute: "m < N \<Longrightarrow> n < N \<Longrightarrow> m \<noteq> n \<Longrightarrow> put m v (put n w r) = put n w (put m v r)"
  by (rule array_eqI) (simp add: get_put_if)

lemma get_fold_put:
  assumes "\<forall>n \<in> set ns. n < N"
  shows "get m (fold (\<lambda>n. put n (f n)) ns r) = (if m \<in> set ns then f m else get m r)"
  using assms by (induction ns arbitrary: r) (auto simp: get_put_if)

lemma fold_put_all:
  "(\<And>n. n < N \<Longrightarrow> f n = get n q) \<Longrightarrow> fold (\<lambda>n. put n (f n)) [0..<N] r = q"
  by (rule array_eqI) (simp add: get_fold_put)

end

lemma lane_array_lane:
  assumes N: "LENGTH('r) = LENGTH('w) * N"
  shows "lane_array (lane :: nat \<Rightarrow> 'r::len word \<Rightarrow> 'w::len word) set_lane N"
proof
  fix n :: nat and r :: "'r word" and v :: "'w word"
  assume "n < N"
  then have "LENGTH('w) * Suc n \<le> LENGTH('r)" unfolding N by (intro mult_le_mono2) simp
  then show "lane n (set_lane n v (r :: 'r word)) = v" by (rule lane_set_lane)
next
  fix m n :: nat and r :: "'r word" and v :: "'w word"
  assume "m \<noteq> n"
  then show "(lane m (set_lane n v (r :: 'r word)) :: 'w word) = lane m r"
    by (rule lane_set_lane_other)
next
  fix r q :: "'r word"
  assume "\<And>n. n < N \<Longrightarrow> (lane n r :: 'w word) = lane n q"
  with N show "r = q" by (rule lane_eqI)
qed


section \<open>Little-endian access to a store of bytes\<close>

text \<open>
  A C++ access through \<open>*reinterpret_cast<T*>(p)\<close> reads or writes the bytes at \<open>p\<close>,
  \<open>p + 1\<close>, ... with the least significant first (both hosts of the emulator are little
  endian).  The address type is a parameter: host pointers are 64 bit words, offsets in
  a 64 byte cache line are 6 bit words.
\<close>

fun load_le :: "nat \<Rightarrow> ('a::len word \<Rightarrow> u8) \<Rightarrow> 'a word \<Rightarrow> 'w::len word" where
  "load_le 0 m a = 0"
| "load_le (Suc k) m a = ucast (m a) OR push_bit 8 (load_le k m (a + 1))"

fun store_le :: "nat \<Rightarrow> ('a::len word \<Rightarrow> u8) \<Rightarrow> 'a word \<Rightarrow> 'w::len word \<Rightarrow> ('a word \<Rightarrow> u8)" where
  "store_le 0 m a v = m"
| "store_le (Suc k) m a v = store_le k (m(a := ucast v)) (a + 1) (drop_bit 8 v)"

lemma load_le_numeral:
  "load_le (numeral k) m a = ucast (m a) OR push_bit 8 (load_le (pred_numeral k) m (a + 1))"
  by (simp add: numeral_eq_Suc)

lemma bit_load_le:
  "bit (load_le k m a :: 'w::len word) i \<longleftrightarrow>
     i < LENGTH('w) \<and> i < 8 * k \<and> bit (m (a + of_nat (i div 8))) (i mod 8)"
proof (induction k arbitrary: a i)
  case 0
  then show ?case by simp
next
  case (Suc k)
  show ?case
  proof (cases "i < 8")
    case True
    then show ?thesis by (auto simp: bit_simps)
  next
    case False
    then have *: "i div 8 = Suc ((i - 8) div 8)" "i mod 8 = (i - 8) mod 8"
      by (simp_all add: div_if mod_if)
    with False show ?thesis
      by (auto simp: bit_simps Suc add.assoc dest: bit_imp_le_length)
  qed
qed

lemma store_le_byte:
  assumes "k \<le> 2 ^ LENGTH('a)"
  shows "store_le k m a (v :: 'w::len word) (b :: 'a::len word) =
     (if unat (b - a) < k then ucast (drop_bit (8 * unat (b - a)) v) else m b)"
  using assms
proof (induction k arbitrary: m a v)
  case 0
  then show ?case by simp
next
  case (Suc k)
  then have k: "k \<le> 2 ^ LENGTH('a)" "k < 2 ^ LENGTH('a)" by simp_all
  show ?case
  proof (cases "b = a")
    case True
    then have "b - (a + 1) = - 1" by simp
    then have "unat (b - (a + 1)) = 2 ^ LENGTH('a) - 1"
      by (simp add: unsigned_minus_1_eq_mask mask_eq_exp_minus_1)
    then have "\<not> unat (b - (a + 1)) < k" using k by simp
    then have "store_le k (m(a := ucast v)) (a + 1) (drop_bit 8 v) b = (m(a := ucast v)) b"
      by (simp only: Suc.IH [OF k(1)] if_False)
    with True show ?thesis by simp
  next
    case False
    define d where "d = b - (a + 1)"
    have d1: "b - a = d + 1" and nz: "d + 1 \<noteq> 0" using False by (auto simp: d_def)
    then have u: "unat (b - a) = Suc (unat d)" by (simp add: unatSuc add.commute)
    show ?thesis
      using False u
      by (simp add: Suc.IH [OF k(1)] flip: d_def) (simp add: add.commute)
  qed
qed

lemma load_store_same:
  assumes "k \<le> 2 ^ LENGTH('a)" and "LENGTH('w) = 8 * k"
  shows "load_le k (store_le k m a v) (a :: 'a::len word) = (v :: 'w::len word)"
proof (rule bit_word_eqI)
  fix i
  assume i: "i < LENGTH('w)"
  then have lt: "i div 8 < k" using assms(2) by (simp add: less_mult_imp_div_less mult.commute)
  with assms(1) have "unat (of_nat (i div 8) :: 'a word) = i div 8"
    by (simp add: unat_of_nat)
  with lt show "bit (load_le k (store_le k m a v) a :: 'w word) i = bit v i"
    using i assms by (simp add: bit_load_le store_le_byte bit_simps)
qed

lemma load_le_cong:
  "(\<And>i. i < k \<Longrightarrow> m (a + of_nat i) = n (b + of_nat i)) \<Longrightarrow> load_le k m a = load_le k n b"
  by (rule bit_word_eqI) (auto simp: bit_load_le)

end
