(* ===== verification/EE_Regs.thy ===== *)
theory EE_Regs
  imports Prelude
begin

text \<open>
  The architectural state of the EE core (\<open>cpuRegs\<close> of pcsx2/R5900.h), the operand
  macros of the same header, the exception entry and the event clock of pcsx2/R5900.cpp.

  \<open>cpuRegisters\<close> is an extensible record: the memory system, the TLB and the rest of the
  machine extend it, so the register-only handlers are stated once over
  \<open>'a cpuRegisters_scheme\<close>.  A register number is a 5 bit word, so that the register
  file is total and has exactly 32 entries, as the array of the source.
\<close>

unbundle bit_operations_syntax

section \<open>Registers\<close>

type_synonym reg = "5 word"

text \<open>The views of the union \<open>GPR_reg\<close>.\<close>

abbreviation UD :: "u128 \<Rightarrow> nat \<Rightarrow> u64" where "UD r n \<equiv> lane n r"
abbreviation UL :: "u128 \<Rightarrow> nat \<Rightarrow> u32" where "UL r n \<equiv> lane n r"
abbreviation US :: "u128 \<Rightarrow> nat \<Rightarrow> u16" where "US r n \<equiv> lane n r"
abbreviation UC :: "u128 \<Rightarrow> nat \<Rightarrow> u8" where "UC r n \<equiv> lane n r"

abbreviation set_UD :: "nat \<Rightarrow> u64 \<Rightarrow> u128 \<Rightarrow> u128" where "set_UD \<equiv> set_lane"
abbreviation set_UL :: "nat \<Rightarrow> u32 \<Rightarrow> u128 \<Rightarrow> u128" where "set_UL \<equiv> set_lane"
abbreviation set_US :: "nat \<Rightarrow> u16 \<Rightarrow> u128 \<Rightarrow> u128" where "set_US \<equiv> set_lane"
abbreviation set_UC :: "nat \<Rightarrow> u8 \<Rightarrow> u128 \<Rightarrow> u128" where "set_UC \<equiv> set_lane"

record cpuRegisters =
  GPR :: "reg \<Rightarrow> u128"
  HI :: u128
  LO :: u128
  CP0 :: "5 word \<Rightarrow> u32"
  sa :: u32
  IsDelaySlot :: u32
  pc :: u32
  code :: u32
  pccr :: u32
  pcr0 :: u32
  pcr1 :: u32
  eCycle :: "5 word \<Rightarrow> u32"
  sCycle :: "5 word \<Rightarrow> u32"
  cycle :: u32
  interrupt :: u32
  branch :: u32
  opmode :: u32
  nextEventCycle :: u32
  pcWriteback :: u32

text \<open>The instruction field macros.\<close>

definition Funct :: "'a cpuRegisters_scheme \<Rightarrow> u32" where
  "Funct s = code s AND 0x3F"
definition Rd :: "'a cpuRegisters_scheme \<Rightarrow> reg" where
  "Rd s = ucast (drop_bit 11 (code s) AND 0x1F)"
definition Rt :: "'a cpuRegisters_scheme \<Rightarrow> reg" where
  "Rt s = ucast (drop_bit 16 (code s) AND 0x1F)"
definition Rs :: "'a cpuRegisters_scheme \<Rightarrow> reg" where
  "Rs s = ucast (drop_bit 21 (code s) AND 0x1F)"
definition Sa :: "'a cpuRegisters_scheme \<Rightarrow> nat" where
  "Sa s = unat (drop_bit 6 (code s) AND 0x1F)"
definition Im :: "'a cpuRegisters_scheme \<Rightarrow> u16" where
  "Im s = ucast (code s)"
definition InstrucTarget :: "'a cpuRegisters_scheme \<Rightarrow> u32" where
  "InstrucTarget s = code s AND 0x03ffffff"
definition Imm :: "'a cpuRegisters_scheme \<Rightarrow> u16" where
  "Imm s = ucast (code s)"
definition ImmU :: "'a cpuRegisters_scheme \<Rightarrow> u32" where
  "ImmU s = code s AND 0xffff"
definition Opcode :: "'a cpuRegisters_scheme \<Rightarrow> u32" where
  "Opcode s = drop_bit 26 (code s)"
definition JumpTarget :: "'a cpuRegisters_scheme \<Rightarrow> u32" where
  "JumpTarget s = push_bit 2 (InstrucTarget s) + (pc s AND 0xf0000000)"
definition BranchTarget :: "'a cpuRegisters_scheme \<Rightarrow> u32" where
  "BranchTarget s = scast (Im s) * 4 + pc s"
definition TrapCode :: "'a cpuRegisters_scheme \<Rightarrow> u16" where
  "TrapCode s = drop_bit 6 (ucast (code s))"

text \<open>Stores into the element of a register.\<close>

definition wUD :: "reg \<Rightarrow> nat \<Rightarrow> u64 \<Rightarrow> 'a cpuRegisters_scheme \<Rightarrow> 'a cpuRegisters_scheme" where
  "wUD r n v s = s\<lparr>GPR := (GPR s)(r := set_UD n v (GPR s r))\<rparr>"
definition wUL :: "reg \<Rightarrow> nat \<Rightarrow> u32 \<Rightarrow> 'a cpuRegisters_scheme \<Rightarrow> 'a cpuRegisters_scheme" where
  "wUL r n v s = s\<lparr>GPR := (GPR s)(r := set_UL n v (GPR s r))\<rparr>"
definition wUS :: "reg \<Rightarrow> nat \<Rightarrow> u16 \<Rightarrow> 'a cpuRegisters_scheme \<Rightarrow> 'a cpuRegisters_scheme" where
  "wUS r n v s = s\<lparr>GPR := (GPR s)(r := set_US n v (GPR s r))\<rparr>"
definition wUC :: "reg \<Rightarrow> nat \<Rightarrow> u8 \<Rightarrow> 'a cpuRegisters_scheme \<Rightarrow> 'a cpuRegisters_scheme" where
  "wUC r n v s = s\<lparr>GPR := (GPR s)(r := set_UC n v (GPR s r))\<rparr>"

definition SetLink :: "reg \<Rightarrow> 'a cpuRegisters_scheme \<Rightarrow> 'a cpuRegisters_scheme" where
  "SetLink x s = wUD x 0 (ucast (pc s + 4)) s"

text \<open>The elements of one width are an array, at each of the four widths.\<close>

interpretation UD: lane_array "lane :: nat \<Rightarrow> u128 \<Rightarrow> u64" set_lane 2
  by (rule lane_array_lane) simp

interpretation UL: lane_array "lane :: nat \<Rightarrow> u128 \<Rightarrow> u32" set_lane 4
  by (rule lane_array_lane) simp

interpretation US: lane_array "lane :: nat \<Rightarrow> u128 \<Rightarrow> u16" set_lane 8
  by (rule lane_array_lane) simp

interpretation UC: lane_array "lane :: nat \<Rightarrow> u128 \<Rightarrow> u8" set_lane 16
  by (rule lane_array_lane) simp

lemmas lane_put [lane_simps] =
  UD.get_put_if UL.get_put_if US.get_put_if UC.get_put_if

lemmas wregs [ee_defs] = wUD_def wUL_def wUS_def wUC_def

text \<open>The 32 bit elements of a register whose 64 bit element is stored.\<close>

lemma UL_set_UD [lane_simps]:
  "n < 2 \<Longrightarrow> UL (set_UD n v r) m =
     (if m = 2 * n then ucast v else if m = 2 * n + 1 then ucast (drop_bit 32 v) else UL r m)"
proof (rule bit_word_eqI)
  fix k :: nat
  assume n: "n < 2" and k: "k < LENGTH(32)"
  consider "m = 2 * n" | "m = 2 * n + 1" | "m < 2 * n" | "2 * n + 2 \<le> m" by linarith
  then show "bit (UL (set_UD n v r) m) k =
     bit (if m = 2 * n then ucast v else if m = 2 * n + 1 then ucast (drop_bit 32 v) else UL r m) k"
    using n k by cases (auto simp: bit_lane bit_set_lane bit_simps dest: bit_imp_le_length)
qed

lemma UL_even: "UL r (2 * n) = ucast (UD r n)"
  by (rule bit_word_eqI) (auto simp: bit_lane bit_simps)

lemma UL_odd: "UL r (Suc (2 * n)) = ucast (drop_bit 32 (UD r n))"
proof (rule bit_word_eqI)
  fix k :: nat
  have idx: "32 + 64 * n + k = 64 * n + (32 + k)" by simp
  show "bit (UL r (Suc (2 * n))) k = bit (ucast (drop_bit 32 (UD r n)) :: u32) k" if "k < LENGTH(32)"
    using that by (simp add: bit_lane bit_simps idx)
qed

lemma UD_from_UL: "UD r n = ucast (UL r (2 * n)) OR push_bit 32 (ucast (UL r (2 * n + 1)))"
  by (rule bit_word_eqI) (auto simp: bit_lane bit_simps)


section \<open>Exceptions\<close>

text \<open>
  A handler either returns or leaves by one of the C++ exceptions the interpreter uses;
  in both cases the machine is in some state.  Four values are not exceptions of the
  source: \<open>ArrayBounds\<close> marks an access outside an array and \<open>UndefinedShift\<close> a shift by the
  width or more, whose behaviour C++ does not define, and \<open>VerifyFailed\<close> a failed \<open>verify\<close>, a precondition the code asserts; \<open>NestedTooDeep\<close> is
  a result of the model (see \<open>EE_Interp\<close>).
\<close>

datatype ee_exn =
    AddressError u32 bool
  | CancelInstruction
  | ExitCpuExecute
  | ArrayBounds
  | UndefinedShift
  | VerifyFailed
  | NestedTooDeep

datatype ('s, 'a) res = Ok 'a 's | Throw ee_exn 's

fun res_bind :: "('s, 'a) res \<Rightarrow> ('a \<Rightarrow> 's \<Rightarrow> ('s, 'b) res) \<Rightarrow> ('s, 'b) res" where
  "res_bind (Ok x s) f = f x s"
| "res_bind (Throw e s) f = Throw e s"

fun res_state :: "('s, 'a) res \<Rightarrow> 's" where
  "res_state (Ok x s) = s"
| "res_state (Throw e s) = s"

fun res_for :: "('i \<Rightarrow> 's \<Rightarrow> ('s, unit) res) \<Rightarrow> 'i list \<Rightarrow> 's \<Rightarrow> ('s, unit) res" where
  "res_for f [] s = Ok () s"
| "res_for f (i # is) s = res_bind (f i s) (\<lambda>_ s'. res_for f is s')"

lemma res_bind_assoc: "res_bind (res_bind m f) g = res_bind m (\<lambda>x s. res_bind (f x s) g)"
  by (cases m) simp_all

lemma res_bind_Ok_iff:
  "res_bind m f = Ok y s' \<longleftrightarrow> (\<exists>x s. m = Ok x s \<and> f x s = Ok y s')"
  by (cases m) simp_all

lemma res_state_bind:
  "P (res_state (res_bind m f)) \<longleftrightarrow>
     (case m of Ok x s \<Rightarrow> P (res_state (f x s)) | Throw e s \<Rightarrow> P s)"
  by (cases m) simp_all

text \<open>The named coprocessor 0 registers and the bits of \<open>Status\<close>.\<close>

abbreviation cop0_Index :: "5 word" where "cop0_Index \<equiv> 0"
abbreviation cop0_Random :: "5 word" where "cop0_Random \<equiv> 1"
abbreviation cop0_EntryLo0 :: "5 word" where "cop0_EntryLo0 \<equiv> 2"
abbreviation cop0_EntryLo1 :: "5 word" where "cop0_EntryLo1 \<equiv> 3"
abbreviation cop0_Context :: "5 word" where "cop0_Context \<equiv> 4"
abbreviation cop0_PageMask :: "5 word" where "cop0_PageMask \<equiv> 5"
abbreviation cop0_BadVAddr :: "5 word" where "cop0_BadVAddr \<equiv> 8"
abbreviation cop0_Count :: "5 word" where "cop0_Count \<equiv> 9"
abbreviation cop0_EntryHi :: "5 word" where "cop0_EntryHi \<equiv> 10"
abbreviation cop0_Compare :: "5 word" where "cop0_Compare \<equiv> 11"
abbreviation cop0_Status :: "5 word" where "cop0_Status \<equiv> 12"
abbreviation cop0_Cause :: "5 word" where "cop0_Cause \<equiv> 13"
abbreviation cop0_EPC :: "5 word" where "cop0_EPC \<equiv> 14"
abbreviation cop0_PRid :: "5 word" where "cop0_PRid \<equiv> 15"
abbreviation cop0_Config :: "5 word" where "cop0_Config \<equiv> 16"
abbreviation cop0_TagLo :: "5 word" where "cop0_TagLo \<equiv> 28"
abbreviation cop0_ErrorEPC :: "5 word" where "cop0_ErrorEPC \<equiv> 30"

definition wCP0 :: "5 word \<Rightarrow> u32 \<Rightarrow> 'a cpuRegisters_scheme \<Rightarrow> 'a cpuRegisters_scheme" where
  [ee_defs]: "wCP0 r v s = s\<lparr>CP0 := (CP0 s)(r := v)\<rparr>"

definition Status_IE :: "'a cpuRegisters_scheme \<Rightarrow> bool" where "Status_IE s = bit (CP0 s cop0_Status) 0"
definition Status_EXL :: "'a cpuRegisters_scheme \<Rightarrow> bool" where "Status_EXL s = bit (CP0 s cop0_Status) 1"
definition Status_ERL :: "'a cpuRegisters_scheme \<Rightarrow> bool" where "Status_ERL s = bit (CP0 s cop0_Status) 2"
definition Status_KSU :: "'a cpuRegisters_scheme \<Rightarrow> nat" where
  "Status_KSU s = unat (drop_bit 3 (CP0 s cop0_Status) AND 3)"
definition Status_EIE :: "'a cpuRegisters_scheme \<Rightarrow> bool" where "Status_EIE s = bit (CP0 s cop0_Status) 16"
definition Status_EDI :: "'a cpuRegisters_scheme \<Rightarrow> bool" where "Status_EDI s = bit (CP0 s cop0_Status) 17"
definition Status_BEV :: "'a cpuRegisters_scheme \<Rightarrow> bool" where "Status_BEV s = bit (CP0 s cop0_Status) 22"
definition Status_DEV :: "'a cpuRegisters_scheme \<Rightarrow> bool" where "Status_DEV s = bit (CP0 s cop0_Status) 23"

lemmas Status_bits = Status_IE_def Status_EXL_def Status_ERL_def Status_KSU_def Status_EIE_def
  Status_EDI_def Status_BEV_def Status_DEV_def

text \<open>
  \<open>cpuException\<close>: the part of the function after the offset of the vector is known, then
  the function.  \<open>errLevel2\<close> only selects log messages.
\<close>

definition cpuException_enter :: "u32 \<Rightarrow> bool \<Rightarrow> u32 \<Rightarrow> 'a cpuRegisters_scheme \<Rightarrow> 'a cpuRegisters_scheme" where
  "cpuException_enter bd checkStatus offset s =
     (let s1 = (if \<not> Status_EXL s
                then (let s0 = wCP0 cop0_Status (set_bit 1 (CP0 s cop0_Status)) s
                      in if bd \<noteq> 0
                         then wCP0 cop0_Cause (CP0 s0 cop0_Cause OR 0x80000000) (wCP0 cop0_EPC (pc s0 - 4) s0)
                         else wCP0 cop0_Cause (CP0 s0 cop0_Cause AND NOT 0x80000000) (wCP0 cop0_EPC (pc s0) s0))
                else s);
          offset' = (if \<not> Status_EXL s then offset else 0x180)
      in if checkStatus then s1\<lparr>pc := 0x80000000 + offset'\<rparr>
         else s1\<lparr>pc := 0xBFC00200 + offset'\<rparr>)"

definition cpuException :: "u32 \<Rightarrow> u32 \<Rightarrow> 'a cpuRegisters_scheme \<Rightarrow> 'a cpuRegisters_scheme" where
  "cpuException c bd s =
     (let s0 = wCP0 cop0_Cause (c AND 0xffff) (s\<lparr>branch := 0\<rparr>)
      in if \<not> Status_ERL s0
         then cpuException_enter bd (\<not> Status_BEV s0)
                (if 0x8 \<le> c AND 0x7C \<and> c AND 0x7C \<le> 0xC then 0x0
                 else if c AND 0x7C = 0x0 then 0x200
                 else 0x180) s0
         else if c AND 0x38000 \<le> 0x8000 then s0\<lparr>pc := 0xBFC00000\<rparr>
         else cpuException_enter bd (\<not> Status_DEV s0)
                (if c AND 0x38000 = 0x10000 then 0x80
                 else if c AND 0x38000 = 0x18000 then 0x100
                 else 0) s0)"

definition cpuTlbMiss :: "u32 \<Rightarrow> u32 \<Rightarrow> u32 \<Rightarrow> 'a cpuRegisters_scheme \<Rightarrow> 'a cpuRegisters_scheme" where
  "cpuTlbMiss addr bd excode s =
     (let s1 = wCP0 cop0_BadVAddr addr s;
          s2 = wCP0 cop0_Context (CP0 s1 cop0_Context AND 0xFF80000F) s1;
          s3 = wCP0 cop0_Context (CP0 s2 cop0_Context OR (drop_bit 9 addr AND 0x007FFFF0)) s2;
          s4 = wCP0 cop0_EntryHi ((addr AND 0xFFFFE000) OR (CP0 s3 cop0_EntryHi AND 0x1FFF)) s3
      in cpuException excode bd (s4\<lparr>pc := pc s4 - 4\<rparr>))"

abbreviation EXC_CODE_TLBL :: u32 where "EXC_CODE_TLBL \<equiv> 2 * 4"
abbreviation EXC_CODE_TLBS :: u32 where "EXC_CODE_TLBS \<equiv> 3 * 4"

definition cpuTlbMissR :: "u32 \<Rightarrow> u32 \<Rightarrow> 'a cpuRegisters_scheme \<Rightarrow> 'a cpuRegisters_scheme" where
  "cpuTlbMissR addr bd = cpuTlbMiss addr bd EXC_CODE_TLBL"
definition cpuTlbMissW :: "u32 \<Rightarrow> u32 \<Rightarrow> 'a cpuRegisters_scheme \<Rightarrow> 'a cpuRegisters_scheme" where
  "cpuTlbMissW addr bd = cpuTlbMiss addr bd EXC_CODE_TLBS"


section \<open>The event clock\<close>

text \<open>
  \<open>cycle\<close> and \<open>nextEventCycle\<close> are 32 bit counters that wrap; the code compares them by
  the sign of their difference.
\<close>

definition cpuSetNextEvent :: "u32 \<Rightarrow> u32 \<Rightarrow> 'a cpuRegisters_scheme \<Rightarrow> 'a cpuRegisters_scheme" where
  "cpuSetNextEvent startCycle delta s =
     (if sint (nextEventCycle s - startCycle) > sint delta
      then s\<lparr>nextEventCycle := startCycle + delta\<rparr> else s)"

definition cpuSetNextEventDelta :: "u32 \<Rightarrow> 'a cpuRegisters_scheme \<Rightarrow> 'a cpuRegisters_scheme" where
  "cpuSetNextEventDelta delta s = cpuSetNextEvent (cycle s) delta s"

definition cpuTestCycle :: "u32 \<Rightarrow> u32 \<Rightarrow> 'a cpuRegisters_scheme \<Rightarrow> bool" where
  "cpuTestCycle startCycle delta s \<longleftrightarrow> sint (cycle s - startCycle) \<ge> sint delta"

definition cpuSetEvent :: "'a cpuRegisters_scheme \<Rightarrow> 'a cpuRegisters_scheme" where
  "cpuSetEvent s = s\<lparr>nextEventCycle := cycle s\<rparr>"

definition cpuClearInt :: "nat \<Rightarrow> 'a cpuRegisters_scheme \<Rightarrow> 'a cpuRegisters_scheme" where
  "cpuClearInt i s = s\<lparr>interrupt := interrupt s AND NOT (push_bit i 1)\<rparr>"

definition cpuIntsEnabled :: "u32 \<Rightarrow> 'a cpuRegisters_scheme \<Rightarrow> bool" where
  "cpuIntsEnabled i s \<longleftrightarrow>
     (CP0 s cop0_Status AND i) \<noteq> 0 \<and> Status_EIE s \<and> Status_IE s \<and> \<not> Status_EXL s \<and> \<not> Status_ERL s"

end
