(* ===== verification/EE_ALU.thy ===== *)
theory EE_ALU
  imports EE_Regs
begin

text \<open>
  The register-only instructions of pcsx2/R5900OpcodeImpl.cpp: arithmetic, logic,
  multiplication and division, shifts, moves, traps and the shift amount register.  Each
  handler is a function on the register state; the operands come from \<open>code\<close> as in the
  source.
\<close>

unbundle bit_operations_syntax

text \<open>\<open>if (!_Rd_) return; cpuRegs.GPR.r[_Rd_].UD[0] = ...\<close>, and the same for \<open>_Rt_\<close>.\<close>

definition to_Rd :: "u64 \<Rightarrow> 'a cpuRegisters_scheme \<Rightarrow> 'a cpuRegisters_scheme" where
  [ee_defs]: "to_Rd v s = (if Rd s = 0 then s else wUD (Rd s) 0 v s)"
definition to_Rt :: "u64 \<Rightarrow> 'a cpuRegisters_scheme \<Rightarrow> 'a cpuRegisters_scheme" where
  [ee_defs]: "to_Rt v s = (if Rt s = 0 then s else wUD (Rt s) 0 v s)"
definition wHI_UD :: "nat \<Rightarrow> u64 \<Rightarrow> 'a cpuRegisters_scheme \<Rightarrow> 'a cpuRegisters_scheme" where
  [ee_defs]: "wHI_UD n v s = s\<lparr>HI := set_UD n v (HI s)\<rparr>"
definition wLO_UD :: "nat \<Rightarrow> u64 \<Rightarrow> 'a cpuRegisters_scheme \<Rightarrow> 'a cpuRegisters_scheme" where
  [ee_defs]: "wLO_UD n v s = s\<lparr>LO := set_UD n v (LO s)\<rparr>"

text \<open>The operands: the low double word and the low word of a source register.\<close>

definition rsD :: "'a cpuRegisters_scheme \<Rightarrow> u64" where "rsD s = UD (GPR s (Rs s)) 0"
definition rtD :: "'a cpuRegisters_scheme \<Rightarrow> u64" where "rtD s = UD (GPR s (Rt s)) 0"
definition rsL :: "'a cpuRegisters_scheme \<Rightarrow> u32" where "rsL s = UL (GPR s (Rs s)) 0"
definition rtL :: "'a cpuRegisters_scheme \<Rightarrow> u32" where "rtL s = UL (GPR s (Rt s)) 0"

section \<open>Arithmetic with overflow exceptions\<close>

text \<open>Both return \<open>None\<close> when they raised the exception.\<close>

definition add64_Overflow ::
  "u64 \<Rightarrow> u64 \<Rightarrow> 'a cpuRegisters_scheme \<Rightarrow> u64 option \<times> 'a cpuRegisters_scheme" where
  "add64_Overflow x y s =
     (let result = x + y
      in if (NOT (x XOR y) AND (x XOR result)) <s 0
         then (None, cpuException 0x30 (branch s) s) else (Some result, s))"

definition add32_Overflow ::
  "u32 \<Rightarrow> u32 \<Rightarrow> 'a cpuRegisters_scheme \<Rightarrow> u64 option \<times> 'a cpuRegisters_scheme" where
  "add32_Overflow x y s =
     (let result = scast x + scast y :: u64; lo = ucast result :: u32; hi = ucast (drop_bit 32 result) :: u32
      in if drop_bit 31 lo \<noteq> hi AND 1
         then (None, cpuException 0x30 (branch s) s) else (Some result, s))"

definition ADDI :: "'a cpuRegisters_scheme \<Rightarrow> 'a cpuRegisters_scheme" where
  "ADDI s = (case add32_Overflow (ucast (rsD s)) (scast (Imm s)) s of
     (None, s1) \<Rightarrow> s1 | (Some r, s1) \<Rightarrow> to_Rt r s1)"
definition ADDIU :: "'a cpuRegisters_scheme \<Rightarrow> 'a cpuRegisters_scheme" where
  "ADDIU s = to_Rt (scast (rsL s + scast (Imm s))) s"
definition DADDI :: "'a cpuRegisters_scheme \<Rightarrow> 'a cpuRegisters_scheme" where
  "DADDI s = (case add64_Overflow (rsD s) (scast (Imm s)) s of
     (None, s1) \<Rightarrow> s1 | (Some r, s1) \<Rightarrow> to_Rt r s1)"
definition DADDIU :: "'a cpuRegisters_scheme \<Rightarrow> 'a cpuRegisters_scheme" where
  "DADDIU s = to_Rt (rsD s + scast (Imm s)) s"
definition ANDI :: "'a cpuRegisters_scheme \<Rightarrow> 'a cpuRegisters_scheme" where
  "ANDI s = to_Rt (rsD s AND ucast (ImmU s)) s"
definition ORI :: "'a cpuRegisters_scheme \<Rightarrow> 'a cpuRegisters_scheme" where
  "ORI s = to_Rt (rsD s OR ucast (ImmU s)) s"
definition XORI :: "'a cpuRegisters_scheme \<Rightarrow> 'a cpuRegisters_scheme" where
  "XORI s = to_Rt (rsD s XOR ucast (ImmU s)) s"
definition SLTI :: "'a cpuRegisters_scheme \<Rightarrow> 'a cpuRegisters_scheme" where
  "SLTI s = to_Rt (if rsD s <s scast (Imm s) then 1 else 0) s"
definition SLTIU :: "'a cpuRegisters_scheme \<Rightarrow> 'a cpuRegisters_scheme" where
  "SLTIU s = to_Rt (if rsD s < scast (Imm s) then 1 else 0) s"

definition ADD :: "'a cpuRegisters_scheme \<Rightarrow> 'a cpuRegisters_scheme" where
  "ADD s = (case add32_Overflow (ucast (rsD s)) (ucast (rtD s)) s of
     (None, s1) \<Rightarrow> s1 | (Some r, s1) \<Rightarrow> to_Rd r s1)"
definition DADD :: "'a cpuRegisters_scheme \<Rightarrow> 'a cpuRegisters_scheme" where
  "DADD s = (case add64_Overflow (rsD s) (rtD s) s of
     (None, s1) \<Rightarrow> s1 | (Some r, s1) \<Rightarrow> to_Rd r s1)"
definition SUB :: "'a cpuRegisters_scheme \<Rightarrow> 'a cpuRegisters_scheme" where
  "SUB s = (case add32_Overflow (ucast (rsD s)) (ucast (- rtD s)) s of
     (None, s1) \<Rightarrow> s1 | (Some r, s1) \<Rightarrow> to_Rd r s1)"
definition DSUB :: "'a cpuRegisters_scheme \<Rightarrow> 'a cpuRegisters_scheme" where
  "DSUB s = (case add64_Overflow (rsD s) (- rtD s) s of
     (None, s1) \<Rightarrow> s1 | (Some r, s1) \<Rightarrow> to_Rd r s1)"

section \<open>Register arithmetic\<close>

definition ADDU :: "'a cpuRegisters_scheme \<Rightarrow> 'a cpuRegisters_scheme" where
  "ADDU s = to_Rd (scast (rsL s + rtL s)) s"
definition DADDU :: "'a cpuRegisters_scheme \<Rightarrow> 'a cpuRegisters_scheme" where
  "DADDU s = to_Rd (rsD s + rtD s) s"
definition SUBU :: "'a cpuRegisters_scheme \<Rightarrow> 'a cpuRegisters_scheme" where
  "SUBU s = to_Rd (scast (rsL s - rtL s)) s"
definition DSUBU :: "'a cpuRegisters_scheme \<Rightarrow> 'a cpuRegisters_scheme" where
  "DSUBU s = to_Rd (rsD s - rtD s) s"
definition op_AND :: "'a cpuRegisters_scheme \<Rightarrow> 'a cpuRegisters_scheme" where
  "op_AND s = to_Rd (rsD s AND rtD s) s"
definition op_OR :: "'a cpuRegisters_scheme \<Rightarrow> 'a cpuRegisters_scheme" where
  "op_OR s = to_Rd (rsD s OR rtD s) s"
definition op_XOR :: "'a cpuRegisters_scheme \<Rightarrow> 'a cpuRegisters_scheme" where
  "op_XOR s = to_Rd (rsD s XOR rtD s) s"
definition op_NOR :: "'a cpuRegisters_scheme \<Rightarrow> 'a cpuRegisters_scheme" where
  "op_NOR s = to_Rd (NOT (rsD s OR rtD s)) s"
definition SLT :: "'a cpuRegisters_scheme \<Rightarrow> 'a cpuRegisters_scheme" where
  "SLT s = to_Rd (if rsD s <s rtD s then 1 else 0) s"
definition SLTU :: "'a cpuRegisters_scheme \<Rightarrow> 'a cpuRegisters_scheme" where
  "SLTU s = to_Rd (if rsD s < rtD s then 1 else 0) s"

section \<open>Multiplication and division\<close>

text \<open>The C++ division of signed words truncates.\<close>

definition div_s32 :: "u32 \<Rightarrow> u32 \<Rightarrow> u32" where
  "div_s32 x y = of_int (sint x sdiv sint y)"
definition mod_s32 :: "u32 \<Rightarrow> u32 \<Rightarrow> u32" where
  "mod_s32 x y = of_int (sint x smod sint y)"

definition DIV_op :: "nat \<Rightarrow> 'a cpuRegisters_scheme \<Rightarrow> 'a cpuRegisters_scheme" where
  [ee_defs]: "DIV_op n s =
     (if rsL s = 0x80000000 \<and> rtL s = 0xffffffff
      then wHI_UD n (scast (0 :: u32)) (wLO_UD n (scast (0x80000000 :: u32)) s)
      else if rtL s \<noteq> 0
      then wHI_UD n (scast (mod_s32 (rsL s) (rtL s))) (wLO_UD n (scast (div_s32 (rsL s) (rtL s))) s)
      else wHI_UD n (scast (rsL s)) (wLO_UD n (if rsL s <s 0 then 1 else - 1) s))"

definition DIVU_op :: "nat \<Rightarrow> 'a cpuRegisters_scheme \<Rightarrow> 'a cpuRegisters_scheme" where
  [ee_defs]: "DIVU_op n s =
     (if rtL s \<noteq> 0
      then wHI_UD n (scast (rsL s mod rtL s)) (wLO_UD n (scast (rsL s div rtL s)) s)
      else wHI_UD n (scast (rsL s)) (wLO_UD n (- 1) s))"

definition MULT_res :: "nat \<Rightarrow> u64 \<Rightarrow> 'a cpuRegisters_scheme \<Rightarrow> 'a cpuRegisters_scheme" where
  [ee_defs]: "MULT_res n r s =
     (let s1 = wHI_UD n (scast (ucast (signed_drop_bit 32 r) :: u32)) (wLO_UD n (scast (ucast (r AND 0xffffffff) :: u32)) s)
      in if Rd s1 \<noteq> 0 then wUD (Rd s1) 0 (UD (LO s1) n) s1 else s1)"

definition DIV :: "'a cpuRegisters_scheme \<Rightarrow> 'a cpuRegisters_scheme" where "DIV = DIV_op 0"
definition DIVU :: "'a cpuRegisters_scheme \<Rightarrow> 'a cpuRegisters_scheme" where "DIVU = DIVU_op 0"
definition MULT :: "'a cpuRegisters_scheme \<Rightarrow> 'a cpuRegisters_scheme" where
  "MULT s = MULT_res 0 (scast (rsL s) * scast (rtL s)) s"
definition MULTU :: "'a cpuRegisters_scheme \<Rightarrow> 'a cpuRegisters_scheme" where
  "MULTU s = MULT_res 0 (ucast (rsL s) * ucast (rtL s)) s"

definition LUI :: "'a cpuRegisters_scheme \<Rightarrow> 'a cpuRegisters_scheme" where
  "LUI s = to_Rt (scast (push_bit 16 (code s))) s"
definition MFHI :: "'a cpuRegisters_scheme \<Rightarrow> 'a cpuRegisters_scheme" where
  "MFHI s = to_Rd (UD (HI s) 0) s"
definition MFLO :: "'a cpuRegisters_scheme \<Rightarrow> 'a cpuRegisters_scheme" where
  "MFLO s = to_Rd (UD (LO s) 0) s"
definition MTHI :: "'a cpuRegisters_scheme \<Rightarrow> 'a cpuRegisters_scheme" where
  "MTHI s = wHI_UD 0 (rsD s) s"
definition MTLO :: "'a cpuRegisters_scheme \<Rightarrow> 'a cpuRegisters_scheme" where
  "MTLO s = wLO_UD 0 (rsD s) s"

section \<open>Shifts\<close>

definition SRA :: "'a cpuRegisters_scheme \<Rightarrow> 'a cpuRegisters_scheme" where
  "SRA s = to_Rd (scast (signed_drop_bit (Sa s) (rtL s))) s"
definition SRL :: "'a cpuRegisters_scheme \<Rightarrow> 'a cpuRegisters_scheme" where
  "SRL s = to_Rd (scast (drop_bit (Sa s) (rtL s))) s"
definition SLL :: "'a cpuRegisters_scheme \<Rightarrow> 'a cpuRegisters_scheme" where
  "SLL s = to_Rd (scast (push_bit (Sa s) (rtL s))) s"
definition DSLL :: "'a cpuRegisters_scheme \<Rightarrow> 'a cpuRegisters_scheme" where
  "DSLL s = to_Rd (push_bit (Sa s) (rtD s)) s"
definition DSLL32 :: "'a cpuRegisters_scheme \<Rightarrow> 'a cpuRegisters_scheme" where
  "DSLL32 s = to_Rd (push_bit (Sa s + 32) (rtD s)) s"
definition DSRA :: "'a cpuRegisters_scheme \<Rightarrow> 'a cpuRegisters_scheme" where
  "DSRA s = to_Rd (signed_drop_bit (Sa s) (rtD s)) s"
definition DSRA32 :: "'a cpuRegisters_scheme \<Rightarrow> 'a cpuRegisters_scheme" where
  "DSRA32 s = to_Rd (signed_drop_bit (Sa s + 32) (rtD s)) s"
definition DSRL :: "'a cpuRegisters_scheme \<Rightarrow> 'a cpuRegisters_scheme" where
  "DSRL s = to_Rd (drop_bit (Sa s) (rtD s)) s"
definition DSRL32 :: "'a cpuRegisters_scheme \<Rightarrow> 'a cpuRegisters_scheme" where
  "DSRL32 s = to_Rd (drop_bit (Sa s + 32) (rtD s)) s"

definition SLLV :: "'a cpuRegisters_scheme \<Rightarrow> 'a cpuRegisters_scheme" where
  "SLLV s = to_Rd (scast (push_bit (unat (rsL s AND 0x1f)) (rtL s))) s"
definition SRAV :: "'a cpuRegisters_scheme \<Rightarrow> 'a cpuRegisters_scheme" where
  "SRAV s = to_Rd (scast (signed_drop_bit (unat (rsL s AND 0x1f)) (rtL s))) s"
definition SRLV :: "'a cpuRegisters_scheme \<Rightarrow> 'a cpuRegisters_scheme" where
  "SRLV s = to_Rd (scast (drop_bit (unat (rsL s AND 0x1f)) (rtL s))) s"
definition DSLLV :: "'a cpuRegisters_scheme \<Rightarrow> 'a cpuRegisters_scheme" where
  "DSLLV s = to_Rd (push_bit (unat (rsL s AND 0x3f)) (rtD s)) s"
definition DSRAV :: "'a cpuRegisters_scheme \<Rightarrow> 'a cpuRegisters_scheme" where
  "DSRAV s = to_Rd (signed_drop_bit (unat (rsL s AND 0x3f)) (rtD s)) s"
definition DSRLV :: "'a cpuRegisters_scheme \<Rightarrow> 'a cpuRegisters_scheme" where
  "DSRLV s = to_Rd (drop_bit (unat (rsL s AND 0x3f)) (rtD s)) s"

section \<open>Moves, breaks and traps\<close>

definition MOVZ :: "'a cpuRegisters_scheme \<Rightarrow> 'a cpuRegisters_scheme" where
  "MOVZ s = (if Rd s = 0 then s else if rtD s = 0 then wUD (Rd s) 0 (rsD s) s else s)"
definition MOVN :: "'a cpuRegisters_scheme \<Rightarrow> 'a cpuRegisters_scheme" where
  "MOVN s = (if Rd s = 0 then s else if rtD s \<noteq> 0 then wUD (Rd s) 0 (rsD s) s else s)"
definition BREAK :: "'a cpuRegisters_scheme \<Rightarrow> 'a cpuRegisters_scheme" where
  "BREAK s = (let s1 = s\<lparr>pc := pc s - 4\<rparr> in cpuException 0x24 (branch s1) s1)"
definition MFSA :: "'a cpuRegisters_scheme \<Rightarrow> 'a cpuRegisters_scheme" where
  "MFSA s = to_Rd (ucast (sa s)) s"
definition MTSA :: "'a cpuRegisters_scheme \<Rightarrow> 'a cpuRegisters_scheme" where
  "MTSA s = s\<lparr>sa := ucast (rsD s)\<rparr>"
definition MTSAB :: "'a cpuRegisters_scheme \<Rightarrow> 'a cpuRegisters_scheme" where
  "MTSAB s = s\<lparr>sa := (rsL s AND 0xF) XOR (scast (Imm s) AND 0xF)\<rparr>"
definition MTSAH :: "'a cpuRegisters_scheme \<Rightarrow> 'a cpuRegisters_scheme" where
  "MTSAH s = s\<lparr>sa := push_bit 1 ((rsL s AND 0x7) XOR (scast (Imm s) AND 0x7))\<rparr>"
definition SYNC :: "'a cpuRegisters_scheme \<Rightarrow> 'a cpuRegisters_scheme" where "SYNC s = s"
definition PREF :: "'a cpuRegisters_scheme \<Rightarrow> 'a cpuRegisters_scheme" where "PREF s = s"

text \<open>The trap code is passed to \<open>trap\<close>, which does not use it.\<close>

definition trap :: "'a cpuRegisters_scheme \<Rightarrow> 'a cpuRegisters_scheme" where
  "trap s = (let s1 = s\<lparr>pc := pc s - 4\<rparr> in cpuException 0x34 (branch s1) s1)"

definition TGE :: "'a cpuRegisters_scheme \<Rightarrow> 'a cpuRegisters_scheme" where
  "TGE s = (if rtD s \<le>s rsD s then trap s else s)"
definition TGEU :: "'a cpuRegisters_scheme \<Rightarrow> 'a cpuRegisters_scheme" where
  "TGEU s = (if rsD s \<ge> rtD s then trap s else s)"
definition TLT :: "'a cpuRegisters_scheme \<Rightarrow> 'a cpuRegisters_scheme" where
  "TLT s = (if rsD s <s rtD s then trap s else s)"
definition TLTU :: "'a cpuRegisters_scheme \<Rightarrow> 'a cpuRegisters_scheme" where
  "TLTU s = (if rsD s < rtD s then trap s else s)"
definition TEQ :: "'a cpuRegisters_scheme \<Rightarrow> 'a cpuRegisters_scheme" where
  "TEQ s = (if rsD s = rtD s then trap s else s)"
definition TNE :: "'a cpuRegisters_scheme \<Rightarrow> 'a cpuRegisters_scheme" where
  "TNE s = (if rsD s \<noteq> rtD s then trap s else s)"
definition TGEI :: "'a cpuRegisters_scheme \<Rightarrow> 'a cpuRegisters_scheme" where
  "TGEI s = (if scast (Imm s) \<le>s rsD s then trap s else s)"
definition TLTI :: "'a cpuRegisters_scheme \<Rightarrow> 'a cpuRegisters_scheme" where
  "TLTI s = (if rsD s <s scast (Imm s) then trap s else s)"
definition TEQI :: "'a cpuRegisters_scheme \<Rightarrow> 'a cpuRegisters_scheme" where
  "TEQI s = (if rsD s = scast (Imm s) then trap s else s)"
definition TNEI :: "'a cpuRegisters_scheme \<Rightarrow> 'a cpuRegisters_scheme" where
  "TNEI s = (if rsD s \<noteq> scast (Imm s) then trap s else s)"
definition TGEIU :: "'a cpuRegisters_scheme \<Rightarrow> 'a cpuRegisters_scheme" where
  "TGEIU s = (if rsD s \<ge> scast (Imm s) then trap s else s)"
definition TLTIU :: "'a cpuRegisters_scheme \<Rightarrow> 'a cpuRegisters_scheme" where
  "TLTIU s = (if rsD s < scast (Imm s) then trap s else s)"

lemmas alu_imm_defs [ee_defs] = ADDI_def ADDIU_def DADDI_def DADDIU_def ANDI_def ORI_def XORI_def
  SLTI_def SLTIU_def LUI_def
lemmas alu_reg_defs [ee_defs] = ADD_def DADD_def SUB_def DSUB_def ADDU_def DADDU_def SUBU_def DSUBU_def
  op_AND_def op_OR_def op_XOR_def op_NOR_def SLT_def SLTU_def
lemmas alu_mul_defs [ee_defs] = DIV_def DIVU_def MULT_def MULTU_def MFHI_def MFLO_def MTHI_def MTLO_def
lemmas alu_shift_defs [ee_defs] = SRA_def SRL_def SLL_def DSLL_def DSLL32_def DSRA_def DSRA32_def
  DSRL_def DSRL32_def SLLV_def SRAV_def SRLV_def DSLLV_def DSRAV_def DSRLV_def
lemmas alu_move_defs [ee_defs] = MOVZ_def MOVN_def BREAK_def MFSA_def MTSA_def MTSAB_def MTSAH_def
  SYNC_def PREF_def trap_def
lemmas alu_trap_defs [ee_defs] = TGE_def TGEU_def TLT_def TLTU_def TEQ_def TNE_def TGEI_def TLTI_def
  TEQI_def TNEI_def TGEIU_def TLTIU_def

end
