(* ===== verification/MMI.thy ===== *)
theory MMI
  imports EE_ALU
begin

text \<open>
  The multimedia instructions of pcsx2/MMI.cpp on the 128 bit registers.  A helper of the
  source that works on one element (\<open>_PADDW\<close> and so on) is the definition with the suffix
  \<open>_lane\<close>; it reads its operands from the current state, because the destination may be
  one of the sources, and the handlers call it in the order of the source.
\<close>

unbundle bit_operations_syntax

text \<open>Elements of the operands, and stores to elements.\<close>

abbreviation rsUL :: "'a cpuRegisters_scheme \<Rightarrow> nat \<Rightarrow> u32" where "rsUL s n \<equiv> UL (GPR s (Rs s)) n"
abbreviation rtUL :: "'a cpuRegisters_scheme \<Rightarrow> nat \<Rightarrow> u32" where "rtUL s n \<equiv> UL (GPR s (Rt s)) n"
abbreviation rsUS :: "'a cpuRegisters_scheme \<Rightarrow> nat \<Rightarrow> u16" where "rsUS s n \<equiv> US (GPR s (Rs s)) n"
abbreviation rtUS :: "'a cpuRegisters_scheme \<Rightarrow> nat \<Rightarrow> u16" where "rtUS s n \<equiv> US (GPR s (Rt s)) n"
abbreviation rsUC :: "'a cpuRegisters_scheme \<Rightarrow> nat \<Rightarrow> u8" where "rsUC s n \<equiv> UC (GPR s (Rs s)) n"
abbreviation rtUC :: "'a cpuRegisters_scheme \<Rightarrow> nat \<Rightarrow> u8" where "rtUC s n \<equiv> UC (GPR s (Rt s)) n"

definition wGPR :: "reg \<Rightarrow> u128 \<Rightarrow> 'a cpuRegisters_scheme \<Rightarrow> 'a cpuRegisters_scheme" where
  [ee_defs]: "wGPR r v s = s\<lparr>GPR := (GPR s)(r := v)\<rparr>"
definition wHI_UL :: "nat \<Rightarrow> u32 \<Rightarrow> 'a cpuRegisters_scheme \<Rightarrow> 'a cpuRegisters_scheme" where
  [ee_defs]: "wHI_UL n v s = s\<lparr>HI := set_UL n v (HI s)\<rparr>"
definition wLO_UL :: "nat \<Rightarrow> u32 \<Rightarrow> 'a cpuRegisters_scheme \<Rightarrow> 'a cpuRegisters_scheme" where
  [ee_defs]: "wLO_UL n v s = s\<lparr>LO := set_UL n v (LO s)\<rparr>"

text \<open>A run of assignments to the elements 0, 1, ... of one register.\<close>

definition wUDs :: "reg \<Rightarrow> u64 list \<Rightarrow> 'a cpuRegisters_scheme \<Rightarrow> 'a cpuRegisters_scheme" where
  "wUDs r vs = fold (\<lambda>(n, v). wUD r n v) (enumerate 0 vs)"
definition wULs :: "reg \<Rightarrow> u32 list \<Rightarrow> 'a cpuRegisters_scheme \<Rightarrow> 'a cpuRegisters_scheme" where
  "wULs r vs = fold (\<lambda>(n, v). wUL r n v) (enumerate 0 vs)"
definition wUSs :: "reg \<Rightarrow> u16 list \<Rightarrow> 'a cpuRegisters_scheme \<Rightarrow> 'a cpuRegisters_scheme" where
  "wUSs r vs = fold (\<lambda>(n, v). wUS r n v) (enumerate 0 vs)"
definition wUCs :: "reg \<Rightarrow> u8 list \<Rightarrow> 'a cpuRegisters_scheme \<Rightarrow> 'a cpuRegisters_scheme" where
  "wUCs r vs = fold (\<lambda>(n, v). wUC r n v) (enumerate 0 vs)"

section \<open>Instructions of the class that work on one word\<close>

definition MADD_op :: "nat \<Rightarrow> u64 \<Rightarrow> 'a cpuRegisters_scheme \<Rightarrow> 'a cpuRegisters_scheme" where
  [ee_defs]: "MADD_op n t s = (let s1 = wHI_UD n (scast (ucast (signed_drop_bit 32 t) :: u32)) (wLO_UD n (scast (ucast (t AND 0xffffffff) :: u32)) s)
      in if Rd s1 \<noteq> 0 then wUD (Rd s1) 0 (UD (LO s1) n) s1 else s1)"

definition HILO64 :: "nat \<Rightarrow> 'a cpuRegisters_scheme \<Rightarrow> u64" where
  [ee_defs]: "HILO64 k s = ucast (UL (LO s) k) OR push_bit 32 (ucast (UL (HI s) k))"

definition MADD :: "'a cpuRegisters_scheme \<Rightarrow> 'a cpuRegisters_scheme" where
  [ee_defs]: "MADD s = MADD_op 0 (HILO64 0 s + scast (rsL s) * scast (rtL s)) s"

definition MADDU :: "'a cpuRegisters_scheme \<Rightarrow> 'a cpuRegisters_scheme" where
  [ee_defs]: "MADDU s = MADD_op 0 (HILO64 0 s + ucast (rsL s) * ucast (rtL s)) s"

definition MADD1 :: "'a cpuRegisters_scheme \<Rightarrow> 'a cpuRegisters_scheme" where
  [ee_defs]: "MADD1 s = MADD_op 1 (HILO64 2 s + scast (rsL s) * scast (rtL s)) s"

definition MADDU1 :: "'a cpuRegisters_scheme \<Rightarrow> 'a cpuRegisters_scheme" where
  [ee_defs]: "MADDU1 s = MADD_op 1 (HILO64 2 s + ucast (rsL s) * ucast (rtL s)) s"

definition MFHI1 :: "'a cpuRegisters_scheme \<Rightarrow> 'a cpuRegisters_scheme" where
  [ee_defs]: "MFHI1 s = to_Rd (UD (HI s) 1) s"

definition MFLO1 :: "'a cpuRegisters_scheme \<Rightarrow> 'a cpuRegisters_scheme" where
  [ee_defs]: "MFLO1 s = to_Rd (UD (LO s) 1) s"

definition MTHI1 :: "'a cpuRegisters_scheme \<Rightarrow> 'a cpuRegisters_scheme" where
  [ee_defs]: "MTHI1 s = wHI_UD 1 (rsD s) s"

definition MTLO1 :: "'a cpuRegisters_scheme \<Rightarrow> 'a cpuRegisters_scheme" where
  [ee_defs]: "MTLO1 s = wLO_UD 1 (rsD s) s"

definition MULT1 :: "'a cpuRegisters_scheme \<Rightarrow> 'a cpuRegisters_scheme" where
  [ee_defs]: "MULT1 s = MULT_res 1 (scast (rsL s) * scast (rtL s)) s"

definition MULTU1 :: "'a cpuRegisters_scheme \<Rightarrow> 'a cpuRegisters_scheme" where
  [ee_defs]: "MULTU1 s = MULT_res 1 (ucast (rsL s) * ucast (rtL s)) s"

definition DIV1 :: "'a cpuRegisters_scheme \<Rightarrow> 'a cpuRegisters_scheme" where
  [ee_defs]: "DIV1 = DIV_op 1"

definition DIVU1 :: "'a cpuRegisters_scheme \<Rightarrow> 'a cpuRegisters_scheme" where
  [ee_defs]: "DIVU1 = DIVU_op 1"

section \<open>MMI\<close>

text \<open>
  \<open>clz32\<close> is the compiler's \<open>__builtin_clz\<close>: the number of zero bits above the highest one
  bit of a word that is not zero.
\<close>

fun clz_from :: "nat \<Rightarrow> u32 \<Rightarrow> nat" where
  "clz_from 0 n = 0"
| "clz_from (Suc k) n = (if bit n k then 0 else Suc (clz_from k n))"

definition clz32 :: "u32 \<Rightarrow> nat" where "clz32 n = clz_from 32 n"

definition count_leading_sign_bits :: "u32 \<Rightarrow> u32" where
  "count_leading_sign_bits n0 =
     (let n = (if n0 <s 0 then NOT n0 else n0) in if n = 0 then 32 else of_nat (clz32 n))"

definition PLZCW :: "'a cpuRegisters_scheme \<Rightarrow> 'a cpuRegisters_scheme" where
  [ee_defs]: "PLZCW s = (if Rd s = 0 then s else
     (let s1 = wUL (Rd s) 0 (count_leading_sign_bits (rsUL s 0) - 1) s
      in wUL (Rd s1) 1 (count_leading_sign_bits (rsUL s1 1) - 1) s1))"

definition PMFHL_CLAMP :: "u32 \<Rightarrow> u16" where
  [ee_defs]: "PMFHL_CLAMP src =
     (if 0x7fff <s src then 0x7fff else if src <s - 0x8000 then 0x8000 else ucast src)"

definition PMFHL_SLW :: "nat \<Rightarrow> 'a cpuRegisters_scheme \<Rightarrow> u64" where
  [ee_defs]: "PMFHL_SLW k s =
     (let t = push_bit 32 (ucast (UL (HI s) k)) OR ucast (UL (LO s) k) :: u64
      in if 0x7fffffff \<le>s t then 0x7fffffff
         else if t \<le>s - 0x80000000 then 0xffffffff80000000
         else scast (UL (LO s) k))"

definition PMFHL :: "'a cpuRegisters_scheme \<Rightarrow> 'a cpuRegisters_scheme" where
  [ee_defs]: "PMFHL s = (if Rd s = 0 then s
      else if Sa s = 0 then wULs (Rd s) [UL (LO s) 0, UL (HI s) 0, UL (LO s) 2, UL (HI s) 2] s
      else if Sa s = 1 then wULs (Rd s) [UL (LO s) 1, UL (HI s) 1, UL (LO s) 3, UL (HI s) 3] s
      else if Sa s = 2 then wUDs (Rd s) [PMFHL_SLW 0 s, PMFHL_SLW 2 s] s
      else if Sa s = 3 then wUSs (Rd s) [US (LO s) 0, US (LO s) 2, US (HI s) 0, US (HI s) 2,
                                         US (LO s) 4, US (LO s) 6, US (HI s) 4, US (HI s) 6] s
      else if Sa s = 4 then wUSs (Rd s) (map PMFHL_CLAMP [UL (LO s) 0, UL (LO s) 1, UL (HI s) 0, UL (HI s) 1,
                                         UL (LO s) 2, UL (LO s) 3, UL (HI s) 2, UL (HI s) 3]) s
      else s)"

definition PMTHL :: "'a cpuRegisters_scheme \<Rightarrow> 'a cpuRegisters_scheme" where
  [ee_defs]: "PMTHL s = (if Sa s \<noteq> 0 then s
      else wHI_UL 2 (rsUL s 3) (wLO_UL 2 (rsUL s 2) (wHI_UL 0 (rsUL s 1) (wLO_UL 0 (rsUL s 0) s))))"

definition PSLLH_lane :: "nat \<Rightarrow> 'a cpuRegisters_scheme \<Rightarrow> 'a cpuRegisters_scheme" where
  [ee_defs]: "PSLLH_lane n s = wUS (Rd s) n (push_bit (unat (of_nat (Sa s) AND 0xf :: u32)) (rtUS s n)) s"

definition PSLLH :: "'a cpuRegisters_scheme \<Rightarrow> 'a cpuRegisters_scheme" where
  [ee_defs]: "PSLLH s = (if Rd s = 0 then s else fold PSLLH_lane [0, 1, 2, 3, 4, 5, 6, 7] s)"

definition PSRLH_lane :: "nat \<Rightarrow> 'a cpuRegisters_scheme \<Rightarrow> 'a cpuRegisters_scheme" where
  [ee_defs]: "PSRLH_lane n s = wUS (Rd s) n (drop_bit (unat (of_nat (Sa s) AND 0xf :: u32)) (rtUS s n)) s"

definition PSRLH :: "'a cpuRegisters_scheme \<Rightarrow> 'a cpuRegisters_scheme" where
  [ee_defs]: "PSRLH s = (if Rd s = 0 then s else fold PSRLH_lane [0, 1, 2, 3, 4, 5, 6, 7] s)"

definition PSRAH_lane :: "nat \<Rightarrow> 'a cpuRegisters_scheme \<Rightarrow> 'a cpuRegisters_scheme" where
  [ee_defs]: "PSRAH_lane n s = wUS (Rd s) n (signed_drop_bit (unat (of_nat (Sa s) AND 0xf :: u32)) (rtUS s n)) s"

definition PSRAH :: "'a cpuRegisters_scheme \<Rightarrow> 'a cpuRegisters_scheme" where
  [ee_defs]: "PSRAH s = (if Rd s = 0 then s else fold PSRAH_lane [0, 1, 2, 3, 4, 5, 6, 7] s)"

definition PSLLW_lane :: "nat \<Rightarrow> 'a cpuRegisters_scheme \<Rightarrow> 'a cpuRegisters_scheme" where
  [ee_defs]: "PSLLW_lane n s = wUL (Rd s) n (push_bit (Sa s) (rtUL s n)) s"

definition PSLLW :: "'a cpuRegisters_scheme \<Rightarrow> 'a cpuRegisters_scheme" where
  [ee_defs]: "PSLLW s = (if Rd s = 0 then s else fold PSLLW_lane [0, 1, 2, 3] s)"

definition PSRLW_lane :: "nat \<Rightarrow> 'a cpuRegisters_scheme \<Rightarrow> 'a cpuRegisters_scheme" where
  [ee_defs]: "PSRLW_lane n s = wUL (Rd s) n (drop_bit (Sa s) (rtUL s n)) s"

definition PSRLW :: "'a cpuRegisters_scheme \<Rightarrow> 'a cpuRegisters_scheme" where
  [ee_defs]: "PSRLW s = (if Rd s = 0 then s else fold PSRLW_lane [0, 1, 2, 3] s)"

definition PSRAW_lane :: "nat \<Rightarrow> 'a cpuRegisters_scheme \<Rightarrow> 'a cpuRegisters_scheme" where
  [ee_defs]: "PSRAW_lane n s = wUL (Rd s) n (signed_drop_bit (Sa s) (rtUL s n)) s"

definition PSRAW :: "'a cpuRegisters_scheme \<Rightarrow> 'a cpuRegisters_scheme" where
  [ee_defs]: "PSRAW s = (if Rd s = 0 then s else fold PSRAW_lane [0, 1, 2, 3] s)"

section \<open>MMI0\<close>

definition PADDW_lane :: "nat \<Rightarrow> 'a cpuRegisters_scheme \<Rightarrow> 'a cpuRegisters_scheme" where
  [ee_defs]: "PADDW_lane n s = wUL (Rd s) n (rsUL s n + rtUL s n) s"

definition PADDW :: "'a cpuRegisters_scheme \<Rightarrow> 'a cpuRegisters_scheme" where
  [ee_defs]: "PADDW s = (if Rd s = 0 then s else fold PADDW_lane [0, 1, 2, 3] s)"

definition PSUBW_lane :: "nat \<Rightarrow> 'a cpuRegisters_scheme \<Rightarrow> 'a cpuRegisters_scheme" where
  [ee_defs]: "PSUBW_lane n s = wUL (Rd s) n (rsUL s n - rtUL s n) s"

definition PSUBW :: "'a cpuRegisters_scheme \<Rightarrow> 'a cpuRegisters_scheme" where
  [ee_defs]: "PSUBW s = (if Rd s = 0 then s else fold PSUBW_lane [0, 1, 2, 3] s)"

definition PCGTW_lane :: "nat \<Rightarrow> 'a cpuRegisters_scheme \<Rightarrow> 'a cpuRegisters_scheme" where
  [ee_defs]: "PCGTW_lane n s = wUL (Rd s) n (if rtUL s n <s rsUL s n then 0xFFFFFFFF else 0) s"

definition PCGTW :: "'a cpuRegisters_scheme \<Rightarrow> 'a cpuRegisters_scheme" where
  [ee_defs]: "PCGTW s = (if Rd s = 0 then s else fold PCGTW_lane [0, 1, 2, 3] s)"

definition PMAXW_lane :: "nat \<Rightarrow> 'a cpuRegisters_scheme \<Rightarrow> 'a cpuRegisters_scheme" where
  [ee_defs]: "PMAXW_lane n s = wUL (Rd s) n (if rtUL s n <s rsUL s n then rsUL s n else rtUL s n) s"

definition PMAXW :: "'a cpuRegisters_scheme \<Rightarrow> 'a cpuRegisters_scheme" where
  [ee_defs]: "PMAXW s = (if Rd s = 0 then s else fold PMAXW_lane [0, 1, 2, 3] s)"

definition PADDH_lane :: "nat \<Rightarrow> 'a cpuRegisters_scheme \<Rightarrow> 'a cpuRegisters_scheme" where
  [ee_defs]: "PADDH_lane n s = wUS (Rd s) n (rsUS s n + rtUS s n) s"

definition PADDH :: "'a cpuRegisters_scheme \<Rightarrow> 'a cpuRegisters_scheme" where
  [ee_defs]: "PADDH s = (if Rd s = 0 then s else fold PADDH_lane [0, 1, 2, 3, 4, 5, 6, 7] s)"

definition PSUBH_lane :: "nat \<Rightarrow> 'a cpuRegisters_scheme \<Rightarrow> 'a cpuRegisters_scheme" where
  [ee_defs]: "PSUBH_lane n s = wUS (Rd s) n (rsUS s n - rtUS s n) s"

definition PSUBH :: "'a cpuRegisters_scheme \<Rightarrow> 'a cpuRegisters_scheme" where
  [ee_defs]: "PSUBH s = (if Rd s = 0 then s else fold PSUBH_lane [0, 1, 2, 3, 4, 5, 6, 7] s)"

definition PCGTH_lane :: "nat \<Rightarrow> 'a cpuRegisters_scheme \<Rightarrow> 'a cpuRegisters_scheme" where
  [ee_defs]: "PCGTH_lane n s = wUS (Rd s) n (if rtUS s n <s rsUS s n then 0xFFFF else 0) s"

definition PCGTH :: "'a cpuRegisters_scheme \<Rightarrow> 'a cpuRegisters_scheme" where
  [ee_defs]: "PCGTH s = (if Rd s = 0 then s else fold PCGTH_lane [0, 1, 2, 3, 4, 5, 6, 7] s)"

definition PMAXH_lane :: "nat \<Rightarrow> 'a cpuRegisters_scheme \<Rightarrow> 'a cpuRegisters_scheme" where
  [ee_defs]: "PMAXH_lane n s = wUS (Rd s) n (if rtUS s n <s rsUS s n then rsUS s n else rtUS s n) s"

definition PMAXH :: "'a cpuRegisters_scheme \<Rightarrow> 'a cpuRegisters_scheme" where
  [ee_defs]: "PMAXH s = (if Rd s = 0 then s else fold PMAXH_lane [0, 1, 2, 3, 4, 5, 6, 7] s)"

definition PADDB_lane :: "nat \<Rightarrow> 'a cpuRegisters_scheme \<Rightarrow> 'a cpuRegisters_scheme" where
  [ee_defs]: "PADDB_lane n s = wUC (Rd s) n (rsUC s n + rtUC s n) s"

definition PADDB :: "'a cpuRegisters_scheme \<Rightarrow> 'a cpuRegisters_scheme" where
  [ee_defs]: "PADDB s = (if Rd s = 0 then s else fold PADDB_lane [0..<16] s)"

definition PSUBB_lane :: "nat \<Rightarrow> 'a cpuRegisters_scheme \<Rightarrow> 'a cpuRegisters_scheme" where
  [ee_defs]: "PSUBB_lane n s = wUC (Rd s) n (rsUC s n - rtUC s n) s"

definition PSUBB :: "'a cpuRegisters_scheme \<Rightarrow> 'a cpuRegisters_scheme" where
  [ee_defs]: "PSUBB s = (if Rd s = 0 then s else fold PSUBB_lane [0..<16] s)"

definition PCGTB_lane :: "nat \<Rightarrow> 'a cpuRegisters_scheme \<Rightarrow> 'a cpuRegisters_scheme" where
  [ee_defs]: "PCGTB_lane n s = wUC (Rd s) n (if rtUC s n <s rsUC s n then 0xFF else 0) s"

definition PCGTB :: "'a cpuRegisters_scheme \<Rightarrow> 'a cpuRegisters_scheme" where
  [ee_defs]: "PCGTB s = (if Rd s = 0 then s else fold PCGTB_lane [0..<16] s)"

definition PADDSW_lane :: "nat \<Rightarrow> 'a cpuRegisters_scheme \<Rightarrow> 'a cpuRegisters_scheme" where
  [ee_defs]: "PADDSW_lane n s = wUL (Rd s) n (let t = scast (rsUL s n) + scast (rtUL s n) :: u64 in if 0x7FFFFFFF <s t then 0x7FFFFFFF else if t <s scast (0x80000000 :: u32) then 0x80000000 else ucast t) s"

definition PADDSW :: "'a cpuRegisters_scheme \<Rightarrow> 'a cpuRegisters_scheme" where
  [ee_defs]: "PADDSW s = (if Rd s = 0 then s else fold PADDSW_lane [0, 1, 2, 3] s)"

definition PSUBSW_lane :: "nat \<Rightarrow> 'a cpuRegisters_scheme \<Rightarrow> 'a cpuRegisters_scheme" where
  [ee_defs]: "PSUBSW_lane n s = wUL (Rd s) n (let t = scast (rsUL s n) - scast (rtUL s n) :: u64 in if 0x7FFFFFFF \<le>s t then 0x7FFFFFFF else if t <s scast (0x80000000 :: u32) then 0x80000000 else ucast t) s"

definition PSUBSW :: "'a cpuRegisters_scheme \<Rightarrow> 'a cpuRegisters_scheme" where
  [ee_defs]: "PSUBSW s = (if Rd s = 0 then s else fold PSUBSW_lane [0, 1, 2, 3] s)"

definition PEXTLW :: "'a cpuRegisters_scheme \<Rightarrow> 'a cpuRegisters_scheme" where
  [ee_defs]: "PEXTLW s = (if Rd s = 0 then s else
     (let x = GPR s (Rs s); y = GPR s (Rt s)
      in wULs (Rd s) [UL y 0, UL x 0, UL y 1, UL x 1] s))"

definition PPACW :: "'a cpuRegisters_scheme \<Rightarrow> 'a cpuRegisters_scheme" where
  [ee_defs]: "PPACW s = (if Rd s = 0 then s else
     (let x = GPR s (Rs s); y = GPR s (Rt s)
      in wULs (Rd s) [UL y 0, UL y 2, UL x 0, UL x 2] s))"

definition PADDSH_lane :: "nat \<Rightarrow> 'a cpuRegisters_scheme \<Rightarrow> 'a cpuRegisters_scheme" where
  [ee_defs]: "PADDSH_lane n s = wUS (Rd s) n (let t = scast (rsUS s n) + scast (rtUS s n) :: u32 in if 0x7FFF <s t then 0x7FFF else if t <s scast (0x8000 :: u16) then 0x8000 else ucast t) s"

definition PADDSH :: "'a cpuRegisters_scheme \<Rightarrow> 'a cpuRegisters_scheme" where
  [ee_defs]: "PADDSH s = (if Rd s = 0 then s else fold PADDSH_lane [0, 1, 2, 3, 4, 5, 6, 7] s)"

definition PSUBSH_lane :: "nat \<Rightarrow> 'a cpuRegisters_scheme \<Rightarrow> 'a cpuRegisters_scheme" where
  [ee_defs]: "PSUBSH_lane n s = wUS (Rd s) n (let t = scast (rsUS s n) - scast (rtUS s n) :: u32 in if 0x7FFF \<le>s t then 0x7FFF else if t <s scast (0x8000 :: u16) then 0x8000 else ucast t) s"

definition PSUBSH :: "'a cpuRegisters_scheme \<Rightarrow> 'a cpuRegisters_scheme" where
  [ee_defs]: "PSUBSH s = (if Rd s = 0 then s else fold PSUBSH_lane [0, 1, 2, 3, 4, 5, 6, 7] s)"

definition PEXTLH :: "'a cpuRegisters_scheme \<Rightarrow> 'a cpuRegisters_scheme" where
  [ee_defs]: "PEXTLH s = (if Rd s = 0 then s else
     (let x = GPR s (Rs s); y = GPR s (Rt s)
      in wUSs (Rd s) [US y 0, US x 0, US y 1, US x 1, US y 2, US x 2, US y 3, US x 3] s))"

definition PPACH :: "'a cpuRegisters_scheme \<Rightarrow> 'a cpuRegisters_scheme" where
  [ee_defs]: "PPACH s = (if Rd s = 0 then s else
     (let x = GPR s (Rs s); y = GPR s (Rt s)
      in wUSs (Rd s) [US y 0, US y 2, US y 4, US y 6, US x 0, US x 2, US x 4, US x 6] s))"

definition PADDSB_lane :: "nat \<Rightarrow> 'a cpuRegisters_scheme \<Rightarrow> 'a cpuRegisters_scheme" where
  [ee_defs]: "PADDSB_lane n s = wUC (Rd s) n (let t = scast (rsUC s n) + scast (rtUC s n) :: u16 in if 0x7F <s t then 0x7F else if t <s scast (0x80 :: u8) then 0x80 else ucast t) s"

definition PADDSB :: "'a cpuRegisters_scheme \<Rightarrow> 'a cpuRegisters_scheme" where
  [ee_defs]: "PADDSB s = (if Rd s = 0 then s else fold PADDSB_lane [0..<16] s)"

definition PSUBSB_lane :: "nat \<Rightarrow> 'a cpuRegisters_scheme \<Rightarrow> 'a cpuRegisters_scheme" where
  [ee_defs]: "PSUBSB_lane n s = wUC (Rd s) n (let t = scast (rsUC s n) - scast (rtUC s n) :: u16 in if 0x7F \<le>s t then 0x7F else if t <s scast (0x80 :: u8) then 0x80 else ucast t) s"

definition PSUBSB :: "'a cpuRegisters_scheme \<Rightarrow> 'a cpuRegisters_scheme" where
  [ee_defs]: "PSUBSB s = (if Rd s = 0 then s else fold PSUBSB_lane [0..<16] s)"

definition PEXTLB :: "'a cpuRegisters_scheme \<Rightarrow> 'a cpuRegisters_scheme" where
  [ee_defs]: "PEXTLB s = (if Rd s = 0 then s else
     (let x = GPR s (Rs s); y = GPR s (Rt s)
      in wUCs (Rd s) [UC y 0, UC x 0, UC y 1, UC x 1, UC y 2, UC x 2, UC y 3, UC x 3, UC y 4, UC x 4, UC y 5, UC x 5, UC y 6, UC x 6, UC y 7, UC x 7] s))"

definition PPACB :: "'a cpuRegisters_scheme \<Rightarrow> 'a cpuRegisters_scheme" where
  [ee_defs]: "PPACB s = (if Rd s = 0 then s else
     (let x = GPR s (Rs s); y = GPR s (Rt s)
      in wUCs (Rd s) [UC y 0, UC y 2, UC y 4, UC y 6, UC y 8, UC y 10, UC y 12, UC y 14, UC x 0, UC x 2, UC x 4, UC x 6, UC x 8, UC x 10, UC x 12, UC x 14] s))"

definition PEXT5_lane :: "nat \<Rightarrow> 'a cpuRegisters_scheme \<Rightarrow> 'a cpuRegisters_scheme" where
  [ee_defs]: "PEXT5_lane n s = wUL (Rd s) n (push_bit 3 (rtUL s n AND 0x1F) OR push_bit 6 (rtUL s n AND 0x3E0) OR push_bit 9 (rtUL s n AND 0x7C00) OR push_bit 16 (rtUL s n AND 0x8000)) s"

definition PEXT5 :: "'a cpuRegisters_scheme \<Rightarrow> 'a cpuRegisters_scheme" where
  [ee_defs]: "PEXT5 s = (if Rd s = 0 then s else fold PEXT5_lane [0, 1, 2, 3] s)"

definition PPAC5_lane :: "nat \<Rightarrow> 'a cpuRegisters_scheme \<Rightarrow> 'a cpuRegisters_scheme" where
  [ee_defs]: "PPAC5_lane n s = wUL (Rd s) n ((drop_bit 3 (rtUL s n) AND 0x1F) OR (drop_bit 6 (rtUL s n) AND 0x3E0) OR (drop_bit 9 (rtUL s n) AND 0x7C00) OR (drop_bit 16 (rtUL s n) AND 0x8000)) s"

definition PPAC5 :: "'a cpuRegisters_scheme \<Rightarrow> 'a cpuRegisters_scheme" where
  [ee_defs]: "PPAC5 s = (if Rd s = 0 then s else fold PPAC5_lane [0, 1, 2, 3] s)"

section \<open>MMI1\<close>

definition PABSW_lane :: "nat \<Rightarrow> 'a cpuRegisters_scheme \<Rightarrow> 'a cpuRegisters_scheme" where
  [ee_defs]: "PABSW_lane n s = wUL (Rd s) n (if rtUL s n = 0x80000000 then 0x7fffffff else if rtUL s n <s 0 then - rtUL s n else rtUL s n) s"

definition PABSW :: "'a cpuRegisters_scheme \<Rightarrow> 'a cpuRegisters_scheme" where
  [ee_defs]: "PABSW s = (if Rd s = 0 then s else fold PABSW_lane [0, 1, 2, 3] s)"

definition PCEQW_lane :: "nat \<Rightarrow> 'a cpuRegisters_scheme \<Rightarrow> 'a cpuRegisters_scheme" where
  [ee_defs]: "PCEQW_lane n s = wUL (Rd s) n (if rsUL s n = rtUL s n then 0xFFFFFFFF else 0) s"

definition PCEQW :: "'a cpuRegisters_scheme \<Rightarrow> 'a cpuRegisters_scheme" where
  [ee_defs]: "PCEQW s = (if Rd s = 0 then s else fold PCEQW_lane [0, 1, 2, 3] s)"

definition PMINW_lane :: "nat \<Rightarrow> 'a cpuRegisters_scheme \<Rightarrow> 'a cpuRegisters_scheme" where
  [ee_defs]: "PMINW_lane n s = wUL (Rd s) n (if rsUL s n <s rtUL s n then rsUL s n else rtUL s n) s"

definition PMINW :: "'a cpuRegisters_scheme \<Rightarrow> 'a cpuRegisters_scheme" where
  [ee_defs]: "PMINW s = (if Rd s = 0 then s else fold PMINW_lane [0, 1, 2, 3] s)"

definition PADSBH :: "'a cpuRegisters_scheme \<Rightarrow> 'a cpuRegisters_scheme" where
  [ee_defs]: "PADSBH s = (if Rd s = 0 then s else fold PADDH_lane [4, 5, 6, 7] (fold PSUBH_lane [0, 1, 2, 3] s))"

definition PABSH_lane :: "nat \<Rightarrow> 'a cpuRegisters_scheme \<Rightarrow> 'a cpuRegisters_scheme" where
  [ee_defs]: "PABSH_lane n s = wUS (Rd s) n (if rtUS s n = 0x8000 then 0x7fff else if rtUS s n <s 0 then - rtUS s n else rtUS s n) s"

definition PABSH :: "'a cpuRegisters_scheme \<Rightarrow> 'a cpuRegisters_scheme" where
  [ee_defs]: "PABSH s = (if Rd s = 0 then s else fold PABSH_lane [0, 1, 2, 3, 4, 5, 6, 7] s)"

definition PCEQH_lane :: "nat \<Rightarrow> 'a cpuRegisters_scheme \<Rightarrow> 'a cpuRegisters_scheme" where
  [ee_defs]: "PCEQH_lane n s = wUS (Rd s) n (if rsUS s n = rtUS s n then 0xFFFF else 0) s"

definition PCEQH :: "'a cpuRegisters_scheme \<Rightarrow> 'a cpuRegisters_scheme" where
  [ee_defs]: "PCEQH s = (if Rd s = 0 then s else fold PCEQH_lane [0, 1, 2, 3, 4, 5, 6, 7] s)"

definition PMINH_lane :: "nat \<Rightarrow> 'a cpuRegisters_scheme \<Rightarrow> 'a cpuRegisters_scheme" where
  [ee_defs]: "PMINH_lane n s = wUS (Rd s) n (if rsUS s n <s rtUS s n then rsUS s n else rtUS s n) s"

definition PMINH :: "'a cpuRegisters_scheme \<Rightarrow> 'a cpuRegisters_scheme" where
  [ee_defs]: "PMINH s = (if Rd s = 0 then s else fold PMINH_lane [0, 1, 2, 3, 4, 5, 6, 7] s)"

definition PCEQB_lane :: "nat \<Rightarrow> 'a cpuRegisters_scheme \<Rightarrow> 'a cpuRegisters_scheme" where
  [ee_defs]: "PCEQB_lane n s = wUC (Rd s) n (if rsUC s n = rtUC s n then 0xFF else 0) s"

definition PCEQB :: "'a cpuRegisters_scheme \<Rightarrow> 'a cpuRegisters_scheme" where
  [ee_defs]: "PCEQB s = (if Rd s = 0 then s else fold PCEQB_lane [0..<16] s)"

definition PADDUW_lane :: "nat \<Rightarrow> 'a cpuRegisters_scheme \<Rightarrow> 'a cpuRegisters_scheme" where
  [ee_defs]: "PADDUW_lane n s = wUL (Rd s) n (let t = ucast (rsUL s n) + ucast (rtUL s n) :: u64 in if 0xffffffff <s t then 0xffffffff else ucast t) s"

definition PADDUW :: "'a cpuRegisters_scheme \<Rightarrow> 'a cpuRegisters_scheme" where
  [ee_defs]: "PADDUW s = (if Rd s = 0 then s else fold PADDUW_lane [0, 1, 2, 3] s)"

definition PSUBUW_lane :: "nat \<Rightarrow> 'a cpuRegisters_scheme \<Rightarrow> 'a cpuRegisters_scheme" where
  [ee_defs]: "PSUBUW_lane n s = wUL (Rd s) n (let t = ucast (rsUL s n) - ucast (rtUL s n) :: u64 in if t \<le>s 0 then 0 else ucast t) s"

definition PSUBUW :: "'a cpuRegisters_scheme \<Rightarrow> 'a cpuRegisters_scheme" where
  [ee_defs]: "PSUBUW s = (if Rd s = 0 then s else fold PSUBUW_lane [0, 1, 2, 3] s)"

definition PEXTUW :: "'a cpuRegisters_scheme \<Rightarrow> 'a cpuRegisters_scheme" where
  [ee_defs]: "PEXTUW s = (if Rd s = 0 then s else
     (let x = GPR s (Rs s); y = GPR s (Rt s)
      in wULs (Rd s) [UL y 2, UL x 2, UL y 3, UL x 3] s))"

definition PADDUH_lane :: "nat \<Rightarrow> 'a cpuRegisters_scheme \<Rightarrow> 'a cpuRegisters_scheme" where
  [ee_defs]: "PADDUH_lane n s = wUS (Rd s) n (let t = ucast (rsUS s n) + ucast (rtUS s n) :: u32 in if 0xFFFF <s t then 0xFFFF else ucast t) s"

definition PADDUH :: "'a cpuRegisters_scheme \<Rightarrow> 'a cpuRegisters_scheme" where
  [ee_defs]: "PADDUH s = (if Rd s = 0 then s else fold PADDUH_lane [0, 1, 2, 3, 4, 5, 6, 7] s)"

definition PSUBUH_lane :: "nat \<Rightarrow> 'a cpuRegisters_scheme \<Rightarrow> 'a cpuRegisters_scheme" where
  [ee_defs]: "PSUBUH_lane n s = wUS (Rd s) n (let t = ucast (rsUS s n) - ucast (rtUS s n) :: u32 in if t \<le>s 0 then 0 else ucast t) s"

definition PSUBUH :: "'a cpuRegisters_scheme \<Rightarrow> 'a cpuRegisters_scheme" where
  [ee_defs]: "PSUBUH s = (if Rd s = 0 then s else fold PSUBUH_lane [0, 1, 2, 3, 4, 5, 6, 7] s)"

definition PEXTUH :: "'a cpuRegisters_scheme \<Rightarrow> 'a cpuRegisters_scheme" where
  [ee_defs]: "PEXTUH s = (if Rd s = 0 then s else
     (let x = GPR s (Rs s); y = GPR s (Rt s)
      in wUSs (Rd s) [US y 4, US x 4, US y 5, US x 5, US y 6, US x 6, US y 7, US x 7] s))"

definition PADDUB_lane :: "nat \<Rightarrow> 'a cpuRegisters_scheme \<Rightarrow> 'a cpuRegisters_scheme" where
  [ee_defs]: "PADDUB_lane n s = wUC (Rd s) n (let t = ucast (rsUC s n) + ucast (rtUC s n) :: u16 in if 0xFF < t then 0xFF else ucast t) s"

definition PADDUB :: "'a cpuRegisters_scheme \<Rightarrow> 'a cpuRegisters_scheme" where
  [ee_defs]: "PADDUB s = (if Rd s = 0 then s else fold PADDUB_lane [0..<16] s)"

definition PSUBUB_lane :: "nat \<Rightarrow> 'a cpuRegisters_scheme \<Rightarrow> 'a cpuRegisters_scheme" where
  [ee_defs]: "PSUBUB_lane n s = wUC (Rd s) n (let t = ucast (rsUC s n) - ucast (rtUC s n) :: u16 in if t \<le>s 0 then 0 else ucast t) s"

definition PSUBUB :: "'a cpuRegisters_scheme \<Rightarrow> 'a cpuRegisters_scheme" where
  [ee_defs]: "PSUBUB s = (if Rd s = 0 then s else fold PSUBUB_lane [0..<16] s)"

definition PEXTUB :: "'a cpuRegisters_scheme \<Rightarrow> 'a cpuRegisters_scheme" where
  [ee_defs]: "PEXTUB s = (if Rd s = 0 then s else
     (let x = GPR s (Rs s); y = GPR s (Rt s)
      in wUCs (Rd s) [UC y 8, UC x 8, UC y 9, UC x 9, UC y 10, UC x 10, UC y 11, UC x 11, UC y 12, UC x 12, UC y 13, UC x 13, UC y 14, UC x 14, UC y 15, UC x 15] s))"

text \<open>
  \<open>QFSRV\<close> builds the result in a local register.  The source's shifts are defined for
  \<open>sa\<close> below 16, which is what \<open>MTSAB\<close> and \<open>MTSAH\<close> leave there.
\<close>

definition QFSRV :: "'a cpuRegisters_scheme \<Rightarrow> 'a cpuRegisters_scheme" where
  [ee_defs]: "QFSRV s = (if Rd s = 0 then s else
     (let sa_amt = push_bit 3 (sa s)
      in if sa_amt = 0 then
           (let s1 = wUD (Rd s) 0 (UD (GPR s (Rt s)) 0) s in wUD (Rd s1) 1 (UD (GPR s1 (Rt s1)) 1) s1)
         else if sa_amt < 64 then
           (let k = unat sa_amt; x = GPR s (Rs s); y = GPR s (Rt s)
            in wGPR (Rd s) (set_UD 1 (drop_bit k (UD y 1) OR push_bit (64 - k) (UD x 0))
                 (set_UD 0 (drop_bit k (UD y 0) OR push_bit (64 - k) (UD y 1)) 0)) s)
         else
           (let k = unat (sa_amt - 64); x = GPR s (Rs s); y = GPR s (Rt s);
                d0 = drop_bit k (UD y 1); d1 = drop_bit k (UD x 0)
            in if sa_amt \<noteq> 64
               then wGPR (Rd s) (set_UD 1 (d1 OR push_bit (unat (128 - sa_amt)) (UD x 1))
                      (set_UD 0 (d0 OR push_bit (unat (128 - sa_amt)) (UD x 0)) 0)) s
               else wGPR (Rd s) (set_UD 1 d1 (set_UD 0 d0 0)) s)))"

section \<open>MMI2\<close>

text \<open>The source divides a signed 64 bit value by 4294967295, truncating.\<close>

definition div_ffffffff :: "u64 \<Rightarrow> u32" where
  "div_ffffffff x = of_int (sint x sdiv 4294967295)"

definition PMADDW_lane :: "nat \<Rightarrow> nat \<Rightarrow> 'a cpuRegisters_scheme \<Rightarrow> 'a cpuRegisters_scheme" where
  [ee_defs]: "PMADDW_lane dd ss s =
     (let t = scast (rsUL s ss) * scast (rtUL s ss) :: u64;
          t2 = t + push_bit 32 (scast (UL (HI s) ss));
          t3 = (if ss = 0 \<and> (rtUL s ss AND 0x7FFFFFFF = 0 \<or> rtUL s ss AND 0x7FFFFFFF = 0x7FFFFFFF)
                   \<and> rsUL s ss \<noteq> rtUL s ss then t2 + 0x70000000 else t2)
      in (let s1 = wHI_UD dd (scast (div_ffffffff t3)) (wLO_UD dd (scast (ucast (t AND 0xffffffff) + UL (LO s) ss)) s)
      in if Rd s1 \<noteq> 0
         then (let s2 = wUL (Rd s1) (dd * 2) (UL (LO s1) (dd * 2)) s1
               in wUL (Rd s2) (dd * 2 + 1) (UL (HI s2) (dd * 2)) s2)
         else s1))"

definition PMADDW :: "'a cpuRegisters_scheme \<Rightarrow> 'a cpuRegisters_scheme" where
  [ee_defs]: "PMADDW s = PMADDW_lane 1 2 (PMADDW_lane 0 0 s)"

definition PSLLVW :: "'a cpuRegisters_scheme \<Rightarrow> 'a cpuRegisters_scheme" where
  [ee_defs]: "PSLLVW s = (if Rd s = 0 then s else
     (let s1 = wUD (Rd s) 0 (scast (push_bit (unat (rsUL s 0 AND 0x1F)) (rtUL s 0))) s
      in wUD (Rd s1) 1 (scast (push_bit (unat (rsUL s1 2 AND 0x1F)) (rtUL s1 2))) s1))"

definition PSRLVW :: "'a cpuRegisters_scheme \<Rightarrow> 'a cpuRegisters_scheme" where
  [ee_defs]: "PSRLVW s = (if Rd s = 0 then s else
     (let s1 = wUD (Rd s) 0 (scast (drop_bit (unat (rsUL s 0 AND 0x1F)) (rtUL s 0))) s
      in wUD (Rd s1) 1 (scast (drop_bit (unat (rsUL s1 2 AND 0x1F)) (rtUL s1 2))) s1))"

definition PMSUBW_lane :: "nat \<Rightarrow> nat \<Rightarrow> 'a cpuRegisters_scheme \<Rightarrow> 'a cpuRegisters_scheme" where
  [ee_defs]: "PMSUBW_lane dd ss s =
     (let t = scast (rsUL s ss) * scast (rtUL s ss) :: u64;
          t2 = push_bit 32 (scast (UL (HI s) ss)) - t
      in (let s1 = wHI_UD dd (scast (div_ffffffff t2)) (wLO_UD dd (scast (UL (LO s) ss - ucast (t AND 0xffffffff))) s)
      in if Rd s1 \<noteq> 0
         then (let s2 = wUL (Rd s1) (dd * 2) (UL (LO s1) (dd * 2)) s1
               in wUL (Rd s2) (dd * 2 + 1) (UL (HI s2) (dd * 2)) s2)
         else s1))"

definition PMSUBW :: "'a cpuRegisters_scheme \<Rightarrow> 'a cpuRegisters_scheme" where
  [ee_defs]: "PMSUBW s = PMSUBW_lane 1 2 (PMSUBW_lane 0 0 s)"

definition PMFHI :: "'a cpuRegisters_scheme \<Rightarrow> 'a cpuRegisters_scheme" where
  [ee_defs]: "PMFHI s = (if Rd s = 0 then s else wUDs (Rd s) [UD (HI s) 0, UD (HI s) 1] s)"

definition PMFLO :: "'a cpuRegisters_scheme \<Rightarrow> 'a cpuRegisters_scheme" where
  [ee_defs]: "PMFLO s = (if Rd s = 0 then s else wUDs (Rd s) [UD (LO s) 0, UD (LO s) 1] s)"

definition PINTH :: "'a cpuRegisters_scheme \<Rightarrow> 'a cpuRegisters_scheme" where
  [ee_defs]: "PINTH s = (if Rd s = 0 then s else
     (let x = GPR s (Rs s); y = GPR s (Rt s)
      in wUSs (Rd s) [US y 0, US x 4, US y 1, US x 5, US y 2, US x 6, US y 3, US x 7] s))"

definition PMULTW_lane :: "nat \<Rightarrow> nat \<Rightarrow> 'a cpuRegisters_scheme \<Rightarrow> 'a cpuRegisters_scheme" where
  [ee_defs]: "PMULTW_lane dd ss s =
     (let t = scast (rsUL s ss) * scast (rtUL s ss) :: u64;
          s1 = wHI_UD dd (scast (ucast (signed_drop_bit 32 t) :: u32)) (wLO_UD dd (scast (ucast (t AND 0xffffffff) :: u32)) s)
      in if Rd s1 \<noteq> 0 then wUD (Rd s1) dd t s1 else s1)"

definition PMULTW :: "'a cpuRegisters_scheme \<Rightarrow> 'a cpuRegisters_scheme" where
  [ee_defs]: "PMULTW s = PMULTW_lane 1 2 (PMULTW_lane 0 0 s)"

definition PDIVW_lane :: "nat \<Rightarrow> nat \<Rightarrow> 'a cpuRegisters_scheme \<Rightarrow> 'a cpuRegisters_scheme" where
  [ee_defs]: "PDIVW_lane dd ss s =
     (if rsUL s ss = 0x80000000 \<and> rtUL s ss = 0xffffffff
      then wHI_UD dd (scast (0 :: u32)) (wLO_UD dd (scast (0x80000000 :: u32)) s)
      else if rtUL s ss \<noteq> 0
      then wHI_UD dd (scast (mod_s32 (rsUL s ss) (rtUL s ss))) (wLO_UD dd (scast (div_s32 (rsUL s ss) (rtUL s ss))) s)
      else wHI_UD dd (scast (rsUL s ss)) (wLO_UD dd (if rsUL s ss <s 0 then 1 else - 1) s))"

definition PDIVW :: "'a cpuRegisters_scheme \<Rightarrow> 'a cpuRegisters_scheme" where
  [ee_defs]: "PDIVW s = PDIVW_lane 1 2 (PDIVW_lane 0 0 s)"

definition PCPYLD :: "'a cpuRegisters_scheme \<Rightarrow> 'a cpuRegisters_scheme" where
  [ee_defs]: "PCPYLD s = (if Rd s = 0 then s else
     (let s1 = wUD (Rd s) 1 (UD (GPR s (Rs s)) 0) s in wUD (Rd s1) 0 (UD (GPR s1 (Rt s1)) 0) s1))"

text \<open>
  The product of two signed half words, and the destination the multiply instructions share.
\<close>

definition mul_s16 :: "nat \<Rightarrow> 'a cpuRegisters_scheme \<Rightarrow> u32" where
  [ee_defs]: "mul_s16 n s = scast (rsUS s n) * scast (rtUS s n)"

definition Rd_from_LOHI :: "'a cpuRegisters_scheme \<Rightarrow> 'a cpuRegisters_scheme" where
  [ee_defs]: "Rd_from_LOHI s = (if Rd s \<noteq> 0 then wULs (Rd s) [UL (LO s) 0, UL (HI s) 0, UL (LO s) 2, UL (HI s) 2] s else s)"

definition PMADDH :: "'a cpuRegisters_scheme \<Rightarrow> 'a cpuRegisters_scheme" where
  [ee_defs]: "PMADDH s =
     (let s = wLO_UL 0 (UL (LO s) 0 + mul_s16 0 s) s;
          s = wLO_UL 1 (UL (LO s) 1 + mul_s16 1 s) s;
          s = wHI_UL 0 (UL (HI s) 0 + mul_s16 2 s) s;
          s = wHI_UL 1 (UL (HI s) 1 + mul_s16 3 s) s;
          s = wLO_UL 2 (UL (LO s) 2 + mul_s16 4 s) s;
          s = wLO_UL 3 (UL (LO s) 3 + mul_s16 5 s) s;
          s = wHI_UL 2 (UL (HI s) 2 + mul_s16 6 s) s;
          s = wHI_UL 3 (UL (HI s) 3 + mul_s16 7 s) s
      in Rd_from_LOHI s)"

definition PHMADH_LO :: "nat \<Rightarrow> nat \<Rightarrow> 'a cpuRegisters_scheme \<Rightarrow> 'a cpuRegisters_scheme" where
  [ee_defs]: "PHMADH_LO dd n s =
     (let firsttemp = mul_s16 (n + 1) s; t = firsttemp + mul_s16 n s
      in wLO_UL (dd + 1) (firsttemp) (wLO_UL dd t s))"

definition PHMADH_HI :: "nat \<Rightarrow> nat \<Rightarrow> 'a cpuRegisters_scheme \<Rightarrow> 'a cpuRegisters_scheme" where
  [ee_defs]: "PHMADH_HI dd n s =
     (let firsttemp = mul_s16 (n + 1) s; t = firsttemp + mul_s16 n s
      in wHI_UL (dd + 1) (firsttemp) (wHI_UL dd t s))"

definition PHMADH :: "'a cpuRegisters_scheme \<Rightarrow> 'a cpuRegisters_scheme" where
  [ee_defs]: "PHMADH s = Rd_from_LOHI (PHMADH_HI 2 6 (PHMADH_LO 2 4 (PHMADH_HI 0 2 (PHMADH_LO 0 0 s))))"

definition PHMSBH_LO :: "nat \<Rightarrow> nat \<Rightarrow> 'a cpuRegisters_scheme \<Rightarrow> 'a cpuRegisters_scheme" where
  [ee_defs]: "PHMSBH_LO dd n s =
     (let firsttemp = mul_s16 (n + 1) s; t = firsttemp - mul_s16 n s
      in wLO_UL (dd + 1) (NOT firsttemp) (wLO_UL dd t s))"

definition PHMSBH_HI :: "nat \<Rightarrow> nat \<Rightarrow> 'a cpuRegisters_scheme \<Rightarrow> 'a cpuRegisters_scheme" where
  [ee_defs]: "PHMSBH_HI dd n s =
     (let firsttemp = mul_s16 (n + 1) s; t = firsttemp - mul_s16 n s
      in wHI_UL (dd + 1) (NOT firsttemp) (wHI_UL dd t s))"

definition PHMSBH :: "'a cpuRegisters_scheme \<Rightarrow> 'a cpuRegisters_scheme" where
  [ee_defs]: "PHMSBH s = Rd_from_LOHI (PHMSBH_HI 2 6 (PHMSBH_LO 2 4 (PHMSBH_HI 0 2 (PHMSBH_LO 0 0 s))))"

definition PAND :: "'a cpuRegisters_scheme \<Rightarrow> 'a cpuRegisters_scheme" where
  [ee_defs]: "PAND s = (if Rd s = 0 then s else
     (let s1 = wUD (Rd s) 0 (UD (GPR s (Rs s)) 0 AND UD (GPR s (Rt s)) 0) s in wUD (Rd s1) 1 (UD (GPR s1 (Rs s1)) 1 AND UD (GPR s1 (Rt s1)) 1) s1))"

definition PXOR :: "'a cpuRegisters_scheme \<Rightarrow> 'a cpuRegisters_scheme" where
  [ee_defs]: "PXOR s = (if Rd s = 0 then s else
     (let s1 = wUD (Rd s) 0 (UD (GPR s (Rs s)) 0 XOR UD (GPR s (Rt s)) 0) s in wUD (Rd s1) 1 (UD (GPR s1 (Rs s1)) 1 XOR UD (GPR s1 (Rt s1)) 1) s1))"

definition PMSUBH :: "'a cpuRegisters_scheme \<Rightarrow> 'a cpuRegisters_scheme" where
  [ee_defs]: "PMSUBH s =
     (let s = wLO_UL 0 (UL (LO s) 0 - mul_s16 0 s) s;
          s = wLO_UL 1 (UL (LO s) 1 - mul_s16 1 s) s;
          s = wHI_UL 0 (UL (HI s) 0 - mul_s16 2 s) s;
          s = wHI_UL 1 (UL (HI s) 1 - mul_s16 3 s) s;
          s = wLO_UL 2 (UL (LO s) 2 - mul_s16 4 s) s;
          s = wLO_UL 3 (UL (LO s) 3 - mul_s16 5 s) s;
          s = wHI_UL 2 (UL (HI s) 2 - mul_s16 6 s) s;
          s = wHI_UL 3 (UL (HI s) 3 - mul_s16 7 s) s
      in Rd_from_LOHI s)"

definition PEXEH :: "'a cpuRegisters_scheme \<Rightarrow> 'a cpuRegisters_scheme" where
  [ee_defs]: "PEXEH s = (if Rd s = 0 then s else
     (let y = GPR s (Rt s)
      in wUSs (Rd s) [US y 2, US y 1, US y 0, US y 3, US y 6, US y 5, US y 4, US y 7] s))"

definition PREVH :: "'a cpuRegisters_scheme \<Rightarrow> 'a cpuRegisters_scheme" where
  [ee_defs]: "PREVH s = (if Rd s = 0 then s else
     (let y = GPR s (Rt s)
      in wUSs (Rd s) [US y 3, US y 2, US y 1, US y 0, US y 7, US y 6, US y 5, US y 4] s))"

definition PMULTH :: "'a cpuRegisters_scheme \<Rightarrow> 'a cpuRegisters_scheme" where
  [ee_defs]: "PMULTH s =
     (let s = wLO_UL 0 (mul_s16 0 s) s;
          s = wLO_UL 1 (mul_s16 1 s) s;
          s = wHI_UL 0 (mul_s16 2 s) s;
          s = wHI_UL 1 (mul_s16 3 s) s;
          s = wLO_UL 2 (mul_s16 4 s) s;
          s = wLO_UL 3 (mul_s16 5 s) s;
          s = wHI_UL 2 (mul_s16 6 s) s;
          s = wHI_UL 3 (mul_s16 7 s) s
      in Rd_from_LOHI s)"

definition PDIVBW_lane :: "nat \<Rightarrow> 'a cpuRegisters_scheme \<Rightarrow> 'a cpuRegisters_scheme" where
  [ee_defs]: "PDIVBW_lane n s =
     (if rsUL s n = 0x80000000 \<and> rtUS s 0 = 0xffff
      then wHI_UL n 0 (wLO_UL n 0x80000000 s)
      else if rtUS s 0 \<noteq> 0
      then wHI_UL n (mod_s32 (rsUL s n) (scast (rtUS s 0))) (wLO_UL n (div_s32 (rsUL s n) (scast (rtUS s 0))) s)
      else wHI_UL n (rsUL s n) (wLO_UL n (if rsUL s n <s 0 then 1 else - 1) s))"

definition PDIVBW :: "'a cpuRegisters_scheme \<Rightarrow> 'a cpuRegisters_scheme" where
  [ee_defs]: "PDIVBW s = fold PDIVBW_lane [0, 1, 2, 3] s"

definition PEXEW :: "'a cpuRegisters_scheme \<Rightarrow> 'a cpuRegisters_scheme" where
  [ee_defs]: "PEXEW s = (if Rd s = 0 then s else
     (let y = GPR s (Rt s)
      in wULs (Rd s) [UL y 2, UL y 1, UL y 0, UL y 3] s))"

definition PROT3W :: "'a cpuRegisters_scheme \<Rightarrow> 'a cpuRegisters_scheme" where
  [ee_defs]: "PROT3W s = (if Rd s = 0 then s else
     (let y = GPR s (Rt s)
      in wULs (Rd s) [UL y 1, UL y 2, UL y 0, UL y 3] s))"

section \<open>MMI3\<close>

definition PMADDUW_lane :: "nat \<Rightarrow> nat \<Rightarrow> 'a cpuRegisters_scheme \<Rightarrow> 'a cpuRegisters_scheme" where
  [ee_defs]: "PMADDUW_lane dd ss s =
     (let t = HILO64 ss s + ucast (rsUL s ss) * ucast (rtUL s ss);
          s1 = wHI_UD dd (scast (ucast (drop_bit 32 t) :: u32)) (wLO_UD dd (scast (ucast (t AND 0xffffffff) :: u32)) s)
      in if Rd s1 \<noteq> 0 then wUD (Rd s1) dd t s1 else s1)"

definition PMADDUW :: "'a cpuRegisters_scheme \<Rightarrow> 'a cpuRegisters_scheme" where
  [ee_defs]: "PMADDUW s = PMADDUW_lane 1 2 (PMADDUW_lane 0 0 s)"

definition PSRAVW :: "'a cpuRegisters_scheme \<Rightarrow> 'a cpuRegisters_scheme" where
  [ee_defs]: "PSRAVW s = (if Rd s = 0 then s else
     (let s1 = wUD (Rd s) 0 (scast (signed_drop_bit (unat (rsUL s 0 AND 0x1F)) (rtUL s 0))) s
      in wUD (Rd s1) 1 (scast (signed_drop_bit (unat (rsUL s1 2 AND 0x1F)) (rtUL s1 2))) s1))"

definition PMTHI :: "'a cpuRegisters_scheme \<Rightarrow> 'a cpuRegisters_scheme" where
  [ee_defs]: "PMTHI s = wHI_UD 1 (UD (GPR s (Rs s)) 1) (wHI_UD 0 (UD (GPR s (Rs s)) 0) s)"

definition PMTLO :: "'a cpuRegisters_scheme \<Rightarrow> 'a cpuRegisters_scheme" where
  [ee_defs]: "PMTLO s = wLO_UD 1 (UD (GPR s (Rs s)) 1) (wLO_UD 0 (UD (GPR s (Rs s)) 0) s)"

definition PINTEH :: "'a cpuRegisters_scheme \<Rightarrow> 'a cpuRegisters_scheme" where
  [ee_defs]: "PINTEH s = (if Rd s = 0 then s else
     (let x = GPR s (Rs s); y = GPR s (Rt s)
      in wUSs (Rd s) [US y 0, US x 0, US y 2, US x 2, US y 4, US x 4, US y 6, US x 6] s))"

definition PMULTUW_lane :: "nat \<Rightarrow> nat \<Rightarrow> 'a cpuRegisters_scheme \<Rightarrow> 'a cpuRegisters_scheme" where
  [ee_defs]: "PMULTUW_lane dd ss s =
     (let t = ucast (rsUL s ss) * ucast (rtUL s ss) :: u64;
          s1 = wHI_UD dd (scast (ucast (drop_bit 32 t) :: u32)) (wLO_UD dd (scast (ucast (t AND 0xffffffff) :: u32)) s)
      in if Rd s1 \<noteq> 0 then wUD (Rd s1) dd t s1 else s1)"

definition PMULTUW :: "'a cpuRegisters_scheme \<Rightarrow> 'a cpuRegisters_scheme" where
  [ee_defs]: "PMULTUW s = PMULTUW_lane 1 2 (PMULTUW_lane 0 0 s)"

definition PDIVUW_lane :: "nat \<Rightarrow> nat \<Rightarrow> 'a cpuRegisters_scheme \<Rightarrow> 'a cpuRegisters_scheme" where
  [ee_defs]: "PDIVUW_lane dd ss s =
     (if rtUL s ss \<noteq> 0
      then wHI_UD dd (scast (rsUL s ss mod rtUL s ss)) (wLO_UD dd (scast (rsUL s ss div rtUL s ss)) s)
      else wHI_UD dd (scast (rsUL s ss)) (wLO_UD dd (- 1) s))"

definition PDIVUW :: "'a cpuRegisters_scheme \<Rightarrow> 'a cpuRegisters_scheme" where
  [ee_defs]: "PDIVUW s = PDIVUW_lane 1 2 (PDIVUW_lane 0 0 s)"

definition PCPYUD :: "'a cpuRegisters_scheme \<Rightarrow> 'a cpuRegisters_scheme" where
  [ee_defs]: "PCPYUD s = (if Rd s = 0 then s else
     (let s1 = wUD (Rd s) 0 (UD (GPR s (Rs s)) 1) s in wUD (Rd s1) 1 (UD (GPR s1 (Rt s1)) 1) s1))"

definition POR :: "'a cpuRegisters_scheme \<Rightarrow> 'a cpuRegisters_scheme" where
  [ee_defs]: "POR s = (if Rd s = 0 then s else
     (let s1 = wUD (Rd s) 0 (UD (GPR s (Rs s)) 0 OR UD (GPR s (Rt s)) 0) s in wUD (Rd s1) 1 (UD (GPR s1 (Rs s1)) 1 OR UD (GPR s1 (Rt s1)) 1) s1))"

definition PNOR :: "'a cpuRegisters_scheme \<Rightarrow> 'a cpuRegisters_scheme" where
  [ee_defs]: "PNOR s = (if Rd s = 0 then s else
     (let s1 = wUD (Rd s) 0 (NOT (UD (GPR s (Rs s)) 0 OR UD (GPR s (Rt s)) 0)) s in wUD (Rd s1) 1 (NOT (UD (GPR s1 (Rs s1)) 1 OR UD (GPR s1 (Rt s1)) 1)) s1))"

definition PEXCH :: "'a cpuRegisters_scheme \<Rightarrow> 'a cpuRegisters_scheme" where
  [ee_defs]: "PEXCH s = (if Rd s = 0 then s else
     (let y = GPR s (Rt s)
      in wUSs (Rd s) [US y 0, US y 2, US y 1, US y 3, US y 4, US y 6, US y 5, US y 7] s))"

definition PCPYH :: "'a cpuRegisters_scheme \<Rightarrow> 'a cpuRegisters_scheme" where
  [ee_defs]: "PCPYH s = (if Rd s = 0 then s else
     (let y = GPR s (Rt s)
      in wUSs (Rd s) [US y 0, US y 0, US y 0, US y 0, US y 4, US y 4, US y 4, US y 4] s))"

definition PEXCW :: "'a cpuRegisters_scheme \<Rightarrow> 'a cpuRegisters_scheme" where
  [ee_defs]: "PEXCW s = (if Rd s = 0 then s else
     (let y = GPR s (Rt s)
      in wULs (Rd s) [UL y 0, UL y 2, UL y 1, UL y 3] s))"

end
