(* ===== verification/VtlbMap.thy ===== *)
theory VtlbMap
  imports EE_Regs
begin

text \<open>
  The address maps of pcsx2/vtlb.h and pcsx2/vtlb.cpp: \<open>pmap\<close> takes a page of the guest's
  physical space to host memory or to a handler, \<open>vmap\<close> a page of the virtual space.  An
  entry is one host word: a pointer, or a word with the sign bit set that holds a handler
  number and a physical address.  A \<open>vmap\<close> entry is stored relative to the virtual address
  of its page, so that one addition both translates and tests it.

  The host's memory is a store of bytes at 64 bit pointers.  The fastmem area, which only
  the recompilers read, is not part of the model.
\<close>

unbundle bit_operations_syntax

section \<open>State\<close>

text \<open>An entry of the TLB (\<open>struct tlbs\<close> of R5900.h).\<close>

record tlbs =
  tlb_PageMask :: u32
  tlb_EntryHi :: u32
  tlb_EntryLo0 :: u32
  tlb_EntryLo1 :: u32
  tlb_Mask :: u32
  tlb_nMask :: u32
  tlb_G :: u32
  tlb_ASID :: u32
  tlb_VPN2 :: u32
  tlb_PFN0 :: u32
  tlb_PFN1 :: u32
  tlb_S :: u32

text \<open>
  \<open>ctags\<close> and \<open>cdata\<close> are the data cache (theory \<open>DCache\<close>); \<open>ppmap\<close> is the optional
  table of the Goemon game fix; \<open>eeMem_Main\<close> and \<open>eeMem_Scratch\<close> are host pointers to main
  memory and to the scratchpad.
\<close>

record ee_mem = cpuRegisters +
  tlb :: "tlbs list"
  vmap :: "20 word \<Rightarrow> u64"
  pmap :: "17 word \<Rightarrow> u64"
  ppmap :: "(20 word \<Rightarrow> u32) option"
  hostmem :: "u64 \<Rightarrow> u8"
  ctags :: "6 word \<Rightarrow> 1 word \<Rightarrow> u64"
  cdata :: "6 word \<Rightarrow> 1 word \<Rightarrow> 6 word \<Rightarrow> u8"
  CHECK_CACHE :: bool
  GoemonTlbHack :: bool
  eeMem_Main :: u64
  eeMem_Scratch :: u64

section \<open>Entries\<close>

abbreviation VTLB_PAGE_BITS :: nat where "VTLB_PAGE_BITS \<equiv> 12"
abbreviation VTLB_PAGE_MASK :: u32 where "VTLB_PAGE_MASK \<equiv> 4095"
abbreviation VTLB_PAGE_SIZE :: u32 where "VTLB_PAGE_SIZE \<equiv> 4096"
abbreviation VTLB_PMAP_SZ :: u32 where "VTLB_PMAP_SZ \<equiv> 0x20000000"
abbreviation POINTER_SIGN_BIT :: u64 where "POINTER_SIGN_BIT \<equiv> 0x8000000000000000"

definition vpage :: "u32 \<Rightarrow> 20 word" where
  "vpage vaddr = ucast (drop_bit VTLB_PAGE_BITS vaddr)"
definition ppage :: "u32 \<Rightarrow> 17 word" where
  "ppage paddr = ucast (drop_bit VTLB_PAGE_BITS paddr)"

definition VTLBPhysical_fromPointer :: "u64 \<Rightarrow> u64" where
  "VTLBPhysical_fromPointer ptr = ptr"
definition VTLBPhysical_fromHandler :: "u32 \<Rightarrow> u64" where
  "VTLBPhysical_fromHandler handler = ucast handler OR POINTER_SIGN_BIT"
definition VTLBPhysical_isHandler :: "u64 \<Rightarrow> bool" where
  "VTLBPhysical_isHandler v \<longleftrightarrow> v <s 0"

definition VTLBVirtual :: "u64 \<Rightarrow> u32 \<Rightarrow> u32 \<Rightarrow> u64" where
  "VTLBVirtual phys paddr vaddr =
     (if VTLBPhysical_isHandler phys then phys + ucast paddr - ucast vaddr
      else phys - ucast vaddr)"
definition VTLBVirtual_fromPointer :: "u64 \<Rightarrow> u32 \<Rightarrow> u64" where
  "VTLBVirtual_fromPointer ptr vaddr = VTLBVirtual (VTLBPhysical_fromPointer ptr) 0 vaddr"
definition isHandler :: "u64 \<Rightarrow> u32 \<Rightarrow> bool" where
  "isHandler v vaddr \<longleftrightarrow> v + ucast vaddr <s 0"
definition assumePtr :: "u64 \<Rightarrow> u32 \<Rightarrow> u64" where
  "assumePtr v vaddr = v + ucast vaddr"
definition assumeHandlerGetID :: "u64 \<Rightarrow> u8" where
  "assumeHandlerGetID v = ucast v"
definition assumeHandlerGetPAddr :: "u64 \<Rightarrow> u32 \<Rightarrow> u32" where
  "assumeHandlerGetPAddr v vaddr =
     ucast ((v + ucast vaddr - ucast (assumeHandlerGetID v)) AND NOT POINTER_SIGN_BIT)"

text \<open>The handlers \<open>vtlb_Init\<close> registers first, in this order.\<close>

definition UnmappedVirtHandler0 :: u32 where "UnmappedVirtHandler0 = 0"
definition UnmappedVirtHandler1 :: u32 where "UnmappedVirtHandler1 = 1"
definition UnmappedPhyHandler0 :: u32 where "UnmappedPhyHandler0 = 2"
definition UnmappedPhyHandler1 :: u32 where "UnmappedPhyHandler1 = 3"
definition DefaultPhyHandler :: u32 where "DefaultPhyHandler = 4"

section \<open>Mapping the physical space\<close>

text \<open>
  \<open>verify\<close> is the source's assertion.  The loops run once per page: the size is a
  verified multiple of the page sz.
\<close>

definition page_aligned :: "u32 \<Rightarrow> bool" where
  "page_aligned a \<longleftrightarrow> a AND VTLB_PAGE_MASK = 0"

definition pages_of :: "u32 \<Rightarrow> nat" where
  "pages_of sz = unat (drop_bit VTLB_PAGE_BITS sz)"

fun MapHandler_pages :: "nat \<Rightarrow> u32 \<Rightarrow> u32 \<Rightarrow> 'a ee_mem_scheme \<Rightarrow> 'a ee_mem_scheme" where
  "MapHandler_pages 0 handler start s = s"
| "MapHandler_pages (Suc n) handler start s =
     MapHandler_pages n handler (start + VTLB_PAGE_SIZE)
       (s\<lparr>pmap := (pmap s)(ppage start := VTLBPhysical_fromHandler handler)\<rparr>)"

definition vtlb_MapHandler ::
  "u32 \<Rightarrow> u32 \<Rightarrow> u32 \<Rightarrow> 'a ee_mem_scheme \<Rightarrow> ('a ee_mem_scheme, unit) res" where
  "vtlb_MapHandler handler start sz s =
     (if page_aligned start \<and> page_aligned sz \<and> 0 < sz
         \<and> start + (sz - VTLB_PAGE_SIZE) < VTLB_PMAP_SZ
      then Ok () (MapHandler_pages (if start \<le> start + (sz - VTLB_PAGE_SIZE) then pages_of sz else 0) handler start s)
      else Throw VerifyFailed s)"

text \<open>\<open>vtlb_MapBlock\<close> repeats a block of \<open>blocksize\<close> bytes of host memory over the region.\<close>

fun MapBlock_pages :: "nat \<Rightarrow> nat \<Rightarrow> nat \<Rightarrow> u64 \<Rightarrow> u32 \<Rightarrow> 'a ee_mem_scheme \<Rightarrow> 'a ee_mem_scheme" where
  "MapBlock_pages 0 i per base start s = s"
| "MapBlock_pages (Suc n) i per base start s =
     MapBlock_pages n (if Suc i = per then 0 else Suc i) per base (start + VTLB_PAGE_SIZE)
       (s\<lparr>pmap := (pmap s)(ppage start :=
            VTLBPhysical_fromPointer (base + of_nat i * 4096))\<rparr>)"

definition vtlb_MapBlock ::
  "u64 \<Rightarrow> u32 \<Rightarrow> u32 \<Rightarrow> u32 \<Rightarrow> 'a ee_mem_scheme \<Rightarrow> ('a ee_mem_scheme, unit) res" where
  "vtlb_MapBlock base start sz blocksize0 s =
     (let blocksize = (if blocksize0 = 0 then sz else blocksize0)
      in if page_aligned start \<and> page_aligned sz \<and> 0 < sz
            \<and> page_aligned blocksize \<and> 0 < blocksize \<and> sz mod blocksize = 0
            \<and> start + (sz - VTLB_PAGE_SIZE) < VTLB_PMAP_SZ
         then Ok () (MapBlock_pages (if start \<le> start + (sz - VTLB_PAGE_SIZE) then pages_of sz else 0)
                       0 (pages_of blocksize) base start s)
         else Throw VerifyFailed s)"

fun Mirror_pages :: "nat \<Rightarrow> u32 \<Rightarrow> u32 \<Rightarrow> 'a ee_mem_scheme \<Rightarrow> 'a ee_mem_scheme" where
  "Mirror_pages 0 new_region start s = s"
| "Mirror_pages (Suc n) new_region start s =
     Mirror_pages n (new_region + VTLB_PAGE_SIZE) (start + VTLB_PAGE_SIZE)
       (s\<lparr>pmap := (pmap s)(ppage start := pmap s (ppage new_region))\<rparr>)"

definition vtlb_Mirror ::
  "u32 \<Rightarrow> u32 \<Rightarrow> u32 \<Rightarrow> 'a ee_mem_scheme \<Rightarrow> ('a ee_mem_scheme, unit) res" where
  "vtlb_Mirror new_region start sz s =
     (if \<not> (page_aligned new_region \<and> page_aligned start \<and> page_aligned sz \<and> 0 < sz
             \<and> start + (sz - VTLB_PAGE_SIZE) < VTLB_PMAP_SZ)
      then Throw VerifyFailed s
      else if start + (sz - VTLB_PAGE_SIZE) < start then Ok () s
      else if unat new_region + unat sz > unat VTLB_PMAP_SZ then Throw ArrayBounds s
      else Ok () (Mirror_pages (pages_of sz) new_region start s))"

definition vtlb_GetPhyPtr :: "u32 \<Rightarrow> 'a ee_mem_scheme \<Rightarrow> u64" where
  "vtlb_GetPhyPtr paddr s =
     (if paddr \<ge> VTLB_PMAP_SZ \<or> VTLBPhysical_isHandler (pmap s (ppage paddr)) then 0
      else pmap s (ppage paddr) + ucast (paddr AND VTLB_PAGE_MASK))"

definition vtlb_V2P :: "u32 \<Rightarrow> (20 word \<Rightarrow> u32) \<Rightarrow> u32" where
  "vtlb_V2P vaddr pp = pp (vpage vaddr) OR (vaddr AND VTLB_PAGE_MASK)"

section \<open>Mapping the virtual space\<close>

definition VMap_entry :: "u32 \<Rightarrow> u32 \<Rightarrow> 'a ee_mem_scheme \<Rightarrow> u64" where
  "VMap_entry vaddr paddr s =
     (if paddr \<ge> VTLB_PMAP_SZ
      then if 0 \<le>s paddr
           then VTLBVirtual (VTLBPhysical_fromHandler UnmappedPhyHandler0) paddr vaddr
           else VTLBVirtual (VTLBPhysical_fromHandler UnmappedPhyHandler1) (paddr AND NOT 0x80000000) vaddr
      else VTLBVirtual (pmap s (ppage paddr)) paddr vaddr)"

fun VMap_pages :: "nat \<Rightarrow> u32 \<Rightarrow> u32 \<Rightarrow> 'a ee_mem_scheme \<Rightarrow> 'a ee_mem_scheme" where
  "VMap_pages 0 vaddr paddr s = s"
| "VMap_pages (Suc n) vaddr paddr s =
     (let s1 = s\<lparr>vmap := (vmap s)(vpage vaddr := VMap_entry vaddr paddr s)\<rparr>;
          s2 = (case ppmap s1 of None \<Rightarrow> s1
                | Some pp \<Rightarrow> if vaddr AND 0x80000000 = 0
                             then s1\<lparr>ppmap := Some (pp(vpage vaddr := paddr AND NOT VTLB_PAGE_MASK))\<rparr>
                             else s1)
      in VMap_pages n (vaddr + VTLB_PAGE_SIZE) (paddr + VTLB_PAGE_SIZE) s2)"

definition vtlb_VMap ::
  "u32 \<Rightarrow> u32 \<Rightarrow> u32 \<Rightarrow> 'a ee_mem_scheme \<Rightarrow> ('a ee_mem_scheme, unit) res" where
  "vtlb_VMap vaddr paddr sz s =
     (if page_aligned vaddr \<and> page_aligned paddr \<and> page_aligned sz \<and> 0 < sz
      then Ok () (VMap_pages (pages_of sz) vaddr paddr s)
      else Throw VerifyFailed s)"

fun VMapBuffer_pages :: "nat \<Rightarrow> u32 \<Rightarrow> u64 \<Rightarrow> 'a ee_mem_scheme \<Rightarrow> 'a ee_mem_scheme" where
  "VMapBuffer_pages 0 vaddr bu8 s = s"
| "VMapBuffer_pages (Suc n) vaddr bu8 s =
     VMapBuffer_pages n (vaddr + VTLB_PAGE_SIZE) (bu8 + 4096)
       (s\<lparr>vmap := (vmap s)(vpage vaddr := VTLBVirtual_fromPointer bu8 vaddr)\<rparr>)"

definition vtlb_VMapBuffer ::
  "u32 \<Rightarrow> u64 \<Rightarrow> u32 \<Rightarrow> 'a ee_mem_scheme \<Rightarrow> ('a ee_mem_scheme, unit) res" where
  "vtlb_VMapBuffer vaddr buffer sz s =
     (if page_aligned vaddr \<and> page_aligned sz \<and> 0 < sz
      then Ok () (VMapBuffer_pages (pages_of sz) vaddr buffer s)
      else Throw VerifyFailed s)"

definition VMapUnmap_entry :: "u32 \<Rightarrow> u64" where
  "VMapUnmap_entry vaddr =
     (if 0 \<le>s vaddr
      then VTLBVirtual (VTLBPhysical_fromHandler UnmappedVirtHandler0) vaddr vaddr
      else VTLBVirtual (VTLBPhysical_fromHandler UnmappedVirtHandler1) (vaddr AND NOT 0x80000000) vaddr)"

fun VMapUnmap_pages :: "nat \<Rightarrow> u32 \<Rightarrow> 'a ee_mem_scheme \<Rightarrow> 'a ee_mem_scheme" where
  "VMapUnmap_pages 0 vaddr s = s"
| "VMapUnmap_pages (Suc n) vaddr s =
     VMapUnmap_pages n (vaddr + VTLB_PAGE_SIZE)
       (s\<lparr>vmap := (vmap s)(vpage vaddr := VMapUnmap_entry vaddr)\<rparr>)"

definition vtlb_VMapUnmap ::
  "u32 \<Rightarrow> u32 \<Rightarrow> 'a ee_mem_scheme \<Rightarrow> ('a ee_mem_scheme, unit) res" where
  "vtlb_VMapUnmap vaddr sz s =
     (if page_aligned vaddr \<and> page_aligned sz \<and> 0 < sz
      then Ok () (VMapUnmap_pages (pages_of sz) vaddr s)
      else Throw VerifyFailed s)"

definition memSetPageAddr :: "u32 \<Rightarrow> u32 \<Rightarrow> 'a ee_mem_scheme \<Rightarrow> ('a ee_mem_scheme, unit) res" where
  "memSetPageAddr vaddr paddr = vtlb_VMap vaddr paddr 0x1000"

definition memClearPageAddr :: "u32 \<Rightarrow> 'a ee_mem_scheme \<Rightarrow> ('a ee_mem_scheme, unit) res" where
  "memClearPageAddr vaddr = vtlb_VMapUnmap vaddr 0x1000"

text \<open>The maps after \<open>vtlb_Init\<close>; the handlers it registers are those named above.\<close>

definition vtlb_Alloc_Ppmap :: "'a ee_mem_scheme \<Rightarrow> 'a ee_mem_scheme" where
  "vtlb_Alloc_Ppmap s =
     (case ppmap s of Some pp \<Rightarrow> s | None \<Rightarrow> s\<lparr>ppmap := Some (\<lambda>i. push_bit VTLB_PAGE_BITS (ucast i))\<rparr>)"

definition vtlb_Init :: "'a ee_mem_scheme \<Rightarrow> ('a ee_mem_scheme, unit) res" where
  "vtlb_Init s =
     res_bind (vtlb_MapHandler DefaultPhyHandler 0 VTLB_PMAP_SZ s) (\<lambda>_ s.
     res_bind (vtlb_VMapUnmap 0 0xFFFFF000 s) (\<lambda>_ s.
     res_bind (vtlb_VMapUnmap 0xFFFFF000 VTLB_PAGE_SIZE s) (\<lambda>_ s.
     Ok () (if GoemonTlbHack s then vtlb_Alloc_Ppmap s else s))))"

section \<open>What the entries mean\<close>

text \<open>
  The abstract view of both maps: an address leads to a host byte, or to a handler with a
  physical address.
\<close>

datatype target = Host u64 | Dev u8 u32

definition vtlb_translate :: "u32 \<Rightarrow> 'a ee_mem_scheme \<Rightarrow> target" where
  "vtlb_translate addr s =
     (let v = vmap s (vpage addr)
      in if isHandler v addr then Dev (assumeHandlerGetID v) (assumeHandlerGetPAddr v addr)
         else Host (assumePtr v addr))"

definition phys_target :: "u32 \<Rightarrow> 'a ee_mem_scheme \<Rightarrow> target" where
  "phys_target paddr s =
     (if paddr \<ge> 0x80000000 then Dev 3 (paddr - 0x80000000)
      else if paddr \<ge> VTLB_PMAP_SZ then Dev 2 paddr
      else if VTLBPhysical_isHandler (pmap s (ppage paddr)) then Dev (ucast (pmap s (ppage paddr))) paddr
      else Host (pmap s (ppage paddr) + ucast (paddr AND VTLB_PAGE_MASK)))"

text \<open>Entries as the constructors of \<open>VTLBPhysical\<close> make them.\<close>

definition phys_entry_ok :: "u64 \<Rightarrow> bool" where
  "phys_entry_ok v \<longleftrightarrow> (\<exists>h < 256. v = VTLBPhysical_fromHandler h) \<or> v \<le> 0x7FFFFFFFFFFFF000"

lemma page_split:
  assumes "page_aligned base" and "vpage addr = vpage base"
  shows "addr = base + (addr AND VTLB_PAGE_MASK)"
    and "(ucast addr :: u64) = ucast base + ucast (addr AND VTLB_PAGE_MASK)"
proof -
  have hi: "bit addr k = bit base k" if "12 \<le> k" for k
  proof (cases "k < 32")
    case True
    then have "bit (vpage addr) (k - 12) = bit addr k" "bit (vpage base) (k - 12) = bit base k"
      using that by (auto simp: vpage_def bit_simps)
    with assms(2) show ?thesis by simp
  qed (auto dest: bit_imp_le_length)
  have m: "VTLB_PAGE_MASK = mask 12" by (simp add: mask_eq_exp_minus_1)
  have lo: "\<not> bit base k" if "k < 12" for k
  proof -
    from assms(1) have "\<not> bit (base AND VTLB_PAGE_MASK) k" by (simp add: page_aligned_def)
    with that show ?thesis by (auto simp: m bit_simps dest: bit_imp_le_length)
  qed
  have d: "base AND (addr AND VTLB_PAGE_MASK) = 0"
    by (rule bit_word_eqI) (auto simp: m bit_simps dest: lo)
  have o: "addr = base OR (addr AND VTLB_PAGE_MASK)"
  proof (rule bit_word_eqI)
    show "bit addr k = bit (base OR (addr AND VTLB_PAGE_MASK)) k" if "k < LENGTH(32)" for k
      using hi [of k] lo [of k] that by (cases "k < 12") (auto simp: m bit_simps)
  qed
  from d o show 1: "addr = base + (addr AND VTLB_PAGE_MASK)"
    using disjunctive_add_eq_or [OF d] by simp
  have d2: "(ucast base :: u64) AND ucast (addr AND VTLB_PAGE_MASK) = 0"
    by (rule bit_word_eqI) (auto simp: m bit_simps dest: lo)
  have "(ucast addr :: u64) = ucast base OR ucast (addr AND VTLB_PAGE_MASK)"
  proof (rule bit_word_eqI)
    show "bit (ucast addr :: u64) k = bit ((ucast base :: u64) OR ucast (addr AND VTLB_PAGE_MASK)) k"
      if "k < LENGTH(64)" for k
      using hi [of k] lo [of k] that
      by (cases "k < 12") (auto simp: m bit_simps dest: bit_imp_le_length)
  qed
  then show "(ucast addr :: u64) = ucast base + ucast (addr AND VTLB_PAGE_MASK)"
    using disjunctive_add_eq_or [OF d2] by simp
qed

lemma page_offset_bound: "unat (addr AND VTLB_PAGE_MASK :: u32) < 4096"
proof -
  have "addr AND VTLB_PAGE_MASK \<le> VTLB_PAGE_MASK" by (rule word_and_le1)
  then show ?thesis by (simp add: word_le_nat_alt)
qed

lemma page_aligned_low: "page_aligned a \<Longrightarrow> k < 12 \<Longrightarrow> \<not> bit a k"
proof
  assume "page_aligned a" and k: "k < 12" and b: "bit a k"
  then have "\<not> bit (a AND mask 12) k" by (simp add: page_aligned_def mask_eq_exp_minus_1)
  with k b show False by (simp add: bit_simps)
qed

lemma page_mask_mod: "unat (a AND VTLB_PAGE_MASK :: u32) = unat a mod 4096"
proof -
  have "(a AND VTLB_PAGE_MASK) = take_bit 12 a"
    by (simp add: take_bit_eq_mask mask_eq_exp_minus_1)
  then have "unat (a AND VTLB_PAGE_MASK) = unat (take_bit 12 a)" by (rule arg_cong)
  also have "\<dots> = take_bit 12 (unat a)" by (rule unsigned_take_bit_eq)
  finally show ?thesis by (simp add: take_bit_eq_mod)
qed

lemma page_aligned_unat: "page_aligned a \<longleftrightarrow> unat a mod 4096 = 0"
  by (simp add: page_aligned_def flip: unat_eq_0 page_mask_mod)

lemma neg64_iff: "v <s (0 :: u64) \<longleftrightarrow> bit v 63"
  by (simp add: word_sless_alt flip: bit_last_iff)

lemma nonneg32_iff: "0 \<le>s (v :: u32) \<longleftrightarrow> v < 0x80000000"
proof -
  have "0 \<le>s v \<longleftrightarrow> \<not> bit v 31" by (simp add: word_sle_eq not_less [symmetric] flip: bit_last_iff)
  also have "\<dots> \<longleftrightarrow> v < 0x80000000"
  proof
    assume n: "\<not> bit v 31"
    have "v = take_bit 31 v"
    proof (rule bit_word_eqI)
      show "bit v k = bit (take_bit 31 v) k" if "k < LENGTH(32)" for k
        using that n by (cases "k = 31") (auto simp: bit_simps)
    qed
    then have "unat v < 2 ^ 31"
      by (metis unsigned_take_bit_eq take_bit_nat_less_exp)
    then show "v < 0x80000000" by (simp add: word_less_nat_alt)
  next
    assume "v < 0x80000000"
    then have "unat v < 2 ^ 31" by (simp add: word_less_nat_alt)
    then have "\<not> bit (unat v) 31" by (simp add: bit_iff_odd)
    then show "\<not> bit v 31" by (simp add: bit_unsigned_iff)
  qed
  finally show ?thesis .
qed

lemma bit_POINTER_SIGN_BIT: "bit (0x8000000000000000 :: int) k \<longleftrightarrow> k = 63"
proof -
  have "bit ((2 :: int) ^ 63) k \<longleftrightarrow> k = 63" by (simp only: bit_exp_iff) auto
  then show ?thesis by simp
qed

lemma sign_plus:
  assumes "x < (POINTER_SIGN_BIT :: u64)"
  shows "bit (POINTER_SIGN_BIT + x) 63" and "(POINTER_SIGN_BIT + x) AND NOT POINTER_SIGN_BIT = x"
proof -
  from assms have "unat x < 2 ^ 63" by (simp add: word_less_nat_alt)
  then have "\<not> bit (unat x) 63" by (simp add: bit_iff_odd)
  then have n: "\<not> bit x 63" by (simp add: bit_unsigned_iff)
  have "POINTER_SIGN_BIT AND x = 0"
    by (rule bit_word_eqI) (use n in \<open>auto simp: bit_simps bit_POINTER_SIGN_BIT\<close>)
  then have o: "POINTER_SIGN_BIT + x = POINTER_SIGN_BIT OR x" by (rule disjunctive_add_eq_or)
  show "bit (POINTER_SIGN_BIT + x) 63" unfolding o by (simp add: bit_simps bit_POINTER_SIGN_BIT)
  show "(POINTER_SIGN_BIT + x) AND NOT POINTER_SIGN_BIT = x"
    unfolding o by (rule bit_word_eqI) (use n in \<open>auto simp: bit_simps bit_POINTER_SIGN_BIT\<close>)
qed

text \<open>A handler's entry, read back at any address of its page.\<close>

lemma VTLBVirtual_handler:
  assumes h: "h < 256" and p: "page_aligned paddr" "paddr < 0x80000000"
    and base: "page_aligned base" "vpage addr = vpage base"
  defines "v \<equiv> VTLBVirtual (VTLBPhysical_fromHandler h) paddr base"
  shows "isHandler v addr"
    and "assumeHandlerGetID v = ucast h"
    and "assumeHandlerGetPAddr v addr = paddr + (addr AND VTLB_PAGE_MASK)"
proof -
  let ?off = "addr AND VTLB_PAGE_MASK"
  let ?H = "ucast h :: u64" and ?P = "ucast paddr :: u64" and ?O = "ucast ?off :: u64"
  have hb: "\<not> bit h k" if "8 \<le> k" for k
  proof -
    from h have "unat h < 2 ^ 8" by (simp add: word_less_nat_alt)
    then have "unat h < 2 ^ k" using that by (meson less_le_trans one_le_numeral power_increasing)
    then have "\<not> bit (unat h) k" by (simp add: bit_iff_odd)
    then show ?thesis by (simp add: bit_unsigned_iff)
  qed
  have "POINTER_SIGN_BIT AND ?H = 0"
    by (rule bit_word_eqI) (auto simp: bit_simps bit_POINTER_SIGN_BIT dest: bit_imp_le_length)
  then have H: "VTLBPhysical_fromHandler h = POINTER_SIGN_BIT + ?H"
    unfolding VTLBPhysical_fromHandler_def
    by (simp only: disjunctive_add_eq_or or.commute)
  have u: "unat ?H < 256" "unat ?P < 2 ^ 31" "unat ?O < 4096"
    using h p(2) page_offset_bound [of addr]
    by (simp_all add: word_less_nat_alt unat_ucast_up)
  then have uPO: "unat (?P + ?O) = unat ?P + unat ?O" by (simp add: unat_word_ariths)
  with u have uHPO: "unat (?H + (?P + ?O)) = unat ?H + unat ?P + unat ?O"
    by (simp add: unat_word_ariths)
  have "?H + (?P + ?O) < POINTER_SIGN_BIT" and PO: "?P + ?O < POINTER_SIGN_BIT"
    using u uPO uHPO by (simp_all add: word_less_nat_alt)
  note sp = sign_plus [OF this(1)] and sp' = sign_plus [OF PO]
  have hand: "VTLBPhysical_isHandler (VTLBPhysical_fromHandler h)"
    by (simp add: VTLBPhysical_isHandler_def neg64_iff VTLBPhysical_fromHandler_def bit_POINTER_SIGN_BIT bit_simps)
  then have v: "v = POINTER_SIGN_BIT + ?H + ?P - ucast base"
    by (simp add: v_def VTLBVirtual_def H)
  then have va: "v + ucast addr = POINTER_SIGN_BIT + (?H + (?P + ?O))"
    using page_split(2) [OF base] by simp
  show "isHandler v addr" unfolding isHandler_def va neg64_iff by (rule sp)
  show ID: "assumeHandlerGetID v = ucast h"
  proof -
    have *: "(ucast x :: u8) = 0" if "page_aligned x" for x :: u32
      by (rule bit_word_eqI) (use page_aligned_low [OF that] in \<open>auto simp: bit_simps\<close>)
    have "assumeHandlerGetID v = ucast (POINTER_SIGN_BIT + ?H) + ucast ?P - ucast (ucast base :: u64)"
      by (simp only: assumeHandlerGetID_def v) (simp add: ucast_add_down ucast_minus_down)
    then show ?thesis
      by (simp add: ucast_ucast_down ucast_add_down * p(1) base(1))
  qed
  have Hh: "(ucast (ucast h :: u8) :: u64) = ?H"
  proof (rule bit_word_eqI)
    show "bit (ucast (ucast h :: u8) :: u64) k = bit ?H k" if "k < LENGTH(64)" for k
      using hb [of k] that by (cases "8 \<le> k") (auto simp: bit_simps)
  qed
  have "v + ucast addr - ucast (assumeHandlerGetID v) = POINTER_SIGN_BIT + (?P + ?O)"
    unfolding ID Hh va by simp
  then have "assumeHandlerGetPAddr v addr = ucast (?P + ?O)"
    unfolding assumeHandlerGetPAddr_def by (simp only: sp')
  then show "assumeHandlerGetPAddr v addr = paddr + ?off"
    by (simp add: ucast_add_down ucast_ucast_down)
qed

lemma VTLBVirtual_pointer:
  assumes ptr: "ptr \<le> 0x7FFFFFFFFFFFF000" and base: "page_aligned base" "vpage addr = vpage base"
  shows "\<not> isHandler (VTLBVirtual ptr paddr base) addr"
    and "assumePtr (VTLBVirtual ptr paddr base) addr = ptr + ucast (addr AND VTLB_PAGE_MASK)"
proof -
  let ?O = "ucast (addr AND VTLB_PAGE_MASK) :: u64"
  from ptr have u: "unat ptr \<le> 2 ^ 63 - 4096" by (simp add: word_le_nat_alt)
  have nb: "\<not> bit x 63" if "unat x < 2 ^ 63" for x :: u64
  proof -
    from that have "\<not> bit (unat x) 63" by (simp add: bit_iff_odd)
    then show ?thesis by (simp add: bit_unsigned_iff)
  qed
  have "\<not> bit ptr 63" using u by (intro nb) simp
  then have v: "VTLBVirtual ptr paddr base = ptr - ucast base"
    by (simp add: VTLBVirtual_def VTLBPhysical_isHandler_def neg64_iff)
  then have va: "VTLBVirtual ptr paddr base + ucast addr = ptr + ?O"
    using page_split(2) [OF base] by simp
  then show "assumePtr (VTLBVirtual ptr paddr base) addr = ptr + ?O" by (simp add: assumePtr_def)
  have "unat ?O < 4096" using page_offset_bound [of addr] by (simp add: unat_ucast_up)
  with u have "unat (ptr + ?O) < 2 ^ 63" by (simp add: unat_word_ariths)
  then show "\<not> isHandler (VTLBVirtual ptr paddr base) addr"
    by (simp add: isHandler_def va neg64_iff nb)
qed


section \<open>Translation after a page is mapped\<close>

lemma vpage_offset:
  assumes "page_aligned base" and "unat off < 4096"
  shows "vpage (base + off) = vpage base" and "(base + off) AND VTLB_PAGE_MASK = off"
proof -
  have m: "VTLB_PAGE_MASK = mask 12" by (simp add: mask_eq_exp_minus_1)
  have hi: "\<not> bit off k" if "12 \<le> k" for k
  proof -
    have "unat off < 2 ^ 12" using assms(2) by simp
    also have "\<dots> \<le> 2 ^ k" using that by (rule power_increasing) simp
    finally have "\<not> bit (unat off) k" by (simp add: bit_iff_odd)
    then show ?thesis by (simp add: bit_unsigned_iff)
  qed
  have "base AND off = 0"
  proof (rule bit_word_eqI)
    show "bit (base AND off) k = bit 0 k" for k
      using hi [of k] page_aligned_low [OF assms(1), of k] by (cases "k < 12") (auto simp: bit_simps)
  qed
  then have o: "base + off = base OR off" by (rule disjunctive_add_eq_or)
  show "vpage (base + off) = vpage base"
    unfolding o vpage_def by (rule bit_word_eqI) (auto simp: bit_simps hi)
  show "(base + off) AND VTLB_PAGE_MASK = off"
    unfolding o m
  proof (rule bit_word_eqI)
    show "bit ((base OR off) AND mask 12) k = bit off k" for k
      using hi [of k] page_aligned_low [OF assms(1), of k] by (cases "k < 12") (auto simp: bit_simps)
  qed
qed

lemma ppage_offset:
  assumes "page_aligned base" and "unat off < 4096"
  shows "ppage (base + off) = ppage base"
proof -
  have "ppage x = ucast (vpage x)" for x
    by (rule bit_word_eqI) (auto simp: bit_simps ppage_def vpage_def)
  then show ?thesis by (simp add: vpage_offset(1) [OF assms])
qed

text \<open>The entry \<open>vtlb_VMap\<close> writes leads where the physical map leads.\<close>

definition entry_target :: "u64 \<Rightarrow> u32 \<Rightarrow> target" where
  "entry_target v addr =
     (if isHandler v addr then Dev (assumeHandlerGetID v) (assumeHandlerGetPAddr v addr)
      else Host (assumePtr v addr))"

lemma vtlb_translate_entry: "vtlb_translate addr s = entry_target (vmap s (vpage addr)) addr"
  by (simp add: vtlb_translate_def entry_target_def Let_def)

lemma page_aligned_minus_top:
  assumes "page_aligned paddr" and "0x80000000 \<le> paddr"
  shows "paddr AND NOT 0x80000000 = paddr - 0x80000000"
    and "page_aligned (paddr - 0x80000000)" and "paddr - 0x80000000 < 0x80000000"
proof -
  have "\<not> 0 \<le>s paddr" using assms(2) by (simp add: nonneg32_iff not_less)
  then have "bit paddr 31"
    by (simp add: word_sle_eq not_le flip: bit_last_iff)
  then show 1: "paddr AND NOT 0x80000000 = paddr - 0x80000000"
    by (rule clear_bit_minus) simp
  have ge: "0x80000000 \<le> unat paddr" using assms(2) by (simp add: word_le_nat_alt)
  have u: "unat (paddr - 0x80000000) = unat paddr - 0x80000000"
    using assms(2) by (simp add: unat_sub)
  have lt: "unat paddr < 2 ^ 32" using unat_bound [of paddr] by simp
  show "paddr - 0x80000000 < 0x80000000" using lt u by (simp add: word_less_nat_alt)
  have "2 ^ 31 mod (4096 :: nat) = 0" by simp
  then show "page_aligned (paddr - 0x80000000)"
    using assms(1) ge u unfolding page_aligned_unat by (simp add: mod_eq_0_iff_dvd)
qed

lemma page_index:
  assumes "page_aligned base" and "unat off < 4096"
  obtains q where "unat base = 4096 * q" and "q < 2 ^ 20"
    and "unat (base + off) = 4096 * q + unat off"
proof -
  from assms(1) obtain q where q: "unat base = 4096 * q"
    unfolding page_aligned_unat by auto
  have "unat base < 2 ^ 32" using unat_bound [of base] by simp
  with q have lt: "q < 2 ^ 20" by simp
  with q assms(2) have "unat (base + off) = 4096 * q + unat off"
    by (simp add: unat_word_ariths)
  with q lt show ?thesis by (rule that)
qed

lemma page_ge_iff:
  assumes "page_aligned base" and "unat off < 4096" and "page_aligned (c :: u32)"
  shows "c \<le> base + off \<longleftrightarrow> c \<le> base"
proof -
  obtain q where q: "unat base = 4096 * q" "unat (base + off) = 4096 * q + unat off"
    using page_index [OF assms(1,2)] .
  obtain d where d: "unat c = 4096 * d" using assms(3) unfolding page_aligned_unat by auto
  show ?thesis unfolding word_le_nat_alt q d using assms(2) by auto
qed

lemma phys_target_page:
  assumes "page_aligned paddr" and "unat off < 4096"
  shows "phys_target (paddr + off) s =
     (if 0x80000000 \<le> paddr then Dev 3 (paddr - 0x80000000 + off)
      else if VTLB_PMAP_SZ \<le> paddr then Dev 2 (paddr + off)
      else if VTLBPhysical_isHandler (pmap s (ppage paddr)) then Dev (ucast (pmap s (ppage paddr))) (paddr + off)
      else Host (pmap s (ppage paddr) + ucast off))"
proof -
  have "page_aligned 0x80000000" "page_aligned VTLB_PMAP_SZ" by (simp_all add: page_aligned_def)
  note ge = this [THEN page_ge_iff [OF assms]]
  show ?thesis
    by (simp add: phys_target_def ge vpage_offset(2) [OF assms] ppage_offset [OF assms])
qed

lemma handler_id:
  assumes "h < 256"
  shows "(ucast (VTLBPhysical_fromHandler h) :: u8) = ucast h"
    and "VTLBPhysical_isHandler (VTLBPhysical_fromHandler h)"
proof -
  show "(ucast (VTLBPhysical_fromHandler h) :: u8) = ucast h"
    unfolding VTLBPhysical_fromHandler_def
    by (rule bit_word_eqI) (auto simp: bit_simps bit_POINTER_SIGN_BIT)
  show "VTLBPhysical_isHandler (VTLBPhysical_fromHandler h)"
    by (simp add: VTLBPhysical_isHandler_def neg64_iff VTLBPhysical_fromHandler_def bit_POINTER_SIGN_BIT bit_simps)
qed

lemma pointer_not_handler:
  assumes "v \<le> 0x7FFFFFFFFFFFF000"
  shows "\<not> VTLBPhysical_isHandler v"
proof -
  from assms have "unat v < 2 ^ 63" by (simp add: word_le_nat_alt)
  then have "\<not> bit (unat v) 63" by (simp add: bit_iff_odd)
  then show ?thesis by (simp add: VTLBPhysical_isHandler_def neg64_iff bit_unsigned_iff)
qed

lemma VMap_entry_target:
  assumes wf: "\<forall>p. phys_entry_ok (pmap s p)"
    and al: "page_aligned vaddr" "page_aligned paddr" and off: "unat off < 4096"
  shows "entry_target (VMap_entry vaddr paddr s) (vaddr + off) = phys_target (paddr + off) s"
proof -
  note vo = vpage_offset [OF al(1) off]
  note hnd = VTLBVirtual_handler [OF _ _ _ al(1) vo(1), unfolded vo(2)]
  note ptr = VTLBVirtual_pointer [OF _ al(1) vo(1), unfolded vo(2)]
  note phys = phys_target_page [OF al(2) off]
  consider "0x80000000 \<le> paddr" | "paddr < 0x80000000" "VTLB_PMAP_SZ \<le> paddr"
    | "paddr < VTLB_PMAP_SZ" by fastforce
  then show ?thesis
  proof cases
    case 1
    then have "VTLB_PMAP_SZ \<le> paddr" by (rule order_trans [rotated]) simp
    with 1 show ?thesis
      using hnd [of UnmappedPhyHandler1, OF _ page_aligned_minus_top(2,3) [OF al(2) 1]]
      by (simp add: entry_target_def VMap_entry_def nonneg32_iff phys leD [OF 1]
          page_aligned_minus_top(1) [OF al(2) 1, simplified] UnmappedPhyHandler1_def)
  next
    case 2
    then show ?thesis
      using hnd [of UnmappedPhyHandler0, OF _ al(2)]
      by (simp add: entry_target_def VMap_entry_def nonneg32_iff phys UnmappedPhyHandler0_def)
  next
    case 3
    then have lt: "paddr < 0x80000000" by (rule less_trans) simp
    from 3 lt have nle: "\<not> VTLB_PMAP_SZ \<le> paddr" "\<not> 0x80000000 \<le> paddr"
      by (simp_all add: not_le)
    from wf have "phys_entry_ok (pmap s (ppage paddr))" by blast
    then consider h where "h < 256" "pmap s (ppage paddr) = VTLBPhysical_fromHandler h"
      | "pmap s (ppage paddr) \<le> 0x7FFFFFFFFFFFF000"
      unfolding phys_entry_ok_def by blast
    then show ?thesis
    proof cases
      case (1 h)
      with nle lt hnd [of h, OF _ al(2)] show ?thesis
        by (simp add: entry_target_def VMap_entry_def phys handler_id)
    next
      case 2
      with nle ptr [of "pmap s (ppage paddr)" paddr] show ?thesis
        by (simp add: entry_target_def VMap_entry_def phys pointer_not_handler)
    qed
  qed
qed

lemma unat_vpage: "unat (vpage a) = unat a div 4096"
proof -
  have "unat a div 4096 < 2 ^ 20" using unat_bound [of a] by (simp add: less_mult_imp_div_less)
  then show ?thesis
    by (simp only: vpage_def unsigned_ucast_eq unat_drop_bit) (simp add: take_bit_nat_eq_self)
qed

lemma page_step:
  assumes "page_aligned base"
  shows "vpage (base + of_nat k * VTLB_PAGE_SIZE) = vpage base + of_nat k"
    and "page_aligned (base + of_nat k * VTLB_PAGE_SIZE)"
proof -
  from assms obtain q where q: "unat base = 4096 * q" unfolding page_aligned_unat by auto
  have "base = of_nat (4096 * q)" by (metis q of_nat_unat ucast_id)
  then have eq: "base + of_nat k * VTLB_PAGE_SIZE = of_nat (4096 * (q + k))"
    by (simp add: algebra_simps)
  have "unat (base + of_nat k * VTLB_PAGE_SIZE) = (4096 * (q + k)) mod (4096 * 2 ^ 20)"
    unfolding eq unat_of_nat by simp
  then have u: "unat (base + of_nat k * VTLB_PAGE_SIZE) = 4096 * ((q + k) mod 2 ^ 20)"
    by (simp only: mod_mult_mult1)
  then show "page_aligned (base + of_nat k * VTLB_PAGE_SIZE)" by (simp add: page_aligned_unat)
  have "unat (vpage base) = q" by (simp add: unat_vpage q)
  then have "vpage base = of_nat q" by (metis of_nat_unat ucast_id)
  then have "vpage base + of_nat k = of_nat (q + k)" by simp
  moreover have "unat (vpage (base + of_nat k * VTLB_PAGE_SIZE)) = (q + k) mod 2 ^ 20"
    by (simp add: unat_vpage u)
  ultimately show "vpage (base + of_nat k * VTLB_PAGE_SIZE) = vpage base + of_nat k"
    by (intro word_unat_eqI) (simp only: unat_of_nat, simp)
qed

lemma VMap_pages_frame [frame_simps]:
  "pmap (VMap_pages n vaddr paddr s) = pmap s"
  "hostmem (VMap_pages n vaddr paddr s) = hostmem s"
  by (induction n vaddr paddr s rule: VMap_pages.induct) (simp_all add: Let_def split: option.split)

text \<open>The loop over the pages, as one update of the table.\<close>

lemma VMap_entry_cong: "pmap s = pmap t \<Longrightarrow> VMap_entry vaddr paddr s = VMap_entry vaddr paddr t"
  by (simp add: VMap_entry_def)

lemma vmap_VMap_pages:
  assumes "page_aligned vaddr" and "n \<le> 2 ^ 20"
  shows "vmap (VMap_pages n vaddr paddr s) p =
     (if unat (p - vpage vaddr) < n
      then VMap_entry (vaddr + of_nat (unat (p - vpage vaddr)) * VTLB_PAGE_SIZE)
             (paddr + of_nat (unat (p - vpage vaddr)) * VTLB_PAGE_SIZE) s
      else vmap s p)"
  using assms
proof (induction n arbitrary: vaddr paddr s)
  case 0
  then show ?case by simp
next
  case (Suc n)
  let ?s1 = "s\<lparr>vmap := (vmap s)(vpage vaddr := VMap_entry vaddr paddr s)\<rparr>"
  let ?s2 = "(case ppmap ?s1 of None \<Rightarrow> ?s1
                | Some pp \<Rightarrow> if vaddr AND 0x80000000 = 0
                     then ?s1\<lparr>ppmap := Some (pp(vpage vaddr := paddr AND NOT VTLB_PAGE_MASK))\<rparr>
                     else ?s1)"
  have pm: "pmap ?s2 = pmap s" and vm: "vmap ?s2 = vmap ?s1" by (simp_all split: option.split)
  have st: "vpage (vaddr + VTLB_PAGE_SIZE) = vpage vaddr + 1" "page_aligned (vaddr + VTLB_PAGE_SIZE)"
    using page_step [OF Suc.prems(1), of 1] by simp_all
  have n: "n \<le> 2 ^ 20" "n < 2 ^ 20" using Suc.prems(2) by simp_all
  have eq: "VMap_pages (Suc n) vaddr paddr s = VMap_pages n (vaddr + VTLB_PAGE_SIZE) (paddr + VTLB_PAGE_SIZE) ?s2"
    by (simp add: Let_def)
  define d where "d = p - (vpage vaddr + 1)"
  have pd: "p - vpage vaddr = d + 1" by (simp add: d_def)
  note IH = Suc.IH [OF st(2) n(1), of "paddr + VTLB_PAGE_SIZE" ?s2, unfolded st(1), folded d_def,
      unfolded VMap_entry_cong [OF pm] vm]
  show ?case
  proof (cases "p = vpage vaddr")
    case True
    then have "d = -1" by (simp add: d_def)
    then have "unat d = 2 ^ 20 - 1" by (simp add: unsigned_minus_1_eq_mask mask_eq_exp_minus_1)
    then have "\<not> unat d < n" using n by simp
    with True show ?thesis unfolding eq IH by simp
  next
    case False
    then have "d + 1 \<noteq> 0" using pd by auto
    then have "unat (d + 1) = Suc (unat d)" by (simp add: unatSuc add.commute)
    with False show ?thesis unfolding eq IH pd by (simp add: algebra_simps)
  qed
qed

text \<open>
  \<open>vtlb_VMap\<close> makes every address of the region lead where the physical map leads, and
  changes no other page.
\<close>

lemma pages_of_div: "pages_of sz = unat sz div 4096"
  by (simp only: pages_of_def unat_drop_bit) simp

lemma pages_of_bound: "pages_of sz < 2 ^ 20"
  using unat_bound [of sz] by (simp add: pages_of_div less_mult_imp_div_less)

lemma vtlb_VMap_page:
  assumes "vtlb_VMap vaddr paddr sz s = Ok () s'"
  shows "vmap s' p =
     (if unat (p - vpage vaddr) < pages_of sz
      then VMap_entry (vaddr + of_nat (unat (p - vpage vaddr)) * VTLB_PAGE_SIZE)
             (paddr + of_nat (unat (p - vpage vaddr)) * VTLB_PAGE_SIZE) s
      else vmap s p)"
proof -
  from assms have "page_aligned vaddr" "s' = VMap_pages (pages_of sz) vaddr paddr s"
    by (auto simp: vtlb_VMap_def split: if_splits)
  then show ?thesis using pages_of_bound [of sz] by (simp add: vmap_VMap_pages)
qed

lemma vtlb_VMap_translate:
  assumes run: "vtlb_VMap vaddr paddr sz s = Ok () s'"
    and wf: "\<forall>p. phys_entry_ok (pmap s p)"
    and off: "off < sz"
  shows "vtlb_translate (vaddr + off) s' = phys_target (paddr + off) s"
proof -
  from run have al: "page_aligned vaddr" "page_aligned paddr" "page_aligned sz"
    by (auto simp: vtlb_VMap_def split: if_splits)
  define k where "k = unat off div 4096"
  define lo where "lo = off AND VTLB_PAGE_MASK"
  have lo: "unat lo < 4096" by (simp add: lo_def page_offset_bound)
  have "unat off = k * 4096 + unat lo" by (simp add: k_def lo_def page_mask_mod)
  then have "off = of_nat (k * 4096 + unat lo)" by (metis of_nat_unat ucast_id)
  then have offk: "off = of_nat k * VTLB_PAGE_SIZE + lo" by simp
  from al(3) obtain m where m: "unat sz = 4096 * m" unfolding page_aligned_unat by auto
  with off have "k < m" unfolding k_def word_less_nat_alt by (intro less_mult_imp_div_less) simp
  then have "k < pages_of sz" by (simp add: pages_of_div m)
  moreover have "k < 2 ^ 20" using calculation pages_of_bound [of sz] by simp
  note st = page_step [OF al(1), of k] and stp = page_step [OF al(2), of k]
  have vp: "vpage (vaddr + off) = vpage vaddr + of_nat k"
    using vpage_offset(1) [OF st(2) lo] st(1) by (simp add: offk add.assoc)
  have uk: "unat (of_nat k :: 20 word) = k"
    using \<open>k < 2 ^ 20\<close> by (simp add: unsigned_of_nat take_bit_nat_eq_self)
  show ?thesis
    using VMap_entry_target [OF wf st(2) stp(2) lo] \<open>k < pages_of sz\<close>
    by (simp add: vtlb_translate_entry vtlb_VMap_page [OF run] vp uk) (simp add: offk add.assoc)
qed


section \<open>Entries stay well formed\<close>

lemma MapHandler_pages_ok:
  assumes "\<forall>p. phys_entry_ok (pmap s p)" and "handler < 256"
  shows "\<forall>p. phys_entry_ok (pmap (MapHandler_pages n handler start s) p)"
  using assms
proof (induction n handler start s rule: MapHandler_pages.induct)
  case (2 n handler start s)
  have "phys_entry_ok (VTLBPhysical_fromHandler handler)"
    using 2(3) by (auto simp: phys_entry_ok_def)
  with 2 show ?case by simp
qed simp

lemma MapBlock_pages_ok:
  assumes "\<forall>p. phys_entry_ok (pmap s p)" and "i < per" and "unat base + 4096 * per \<le> 2 ^ 63"
  shows "\<forall>p. phys_entry_ok (pmap (MapBlock_pages n i per base start s) p)"
  using assms
proof (induction n i per base start s rule: MapBlock_pages.induct)
  case (2 n i per base start s)
  have "unat (base + of_nat i * 4096) = unat base + i * 4096"
  proof -
    have "unat base + i * 4096 < 2 ^ 64" using 2(3,4) by simp
    then have "i * 4096 < 2 ^ 64" by simp
    with \<open>unat base + i * 4096 < 2 ^ 64\<close> show ?thesis
      by (simp add: unat_word_ariths unsigned_of_nat take_bit_nat_eq_self)
  qed
  moreover have "unat base + i * 4096 + 4096 \<le> 2 ^ 63" using 2(3,4) by linarith
  ultimately have "phys_entry_ok (base + of_nat i * 4096)"
    by (simp add: phys_entry_ok_def word_le_nat_alt)
  with 2 show ?case by (simp add: VTLBPhysical_fromPointer_def)
qed simp

lemma Mirror_pages_ok:
  "\<forall>p. phys_entry_ok (pmap s p) \<Longrightarrow> \<forall>p. phys_entry_ok (pmap (Mirror_pages n new_region start s) p)"
  by (induction n new_region start s rule: Mirror_pages.induct) simp_all

text \<open>A machine with nothing mapped: every page leads to an unmapped handler.\<close>

definition ee_mem0 :: ee_mem where
  "ee_mem0 = \<lparr>GPR = \<lambda>_. 0, HI = 0, LO = 0, CP0 = \<lambda>_. 0, sa = 0, IsDelaySlot = 0, pc = 0, code = 0,
     pccr = 0, pcr0 = 0, pcr1 = 0, eCycle = \<lambda>_. 0, sCycle = \<lambda>_. 0, cycle = 0, interrupt = 0,
     branch = 0, opmode = 0, nextEventCycle = 0, pcWriteback = 0,
     tlb = replicate 48 \<lparr>tlb_PageMask = 0, tlb_EntryHi = 0, tlb_EntryLo0 = 0, tlb_EntryLo1 = 0, tlb_Mask = 0,
       tlb_nMask = 0, tlb_G = 0, tlb_ASID = 0, tlb_VPN2 = 0, tlb_PFN0 = 0, tlb_PFN1 = 0, tlb_S = 0\<rparr>,
     vmap = \<lambda>p. VMapUnmap_entry (push_bit 12 (ucast p)),
     pmap = \<lambda>_. VTLBPhysical_fromHandler DefaultPhyHandler, ppmap = None, hostmem = \<lambda>_. 0,
     ctags = \<lambda>_ _. 0, cdata = \<lambda>_ _ _. 0, CHECK_CACHE = False, GoemonTlbHack = False,
     eeMem_Main = 0x10000000, eeMem_Scratch = 0x20000000\<rparr>"

text \<open>
  C1: after \<open>vtlb_VMap\<close> every address of the region is translated to where the physical map
  leads: to host memory, to the registered handler with the physical address, or, beyond the
  512 MB of the physical map, to the bus error handler of its half of the space.
\<close>

theorem vtlb_VMap_maps_region:
  assumes "vtlb_VMap vaddr paddr sz s = Ok () s'"
    and "\<forall>p. phys_entry_ok (pmap s p)" and "off < sz"
  shows "vtlb_translate (vaddr + off) s' = phys_target (paddr + off) s"
  using assms by (rule vtlb_VMap_translate)

definition ee_mem0_mapped :: ee_mem where
  "ee_mem0_mapped = VMap_pages 2 0x70000000 0x1000 ee_mem0"

theorem vtlb_VMap_maps_region_witness:
  "vtlb_translate (0x70000000 + 0x1004) ee_mem0_mapped = phys_target (0x1000 + 0x1004) ee_mem0"
  by (rule vtlb_VMap_maps_region [where sz = "0x2000"])
    (auto simp: vtlb_VMap_def page_aligned_def pages_of_def ee_mem0_mapped_def ee_mem0_def
      phys_entry_ok_def DefaultPhyHandler_def intro!: exI [of _ 4])

text \<open>The calls that build the physical map, as a step relation.\<close>

inductive pmap_step :: "'a ee_mem_scheme \<Rightarrow> 'a ee_mem_scheme \<Rightarrow> bool" where
  MapHandler: "vtlb_MapHandler handler start sz s = Ok () s' \<Longrightarrow> handler < 256 \<Longrightarrow> pmap_step s s'"
| MapBlock: "vtlb_MapBlock base start sz bs s = Ok () s' \<Longrightarrow>
    unat base + unat (if bs = 0 then sz else bs) \<le> 2 ^ 63 \<Longrightarrow> pmap_step s s'"
| Mirror: "vtlb_Mirror new_region start sz s = Ok () s' \<Longrightarrow> pmap_step s s'"

lemma pmap_step_ok:
  assumes "pmap_step s s'" and ok: "\<forall>p. phys_entry_ok (pmap s p)"
  shows "\<forall>p. phys_entry_ok (pmap s' p)"
  using assms(1)
proof cases
  case (MapHandler handler start sz)
  then have "s' = s \<or> (\<exists>n. s' = MapHandler_pages n handler start s)"
    by (auto simp: vtlb_MapHandler_def split: if_splits)
  with MapHandler(2) MapHandler_pages_ok [OF ok] ok show ?thesis by blast
next
  case (Mirror new_region start sz)
  then have "s' = s \<or> (\<exists>n. s' = Mirror_pages n new_region start s)"
    by (auto simp: vtlb_Mirror_def split: if_splits)
  with Mirror_pages_ok [OF ok] ok show ?thesis by blast
next
  case (MapBlock base start sz bs)
  let ?bs = "if bs = 0 then sz else bs"
  have al: "page_aligned ?bs" "0 < ?bs" and s': "s' = s \<or> (\<exists>n. s' = MapBlock_pages n 0 (pages_of ?bs) base start s)"
    using MapBlock(1) by (auto simp: vtlb_MapBlock_def Let_def split: if_splits)
  have q: "4096 * pages_of ?bs = unat ?bs"
    using al(1) unfolding page_aligned_unat pages_of_div by auto
  moreover have "0 < unat ?bs" using al(2) by (simp add: word_less_nat_alt)
  ultimately have "0 < pages_of ?bs" by (metis gr0I mult_0_right less_irrefl)
  then show ?thesis using s' MapBlock_pages_ok [OF ok, of 0 "pages_of ?bs" base] MapBlock(2) q ok by auto
qed

lemma ppage_next: "page_aligned start \<Longrightarrow> ppage (start + VTLB_PAGE_SIZE) = ppage start + 1"
proof -
  assume al: "page_aligned start"
  have pv: "ppage x = ucast (vpage x)" for x
    by (rule bit_word_eqI) (auto simp: bit_simps ppage_def vpage_def)
  show ?thesis using page_step(1) [OF al, of 1] by (simp add: pv ucast_add_down)
qed

lemma MapHandler_pages_pmap:
  assumes "page_aligned start" and "n \<le> 2 ^ 17"
  shows "pmap (MapHandler_pages n handler start s) p =
     (if unat (p - ppage start) < n then VTLBPhysical_fromHandler handler else pmap s p)"
  using assms
proof (induction n arbitrary: start s)
  case (Suc n)
  have al: "page_aligned (start + VTLB_PAGE_SIZE)" using page_step(2) [OF Suc.prems(1), of 1] by simp
  define d where "d = p - (ppage start + 1)"
  have n: "n \<le> 2 ^ 17" "n < 2 ^ 17" using Suc.prems(2) by simp_all
  note IH = Suc.IH [OF al n(1), unfolded ppage_next [OF Suc.prems(1)], folded d_def]
  show ?case
  proof (cases "p = ppage start")
    case True
    then have "d = -1" by (simp add: d_def)
    then have "unat d = 2 ^ 17 - 1" by (simp add: unsigned_minus_1_eq_mask mask_eq_exp_minus_1)
    then have "\<not> unat d < n" using n by simp
    with True show ?thesis unfolding MapHandler_pages.simps IH by simp
  next
    case False
    have pd: "p - ppage start = d + 1" by (simp add: d_def)
    with False have "d + 1 \<noteq> 0" by auto
    then have "unat (d + 1) = Suc (unat d)" by (simp add: unatSuc add.commute)
    with False show ?thesis unfolding MapHandler_pages.simps IH pd by simp
  qed
qed simp

lemma VMapUnmap_pages_frame [frame_simps]: "pmap (VMapUnmap_pages n vaddr s) = pmap s"
  by (induction n vaddr s rule: VMapUnmap_pages.induct) simp_all

lemma vtlb_VMapUnmap_pmap: "vtlb_VMapUnmap vaddr sz s = Ok () s' \<Longrightarrow> pmap s' = pmap s"
  by (auto simp: vtlb_VMapUnmap_def VMapUnmap_pages_frame split: if_splits)

lemma vtlb_Init_pmap:
  assumes "vtlb_Init s = Ok () s'"
  shows "pmap s' p = VTLBPhysical_fromHandler DefaultPhyHandler"
proof -
  from assms obtain s1 s2 s3 where
    1: "vtlb_MapHandler DefaultPhyHandler 0 VTLB_PMAP_SZ s = Ok () s1"
    and 2: "vtlb_VMapUnmap 0 0xFFFFF000 s1 = Ok () s2" "vtlb_VMapUnmap 0xFFFFF000 VTLB_PAGE_SIZE s2 = Ok () s3"
    and 3: "s' = (if GoemonTlbHack s3 then vtlb_Alloc_Ppmap s3 else s3)"
    by (auto simp: vtlb_Init_def res_bind_Ok_iff)
  have "s1 = MapHandler_pages (2 ^ 17) DefaultPhyHandler 0 s"
    using 1 by (simp add: vtlb_MapHandler_def pages_of_div split: if_splits)
  then have "pmap s1 p = VTLBPhysical_fromHandler DefaultPhyHandler"
    using MapHandler_pages_pmap [of 0 "2 ^ 17" DefaultPhyHandler s p] unat_bound [of p]
    by (simp add: page_aligned_def ppage_def)
  then show ?thesis
    using 2 [THEN vtlb_VMapUnmap_pmap] 3 by (simp add: vtlb_Alloc_Ppmap_def split: option.split)
qed

text \<open>
  C2: however the machine builds its physical map after \<open>vtlb_Init\<close>, every entry is one the
  translation accepts: a handler below 256, or a pointer that leaves room for a page below
  the sign bit.
\<close>

theorem pmap_entries_ok:
  assumes "vtlb_Init s0 = Ok () s1" and "pmap_step\<^sup>*\<^sup>* s1 s2"
  shows "phys_entry_ok (pmap s2 p)"
  using assms(2)
proof (induction arbitrary: p rule: rtranclp_induct)
  case base
  have "DefaultPhyHandler < 256" by (simp add: DefaultPhyHandler_def)
  then show ?case unfolding vtlb_Init_pmap [OF assms(1)] phys_entry_ok_def by blast
next
  case (step t u)
  then show ?case using pmap_step_ok by blast
qed

theorem pmap_entries_ok_witness:
  "\<exists>s1 s2. vtlb_Init ee_mem0 = Ok () s1 \<and> vtlb_MapBlock 0x10000000 0 0x2000 0 s1 = Ok () s2
     \<and> phys_entry_ok (pmap s2 1)"
proof -
  have "\<exists>s1. vtlb_Init ee_mem0 = Ok () s1"
    by (simp add: vtlb_Init_def vtlb_MapHandler_def vtlb_VMapUnmap_def page_aligned_def)
  then obtain s1 where 1: "vtlb_Init ee_mem0 = Ok () s1" ..
  have "\<exists>s2. vtlb_MapBlock 0x10000000 0 0x2000 0 s1 = Ok () s2"
    by (simp add: vtlb_MapBlock_def page_aligned_def)
  then obtain s2 where 2: "vtlb_MapBlock 0x10000000 0 0x2000 0 s1 = Ok () s2" ..
  have "pmap_step s1 s2" using 2 by (rule pmap_step.MapBlock) simp
  then have "phys_entry_ok (pmap s2 1)" using pmap_entries_ok [OF 1] by blast
  with 1 2 show ?thesis by blast
qed

end
