(* ===== verification/DCache.thy ===== *)
theory DCache
  imports VtlbMap
begin

text \<open>
  The data cache of pcsx2/Cache.cpp: 64 sets of two ways of 64 bytes, write-back, with a
  least-recently-filled bit per way.  A tag holds a host page address and its flags.  The
  first part is the code; the second is the specification it refines: reads and writes
  through the cache are reads and writes of one flat memory, \<open>cview\<close>.
\<close>

unbundle bit_operations_syntax

section \<open>Tags and lines\<close>

abbreviation DIRTY_FLAG :: u64 where "DIRTY_FLAG \<equiv> 0x40"
abbreviation VALID_FLAG :: u64 where "VALID_FLAG \<equiv> 0x20"
abbreviation LRF_FLAG :: u64 where "LRF_FLAG \<equiv> 0x10"
abbreviation LOCK_FLAG :: u64 where "LOCK_FLAG \<equiv> 0x8"
abbreviation ALL_FLAGS :: u64 where "ALL_FLAGS \<equiv> 0xFFF"

definition tag_flags :: "u64 \<Rightarrow> u32" where "tag_flags t = ucast (t AND ALL_FLAGS)"
definition tag_isValid :: "u64 \<Rightarrow> bool" where "tag_isValid t \<longleftrightarrow> t AND VALID_FLAG \<noteq> 0"
definition tag_isDirty :: "u64 \<Rightarrow> bool" where "tag_isDirty t \<longleftrightarrow> t AND DIRTY_FLAG \<noteq> 0"
definition tag_lrf :: "u64 \<Rightarrow> bool" where "tag_lrf t \<longleftrightarrow> t AND LRF_FLAG \<noteq> 0"
definition tag_isLocked :: "u64 \<Rightarrow> bool" where "tag_isLocked t \<longleftrightarrow> t AND LOCK_FLAG \<noteq> 0"
definition tag_isDirtyAndValid :: "u64 \<Rightarrow> bool" where
  "tag_isDirtyAndValid t \<longleftrightarrow> t AND (DIRTY_FLAG OR VALID_FLAG) = DIRTY_FLAG OR VALID_FLAG"
definition tag_setValid :: "u64 \<Rightarrow> u64" where "tag_setValid t = t OR VALID_FLAG"
definition tag_setDirty :: "u64 \<Rightarrow> u64" where "tag_setDirty t = t OR DIRTY_FLAG"
definition tag_clearDirty :: "u64 \<Rightarrow> u64" where "tag_clearDirty t = t AND NOT DIRTY_FLAG"
definition tag_toggleLRF :: "u64 \<Rightarrow> u64" where "tag_toggleLRF t = t XOR LRF_FLAG"
definition tag_addr :: "u64 \<Rightarrow> u64" where "tag_addr t = t AND NOT ALL_FLAGS"
definition tag_setAddr :: "u64 \<Rightarrow> u64 \<Rightarrow> u64" where
  "tag_setAddr a t = (t AND ALL_FLAGS) OR (a AND NOT ALL_FLAGS)"
definition tag_matches :: "u64 \<Rightarrow> u64 \<Rightarrow> bool" where
  "tag_matches t other \<longleftrightarrow> tag_isValid t \<and> tag_addr t = other AND NOT ALL_FLAGS"
definition tag_clear :: "u64 \<Rightarrow> u64" where "tag_clear t = t AND LRF_FLAG"

definition wtag :: "6 word \<Rightarrow> 1 word \<Rightarrow> (u64 \<Rightarrow> u64) \<Rightarrow> 'a ee_mem_scheme \<Rightarrow> 'a ee_mem_scheme" where
  "wtag i w f s = s\<lparr>ctags := (ctags s)(i := (ctags s i)(w := f (ctags s i w)))\<rparr>"
definition wdata :: "6 word \<Rightarrow> 1 word \<Rightarrow> (6 word \<Rightarrow> u8) \<Rightarrow> 'a ee_mem_scheme \<Rightarrow> 'a ee_mem_scheme" where
  "wdata i w d s = s\<lparr>cdata := (cdata s)(i := (cdata s i)(w := d))\<rparr>"

definition line_addr :: "6 word \<Rightarrow> u64 \<Rightarrow> u64" where
  "line_addr i t = tag_addr t OR push_bit 6 (ucast i)"

text \<open>Copying a line to and from host memory: 64 bytes at \<open>target\<close>.\<close>

definition line_store :: "u64 \<Rightarrow> (6 word \<Rightarrow> u8) \<Rightarrow> (u64 \<Rightarrow> u8) \<Rightarrow> (u64 \<Rightarrow> u8)" where
  "line_store target d m = (\<lambda>p. if unat (p - target) < 64 then d (ucast (p - target)) else m p)"
definition line_load :: "u64 \<Rightarrow> (u64 \<Rightarrow> u8) \<Rightarrow> (6 word \<Rightarrow> u8)" where
  "line_load target m = (\<lambda>k. m (target + ucast k))"

definition writeBackIfNeeded :: "6 word \<Rightarrow> 1 word \<Rightarrow> 'a ee_mem_scheme \<Rightarrow> 'a ee_mem_scheme" where
  "writeBackIfNeeded i w s =
     (if \<not> tag_isDirtyAndValid (ctags s i w) then s
      else wtag i w tag_clearDirty
             (s\<lparr>hostmem := line_store (line_addr i (ctags s i w)) (cdata s i w) (hostmem s)\<rparr>))"

definition line_load_ppf :: "6 word \<Rightarrow> 1 word \<Rightarrow> u64 \<Rightarrow> 'a ee_mem_scheme \<Rightarrow> 'a ee_mem_scheme" where
  "line_load_ppf i w ppf s =
     wtag i w (\<lambda>t. tag_clearDirty (tag_setValid t))
       (wdata i w (line_load (ppf AND NOT 0x3F) (hostmem s)) (wtag i w (tag_setAddr ppf) s))"

definition line_clear :: "6 word \<Rightarrow> 1 word \<Rightarrow> 'a ee_mem_scheme \<Rightarrow> 'a ee_mem_scheme" where
  "line_clear i w s = wdata i w (\<lambda>_. 0) (wtag i w tag_clear s)"

section \<open>Access\<close>

definition setIdxFor :: "u32 \<Rightarrow> 6 word" where
  "setIdxFor vaddr = ucast (drop_bit 6 vaddr AND 0x3F)"

definition resetCache :: "'a ee_mem_scheme \<Rightarrow> 'a ee_mem_scheme" where
  "resetCache s = s\<lparr>ctags := \<lambda>_ _. 0, cdata := \<lambda>_ _ _. 0\<rparr>"

definition findInCache :: "(1 word \<Rightarrow> u64) \<Rightarrow> u64 \<Rightarrow> 1 word option" where
  "findInCache tags ppf =
     (if tag_matches (tags 0) ppf then Some 0
      else if tag_matches (tags 1) ppf then Some 1 else None)"

definition getFreeCache :: "u32 \<Rightarrow> 'a ee_mem_scheme \<Rightarrow> 6 word \<times> 1 word \<times> 'a ee_mem_scheme" where
  "getFreeCache mem s =
     (let i = setIdxFor mem;
          ppf = assumePtr (vmap s (vpage mem)) mem
      in case findInCache (ctags s i) ppf of
           Some w \<Rightarrow> (i, w, s)
         | None \<Rightarrow>
             (let w = of_bool (tag_lrf (ctags s i 0)) XOR of_bool (tag_lrf (ctags s i 1))
              in (i, w, wtag i w tag_toggleLRF (line_load_ppf i w ppf (writeBackIfNeeded i w s)))))"

text \<open>The result is the line and the offset in it at which the access happens.\<close>

definition prepareCacheAccess ::
  "bool \<Rightarrow> nat \<Rightarrow> u32 \<Rightarrow> 'a ee_mem_scheme \<Rightarrow> 6 word \<times> 1 word \<times> 6 word \<times> 'a ee_mem_scheme" where
  "prepareCacheAccess wr bytes mem s =
     (let (i, w, s1) = getFreeCache mem s;
          s2 = (if wr then wtag i w tag_setDirty s1 else s1);
          aligned = mem AND NOT (of_nat bytes - 1)
      in (i, w, ucast (aligned AND 0x3f), s2))"

text \<open>\<open>writeCache8\<close> to \<open>writeCache128\<close> and \<open>readCache8\<close> to \<open>readCache128\<close>: the width is that
  of the value.\<close>

definition writeCache :: "u32 \<Rightarrow> 'w::len word \<Rightarrow> 'a ee_mem_scheme \<Rightarrow> 'a ee_mem_scheme" where
  "writeCache mem value s =
     (let n = LENGTH('w) div 8;
          (i, w, k, s1) = prepareCacheAccess True n mem s
      in wdata i w (store_le n (cdata s1 i w) k value) s1)"

definition readCache :: "u32 \<Rightarrow> 'a ee_mem_scheme \<Rightarrow> 'w::len word \<times> 'a ee_mem_scheme" where
  "readCache mem s =
     (let n = LENGTH('w) div 8;
          (i, w, k, s1) = prepareCacheAccess False n mem s
      in (load_le n (cdata s1 i w) k, s1))"

section \<open>The CACHE instruction\<close>

definition doCacheHitOp ::
  "u32 \<Rightarrow> (6 word \<Rightarrow> 1 word \<Rightarrow> 'a ee_mem_scheme \<Rightarrow> 'a ee_mem_scheme) \<Rightarrow> 'a ee_mem_scheme \<Rightarrow> 'a ee_mem_scheme" where
  "doCacheHitOp addr f s =
     (let i = setIdxFor addr;
          ppf = assumePtr (vmap s (vpage addr)) addr
      in case findInCache (ctags s i) ppf of None \<Rightarrow> s | Some w \<Rightarrow> f i w s)"

definition CACHE_op :: "u32 \<Rightarrow> nat \<Rightarrow> 'a ee_mem_scheme \<Rightarrow> 'a ee_mem_scheme" where
  "CACHE_op addr rt s =
     (let i = setIdxFor addr; w = ucast (addr AND 1)
      in if rt = 0x1a then doCacheHitOp addr line_clear s
         else if rt = 0x18 then doCacheHitOp addr (\<lambda>i w t. line_clear i w (writeBackIfNeeded i w t)) s
         else if rt = 0x1c then doCacheHitOp addr writeBackIfNeeded s
         else if rt = 0x16 then line_clear i w s
         else if rt = 0x11 then wCP0 cop0_TagLo (load_le 4 (cdata s i w) (ucast (addr AND 0x3C))) s
         else if rt = 0x10 then
           (let s1 = writeBackIfNeeded i w s in wCP0 cop0_TagLo (tag_flags (ctags s1 i w)) s1)
         else if rt = 0x13 then
           wdata i w (store_le 4 (cdata s i w) (ucast (addr AND 0x3C)) (CP0 s cop0_TagLo)) s
         else if rt = 0x12 then
           wtag i w (\<lambda>t. (t AND NOT ALL_FLAGS) OR (ucast (CP0 s cop0_TagLo) AND ALL_FLAGS)) s
         else if rt = 0x14 then line_clear i w (writeBackIfNeeded i w s)
         else s)"

definition CACHE :: "'a ee_mem_scheme \<Rightarrow> 'a ee_mem_scheme" where
  "CACHE s = CACHE_op (UL (GPR s (Rs s)) 0 + scast (Imm s)) (unat (Rt s)) s"


section \<open>The memory the cache presents\<close>

definition cset :: "u64 \<Rightarrow> 6 word" where "cset p = ucast (drop_bit 6 p)"

definition cview :: "'a ee_mem_scheme \<Rightarrow> u64 \<Rightarrow> u8" where
  "cview s p =
     (case findInCache (ctags s (cset p)) p of
        Some w \<Rightarrow> cdata s (cset p) w (ucast p)
      | None \<Rightarrow> hostmem s p)"

text \<open>
  The invariant: the two ways of a set never hold the same page, and a valid clean way
  holds what is in memory.
\<close>

definition cache_inv :: "'a ee_mem_scheme \<Rightarrow> bool" where
  "cache_inv s \<longleftrightarrow>
     (\<forall>i. \<not> (tag_isValid (ctags s i 0) \<and> tag_isValid (ctags s i 1)
              \<and> tag_addr (ctags s i 0) = tag_addr (ctags s i 1))) \<and>
     (\<forall>i w. tag_isValid (ctags s i w) \<and> \<not> tag_isDirty (ctags s i w) \<longrightarrow>
              cdata s i w = line_load (line_addr i (ctags s i w)) (hostmem s))"


section \<open>Facts about tags and addresses\<close>

named_theorems tag_simps \<open>what the tag operations do to the fields of a tag\<close>

lemma and_flag_bit: "(t :: u64) AND push_bit n 1 \<noteq> 0 \<longleftrightarrow> bit t n"
  by (simp add: push_bit_eq_mult and_exp_eq_0_iff_not_bit)

lemma tag_bits:
  "tag_isValid t \<longleftrightarrow> bit t 5" "tag_isDirty t \<longleftrightarrow> bit t 6" "tag_lrf t \<longleftrightarrow> bit t 4"
  using and_flag_bit [of t 5] and_flag_bit [of t 6] and_flag_bit [of t 4]
  by (simp_all add: tag_isValid_def tag_isDirty_def tag_lrf_def)

lemma flag_bits:
  "bit (0x40 :: int) k \<longleftrightarrow> k = 6" "bit (0x20 :: int) k \<longleftrightarrow> k = 5" "bit (0x10 :: int) k \<longleftrightarrow> k = 4"
  "bit (0xFFF :: int) k \<longleftrightarrow> k < 12" "bit (0x3F :: int) k \<longleftrightarrow> k < 6"
proof -
  have "bit ((2 :: int) ^ n) k \<longleftrightarrow> k = n" for n by (simp only: bit_exp_iff) auto
  from this [of 6] this [of 5] this [of 4]
  show "bit (0x40 :: int) k \<longleftrightarrow> k = 6" "bit (0x20 :: int) k \<longleftrightarrow> k = 5" "bit (0x10 :: int) k \<longleftrightarrow> k = 4"
    by simp_all
  have "bit (mask n :: int) k \<longleftrightarrow> k < n" for n by (simp only: bit_mask_iff) auto
  from this [of 12] this [of 6] show "bit (0xFFF :: int) k \<longleftrightarrow> k < 12" "bit (0x3F :: int) k \<longleftrightarrow> k < 6"
    by (simp_all add: mask_eq_exp_minus_1)
qed

lemmas tag_defs = tag_setValid_def tag_setDirty_def tag_clearDirty_def tag_toggleLRF_def
  tag_setAddr_def tag_addr_def

lemma tag_isValid_simps [tag_simps]:
  "tag_isValid (tag_setValid t)" "tag_isValid (tag_setDirty t) = tag_isValid t"
  "tag_isValid (tag_clearDirty t) = tag_isValid t" "tag_isValid (tag_toggleLRF t) = tag_isValid t"
  by (auto simp: tag_bits tag_defs bit_simps flag_bits)

lemma tag_isDirty_simps [tag_simps]:
  "tag_isDirty (tag_setDirty t)" "\<not> tag_isDirty (tag_clearDirty t)"
  "tag_isDirty (tag_toggleLRF t) = tag_isDirty t"
  by (auto simp: tag_bits tag_defs bit_simps flag_bits)

lemma tag_addr_simps [tag_simps]:
  "tag_addr (tag_setValid t) = tag_addr t" "tag_addr (tag_setDirty t) = tag_addr t"
  "tag_addr (tag_clearDirty t) = tag_addr t" "tag_addr (tag_toggleLRF t) = tag_addr t"
  "tag_addr (tag_setAddr a t) = tag_addr a"
  by (rule bit_word_eqI; auto simp: tag_defs bit_simps flag_bits)+

lemma tag_isDirtyAndValid_iff: "tag_isDirtyAndValid t \<longleftrightarrow> tag_isDirty t \<and> tag_isValid t"
proof -
  have "(0x60 :: int) = 0x40 OR 0x20" by simp
  then have b60: "bit (0x60 :: int) k \<longleftrightarrow> k = 6 \<or> k = 5" for k
    by (simp only:) (simp only: bit_or_iff flag_bits)
  have "t AND 0x60 = (0x60 :: u64) \<longleftrightarrow> bit t 6 \<and> bit t 5"
  proof
    assume "t AND 0x60 = (0x60 :: u64)"
    then have "bit (t AND 0x60) 6 = bit (0x60 :: u64) 6" "bit (t AND 0x60) 5 = bit (0x60 :: u64) 5" by simp_all
    then show "bit t 6 \<and> bit t 5" by (simp add: bit_simps)
  next
    assume b: "bit t 6 \<and> bit t 5"
    show "t AND 0x60 = (0x60 :: u64)"
      by (rule bit_word_eqI) (use b in \<open>auto simp: bit_simps b60\<close>)
  qed
  then show ?thesis by (simp add: tag_isDirtyAndValid_def tag_bits)
qed

lemma way_cases: obtains "w = (0 :: 1 word)" | "w = 1"
proof -
  have "unat w < 2" using unat_bound [of w] by simp
  then have "unat w = unat (0 :: 1 word) \<or> unat w = unat (1 :: 1 word)" by auto
  then show ?thesis using that by (metis word_unat_eqI)
qed

text \<open>\<open>tag_addr\<close> of a pointer is the page it lies in.\<close>

definition line_base :: "u64 \<Rightarrow> u64" where "line_base p = p AND NOT 0x3F"

lemma tag_matches_iff: "tag_matches t p \<longleftrightarrow> tag_isValid t \<and> tag_addr t = tag_addr p"
  by (simp add: tag_matches_def tag_addr_def)

lemma line_addr_iff:
  "line_addr i t = line_base p \<longleftrightarrow> tag_addr t = tag_addr p \<and> cset p = i"
  (is "?l \<longleftrightarrow> ?r1 \<and> ?r2")
proof
  assume l: ?l
  have b: "bit (line_addr i t) k = bit (line_base p) k" for k by (simp only: l)
  have "?r1"
  proof (rule bit_word_eqI)
    show "bit (tag_addr t) k = bit (tag_addr p) k" if "k < LENGTH(64)" for k
      using b [of k] that by (cases "k < 12") (auto simp: line_addr_def line_base_def tag_addr_def bit_simps flag_bits dest: bit_imp_le_length)
  qed
  moreover have "?r2"
  proof (rule bit_word_eqI)
    show "bit (cset p) k = bit i k" if "k < LENGTH(6)" for k
      using b [of "6 + k"] that by (auto simp: line_addr_def line_base_def cset_def tag_addr_def bit_simps flag_bits)
  qed
  ultimately show "?r1 \<and> ?r2" ..
next
  assume "?r1 \<and> ?r2"
  then have 1: "bit (tag_addr t) k = bit (tag_addr p) k" and 2: "bit (cset p) k = bit i k" for k
    by auto
  show ?l
  proof (rule bit_word_eqI)
    show "bit (line_addr i t) k = bit (line_base p) k" if "k < LENGTH(64)" for k
      using 1 [of k] 2 [of "k - 6"] that
      by (cases "k < 6"; cases "k < 12")
        (auto simp: line_addr_def line_base_def cset_def tag_addr_def bit_simps flag_bits dest: bit_imp_le_length)
  qed
qed

lemma line_member:
  assumes "L AND 0x3F = (0 :: u64)"
  shows "unat (p - L) < 64 \<longleftrightarrow> L = line_base p"
    and "L = line_base p \<Longrightarrow> p - L = ucast (ucast p :: 6 word)"
proof -
  have split: "p - line_base p = ucast (ucast p :: 6 word)"
  proof -
    have "line_base p AND ucast (ucast p :: 6 word) = 0"
      by (rule bit_word_eqI) (auto simp: line_base_def bit_simps flag_bits dest: bit_imp_le_length)
    then have "line_base p + ucast (ucast p :: 6 word) = line_base p OR ucast (ucast p :: 6 word)"
      by (rule disjunctive_add_eq_or)
    also have "\<dots> = p" by (rule bit_word_eqI) (auto simp: line_base_def bit_simps flag_bits)
    finally show ?thesis by (metis add_diff_cancel_left')
  qed
  show "p - L = ucast (ucast p :: 6 word)" if "L = line_base p"
    using split by (simp only: that)
  show "unat (p - L) < 64 \<longleftrightarrow> L = line_base p"
  proof
    assume "L = line_base p"
    then have "unat (p - L) = unat (ucast p :: 6 word)" using split by (simp only: unat_ucast_up) (simp add: unat_ucast_up)
    then show "unat (p - L) < 64" using unat_bound [of "ucast p :: 6 word"] by simp
  next
    define d where "d = p - L"
    assume "unat (p - L) < 64"
    then have "unat d < 2 ^ 6" by (simp add: d_def)
    then have db: "\<not> bit d k" if "6 \<le> k" for k
    proof -
      have "(2 :: nat) ^ 6 \<le> 2 ^ k" using that by (rule power_increasing) simp
      with \<open>unat d < 2 ^ 6\<close> have "unat d < 2 ^ k" by linarith
      then have "\<not> bit (unat d) k" by (simp add: bit_iff_odd)
      then show ?thesis by (simp add: bit_unsigned_iff)
    qed
    have Lb: "\<not> bit L k" if "k < 6" for k
    proof
      assume "bit L k"
      then have "bit (L AND 0x3F) k" using that by (auto simp: bit_simps flag_bits dest: bit_imp_le_length)
      with assms show False by simp
    qed
    have "L AND d = 0"
    proof (rule bit_word_eqI)
      show "bit (L AND d) k = bit 0 k" for k using db [of k] Lb [of k] by (cases "k < 6") (auto simp: bit_simps)
    qed
    then have p: "p = L OR d" using disjunctive_add_eq_or by (metis d_def add.commute diff_add_cancel)
    show "L = line_base p"
      unfolding p line_base_def
    proof (rule bit_word_eqI)
      show "bit L k = bit ((L OR d) AND NOT 0x3F) k" if "k < LENGTH(64)" for k
        using db [of k] Lb [of k] that by (cases "k < 6") (auto simp: bit_simps flag_bits)
    qed
  qed
qed

lemma line_addr_aligned: "line_addr i t AND 0x3F = 0"
  by (rule bit_word_eqI) (auto simp: line_addr_def line_base_def tag_addr_def bit_simps flag_bits)

lemma line_store_at:
  "line_store (line_addr i t) d m p =
     (if tag_addr t = tag_addr p \<and> cset p = i then d (ucast p) else m p)"
proof -
  note lm = line_member [OF line_addr_aligned, where p = p and i1 = i and t1 = t]
  show ?thesis
  proof (cases "line_addr i t = line_base p")
    case True
    then have "unat (p - line_addr i t) < 64" using lm(1) by blast
    with True show ?thesis using line_addr_iff [of i t p] lm(2)
      by (simp add: line_store_def ucast_ucast_down)
  next
    case False
    then have "\<not> unat (p - line_addr i t) < 64" "\<not> (tag_addr t = tag_addr p \<and> cset p = i)"
      using lm(1) line_addr_iff [of i t p] by blast+
    then show ?thesis by (simp only: line_store_def if_False)
  qed
qed

lemma line_load_at:
  assumes "tag_addr t = tag_addr p" and "cset p = i"
  shows "line_load (line_addr i t) m (ucast p) = m p"
proof -
  have "line_addr i t = line_base p" using assms line_addr_iff by blast
  with line_member(2) [OF line_addr_aligned, where p = p and i1 = i and t1 = t]
  have "p = line_addr i t + ucast (ucast p :: 6 word)" by (metis add.commute diff_add_cancel)
  then show ?thesis by (simp add: line_load_def)
qed

lemma line_load_cong:
  assumes "\<And>p. tag_addr t = tag_addr p \<Longrightarrow> cset p = i \<Longrightarrow> m p = n p"
  shows "line_load (line_addr i t) m = line_load (line_addr i t) n"
proof
  fix k :: "6 word"
  let ?p = "line_addr i t + ucast k"
  have "unat (?p - line_addr i t) < 64" using unat_bound [of k] by (simp add: unat_ucast_up)
  then have "line_addr i t = line_base ?p" by (simp only: line_member(1) [OF line_addr_aligned])
  then have "tag_addr t = tag_addr ?p \<and> cset ?p = i" by (simp only: line_addr_iff)
  then show "line_load (line_addr i t) m k = line_load (line_addr i t) n k"
    by (simp add: line_load_def assms)
qed


section \<open>The cache refines a flat memory\<close>

lemma cache_inv_uniq:
  assumes "cache_inv s" and "tag_matches (ctags s i w) p" and "tag_matches (ctags s i w') p"
  shows "w = w'"
  using assms by (cases w rule: way_cases; cases w' rule: way_cases)
    (auto simp: cache_inv_def tag_matches_iff)

lemma findInCache_iff:
  assumes "cache_inv s"
  shows "findInCache (ctags s i) p = Some w \<longleftrightarrow> tag_matches (ctags s i w) p"
proof -
  have "\<not> (tag_matches (ctags s i 0) p \<and> tag_matches (ctags s i 1) p)"
    using cache_inv_uniq [OF assms, of i 0 p 1] by auto
  then show ?thesis by (cases w rule: way_cases) (auto simp: findInCache_def)
qed

lemma findInCache_None: "findInCache t p = None \<longleftrightarrow> (\<forall>w. \<not> tag_matches (t w) p)"
proof
  assume "findInCache t p = None"
  then have "\<not> tag_matches (t 0) p" "\<not> tag_matches (t 1) p"
    by (auto simp: findInCache_def split: if_splits)
  then show "\<forall>w. \<not> tag_matches (t w) p" using way_cases by metis
qed (simp add: findInCache_def)

lemma cview_hit:
  assumes "cache_inv s" and "tag_matches (ctags s (cset p) w) p"
  shows "cview s p = cdata s (cset p) w (ucast p)"
proof -
  have "findInCache (ctags s (cset p)) p = Some w"
    using assms(2) by (simp only: findInCache_iff [OF assms(1)])
  then show ?thesis by (simp add: cview_def)
qed

lemma cview_miss: "\<forall>w. \<not> tag_matches (ctags s (cset p) w) p \<Longrightarrow> cview s p = hostmem s p"
  by (simp add: cview_def findInCache_None [THEN iffD2])

lemma line_load_store: "line_load (line_addr i t) (line_store (line_addr i t) d m) = d"
proof
  fix k :: "6 word"
  have "unat (ucast k :: u64) < 64" using unat_bound [of k] by (simp add: unat_ucast_up)
  then show "line_load (line_addr i t) (line_store (line_addr i t) d m) k = d k"
    by (simp add: line_load_def line_store_def ucast_ucast_down)
qed

lemma ctags_wtag: "ctags (wtag i w f s) i' w' = (if i' = i \<and> w' = w then f (ctags s i w) else ctags s i' w')"
  and cdata_wtag: "cdata (wtag i w f s) = cdata s" and hostmem_wtag: "hostmem (wtag i w f s) = hostmem s"
  and ctags_wdata: "ctags (wdata i w d s) = ctags s" and hostmem_wdata: "hostmem (wdata i w d s) = hostmem s"
  and cdata_wdata: "cdata (wdata i w d s) i' w' = (if i' = i \<and> w' = w then d else cdata s i' w')"
  by (simp_all add: wtag_def wdata_def)

lemmas cache_frame = ctags_wtag cdata_wtag hostmem_wtag ctags_wdata hostmem_wdata cdata_wdata

lemma cview_cong:
  assumes "\<And>w. tag_matches (ctags s (cset p) w) p \<longleftrightarrow> tag_matches (ctags t (cset p) w) p"
    and "\<And>w. tag_matches (ctags s (cset p) w) p \<Longrightarrow> cdata s (cset p) w (ucast p) = cdata t (cset p) w (ucast p)"
    and "\<forall>w. \<not> tag_matches (ctags s (cset p) w) p \<Longrightarrow> hostmem s p = hostmem t p"
    and "cache_inv s" and "cache_inv t"
  shows "cview s p = cview t p"
proof (cases "\<exists>w. tag_matches (ctags s (cset p) w) p")
  case True
  then obtain w where "tag_matches (ctags s (cset p) w) p" ..
  with assms show ?thesis using cview_hit by metis
next
  case False
  then show ?thesis using assms cview_miss by metis
qed

text \<open>A change of a tag that keeps what the view depends on.\<close>

lemma wtag_keep:
  assumes inv: "cache_inv s"
    and f: "tag_isValid (f (ctags s i w)) = tag_isValid (ctags s i w)"
      "tag_addr (f (ctags s i w)) = tag_addr (ctags s i w)"
      "tag_isDirty (ctags s i w) \<Longrightarrow> tag_isDirty (f (ctags s i w))"
  shows "cache_inv (wtag i w f s)" and "cview (wtag i w f s) = cview s"
proof -
  have 1: "tag_isValid (ctags (wtag i w f s) i' w') = tag_isValid (ctags s i' w')"
    "tag_addr (ctags (wtag i w f s) i' w') = tag_addr (ctags s i' w')" for i' w'
    by (auto simp: cache_frame f)
  have 2: "tag_isDirty (ctags s i' w') \<Longrightarrow> tag_isDirty (ctags (wtag i w f s) i' w')" for i' w'
    by (auto simp: cache_frame f(3))
  have la: "line_addr i' (ctags (wtag i w f s) i' w') = line_addr i' (ctags s i' w')" for i' w'
    by (simp add: line_addr_def 1)
  show inv': "cache_inv (wtag i w f s)"
    using inv 2 unfolding cache_inv_def la 1 cdata_wtag hostmem_wtag by blast
  show "cview (wtag i w f s) = cview s"
    by (rule ext, rule cview_cong [OF _ _ _ inv' inv])
      (simp_all add: tag_matches_iff 1, simp_all add: cache_frame)
qed

lemma wdata_dirty:
  assumes inv: "cache_inv s" and d: "tag_isDirty (ctags s i w)" and v: "tag_isValid (ctags s i w)"
  shows "cache_inv (wdata i w d s)"
    and "cview (wdata i w d s) p =
      (if cset p = i \<and> tag_addr p = tag_addr (ctags s i w) then d (ucast p) else cview s p)"
proof -
  show inv': "cache_inv (wdata i w d s)"
    using inv d unfolding cache_inv_def by (auto simp: cache_frame)
  show "cview (wdata i w d s) p =
      (if cset p = i \<and> tag_addr p = tag_addr (ctags s i w) then d (ucast p) else cview s p)"
  proof (cases "cset p = i \<and> tag_addr p = tag_addr (ctags s i w)")
    case True
    then have "tag_matches (ctags (wdata i w d s) (cset p) w) p"
      using v by (simp add: tag_matches_iff cache_frame)
    from cview_hit [OF inv' this] True show ?thesis by (simp add: cache_frame)
  next
    case False
    have "cview (wdata i w d s) p = cview s p"
      by (rule cview_cong [OF _ _ _ inv' inv])
        (use False in \<open>auto simp: cache_frame tag_matches_iff\<close>)
    with False show ?thesis by (simp only: if_False)
  qed
qed

lemma cache_inv_other:
  assumes "cache_inv s" and "tag_isValid (ctags s i w)" and "tag_isValid (ctags s i w')"
    and "tag_addr (ctags s i w) = tag_addr (ctags s i w')"
  shows "w = w'"
  using assms by (cases w rule: way_cases; cases w' rule: way_cases) (auto simp: cache_inv_def)

lemma cache_invI:
  assumes "\<And>i w w'. tag_isValid (ctags s i w) \<Longrightarrow> tag_isValid (ctags s i w') \<Longrightarrow>
      tag_addr (ctags s i w) = tag_addr (ctags s i w') \<Longrightarrow> w = w'"
    and "\<And>i w. tag_isValid (ctags s i w) \<Longrightarrow> \<not> tag_isDirty (ctags s i w) \<Longrightarrow>
      cdata s i w = line_load (line_addr i (ctags s i w)) (hostmem s)"
  shows "cache_inv s"
  unfolding cache_inv_def using assms(2) assms(1) [where w = 0 and w' = 1] by auto

lemma cache_inv_clean:
  "cache_inv s \<Longrightarrow> tag_isValid (ctags s i w) \<Longrightarrow> \<not> tag_isDirty (ctags s i w) \<Longrightarrow>
     cdata s i w = line_load (line_addr i (ctags s i w)) (hostmem s)"
  by (simp add: cache_inv_def)

text \<open>Writing a line back changes neither the view nor the invariant.\<close>

lemma writeBack_tags:
  "tag_isValid (ctags (writeBackIfNeeded i w s) i' w') = tag_isValid (ctags s i' w')"
  "tag_addr (ctags (writeBackIfNeeded i w s) i' w') = tag_addr (ctags s i' w')"
  "tag_isDirty (ctags (writeBackIfNeeded i w s) i' w') \<longleftrightarrow>
     tag_isDirty (ctags s i' w') \<and> \<not> (i' = i \<and> w' = w \<and> tag_isValid (ctags s i w))"
  "tag_lrf (ctags (writeBackIfNeeded i w s) i' w') = tag_lrf (ctags s i' w')"
  "cdata (writeBackIfNeeded i w s) = cdata s"
  by (auto simp: writeBackIfNeeded_def cache_frame tag_simps tag_isDirtyAndValid_iff)
    (auto simp: tag_bits tag_defs bit_simps flag_bits)

lemma writeBack_refines:
  assumes inv: "cache_inv s"
  shows "cache_inv (writeBackIfNeeded i w s)" and "cview (writeBackIfNeeded i w s) = cview s"
proof -
  let ?t = "writeBackIfNeeded i w s"
  let ?tag = "ctags s i w"
  have hm: "hostmem ?t p = (if tag_isDirty ?tag \<and> tag_isValid ?tag \<and> tag_addr ?tag = tag_addr p \<and> cset p = i
      then cdata s i w (ucast p) else hostmem s p)" for p
    by (simp add: writeBackIfNeeded_def cache_frame line_store_at tag_isDirtyAndValid_iff)
  show inv': "cache_inv ?t"
  proof (rule cache_invI)
    fix i' w' w''
    assume "tag_isValid (ctags ?t i' w')" "tag_isValid (ctags ?t i' w'')"
      "tag_addr (ctags ?t i' w') = tag_addr (ctags ?t i' w'')"
    then show "w' = w''" using cache_inv_other [OF inv] by (simp add: writeBack_tags)
  next
    fix i' w'
    assume v: "tag_isValid (ctags ?t i' w')" and c: "\<not> tag_isDirty (ctags ?t i' w')"
    have la: "line_addr i' (ctags ?t i' w') = line_addr i' (ctags s i' w')"
      by (simp add: line_addr_def writeBack_tags)
    show "cdata ?t i' w' = line_load (line_addr i' (ctags ?t i' w')) (hostmem ?t)"
    proof (cases "i' = i \<and> w' = w \<and> tag_isDirty ?tag")
      case True
      moreover from this v have "tag_isValid ?tag" by (simp add: writeBack_tags)
      ultimately have hm': "hostmem ?t = line_store (line_addr i ?tag) (cdata s i w) (hostmem s)"
        by (simp add: writeBackIfNeeded_def cache_frame tag_isDirtyAndValid_iff)
      have "i' = i" "w' = w" using True by blast+
      then show ?thesis unfolding la hm' writeBack_tags(5) by (simp only: line_load_store)
    next
      case False
      then have c': "\<not> tag_isDirty (ctags s i' w')" using c v unfolding writeBack_tags by blast
      from v have v': "tag_isValid (ctags s i' w')" by (simp add: writeBack_tags)
      have "line_load (line_addr i' (ctags s i' w')) (hostmem ?t) = line_load (line_addr i' (ctags s i' w')) (hostmem s)"
      proof (rule line_load_cong)
        fix p
        assume "tag_addr (ctags s i' w') = tag_addr p" "cset p = i'"
        then show "hostmem ?t p = hostmem s p"
          using cache_inv_other [OF inv v', of w] c' by (auto simp: hm)
      qed
      with cache_inv_clean [OF inv v' c'] show ?thesis by (simp add: la writeBack_tags)
    qed
  qed
  show "cview ?t = cview s"
    by (rule ext, rule cview_cong [OF _ _ _ inv' inv])
      (auto simp: tag_matches_iff writeBack_tags hm)
qed

lemma load_tags:
  "tag_isValid (ctags (line_load_ppf i w ppf s) i' w') \<longleftrightarrow> i' = i \<and> w' = w \<or> tag_isValid (ctags s i' w')"
  "tag_addr (ctags (line_load_ppf i w ppf s) i' w') =
     (if i' = i \<and> w' = w then tag_addr ppf else tag_addr (ctags s i' w'))"
  "tag_isDirty (ctags (line_load_ppf i w ppf s) i' w') \<longleftrightarrow>
     tag_isDirty (ctags s i' w') \<and> \<not> (i' = i \<and> w' = w)"
  "hostmem (line_load_ppf i w ppf s) = hostmem s"
  "cdata (line_load_ppf i w ppf s) i' w' =
     (if i' = i \<and> w' = w then line_load (line_base ppf) (hostmem s) else cdata s i' w')"
  by (auto simp: line_load_ppf_def cache_frame tag_simps line_base_def)

text \<open>Filling a clean way with a line the set does not hold changes neither.\<close>

lemma load_refines:
  assumes inv: "cache_inv s" and miss: "\<forall>w. \<not> tag_matches (ctags s i w) ppf"
    and clean: "\<not> (tag_isDirty (ctags s i w) \<and> tag_isValid (ctags s i w))" and i: "cset ppf = i"
  shows "cache_inv (line_load_ppf i w ppf s)" and "cview (line_load_ppf i w ppf s) = cview s"
proof -
  let ?t = "line_load_ppf i w ppf s"
  have base: "line_addr i (ctags ?t i w) = line_base ppf"
    by (simp add: line_addr_iff load_tags i)
  have la: "line_addr i' (ctags ?t i' w') = line_addr i' (ctags s i' w')" if "\<not> (i' = i \<and> w' = w)" for i' w'
    using that by (cases "i' = i") (simp_all add: line_addr_def load_tags)
  show inv': "cache_inv ?t"
  proof (rule cache_invI)
    fix i' w' w''
    assume "tag_isValid (ctags ?t i' w')" "tag_isValid (ctags ?t i' w'')"
      "tag_addr (ctags ?t i' w') = tag_addr (ctags ?t i' w'')"
    then show "w' = w''" using cache_inv_other [OF inv, of i' w' w''] miss
      by (auto simp: load_tags tag_matches_iff split: if_splits)
  next
    fix i' w'
    assume "tag_isValid (ctags ?t i' w')" and "\<not> tag_isDirty (ctags ?t i' w')"
    then show "cdata ?t i' w' = line_load (line_addr i' (ctags ?t i' w')) (hostmem ?t)"
      using cache_inv_clean [OF inv, of i' w'] base la [of i' w']
      by (cases "i' = i"; cases "w' = w") (simp_all add: load_tags)
  qed
  have "cview ?t p = cview s p" for p
  proof (cases "cset p = i")
    case False
    then show ?thesis
      by (intro cview_cong [OF _ _ _ inv' inv]) (auto simp: tag_matches_iff load_tags)
  next
    case in_set: True
    show ?thesis
    proof (cases "tag_addr p = tag_addr ppf")
      case True
      then have "tag_matches (ctags ?t (cset p) w) p" using in_set by (simp add: tag_matches_iff load_tags)
      then have "cview ?t p = cdata ?t i w (ucast p)" using cview_hit [OF inv'] in_set by simp
      also have "\<dots> = hostmem s p"
        using line_load_at [of "ctags ?t i w" p i "hostmem s"] True in_set base by (simp add: load_tags)
      also have "\<dots> = cview s p"
        by (rule cview_miss [symmetric]) (use miss True in_set in \<open>auto simp: tag_matches_iff\<close>)
      finally show ?thesis .
    next
      case False
      show ?thesis
      proof (cases "tag_matches (ctags s i w) p")
        case True
        then have v: "tag_isValid (ctags s i w)" and a: "tag_addr (ctags s i w) = tag_addr p"
          by (auto simp: tag_matches_iff)
        with clean have nd: "\<not> tag_isDirty (ctags s i w)" by blast
        have "cview s p = cdata s i w (ucast p)" using True in_set cview_hit [OF inv] by simp
        also have "\<dots> = hostmem s p"
          unfolding cache_inv_clean [OF inv v nd] by (rule line_load_at [OF a in_set])
        also have "\<dots> = cview ?t p"
        proof -
          have "\<not> tag_matches (ctags ?t i w') p" for w'
          proof (cases "w' = w")
            case True
            then show ?thesis using False by (simp add: tag_matches_iff load_tags)
          next
            case other: False
            then show ?thesis using cache_inv_uniq [OF inv True, of w']
              unfolding tag_matches_iff load_tags by metis
          qed
          then show ?thesis using in_set by (simp add: cview_miss load_tags)
        qed
        finally show ?thesis ..
      next
        case not_w: False
        have m: "tag_matches (ctags ?t i w') p = tag_matches (ctags s i w') p" for w'
          using False not_w by (cases "w' = w") (auto simp: tag_matches_iff load_tags)
        have c: "cdata ?t i w' = cdata s i w'" if "tag_matches (ctags ?t i w') p" for w'
          using that not_w unfolding m by (cases "w' = w") (simp_all add: load_tags)
        show ?thesis
          by (rule cview_cong [OF _ _ _ inv' inv]) (simp_all only: in_set m c load_tags(4))
      qed
    qed
  qed
  then show "cview ?t = cview s" ..
qed

text \<open>After \<open>getFreeCache\<close> the line is in the cache, and nothing else can be observed.\<close>

definition cache_ptr :: "u32 \<Rightarrow> 'a ee_mem_scheme \<Rightarrow> u64" where
  "cache_ptr mem s = assumePtr (vmap s (vpage mem)) mem"

lemma getFreeCache_refines:
  assumes inv: "cache_inv s" and i: "cset (cache_ptr mem s) = setIdxFor mem"
    and run: "getFreeCache mem s = (i, w, s')"
  shows "cache_inv s'" and "cview s' = cview s"
    and "i = cset (cache_ptr mem s)" and "tag_matches (ctags s' i w) (cache_ptr mem s)"
proof -
  let ?ppf = "cache_ptr mem s"
  have "cache_inv s' \<and> cview s' = cview s \<and> i = cset ?ppf \<and> tag_matches (ctags s' i w) ?ppf"
  proof (cases "findInCache (ctags s (setIdxFor mem)) ?ppf")
    case (Some w0)
    then have "tag_matches (ctags s (setIdxFor mem) w0) ?ppf" by (simp only: findInCache_iff [OF inv])
    with Some run inv i show ?thesis
      by (auto simp: getFreeCache_def Let_def cache_ptr_def)
  next
    case None
    let ?i = "setIdxFor mem"
    define w0 :: "1 word" where "w0 = of_bool (tag_lrf (ctags s ?i 0)) XOR of_bool (tag_lrf (ctags s ?i 1))"
    let ?s1 = "writeBackIfNeeded ?i w0 s"
    let ?s2 = "line_load_ppf ?i w0 ?ppf ?s1"
    have "getFreeCache mem s = (?i, w0, wtag ?i w0 tag_toggleLRF ?s2)"
      using None by (simp only: getFreeCache_def Let_def cache_ptr_def w0_def option.case)
    then have eq: "i = ?i" "w = w0" "s' = wtag ?i w0 tag_toggleLRF ?s2"
      unfolding run by blast+
    note wb = writeBack_refines [OF inv, of ?i w0]
    have miss: "\<forall>w. \<not> tag_matches (ctags ?s1 ?i w) ?ppf"
      using None by (simp add: findInCache_None tag_matches_iff writeBack_tags)
    have clean: "\<not> (tag_isDirty (ctags ?s1 ?i w0) \<and> tag_isValid (ctags ?s1 ?i w0))"
      by (simp add: writeBack_tags)
    note ld = load_refines [OF wb(1) miss clean i]
    have tg: "cache_inv (wtag ?i w0 tag_toggleLRF ?s2)" "cview (wtag ?i w0 tag_toggleLRF ?s2) = cview ?s2"
      by (rule wtag_keep [OF ld(1)]; simp add: tag_simps)+
    have "tag_matches (ctags s' i w) ?ppf"
      by (simp add: eq cache_frame tag_matches_iff tag_simps load_tags)
    then show ?thesis using tg ld wb i by (simp add: eq)
  qed
  then show "cache_inv s'" "cview s' = cview s" "i = cset ?ppf" "tag_matches (ctags s' i w) ?ppf" by auto
qed

text \<open>
  An access of \<open>2 ^ e\<close> bytes touches the bytes of the line at the address with its low \<open>e\<close>
  bits cleared.  Host pages are mapped whole, so the low twelve bits of the pointer are
  those of the guest address.
\<close>

definition page_congruent :: "u32 \<Rightarrow> 'a ee_mem_scheme \<Rightarrow> bool" where
  "page_congruent mem s \<longleftrightarrow> cache_ptr mem s AND 0xFFF = ucast (mem AND 0xFFF)"

lemma page_congruent_bit:
  assumes "page_congruent mem s" and "k < 12"
  shows "bit (cache_ptr mem s) k = bit mem k"
proof -
  have "bit (cache_ptr mem s AND 0xFFF) k = bit (ucast (mem AND 0xFFF) :: u64) k"
    using assms(1) by (simp only: page_congruent_def)
  then show ?thesis using assms(2) by (auto simp: bit_simps flag_bits dest: bit_imp_le_length)
qed

lemma page_congruent_set: "page_congruent mem s \<Longrightarrow> cset (cache_ptr mem s) = setIdxFor mem"
  by (rule bit_word_eqI) (auto simp: cset_def setIdxFor_def bit_simps flag_bits page_congruent_bit)

lemma aligned_offset_bit:
  "bit (ucast (((mem :: u32) AND NOT (of_nat (2 ^ e) - 1)) AND 0x3f) :: 6 word) k \<longleftrightarrow> k < 6 \<and> e \<le> k \<and> bit mem k"
proof -
  have "(of_nat (2 ^ e) - 1 :: u32) = mask e" by (simp add: mask_eq_exp_minus_1)
  then show ?thesis by (auto simp: bit_simps flag_bits dest: bit_imp_le_length)
qed

lemma aligned_offset_line:
  assumes pc: "page_congruent mem s" and e: "e \<le> 6"
  defines "k \<equiv> ucast ((mem AND NOT (of_nat (2 ^ e) - 1)) AND 0x3f) :: 6 word"
    and "q \<equiv> cache_ptr mem s AND NOT (mask e)"
  assumes j: "j < 2 ^ e"
  shows "cset (q + of_nat j) = cset (cache_ptr mem s)"
    and "tag_addr (q + of_nat j) = tag_addr (cache_ptr mem s)"
    and "ucast (q + of_nat j) = k + of_nat j"
proof -
  have jb: "\<not> bit j i" if "e \<le> i" for i
  proof -
    have "j < 2 ^ i" using j that by (meson less_le_trans one_le_numeral power_increasing)
    then show ?thesis by (simp add: bit_iff_odd)
  qed
  have "q AND of_nat j = 0"
  proof (rule bit_word_eqI)
    show "bit (q AND of_nat j) i = bit 0 i" for i
      using jb [of i] by (auto simp: q_def bit_simps)
  qed
  then have q: "q + of_nat j = q OR of_nat j" by (rule disjunctive_add_eq_or)
  have "k AND of_nat j = 0"
  proof (rule bit_word_eqI)
    show "bit (k AND of_nat j) i = bit 0 i" for i
      unfolding k_def bit_and_iff aligned_offset_bit using jb [of i] by (auto simp: bit_simps)
  qed
  then have k: "k + of_nat j = k OR of_nat j" by (rule disjunctive_add_eq_or)
  show "cset (q + of_nat j) = cset (cache_ptr mem s)"
    unfolding q cset_def using e by (intro bit_word_eqI) (auto simp: q_def bit_simps jb)
  show "tag_addr (q + of_nat j) = tag_addr (cache_ptr mem s)"
    unfolding q tag_addr_def using e by (intro bit_word_eqI) (auto simp: q_def bit_simps flag_bits jb)
  show "ucast (q + of_nat j) = k + of_nat j"
    unfolding q k using e
    by (intro bit_word_eqI, simp only: bit_or_iff k_def aligned_offset_bit)
      (auto simp: q_def bit_simps page_congruent_bit [OF pc])
qed

lemma ptr_eqI:
  assumes "tag_addr p = tag_addr q" and "cset p = cset q" and "(ucast p :: 6 word) = ucast q"
  shows "p = q"
proof -
  let ?L = "line_addr (cset p) p"
  have "?L = line_base p" "?L = line_base q" using assms line_addr_iff by metis+
  then have "p - ?L = q - ?L"
    using line_member(2) [OF line_addr_aligned] assms(3) by metis
  then show ?thesis by simp
qed

lemma readCache_refines:
  assumes inv: "cache_inv s" and pc: "page_congruent mem s"
    and e: "LENGTH('w::len) = 8 * 2 ^ e" "e \<le> 6"
    and run: "(readCache mem s :: 'w word \<times> 'a ee_mem_scheme) = (v, s')"
  shows "v = load_le (2 ^ e) (cview s) (cache_ptr mem s AND NOT (mask e))"
    and "cview s' = cview s" and "cache_inv s'"
proof -
  obtain i w s1 where g: "getFreeCache mem s = (i, w, s1)" by (metis prod_cases3)
  note gf = getFreeCache_refines [OF inv page_congruent_set [OF pc] g]
  let ?k = "ucast ((mem AND NOT (of_nat (2 ^ e) - 1)) AND 0x3f) :: 6 word"
  have n: "LENGTH('w) div 8 = 2 ^ e" using e(1) by simp
  have v: "v = load_le (2 ^ e) (cdata s1 i w) ?k" "s' = s1"
    using run by (auto simp: readCache_def prepareCacheAccess_def g n Let_def)
  show "cview s' = cview s" "cache_inv s'" using gf v(2) by simp_all
  show "v = load_le (2 ^ e) (cview s) (cache_ptr mem s AND NOT (mask e))"
    unfolding v(1)
  proof (rule load_le_cong)
    fix j :: nat
    assume "j < 2 ^ e"
    note al = aligned_offset_line [OF pc e(2) this]
    let ?q = "(cache_ptr mem s AND NOT (mask e)) + of_nat j"
    have "tag_matches (ctags s1 (cset ?q) w) ?q"
      using gf(4) by (simp add: tag_matches_iff al gf(3))
    from cview_hit [OF gf(1) this]
    show "cdata s1 i w (?k + of_nat j) = cview s ?q"
      by (simp add: gf(2) al flip: gf(3))
  qed
qed

lemma writeCache_refines:
  assumes inv: "cache_inv s" and pc: "page_congruent mem s"
    and e: "LENGTH('w::len) = 8 * 2 ^ e" "e \<le> 6"
  shows "cview (writeCache mem (v :: 'w word) s) =
      store_le (2 ^ e) (cview s) (cache_ptr mem s AND NOT (mask e)) v"
    and "cache_inv (writeCache mem v s)"
proof -
  obtain i w s1 where g: "getFreeCache mem s = (i, w, s1)" by (metis prod_cases3)
  note gf = getFreeCache_refines [OF inv page_congruent_set [OF pc] g]
  let ?n = "2 ^ e :: nat" and ?q = "cache_ptr mem s AND NOT (mask e)"
  let ?k = "ucast ((mem AND NOT (of_nat (2 ^ e) - 1)) AND 0x3f) :: 6 word"
  let ?s2 = "wtag i w tag_setDirty s1"
  have n: "LENGTH('w) div 8 = ?n" using e(1) by simp
  have e6: "?n \<le> 2 ^ 6" using e(2) by (rule power_increasing) simp
  have s2: "cache_inv ?s2" "cview ?s2 = cview s1"
    by (rule wtag_keep [OF gf(1)]; simp add: tag_simps)+
  have tg: "tag_isDirty (ctags ?s2 i w)" "tag_isValid (ctags ?s2 i w)"
    "tag_addr (ctags ?s2 i w) = tag_addr (cache_ptr mem s)"
    using gf(4) by (simp_all add: cache_frame tag_simps tag_matches_iff)
  have eq: "writeCache mem v s = wdata i w (store_le ?n (cdata ?s2 i w) ?k v) ?s2"
    by (simp add: writeCache_def prepareCacheAccess_def g n Let_def)
  show "cache_inv (writeCache mem v s)" unfolding eq by (rule wdata_dirty(1) [OF s2(1) tg(1,2)])
  show "cview (writeCache mem v s) = store_le ?n (cview s) ?q v"
  proof
    fix p
    have in_line: "p = ?q + of_nat j" "j < ?n" if "j = unat (p - ?q)" "unat (p - ?q) < ?n" for j
      using that by simp_all
    note al = aligned_offset_line [OF pc e(2)]
    have unat6: "unat (of_nat j :: 6 word) = j" if "j < ?n" for j
      using that e6 by (simp add: unsigned_of_nat take_bit_nat_eq_self)
    have lhs: "cview (writeCache mem v s) p =
        (if cset p = i \<and> tag_addr p = tag_addr (cache_ptr mem s)
         then store_le ?n (cdata ?s2 i w) ?k v (ucast p) else cview s p)"
      unfolding eq wdata_dirty(2) [OF s2(1) tg(1,2)] by (simp add: s2(2) gf(2) tg(3))
    have rhs: "store_le ?n (cview s) ?q v p =
        (if unat (p - ?q) < ?n then ucast (drop_bit (8 * unat (p - ?q)) v) else cview s p)"
      using e6 by (intro store_le_byte) simp
    show "cview (writeCache mem v s) p = store_le ?n (cview s) ?q v p"
    proof (cases "cset p = i \<and> tag_addr p = tag_addr (cache_ptr mem s)")
      case False
      then have "\<not> unat (p - ?q) < ?n"
        using al(1,2) in_line gf(3) by metis
      with False show ?thesis unfolding lhs rhs by (simp only: if_False)
    next
      case True
      then have tm: "tag_matches (ctags ?s2 (cset p) w) p" using tg by (simp add: tag_matches_iff)
      have old: "cdata ?s2 i w (ucast p) = cview s p"
        using cview_hit [OF s2(1) tm] True by (simp add: s2(2) gf(2))
      have a: "unat (ucast p - ?k) = unat (p - ?q)" if "unat (p - ?q) < ?n"
        using in_line(1) [OF refl that] al(3) [OF that] unat6 [OF that]
        by (metis add_diff_cancel_left')
      have b: "unat (p - ?q) < ?n" if "unat (ucast p - ?k) < ?n"
      proof -
        let ?j = "unat (ucast p - ?k)"
        have "p = ?q + of_nat ?j"
          by (rule ptr_eqI) (use True gf(3) al [OF that] in simp_all)
        then have "p - ?q = of_nat ?j" by (metis add_diff_cancel_left')
        moreover have "?j < 2 ^ 64" using that e6 by simp
        ultimately show ?thesis
          using that by (simp add: unsigned_of_nat take_bit_nat_eq_self unat_ucast_up)
      qed
      have c: "store_le ?n (cdata ?s2 i w) ?k v (ucast p) =
          (if unat (ucast p - ?k) < ?n then ucast (drop_bit (8 * unat (ucast p - ?k)) v)
           else cdata ?s2 i w (ucast p))"
        using e6 by (intro store_le_byte) simp
      have "store_le ?n (cdata ?s2 i w) ?k v (ucast p) =
          (if unat (p - ?q) < ?n then ucast (drop_bit (8 * unat (p - ?q)) v) else cview s p)"
        unfolding c old using a b by metis
      with True show ?thesis unfolding lhs rhs by (simp only: if_True simp_thms)
    qed
  qed
qed

text \<open>
  C9: the data cache is transparent.  As long as it holds no two lines for one address,
  \<open>readCache\<close> returns the bytes of memory as the cached lines shadow it and changes none of
  them, whatever it evicts and writes back, and \<open>writeCache\<close> changes exactly the bytes it is
  given; both keep the invariant.
\<close>

theorem dcache_refines:
  fixes v :: "'w::len word"
  assumes "cache_inv s" "page_congruent mem s" "LENGTH('w) = 8 * 2 ^ e" "e \<le> 6"
  defines "ptr \<equiv> cache_ptr mem s AND NOT (mask e)"
  shows "(\<exists>s'. readCache mem s = (load_le (2 ^ e) (cview s) ptr :: 'w word, s') \<and> cview s' = cview s \<and> cache_inv s') \<and>
    cview (writeCache mem v s) = store_le (2 ^ e) (cview s) ptr v \<and> cache_inv (writeCache mem v s)"
proof -
  obtain x :: "'w word" and s' where r: "readCache mem s = (x, s')" by fastforce
  show ?thesis
    using readCache_refines [OF assms(1-4) r] writeCache_refines [OF assms(1-4), of v] r
    by (simp add: ptr_def)
qed

theorem dcache_refines_witness:
  "\<exists>s'. readCache 0x104 (ee_mem0\<lparr>vmap := \<lambda>_. 0x10000000, hostmem := \<lambda>_. 7\<rparr>) = (0x07070707 :: u32, s') \<and> cache_inv s'"
proof -
  let ?s = "ee_mem0\<lparr>vmap := \<lambda>_. 0x10000000, hostmem := \<lambda>_. 7\<rparr> :: ee_mem"
  have t: "ctags ?s = (\<lambda>_ _. 0)" by (simp add: ee_mem0_def)
  have "cache_inv ?s" by (simp add: t cache_inv_def tag_isValid_def)
  moreover have "page_congruent 0x104 ?s"
    by (simp add: page_congruent_def cache_ptr_def assumePtr_def)
  moreover have "cview ?s = (\<lambda>_. 7)"
    by (rule ext) (subst cview_miss, simp_all add: t tag_matches_iff tag_isValid_def)
  then have "load_le (2 ^ 2) (cview ?s) p = (0x07070707 :: u32)" for p
    by (simp add: load_le_numeral)
  ultimately show ?thesis
    using dcache_refines [of ?s "0x104" 2 "0 :: u32"] by auto
qed

end
