(* ===== verification/VtlbAccess.thy ===== *)
theory VtlbAccess
  imports DCache
begin

text \<open>
  The interpreter's memory accesses: \<open>vtlb_memRead\<close>, \<open>vtlb_memWrite\<close> and their 64 and 128
  bit variants of pcsx2/vtlb.cpp, the unmapped handlers they fall into, \<open>CheckCache\<close>, and
  the two hooks of the Goemon game fix.

  The functions the rest of the machine registers as handlers (hardware registers, IOP
  memory, VU memory) are a parameter: a \<open>devs\<close> holds the slots of the table \<open>RWFT\<close>.
\<close>

unbundle bit_operations_syntax

section \<open>Handlers\<close>

record 's devs =
  devR8 :: "u8 \<Rightarrow> u32 \<Rightarrow> 's \<Rightarrow> ('s, u8) res"
  devR16 :: "u8 \<Rightarrow> u32 \<Rightarrow> 's \<Rightarrow> ('s, u16) res"
  devR32 :: "u8 \<Rightarrow> u32 \<Rightarrow> 's \<Rightarrow> ('s, u32) res"
  devR64 :: "u8 \<Rightarrow> u32 \<Rightarrow> 's \<Rightarrow> ('s, u64) res"
  devR128 :: "u8 \<Rightarrow> u32 \<Rightarrow> 's \<Rightarrow> ('s, u128) res"
  devW8 :: "u8 \<Rightarrow> u32 \<Rightarrow> u8 \<Rightarrow> 's \<Rightarrow> ('s, unit) res"
  devW16 :: "u8 \<Rightarrow> u32 \<Rightarrow> u16 \<Rightarrow> 's \<Rightarrow> ('s, unit) res"
  devW32 :: "u8 \<Rightarrow> u32 \<Rightarrow> u32 \<Rightarrow> 's \<Rightarrow> ('s, unit) res"
  devW64 :: "u8 \<Rightarrow> u32 \<Rightarrow> u64 \<Rightarrow> 's \<Rightarrow> ('s, unit) res"
  devW128 :: "u8 \<Rightarrow> u32 \<Rightarrow> u128 \<Rightarrow> 's \<Rightarrow> ('s, unit) res"

text \<open>
  \<open>vtlb_Miss\<close> when the interpreter runs: the exception is entered and the current
  instruction is abandoned.
\<close>

definition vtlb_Miss :: "u32 \<Rightarrow> bool \<Rightarrow> 'a ee_mem_scheme \<Rightarrow> ('a ee_mem_scheme, 'r) res" where
  "vtlb_Miss addr mode s =
     Throw CancelInstruction
       (if mode then cpuTlbMissW addr (branch s) s else cpuTlbMissR addr (branch s) s)"

text \<open>The read and write slots of the table: the first five are registered by \<open>vtlb_Init\<close>.\<close>

definition vtlb_handlerRead ::
  "(u8 \<Rightarrow> u32 \<Rightarrow> 'a ee_mem_scheme \<Rightarrow> ('a ee_mem_scheme, 'w::len word) res) \<Rightarrow> u8 \<Rightarrow> u32 \<Rightarrow>
     'a ee_mem_scheme \<Rightarrow> ('a ee_mem_scheme, 'w word) res" where
  "vtlb_handlerRead dev hid paddr s =
     (if hid = 0 then vtlb_Miss (paddr OR 0) False s
      else if hid = 1 then vtlb_Miss (paddr OR 0x80000000) False s
      else if hid \<le> 4 then Ok 0 s
      else dev hid paddr s)"

definition vtlb_handlerWrite ::
  "(u8 \<Rightarrow> u32 \<Rightarrow> 'w::len word \<Rightarrow> 'a ee_mem_scheme \<Rightarrow> ('a ee_mem_scheme, unit) res) \<Rightarrow> u8 \<Rightarrow> u32 \<Rightarrow>
     'w word \<Rightarrow> 'a ee_mem_scheme \<Rightarrow> ('a ee_mem_scheme, unit) res" where
  "vtlb_handlerWrite dev hid paddr data s =
     (if hid = 0 then vtlb_Miss (paddr OR 0) True s
      else if hid = 1 then vtlb_Miss (paddr OR 0x80000000) True s
      else if hid \<le> 4 then Ok () s
      else dev hid paddr data s)"

section \<open>Accesses\<close>

definition CheckCache :: "u32 \<Rightarrow> 'a ee_mem_scheme \<Rightarrow> bool" where
  "CheckCache addr s \<longleftrightarrow>
     drop_bit 16 (CP0 s cop0_Config) AND 1 \<noteq> 0 \<and>
     list_ex (\<lambda>i. let t = tlb s ! i; m = tlb_PageMask t in
        (drop_bit 3 (tlb_EntryLo1 t AND 0x38) = 3 \<and> addr \<ge> tlb_PFN1 t \<and> addr \<le> tlb_PFN1 t + m) \<or>
        (drop_bit 3 (tlb_EntryLo0 t AND 0x38) = 3 \<and> addr \<ge> tlb_PFN0 t \<and> addr \<le> tlb_PFN0 t + m))
       [1..<48]"

definition vtlb_read ::
  "(u8 \<Rightarrow> u32 \<Rightarrow> 'a ee_mem_scheme \<Rightarrow> ('a ee_mem_scheme, 'w::len word) res) \<Rightarrow> u32 \<Rightarrow>
     'a ee_mem_scheme \<Rightarrow> ('a ee_mem_scheme, 'w word) res" where
  "vtlb_read dev addr s =
     (let vmv = vmap s (vpage addr)
      in if \<not> isHandler vmv addr
         then if CHECK_CACHE s \<and> CheckCache addr s
              then (case readCache addr s of (v, s') \<Rightarrow> Ok v s')
              else Ok (load_le (LENGTH('w) div 8) (hostmem s) (assumePtr vmv addr)) s
         else vtlb_handlerRead dev (assumeHandlerGetID vmv) (assumeHandlerGetPAddr vmv addr) s)"

definition vtlb_write ::
  "(u8 \<Rightarrow> u32 \<Rightarrow> 'w::len word \<Rightarrow> 'a ee_mem_scheme \<Rightarrow> ('a ee_mem_scheme, unit) res) \<Rightarrow> u32 \<Rightarrow>
     'w word \<Rightarrow> 'a ee_mem_scheme \<Rightarrow> ('a ee_mem_scheme, unit) res" where
  "vtlb_write dev addr data s =
     (let vmv = vmap s (vpage addr)
      in if \<not> isHandler vmv addr
         then if CHECK_CACHE s \<and> CheckCache addr s
              then Ok () (writeCache addr data s)
              else Ok () (s\<lparr>hostmem := store_le (LENGTH('w) div 8) (hostmem s) (assumePtr vmv addr) data\<rparr>)
         else vtlb_handlerWrite dev (assumeHandlerGetID vmv) (assumeHandlerGetPAddr vmv addr) data s)"

definition memRead8 :: "'a ee_mem_scheme devs \<Rightarrow> u32 \<Rightarrow> 'a ee_mem_scheme \<Rightarrow> ('a ee_mem_scheme, u8) res" where
  "memRead8 d = vtlb_read (devR8 d)"
definition memRead16 :: "'a ee_mem_scheme devs \<Rightarrow> u32 \<Rightarrow> 'a ee_mem_scheme \<Rightarrow> ('a ee_mem_scheme, u16) res" where
  "memRead16 d = vtlb_read (devR16 d)"
definition memRead32 :: "'a ee_mem_scheme devs \<Rightarrow> u32 \<Rightarrow> 'a ee_mem_scheme \<Rightarrow> ('a ee_mem_scheme, u32) res" where
  "memRead32 d = vtlb_read (devR32 d)"
definition memRead64 :: "'a ee_mem_scheme devs \<Rightarrow> u32 \<Rightarrow> 'a ee_mem_scheme \<Rightarrow> ('a ee_mem_scheme, u64) res" where
  "memRead64 d = vtlb_read (devR64 d)"
definition memRead128 :: "'a ee_mem_scheme devs \<Rightarrow> u32 \<Rightarrow> 'a ee_mem_scheme \<Rightarrow> ('a ee_mem_scheme, u128) res" where
  "memRead128 d = vtlb_read (devR128 d)"
definition memWrite8 :: "'a ee_mem_scheme devs \<Rightarrow> u32 \<Rightarrow> u8 \<Rightarrow> 'a ee_mem_scheme \<Rightarrow> ('a ee_mem_scheme, unit) res" where
  "memWrite8 d = vtlb_write (devW8 d)"
definition memWrite16 :: "'a ee_mem_scheme devs \<Rightarrow> u32 \<Rightarrow> u16 \<Rightarrow> 'a ee_mem_scheme \<Rightarrow> ('a ee_mem_scheme, unit) res" where
  "memWrite16 d = vtlb_write (devW16 d)"
definition memWrite32 :: "'a ee_mem_scheme devs \<Rightarrow> u32 \<Rightarrow> u32 \<Rightarrow> 'a ee_mem_scheme \<Rightarrow> ('a ee_mem_scheme, unit) res" where
  "memWrite32 d = vtlb_write (devW32 d)"
definition memWrite64 :: "'a ee_mem_scheme devs \<Rightarrow> u32 \<Rightarrow> u64 \<Rightarrow> 'a ee_mem_scheme \<Rightarrow> ('a ee_mem_scheme, unit) res" where
  "memWrite64 d = vtlb_write (devW64 d)"
definition memWrite128 :: "'a ee_mem_scheme devs \<Rightarrow> u32 \<Rightarrow> u128 \<Rightarrow> 'a ee_mem_scheme \<Rightarrow> ('a ee_mem_scheme, unit) res" where
  "memWrite128 d = vtlb_write (devW128 d)"

lemmas mem_access_defs = memRead8_def memRead16_def memRead32_def memRead64_def memRead128_def
  memWrite8_def memWrite16_def memWrite32_def memWrite64_def memWrite128_def


section \<open>The Goemon hooks\<close>

text \<open>
  The game keeps a table of 150 mappings at offset 0x3d5580 of main memory; an entry is nine
  32 bit fields.
\<close>

definition goemon_entry :: "nat \<Rightarrow> 'a ee_mem_scheme \<Rightarrow> u64" where
  "goemon_entry i s = eeMem_Main s + 0x3d5580 + 36 * of_nat i"

definition goemon_field :: "nat \<Rightarrow> nat \<Rightarrow> 'a ee_mem_scheme \<Rightarrow> u32" where
  "goemon_field off i s = load_le 4 (hostmem s) (goemon_entry i s + of_nat off)"

definition set_goemon_field :: "nat \<Rightarrow> nat \<Rightarrow> u32 \<Rightarrow> 'a ee_mem_scheme \<Rightarrow> 'a ee_mem_scheme" where
  "set_goemon_field off i v s =
     s\<lparr>hostmem := store_le 4 (hostmem s) (goemon_entry i s + of_nat off) v\<rparr>"

abbreviation goemon_valid :: "nat \<Rightarrow> 'a ee_mem_scheme \<Rightarrow> u32" where "goemon_valid \<equiv> goemon_field 0"
abbreviation goemon_low_add :: "nat \<Rightarrow> 'a ee_mem_scheme \<Rightarrow> u32" where "goemon_low_add \<equiv> goemon_field 12"
abbreviation goemon_physical_add :: "nat \<Rightarrow> 'a ee_mem_scheme \<Rightarrow> u32" where "goemon_physical_add \<equiv> goemon_field 16"
abbreviation goemon_high_add :: "nat \<Rightarrow> 'a ee_mem_scheme \<Rightarrow> u32" where "goemon_high_add \<equiv> goemon_field 24"
abbreviation goemon_key :: "nat \<Rightarrow> 'a ee_mem_scheme \<Rightarrow> u32" where "goemon_key \<equiv> goemon_field 28"

definition GoemonPreload_entry :: "nat \<Rightarrow> 'a ee_mem_scheme \<Rightarrow> ('a ee_mem_scheme, unit) res" where
  "GoemonPreload_entry i s =
     (if goemon_valid i s = 1 \<and> goemon_low_add i s \<noteq> goemon_high_add i s
      then let sz = goemon_high_add i s - goemon_low_add i s;
               vaddr = goemon_low_add i s;
               paddr = goemon_physical_add i s;
               vmv = vmap s (vpage vaddr)
           in if isHandler vmv vaddr \<and> assumeHandlerGetID vmv = 0
              then res_bind (vtlb_VMap vaddr paddr sz s) (\<lambda>_ s1. vtlb_VMap (0x20000000 OR vaddr) paddr sz s1)
              else Ok () s
      else Ok () s)"

definition GoemonPreloadTlb :: "'a ee_mem_scheme \<Rightarrow> ('a ee_mem_scheme, unit) res" where
  "GoemonPreloadTlb = res_for GoemonPreload_entry [0..<150]"

definition GoemonUnload_entry :: "u32 \<Rightarrow> nat \<Rightarrow> 'a ee_mem_scheme \<Rightarrow> ('a ee_mem_scheme, unit) res" where
  "GoemonUnload_entry key i s =
     (if goemon_key i s = key \<and> goemon_valid i s = 1
      then let sz = goemon_high_add i s - goemon_low_add i s;
               vaddr = goemon_low_add i s
           in res_bind (vtlb_VMapUnmap vaddr sz s) (\<lambda>_ s1.
              res_bind (vtlb_VMapUnmap (0x20000000 OR vaddr) sz s1) (\<lambda>_ s2.
              Ok () (set_goemon_field 24 i 0xFEFEFEFE (set_goemon_field 12 i 0xFEFEFEFE
                      (set_goemon_field 28 i 0xFEFEFEFE (set_goemon_field 0 i 0 s2))))))
      else Ok () s)"

definition GoemonUnloadTlb :: "u32 \<Rightarrow> 'a ee_mem_scheme \<Rightarrow> ('a ee_mem_scheme, unit) res" where
  "GoemonUnloadTlb key = res_for (GoemonUnload_entry key) [0..<150]"


section \<open>What an access does\<close>

text \<open>An address that leads to host memory and does not go through the cache.\<close>

definition direct :: "u32 \<Rightarrow> 'a ee_mem_scheme \<Rightarrow> bool" where
  "direct addr s \<longleftrightarrow> \<not> isHandler (vmap s (vpage addr)) addr \<and> \<not> (CHECK_CACHE s \<and> CheckCache addr s)"

definition vbyte :: "'a ee_mem_scheme \<Rightarrow> u32 \<Rightarrow> u8" where
  "vbyte s addr = hostmem s (assumePtr (vmap s (vpage addr)) addr)"

lemma vtlb_read_direct:
  "direct addr s \<Longrightarrow> (vtlb_read dev addr s :: ('a ee_mem_scheme, 'w::len word) res) =
     Ok (load_le (LENGTH('w) div 8) (hostmem s) (assumePtr (vmap s (vpage addr)) addr)) s"
  by (auto simp: vtlb_read_def direct_def Let_def)

lemma vtlb_write_direct:
  "direct addr s \<Longrightarrow> vtlb_write dev addr (data :: 'w::len word) s =
     Ok () (s\<lparr>hostmem := store_le (LENGTH('w) div 8) (hostmem s) (assumePtr (vmap s (vpage addr)) addr) data\<rparr>)"
  by (auto simp: vtlb_write_def direct_def Let_def)

lemma direct_hostmem [simp]: "direct addr (s\<lparr>hostmem := m\<rparr>) = direct addr s"
  by (simp add: direct_def CheckCache_def)

text \<open>An aligned access stays in one page, so it reads the bytes at consecutive guest addresses.\<close>

lemma vpage_low:
  assumes "a AND (2 ^ e - 1) = (0 :: u32)" and "e \<le> 12" and "i < 2 ^ e"
  shows "vpage (a + of_nat i) = vpage a" and "(ucast (a + of_nat i) :: u64) = ucast a + of_nat i"
proof -
  have m: "(2 ^ e - 1 :: u32) = mask e" by (simp add: mask_eq_exp_minus_1)
  have ib: "\<not> bit i k" if "e \<le> k" for k
  proof -
    have "i < 2 ^ k" using assms(3) that by (meson less_le_trans one_le_numeral power_increasing)
    then show ?thesis by (simp add: bit_iff_odd)
  qed
  have ab: "\<not> bit a k" if "k < e" for k
  proof
    assume b: "bit a k"
    then have "k < 32" using bit_imp_le_length by fastforce
    with b that have "bit (a AND mask e) k" by (simp add: bit_simps)
    with assms(1) m show False by simp
  qed
  have "a AND of_nat i = 0"
  proof (rule bit_word_eqI)
    show "bit (a AND of_nat i) k = bit 0 k" for k
      using ib [of k] ab [of k] by (cases "k < e") (auto simp: bit_simps)
  qed
  then have o: "a + of_nat i = a OR of_nat i" by (rule disjunctive_add_eq_or)
  show "vpage (a + of_nat i) = vpage a"
    unfolding o vpage_def using assms(2) by (intro bit_word_eqI) (auto simp: bit_simps ib)
  have "(ucast a :: u64) AND of_nat i = 0"
  proof (rule bit_word_eqI)
    show "bit ((ucast a :: u64) AND of_nat i) k = bit 0 k" for k
      using ib [of k] ab [of k] by (cases "k < e") (auto simp: bit_simps)
  qed
  then have "(ucast a :: u64) + of_nat i = ucast a OR of_nat i" by (rule disjunctive_add_eq_or)
  also have "\<dots> = ucast (a OR of_nat i)"
  proof (rule bit_word_eqI)
    show "bit ((ucast a :: u64) OR of_nat i) k = bit (ucast (a OR of_nat i) :: u64) k" for k
      using ib [of k] assms(2) by (cases "k < e") (auto simp: bit_simps dest: bit_imp_le_length)
  qed
  finally show "(ucast (a + of_nat i) :: u64) = ucast a + of_nat i" by (simp only: o)
qed

lemma load_vbyte:
  assumes "a AND (2 ^ e - 1) = (0 :: u32)" and "e \<le> 12"
  shows "load_le (2 ^ e) (hostmem s) (assumePtr (vmap s (vpage a)) a) = load_le (2 ^ e) (vbyte s) a"
  by (rule load_le_cong) (simp add: vbyte_def assumePtr_def vpage_low [OF assms] add.assoc)

text \<open>The parts of the state a cached access leaves alone.\<close>

lemma cache_op_frame [frame_simps]:
  "vmap (wtag i w f s) = vmap s" "vmap (wdata i w dt s) = vmap s"
  "vmap (writeBackIfNeeded i w s) = vmap s" "vmap (line_load_ppf i w q s) = vmap s"
  "CP0 (wtag i w f s) = CP0 s" "CP0 (wdata i w dt s) = CP0 s"
  "CP0 (writeBackIfNeeded i w s) = CP0 s" "CP0 (line_load_ppf i w q s) = CP0 s"
  "tlb (wtag i w f s) = tlb s" "tlb (wdata i w dt s) = tlb s"
  "tlb (writeBackIfNeeded i w s) = tlb s" "tlb (line_load_ppf i w q s) = tlb s"
  "CHECK_CACHE (wtag i w f s) = CHECK_CACHE s" "CHECK_CACHE (wdata i w dt s) = CHECK_CACHE s"
  "CHECK_CACHE (writeBackIfNeeded i w s) = CHECK_CACHE s" "CHECK_CACHE (line_load_ppf i w q s) = CHECK_CACHE s"
  by (simp_all add: wtag_def wdata_def writeBackIfNeeded_def line_load_ppf_def)

lemma getFreeCache_frame:
  assumes "getFreeCache mem s = (i, w, s')"
  shows "vmap s' = vmap s" and "CP0 s' = CP0 s" and "tlb s' = tlb s" and "CHECK_CACHE s' = CHECK_CACHE s"
  using assms by (auto simp: getFreeCache_def Let_def frame_simps split: option.splits)

lemma writeCache_frame [frame_simps]:
  "vmap (writeCache mem v s) = vmap s" "CP0 (writeCache mem v s) = CP0 s"
  "tlb (writeCache mem v s) = tlb s" "CHECK_CACHE (writeCache mem v s) = CHECK_CACHE s"
proof -
  obtain i w s1 where "getFreeCache mem s = (i, w, s1)" by (metis prod_cases3)
  note g = this getFreeCache_frame [OF this]
  then show "vmap (writeCache mem v s) = vmap s" "CP0 (writeCache mem v s) = CP0 s"
    "tlb (writeCache mem v s) = tlb s" "CHECK_CACHE (writeCache mem v s) = CHECK_CACHE s"
    by (simp_all add: writeCache_def prepareCacheAccess_def Let_def frame_simps)
qed

text \<open>
  C3: what \<open>vtlb_memWrite\<close> stores at an address that is not a handler's is what \<open>vtlb_memRead\<close>
  returns from there, at every width, whether or not both go through the data cache.
\<close>

theorem vtlb_write_read:
  assumes "\<not> isHandler (vmap s (vpage addr)) addr"
    and "CHECK_CACHE s \<and> CheckCache addr s \<longrightarrow> cache_inv s \<and> page_congruent addr s"
    and "LENGTH('w::len) = 8 * 2 ^ e" and "e \<le> 6"
  shows "\<exists>s' s''. vtlb_write dw addr (v :: 'w word) s = Ok () s' \<and> vtlb_read dr addr s' = Ok v s''"
proof (cases "CHECK_CACHE s \<and> CheckCache addr s")
  case False
  with assms(1) have d: "direct addr s" by (auto simp: direct_def)
  have "8 * 2 ^ e div 8 \<le> (2 :: nat) ^ 6" using assms(4) power_increasing [of e 6 "2 :: nat"] by simp
  then show ?thesis
    using vtlb_write_direct [OF d, of dw v] assms(3) d
    by (simp add: vtlb_read_direct load_store_same)
next
  case True
  let ?s1 = "writeCache addr v s"
  have inv: "cache_inv s" and pc: "page_congruent addr s" using assms(2) True by auto
  note wr = writeCache_refines [OF inv pc assms(3,4), of v]
  have pc1: "page_congruent addr ?s1" and p1: "cache_ptr addr ?s1 = cache_ptr addr s"
    using pc by (simp_all add: page_congruent_def cache_ptr_def frame_simps)
  obtain x s2 where r: "(readCache addr ?s1 :: 'w word \<times> 'a ee_mem_scheme) = (x, s2)" by fastforce
  have "(2 :: nat) ^ e \<le> 2 ^ 6" using assms(4) by (rule power_increasing) simp
  then have "x = v"
    using readCache_refines(1) [OF wr(2) pc1 assms(3,4) r] assms(3)
    by (simp add: wr(1) p1 load_store_same)
  moreover have "CHECK_CACHE ?s1 \<and> CheckCache addr ?s1"
    using True by (simp add: CheckCache_def frame_simps)
  ultimately show ?thesis
    using assms(1) True r by (simp add: vtlb_write_def vtlb_read_def Let_def frame_simps)
qed

definition cached_example :: ee_mem where
  "cached_example = ee_mem0\<lparr>vmap := \<lambda>_. 0x10000000, CHECK_CACHE := True, CP0 := (\<lambda>_. 0)(cop0_Config := 0x10000),
     tlb := (tlb ee_mem0)[1 := (tlb ee_mem0 ! 1)\<lparr>tlb_EntryLo0 := 0x18, tlb_PageMask := 0x1fff\<rparr>]\<rparr>"

theorem vtlb_write_read_witness:
  "CHECK_CACHE cached_example \<and> CheckCache 0x104 cached_example \<and>
   (\<exists>s' s''. vtlb_write (\<lambda>_ _ _ s. Ok () s) 0x104 (0xDEADBEEF :: u32) cached_example = Ok () s'
      \<and> vtlb_read (\<lambda>_ _ s. Ok 0 s) 0x104 s' = Ok (0xDEADBEEF :: u32) s'')"
proof -
  have "CHECK_CACHE cached_example \<and> CheckCache 0x104 cached_example"
    by (auto simp: cached_example_def CheckCache_def ee_mem0_def list_ex_iff Let_def
        intro!: bexI [where x = "1 :: nat"])
  moreover have "\<not> isHandler (vmap cached_example (vpage 0x104)) 0x104"
    by (simp add: cached_example_def isHandler_def neg64_iff)
  moreover have "cache_inv cached_example"
    by (simp add: cached_example_def ee_mem0_def cache_inv_def tag_isValid_def)
  moreover have "page_congruent 0x104 cached_example"
    by (simp add: cached_example_def page_congruent_def cache_ptr_def assumePtr_def)
  ultimately show ?thesis
    using vtlb_write_read [of cached_example "0x104" 2 "\<lambda>_ _ _ s. Ok () s" "0xDEADBEEF :: u32" "\<lambda>_ _ s. Ok 0 s"]
    by simp
qed

end
