(* ===== verification/EE_LoadStore.thy ===== *)
theory EE_LoadStore
  imports MMI VtlbAccess
begin

text \<open>
  The loads and stores of pcsx2/R5900OpcodeImpl.cpp, with the tables of masks and shifts of
  the partial accesses.  The registers are read after the memory access where the source
  does so.
\<close>

unbundle bit_operations_syntax

text \<open>The effective address, \<open>cpuRegs.GPR.r[_Rs_].UL[0] + _Imm_\<close>.\<close>

definition ea :: "'a cpuRegisters_scheme \<Rightarrow> u32" where
  "ea s = rsL s + scast (Imm s)"

definition LB :: "'a ee_mem_scheme devs \<Rightarrow> 'a ee_mem_scheme \<Rightarrow> ('a ee_mem_scheme, unit) res" where
  "LB d s =
     (let addr = ea s
      in res_bind (memRead8 d addr s) (\<lambda>temp s1. Ok () (to_Rt (scast temp) s1)))"

definition LBU :: "'a ee_mem_scheme devs \<Rightarrow> 'a ee_mem_scheme \<Rightarrow> ('a ee_mem_scheme, unit) res" where
  "LBU d s =
     (let addr = ea s
      in res_bind (memRead8 d addr s) (\<lambda>temp s1. Ok () (to_Rt (ucast temp) s1)))"

definition LH :: "'a ee_mem_scheme devs \<Rightarrow> 'a ee_mem_scheme \<Rightarrow> ('a ee_mem_scheme, unit) res" where
  "LH d s =
     (let addr = ea s
      in if addr AND 1 \<noteq> 0 then Throw (AddressError addr False) s else
         res_bind (memRead16 d addr s) (\<lambda>temp s1. Ok () (to_Rt (scast temp) s1)))"

definition LHU :: "'a ee_mem_scheme devs \<Rightarrow> 'a ee_mem_scheme \<Rightarrow> ('a ee_mem_scheme, unit) res" where
  "LHU d s =
     (let addr = ea s
      in if addr AND 1 \<noteq> 0 then Throw (AddressError addr False) s else
         res_bind (memRead16 d addr s) (\<lambda>temp s1. Ok () (to_Rt (ucast temp) s1)))"

definition LW :: "'a ee_mem_scheme devs \<Rightarrow> 'a ee_mem_scheme \<Rightarrow> ('a ee_mem_scheme, unit) res" where
  "LW d s =
     (let addr = ea s
      in if addr AND 3 \<noteq> 0 then Throw (AddressError addr False) s else
         res_bind (memRead32 d addr s) (\<lambda>temp s1. Ok () (to_Rt (scast temp) s1)))"

definition LWU :: "'a ee_mem_scheme devs \<Rightarrow> 'a ee_mem_scheme \<Rightarrow> ('a ee_mem_scheme, unit) res" where
  "LWU d s =
     (let addr = ea s
      in if addr AND 3 \<noteq> 0 then Throw (AddressError addr False) s else
         res_bind (memRead32 d addr s) (\<lambda>temp s1. Ok () (to_Rt (ucast temp) s1)))"

definition LWL_MASK :: "u32 list" where
  "LWL_MASK = [0xffffff, 0x0000ffff, 0x000000ff, 0x00000000]"

definition LWR_MASK :: "u32 list" where
  "LWR_MASK = [0x000000, 0xff000000, 0xffff0000, 0xffffff00]"

definition LWL_SHIFT :: "nat list" where
  "LWL_SHIFT = [24, 16, 8, 0]"

definition LWR_SHIFT :: "nat list" where
  "LWR_SHIFT = [0, 8, 16, 24]"

definition LWL :: "'a ee_mem_scheme devs \<Rightarrow> 'a ee_mem_scheme \<Rightarrow> ('a ee_mem_scheme, unit) res" where
  "LWL d s =
     (let addr = ea s; shift = unat (addr AND 3)
      in res_bind (memRead32 d (addr AND NOT 3) s) (\<lambda>mem s1.
         Ok () (to_Rt (scast ((rtL s1 AND LWL_MASK ! shift) OR push_bit (LWL_SHIFT ! shift) mem)) s1)))"

definition LWR :: "'a ee_mem_scheme devs \<Rightarrow> 'a ee_mem_scheme \<Rightarrow> ('a ee_mem_scheme, unit) res" where
  "LWR d s =
     (let addr = ea s; shift = unat (addr AND 3)
      in res_bind (memRead32 d (addr AND NOT 3) s) (\<lambda>mem0 s1.
         Ok () (if Rt s1 = 0 then s1 else
           let mem = (rtL s1 AND LWR_MASK ! shift) OR drop_bit (LWR_SHIFT ! shift) mem0
           in if shift = 0 then wUD (Rt s1) 0 (scast mem) s1 else wUL (Rt s1) 0 mem s1)))"

text \<open>A load into register 0 goes to a dummy, \<open>m_dummy_gpr_zero\<close>, which nothing reads.\<close>

definition LD :: "'a ee_mem_scheme devs \<Rightarrow> 'a ee_mem_scheme \<Rightarrow> ('a ee_mem_scheme, unit) res" where
  "LD d s =
     (let addr = ea s
      in if addr AND 7 \<noteq> 0 then Throw (AddressError addr False) s else
         res_bind (memRead64 d addr s) (\<lambda>v s1. Ok () (to_Rt v s1)))"

definition LDL_MASK :: "u64 list" where
  "LDL_MASK = [0x00ffffffffffffff, 0x0000ffffffffffff, 0x000000ffffffffff, 0x00000000ffffffff, 0x0000000000ffffff, 0x000000000000ffff, 0x00000000000000ff, 0x0000000000000000]"

definition LDR_MASK :: "u64 list" where
  "LDR_MASK = [0x0000000000000000, 0xff00000000000000, 0xffff000000000000, 0xffffff0000000000, 0xffffffff00000000, 0xffffffffff000000, 0xffffffffffff0000, 0xffffffffffffff00]"

definition LDR_SHIFT :: "nat list" where
  "LDR_SHIFT = [0, 8, 16, 24, 32, 40, 48, 56]"

definition LDL_SHIFT :: "nat list" where
  "LDL_SHIFT = [56, 48, 40, 32, 24, 16, 8, 0]"

definition LDL :: "'a ee_mem_scheme devs \<Rightarrow> 'a ee_mem_scheme \<Rightarrow> ('a ee_mem_scheme, unit) res" where
  "LDL d s =
     (let addr = ea s; shift = unat (addr AND 7)
      in res_bind (memRead64 d (addr AND NOT 7) s) (\<lambda>mem s1.
         Ok () (to_Rt ((rtD s1 AND LDL_MASK ! shift) OR push_bit (LDL_SHIFT ! shift) mem) s1)))"

definition LDR :: "'a ee_mem_scheme devs \<Rightarrow> 'a ee_mem_scheme \<Rightarrow> ('a ee_mem_scheme, unit) res" where
  "LDR d s =
     (let addr = ea s; shift = unat (addr AND 7)
      in res_bind (memRead64 d (addr AND NOT 7) s) (\<lambda>mem s1.
         Ok () (to_Rt ((rtD s1 AND LDR_MASK ! shift) OR drop_bit (LDR_SHIFT ! shift) mem) s1)))"

definition LQ :: "'a ee_mem_scheme devs \<Rightarrow> 'a ee_mem_scheme \<Rightarrow> ('a ee_mem_scheme, unit) res" where
  "LQ d s =
     res_bind (memRead128 d (ea s AND NOT 0xf) s) (\<lambda>v s1.
       Ok () (if Rt s1 = 0 then s1 else wGPR (Rt s1) v s1))"

definition SB :: "'a ee_mem_scheme devs \<Rightarrow> 'a ee_mem_scheme \<Rightarrow> ('a ee_mem_scheme, unit) res" where
  "SB d s =
     (let addr = ea s
      in memWrite8 d addr (UC (GPR s (Rt s)) 0) s)"

definition SH :: "'a ee_mem_scheme devs \<Rightarrow> 'a ee_mem_scheme \<Rightarrow> ('a ee_mem_scheme, unit) res" where
  "SH d s =
     (let addr = ea s
      in if addr AND 1 \<noteq> 0 then Throw (AddressError addr True) s else
         memWrite16 d addr (US (GPR s (Rt s)) 0) s)"

definition SW :: "'a ee_mem_scheme devs \<Rightarrow> 'a ee_mem_scheme \<Rightarrow> ('a ee_mem_scheme, unit) res" where
  "SW d s =
     (let addr = ea s
      in if addr AND 3 \<noteq> 0 then Throw (AddressError addr True) s else
         memWrite32 d addr (rtL s) s)"

definition SWL_MASK :: "u32 list" where
  "SWL_MASK = [0xffffff00, 0xffff0000, 0xff000000, 0x00000000]"

definition SWR_MASK :: "u32 list" where
  "SWR_MASK = [0x00000000, 0x000000ff, 0x0000ffff, 0x00ffffff]"

definition SWR_SHIFT :: "nat list" where
  "SWR_SHIFT = [0, 8, 16, 24]"

definition SWL_SHIFT :: "nat list" where
  "SWL_SHIFT = [24, 16, 8, 0]"

definition SWL :: "'a ee_mem_scheme devs \<Rightarrow> 'a ee_mem_scheme \<Rightarrow> ('a ee_mem_scheme, unit) res" where
  "SWL d s =
     (let addr = ea s; shift = unat (addr AND 3)
      in res_bind (memRead32 d (addr AND NOT 3) s) (\<lambda>mem s1.
         memWrite32 d (addr AND NOT 3) (drop_bit (SWL_SHIFT ! shift) (rtL s1) OR (mem AND SWL_MASK ! shift)) s1))"

definition SWR :: "'a ee_mem_scheme devs \<Rightarrow> 'a ee_mem_scheme \<Rightarrow> ('a ee_mem_scheme, unit) res" where
  "SWR d s =
     (let addr = ea s; shift = unat (addr AND 3)
      in res_bind (memRead32 d (addr AND NOT 3) s) (\<lambda>mem s1.
         memWrite32 d (addr AND NOT 3) (push_bit (SWR_SHIFT ! shift) (rtL s1) OR (mem AND SWR_MASK ! shift)) s1))"

definition SD :: "'a ee_mem_scheme devs \<Rightarrow> 'a ee_mem_scheme \<Rightarrow> ('a ee_mem_scheme, unit) res" where
  "SD d s =
     (let addr = ea s
      in if addr AND 7 \<noteq> 0 then Throw (AddressError addr True) s else
         memWrite64 d addr (rtD s) s)"

definition SDL_MASK :: "u64 list" where
  "SDL_MASK = [0xffffffffffffff00, 0xffffffffffff0000, 0xffffffffff000000, 0xffffffff00000000, 0xffffff0000000000, 0xffff000000000000, 0xff00000000000000, 0x0000000000000000]"

definition SDR_MASK :: "u64 list" where
  "SDR_MASK = [0x0000000000000000, 0x00000000000000ff, 0x000000000000ffff, 0x0000000000ffffff, 0x00000000ffffffff, 0x000000ffffffffff, 0x0000ffffffffffff, 0x00ffffffffffffff]"

definition SDL_SHIFT :: "nat list" where
  "SDL_SHIFT = [56, 48, 40, 32, 24, 16, 8, 0]"

definition SDR_SHIFT :: "nat list" where
  "SDR_SHIFT = [0, 8, 16, 24, 32, 40, 48, 56]"

definition SDL :: "'a ee_mem_scheme devs \<Rightarrow> 'a ee_mem_scheme \<Rightarrow> ('a ee_mem_scheme, unit) res" where
  "SDL d s =
     (let addr = ea s; shift = unat (addr AND 7)
      in res_bind (memRead64 d (addr AND NOT 7) s) (\<lambda>mem s1.
         memWrite64 d (addr AND NOT 7) (drop_bit (SDL_SHIFT ! shift) (rtD s1) OR (mem AND SDL_MASK ! shift)) s1))"

definition SDR :: "'a ee_mem_scheme devs \<Rightarrow> 'a ee_mem_scheme \<Rightarrow> ('a ee_mem_scheme, unit) res" where
  "SDR d s =
     (let addr = ea s; shift = unat (addr AND 7)
      in res_bind (memRead64 d (addr AND NOT 7) s) (\<lambda>mem s1.
         memWrite64 d (addr AND NOT 7) (push_bit (SDR_SHIFT ! shift) (rtD s1) OR (mem AND SDR_MASK ! shift)) s1))"

definition SQ :: "'a ee_mem_scheme devs \<Rightarrow> 'a ee_mem_scheme \<Rightarrow> ('a ee_mem_scheme, unit) res" where
  "SQ d s = memWrite128 d (ea s AND NOT 0xf) (GPR s (Rt s)) s"

end
