(* ===== verification/COP0.thy ===== *)
theory COP0
  imports EE_LoadStore
begin

text \<open>
  The system control coprocessor of pcsx2/COP0.cpp: the performance counters, the TLB and
  how its entries are mapped into the virtual space, moves to and from the coprocessor and
  the return from an exception.

  An index beyond the 48 entries of \<open>tlb\<close>, which the instructions can form, is an access
  outside the array.  \<open>Cpu->Clear\<close> does nothing in the interpreter.
\<close>

unbundle bit_operations_syntax

section \<open>State\<close>

text \<open>
  \<open>eeHw\<close> is the page of hardware registers, as 32 bit words: the coprocessor's branch
  condition reads the DMA controller's there.  The rest belongs to \<open>COP0.cpp\<close> and
  \<open>Interpreter.cpp\<close>.
\<close>

record ee_cpu = ee_mem +
  s_iLastCOP0Cycle :: u32
  s_iLastPERFCycle0 :: u32
  s_iLastPERFCycle1 :: u32
  eeHw :: "14 word \<Rightarrow> u32"
  branch2 :: u32
  cpuBlockCycles :: u32
  intExitExecution :: bool

text \<open>The register at an address: \<open>psHu32\<close> of Memory.h, and a store to it.\<close>

definition psHu32 :: "u32 \<Rightarrow> 'a ee_cpu_scheme \<Rightarrow> u32" where
  "psHu32 mem s = eeHw s (ucast (drop_bit 2 mem))"
definition wHu32 :: "u32 \<Rightarrow> u32 \<Rightarrow> 'a ee_cpu_scheme \<Rightarrow> 'a ee_cpu_scheme" where
  "wHu32 mem v s = s\<lparr>eeHw := (eeHw s)(ucast (drop_bit 2 mem) := v)\<rparr>"

abbreviation DMAC_CTRL :: u32 where "DMAC_CTRL \<equiv> 0x1000E000"
abbreviation DMAC_STAT :: u32 where "DMAC_STAT \<equiv> 0x1000E010"
abbreviation DMAC_PCR :: u32 where "DMAC_PCR \<equiv> 0x1000E020"

section \<open>Status, Config and the performance counters\<close>

definition WriteCP0Status :: "u32 \<Rightarrow> 'a cpuRegisters_scheme \<Rightarrow> 'a cpuRegisters_scheme" where
  "WriteCP0Status value s = cpuSetNextEventDelta 4 (wCP0 cop0_Status value s)"

definition WriteCP0Config :: "u32 \<Rightarrow> 'a cpuRegisters_scheme \<Rightarrow> 'a cpuRegisters_scheme" where
  "WriteCP0Config value s =
     (let s1 = wCP0 cop0_Config (value AND NOT 0xFC0) s
      in wCP0 cop0_Config (CP0 s1 cop0_Config OR 0x440) s1)"

definition PERF_ShouldCountEvent :: "nat \<Rightarrow> bool" where
  "PERF_ShouldCountEvent evt \<longleftrightarrow> evt \<in> {1, 2, 3, 12, 13, 14, 15}"

definition pccr_Event0 :: "'a cpuRegisters_scheme \<Rightarrow> nat" where
  "pccr_Event0 s = unat (drop_bit 5 (pccr s) AND 0x1F)"
definition pccr_Event1 :: "'a cpuRegisters_scheme \<Rightarrow> nat" where
  "pccr_Event1 s = unat (drop_bit 15 (pccr s) AND 0x1F)"
definition pccr_CTE :: "'a cpuRegisters_scheme \<Rightarrow> bool" where
  "pccr_CTE s = bit (pccr s) 31"

definition UpdatePCR0 :: "'a ee_cpu_scheme \<Rightarrow> 'a ee_cpu_scheme" where
  "UpdatePCR0 s =
     (if pccr s AND (push_bit (Status_KSU s + 2) 1 OR push_bit 1 (of_bool (Status_EXL s))) \<noteq> 0
         \<and> PERF_ShouldCountEvent (pccr_Event0 s)
      then let incr = (if cycle s - s_iLastPERFCycle0 s = 0 then 1 else cycle s - s_iLastPERFCycle0 s)
           in s\<lparr>pcr0 := pcr0 s + incr, s_iLastPERFCycle0 := cycle s\<rparr>
      else s)"

definition UpdatePCR1 :: "'a ee_cpu_scheme \<Rightarrow> 'a ee_cpu_scheme" where
  "UpdatePCR1 s =
     (if pccr s AND (push_bit (Status_KSU s + 12) 1 OR push_bit 11 (of_bool (Status_EXL s))) \<noteq> 0
         \<and> PERF_ShouldCountEvent (pccr_Event1 s)
      then let incr = (if cycle s - s_iLastPERFCycle1 s = 0 then 1 else cycle s - s_iLastPERFCycle1 s)
           in s\<lparr>pcr1 := pcr1 s + incr, s_iLastPERFCycle1 := cycle s\<rparr>
      else s)"

definition COP0_UpdatePCCR :: "'a ee_cpu_scheme \<Rightarrow> 'a ee_cpu_scheme" where
  "COP0_UpdatePCCR s =
     (if Status_ERL s \<or> \<not> pccr_CTE s
      then s\<lparr>s_iLastPERFCycle0 := cycle s, s_iLastPERFCycle1 := cycle s\<rparr>
      else UpdatePCR1 (UpdatePCR0 s))"

section \<open>The TLB\<close>

abbreviation Ps2MemSize_Scratch :: u32 where "Ps2MemSize_Scratch \<equiv> 0x4000"

definition set_tlb :: "nat \<Rightarrow> tlbs \<Rightarrow> 'a ee_mem_scheme \<Rightarrow> 'a ee_mem_scheme" where
  "set_tlb i t s = s\<lparr>tlb := (tlb s)[i := t]\<rparr>"

text \<open>One half of an entry: the pages \<open>saddr\<close> to \<open>saddr + Mask\<close>.\<close>

definition MapTLB_half :: "tlbs \<Rightarrow> u32 \<Rightarrow> u32 \<Rightarrow> 'a ee_mem_scheme \<Rightarrow> ('a ee_mem_scheme, unit) res" where
  "MapTLB_half t saddr pfn =
     (let m = push_bit 1 (NOT (tlb_Mask t)) AND 0xfffff
      in res_for (\<lambda>k s. let addr = saddr + of_nat k
           in if addr AND m = drop_bit 12 (tlb_VPN2 t) AND m
              then memSetPageAddr (push_bit 12 addr) (pfn + push_bit 12 (addr - saddr)) s
              else Ok () s)
         [0..<unat (tlb_Mask t + 1)])"

definition MapTLB :: "nat \<Rightarrow> 'a ee_mem_scheme \<Rightarrow> ('a ee_mem_scheme, unit) res" where
  "MapTLB i s =
     (let t = tlb s ! i
      in res_bind (if tlb_S t \<noteq> 0 then vtlb_VMapBuffer (tlb_VPN2 t) (eeMem_Scratch s) Ps2MemSize_Scratch s else Ok () s) (\<lambda>_ s1.
         if tlb_VPN2 t = 0x70000000 then Ok () s1
         else res_bind (if tlb_EntryLo0 t AND 2 \<noteq> 0
                        then MapTLB_half t (drop_bit 12 (tlb_VPN2 t)) (tlb_PFN0 t) s1 else Ok () s1) (\<lambda>_ s2.
              if tlb_EntryLo1 t AND 2 \<noteq> 0
              then MapTLB_half t (drop_bit 12 (tlb_VPN2 t) + tlb_Mask t + 1) (tlb_PFN1 t) s2 else Ok () s2)))"

definition UnmapTLB_half :: "tlbs \<Rightarrow> u32 \<Rightarrow> 'a ee_mem_scheme \<Rightarrow> ('a ee_mem_scheme, unit) res" where
  "UnmapTLB_half t saddr =
     (let m = push_bit 1 (NOT (tlb_Mask t)) AND 0xfffff
      in res_for (\<lambda>k s. let addr = saddr + of_nat k
           in if addr AND m = drop_bit 12 (tlb_VPN2 t) AND m
              then memClearPageAddr (push_bit 12 addr) s
              else Ok () s)
         [0..<unat (tlb_Mask t + 1)])"

definition UnmapTLB :: "nat \<Rightarrow> 'a ee_mem_scheme \<Rightarrow> ('a ee_mem_scheme, unit) res" where
  "UnmapTLB i s =
     (let t = tlb s ! i
      in if tlb_S t \<noteq> 0 then vtlb_VMapUnmap (tlb_VPN2 t) 0x4000 s
         else res_bind (if tlb_EntryLo0 t AND 2 \<noteq> 0
                        then UnmapTLB_half t (drop_bit 12 (tlb_VPN2 t)) s else Ok () s) (\<lambda>_ s1.
              if tlb_EntryLo1 t AND 2 \<noteq> 0
              then UnmapTLB_half t (drop_bit 12 (tlb_VPN2 t) + tlb_Mask t + 1) s1 else Ok () s1))"

definition TLB_entry :: "'a cpuRegisters_scheme \<Rightarrow> tlbs" where
  "TLB_entry s =
     (let mask = drop_bit 13 (CP0 s cop0_PageMask) AND 0xfff
      in \<lparr>tlb_PageMask = CP0 s cop0_PageMask, tlb_EntryHi = CP0 s cop0_EntryHi,
          tlb_EntryLo0 = CP0 s cop0_EntryLo0, tlb_EntryLo1 = CP0 s cop0_EntryLo1,
          tlb_Mask = mask, tlb_nMask = NOT mask AND 0xfff,
          tlb_G = CP0 s cop0_EntryLo0 AND CP0 s cop0_EntryLo1 AND 1,
          tlb_ASID = CP0 s cop0_EntryHi AND 0xfff,
          tlb_VPN2 = push_bit 13 (drop_bit 13 (CP0 s cop0_EntryHi) AND NOT mask),
          tlb_PFN0 = push_bit 12 ((drop_bit 6 (CP0 s cop0_EntryLo0) AND 0xFFFFF) AND NOT mask),
          tlb_PFN1 = push_bit 12 ((drop_bit 6 (CP0 s cop0_EntryLo1) AND 0xFFFFF) AND NOT mask),
          tlb_S = CP0 s cop0_EntryLo0 AND 0x80000000\<rparr>)"

definition WriteTLB :: "nat \<Rightarrow> 'a ee_mem_scheme \<Rightarrow> ('a ee_mem_scheme, unit) res" where
  "WriteTLB i s = MapTLB i (set_tlb i (TLB_entry s) s)"

definition TLBR :: "'a ee_mem_scheme \<Rightarrow> ('a ee_mem_scheme, unit) res" where
  "TLBR s =
     (let i = unat (CP0 s cop0_Index AND 0x3f); t = tlb s ! i
      in if length (tlb s) \<le> i then Throw ArrayBounds s
         else Ok ()
           (wCP0 cop0_EntryLo1 ((tlb_EntryLo1 t AND NOT 1) OR (drop_bit 12 (tlb_EntryHi t) AND 1))
           (wCP0 cop0_EntryLo0 ((tlb_EntryLo0 t AND NOT 1) OR (drop_bit 12 (tlb_EntryHi t) AND 1))
           (wCP0 cop0_EntryHi (tlb_EntryHi t AND NOT (tlb_PageMask t OR 0x1f00))
           (wCP0 cop0_PageMask (tlb_PageMask t) s)))))"

text \<open>
  \<open>TLBWI\<close> and \<open>TLBWR\<close>: the entry is unmapped, the four registers are stored, and
  \<open>WriteTLB\<close> fills the entry and maps it.
\<close>

definition TLB_write :: "nat \<Rightarrow> 'a ee_mem_scheme \<Rightarrow> ('a ee_mem_scheme, unit) res" where
  "TLB_write j s =
     (if length (tlb s) \<le> j then Throw ArrayBounds s
      else res_bind (UnmapTLB j s) (\<lambda>_ s1.
        WriteTLB j (set_tlb j ((tlb s1 ! j)\<lparr>tlb_PageMask := CP0 s1 cop0_PageMask,
          tlb_EntryHi := CP0 s1 cop0_EntryHi, tlb_EntryLo0 := CP0 s1 cop0_EntryLo0,
          tlb_EntryLo1 := CP0 s1 cop0_EntryLo1\<rparr>) s1)))"

definition TLBWI :: "'a ee_mem_scheme \<Rightarrow> ('a ee_mem_scheme, unit) res" where
  "TLBWI s = TLB_write (unat (CP0 s cop0_Index AND 0x3f)) s"

definition TLBWR :: "'a ee_mem_scheme \<Rightarrow> ('a ee_mem_scheme, unit) res" where
  "TLBWR s = TLB_write (unat (CP0 s cop0_Random AND 0x3f)) s"

text \<open>\<open>EntryHi32\<close> as the compiler lays it out: \<open>VPN2\<close> is the low 19 bits, \<open>ASID\<close> the high 8.\<close>

definition TLBP_match :: "u32 \<Rightarrow> tlbs \<Rightarrow> bool" where
  "TLBP_match EntryHi32 t \<longleftrightarrow>
     tlb_VPN2 t = NOT (tlb_Mask t) AND (EntryHi32 AND 0x7FFFF) \<and>
     (tlb_G t AND 1 \<noteq> 0 \<or> tlb_ASID t AND 0xff = drop_bit 24 EntryHi32)"

definition TLBP :: "'a ee_mem_scheme \<Rightarrow> 'a ee_mem_scheme" where
  "TLBP s =
     (case find (\<lambda>i. TLBP_match (CP0 s cop0_EntryHi) (tlb s ! i)) [0..<48] of
        Some i \<Rightarrow> wCP0 cop0_Index (of_nat i) s
      | None \<Rightarrow> wCP0 cop0_Index 0x80000000 s)"

section \<open>Moves\<close>

definition MFC0 :: "'a ee_cpu_scheme \<Rightarrow> 'a ee_cpu_scheme" where
  "MFC0 s =
     (if Rd s \<noteq> 9 \<and> Rt s = 0 then s
      else if Rd s = 12 then wUD (Rt s) 0 (scast (CP0 s (Rd s) AND 0xf0c79c1f)) s
      else if Rd s = 25 then
        (if Imm s AND 1 = 0 then wUD (Rt s) 0 (scast (pccr s)) s
         else if Imm s AND 2 = 0 then
           (let s1 = COP0_UpdatePCCR s in wUD (Rt s1) 0 (scast (pcr0 s1)) s1)
         else (let s1 = COP0_UpdatePCCR s in wUD (Rt s1) 0 (scast (pcr1 s1)) s1))
      else if Rd s = 24 then s
      else if Rd s = 9 then
        (let incr = (if cycle s - s_iLastCOP0Cycle s = 0 then 1 else cycle s - s_iLastCOP0Cycle s);
             s1 = (wCP0 cop0_Count (CP0 s cop0_Count + incr) s)\<lparr>s_iLastCOP0Cycle := cycle s\<rparr>
         in if Rt s1 = 0 then s1 else wUD (Rt s1) 0 (ucast (CP0 s1 (Rd s1))) s1)
      else wUD (Rt s) 0 (ucast (CP0 s (Rd s))) s)"

definition MTC0 :: "'a ee_cpu_scheme \<Rightarrow> 'a ee_cpu_scheme" where
  "MTC0 s =
     (if Rd s = 9 then wCP0 9 (rtL s) (s\<lparr>s_iLastCOP0Cycle := cycle s\<rparr>)
      else if Rd s = 12 then WriteCP0Status (rtL s) s
      else if Rd s = 16 then WriteCP0Config (rtL s) s
      else if Rd s = 24 then s
      else if Rd s = 25 then
        (if Imm s AND 1 = 0 then
           (if Imm s AND 0x3E \<noteq> 0 then s
            else (let s1 = COP0_UpdatePCCR s in s1\<lparr>pccr := rtL s1\<rparr>))
         else if Imm s AND 2 = 0 then s\<lparr>pcr0 := rtL s, s_iLastPERFCycle0 := cycle s\<rparr>
         else s\<lparr>pcr1 := rtL s, s_iLastPERFCycle1 := cycle s\<rparr>)
      else wCP0 (Rd s) (rtL s) s)"

definition CPCOND0 :: "'a ee_cpu_scheme \<Rightarrow> bool" where
  "CPCOND0 s \<longleftrightarrow>
     ((psHu32 DMAC_STAT s AND 0x3FF) OR NOT (psHu32 DMAC_PCR s AND 0x3FF)) AND 0x3FF = 0x3ff"

section \<open>Exception return and the interrupt enable\<close>

definition intSetBranch :: "'a ee_cpu_scheme \<Rightarrow> 'a ee_cpu_scheme" where
  "intSetBranch s = s\<lparr>branch2 := 1\<rparr>"

definition ERET :: "'a ee_cpu_scheme \<Rightarrow> 'a ee_cpu_scheme" where
  "ERET s =
     (let s1 = (if Status_ERL s
                then wCP0 cop0_Status (unset_bit 2 (CP0 s cop0_Status)) (s\<lparr>pc := CP0 s cop0_ErrorEPC\<rparr>)
                else wCP0 cop0_Status (unset_bit 1 (CP0 s cop0_Status)) (s\<lparr>pc := CP0 s cop0_EPC\<rparr>))
      in intSetBranch (cpuSetNextEventDelta 4 s1))"

definition int_mode :: "'a cpuRegisters_scheme \<Rightarrow> bool" where
  "int_mode s \<longleftrightarrow> Status_EDI s \<or> Status_EXL s \<or> Status_ERL s \<or> Status_KSU s = 0"

definition DI :: "'a cpuRegisters_scheme \<Rightarrow> 'a cpuRegisters_scheme" where
  "DI s = (if int_mode s then wCP0 cop0_Status (unset_bit 16 (CP0 s cop0_Status)) s else s)"

definition EI :: "'a cpuRegisters_scheme \<Rightarrow> 'a cpuRegisters_scheme" where
  "EI s = (if int_mode s
     then cpuSetNextEventDelta 4 (wCP0 cop0_Status (set_bit 16 (CP0 s cop0_Status)) s) else s)"

end
