(* ===== verification/EE_FPU.thy ===== *)
theory EE_FPU
  imports COP0
begin

text \<open>
  The floating point coprocessor of pcsx2/FPU.cpp.  Registers are the 32 bit patterns of
  the union \<open>FPRreg\<close>.

  The arithmetic of the host's \<open>float\<close>, whose rounding and treatment of denormals depend
  on the control word the emulator was configured with, is a parameter: a \<open>hostfpu\<close> gives
  each operator on bit patterns.  What the file itself does (clamping infinities, flushing
  denormals, division by zero, the flags) is defined here.
\<close>

unbundle bit_operations_syntax

record ee_fpu = ee_cpu +
  fpr :: "reg \<Rightarrow> u32"
  fprc :: "5 word \<Rightarrow> u32"
  FACC :: u32

record hostfpu =
  f_add :: "u32 \<Rightarrow> u32 \<Rightarrow> u32"
  f_sub :: "u32 \<Rightarrow> u32 \<Rightarrow> u32"
  f_mul :: "u32 \<Rightarrow> u32 \<Rightarrow> u32"
  f_div :: "u32 \<Rightarrow> u32 \<Rightarrow> u32"
  f_sqrt :: "u32 \<Rightarrow> u32"
  f_eq :: "u32 \<Rightarrow> u32 \<Rightarrow> bool"
  f_lt :: "u32 \<Rightarrow> u32 \<Rightarrow> bool"
  f_le :: "u32 \<Rightarrow> u32 \<Rightarrow> bool"
  s32_to_f :: "u32 \<Rightarrow> u32"
  f_to_s32 :: "u32 \<Rightarrow> u32"

section \<open>Operands, flags and the checks on results\<close>

definition Ft :: "'a cpuRegisters_scheme \<Rightarrow> reg" where
  "Ft s = ucast (drop_bit 16 (code s) AND 0x1F)"
definition Fs :: "'a cpuRegisters_scheme \<Rightarrow> reg" where
  "Fs s = ucast (drop_bit 11 (code s) AND 0x1F)"
definition Fd :: "'a cpuRegisters_scheme \<Rightarrow> reg" where
  "Fd s = ucast (drop_bit 6 (code s) AND 0x1F)"

abbreviation FtVal :: "'a ee_fpu_scheme \<Rightarrow> u32" where "FtVal s \<equiv> fpr s (Ft s)"
abbreviation FsVal :: "'a ee_fpu_scheme \<Rightarrow> u32" where "FsVal s \<equiv> fpr s (Fs s)"
abbreviation ContVal :: "'a ee_fpu_scheme \<Rightarrow> u32" where "ContVal s \<equiv> fprc s 31"

abbreviation PosInfinity :: u32 where "PosInfinity \<equiv> 0x7f800000"
abbreviation posFmax :: u32 where "posFmax \<equiv> 0x7F7FFFFF"
abbreviation FPUflagC :: u32 where "FPUflagC \<equiv> 0x00800000"
abbreviation FPUflagI :: u32 where "FPUflagI \<equiv> 0x00020000"
abbreviation FPUflagD :: u32 where "FPUflagD \<equiv> 0x00010000"
abbreviation FPUflagO :: u32 where "FPUflagO \<equiv> 0x00008000"
abbreviation FPUflagU :: u32 where "FPUflagU \<equiv> 0x00004000"
abbreviation FPUflagSI :: u32 where "FPUflagSI \<equiv> 0x00000040"
abbreviation FPUflagSD :: u32 where "FPUflagSD \<equiv> 0x00000020"
abbreviation FPUflagSO :: u32 where "FPUflagSO \<equiv> 0x00000010"
abbreviation FPUflagSU :: u32 where "FPUflagSU \<equiv> 0x00000008"

definition wFPR :: "reg \<Rightarrow> u32 \<Rightarrow> 'a ee_fpu_scheme \<Rightarrow> 'a ee_fpu_scheme" where
  [ee_defs]: "wFPR r v s = s\<lparr>fpr := (fpr s)(r := v)\<rparr>"
definition wFd :: "u32 \<Rightarrow> 'a ee_fpu_scheme \<Rightarrow> 'a ee_fpu_scheme" where
  [ee_defs]: "wFd v s = wFPR (Fd s) v s"
definition wFA :: "u32 \<Rightarrow> 'a ee_fpu_scheme \<Rightarrow> 'a ee_fpu_scheme" where
  [ee_defs]: "wFA v s = s\<lparr>FACC := v\<rparr>"

definition setFPUFlags :: "u32 \<Rightarrow> 'a ee_fpu_scheme \<Rightarrow> 'a ee_fpu_scheme" where
  [ee_defs]: "setFPUFlags f s = s\<lparr>fprc := (fprc s)(31 := ContVal s OR f)\<rparr>"
definition clearFPUFlags :: "u32 \<Rightarrow> 'a ee_fpu_scheme \<Rightarrow> 'a ee_fpu_scheme" where
  [ee_defs]: "clearFPUFlags f s = s\<lparr>fprc := (fprc s)(31 := ContVal s AND NOT f)\<rparr>"

text \<open>The checks return the verdict, the new value of the register they were passed, and the state.\<close>

definition checkOverflow ::
  "u32 \<Rightarrow> u32 \<Rightarrow> 'a ee_fpu_scheme \<Rightarrow> bool \<times> u32 \<times> 'a ee_fpu_scheme" where
  "checkOverflow xReg f s =
     (if xReg AND NOT 0x80000000 = PosInfinity
      then (True, (xReg AND 0x80000000) OR posFmax, setFPUFlags f s)
      else (False, xReg, s))"

definition checkUnderflow ::
  "u32 \<Rightarrow> u32 \<Rightarrow> 'a ee_fpu_scheme \<Rightarrow> bool \<times> u32 \<times> 'a ee_fpu_scheme" where
  "checkUnderflow xReg f s =
     (if xReg AND 0x7F800000 = 0 \<and> xReg AND 0x007FFFFF \<noteq> 0
      then (True, xReg AND 0x80000000, setFPUFlags f s)
      else (False, xReg, s))"

definition checkDivideByZero ::
  "u32 \<Rightarrow> u32 \<Rightarrow> u32 \<Rightarrow> u32 \<Rightarrow> u32 \<Rightarrow> 'a ee_fpu_scheme \<Rightarrow> bool \<times> u32 \<times> 'a ee_fpu_scheme" where
  "checkDivideByZero xReg y z f1 f2 s =
     (if y AND 0x7F800000 = 0
      then (True, ((y XOR z) AND 0x80000000) OR posFmax,
            setFPUFlags (if z AND 0x7F800000 = 0 then f2 else f1) s)
      else (False, xReg, s))"

text \<open>A result goes to its register and through the two checks.\<close>

definition fpuResult ::
  "(u32 \<Rightarrow> 'a ee_fpu_scheme \<Rightarrow> 'a ee_fpu_scheme) \<Rightarrow> u32 \<Rightarrow> u32 \<Rightarrow> u32 \<Rightarrow> 'a ee_fpu_scheme \<Rightarrow> 'a ee_fpu_scheme" where
  "fpuResult put fo fu v s =
     (case checkOverflow v fo (put v s) of
        (True, v1, s1) \<Rightarrow> put v1 s1
      | (False, v1, s1) \<Rightarrow> (case checkUnderflow v1 fu s1 of (_, v2, s2) \<Rightarrow> put v2 s2))"

abbreviation fpuArith ::
  "(u32 \<Rightarrow> 'a ee_fpu_scheme \<Rightarrow> 'a ee_fpu_scheme) \<Rightarrow> u32 \<Rightarrow> 'a ee_fpu_scheme \<Rightarrow> 'a ee_fpu_scheme" where
  "fpuArith put \<equiv> fpuResult put (FPUflagO OR FPUflagSO) (FPUflagU OR FPUflagSU)"

definition fpuDouble :: "u32 \<Rightarrow> u32" where
  "fpuDouble f =
     (if f AND 0x7f800000 = 0 then f AND 0x80000000
      else if f AND 0x7f800000 = 0x7f800000 then (f AND 0x80000000) OR 0x7f7fffff
      else f)"

abbreviation f_fabs :: "u32 \<Rightarrow> u32" where "f_fabs x \<equiv> x AND 0x7fffffff"

section \<open>Instructions\<close>

definition ABS_S :: "'a ee_fpu_scheme \<Rightarrow> 'a ee_fpu_scheme" where
  "ABS_S s = clearFPUFlags (FPUflagO OR FPUflagU) (wFd (FsVal s AND 0x7fffffff) s)"
definition ADD_S :: "hostfpu \<Rightarrow> 'a ee_fpu_scheme \<Rightarrow> 'a ee_fpu_scheme" where
  "ADD_S h s = fpuArith wFd (f_add h (fpuDouble (FsVal s)) (fpuDouble (FtVal s))) s"
definition ADDA_S :: "hostfpu \<Rightarrow> 'a ee_fpu_scheme \<Rightarrow> 'a ee_fpu_scheme" where
  "ADDA_S h s = fpuArith wFA (f_add h (fpuDouble (FsVal s)) (fpuDouble (FtVal s))) s"

definition C_cond_S :: "(u32 \<Rightarrow> u32 \<Rightarrow> bool) \<Rightarrow> 'a ee_fpu_scheme \<Rightarrow> 'a ee_fpu_scheme" where
  "C_cond_S cond s = (if cond (FsVal s) (FtVal s) then setFPUFlags FPUflagC s else clearFPUFlags FPUflagC s)"
definition C_EQ :: "hostfpu \<Rightarrow> 'a ee_fpu_scheme \<Rightarrow> 'a ee_fpu_scheme" where
  "C_EQ h s = C_cond_S (f_eq h) s"
definition C_F :: "'a ee_fpu_scheme \<Rightarrow> 'a ee_fpu_scheme" where
  "C_F s = clearFPUFlags FPUflagC s"
definition C_LE :: "hostfpu \<Rightarrow> 'a ee_fpu_scheme \<Rightarrow> 'a ee_fpu_scheme" where
  "C_LE h s = C_cond_S (f_le h) s"
definition C_LT :: "hostfpu \<Rightarrow> 'a ee_fpu_scheme \<Rightarrow> 'a ee_fpu_scheme" where
  "C_LT h s = C_cond_S (f_lt h) s"

definition CFC1 :: "'a ee_fpu_scheme \<Rightarrow> 'a ee_fpu_scheme" where
  "CFC1 s = (if Rt s = 0 then s
     else if Fs s \<ge> 16 then wUD (Rt s) 0 (scast (fprc s 31)) s
     else wUD (Rt s) 0 (scast (fprc s 0)) s)"
definition CTC1 :: "'a ee_fpu_scheme \<Rightarrow> 'a ee_fpu_scheme" where
  "CTC1 s = (if Fs s \<noteq> 31 then s else s\<lparr>fprc := (fprc s)(Fs s := rtL s)\<rparr>)"
definition CVT_S :: "hostfpu \<Rightarrow> 'a ee_fpu_scheme \<Rightarrow> 'a ee_fpu_scheme" where
  "CVT_S h s = wFd (fpuDouble (s32_to_f h (FsVal s))) s"
definition CVT_W :: "hostfpu \<Rightarrow> 'a ee_fpu_scheme \<Rightarrow> 'a ee_fpu_scheme" where
  "CVT_W h s = (if FsVal s AND 0x7F800000 \<le> 0x4E800000 then wFd (f_to_s32 h (FsVal s)) s
     else if FsVal s AND 0x80000000 = 0 then wFd 0x7fffffff s
     else wFd 0x80000000 s)"

definition DIV_S :: "hostfpu \<Rightarrow> 'a ee_fpu_scheme \<Rightarrow> 'a ee_fpu_scheme" where
  "DIV_S h s =
     (case checkDivideByZero (fpr s (Fd s)) (FtVal s) (FsVal s) (FPUflagD OR FPUflagSD) (FPUflagI OR FPUflagSI) s of
        (True, v, s1) \<Rightarrow> wFd v s1
      | (False, _, s1) \<Rightarrow> fpuResult wFd 0 0 (f_div h (fpuDouble (FsVal s1)) (fpuDouble (FtVal s1))) s1)"

definition MADD_S :: "hostfpu \<Rightarrow> 'a ee_fpu_scheme \<Rightarrow> 'a ee_fpu_scheme" where
  "MADD_S h s = (let temp = f_mul h (fpuDouble (FsVal s)) (fpuDouble (FtVal s))
     in fpuArith wFd (f_add h (fpuDouble (FACC s)) (fpuDouble temp)) s)"
definition MADDA_S :: "hostfpu \<Rightarrow> 'a ee_fpu_scheme \<Rightarrow> 'a ee_fpu_scheme" where
  "MADDA_S h s = fpuArith wFA (f_add h (FACC s) (f_mul h (fpuDouble (FsVal s)) (fpuDouble (FtVal s)))) s"
definition MAX_S :: "hostfpu \<Rightarrow> 'a ee_fpu_scheme \<Rightarrow> 'a ee_fpu_scheme" where
  "MAX_S h s = clearFPUFlags (FPUflagO OR FPUflagU)
     (wFd (if f_lt h (FsVal s) (FtVal s) then FtVal s else FsVal s) s)"
definition MFC1 :: "'a ee_fpu_scheme \<Rightarrow> 'a ee_fpu_scheme" where
  "MFC1 s = (if Rt s = 0 then s else wUD (Rt s) 0 (scast (FsVal s)) s)"
definition MIN_S :: "hostfpu \<Rightarrow> 'a ee_fpu_scheme \<Rightarrow> 'a ee_fpu_scheme" where
  "MIN_S h s = clearFPUFlags (FPUflagO OR FPUflagU)
     (wFd (if f_lt h (FtVal s) (FsVal s) then FtVal s else FsVal s) s)"
definition MOV_S :: "'a ee_fpu_scheme \<Rightarrow> 'a ee_fpu_scheme" where
  "MOV_S s = wFd (FsVal s) s"
definition MSUB_S :: "hostfpu \<Rightarrow> 'a ee_fpu_scheme \<Rightarrow> 'a ee_fpu_scheme" where
  "MSUB_S h s = (let temp = f_mul h (fpuDouble (FsVal s)) (fpuDouble (FtVal s))
     in fpuArith wFd (f_sub h (fpuDouble (FACC s)) (fpuDouble temp)) s)"
definition MSUBA_S :: "hostfpu \<Rightarrow> 'a ee_fpu_scheme \<Rightarrow> 'a ee_fpu_scheme" where
  "MSUBA_S h s = fpuArith wFA (f_sub h (FACC s) (f_mul h (fpuDouble (FsVal s)) (fpuDouble (FtVal s)))) s"
definition MTC1 :: "'a ee_fpu_scheme \<Rightarrow> 'a ee_fpu_scheme" where
  "MTC1 s = wFPR (Fs s) (rtL s) s"
definition MUL_S :: "hostfpu \<Rightarrow> 'a ee_fpu_scheme \<Rightarrow> 'a ee_fpu_scheme" where
  "MUL_S h s = fpuArith wFd (f_mul h (fpuDouble (FsVal s)) (fpuDouble (FtVal s))) s"
definition MULA_S :: "hostfpu \<Rightarrow> 'a ee_fpu_scheme \<Rightarrow> 'a ee_fpu_scheme" where
  "MULA_S h s = fpuArith wFA (f_mul h (fpuDouble (FsVal s)) (fpuDouble (FtVal s))) s"
definition NEG_S :: "'a ee_fpu_scheme \<Rightarrow> 'a ee_fpu_scheme" where
  "NEG_S s = clearFPUFlags (FPUflagO OR FPUflagU) (wFd (FsVal s XOR 0x80000000) s)"

definition RSQRT_S :: "hostfpu \<Rightarrow> 'a ee_fpu_scheme \<Rightarrow> 'a ee_fpu_scheme" where
  "RSQRT_S h s =
     (if FtVal s AND 0x7F800000 = 0
      then (let s1 = setFPUFlags (FPUflagD OR FPUflagSD) s
            in wFd (((FsVal s1 XOR FtVal s1) AND 0x80000000) OR posFmax) s1)
      else if FtVal s AND 0x80000000 \<noteq> 0
      then (let s1 = setFPUFlags (FPUflagI OR FPUflagSI) s;
                temp = f_sqrt h (f_fabs (fpuDouble (FtVal s1)))
            in fpuResult wFd 0 0 (f_div h (fpuDouble (FsVal s1)) (fpuDouble temp)) s1)
      else fpuResult wFd 0 0 (f_div h (fpuDouble (FsVal s)) (f_sqrt h (fpuDouble (FtVal s)))) s)"

definition SQRT_S :: "hostfpu \<Rightarrow> 'a ee_fpu_scheme \<Rightarrow> 'a ee_fpu_scheme" where
  "SQRT_S h s = clearFPUFlags FPUflagD
     (if FtVal s AND 0x7F800000 = 0 then wFd 0 s
      else if FtVal s AND 0x80000000 \<noteq> 0
      then (let s1 = setFPUFlags (FPUflagI OR FPUflagSI) s
            in wFd (f_sqrt h (f_fabs (fpuDouble (FtVal s1)))) s1)
      else wFd (f_sqrt h (fpuDouble (FtVal s))) s)"
definition SUB_S :: "hostfpu \<Rightarrow> 'a ee_fpu_scheme \<Rightarrow> 'a ee_fpu_scheme" where
  "SUB_S h s = fpuArith wFd (f_sub h (fpuDouble (FsVal s)) (fpuDouble (FtVal s))) s"
definition SUBA_S :: "hostfpu \<Rightarrow> 'a ee_fpu_scheme \<Rightarrow> 'a ee_fpu_scheme" where
  "SUBA_S h s = fpuArith wFA (f_sub h (fpuDouble (FsVal s)) (fpuDouble (FtVal s))) s"

text \<open>The loads and stores; an unaligned address is only logged.\<close>

definition LWC1 :: "'a ee_fpu_scheme devs \<Rightarrow> 'a ee_fpu_scheme \<Rightarrow> ('a ee_fpu_scheme, unit) res" where
  "LWC1 d s =
     (let addr = ea s
      in if addr AND 3 \<noteq> 0 then Ok () s
         else res_bind (memRead32 d addr s) (\<lambda>v s1. Ok () (wFPR (Rt s1) v s1)))"
definition SWC1 :: "'a ee_fpu_scheme devs \<Rightarrow> 'a ee_fpu_scheme \<Rightarrow> ('a ee_fpu_scheme, unit) res" where
  "SWC1 d s =
     (let addr = ea s
      in if addr AND 3 \<noteq> 0 then Ok () s
         else memWrite32 d addr (fpr s (Rt s)) s)"

end
