(* ===== verification/EE_Branch.thy ===== *)
theory EE_Branch
  imports EE_FPU
begin

text \<open>
  The branches of the interpreter: the delay slot logic of pcsx2/Interpreter.cpp, the jumps
  and branches there, those of pcsx2/COP0.cpp and pcsx2/FPU.cpp, and \<open>SYSCALL\<close>.

  A branch executes its delay slot by calling \<open>execI\<close>, which can dispatch to another
  branch; an \<open>ee_env\<close> carries that call together with the parts of the machine the core
  only calls: the memory handlers, the host's floating point, the event test, the
  emulation of system calls and the vector coprocessor.
\<close>

unbundle bit_operations_syntax

record 's ee_env =
  env_devs :: "'s devs"
  env_host :: hostfpu
  env_cpuEventTest_Shared :: "'s \<Rightarrow> ('s, unit) res"
  env_SYSCALL_hle :: "'s \<Rightarrow> ('s, bool) res"
  env_COP2 :: "'s \<Rightarrow> ('s, unit) res"
  env_LQC2 :: "'s \<Rightarrow> ('s, unit) res"
  env_SQC2 :: "'s \<Rightarrow> ('s, unit) res"
  env_execI :: "'s \<Rightarrow> ('s, unit) res"

section \<open>The delay slot and the event test\<close>

definition intEventTest :: "'a ee_cpu_scheme ee_env \<Rightarrow> 'a ee_cpu_scheme \<Rightarrow> ('a ee_cpu_scheme, unit) res" where
  "intEventTest env s =
     res_bind (env_cpuEventTest_Shared env s) (\<lambda>_ s1.
       if intExitExecution s1 then Throw ExitCpuExecute (s1\<lparr>intExitExecution := False\<rparr>)
       else Ok () s1)"

definition doBranch_shared ::
  "'a ee_cpu_scheme ee_env \<Rightarrow> u32 \<Rightarrow> 'a ee_cpu_scheme \<Rightarrow> ('a ee_cpu_scheme, unit) res" where
  "doBranch_shared env tar s =
     res_bind (env_execI env (s\<lparr>branch := 1, branch2 := 1\<rparr>)) (\<lambda>_ s1.
       Ok () (if branch s1 \<noteq> 0 then s1\<lparr>pc := tar, branch := 0\<rparr> else s1))"

definition addBlockCycles :: "'a ee_cpu_scheme \<Rightarrow> 'a ee_cpu_scheme" where
  "addBlockCycles s = s\<lparr>cycle := cycle s + drop_bit 3 (cpuBlockCycles s),
                        cpuBlockCycles := cpuBlockCycles s AND (push_bit 3 1 - 1)\<rparr>"

definition doBranch ::
  "'a ee_cpu_scheme ee_env \<Rightarrow> u32 \<Rightarrow> 'a ee_cpu_scheme \<Rightarrow> ('a ee_cpu_scheme, unit) res" where
  "doBranch env target s =
     res_bind (doBranch_shared env target s) (\<lambda>_ s1. intEventTest env (addBlockCycles s1))"

text \<open>The interpreter is the active CPU, so the test of \<open>Cpu\<close> succeeds.\<close>

definition intDoBranch ::
  "'a ee_cpu_scheme ee_env \<Rightarrow> u32 \<Rightarrow> 'a ee_cpu_scheme \<Rightarrow> ('a ee_cpu_scheme, unit) res" where
  "intDoBranch env target s =
     res_bind (doBranch_shared env target s) (\<lambda>_ s1. intEventTest env (addBlockCycles s1))"

section \<open>Jumps\<close>

definition J :: "'a ee_cpu_scheme ee_env \<Rightarrow> 'a ee_cpu_scheme \<Rightarrow> ('a ee_cpu_scheme, unit) res" where
  "J env s = doBranch env (JumpTarget s) s"

definition JAL :: "'a ee_cpu_scheme ee_env \<Rightarrow> 'a ee_cpu_scheme \<Rightarrow> ('a ee_cpu_scheme, unit) res" where
  "JAL env s =
     res_bind (if GoemonTlbHack s \<and> JumpTarget s = 0x3563b8
               then GoemonUnloadTlb (UL (GPR s 4) 0) s else Ok () s) (\<lambda>_ s1.
       let s2 = SetLink 31 s1 in doBranch env (JumpTarget s2) s2)"

definition JR :: "'a ee_cpu_scheme ee_env \<Rightarrow> 'a ee_cpu_scheme \<Rightarrow> ('a ee_cpu_scheme, unit) res" where
  "JR env s =
     res_bind (if GoemonTlbHack s \<and> (rsL s = 0x33ad48 \<or> rsL s = 0x35060c)
               then GoemonPreloadTlb s else Ok () s) (\<lambda>_ s1. doBranch env (rsL s1) s1)"

definition JALR :: "'a ee_cpu_scheme ee_env \<Rightarrow> 'a ee_cpu_scheme \<Rightarrow> ('a ee_cpu_scheme, unit) res" where
  "JALR env s =
     (let temp = rsL s; s1 = (if Rd s \<noteq> 0 then SetLink (Rd s) s else s)
      in doBranch env temp s1)"

section \<open>Branches\<close>

text \<open>
  Only \<open>BEQ\<close> and \<open>BNE\<close> run the event test when they are not taken; a likely branch that is
  not taken skips its delay slot.
\<close>

definition skipDelaySlot ::
  "'a ee_cpu_scheme ee_env \<Rightarrow> 'a ee_cpu_scheme \<Rightarrow> ('a ee_cpu_scheme, unit) res" where
  [ee_defs]: "skipDelaySlot env s = intEventTest env (s\<lparr>pc := pc s + 4\<rparr>)"

definition BEQ :: "'a ee_cpu_scheme ee_env \<Rightarrow> 'a ee_cpu_scheme \<Rightarrow> ('a ee_cpu_scheme, unit) res" where
  "BEQ env s = (if rsD s = rtD s then doBranch env (BranchTarget s) s else intEventTest env s)"
definition BNE :: "'a ee_cpu_scheme ee_env \<Rightarrow> 'a ee_cpu_scheme \<Rightarrow> ('a ee_cpu_scheme, unit) res" where
  "BNE env s = (if rsD s \<noteq> rtD s then doBranch env (BranchTarget s) s else intEventTest env s)"
definition BGEZ :: "'a ee_cpu_scheme ee_env \<Rightarrow> 'a ee_cpu_scheme \<Rightarrow> ('a ee_cpu_scheme, unit) res" where
  "BGEZ env s = (if 0 \<le>s rsD s then doBranch env (BranchTarget s) s else Ok () s)"
definition BGTZ :: "'a ee_cpu_scheme ee_env \<Rightarrow> 'a ee_cpu_scheme \<Rightarrow> ('a ee_cpu_scheme, unit) res" where
  "BGTZ env s = (if 0 <s rsD s then doBranch env (BranchTarget s) s else Ok () s)"
definition BLEZ :: "'a ee_cpu_scheme ee_env \<Rightarrow> 'a ee_cpu_scheme \<Rightarrow> ('a ee_cpu_scheme, unit) res" where
  "BLEZ env s = (if rsD s \<le>s 0 then doBranch env (BranchTarget s) s else Ok () s)"
definition BLTZ :: "'a ee_cpu_scheme ee_env \<Rightarrow> 'a ee_cpu_scheme \<Rightarrow> ('a ee_cpu_scheme, unit) res" where
  "BLTZ env s = (if rsD s <s 0 then doBranch env (BranchTarget s) s else Ok () s)"
definition BGEZAL :: "'a ee_cpu_scheme ee_env \<Rightarrow> 'a ee_cpu_scheme \<Rightarrow> ('a ee_cpu_scheme, unit) res" where
  "BGEZAL env s = (let s = SetLink 31 s in if 0 \<le>s rsD s then doBranch env (BranchTarget s) s else Ok () s)"
definition BLTZAL :: "'a ee_cpu_scheme ee_env \<Rightarrow> 'a ee_cpu_scheme \<Rightarrow> ('a ee_cpu_scheme, unit) res" where
  "BLTZAL env s = (let s = SetLink 31 s in if rsD s <s 0 then doBranch env (BranchTarget s) s else Ok () s)"
definition BEQL :: "'a ee_cpu_scheme ee_env \<Rightarrow> 'a ee_cpu_scheme \<Rightarrow> ('a ee_cpu_scheme, unit) res" where
  "BEQL env s = (if rsD s = rtD s then doBranch env (BranchTarget s) s else skipDelaySlot env s)"
definition BNEL :: "'a ee_cpu_scheme ee_env \<Rightarrow> 'a ee_cpu_scheme \<Rightarrow> ('a ee_cpu_scheme, unit) res" where
  "BNEL env s = (if rsD s \<noteq> rtD s then doBranch env (BranchTarget s) s else skipDelaySlot env s)"
definition BLEZL :: "'a ee_cpu_scheme ee_env \<Rightarrow> 'a ee_cpu_scheme \<Rightarrow> ('a ee_cpu_scheme, unit) res" where
  "BLEZL env s = (if rsD s \<le>s 0 then doBranch env (BranchTarget s) s else skipDelaySlot env s)"
definition BGTZL :: "'a ee_cpu_scheme ee_env \<Rightarrow> 'a ee_cpu_scheme \<Rightarrow> ('a ee_cpu_scheme, unit) res" where
  "BGTZL env s = (if 0 <s rsD s then doBranch env (BranchTarget s) s else skipDelaySlot env s)"
definition BLTZL :: "'a ee_cpu_scheme ee_env \<Rightarrow> 'a ee_cpu_scheme \<Rightarrow> ('a ee_cpu_scheme, unit) res" where
  "BLTZL env s = (if rsD s <s 0 then doBranch env (BranchTarget s) s else skipDelaySlot env s)"
definition BGEZL :: "'a ee_cpu_scheme ee_env \<Rightarrow> 'a ee_cpu_scheme \<Rightarrow> ('a ee_cpu_scheme, unit) res" where
  "BGEZL env s = (if 0 \<le>s rsD s then doBranch env (BranchTarget s) s else skipDelaySlot env s)"
definition BLTZALL :: "'a ee_cpu_scheme ee_env \<Rightarrow> 'a ee_cpu_scheme \<Rightarrow> ('a ee_cpu_scheme, unit) res" where
  "BLTZALL env s = (let s = SetLink 31 s in if rsD s <s 0 then doBranch env (BranchTarget s) s else skipDelaySlot env s)"
definition BGEZALL :: "'a ee_cpu_scheme ee_env \<Rightarrow> 'a ee_cpu_scheme \<Rightarrow> ('a ee_cpu_scheme, unit) res" where
  "BGEZALL env s = (let s = SetLink 31 s in if 0 \<le>s rsD s then doBranch env (BranchTarget s) s else skipDelaySlot env s)"

text \<open>The branches on the condition of coprocessor 0 and of the floating point coprocessor; not taken,
  the likely ones skip the delay slot without an event test.\<close>

definition BC0F :: "'a ee_cpu_scheme ee_env \<Rightarrow> 'a ee_cpu_scheme \<Rightarrow> ('a ee_cpu_scheme, unit) res" where
  "BC0F env s = (if \<not> CPCOND0 s then intDoBranch env (BranchTarget s) s else Ok () s)"
definition BC0T :: "'a ee_cpu_scheme ee_env \<Rightarrow> 'a ee_cpu_scheme \<Rightarrow> ('a ee_cpu_scheme, unit) res" where
  "BC0T env s = (if CPCOND0 s then intDoBranch env (BranchTarget s) s else Ok () s)"
definition BC0FL :: "'a ee_cpu_scheme ee_env \<Rightarrow> 'a ee_cpu_scheme \<Rightarrow> ('a ee_cpu_scheme, unit) res" where
  "BC0FL env s = (if \<not> CPCOND0 s then intDoBranch env (BranchTarget s) s else Ok () (s\<lparr>pc := pc s + 4\<rparr>))"
definition BC0TL :: "'a ee_cpu_scheme ee_env \<Rightarrow> 'a ee_cpu_scheme \<Rightarrow> ('a ee_cpu_scheme, unit) res" where
  "BC0TL env s = (if CPCOND0 s then intDoBranch env (BranchTarget s) s else Ok () (s\<lparr>pc := pc s + 4\<rparr>))"

definition BC1F :: "'a ee_fpu_scheme ee_env \<Rightarrow> 'a ee_fpu_scheme \<Rightarrow> ('a ee_fpu_scheme, unit) res" where
  "BC1F env s = (if ContVal s AND FPUflagC = 0 then intDoBranch env (BranchTarget s) s else Ok () s)"
definition BC1T :: "'a ee_fpu_scheme ee_env \<Rightarrow> 'a ee_fpu_scheme \<Rightarrow> ('a ee_fpu_scheme, unit) res" where
  "BC1T env s = (if ContVal s AND FPUflagC \<noteq> 0 then intDoBranch env (BranchTarget s) s else Ok () s)"
definition BC1FL :: "'a ee_fpu_scheme ee_env \<Rightarrow> 'a ee_fpu_scheme \<Rightarrow> ('a ee_fpu_scheme, unit) res" where
  "BC1FL env s = (if ContVal s AND FPUflagC = 0 then intDoBranch env (BranchTarget s) s else Ok () (s\<lparr>pc := pc s + 4\<rparr>))"
definition BC1TL :: "'a ee_fpu_scheme ee_env \<Rightarrow> 'a ee_fpu_scheme \<Rightarrow> ('a ee_fpu_scheme, unit) res" where
  "BC1TL env s = (if ContVal s AND FPUflagC \<noteq> 0 then intDoBranch env (BranchTarget s) s else Ok () (s\<lparr>pc := pc s + 4\<rparr>))"

section \<open>System calls\<close>

text \<open>
  \<open>env_SYSCALL_hle\<close> is the switch over the call number; it tells whether the call was
  served without entering the kernel.
\<close>

definition SYSCALL :: "'a ee_cpu_scheme ee_env \<Rightarrow> 'a ee_cpu_scheme \<Rightarrow> ('a ee_cpu_scheme, unit) res" where
  "SYSCALL env s =
     res_bind (env_SYSCALL_hle env s) (\<lambda>served s1.
       if served then Ok () s1
       else let s2 = s1\<lparr>pc := pc s1 - 4\<rparr> in Ok () (cpuException 0x20 (branch s2) s2))"

end
