(* ===== verification/EE_Decode.thy ===== *)
theory EE_Decode
  imports EE_Branch
begin

text \<open>
  The opcode tables of pcsx2/R5900OpcodeTables.cpp and the lookup of pcsx2/R5900OpcodeImpl.cpp.

  As in the source an entry is an \<open>OPCODE\<close>: either an instruction with its cycle count, its
  flags and its handler, or a class, which names the table the lookup goes on in and has no
  handler.
\<close>

unbundle bit_operations_syntax

section \<open>Entries\<close>

datatype opclass =
    Class_SPECIAL
  | Class_REGIMM
  | Class_MMI
  | Class_MMI0
  | Class_MMI1
  | Class_MMI2
  | Class_MMI3
  | Class_COP0
  | Class_COP0_BC0
  | Class_COP0_C0
  | Class_COP1
  | Class_COP1_BC1
  | Class_COP1_S
  | Class_COP1_W

record 's OPCODE =
  op_Name :: string
  op_cycles :: u32
  op_flags :: u32
  getsubclass :: "opclass option"
  op_interpret :: "('s ee_env \<Rightarrow> 's \<Rightarrow> ('s, unit) res) option"

definition MakeOpcode ::
  "string \<Rightarrow> u32 \<Rightarrow> u32 \<Rightarrow> ('s ee_env \<Rightarrow> 's \<Rightarrow> ('s, unit) res) \<Rightarrow> 's OPCODE" where
  "MakeOpcode name cycles flags h =
     \<lparr>op_Name = name, op_cycles = cycles, op_flags = flags, getsubclass = None, op_interpret = Some h\<rparr>"

definition MakeOpcodeClass :: "string \<Rightarrow> opclass \<Rightarrow> 's OPCODE" where
  "MakeOpcodeClass name c =
     \<lparr>op_Name = name, op_cycles = 0, op_flags = 0, getsubclass = Some c, op_interpret = None\<rparr>"

text \<open>The cycle counts of the namespace \<open>Cycles\<close> and the flags of pcsx2/R5900OpcodeTables.h.\<close>

abbreviation C_Default :: u32 where "C_Default \<equiv> 9"
abbreviation C_Branch :: u32 where "C_Branch \<equiv> 11"
abbreviation C_CopDefault :: u32 where "C_CopDefault \<equiv> 7"
abbreviation C_Mult :: u32 where "C_Mult \<equiv> 16"
abbreviation C_Div :: u32 where "C_Div \<equiv> 112"
abbreviation C_MMI_Mult :: u32 where "C_MMI_Mult \<equiv> 24"
abbreviation C_MMI_Div :: u32 where "C_MMI_Div \<equiv> 176"
abbreviation C_MMI_Default :: u32 where "C_MMI_Default \<equiv> 14"
abbreviation C_FPU_Mult :: u32 where "C_FPU_Mult \<equiv> 32"
abbreviation C_Store :: u32 where "C_Store \<equiv> 14"
abbreviation C_Load :: u32 where "C_Load \<equiv> 14"

abbreviation MEMTYPE_MASK :: u32 where "MEMTYPE_MASK \<equiv> 0x7"
abbreviation MEMTYPE_BYTE :: u32 where "MEMTYPE_BYTE \<equiv> 0x1"
abbreviation MEMTYPE_HALF :: u32 where "MEMTYPE_HALF \<equiv> 0x2"
abbreviation MEMTYPE_WORD :: u32 where "MEMTYPE_WORD \<equiv> 0x3"
abbreviation MEMTYPE_DWORD :: u32 where "MEMTYPE_DWORD \<equiv> 0x4"
abbreviation MEMTYPE_QWORD :: u32 where "MEMTYPE_QWORD \<equiv> 0x5"
abbreviation CONDTYPE_MASK :: u32 where "CONDTYPE_MASK \<equiv> 0x7"
abbreviation CONDTYPE_EQ :: u32 where "CONDTYPE_EQ \<equiv> 0x1"
abbreviation CONDTYPE_NE :: u32 where "CONDTYPE_NE \<equiv> 0x2"
abbreviation CONDTYPE_LEZ :: u32 where "CONDTYPE_LEZ \<equiv> 0x3"
abbreviation CONDTYPE_GTZ :: u32 where "CONDTYPE_GTZ \<equiv> 0x4"
abbreviation CONDTYPE_LTZ :: u32 where "CONDTYPE_LTZ \<equiv> 0x5"
abbreviation CONDTYPE_GEZ :: u32 where "CONDTYPE_GEZ \<equiv> 0x6"
abbreviation BRANCHTYPE_MASK :: u32 where "BRANCHTYPE_MASK \<equiv> 0x38"
abbreviation BRANCHTYPE_JUMP :: u32 where "BRANCHTYPE_JUMP \<equiv> 0x8"
abbreviation BRANCHTYPE_BRANCH :: u32 where "BRANCHTYPE_BRANCH \<equiv> 0x10"
abbreviation BRANCHTYPE_SYSCALL :: u32 where "BRANCHTYPE_SYSCALL \<equiv> 0x18"
abbreviation BRANCHTYPE_ERET :: u32 where "BRANCHTYPE_ERET \<equiv> 0x20"
abbreviation BRANCHTYPE_REGISTER :: u32 where "BRANCHTYPE_REGISTER \<equiv> 0x28"
abbreviation BRANCHTYPE_BC1 :: u32 where "BRANCHTYPE_BC1 \<equiv> 0x30"
abbreviation ALUTYPE_MASK :: u32 where "ALUTYPE_MASK \<equiv> 0x38"
abbreviation ALUTYPE_ADD :: u32 where "ALUTYPE_ADD \<equiv> 0x8"
abbreviation ALUTYPE_ADDI :: u32 where "ALUTYPE_ADDI \<equiv> 0x10"
abbreviation ALUTYPE_SUB :: u32 where "ALUTYPE_SUB \<equiv> 0x18"
abbreviation ALUTYPE_CONDMOVE :: u32 where "ALUTYPE_CONDMOVE \<equiv> 0x20"
abbreviation IS_LOAD :: u32 where "IS_LOAD \<equiv> 0x100"
abbreviation IS_STORE :: u32 where "IS_STORE \<equiv> 0x200"
abbreviation IS_BRANCH :: u32 where "IS_BRANCH \<equiv> 0x400"
abbreviation IS_LINKED :: u32 where "IS_LINKED \<equiv> 0x1000"
abbreviation IS_LIKELY :: u32 where "IS_LIKELY \<equiv> 0x2000"
abbreviation IS_MEMORY :: u32 where "IS_MEMORY \<equiv> 0x4000"
abbreviation IS_CONDMOVE :: u32 where "IS_CONDMOVE \<equiv> 0x10000"
abbreviation IS_ALU :: u32 where "IS_ALU \<equiv> 0x20000"
abbreviation IS_64BIT :: u32 where "IS_64BIT \<equiv> 0x40000"
abbreviation IS_LEFT :: u32 where "IS_LEFT \<equiv> 0x80000"
abbreviation IS_RIGHT :: u32 where "IS_RIGHT \<equiv> 0x100000"

section \<open>Tables\<close>

definition op_Unknown :: "'s OPCODE" where
  "op_Unknown = MakeOpcode ''Unknown'' C_Default 0 (\<lambda>_ s. Ok () s)"
definition op_MMI_Unknown :: "'s OPCODE" where
  "op_MMI_Unknown = MakeOpcode ''MMI_Unknown'' C_Default 0 (\<lambda>_ s. Ok () s)"
definition op_COP0_Unknown :: "'s OPCODE" where
  "op_COP0_Unknown = MakeOpcode ''COP0_Unknown'' C_Default 0 (\<lambda>_ s. Ok () s)"
definition op_COP1_Unknown :: "'s OPCODE" where
  "op_COP1_Unknown = MakeOpcode ''COP1_Unknown'' C_Default 0 (\<lambda>_ s. Ok () s)"

definition tbl_Standard :: "'a ee_fpu_scheme OPCODE list" where
  "tbl_Standard = [
     MakeOpcodeClass ''SPECIAL'' Class_SPECIAL,
     MakeOpcodeClass ''REGIMM'' Class_REGIMM,
     MakeOpcode ''J'' C_Default (IS_BRANCH OR BRANCHTYPE_JUMP) J,
     MakeOpcode ''JAL'' C_Default (IS_BRANCH OR BRANCHTYPE_JUMP OR IS_LINKED) JAL,
     MakeOpcode ''BEQ'' C_Branch (IS_BRANCH OR BRANCHTYPE_BRANCH OR CONDTYPE_EQ) BEQ,
     MakeOpcode ''BNE'' C_Branch (IS_BRANCH OR BRANCHTYPE_BRANCH OR CONDTYPE_NE) BNE,
     MakeOpcode ''BLEZ'' C_Branch (IS_BRANCH OR BRANCHTYPE_BRANCH OR CONDTYPE_LEZ) BLEZ,
     MakeOpcode ''BGTZ'' C_Branch (IS_BRANCH OR BRANCHTYPE_BRANCH OR CONDTYPE_GTZ) BGTZ,
     MakeOpcode ''ADDI'' C_Default (IS_ALU OR ALUTYPE_ADDI) (\<lambda>_ s. Ok () (ADDI s)),
     MakeOpcode ''ADDIU'' C_Default (IS_ALU OR ALUTYPE_ADDI) (\<lambda>_ s. Ok () (ADDIU s)),
     MakeOpcode ''SLTI'' C_Default 0 (\<lambda>_ s. Ok () (SLTI s)),
     MakeOpcode ''SLTIU'' C_Default 0 (\<lambda>_ s. Ok () (SLTIU s)),
     MakeOpcode ''ANDI'' C_Default 0 (\<lambda>_ s. Ok () (ANDI s)),
     MakeOpcode ''ORI'' C_Default 0 (\<lambda>_ s. Ok () (ORI s)),
     MakeOpcode ''XORI'' C_Default 0 (\<lambda>_ s. Ok () (XORI s)),
     MakeOpcode ''LUI'' C_Default 0 (\<lambda>_ s. Ok () (LUI s)),
     MakeOpcodeClass ''COP0'' Class_COP0,
     MakeOpcodeClass ''COP1'' Class_COP1,
     MakeOpcode ''COP2'' C_Default 0 env_COP2,
     op_Unknown,
     MakeOpcode ''BEQL'' C_Branch (IS_BRANCH OR BRANCHTYPE_BRANCH OR CONDTYPE_EQ OR IS_LIKELY) BEQL,
     MakeOpcode ''BNEL'' C_Branch (IS_BRANCH OR BRANCHTYPE_BRANCH OR CONDTYPE_NE OR IS_LIKELY) BNEL,
     MakeOpcode ''BLEZL'' C_Branch (IS_BRANCH OR BRANCHTYPE_BRANCH OR CONDTYPE_LEZ OR IS_LIKELY) BLEZL,
     MakeOpcode ''BGTZL'' C_Branch (IS_BRANCH OR BRANCHTYPE_BRANCH OR CONDTYPE_GTZ OR IS_LIKELY) BGTZL,
     MakeOpcode ''DADDI'' C_Default (IS_ALU OR ALUTYPE_ADDI OR IS_64BIT) (\<lambda>_ s. Ok () (DADDI s)),
     MakeOpcode ''DADDIU'' C_Default (IS_ALU OR ALUTYPE_ADDI OR IS_64BIT) (\<lambda>_ s. Ok () (DADDIU s)),
     MakeOpcode ''LDL'' C_Load (IS_MEMORY OR IS_LOAD OR MEMTYPE_DWORD OR IS_LEFT) (\<lambda>env. LDL (env_devs env)),
     MakeOpcode ''LDR'' C_Load (IS_MEMORY OR IS_LOAD OR MEMTYPE_DWORD OR IS_RIGHT) (\<lambda>env. LDR (env_devs env)),
     MakeOpcodeClass ''MMI'' Class_MMI,
     op_Unknown,
     MakeOpcode ''LQ'' C_Load (IS_MEMORY OR IS_LOAD OR MEMTYPE_QWORD) (\<lambda>env. LQ (env_devs env)),
     MakeOpcode ''SQ'' C_Store (IS_MEMORY OR IS_STORE OR MEMTYPE_QWORD) (\<lambda>env. SQ (env_devs env)),
     MakeOpcode ''LB'' C_Load (IS_MEMORY OR IS_LOAD OR MEMTYPE_BYTE) (\<lambda>env. LB (env_devs env)),
     MakeOpcode ''LH'' C_Load (IS_MEMORY OR IS_LOAD OR MEMTYPE_HALF) (\<lambda>env. LH (env_devs env)),
     MakeOpcode ''LWL'' C_Load (IS_MEMORY OR IS_LOAD OR MEMTYPE_WORD OR IS_LEFT) (\<lambda>env. LWL (env_devs env)),
     MakeOpcode ''LW'' C_Load (IS_MEMORY OR IS_LOAD OR MEMTYPE_WORD) (\<lambda>env. LW (env_devs env)),
     MakeOpcode ''LBU'' C_Load (IS_MEMORY OR IS_LOAD OR MEMTYPE_BYTE) (\<lambda>env. LBU (env_devs env)),
     MakeOpcode ''LHU'' C_Load (IS_MEMORY OR IS_LOAD OR MEMTYPE_HALF) (\<lambda>env. LHU (env_devs env)),
     MakeOpcode ''LWR'' C_Load (IS_MEMORY OR IS_LOAD OR MEMTYPE_WORD OR IS_RIGHT) (\<lambda>env. LWR (env_devs env)),
     MakeOpcode ''LWU'' C_Load (IS_MEMORY OR IS_LOAD OR MEMTYPE_WORD) (\<lambda>env. LWU (env_devs env)),
     MakeOpcode ''SB'' C_Store (IS_MEMORY OR IS_STORE OR MEMTYPE_BYTE) (\<lambda>env. SB (env_devs env)),
     MakeOpcode ''SH'' C_Store (IS_MEMORY OR IS_STORE OR MEMTYPE_HALF) (\<lambda>env. SH (env_devs env)),
     MakeOpcode ''SWL'' C_Store (IS_MEMORY OR IS_STORE OR MEMTYPE_WORD OR IS_LEFT) (\<lambda>env. SWL (env_devs env)),
     MakeOpcode ''SW'' C_Store (IS_MEMORY OR IS_STORE OR MEMTYPE_WORD) (\<lambda>env. SW (env_devs env)),
     MakeOpcode ''SDL'' C_Store (IS_MEMORY OR IS_STORE OR MEMTYPE_DWORD OR IS_LEFT) (\<lambda>env. SDL (env_devs env)),
     MakeOpcode ''SDR'' C_Store (IS_MEMORY OR IS_STORE OR MEMTYPE_DWORD OR IS_RIGHT) (\<lambda>env. SDR (env_devs env)),
     MakeOpcode ''SWR'' C_Store (IS_MEMORY OR IS_STORE OR MEMTYPE_WORD OR IS_RIGHT) (\<lambda>env. SWR (env_devs env)),
     MakeOpcode ''CACHE'' C_Default 0 (\<lambda>_ s. Ok () (CACHE s)),
     op_Unknown,
     MakeOpcode ''LWC1'' C_Load (IS_MEMORY OR IS_LOAD OR MEMTYPE_WORD) (\<lambda>env. LWC1 (env_devs env)),
     op_Unknown,
     MakeOpcode ''PREF'' C_Default 0 (\<lambda>_ s. Ok () (PREF s)),
     op_Unknown,
     op_Unknown,
     MakeOpcode ''LQC2'' C_Load (IS_MEMORY OR IS_LOAD OR MEMTYPE_QWORD) env_LQC2,
     MakeOpcode ''LD'' C_Load (IS_MEMORY OR IS_LOAD OR MEMTYPE_DWORD) (\<lambda>env. LD (env_devs env)),
     op_Unknown,
     MakeOpcode ''SWC1'' C_Store (IS_MEMORY OR IS_STORE OR MEMTYPE_WORD) (\<lambda>env. SWC1 (env_devs env)),
     op_Unknown,
     op_Unknown,
     op_Unknown,
     op_Unknown,
     MakeOpcode ''SQC2'' C_Store (IS_MEMORY OR IS_STORE OR MEMTYPE_QWORD) env_SQC2,
     MakeOpcode ''SD'' C_Store (IS_MEMORY OR IS_STORE OR MEMTYPE_DWORD) (\<lambda>env. SD (env_devs env))]"

definition tbl_Special :: "'a ee_fpu_scheme OPCODE list" where
  "tbl_Special = [
     MakeOpcode ''SLL'' C_Default 0 (\<lambda>_ s. Ok () (SLL s)),
     op_Unknown,
     MakeOpcode ''SRL'' C_Default 0 (\<lambda>_ s. Ok () (SRL s)),
     MakeOpcode ''SRA'' C_Default 0 (\<lambda>_ s. Ok () (SRA s)),
     MakeOpcode ''SLLV'' C_Default 0 (\<lambda>_ s. Ok () (SLLV s)),
     op_Unknown,
     MakeOpcode ''SRLV'' C_Default 0 (\<lambda>_ s. Ok () (SRLV s)),
     MakeOpcode ''SRAV'' C_Default 0 (\<lambda>_ s. Ok () (SRAV s)),
     MakeOpcode ''JR'' C_Default (IS_BRANCH OR BRANCHTYPE_REGISTER) JR,
     MakeOpcode ''JALR'' C_Default (IS_BRANCH OR BRANCHTYPE_REGISTER OR IS_LINKED) JALR,
     MakeOpcode ''MOVZ'' C_Default (IS_ALU OR ALUTYPE_CONDMOVE OR CONDTYPE_EQ) (\<lambda>_ s. Ok () (MOVZ s)),
     MakeOpcode ''MOVN'' C_Default (IS_ALU OR ALUTYPE_CONDMOVE OR CONDTYPE_NE) (\<lambda>_ s. Ok () (MOVN s)),
     MakeOpcode ''SYSCALL'' C_Default (IS_BRANCH OR BRANCHTYPE_SYSCALL) SYSCALL,
     MakeOpcode ''BREAK'' C_Default 0 (\<lambda>_ s. Ok () (BREAK s)),
     op_Unknown,
     MakeOpcode ''SYNC'' C_Default 0 (\<lambda>_ s. Ok () (SYNC s)),
     MakeOpcode ''MFHI'' C_Default 0 (\<lambda>_ s. Ok () (MFHI s)),
     MakeOpcode ''MTHI'' C_Default 0 (\<lambda>_ s. Ok () (MTHI s)),
     MakeOpcode ''MFLO'' C_Default 0 (\<lambda>_ s. Ok () (MFLO s)),
     MakeOpcode ''MTLO'' C_Default 0 (\<lambda>_ s. Ok () (MTLO s)),
     MakeOpcode ''DSLLV'' C_Default 0 (\<lambda>_ s. Ok () (DSLLV s)),
     op_Unknown,
     MakeOpcode ''DSRLV'' C_Default 0 (\<lambda>_ s. Ok () (DSRLV s)),
     MakeOpcode ''DSRAV'' C_Default 0 (\<lambda>_ s. Ok () (DSRAV s)),
     MakeOpcode ''MULT'' C_Mult 0 (\<lambda>_ s. Ok () (MULT s)),
     MakeOpcode ''MULTU'' C_Mult 0 (\<lambda>_ s. Ok () (MULTU s)),
     MakeOpcode ''DIV'' C_Div 0 (\<lambda>_ s. Ok () (DIV s)),
     MakeOpcode ''DIVU'' C_Div 0 (\<lambda>_ s. Ok () (DIVU s)),
     op_Unknown,
     op_Unknown,
     op_Unknown,
     op_Unknown,
     MakeOpcode ''ADD'' C_Default (IS_ALU OR ALUTYPE_ADD) (\<lambda>_ s. Ok () (ADD s)),
     MakeOpcode ''ADDU'' C_Default (IS_ALU OR ALUTYPE_ADD) (\<lambda>_ s. Ok () (ADDU s)),
     MakeOpcode ''SUB'' C_Default (IS_ALU OR ALUTYPE_SUB) (\<lambda>_ s. Ok () (SUB s)),
     MakeOpcode ''SUBU'' C_Default (IS_ALU OR ALUTYPE_SUB) (\<lambda>_ s. Ok () (SUBU s)),
     MakeOpcode ''AND'' C_Default 0 (\<lambda>_ s. Ok () (op_AND s)),
     MakeOpcode ''OR'' C_Default 0 (\<lambda>_ s. Ok () (op_OR s)),
     MakeOpcode ''XOR'' C_Default 0 (\<lambda>_ s. Ok () (op_XOR s)),
     MakeOpcode ''NOR'' C_Default 0 (\<lambda>_ s. Ok () (op_NOR s)),
     MakeOpcode ''MFSA'' C_Default 0 (\<lambda>_ s. Ok () (MFSA s)),
     MakeOpcode ''MTSA'' C_Default 0 (\<lambda>_ s. Ok () (MTSA s)),
     MakeOpcode ''SLT'' C_Default 0 (\<lambda>_ s. Ok () (SLT s)),
     MakeOpcode ''SLTU'' C_Default 0 (\<lambda>_ s. Ok () (SLTU s)),
     MakeOpcode ''DADD'' C_Default (IS_ALU OR ALUTYPE_ADD OR IS_64BIT) (\<lambda>_ s. Ok () (DADD s)),
     MakeOpcode ''DADDU'' C_Default (IS_ALU OR ALUTYPE_ADD OR IS_64BIT) (\<lambda>_ s. Ok () (DADDU s)),
     MakeOpcode ''DSUB'' C_Default (IS_ALU OR ALUTYPE_SUB OR IS_64BIT) (\<lambda>_ s. Ok () (DSUB s)),
     MakeOpcode ''DSUBU'' C_Default (IS_ALU OR ALUTYPE_SUB OR IS_64BIT) (\<lambda>_ s. Ok () (DSUBU s)),
     MakeOpcode ''TGE'' C_Branch 0 (\<lambda>_ s. Ok () (TGE s)),
     MakeOpcode ''TGEU'' C_Branch 0 (\<lambda>_ s. Ok () (TGEU s)),
     MakeOpcode ''TLT'' C_Branch 0 (\<lambda>_ s. Ok () (TLT s)),
     MakeOpcode ''TLTU'' C_Branch 0 (\<lambda>_ s. Ok () (TLTU s)),
     MakeOpcode ''TEQ'' C_Branch 0 (\<lambda>_ s. Ok () (TEQ s)),
     op_Unknown,
     MakeOpcode ''TNE'' C_Branch 0 (\<lambda>_ s. Ok () (TNE s)),
     op_Unknown,
     MakeOpcode ''DSLL'' C_Default 0 (\<lambda>_ s. Ok () (DSLL s)),
     op_Unknown,
     MakeOpcode ''DSRL'' C_Default 0 (\<lambda>_ s. Ok () (DSRL s)),
     MakeOpcode ''DSRA'' C_Default 0 (\<lambda>_ s. Ok () (DSRA s)),
     MakeOpcode ''DSLL32'' C_Default 0 (\<lambda>_ s. Ok () (DSLL32 s)),
     op_Unknown,
     MakeOpcode ''DSRL32'' C_Default 0 (\<lambda>_ s. Ok () (DSRL32 s)),
     MakeOpcode ''DSRA32'' C_Default 0 (\<lambda>_ s. Ok () (DSRA32 s))]"

definition tbl_RegImm :: "'a ee_fpu_scheme OPCODE list" where
  "tbl_RegImm = [
     MakeOpcode ''BLTZ'' C_Branch (IS_BRANCH OR BRANCHTYPE_BRANCH OR CONDTYPE_LTZ) BLTZ,
     MakeOpcode ''BGEZ'' C_Branch (IS_BRANCH OR BRANCHTYPE_BRANCH OR CONDTYPE_GEZ) BGEZ,
     MakeOpcode ''BLTZL'' C_Branch (IS_BRANCH OR BRANCHTYPE_BRANCH OR CONDTYPE_LTZ OR IS_LIKELY) BLTZL,
     MakeOpcode ''BGEZL'' C_Branch (IS_BRANCH OR BRANCHTYPE_BRANCH OR CONDTYPE_GEZ OR IS_LIKELY) BGEZL,
     op_Unknown,
     op_Unknown,
     op_Unknown,
     op_Unknown,
     MakeOpcode ''TGEI'' C_Branch 0 (\<lambda>_ s. Ok () (TGEI s)),
     MakeOpcode ''TGEIU'' C_Branch 0 (\<lambda>_ s. Ok () (TGEIU s)),
     MakeOpcode ''TLTI'' C_Branch 0 (\<lambda>_ s. Ok () (TLTI s)),
     MakeOpcode ''TLTIU'' C_Branch 0 (\<lambda>_ s. Ok () (TLTIU s)),
     MakeOpcode ''TEQI'' C_Branch 0 (\<lambda>_ s. Ok () (TEQI s)),
     op_Unknown,
     MakeOpcode ''TNEI'' C_Branch 0 (\<lambda>_ s. Ok () (TNEI s)),
     op_Unknown,
     MakeOpcode ''BLTZAL'' C_Branch (IS_BRANCH OR BRANCHTYPE_BRANCH OR CONDTYPE_LTZ OR IS_LINKED) BLTZAL,
     MakeOpcode ''BGEZAL'' C_Branch (IS_BRANCH OR BRANCHTYPE_BRANCH OR CONDTYPE_GEZ OR IS_LINKED) BGEZAL,
     MakeOpcode ''BLTZALL'' C_Branch (IS_BRANCH OR BRANCHTYPE_BRANCH OR CONDTYPE_LTZ OR IS_LINKED OR IS_LIKELY) BLTZALL,
     MakeOpcode ''BGEZALL'' C_Branch (IS_BRANCH OR BRANCHTYPE_BRANCH OR CONDTYPE_GEZ OR IS_LINKED OR IS_LIKELY) BGEZALL,
     op_Unknown,
     op_Unknown,
     op_Unknown,
     op_Unknown,
     MakeOpcode ''MTSAB'' C_Default 0 (\<lambda>_ s. Ok () (MTSAB s)),
     MakeOpcode ''MTSAH'' C_Default 0 (\<lambda>_ s. Ok () (MTSAH s)),
     op_Unknown,
     op_Unknown,
     op_Unknown,
     op_Unknown,
     op_Unknown,
     op_Unknown]"

definition tbl_MMI :: "'a ee_fpu_scheme OPCODE list" where
  "tbl_MMI = [
     MakeOpcode ''MADD'' C_Mult 0 (\<lambda>_ s. Ok () (MADD s)),
     MakeOpcode ''MADDU'' C_Mult 0 (\<lambda>_ s. Ok () (MADDU s)),
     op_MMI_Unknown,
     op_MMI_Unknown,
     MakeOpcode ''PLZCW'' C_MMI_Default 0 (\<lambda>_ s. Ok () (PLZCW s)),
     op_MMI_Unknown,
     op_MMI_Unknown,
     op_MMI_Unknown,
     MakeOpcodeClass ''MMI0'' Class_MMI0,
     MakeOpcodeClass ''MMI2'' Class_MMI2,
     op_MMI_Unknown,
     op_MMI_Unknown,
     op_MMI_Unknown,
     op_MMI_Unknown,
     op_MMI_Unknown,
     op_MMI_Unknown,
     MakeOpcode ''MFHI1'' C_Default 0 (\<lambda>_ s. Ok () (MFHI1 s)),
     MakeOpcode ''MTHI1'' C_Default 0 (\<lambda>_ s. Ok () (MTHI1 s)),
     MakeOpcode ''MFLO1'' C_Default 0 (\<lambda>_ s. Ok () (MFLO1 s)),
     MakeOpcode ''MTLO1'' C_Default 0 (\<lambda>_ s. Ok () (MTLO1 s)),
     op_MMI_Unknown,
     op_MMI_Unknown,
     op_MMI_Unknown,
     op_MMI_Unknown,
     MakeOpcode ''MULT1'' C_Mult 0 (\<lambda>_ s. Ok () (MULT1 s)),
     MakeOpcode ''MULTU1'' C_Mult 0 (\<lambda>_ s. Ok () (MULTU1 s)),
     MakeOpcode ''DIV1'' C_Div 0 (\<lambda>_ s. Ok () (DIV1 s)),
     MakeOpcode ''DIVU1'' C_Div 0 (\<lambda>_ s. Ok () (DIVU1 s)),
     op_MMI_Unknown,
     op_MMI_Unknown,
     op_MMI_Unknown,
     op_MMI_Unknown,
     MakeOpcode ''MADD1'' C_Mult 0 (\<lambda>_ s. Ok () (MADD1 s)),
     MakeOpcode ''MADDU1'' C_Mult 0 (\<lambda>_ s. Ok () (MADDU1 s)),
     op_MMI_Unknown,
     op_MMI_Unknown,
     op_MMI_Unknown,
     op_MMI_Unknown,
     op_MMI_Unknown,
     op_MMI_Unknown,
     MakeOpcodeClass ''MMI1'' Class_MMI1,
     MakeOpcodeClass ''MMI3'' Class_MMI3,
     op_MMI_Unknown,
     op_MMI_Unknown,
     op_MMI_Unknown,
     op_MMI_Unknown,
     op_MMI_Unknown,
     op_MMI_Unknown,
     MakeOpcode ''PMFHL'' C_MMI_Default 0 (\<lambda>_ s. Ok () (PMFHL s)),
     MakeOpcode ''PMTHL'' C_MMI_Default 0 (\<lambda>_ s. Ok () (PMTHL s)),
     op_MMI_Unknown,
     op_MMI_Unknown,
     MakeOpcode ''PSLLH'' C_MMI_Default 0 (\<lambda>_ s. Ok () (PSLLH s)),
     op_MMI_Unknown,
     MakeOpcode ''PSRLH'' C_MMI_Default 0 (\<lambda>_ s. Ok () (PSRLH s)),
     MakeOpcode ''PSRAH'' C_MMI_Default 0 (\<lambda>_ s. Ok () (PSRAH s)),
     op_MMI_Unknown,
     op_MMI_Unknown,
     op_MMI_Unknown,
     op_MMI_Unknown,
     MakeOpcode ''PSLLW'' C_MMI_Default 0 (\<lambda>_ s. Ok () (PSLLW s)),
     op_MMI_Unknown,
     MakeOpcode ''PSRLW'' C_MMI_Default 0 (\<lambda>_ s. Ok () (PSRLW s)),
     MakeOpcode ''PSRAW'' C_MMI_Default 0 (\<lambda>_ s. Ok () (PSRAW s))]"

definition tbl_MMI0 :: "'a ee_fpu_scheme OPCODE list" where
  "tbl_MMI0 = [
     MakeOpcode ''PADDW'' C_MMI_Default 0 (\<lambda>_ s. Ok () (PADDW s)),
     MakeOpcode ''PSUBW'' C_MMI_Default 0 (\<lambda>_ s. Ok () (PSUBW s)),
     MakeOpcode ''PCGTW'' C_MMI_Default 0 (\<lambda>_ s. Ok () (PCGTW s)),
     MakeOpcode ''PMAXW'' C_MMI_Default 0 (\<lambda>_ s. Ok () (PMAXW s)),
     MakeOpcode ''PADDH'' C_MMI_Default 0 (\<lambda>_ s. Ok () (PADDH s)),
     MakeOpcode ''PSUBH'' C_MMI_Default 0 (\<lambda>_ s. Ok () (PSUBH s)),
     MakeOpcode ''PCGTH'' C_MMI_Default 0 (\<lambda>_ s. Ok () (PCGTH s)),
     MakeOpcode ''PMAXH'' C_MMI_Default 0 (\<lambda>_ s. Ok () (PMAXH s)),
     MakeOpcode ''PADDB'' C_MMI_Default 0 (\<lambda>_ s. Ok () (PADDB s)),
     MakeOpcode ''PSUBB'' C_MMI_Default 0 (\<lambda>_ s. Ok () (PSUBB s)),
     MakeOpcode ''PCGTB'' C_MMI_Default 0 (\<lambda>_ s. Ok () (PCGTB s)),
     op_MMI_Unknown,
     op_MMI_Unknown,
     op_MMI_Unknown,
     op_MMI_Unknown,
     op_MMI_Unknown,
     MakeOpcode ''PADDSW'' C_MMI_Default 0 (\<lambda>_ s. Ok () (PADDSW s)),
     MakeOpcode ''PSUBSW'' C_MMI_Default 0 (\<lambda>_ s. Ok () (PSUBSW s)),
     MakeOpcode ''PEXTLW'' C_MMI_Default 0 (\<lambda>_ s. Ok () (PEXTLW s)),
     MakeOpcode ''PPACW'' C_MMI_Default 0 (\<lambda>_ s. Ok () (PPACW s)),
     MakeOpcode ''PADDSH'' C_MMI_Default 0 (\<lambda>_ s. Ok () (PADDSH s)),
     MakeOpcode ''PSUBSH'' C_MMI_Default 0 (\<lambda>_ s. Ok () (PSUBSH s)),
     MakeOpcode ''PEXTLH'' C_MMI_Default 0 (\<lambda>_ s. Ok () (PEXTLH s)),
     MakeOpcode ''PPACH'' C_MMI_Default 0 (\<lambda>_ s. Ok () (PPACH s)),
     MakeOpcode ''PADDSB'' C_MMI_Default 0 (\<lambda>_ s. Ok () (PADDSB s)),
     MakeOpcode ''PSUBSB'' C_MMI_Default 0 (\<lambda>_ s. Ok () (PSUBSB s)),
     MakeOpcode ''PEXTLB'' C_MMI_Default 0 (\<lambda>_ s. Ok () (PEXTLB s)),
     MakeOpcode ''PPACB'' C_MMI_Default 0 (\<lambda>_ s. Ok () (PPACB s)),
     op_MMI_Unknown,
     op_MMI_Unknown,
     MakeOpcode ''PEXT5'' C_MMI_Default 0 (\<lambda>_ s. Ok () (PEXT5 s)),
     MakeOpcode ''PPAC5'' C_MMI_Default 0 (\<lambda>_ s. Ok () (PPAC5 s))]"

definition tbl_MMI1 :: "'a ee_fpu_scheme OPCODE list" where
  "tbl_MMI1 = [
     op_MMI_Unknown,
     MakeOpcode ''PABSW'' C_MMI_Default 0 (\<lambda>_ s. Ok () (PABSW s)),
     MakeOpcode ''PCEQW'' C_MMI_Default 0 (\<lambda>_ s. Ok () (PCEQW s)),
     MakeOpcode ''PMINW'' C_MMI_Default 0 (\<lambda>_ s. Ok () (PMINW s)),
     MakeOpcode ''PADSBH'' C_MMI_Default 0 (\<lambda>_ s. Ok () (PADSBH s)),
     MakeOpcode ''PABSH'' C_MMI_Default 0 (\<lambda>_ s. Ok () (PABSH s)),
     MakeOpcode ''PCEQH'' C_MMI_Default 0 (\<lambda>_ s. Ok () (PCEQH s)),
     MakeOpcode ''PMINH'' C_MMI_Default 0 (\<lambda>_ s. Ok () (PMINH s)),
     op_MMI_Unknown,
     op_MMI_Unknown,
     MakeOpcode ''PCEQB'' C_MMI_Default 0 (\<lambda>_ s. Ok () (PCEQB s)),
     op_MMI_Unknown,
     op_MMI_Unknown,
     op_MMI_Unknown,
     op_MMI_Unknown,
     op_MMI_Unknown,
     MakeOpcode ''PADDUW'' C_MMI_Default 0 (\<lambda>_ s. Ok () (PADDUW s)),
     MakeOpcode ''PSUBUW'' C_MMI_Default 0 (\<lambda>_ s. Ok () (PSUBUW s)),
     MakeOpcode ''PEXTUW'' C_MMI_Default 0 (\<lambda>_ s. Ok () (PEXTUW s)),
     op_MMI_Unknown,
     MakeOpcode ''PADDUH'' C_MMI_Default 0 (\<lambda>_ s. Ok () (PADDUH s)),
     MakeOpcode ''PSUBUH'' C_MMI_Default 0 (\<lambda>_ s. Ok () (PSUBUH s)),
     MakeOpcode ''PEXTUH'' C_MMI_Default 0 (\<lambda>_ s. Ok () (PEXTUH s)),
     op_MMI_Unknown,
     MakeOpcode ''PADDUB'' C_MMI_Default 0 (\<lambda>_ s. Ok () (PADDUB s)),
     MakeOpcode ''PSUBUB'' C_MMI_Default 0 (\<lambda>_ s. Ok () (PSUBUB s)),
     MakeOpcode ''PEXTUB'' C_MMI_Default 0 (\<lambda>_ s. Ok () (PEXTUB s)),
     MakeOpcode ''QFSRV'' C_MMI_Default 0 (\<lambda>_ s. Ok () (QFSRV s)),
     op_MMI_Unknown,
     op_MMI_Unknown,
     op_MMI_Unknown,
     op_MMI_Unknown]"

definition tbl_MMI2 :: "'a ee_fpu_scheme OPCODE list" where
  "tbl_MMI2 = [
     MakeOpcode ''PMADDW'' C_MMI_Mult 0 (\<lambda>_ s. Ok () (PMADDW s)),
     op_MMI_Unknown,
     MakeOpcode ''PSLLVW'' C_MMI_Default 0 (\<lambda>_ s. Ok () (PSLLVW s)),
     MakeOpcode ''PSRLVW'' C_MMI_Default 0 (\<lambda>_ s. Ok () (PSRLVW s)),
     MakeOpcode ''PMSUBW'' C_MMI_Mult 0 (\<lambda>_ s. Ok () (PMSUBW s)),
     op_MMI_Unknown,
     op_MMI_Unknown,
     op_MMI_Unknown,
     MakeOpcode ''PMFHI'' C_MMI_Mult 0 (\<lambda>_ s. Ok () (PMFHI s)),
     MakeOpcode ''PMFLO'' C_MMI_Mult 0 (\<lambda>_ s. Ok () (PMFLO s)),
     MakeOpcode ''PINTH'' C_MMI_Default 0 (\<lambda>_ s. Ok () (PINTH s)),
     op_MMI_Unknown,
     MakeOpcode ''PMULTW'' C_MMI_Mult 0 (\<lambda>_ s. Ok () (PMULTW s)),
     MakeOpcode ''PDIVW'' C_MMI_Div 0 (\<lambda>_ s. Ok () (PDIVW s)),
     MakeOpcode ''PCPYLD'' C_MMI_Default 0 (\<lambda>_ s. Ok () (PCPYLD s)),
     op_MMI_Unknown,
     MakeOpcode ''PMADDH'' C_MMI_Mult 0 (\<lambda>_ s. Ok () (PMADDH s)),
     MakeOpcode ''PHMADH'' C_MMI_Mult 0 (\<lambda>_ s. Ok () (PHMADH s)),
     MakeOpcode ''PAND'' C_MMI_Default 0 (\<lambda>_ s. Ok () (PAND s)),
     MakeOpcode ''PXOR'' C_MMI_Default 0 (\<lambda>_ s. Ok () (PXOR s)),
     MakeOpcode ''PMSUBH'' C_MMI_Mult 0 (\<lambda>_ s. Ok () (PMSUBH s)),
     MakeOpcode ''PHMSBH'' C_MMI_Mult 0 (\<lambda>_ s. Ok () (PHMSBH s)),
     op_MMI_Unknown,
     op_MMI_Unknown,
     op_MMI_Unknown,
     op_MMI_Unknown,
     MakeOpcode ''PEXEH'' C_MMI_Default 0 (\<lambda>_ s. Ok () (PEXEH s)),
     MakeOpcode ''PREVH'' C_MMI_Default 0 (\<lambda>_ s. Ok () (PREVH s)),
     MakeOpcode ''PMULTH'' C_MMI_Mult 0 (\<lambda>_ s. Ok () (PMULTH s)),
     MakeOpcode ''PDIVBW'' C_MMI_Div 0 (\<lambda>_ s. Ok () (PDIVBW s)),
     MakeOpcode ''PEXEW'' C_MMI_Default 0 (\<lambda>_ s. Ok () (PEXEW s)),
     MakeOpcode ''PROT3W'' C_MMI_Default 0 (\<lambda>_ s. Ok () (PROT3W s))]"

definition tbl_MMI3 :: "'a ee_fpu_scheme OPCODE list" where
  "tbl_MMI3 = [
     MakeOpcode ''PMADDUW'' C_MMI_Mult 0 (\<lambda>_ s. Ok () (PMADDUW s)),
     op_MMI_Unknown,
     op_MMI_Unknown,
     MakeOpcode ''PSRAVW'' C_MMI_Default 0 (\<lambda>_ s. Ok () (PSRAVW s)),
     op_MMI_Unknown,
     op_MMI_Unknown,
     op_MMI_Unknown,
     op_MMI_Unknown,
     MakeOpcode ''PMTHI'' C_MMI_Default 0 (\<lambda>_ s. Ok () (PMTHI s)),
     MakeOpcode ''PMTLO'' C_MMI_Default 0 (\<lambda>_ s. Ok () (PMTLO s)),
     MakeOpcode ''PINTEH'' C_MMI_Default 0 (\<lambda>_ s. Ok () (PINTEH s)),
     op_MMI_Unknown,
     MakeOpcode ''PMULTUW'' C_MMI_Mult 0 (\<lambda>_ s. Ok () (PMULTUW s)),
     MakeOpcode ''PDIVUW'' C_MMI_Div 0 (\<lambda>_ s. Ok () (PDIVUW s)),
     MakeOpcode ''PCPYUD'' C_MMI_Default 0 (\<lambda>_ s. Ok () (PCPYUD s)),
     op_MMI_Unknown,
     op_MMI_Unknown,
     op_MMI_Unknown,
     MakeOpcode ''POR'' C_MMI_Default 0 (\<lambda>_ s. Ok () (POR s)),
     MakeOpcode ''PNOR'' C_MMI_Default 0 (\<lambda>_ s. Ok () (PNOR s)),
     op_MMI_Unknown,
     op_MMI_Unknown,
     op_MMI_Unknown,
     op_MMI_Unknown,
     op_MMI_Unknown,
     op_MMI_Unknown,
     MakeOpcode ''PEXCH'' C_MMI_Default 0 (\<lambda>_ s. Ok () (PEXCH s)),
     MakeOpcode ''PCPYH'' C_MMI_Default 0 (\<lambda>_ s. Ok () (PCPYH s)),
     op_MMI_Unknown,
     op_MMI_Unknown,
     MakeOpcode ''PEXCW'' C_MMI_Default 0 (\<lambda>_ s. Ok () (PEXCW s)),
     op_MMI_Unknown]"

definition tbl_COP0 :: "'a ee_fpu_scheme OPCODE list" where
  "tbl_COP0 = [
     MakeOpcode ''MFC0'' C_CopDefault 0 (\<lambda>_ s. Ok () (MFC0 s)),
     op_COP0_Unknown,
     op_COP0_Unknown,
     op_COP0_Unknown,
     MakeOpcode ''MTC0'' C_CopDefault 0 (\<lambda>_ s. Ok () (MTC0 s)),
     op_COP0_Unknown,
     op_COP0_Unknown,
     op_COP0_Unknown,
     MakeOpcodeClass ''COP0_BC0'' Class_COP0_BC0,
     op_COP0_Unknown,
     op_COP0_Unknown,
     op_COP0_Unknown,
     op_COP0_Unknown,
     op_COP0_Unknown,
     op_COP0_Unknown,
     op_COP0_Unknown,
     MakeOpcodeClass ''COP0_C0'' Class_COP0_C0,
     op_COP0_Unknown,
     op_COP0_Unknown,
     op_COP0_Unknown,
     op_COP0_Unknown,
     op_COP0_Unknown,
     op_COP0_Unknown,
     op_COP0_Unknown,
     op_COP0_Unknown,
     op_COP0_Unknown,
     op_COP0_Unknown,
     op_COP0_Unknown,
     op_COP0_Unknown,
     op_COP0_Unknown,
     op_COP0_Unknown,
     op_COP0_Unknown]"

definition tbl_COP0_BC0 :: "'a ee_fpu_scheme OPCODE list" where
  "tbl_COP0_BC0 = [
     MakeOpcode ''BC0F'' C_Branch 0 BC0F,
     MakeOpcode ''BC0T'' C_Branch 0 BC0T,
     MakeOpcode ''BC0FL'' C_Branch 0 BC0FL,
     MakeOpcode ''BC0TL'' C_Branch 0 BC0TL,
     op_COP0_Unknown,
     op_COP0_Unknown,
     op_COP0_Unknown,
     op_COP0_Unknown,
     op_COP0_Unknown,
     op_COP0_Unknown,
     op_COP0_Unknown,
     op_COP0_Unknown,
     op_COP0_Unknown,
     op_COP0_Unknown,
     op_COP0_Unknown,
     op_COP0_Unknown,
     op_COP0_Unknown,
     op_COP0_Unknown,
     op_COP0_Unknown,
     op_COP0_Unknown,
     op_COP0_Unknown,
     op_COP0_Unknown,
     op_COP0_Unknown,
     op_COP0_Unknown,
     op_COP0_Unknown,
     op_COP0_Unknown,
     op_COP0_Unknown,
     op_COP0_Unknown,
     op_COP0_Unknown,
     op_COP0_Unknown,
     op_COP0_Unknown,
     op_COP0_Unknown]"

definition tbl_COP0_C0 :: "'a ee_fpu_scheme OPCODE list" where
  "tbl_COP0_C0 = [
     op_COP0_Unknown,
     MakeOpcode ''TLBR'' C_CopDefault 0 (\<lambda>_. TLBR),
     MakeOpcode ''TLBWI'' C_CopDefault 0 (\<lambda>_. TLBWI),
     op_COP0_Unknown,
     op_COP0_Unknown,
     op_COP0_Unknown,
     MakeOpcode ''TLBWR'' C_CopDefault 0 (\<lambda>_. TLBWR),
     op_COP0_Unknown,
     MakeOpcode ''TLBP'' C_CopDefault 0 (\<lambda>_ s. Ok () (TLBP s)),
     op_COP0_Unknown,
     op_COP0_Unknown,
     op_COP0_Unknown,
     op_COP0_Unknown,
     op_COP0_Unknown,
     op_COP0_Unknown,
     op_COP0_Unknown,
     op_COP0_Unknown,
     op_COP0_Unknown,
     op_COP0_Unknown,
     op_COP0_Unknown,
     op_COP0_Unknown,
     op_COP0_Unknown,
     op_COP0_Unknown,
     op_COP0_Unknown,
     MakeOpcode ''ERET'' C_CopDefault (IS_BRANCH OR BRANCHTYPE_ERET) (\<lambda>_ s. Ok () (ERET s)),
     op_COP0_Unknown,
     op_COP0_Unknown,
     op_COP0_Unknown,
     op_COP0_Unknown,
     op_COP0_Unknown,
     op_COP0_Unknown,
     op_COP0_Unknown,
     op_COP0_Unknown,
     op_COP0_Unknown,
     op_COP0_Unknown,
     op_COP0_Unknown,
     op_COP0_Unknown,
     op_COP0_Unknown,
     op_COP0_Unknown,
     op_COP0_Unknown,
     op_COP0_Unknown,
     op_COP0_Unknown,
     op_COP0_Unknown,
     op_COP0_Unknown,
     op_COP0_Unknown,
     op_COP0_Unknown,
     op_COP0_Unknown,
     op_COP0_Unknown,
     op_COP0_Unknown,
     op_COP0_Unknown,
     op_COP0_Unknown,
     op_COP0_Unknown,
     op_COP0_Unknown,
     op_COP0_Unknown,
     op_COP0_Unknown,
     op_COP0_Unknown,
     MakeOpcode ''EI'' C_CopDefault 0 (\<lambda>_ s. Ok () (EI s)),
     MakeOpcode ''DI'' C_CopDefault 0 (\<lambda>_ s. Ok () (DI s)),
     op_COP0_Unknown,
     op_COP0_Unknown,
     op_COP0_Unknown,
     op_COP0_Unknown,
     op_COP0_Unknown,
     op_COP0_Unknown]"

definition tbl_COP1 :: "'a ee_fpu_scheme OPCODE list" where
  "tbl_COP1 = [
     MakeOpcode ''MFC1'' C_CopDefault 0 (\<lambda>_ s. Ok () (MFC1 s)),
     op_COP1_Unknown,
     MakeOpcode ''CFC1'' C_CopDefault 0 (\<lambda>_ s. Ok () (CFC1 s)),
     op_COP1_Unknown,
     MakeOpcode ''MTC1'' C_CopDefault 0 (\<lambda>_ s. Ok () (MTC1 s)),
     op_COP1_Unknown,
     MakeOpcode ''CTC1'' C_CopDefault 0 (\<lambda>_ s. Ok () (CTC1 s)),
     op_COP1_Unknown,
     MakeOpcodeClass ''COP1_BC1'' Class_COP1_BC1,
     op_COP1_Unknown,
     op_COP1_Unknown,
     op_COP1_Unknown,
     op_COP1_Unknown,
     op_COP1_Unknown,
     op_COP1_Unknown,
     op_COP1_Unknown,
     MakeOpcodeClass ''COP1_S'' Class_COP1_S,
     op_COP1_Unknown,
     op_COP1_Unknown,
     op_COP1_Unknown,
     MakeOpcodeClass ''COP1_W'' Class_COP1_W,
     op_COP1_Unknown,
     op_COP1_Unknown,
     op_COP1_Unknown,
     op_COP1_Unknown,
     op_COP1_Unknown,
     op_COP1_Unknown,
     op_COP1_Unknown,
     op_COP1_Unknown,
     op_COP1_Unknown,
     op_COP1_Unknown,
     op_COP1_Unknown]"

definition tbl_COP1_BC1 :: "'a ee_fpu_scheme OPCODE list" where
  "tbl_COP1_BC1 = [
     MakeOpcode ''BC1F'' C_Branch (IS_BRANCH OR BRANCHTYPE_BC1 OR CONDTYPE_EQ) BC1F,
     MakeOpcode ''BC1T'' C_Branch (IS_BRANCH OR BRANCHTYPE_BC1 OR CONDTYPE_NE) BC1T,
     MakeOpcode ''BC1FL'' C_Branch (IS_BRANCH OR BRANCHTYPE_BC1 OR CONDTYPE_EQ OR IS_LIKELY) BC1FL,
     MakeOpcode ''BC1TL'' C_Branch (IS_BRANCH OR BRANCHTYPE_BC1 OR CONDTYPE_NE OR IS_LIKELY) BC1TL,
     op_COP1_Unknown,
     op_COP1_Unknown,
     op_COP1_Unknown,
     op_COP1_Unknown,
     op_COP1_Unknown,
     op_COP1_Unknown,
     op_COP1_Unknown,
     op_COP1_Unknown,
     op_COP1_Unknown,
     op_COP1_Unknown,
     op_COP1_Unknown,
     op_COP1_Unknown,
     op_COP1_Unknown,
     op_COP1_Unknown,
     op_COP1_Unknown,
     op_COP1_Unknown,
     op_COP1_Unknown,
     op_COP1_Unknown,
     op_COP1_Unknown,
     op_COP1_Unknown,
     op_COP1_Unknown,
     op_COP1_Unknown,
     op_COP1_Unknown,
     op_COP1_Unknown,
     op_COP1_Unknown,
     op_COP1_Unknown,
     op_COP1_Unknown,
     op_COP1_Unknown]"

definition tbl_COP1_S :: "'a ee_fpu_scheme OPCODE list" where
  "tbl_COP1_S = [
     MakeOpcode ''ADD_S'' C_CopDefault 0 (\<lambda>env s. Ok () (ADD_S (env_host env) s)),
     MakeOpcode ''SUB_S'' C_CopDefault 0 (\<lambda>env s. Ok () (SUB_S (env_host env) s)),
     MakeOpcode ''MUL_S'' C_FPU_Mult 0 (\<lambda>env s. Ok () (MUL_S (env_host env) s)),
     MakeOpcode ''DIV_S'' (6 * 8) 0 (\<lambda>env s. Ok () (DIV_S (env_host env) s)),
     MakeOpcode ''SQRT_S'' (6 * 8) 0 (\<lambda>env s. Ok () (SQRT_S (env_host env) s)),
     MakeOpcode ''ABS_S'' C_CopDefault 0 (\<lambda>_ s. Ok () (ABS_S s)),
     MakeOpcode ''MOV_S'' C_CopDefault 0 (\<lambda>_ s. Ok () (MOV_S s)),
     MakeOpcode ''NEG_S'' C_CopDefault 0 (\<lambda>_ s. Ok () (NEG_S s)),
     op_COP1_Unknown,
     op_COP1_Unknown,
     op_COP1_Unknown,
     op_COP1_Unknown,
     op_COP1_Unknown,
     op_COP1_Unknown,
     op_COP1_Unknown,
     op_COP1_Unknown,
     op_COP1_Unknown,
     op_COP1_Unknown,
     op_COP1_Unknown,
     op_COP1_Unknown,
     op_COP1_Unknown,
     op_COP1_Unknown,
     MakeOpcode ''RSQRT_S'' (8 * 8) 0 (\<lambda>env s. Ok () (RSQRT_S (env_host env) s)),
     op_COP1_Unknown,
     MakeOpcode ''ADDA_S'' C_CopDefault 0 (\<lambda>env s. Ok () (ADDA_S (env_host env) s)),
     MakeOpcode ''SUBA_S'' C_CopDefault 0 (\<lambda>env s. Ok () (SUBA_S (env_host env) s)),
     MakeOpcode ''MULA_S'' C_FPU_Mult 0 (\<lambda>env s. Ok () (MULA_S (env_host env) s)),
     op_COP1_Unknown,
     MakeOpcode ''MADD_S'' C_FPU_Mult 0 (\<lambda>env s. Ok () (MADD_S (env_host env) s)),
     MakeOpcode ''MSUB_S'' C_FPU_Mult 0 (\<lambda>env s. Ok () (MSUB_S (env_host env) s)),
     MakeOpcode ''MADDA_S'' C_FPU_Mult 0 (\<lambda>env s. Ok () (MADDA_S (env_host env) s)),
     MakeOpcode ''MSUBA_S'' C_FPU_Mult 0 (\<lambda>env s. Ok () (MSUBA_S (env_host env) s)),
     op_COP1_Unknown,
     op_COP1_Unknown,
     op_COP1_Unknown,
     op_COP1_Unknown,
     MakeOpcode ''CVT_W'' C_CopDefault 0 (\<lambda>env s. Ok () (CVT_W (env_host env) s)),
     op_COP1_Unknown,
     op_COP1_Unknown,
     op_COP1_Unknown,
     MakeOpcode ''MAX_S'' C_CopDefault 0 (\<lambda>env s. Ok () (MAX_S (env_host env) s)),
     MakeOpcode ''MIN_S'' C_CopDefault 0 (\<lambda>env s. Ok () (MIN_S (env_host env) s)),
     op_COP1_Unknown,
     op_COP1_Unknown,
     op_COP1_Unknown,
     op_COP1_Unknown,
     op_COP1_Unknown,
     op_COP1_Unknown,
     MakeOpcode ''C_F'' C_CopDefault 0 (\<lambda>_ s. Ok () (C_F s)),
     op_COP1_Unknown,
     MakeOpcode ''C_EQ'' C_CopDefault 0 (\<lambda>env s. Ok () (C_EQ (env_host env) s)),
     op_COP1_Unknown,
     MakeOpcode ''C_LT'' C_CopDefault 0 (\<lambda>env s. Ok () (C_LT (env_host env) s)),
     op_COP1_Unknown,
     MakeOpcode ''C_LE'' C_CopDefault 0 (\<lambda>env s. Ok () (C_LE (env_host env) s)),
     op_COP1_Unknown,
     op_COP1_Unknown,
     op_COP1_Unknown,
     op_COP1_Unknown,
     op_COP1_Unknown,
     op_COP1_Unknown,
     op_COP1_Unknown,
     op_COP1_Unknown,
     op_COP1_Unknown]"

definition tbl_COP1_W :: "'a ee_fpu_scheme OPCODE list" where
  "tbl_COP1_W = [
     op_COP1_Unknown,
     op_COP1_Unknown,
     op_COP1_Unknown,
     op_COP1_Unknown,
     op_COP1_Unknown,
     op_COP1_Unknown,
     op_COP1_Unknown,
     op_COP1_Unknown,
     op_COP1_Unknown,
     op_COP1_Unknown,
     op_COP1_Unknown,
     op_COP1_Unknown,
     op_COP1_Unknown,
     op_COP1_Unknown,
     op_COP1_Unknown,
     op_COP1_Unknown,
     op_COP1_Unknown,
     op_COP1_Unknown,
     op_COP1_Unknown,
     op_COP1_Unknown,
     op_COP1_Unknown,
     op_COP1_Unknown,
     op_COP1_Unknown,
     op_COP1_Unknown,
     op_COP1_Unknown,
     op_COP1_Unknown,
     op_COP1_Unknown,
     op_COP1_Unknown,
     op_COP1_Unknown,
     op_COP1_Unknown,
     op_COP1_Unknown,
     op_COP1_Unknown,
     MakeOpcode ''CVT_S'' C_CopDefault 0 (\<lambda>env s. Ok () (CVT_S (env_host env) s)),
     op_COP1_Unknown,
     op_COP1_Unknown,
     op_COP1_Unknown,
     op_COP1_Unknown,
     op_COP1_Unknown,
     op_COP1_Unknown,
     op_COP1_Unknown,
     op_COP1_Unknown,
     op_COP1_Unknown,
     op_COP1_Unknown,
     op_COP1_Unknown,
     op_COP1_Unknown,
     op_COP1_Unknown,
     op_COP1_Unknown,
     op_COP1_Unknown,
     op_COP1_Unknown,
     op_COP1_Unknown,
     op_COP1_Unknown,
     op_COP1_Unknown,
     op_COP1_Unknown,
     op_COP1_Unknown,
     op_COP1_Unknown,
     op_COP1_Unknown,
     op_COP1_Unknown,
     op_COP1_Unknown,
     op_COP1_Unknown,
     op_COP1_Unknown,
     op_COP1_Unknown,
     op_COP1_Unknown,
     op_COP1_Unknown,
     op_COP1_Unknown]"

section \<open>Lookup\<close>

text \<open>
  The functions \<open>Class_*\<close>.  All index with the instruction they are given, except
  \<open>Class_COP0_BC0\<close>, which reads \<open>cpuRegs.code\<close>.
\<close>

fun Class :: "opclass \<Rightarrow> u32 \<Rightarrow> u32 \<Rightarrow> 'a ee_fpu_scheme OPCODE" where
  "Class Class_SPECIAL op cur = tbl_Special ! unat (op AND 0x3F)"
| "Class Class_REGIMM op cur = tbl_RegImm ! unat (drop_bit 16 op AND 0x1F)"
| "Class Class_MMI op cur = tbl_MMI ! unat (op AND 0x3F)"
| "Class Class_MMI0 op cur = tbl_MMI0 ! unat (drop_bit 6 op AND 0x1F)"
| "Class Class_MMI1 op cur = tbl_MMI1 ! unat (drop_bit 6 op AND 0x1F)"
| "Class Class_MMI2 op cur = tbl_MMI2 ! unat (drop_bit 6 op AND 0x1F)"
| "Class Class_MMI3 op cur = tbl_MMI3 ! unat (drop_bit 6 op AND 0x1F)"
| "Class Class_COP0 op cur = tbl_COP0 ! unat (drop_bit 21 op AND 0x1F)"
| "Class Class_COP0_BC0 op cur = tbl_COP0_BC0 ! unat (drop_bit 16 cur AND 0x03)"
| "Class Class_COP0_C0 op cur = tbl_COP0_C0 ! unat (op AND 0x3F)"
| "Class Class_COP1 op cur = tbl_COP1 ! unat (drop_bit 21 op AND 0x1F)"
| "Class Class_COP1_BC1 op cur = tbl_COP1_BC1 ! unat (drop_bit 16 op AND 0x1F)"
| "Class Class_COP1_S op cur = tbl_COP1_S ! unat (op AND 0x3F)"
| "Class Class_COP1_W op cur = tbl_COP1_W ! unat (op AND 0x3F)"

text \<open>The loop \<open>while( opcode->getsubclass != NULL )\<close>.\<close>

partial_function (option) descend :: "u32 \<Rightarrow> u32 \<Rightarrow> 'a ee_fpu_scheme OPCODE \<Rightarrow> 'a ee_fpu_scheme OPCODE option" where
  "descend op cur opcode =
     (case getsubclass opcode of
        None \<Rightarrow> Some opcode
      | Some c \<Rightarrow> descend op cur (Class c op cur))"

definition GetInstruction :: "u32 \<Rightarrow> u32 \<Rightarrow> 'a ee_fpu_scheme OPCODE option" where
  "GetInstruction op cur = descend op cur (tbl_Standard ! unat (drop_bit 26 op))"

definition GetCurrentInstruction :: "'a cpuRegisters_scheme \<Rightarrow> 'b ee_fpu_scheme OPCODE option" where
  "GetCurrentInstruction s = descend (code s) (code s) (tbl_Standard ! unat (Opcode s))"

section \<open>Every instruction word decodes\<close>

definition Class_table :: "opclass \<Rightarrow> 'a ee_fpu_scheme OPCODE list" where
  "Class_table c = (case c of
     Class_SPECIAL \<Rightarrow> tbl_Special | Class_REGIMM \<Rightarrow> tbl_RegImm | Class_MMI \<Rightarrow> tbl_MMI
   | Class_MMI0 \<Rightarrow> tbl_MMI0 | Class_MMI1 \<Rightarrow> tbl_MMI1 | Class_MMI2 \<Rightarrow> tbl_MMI2 | Class_MMI3 \<Rightarrow> tbl_MMI3
   | Class_COP0 \<Rightarrow> tbl_COP0 | Class_COP0_BC0 \<Rightarrow> tbl_COP0_BC0 | Class_COP0_C0 \<Rightarrow> tbl_COP0_C0
   | Class_COP1 \<Rightarrow> tbl_COP1 | Class_COP1_BC1 \<Rightarrow> tbl_COP1_BC1 | Class_COP1_S \<Rightarrow> tbl_COP1_S
   | Class_COP1_W \<Rightarrow> tbl_COP1_W)"

lemmas tbl_defs = tbl_Standard_def tbl_Special_def tbl_RegImm_def tbl_MMI_def tbl_MMI0_def tbl_MMI1_def
  tbl_MMI2_def tbl_MMI3_def tbl_COP0_def tbl_COP0_BC0_def tbl_COP0_C0_def tbl_COP1_def
  tbl_COP1_BC1_def tbl_COP1_S_def tbl_COP1_W_def

lemmas op_Unknown_defs = op_Unknown_def op_MMI_Unknown_def op_COP0_Unknown_def op_COP1_Unknown_def

lemma length_tbl:
  "length tbl_Standard = 64" "length tbl_Special = 64" "length tbl_RegImm = 32" "length tbl_MMI = 64"
  "length tbl_MMI0 = 32" "length tbl_MMI1 = 32" "length tbl_MMI2 = 32" "length tbl_MMI3 = 32"
  "length tbl_COP0 = 32" "length tbl_COP0_BC0 = 32" "length tbl_COP0_C0 = 64" "length tbl_COP1 = 32"
  "length tbl_COP1_BC1 = 32" "length tbl_COP1_S = 64" "length tbl_COP1_W = 64"
  by (simp_all add: tbl_defs)

lemma unat_field_bound: "m < 2 ^ 31 \<Longrightarrow> unat (x AND word_of_nat m :: u32) < Suc m"
proof -
  assume "m < 2 ^ 31"
  then have "unat (word_of_nat m :: u32) = m" by (simp add: unat_of_nat)
  moreover have "x AND word_of_nat m \<le> (word_of_nat m :: u32)" by (simp add: word_and_le1)
  ultimately show ?thesis using word_le_nat_alt by (metis le_imp_less_Suc)
qed

lemma unat_field:
  "unat (x AND 0x3F :: u32) < 64" "unat (x AND 0x1F :: u32) < 32" "unat (x AND 3 :: u32) < 32"
  using unat_field_bound [of 63 x] unat_field_bound [of 31 x] unat_field_bound [of 3 x] by simp_all

lemma unat_opcode_field: "unat (drop_bit 26 x :: u32) < 64"
  using unat_bound [of x] by (simp add: unat_drop_bit less_mult_imp_div_less)

lemma Class_in_table: "Class c op cur \<in> set (Class_table c)"
  by (cases c) (simp_all add: Class_table_def length_tbl unat_field)

lemma Standard_in_table: "tbl_Standard ! unat (drop_bit 26 op :: u32) \<in> set tbl_Standard"
  by (rule nth_mem) (simp add: length_tbl unat_opcode_field)

text \<open>The classes nest at most two deep.\<close>

fun class_depth :: "opclass option \<Rightarrow> nat" where
  "class_depth None = 0"
| "class_depth (Some Class_MMI) = 2"
| "class_depth (Some Class_COP0) = 2"
| "class_depth (Some Class_COP1) = 2"
| "class_depth (Some _) = 1"

lemma Class_depth:
  "o' \<in> set (Class_table c) \<Longrightarrow> class_depth (getsubclass o') < class_depth (Some c)"
  by (cases c)
     (simp_all only: Class_table_def opclass.case tbl_defs op_Unknown_defs,
      (auto simp: MakeOpcode_def MakeOpcodeClass_def)+)

definition wf_OPCODE :: "'s OPCODE \<Rightarrow> bool" where
  "wf_OPCODE o' \<longleftrightarrow> (getsubclass o' = None \<longleftrightarrow> op_interpret o' \<noteq> None) \<and>
     (getsubclass o' = None \<longrightarrow> 0 < op_cycles o')"

lemma wf_MakeOpcode: "wf_OPCODE (MakeOpcode n c f h) \<longleftrightarrow> 0 < c"
  and wf_MakeOpcodeClass: "wf_OPCODE (MakeOpcodeClass n cl)"
  by (simp_all add: wf_OPCODE_def MakeOpcode_def MakeOpcodeClass_def)

lemma wf_tbl_Standard: "\<forall>o' \<in> set tbl_Standard. wf_OPCODE o'"
  by (simp add: tbl_Standard_def op_Unknown_defs wf_MakeOpcode wf_MakeOpcodeClass)

lemma wf_Class_table: "o' \<in> set (Class_table c) \<Longrightarrow> wf_OPCODE o'"
proof -
  have "\<forall>o' \<in> set (Class_table c). wf_OPCODE o'"
    by (cases c) (simp_all add: Class_table_def tbl_defs op_Unknown_defs wf_MakeOpcode wf_MakeOpcodeClass)
  then show "o' \<in> set (Class_table c) \<Longrightarrow> wf_OPCODE o'" by blast
qed

lemma descend_total:
  assumes "P opcode" and "\<And>c o'. o' \<in> set (Class_table c) \<Longrightarrow> P o'"
  shows "\<exists>o'. descend op cur opcode = Some o' \<and> getsubclass o' = None \<and> P o'"
  using assms(1)
proof (induction "class_depth (getsubclass opcode)" arbitrary: opcode rule: less_induct)
  case less
  show ?case
  proof (cases "getsubclass opcode")
    case None
    then show ?thesis using less.prems by (simp add: descend.simps)
  next
    case (Some c)
    have "class_depth (getsubclass (Class c op cur)) < class_depth (getsubclass opcode)"
      using Class_depth [OF Class_in_table] Some by metis
    from less.hyps [OF this assms(2) [OF Class_in_table]] show ?thesis
      by (subst descend.simps) (simp add: Some)
  qed
qed

text \<open>The instructions of the tables; whatever the lookup returns is one of them.\<close>

definition instructions :: "'a ee_fpu_scheme OPCODE set" where
  "instructions = {o'. getsubclass o' = None \<and> (o' \<in> set tbl_Standard \<or> (\<exists>c. o' \<in> set (Class_table c)))}"

lemma GetInstruction_in: "\<exists>o'. GetInstruction op cur = Some o' \<and> o' \<in> instructions"
  using descend_total [of "\<lambda>o'. o' \<in> set tbl_Standard \<or> (\<exists>c. o' \<in> set (Class_table c))"
      "tbl_Standard ! unat (drop_bit 26 op)" op cur] Standard_in_table
  by (auto simp: GetInstruction_def instructions_def)

lemma GetCurrentInstruction_eq: "GetCurrentInstruction s = GetInstruction (code s) (code s)"
  by (simp add: GetCurrentInstruction_def GetInstruction_def Opcode_def)

lemma instructions_handler: "o' \<in> instructions \<Longrightarrow> \<exists>h. op_interpret o' = Some h"
  using wf_tbl_Standard wf_Class_table by (fastforce simp: instructions_def wf_OPCODE_def)

text \<open>A property of all handlers is checked table by table.\<close>

lemma instructions_induct:
  assumes "\<And>o' h. o' \<in> set tbl_Standard \<Longrightarrow> op_interpret o' = Some h \<Longrightarrow> P h"
    and "\<And>c o' h. o' \<in> set (Class_table c) \<Longrightarrow> op_interpret o' = Some h \<Longrightarrow> P h"
    and "o' \<in> instructions" "op_interpret o' = Some h"
  shows "P h"
  using assms by (auto simp: instructions_def)

text \<open>
  The lookup of any instruction word ends, at an entry that is an instruction, with a
  handler and a positive cycle count.
\<close>

lemma GetInstruction_total:
  "\<exists>o'. GetInstruction op cur = Some o' \<and> getsubclass o' = None \<and> op_interpret o' \<noteq> None \<and> 0 < op_cycles o'"
proof -
  have "wf_OPCODE (tbl_Standard ! unat (drop_bit 26 op))"
    using wf_tbl_Standard Standard_in_table by blast
  then have "\<exists>o'. descend op cur (tbl_Standard ! unat (drop_bit 26 op)) = Some o' \<and>
      getsubclass o' = None \<and> wf_OPCODE o'"
    by (rule descend_total) (rule wf_Class_table)
  then show ?thesis
    by (auto simp: GetInstruction_def wf_OPCODE_def)
qed

end
