(* ===== verification/EE_Interp.thy ===== *)
theory EE_Interp
  imports EE_Decode
begin

text \<open>
  The interpreter loop of pcsx2/Interpreter.cpp: \<open>execI\<close>, \<open>intReset\<close>, \<open>intExecute\<close> and
  \<open>intSafeExitExecution\<close>.

  A branch calls \<open>execI\<close> for its delay slot, so a run of branches in each other's delay
  slots nests the calls without bound; the model counts the nesting and reports
  \<open>NestedTooDeep\<close> when the count is used up.  That a result other than that one does not
  depend on the count is shown in \<open>EE_Delay\<close>.
\<close>

unbundle bit_operations_syntax

section \<open>One instruction\<close>

type_synonym 'a ee_step = "'a ee_fpu_scheme \<Rightarrow> ('a ee_fpu_scheme, unit) res"

definition dispatch :: "'a ee_fpu_scheme ee_env \<Rightarrow> 'a ee_step" where
  "dispatch env s =
     (case GetCurrentInstruction s of
        None \<Rightarrow> Throw NestedTooDeep s
      | Some opcode \<Rightarrow>
          (case op_interpret opcode of
             None \<Rightarrow> Throw ArrayBounds s
           | Some h \<Rightarrow> h env (s\<lparr>cpuBlockCycles := cpuBlockCycles s + op_cycles opcode\<rparr>)))"

fun execI :: "nat \<Rightarrow> 'a ee_fpu_scheme ee_env \<Rightarrow> 'a ee_step" where
  "execI 0 env s = Throw NestedTooDeep s"
| "execI (Suc n) env s =
     res_bind (memRead32 (env_devs env) (pc s) (s\<lparr>pc := pc s + 4\<rparr>)) (\<lambda>v s1.
       dispatch (env\<lparr>env_execI := execI n env\<rparr>) (s1\<lparr>code := v\<rparr>))"

definition intReset :: "'a ee_cpu_scheme \<Rightarrow> 'a ee_cpu_scheme" where
  "intReset s = s\<lparr>branch := 0, branch2 := 0\<rparr>"

definition intStep :: "nat \<Rightarrow> 'a ee_fpu_scheme ee_env \<Rightarrow> 'a ee_step" where
  "intStep = execI"

definition intSafeExitExecution :: "bool \<Rightarrow> 'a ee_cpu_scheme \<Rightarrow> ('a ee_cpu_scheme, unit) res" where
  "intSafeExitExecution eeEventTestIsActive s =
     (if eeEventTestIsActive then Ok () (s\<lparr>intExitExecution := True\<rparr>) else Throw ExitCpuExecute s)"

section \<open>The main loop\<close>

text \<open>
  The globals of the boot sequence and the hooks it calls.  \<open>intExecute\<close> keeps the phase it
  is in across a cancelled instruction; \<open>LOADING_LOOP\<close> is the loop inside the second phase,
  which a cancelled instruction leaves.  The first argument bounds the number of
  instructions: \<open>None\<close> is a run that has not returned after that many.
\<close>

record ee_sys = ee_fpu +
  g_eeloadMain :: u32
  g_eeloadExec :: u32
  g_SkipBiosHack :: bool
  g_GameLoading :: bool
  ElfEntry :: u32

record 's ee_boot =
  eeloadHook :: "'s \<Rightarrow> ('s, unit) res"
  eeloadHook2 :: "'s \<Rightarrow> ('s, unit) res"
  eeGameStarting :: "'s \<Rightarrow> ('s, unit) res"

abbreviation EELOAD_START :: u32 where "EELOAD_START \<equiv> 0x82000"

datatype ExecuteState = RESET | GAME_LOADING | LOADING_LOOP | GAME_RUNNING

definition eeload_target :: "'a ee_sys_scheme \<Rightarrow> u32" where
  "eeload_target s = (if g_eeloadMain s \<noteq> 0 then g_eeloadMain s else EELOAD_START)"

definition is_JAL :: "u32 \<Rightarrow> bool" where
  "is_JAL w \<longleftrightarrow> drop_bit 26 w = 3"

definition eeload_arrived ::
  "'a ee_sys_scheme ee_boot \<Rightarrow> 'a ee_sys_scheme ee_env \<Rightarrow> 'a ee_sys_scheme \<Rightarrow> ('a ee_sys_scheme, unit) res" where
  "eeload_arrived b env s =
     (let rd = memRead32 (env_devs env)
      in if pc s = EELOAD_START
         then res_bind (rd (EELOAD_START + 0x9c) s) (\<lambda>mainjump s1.
                Ok () (if is_JAL mainjump
                       then s1\<lparr>g_eeloadMain := ((EELOAD_START + 0xa0) AND 0xf0000000)
                              OR (push_bit 2 mainjump AND 0x0fffffff)\<rparr>
                       else s1))
         else if pc s = g_eeloadMain s
         then res_bind (eeloadHook b s) (\<lambda>_ s1.
                if g_SkipBiosHack s1
                then res_bind (rd (EELOAD_START + 0x470) s1) (\<lambda>typeAexecjump s2.
                     res_bind (rd (EELOAD_START + 0x5B0) s2) (\<lambda>typeBexecjump s3.
                     res_bind (rd (EELOAD_START + 0x618) s3) (\<lambda>typeCexecjump s4.
                     res_bind (rd (EELOAD_START + 0x600) s4) (\<lambda>typeDexecjump s5.
                       Ok () (if is_JAL typeBexecjump \<or> is_JAL typeCexecjump \<or> is_JAL typeDexecjump
                              then s5\<lparr>g_eeloadExec := EELOAD_START + 0x2B8\<rparr>
                              else if is_JAL typeAexecjump
                              then s5\<lparr>g_eeloadExec := EELOAD_START + 0x170\<rparr>
                              else s5)))))
                else Ok () s1)
         else if pc s = g_eeloadExec s then eeloadHook2 b s
         else Ok () s)"

definition on_exn ::
  "('s, unit) res \<Rightarrow> ('s \<Rightarrow> ('s, unit) res option) \<Rightarrow> ('s \<Rightarrow> ('s, unit) res option) \<Rightarrow> ('s, unit) res option" where
  "on_exn r cancelled next =
     (case r of
        Ok _ s \<Rightarrow> next s
      | Throw ExitCpuExecute s \<Rightarrow> Some (Ok () s)
      | Throw CancelInstruction s \<Rightarrow> cancelled s
      | Throw e s \<Rightarrow> Some (Throw e s))"

fun intExecute ::
  "nat \<Rightarrow> nat \<Rightarrow> 'a ee_sys_scheme ee_boot \<Rightarrow> 'a ee_sys_scheme ee_env \<Rightarrow> ExecuteState \<Rightarrow> 'a ee_sys_scheme \<Rightarrow>
     ('a ee_sys_scheme, unit) res option" where
  "intExecute 0 d b env st s = None"
| "intExecute (Suc n) d b env RESET s =
     on_exn (execI d env s) (intExecute n d b env RESET) (\<lambda>s1.
       if pc s1 \<noteq> eeload_target s1 then intExecute n d b env RESET s1
       else on_exn (eeload_arrived b env s1) (intExecute n d b env RESET) (\<lambda>s2.
              if g_GameLoading s2 then intExecute n d b env GAME_LOADING s2
              else Some (Ok () s2)))"
| "intExecute (Suc n) d b env GAME_LOADING s =
     (if ElfEntry s \<noteq> 0xFFFFFFFF then intExecute n d b env LOADING_LOOP s
      else intExecute n d b env GAME_RUNNING s)"
| "intExecute (Suc n) d b env LOADING_LOOP s =
     on_exn (execI d env s) (intExecute n d b env GAME_LOADING) (\<lambda>s1.
       if pc s1 \<noteq> ElfEntry s1 then intExecute n d b env LOADING_LOOP s1
       else on_exn (eeGameStarting b s1) (intExecute n d b env GAME_LOADING)
              (intExecute n d b env GAME_RUNNING))"
| "intExecute (Suc n) d b env GAME_RUNNING s =
     on_exn (execI d env s) (intExecute n d b env GAME_RUNNING) (intExecute n d b env GAME_RUNNING)"

end
