(* ===== verification/Iop_Regs.thy ===== *)
theory Iop_Regs
  imports EE_Regs
begin

text \<open>
  The I/O processor's state (\<open>struct psxRegisters\<close> of pcsx2/R3000A.h and the globals of
  pcsx2/R3000A.cpp), the macros that read an instruction, exception entry and the clock
  of its events.  The state of the other machine parts extends \<open>psxRegisters\<close>.

  \<open>iopHw\<close> is the page of hardware registers, a byte array.  Register 0 is an element of
  the array like the others; the handlers do not write it.
\<close>

unbundle bit_operations_syntax

section \<open>State\<close>

record psxRegisters =
  psxGPR :: "reg \<Rightarrow> u32"
  psx_hi :: u32
  psx_lo :: u32
  psxCP0 :: "5 word \<Rightarrow> u32"
  psxCP2D :: "5 word \<Rightarrow> u32"
  psxCP2C :: "5 word \<Rightarrow> u32"
  psx_pc :: u32
  psx_code :: u32
  psx_cycle :: u32
  psx_interrupt :: u32
  psx_sCycle :: "5 word \<Rightarrow> u32"
  psx_eCycle :: "5 word \<Rightarrow> u32"
  g_iopNextEventCycle :: u32
  iopBreak :: u32
  iopCycleEE :: u32
  iopEventAction :: bool
  iopEventTestIsActive :: bool
  iopIsDelaySlot :: bool
  iopHw :: "u16 \<Rightarrow> u8"
  psx_branch2 :: bool
  branchPC :: u32
  CurrentIRX_length :: nat

definition psxHu8 :: "u32 \<Rightarrow> 'a psxRegisters_scheme \<Rightarrow> u8" where
  "psxHu8 mem s = iopHw s (ucast mem)"
definition psxHu16 :: "u32 \<Rightarrow> 'a psxRegisters_scheme \<Rightarrow> u16" where
  "psxHu16 mem s = load_le 2 (iopHw s) (ucast mem)"
definition psxHu32 :: "u32 \<Rightarrow> 'a psxRegisters_scheme \<Rightarrow> u32" where
  "psxHu32 mem s = load_le 4 (iopHw s) (ucast mem)"
definition wPsxHu8 :: "u32 \<Rightarrow> u8 \<Rightarrow> 'a psxRegisters_scheme \<Rightarrow> 'a psxRegisters_scheme" where
  "wPsxHu8 mem v s = s\<lparr>iopHw := (iopHw s)(ucast mem := v)\<rparr>"
definition wPsxHu16 :: "u32 \<Rightarrow> u16 \<Rightarrow> 'a psxRegisters_scheme \<Rightarrow> 'a psxRegisters_scheme" where
  "wPsxHu16 mem v s = s\<lparr>iopHw := store_le 2 (iopHw s) (ucast mem) v\<rparr>"
definition wPsxHu32 :: "u32 \<Rightarrow> u32 \<Rightarrow> 'a psxRegisters_scheme \<Rightarrow> 'a psxRegisters_scheme" where
  "wPsxHu32 mem v s = s\<lparr>iopHw := store_le 4 (iopHw s) (ucast mem) v\<rparr>"

text \<open>The instruction field macros.\<close>

definition pFunct :: "'a psxRegisters_scheme \<Rightarrow> nat" where
  "pFunct s = unat (psx_code s AND 0x3F)"
definition pRd :: "'a psxRegisters_scheme \<Rightarrow> reg" where
  "pRd s = ucast (drop_bit 11 (psx_code s) AND 0x1F)"
definition pRt :: "'a psxRegisters_scheme \<Rightarrow> reg" where
  "pRt s = ucast (drop_bit 16 (psx_code s) AND 0x1F)"
definition pRs :: "'a psxRegisters_scheme \<Rightarrow> reg" where
  "pRs s = ucast (drop_bit 21 (psx_code s) AND 0x1F)"
definition pSa :: "'a psxRegisters_scheme \<Rightarrow> nat" where
  "pSa s = unat (drop_bit 6 (psx_code s) AND 0x1F)"
definition pInstrucTarget :: "'a psxRegisters_scheme \<Rightarrow> u32" where
  "pInstrucTarget s = psx_code s AND 0x03ffffff"
definition pImm :: "'a psxRegisters_scheme \<Rightarrow> u32" where
  "pImm s = scast (ucast (psx_code s) :: u16)"
definition pImmU :: "'a psxRegisters_scheme \<Rightarrow> u32" where
  "pImmU s = psx_code s AND 0xffff"
definition prRs :: "'a psxRegisters_scheme \<Rightarrow> u32" where
  "prRs s = psxGPR s (pRs s)"
definition prRt :: "'a psxRegisters_scheme \<Rightarrow> u32" where
  "prRt s = psxGPR s (pRt s)"
definition pJumpTarget :: "'a psxRegisters_scheme \<Rightarrow> u32" where
  "pJumpTarget s = push_bit 2 (pInstrucTarget s) + (psx_pc s AND 0xf0000000)"
definition pBranchTarget :: "'a psxRegisters_scheme \<Rightarrow> u32" where
  "pBranchTarget s = pImm s * 4 + psx_pc s"

definition wpGPR :: "reg \<Rightarrow> u32 \<Rightarrow> 'a psxRegisters_scheme \<Rightarrow> 'a psxRegisters_scheme" where
  "wpGPR r v s = s\<lparr>psxGPR := (psxGPR s)(r := v)\<rparr>"
definition wpCP0 :: "5 word \<Rightarrow> u32 \<Rightarrow> 'a psxRegisters_scheme \<Rightarrow> 'a psxRegisters_scheme" where
  "wpCP0 r v s = s\<lparr>psxCP0 := (psxCP0 s)(r := v)\<rparr>"
definition pSetLink :: "reg \<Rightarrow> 'a psxRegisters_scheme \<Rightarrow> 'a psxRegisters_scheme" where
  "pSetLink x s = wpGPR x (psx_pc s + 4) s"

section \<open>Exceptions and the event clock\<close>

definition psxException :: "u32 \<Rightarrow> bool \<Rightarrow> 'a psxRegisters_scheme \<Rightarrow> 'a psxRegisters_scheme" where
  "psxException c bd s =
     (let s1 = wpCP0 cop0_Cause (psxCP0 s cop0_Cause AND NOT 0x7f) s;
          s2 = wpCP0 cop0_Cause (psxCP0 s1 cop0_Cause OR c) s1;
          s3 = (if bd
                then wpCP0 cop0_EPC (psx_pc s2 - 4) (wpCP0 cop0_Cause (psxCP0 s2 cop0_Cause OR 0x80000000) s2)
                else wpCP0 cop0_EPC (psx_pc s2) s2);
          s4 = s3\<lparr>psx_pc := if psxCP0 s3 cop0_Status AND 0x400000 \<noteq> 0 then 0xbfc00180 else 0x80000080\<rparr>
      in wpCP0 cop0_Status ((psxCP0 s4 cop0_Status AND NOT 0x3f) OR push_bit 2 (psxCP0 s4 cop0_Status AND 0xf)) s4)"

definition psxSetNextBranch :: "u32 \<Rightarrow> u32 \<Rightarrow> 'a psxRegisters_scheme \<Rightarrow> 'a psxRegisters_scheme" where
  "psxSetNextBranch startCycle delta s =
     (if sint (g_iopNextEventCycle s - startCycle) > sint delta
      then s\<lparr>g_iopNextEventCycle := startCycle + delta\<rparr> else s)"

definition psxSetNextBranchDelta :: "u32 \<Rightarrow> 'a psxRegisters_scheme \<Rightarrow> 'a psxRegisters_scheme" where
  "psxSetNextBranchDelta delta s = psxSetNextBranch (psx_cycle s) delta s"

definition psxTestCycle :: "u32 \<Rightarrow> u32 \<Rightarrow> 'a psxRegisters_scheme \<Rightarrow> bool" where
  "psxTestCycle startCycle delta s \<longleftrightarrow> sint (psx_cycle s - startCycle) \<ge> sint delta"

end
