(* ===== verification/EE_Events.thy ===== *)
theory EE_Events
  imports EE_Interp Iop_Regs
begin

text \<open>
  The machine behind the two processors: the events they schedule for each other, the
  interrupt controllers, and the event test of pcsx2/R5900.cpp that delivers them
  (with pcsx2/Hw.cpp and the scheduling half of pcsx2/R3000A.cpp and pcsx2/IopHw.cpp).

  An event is a bit of \<open>interrupt\<close> with the cycle it was scheduled at and a delay; the
  32 bit cycle counters wrap, so that all comparisons are of signed differences.
\<close>

unbundle bit_operations_syntax

section \<open>State\<close>

text \<open>
  \<open>psx\<close> is the I/O processor with its globals.  \<open>iopMem_Main\<close> to \<open>eeMem_ROM2\<close>,
  \<open>eeMem_ZeroRead\<close> and \<open>eeMem_ZeroWrite\<close> are host pointers like those of \<open>ee_mem\<close>, and
  the two tables of the I/O processor's memory hold one for each of its 64 KB pages, or 0.  The four counters are
  those the event tests read of Counters.cpp and IopCounters.cpp.
\<close>

record ee_io = ee_sys +
  psx :: psxRegisters
  iopMem_Main :: u64
  iopMem_P :: u64
  iopMem_Sif :: u64
  eeMem_ROM :: u64
  eeMem_ROM1 :: u64
  eeMem_ROM2 :: u64
  psxMemRLUT :: "13 word \<Rightarrow> u64"
  psxMemWLUT :: "13 word \<Rightarrow> u64"
  eeMem_ZeroRead :: u64
  eeMem_ZeroWrite :: u64
  eeEventTestIsActive :: bool
  CHECK_EETIMINGHACK :: bool
  g_GameStarted :: bool
  EEsCycle :: u32
  EEoCycle :: u32
  nextsCounter :: u32
  nextCounter :: u32
  hsync_sCycle :: u32
  hsync_CycleT :: u32
  psxNextsCounter :: u32
  psxNextCounter :: u32

abbreviation on_psx :: "(psxRegisters \<Rightarrow> psxRegisters) \<Rightarrow> 'a ee_io_scheme \<Rightarrow> 'a ee_io_scheme" where
  "on_psx f s \<equiv> s\<lparr>psx := f (psx s)\<rparr>"

abbreviation INTC_STAT :: u32 where "INTC_STAT \<equiv> 0x1000F000"
abbreviation INTC_MASK :: u32 where "INTC_MASK \<equiv> 0x1000F010"
abbreviation DMAC_ENABLER :: u32 where "DMAC_ENABLER \<equiv> 0x1000F520"
abbreviation DMAC_ENABLEW :: u32 where "DMAC_ENABLEW \<equiv> 0x1000F590"

text \<open>
  The halves of \<open>DMAC_STAT\<close> (\<open>psHu16(DMAC_STAT)\<close> and \<open>psHu16(DMAC_STAT + 2)\<close>), the master
  enable \<open>ctrl.DMAE\<close> and the byte \<open>psHu8(DMAC_ENABLER + 2)\<close>.
\<close>

definition DMAC_STAT_lo :: "'a ee_cpu_scheme \<Rightarrow> u16" where
  "DMAC_STAT_lo s = ucast (psHu32 DMAC_STAT s)"
definition DMAC_STAT_hi :: "'a ee_cpu_scheme \<Rightarrow> u16" where
  "DMAC_STAT_hi s = ucast (drop_bit 16 (psHu32 DMAC_STAT s))"
definition ctrl_DMAE :: "'a ee_cpu_scheme \<Rightarrow> bool" where
  "ctrl_DMAE s \<longleftrightarrow> bit (psHu32 DMAC_CTRL s) 0"
definition ENABLER_2 :: "'a ee_cpu_scheme \<Rightarrow> u8" where
  "ENABLER_2 s = ucast (drop_bit 16 (psHu32 DMAC_ENABLER s))"

section \<open>Interrupt controllers\<close>

text \<open>The code that \<open>cpuTestINTCInts\<close>, \<open>cpuTestDMACInts\<close> and \<open>CPU_INT\<close> share: the I/O
  processor stops and keeps the cycles it did not run.\<close>

definition break_iop :: "'a ee_io_scheme \<Rightarrow> 'a ee_io_scheme" where
  "break_iop = on_psx (\<lambda>p. p\<lparr>iopBreak := iopBreak p + iopCycleEE p, iopCycleEE := 0\<rparr>)"

definition iop_running :: "'a ee_io_scheme \<Rightarrow> bool" where
  "iop_running s \<longleftrightarrow> 0 < sint (iopCycleEE (psx s))"

definition cpuTestINTCInts :: "'a ee_io_scheme \<Rightarrow> 'a ee_io_scheme" where
  "cpuTestINTCInts s =
     (if \<not> cpuIntsEnabled 0x400 s then s
      else if psHu32 INTC_STAT s AND psHu32 INTC_MASK s = 0 then s
      else (let s1 = cpuSetNextEventDelta 4 s
            in if eeEventTestIsActive s1 \<and> iop_running s1 then break_iop s1 else s1))"

definition cpuTestDMACInts :: "'a ee_io_scheme \<Rightarrow> 'a ee_io_scheme" where
  "cpuTestDMACInts s =
     (if \<not> cpuIntsEnabled 0x800 s then s
      else if DMAC_STAT_hi s AND DMAC_STAT_lo s = 0 \<and> DMAC_STAT_lo s AND 0x8000 = 0 then s
      else (let s1 = cpuSetNextEventDelta 4 s
            in if eeEventTestIsActive s1 \<and> iop_running s1 then break_iop s1 else s1))"

definition hwIntcIrq :: "nat \<Rightarrow> 'a ee_io_scheme \<Rightarrow> 'a ee_io_scheme" where
  "hwIntcIrq n s =
     (let s1 = wHu32 INTC_STAT (psHu32 INTC_STAT s OR push_bit n 1) s
      in if psHu32 INTC_MASK s1 AND push_bit n 1 \<noteq> 0 then cpuTestINTCInts s1 else s1)"

definition hwDmacIrq :: "nat \<Rightarrow> 'a ee_io_scheme \<Rightarrow> 'a ee_io_scheme" where
  "hwDmacIrq n s =
     (let s1 = wHu32 DMAC_STAT (psHu32 DMAC_STAT s OR push_bit n 1) s
      in if DMAC_STAT_hi s1 AND push_bit n 1 \<noteq> 0 then cpuTestDMACInts s1 else s1)"

text \<open>\<open>hold\<close> stands for the two counters that \<open>intcInterrupt\<close> latches.\<close>

definition intcInterrupt :: "('a ee_io_scheme \<Rightarrow> 'a ee_io_scheme) \<Rightarrow> 'a ee_io_scheme \<Rightarrow> u32 \<times> 'a ee_io_scheme" where
  "intcInterrupt hold s =
     (if psHu32 INTC_STAT s = 0 then (0, s)
      else if psHu32 INTC_STAT s AND psHu32 INTC_MASK s = 0 then (0, s)
      else (0x400, if psHu32 INTC_STAT s AND 0x2 \<noteq> 0 then hold s else s))"

definition dmacInterrupt :: "'a ee_io_scheme \<Rightarrow> u32" where
  "dmacInterrupt s =
     (if DMAC_STAT_hi s AND DMAC_STAT_lo s = 0 \<and> DMAC_STAT_lo s AND 0x8000 = 0 then 0
      else if \<not> ctrl_DMAE s \<or> ENABLER_2 s = 1 then 0
      else 0x800)"

section \<open>Scheduling\<close>

definition CPU_INT :: "5 word \<Rightarrow> u32 \<Rightarrow> 'a ee_io_scheme \<Rightarrow> 'a ee_io_scheme" where
  "CPU_INT n ecycle s =
     (let ecycle = (if CHECK_EETIMINGHACK s then 8 else ecycle);
          s1 = s\<lparr>interrupt := interrupt s OR push_bit (unat n) 1, sCycle := (sCycle s)(n := cycle s),
                 eCycle := (eCycle s)(n := ecycle)\<rparr>;
          s2 = (if sint ecycle \<le> 28 \<and> iop_running s1 then break_iop s1 else s1)
      in cpuSetNextEventDelta (eCycle s2 n) s2)"

definition PSX_INT :: "5 word \<Rightarrow> u32 \<Rightarrow> 'a ee_io_scheme \<Rightarrow> 'a ee_io_scheme" where
  "PSX_INT n ecycle s =
     (let s1 = on_psx (\<lambda>p. psxSetNextBranchDelta ecycle (p\<lparr>psx_interrupt := psx_interrupt p OR push_bit (unat n) 1,
              psx_sCycle := (psx_sCycle p)(n := psx_cycle p), psx_eCycle := (psx_eCycle p)(n := ecycle)\<rparr>)) s
      in if sint (iopCycleEE (psx s1)) < 0
         then cpuSetNextEventDelta ((g_iopNextEventCycle (psx s1) - psx_cycle (psx s1)) * 8) s1
         else s1)"

definition iopTestIntc :: "'a ee_io_scheme \<Rightarrow> 'a ee_io_scheme" where
  "iopTestIntc s =
     (if psxHu32 0x1078 (psx s) = 0 then s
      else if psxHu32 0x1070 (psx s) AND psxHu32 0x1074 (psx s) = 0 then s
      else if \<not> eeEventTestIsActive s
           then on_psx (\<lambda>p. p\<lparr>iopEventAction := True\<rparr>) (cpuSetNextEventDelta 16 s)
           else if \<not> iopEventTestIsActive (psx s) then on_psx (psxSetNextBranchDelta 2) s
           else s)"

definition iopIntcIrq :: "nat \<Rightarrow> 'a ee_io_scheme \<Rightarrow> 'a ee_io_scheme" where
  "iopIntcIrq irqType s =
     iopTestIntc (on_psx (\<lambda>p. wPsxHu32 0x1070 (psxHu32 0x1070 p OR push_bit irqType 1) p) s)"

abbreviation HW_DMA_ICR :: u32 where "HW_DMA_ICR \<equiv> 0x10f4"
abbreviation HW_DMA_ICR2 :: u32 where "HW_DMA_ICR2 \<equiv> 0x1574"

text \<open>Bit \<open>n\<close> of a register of the I/O processor.\<close>

abbreviation hw_bit :: "u32 \<Rightarrow> nat \<Rightarrow> psxRegisters \<Rightarrow> bool" where
  "hw_bit mem n p \<equiv> psxHu32 mem p AND push_bit n 1 \<noteq> 0"

definition or_hw :: "u32 \<Rightarrow> u32 \<Rightarrow> psxRegisters \<Rightarrow> psxRegisters" where
  "or_hw mem v p = wPsxHu32 mem (psxHu32 mem p OR v) p"

text \<open>\<open>psxDmaInterrupt(33)\<close> and \<open>psxDmaInterrupt2(33)\<close> search the channels for a pending one.\<close>

definition psxDmaInterrupt :: "nat \<Rightarrow> 'a ee_io_scheme \<Rightarrow> 'a ee_io_scheme" where
  "psxDmaInterrupt n s =
     (let p = psx s; master = (\<lambda>q. if hw_bit HW_DMA_ICR 23 q then or_hw HW_DMA_ICR 0x80000000 q else q)
      in if n = 33
         then (if list_ex (\<lambda>i. hw_bit HW_DMA_ICR (16 + i) p \<and> hw_bit HW_DMA_ICR (24 + i) p) [0..<6]
               then iopIntcIrq 3 (on_psx (\<lambda>q. let q = master q in wpCP0 cop0_Cause (psxCP0 q cop0_Cause AND NOT 0x7C) q) s)
               else s)
         else if hw_bit HW_DMA_ICR (16 + n) p
         then iopIntcIrq 3 (on_psx (\<lambda>q. master (or_hw HW_DMA_ICR (push_bit (24 + n) 1) q)) s)
         else s)"

definition psxDmaInterrupt2 :: "nat \<Rightarrow> 'a ee_io_scheme \<Rightarrow> 'a ee_io_scheme" where
  "psxDmaInterrupt2 n s =
     (let p = psx s;
          fire = (n = 2 \<or> n = 3 \<or>
            (if n = 33
             then list_ex (\<lambda>i. hw_bit HW_DMA_ICR2 (24 + i) p \<and> (hw_bit HW_DMA_ICR2 (16 + i) p \<or> i = 2 \<or> i = 3)) [0..<6]
             else hw_bit HW_DMA_ICR2 (16 + n) p))
      in if fire
         then iopIntcIrq 3 (on_psx (\<lambda>q.
            let q1 = (if n \<noteq> 33 then or_hw HW_DMA_ICR2 (push_bit (24 + n) 1) q else q)
            in if hw_bit HW_DMA_ICR2 23 q1 then or_hw HW_DMA_ICR2 0x80000000 q1 else q1) s)
         else s)"

section \<open>Delivery on the EE\<close>

text \<open>
  What the event tests call and this development does not model: the handlers of the
  events, the counters, the two vector units and the I/O processor's run.
\<close>

record 's callbacks =
  cb_event :: "5 word \<Rightarrow> 's \<Rightarrow> 's"
  cb_iop_event :: "5 word \<Rightarrow> 's \<Rightarrow> 's"
  cb_hold :: "'s \<Rightarrow> 's"
  cb_rcntUpdate :: "'s \<Rightarrow> 's"
  cb_rcntUpdate_hScanline :: "'s \<Rightarrow> 's"
  cb_psxRcntUpdate :: "'s \<Rightarrow> 's"
  cb_psx_ExecuteBlock :: "u32 \<Rightarrow> 's \<Rightarrow> u32 \<times> 's"
  cb_VU_ExecuteBlock :: "'s \<Rightarrow> 's"

abbreviation "DMAC_VIF0 \<equiv> 0 :: 5 word"
abbreviation "DMAC_VIF1 \<equiv> 1 :: 5 word"
abbreviation "DMAC_GIF \<equiv> 2 :: 5 word"
abbreviation "DMAC_FROM_IPU \<equiv> 3 :: 5 word"
abbreviation "DMAC_TO_IPU \<equiv> 4 :: 5 word"
abbreviation "DMAC_SIF0 \<equiv> 5 :: 5 word"
abbreviation "DMAC_SIF1 \<equiv> 6 :: 5 word"
abbreviation "DMAC_SIF2 \<equiv> 7 :: 5 word"
abbreviation "DMAC_FROM_SPR \<equiv> 8 :: 5 word"
abbreviation "DMAC_TO_SPR \<equiv> 9 :: 5 word"
abbreviation "DMAC_MFIFO_VIF \<equiv> 10 :: 5 word"
abbreviation "DMAC_MFIFO_GIF \<equiv> 11 :: 5 word"
abbreviation "VIF_VU0_FINISH \<equiv> 17 :: 5 word"
abbreviation "VIF_VU1_FINISH \<equiv> 18 :: 5 word"

definition event_pending :: "5 word \<Rightarrow> 'a cpuRegisters_scheme \<Rightarrow> bool" where
  "event_pending n s \<longleftrightarrow> interrupt s AND push_bit (unat n) 1 \<noteq> 0"

definition TESTINT :: "5 word \<Rightarrow> ('a ee_io_scheme \<Rightarrow> 'a ee_io_scheme) \<Rightarrow> 'a ee_io_scheme \<Rightarrow> 'a ee_io_scheme" where
  "TESTINT n callback s =
     (if \<not> event_pending n s then s
      else if \<not> g_GameStarted s \<or> cpuTestCycle (sCycle s n) (eCycle s n) s
           then callback (cpuClearInt (unat n) s)
           else cpuSetNextEvent (sCycle s n) (eCycle s n) s)"

definition frequent_events :: "5 word list" where
  "frequent_events = [DMAC_VIF1, DMAC_GIF, DMAC_SIF0, DMAC_SIF1]"

definition rare_events :: "5 word list" where
  "rare_events = [DMAC_VIF0, DMAC_FROM_IPU, DMAC_TO_IPU, DMAC_FROM_SPR, DMAC_TO_SPR, DMAC_MFIFO_VIF,
     DMAC_MFIFO_GIF, VIF_VU0_FINISH, VIF_VU1_FINISH]"

definition cpuTestInterrupts :: "'a ee_io_scheme callbacks \<Rightarrow> 'a ee_io_scheme \<Rightarrow> 'a ee_io_scheme" where
  "cpuTestInterrupts cb s =
     (if \<not> ctrl_DMAE s \<or> ENABLER_2 s AND 1 \<noteq> 0 then s
      else (let s1 = fold (\<lambda>n. TESTINT n (cb_event cb n)) frequent_events s
            in if list_ex (\<lambda>n. event_pending n s1) rare_events
               then fold (\<lambda>n. TESTINT n (cb_event cb n)) rare_events s1 else s1))"

text \<open>The loop that runs the events at once before the game starts; \<open>None\<close>: not finished.\<close>

fun cpuTestInterrupts_loop :: "nat \<Rightarrow> 'a ee_io_scheme callbacks \<Rightarrow> 'a ee_io_scheme \<Rightarrow> 'a ee_io_scheme option" where
  "cpuTestInterrupts_loop 0 cb s = None"
| "cpuTestInterrupts_loop (Suc k) cb s =
     (if interrupt s AND 0x1FFFF \<noteq> 0 then cpuTestInterrupts_loop k cb (cpuTestInterrupts cb s) else Some s)"

definition cpuTestTIMR :: "'a ee_cpu_scheme \<Rightarrow> 'a ee_cpu_scheme" where
  "cpuTestTIMR s =
     (let s1 = wCP0 cop0_Count (CP0 s cop0_Count + (cycle s - s_iLastCOP0Cycle s)) s;
          s2 = s1\<lparr>s_iLastCOP0Cycle := cycle s1\<rparr>
      in if CP0 s2 cop0_Status AND 0x8000 \<noteq> 0 \<and> CP0 s2 cop0_Count \<ge> CP0 s2 cop0_Compare
            \<and> CP0 s2 cop0_Count < CP0 s2 cop0_Compare + 1000
         then cpuException 0x808000 (branch s2) s2 else s2)"

definition cpuTestTIMRInts :: "'a ee_io_scheme \<Rightarrow> 'a ee_io_scheme" where
  "cpuTestTIMRInts s = (if CP0 s cop0_Status AND 0x10007 = 0x10001 then cpuTestTIMR (COP0_UpdatePCCR s) else s)"

definition cpuTestHwInts :: "'a ee_io_scheme \<Rightarrow> 'a ee_io_scheme" where
  "cpuTestHwInts s = cpuTestTIMRInts (cpuTestDMACInts (cpuTestINTCInts s))"

section \<open>Delivery on the I/O processor\<close>

abbreviation "IopEvt_SIF2 \<equiv> 0 :: 5 word"
abbreviation "IopEvt_Cdvd \<equiv> 1 :: 5 word"
abbreviation "IopEvt_SIF0 \<equiv> 2 :: 5 word"
abbreviation "IopEvt_SIF1 \<equiv> 3 :: 5 word"
abbreviation "IopEvt_Dma11 \<equiv> 4 :: 5 word"
abbreviation "IopEvt_Dma12 \<equiv> 5 :: 5 word"
abbreviation "IopEvt_SIO \<equiv> 6 :: 5 word"
abbreviation "IopEvt_Cdrom \<equiv> 7 :: 5 word"
abbreviation "IopEvt_CdromRead \<equiv> 8 :: 5 word"
abbreviation "IopEvt_CdvdRead \<equiv> 9 :: 5 word"
abbreviation "IopEvt_CdvdSectorReady \<equiv> 10 :: 5 word"
abbreviation "IopEvt_DEV9 \<equiv> 11 :: 5 word"
abbreviation "IopEvt_USB \<equiv> 12 :: 5 word"
abbreviation HW_ICFG :: u32 where "HW_ICFG \<equiv> 0x1f801450"

definition IopTestEvent :: "5 word \<Rightarrow> ('a ee_io_scheme \<Rightarrow> 'a ee_io_scheme) \<Rightarrow> 'a ee_io_scheme \<Rightarrow> 'a ee_io_scheme" where
  "IopTestEvent n callback s =
     (let p = psx s
      in if psx_interrupt p AND push_bit (unat n) 1 = 0 then s
         else if psxTestCycle (psx_sCycle p n) (psx_eCycle p n) p
              then callback (on_psx (\<lambda>p. p\<lparr>psx_interrupt := psx_interrupt p AND NOT (push_bit (unat n) 1)\<rparr>) s)
              else on_psx (psxSetNextBranch (psx_sCycle p n) (psx_eCycle p n)) s)"

definition rare_iop_events :: "5 word list" where
  "rare_iop_events = [IopEvt_Cdvd, IopEvt_Dma11, IopEvt_Dma12, IopEvt_Cdrom, IopEvt_CdromRead, IopEvt_DEV9, IopEvt_USB]"

definition psxTestInterrupts :: "'a ee_io_scheme callbacks \<Rightarrow> 'a ee_io_scheme \<Rightarrow> 'a ee_io_scheme" where
  "psxTestInterrupts cb s =
     (let test = (\<lambda>n. IopTestEvent n (cb_iop_event cb n));
          s1 = fold test [IopEvt_SIF0, IopEvt_SIF1, IopEvt_SIF2] s;
          s2 = (if psxHu32 HW_ICFG (psx s1) AND push_bit 3 1 \<noteq> 0 then test IopEvt_SIO s1 else s1);
          s3 = fold test [IopEvt_CdvdRead, IopEvt_CdvdSectorReady] s2
      in if list_ex (\<lambda>n. psx_interrupt (psx s3) AND push_bit (unat n) 1 \<noteq> 0) rare_iop_events
         then fold test rare_iop_events s3 else s3)"

definition iopEventTest :: "'a ee_io_scheme callbacks \<Rightarrow> 'a ee_io_scheme \<Rightarrow> 'a ee_io_scheme" where
  "iopEventTest cb s =
     (let s1 = (if psxTestCycle (psxNextsCounter s) (psxNextCounter s) (psx s)
                then on_psx (\<lambda>p. p\<lparr>iopEventAction := True\<rparr>) (cb_psxRcntUpdate cb s)
                else on_psx (\<lambda>p. p\<lparr>g_iopNextEventCycle := psxNextsCounter s + psxNextCounter s\<rparr>) s);
          s2 = (if psx_interrupt (psx s1) \<noteq> 0
                then on_psx (\<lambda>p. p\<lparr>iopEventTestIsActive := False\<rparr>)
                       (psxTestInterrupts cb (on_psx (\<lambda>p. p\<lparr>iopEventTestIsActive := True\<rparr>) s1))
                else s1)
      in if psxHu32 0x1078 (psx s2) \<noteq> 0 \<and> psxHu32 0x1070 (psx s2) AND psxHu32 0x1074 (psx s2) \<noteq> 0
            \<and> psxCP0 (psx s2) cop0_Status AND 0xFE01 \<ge> 0x401
         then on_psx (\<lambda>p. (psxException 0 False p)\<lparr>iopEventAction := True\<rparr>) s2
         else s2)"

section \<open>The event test\<close>

abbreviation eeWaitCycles :: u32 where "eeWaitCycles \<equiv> 3072"

text \<open>
  The test in the order of the source: exceptions of the two interrupt controllers,
  counters, events, the I/O processor, the vector units, the next test.
\<close>

definition eventTest_interrupts :: "'a ee_io_scheme callbacks \<Rightarrow> 'a ee_io_scheme \<Rightarrow> 'a ee_io_scheme" where
  "eventTest_interrupts cb s =
     (case intcInterrupt (cb_hold cb) s of (m, s1) \<Rightarrow>
       (let mask = m OR dmacInterrupt s1
        in if cpuIntsEnabled mask s1 then cpuException mask (branch s1) s1 else s1))"

definition eventTest_counters :: "'a ee_io_scheme callbacks \<Rightarrow> 'a ee_io_scheme \<Rightarrow> 'a ee_io_scheme" where
  "eventTest_counters cb s =
     (let s1 = (if cpuTestCycle (nextsCounter s) (nextCounter s) s then COP0_UpdatePCCR (cb_rcntUpdate cb s) else s)
      in cpuTestTIMR (cb_rcntUpdate_hScanline cb s1))"

definition eventTest_events :: "nat \<Rightarrow> 'a ee_io_scheme callbacks \<Rightarrow> 'a ee_io_scheme \<Rightarrow> 'a ee_io_scheme option" where
  "eventTest_events fuel cb s =
     (if \<not> g_GameStarted s \<and> ctrl_DMAE s \<and> ENABLER_2 s AND 1 = 0 \<and> interrupt s AND 0x1FFFF \<noteq> 0
      then cpuTestInterrupts_loop fuel cb s
      else Some (cpuTestInterrupts cb s))"

definition eventTest_iop :: "'a ee_io_scheme callbacks \<Rightarrow> 'a ee_io_scheme \<Rightarrow> 'a ee_io_scheme" where
  "eventTest_iop cb s =
     (let s1 = s\<lparr>EEsCycle := EEsCycle s + (cycle s - EEoCycle s), EEoCycle := cycle s\<rparr>;
          s2 = (if 0 < sint (EEsCycle s1) then on_psx (\<lambda>p. p\<lparr>iopEventAction := True\<rparr>) s1 else s1);
          s3 = iopEventTest cb s2
      in if iopEventAction (psx s3)
         then (case cb_psx_ExecuteBlock cb (EEsCycle s3) s3 of (r, s4) \<Rightarrow>
                 on_psx (\<lambda>p. p\<lparr>iopEventAction := False\<rparr>) (s4\<lparr>EEsCycle := r\<rparr>))
         else s3)"

definition eventTest_next :: "'a ee_io_scheme \<Rightarrow> 'a ee_io_scheme" where
  "eventTest_next s =
     (let s1 = (if sint (EEsCycle s) > 192 then cpuSetNextEventDelta 48 s else s);
          s2 = cpuSetNextEventDelta ((g_iopNextEventCycle (psx s1) - psx_cycle (psx s1)) * 8 - EEsCycle s1) s1;
          s3 = cpuSetNextEvent (hsync_sCycle s2) (hsync_CycleT s2) s2;
          s4 = cpuSetNextEvent (nextsCounter s3) (nextCounter s3) s3
      in s4\<lparr>eeEventTestIsActive := False\<rparr>)"

definition cpuEventTest_Shared :: "nat \<Rightarrow> 'a ee_io_scheme callbacks \<Rightarrow> 'a ee_io_scheme \<Rightarrow> 'a ee_io_scheme option" where
  "cpuEventTest_Shared fuel cb s =
     (let s1 = s\<lparr>eeEventTestIsActive := True, nextEventCycle := cycle s + eeWaitCycles\<rparr>
      in map_option (\<lambda>t. eventTest_next (cb_VU_ExecuteBlock cb (eventTest_iop cb t)))
           (eventTest_events fuel cb (eventTest_counters cb (eventTest_interrupts cb s1))))"

section \<open>Events and their tests\<close>

lemma cpuSetNextEvent_le: "sint (nextEventCycle (cpuSetNextEvent c d s) - c) \<le> sint d"
  by (simp add: cpuSetNextEvent_def)

lemma cpuSetNextEvent_keeps [simp]:
  "interrupt (cpuSetNextEvent c d s) = interrupt s" "sCycle (cpuSetNextEvent c d s) = sCycle s"
  "eCycle (cpuSetNextEvent c d s) = eCycle s" "cycle (cpuSetNextEvent c d s) = cycle s"
  by (simp_all add: cpuSetNextEvent_def)

lemma event_pending_bit: "event_pending n s \<longleftrightarrow> bit (interrupt s) (unat n)"
  by (simp add: event_pending_def push_bit_eq_mult and_exp_eq_0_iff_not_bit)

lemma event_pending_cpuSetNextEvent [simp]: "event_pending n (cpuSetNextEvent c d s) = event_pending n s"
  by (simp add: event_pending_def)

lemma break_iop_keeps [simp]:
  "interrupt (break_iop s) = interrupt s" "sCycle (break_iop s) = sCycle s" "eCycle (break_iop s) = eCycle s"
  "cycle (break_iop s) = cycle s"
  by (simp_all add: break_iop_def)

lemma unat_5_less: "unat (n :: 5 word) < 32"
  using unat_bound [of n] by simp

lemma event_pending_cleared [simp]: "\<not> event_pending n (cpuClearInt (unat n) u)"
  by (simp add: event_pending_bit cpuClearInt_def bit_simps unat_5_less)

text \<open>
  Nothing tests the event of the SIF2 channel.  Once \<open>CPU_INT(DMAC_SIF2)\<close> has set it, it
  stays pending through every \<open>_cpuTestInterrupts\<close> whose handlers leave its bit alone, and
  before the game starts the loop that runs the pending events does not end.
\<close>

theorem SIF2_event_never_tested:
  assumes "event_pending DMAC_SIF2 s" and "\<forall>n u. event_pending DMAC_SIF2 u \<longrightarrow> event_pending DMAC_SIF2 (cb_event cb n u)"
  shows "event_pending DMAC_SIF2 (cpuTestInterrupts cb s) \<and> cpuTestInterrupts_loop k cb s = None"
proof -
  have T: "event_pending DMAC_SIF2 (TESTINT n (cb_event cb n) u)"
    if "event_pending DMAC_SIF2 u" "n \<noteq> DMAC_SIF2" for n u
  proof -
    have "unat n \<noteq> unat DMAC_SIF2" using that(2) by (blast dest: word_unat_eqI)
    with that(1) have "event_pending DMAC_SIF2 (cpuClearInt (unat n) u)"
      by (simp add: event_pending_bit cpuClearInt_def bit_simps)
    with that(1) assms(2) show ?thesis by (simp add: TESTINT_def event_pending_def)
  qed
  have F: "event_pending DMAC_SIF2 (fold (\<lambda>n. TESTINT n (cb_event cb n)) ns u)"
    if "event_pending DMAC_SIF2 u" "DMAC_SIF2 \<notin> set ns" for ns u
    using that by (induction ns arbitrary: u) (auto simp: T)
  have step: "event_pending DMAC_SIF2 (cpuTestInterrupts cb u)" if "event_pending DMAC_SIF2 u" for u
  proof -
    have "event_pending DMAC_SIF2 (fold (\<lambda>n. TESTINT n (cb_event cb n)) frequent_events u)"
      using that by (intro F) (simp_all add: frequent_events_def)
    then show ?thesis
      using that F [of _ rare_events] by (simp add: cpuTestInterrupts_def Let_def rare_events_def)
  qed
  have "cpuTestInterrupts_loop k cb u = None" if "event_pending DMAC_SIF2 u" for u
    using that
  proof (induction k arbitrary: u)
    case (Suc k)
    then have "bit (interrupt u AND 0x1FFFF) 7" by (simp add: event_pending_bit bit_simps)
    then have "interrupt u AND 0x1FFFF \<noteq> 0" by auto
    with Suc step show ?case by simp
  qed simp
  with step [OF assms(1)] assms(1) show ?thesis by blast
qed

text \<open>A machine that runs, with nothing scheduled and no event handlers.\<close>

definition ee_io0 :: ee_io where
  "ee_io0 = ee_sys.extend (ee_fpu.extend (ee_cpu.extend (ee_mem.extend ee_mem0
       \<lparr>s_iLastCOP0Cycle = 0, s_iLastPERFCycle0 = 0, s_iLastPERFCycle1 = 0, eeHw = \<lambda>_. 0,
        branch2 = 0, cpuBlockCycles = 0, intExitExecution = False\<rparr>)
       \<lparr>fpr = \<lambda>_. 0, fprc = \<lambda>_. 0, FACC = 0\<rparr>)
       \<lparr>g_eeloadMain = 0, g_eeloadExec = 0, g_SkipBiosHack = False, g_GameLoading = False, ElfEntry = 0\<rparr>)
       \<lparr>psx = \<lparr>psxGPR = \<lambda>_. 0, psx_hi = 0, psx_lo = 0, psxCP0 = \<lambda>_. 0, psxCP2D = \<lambda>_. 0, psxCP2C = \<lambda>_. 0,
           psx_pc = 0, psx_code = 0, psx_cycle = 0, psx_interrupt = 0, psx_sCycle = \<lambda>_. 0, psx_eCycle = \<lambda>_. 0,
           g_iopNextEventCycle = 0, iopBreak = 0, iopCycleEE = 0, iopEventAction = False,
           iopEventTestIsActive = False, iopIsDelaySlot = False, iopHw = \<lambda>_. 0,
           psx_branch2 = False, branchPC = 0, CurrentIRX_length = 0\<rparr>,
        iopMem_Main = 0x30000000, iopMem_P = 0x30200000, iopMem_Sif = 0x30210000, eeMem_ROM = 0x20000000,
        eeMem_ROM1 = 0x20400000, eeMem_ROM2 = 0x20440000, psxMemRLUT = \<lambda>_. 0, psxMemWLUT = \<lambda>_. 0, eeMem_ZeroRead = 0x40000000, eeMem_ZeroWrite = 0x50000000,
        eeEventTestIsActive = False, CHECK_EETIMINGHACK = False, g_GameStarted = True, EEsCycle = 0, EEoCycle = 0,
        nextsCounter = 0, nextCounter = 0, hsync_sCycle = 0, hsync_CycleT = 0, psxNextsCounter = 0, psxNextCounter = 0\<rparr>"

definition idle_callbacks :: "ee_io callbacks" where
  "idle_callbacks = \<lparr>cb_event = \<lambda>_ s. s, cb_iop_event = \<lambda>_ s. s, cb_hold = \<lambda>s. s, cb_rcntUpdate = \<lambda>s. s,
     cb_rcntUpdate_hScanline = \<lambda>s. s, cb_psxRcntUpdate = \<lambda>s. s, cb_psx_ExecuteBlock = \<lambda>n s. (n, s),
     cb_VU_ExecuteBlock = \<lambda>s. s\<rparr>"

theorem SIF2_event_never_tested_witness:
  "cpuTestInterrupts_loop 1000 idle_callbacks (CPU_INT DMAC_SIF2 2 ee_io0) = None"
proof -
  have "event_pending DMAC_SIF2 (CPU_INT DMAC_SIF2 2 ee_io0)"
    by (simp add: CPU_INT_def cpuSetNextEventDelta_def Let_def)
      (simp add: event_pending_bit bit_simps)
  then show ?thesis
    using SIF2_event_never_tested [of "CPU_INT DMAC_SIF2 2 ee_io0" idle_callbacks 1000] by (simp add: idle_callbacks_def)
qed

end
