(* ===== verification/Vu_Regs.thy ===== *)
theory Vu_Regs
  imports EE_Events
begin

text \<open>
  The two vector units of the interpreter: their registers (pcsx2/VU.h), the result flags
  (pcsx2/VUflags.cpp), and the bookkeeping of the pipelines, which delays flags and makes an
  instruction wait for its operands (the first part of pcsx2/VUops.cpp).

  A vector register is a map from its four lanes to 32 bit patterns.  The \<open>VI\<close> registers are
  32 bits wide here as in the source, but instructions use the low half.  Each pipeline with
  more than one entry is a ring of four.
\<close>

unbundle bit_operations_syntax

section \<open>Registers\<close>

datatype vlane = LX | LY | LZ | LW

type_synonym VECTOR = "vlane \<Rightarrow> u32"

record fmacPipe =
  fm_regupper :: u32
  fm_reglower :: u32
  fm_flagreg :: u32
  fm_xyzwupper :: u32
  fm_xyzwlower :: u32
  fm_sCycle :: u32
  fm_Cycle :: u32
  fm_macflag :: u32
  fm_statusflag :: u32
  fm_clipflag :: u32

record fdivPipe =
  fd_enable :: bool
  fd_reg :: u32
  fd_sCycle :: u32
  fd_Cycle :: u32
  fd_statusflag :: u32

record efuPipe =
  ef_enable :: bool
  ef_reg :: u32
  ef_sCycle :: u32
  ef_Cycle :: u32

record ialuPipe =
  ia_reg :: u32
  ia_sCycle :: u32
  ia_Cycle :: u32

text \<open>
  \<open>VIpad\<close> is the padding of the \<open>VI\<close> registers to 128 bits, which the first unit can reach as
  memory of the second; its first lane is not used.
\<close>

record VURegs =
  VF :: "reg \<Rightarrow> VECTOR"
  VI :: "reg \<Rightarrow> u32"
  VIpad :: "reg \<Rightarrow> VECTOR"
  VACC :: VECTOR
  vq :: u32
  vp :: u32
  vcycle :: u32
  vflags :: u32
  vcode :: u32
  vstart_pc :: u32
  vbranch :: u32
  vbranchpc :: u32
  vdelaybranchpc :: u32
  vtakedelaybranch :: bool
  vebit :: u32
  vblockhasmbit :: bool
  vmicro_macflags :: u32
  vmicro_clipflags :: u32
  vmicro_statusflags :: u32
  vmacflag :: u32
  vstatusflag :: u32
  vclipflag :: u32
  vnextBlockCycles :: u32
  vMem :: "u32 \<Rightarrow> u8"
  vMicro :: "u32 \<Rightarrow> u8"
  xgkickaddr :: u32
  xgkickdiff :: u32
  xgkicksizeremaining :: u32
  xgkicklastcycle :: u32
  xgkickcyclecount :: u32
  xgkickenable :: bool
  xgkickendpacket :: bool
  VIBackupCycles :: u8
  VIOldValue :: u32
  VIRegNumber :: u32
  fmac :: "u32 \<Rightarrow> fmacPipe"
  fmacreadpos :: u32
  fmacwritepos :: u32
  fmaccount :: u32
  fdiv :: fdivPipe
  efu :: efuPipe
  ialu :: "u32 \<Rightarrow> ialuPipe"
  ialureadpos :: u32
  ialuwritepos :: u32
  ialucount :: u32

abbreviation REG_STATUS_FLAG :: reg where "REG_STATUS_FLAG \<equiv> 16"
abbreviation REG_MAC_FLAG :: reg where "REG_MAC_FLAG \<equiv> 17"
abbreviation REG_CLIP_FLAG :: reg where "REG_CLIP_FLAG \<equiv> 18"
abbreviation REG_ACC_FLAG :: reg where "REG_ACC_FLAG \<equiv> 19"
abbreviation REG_R :: reg where "REG_R \<equiv> 20"
abbreviation REG_I :: reg where "REG_I \<equiv> 21"
abbreviation REG_Q :: reg where "REG_Q \<equiv> 22"
abbreviation REG_P :: reg where "REG_P \<equiv> 23"
abbreviation REG_VF0_FLAG :: reg where "REG_VF0_FLAG \<equiv> 24"
abbreviation REG_TPC :: reg where "REG_TPC \<equiv> 26"
abbreviation REG_CMSAR0 :: reg where "REG_CMSAR0 \<equiv> 27"
abbreviation REG_FBRST :: reg where "REG_FBRST \<equiv> 28"
abbreviation REG_VPU_STAT :: reg where "REG_VPU_STAT \<equiv> 29"
abbreviation REG_CMSAR1 :: reg where "REG_CMSAR1 \<equiv> 31"

section \<open>Fields of an instruction\<close>

definition vFt :: "VURegs \<Rightarrow> reg" where "vFt s = ucast (drop_bit 16 (vcode s) AND 0x1F)"
definition vFs :: "VURegs \<Rightarrow> reg" where "vFs s = ucast (drop_bit 11 (vcode s) AND 0x1F)"
definition vFd :: "VURegs \<Rightarrow> reg" where "vFd s = ucast (drop_bit 6 (vcode s) AND 0x1F)"
definition vIt :: "VURegs \<Rightarrow> reg" where "vIt s = vFt s AND 0xF"
definition vIs :: "VURegs \<Rightarrow> reg" where "vIs s = vFs s AND 0xF"
definition vId :: "VURegs \<Rightarrow> reg" where "vId s = vFd s AND 0xF"

text \<open>\<open>_X\<close>, \<open>_Y\<close>, \<open>_Z\<close>, \<open>_W\<close>: whether the instruction has a lane.\<close>

fun lane_bit :: "vlane \<Rightarrow> nat" where
  "lane_bit LX = 24" | "lane_bit LY = 23" | "lane_bit LZ = 22" | "lane_bit LW = 21"

definition has_lane :: "vlane \<Rightarrow> VURegs \<Rightarrow> bool" where "has_lane l s = bit (vcode s) (lane_bit l)"
definition vXYZW :: "VURegs \<Rightarrow> u32" where "vXYZW s = drop_bit 21 (vcode s) AND 0xF"

text \<open>The lane a two bit field selects in \<open>UL\<close>.\<close>

definition lane_of :: "u32 \<Rightarrow> vlane" where
  "lane_of n = (if n = 0 then LX else if n = 1 then LY else if n = 2 then LZ else LW)"

definition vFsf :: "VURegs \<Rightarrow> u32" where "vFsf s = drop_bit 21 (vcode s) AND 0x03"
definition vFtf :: "VURegs \<Rightarrow> u32" where "vFtf s = drop_bit 23 (vcode s) AND 0x03"

definition vImm11 :: "VURegs \<Rightarrow> u32" where
  "vImm11 s = (if vcode s AND 0x400 \<noteq> 0 then 0xfffffc00 OR (vcode s AND 0x3ff) else vcode s AND 0x3ff)"

text \<open>Writes of a lane and of the low half of an integer register.\<close>

definition wVF :: "reg \<Rightarrow> vlane \<Rightarrow> u32 \<Rightarrow> VURegs \<Rightarrow> VURegs" where
  "wVF r l v s = s\<lparr>VF := (VF s)(r := (VF s r)(l := v))\<rparr>"
definition wACC :: "vlane \<Rightarrow> u32 \<Rightarrow> VURegs \<Rightarrow> VURegs" where
  "wACC l v s = s\<lparr>VACC := (VACC s)(l := v)\<rparr>"
definition wVI :: "reg \<Rightarrow> u32 \<Rightarrow> VURegs \<Rightarrow> VURegs" where
  "wVI r v s = s\<lparr>VI := (VI s)(r := v)\<rparr>"
definition VI16 :: "VURegs \<Rightarrow> reg \<Rightarrow> u16" where
  "VI16 s r = ucast (VI s r)"
definition wVI16 :: "reg \<Rightarrow> u16 \<Rightarrow> VURegs \<Rightarrow> VURegs" where
  "wVI16 r v s = wVI r ((VI s r AND 0xFFFF0000) OR ucast v) s"

section \<open>Host arithmetic and settings\<close>

text \<open>
  The arithmetic of the host in single precision, as for the coprocessor, with the double
  precision some of the approximations use, and the settings the instructions test.
\<close>

record vu_host = hostfpu +
  d_of_f :: "u32 \<Rightarrow> u64"
  f_of_d :: "u64 \<Rightarrow> u32"
  d_add :: "u64 \<Rightarrow> u64 \<Rightarrow> u64"
  d_mul :: "u64 \<Rightarrow> u64 \<Rightarrow> u64"
  d_div :: "u64 \<Rightarrow> u64 \<Rightarrow> u64"
  d_pow :: "u64 \<Rightarrow> nat \<Rightarrow> u64"
  d_le :: "u64 \<Rightarrow> u64 \<Rightarrow> bool"
  CHECK_VU_OVERFLOW :: bool
  CHECK_VUADDSUBHACK :: bool

section \<open>Flags\<close>

fun lane_shift :: "vlane \<Rightarrow> nat" where
  "lane_shift LX = 3" | "lane_shift LY = 2" | "lane_shift LZ = 1" | "lane_shift LW = 0"

abbreviation wmac :: "u32 \<Rightarrow> VURegs \<Rightarrow> VURegs" where "wmac v s \<equiv> s\<lparr>vmacflag := v\<rparr>"

definition VU_MAC_UPDATE :: "vu_host \<Rightarrow> nat \<Rightarrow> u32 \<Rightarrow> VURegs \<Rightarrow> u32 \<times> VURegs" where
  "VU_MAC_UPDATE h n v s =
     (let e = drop_bit 23 v AND 0xff;
          sg = v AND 0x80000000;
          m = (if sg \<noteq> 0 then vmacflag s OR push_bit n 0x0010 else vmacflag s AND NOT (push_bit n 0x0010))
      in if f_eq h v 0 then (v, wmac ((m AND NOT (push_bit n 0x1100)) OR push_bit n 0x0001) s)
         else if e = 0 then (sg, wmac ((m AND NOT (push_bit n 0x1000)) OR push_bit n 0x0101) s)
         else if e = 255 then
           (if CHECK_VU_OVERFLOW h then sg OR 0x7f7fffff else v, wmac ((m AND NOT (push_bit n 0x0101)) OR push_bit n 0x1000) s)
         else (v, wmac (m AND NOT (push_bit n 0x1101)) s))"

definition VU_MAC_CLEAR :: "nat \<Rightarrow> VURegs \<Rightarrow> VURegs" where
  "VU_MAC_CLEAR n s = wmac (vmacflag s AND NOT (push_bit n 0x1111)) s"

definition VU_STAT_UPDATE :: "VURegs \<Rightarrow> VURegs" where
  "VU_STAT_UPDATE s = s\<lparr>vstatusflag :=
     (if vmacflag s AND 0x000F \<noteq> 0 then 0x1 else 0) OR
     (if vmacflag s AND 0x00F0 \<noteq> 0 then 0x2 else 0) OR
     (if vmacflag s AND 0x0F00 \<noteq> 0 then 0x4 else 0) OR
     (if vmacflag s AND 0xF000 \<noteq> 0 then 0x8 else 0)\<rparr>"

section \<open>Retiring entries of the pipelines\<close>

text \<open>The register an FMAC entry leaves when it retires.\<close>

definition fmac_retire :: "fmacPipe \<Rightarrow> VURegs \<Rightarrow> VURegs" where
  "fmac_retire f s =
     (let s1 = (if bit (fm_flagreg f) 18 then wVI REG_CLIP_FLAG (fm_clipflag f) s else s);
          s2 = (if bit (fm_flagreg f) 16
                then wVI REG_STATUS_FLAG ((VI s1 REG_STATUS_FLAG AND 0x30) OR (fm_statusflag f AND 0xFC0) OR (fm_statusflag f AND 0xF)) s1
                else wVI REG_STATUS_FLAG ((VI s1 REG_STATUS_FLAG AND 0xFF0) OR (fm_statusflag f AND 0xF) OR
                  push_bit 6 (fm_statusflag f AND 0xF)) s1)
      in wVI REG_MAC_FLAG (fm_macflag f) s2)"

definition fmac_pop :: "VURegs \<Rightarrow> VURegs" where
  "fmac_pop s = s\<lparr>fmacreadpos := (fmacreadpos s + 1) AND 3, fmaccount := fmaccount s - 1\<rparr>"

text \<open>The loops run down the count of entries; the flag says whether one retired.\<close>

fun vuFMACflush_n :: "nat \<Rightarrow> VURegs \<Rightarrow> bool \<times> VURegs" where
  "vuFMACflush_n 0 s = (False, s)"
| "vuFMACflush_n (Suc n) s =
     (let f = fmac s (fmacreadpos s)
      in if vcycle s - fm_sCycle f < fm_Cycle f then (False, s)
         else (True, snd (vuFMACflush_n n (fmac_pop (fmac_retire f s)))))"

definition vuFMACflush :: "VURegs \<Rightarrow> bool \<times> VURegs" where
  "vuFMACflush s = vuFMACflush_n (unat (fmaccount s)) s"

definition ialu_pop :: "VURegs \<Rightarrow> VURegs" where
  "ialu_pop s = s\<lparr>ialureadpos := (ialureadpos s + 1) AND 3, ialucount := ialucount s - 1\<rparr>"

fun vuIALUflush_n :: "nat \<Rightarrow> VURegs \<Rightarrow> bool \<times> VURegs" where
  "vuIALUflush_n 0 s = (False, s)"
| "vuIALUflush_n (Suc n) s =
     (let f = ialu s (ialureadpos s)
      in if vcycle s - ia_sCycle f < ia_Cycle f then (False, s) else (True, snd (vuIALUflush_n n (ialu_pop s))))"

definition vuIALUflush :: "VURegs \<Rightarrow> bool \<times> VURegs" where
  "vuIALUflush s = vuIALUflush_n (unat (ialucount s)) s"

definition fdiv_retire :: "VURegs \<Rightarrow> VURegs" where
  "fdiv_retire s =
     (let d = fdiv s;
          s1 = wVI REG_Q (fd_reg d) (s\<lparr>fdiv := d\<lparr>fd_enable := False\<rparr>\<rparr>)
      in wVI REG_STATUS_FLAG ((VI s1 REG_STATUS_FLAG AND 0xFCF) OR (fd_statusflag d AND 0xC30)) s1)"

definition vuFDIVflush :: "VURegs \<Rightarrow> bool \<times> VURegs" where
  "vuFDIVflush s =
     (if \<not> fd_enable (fdiv s) then (False, s)
      else if fd_Cycle (fdiv s) \<le> vcycle s - fd_sCycle (fdiv s) then (True, fdiv_retire s) else (False, s))"

definition efu_retire :: "VURegs \<Rightarrow> VURegs" where
  "efu_retire s = wVI REG_P (ef_reg (efu s)) (s\<lparr>efu := (efu s)\<lparr>ef_enable := False\<rparr>\<rparr>)"

definition vuEFUflush :: "VURegs \<Rightarrow> bool \<times> VURegs" where
  "vuEFUflush s =
     (if \<not> ef_enable (efu s) then (False, s)
      else if ef_Cycle (efu s) \<le> vcycle s - ef_sCycle (efu s) then (True, efu_retire s) else (False, s))"

text \<open>\<open>_vuFlushAll\<close>, at the end of a program: everything retires, and the clock moves to when it would have.\<close>

definition wait_until :: "u32 \<Rightarrow> u32 \<Rightarrow> VURegs \<Rightarrow> VURegs" where
  "wait_until sc c s = (if vcycle s - sc < c then s\<lparr>vcycle := sc + c\<rparr> else s)"

fun fmac_flush_all :: "nat \<Rightarrow> VURegs \<Rightarrow> VURegs" where
  "fmac_flush_all 0 s = s"
| "fmac_flush_all (Suc n) s =
     (let f = fmac s (fmacreadpos s)
      in fmac_flush_all n (wait_until (fm_sCycle f) (fm_Cycle f) (fmac_pop (fmac_retire f s))))"

fun ialu_flush_all :: "nat \<Rightarrow> VURegs \<Rightarrow> VURegs" where
  "ialu_flush_all 0 s = s"
| "ialu_flush_all (Suc n) s =
     (let f = ialu s (ialureadpos s)
      in ialu_flush_all n (wait_until (ia_sCycle f) (ia_Cycle f) (ialu_pop s)))"

definition vuFlushAll :: "VURegs \<Rightarrow> VURegs" where
  "vuFlushAll s =
     (let s1 = (if fd_enable (fdiv s) then wait_until (fd_sCycle (fdiv s)) (fd_Cycle (fdiv s)) (fdiv_retire s) else s);
          s2 = (if ef_enable (efu s1) then wait_until (ef_sCycle (efu s1)) (ef_Cycle (efu s1)) (efu_retire s1) else s1);
          s3 = fmac_flush_all (unat (fmaccount s2)) s2
      in ialu_flush_all (unat (ialucount s3)) s3)"

text \<open>The loop of \<open>_vuTestPipes\<close>, which goes on as long as something retires.\<close>

definition vuFlush_once :: "VURegs \<Rightarrow> bool \<times> VURegs" where
  "vuFlush_once s =
     (case vuFMACflush s of (a, s1) \<Rightarrow>
      case vuFDIVflush s1 of (b, s2) \<Rightarrow>
      case vuEFUflush s2 of (c, s3) \<Rightarrow>
      case vuIALUflush s3 of (d, s4) \<Rightarrow> (a \<or> b \<or> c \<or> d, s4))"

definition pipe_load :: "VURegs \<Rightarrow> nat" where
  "pipe_load s = unat (fmaccount s) + unat (ialucount s) + (if fd_enable (fdiv s) then 1 else 0) + (if ef_enable (efu s) then 1 else 0)"

section \<open>Stalls\<close>

text \<open>What an instruction reads and writes (\<open>_VURegsNum\<close>).\<close>

datatype VUPipeState = VUPIPE_NONE | VUPIPE_FMAC | VUPIPE_FDIV | VUPIPE_EFU | VUPIPE_IALU | VUPIPE_BRANCH | VUPIPE_XGKICK

record VURegsNum =
  rn_pipe :: VUPipeState
  VFwrite :: u8
  VFwxyzw :: u8
  VFr0xyzw :: u8
  VFr1xyzw :: u8
  VFread0 :: u8
  VFread1 :: u8
  VIwrite :: u32
  VIread :: u32
  rn_cycles :: u32

text \<open>A wait of the clock, with the comparison of the source.\<close>

definition stall_to :: "u32 \<Rightarrow> VURegs \<Rightarrow> VURegs" where
  "stall_to t s = (if vcycle s < t then s\<lparr>vcycle := t\<rparr> else s)"

fun fmac_stalls :: "nat \<Rightarrow> u32 \<Rightarrow> u32 \<Rightarrow> u32 \<Rightarrow> VURegs \<Rightarrow> VURegs" where
  "fmac_stalls 0 pos r xyzw s = s"
| "fmac_stalls (Suc n) pos r xyzw s =
     (let f = fmac s pos;
          s1 = (if fm_Cycle f \<le> vcycle s - fm_sCycle f then s
                else if (fm_regupper f = r \<and> fm_xyzwupper f AND xyzw \<noteq> 0) \<or> (fm_reglower f = r \<and> fm_xyzwlower f AND xyzw \<noteq> 0)
                then stall_to (fm_Cycle f + fm_sCycle f) s else s)
      in fmac_stalls n ((pos + 1) AND 3) r xyzw s1)"

definition vuFMACTestStall :: "u8 \<Rightarrow> u8 \<Rightarrow> VURegs \<Rightarrow> VURegs" where
  "vuFMACTestStall r xyzw s = fmac_stalls (unat (fmaccount s)) (fmacreadpos s) (ucast r) (ucast xyzw) s"

definition vuTestFMACStalls :: "VURegsNum \<Rightarrow> VURegs \<Rightarrow> VURegs" where
  "vuTestFMACStalls n s =
     (let s1 = (if VFread0 n \<noteq> 0 then vuFMACTestStall (VFread0 n) (VFr0xyzw n) s else s)
      in if VFread1 n \<noteq> 0 then vuFMACTestStall (VFread1 n) (VFr1xyzw n) s1 else s1)"

definition vuTestFDIVStalls :: "VURegsNum \<Rightarrow> VURegs \<Rightarrow> VURegs" where
  "vuTestFDIVStalls n s =
     (let s1 = vuTestFMACStalls n s
      in if fd_enable (fdiv s1) then stall_to (fd_Cycle (fdiv s1) + fd_sCycle (fdiv s1)) s1 else s1)"

definition vuTestEFUStalls :: "VURegsNum \<Rightarrow> VURegs \<Rightarrow> VURegs" where
  "vuTestEFUStalls n s =
     (let s1 = vuTestFMACStalls n s
      in if \<not> ef_enable (efu s1) then s1
         else (let s2 = s1\<lparr>efu := (efu s1)\<lparr>ef_Cycle := ef_Cycle (efu s1) - 1\<rparr>\<rparr>
               in stall_to (ef_sCycle (efu s2) + ef_Cycle (efu s2)) s2))"

fun ialu_stalls :: "nat \<Rightarrow> u32 \<Rightarrow> u32 \<Rightarrow> VURegs \<Rightarrow> VURegs" where
  "ialu_stalls 0 pos r s = s"
| "ialu_stalls (Suc n) pos r s =
     (let f = ialu s pos;
          s1 = (if ia_Cycle f \<le> vcycle s - ia_sCycle f then s
                else if ia_reg f AND r \<noteq> 0 then stall_to (ia_Cycle f + ia_sCycle f) s else s)
      in ialu_stalls n ((pos + 1) AND 3) r s1)"

definition vuTestALUStalls :: "VURegsNum \<Rightarrow> VURegs \<Rightarrow> VURegs" where
  "vuTestALUStalls n s = ialu_stalls (unat (ialucount s)) (ialureadpos s) (VIread n) s"

definition vuTestUpperStalls :: "VURegsNum \<Rightarrow> VURegs \<Rightarrow> VURegs" where
  "vuTestUpperStalls n s = (case rn_pipe n of VUPIPE_FMAC \<Rightarrow> vuTestFMACStalls n s | _ \<Rightarrow> s)"

definition vuTestLowerStalls :: "VURegsNum \<Rightarrow> VURegs \<Rightarrow> VURegs" where
  "vuTestLowerStalls n s =
     (case rn_pipe n of
        VUPIPE_FMAC \<Rightarrow> vuTestFMACStalls n s
      | VUPIPE_FDIV \<Rightarrow> vuTestFDIVStalls n s
      | VUPIPE_EFU \<Rightarrow> vuTestEFUStalls n s
      | VUPIPE_BRANCH \<Rightarrow> vuTestALUStalls n s
      | _ \<Rightarrow> s)"

section \<open>Adding entries\<close>

definition fmac_empty :: fmacPipe where
  "fmac_empty = \<lparr>fm_regupper = 0, fm_reglower = 0, fm_flagreg = 0, fm_xyzwupper = 0, fm_xyzwlower = 0, fm_sCycle = 0,
     fm_Cycle = 0, fm_macflag = 0, fm_statusflag = 0, fm_clipflag = 0\<rparr>"

definition vuClearFMAC :: "VURegs \<Rightarrow> VURegs" where
  "vuClearFMAC s = s\<lparr>fmac := (fmac s)(fmacwritepos s := fmac_empty), fmaccount := fmaccount s + 1\<rparr>"

definition vuAddFMACStalls :: "VURegsNum \<Rightarrow> bool \<Rightarrow> VURegs \<Rightarrow> VURegs" where
  "vuAddFMACStalls n isUpper s =
     (let i = fmacwritepos s;
          f = (fmac s i)\<lparr>fm_sCycle := vcycle s, fm_Cycle := 4\<rparr>;
          g = (if isUpper
               then f\<lparr>fm_regupper := ucast (VFwrite n), fm_xyzwupper := ucast (VFwxyzw n), fm_flagreg := VIwrite n\<rparr>
               else f\<lparr>fm_reglower := ucast (VFwrite n), fm_xyzwlower := ucast (VFwxyzw n), fm_flagreg := fm_flagreg f OR VIwrite n\<rparr>)
      in s\<lparr>fmac := (fmac s)(i := g\<lparr>fm_macflag := vmacflag s, fm_statusflag := vstatusflag s, fm_clipflag := vclipflag s\<rparr>)\<rparr>)"

definition vuFDIVAdd :: "u32 \<Rightarrow> VURegs \<Rightarrow> VURegs" where
  "vuFDIVAdd cycles s =
     s\<lparr>fdiv := \<lparr>fd_enable = True, fd_reg = vq s, fd_sCycle = vcycle s, fd_Cycle = cycles, fd_statusflag = vstatusflag s\<rparr>\<rparr>"

definition vuEFUAdd :: "u32 \<Rightarrow> VURegs \<Rightarrow> VURegs" where
  "vuEFUAdd cycles s = s\<lparr>efu := \<lparr>ef_enable = True, ef_reg = vp s, ef_sCycle = vcycle s, ef_Cycle = cycles\<rparr>\<rparr>"

definition vuAddIALUStalls :: "VURegsNum \<Rightarrow> VURegs \<Rightarrow> VURegs" where
  "vuAddIALUStalls n s =
     (if rn_cycles n = 0 then s
      else s\<lparr>ialu := (ialu s)(ialuwritepos s := \<lparr>ia_reg = VIwrite n, ia_sCycle = vcycle s, ia_Cycle = rn_cycles n\<rparr>),
             ialuwritepos := (ialuwritepos s + 1) AND 3, ialucount := ialucount s + 1\<rparr>)"

definition vuAddFDIVStalls :: "VURegsNum \<Rightarrow> VURegs \<Rightarrow> VURegs" where
  "vuAddFDIVStalls n s = (if bit (VIwrite n) 22 then vuFDIVAdd (rn_cycles n) s else s)"

definition vuAddEFUStalls :: "VURegsNum \<Rightarrow> VURegs \<Rightarrow> VURegs" where
  "vuAddEFUStalls n s = (if bit (VIwrite n) 23 then vuEFUAdd (rn_cycles n) s else s)"

definition vuAddUpperStalls :: "VURegsNum \<Rightarrow> VURegs \<Rightarrow> VURegs" where
  "vuAddUpperStalls n s = (case rn_pipe n of VUPIPE_FMAC \<Rightarrow> vuAddFMACStalls n True s | _ \<Rightarrow> s)"

definition vuAddLowerStalls :: "VURegsNum \<Rightarrow> VURegs \<Rightarrow> VURegs" where
  "vuAddLowerStalls n s =
     (case rn_pipe n of
        VUPIPE_FMAC \<Rightarrow> vuAddFMACStalls n False s
      | VUPIPE_FDIV \<Rightarrow> vuAddFDIVStalls n s
      | VUPIPE_EFU \<Rightarrow> vuAddEFUStalls n s
      | VUPIPE_IALU \<Rightarrow> vuAddIALUStalls n s
      | _ \<Rightarrow> s)"

text \<open>The value a branch in the next cycles still sees of an integer register.\<close>

definition vuBackupVI :: "reg \<Rightarrow> VURegs \<Rightarrow> VURegs" where
  "vuBackupVI r s =
     (if VIBackupCycles s \<noteq> 0 \<and> ucast r = VIRegNumber s then s\<lparr>VIBackupCycles := 2\<rparr>
      else s\<lparr>VIBackupCycles := 2, VIRegNumber := ucast r, VIOldValue := ucast (VI16 s r)\<rparr>)"

section \<open>Termination of the loop\<close>

lemma retire_counts [simp]:
  "fmaccount (fmac_retire f s) = fmaccount s" "ialucount (fmac_retire f s) = ialucount s" "fdiv (fmac_retire f s) = fdiv s"
  "efu (fmac_retire f s) = efu s" "fmaccount (fdiv_retire s) = fmaccount s" "ialucount (fdiv_retire s) = ialucount s"
  "efu (fdiv_retire s) = efu s" "fmaccount (efu_retire s) = fmaccount s" "ialucount (efu_retire s) = ialucount s"
  "fdiv (efu_retire s) = fdiv s" "fd_enable (fdiv (fdiv_retire s)) = False" "ef_enable (efu (efu_retire s)) = False"
  by (simp_all add: fmac_retire_def fdiv_retire_def efu_retire_def wVI_def Let_def)

lemma unat_pred: "unat (x :: u32) = Suc n \<Longrightarrow> unat (x - 1) = n"
  by (metis Suc_diff_1 diff_Suc_1 unat_minus_one unat_0 nat.distinct(1))

lemma FMACflush_n_load:
  "unat (fmaccount s) = n \<Longrightarrow> vuFMACflush_n n s = (a, t) \<Longrightarrow>
     pipe_load t \<le> pipe_load s \<and> (a \<longrightarrow> pipe_load t < pipe_load s)"
proof (induction n arbitrary: a s t)
  case (Suc n)
  let ?u = "fmac_pop (fmac_retire (fmac s (fmacreadpos s)) s)"
  have n: "unat (fmaccount ?u) = n" using Suc.prems(1) by (simp add: fmac_pop_def unat_pred)
  have u: "pipe_load ?u < pipe_load s" using Suc.prems(1) by (simp add: pipe_load_def fmac_pop_def unat_pred)
  show ?case
    using Suc.IH [OF n surjective_pairing] Suc.prems u by (auto simp: Let_def split: if_splits)
qed simp

lemma IALUflush_n_load:
  "unat (ialucount s) = n \<Longrightarrow> vuIALUflush_n n s = (a, t) \<Longrightarrow>
     pipe_load t \<le> pipe_load s \<and> (a \<longrightarrow> pipe_load t < pipe_load s)"
proof (induction n arbitrary: a s t)
  case (Suc n)
  have n: "unat (ialucount (ialu_pop s)) = n" using Suc.prems(1) by (simp add: ialu_pop_def unat_pred)
  have u: "pipe_load (ialu_pop s) < pipe_load s" using Suc.prems(1) by (simp add: pipe_load_def ialu_pop_def unat_pred)
  show ?case
    using Suc.IH [OF n surjective_pairing] Suc.prems u by (auto simp: Let_def split: if_splits)
qed simp

lemma FDIVflush_load: "vuFDIVflush s = (a, t) \<Longrightarrow> pipe_load t \<le> pipe_load s \<and> (a \<longrightarrow> pipe_load t < pipe_load s)"
  by (auto simp: vuFDIVflush_def pipe_load_def split: if_splits)
lemma EFUflush_load: "vuEFUflush s = (a, t) \<Longrightarrow> pipe_load t \<le> pipe_load s \<and> (a \<longrightarrow> pipe_load t < pipe_load s)"
  by (auto simp: vuEFUflush_def pipe_load_def split: if_splits)

lemma flush_once_load: "vuFlush_once s = (True, t) \<Longrightarrow> pipe_load t < pipe_load s"
  unfolding vuFlush_once_def vuFMACflush_def vuIALUflush_def
  by (auto split: prod.splits
      dest!: FMACflush_n_load [OF refl] IALUflush_n_load [OF refl] FDIVflush_load EFUflush_load)

function vuFlush_loop :: "VURegs \<Rightarrow> VURegs" where
  "vuFlush_loop s = (case vuFlush_once s of (flushed, s1) \<Rightarrow> if flushed then vuFlush_loop s1 else s1)"
  by pat_completeness auto
termination
  by (relation "measure pipe_load") (auto dest: flush_once_load [OF sym])

declare vuFlush_loop.simps [simp del]

end
