(* ===== verification/Vu_RegsN.thy ===== *)
theory Vu_RegsN
  imports Vu_Regs
begin

text \<open>
  What each instruction of the vector units reads and writes (the \<open>_vuRegs\<close> functions of
  pcsx2/VUops.cpp), which the interpreter asks before it executes a pair.  A function updates only
  the fields the source assigns, so the others keep the value of the last instruction.
\<close>

unbundle bit_operations_syntax

definition rbit :: "reg \<Rightarrow> u32" where "rbit r = push_bit (unat r) 1"
definition fld_bit :: "u32 \<Rightarrow> u8" where "fld_bit f = push_bit (unat (3 - f)) 1"
definition GET_VF0_FLAG :: "reg \<Rightarrow> u32" where "GET_VF0_FLAG r = (if r = 0 then rbit REG_VF0_FLAG else 0)"

section \<open>Groups\<close>

definition VUREGS_FDFSI :: "bool \<Rightarrow> VURegs \<Rightarrow> VURegsNum \<Rightarrow> VURegsNum" where
  "VUREGS_FDFSI acc v n =
     n\<lparr>rn_pipe := VUPIPE_FMAC, VFwrite := ucast (vFd v), VFwxyzw := ucast (vXYZW v), VFread0 := ucast (vFs v),
      VFr0xyzw := ucast (vXYZW v), VFread1 := 0, VIwrite := 0,
      VIread := rbit REG_I OR (if acc then rbit REG_ACC_FLAG else 0) OR GET_VF0_FLAG (vFs v)\<rparr>"
definition VUREGS_FDFSQ :: "bool \<Rightarrow> VURegs \<Rightarrow> VURegsNum \<Rightarrow> VURegsNum" where
  "VUREGS_FDFSQ acc v n =
     n\<lparr>rn_pipe := VUPIPE_FMAC, VFwrite := ucast (vFd v), VFwxyzw := ucast (vXYZW v), VFread0 := ucast (vFs v),
      VFr0xyzw := ucast (vXYZW v), VFread1 := 0, VIwrite := 0,
      VIread := rbit REG_Q OR (if acc then rbit REG_ACC_FLAG else 0) OR GET_VF0_FLAG (vFs v)\<rparr>"
definition VUREGS_FDFSFT :: "bool \<Rightarrow> VURegs \<Rightarrow> VURegsNum \<Rightarrow> VURegsNum" where
  "VUREGS_FDFSFT acc v n =
     n\<lparr>rn_pipe := VUPIPE_FMAC, VFwrite := ucast (vFd v), VFwxyzw := ucast (vXYZW v), VFread0 := ucast (vFs v),
      VFr0xyzw := ucast (vXYZW v), VFread1 := ucast (vFt v), VFr1xyzw := ucast (vXYZW v), VIwrite := 0,
      VIread := (if acc then rbit REG_ACC_FLAG else 0) OR GET_VF0_FLAG (vFs v) OR GET_VF0_FLAG (vFt v)\<rparr>"
definition VUREGS_FDFSFTxyzw :: "u8 \<Rightarrow> bool \<Rightarrow> VURegs \<Rightarrow> VURegsNum \<Rightarrow> VURegsNum" where
  "VUREGS_FDFSFTxyzw xyzw acc v n =
     n\<lparr>rn_pipe := VUPIPE_FMAC, VFwrite := ucast (vFd v), VFwxyzw := ucast (vXYZW v), VFread0 := ucast (vFs v),
      VFr0xyzw := ucast (vXYZW v), VFread1 := ucast (vFt v), VFr1xyzw := xyzw, VIwrite := 0,
      VIread := (if acc then rbit REG_ACC_FLAG else 0) OR GET_VF0_FLAG (vFs v) OR GET_VF0_FLAG (vFt v)\<rparr>"
definition VUREGS_FDFSFTx :: "bool \<Rightarrow> VURegs \<Rightarrow> VURegsNum \<Rightarrow> VURegsNum" where "VUREGS_FDFSFTx = VUREGS_FDFSFTxyzw 8"
definition VUREGS_FDFSFTy :: "bool \<Rightarrow> VURegs \<Rightarrow> VURegsNum \<Rightarrow> VURegsNum" where "VUREGS_FDFSFTy = VUREGS_FDFSFTxyzw 4"
definition VUREGS_FDFSFTz :: "bool \<Rightarrow> VURegs \<Rightarrow> VURegsNum \<Rightarrow> VURegsNum" where "VUREGS_FDFSFTz = VUREGS_FDFSFTxyzw 2"
definition VUREGS_FDFSFTw :: "bool \<Rightarrow> VURegs \<Rightarrow> VURegsNum \<Rightarrow> VURegsNum" where "VUREGS_FDFSFTw = VUREGS_FDFSFTxyzw 1"
definition VUREGS_ACCFSI :: "bool \<Rightarrow> VURegs \<Rightarrow> VURegsNum \<Rightarrow> VURegsNum" where
  "VUREGS_ACCFSI acc v n =
     n\<lparr>rn_pipe := VUPIPE_FMAC, VFwrite := 0, VFwxyzw := ucast (vXYZW v), VFread0 := ucast (vFs v),
      VFr0xyzw := ucast (vXYZW v), VFread1 := 0, VIwrite := rbit REG_ACC_FLAG,
      VIread := rbit REG_I OR GET_VF0_FLAG (vFs v) OR (if acc \<or> vXYZW v \<noteq> 15 then rbit REG_ACC_FLAG else 0)\<rparr>"
definition VUREGS_ACCFSQ :: "bool \<Rightarrow> VURegs \<Rightarrow> VURegsNum \<Rightarrow> VURegsNum" where
  "VUREGS_ACCFSQ acc v n =
     n\<lparr>rn_pipe := VUPIPE_FMAC, VFwrite := 0, VFwxyzw := ucast (vXYZW v), VFread0 := ucast (vFs v),
      VFr0xyzw := ucast (vXYZW v), VFread1 := 0, VIwrite := rbit REG_ACC_FLAG,
      VIread := rbit REG_Q OR GET_VF0_FLAG (vFs v) OR (if acc \<or> vXYZW v \<noteq> 15 then rbit REG_ACC_FLAG else 0)\<rparr>"
definition VUREGS_ACCFSFT :: "bool \<Rightarrow> VURegs \<Rightarrow> VURegsNum \<Rightarrow> VURegsNum" where
  "VUREGS_ACCFSFT acc v n =
     n\<lparr>rn_pipe := VUPIPE_FMAC, VFwrite := 0, VFwxyzw := ucast (vXYZW v), VFread0 := ucast (vFs v),
      VFr0xyzw := ucast (vXYZW v), VFread1 := ucast (vFt v), VFr1xyzw := ucast (vXYZW v), VIwrite := rbit REG_ACC_FLAG,
      VIread := GET_VF0_FLAG (vFs v) OR GET_VF0_FLAG (vFt v) OR (if acc \<or> vXYZW v \<noteq> 15 then rbit REG_ACC_FLAG else 0)\<rparr>"
definition VUREGS_ACCFSFTxyzw :: "u8 \<Rightarrow> bool \<Rightarrow> VURegs \<Rightarrow> VURegsNum \<Rightarrow> VURegsNum" where
  "VUREGS_ACCFSFTxyzw xyzw acc v n =
     n\<lparr>rn_pipe := VUPIPE_FMAC, VFwrite := 0, VFwxyzw := ucast (vXYZW v), VFread0 := ucast (vFs v),
      VFr0xyzw := ucast (vXYZW v), VFread1 := ucast (vFt v), VFr1xyzw := xyzw, VIwrite := rbit REG_ACC_FLAG,
      VIread := GET_VF0_FLAG (vFs v) OR GET_VF0_FLAG (vFt v) OR (if acc \<or> vXYZW v \<noteq> 15 then rbit REG_ACC_FLAG else 0)\<rparr>"
definition VUREGS_ACCFSFTx :: "bool \<Rightarrow> VURegs \<Rightarrow> VURegsNum \<Rightarrow> VURegsNum" where "VUREGS_ACCFSFTx = VUREGS_ACCFSFTxyzw 8"
definition VUREGS_ACCFSFTy :: "bool \<Rightarrow> VURegs \<Rightarrow> VURegsNum \<Rightarrow> VURegsNum" where "VUREGS_ACCFSFTy = VUREGS_ACCFSFTxyzw 4"
definition VUREGS_ACCFSFTz :: "bool \<Rightarrow> VURegs \<Rightarrow> VURegsNum \<Rightarrow> VURegsNum" where "VUREGS_ACCFSFTz = VUREGS_ACCFSFTxyzw 2"
definition VUREGS_ACCFSFTw :: "bool \<Rightarrow> VURegs \<Rightarrow> VURegsNum \<Rightarrow> VURegsNum" where "VUREGS_ACCFSFTw = VUREGS_ACCFSFTxyzw 1"
definition VUREGS_FTFS :: "VURegs \<Rightarrow> VURegsNum \<Rightarrow> VURegsNum" where
  "VUREGS_FTFS v n =
     n\<lparr>rn_pipe := VUPIPE_FMAC, VFwrite := ucast (vFt v), VFwxyzw := ucast (vXYZW v), VFread0 := ucast (vFs v),
      VFr0xyzw := ucast (vXYZW v), VFread1 := 0, VFr1xyzw := 0xff, VIwrite := 0,
      VIread := (if vFt v \<noteq> 0 then GET_VF0_FLAG (vFs v) else 0)\<rparr>"
definition VUREGS_IDISIT :: "VURegs \<Rightarrow> VURegsNum \<Rightarrow> VURegsNum" where
  "VUREGS_IDISIT v n =
     n\<lparr>rn_pipe := VUPIPE_IALU, VFwrite := 0, VFread0 := 0, VFread1 := 0, VIwrite := rbit (vId v),
      VIread := rbit (vIs v) OR rbit (vIt v), rn_cycles := 0\<rparr>"
definition VUREGS_ITIS :: "VURegs \<Rightarrow> VURegsNum \<Rightarrow> VURegsNum" where
  "VUREGS_ITIS v n =
     n\<lparr>rn_pipe := VUPIPE_IALU, VFwrite := 0, VFread0 := 0, VFread1 := 0, VIwrite := rbit (vIt v),
      VIread := rbit (vIs v), rn_cycles := 0\<rparr>"
definition VUREGS_PFS_xyzw :: "u32 \<Rightarrow> VURegs \<Rightarrow> VURegsNum \<Rightarrow> VURegsNum" where
  "VUREGS_PFS_xyzw cyc v n =
     n\<lparr>rn_pipe := VUPIPE_EFU, VFwrite := 0, VFread0 := ucast (vFs v), VFr0xyzw := ucast (vXYZW v), VFread1 := 0,
      VIwrite := rbit REG_P, VIread := GET_VF0_FLAG (vFs v), rn_cycles := cyc\<rparr>"
definition VUREGS_PFS_fsf :: "u32 \<Rightarrow> VURegs \<Rightarrow> VURegsNum \<Rightarrow> VURegsNum" where
  "VUREGS_PFS_fsf cyc v n =
     n\<lparr>rn_pipe := VUPIPE_EFU, VFwrite := 0, VFread0 := ucast (vFs v), VFr0xyzw := fld_bit (vFsf v), VFread1 := 0,
      VIwrite := rbit REG_P, VIread := GET_VF0_FLAG (vFs v), rn_cycles := cyc\<rparr>"
definition vuRegsABS :: "VURegs \<Rightarrow> VURegsNum \<Rightarrow> VURegsNum" where "vuRegsABS = VUREGS_FTFS"
definition vuRegsADD :: "VURegs \<Rightarrow> VURegsNum \<Rightarrow> VURegsNum" where "vuRegsADD = VUREGS_FDFSFT False"
definition vuRegsADDi :: "VURegs \<Rightarrow> VURegsNum \<Rightarrow> VURegsNum" where "vuRegsADDi = VUREGS_FDFSI False"
definition vuRegsADDq :: "VURegs \<Rightarrow> VURegsNum \<Rightarrow> VURegsNum" where "vuRegsADDq = VUREGS_FDFSQ False"
definition vuRegsADDx :: "VURegs \<Rightarrow> VURegsNum \<Rightarrow> VURegsNum" where "vuRegsADDx = VUREGS_FDFSFTx False"
definition vuRegsADDy :: "VURegs \<Rightarrow> VURegsNum \<Rightarrow> VURegsNum" where "vuRegsADDy = VUREGS_FDFSFTy False"
definition vuRegsADDz :: "VURegs \<Rightarrow> VURegsNum \<Rightarrow> VURegsNum" where "vuRegsADDz = VUREGS_FDFSFTz False"
definition vuRegsADDw :: "VURegs \<Rightarrow> VURegsNum \<Rightarrow> VURegsNum" where "vuRegsADDw = VUREGS_FDFSFTw False"
definition vuRegsADDA :: "VURegs \<Rightarrow> VURegsNum \<Rightarrow> VURegsNum" where "vuRegsADDA = VUREGS_ACCFSFT False"
definition vuRegsADDAi :: "VURegs \<Rightarrow> VURegsNum \<Rightarrow> VURegsNum" where "vuRegsADDAi = VUREGS_ACCFSI False"
definition vuRegsADDAq :: "VURegs \<Rightarrow> VURegsNum \<Rightarrow> VURegsNum" where "vuRegsADDAq = VUREGS_ACCFSQ False"
definition vuRegsADDAx :: "VURegs \<Rightarrow> VURegsNum \<Rightarrow> VURegsNum" where "vuRegsADDAx = VUREGS_ACCFSFTx False"
definition vuRegsADDAy :: "VURegs \<Rightarrow> VURegsNum \<Rightarrow> VURegsNum" where "vuRegsADDAy = VUREGS_ACCFSFTy False"
definition vuRegsADDAz :: "VURegs \<Rightarrow> VURegsNum \<Rightarrow> VURegsNum" where "vuRegsADDAz = VUREGS_ACCFSFTz False"
definition vuRegsADDAw :: "VURegs \<Rightarrow> VURegsNum \<Rightarrow> VURegsNum" where "vuRegsADDAw = VUREGS_ACCFSFTw False"
definition vuRegsSUB :: "VURegs \<Rightarrow> VURegsNum \<Rightarrow> VURegsNum" where "vuRegsSUB = VUREGS_FDFSFT False"
definition vuRegsSUBi :: "VURegs \<Rightarrow> VURegsNum \<Rightarrow> VURegsNum" where "vuRegsSUBi = VUREGS_FDFSI False"
definition vuRegsSUBq :: "VURegs \<Rightarrow> VURegsNum \<Rightarrow> VURegsNum" where "vuRegsSUBq = VUREGS_FDFSQ False"
definition vuRegsSUBx :: "VURegs \<Rightarrow> VURegsNum \<Rightarrow> VURegsNum" where "vuRegsSUBx = VUREGS_FDFSFTx False"
definition vuRegsSUBy :: "VURegs \<Rightarrow> VURegsNum \<Rightarrow> VURegsNum" where "vuRegsSUBy = VUREGS_FDFSFTy False"
definition vuRegsSUBz :: "VURegs \<Rightarrow> VURegsNum \<Rightarrow> VURegsNum" where "vuRegsSUBz = VUREGS_FDFSFTz False"
definition vuRegsSUBw :: "VURegs \<Rightarrow> VURegsNum \<Rightarrow> VURegsNum" where "vuRegsSUBw = VUREGS_FDFSFTw False"
definition vuRegsSUBA :: "VURegs \<Rightarrow> VURegsNum \<Rightarrow> VURegsNum" where "vuRegsSUBA = VUREGS_ACCFSFT False"
definition vuRegsSUBAi :: "VURegs \<Rightarrow> VURegsNum \<Rightarrow> VURegsNum" where "vuRegsSUBAi = VUREGS_ACCFSI False"
definition vuRegsSUBAq :: "VURegs \<Rightarrow> VURegsNum \<Rightarrow> VURegsNum" where "vuRegsSUBAq = VUREGS_ACCFSQ False"
definition vuRegsSUBAx :: "VURegs \<Rightarrow> VURegsNum \<Rightarrow> VURegsNum" where "vuRegsSUBAx = VUREGS_ACCFSFTx False"
definition vuRegsSUBAy :: "VURegs \<Rightarrow> VURegsNum \<Rightarrow> VURegsNum" where "vuRegsSUBAy = VUREGS_ACCFSFTy False"
definition vuRegsSUBAz :: "VURegs \<Rightarrow> VURegsNum \<Rightarrow> VURegsNum" where "vuRegsSUBAz = VUREGS_ACCFSFTz False"
definition vuRegsSUBAw :: "VURegs \<Rightarrow> VURegsNum \<Rightarrow> VURegsNum" where "vuRegsSUBAw = VUREGS_ACCFSFTw False"
definition VUREGS_FDFSFTxyzw_MUL :: "bool \<Rightarrow> u8 \<Rightarrow> VURegs \<Rightarrow> VURegsNum \<Rightarrow> VURegsNum" where
  "VUREGS_FDFSFTxyzw_MUL acc xyzw v n =
     n\<lparr>rn_pipe := VUPIPE_FMAC, VFwrite := (if acc then 0 else ucast (vFd v)), VFwxyzw := ucast (vXYZW v),
      VFread0 := ucast (vFs v), VFr0xyzw := ucast (vXYZW v), VFread1 := ucast (vFt v), VFr1xyzw := xyzw,
      VIwrite := (if acc then rbit REG_ACC_FLAG else 0),
      VIread := GET_VF0_FLAG (vFs v) OR (if acc \<and> vXYZW v \<noteq> 15 then rbit REG_ACC_FLAG else 0)\<rparr>"
definition vuRegsMUL :: "VURegs \<Rightarrow> VURegsNum \<Rightarrow> VURegsNum" where "vuRegsMUL = VUREGS_FDFSFT False"
definition vuRegsMULi :: "VURegs \<Rightarrow> VURegsNum \<Rightarrow> VURegsNum" where "vuRegsMULi = VUREGS_FDFSI False"
definition vuRegsMULq :: "VURegs \<Rightarrow> VURegsNum \<Rightarrow> VURegsNum" where "vuRegsMULq = VUREGS_FDFSQ False"
definition vuRegsMULx :: "VURegs \<Rightarrow> VURegsNum \<Rightarrow> VURegsNum" where "vuRegsMULx = VUREGS_FDFSFTxyzw_MUL False 8"
definition vuRegsMULy :: "VURegs \<Rightarrow> VURegsNum \<Rightarrow> VURegsNum" where "vuRegsMULy = VUREGS_FDFSFTxyzw_MUL False 4"
definition vuRegsMULz :: "VURegs \<Rightarrow> VURegsNum \<Rightarrow> VURegsNum" where "vuRegsMULz = VUREGS_FDFSFTxyzw_MUL False 2"
definition vuRegsMULw :: "VURegs \<Rightarrow> VURegsNum \<Rightarrow> VURegsNum" where "vuRegsMULw = VUREGS_FDFSFTxyzw_MUL False 1"
definition vuRegsMULA :: "VURegs \<Rightarrow> VURegsNum \<Rightarrow> VURegsNum" where "vuRegsMULA = VUREGS_ACCFSFT False"
definition vuRegsMULAi :: "VURegs \<Rightarrow> VURegsNum \<Rightarrow> VURegsNum" where "vuRegsMULAi = VUREGS_ACCFSI False"
definition vuRegsMULAq :: "VURegs \<Rightarrow> VURegsNum \<Rightarrow> VURegsNum" where "vuRegsMULAq = VUREGS_ACCFSQ False"
definition vuRegsMULAx :: "VURegs \<Rightarrow> VURegsNum \<Rightarrow> VURegsNum" where "vuRegsMULAx = VUREGS_FDFSFTxyzw_MUL True 8"
definition vuRegsMULAy :: "VURegs \<Rightarrow> VURegsNum \<Rightarrow> VURegsNum" where "vuRegsMULAy = VUREGS_FDFSFTxyzw_MUL True 4"
definition vuRegsMULAz :: "VURegs \<Rightarrow> VURegsNum \<Rightarrow> VURegsNum" where "vuRegsMULAz = VUREGS_FDFSFTxyzw_MUL True 2"
definition vuRegsMULAw :: "VURegs \<Rightarrow> VURegsNum \<Rightarrow> VURegsNum" where "vuRegsMULAw = VUREGS_FDFSFTxyzw_MUL True 1"
definition vuRegsMADD :: "VURegs \<Rightarrow> VURegsNum \<Rightarrow> VURegsNum" where "vuRegsMADD = VUREGS_FDFSFT True"
definition vuRegsMADDi :: "VURegs \<Rightarrow> VURegsNum \<Rightarrow> VURegsNum" where "vuRegsMADDi = VUREGS_FDFSI True"
definition vuRegsMADDq :: "VURegs \<Rightarrow> VURegsNum \<Rightarrow> VURegsNum" where "vuRegsMADDq = VUREGS_FDFSQ True"
definition VUREGS_FDFSFT_0_xyzw :: "u8 \<Rightarrow> VURegs \<Rightarrow> VURegsNum \<Rightarrow> VURegsNum" where
  "VUREGS_FDFSFT_0_xyzw xyzw v n =
     n\<lparr>rn_pipe := VUPIPE_FMAC, VFwrite := ucast (vFd v), VFwxyzw := ucast (vXYZW v), VFread0 := ucast (vFs v),
      VFr0xyzw := ucast (vXYZW v), VFread1 := ucast (vFt v), VFr1xyzw := xyzw, VIwrite := 0,
      VIread := rbit REG_ACC_FLAG OR (if vFt v \<noteq> 0 then GET_VF0_FLAG (vFs v) else 0)\<rparr>"
definition vuRegsMADDx :: "VURegs \<Rightarrow> VURegsNum \<Rightarrow> VURegsNum" where "vuRegsMADDx = VUREGS_FDFSFT_0_xyzw 8"
definition vuRegsMADDy :: "VURegs \<Rightarrow> VURegsNum \<Rightarrow> VURegsNum" where "vuRegsMADDy = VUREGS_FDFSFT_0_xyzw 4"
definition vuRegsMADDz :: "VURegs \<Rightarrow> VURegsNum \<Rightarrow> VURegsNum" where "vuRegsMADDz = VUREGS_FDFSFT_0_xyzw 2"
definition vuRegsMADDw :: "VURegs \<Rightarrow> VURegsNum \<Rightarrow> VURegsNum" where
  "vuRegsMADDw v n =
     n\<lparr>rn_pipe := VUPIPE_FMAC, VFwrite := ucast (vFd v), VFwxyzw := ucast (vXYZW v), VFread0 := ucast (vFs v),
      VFr0xyzw := ucast (vXYZW v), VFread1 := ucast (vFt v), VFr1xyzw := 1, VIwrite := 0,
      VIread := rbit REG_ACC_FLAG OR GET_VF0_FLAG (vFs v)\<rparr>"
definition vuRegsMADDA :: "VURegs \<Rightarrow> VURegsNum \<Rightarrow> VURegsNum" where "vuRegsMADDA = VUREGS_ACCFSFT True"
definition vuRegsMADDAi :: "VURegs \<Rightarrow> VURegsNum \<Rightarrow> VURegsNum" where "vuRegsMADDAi = VUREGS_ACCFSI True"
definition vuRegsMADDAq :: "VURegs \<Rightarrow> VURegsNum \<Rightarrow> VURegsNum" where "vuRegsMADDAq = VUREGS_ACCFSQ True"
definition vuRegsMADDAx :: "VURegs \<Rightarrow> VURegsNum \<Rightarrow> VURegsNum" where "vuRegsMADDAx = VUREGS_ACCFSFTx True"
definition vuRegsMADDAy :: "VURegs \<Rightarrow> VURegsNum \<Rightarrow> VURegsNum" where "vuRegsMADDAy = VUREGS_ACCFSFTy True"
definition vuRegsMADDAz :: "VURegs \<Rightarrow> VURegsNum \<Rightarrow> VURegsNum" where "vuRegsMADDAz = VUREGS_ACCFSFTz True"
definition vuRegsMADDAw :: "VURegs \<Rightarrow> VURegsNum \<Rightarrow> VURegsNum" where "vuRegsMADDAw = VUREGS_ACCFSFTw True"
definition vuRegsMSUB :: "VURegs \<Rightarrow> VURegsNum \<Rightarrow> VURegsNum" where "vuRegsMSUB = VUREGS_FDFSFT True"
definition vuRegsMSUBi :: "VURegs \<Rightarrow> VURegsNum \<Rightarrow> VURegsNum" where "vuRegsMSUBi = VUREGS_FDFSI True"
definition vuRegsMSUBq :: "VURegs \<Rightarrow> VURegsNum \<Rightarrow> VURegsNum" where "vuRegsMSUBq = VUREGS_FDFSQ True"
definition vuRegsMSUBx :: "VURegs \<Rightarrow> VURegsNum \<Rightarrow> VURegsNum" where "vuRegsMSUBx = VUREGS_FDFSFTx True"
definition vuRegsMSUBy :: "VURegs \<Rightarrow> VURegsNum \<Rightarrow> VURegsNum" where "vuRegsMSUBy = VUREGS_FDFSFTy True"
definition vuRegsMSUBz :: "VURegs \<Rightarrow> VURegsNum \<Rightarrow> VURegsNum" where "vuRegsMSUBz = VUREGS_FDFSFTz True"
definition vuRegsMSUBw :: "VURegs \<Rightarrow> VURegsNum \<Rightarrow> VURegsNum" where "vuRegsMSUBw = VUREGS_FDFSFTw True"
definition vuRegsMSUBA :: "VURegs \<Rightarrow> VURegsNum \<Rightarrow> VURegsNum" where "vuRegsMSUBA = VUREGS_ACCFSFT True"
definition vuRegsMSUBAi :: "VURegs \<Rightarrow> VURegsNum \<Rightarrow> VURegsNum" where "vuRegsMSUBAi = VUREGS_ACCFSI True"
definition vuRegsMSUBAq :: "VURegs \<Rightarrow> VURegsNum \<Rightarrow> VURegsNum" where "vuRegsMSUBAq = VUREGS_ACCFSQ True"
definition vuRegsMSUBAx :: "VURegs \<Rightarrow> VURegsNum \<Rightarrow> VURegsNum" where "vuRegsMSUBAx = VUREGS_ACCFSFTx True"
definition vuRegsMSUBAy :: "VURegs \<Rightarrow> VURegsNum \<Rightarrow> VURegsNum" where "vuRegsMSUBAy = VUREGS_ACCFSFTy True"
definition vuRegsMSUBAz :: "VURegs \<Rightarrow> VURegsNum \<Rightarrow> VURegsNum" where "vuRegsMSUBAz = VUREGS_ACCFSFTz True"
definition vuRegsMSUBAw :: "VURegs \<Rightarrow> VURegsNum \<Rightarrow> VURegsNum" where "vuRegsMSUBAw = VUREGS_ACCFSFTw True"
definition vuRegsMAX :: "VURegs \<Rightarrow> VURegsNum \<Rightarrow> VURegsNum" where "vuRegsMAX = VUREGS_FDFSFT False"
definition vuRegsMAXi :: "VURegs \<Rightarrow> VURegsNum \<Rightarrow> VURegsNum" where "vuRegsMAXi = VUREGS_FDFSI False"
definition vuRegsMAXx :: "VURegs \<Rightarrow> VURegsNum \<Rightarrow> VURegsNum" where "vuRegsMAXx = VUREGS_FDFSFTx False"
definition vuRegsMAXy :: "VURegs \<Rightarrow> VURegsNum \<Rightarrow> VURegsNum" where "vuRegsMAXy = VUREGS_FDFSFTy False"
definition vuRegsMAXz :: "VURegs \<Rightarrow> VURegsNum \<Rightarrow> VURegsNum" where "vuRegsMAXz = VUREGS_FDFSFTz False"
definition vuRegsMAXw :: "VURegs \<Rightarrow> VURegsNum \<Rightarrow> VURegsNum" where "vuRegsMAXw = VUREGS_FDFSFTw False"
definition vuRegsMINI :: "VURegs \<Rightarrow> VURegsNum \<Rightarrow> VURegsNum" where "vuRegsMINI = VUREGS_FDFSFT False"
definition vuRegsMINIi :: "VURegs \<Rightarrow> VURegsNum \<Rightarrow> VURegsNum" where "vuRegsMINIi = VUREGS_FDFSI False"
definition vuRegsMINIx :: "VURegs \<Rightarrow> VURegsNum \<Rightarrow> VURegsNum" where "vuRegsMINIx = VUREGS_FDFSFTx False"
definition vuRegsMINIy :: "VURegs \<Rightarrow> VURegsNum \<Rightarrow> VURegsNum" where "vuRegsMINIy = VUREGS_FDFSFTy False"
definition vuRegsMINIz :: "VURegs \<Rightarrow> VURegsNum \<Rightarrow> VURegsNum" where "vuRegsMINIz = VUREGS_FDFSFTz False"
definition vuRegsMINIw :: "VURegs \<Rightarrow> VURegsNum \<Rightarrow> VURegsNum" where "vuRegsMINIw = VUREGS_FDFSFTw False"
definition vuRegsOPMULA :: "VURegs \<Rightarrow> VURegsNum \<Rightarrow> VURegsNum" where
  "vuRegsOPMULA v n =
     n\<lparr>rn_pipe := VUPIPE_FMAC, VFwrite := 0, VFwxyzw := 0xE, VFread0 := ucast (vFs v), VFr0xyzw := 0xE,
      VFread1 := ucast (vFt v), VFr1xyzw := 0xE, VIwrite := rbit REG_ACC_FLAG,
      VIread := GET_VF0_FLAG (vFs v) OR GET_VF0_FLAG (vFt v) OR rbit REG_ACC_FLAG\<rparr>"
definition vuRegsOPMSUB :: "VURegs \<Rightarrow> VURegsNum \<Rightarrow> VURegsNum" where
  "vuRegsOPMSUB v n =
     n\<lparr>rn_pipe := VUPIPE_FMAC, VFwrite := ucast (vFd v), VFwxyzw := 0xE, VFread0 := ucast (vFs v), VFr0xyzw := 0xE,
      VFread1 := ucast (vFt v), VFr1xyzw := 0xE, VIwrite := 0,
      VIread := GET_VF0_FLAG (vFs v) OR GET_VF0_FLAG (vFt v) OR rbit REG_ACC_FLAG\<rparr>"
definition vuRegsNOP :: "VURegs \<Rightarrow> VURegsNum \<Rightarrow> VURegsNum" where
  "vuRegsNOP v n =
     n\<lparr>rn_pipe := VUPIPE_NONE, VFwrite := 0, VFread0 := 0, VFread1 := 0, VIwrite := 0, VIread := 0\<rparr>"
definition vuRegsFTOI0 :: "VURegs \<Rightarrow> VURegsNum \<Rightarrow> VURegsNum" where "vuRegsFTOI0 = VUREGS_FTFS"
definition vuRegsFTOI4 :: "VURegs \<Rightarrow> VURegsNum \<Rightarrow> VURegsNum" where "vuRegsFTOI4 = VUREGS_FTFS"
definition vuRegsFTOI12 :: "VURegs \<Rightarrow> VURegsNum \<Rightarrow> VURegsNum" where "vuRegsFTOI12 = VUREGS_FTFS"
definition vuRegsFTOI15 :: "VURegs \<Rightarrow> VURegsNum \<Rightarrow> VURegsNum" where "vuRegsFTOI15 = VUREGS_FTFS"
definition vuRegsITOF0 :: "VURegs \<Rightarrow> VURegsNum \<Rightarrow> VURegsNum" where "vuRegsITOF0 = VUREGS_FTFS"
definition vuRegsITOF4 :: "VURegs \<Rightarrow> VURegsNum \<Rightarrow> VURegsNum" where "vuRegsITOF4 = VUREGS_FTFS"
definition vuRegsITOF12 :: "VURegs \<Rightarrow> VURegsNum \<Rightarrow> VURegsNum" where "vuRegsITOF12 = VUREGS_FTFS"
definition vuRegsITOF15 :: "VURegs \<Rightarrow> VURegsNum \<Rightarrow> VURegsNum" where "vuRegsITOF15 = VUREGS_FTFS"
definition vuRegsCLIP :: "VURegs \<Rightarrow> VURegsNum \<Rightarrow> VURegsNum" where
  "vuRegsCLIP v n =
     n\<lparr>rn_pipe := VUPIPE_FMAC, VFwrite := 0, VFread0 := ucast (vFs v), VFr0xyzw := 0xE, VFread1 := ucast (vFt v),
      VFr1xyzw := 1, VIwrite := rbit REG_CLIP_FLAG,
      VIread := GET_VF0_FLAG (vFs v) OR GET_VF0_FLAG (vFt v) OR rbit REG_CLIP_FLAG\<rparr>"
definition vuRegsDIV :: "VURegs \<Rightarrow> VURegsNum \<Rightarrow> VURegsNum" where
  "vuRegsDIV v n =
     n\<lparr>rn_pipe := VUPIPE_FDIV, VFwrite := 0, VFread0 := ucast (vFs v), VFr0xyzw := fld_bit (vFsf v),
      VFread1 := ucast (vFt v), VFr1xyzw := fld_bit (vFtf v), VIwrite := rbit REG_Q,
      VIread := GET_VF0_FLAG (vFs v) OR GET_VF0_FLAG (vFt v), rn_cycles := 7\<rparr>"
definition vuRegsSQRT :: "VURegs \<Rightarrow> VURegsNum \<Rightarrow> VURegsNum" where
  "vuRegsSQRT v n =
     n\<lparr>rn_pipe := VUPIPE_FDIV, VFwrite := 0, VFread0 := 0, VFr0xyzw := 0, VFread1 := ucast (vFt v),
      VFr1xyzw := fld_bit (vFtf v), VIwrite := rbit REG_Q, VIread := GET_VF0_FLAG (vFt v), rn_cycles := 7\<rparr>"
definition vuRegsRSQRT :: "VURegs \<Rightarrow> VURegsNum \<Rightarrow> VURegsNum" where
  "vuRegsRSQRT v n =
     n\<lparr>rn_pipe := VUPIPE_FDIV, VFwrite := 0, VFread0 := ucast (vFs v), VFr0xyzw := fld_bit (vFsf v),
      VFread1 := ucast (vFt v), VFr1xyzw := fld_bit (vFtf v), VIwrite := rbit REG_Q,
      VIread := GET_VF0_FLAG (vFs v) OR GET_VF0_FLAG (vFt v), rn_cycles := 13\<rparr>"
definition vuRegsIADDI :: "VURegs \<Rightarrow> VURegsNum \<Rightarrow> VURegsNum" where "vuRegsIADDI = VUREGS_ITIS"
definition vuRegsIADDIU :: "VURegs \<Rightarrow> VURegsNum \<Rightarrow> VURegsNum" where "vuRegsIADDIU = VUREGS_ITIS"
definition vuRegsIADD :: "VURegs \<Rightarrow> VURegsNum \<Rightarrow> VURegsNum" where "vuRegsIADD = VUREGS_IDISIT"
definition vuRegsIAND :: "VURegs \<Rightarrow> VURegsNum \<Rightarrow> VURegsNum" where "vuRegsIAND = VUREGS_IDISIT"
definition vuRegsIOR :: "VURegs \<Rightarrow> VURegsNum \<Rightarrow> VURegsNum" where "vuRegsIOR = VUREGS_IDISIT"
definition vuRegsISUB :: "VURegs \<Rightarrow> VURegsNum \<Rightarrow> VURegsNum" where "vuRegsISUB = VUREGS_IDISIT"
definition vuRegsISUBIU :: "VURegs \<Rightarrow> VURegsNum \<Rightarrow> VURegsNum" where "vuRegsISUBIU = VUREGS_ITIS"
definition vuRegsMOVE :: "VURegs \<Rightarrow> VURegsNum \<Rightarrow> VURegsNum" where
  "vuRegsMOVE v n =
     n\<lparr>rn_pipe := (if vFt v = 0 then VUPIPE_NONE else VUPIPE_FMAC), VFwrite := ucast (vFt v),
      VFwxyzw := ucast (vXYZW v), VFread0 := ucast (vFs v), VFr0xyzw := ucast (vXYZW v), VFread1 := 0, VFr1xyzw := 0,
      VIwrite := 0, VIread := (if vFt v \<noteq> 0 then GET_VF0_FLAG (vFs v) else 0)\<rparr>"
definition vuRegsMFIR :: "VURegs \<Rightarrow> VURegsNum \<Rightarrow> VURegsNum" where
  "vuRegsMFIR v n =
     n\<lparr>rn_pipe := VUPIPE_FMAC, VFwrite := ucast (vFt v), VFwxyzw := ucast (vXYZW v), VFread0 := 0, VFread1 := 0,
      VIwrite := 0, VIread := rbit (vIs v)\<rparr>"
definition vuRegsMTIR :: "VURegs \<Rightarrow> VURegsNum \<Rightarrow> VURegsNum" where
  "vuRegsMTIR v n =
     n\<lparr>rn_pipe := VUPIPE_FMAC, VFwrite := 0, VFread0 := ucast (vFs v), VFr0xyzw := fld_bit (vFsf v), VFread1 := 0,
      VIwrite := rbit (vIt v), VIread := GET_VF0_FLAG (vFs v)\<rparr>"
definition vuRegsMR32 :: "VURegs \<Rightarrow> VURegsNum \<Rightarrow> VURegsNum" where
  "vuRegsMR32 v n =
     n\<lparr>rn_pipe := VUPIPE_FMAC, VFwrite := ucast (vFt v), VFwxyzw := ucast (vXYZW v), VFread0 := ucast (vFs v),
      VFr0xyzw := ucast (drop_bit 1 (vXYZW v) OR (push_bit 3 (vXYZW v) AND 8)), VFread1 := 0, VFr1xyzw := 0xff,
      VIwrite := 0, VIread := (if vFt v \<noteq> 0 then GET_VF0_FLAG (vFs v) else 0)\<rparr>"
definition vuRegsLQ :: "VURegs \<Rightarrow> VURegsNum \<Rightarrow> VURegsNum" where
  "vuRegsLQ v n =
     n\<lparr>rn_pipe := VUPIPE_FMAC, VFwrite := ucast (vFt v), VFwxyzw := ucast (vXYZW v), VFread0 := 0, VFread1 := 0,
      VIwrite := 0, VIread := rbit (vIs v)\<rparr>"
definition vuRegsLQD :: "VURegs \<Rightarrow> VURegsNum \<Rightarrow> VURegsNum" where
  "vuRegsLQD v n =
     n\<lparr>rn_pipe := VUPIPE_FMAC, VFwrite := ucast (vFt v), VFwxyzw := ucast (vXYZW v), VFread0 := 0, VFread1 := 0,
      VIwrite := rbit (vIs v), VIread := rbit (vIs v)\<rparr>"
definition vuRegsLQI :: "VURegs \<Rightarrow> VURegsNum \<Rightarrow> VURegsNum" where
  "vuRegsLQI v n =
     n\<lparr>rn_pipe := VUPIPE_FMAC, VFwrite := ucast (vFt v), VFwxyzw := ucast (vXYZW v), VFread0 := 0, VFread1 := 0,
      VIwrite := rbit (vIs v), VIread := rbit (vIs v)\<rparr>"
definition vuRegsSQ :: "VURegs \<Rightarrow> VURegsNum \<Rightarrow> VURegsNum" where
  "vuRegsSQ v n =
     n\<lparr>rn_pipe := VUPIPE_FMAC, VFwrite := 0, VFread0 := ucast (vFs v), VFr0xyzw := ucast (vXYZW v), VFread1 := 0,
      VIwrite := 0, VIread := rbit (vIt v)\<rparr>"
definition vuRegsSQD :: "VURegs \<Rightarrow> VURegsNum \<Rightarrow> VURegsNum" where
  "vuRegsSQD v n =
     n\<lparr>rn_pipe := VUPIPE_FMAC, VFwrite := 0, VFread0 := ucast (vFs v), VFr0xyzw := ucast (vXYZW v), VFread1 := 0,
      VIwrite := rbit (vIt v), VIread := rbit (vIt v)\<rparr>"
definition vuRegsSQI :: "VURegs \<Rightarrow> VURegsNum \<Rightarrow> VURegsNum" where
  "vuRegsSQI v n =
     n\<lparr>rn_pipe := VUPIPE_FMAC, VFwrite := 0, VFread0 := ucast (vFs v), VFr0xyzw := ucast (vXYZW v), VFread1 := 0,
      VIwrite := rbit (vIt v), VIread := rbit (vIt v)\<rparr>"
definition vuRegsILW :: "VURegs \<Rightarrow> VURegsNum \<Rightarrow> VURegsNum" where
  "vuRegsILW v n =
     n\<lparr>rn_pipe := VUPIPE_IALU, VFwrite := 0, VFread0 := 0, VFread1 := 0, VIwrite := rbit (vIt v),
      VIread := rbit (vIs v), rn_cycles := 4\<rparr>"
definition vuRegsISW :: "VURegs \<Rightarrow> VURegsNum \<Rightarrow> VURegsNum" where
  "vuRegsISW v n =
     n\<lparr>rn_pipe := VUPIPE_IALU, VFwrite := 0, VFread0 := 0, VFread1 := 0, VIwrite := 0,
      VIread := rbit (vIs v) OR rbit (vIt v)\<rparr>"
definition vuRegsILWR :: "VURegs \<Rightarrow> VURegsNum \<Rightarrow> VURegsNum" where
  "vuRegsILWR v n =
     n\<lparr>rn_pipe := VUPIPE_IALU, VFwrite := 0, VFread0 := 0, VFread1 := 0, VIwrite := rbit (vIt v),
      VIread := rbit (vIs v), rn_cycles := 4\<rparr>"
definition vuRegsISWR :: "VURegs \<Rightarrow> VURegsNum \<Rightarrow> VURegsNum" where
  "vuRegsISWR v n =
     n\<lparr>rn_pipe := VUPIPE_IALU, VFwrite := 0, VFread0 := 0, VFread1 := 0, VIwrite := 0,
      VIread := rbit (vIs v) OR rbit (vIt v)\<rparr>"
definition vuRegsRINIT :: "VURegs \<Rightarrow> VURegsNum \<Rightarrow> VURegsNum" where
  "vuRegsRINIT v n =
     n\<lparr>rn_pipe := VUPIPE_FMAC, VFwrite := 0, VFread0 := ucast (vFs v), VFr0xyzw := fld_bit (vFsf v), VFread1 := 0,
      VIwrite := rbit REG_R, VIread := GET_VF0_FLAG (vFs v)\<rparr>"
definition vuRegsRGET :: "VURegs \<Rightarrow> VURegsNum \<Rightarrow> VURegsNum" where
  "vuRegsRGET v n =
     n\<lparr>rn_pipe := VUPIPE_FMAC, VFwrite := ucast (vFt v), VFwxyzw := ucast (vXYZW v), VFread0 := 0, VFread1 := 0,
      VIwrite := 0, VIread := rbit REG_R\<rparr>"
definition vuRegsRNEXT :: "VURegs \<Rightarrow> VURegsNum \<Rightarrow> VURegsNum" where
  "vuRegsRNEXT v n =
     n\<lparr>rn_pipe := VUPIPE_FMAC, VFwrite := ucast (vFt v), VFwxyzw := ucast (vXYZW v), VFread0 := 0, VFread1 := 0,
      VIwrite := rbit REG_R, VIread := rbit REG_R\<rparr>"
definition vuRegsRXOR :: "VURegs \<Rightarrow> VURegsNum \<Rightarrow> VURegsNum" where
  "vuRegsRXOR v n =
     n\<lparr>rn_pipe := VUPIPE_FMAC, VFwrite := 0, VFread0 := ucast (vFs v), VFr0xyzw := fld_bit (vFsf v), VFread1 := 0,
      VIwrite := rbit REG_R, VIread := rbit REG_R OR GET_VF0_FLAG (vFs v)\<rparr>"
definition vuRegsWAITQ :: "VURegs \<Rightarrow> VURegsNum \<Rightarrow> VURegsNum" where
  "vuRegsWAITQ v n =
     n\<lparr>rn_pipe := VUPIPE_FDIV, VFwrite := 0, VFread0 := 0, VFread1 := 0, VIwrite := 0, VIread := 0\<rparr>"
definition vuRegsFSAND :: "VURegs \<Rightarrow> VURegsNum \<Rightarrow> VURegsNum" where
  "vuRegsFSAND v n =
     n\<lparr>rn_pipe := VUPIPE_FMAC, VFwrite := 0, VFread0 := 0, VFread1 := 0, VIwrite := rbit (vIt v),
      VIread := rbit REG_STATUS_FLAG\<rparr>"
definition vuRegsFSEQ :: "VURegs \<Rightarrow> VURegsNum \<Rightarrow> VURegsNum" where
  "vuRegsFSEQ v n =
     n\<lparr>rn_pipe := VUPIPE_FMAC, VFwrite := 0, VFread0 := 0, VFread1 := 0, VIwrite := rbit (vIt v),
      VIread := rbit REG_STATUS_FLAG\<rparr>"
definition vuRegsFSOR :: "VURegs \<Rightarrow> VURegsNum \<Rightarrow> VURegsNum" where
  "vuRegsFSOR v n =
     n\<lparr>rn_pipe := VUPIPE_FMAC, VFwrite := 0, VFread0 := 0, VFread1 := 0, VIwrite := rbit (vIt v),
      VIread := rbit REG_STATUS_FLAG\<rparr>"
definition vuRegsFSSET :: "VURegs \<Rightarrow> VURegsNum \<Rightarrow> VURegsNum" where
  "vuRegsFSSET v n =
     n\<lparr>rn_pipe := VUPIPE_FMAC, VFwrite := 0, VFread0 := 0, VFread1 := 0, VIwrite := rbit REG_STATUS_FLAG, VIread := 0\<rparr>"
definition vuRegsFMAND :: "VURegs \<Rightarrow> VURegsNum \<Rightarrow> VURegsNum" where
  "vuRegsFMAND v n =
     n\<lparr>rn_pipe := VUPIPE_FMAC, VFwrite := 0, VFread0 := 0, VFread1 := 0, VIwrite := rbit (vIt v),
      VIread := rbit REG_MAC_FLAG OR rbit (vIs v)\<rparr>"
definition vuRegsFMEQ :: "VURegs \<Rightarrow> VURegsNum \<Rightarrow> VURegsNum" where
  "vuRegsFMEQ v n =
     n\<lparr>rn_pipe := VUPIPE_FMAC, VFwrite := 0, VFread0 := 0, VFread1 := 0, VIwrite := rbit (vIt v),
      VIread := rbit REG_MAC_FLAG OR rbit (vIs v)\<rparr>"
definition vuRegsFMOR :: "VURegs \<Rightarrow> VURegsNum \<Rightarrow> VURegsNum" where
  "vuRegsFMOR v n =
     n\<lparr>rn_pipe := VUPIPE_FMAC, VFwrite := 0, VFread0 := 0, VFread1 := 0, VIwrite := rbit (vIt v),
      VIread := rbit REG_MAC_FLAG OR rbit (vIs v)\<rparr>"
definition vuRegsFCAND :: "VURegs \<Rightarrow> VURegsNum \<Rightarrow> VURegsNum" where
  "vuRegsFCAND v n =
     n\<lparr>rn_pipe := VUPIPE_FMAC, VFwrite := 0, VFread0 := 0, VFread1 := 0, VIwrite := rbit 1,
      VIread := rbit REG_CLIP_FLAG\<rparr>"
definition vuRegsFCEQ :: "VURegs \<Rightarrow> VURegsNum \<Rightarrow> VURegsNum" where
  "vuRegsFCEQ v n =
     n\<lparr>rn_pipe := VUPIPE_FMAC, VFwrite := 0, VFread0 := 0, VFread1 := 0, VIwrite := rbit 1,
      VIread := rbit REG_CLIP_FLAG\<rparr>"
definition vuRegsFCOR :: "VURegs \<Rightarrow> VURegsNum \<Rightarrow> VURegsNum" where
  "vuRegsFCOR v n =
     n\<lparr>rn_pipe := VUPIPE_FMAC, VFwrite := 0, VFread0 := 0, VFread1 := 0, VIwrite := rbit 1,
      VIread := rbit REG_CLIP_FLAG\<rparr>"
definition vuRegsFCSET :: "VURegs \<Rightarrow> VURegsNum \<Rightarrow> VURegsNum" where
  "vuRegsFCSET v n =
     n\<lparr>rn_pipe := VUPIPE_FMAC, VFwrite := 0, VFread0 := 0, VFread1 := 0, VIwrite := rbit REG_CLIP_FLAG, VIread := 0\<rparr>"
definition vuRegsFCGET :: "VURegs \<Rightarrow> VURegsNum \<Rightarrow> VURegsNum" where
  "vuRegsFCGET v n =
     n\<lparr>rn_pipe := VUPIPE_FMAC, VFwrite := 0, VFread0 := 0, VFread1 := 0, VIwrite := rbit (vIt v),
      VIread := rbit REG_CLIP_FLAG\<rparr>"
definition vuRegsIBEQ :: "VURegs \<Rightarrow> VURegsNum \<Rightarrow> VURegsNum" where
  "vuRegsIBEQ v n =
     n\<lparr>rn_pipe := VUPIPE_BRANCH, VFwrite := 0, VFread0 := 0, VFread1 := 0, VIwrite := 0,
      VIread := rbit (vIs v) OR rbit (vIt v)\<rparr>"
definition vuRegsIBGEZ :: "VURegs \<Rightarrow> VURegsNum \<Rightarrow> VURegsNum" where
  "vuRegsIBGEZ v n =
     n\<lparr>rn_pipe := VUPIPE_BRANCH, VFwrite := 0, VFread0 := 0, VFread1 := 0, VIwrite := 0, VIread := rbit (vIs v)\<rparr>"
definition vuRegsIBGTZ :: "VURegs \<Rightarrow> VURegsNum \<Rightarrow> VURegsNum" where
  "vuRegsIBGTZ v n =
     n\<lparr>rn_pipe := VUPIPE_BRANCH, VFwrite := 0, VFread0 := 0, VFread1 := 0, VIwrite := 0, VIread := rbit (vIs v)\<rparr>"
definition vuRegsIBLEZ :: "VURegs \<Rightarrow> VURegsNum \<Rightarrow> VURegsNum" where
  "vuRegsIBLEZ v n =
     n\<lparr>rn_pipe := VUPIPE_BRANCH, VFwrite := 0, VFread0 := 0, VFread1 := 0, VIwrite := 0, VIread := rbit (vIs v)\<rparr>"
definition vuRegsIBLTZ :: "VURegs \<Rightarrow> VURegsNum \<Rightarrow> VURegsNum" where
  "vuRegsIBLTZ v n =
     n\<lparr>rn_pipe := VUPIPE_BRANCH, VFwrite := 0, VFread0 := 0, VFread1 := 0, VIwrite := 0, VIread := rbit (vIs v)\<rparr>"
definition vuRegsIBNE :: "VURegs \<Rightarrow> VURegsNum \<Rightarrow> VURegsNum" where
  "vuRegsIBNE v n =
     n\<lparr>rn_pipe := VUPIPE_BRANCH, VFwrite := 0, VFread0 := 0, VFread1 := 0, VIwrite := 0,
      VIread := rbit (vIs v) OR rbit (vIt v)\<rparr>"
definition vuRegsB :: "VURegs \<Rightarrow> VURegsNum \<Rightarrow> VURegsNum" where
  "vuRegsB v n =
     n\<lparr>rn_pipe := VUPIPE_BRANCH, VFwrite := 0, VFread0 := 0, VFread1 := 0, VIwrite := 0, VIread := 0\<rparr>"
definition vuRegsBAL :: "VURegs \<Rightarrow> VURegsNum \<Rightarrow> VURegsNum" where
  "vuRegsBAL v n =
     n\<lparr>rn_pipe := VUPIPE_BRANCH, VFwrite := 0, VFread0 := 0, VFread1 := 0, VIwrite := rbit (vIt v), VIread := 0\<rparr>"
definition vuRegsJR :: "VURegs \<Rightarrow> VURegsNum \<Rightarrow> VURegsNum" where
  "vuRegsJR v n =
     n\<lparr>rn_pipe := VUPIPE_BRANCH, VFwrite := 0, VFread0 := 0, VFread1 := 0, VIwrite := 0, VIread := rbit (vIs v)\<rparr>"
definition vuRegsJALR :: "VURegs \<Rightarrow> VURegsNum \<Rightarrow> VURegsNum" where
  "vuRegsJALR v n =
     n\<lparr>rn_pipe := VUPIPE_BRANCH, VFwrite := 0, VFread0 := 0, VFread1 := 0, VIwrite := rbit (vIt v),
      VIread := rbit (vIs v)\<rparr>"
definition vuRegsMFP :: "VURegs \<Rightarrow> VURegsNum \<Rightarrow> VURegsNum" where
  "vuRegsMFP v n =
     n\<lparr>rn_pipe := VUPIPE_FMAC, VFwrite := ucast (vFt v), VFwxyzw := ucast (vXYZW v), VFread0 := 0, VFread1 := 0,
      VIwrite := 0, VIread := rbit REG_P\<rparr>"
definition vuRegsWAITP :: "VURegs \<Rightarrow> VURegsNum \<Rightarrow> VURegsNum" where
  "vuRegsWAITP v n =
     n\<lparr>rn_pipe := VUPIPE_EFU, VFwrite := 0, VFread0 := 0, VFread1 := 0, VIwrite := 0, VIread := 0, rn_cycles := 0\<rparr>"
definition vuRegsESADD :: "VURegs \<Rightarrow> VURegsNum \<Rightarrow> VURegsNum" where "vuRegsESADD = VUREGS_PFS_xyzw 11"
definition vuRegsERSADD :: "VURegs \<Rightarrow> VURegsNum \<Rightarrow> VURegsNum" where "vuRegsERSADD = VUREGS_PFS_xyzw 18"
definition vuRegsELENG :: "VURegs \<Rightarrow> VURegsNum \<Rightarrow> VURegsNum" where "vuRegsELENG = VUREGS_PFS_xyzw 18"
definition vuRegsERLENG :: "VURegs \<Rightarrow> VURegsNum \<Rightarrow> VURegsNum" where "vuRegsERLENG = VUREGS_PFS_xyzw 24"
definition vuRegsEATANxy :: "VURegs \<Rightarrow> VURegsNum \<Rightarrow> VURegsNum" where "vuRegsEATANxy = VUREGS_PFS_xyzw 54"
definition vuRegsEATANxz :: "VURegs \<Rightarrow> VURegsNum \<Rightarrow> VURegsNum" where "vuRegsEATANxz = VUREGS_PFS_xyzw 54"
definition vuRegsESUM :: "VURegs \<Rightarrow> VURegsNum \<Rightarrow> VURegsNum" where "vuRegsESUM = VUREGS_PFS_xyzw 12"
definition vuRegsERCPR :: "VURegs \<Rightarrow> VURegsNum \<Rightarrow> VURegsNum" where "vuRegsERCPR = VUREGS_PFS_fsf 12"
definition vuRegsESQRT :: "VURegs \<Rightarrow> VURegsNum \<Rightarrow> VURegsNum" where "vuRegsESQRT = VUREGS_PFS_fsf 12"
definition vuRegsERSQRT :: "VURegs \<Rightarrow> VURegsNum \<Rightarrow> VURegsNum" where "vuRegsERSQRT = VUREGS_PFS_fsf 18"
definition vuRegsESIN :: "VURegs \<Rightarrow> VURegsNum \<Rightarrow> VURegsNum" where "vuRegsESIN = VUREGS_PFS_fsf 29"
definition vuRegsEATAN :: "VURegs \<Rightarrow> VURegsNum \<Rightarrow> VURegsNum" where "vuRegsEATAN = VUREGS_PFS_fsf 54"
definition vuRegsEEXP :: "VURegs \<Rightarrow> VURegsNum \<Rightarrow> VURegsNum" where "vuRegsEEXP = VUREGS_PFS_fsf 44"
definition vuRegsXITOP :: "VURegs \<Rightarrow> VURegsNum \<Rightarrow> VURegsNum" where
  "vuRegsXITOP v n =
     n\<lparr>rn_pipe := VUPIPE_IALU, VFwrite := 0, VFread0 := 0, VFread1 := 0, VIwrite := rbit (vIt v), VIread := 0,
      rn_cycles := 0\<rparr>"
definition vuRegsXGKICK :: "VURegs \<Rightarrow> VURegsNum \<Rightarrow> VURegsNum" where
  "vuRegsXGKICK v n =
     n\<lparr>rn_pipe := VUPIPE_XGKICK, VFwrite := 0, VFread0 := 0, VFread1 := 0, VIwrite := 0, VIread := rbit (vIs v)\<rparr>"
definition vuRegsXTOP :: "VURegs \<Rightarrow> VURegsNum \<Rightarrow> VURegsNum" where
  "vuRegsXTOP v n =
     n\<lparr>rn_pipe := VUPIPE_IALU, VFwrite := 0, VFread0 := 0, VFread1 := 0, VIwrite := rbit (vIt v), VIread := 0,
      rn_cycles := 0\<rparr>"

end
