(* ===== verification/Vu_Upper.thy ===== *)
theory Vu_Upper
  imports Vu_Regs
begin

text \<open>
  The upper instructions of the vector units (pcsx2/VUops.cpp): the multiply-add family with
  its result flags, minimum and maximum, conversions and the clipping test.

  Most of them are one formula for the four lanes, taken in the order x, y, z, w; each lane sees
  the lanes written before it, as in the source, where the destination may be an operand.
\<close>

unbundle bit_operations_syntax

section \<open>Operands and results\<close>

definition vuDouble :: "vu_host \<Rightarrow> u32 \<Rightarrow> u32" where
  "vuDouble h f =
     (if f AND 0x7f800000 = 0 then f AND 0x80000000
      else if f AND 0x7f800000 = 0x7f800000 \<and> CHECK_VU_OVERFLOW h then (f AND 0x80000000) OR 0x7f7fffff
      else f)"

definition vuADD_TriAceHack :: "vu_host \<Rightarrow> u32 \<Rightarrow> u32 \<Rightarrow> u32" where
  "vuADD_TriAceHack h a b =
     (let aExp = int (unat (drop_bit 23 a AND 0xff));
          bExp = int (unat (drop_bit 23 b AND 0xff));
          b1 = (if aExp - bExp \<ge> 25 then b AND 0x80000000 else b);
          a1 = (if aExp - bExp \<le> -25 then a AND 0x80000000 else a)
      in f_add h (vuDouble h a1) (vuDouble h b1))"

text \<open>The operands: a lane of \<open>_Fs_\<close>, of \<open>_Ft_\<close>, of the accumulator, and the registers I and Q.\<close>

definition VDs :: "vu_host \<Rightarrow> VURegs \<Rightarrow> vlane \<Rightarrow> u32" where "VDs h s l = vuDouble h (VF s (vFs s) l)"
definition VDt :: "vu_host \<Rightarrow> VURegs \<Rightarrow> vlane \<Rightarrow> u32" where "VDt h s l = vuDouble h (VF s (vFt s) l)"
definition VDacc :: "vu_host \<Rightarrow> VURegs \<Rightarrow> vlane \<Rightarrow> u32" where "VDacc h s l = vuDouble h (VACC s l)"
definition VDi :: "vu_host \<Rightarrow> VURegs \<Rightarrow> u32" where "VDi h s = vuDouble h (VI s REG_I)"
definition VDq :: "vu_host \<Rightarrow> VURegs \<Rightarrow> u32" where "VDq h s = vuDouble h (VI s REG_Q)"

text \<open>A store to \<open>dst\<close>: with \<open>_Fd_\<close> 0 it goes to a dummy register that nothing reads.\<close>

definition wDst :: "vlane \<Rightarrow> u32 \<Rightarrow> VURegs \<Rightarrow> VURegs" where
  "wDst l v s = (if vFd s = 0 then s else wVF (vFd s) l v s)"

text \<open>One lane of a multiply-add instruction, and the four of them.\<close>

definition fmac_lane :: "vu_host \<Rightarrow> (vlane \<Rightarrow> u32 \<Rightarrow> VURegs \<Rightarrow> VURegs) \<Rightarrow> (vlane \<Rightarrow> VURegs \<Rightarrow> u32) \<Rightarrow> vlane \<Rightarrow>
    VURegs \<Rightarrow> VURegs" where
  "fmac_lane h w f l s =
     (if has_lane l s then (case VU_MAC_UPDATE h (lane_shift l) (f l s) s of (v, s1) \<Rightarrow> w l v s1)
      else VU_MAC_CLEAR (lane_shift l) s)"

definition fmac :: "vu_host \<Rightarrow> (vlane \<Rightarrow> u32 \<Rightarrow> VURegs \<Rightarrow> VURegs) \<Rightarrow> (vlane \<Rightarrow> VURegs \<Rightarrow> u32) \<Rightarrow> VURegs \<Rightarrow> VURegs" where
  "fmac h w f s =
     VU_STAT_UPDATE (fmac_lane h w f LW (fmac_lane h w f LZ (fmac_lane h w f LY (fmac_lane h w f LX s))))"

text \<open>Instructions that write the selected lanes of a register and no flags.\<close>

definition vlane_to :: "reg \<Rightarrow> (vlane \<Rightarrow> VURegs \<Rightarrow> u32) \<Rightarrow> vlane \<Rightarrow> VURegs \<Rightarrow> VURegs" where
  "vlane_to r f l s = (if has_lane l s then wVF r l (f l s) s else s)"
definition vlanes :: "reg \<Rightarrow> (vlane \<Rightarrow> VURegs \<Rightarrow> u32) \<Rightarrow> VURegs \<Rightarrow> VURegs" where
  "vlanes r f s = vlane_to r f LW (vlane_to r f LZ (vlane_to r f LY (vlane_to r f LX s)))"
definition vlanes_Fd :: "(vlane \<Rightarrow> VURegs \<Rightarrow> u32) \<Rightarrow> VURegs \<Rightarrow> VURegs" where
  "vlanes_Fd f s = (if vFd s = 0 then s else vlanes (vFd s) f s)"
definition vlanes_Ft :: "(vlane \<Rightarrow> VURegs \<Rightarrow> u32) \<Rightarrow> VURegs \<Rightarrow> VURegs" where
  "vlanes_Ft f s = (if vFt s = 0 then s else vlanes (vFt s) f s)"

section \<open>Addition, subtraction, multiplication\<close>

definition vuABS :: "vu_host \<Rightarrow> VURegs \<Rightarrow> VURegs" where
  "vuABS h s = vlanes_Ft (\<lambda>l s. VDs h s l AND 0x7fffffff) s"

definition vuADDi :: "vu_host \<Rightarrow> VURegs \<Rightarrow> VURegs" where
  "vuADDi h s =
     (if \<not> CHECK_VUADDSUBHACK h then fmac h wDst (\<lambda>l s. f_add h (VDs h s l) (VDi h s)) s
      else fmac h wDst (\<lambda>l s. vuADD_TriAceHack h (VF s (vFs s) l) (VI s REG_I)) s)"

definition vuADD :: "vu_host \<Rightarrow> VURegs \<Rightarrow> VURegs" where
  "vuADD h s = fmac h wDst (\<lambda>l s. f_add h (VDs h s l) (VDt h s l)) s"
definition vuADDq :: "vu_host \<Rightarrow> VURegs \<Rightarrow> VURegs" where
  "vuADDq h s = fmac h wDst (\<lambda>l s. f_add h (VDs h s l) (VDq h s)) s"
definition vuADDx :: "vu_host \<Rightarrow> VURegs \<Rightarrow> VURegs" where
  "vuADDx h s = (let ftx = VDt h s LX in fmac h wDst (\<lambda>l s. f_add h (VDs h s l) ftx) s)"
definition vuADDy :: "vu_host \<Rightarrow> VURegs \<Rightarrow> VURegs" where
  "vuADDy h s = (let fty = VDt h s LY in fmac h wDst (\<lambda>l s. f_add h (VDs h s l) fty) s)"
definition vuADDz :: "vu_host \<Rightarrow> VURegs \<Rightarrow> VURegs" where
  "vuADDz h s = (let ftz = VDt h s LZ in fmac h wDst (\<lambda>l s. f_add h (VDs h s l) ftz) s)"
definition vuADDw :: "vu_host \<Rightarrow> VURegs \<Rightarrow> VURegs" where
  "vuADDw h s = (let ftw = VDt h s LW in fmac h wDst (\<lambda>l s. f_add h (VDs h s l) ftw) s)"
definition vuADDA :: "vu_host \<Rightarrow> VURegs \<Rightarrow> VURegs" where
  "vuADDA h s = fmac h wACC (\<lambda>l s. f_add h (VDs h s l) (VDt h s l)) s"
definition vuADDAi :: "vu_host \<Rightarrow> VURegs \<Rightarrow> VURegs" where
  "vuADDAi h s = (let ti = VDi h s in fmac h wACC (\<lambda>l s. f_add h (VDs h s l) ti) s)"
definition vuADDAq :: "vu_host \<Rightarrow> VURegs \<Rightarrow> VURegs" where
  "vuADDAq h s = (let tf = VDq h s in fmac h wACC (\<lambda>l s. f_add h (VDs h s l) tf) s)"
definition vuADDAx :: "vu_host \<Rightarrow> VURegs \<Rightarrow> VURegs" where
  "vuADDAx h s = (let tx = VDt h s LX in fmac h wACC (\<lambda>l s. f_add h (VDs h s l) tx) s)"
definition vuADDAy :: "vu_host \<Rightarrow> VURegs \<Rightarrow> VURegs" where
  "vuADDAy h s = (let ty = VDt h s LY in fmac h wACC (\<lambda>l s. f_add h (VDs h s l) ty) s)"
definition vuADDAz :: "vu_host \<Rightarrow> VURegs \<Rightarrow> VURegs" where
  "vuADDAz h s = (let tz = VDt h s LZ in fmac h wACC (\<lambda>l s. f_add h (VDs h s l) tz) s)"
definition vuADDAw :: "vu_host \<Rightarrow> VURegs \<Rightarrow> VURegs" where
  "vuADDAw h s = (let tw = VDt h s LW in fmac h wACC (\<lambda>l s. f_add h (VDs h s l) tw) s)"
definition vuSUB :: "vu_host \<Rightarrow> VURegs \<Rightarrow> VURegs" where
  "vuSUB h s = fmac h wDst (\<lambda>l s. f_sub h (VDs h s l) (VDt h s l)) s"
definition vuSUBi :: "vu_host \<Rightarrow> VURegs \<Rightarrow> VURegs" where
  "vuSUBi h s = fmac h wDst (\<lambda>l s. f_sub h (VDs h s l) (VDi h s)) s"
definition vuSUBq :: "vu_host \<Rightarrow> VURegs \<Rightarrow> VURegs" where
  "vuSUBq h s = fmac h wDst (\<lambda>l s. f_sub h (VDs h s l) (VDq h s)) s"
definition vuSUBx :: "vu_host \<Rightarrow> VURegs \<Rightarrow> VURegs" where
  "vuSUBx h s = (let ftx = VDt h s LX in fmac h wDst (\<lambda>l s. f_sub h (VDs h s l) ftx) s)"
definition vuSUBy :: "vu_host \<Rightarrow> VURegs \<Rightarrow> VURegs" where
  "vuSUBy h s = (let fty = VDt h s LY in fmac h wDst (\<lambda>l s. f_sub h (VDs h s l) fty) s)"
definition vuSUBz :: "vu_host \<Rightarrow> VURegs \<Rightarrow> VURegs" where
  "vuSUBz h s = (let ftz = VDt h s LZ in fmac h wDst (\<lambda>l s. f_sub h (VDs h s l) ftz) s)"
definition vuSUBw :: "vu_host \<Rightarrow> VURegs \<Rightarrow> VURegs" where
  "vuSUBw h s = (let ftw = VDt h s LW in fmac h wDst (\<lambda>l s. f_sub h (VDs h s l) ftw) s)"
definition vuSUBA :: "vu_host \<Rightarrow> VURegs \<Rightarrow> VURegs" where
  "vuSUBA h s = fmac h wACC (\<lambda>l s. f_sub h (VDs h s l) (VDt h s l)) s"
definition vuSUBAi :: "vu_host \<Rightarrow> VURegs \<Rightarrow> VURegs" where
  "vuSUBAi h s = fmac h wACC (\<lambda>l s. f_sub h (VDs h s l) (VDi h s)) s"
definition vuSUBAq :: "vu_host \<Rightarrow> VURegs \<Rightarrow> VURegs" where
  "vuSUBAq h s = fmac h wACC (\<lambda>l s. f_sub h (VDs h s l) (VDq h s)) s"
definition vuSUBAx :: "vu_host \<Rightarrow> VURegs \<Rightarrow> VURegs" where
  "vuSUBAx h s = (let tx = VDt h s LX in fmac h wACC (\<lambda>l s. f_sub h (VDs h s l) tx) s)"
definition vuSUBAy :: "vu_host \<Rightarrow> VURegs \<Rightarrow> VURegs" where
  "vuSUBAy h s = (let ty = VDt h s LY in fmac h wACC (\<lambda>l s. f_sub h (VDs h s l) ty) s)"
definition vuSUBAz :: "vu_host \<Rightarrow> VURegs \<Rightarrow> VURegs" where
  "vuSUBAz h s = (let tz = VDt h s LZ in fmac h wACC (\<lambda>l s. f_sub h (VDs h s l) tz) s)"
definition vuSUBAw :: "vu_host \<Rightarrow> VURegs \<Rightarrow> VURegs" where
  "vuSUBAw h s = (let tw = VDt h s LW in fmac h wACC (\<lambda>l s. f_sub h (VDs h s l) tw) s)"
definition vuMUL :: "vu_host \<Rightarrow> VURegs \<Rightarrow> VURegs" where
  "vuMUL h s = fmac h wDst (\<lambda>l s. f_mul h (VDs h s l) (VDt h s l)) s"
definition vuMULi :: "vu_host \<Rightarrow> VURegs \<Rightarrow> VURegs" where
  "vuMULi h s = fmac h wDst (\<lambda>l s. f_mul h (VDs h s l) (VDi h s)) s"
definition vuMULq :: "vu_host \<Rightarrow> VURegs \<Rightarrow> VURegs" where
  "vuMULq h s = fmac h wDst (\<lambda>l s. f_mul h (VDs h s l) (VDq h s)) s"
definition vuMULx :: "vu_host \<Rightarrow> VURegs \<Rightarrow> VURegs" where
  "vuMULx h s = (let ftx = VDt h s LX in fmac h wDst (\<lambda>l s. f_mul h (VDs h s l) ftx) s)"
definition vuMULy :: "vu_host \<Rightarrow> VURegs \<Rightarrow> VURegs" where
  "vuMULy h s = (let fty = VDt h s LY in fmac h wDst (\<lambda>l s. f_mul h (VDs h s l) fty) s)"
definition vuMULz :: "vu_host \<Rightarrow> VURegs \<Rightarrow> VURegs" where
  "vuMULz h s = (let ftz = VDt h s LZ in fmac h wDst (\<lambda>l s. f_mul h (VDs h s l) ftz) s)"
definition vuMULw :: "vu_host \<Rightarrow> VURegs \<Rightarrow> VURegs" where
  "vuMULw h s = (let ftw = VDt h s LW in fmac h wDst (\<lambda>l s. f_mul h (VDs h s l) ftw) s)"
definition vuMULA :: "vu_host \<Rightarrow> VURegs \<Rightarrow> VURegs" where
  "vuMULA h s = fmac h wACC (\<lambda>l s. f_mul h (VDs h s l) (VDt h s l)) s"
definition vuMULAi :: "vu_host \<Rightarrow> VURegs \<Rightarrow> VURegs" where
  "vuMULAi h s = fmac h wACC (\<lambda>l s. f_mul h (VDs h s l) (VDi h s)) s"
definition vuMULAq :: "vu_host \<Rightarrow> VURegs \<Rightarrow> VURegs" where
  "vuMULAq h s = fmac h wACC (\<lambda>l s. f_mul h (VDs h s l) (VDq h s)) s"
definition vuMULAx :: "vu_host \<Rightarrow> VURegs \<Rightarrow> VURegs" where
  "vuMULAx h s = fmac h wACC (\<lambda>l s. f_mul h (VDs h s l) (VDt h s LX)) s"
definition vuMULAy :: "vu_host \<Rightarrow> VURegs \<Rightarrow> VURegs" where
  "vuMULAy h s = fmac h wACC (\<lambda>l s. f_mul h (VDs h s l) (VDt h s LY)) s"
definition vuMULAz :: "vu_host \<Rightarrow> VURegs \<Rightarrow> VURegs" where
  "vuMULAz h s = fmac h wACC (\<lambda>l s. f_mul h (VDs h s l) (VDt h s LZ)) s"
definition vuMULAw :: "vu_host \<Rightarrow> VURegs \<Rightarrow> VURegs" where
  "vuMULAw h s = fmac h wACC (\<lambda>l s. f_mul h (VDs h s l) (VDt h s LW)) s"
definition vuMADD :: "vu_host \<Rightarrow> VURegs \<Rightarrow> VURegs" where
  "vuMADD h s = fmac h wDst (\<lambda>l s. f_add h (VDacc h s l) (f_mul h (VDs h s l) (VDt h s l))) s"
definition vuMADDi :: "vu_host \<Rightarrow> VURegs \<Rightarrow> VURegs" where
  "vuMADDi h s = fmac h wDst (\<lambda>l s. f_add h (VDacc h s l) (f_mul h (VDs h s l) (VDi h s))) s"
definition vuMADDq :: "vu_host \<Rightarrow> VURegs \<Rightarrow> VURegs" where
  "vuMADDq h s = fmac h wDst (\<lambda>l s. f_add h (VDacc h s l) (f_mul h (VDs h s l) (VDq h s))) s"
definition vuMADDx :: "vu_host \<Rightarrow> VURegs \<Rightarrow> VURegs" where
  "vuMADDx h s = (let ftx = VDt h s LX in fmac h wDst (\<lambda>l s. f_add h (VDacc h s l) (f_mul h (VDs h s l) ftx)) s)"
definition vuMADDy :: "vu_host \<Rightarrow> VURegs \<Rightarrow> VURegs" where
  "vuMADDy h s = (let fty = VDt h s LY in fmac h wDst (\<lambda>l s. f_add h (VDacc h s l) (f_mul h (VDs h s l) fty)) s)"
definition vuMADDz :: "vu_host \<Rightarrow> VURegs \<Rightarrow> VURegs" where
  "vuMADDz h s = (let ftz = VDt h s LZ in fmac h wDst (\<lambda>l s. f_add h (VDacc h s l) (f_mul h (VDs h s l) ftz)) s)"
definition vuMADDw :: "vu_host \<Rightarrow> VURegs \<Rightarrow> VURegs" where
  "vuMADDw h s = (let ftw = VDt h s LW in fmac h wDst (\<lambda>l s. f_add h (VDacc h s l) (f_mul h (VDs h s l) ftw)) s)"
definition vuMADDA :: "vu_host \<Rightarrow> VURegs \<Rightarrow> VURegs" where
  "vuMADDA h s = fmac h wACC (\<lambda>l s. f_add h (VDacc h s l) (f_mul h (VDs h s l) (VDt h s l))) s"
definition vuMADDAi :: "vu_host \<Rightarrow> VURegs \<Rightarrow> VURegs" where
  "vuMADDAi h s = (let ti = VDi h s in fmac h wACC (\<lambda>l s. f_add h (VDacc h s l) (f_mul h (VDs h s l) ti)) s)"
definition vuMADDAq :: "vu_host \<Rightarrow> VURegs \<Rightarrow> VURegs" where
  "vuMADDAq h s = (let tq = VDq h s in fmac h wACC (\<lambda>l s. f_add h (VDacc h s l) (f_mul h (VDs h s l) tq)) s)"
definition vuMADDAx :: "vu_host \<Rightarrow> VURegs \<Rightarrow> VURegs" where
  "vuMADDAx h s = fmac h wACC (\<lambda>l s. f_add h (VDacc h s l) (f_mul h (VDs h s l) (VDt h s LX))) s"
definition vuMADDAy :: "vu_host \<Rightarrow> VURegs \<Rightarrow> VURegs" where
  "vuMADDAy h s = fmac h wACC (\<lambda>l s. f_add h (VDacc h s l) (f_mul h (VDs h s l) (VDt h s LY))) s"
definition vuMADDAz :: "vu_host \<Rightarrow> VURegs \<Rightarrow> VURegs" where
  "vuMADDAz h s = fmac h wACC (\<lambda>l s. f_add h (VDacc h s l) (f_mul h (VDs h s l) (VDt h s LZ))) s"
definition vuMADDAw :: "vu_host \<Rightarrow> VURegs \<Rightarrow> VURegs" where
  "vuMADDAw h s = fmac h wACC (\<lambda>l s. f_add h (VDacc h s l) (f_mul h (VDs h s l) (VDt h s LW))) s"
definition vuMSUB :: "vu_host \<Rightarrow> VURegs \<Rightarrow> VURegs" where
  "vuMSUB h s = fmac h wDst (\<lambda>l s. f_sub h (VDacc h s l) (f_mul h (VDs h s l) (VDt h s l))) s"
definition vuMSUBi :: "vu_host \<Rightarrow> VURegs \<Rightarrow> VURegs" where
  "vuMSUBi h s = (let ti = VDi h s in fmac h wDst (\<lambda>l s. f_sub h (VDacc h s l) (f_mul h (VDs h s l) ti)) s)"
definition vuMSUBq :: "vu_host \<Rightarrow> VURegs \<Rightarrow> VURegs" where
  "vuMSUBq h s = (let tq = VDq h s in fmac h wDst (\<lambda>l s. f_sub h (VDacc h s l) (f_mul h (VDs h s l) tq)) s)"
definition vuMSUBx :: "vu_host \<Rightarrow> VURegs \<Rightarrow> VURegs" where
  "vuMSUBx h s = (let ftx = VDt h s LX in fmac h wDst (\<lambda>l s. f_sub h (VDacc h s l) (f_mul h (VDs h s l) ftx)) s)"
definition vuMSUBy :: "vu_host \<Rightarrow> VURegs \<Rightarrow> VURegs" where
  "vuMSUBy h s = (let fty = VDt h s LY in fmac h wDst (\<lambda>l s. f_sub h (VDacc h s l) (f_mul h (VDs h s l) fty)) s)"
definition vuMSUBz :: "vu_host \<Rightarrow> VURegs \<Rightarrow> VURegs" where
  "vuMSUBz h s = (let ftz = VDt h s LZ in fmac h wDst (\<lambda>l s. f_sub h (VDacc h s l) (f_mul h (VDs h s l) ftz)) s)"
definition vuMSUBw :: "vu_host \<Rightarrow> VURegs \<Rightarrow> VURegs" where
  "vuMSUBw h s = (let ftw = VDt h s LW in fmac h wDst (\<lambda>l s. f_sub h (VDacc h s l) (f_mul h (VDs h s l) ftw)) s)"
definition vuMSUBA :: "vu_host \<Rightarrow> VURegs \<Rightarrow> VURegs" where
  "vuMSUBA h s = fmac h wACC (\<lambda>l s. f_sub h (VDacc h s l) (f_mul h (VDs h s l) (VDt h s l))) s"
definition vuMSUBAi :: "vu_host \<Rightarrow> VURegs \<Rightarrow> VURegs" where
  "vuMSUBAi h s = fmac h wACC (\<lambda>l s. f_sub h (VDacc h s l) (f_mul h (VDs h s l) (VDi h s))) s"
definition vuMSUBAq :: "vu_host \<Rightarrow> VURegs \<Rightarrow> VURegs" where
  "vuMSUBAq h s = fmac h wACC (\<lambda>l s. f_sub h (VDacc h s l) (f_mul h (VDs h s l) (VDq h s))) s"
definition vuMSUBAx :: "vu_host \<Rightarrow> VURegs \<Rightarrow> VURegs" where
  "vuMSUBAx h s = (let tx = VDt h s LX in fmac h wACC (\<lambda>l s. f_sub h (VDacc h s l) (f_mul h (VDs h s l) tx)) s)"
definition vuMSUBAy :: "vu_host \<Rightarrow> VURegs \<Rightarrow> VURegs" where
  "vuMSUBAy h s = (let ty = VDt h s LY in fmac h wACC (\<lambda>l s. f_sub h (VDacc h s l) (f_mul h (VDs h s l) ty)) s)"
definition vuMSUBAz :: "vu_host \<Rightarrow> VURegs \<Rightarrow> VURegs" where
  "vuMSUBAz h s = (let tz = VDt h s LZ in fmac h wACC (\<lambda>l s. f_sub h (VDacc h s l) (f_mul h (VDs h s l) tz)) s)"
definition vuMSUBAw :: "vu_host \<Rightarrow> VURegs \<Rightarrow> VURegs" where
  "vuMSUBAw h s = (let tw = VDt h s LW in fmac h wACC (\<lambda>l s. f_sub h (VDacc h s l) (f_mul h (VDs h s l) tw)) s)"

section \<open>Minimum and maximum\<close>

text \<open>On the integers: with two negative numbers the order is reversed.\<close>

definition fp_max :: "u32 \<Rightarrow> u32 \<Rightarrow> u32" where
  "fp_max a b =
     (if a <s 0 \<and> b <s 0 then (if b <s a then b else a) else (if a <s b then b else a))"
definition fp_min :: "u32 \<Rightarrow> u32 \<Rightarrow> u32" where
  "fp_min a b =
     (if a <s 0 \<and> b <s 0 then (if a <s b then b else a) else (if b <s a then b else a))"

definition vuMAX :: "VURegs \<Rightarrow> VURegs" where
  "vuMAX s = vlanes_Fd (\<lambda>l s. fp_max (VF s (vFs s) l) (VF s (vFt s) l)) s"
definition vuMAXi :: "VURegs \<Rightarrow> VURegs" where
  "vuMAXi s = vlanes_Fd (\<lambda>l s. fp_max (VF s (vFs s) l) (VI s REG_I)) s"
definition vuMAXx :: "VURegs \<Rightarrow> VURegs" where
  "vuMAXx s = (let ftx = VF s (vFt s) LX in vlanes_Fd (\<lambda>l s. fp_max (VF s (vFs s) l) ftx) s)"
definition vuMAXy :: "VURegs \<Rightarrow> VURegs" where
  "vuMAXy s = (let fty = VF s (vFt s) LY in vlanes_Fd (\<lambda>l s. fp_max (VF s (vFs s) l) fty) s)"
definition vuMAXz :: "VURegs \<Rightarrow> VURegs" where
  "vuMAXz s = (let ftz = VF s (vFt s) LZ in vlanes_Fd (\<lambda>l s. fp_max (VF s (vFs s) l) ftz) s)"
definition vuMAXw :: "VURegs \<Rightarrow> VURegs" where
  "vuMAXw s = (let ftw = VF s (vFt s) LW in vlanes_Fd (\<lambda>l s. fp_max (VF s (vFs s) l) ftw) s)"
definition vuMINI :: "VURegs \<Rightarrow> VURegs" where
  "vuMINI s = vlanes_Fd (\<lambda>l s. fp_min (VF s (vFs s) l) (VF s (vFt s) l)) s"
definition vuMINIi :: "VURegs \<Rightarrow> VURegs" where
  "vuMINIi s = vlanes_Fd (\<lambda>l s. fp_min (VF s (vFs s) l) (VI s REG_I)) s"
definition vuMINIx :: "VURegs \<Rightarrow> VURegs" where
  "vuMINIx s = (let ftx = VF s (vFt s) LX in vlanes_Fd (\<lambda>l s. fp_min (VF s (vFs s) l) ftx) s)"
definition vuMINIy :: "VURegs \<Rightarrow> VURegs" where
  "vuMINIy s = (let fty = VF s (vFt s) LY in vlanes_Fd (\<lambda>l s. fp_min (VF s (vFs s) l) fty) s)"
definition vuMINIz :: "VURegs \<Rightarrow> VURegs" where
  "vuMINIz s = (let ftz = VF s (vFt s) LZ in vlanes_Fd (\<lambda>l s. fp_min (VF s (vFs s) l) ftz) s)"
definition vuMINIw :: "VURegs \<Rightarrow> VURegs" where
  "vuMINIw s = (let ftw = VF s (vFt s) LW in vlanes_Fd (\<lambda>l s. fp_min (VF s (vFs s) l) ftw) s)"

section \<open>Outer product\<close>

definition fmac_write :: "vu_host \<Rightarrow> (vlane \<Rightarrow> u32 \<Rightarrow> VURegs \<Rightarrow> VURegs) \<Rightarrow> vlane \<Rightarrow> u32 \<Rightarrow> VURegs \<Rightarrow> VURegs" where
  "fmac_write h w l v s = (case VU_MAC_UPDATE h (lane_shift l) v s of (v1, s1) \<Rightarrow> w l v1 s1)"

definition vuOPMULA :: "vu_host \<Rightarrow> VURegs \<Rightarrow> VURegs" where
  "vuOPMULA h s =
     (let s1 = fmac_write h wACC LX (f_mul h (VDs h s LY) (VDt h s LZ)) s;
          s2 = fmac_write h wACC LY (f_mul h (VDs h s1 LZ) (VDt h s1 LX)) s1;
          s3 = fmac_write h wACC LZ (f_mul h (VDs h s2 LX) (VDt h s2 LY)) s2
      in VU_STAT_UPDATE s3)"

definition vuOPMSUB :: "vu_host \<Rightarrow> VURegs \<Rightarrow> VURegs" where
  "vuOPMSUB h s =
     (let ftx = VDt h s LX; fty = VDt h s LY; ftz = VDt h s LZ;
          fsx = VDs h s LX; fsy = VDs h s LY; fsz = VDs h s LZ;
          s1 = fmac_write h wDst LX (f_sub h (VDacc h s LX) (f_mul h fsy ftz)) s;
          s2 = fmac_write h wDst LY (f_sub h (VDacc h s1 LY) (f_mul h fsz ftx)) s1;
          s3 = fmac_write h wDst LZ (f_sub h (VDacc h s2 LZ) (f_mul h fsx fty)) s2
      in VU_STAT_UPDATE s3)"

definition vuNOP :: "VURegs \<Rightarrow> VURegs" where "vuNOP s = s"

section \<open>Conversions\<close>

definition float_to_int :: "vu_host \<Rightarrow> u32 \<Rightarrow> u32" where
  "float_to_int h v =
     (if d_le h 0x41DFFFFFFFC00000 (d_of_f h v) then 0x7FFFFFFF
      else if d_le h (d_of_f h v) 0xC1E0000000000000 then 0x80000000
      else f_to_s32 h v)"

text \<open>The factors: 16 and 4096 in single precision, 32768 in double precision.\<close>

definition float_to_int4 :: "vu_host \<Rightarrow> u32 \<Rightarrow> u32" where "float_to_int4 h x = f_mul h x 0x41800000"
definition float_to_int12 :: "vu_host \<Rightarrow> u32 \<Rightarrow> u32" where "float_to_int12 h x = f_mul h x 0x45800000"
definition float_to_int15 :: "vu_host \<Rightarrow> u32 \<Rightarrow> u32" where
  "float_to_int15 h x = f_of_d h (d_mul h (d_of_f h x) 0x40E0000000000000)"
definition int4_to_float :: "vu_host \<Rightarrow> u32 \<Rightarrow> u32" where "int4_to_float h x = f_mul h (s32_to_f h x) 0x3D800000"
definition int12_to_float :: "vu_host \<Rightarrow> u32 \<Rightarrow> u32" where "int12_to_float h x = f_mul h (s32_to_f h x) 0x39800000"
definition int15_to_float :: "vu_host \<Rightarrow> u32 \<Rightarrow> u32" where
  "int15_to_float h x = f_of_d h (d_mul h (d_of_f h (s32_to_f h x)) 0x3F00000000000000)"

definition vuFTOI0 :: "vu_host \<Rightarrow> VURegs \<Rightarrow> VURegs" where
  "vuFTOI0 h s = vlanes_Ft (\<lambda>l s. float_to_int h (VDs h s l)) s"
definition vuFTOI4 :: "vu_host \<Rightarrow> VURegs \<Rightarrow> VURegs" where
  "vuFTOI4 h s = vlanes_Ft (\<lambda>l s. float_to_int h (float_to_int4 h (VDs h s l))) s"
definition vuFTOI12 :: "vu_host \<Rightarrow> VURegs \<Rightarrow> VURegs" where
  "vuFTOI12 h s = vlanes_Ft (\<lambda>l s. float_to_int h (float_to_int12 h (VDs h s l))) s"
definition vuFTOI15 :: "vu_host \<Rightarrow> VURegs \<Rightarrow> VURegs" where
  "vuFTOI15 h s = vlanes_Ft (\<lambda>l s. float_to_int h (float_to_int15 h (VDs h s l))) s"
definition vuITOF0 :: "vu_host \<Rightarrow> VURegs \<Rightarrow> VURegs" where
  "vuITOF0 h s = vlanes_Ft (\<lambda>l s. s32_to_f h (VF s (vFs s) l)) s"
definition vuITOF4 :: "vu_host \<Rightarrow> VURegs \<Rightarrow> VURegs" where
  "vuITOF4 h s = vlanes_Ft (\<lambda>l s. int4_to_float h (VF s (vFs s) l)) s"
definition vuITOF12 :: "vu_host \<Rightarrow> VURegs \<Rightarrow> VURegs" where
  "vuITOF12 h s = vlanes_Ft (\<lambda>l s. int12_to_float h (VF s (vFs s) l)) s"
definition vuITOF15 :: "vu_host \<Rightarrow> VURegs \<Rightarrow> VURegs" where
  "vuITOF15 h s = vlanes_Ft (\<lambda>l s. int15_to_float h (VF s (vFs s) l)) s"

section \<open>Clipping\<close>

definition clip_test :: "vu_host \<Rightarrow> u32 \<Rightarrow> u32 \<Rightarrow> u32 \<Rightarrow> VURegs \<Rightarrow> VURegs" where
  "clip_test h value x b s =
     (let s1 = (if f_lt h value x then s\<lparr>vclipflag := vclipflag s OR b\<rparr> else s)
      in if f_lt h x (value XOR 0x80000000) then s1\<lparr>vclipflag := vclipflag s1 OR push_bit 1 b\<rparr> else s1)"

definition vuCLIP :: "vu_host \<Rightarrow> VURegs \<Rightarrow> VURegs" where
  "vuCLIP h s =
     (let value = VDt h s LW AND 0x7fffffff;
          s1 = s\<lparr>vclipflag := push_bit 6 (vclipflag s)\<rparr>;
          s2 = clip_test h value (VDs h s LX) 0x01 s1;
          s3 = clip_test h value (VDs h s LY) 0x04 s2;
          s4 = clip_test h value (VDs h s LZ) 0x10 s3
      in s4\<lparr>vclipflag := vclipflag s4 AND 0xFFFFFF\<rparr>)"

end
