(* ===== verification/Vu_Lower.thy ===== *)
theory Vu_Lower
  imports Vu_Upper
begin

text \<open>
  The lower instructions of the vector units (pcsx2/VUops.cpp): division and square root, the
  integer registers, loads and stores, the random number register, flag tests, branches, the
  elementary functions, and the transfer to the graphics interface.

  The first unit reaches the registers of the second as memory, so loads and stores work on both
  units.  Parameters are the graphics interface and the VIF registers of the second unit's own
  thread.
\<close>

unbundle bit_operations_syntax

section \<open>Both units\<close>

datatype vu_idx = VU0 | VU1

record vu_sys = ee_io +
  vuRegs :: "vu_idx \<Rightarrow> VURegs"

abbreviation on_vu :: "vu_idx \<Rightarrow> (VURegs \<Rightarrow> VURegs) \<Rightarrow> 'a vu_sys_scheme \<Rightarrow> 'a vu_sys_scheme" where
  "on_vu i f s \<equiv> s\<lparr>vuRegs := (vuRegs s)(i := f (vuRegs s i))\<rparr>"

text \<open>
  \<open>GetGSPacketSize\<close> and \<open>TransferGSPacketData\<close> are the calls of the graphics interface, with the
  address in the second unit's memory.  \<open>stack_uregs\<close> and \<open>stack_lregs\<close> are what the uninitialised
  locals of the interpreter hold before the functions that say what an instruction reads and writes
  fill them in.  The \<open>mtvu\<close> fields are the calls of the second unit's own thread.  \<open>vu_fuel\<close> bounds
  the loops over a transfer and over the instructions of a program; \<open>None\<close> is a loop that has not
  ended within it.
\<close>

record 's vu_env =
  vu_host_of :: vu_host
  THREAD_VU1 :: bool
  INSTANT_VU1 :: bool
  mtvu_itop :: "'s \<Rightarrow> u32"
  mtvu_top :: "'s \<Rightarrow> u32"
  GetGSPacketSize :: "u32 \<Rightarrow> bool \<Rightarrow> 's \<Rightarrow> u32 \<times> 's"
  TransferGSPacketData :: "u32 \<Rightarrow> u32 \<Rightarrow> 's \<Rightarrow> 's"
  stack_uregs :: VURegsNum
  stack_lregs :: VURegsNum
  mtvu_WaitVU :: "'s \<Rightarrow> 's"
  mtvu_Get_Changes :: "'s \<Rightarrow> 's"
  mtvu_ExecuteVU :: "u32 \<Rightarrow> u32 \<Rightarrow> u32 \<Rightarrow> u32 \<Rightarrow> 's \<Rightarrow> 's"
  vu_fuel :: nat

section \<open>Division\<close>

abbreviation wstat :: "u32 \<Rightarrow> VURegs \<Rightarrow> VURegs" where "wstat v s \<equiv> s\<lparr>vstatusflag := v\<rparr>"

definition vuFtUL :: "VURegs \<Rightarrow> u32" where "vuFtUL s = VF s (vFt s) (lane_of (vFtf s))"
definition vuFsUL :: "VURegs \<Rightarrow> u32" where "vuFsUL s = VF s (vFs s) (lane_of (vFsf s))"

text \<open>The signs of the operands differ.\<close>

definition signs_differ :: "VURegs \<Rightarrow> bool" where
  "signs_differ s \<longleftrightarrow> (vuFtUL s AND 0x80000000) XOR (vuFsUL s AND 0x80000000) \<noteq> 0"

definition vuDIV :: "vu_host \<Rightarrow> VURegs \<Rightarrow> VURegs" where
  "vuDIV h s =
     (let ft = vuDouble h (vuFtUL s);
          fs = vuDouble h (vuFsUL s);
          s1 = wstat (vstatusflag s AND NOT 0x30) s
      in if f_eq h ft 0
         then (let s2 = (if f_eq h fs 0 then wstat (vstatusflag s1 OR 0x10) s1 else wstat (vstatusflag s1 OR 0x20) s1)
               in s2\<lparr>vq := if signs_differ s2 then 0xFF7FFFFF else 0x7F7FFFFF\<rparr>)
         else s1\<lparr>vq := vuDouble h (f_div h fs ft)\<rparr>)"

definition vuSQRT :: "vu_host \<Rightarrow> VURegs \<Rightarrow> VURegs" where
  "vuSQRT h s =
     (let ft = vuDouble h (vuFtUL s);
          s1 = wstat (vstatusflag s AND NOT 0x30) s;
          s2 = (if f_lt h ft 0 then wstat (vstatusflag s1 OR 0x10) s1 else s1)
      in s2\<lparr>vq := vuDouble h (f_sqrt h (ft AND 0x7fffffff))\<rparr>)"

definition vuRSQRT :: "vu_host \<Rightarrow> VURegs \<Rightarrow> VURegs" where
  "vuRSQRT h s =
     (let ft = vuDouble h (vuFtUL s);
          fs = vuDouble h (vuFsUL s);
          s1 = wstat (vstatusflag s AND NOT 0x30) s
      in if f_eq h ft 0
         then (let s2 = wstat (vstatusflag s1 OR 0x20) s1
               in if \<not> f_eq h fs 0 then s2\<lparr>vq := if signs_differ s2 then 0xFF7FFFFF else 0x7F7FFFFF\<rparr>
                  else (let s3 = s2\<lparr>vq := if signs_differ s2 then 0x80000000 else 0\<rparr> in wstat (vstatusflag s3 OR 0x10) s3))
         else (let s2 = (if f_lt h ft 0 then wstat (vstatusflag s1 OR 0x10) s1 else s1)
               in s2\<lparr>vq := vuDouble h (f_div h fs (f_sqrt h (ft AND 0x7fffffff)))\<rparr>))"

section \<open>Integer registers\<close>

definition imm5 :: "VURegs \<Rightarrow> u16" where
  "imm5 s = (let imm = ucast (drop_bit 6 (vcode s) AND 0x1f) :: u16
             in (if imm AND 0x10 \<noteq> 0 then 0xfff0 else 0) OR (imm AND 0xf))"
definition imm15 :: "VURegs \<Rightarrow> u16" where
  "imm15 s = ucast ((drop_bit 10 (vcode s) AND 0x7800) OR (vcode s AND 0x7ff))"

text \<open>The guard on register 0, the backup for branches, and the write.\<close>

definition wVIb :: "reg \<Rightarrow> u16 \<Rightarrow> VURegs \<Rightarrow> VURegs" where
  "wVIb r v s = (if r = 0 then s else wVI16 r v (vuBackupVI r s))"

definition vuIADDI :: "VURegs \<Rightarrow> VURegs" where "vuIADDI s = wVIb (vIt s) (VI16 s (vIs s) + imm5 s) s"
definition vuIADDIU :: "VURegs \<Rightarrow> VURegs" where "vuIADDIU s = wVIb (vIt s) (VI16 s (vIs s) + imm15 s) s"
definition vuIADD :: "VURegs \<Rightarrow> VURegs" where "vuIADD s = wVIb (vId s) (VI16 s (vIs s) + VI16 s (vIt s)) s"
definition vuIAND :: "VURegs \<Rightarrow> VURegs" where "vuIAND s = wVIb (vId s) (VI16 s (vIs s) AND VI16 s (vIt s)) s"
definition vuIOR :: "VURegs \<Rightarrow> VURegs" where "vuIOR s = wVIb (vId s) (VI16 s (vIs s) OR VI16 s (vIt s)) s"
definition vuISUB :: "VURegs \<Rightarrow> VURegs" where "vuISUB s = wVIb (vId s) (VI16 s (vIs s) - VI16 s (vIt s)) s"
definition vuISUBIU :: "VURegs \<Rightarrow> VURegs" where "vuISUBIU s = wVIb (vIt s) (VI16 s (vIs s) - imm15 s) s"

definition vuMOVE :: "VURegs \<Rightarrow> VURegs" where "vuMOVE s = vlanes_Ft (\<lambda>l s. VF s (vFs s) l) s"
definition vuMFIR :: "VURegs \<Rightarrow> VURegs" where "vuMFIR s = vlanes_Ft (\<lambda>l s. scast (VI16 s (vIs s))) s"
definition vuMTIR :: "VURegs \<Rightarrow> VURegs" where "vuMTIR s = wVIb (vIt s) (ucast (vuFsUL s)) s"

definition vuMR32 :: "VURegs \<Rightarrow> VURegs" where
  "vuMR32 s =
     (let tx = VF s (vFs s) LX
      in vlanes_Ft (\<lambda>l s. case l of LX \<Rightarrow> VF s (vFs s) LY | LY \<Rightarrow> VF s (vFs s) LZ | LZ \<Rightarrow> VF s (vFs s) LW | LW \<Rightarrow> tx) s)"

section \<open>Memory\<close>

text \<open>A pointer of \<open>GET_VU_MEM\<close>: into a unit's memory, or into the registers of the second unit.\<close>

datatype vu_ptr = VuMem vu_idx u32 | Vu1Regs u32

definition GET_VU_MEM :: "vu_idx \<Rightarrow> u32 \<Rightarrow> vu_ptr" where
  "GET_VU_MEM i addr =
     (if i = VU1 then VuMem VU1 (addr AND 0x3fff)
      else if addr AND 0x4000 \<noteq> 0 then Vu1Regs (addr AND 0x3ff)
      else VuMem VU0 (addr AND 0xfff))"

text \<open>The 256 words of the register file: 32 vector registers, 32 padded integer registers.\<close>

definition reg_word :: "u32 \<Rightarrow> VURegs \<Rightarrow> u32" where
  "reg_word n v =
     (let r = ucast (drop_bit 2 n) :: reg; l = lane_of (n AND 3)
      in if n < 128 then VF v r l else if l = LX then VI v r else VIpad v r l)"
definition set_reg_word :: "u32 \<Rightarrow> u32 \<Rightarrow> VURegs \<Rightarrow> VURegs" where
  "set_reg_word n x v =
     (let r = ucast (drop_bit 2 n) :: reg; l = lane_of (n AND 3)
      in if n < 128 then wVF r l x v else if l = LX then wVI r x v
         else v\<lparr>VIpad := (VIpad v)(r := (VIpad v r)(l := x))\<rparr>)"

text \<open>\<open>ptr[k]\<close> and a store to it.\<close>

fun vu_word :: "vu_ptr \<Rightarrow> u32 \<Rightarrow> 'a vu_sys_scheme \<Rightarrow> u32" where
  "vu_word (VuMem i a) k s = load_le 4 (vMem (vuRegs s i)) (a + 4 * k)"
| "vu_word (Vu1Regs off) k s = reg_word (drop_bit 2 off + k) (vuRegs s VU1)"

fun set_vu_word :: "vu_ptr \<Rightarrow> u32 \<Rightarrow> u32 \<Rightarrow> 'a vu_sys_scheme \<Rightarrow> 'a vu_sys_scheme" where
  "set_vu_word (VuMem i a) k v s = on_vu i (\<lambda>r. r\<lparr>vMem := store_le 4 (vMem r) (a + 4 * k) v\<rparr>) s"
| "set_vu_word (Vu1Regs off) k v s = on_vu VU1 (set_reg_word (drop_bit 2 off + k) v) s"

fun lane_no :: "vlane \<Rightarrow> u32" where
  "lane_no LX = 0" | "lane_no LY = 1" | "lane_no LZ = 2" | "lane_no LW = 3"

definition imm_addr :: "reg \<Rightarrow> VURegs \<Rightarrow> u32" where
  "imm_addr r s =
     (let imm = ucast (if vcode s AND 0x400 \<noteq> 0 then (vcode s AND 0x3ff) OR 0xfc00 else vcode s AND 0x3ff) :: u16
      in ucast ((imm + VI16 s r) * 16))"
definition reg_addr :: "reg \<Rightarrow> VURegs \<Rightarrow> u32" where
  "reg_addr r s = ucast (VI16 s r) * 16"

text \<open>The selected lanes of \<open>_Ft_\<close> from memory, and of \<open>_Fs_\<close> to memory.\<close>

definition vu_load_Ft :: "vu_idx \<Rightarrow> u32 \<Rightarrow> 'a vu_sys_scheme \<Rightarrow> 'a vu_sys_scheme" where
  "vu_load_Ft i addr s = on_vu i (vlanes (vFt (vuRegs s i)) (\<lambda>l _. vu_word (GET_VU_MEM i addr) (lane_no l) s)) s"

definition vu_store_lane :: "vu_idx \<Rightarrow> vu_ptr \<Rightarrow> (vlane \<Rightarrow> VURegs \<Rightarrow> u32) \<Rightarrow> vlane \<Rightarrow> 'a vu_sys_scheme \<Rightarrow> 'a vu_sys_scheme" where
  "vu_store_lane i p f l s = (if has_lane l (vuRegs s i) then set_vu_word p (lane_no l) (f l (vuRegs s i)) s else s)"
definition vu_store_lanes :: "vu_idx \<Rightarrow> u32 \<Rightarrow> (vlane \<Rightarrow> VURegs \<Rightarrow> u32) \<Rightarrow> 'a vu_sys_scheme \<Rightarrow> 'a vu_sys_scheme" where
  "vu_store_lanes i addr f s =
     (let p = GET_VU_MEM i addr
      in vu_store_lane i p f LW (vu_store_lane i p f LZ (vu_store_lane i p f LY (vu_store_lane i p f LX s))))"
definition vu_store_Fs :: "vu_idx \<Rightarrow> u32 \<Rightarrow> 'a vu_sys_scheme \<Rightarrow> 'a vu_sys_scheme" where
  "vu_store_Fs i addr s = vu_store_lanes i addr (\<lambda>l v. VF v (vFs v) l) s"

definition vuLQ :: "vu_idx \<Rightarrow> 'a vu_sys_scheme \<Rightarrow> 'a vu_sys_scheme" where
  "vuLQ i s = (if vFt (vuRegs s i) = 0 then s else vu_load_Ft i (imm_addr (vIs (vuRegs s i)) (vuRegs s i)) s)"

definition vuLQD :: "vu_idx \<Rightarrow> 'a vu_sys_scheme \<Rightarrow> 'a vu_sys_scheme" where
  "vuLQD i s =
     (let is = vIs (vuRegs s i);
          s1 = on_vu i (vuBackupVI is) s;
          s2 = (if is \<noteq> 0 then on_vu i (\<lambda>v. wVI16 is (VI16 v is - 1) v) s1 else s1)
      in if vFt (vuRegs s i) = 0 then s2 else vu_load_Ft i (reg_addr is (vuRegs s2 i)) s2)"

definition vuLQI :: "vu_idx \<Rightarrow> 'a vu_sys_scheme \<Rightarrow> 'a vu_sys_scheme" where
  "vuLQI i s =
     (let is = vIs (vuRegs s i);
          s1 = on_vu i (vuBackupVI is) s;
          s2 = (if vFt (vuRegs s i) \<noteq> 0 then vu_load_Ft i (reg_addr is (vuRegs s1 i)) s1 else s1)
      in if vFs (vuRegs s i) \<noteq> 0 then on_vu i (\<lambda>v. wVI16 is (VI16 v is + 1) v) s2 else s2)"

definition vuSQ :: "vu_idx \<Rightarrow> 'a vu_sys_scheme \<Rightarrow> 'a vu_sys_scheme" where
  "vuSQ i s = vu_store_Fs i (imm_addr (vIt (vuRegs s i)) (vuRegs s i)) s"

definition vuSQD :: "vu_idx \<Rightarrow> 'a vu_sys_scheme \<Rightarrow> 'a vu_sys_scheme" where
  "vuSQD i s =
     (let it = vIt (vuRegs s i);
          s1 = on_vu i (vuBackupVI it) s;
          s2 = (if vFt (vuRegs s i) \<noteq> 0 then on_vu i (\<lambda>v. wVI16 it (VI16 v it - 1) v) s1 else s1)
      in vu_store_Fs i (reg_addr it (vuRegs s2 i)) s2)"

definition vuSQI :: "vu_idx \<Rightarrow> 'a vu_sys_scheme \<Rightarrow> 'a vu_sys_scheme" where
  "vuSQI i s =
     (let it = vIt (vuRegs s i);
          s1 = on_vu i (vuBackupVI it) s;
          s2 = vu_store_Fs i (reg_addr it (vuRegs s1 i)) s1
      in if vFt (vuRegs s i) \<noteq> 0 then on_vu i (\<lambda>v. wVI16 it (VI16 v it + 1) v) s2 else s2)"

text \<open>\<open>ptr[0]\<close>, \<open>ptr[2]\<close>, ... of half words are the low halves of the words.\<close>

definition vu_load_It :: "vu_idx \<Rightarrow> u32 \<Rightarrow> 'a vu_sys_scheme \<Rightarrow> 'a vu_sys_scheme" where
  "vu_load_It i addr s =
     (let p = GET_VU_MEM i addr;
          ld = (\<lambda>l v. if has_lane l v then wVI16 (vIt v) (ucast (vu_word p (lane_no l) s)) v else v)
      in on_vu i (\<lambda>v. ld LW (ld LZ (ld LY (ld LX v)))) s)"

definition vuILW :: "vu_idx \<Rightarrow> 'a vu_sys_scheme \<Rightarrow> 'a vu_sys_scheme" where
  "vuILW i s = (if vIt (vuRegs s i) = 0 then s else vu_load_It i (imm_addr (vIs (vuRegs s i)) (vuRegs s i)) s)"
definition vuISW :: "vu_idx \<Rightarrow> 'a vu_sys_scheme \<Rightarrow> 'a vu_sys_scheme" where
  "vuISW i s = vu_store_lanes i (imm_addr (vIs (vuRegs s i)) (vuRegs s i)) (\<lambda>l v. ucast (VI16 v (vIt v))) s"
definition vuILWR :: "vu_idx \<Rightarrow> 'a vu_sys_scheme \<Rightarrow> 'a vu_sys_scheme" where
  "vuILWR i s = (if vIt (vuRegs s i) = 0 then s else vu_load_It i (reg_addr (vIs (vuRegs s i)) (vuRegs s i)) s)"
definition vuISWR :: "vu_idx \<Rightarrow> 'a vu_sys_scheme \<Rightarrow> 'a vu_sys_scheme" where
  "vuISWR i s = vu_store_lanes i (reg_addr (vIs (vuRegs s i)) (vuRegs s i)) (\<lambda>l v. ucast (VI16 v (vIt v))) s"

section \<open>Random numbers\<close>

definition AdvanceLFSR :: "VURegs \<Rightarrow> VURegs" where
  "AdvanceLFSR s =
     (let x = drop_bit 4 (VI s REG_R) AND 1;
          y = drop_bit 22 (VI s REG_R) AND 1;
          r = push_bit 1 (VI s REG_R) XOR (x XOR y)
      in wVI REG_R ((r AND 0x7fffff) OR 0x3f800000) s)"

definition vuRINIT :: "VURegs \<Rightarrow> VURegs" where
  "vuRINIT s = wVI REG_R (0x3F800000 OR (vuFsUL s AND 0x007FFFFF)) s"
definition vuRGET :: "VURegs \<Rightarrow> VURegs" where "vuRGET s = vlanes_Ft (\<lambda>l s. VI s REG_R) s"
definition vuRNEXT :: "VURegs \<Rightarrow> VURegs" where
  "vuRNEXT s = (if vFt s = 0 then s else vlanes (vFt s) (\<lambda>l s. VI s REG_R) (AdvanceLFSR s))"
definition vuRXOR :: "VURegs \<Rightarrow> VURegs" where
  "vuRXOR s = wVI REG_R (0x3F800000 OR ((VI s REG_R XOR vuFsUL s) AND 0x007FFFFF)) s"

definition vuWAITQ :: "VURegs \<Rightarrow> VURegs" where "vuWAITQ s = s"

section \<open>Flag tests\<close>

definition imm12 :: "VURegs \<Rightarrow> u16" where
  "imm12 s = ucast (push_bit 11 (drop_bit 21 (vcode s) AND 0x1) OR (vcode s AND 0x7ff))"

text \<open>A write of \<open>_It_\<close> without backup.\<close>

definition wIt :: "u16 \<Rightarrow> VURegs \<Rightarrow> VURegs" where "wIt v s = (if vIt s = 0 then s else wVI16 (vIt s) v s)"

definition vuFSAND :: "VURegs \<Rightarrow> VURegs" where "vuFSAND s = wIt ((VI16 s REG_STATUS_FLAG AND 0xFFF) AND imm12 s) s"
definition vuFSEQ :: "VURegs \<Rightarrow> VURegs" where
  "vuFSEQ s = wIt (if VI16 s REG_STATUS_FLAG AND 0xFFF = imm12 s then 1 else 0) s"
definition vuFSOR :: "VURegs \<Rightarrow> VURegs" where "vuFSOR s = wIt ((VI16 s REG_STATUS_FLAG AND 0xFFF) OR imm12 s) s"
definition vuFSSET :: "VURegs \<Rightarrow> VURegs" where
  "vuFSSET s = wstat ((ucast (imm12 s) AND 0xFC0) OR (vstatusflag s AND 0x3F)) s"
definition vuFMAND :: "VURegs \<Rightarrow> VURegs" where "vuFMAND s = wIt (VI16 s (vIs s) AND VI16 s REG_MAC_FLAG) s"
definition vuFMEQ :: "VURegs \<Rightarrow> VURegs" where
  "vuFMEQ s = wIt (if VI16 s REG_MAC_FLAG = VI16 s (vIs s) then 1 else 0) s"
definition vuFMOR :: "VURegs \<Rightarrow> VURegs" where "vuFMOR s = wIt (VI16 s REG_MAC_FLAG OR VI16 s (vIs s)) s"
definition vuFCAND :: "VURegs \<Rightarrow> VURegs" where
  "vuFCAND s = wVI16 1 (if (VI s REG_CLIP_FLAG AND 0xFFFFFF) AND (vcode s AND 0xFFFFFF) \<noteq> 0 then 1 else 0) s"
definition vuFCEQ :: "VURegs \<Rightarrow> VURegs" where
  "vuFCEQ s = wVI16 1 (if VI s REG_CLIP_FLAG AND 0xFFFFFF = vcode s AND 0xFFFFFF then 1 else 0) s"
definition vuFCOR :: "VURegs \<Rightarrow> VURegs" where
  "vuFCOR s = wVI16 1 (if (VI s REG_CLIP_FLAG AND 0xFFFFFF) OR (vcode s AND 0xFFFFFF) = 0xFFFFFF then 1 else 0) s"
definition vuFCSET :: "VURegs \<Rightarrow> VURegs" where "vuFCSET s = s\<lparr>vclipflag := vcode s AND 0xFFFFFF\<rparr>"
definition vuFCGET :: "VURegs \<Rightarrow> VURegs" where "vuFCGET s = wIt (ucast (VI s REG_CLIP_FLAG AND 0x0FFF)) s"

section \<open>Branches\<close>

definition vuBranchAddr :: "vu_idx \<Rightarrow> VURegs \<Rightarrow> u32" where
  "vuBranchAddr i s = (VI s REG_TPC + vImm11 s * 8) AND (if i = VU1 then 0x3fff else 0x0fff)"

definition setBranch :: "u32 \<Rightarrow> VURegs \<Rightarrow> VURegs" where
  "setBranch bpc s =
     (if vbranch s = 1 then s\<lparr>vdelaybranchpc := bpc, vtakedelaybranch := True\<rparr> else s\<lparr>vbranch := 2, vbranchpc := bpc\<rparr>)"

text \<open>An operand of a branch: the value before the write of the last cycles, if there was one.\<close>

definition branch_VI :: "reg \<Rightarrow> VURegs \<Rightarrow> u16" where
  "branch_VI r s = (if VIBackupCycles s > 0 \<and> VIRegNumber s = ucast r then ucast (VIOldValue s) else VI16 s r)"

definition branch_if :: "bool \<Rightarrow> vu_idx \<Rightarrow> VURegs \<Rightarrow> VURegs" where
  "branch_if c i s = (if c then setBranch (vuBranchAddr i s) s else s)"

definition vuIBEQ :: "vu_idx \<Rightarrow> VURegs \<Rightarrow> VURegs" where "vuIBEQ i s = branch_if (branch_VI (vIt s) s = branch_VI (vIs s) s) i s"
definition vuIBGEZ :: "vu_idx \<Rightarrow> VURegs \<Rightarrow> VURegs" where "vuIBGEZ i s = branch_if (0 <=s branch_VI (vIs s) s) i s"
definition vuIBGTZ :: "vu_idx \<Rightarrow> VURegs \<Rightarrow> VURegs" where "vuIBGTZ i s = branch_if (0 <s branch_VI (vIs s) s) i s"
definition vuIBLEZ :: "vu_idx \<Rightarrow> VURegs \<Rightarrow> VURegs" where "vuIBLEZ i s = branch_if (branch_VI (vIs s) s <=s 0) i s"
definition vuIBLTZ :: "vu_idx \<Rightarrow> VURegs \<Rightarrow> VURegs" where "vuIBLTZ i s = branch_if (branch_VI (vIs s) s <s 0) i s"
definition vuIBNE :: "vu_idx \<Rightarrow> VURegs \<Rightarrow> VURegs" where "vuIBNE i s = branch_if (branch_VI (vIt s) s \<noteq> branch_VI (vIs s) s) i s"
definition vuB :: "vu_idx \<Rightarrow> VURegs \<Rightarrow> VURegs" where "vuB i s = setBranch (vuBranchAddr i s) s"

text \<open>The link: behind the delay slot, or behind the first instruction of the target of the branch in front.\<close>

definition vu_link :: "VURegs \<Rightarrow> VURegs" where
  "vu_link s = wIt (ucast (((if vbranch s = 1 then vbranchpc s else VI s REG_TPC) + 8) div 8)) s"

definition vuBAL :: "vu_idx \<Rightarrow> VURegs \<Rightarrow> VURegs" where "vuBAL i s = setBranch (vuBranchAddr i s) (vu_link s)"
definition vuJR :: "VURegs \<Rightarrow> VURegs" where "vuJR s = setBranch (ucast (VI16 s (vIs s)) * 8) s"
definition vuJALR :: "VURegs \<Rightarrow> VURegs" where "vuJALR s = setBranch (ucast (VI16 s (vIs s)) * 8) (vu_link s)"

section \<open>Elementary functions\<close>

abbreviation wp :: "u32 \<Rightarrow> VURegs \<Rightarrow> VURegs" where "wp v s \<equiv> s\<lparr>vp := v\<rparr>"

definition vuMFP :: "VURegs \<Rightarrow> VURegs" where "vuMFP s = vlanes_Ft (\<lambda>l s. VI s REG_P) s"
definition vuWAITP :: "VURegs \<Rightarrow> VURegs" where "vuWAITP s = s"

definition sum_squares :: "vu_host \<Rightarrow> VURegs \<Rightarrow> u32" where
  "sum_squares h s =
     f_add h (f_add h (f_mul h (VDs h s LX) (VDs h s LX)) (f_mul h (VDs h s LY) (VDs h s LY))) (f_mul h (VDs h s LZ) (VDs h s LZ))"

definition vuESADD :: "vu_host \<Rightarrow> VURegs \<Rightarrow> VURegs" where "vuESADD h s = wp (sum_squares h s) s"
definition vuERSADD :: "vu_host \<Rightarrow> VURegs \<Rightarrow> VURegs" where
  "vuERSADD h s = (let p = sum_squares h s in wp (if \<not> f_eq h p 0 then f_div h 0x3F800000 p else p) s)"
definition vuELENG :: "vu_host \<Rightarrow> VURegs \<Rightarrow> VURegs" where
  "vuELENG h s = (let p = sum_squares h s in wp (if f_le h 0 p then f_sqrt h p else p) s)"

definition rsqrt_or_sqrt :: "vu_host \<Rightarrow> u32 \<Rightarrow> u32" where
  "rsqrt_or_sqrt h p =
     (if f_le h 0 p then (let q = f_sqrt h p in if \<not> f_eq h q 0 then f_div h 0x3F800000 q else q) else p)"

definition vuERLENG :: "vu_host \<Rightarrow> VURegs \<Rightarrow> VURegs" where "vuERLENG h s = wp (rsqrt_or_sqrt h (sum_squares h s)) s"

text \<open>A polynomial: the first term in single precision, the others added in double precision.\<close>

definition poly_terms :: "vu_host \<Rightarrow> u32 \<Rightarrow> (u32 \<times> nat) list \<Rightarrow> u32 \<Rightarrow> u32" where
  "poly_terms h first cs x =
     f_of_d h (fold (\<lambda>(c, n) acc. d_add h acc (d_mul h (d_of_f h c) (d_pow h (d_of_f h x) n))) cs (d_of_f h first))"

definition CalculateEATAN :: "vu_host \<Rightarrow> u32 \<Rightarrow> u32" where
  "CalculateEATAN h x =
     (let result = poly_terms h (f_mul h 0x3f7ffff5 x)
        [(0xbeaaa61c, 3), (0x3e4c40a6, 5), (0xbe05fe6d, 7), (0x3dc577df, 9), (0xbd6501c4, 11), (0x3cb31652, 13), (0xbb84d7e7, 15)] x
      in vuDouble h (f_add h result 0x3f490fdb))"

definition vuEATAN :: "vu_host \<Rightarrow> VURegs \<Rightarrow> VURegs" where
  "vuEATAN h s = wp (CalculateEATAN h (vuDouble h (vuFsUL s))) s"
definition vuEATANxy :: "vu_host \<Rightarrow> VURegs \<Rightarrow> VURegs" where
  "vuEATANxy h s = wp (if \<not> f_eq h (VDs h s LX) 0 then CalculateEATAN h (f_div h (VDs h s LY) (VDs h s LX)) else 0) s"
definition vuEATANxz :: "vu_host \<Rightarrow> VURegs \<Rightarrow> VURegs" where
  "vuEATANxz h s = wp (if \<not> f_eq h (VDs h s LX) 0 then CalculateEATAN h (f_div h (VDs h s LZ) (VDs h s LX)) else 0) s"
definition vuESUM :: "vu_host \<Rightarrow> VURegs \<Rightarrow> VURegs" where
  "vuESUM h s = wp (f_add h (f_add h (f_add h (VDs h s LX) (VDs h s LY)) (VDs h s LZ)) (VDs h s LW)) s"
definition vuERCPR :: "vu_host \<Rightarrow> VURegs \<Rightarrow> VURegs" where
  "vuERCPR h s = (let p = vuDouble h (vuFsUL s)
     in wp (if \<not> f_eq h p 0 then f_of_d h (d_div h 0x3FF0000000000000 (d_of_f h p)) else p) s)"
definition vuESQRT :: "vu_host \<Rightarrow> VURegs \<Rightarrow> VURegs" where
  "vuESQRT h s = (let p = vuDouble h (vuFsUL s) in wp (if f_le h 0 p then f_sqrt h p else p) s)"
definition vuERSQRT :: "vu_host \<Rightarrow> VURegs \<Rightarrow> VURegs" where
  "vuERSQRT h s = wp (rsqrt_or_sqrt h (vuDouble h (vuFsUL s))) s"
definition vuESIN :: "vu_host \<Rightarrow> VURegs \<Rightarrow> VURegs" where
  "vuESIN h s = (let p = vuDouble h (vuFsUL s)
     in wp (vuDouble h (poly_terms h (f_mul h 0x3f800000 p) [(0xbe2aaaa4, 3), (0x3c08873e, 5), (0xb94fb21f, 7), (0x362e9c14, 9)] p)) s)"
definition vuEEXP :: "vu_host \<Rightarrow> VURegs \<Rightarrow> VURegs" where
  "vuEEXP h s =
     (let p = vuDouble h (vuFsUL s);
          p1 = poly_terms h (f_add h 0x3f800000 (f_mul h 0x3e7fffa8 p))
            [(0x3d0007f4, 2), (0x3b29d3ff, 3), (0x3933e553, 4), (0x36b63510, 5), (0x353961ac, 6)] p;
          p2 = f_of_d h (d_pow h (d_of_f h p1) 4)
      in wp (f_div h 0x3f800000 (vuDouble h p2)) s)"

section \<open>The VIF registers\<close>

definition GetVifRegs :: "vu_idx \<Rightarrow> u32" where "GetVifRegs i = (if i = VU1 then 0x10003C00 else 0x10003800)"

definition vuXITOP :: "'a vu_sys_scheme vu_env \<Rightarrow> vu_idx \<Rightarrow> 'a vu_sys_scheme \<Rightarrow> 'a vu_sys_scheme" where
  "vuXITOP env i s =
     on_vu i (wIt (ucast (if i = VU1 \<and> THREAD_VU1 env then mtvu_itop env s else psHu32 (GetVifRegs i + 0xd0) s))) s"
definition vuXTOP :: "'a vu_sys_scheme vu_env \<Rightarrow> vu_idx \<Rightarrow> 'a vu_sys_scheme \<Rightarrow> 'a vu_sys_scheme" where
  "vuXTOP env i s =
     on_vu i (wIt (ucast (if i = VU1 \<and> THREAD_VU1 env then mtvu_top env s else psHu32 (GetVifRegs i + 0xe0) s))) s"

section \<open>The transfer to the graphics interface\<close>

definition VPU_STAT :: "'a vu_sys_scheme \<Rightarrow> u32" where "VPU_STAT s = VI (vuRegs s VU0) REG_VPU_STAT"
definition wVPU_STAT :: "u32 \<Rightarrow> 'a vu_sys_scheme \<Rightarrow> 'a vu_sys_scheme" where
  "wVPU_STAT v s = on_vu VU0 (wVI REG_VPU_STAT v) s"

text \<open>A new tag, when nothing of the last one is left; the flag says that the size was invalid.\<close>

definition xgkick_tag :: "'a vu_sys_scheme vu_env \<Rightarrow> bool \<Rightarrow> 'a vu_sys_scheme \<Rightarrow> bool \<times> 'a vu_sys_scheme" where
  "xgkick_tag env flush s =
     (if xgkicksizeremaining (vuRegs s VU1) = 0
      then (case GetGSPacketSize env (xgkickaddr (vuRegs s VU1)) flush s of (sz, s1) \<Rightarrow>
        (let s2 = on_vu VU1 (\<lambda>v. v\<lparr>xgkicksizeremaining := sz AND 0xFFFF, xgkickendpacket := drop_bit 31 sz \<noteq> 0,
                    xgkickdiff := 0x4000 - xgkickaddr v\<rparr>) s1
         in if sz AND 0xFFFF = 0 then (True, on_vu VU1 (\<lambda>v. v\<lparr>xgkickenable := False\<rparr>) s2) else (False, s2)))
      else (False, s))"

definition xgkick_size :: "bool \<Rightarrow> VURegs \<Rightarrow> u32" where
  "xgkick_size flush v =
     (if \<not> flush then min (min (xgkicksizeremaining v div 0x10) (xgkickcyclecount v div 2)) (xgkickdiff v div 0x10)
      else min (xgkicksizeremaining v div 0x10) (xgkickdiff v div 0x10))"

abbreviation VIF1_STAT :: u32 where "VIF1_STAT \<equiv> 0x10003C00"

definition xgkick_finish :: "'a vu_sys_scheme \<Rightarrow> 'a vu_sys_scheme" where
  "xgkick_finish s =
     (let s1 = on_vu VU1 (\<lambda>v. v\<lparr>xgkickenable := False\<rparr>) s
      in if bit (psHu32 VIF1_STAT s1) 3
         then CPU_INT DMAC_VIF1 8 (wHu32 VIF1_STAT (psHu32 VIF1_STAT s1 AND NOT 0x8) (wVPU_STAT (VPU_STAT s1 AND NOT 0x1000) s1))
         else s1)"

definition xgkick_move :: "'a vu_sys_scheme vu_env \<Rightarrow> bool \<Rightarrow> 'a vu_sys_scheme \<Rightarrow> 'a vu_sys_scheme" where
  "xgkick_move env flush s =
     (let n = xgkick_size flush (vuRegs s VU1);
          s1 = TransferGSPacketData env (xgkickaddr (vuRegs s VU1)) (n * 0x10) s;
          s2 = (if VPU_STAT s1 AND 0x100 \<noteq> 0 \<and> flush then on_vu VU1 (\<lambda>v. v\<lparr>vcycle := vcycle v + n * 2\<rparr>) s1 else s1);
          s3 = on_vu VU1 (\<lambda>v. v\<lparr>xgkickcyclecount := xgkickcyclecount v - n * 2, xgkickaddr := (xgkickaddr v + n * 0x10) AND 0x3FFF,
                 xgkicksizeremaining := xgkicksizeremaining v - n * 0x10\<rparr>) s2;
          s4 = on_vu VU1 (\<lambda>v. v\<lparr>xgkickdiff := 0x4000 - xgkickaddr v\<rparr>) s3
      in if xgkicksizeremaining (vuRegs s4 VU1) \<noteq> 0 \<or> \<not> xgkickendpacket (vuRegs s4 VU1) then s4 else xgkick_finish s4)"

fun xgkick_loop :: "nat \<Rightarrow> 'a vu_sys_scheme vu_env \<Rightarrow> bool \<Rightarrow> 'a vu_sys_scheme \<Rightarrow> 'a vu_sys_scheme option" where
  "xgkick_loop 0 env flush s = None"
| "xgkick_loop (Suc n) env flush s =
     (if xgkickenable (vuRegs s VU1) \<and> (flush \<or> 2 \<le> xgkickcyclecount (vuRegs s VU1))
      then (case xgkick_tag env flush s of (invalid, s1) \<Rightarrow>
              if invalid then Some s1 else xgkick_loop n env flush (xgkick_move env flush s1))
      else Some s)"

text \<open>\<open>_vuXGKICKTransfer\<close> and \<open>_vuTestPipes\<close> call each other; the count bounds the nesting.\<close>

fun XGKICKTransfer_n :: "nat \<Rightarrow> 'a vu_sys_scheme vu_env \<Rightarrow> u32 \<Rightarrow> bool \<Rightarrow> 'a vu_sys_scheme \<Rightarrow> 'a vu_sys_scheme option"
  and TestPipes_n :: "nat \<Rightarrow> 'a vu_sys_scheme vu_env \<Rightarrow> vu_idx \<Rightarrow> 'a vu_sys_scheme \<Rightarrow> 'a vu_sys_scheme option" where
  "XGKICKTransfer_n 0 env cycles flush s = None"
| "XGKICKTransfer_n (Suc n) env cycles flush s =
     (if \<not> xgkickenable (vuRegs s VU1) then Some s
      else (let s1 = on_vu VU1 (\<lambda>v. v\<lparr>xgkickcyclecount := xgkickcyclecount v + cycles, xgkicklastcycle := xgkicklastcycle v + cycles\<rparr>) s
            in case xgkick_loop (vu_fuel env) env flush s1 of None \<Rightarrow> None
               | Some s2 \<Rightarrow> if flush then TestPipes_n n env VU1 s2 else Some s2))"
| "TestPipes_n 0 env i s = None"
| "TestPipes_n (Suc n) env i s =
     (let s1 = on_vu i vuFlush_loop s
      in if i = VU1 \<and> xgkickenable (vuRegs s1 VU1)
         then XGKICKTransfer_n n env (vcycle (vuRegs s1 VU1) - xgkicklastcycle (vuRegs s1 VU1) - 1) False s1
         else Some s1)"

definition vuXGKICKTransfer :: "'a vu_sys_scheme vu_env \<Rightarrow> u32 \<Rightarrow> bool \<Rightarrow> 'a vu_sys_scheme \<Rightarrow> 'a vu_sys_scheme option" where
  "vuXGKICKTransfer env = XGKICKTransfer_n (vu_fuel env) env"
definition vuTestPipes :: "'a vu_sys_scheme vu_env \<Rightarrow> vu_idx \<Rightarrow> 'a vu_sys_scheme \<Rightarrow> 'a vu_sys_scheme option" where
  "vuTestPipes env = TestPipes_n (vu_fuel env) env"

definition xgkick_start :: "'a vu_sys_scheme \<Rightarrow> 'a vu_sys_scheme" where
  "xgkick_start s =
     (let addr = ucast (VI16 (vuRegs s VU1) (vIs (vuRegs s VU1)) AND 0x3ff) * 16 :: u32;
          s1 = on_vu VU1 (\<lambda>v. v\<lparr>xgkickenable := True, xgkickaddr := addr, xgkickdiff := 0x4000 - addr, xgkicksizeremaining := 0,
                 xgkickendpacket := False, xgkicklastcycle := vcycle v, xgkickcyclecount := 0\<rparr>) s
      in wVPU_STAT (VPU_STAT s1 OR 0x1000) s1)"

definition vuXGKICK :: "'a vu_sys_scheme vu_env \<Rightarrow> 'a vu_sys_scheme \<Rightarrow> 'a vu_sys_scheme option" where
  "vuXGKICK env s =
     (if xgkickenable (vuRegs s VU1) then map_option xgkick_start (vuXGKICKTransfer env 0 True s) else Some (xgkick_start s))"

end
