(* ===== verification/Vu_Tables.thy ===== *)
theory Vu_Tables
  imports Vu_RegsN Vu_Lower
begin

text \<open>
  The opcode tables of the vector units (\<open>_vuTablesMess\<close> of pcsx2/VUops.cpp).  The source builds
  the same tables for each unit, once with the functions that execute an instruction and once with
  those that say what it reads and writes; an entry here is the pair of the two.  A table that is
  an entry of another dispatches on further bits of the code.  An instruction whose code is in no
  table does nothing.
\<close>

unbundle bit_operations_syntax

section \<open>Instructions\<close>

type_synonym vu_regs = "VURegs \<Rightarrow> VURegsNum \<Rightarrow> VURegsNum"
type_synonym vu_upper = "(vu_host \<Rightarrow> VURegs \<Rightarrow> VURegs) \<times> vu_regs"
type_synonym 's vu_lower = "('s vu_env \<Rightarrow> vu_idx \<Rightarrow> 's \<Rightarrow> 's option) \<times> vu_regs"

abbreviation lower_V :: "(VURegs \<Rightarrow> VURegs) \<Rightarrow> vu_regs \<Rightarrow> 'a vu_sys_scheme vu_lower" where
  "lower_V f r \<equiv> (\<lambda>env i s. Some (on_vu i f s), r)"
abbreviation lower_H :: "(vu_host \<Rightarrow> VURegs \<Rightarrow> VURegs) \<Rightarrow> vu_regs \<Rightarrow> 'a vu_sys_scheme vu_lower" where
  "lower_H f r \<equiv> (\<lambda>env i s. Some (on_vu i (f (vu_host_of env)) s), r)"
abbreviation lower_I :: "(vu_idx \<Rightarrow> VURegs \<Rightarrow> VURegs) \<Rightarrow> vu_regs \<Rightarrow> 'a vu_sys_scheme vu_lower" where
  "lower_I f r \<equiv> (\<lambda>env i s. Some (on_vu i (f i) s), r)"
abbreviation lower_S :: "(vu_idx \<Rightarrow> 'a vu_sys_scheme \<Rightarrow> 'a vu_sys_scheme) \<Rightarrow> vu_regs \<Rightarrow> 'a vu_sys_scheme vu_lower" where
  "lower_S f r \<equiv> (\<lambda>env i s. Some (f i s), r)"

definition MI_unknown_U :: vu_upper where "MI_unknown_U = (\<lambda>h v. v, \<lambda>v n. n)"
definition MI_unknown_L :: "'a vu_sys_scheme vu_lower" where "MI_unknown_L = (\<lambda>env i s. Some s, \<lambda>v n. n)"

definition MI_ABS :: vu_upper where "MI_ABS = (vuABS, vuRegsABS)"
definition MI_ADD :: vu_upper where "MI_ADD = (vuADD, vuRegsADD)"
definition MI_ADDi :: vu_upper where "MI_ADDi = (vuADDi, vuRegsADDi)"
definition MI_ADDq :: vu_upper where "MI_ADDq = (vuADDq, vuRegsADDq)"
definition MI_ADDx :: vu_upper where "MI_ADDx = (vuADDx, vuRegsADDx)"
definition MI_ADDy :: vu_upper where "MI_ADDy = (vuADDy, vuRegsADDy)"
definition MI_ADDz :: vu_upper where "MI_ADDz = (vuADDz, vuRegsADDz)"
definition MI_ADDw :: vu_upper where "MI_ADDw = (vuADDw, vuRegsADDw)"
definition MI_ADDA :: vu_upper where "MI_ADDA = (vuADDA, vuRegsADDA)"
definition MI_ADDAi :: vu_upper where "MI_ADDAi = (vuADDAi, vuRegsADDAi)"
definition MI_ADDAq :: vu_upper where "MI_ADDAq = (vuADDAq, vuRegsADDAq)"
definition MI_ADDAx :: vu_upper where "MI_ADDAx = (vuADDAx, vuRegsADDAx)"
definition MI_ADDAy :: vu_upper where "MI_ADDAy = (vuADDAy, vuRegsADDAy)"
definition MI_ADDAz :: vu_upper where "MI_ADDAz = (vuADDAz, vuRegsADDAz)"
definition MI_ADDAw :: vu_upper where "MI_ADDAw = (vuADDAw, vuRegsADDAw)"
definition MI_SUB :: vu_upper where "MI_SUB = (vuSUB, vuRegsSUB)"
definition MI_SUBi :: vu_upper where "MI_SUBi = (vuSUBi, vuRegsSUBi)"
definition MI_SUBq :: vu_upper where "MI_SUBq = (vuSUBq, vuRegsSUBq)"
definition MI_SUBx :: vu_upper where "MI_SUBx = (vuSUBx, vuRegsSUBx)"
definition MI_SUBy :: vu_upper where "MI_SUBy = (vuSUBy, vuRegsSUBy)"
definition MI_SUBz :: vu_upper where "MI_SUBz = (vuSUBz, vuRegsSUBz)"
definition MI_SUBw :: vu_upper where "MI_SUBw = (vuSUBw, vuRegsSUBw)"
definition MI_SUBA :: vu_upper where "MI_SUBA = (vuSUBA, vuRegsSUBA)"
definition MI_SUBAi :: vu_upper where "MI_SUBAi = (vuSUBAi, vuRegsSUBAi)"
definition MI_SUBAq :: vu_upper where "MI_SUBAq = (vuSUBAq, vuRegsSUBAq)"
definition MI_SUBAx :: vu_upper where "MI_SUBAx = (vuSUBAx, vuRegsSUBAx)"
definition MI_SUBAy :: vu_upper where "MI_SUBAy = (vuSUBAy, vuRegsSUBAy)"
definition MI_SUBAz :: vu_upper where "MI_SUBAz = (vuSUBAz, vuRegsSUBAz)"
definition MI_SUBAw :: vu_upper where "MI_SUBAw = (vuSUBAw, vuRegsSUBAw)"
definition MI_MUL :: vu_upper where "MI_MUL = (vuMUL, vuRegsMUL)"
definition MI_MULi :: vu_upper where "MI_MULi = (vuMULi, vuRegsMULi)"
definition MI_MULq :: vu_upper where "MI_MULq = (vuMULq, vuRegsMULq)"
definition MI_MULx :: vu_upper where "MI_MULx = (vuMULx, vuRegsMULx)"
definition MI_MULy :: vu_upper where "MI_MULy = (vuMULy, vuRegsMULy)"
definition MI_MULz :: vu_upper where "MI_MULz = (vuMULz, vuRegsMULz)"
definition MI_MULw :: vu_upper where "MI_MULw = (vuMULw, vuRegsMULw)"
definition MI_MULA :: vu_upper where "MI_MULA = (vuMULA, vuRegsMULA)"
definition MI_MULAi :: vu_upper where "MI_MULAi = (vuMULAi, vuRegsMULAi)"
definition MI_MULAq :: vu_upper where "MI_MULAq = (vuMULAq, vuRegsMULAq)"
definition MI_MULAx :: vu_upper where "MI_MULAx = (vuMULAx, vuRegsMULAx)"
definition MI_MULAy :: vu_upper where "MI_MULAy = (vuMULAy, vuRegsMULAy)"
definition MI_MULAz :: vu_upper where "MI_MULAz = (vuMULAz, vuRegsMULAz)"
definition MI_MULAw :: vu_upper where "MI_MULAw = (vuMULAw, vuRegsMULAw)"
definition MI_MADD :: vu_upper where "MI_MADD = (vuMADD, vuRegsMADD)"
definition MI_MADDi :: vu_upper where "MI_MADDi = (vuMADDi, vuRegsMADDi)"
definition MI_MADDq :: vu_upper where "MI_MADDq = (vuMADDq, vuRegsMADDq)"
definition MI_MADDx :: vu_upper where "MI_MADDx = (vuMADDx, vuRegsMADDx)"
definition MI_MADDy :: vu_upper where "MI_MADDy = (vuMADDy, vuRegsMADDy)"
definition MI_MADDz :: vu_upper where "MI_MADDz = (vuMADDz, vuRegsMADDz)"
definition MI_MADDw :: vu_upper where "MI_MADDw = (vuMADDw, vuRegsMADDw)"
definition MI_MADDA :: vu_upper where "MI_MADDA = (vuMADDA, vuRegsMADDA)"
definition MI_MADDAi :: vu_upper where "MI_MADDAi = (vuMADDAi, vuRegsMADDAi)"
definition MI_MADDAq :: vu_upper where "MI_MADDAq = (vuMADDAq, vuRegsMADDAq)"
definition MI_MADDAx :: vu_upper where "MI_MADDAx = (vuMADDAx, vuRegsMADDAx)"
definition MI_MADDAy :: vu_upper where "MI_MADDAy = (vuMADDAy, vuRegsMADDAy)"
definition MI_MADDAz :: vu_upper where "MI_MADDAz = (vuMADDAz, vuRegsMADDAz)"
definition MI_MADDAw :: vu_upper where "MI_MADDAw = (vuMADDAw, vuRegsMADDAw)"
definition MI_MSUB :: vu_upper where "MI_MSUB = (vuMSUB, vuRegsMSUB)"
definition MI_MSUBi :: vu_upper where "MI_MSUBi = (vuMSUBi, vuRegsMSUBi)"
definition MI_MSUBq :: vu_upper where "MI_MSUBq = (vuMSUBq, vuRegsMSUBq)"
definition MI_MSUBx :: vu_upper where "MI_MSUBx = (vuMSUBx, vuRegsMSUBx)"
definition MI_MSUBy :: vu_upper where "MI_MSUBy = (vuMSUBy, vuRegsMSUBy)"
definition MI_MSUBz :: vu_upper where "MI_MSUBz = (vuMSUBz, vuRegsMSUBz)"
definition MI_MSUBw :: vu_upper where "MI_MSUBw = (vuMSUBw, vuRegsMSUBw)"
definition MI_MSUBA :: vu_upper where "MI_MSUBA = (vuMSUBA, vuRegsMSUBA)"
definition MI_MSUBAi :: vu_upper where "MI_MSUBAi = (vuMSUBAi, vuRegsMSUBAi)"
definition MI_MSUBAq :: vu_upper where "MI_MSUBAq = (vuMSUBAq, vuRegsMSUBAq)"
definition MI_MSUBAx :: vu_upper where "MI_MSUBAx = (vuMSUBAx, vuRegsMSUBAx)"
definition MI_MSUBAy :: vu_upper where "MI_MSUBAy = (vuMSUBAy, vuRegsMSUBAy)"
definition MI_MSUBAz :: vu_upper where "MI_MSUBAz = (vuMSUBAz, vuRegsMSUBAz)"
definition MI_MSUBAw :: vu_upper where "MI_MSUBAw = (vuMSUBAw, vuRegsMSUBAw)"
definition MI_MAX :: vu_upper where "MI_MAX = (\<lambda>h. vuMAX, vuRegsMAX)"
definition MI_MAXi :: vu_upper where "MI_MAXi = (\<lambda>h. vuMAXi, vuRegsMAXi)"
definition MI_MAXx :: vu_upper where "MI_MAXx = (\<lambda>h. vuMAXx, vuRegsMAXx)"
definition MI_MAXy :: vu_upper where "MI_MAXy = (\<lambda>h. vuMAXy, vuRegsMAXy)"
definition MI_MAXz :: vu_upper where "MI_MAXz = (\<lambda>h. vuMAXz, vuRegsMAXz)"
definition MI_MAXw :: vu_upper where "MI_MAXw = (\<lambda>h. vuMAXw, vuRegsMAXw)"
definition MI_MINI :: vu_upper where "MI_MINI = (\<lambda>h. vuMINI, vuRegsMINI)"
definition MI_MINIi :: vu_upper where "MI_MINIi = (\<lambda>h. vuMINIi, vuRegsMINIi)"
definition MI_MINIx :: vu_upper where "MI_MINIx = (\<lambda>h. vuMINIx, vuRegsMINIx)"
definition MI_MINIy :: vu_upper where "MI_MINIy = (\<lambda>h. vuMINIy, vuRegsMINIy)"
definition MI_MINIz :: vu_upper where "MI_MINIz = (\<lambda>h. vuMINIz, vuRegsMINIz)"
definition MI_MINIw :: vu_upper where "MI_MINIw = (\<lambda>h. vuMINIw, vuRegsMINIw)"
definition MI_OPMULA :: vu_upper where "MI_OPMULA = (vuOPMULA, vuRegsOPMULA)"
definition MI_OPMSUB :: vu_upper where "MI_OPMSUB = (vuOPMSUB, vuRegsOPMSUB)"
definition MI_NOP :: vu_upper where "MI_NOP = (\<lambda>h. vuNOP, vuRegsNOP)"
definition MI_FTOI0 :: vu_upper where "MI_FTOI0 = (vuFTOI0, vuRegsFTOI0)"
definition MI_FTOI4 :: vu_upper where "MI_FTOI4 = (vuFTOI4, vuRegsFTOI4)"
definition MI_FTOI12 :: vu_upper where "MI_FTOI12 = (vuFTOI12, vuRegsFTOI12)"
definition MI_FTOI15 :: vu_upper where "MI_FTOI15 = (vuFTOI15, vuRegsFTOI15)"
definition MI_ITOF0 :: vu_upper where "MI_ITOF0 = (vuITOF0, vuRegsITOF0)"
definition MI_ITOF4 :: vu_upper where "MI_ITOF4 = (vuITOF4, vuRegsITOF4)"
definition MI_ITOF12 :: vu_upper where "MI_ITOF12 = (vuITOF12, vuRegsITOF12)"
definition MI_ITOF15 :: vu_upper where "MI_ITOF15 = (vuITOF15, vuRegsITOF15)"
definition MI_CLIP :: vu_upper where "MI_CLIP = (vuCLIP, vuRegsCLIP)"

definition MI_DIV :: "'a vu_sys_scheme vu_lower" where "MI_DIV = lower_H vuDIV vuRegsDIV"
definition MI_SQRT :: "'a vu_sys_scheme vu_lower" where "MI_SQRT = lower_H vuSQRT vuRegsSQRT"
definition MI_RSQRT :: "'a vu_sys_scheme vu_lower" where "MI_RSQRT = lower_H vuRSQRT vuRegsRSQRT"
definition MI_IADD :: "'a vu_sys_scheme vu_lower" where "MI_IADD = lower_V vuIADD vuRegsIADD"
definition MI_IADDI :: "'a vu_sys_scheme vu_lower" where "MI_IADDI = lower_V vuIADDI vuRegsIADDI"
definition MI_IADDIU :: "'a vu_sys_scheme vu_lower" where "MI_IADDIU = lower_V vuIADDIU vuRegsIADDIU"
definition MI_IAND :: "'a vu_sys_scheme vu_lower" where "MI_IAND = lower_V vuIAND vuRegsIAND"
definition MI_IOR :: "'a vu_sys_scheme vu_lower" where "MI_IOR = lower_V vuIOR vuRegsIOR"
definition MI_ISUB :: "'a vu_sys_scheme vu_lower" where "MI_ISUB = lower_V vuISUB vuRegsISUB"
definition MI_ISUBIU :: "'a vu_sys_scheme vu_lower" where "MI_ISUBIU = lower_V vuISUBIU vuRegsISUBIU"
definition MI_MOVE :: "'a vu_sys_scheme vu_lower" where "MI_MOVE = lower_V vuMOVE vuRegsMOVE"
definition MI_MFIR :: "'a vu_sys_scheme vu_lower" where "MI_MFIR = lower_V vuMFIR vuRegsMFIR"
definition MI_MTIR :: "'a vu_sys_scheme vu_lower" where "MI_MTIR = lower_V vuMTIR vuRegsMTIR"
definition MI_MR32 :: "'a vu_sys_scheme vu_lower" where "MI_MR32 = lower_V vuMR32 vuRegsMR32"
definition MI_LQ :: "'a vu_sys_scheme vu_lower" where "MI_LQ = lower_S vuLQ vuRegsLQ"
definition MI_LQD :: "'a vu_sys_scheme vu_lower" where "MI_LQD = lower_S vuLQD vuRegsLQD"
definition MI_LQI :: "'a vu_sys_scheme vu_lower" where "MI_LQI = lower_S vuLQI vuRegsLQI"
definition MI_SQ :: "'a vu_sys_scheme vu_lower" where "MI_SQ = lower_S vuSQ vuRegsSQ"
definition MI_SQD :: "'a vu_sys_scheme vu_lower" where "MI_SQD = lower_S vuSQD vuRegsSQD"
definition MI_SQI :: "'a vu_sys_scheme vu_lower" where "MI_SQI = lower_S vuSQI vuRegsSQI"
definition MI_ILW :: "'a vu_sys_scheme vu_lower" where "MI_ILW = lower_S vuILW vuRegsILW"
definition MI_ISW :: "'a vu_sys_scheme vu_lower" where "MI_ISW = lower_S vuISW vuRegsISW"
definition MI_ILWR :: "'a vu_sys_scheme vu_lower" where "MI_ILWR = lower_S vuILWR vuRegsILWR"
definition MI_ISWR :: "'a vu_sys_scheme vu_lower" where "MI_ISWR = lower_S vuISWR vuRegsISWR"
definition MI_RINIT :: "'a vu_sys_scheme vu_lower" where "MI_RINIT = lower_V vuRINIT vuRegsRINIT"
definition MI_RGET :: "'a vu_sys_scheme vu_lower" where "MI_RGET = lower_V vuRGET vuRegsRGET"
definition MI_RNEXT :: "'a vu_sys_scheme vu_lower" where "MI_RNEXT = lower_V vuRNEXT vuRegsRNEXT"
definition MI_RXOR :: "'a vu_sys_scheme vu_lower" where "MI_RXOR = lower_V vuRXOR vuRegsRXOR"
definition MI_WAITQ :: "'a vu_sys_scheme vu_lower" where "MI_WAITQ = lower_V vuWAITQ vuRegsWAITQ"
definition MI_FSAND :: "'a vu_sys_scheme vu_lower" where "MI_FSAND = lower_V vuFSAND vuRegsFSAND"
definition MI_FSEQ :: "'a vu_sys_scheme vu_lower" where "MI_FSEQ = lower_V vuFSEQ vuRegsFSEQ"
definition MI_FSOR :: "'a vu_sys_scheme vu_lower" where "MI_FSOR = lower_V vuFSOR vuRegsFSOR"
definition MI_FSSET :: "'a vu_sys_scheme vu_lower" where "MI_FSSET = lower_V vuFSSET vuRegsFSSET"
definition MI_FMAND :: "'a vu_sys_scheme vu_lower" where "MI_FMAND = lower_V vuFMAND vuRegsFMAND"
definition MI_FMEQ :: "'a vu_sys_scheme vu_lower" where "MI_FMEQ = lower_V vuFMEQ vuRegsFMEQ"
definition MI_FMOR :: "'a vu_sys_scheme vu_lower" where "MI_FMOR = lower_V vuFMOR vuRegsFMOR"
definition MI_FCAND :: "'a vu_sys_scheme vu_lower" where "MI_FCAND = lower_V vuFCAND vuRegsFCAND"
definition MI_FCEQ :: "'a vu_sys_scheme vu_lower" where "MI_FCEQ = lower_V vuFCEQ vuRegsFCEQ"
definition MI_FCOR :: "'a vu_sys_scheme vu_lower" where "MI_FCOR = lower_V vuFCOR vuRegsFCOR"
definition MI_FCSET :: "'a vu_sys_scheme vu_lower" where "MI_FCSET = lower_V vuFCSET vuRegsFCSET"
definition MI_FCGET :: "'a vu_sys_scheme vu_lower" where "MI_FCGET = lower_V vuFCGET vuRegsFCGET"
definition MI_IBEQ :: "'a vu_sys_scheme vu_lower" where "MI_IBEQ = lower_I vuIBEQ vuRegsIBEQ"
definition MI_IBGEZ :: "'a vu_sys_scheme vu_lower" where "MI_IBGEZ = lower_I vuIBGEZ vuRegsIBGEZ"
definition MI_IBGTZ :: "'a vu_sys_scheme vu_lower" where "MI_IBGTZ = lower_I vuIBGTZ vuRegsIBGTZ"
definition MI_IBLTZ :: "'a vu_sys_scheme vu_lower" where "MI_IBLTZ = lower_I vuIBLTZ vuRegsIBLTZ"
definition MI_IBLEZ :: "'a vu_sys_scheme vu_lower" where "MI_IBLEZ = lower_I vuIBLEZ vuRegsIBLEZ"
definition MI_IBNE :: "'a vu_sys_scheme vu_lower" where "MI_IBNE = lower_I vuIBNE vuRegsIBNE"
definition MI_B :: "'a vu_sys_scheme vu_lower" where "MI_B = lower_I vuB vuRegsB"
definition MI_BAL :: "'a vu_sys_scheme vu_lower" where "MI_BAL = lower_I vuBAL vuRegsBAL"
definition MI_JR :: "'a vu_sys_scheme vu_lower" where "MI_JR = lower_V vuJR vuRegsJR"
definition MI_JALR :: "'a vu_sys_scheme vu_lower" where "MI_JALR = lower_V vuJALR vuRegsJALR"
definition MI_MFP :: "'a vu_sys_scheme vu_lower" where "MI_MFP = lower_V vuMFP vuRegsMFP"
definition MI_WAITP :: "'a vu_sys_scheme vu_lower" where "MI_WAITP = lower_V vuWAITP vuRegsWAITP"
definition MI_ESADD :: "'a vu_sys_scheme vu_lower" where "MI_ESADD = lower_H vuESADD vuRegsESADD"
definition MI_ERSADD :: "'a vu_sys_scheme vu_lower" where "MI_ERSADD = lower_H vuERSADD vuRegsERSADD"
definition MI_ELENG :: "'a vu_sys_scheme vu_lower" where "MI_ELENG = lower_H vuELENG vuRegsELENG"
definition MI_ERLENG :: "'a vu_sys_scheme vu_lower" where "MI_ERLENG = lower_H vuERLENG vuRegsERLENG"
definition MI_EATANxy :: "'a vu_sys_scheme vu_lower" where "MI_EATANxy = lower_H vuEATANxy vuRegsEATANxy"
definition MI_EATANxz :: "'a vu_sys_scheme vu_lower" where "MI_EATANxz = lower_H vuEATANxz vuRegsEATANxz"
definition MI_ESUM :: "'a vu_sys_scheme vu_lower" where "MI_ESUM = lower_H vuESUM vuRegsESUM"
definition MI_ERCPR :: "'a vu_sys_scheme vu_lower" where "MI_ERCPR = lower_H vuERCPR vuRegsERCPR"
definition MI_ESQRT :: "'a vu_sys_scheme vu_lower" where "MI_ESQRT = lower_H vuESQRT vuRegsESQRT"
definition MI_ERSQRT :: "'a vu_sys_scheme vu_lower" where "MI_ERSQRT = lower_H vuERSQRT vuRegsERSQRT"
definition MI_ESIN :: "'a vu_sys_scheme vu_lower" where "MI_ESIN = lower_H vuESIN vuRegsESIN"
definition MI_EATAN :: "'a vu_sys_scheme vu_lower" where "MI_EATAN = lower_H vuEATAN vuRegsEATAN"
definition MI_EEXP :: "'a vu_sys_scheme vu_lower" where "MI_EEXP = lower_H vuEEXP vuRegsEEXP"
definition MI_XITOP :: "'a vu_sys_scheme vu_lower" where "MI_XITOP = (\<lambda>env i s. Some (vuXITOP env i s), vuRegsXITOP)"
definition MI_XGKICK :: "'a vu_sys_scheme vu_lower" where "MI_XGKICK = (\<lambda>env i s. if i = VU1 then vuXGKICK env s else Some s, vuRegsXGKICK)"
definition MI_XTOP :: "'a vu_sys_scheme vu_lower" where "MI_XTOP = (\<lambda>env i s. Some (if i = VU1 then vuXTOP env i s else s), vuRegsXTOP)"

section \<open>Tables\<close>

definition op_sub :: "u32 \<Rightarrow> nat" where "op_sub c = unat (drop_bit 6 c AND 0x1f)"

definition UPPER_FD_00_TABLE :: "vu_upper list" where
  "UPPER_FD_00_TABLE =
    [MI_ADDAx, MI_SUBAx, MI_MADDAx, MI_MSUBAx, MI_ITOF0, MI_FTOI0, MI_MULAx, MI_MULAq, MI_ADDAq, MI_SUBAq,
     MI_ADDA, MI_SUBA, MI_unknown_U, MI_unknown_U, MI_unknown_U, MI_unknown_U, MI_unknown_U, MI_unknown_U,
     MI_unknown_U, MI_unknown_U, MI_unknown_U, MI_unknown_U, MI_unknown_U, MI_unknown_U, MI_unknown_U,
     MI_unknown_U, MI_unknown_U, MI_unknown_U, MI_unknown_U, MI_unknown_U, MI_unknown_U, MI_unknown_U]"

definition UPPER_FD_00 :: vu_upper where
  "UPPER_FD_00 = (\<lambda>h v. fst (UPPER_FD_00_TABLE ! op_sub (vcode v)) h v, \<lambda>v. snd (UPPER_FD_00_TABLE ! op_sub (vcode v)) v)"

definition UPPER_FD_01_TABLE :: "vu_upper list" where
  "UPPER_FD_01_TABLE =
    [MI_ADDAy, MI_SUBAy, MI_MADDAy, MI_MSUBAy, MI_ITOF4, MI_FTOI4, MI_MULAy, MI_ABS, MI_MADDAq, MI_MSUBAq,
     MI_MADDA, MI_MSUBA, MI_unknown_U, MI_unknown_U, MI_unknown_U, MI_unknown_U, MI_unknown_U, MI_unknown_U,
     MI_unknown_U, MI_unknown_U, MI_unknown_U, MI_unknown_U, MI_unknown_U, MI_unknown_U, MI_unknown_U,
     MI_unknown_U, MI_unknown_U, MI_unknown_U, MI_unknown_U, MI_unknown_U, MI_unknown_U, MI_unknown_U]"

definition UPPER_FD_01 :: vu_upper where
  "UPPER_FD_01 = (\<lambda>h v. fst (UPPER_FD_01_TABLE ! op_sub (vcode v)) h v, \<lambda>v. snd (UPPER_FD_01_TABLE ! op_sub (vcode v)) v)"

definition UPPER_FD_10_TABLE :: "vu_upper list" where
  "UPPER_FD_10_TABLE =
    [MI_ADDAz, MI_SUBAz, MI_MADDAz, MI_MSUBAz, MI_ITOF12, MI_FTOI12, MI_MULAz, MI_MULAi, MI_ADDAi, MI_SUBAi,
     MI_MULA, MI_OPMULA, MI_unknown_U, MI_unknown_U, MI_unknown_U, MI_unknown_U, MI_unknown_U, MI_unknown_U,
     MI_unknown_U, MI_unknown_U, MI_unknown_U, MI_unknown_U, MI_unknown_U, MI_unknown_U, MI_unknown_U,
     MI_unknown_U, MI_unknown_U, MI_unknown_U, MI_unknown_U, MI_unknown_U, MI_unknown_U, MI_unknown_U]"

definition UPPER_FD_10 :: vu_upper where
  "UPPER_FD_10 = (\<lambda>h v. fst (UPPER_FD_10_TABLE ! op_sub (vcode v)) h v, \<lambda>v. snd (UPPER_FD_10_TABLE ! op_sub (vcode v)) v)"

definition UPPER_FD_11_TABLE :: "vu_upper list" where
  "UPPER_FD_11_TABLE =
    [MI_ADDAw, MI_SUBAw, MI_MADDAw, MI_MSUBAw, MI_ITOF15, MI_FTOI15, MI_MULAw, MI_CLIP, MI_MADDAi, MI_MSUBAi,
     MI_unknown_U, MI_NOP, MI_unknown_U, MI_unknown_U, MI_unknown_U, MI_unknown_U, MI_unknown_U, MI_unknown_U,
     MI_unknown_U, MI_unknown_U, MI_unknown_U, MI_unknown_U, MI_unknown_U, MI_unknown_U, MI_unknown_U,
     MI_unknown_U, MI_unknown_U, MI_unknown_U, MI_unknown_U, MI_unknown_U, MI_unknown_U, MI_unknown_U]"

definition UPPER_FD_11 :: vu_upper where
  "UPPER_FD_11 = (\<lambda>h v. fst (UPPER_FD_11_TABLE ! op_sub (vcode v)) h v, \<lambda>v. snd (UPPER_FD_11_TABLE ! op_sub (vcode v)) v)"

definition UPPER_OPCODE :: "vu_upper list" where
  "UPPER_OPCODE =
    [MI_ADDx, MI_ADDy, MI_ADDz, MI_ADDw, MI_SUBx, MI_SUBy, MI_SUBz, MI_SUBw, MI_MADDx, MI_MADDy, MI_MADDz,
     MI_MADDw, MI_MSUBx, MI_MSUBy, MI_MSUBz, MI_MSUBw, MI_MAXx, MI_MAXy, MI_MAXz, MI_MAXw, MI_MINIx, MI_MINIy,
     MI_MINIz, MI_MINIw, MI_MULx, MI_MULy, MI_MULz, MI_MULw, MI_MULq, MI_MAXi, MI_MULi, MI_MINIi, MI_ADDq,
     MI_MADDq, MI_ADDi, MI_MADDi, MI_SUBq, MI_MSUBq, MI_SUBi, MI_MSUBi, MI_ADD, MI_MADD, MI_MUL, MI_MAX, MI_SUB,
     MI_MSUB, MI_OPMSUB, MI_MINI, MI_unknown_U, MI_unknown_U, MI_unknown_U, MI_unknown_U, MI_unknown_U,
     MI_unknown_U, MI_unknown_U, MI_unknown_U, MI_unknown_U, MI_unknown_U, MI_unknown_U, MI_unknown_U,
     UPPER_FD_00, UPPER_FD_01, UPPER_FD_10, UPPER_FD_11]"

definition LowerOP_T3_00_OPCODE :: "'a vu_sys_scheme vu_lower list" where
  "LowerOP_T3_00_OPCODE =
    [MI_unknown_L, MI_unknown_L, MI_unknown_L, MI_unknown_L, MI_unknown_L, MI_unknown_L, MI_unknown_L,
     MI_unknown_L, MI_unknown_L, MI_unknown_L, MI_unknown_L, MI_unknown_L, MI_MOVE, MI_LQI, MI_DIV, MI_MTIR,
     MI_RNEXT, MI_unknown_L, MI_unknown_L, MI_unknown_L, MI_unknown_L, MI_unknown_L, MI_unknown_L, MI_unknown_L,
     MI_unknown_L, MI_MFP, MI_XTOP, MI_XGKICK, MI_ESADD, MI_EATANxy, MI_ESQRT, MI_ESIN]"

definition LowerOP_T3_00 :: "'a vu_sys_scheme vu_lower" where
  "LowerOP_T3_00 =
     (\<lambda>env i s. fst (LowerOP_T3_00_OPCODE ! op_sub (vcode (vuRegs s i))) env i s,
      \<lambda>v. snd (LowerOP_T3_00_OPCODE ! op_sub (vcode v) :: 'a vu_sys_scheme vu_lower) v)"

definition LowerOP_T3_01_OPCODE :: "'a vu_sys_scheme vu_lower list" where
  "LowerOP_T3_01_OPCODE =
    [MI_unknown_L, MI_unknown_L, MI_unknown_L, MI_unknown_L, MI_unknown_L, MI_unknown_L, MI_unknown_L,
     MI_unknown_L, MI_unknown_L, MI_unknown_L, MI_unknown_L, MI_unknown_L, MI_MR32, MI_SQI, MI_SQRT, MI_MFIR,
     MI_RGET, MI_unknown_L, MI_unknown_L, MI_unknown_L, MI_unknown_L, MI_unknown_L, MI_unknown_L, MI_unknown_L,
     MI_unknown_L, MI_unknown_L, MI_XITOP, MI_unknown_L, MI_ERSADD, MI_EATANxz, MI_ERSQRT, MI_EATAN]"

definition LowerOP_T3_01 :: "'a vu_sys_scheme vu_lower" where
  "LowerOP_T3_01 =
     (\<lambda>env i s. fst (LowerOP_T3_01_OPCODE ! op_sub (vcode (vuRegs s i))) env i s,
      \<lambda>v. snd (LowerOP_T3_01_OPCODE ! op_sub (vcode v) :: 'a vu_sys_scheme vu_lower) v)"

definition LowerOP_T3_10_OPCODE :: "'a vu_sys_scheme vu_lower list" where
  "LowerOP_T3_10_OPCODE =
    [MI_unknown_L, MI_unknown_L, MI_unknown_L, MI_unknown_L, MI_unknown_L, MI_unknown_L, MI_unknown_L,
     MI_unknown_L, MI_unknown_L, MI_unknown_L, MI_unknown_L, MI_unknown_L, MI_unknown_L, MI_LQD, MI_RSQRT,
     MI_ILWR, MI_RINIT, MI_unknown_L, MI_unknown_L, MI_unknown_L, MI_unknown_L, MI_unknown_L, MI_unknown_L,
     MI_unknown_L, MI_unknown_L, MI_unknown_L, MI_unknown_L, MI_unknown_L, MI_ELENG, MI_ESUM, MI_ERCPR, MI_EEXP]"

definition LowerOP_T3_10 :: "'a vu_sys_scheme vu_lower" where
  "LowerOP_T3_10 =
     (\<lambda>env i s. fst (LowerOP_T3_10_OPCODE ! op_sub (vcode (vuRegs s i))) env i s,
      \<lambda>v. snd (LowerOP_T3_10_OPCODE ! op_sub (vcode v) :: 'a vu_sys_scheme vu_lower) v)"

definition LowerOP_T3_11_OPCODE :: "'a vu_sys_scheme vu_lower list" where
  "LowerOP_T3_11_OPCODE =
    [MI_unknown_L, MI_unknown_L, MI_unknown_L, MI_unknown_L, MI_unknown_L, MI_unknown_L, MI_unknown_L,
     MI_unknown_L, MI_unknown_L, MI_unknown_L, MI_unknown_L, MI_unknown_L, MI_unknown_L, MI_SQD, MI_WAITQ,
     MI_ISWR, MI_RXOR, MI_unknown_L, MI_unknown_L, MI_unknown_L, MI_unknown_L, MI_unknown_L, MI_unknown_L,
     MI_unknown_L, MI_unknown_L, MI_unknown_L, MI_unknown_L, MI_unknown_L, MI_ERLENG, MI_unknown_L, MI_WAITP,
     MI_unknown_L]"

definition LowerOP_T3_11 :: "'a vu_sys_scheme vu_lower" where
  "LowerOP_T3_11 =
     (\<lambda>env i s. fst (LowerOP_T3_11_OPCODE ! op_sub (vcode (vuRegs s i))) env i s,
      \<lambda>v. snd (LowerOP_T3_11_OPCODE ! op_sub (vcode v) :: 'a vu_sys_scheme vu_lower) v)"

definition LowerOP_OPCODE :: "'a vu_sys_scheme vu_lower list" where
  "LowerOP_OPCODE =
    [MI_unknown_L, MI_unknown_L, MI_unknown_L, MI_unknown_L, MI_unknown_L, MI_unknown_L, MI_unknown_L,
     MI_unknown_L, MI_unknown_L, MI_unknown_L, MI_unknown_L, MI_unknown_L, MI_unknown_L, MI_unknown_L,
     MI_unknown_L, MI_unknown_L, MI_unknown_L, MI_unknown_L, MI_unknown_L, MI_unknown_L, MI_unknown_L,
     MI_unknown_L, MI_unknown_L, MI_unknown_L, MI_unknown_L, MI_unknown_L, MI_unknown_L, MI_unknown_L,
     MI_unknown_L, MI_unknown_L, MI_unknown_L, MI_unknown_L, MI_unknown_L, MI_unknown_L, MI_unknown_L,
     MI_unknown_L, MI_unknown_L, MI_unknown_L, MI_unknown_L, MI_unknown_L, MI_unknown_L, MI_unknown_L,
     MI_unknown_L, MI_unknown_L, MI_unknown_L, MI_unknown_L, MI_unknown_L, MI_unknown_L, MI_IADD, MI_ISUB,
     MI_IADDI, MI_unknown_L, MI_IAND, MI_IOR, MI_unknown_L, MI_unknown_L, MI_unknown_L, MI_unknown_L,
     MI_unknown_L, MI_unknown_L, LowerOP_T3_00, LowerOP_T3_01, LowerOP_T3_10, LowerOP_T3_11]"

definition LowerOP :: "'a vu_sys_scheme vu_lower" where
  "LowerOP =
     (\<lambda>env i s. fst (LowerOP_OPCODE ! unat (vcode (vuRegs s i) AND 0x3f)) env i s,
      \<lambda>v. snd (LowerOP_OPCODE ! unat (vcode v AND 0x3f) :: 'a vu_sys_scheme vu_lower) v)"

definition LOWER_OPCODE :: "'a vu_sys_scheme vu_lower list" where
  "LOWER_OPCODE =
    [MI_LQ, MI_SQ, MI_unknown_L, MI_unknown_L, MI_ILW, MI_ISW, MI_unknown_L, MI_unknown_L, MI_IADDIU, MI_ISUBIU,
     MI_unknown_L, MI_unknown_L, MI_unknown_L, MI_unknown_L, MI_unknown_L, MI_unknown_L, MI_FCEQ, MI_FCSET,
     MI_FCAND, MI_FCOR, MI_FSEQ, MI_FSSET, MI_FSAND, MI_FSOR, MI_FMEQ, MI_unknown_L, MI_FMAND, MI_FMOR, MI_FCGET,
     MI_unknown_L, MI_unknown_L, MI_unknown_L, MI_B, MI_BAL, MI_unknown_L, MI_unknown_L, MI_JR, MI_JALR,
     MI_unknown_L, MI_unknown_L, MI_IBEQ, MI_IBNE, MI_unknown_L, MI_unknown_L, MI_IBLTZ, MI_IBGTZ, MI_IBLEZ,
     MI_IBGEZ, MI_unknown_L, MI_unknown_L, MI_unknown_L, MI_unknown_L, MI_unknown_L, MI_unknown_L, MI_unknown_L,
     MI_unknown_L, MI_unknown_L, MI_unknown_L, MI_unknown_L, MI_unknown_L, MI_unknown_L, MI_unknown_L,
     MI_unknown_L, MI_unknown_L, LowerOP, MI_unknown_L, MI_unknown_L, MI_unknown_L, MI_unknown_L, MI_unknown_L,
     MI_unknown_L, MI_unknown_L, MI_unknown_L, MI_unknown_L, MI_unknown_L, MI_unknown_L, MI_unknown_L,
     MI_unknown_L, MI_unknown_L, MI_unknown_L, MI_unknown_L, MI_unknown_L, MI_unknown_L, MI_unknown_L,
     MI_unknown_L, MI_unknown_L, MI_unknown_L, MI_unknown_L, MI_unknown_L, MI_unknown_L, MI_unknown_L,
     MI_unknown_L, MI_unknown_L, MI_unknown_L, MI_unknown_L, MI_unknown_L, MI_unknown_L, MI_unknown_L,
     MI_unknown_L, MI_unknown_L, MI_unknown_L, MI_unknown_L, MI_unknown_L, MI_unknown_L, MI_unknown_L,
     MI_unknown_L, MI_unknown_L, MI_unknown_L, MI_unknown_L, MI_unknown_L, MI_unknown_L, MI_unknown_L,
     MI_unknown_L, MI_unknown_L, MI_unknown_L, MI_unknown_L, MI_unknown_L, MI_unknown_L, MI_unknown_L,
     MI_unknown_L, MI_unknown_L, MI_unknown_L, MI_unknown_L, MI_unknown_L, MI_unknown_L, MI_unknown_L,
     MI_unknown_L, MI_unknown_L]"

end
