(* ===== verification/Vu_Interp.thy ===== *)
theory Vu_Interp
  imports Vu_Tables
begin

text \<open>
  The interpreters of the vector units: one step executes a pair of instructions, the upper and
  the lower, with the hazards between the two (pcsx2/VU0microInterp.cpp and VU1microInterp.cpp),
  and the functions that start and run programs (VUmicro.cpp, VU0micro.cpp, VU1micro.cpp, and the
  synchronisation in VU0.cpp).
\<close>

unbundle bit_operations_syntax

abbreviation VIF0_STAT :: u32 where "VIF0_STAT \<equiv> 0x10003800"
abbreviation "VU0_PROGMASK \<equiv> (0xFFF :: u32)"
abbreviation "VU1_PROGMASK \<equiv> (0x3FFF :: u32)"

definition FBRST :: "'a vu_sys_scheme \<Rightarrow> u32" where "FBRST s = VI (vuRegs s VU0) REG_FBRST"
definition wFBRST :: "u32 \<Rightarrow> 'a vu_sys_scheme \<Rightarrow> 'a vu_sys_scheme" where "wFBRST v s = on_vu VU0 (wVI REG_FBRST v) s"

text \<open>\<open>ptr[0]\<close> and \<open>ptr[1]\<close>, the lower and the upper instruction at an address of the program.\<close>

definition micro_word :: "u32 \<Rightarrow> u32 \<Rightarrow> VURegs \<Rightarrow> u32" where "micro_word tpc k v = load_le 4 (vMicro v) (tpc + 4 * k)"

section \<open>A pair of instructions\<close>

definition vuExecUpper :: "'a vu_sys_scheme vu_env \<Rightarrow> vu_idx \<Rightarrow> u32 \<Rightarrow> 'a vu_sys_scheme \<Rightarrow> 'a vu_sys_scheme" where
  "vuExecUpper env i up s =
     on_vu i (\<lambda>v. fst (UPPER_OPCODE ! unat (up AND 0x3f)) (vu_host_of env) (v\<lparr>vcode := up\<rparr>)) s"

definition vuExecLower :: "'a vu_sys_scheme vu_env \<Rightarrow> vu_idx \<Rightarrow> u32 \<Rightarrow> 'a vu_sys_scheme \<Rightarrow> 'a vu_sys_scheme option" where
  "vuExecLower env i lo s = fst (LOWER_OPCODE ! unat (drop_bit 25 lo)) env i (on_vu i (\<lambda>v. v\<lparr>vcode := lo\<rparr>) s)"

text \<open>What the two instructions read and write.\<close>

definition upper_regs :: "'a vu_sys_scheme vu_env \<Rightarrow> u32 \<Rightarrow> VURegs \<Rightarrow> VURegsNum" where
  "upper_regs env up v = snd (UPPER_OPCODE ! unat (up AND 0x3f)) (v\<lparr>vcode := up\<rparr>) (stack_uregs env)"

definition lower_regs :: "'a vu_sys_scheme vu_env \<Rightarrow> u32 \<Rightarrow> VURegs \<Rightarrow> VURegsNum" where
  "lower_regs env lo v =
     snd (LOWER_OPCODE ! unat (drop_bit 25 lo) :: 'a vu_sys_scheme vu_lower) (v\<lparr>vcode := lo\<rparr>) ((stack_lregs env)\<lparr>rn_cycles := 0\<rparr>)"

text \<open>\<open>memset(&lregs, 0)\<close>, when the lower half of the pair is a float.\<close>

definition no_regs :: VURegsNum where
  "no_regs = \<lparr>rn_pipe = VUPIPE_NONE, VFwrite = 0, VFwxyzw = 0, VFr0xyzw = 0, VFr1xyzw = 0, VFread0 = 0, VFread1 = 0,
     VIwrite = 0, VIread = 0, rn_cycles = 0\<rparr>"

text \<open>The cycles this pair took age the integer register kept for branches.\<close>

definition age_backup :: "u32 \<Rightarrow> VURegs \<Rightarrow> VURegs" where
  "age_backup before v =
     (if VIBackupCycles v > 0
      then v\<lparr>VIBackupCycles := VIBackupCycles v - min (ucast (vcycle v - before)) (VIBackupCycles v)\<rparr> else v)"

text \<open>
  The hazards: the lower instruction is dropped when both write the same vector register or the
  clip flag, and it sees the old value of what the upper one writes.  \<open>clip\<close> says whether the upper
  instruction has to do with the clip flag.
\<close>

definition pair_discard :: "bool \<Rightarrow> VURegsNum \<Rightarrow> VURegsNum \<Rightarrow> bool" where
  "pair_discard clip u l \<longleftrightarrow> (VFwrite u \<noteq> 0 \<and> VFwrite l = VFwrite u) \<or> (clip \<and> bit (VIwrite l) 18)"
definition pair_vfreg :: "VURegsNum \<Rightarrow> VURegsNum \<Rightarrow> reg" where
  "pair_vfreg u l =
     (if VFwrite u \<noteq> 0 \<and> (VFread0 l = VFwrite u \<or> VFread1 l = VFwrite u) then ucast (VFwrite u) else 0)"
definition pair_vireg :: "bool \<Rightarrow> VURegsNum \<Rightarrow> reg" where
  "pair_vireg clip l = (if clip \<and> bit (VIread l) 18 then REG_CLIP_FLAG else 0)"

text \<open>The registers of \<open>w\<close> into \<open>v\<close>, where there are some to exchange.\<close>

definition exchange :: "reg \<Rightarrow> reg \<Rightarrow> VURegs \<Rightarrow> VURegs \<Rightarrow> VURegs" where
  "exchange vfreg vireg w v =
     (let v1 = (if vfreg \<noteq> 0 then v\<lparr>VF := (VF v)(vfreg := VF w vfreg)\<rparr> else v)
      in if vireg \<noteq> 0 then v1\<lparr>VI := (VI v1)(vireg := VI w vireg), VIpad := (VIpad v1)(vireg := VIpad w vireg)\<rparr> else v1)"

definition vuExecPair ::
    "'a vu_sys_scheme vu_env \<Rightarrow> vu_idx \<Rightarrow> bool \<Rightarrow> VURegsNum \<Rightarrow> VURegsNum \<Rightarrow> u32 \<Rightarrow> u32 \<Rightarrow> 'a vu_sys_scheme \<Rightarrow> 'a vu_sys_scheme option" where
  "vuExecPair env i clip u l up lo s =
     (let s1 = vuExecUpper env i up s
      in if pair_discard clip u l then Some s1
         else map_option (on_vu i (exchange (pair_vfreg u l) (pair_vireg clip l) (vuRegs s1 i)))
                (vuExecLower env i lo (on_vu i (exchange (pair_vfreg u l) (pair_vireg clip l) (vuRegs s i)) s1)))"

text \<open>The entries of the pair in the pipelines, and the end of the pair.\<close>

definition is_fmac :: "VURegsNum \<Rightarrow> VURegsNum \<Rightarrow> bool" where
  "is_fmac u l \<longleftrightarrow> rn_pipe u = VUPIPE_FMAC \<or> rn_pipe l = VUPIPE_FMAC"

definition pair_pipes :: "VURegsNum \<Rightarrow> VURegsNum \<Rightarrow> VURegs \<Rightarrow> VURegs" where
  "pair_pipes u l v = vuAddLowerStalls l (vuAddUpperStalls u (if is_fmac u l then vuClearFMAC v else v))"

definition fmac_advance :: "VURegsNum \<Rightarrow> VURegsNum \<Rightarrow> VURegs \<Rightarrow> VURegs" where
  "fmac_advance u l v = (if is_fmac u l then v\<lparr>fmacwritepos := (fmacwritepos v + 1) AND 3\<rparr> else v)"

text \<open>
  A branch is taken behind its delay slot; \<open>clear\<close> is what the first unit also does then.
\<close>

definition branch_step :: "(VURegs \<Rightarrow> VURegs) \<Rightarrow> VURegs \<Rightarrow> VURegs" where
  "branch_step clear v =
     (if vbranch v = 0 then v
      else (let v1 = v\<lparr>vbranch := vbranch v - 1\<rparr>
            in if vbranch v \<noteq> 1 then v1
               else (let v2 = clear (wVI REG_TPC (vbranchpc v1) v1)
                     in if vtakedelaybranch v2
                        then v2\<lparr>vbranch := 1, vbranchpc := vdelaybranchpc v2, vtakedelaybranch := False\<rparr> else v2)))"

text \<open>The end of a program, behind the delay slot of the instruction with the E flag.\<close>

definition ebit_step :: "vu_idx \<Rightarrow> ('a vu_sys_scheme \<Rightarrow> 'a vu_sys_scheme option) \<Rightarrow> 'a vu_sys_scheme \<Rightarrow> 'a vu_sys_scheme option" where
  "ebit_step i finish s =
     (if vebit (vuRegs s i) = 0 then Some s
      else (let s1 = on_vu i (\<lambda>v. v\<lparr>vebit := vebit v - 1\<rparr>) s
            in if vebit (vuRegs s i) = 1 then finish (on_vu i (\<lambda>v. vuFlushAll (v\<lparr>VIBackupCycles := 0\<rparr>)) s1) else Some s1))"

text \<open>The pair at the program counter, with the I flag a float in the lower half.\<close>

definition vuRunPair ::
    "'a vu_sys_scheme vu_env \<Rightarrow> vu_idx \<Rightarrow> (VURegsNum \<Rightarrow> bool) \<Rightarrow> u32 \<Rightarrow> u32 \<Rightarrow> 'a vu_sys_scheme \<Rightarrow>
      (VURegsNum \<times> VURegsNum \<times> 'a vu_sys_scheme) option" where
  "vuRunPair env i clip up lo s =
     (let u = upper_regs env up (vuRegs s i);
          before = vcycle (vuRegs s i) - 1;
          s1 = on_vu i (\<lambda>v. vuTestUpperStalls u (v\<lparr>vcode := up\<rparr>)) s
      in if bit up 31
         then (case vuTestPipes env i s1 of None \<Rightarrow> None
               | Some s2 \<Rightarrow> Some (u, no_regs, on_vu i (wVI REG_I lo) (vuExecUpper env i up (on_vu i (age_backup before) s2))))
         else (let l = lower_regs env lo (vuRegs s1 i);
                   s2 = on_vu i (\<lambda>v. vuTestLowerStalls l (v\<lparr>vcode := lo\<rparr>)) s1
               in case vuTestPipes env i s2 of None \<Rightarrow> None
                  | Some s3 \<Rightarrow> map_option (\<lambda>t. (u, l, t)) (vuExecPair env i (clip u) u l up lo (on_vu i (age_backup before) s3))))"

section \<open>The first unit\<close>

definition vu0_flags :: "u32 \<Rightarrow> 'a vu_sys_scheme \<Rightarrow> 'a vu_sys_scheme" where
  "vu0_flags up s =
     (let s1 = (if bit up 30 then on_vu VU0 (\<lambda>v. v\<lparr>vebit := 2\<rparr>) s else s);
          s2 = (if bit up 29 then on_vu VU0 (\<lambda>v. v\<lparr>vflags := vflags v OR 2, vblockhasmbit := True\<rparr>) s1 else s1);
          s3 = (if bit up 28 \<and> bit (FBRST s2) 2
                then on_vu VU0 (\<lambda>v. v\<lparr>vebit := 1\<rparr>) (hwIntcIrq 6 (wVPU_STAT (VPU_STAT s2 OR 0x2) s2)) else s2)
      in if bit up 27 \<and> bit (FBRST s3) 3
         then on_vu VU0 (\<lambda>v. v\<lparr>vebit := 1\<rparr>) (hwIntcIrq 6 (wVPU_STAT (VPU_STAT s3 OR 0x4) s3)) else s3)"

definition vu0_finish :: "'a vu_sys_scheme \<Rightarrow> 'a vu_sys_scheme option" where
  "vu0_finish s =
     (let s1 = wVPU_STAT (VPU_STAT s AND NOT 0x1) s
      in Some (on_vu VU0 (\<lambda>v. v\<lparr>vblockhasmbit := False\<rparr>) (wHu32 VIF0_STAT (psHu32 VIF0_STAT s1 AND NOT 0x4) s1)))"

definition vu0_Exec :: "'a vu_sys_scheme vu_env \<Rightarrow> 'a vu_sys_scheme \<Rightarrow> 'a vu_sys_scheme option" where
  "vu0_Exec env s =
     (let tpc = VI (vuRegs s VU0) REG_TPC;
          lo = micro_word tpc 0 (vuRegs s VU0);
          up = micro_word tpc 1 (vuRegs s VU0);
          s1 = vu0_flags up (on_vu VU0 (wVI REG_TPC (tpc + 8)) s)
      in case vuRunPair env VU0 (\<lambda>u. bit (VIread u) 18) up lo s1 of None \<Rightarrow> None
         | Some (u, l, s2) \<Rightarrow>
             map_option (on_vu VU0 (fmac_advance u l))
               (ebit_step VU0 vu0_finish
                 (on_vu VU0 (\<lambda>v. branch_step (\<lambda>v. v\<lparr>vblockhasmbit := False\<rparr>) (pair_pipes u l v)) s2)))"

definition vu0Exec :: "'a vu_sys_scheme vu_env \<Rightarrow> 'a vu_sys_scheme \<Rightarrow> 'a vu_sys_scheme option" where
  "vu0Exec env s =
     vu0_Exec env (on_vu VU0 (\<lambda>v. (wVI REG_TPC (VI v REG_TPC AND VU0_PROGMASK) v)\<lparr>vcycle := vcycle v + 1\<rparr>) s)"

definition InterpVU_Reset :: "VURegs \<Rightarrow> VURegs" where
  "InterpVU_Reset v = v\<lparr>fmacwritepos := 0, fmacreadpos := 0, fmaccount := 0, ialuwritepos := 0, ialureadpos := 0, ialucount := 0\<rparr>"

definition SetStartPC :: "u32 \<Rightarrow> VURegs \<Rightarrow> VURegs" where "SetStartPC startPC v = v\<lparr>vstart_pc := startPC\<rparr>"

text \<open>\<open>vuMemoryReserve::Reset\<close>, for one unit: its memories are cleared, and \<open>VF[0]\<close> becomes (0, 0, 0, 1).\<close>

definition vuMemReset :: "VURegs \<Rightarrow> VURegs" where
  "vuMemReset v =
     v\<lparr>vMem := \<lambda>_. 0, vMicro := \<lambda>_. 0, VACC := \<lambda>_. 0, VF := (\<lambda>_ _. 0)(0 := (\<lambda>_. 0)(LW := 0x3F800000)), VI := \<lambda>_. 0,
       VIpad := \<lambda>_ _. 0\<rparr>"

text \<open>A branch left over at the end of the program.\<close>

definition take_branch :: "VURegs \<Rightarrow> VURegs" where "take_branch v = (wVI REG_TPC (vbranchpc v) v)\<lparr>vbranch := 0\<rparr>"

fun vu0_loop :: "nat \<Rightarrow> 'a vu_sys_scheme vu_env \<Rightarrow> u32 \<Rightarrow> u32 \<Rightarrow> 'a vu_sys_scheme \<Rightarrow> 'a vu_sys_scheme option" where
  "vu0_loop 0 env startcycles cycles s = None"
| "vu0_loop (Suc n) env startcycles cycles s =
     (if \<not> vcycle (vuRegs s VU0) - startcycles < cycles then Some s
      else if \<not> bit (VPU_STAT s) 0
      then Some (if vbranch (vuRegs s VU0) \<noteq> 0 then on_vu VU0 take_branch s else s)
      else if bit (vflags (vuRegs s VU0)) 1 then Some s
      else (case vu0Exec env s of None \<Rightarrow> None | Some t \<Rightarrow> vu0_loop n env startcycles cycles t))"

definition execute_end :: "vu_idx \<Rightarrow> 'a vu_sys_scheme \<Rightarrow> 'a vu_sys_scheme" where
  "execute_end i s =
     on_vu i (\<lambda>v. (wVI REG_TPC (drop_bit 3 (VI v REG_TPC)) v)\<lparr>vnextBlockCycles := vcycle v - cycle s + 1\<rparr>) s"

definition vu0Execute :: "'a vu_sys_scheme vu_env \<Rightarrow> u32 \<Rightarrow> 'a vu_sys_scheme \<Rightarrow> 'a vu_sys_scheme option" where
  "vu0Execute env cycles s =
     (let s1 = on_vu VU0 (\<lambda>v. (wVI REG_TPC (push_bit 3 (VI v REG_TPC)) v)\<lparr>vflags := vflags v AND NOT 2\<rparr>) s
      in map_option (execute_end VU0) (vu0_loop (vu_fuel env) env (vcycle (vuRegs s1 VU0)) cycles s1))"

section \<open>The second unit\<close>

definition vu1_flags :: "u32 \<Rightarrow> 'a vu_sys_scheme \<Rightarrow> 'a vu_sys_scheme" where
  "vu1_flags up s =
     (let s1 = (if bit up 30 then on_vu VU1 (\<lambda>v. v\<lparr>vebit := 2\<rparr>) s else s);
          s2 = (if bit up 28 \<and> bit (FBRST s1) 10
                then on_vu VU1 (\<lambda>v. v\<lparr>vebit := 1\<rparr>) (hwIntcIrq 7 (wVPU_STAT (VPU_STAT s1 OR 0x200) s1)) else s1)
      in if bit up 27 \<and> bit (FBRST s2) 11
         then on_vu VU1 (\<lambda>v. v\<lparr>vebit := 1\<rparr>) (hwIntcIrq 7 (wVPU_STAT (VPU_STAT s2 OR 0x400) s2)) else s2)"

definition vu1_finish :: "'a vu_sys_scheme vu_env \<Rightarrow> 'a vu_sys_scheme \<Rightarrow> 'a vu_sys_scheme option" where
  "vu1_finish env s =
     (let s1 = wVPU_STAT (VPU_STAT s AND NOT 0x100) s;
          s2 = wHu32 VIF1_STAT (psHu32 VIF1_STAT s1 AND NOT 0x4) s1
      in map_option (\<lambda>t. if INSTANT_VU1 env then on_vu VU1 (\<lambda>v. v\<lparr>xgkicklastcycle := cycle t\<rparr>) t else t)
           (if xgkickenable (vuRegs s2 VU1) then vuXGKICKTransfer env 0 True s2 else Some s2))"

definition vu1_Exec :: "'a vu_sys_scheme vu_env \<Rightarrow> 'a vu_sys_scheme \<Rightarrow> 'a vu_sys_scheme option" where
  "vu1_Exec env s =
     (let tpc = VI (vuRegs s VU1) REG_TPC;
          lo = micro_word tpc 0 (vuRegs s VU1);
          up = micro_word tpc 1 (vuRegs s VU1);
          s1 = vu1_flags up (on_vu VU1 (wVI REG_TPC (tpc + 8)) s)
      in case vuRunPair env VU1 (\<lambda>u. bit (VIwrite u) 18) up lo s1 of None \<Rightarrow> None
         | Some (u, l, s2) \<Rightarrow>
             map_option (on_vu VU1 (fmac_advance u l))
               (ebit_step VU1 (vu1_finish env) (on_vu VU1 (\<lambda>v. branch_step (\<lambda>v. v) (pair_pipes u l v)) s2)))"

definition vu1Exec :: "'a vu_sys_scheme vu_env \<Rightarrow> 'a vu_sys_scheme \<Rightarrow> 'a vu_sys_scheme option" where
  "vu1Exec env s = vu1_Exec env (on_vu VU1 (\<lambda>v. v\<lparr>vcycle := vcycle v + 1\<rparr>) s)"

definition vu1Step :: "'a vu_sys_scheme vu_env \<Rightarrow> 'a vu_sys_scheme \<Rightarrow> 'a vu_sys_scheme option" where
  "vu1Step env s = vu1Exec env (on_vu VU1 (\<lambda>v. wVI REG_TPC (VI v REG_TPC AND VU1_PROGMASK) v) s)"

fun vu1_loop :: "nat \<Rightarrow> 'a vu_sys_scheme vu_env \<Rightarrow> u32 \<Rightarrow> u32 \<Rightarrow> 'a vu_sys_scheme \<Rightarrow> 'a vu_sys_scheme option" where
  "vu1_loop 0 env startcycles cycles s = None"
| "vu1_loop (Suc n) env startcycles cycles s =
     (if \<not> vcycle (vuRegs s VU1) - startcycles < cycles then Some s
      else if \<not> bit (VPU_STAT s) 8
      then Some (if vbranch (vuRegs s VU1) = 1 then on_vu VU1 take_branch s else s)
      else (case vu1Step env s of None \<Rightarrow> None | Some t \<Rightarrow> vu1_loop n env startcycles cycles t))"

definition vu1Execute :: "'a vu_sys_scheme vu_env \<Rightarrow> u32 \<Rightarrow> 'a vu_sys_scheme \<Rightarrow> 'a vu_sys_scheme option" where
  "vu1Execute env cycles s =
     (let s1 = on_vu VU1 (\<lambda>v. wVI REG_TPC (push_bit 3 (VI v REG_TPC)) v) s
      in map_option (execute_end VU1) (vu1_loop (vu_fuel env) env (vcycle (vuRegs s1 VU1)) cycles s1))"

section \<open>Running programs\<close>

definition CalculateMinRunCycles :: "u32 \<Rightarrow> bool \<Rightarrow> u32" where
  "CalculateMinRunCycles cycles requiresAccurateCycles = (if requiresAccurateCycles then cycles else max 16 cycles)"

fun vuExecute :: "'a vu_sys_scheme vu_env \<Rightarrow> vu_idx \<Rightarrow> u32 \<Rightarrow> 'a vu_sys_scheme \<Rightarrow> 'a vu_sys_scheme option" where
  "vuExecute env VU0 = vu0Execute env"
| "vuExecute env VU1 = vu1Execute env"

definition ExecuteBlock :: "'a vu_sys_scheme vu_env \<Rightarrow> vu_idx \<Rightarrow> bool \<Rightarrow> 'a vu_sys_scheme \<Rightarrow> 'a vu_sys_scheme option" where
  "ExecuteBlock env i startUp s =
     (if i = VU1 \<and> THREAD_VU1 env then Some (mtvu_Get_Changes env s)
      else if \<not> bit (VPU_STAT s) (if i = VU1 then 8 else 0) then Some s
      else if startUp then vuExecute env i (CalculateMinRunCycles 0 False) s
      else if 0 <s cycle s - vcycle (vuRegs s i)
      then vuExecute env i (CalculateMinRunCycles (cycle s - vcycle (vuRegs s i)) False) s
      else Some s)"

definition ExecuteBlockJIT :: "'a vu_sys_scheme vu_env \<Rightarrow> vu_idx \<Rightarrow> bool \<Rightarrow> 'a vu_sys_scheme \<Rightarrow> 'a vu_sys_scheme option" where
  "ExecuteBlockJIT env i interlocked s =
     (if bit (VPU_STAT s) 0 \<and> 0 <s cycle s - vcycle (vuRegs s VU0)
      then vuExecute env i (CalculateMinRunCycles (cycle s - vcycle (vuRegs s VU0)) interlocked) s
      else Some s)"

text \<open>\<open>_vu0run\<close>: the first unit until it ends, or until an instruction with the M flag.\<close>

fun vu0run_loop :: "nat \<Rightarrow> 'a vu_sys_scheme vu_env \<Rightarrow> bool \<Rightarrow> 'a vu_sys_scheme \<Rightarrow> 'a vu_sys_scheme option" where
  "vu0run_loop 0 env breakOnMbit s = None"
| "vu0run_loop (Suc n) env breakOnMbit s =
     (case vu0Execute env 0x7fffffff s of None \<Rightarrow> None
      | Some t \<Rightarrow>
          if bit (VPU_STAT t) 0 \<and> (\<not> breakOnMbit \<or> \<not> bit (vflags (vuRegs t VU0)) 1 \<or> 0 <s cycle t - vcycle (vuRegs t VU0))
          then vu0run_loop n env breakOnMbit t else Some t)"

definition vu0run :: "'a vu_sys_scheme vu_env \<Rightarrow> bool \<Rightarrow> bool \<Rightarrow> 'a vu_sys_scheme \<Rightarrow> 'a vu_sys_scheme option" where
  "vu0run env breakOnMbit addCycles s =
     (if \<not> bit (VPU_STAT s) 0 then Some s
      else if bit (vflags (vuRegs s VU0)) 1 \<and> breakOnMbit \<and> cycle s - vcycle (vuRegs s VU0) <=s 0
      then Some (s\<lparr>cycle := vcycle (vuRegs s VU0)\<rparr>)
      else (case vu0run_loop (vu_fuel env) env breakOnMbit s of None \<Rightarrow> None
            | Some t \<Rightarrow>
                if \<not> addCycles then Some t
                else map_option (\<lambda>r. if bit (VPU_STAT r) 0 then cpuSetNextEventDelta 4 r else r)
                       (ExecuteBlock env VU1 False (t\<lparr>cycle := cycle t + (vcycle (vuRegs t VU0) - cycle s)\<rparr>))))"

definition vu0WaitMicro :: "'a vu_sys_scheme vu_env \<Rightarrow> 'a vu_sys_scheme \<Rightarrow> 'a vu_sys_scheme option" where
  "vu0WaitMicro env = vu0run env True True"
definition vu0FinishMicro :: "'a vu_sys_scheme vu_env \<Rightarrow> 'a vu_sys_scheme \<Rightarrow> 'a vu_sys_scheme option" where
  "vu0FinishMicro env = vu0run env False True"
definition vu0Finish :: "'a vu_sys_scheme vu_env \<Rightarrow> 'a vu_sys_scheme \<Rightarrow> 'a vu_sys_scheme option" where
  "vu0Finish env = vu0run env False False"

definition vu0ResetRegs :: "'a vu_sys_scheme \<Rightarrow> 'a vu_sys_scheme" where
  "vu0ResetRegs s =
     (let s1 = wVPU_STAT (VPU_STAT s AND NOT 0xff) s;
          s2 = wFBRST (FBRST s1 AND NOT 0xff) s1
      in wHu32 VIF0_STAT (psHu32 VIF0_STAT s2 AND NOT 0x4) s2)"

definition vu0DenormalizeMicroStatus :: "u32 \<Rightarrow> u32" where
  "vu0DenormalizeMicroStatus nstatus =
     (drop_bit 3 nstatus AND 0x18) OR (drop_bit 11 nstatus AND 0x1800) OR (drop_bit 14 nstatus AND 0x3cf0000)"

text \<open>\<open>addr\<close> is the address in the argument, 32 bits wide, where all ones stand for no address.\<close>

definition vu0ExecMicro :: "'a vu_sys_scheme vu_env \<Rightarrow> u32 \<Rightarrow> 'a vu_sys_scheme \<Rightarrow> 'a vu_sys_scheme option" where
  "vu0ExecMicro env addr s =
     (case (if bit (VPU_STAT s) 0 then vu0Finish env s else Some s) of None \<Rightarrow> None
      | Some s1 \<Rightarrow>
          (let s2 = on_vu VU0 (\<lambda>v. v\<lparr>vclipflag := VI v REG_CLIP_FLAG, vmacflag := VI v REG_MAC_FLAG, vstatusflag := VI v REG_STATUS_FLAG,
                      vmicro_clipflags := VI v REG_CLIP_FLAG, vmicro_macflags := VI v REG_MAC_FLAG,
                      vmicro_statusflags := vu0DenormalizeMicroStatus (VI v REG_STATUS_FLAG)\<rparr>) s1;
               s3 = wVPU_STAT ((VPU_STAT s2 AND NOT 0xFF) OR 0x01) s2;
               s4 = on_vu VU0 (\<lambda>v. let w = v\<lparr>vcycle := cycle s3\<rparr>
                      in if addr \<noteq> 0xFFFFFFFF then wVI REG_TPC (addr AND 0x1FF) w else w) s3
           in ExecuteBlock env VU0 True (on_vu VU0 (\<lambda>v. SetStartPC (push_bit 3 (VI v REG_TPC)) v) s4)))"

definition vu1ResetRegs :: "'a vu_sys_scheme \<Rightarrow> 'a vu_sys_scheme" where
  "vu1ResetRegs s =
     (let s1 = wVPU_STAT (VPU_STAT s AND NOT 0xff00) s;
          s2 = wFBRST (FBRST s1 AND NOT 0xff00) s1
      in wHu32 VIF1_STAT (psHu32 VIF1_STAT s2 AND NOT 0x4) s2)"

abbreviation "vu1RunCycles \<equiv> (3000000 :: u32)"

definition vu1Finish :: "'a vu_sys_scheme vu_env \<Rightarrow> bool \<Rightarrow> 'a vu_sys_scheme \<Rightarrow> 'a vu_sys_scheme option" where
  "vu1Finish env add_cycles s =
     (if THREAD_VU1 env then Some (mtvu_Get_Changes env (mtvu_WaitVU env s))
      else (case (if bit (VPU_STAT s) 8 then vu1Execute env vu1RunCycles s else Some s) of None \<Rightarrow> None
            | Some t \<Rightarrow>
                (let t1 = (if bit (VPU_STAT t) 8 then wVPU_STAT (VPU_STAT t AND NOT 0x100) t else t)
                 in Some (if add_cycles then t1\<lparr>cycle := cycle t1 + (vcycle (vuRegs t1 VU1) - vcycle (vuRegs s VU1))\<rparr> else t1))))"

definition vu1ExecMicro :: "'a vu_sys_scheme vu_env \<Rightarrow> u32 \<Rightarrow> 'a vu_sys_scheme \<Rightarrow> 'a vu_sys_scheme option" where
  "vu1ExecMicro env addr s =
     (if THREAD_VU1 env
      then (let s1 = wVPU_STAT (VPU_STAT s AND NOT 0xFF00) s;
                s2 = (if bit (FBRST s1) 11 then wVPU_STAT (VPU_STAT s1 OR 0x0100) s1 else s1)
            in Some (mtvu_ExecuteVU env addr (psHu32 0x10003CE0 s2) (psHu32 0x10003CD0 s2) (FBRST s2) s2))
      else (case vu1Finish env False s of None \<Rightarrow> None
            | Some s1 \<Rightarrow>
                (let s2 = on_vu VU1 (\<lambda>v. v\<lparr>vcycle := cycle s1\<rparr>) s1;
                     s3 = wVPU_STAT ((VPU_STAT s2 AND NOT 0xFF00) OR 0x0100) s2;
                     s4 = (if addr \<noteq> 0xFFFFFFFF then on_vu VU1 (wVI REG_TPC (addr AND 0x7FF)) s3 else s3);
                     s5 = on_vu VU1 (\<lambda>v. SetStartPC (push_bit 3 (VI v REG_TPC)) v) s4
                 in if \<not> INSTANT_VU1 env then ExecuteBlock env VU1 True s5 else vu1Execute env vu1RunCycles s5)))"

end
