(* ===== verification/Vu_Macro.thy ===== *)
theory Vu_Macro
  imports Vu_Interp
begin

text \<open>
  The first vector unit as the second coprocessor of the main processor: the moves between the
  two (pcsx2/VU0.cpp), the calls of programs and the branches (COP2.cpp), the macro
  instructions (the end of VUops.cpp), and the tables of the interpreter
  (R5900OpcodeTables.cpp).  \<open>None\<close> is a program of the unit that has not ended within the fuel.
\<close>

unbundle bit_operations_syntax

section \<open>Operations of the coprocessor\<close>

type_synonym 's cop2_op = "'s ee_env \<Rightarrow> 's vu_env \<Rightarrow> 's \<Rightarrow> ('s, unit) res option"

definition COP2_Unknown :: "'a vu_sys_scheme cop2_op" where "COP2_Unknown ee env s = Some (Ok () s)"

text \<open>The four words of a vector register as the storage of a general register.\<close>

definition vec128 :: "VECTOR \<Rightarrow> u128" where
  "vec128 f = fold (\<lambda>n. set_lane n (f (lane_of (of_nat n)))) [0..<4] 0"
definition of_128 :: "u128 \<Rightarrow> VECTOR" where "of_128 q l = lane (unat (lane_no l)) q"

definition wVFq :: "reg \<Rightarrow> u128 \<Rightarrow> VURegs \<Rightarrow> VURegs" where "wVFq r q v = v\<lparr>VF := (VF v)(r := of_128 q)\<rparr>"

definition LQC2 :: "'a vu_sys_scheme devs \<Rightarrow> 'a vu_sys_scheme \<Rightarrow> ('a vu_sys_scheme, unit) res" where
  "LQC2 d s =
     res_bind (memRead128 d (ea s) s) (\<lambda>v s1. Ok () (if Rt s1 \<noteq> 0 then on_vu VU0 (wVFq (Rt s1) v) s1 else s1))"

definition SQC2 :: "'a vu_sys_scheme devs \<Rightarrow> 'a vu_sys_scheme \<Rightarrow> ('a vu_sys_scheme, unit) res" where
  "SQC2 d s = memWrite128 d (ea s) (vec128 (VF (vuRegs s VU0) (Rt s))) s"

text \<open>The interlock: bit 0 of the code waits for the unit.\<close>

definition interlock ::
    "('a vu_sys_scheme vu_env \<Rightarrow> 'a vu_sys_scheme \<Rightarrow> 'a vu_sys_scheme option) \<Rightarrow> ('a vu_sys_scheme \<Rightarrow> 'a vu_sys_scheme option) \<Rightarrow>
      'a vu_sys_scheme cop2_op" where
  "interlock wait f ee env s =
     (case (if bit (code s) 0 then wait env s else Some s) of None \<Rightarrow> None
      | Some s1 \<Rightarrow> map_option (Ok ()) (f s1))"

definition QMFC2 :: "'a vu_sys_scheme cop2_op" where
  "QMFC2 = interlock vu0FinishMicro
     (\<lambda>s. Some (if Rt s = 0 then s else wGPR (Rt s) (vec128 (VF (vuRegs s VU0) (Rd s))) s))"

definition QMTC2 :: "'a vu_sys_scheme cop2_op" where
  "QMTC2 = interlock vu0WaitMicro
     (\<lambda>s. Some (if Rd s = 0 then s else on_vu VU0 (wVFq (Rd s) (GPR s (Rt s))) s))"

definition CFC2 :: "'a vu_sys_scheme cop2_op" where
  "CFC2 = interlock vu0FinishMicro
     (\<lambda>s. Some (if Rt s = 0 then s
        else (let x = VI (vuRegs s VU0) (Rd s)
              in wUL (Rt s) 1 (if x AND 0x80000000 \<noteq> 0 then 0xffffffff else 0) (wUL (Rt s) 0 x s))))"

definition write_FBRST :: "u32 \<Rightarrow> 'a vu_sys_scheme \<Rightarrow> 'a vu_sys_scheme" where
  "write_FBRST x s =
     (let s1 = wFBRST (x AND 0x0C0C) s;
          s2 = (if bit x 1 then vu0ResetRegs s1 else s1)
      in if bit x 9 then vu1ResetRegs s2 else s2)"

definition CTC2_write :: "'a vu_sys_scheme vu_env \<Rightarrow> 'a vu_sys_scheme \<Rightarrow> 'a vu_sys_scheme option" where
  "CTC2_write env s =
     (let r = Rd s; x = lane 0 (GPR s (Rt s)) :: u32
      in if r = 0 then Some s
         else if r = REG_MAC_FLAG \<or> r = REG_TPC \<or> r = REG_VPU_STAT then Some s
         else if r = REG_FBRST then Some (write_FBRST x s)
         else if r = REG_CMSAR1
         then (case vu1Finish env True s of None \<Rightarrow> None
               | Some s1 \<Rightarrow> vu1ExecMicro env (ucast (lane 0 (GPR s1 (Rt s1)) :: u16)) s1)
         else Some (on_vu VU0 (wVI r x) s))"

definition CTC2 :: "'a vu_sys_scheme cop2_op" where
  "CTC2 ee env s = interlock vu0WaitMicro (CTC2_write env) ee env s"

definition VCALLMS :: "'a vu_sys_scheme cop2_op" where
  "VCALLMS ee env s =
     (case vu0Finish env s of None \<Rightarrow> None
      | Some s1 \<Rightarrow> map_option (Ok ()) (vu0ExecMicro env (drop_bit 6 (code s1) AND 0x7FFF) s1))"

definition VCALLMSR :: "'a vu_sys_scheme cop2_op" where
  "VCALLMSR ee env s =
     (case vu0Finish env s of None \<Rightarrow> None
      | Some s1 \<Rightarrow> map_option (Ok ()) (vu0ExecMicro env (ucast (VI16 (vuRegs s1 VU0) REG_CMSAR0)) s1))"

definition CP2COND :: "'a vu_sys_scheme \<Rightarrow> bool" where "CP2COND s = bit (VPU_STAT s) 8"

definition BC2F :: "'a vu_sys_scheme cop2_op" where
  "BC2F ee env s = Some (if \<not> CP2COND s then intDoBranch ee (BranchTarget s) s else Ok () s)"
definition BC2T :: "'a vu_sys_scheme cop2_op" where
  "BC2T ee env s = Some (if CP2COND s then intDoBranch ee (BranchTarget s) s else Ok () s)"
definition BC2FL :: "'a vu_sys_scheme cop2_op" where
  "BC2FL ee env s = Some (if \<not> CP2COND s then intDoBranch ee (BranchTarget s) s else Ok () (s\<lparr>pc := pc s + 4\<rparr>))"
definition BC2TL :: "'a vu_sys_scheme cop2_op" where
  "BC2TL ee env s = Some (if CP2COND s then intDoBranch ee (BranchTarget s) s else Ok () (s\<lparr>pc := pc s + 4\<rparr>))"

section \<open>Macro instructions\<close>

definition SYNCMSFLAGS :: "VURegs \<Rightarrow> VURegs" where
  "SYNCMSFLAGS v =
     wVI REG_MAC_FLAG (vmacflag v)
       (wVI REG_STATUS_FLAG ((VI v REG_STATUS_FLAG AND 0xC30) OR (vstatusflag v AND 0xF) OR push_bit 6 (vstatusflag v AND 0xF)) v)"
definition SYNCCLIPFLAG :: "VURegs \<Rightarrow> VURegs" where "SYNCCLIPFLAG v = wVI REG_CLIP_FLAG (vclipflag v) v"
definition SYNCSTATUSFLAG :: "VURegs \<Rightarrow> VURegs" where
  "SYNCSTATUSFLAG v = wVI REG_STATUS_FLAG ((VI v REG_STATUS_FLAG AND 0x3F) OR (vstatusflag v AND 0xFC0)) v"
definition SYNCFDIV :: "VURegs \<Rightarrow> VURegs" where
  "SYNCFDIV v =
     wVI REG_STATUS_FLAG ((VI v REG_STATUS_FLAG AND 0x3CF) OR (vstatusflag v AND 0x30) OR push_bit 6 (vstatusflag v AND 0x30))
       (wVI REG_Q (vq v) v)"

text \<open>The code of the main processor's instruction is that of the unit's.\<close>

definition macro_V :: "(VURegs \<Rightarrow> VURegs) \<Rightarrow> 'a vu_sys_scheme \<Rightarrow> ('a vu_sys_scheme, unit) res option" where
  "macro_V f s = Some (Ok () (on_vu VU0 (\<lambda>v. f (v\<lparr>vcode := code s\<rparr>)) s))"
definition macro_S :: "('a vu_sys_scheme \<Rightarrow> 'a vu_sys_scheme) \<Rightarrow> 'a vu_sys_scheme \<Rightarrow> ('a vu_sys_scheme, unit) res option" where
  "macro_S f s = Some (Ok () (f (on_vu VU0 (\<lambda>v. v\<lparr>vcode := code s\<rparr>) s)))"

definition VABS :: "'a vu_sys_scheme cop2_op" where "VABS ee env = macro_V (\<lambda>v. vuABS (vu_host_of env) v)"
definition VADD :: "'a vu_sys_scheme cop2_op" where "VADD ee env = macro_V (\<lambda>v. SYNCMSFLAGS (vuADD (vu_host_of env) v))"
definition VADDi :: "'a vu_sys_scheme cop2_op" where "VADDi ee env = macro_V (\<lambda>v. SYNCMSFLAGS (vuADDi (vu_host_of env) v))"
definition VADDq :: "'a vu_sys_scheme cop2_op" where "VADDq ee env = macro_V (\<lambda>v. SYNCMSFLAGS (vuADDq (vu_host_of env) v))"
definition VADDx :: "'a vu_sys_scheme cop2_op" where "VADDx ee env = macro_V (\<lambda>v. SYNCMSFLAGS (vuADDx (vu_host_of env) v))"
definition VADDy :: "'a vu_sys_scheme cop2_op" where "VADDy ee env = macro_V (\<lambda>v. SYNCMSFLAGS (vuADDy (vu_host_of env) v))"
definition VADDz :: "'a vu_sys_scheme cop2_op" where "VADDz ee env = macro_V (\<lambda>v. SYNCMSFLAGS (vuADDz (vu_host_of env) v))"
definition VADDw :: "'a vu_sys_scheme cop2_op" where "VADDw ee env = macro_V (\<lambda>v. SYNCMSFLAGS (vuADDw (vu_host_of env) v))"
definition VADDA :: "'a vu_sys_scheme cop2_op" where "VADDA ee env = macro_V (\<lambda>v. SYNCMSFLAGS (vuADDA (vu_host_of env) v))"
definition VADDAi :: "'a vu_sys_scheme cop2_op" where "VADDAi ee env = macro_V (\<lambda>v. SYNCMSFLAGS (vuADDAi (vu_host_of env) v))"
definition VADDAq :: "'a vu_sys_scheme cop2_op" where "VADDAq ee env = macro_V (\<lambda>v. SYNCMSFLAGS (vuADDAq (vu_host_of env) v))"
definition VADDAx :: "'a vu_sys_scheme cop2_op" where "VADDAx ee env = macro_V (\<lambda>v. SYNCMSFLAGS (vuADDAx (vu_host_of env) v))"
definition VADDAy :: "'a vu_sys_scheme cop2_op" where "VADDAy ee env = macro_V (\<lambda>v. SYNCMSFLAGS (vuADDAy (vu_host_of env) v))"
definition VADDAz :: "'a vu_sys_scheme cop2_op" where "VADDAz ee env = macro_V (\<lambda>v. SYNCMSFLAGS (vuADDAz (vu_host_of env) v))"
definition VADDAw :: "'a vu_sys_scheme cop2_op" where "VADDAw ee env = macro_V (\<lambda>v. SYNCMSFLAGS (vuADDAw (vu_host_of env) v))"
definition VSUB :: "'a vu_sys_scheme cop2_op" where "VSUB ee env = macro_V (\<lambda>v. SYNCMSFLAGS (vuSUB (vu_host_of env) v))"
definition VSUBi :: "'a vu_sys_scheme cop2_op" where "VSUBi ee env = macro_V (\<lambda>v. SYNCMSFLAGS (vuSUBi (vu_host_of env) v))"
definition VSUBq :: "'a vu_sys_scheme cop2_op" where "VSUBq ee env = macro_V (\<lambda>v. SYNCMSFLAGS (vuSUBq (vu_host_of env) v))"
definition VSUBx :: "'a vu_sys_scheme cop2_op" where "VSUBx ee env = macro_V (\<lambda>v. SYNCMSFLAGS (vuSUBx (vu_host_of env) v))"
definition VSUBy :: "'a vu_sys_scheme cop2_op" where "VSUBy ee env = macro_V (\<lambda>v. SYNCMSFLAGS (vuSUBy (vu_host_of env) v))"
definition VSUBz :: "'a vu_sys_scheme cop2_op" where "VSUBz ee env = macro_V (\<lambda>v. SYNCMSFLAGS (vuSUBz (vu_host_of env) v))"
definition VSUBw :: "'a vu_sys_scheme cop2_op" where "VSUBw ee env = macro_V (\<lambda>v. SYNCMSFLAGS (vuSUBw (vu_host_of env) v))"
definition VSUBA :: "'a vu_sys_scheme cop2_op" where "VSUBA ee env = macro_V (\<lambda>v. SYNCMSFLAGS (vuSUBA (vu_host_of env) v))"
definition VSUBAi :: "'a vu_sys_scheme cop2_op" where "VSUBAi ee env = macro_V (\<lambda>v. SYNCMSFLAGS (vuSUBAi (vu_host_of env) v))"
definition VSUBAq :: "'a vu_sys_scheme cop2_op" where "VSUBAq ee env = macro_V (\<lambda>v. SYNCMSFLAGS (vuSUBAq (vu_host_of env) v))"
definition VSUBAx :: "'a vu_sys_scheme cop2_op" where "VSUBAx ee env = macro_V (\<lambda>v. SYNCMSFLAGS (vuSUBAx (vu_host_of env) v))"
definition VSUBAy :: "'a vu_sys_scheme cop2_op" where "VSUBAy ee env = macro_V (\<lambda>v. SYNCMSFLAGS (vuSUBAy (vu_host_of env) v))"
definition VSUBAz :: "'a vu_sys_scheme cop2_op" where "VSUBAz ee env = macro_V (\<lambda>v. SYNCMSFLAGS (vuSUBAz (vu_host_of env) v))"
definition VSUBAw :: "'a vu_sys_scheme cop2_op" where "VSUBAw ee env = macro_V (\<lambda>v. SYNCMSFLAGS (vuSUBAw (vu_host_of env) v))"
definition VMUL :: "'a vu_sys_scheme cop2_op" where "VMUL ee env = macro_V (\<lambda>v. SYNCMSFLAGS (vuMUL (vu_host_of env) v))"
definition VMULi :: "'a vu_sys_scheme cop2_op" where "VMULi ee env = macro_V (\<lambda>v. SYNCMSFLAGS (vuMULi (vu_host_of env) v))"
definition VMULq :: "'a vu_sys_scheme cop2_op" where "VMULq ee env = macro_V (\<lambda>v. SYNCMSFLAGS (vuMULq (vu_host_of env) v))"
definition VMULx :: "'a vu_sys_scheme cop2_op" where "VMULx ee env = macro_V (\<lambda>v. SYNCMSFLAGS (vuMULx (vu_host_of env) v))"
definition VMULy :: "'a vu_sys_scheme cop2_op" where "VMULy ee env = macro_V (\<lambda>v. SYNCMSFLAGS (vuMULy (vu_host_of env) v))"
definition VMULz :: "'a vu_sys_scheme cop2_op" where "VMULz ee env = macro_V (\<lambda>v. SYNCMSFLAGS (vuMULz (vu_host_of env) v))"
definition VMULw :: "'a vu_sys_scheme cop2_op" where "VMULw ee env = macro_V (\<lambda>v. SYNCMSFLAGS (vuMULw (vu_host_of env) v))"
definition VMULA :: "'a vu_sys_scheme cop2_op" where "VMULA ee env = macro_V (\<lambda>v. SYNCMSFLAGS (vuMULA (vu_host_of env) v))"
definition VMULAi :: "'a vu_sys_scheme cop2_op" where "VMULAi ee env = macro_V (\<lambda>v. SYNCMSFLAGS (vuMULAi (vu_host_of env) v))"
definition VMULAq :: "'a vu_sys_scheme cop2_op" where "VMULAq ee env = macro_V (\<lambda>v. SYNCMSFLAGS (vuMULAq (vu_host_of env) v))"
definition VMULAx :: "'a vu_sys_scheme cop2_op" where "VMULAx ee env = macro_V (\<lambda>v. SYNCMSFLAGS (vuMULAx (vu_host_of env) v))"
definition VMULAy :: "'a vu_sys_scheme cop2_op" where "VMULAy ee env = macro_V (\<lambda>v. SYNCMSFLAGS (vuMULAy (vu_host_of env) v))"
definition VMULAz :: "'a vu_sys_scheme cop2_op" where "VMULAz ee env = macro_V (\<lambda>v. SYNCMSFLAGS (vuMULAz (vu_host_of env) v))"
definition VMULAw :: "'a vu_sys_scheme cop2_op" where "VMULAw ee env = macro_V (\<lambda>v. SYNCMSFLAGS (vuMULAw (vu_host_of env) v))"
definition VMADD :: "'a vu_sys_scheme cop2_op" where "VMADD ee env = macro_V (\<lambda>v. SYNCMSFLAGS (vuMADD (vu_host_of env) v))"
definition VMADDi :: "'a vu_sys_scheme cop2_op" where "VMADDi ee env = macro_V (\<lambda>v. SYNCMSFLAGS (vuMADDi (vu_host_of env) v))"
definition VMADDq :: "'a vu_sys_scheme cop2_op" where "VMADDq ee env = macro_V (\<lambda>v. SYNCMSFLAGS (vuMADDq (vu_host_of env) v))"
definition VMADDx :: "'a vu_sys_scheme cop2_op" where "VMADDx ee env = macro_V (\<lambda>v. SYNCMSFLAGS (vuMADDx (vu_host_of env) v))"
definition VMADDy :: "'a vu_sys_scheme cop2_op" where "VMADDy ee env = macro_V (\<lambda>v. SYNCMSFLAGS (vuMADDy (vu_host_of env) v))"
definition VMADDz :: "'a vu_sys_scheme cop2_op" where "VMADDz ee env = macro_V (\<lambda>v. SYNCMSFLAGS (vuMADDz (vu_host_of env) v))"
definition VMADDw :: "'a vu_sys_scheme cop2_op" where "VMADDw ee env = macro_V (\<lambda>v. SYNCMSFLAGS (vuMADDw (vu_host_of env) v))"
definition VMADDA :: "'a vu_sys_scheme cop2_op" where "VMADDA ee env = macro_V (\<lambda>v. SYNCMSFLAGS (vuMADDA (vu_host_of env) v))"
definition VMADDAi :: "'a vu_sys_scheme cop2_op" where "VMADDAi ee env = macro_V (\<lambda>v. SYNCMSFLAGS (vuMADDAi (vu_host_of env) v))"
definition VMADDAq :: "'a vu_sys_scheme cop2_op" where "VMADDAq ee env = macro_V (\<lambda>v. SYNCMSFLAGS (vuMADDAq (vu_host_of env) v))"
definition VMADDAx :: "'a vu_sys_scheme cop2_op" where "VMADDAx ee env = macro_V (\<lambda>v. SYNCMSFLAGS (vuMADDAx (vu_host_of env) v))"
definition VMADDAy :: "'a vu_sys_scheme cop2_op" where "VMADDAy ee env = macro_V (\<lambda>v. SYNCMSFLAGS (vuMADDAy (vu_host_of env) v))"
definition VMADDAz :: "'a vu_sys_scheme cop2_op" where "VMADDAz ee env = macro_V (\<lambda>v. SYNCMSFLAGS (vuMADDAz (vu_host_of env) v))"
definition VMADDAw :: "'a vu_sys_scheme cop2_op" where "VMADDAw ee env = macro_V (\<lambda>v. SYNCMSFLAGS (vuMADDAw (vu_host_of env) v))"
definition VMSUB :: "'a vu_sys_scheme cop2_op" where "VMSUB ee env = macro_V (\<lambda>v. SYNCMSFLAGS (vuMSUB (vu_host_of env) v))"
definition VMSUBi :: "'a vu_sys_scheme cop2_op" where "VMSUBi ee env = macro_V (\<lambda>v. SYNCMSFLAGS (vuMSUBi (vu_host_of env) v))"
definition VMSUBq :: "'a vu_sys_scheme cop2_op" where "VMSUBq ee env = macro_V (\<lambda>v. SYNCMSFLAGS (vuMSUBq (vu_host_of env) v))"
definition VMSUBx :: "'a vu_sys_scheme cop2_op" where "VMSUBx ee env = macro_V (\<lambda>v. SYNCMSFLAGS (vuMSUBx (vu_host_of env) v))"
definition VMSUBy :: "'a vu_sys_scheme cop2_op" where "VMSUBy ee env = macro_V (\<lambda>v. SYNCMSFLAGS (vuMSUBy (vu_host_of env) v))"
definition VMSUBz :: "'a vu_sys_scheme cop2_op" where "VMSUBz ee env = macro_V (\<lambda>v. SYNCMSFLAGS (vuMSUBz (vu_host_of env) v))"
definition VMSUBw :: "'a vu_sys_scheme cop2_op" where "VMSUBw ee env = macro_V (\<lambda>v. SYNCMSFLAGS (vuMSUBw (vu_host_of env) v))"
definition VMSUBA :: "'a vu_sys_scheme cop2_op" where "VMSUBA ee env = macro_V (\<lambda>v. SYNCMSFLAGS (vuMSUBA (vu_host_of env) v))"
definition VMSUBAi :: "'a vu_sys_scheme cop2_op" where "VMSUBAi ee env = macro_V (\<lambda>v. SYNCMSFLAGS (vuMSUBAi (vu_host_of env) v))"
definition VMSUBAq :: "'a vu_sys_scheme cop2_op" where "VMSUBAq ee env = macro_V (\<lambda>v. SYNCMSFLAGS (vuMSUBAq (vu_host_of env) v))"
definition VMSUBAx :: "'a vu_sys_scheme cop2_op" where "VMSUBAx ee env = macro_V (\<lambda>v. SYNCMSFLAGS (vuMSUBAx (vu_host_of env) v))"
definition VMSUBAy :: "'a vu_sys_scheme cop2_op" where "VMSUBAy ee env = macro_V (\<lambda>v. SYNCMSFLAGS (vuMSUBAy (vu_host_of env) v))"
definition VMSUBAz :: "'a vu_sys_scheme cop2_op" where "VMSUBAz ee env = macro_V (\<lambda>v. SYNCMSFLAGS (vuMSUBAz (vu_host_of env) v))"
definition VMSUBAw :: "'a vu_sys_scheme cop2_op" where "VMSUBAw ee env = macro_V (\<lambda>v. SYNCMSFLAGS (vuMSUBAw (vu_host_of env) v))"
definition VMAX :: "'a vu_sys_scheme cop2_op" where "VMAX ee env = macro_V vuMAX"
definition VMAXi :: "'a vu_sys_scheme cop2_op" where "VMAXi ee env = macro_V vuMAXi"
definition VMAXx :: "'a vu_sys_scheme cop2_op" where "VMAXx ee env = macro_V vuMAXx"
definition VMAXy :: "'a vu_sys_scheme cop2_op" where "VMAXy ee env = macro_V vuMAXy"
definition VMAXz :: "'a vu_sys_scheme cop2_op" where "VMAXz ee env = macro_V vuMAXz"
definition VMAXw :: "'a vu_sys_scheme cop2_op" where "VMAXw ee env = macro_V vuMAXw"
definition VMINI :: "'a vu_sys_scheme cop2_op" where "VMINI ee env = macro_V vuMINI"
definition VMINIi :: "'a vu_sys_scheme cop2_op" where "VMINIi ee env = macro_V vuMINIi"
definition VMINIx :: "'a vu_sys_scheme cop2_op" where "VMINIx ee env = macro_V vuMINIx"
definition VMINIy :: "'a vu_sys_scheme cop2_op" where "VMINIy ee env = macro_V vuMINIy"
definition VMINIz :: "'a vu_sys_scheme cop2_op" where "VMINIz ee env = macro_V vuMINIz"
definition VMINIw :: "'a vu_sys_scheme cop2_op" where "VMINIw ee env = macro_V vuMINIw"
definition VOPMULA :: "'a vu_sys_scheme cop2_op" where "VOPMULA ee env = macro_V (\<lambda>v. SYNCMSFLAGS (vuOPMULA (vu_host_of env) v))"
definition VOPMSUB :: "'a vu_sys_scheme cop2_op" where "VOPMSUB ee env = macro_V (\<lambda>v. SYNCMSFLAGS (vuOPMSUB (vu_host_of env) v))"
definition VNOP :: "'a vu_sys_scheme cop2_op" where "VNOP ee env = macro_V vuNOP"
definition VFTOI0 :: "'a vu_sys_scheme cop2_op" where "VFTOI0 ee env = macro_V (\<lambda>v. vuFTOI0 (vu_host_of env) v)"
definition VFTOI4 :: "'a vu_sys_scheme cop2_op" where "VFTOI4 ee env = macro_V (\<lambda>v. vuFTOI4 (vu_host_of env) v)"
definition VFTOI12 :: "'a vu_sys_scheme cop2_op" where "VFTOI12 ee env = macro_V (\<lambda>v. vuFTOI12 (vu_host_of env) v)"
definition VFTOI15 :: "'a vu_sys_scheme cop2_op" where "VFTOI15 ee env = macro_V (\<lambda>v. vuFTOI15 (vu_host_of env) v)"
definition VITOF0 :: "'a vu_sys_scheme cop2_op" where "VITOF0 ee env = macro_V (\<lambda>v. vuITOF0 (vu_host_of env) v)"
definition VITOF4 :: "'a vu_sys_scheme cop2_op" where "VITOF4 ee env = macro_V (\<lambda>v. vuITOF4 (vu_host_of env) v)"
definition VITOF12 :: "'a vu_sys_scheme cop2_op" where "VITOF12 ee env = macro_V (\<lambda>v. vuITOF12 (vu_host_of env) v)"
definition VITOF15 :: "'a vu_sys_scheme cop2_op" where "VITOF15 ee env = macro_V (\<lambda>v. vuITOF15 (vu_host_of env) v)"
definition VCLIPw :: "'a vu_sys_scheme cop2_op" where "VCLIPw ee env = macro_V (\<lambda>v. SYNCCLIPFLAG (vuCLIP (vu_host_of env) v))"
definition VDIV :: "'a vu_sys_scheme cop2_op" where "VDIV ee env = macro_V (\<lambda>v. SYNCFDIV (vuDIV (vu_host_of env) v))"
definition VSQRT :: "'a vu_sys_scheme cop2_op" where "VSQRT ee env = macro_V (\<lambda>v. SYNCFDIV (vuSQRT (vu_host_of env) v))"
definition VRSQRT :: "'a vu_sys_scheme cop2_op" where "VRSQRT ee env = macro_V (\<lambda>v. SYNCFDIV (vuRSQRT (vu_host_of env) v))"
definition VIADD :: "'a vu_sys_scheme cop2_op" where "VIADD ee env = macro_V vuIADD"
definition VIADDI :: "'a vu_sys_scheme cop2_op" where "VIADDI ee env = macro_V vuIADDI"
definition VIADDIU :: "'a vu_sys_scheme cop2_op" where "VIADDIU ee env = macro_V vuIADDIU"
definition VIAND :: "'a vu_sys_scheme cop2_op" where "VIAND ee env = macro_V vuIAND"
definition VIOR :: "'a vu_sys_scheme cop2_op" where "VIOR ee env = macro_V vuIOR"
definition VISUB :: "'a vu_sys_scheme cop2_op" where "VISUB ee env = macro_V vuISUB"
definition VISUBIU :: "'a vu_sys_scheme cop2_op" where "VISUBIU ee env = macro_V vuISUBIU"
definition VMOVE :: "'a vu_sys_scheme cop2_op" where "VMOVE ee env = macro_V vuMOVE"
definition VMFIR :: "'a vu_sys_scheme cop2_op" where "VMFIR ee env = macro_V vuMFIR"
definition VMTIR :: "'a vu_sys_scheme cop2_op" where "VMTIR ee env = macro_V vuMTIR"
definition VMR32 :: "'a vu_sys_scheme cop2_op" where "VMR32 ee env = macro_V vuMR32"
definition VLQ :: "'a vu_sys_scheme cop2_op" where "VLQ ee env = macro_S (vuLQ VU0)"
definition VLQD :: "'a vu_sys_scheme cop2_op" where "VLQD ee env = macro_S (vuLQD VU0)"
definition VLQI :: "'a vu_sys_scheme cop2_op" where "VLQI ee env = macro_S (vuLQI VU0)"
definition VSQ :: "'a vu_sys_scheme cop2_op" where "VSQ ee env = macro_S (vuSQ VU0)"
definition VSQD :: "'a vu_sys_scheme cop2_op" where "VSQD ee env = macro_S (vuSQD VU0)"
definition VSQI :: "'a vu_sys_scheme cop2_op" where "VSQI ee env = macro_S (vuSQI VU0)"
definition VILW :: "'a vu_sys_scheme cop2_op" where "VILW ee env = macro_S (vuILW VU0)"
definition VISW :: "'a vu_sys_scheme cop2_op" where "VISW ee env = macro_S (vuISW VU0)"
definition VILWR :: "'a vu_sys_scheme cop2_op" where "VILWR ee env = macro_S (vuILWR VU0)"
definition VISWR :: "'a vu_sys_scheme cop2_op" where "VISWR ee env = macro_S (vuISWR VU0)"
definition VRINIT :: "'a vu_sys_scheme cop2_op" where "VRINIT ee env = macro_V vuRINIT"
definition VRGET :: "'a vu_sys_scheme cop2_op" where "VRGET ee env = macro_V vuRGET"
definition VRNEXT :: "'a vu_sys_scheme cop2_op" where "VRNEXT ee env = macro_V vuRNEXT"
definition VRXOR :: "'a vu_sys_scheme cop2_op" where "VRXOR ee env = macro_V vuRXOR"
definition VWAITQ :: "'a vu_sys_scheme cop2_op" where "VWAITQ ee env = macro_V vuWAITQ"
definition VFSAND :: "'a vu_sys_scheme cop2_op" where "VFSAND ee env = macro_V vuFSAND"
definition VFSEQ :: "'a vu_sys_scheme cop2_op" where "VFSEQ ee env = macro_V vuFSEQ"
definition VFSOR :: "'a vu_sys_scheme cop2_op" where "VFSOR ee env = macro_V vuFSOR"
definition VFSSET :: "'a vu_sys_scheme cop2_op" where "VFSSET ee env = macro_V (\<lambda>v. SYNCSTATUSFLAG (vuFSSET v))"
definition VFMAND :: "'a vu_sys_scheme cop2_op" where "VFMAND ee env = macro_V vuFMAND"
definition VFMEQ :: "'a vu_sys_scheme cop2_op" where "VFMEQ ee env = macro_V vuFMEQ"
definition VFMOR :: "'a vu_sys_scheme cop2_op" where "VFMOR ee env = macro_V vuFMOR"
definition VFCAND :: "'a vu_sys_scheme cop2_op" where "VFCAND ee env = macro_V vuFCAND"
definition VFCEQ :: "'a vu_sys_scheme cop2_op" where "VFCEQ ee env = macro_V vuFCEQ"
definition VFCOR :: "'a vu_sys_scheme cop2_op" where "VFCOR ee env = macro_V vuFCOR"
definition VFCSET :: "'a vu_sys_scheme cop2_op" where "VFCSET ee env = macro_V (\<lambda>v. SYNCCLIPFLAG (vuFCSET v))"
definition VFCGET :: "'a vu_sys_scheme cop2_op" where "VFCGET ee env = macro_V vuFCGET"
definition VXITOP :: "'a vu_sys_scheme cop2_op" where "VXITOP ee env = macro_S (vuXITOP env VU0)"

section \<open>Tables\<close>

definition Int_COP2SPECIAL2PrintTable :: "'a vu_sys_scheme cop2_op list" where
  "Int_COP2SPECIAL2PrintTable =
    [VADDAx, VADDAy, VADDAz, VADDAw, VSUBAx, VSUBAy, VSUBAz, VSUBAw, VMADDAx, VMADDAy, VMADDAz, VMADDAw, VMSUBAx,
     VMSUBAy, VMSUBAz, VMSUBAw, VITOF0, VITOF4, VITOF12, VITOF15, VFTOI0, VFTOI4, VFTOI12, VFTOI15, VMULAx,
     VMULAy, VMULAz, VMULAw, VMULAq, VABS, VMULAi, VCLIPw, VADDAq, VMADDAq, VADDAi, VMADDAi, VSUBAq, VMSUBAq,
     VSUBAi, VMSUBAi, VADDA, VMADDA, VMULA, COP2_Unknown, VSUBA, VMSUBA, VOPMULA, VNOP, VMOVE, VMR32,
     COP2_Unknown, COP2_Unknown, VLQI, VSQI, VLQD, VSQD, VDIV, VSQRT, VRSQRT, VWAITQ, VMTIR, VMFIR, VILWR, VISWR,
     VRNEXT, VRGET, VRINIT, VRXOR, COP2_Unknown, COP2_Unknown, COP2_Unknown, COP2_Unknown, COP2_Unknown,
     COP2_Unknown, COP2_Unknown, COP2_Unknown, COP2_Unknown, COP2_Unknown, COP2_Unknown, COP2_Unknown,
     COP2_Unknown, COP2_Unknown, COP2_Unknown, COP2_Unknown, COP2_Unknown, COP2_Unknown, COP2_Unknown,
     COP2_Unknown, COP2_Unknown, COP2_Unknown, COP2_Unknown, COP2_Unknown, COP2_Unknown, COP2_Unknown,
     COP2_Unknown, COP2_Unknown, COP2_Unknown, COP2_Unknown, COP2_Unknown, COP2_Unknown, COP2_Unknown,
     COP2_Unknown, COP2_Unknown, COP2_Unknown, COP2_Unknown, COP2_Unknown, COP2_Unknown, COP2_Unknown,
     COP2_Unknown, COP2_Unknown, COP2_Unknown, COP2_Unknown, COP2_Unknown, COP2_Unknown, COP2_Unknown,
     COP2_Unknown, COP2_Unknown, COP2_Unknown, COP2_Unknown, COP2_Unknown, COP2_Unknown, COP2_Unknown,
     COP2_Unknown, COP2_Unknown, COP2_Unknown, COP2_Unknown, COP2_Unknown, COP2_Unknown]"

definition COP2_SPECIAL2 :: "'a vu_sys_scheme cop2_op" where
  "COP2_SPECIAL2 ee env s = (Int_COP2SPECIAL2PrintTable ! unat ((code s AND 0x3) OR (drop_bit 4 (code s) AND 0x7c))) ee env s"

definition Int_COP2SPECIAL1PrintTable :: "'a vu_sys_scheme cop2_op list" where
  "Int_COP2SPECIAL1PrintTable =
    [VADDx, VADDy, VADDz, VADDw, VSUBx, VSUBy, VSUBz, VSUBw, VMADDx, VMADDy, VMADDz, VMADDw, VMSUBx, VMSUBy,
     VMSUBz, VMSUBw, VMAXx, VMAXy, VMAXz, VMAXw, VMINIx, VMINIy, VMINIz, VMINIw, VMULx, VMULy, VMULz, VMULw,
     VMULq, VMAXi, VMULi, VMINIi, VADDq, VMADDq, VADDi, VMADDi, VSUBq, VMSUBq, VSUBi, VMSUBi, VADD, VMADD, VMUL,
     VMAX, VSUB, VMSUB, VOPMSUB, VMINI, VIADD, VISUB, VIADDI, COP2_Unknown, VIAND, VIOR, COP2_Unknown,
     COP2_Unknown, VCALLMS, VCALLMSR, COP2_Unknown, COP2_Unknown, COP2_SPECIAL2, COP2_SPECIAL2, COP2_SPECIAL2,
     COP2_SPECIAL2]"

definition COP2_SPECIAL :: "'a vu_sys_scheme cop2_op" where
  "COP2_SPECIAL ee env s = (Int_COP2SPECIAL1PrintTable ! unat (Funct s)) ee env s"

definition Int_COP2BC2PrintTable :: "'a vu_sys_scheme cop2_op list" where
  "Int_COP2BC2PrintTable =
    [BC2F, BC2T, BC2FL, BC2TL, COP2_Unknown, COP2_Unknown, COP2_Unknown, COP2_Unknown, COP2_Unknown, COP2_Unknown,
     COP2_Unknown, COP2_Unknown, COP2_Unknown, COP2_Unknown, COP2_Unknown, COP2_Unknown, COP2_Unknown,
     COP2_Unknown, COP2_Unknown, COP2_Unknown, COP2_Unknown, COP2_Unknown, COP2_Unknown, COP2_Unknown,
     COP2_Unknown, COP2_Unknown, COP2_Unknown, COP2_Unknown, COP2_Unknown, COP2_Unknown, COP2_Unknown,
     COP2_Unknown]"

definition COP2_BC2 :: "'a vu_sys_scheme cop2_op" where
  "COP2_BC2 ee env s = (Int_COP2BC2PrintTable ! unat (Rt s)) ee env s"

definition Int_COP2PrintTable :: "'a vu_sys_scheme cop2_op list" where
  "Int_COP2PrintTable =
    [COP2_Unknown, QMFC2, CFC2, COP2_Unknown, COP2_Unknown, QMTC2, CTC2, COP2_Unknown, COP2_BC2, COP2_Unknown,
     COP2_Unknown, COP2_Unknown, COP2_Unknown, COP2_Unknown, COP2_Unknown, COP2_Unknown, COP2_SPECIAL,
     COP2_SPECIAL, COP2_SPECIAL, COP2_SPECIAL, COP2_SPECIAL, COP2_SPECIAL, COP2_SPECIAL, COP2_SPECIAL,
     COP2_SPECIAL, COP2_SPECIAL, COP2_SPECIAL, COP2_SPECIAL, COP2_SPECIAL, COP2_SPECIAL, COP2_SPECIAL,
     COP2_SPECIAL]"

definition COP2 :: "'a vu_sys_scheme cop2_op" where
  "COP2 ee env s = (Int_COP2PrintTable ! unat (Rs s)) ee env s"

end
