(* ===== verification/Vu_Frame.thy ===== *)
theory Vu_Frame
  imports Vu_Macro
begin

text \<open>
  What the instructions of the vector units leave alone: none of them touches the pipelines or the
  clock of its unit, apart from the transfer to the graphics interface, so that only the
  interpreter's bookkeeping around an instruction moves the pipelines.
\<close>

section \<open>The pipelines of a unit\<close>

definition pipes :: "VURegs \<Rightarrow> u32 \<times> (u32 \<Rightarrow> fmacPipe) \<times> u32 \<times> u32 \<times> u32 \<times> fdivPipe \<times> efuPipe \<times> (u32 \<Rightarrow> ialuPipe) \<times> u32 \<times> u32 \<times> u32" where
  "pipes v = (vcycle v, VURegs.fmac v, fmacreadpos v, fmacwritepos v, fmaccount v, fdiv v, efu v,
     ialu v, ialureadpos v, ialuwritepos v, ialucount v)"

named_theorems pipes_frame

lemma pipes_updates [simp, pipes_frame]:
  "pipes (s\<lparr>VF := a\<rparr>) = pipes s" "pipes (s\<lparr>VI := b\<rparr>) = pipes s" "pipes (s\<lparr>VIpad := a\<rparr>) = pipes s"
  "pipes (s\<lparr>VACC := c\<rparr>) = pipes s" "pipes (s\<lparr>vq := d\<rparr>) = pipes s" "pipes (s\<lparr>vp := d\<rparr>) = pipes s"
  "pipes (s\<lparr>vcode := d\<rparr>) = pipes s" "pipes (s\<lparr>vmacflag := d\<rparr>) = pipes s" "pipes (s\<lparr>vstatusflag := d\<rparr>) = pipes s"
  "pipes (s\<lparr>vclipflag := d\<rparr>) = pipes s" "pipes (s\<lparr>vbranch := d\<rparr>) = pipes s" "pipes (s\<lparr>vbranchpc := d\<rparr>) = pipes s"
  "pipes (s\<lparr>vdelaybranchpc := d\<rparr>) = pipes s" "pipes (s\<lparr>vtakedelaybranch := e\<rparr>) = pipes s"
  "pipes (s\<lparr>vMem := m\<rparr>) = pipes s" "pipes (s\<lparr>VIBackupCycles := g\<rparr>) = pipes s" "pipes (s\<lparr>VIOldValue := d\<rparr>) = pipes s"
  "pipes (s\<lparr>VIRegNumber := d\<rparr>) = pipes s" "pipes (s\<lparr>vebit := d\<rparr>) = pipes s" "pipes (s\<lparr>vflags := d\<rparr>) = pipes s"
  "pipes (s\<lparr>vblockhasmbit := e\<rparr>) = pipes s"
  by (simp_all add: pipes_def)

lemma pipes_writes [simp, pipes_frame]:
  "pipes (wVF r l x s) = pipes s" "pipes (wACC l x s) = pipes s" "pipes (wVI r x s) = pipes s" "pipes (wVI16 r y s) = pipes s"
  "pipes (vuBackupVI r s) = pipes s" "pipes (VU_MAC_CLEAR n s) = pipes s" "pipes (VU_STAT_UPDATE s) = pipes s"
  "pipes (snd (VU_MAC_UPDATE h n x s)) = pipes s" "pipes (wDst l x s) = pipes s" "pipes (set_reg_word a x s) = pipes s"
  by (simp_all add: wVF_def wACC_def wVI_def wVI16_def vuBackupVI_def VU_MAC_CLEAR_def VU_STAT_UPDATE_def VU_MAC_UPDATE_def
      wDst_def set_reg_word_def Let_def)

lemma pipes_fmac [simp]:
  assumes "\<And>l x s. pipes (w l x s) = pipes s"
  shows "pipes (Vu_Upper.fmac h w f s) = pipes s" "pipes (fmac_write h w l x s) = pipes s"
proof -
  have lane: "pipes (fmac_lane h w f l s) = pipes s" for l s
    by (simp add: fmac_lane_def prod.case_eq_if assms)
  show "pipes (Vu_Upper.fmac h w f s) = pipes s" by (simp add: fmac_def lane)
  show "pipes (fmac_write h w l x s) = pipes s" by (simp add: fmac_write_def prod.case_eq_if assms)
qed

lemma pipes_vlanes [simp]: "pipes (vlanes r f s) = pipes s" "pipes (vlanes_Fd f s) = pipes s" "pipes (vlanes_Ft f s) = pipes s"
  by (simp_all add: vlanes_def vlane_to_def vlanes_Fd_def vlanes_Ft_def)

lemma pipes_lower_writes [simp]:
  "pipes (wVIb r y s) = pipes s" "pipes (wIt y s) = pipes s" "pipes (AdvanceLFSR s) = pipes s" "pipes (setBranch d s) = pipes s"
  "pipes (branch_if c i s) = pipes s" "pipes (vu_link s) = pipes s" "pipes (clip_test h a b c' s) = pipes s"
  by (simp_all add: wVIb_def wIt_def AdvanceLFSR_def setBranch_def branch_if_def vu_link_def clip_test_def Let_def)

lemma pipes_upper [simp]:
  "pipes (vuABS h s) = pipes s" "pipes (vuADD h s) = pipes s" "pipes (vuADDi h s) = pipes s"
  "pipes (vuADDq h s) = pipes s" "pipes (vuADDx h s) = pipes s" "pipes (vuADDy h s) = pipes s"
  "pipes (vuADDz h s) = pipes s" "pipes (vuADDw h s) = pipes s" "pipes (vuADDA h s) = pipes s"
  "pipes (vuADDAi h s) = pipes s" "pipes (vuADDAq h s) = pipes s" "pipes (vuADDAx h s) = pipes s"
  "pipes (vuADDAy h s) = pipes s" "pipes (vuADDAz h s) = pipes s" "pipes (vuADDAw h s) = pipes s"
  "pipes (vuSUB h s) = pipes s" "pipes (vuSUBi h s) = pipes s" "pipes (vuSUBq h s) = pipes s"
  "pipes (vuSUBx h s) = pipes s" "pipes (vuSUBy h s) = pipes s" "pipes (vuSUBz h s) = pipes s"
  "pipes (vuSUBw h s) = pipes s" "pipes (vuSUBA h s) = pipes s" "pipes (vuSUBAi h s) = pipes s"
  "pipes (vuSUBAq h s) = pipes s" "pipes (vuSUBAx h s) = pipes s" "pipes (vuSUBAy h s) = pipes s"
  "pipes (vuSUBAz h s) = pipes s" "pipes (vuSUBAw h s) = pipes s" "pipes (vuMUL h s) = pipes s"
  "pipes (vuMULi h s) = pipes s" "pipes (vuMULq h s) = pipes s" "pipes (vuMULx h s) = pipes s"
  "pipes (vuMULy h s) = pipes s" "pipes (vuMULz h s) = pipes s" "pipes (vuMULw h s) = pipes s"
  "pipes (vuMULA h s) = pipes s" "pipes (vuMULAi h s) = pipes s" "pipes (vuMULAq h s) = pipes s"
  "pipes (vuMULAx h s) = pipes s" "pipes (vuMULAy h s) = pipes s" "pipes (vuMULAz h s) = pipes s"
  "pipes (vuMULAw h s) = pipes s" "pipes (vuMADD h s) = pipes s" "pipes (vuMADDi h s) = pipes s"
  "pipes (vuMADDq h s) = pipes s" "pipes (vuMADDx h s) = pipes s" "pipes (vuMADDy h s) = pipes s"
  "pipes (vuMADDz h s) = pipes s" "pipes (vuMADDw h s) = pipes s" "pipes (vuMADDA h s) = pipes s"
  "pipes (vuMADDAi h s) = pipes s" "pipes (vuMADDAq h s) = pipes s" "pipes (vuMADDAx h s) = pipes s"
  "pipes (vuMADDAy h s) = pipes s" "pipes (vuMADDAz h s) = pipes s" "pipes (vuMADDAw h s) = pipes s"
  "pipes (vuMSUB h s) = pipes s" "pipes (vuMSUBi h s) = pipes s" "pipes (vuMSUBq h s) = pipes s"
  "pipes (vuMSUBx h s) = pipes s" "pipes (vuMSUBy h s) = pipes s" "pipes (vuMSUBz h s) = pipes s"
  "pipes (vuMSUBw h s) = pipes s" "pipes (vuMSUBA h s) = pipes s" "pipes (vuMSUBAi h s) = pipes s"
  "pipes (vuMSUBAq h s) = pipes s" "pipes (vuMSUBAx h s) = pipes s" "pipes (vuMSUBAy h s) = pipes s"
  "pipes (vuMSUBAz h s) = pipes s" "pipes (vuMSUBAw h s) = pipes s" "pipes (vuMAX s) = pipes s"
  "pipes (vuMAXi s) = pipes s" "pipes (vuMAXx s) = pipes s" "pipes (vuMAXy s) = pipes s" "pipes (vuMAXz s) = pipes s"
  "pipes (vuMAXw s) = pipes s" "pipes (vuMINI s) = pipes s" "pipes (vuMINIi s) = pipes s" "pipes (vuMINIx s) = pipes s"
  "pipes (vuMINIy s) = pipes s" "pipes (vuMINIz s) = pipes s" "pipes (vuMINIw s) = pipes s"
  "pipes (vuOPMULA h s) = pipes s" "pipes (vuOPMSUB h s) = pipes s" "pipes (vuNOP s) = pipes s"
  "pipes (vuFTOI0 h s) = pipes s" "pipes (vuFTOI4 h s) = pipes s" "pipes (vuFTOI12 h s) = pipes s"
  "pipes (vuFTOI15 h s) = pipes s" "pipes (vuITOF0 h s) = pipes s" "pipes (vuITOF4 h s) = pipes s"
  "pipes (vuITOF12 h s) = pipes s" "pipes (vuITOF15 h s) = pipes s" "pipes (vuCLIP h s) = pipes s"
  by (simp_all only: vuABS_def vuADD_def vuADDi_def vuADDq_def vuADDx_def vuADDy_def vuADDz_def vuADDw_def vuADDA_def vuADDAi_def
      vuADDAq_def vuADDAx_def vuADDAy_def vuADDAz_def vuADDAw_def vuSUB_def vuSUBi_def vuSUBq_def vuSUBx_def vuSUBy_def
      vuSUBz_def vuSUBw_def vuSUBA_def vuSUBAi_def vuSUBAq_def vuSUBAx_def vuSUBAy_def vuSUBAz_def vuSUBAw_def vuMUL_def
      vuMULi_def vuMULq_def vuMULx_def vuMULy_def vuMULz_def vuMULw_def vuMULA_def vuMULAi_def vuMULAq_def vuMULAx_def
      vuMULAy_def vuMULAz_def vuMULAw_def vuMADD_def vuMADDi_def vuMADDq_def vuMADDx_def vuMADDy_def vuMADDz_def
      vuMADDw_def vuMADDA_def vuMADDAi_def vuMADDAq_def vuMADDAx_def vuMADDAy_def vuMADDAz_def vuMADDAw_def vuMSUB_def
      vuMSUBi_def vuMSUBq_def vuMSUBx_def vuMSUBy_def vuMSUBz_def vuMSUBw_def vuMSUBA_def vuMSUBAi_def vuMSUBAq_def
      vuMSUBAx_def vuMSUBAy_def vuMSUBAz_def vuMSUBAw_def vuMAX_def vuMAXi_def vuMAXx_def vuMAXy_def vuMAXz_def vuMAXw_def
      vuMINI_def vuMINIi_def vuMINIx_def vuMINIy_def vuMINIz_def vuMINIw_def vuOPMULA_def vuOPMSUB_def vuNOP_def
      vuFTOI0_def vuFTOI4_def vuFTOI12_def vuFTOI15_def vuITOF0_def vuITOF4_def vuITOF12_def vuITOF15_def vuCLIP_def
      Let_def pipes_fmac pipes_writes pipes_vlanes pipes_lower_writes pipes_updates if_distrib [of pipes] if_cancel)

lemma pipes_lower [simp]:
  "pipes (vuDIV h s) = pipes s" "pipes (vuSQRT h s) = pipes s" "pipes (vuRSQRT h s) = pipes s"
  "pipes (vuIADD s) = pipes s" "pipes (vuIADDI s) = pipes s" "pipes (vuIADDIU s) = pipes s"
  "pipes (vuIAND s) = pipes s" "pipes (vuIOR s) = pipes s" "pipes (vuISUB s) = pipes s" "pipes (vuISUBIU s) = pipes s"
  "pipes (vuMOVE s) = pipes s" "pipes (vuMFIR s) = pipes s" "pipes (vuMTIR s) = pipes s" "pipes (vuMR32 s) = pipes s"
  "pipes (vuRINIT s) = pipes s" "pipes (vuRGET s) = pipes s" "pipes (vuRNEXT s) = pipes s" "pipes (vuRXOR s) = pipes s"
  "pipes (vuWAITQ s) = pipes s" "pipes (vuFSAND s) = pipes s" "pipes (vuFSEQ s) = pipes s" "pipes (vuFSOR s) = pipes s"
  "pipes (vuFSSET s) = pipes s" "pipes (vuFMAND s) = pipes s" "pipes (vuFMEQ s) = pipes s" "pipes (vuFMOR s) = pipes s"
  "pipes (vuFCAND s) = pipes s" "pipes (vuFCEQ s) = pipes s" "pipes (vuFCOR s) = pipes s" "pipes (vuFCSET s) = pipes s"
  "pipes (vuFCGET s) = pipes s" "pipes (vuIBEQ i s) = pipes s" "pipes (vuIBGEZ i s) = pipes s"
  "pipes (vuIBGTZ i s) = pipes s" "pipes (vuIBLTZ i s) = pipes s" "pipes (vuIBLEZ i s) = pipes s"
  "pipes (vuIBNE i s) = pipes s" "pipes (vuB i s) = pipes s" "pipes (vuBAL i s) = pipes s" "pipes (vuJR s) = pipes s"
  "pipes (vuJALR s) = pipes s" "pipes (vuMFP s) = pipes s" "pipes (vuWAITP s) = pipes s"
  "pipes (vuESADD h s) = pipes s" "pipes (vuERSADD h s) = pipes s" "pipes (vuELENG h s) = pipes s"
  "pipes (vuERLENG h s) = pipes s" "pipes (vuEATANxy h s) = pipes s" "pipes (vuEATANxz h s) = pipes s"
  "pipes (vuESUM h s) = pipes s" "pipes (vuERCPR h s) = pipes s" "pipes (vuESQRT h s) = pipes s"
  "pipes (vuERSQRT h s) = pipes s" "pipes (vuESIN h s) = pipes s" "pipes (vuEATAN h s) = pipes s"
  "pipes (vuEEXP h s) = pipes s"
  by (simp_all add: vuDIV_def vuSQRT_def vuRSQRT_def vuIADD_def vuIADDI_def vuIADDIU_def vuIAND_def vuIOR_def vuISUB_def vuISUBIU_def
      vuMOVE_def vuMFIR_def vuMTIR_def vuMR32_def vuRINIT_def vuRGET_def vuRNEXT_def vuRXOR_def vuWAITQ_def vuFSAND_def
      vuFSEQ_def vuFSOR_def vuFSSET_def vuFMAND_def vuFMEQ_def vuFMOR_def vuFCAND_def vuFCEQ_def vuFCOR_def vuFCSET_def
      vuFCGET_def vuIBEQ_def vuIBGEZ_def vuIBGTZ_def vuIBLTZ_def vuIBLEZ_def vuIBNE_def vuB_def vuBAL_def vuJR_def
      vuJALR_def vuMFP_def vuWAITP_def vuESADD_def vuERSADD_def vuELENG_def vuERLENG_def vuEATANxy_def vuEATANxz_def
      vuESUM_def vuERCPR_def vuESQRT_def vuERSQRT_def vuESIN_def vuEATAN_def vuEEXP_def Let_def)

lemma pipes_set_vu_word [simp]: "pipes (vuRegs (set_vu_word p k x t) j) = pipes (vuRegs t j)"
  by (cases p) simp_all

lemma pipes_stores [simp]:
  "pipes (vuRegs (vu_store_lane i p f l t) j) = pipes (vuRegs t j)"
  "pipes (vuRegs (vu_store_lanes i a f t) j) = pipes (vuRegs t j)"
  "pipes (vuRegs (vu_store_Fs i a t) j) = pipes (vuRegs t j)"
  by (simp_all add: vu_store_lane_def vu_store_lanes_def vu_store_Fs_def Let_def)

lemma pipes_loads [simp]:
  "pipes (vuRegs (vu_load_Ft i a t) j) = pipes (vuRegs t j)" "pipes (vuRegs (vu_load_It i a t) j) = pipes (vuRegs t j)"
  by (simp_all add: vu_load_Ft_def vu_load_It_def Let_def)

lemma pipes_memory [simp]:
  "pipes (vuRegs (vuLQ i t) j) = pipes (vuRegs t j)" "pipes (vuRegs (vuLQD i t) j) = pipes (vuRegs t j)"
  "pipes (vuRegs (vuLQI i t) j) = pipes (vuRegs t j)" "pipes (vuRegs (vuSQ i t) j) = pipes (vuRegs t j)"
  "pipes (vuRegs (vuSQD i t) j) = pipes (vuRegs t j)" "pipes (vuRegs (vuSQI i t) j) = pipes (vuRegs t j)"
  "pipes (vuRegs (vuILW i t) j) = pipes (vuRegs t j)" "pipes (vuRegs (vuISW i t) j) = pipes (vuRegs t j)"
  "pipes (vuRegs (vuILWR i t) j) = pipes (vuRegs t j)" "pipes (vuRegs (vuISWR i t) j) = pipes (vuRegs t j)"
  by (simp_all add: vuLQ_def vuLQD_def vuLQI_def vuSQ_def vuSQD_def vuSQI_def vuILW_def vuISW_def vuILWR_def vuISWR_def Let_def)

section \<open>All instructions\<close>

lemmas upper_instrs = MI_ABS_def MI_ADD_def MI_ADDi_def MI_ADDq_def MI_ADDx_def MI_ADDy_def MI_ADDz_def MI_ADDw_def MI_ADDA_def
  MI_ADDAi_def MI_ADDAq_def MI_ADDAx_def MI_ADDAy_def MI_ADDAz_def MI_ADDAw_def MI_SUB_def MI_SUBi_def MI_SUBq_def
  MI_SUBx_def MI_SUBy_def MI_SUBz_def MI_SUBw_def MI_SUBA_def MI_SUBAi_def MI_SUBAq_def MI_SUBAx_def MI_SUBAy_def
  MI_SUBAz_def MI_SUBAw_def MI_MUL_def MI_MULi_def MI_MULq_def MI_MULx_def MI_MULy_def MI_MULz_def MI_MULw_def
  MI_MULA_def MI_MULAi_def MI_MULAq_def MI_MULAx_def MI_MULAy_def MI_MULAz_def MI_MULAw_def MI_MADD_def MI_MADDi_def
  MI_MADDq_def MI_MADDx_def MI_MADDy_def MI_MADDz_def MI_MADDw_def MI_MADDA_def MI_MADDAi_def MI_MADDAq_def
  MI_MADDAx_def MI_MADDAy_def MI_MADDAz_def MI_MADDAw_def MI_MSUB_def MI_MSUBi_def MI_MSUBq_def MI_MSUBx_def
  MI_MSUBy_def MI_MSUBz_def MI_MSUBw_def MI_MSUBA_def MI_MSUBAi_def MI_MSUBAq_def MI_MSUBAx_def MI_MSUBAy_def
  MI_MSUBAz_def MI_MSUBAw_def MI_MAX_def MI_MAXi_def MI_MAXx_def MI_MAXy_def MI_MAXz_def MI_MAXw_def MI_MINI_def
  MI_MINIi_def MI_MINIx_def MI_MINIy_def MI_MINIz_def MI_MINIw_def MI_OPMULA_def MI_OPMSUB_def MI_NOP_def MI_FTOI0_def
  MI_FTOI4_def MI_FTOI12_def MI_FTOI15_def MI_ITOF0_def MI_ITOF4_def MI_ITOF12_def MI_ITOF15_def MI_CLIP_def
lemmas lower_instrs = MI_unknown_L_def MI_DIV_def MI_SQRT_def MI_RSQRT_def MI_IADD_def MI_IADDI_def MI_IADDIU_def MI_IAND_def MI_IOR_def
  MI_ISUB_def MI_ISUBIU_def MI_MOVE_def MI_MFIR_def MI_MTIR_def MI_MR32_def MI_LQ_def MI_LQD_def MI_LQI_def MI_SQ_def
  MI_SQD_def MI_SQI_def MI_ILW_def MI_ISW_def MI_ILWR_def MI_ISWR_def MI_RINIT_def MI_RGET_def MI_RNEXT_def MI_RXOR_def
  MI_WAITQ_def MI_FSAND_def MI_FSEQ_def MI_FSOR_def MI_FSSET_def MI_FMAND_def MI_FMEQ_def MI_FMOR_def MI_FCAND_def
  MI_FCEQ_def MI_FCOR_def MI_FCSET_def MI_FCGET_def MI_IBEQ_def MI_IBGEZ_def MI_IBGTZ_def MI_IBLTZ_def MI_IBLEZ_def
  MI_IBNE_def MI_B_def MI_BAL_def MI_JR_def MI_JALR_def MI_MFP_def MI_WAITP_def MI_ESADD_def MI_ERSADD_def MI_ELENG_def
  MI_ERLENG_def MI_EATANxy_def MI_EATANxz_def MI_ESUM_def MI_ERCPR_def MI_ESQRT_def MI_ERSQRT_def MI_ESIN_def
  MI_EATAN_def MI_EEXP_def MI_XITOP_def MI_XGKICK_def MI_XTOP_def
lemmas upper_tables = UPPER_OPCODE_def UPPER_FD_00_TABLE_def UPPER_FD_01_TABLE_def UPPER_FD_10_TABLE_def UPPER_FD_11_TABLE_def
lemmas lower_tables = LOWER_OPCODE_def LowerOP_OPCODE_def LowerOP_T3_00_OPCODE_def LowerOP_T3_01_OPCODE_def
  LowerOP_T3_10_OPCODE_def LowerOP_T3_11_OPCODE_def

lemma op_sub_less: "op_sub c < 32"
  using and_mask_less' [of 5 "drop_bit 6 c"] by (simp add: op_sub_def mask_numeral word_less_nat_alt)

lemma length_upper_tables:
  "length UPPER_OPCODE = 64" "length UPPER_FD_00_TABLE = 32" "length UPPER_FD_01_TABLE = 32" "length UPPER_FD_10_TABLE = 32"
  "length UPPER_FD_11_TABLE = 32"
  by (simp_all add: upper_tables)

lemma length_lower_tables:
  "length (LOWER_OPCODE :: 'a vu_sys_scheme vu_lower list) = 128" "length (LowerOP_OPCODE :: 'a vu_sys_scheme vu_lower list) = 64"
  "length (LowerOP_T3_00_OPCODE :: 'a vu_sys_scheme vu_lower list) = 32"
  "length (LowerOP_T3_01_OPCODE :: 'a vu_sys_scheme vu_lower list) = 32"
  "length (LowerOP_T3_10_OPCODE :: 'a vu_sys_scheme vu_lower list) = 32"
  "length (LowerOP_T3_11_OPCODE :: 'a vu_sys_scheme vu_lower list) = 32"
  by (simp_all add: lower_tables)

lemma and_63_less: "unat (c AND 0x3f :: u32) < 64"
proof -
  have "c AND 0x3f \<le> 0x3f" by (rule word_and_le1)
  then have "unat (c AND 0x3f) \<le> unat (0x3f :: u32)" by (simp only: word_le_nat_alt)
  moreover have "unat (0x3f :: u32) = 63" by simp
  ultimately show ?thesis by linarith
qed

text \<open>What holds of every entry of the tables, the nested ones included, holds of the instruction of a code.\<close>

lemma nth_all: "(\<And>p. p \<in> set xs \<Longrightarrow> Q p) \<Longrightarrow> n < length xs \<Longrightarrow> Q (xs ! n)"
  by simp

lemma all_upper:
  fixes c :: u32
  assumes fd: "\<And>p. p \<in> set UPPER_FD_00_TABLE \<Longrightarrow> P (fst p h v)" "\<And>p. p \<in> set UPPER_FD_01_TABLE \<Longrightarrow> P (fst p h v)"
      "\<And>p. p \<in> set UPPER_FD_10_TABLE \<Longrightarrow> P (fst p h v)" "\<And>p. p \<in> set UPPER_FD_11_TABLE \<Longrightarrow> P (fst p h v)"
    and op: "\<And>p. p \<in> set UPPER_OPCODE \<Longrightarrow> p = UPPER_FD_00 \<or> p = UPPER_FD_01 \<or> p = UPPER_FD_10 \<or> p = UPPER_FD_11 \<or> P (fst p h v)"
  shows "P (fst (UPPER_OPCODE ! unat (c AND 0x3f)) h v)"
proof -
  have t: "P (fst UPPER_FD_00 h v)" "P (fst UPPER_FD_01 h v)" "P (fst UPPER_FD_10 h v)" "P (fst UPPER_FD_11 h v)"
    by (simp_all only: UPPER_FD_00_def UPPER_FD_01_def UPPER_FD_10_def UPPER_FD_11_def fst_conv)
      (simp_all add: nth_all [where Q = "\<lambda>p. P (fst p h v)"] fd length_upper_tables op_sub_less)
  show ?thesis
    by (rule nth_all [where Q = "\<lambda>p. P (fst p h v)"], drule op, elim disjE) (simp_all add: t length_upper_tables and_63_less)
qed

lemma pipes_UPPER_OPCODE [simp]: "pipes (fst (UPPER_OPCODE ! unat ((c :: u32) AND 0x3f)) h v) = pipes v"
  by (rule all_upper) (auto simp: upper_tables upper_instrs MI_unknown_U_def)

lemma drop_25_less: "unat (drop_bit 25 (c :: u32)) < 128"
proof -
  have "unat c < 128 * 2 ^ 25" using unsigned_less [of c, where 'a = nat] by simp
  then show ?thesis by (simp add: unat_drop_bit less_mult_imp_div_less flip: drop_bit_eq_div)
qed

lemma all_lower_exec:
  fixes P :: "'a vu_sys_scheme option \<Rightarrow> bool" and s :: "'a vu_sys_scheme" and c :: u32
  assumes t3: "\<And>p. p \<in> set (LowerOP_T3_00_OPCODE :: 'a vu_sys_scheme vu_lower list) \<Longrightarrow> P (fst (p) env i s)"
      "\<And>p. p \<in> set (LowerOP_T3_01_OPCODE :: 'a vu_sys_scheme vu_lower list) \<Longrightarrow> P (fst (p) env i s)"
      "\<And>p. p \<in> set (LowerOP_T3_10_OPCODE :: 'a vu_sys_scheme vu_lower list) \<Longrightarrow> P (fst (p) env i s)"
      "\<And>p. p \<in> set (LowerOP_T3_11_OPCODE :: 'a vu_sys_scheme vu_lower list) \<Longrightarrow> P (fst (p) env i s)"
    and l: "\<And>p. p \<in> set (LowerOP_OPCODE :: 'a vu_sys_scheme vu_lower list) \<Longrightarrow>
        p = LowerOP_T3_00 \<or> p = LowerOP_T3_01 \<or> p = LowerOP_T3_10 \<or> p = LowerOP_T3_11 \<or> P (fst (p) env i s)"
    and op: "\<And>p. p \<in> set (LOWER_OPCODE :: 'a vu_sys_scheme vu_lower list) \<Longrightarrow> p = LowerOP \<or> P (fst (p) env i s)"
  shows "P (fst (LOWER_OPCODE ! unat (drop_bit 25 c) :: 'a vu_sys_scheme vu_lower) env i s)"
proof -
  let ?Q = "\<lambda>p :: 'a vu_sys_scheme vu_lower. P (fst (p) env i s)"
  have t: "?Q LowerOP_T3_00" "?Q LowerOP_T3_01" "?Q LowerOP_T3_10" "?Q LowerOP_T3_11"
    by (simp_all only: LowerOP_T3_00_def LowerOP_T3_01_def LowerOP_T3_10_def LowerOP_T3_11_def fst_conv snd_conv)
      (simp_all add: nth_all [where Q = ?Q] t3 length_lower_tables op_sub_less)
  have "?Q (LowerOP_OPCODE ! unat (vcode (vuRegs s i) AND 0x3f))"
    by (rule nth_all [where Q = ?Q], drule l, elim disjE) (simp_all add: t length_lower_tables and_63_less)
  then have lo: "?Q LowerOP" by (simp only: LowerOP_def fst_conv snd_conv)
  show ?thesis
    by (rule nth_all [where Q = ?Q], drule op, elim disjE) (simp_all add: lo length_lower_tables drop_25_less)
qed

lemma all_lower_regs:
  fixes P :: "VURegsNum \<Rightarrow> bool" and c :: u32
  assumes t3: "\<And>p. p \<in> set (LowerOP_T3_00_OPCODE :: 'a vu_sys_scheme vu_lower list) \<Longrightarrow> P (snd (p) v n)"
      "\<And>p. p \<in> set (LowerOP_T3_01_OPCODE :: 'a vu_sys_scheme vu_lower list) \<Longrightarrow> P (snd (p) v n)"
      "\<And>p. p \<in> set (LowerOP_T3_10_OPCODE :: 'a vu_sys_scheme vu_lower list) \<Longrightarrow> P (snd (p) v n)"
      "\<And>p. p \<in> set (LowerOP_T3_11_OPCODE :: 'a vu_sys_scheme vu_lower list) \<Longrightarrow> P (snd (p) v n)"
    and l: "\<And>p. p \<in> set (LowerOP_OPCODE :: 'a vu_sys_scheme vu_lower list) \<Longrightarrow>
        p = LowerOP_T3_00 \<or> p = LowerOP_T3_01 \<or> p = LowerOP_T3_10 \<or> p = LowerOP_T3_11 \<or> P (snd (p) v n)"
    and op: "\<And>p. p \<in> set (LOWER_OPCODE :: 'a vu_sys_scheme vu_lower list) \<Longrightarrow> p = LowerOP \<or> P (snd (p) v n)"
  shows "P (snd (LOWER_OPCODE ! unat (drop_bit 25 c) :: 'a vu_sys_scheme vu_lower) v n)"
proof -
  let ?Q = "\<lambda>p :: 'a vu_sys_scheme vu_lower. P (snd (p) v n)"
  have t: "?Q LowerOP_T3_00" "?Q LowerOP_T3_01" "?Q LowerOP_T3_10" "?Q LowerOP_T3_11"
    by (simp_all only: LowerOP_T3_00_def LowerOP_T3_01_def LowerOP_T3_10_def LowerOP_T3_11_def fst_conv snd_conv)
      (simp_all add: nth_all [where Q = ?Q] t3 length_lower_tables op_sub_less)
  have "?Q (LowerOP_OPCODE ! unat (vcode v AND 0x3f))"
    by (rule nth_all [where Q = ?Q], drule l, elim disjE) (simp_all add: t length_lower_tables and_63_less)
  then have lo: "?Q LowerOP" by (simp only: LowerOP_def fst_conv snd_conv)
  show ?thesis
    by (rule nth_all [where Q = ?Q], drule op, elim disjE) (simp_all add: lo length_lower_tables drop_25_less)
qed

text \<open>On the first unit every lower instruction returns, and leaves its pipelines alone.\<close>

lemma lower_exec_VU0:
  "\<exists>t. fst (LOWER_OPCODE ! unat (drop_bit 25 (c :: u32))) env VU0 s = Some t \<and> pipes (vuRegs t VU0) = pipes (vuRegs s VU0)"
  by (rule all_lower_exec [where P = "\<lambda>r. \<exists>t. r = Some t \<and> pipes (vuRegs t VU0) = pipes (vuRegs s VU0)"])
    (auto simp: lower_tables lower_instrs vuXITOP_def)

end
