(* ===== verification/EE_Frame.thy ===== *)
theory EE_Frame
  imports EE_Interp
begin

text \<open>
  What the instructions leave alone.  \<open>reg_only\<close> relates two states that differ in the general
  registers other than \<open>r0\<close>, in \<open>HI\<close>, \<open>LO\<close> and \<open>sa\<close> at most; the instructions of the integer
  core and of the multimedia set that cannot trap are shown to stay in it.  For the rest
  of the machine the theory shows that register 0 is never written.
\<close>

unbundle bit_operations_syntax

section \<open>Register-only steps\<close>

definition unregs :: "'a cpuRegisters_scheme \<Rightarrow> 'a cpuRegisters_scheme" where
  "unregs s = s\<lparr>GPR := \<lambda>_. 0, HI := 0, LO := 0, sa := 0\<rparr>"

definition reg_only :: "'a cpuRegisters_scheme \<Rightarrow> 'a cpuRegisters_scheme \<Rightarrow> bool" where
  "reg_only s s' \<longleftrightarrow> unregs s' = unregs s \<and> GPR s' 0 = GPR s 0"

lemma reg_only_refl: "reg_only s s" by (simp add: reg_only_def)

lemma reg_only_trans: "reg_only s s1 \<Longrightarrow> reg_only s1 s2 \<Longrightarrow> reg_only s s2"
  by (simp add: reg_only_def)

lemma unregs_fields:
  "code (unregs s) = code s" "pc (unregs s) = pc s" "CP0 (unregs s) = CP0 s" "branch (unregs s) = branch s"
  "cycle (unregs s) = cycle s" "cpuRegisters.more (unregs s) = cpuRegisters.more s"
  by (simp_all add: unregs_def)

lemma reg_only_keeps:
  assumes "reg_only s s1"
  shows "code s1 = code s" "pc s1 = pc s" "CP0 s1 = CP0 s" "branch s1 = branch s" "cycle s1 = cycle s"
    "cpuRegisters.more s1 = cpuRegisters.more s" "GPR s1 0 = GPR s 0"
  using assms unfolding reg_only_def
  using unregs_fields [of s] unregs_fields [of s1] by simp_all

lemma reg_only_fields:
  assumes "reg_only s s1" shows "Rd s1 = Rd s" "Rt s1 = Rt s" "Rs s1 = Rs s" "Sa s1 = Sa s"
  using assms by (auto simp: Rd_def Rt_def Rs_def Sa_def reg_only_keeps(1))

named_theorems reg_only_intros

lemma reg_only_writes [reg_only_intros]:
  "r \<noteq> 0 \<Longrightarrow> reg_only s s1 \<Longrightarrow> reg_only s (wUD r n v s1)"
  "r \<noteq> 0 \<Longrightarrow> reg_only s s1 \<Longrightarrow> reg_only s (wUL r n v1 s1)"
  "r \<noteq> 0 \<Longrightarrow> reg_only s s1 \<Longrightarrow> reg_only s (wUS r n v2 s1)"
  "r \<noteq> 0 \<Longrightarrow> reg_only s s1 \<Longrightarrow> reg_only s (wUC r n v3 s1)"
  "r \<noteq> 0 \<Longrightarrow> reg_only s s1 \<Longrightarrow> reg_only s (wGPR r w s1)"
  "reg_only s s1 \<Longrightarrow> reg_only s (wHI_UD n v s1)"
  "reg_only s s1 \<Longrightarrow> reg_only s (wLO_UD n v s1)"
  "reg_only s s1 \<Longrightarrow> reg_only s (wHI_UL n v1 s1)"
  "reg_only s s1 \<Longrightarrow> reg_only s (wLO_UL n v1 s1)"
  "reg_only s s1 \<Longrightarrow> reg_only s (s1\<lparr>sa := x\<rparr>)"
  by (auto simp: reg_only_def unregs_def wUD_def wUL_def wUS_def wUC_def wGPR_def wHI_UD_def wLO_UD_def
      wHI_UL_def wLO_UL_def)

lemma reg_only_to_Rd [reg_only_intros]: "reg_only s s1 \<Longrightarrow> reg_only s (to_Rd v s1)"
  by (auto simp: to_Rd_def intro: reg_only_writes)

lemma reg_only_to_Rt [reg_only_intros]: "reg_only s s1 \<Longrightarrow> reg_only s (to_Rt v s1)"
  by (auto simp: to_Rt_def intro: reg_only_writes)

lemma reg_only_fold:
  assumes "\<And>x s1. x \<in> set xs \<Longrightarrow> reg_only s s1 \<Longrightarrow> reg_only s (f x s1)" and "reg_only s s1"
  shows "reg_only s (fold f xs s1)"
  using assms by (induction xs arbitrary: s1) auto

lemma reg_only_runs [reg_only_intros]:
  "r \<noteq> 0 \<Longrightarrow> reg_only s s1 \<Longrightarrow> reg_only s (wUDs r vs0 s1)"
  "r \<noteq> 0 \<Longrightarrow> reg_only s s1 \<Longrightarrow> reg_only s (wULs r vs1 s1)"
  "r \<noteq> 0 \<Longrightarrow> reg_only s s1 \<Longrightarrow> reg_only s (wUSs r vs2 s1)"
  "r \<noteq> 0 \<Longrightarrow> reg_only s s1 \<Longrightarrow> reg_only s (wUCs r vs3 s1)"
  unfolding wUDs_def wULs_def wUSs_def wUCs_def
  by (rule reg_only_fold, auto intro: reg_only_writes)+

lemma reg_only_if [reg_only_intros]:
  "(c \<Longrightarrow> reg_only s s1) \<Longrightarrow> (\<not> c \<Longrightarrow> reg_only s s2) \<Longrightarrow> reg_only s (if c then s1 else s2)"
  by simp

lemma reg_only_let_state:
  "reg_only s s0 \<Longrightarrow> (\<And>x. reg_only s x \<Longrightarrow> reg_only s (f x)) \<Longrightarrow> reg_only s (Let s0 f)"
  by simp

lemma reg_only_let: "(\<And>x. reg_only s (f x)) \<Longrightarrow> reg_only s (Let a f)"
  by simp

lemma reg_only_helpers [reg_only_intros]:
    "reg_only s s1 \<Longrightarrow> reg_only s (MADD_op n t s1)"
    "reg_only s s1 \<Longrightarrow> reg_only s (MULT_res n t s1)"
    "reg_only s s1 \<Longrightarrow> reg_only s (DIV_op n s1)"
    "reg_only s s1 \<Longrightarrow> reg_only s (DIVU_op n s1)"
    "reg_only s s1 \<Longrightarrow> reg_only s (Rd_from_LOHI s1)"
    "reg_only s s1 \<Longrightarrow> reg_only s (PHMADH_LO m n s1)"
    "reg_only s s1 \<Longrightarrow> reg_only s (PHMADH_HI m n s1)"
    "reg_only s s1 \<Longrightarrow> reg_only s (PHMSBH_LO m n s1)"
    "reg_only s s1 \<Longrightarrow> reg_only s (PHMSBH_HI m n s1)"
  unfolding MADD_op_def MULT_res_def DIV_op_def DIVU_op_def Rd_from_LOHI_def PHMADH_LO_def PHMADH_HI_def 
    PHMSBH_LO_def PHMSBH_HI_def 
  by (rule reg_only_let_state reg_only_intros reg_only_refl | assumption
      | simp add: reg_only_fields; fail | rule reg_only_let)+

lemma reg_only_lane_ops [reg_only_intros]:
    "Rd s1 \<noteq> 0 \<Longrightarrow> reg_only s s1 \<Longrightarrow> reg_only s (PSLLH_lane n s1)"
    "Rd s1 \<noteq> 0 \<Longrightarrow> reg_only s s1 \<Longrightarrow> reg_only s (PSRLH_lane n s1)"
    "Rd s1 \<noteq> 0 \<Longrightarrow> reg_only s s1 \<Longrightarrow> reg_only s (PSRAH_lane n s1)"
    "Rd s1 \<noteq> 0 \<Longrightarrow> reg_only s s1 \<Longrightarrow> reg_only s (PSLLW_lane n s1)"
    "Rd s1 \<noteq> 0 \<Longrightarrow> reg_only s s1 \<Longrightarrow> reg_only s (PSRLW_lane n s1)"
    "Rd s1 \<noteq> 0 \<Longrightarrow> reg_only s s1 \<Longrightarrow> reg_only s (PSRAW_lane n s1)"
    "Rd s1 \<noteq> 0 \<Longrightarrow> reg_only s s1 \<Longrightarrow> reg_only s (PADDW_lane n s1)"
    "Rd s1 \<noteq> 0 \<Longrightarrow> reg_only s s1 \<Longrightarrow> reg_only s (PSUBW_lane n s1)"
    "Rd s1 \<noteq> 0 \<Longrightarrow> reg_only s s1 \<Longrightarrow> reg_only s (PCGTW_lane n s1)"
    "Rd s1 \<noteq> 0 \<Longrightarrow> reg_only s s1 \<Longrightarrow> reg_only s (PMAXW_lane n s1)"
    "Rd s1 \<noteq> 0 \<Longrightarrow> reg_only s s1 \<Longrightarrow> reg_only s (PADDH_lane n s1)"
    "Rd s1 \<noteq> 0 \<Longrightarrow> reg_only s s1 \<Longrightarrow> reg_only s (PSUBH_lane n s1)"
    "Rd s1 \<noteq> 0 \<Longrightarrow> reg_only s s1 \<Longrightarrow> reg_only s (PCGTH_lane n s1)"
    "Rd s1 \<noteq> 0 \<Longrightarrow> reg_only s s1 \<Longrightarrow> reg_only s (PMAXH_lane n s1)"
    "Rd s1 \<noteq> 0 \<Longrightarrow> reg_only s s1 \<Longrightarrow> reg_only s (PADDB_lane n s1)"
    "Rd s1 \<noteq> 0 \<Longrightarrow> reg_only s s1 \<Longrightarrow> reg_only s (PSUBB_lane n s1)"
    "Rd s1 \<noteq> 0 \<Longrightarrow> reg_only s s1 \<Longrightarrow> reg_only s (PCGTB_lane n s1)"
    "Rd s1 \<noteq> 0 \<Longrightarrow> reg_only s s1 \<Longrightarrow> reg_only s (PADDSW_lane n s1)"
    "Rd s1 \<noteq> 0 \<Longrightarrow> reg_only s s1 \<Longrightarrow> reg_only s (PSUBSW_lane n s1)"
    "Rd s1 \<noteq> 0 \<Longrightarrow> reg_only s s1 \<Longrightarrow> reg_only s (PADDSH_lane n s1)"
    "Rd s1 \<noteq> 0 \<Longrightarrow> reg_only s s1 \<Longrightarrow> reg_only s (PSUBSH_lane n s1)"
    "Rd s1 \<noteq> 0 \<Longrightarrow> reg_only s s1 \<Longrightarrow> reg_only s (PADDSB_lane n s1)"
    "Rd s1 \<noteq> 0 \<Longrightarrow> reg_only s s1 \<Longrightarrow> reg_only s (PSUBSB_lane n s1)"
    "Rd s1 \<noteq> 0 \<Longrightarrow> reg_only s s1 \<Longrightarrow> reg_only s (PEXT5_lane n s1)"
    "Rd s1 \<noteq> 0 \<Longrightarrow> reg_only s s1 \<Longrightarrow> reg_only s (PPAC5_lane n s1)"
    "Rd s1 \<noteq> 0 \<Longrightarrow> reg_only s s1 \<Longrightarrow> reg_only s (PABSW_lane n s1)"
    "Rd s1 \<noteq> 0 \<Longrightarrow> reg_only s s1 \<Longrightarrow> reg_only s (PCEQW_lane n s1)"
    "Rd s1 \<noteq> 0 \<Longrightarrow> reg_only s s1 \<Longrightarrow> reg_only s (PMINW_lane n s1)"
    "Rd s1 \<noteq> 0 \<Longrightarrow> reg_only s s1 \<Longrightarrow> reg_only s (PABSH_lane n s1)"
    "Rd s1 \<noteq> 0 \<Longrightarrow> reg_only s s1 \<Longrightarrow> reg_only s (PCEQH_lane n s1)"
    "Rd s1 \<noteq> 0 \<Longrightarrow> reg_only s s1 \<Longrightarrow> reg_only s (PMINH_lane n s1)"
    "Rd s1 \<noteq> 0 \<Longrightarrow> reg_only s s1 \<Longrightarrow> reg_only s (PCEQB_lane n s1)"
    "Rd s1 \<noteq> 0 \<Longrightarrow> reg_only s s1 \<Longrightarrow> reg_only s (PADDUW_lane n s1)"
    "Rd s1 \<noteq> 0 \<Longrightarrow> reg_only s s1 \<Longrightarrow> reg_only s (PSUBUW_lane n s1)"
    "Rd s1 \<noteq> 0 \<Longrightarrow> reg_only s s1 \<Longrightarrow> reg_only s (PADDUH_lane n s1)"
    "Rd s1 \<noteq> 0 \<Longrightarrow> reg_only s s1 \<Longrightarrow> reg_only s (PSUBUH_lane n s1)"
    "Rd s1 \<noteq> 0 \<Longrightarrow> reg_only s s1 \<Longrightarrow> reg_only s (PADDUB_lane n s1)"
    "Rd s1 \<noteq> 0 \<Longrightarrow> reg_only s s1 \<Longrightarrow> reg_only s (PSUBUB_lane n s1)"
  unfolding PSLLH_lane_def PSRLH_lane_def PSRAH_lane_def PSLLW_lane_def PSRLW_lane_def PSRAW_lane_def 
    PADDW_lane_def PSUBW_lane_def PCGTW_lane_def PMAXW_lane_def PADDH_lane_def PSUBH_lane_def 
    PCGTH_lane_def PMAXH_lane_def PADDB_lane_def PSUBB_lane_def PCGTB_lane_def PADDSW_lane_def 
    PSUBSW_lane_def PADDSH_lane_def PSUBSH_lane_def PADDSB_lane_def PSUBSB_lane_def PEXT5_lane_def 
    PPAC5_lane_def PABSW_lane_def PCEQW_lane_def PMINW_lane_def PABSH_lane_def PCEQH_lane_def 
    PMINH_lane_def PCEQB_lane_def PADDUW_lane_def PSUBUW_lane_def PADDUH_lane_def PSUBUH_lane_def 
    PADDUB_lane_def PSUBUB_lane_def 
  by (rule reg_only_let_state reg_only_intros reg_only_refl | assumption
      | simp add: reg_only_fields; fail | rule reg_only_let)+

lemma reg_only_pair_ops [reg_only_intros]:
    "reg_only s s1 \<Longrightarrow> reg_only s (PMADDW_lane m n s1)"
    "reg_only s s1 \<Longrightarrow> reg_only s (PMSUBW_lane m n s1)"
    "reg_only s s1 \<Longrightarrow> reg_only s (PMULTW_lane m n s1)"
    "reg_only s s1 \<Longrightarrow> reg_only s (PDIVW_lane m n s1)"
    "reg_only s s1 \<Longrightarrow> reg_only s (PMADDUW_lane m n s1)"
    "reg_only s s1 \<Longrightarrow> reg_only s (PMULTUW_lane m n s1)"
    "reg_only s s1 \<Longrightarrow> reg_only s (PDIVUW_lane m n s1)"
  unfolding PMADDW_lane_def PMSUBW_lane_def PMULTW_lane_def PDIVW_lane_def PMADDUW_lane_def PMULTUW_lane_def 
    PDIVUW_lane_def 
  by (rule reg_only_let_state reg_only_intros reg_only_refl | assumption
      | simp add: reg_only_fields; fail | rule reg_only_let)+

lemma reg_only_lane_fold [reg_only_intros]:
  assumes "Rd s \<noteq> 0" "\<And>n s1. Rd s1 \<noteq> 0 \<Longrightarrow> reg_only s s1 \<Longrightarrow> reg_only s (f n s1)" "reg_only s s0"
  shows "reg_only s (fold f ns s0)"
  by (rule reg_only_fold) (use assms in \<open>simp_all add: reg_only_fields\<close>)

lemma reg_only_PDIVBW [reg_only_intros]: "reg_only s (PDIVBW s)"
  unfolding PDIVBW_def
  by (rule reg_only_fold) (auto simp: PDIVBW_lane_def intro!: reg_only_intros reg_only_refl)

lemma reg_only_ALU [reg_only_intros]:
    "reg_only s (ADDIU s)" "reg_only s (DADDIU s)" "reg_only s (ANDI s)" "reg_only s (ORI s)"
    "reg_only s (XORI s)" "reg_only s (SLTI s)" "reg_only s (SLTIU s)" "reg_only s (ADDU s)"
    "reg_only s (DADDU s)" "reg_only s (SUBU s)" "reg_only s (DSUBU s)" "reg_only s (op_AND s)"
    "reg_only s (op_OR s)" "reg_only s (op_XOR s)" "reg_only s (op_NOR s)" "reg_only s (SLT s)"
    "reg_only s (SLTU s)" "reg_only s (DIV s)" "reg_only s (DIVU s)" "reg_only s (MULT s)"
    "reg_only s (MULTU s)" "reg_only s (LUI s)" "reg_only s (MFHI s)" "reg_only s (MFLO s)"
    "reg_only s (MTHI s)" "reg_only s (MTLO s)" "reg_only s (SRA s)" "reg_only s (SRL s)"
    "reg_only s (SLL s)" "reg_only s (DSLL s)" "reg_only s (DSLL32 s)" "reg_only s (DSRA s)"
    "reg_only s (DSRA32 s)" "reg_only s (DSRL s)" "reg_only s (DSRL32 s)" "reg_only s (SLLV s)"
    "reg_only s (SRAV s)" "reg_only s (SRLV s)" "reg_only s (DSLLV s)" "reg_only s (DSRAV s)"
    "reg_only s (DSRLV s)" "reg_only s (MOVZ s)" "reg_only s (MOVN s)" "reg_only s (MFSA s)"
    "reg_only s (MTSA s)" "reg_only s (MTSAB s)" "reg_only s (MTSAH s)" "reg_only s (SYNC s)"
    "reg_only s (PREF s)"
  unfolding ADDIU_def DADDIU_def ANDI_def ORI_def XORI_def SLTI_def SLTIU_def ADDU_def DADDU_def SUBU_def 
    DSUBU_def op_AND_def op_OR_def op_XOR_def op_NOR_def SLT_def SLTU_def DIV_def DIVU_def MULT_def 
    MULTU_def LUI_def MFHI_def MFLO_def MTHI_def MTLO_def SRA_def SRL_def SLL_def DSLL_def DSLL32_def 
    DSRA_def DSRA32_def DSRL_def DSRL32_def SLLV_def SRAV_def SRLV_def DSLLV_def DSRAV_def DSRLV_def 
    MOVZ_def MOVN_def MFSA_def MTSA_def MTSAB_def MTSAH_def SYNC_def PREF_def 
  by (rule reg_only_let_state reg_only_intros reg_only_refl | assumption
      | simp add: reg_only_fields; fail | rule reg_only_let)+

lemma reg_only_MMI0 [reg_only_intros]:
    "reg_only s (MADD s)" "reg_only s (MADDU s)" "reg_only s (MADD1 s)" "reg_only s (MADDU1 s)"
    "reg_only s (MFHI1 s)" "reg_only s (MFLO1 s)" "reg_only s (MTHI1 s)" "reg_only s (MTLO1 s)"
    "reg_only s (MULT1 s)" "reg_only s (MULTU1 s)" "reg_only s (DIV1 s)" "reg_only s (DIVU1 s)"
    "reg_only s (PLZCW s)" "reg_only s (PMFHL s)" "reg_only s (PMTHL s)" "reg_only s (PSLLH s)"
    "reg_only s (PSRLH s)" "reg_only s (PSRAH s)" "reg_only s (PSLLW s)" "reg_only s (PSRLW s)"
    "reg_only s (PSRAW s)" "reg_only s (PADDW s)" "reg_only s (PSUBW s)" "reg_only s (PCGTW s)"
    "reg_only s (PMAXW s)" "reg_only s (PADDH s)" "reg_only s (PSUBH s)" "reg_only s (PCGTH s)"
    "reg_only s (PMAXH s)" "reg_only s (PADDB s)" "reg_only s (PSUBB s)" "reg_only s (PCGTB s)"
    "reg_only s (PADDSW s)" "reg_only s (PSUBSW s)" "reg_only s (PEXTLW s)" "reg_only s (PPACW s)"
    "reg_only s (PADDSH s)" "reg_only s (PSUBSH s)" "reg_only s (PEXTLH s)" "reg_only s (PPACH s)"
  unfolding MADD_def MADDU_def MADD1_def MADDU1_def MFHI1_def MFLO1_def MTHI1_def MTLO1_def MULT1_def 
    MULTU1_def DIV1_def DIVU1_def PLZCW_def PMFHL_def PMTHL_def PSLLH_def PSRLH_def PSRAH_def PSLLW_def 
    PSRLW_def PSRAW_def PADDW_def PSUBW_def PCGTW_def PMAXW_def PADDH_def PSUBH_def PCGTH_def PMAXH_def 
    PADDB_def PSUBB_def PCGTB_def PADDSW_def PSUBSW_def PEXTLW_def PPACW_def PADDSH_def PSUBSH_def 
    PEXTLH_def PPACH_def 
  by (rule reg_only_let_state reg_only_intros reg_only_refl | assumption
      | simp add: reg_only_fields; fail | rule reg_only_let)+

lemma reg_only_MMI1 [reg_only_intros]:
    "reg_only s (PADDSB s)" "reg_only s (PSUBSB s)" "reg_only s (PEXTLB s)" "reg_only s (PPACB s)"
    "reg_only s (PEXT5 s)" "reg_only s (PPAC5 s)" "reg_only s (PABSW s)" "reg_only s (PCEQW s)"
    "reg_only s (PMINW s)" "reg_only s (PADSBH s)" "reg_only s (PABSH s)" "reg_only s (PCEQH s)"
    "reg_only s (PMINH s)" "reg_only s (PCEQB s)" "reg_only s (PADDUW s)" "reg_only s (PSUBUW s)"
    "reg_only s (PEXTUW s)" "reg_only s (PADDUH s)" "reg_only s (PSUBUH s)" "reg_only s (PEXTUH s)"
    "reg_only s (PADDUB s)" "reg_only s (PSUBUB s)" "reg_only s (PEXTUB s)" "reg_only s (QFSRV s)"
    "reg_only s (PMADDW s)" "reg_only s (PSLLVW s)" "reg_only s (PSRLVW s)" "reg_only s (PMSUBW s)"
    "reg_only s (PMFHI s)" "reg_only s (PMFLO s)" "reg_only s (PINTH s)" "reg_only s (PMULTW s)"
    "reg_only s (PDIVW s)" "reg_only s (PCPYLD s)" "reg_only s (PMADDH s)" "reg_only s (PHMADH s)"
    "reg_only s (PHMSBH s)" "reg_only s (PAND s)" "reg_only s (PXOR s)" "reg_only s (PMSUBH s)"
  unfolding PADDSB_def PSUBSB_def PEXTLB_def PPACB_def PEXT5_def PPAC5_def PABSW_def PCEQW_def PMINW_def 
    PADSBH_def PABSH_def PCEQH_def PMINH_def PCEQB_def PADDUW_def PSUBUW_def PEXTUW_def PADDUH_def 
    PSUBUH_def PEXTUH_def PADDUB_def PSUBUB_def PEXTUB_def QFSRV_def PMADDW_def PSLLVW_def PSRLVW_def 
    PMSUBW_def PMFHI_def PMFLO_def PINTH_def PMULTW_def PDIVW_def PCPYLD_def PMADDH_def PHMADH_def 
    PHMSBH_def PAND_def PXOR_def PMSUBH_def 
  by (rule reg_only_let_state reg_only_intros reg_only_refl | assumption
      | simp add: reg_only_fields; fail | rule reg_only_let)+

lemma reg_only_MMI2 [reg_only_intros]:
    "reg_only s (PEXEH s)" "reg_only s (PREVH s)" "reg_only s (PMULTH s)" "reg_only s (PEXEW s)"
    "reg_only s (PROT3W s)" "reg_only s (PMADDUW s)" "reg_only s (PSRAVW s)" "reg_only s (PMTHI s)"
    "reg_only s (PMTLO s)" "reg_only s (PINTEH s)" "reg_only s (PMULTUW s)" "reg_only s (PDIVUW s)"
    "reg_only s (PCPYUD s)" "reg_only s (POR s)" "reg_only s (PNOR s)" "reg_only s (PEXCH s)"
    "reg_only s (PCPYH s)" "reg_only s (PEXCW s)"
  unfolding PEXEH_def PREVH_def PMULTH_def PEXEW_def PROT3W_def PMADDUW_def PSRAVW_def PMTHI_def PMTLO_def 
    PINTEH_def PMULTUW_def PDIVUW_def PCPYUD_def POR_def PNOR_def PEXCH_def PCPYH_def PEXCW_def 
  by (rule reg_only_let_state reg_only_intros reg_only_refl | assumption
      | simp add: reg_only_fields; fail | rule reg_only_let)+

section \<open>Register 0\<close>

text \<open>
  \<open>keeps_r0 z r\<close>: whatever the outcome \<open>r\<close> of an operation, normal or not, register 0 has the value \<open>z\<close>
  in the state it leaves.
\<close>

definition keeps_r0 :: "u128 \<Rightarrow> ('a cpuRegisters_scheme, 'b) res \<Rightarrow> bool" where
  "keeps_r0 z r \<longleftrightarrow> GPR (res_state r) 0 = z"

named_theorems r0_intros

lemma keeps_r0_basic [r0_intros]:
  "GPR s 0 = z \<Longrightarrow> keeps_r0 z (Ok x s)"
  "GPR s 0 = z \<Longrightarrow> keeps_r0 z (Throw e s)"
  "(c \<Longrightarrow> keeps_r0 z m1) \<Longrightarrow> (\<not> c \<Longrightarrow> keeps_r0 z m2) \<Longrightarrow> keeps_r0 z (if c then m1 else m2)"
  by (simp_all add: keeps_r0_def)

lemma keeps_r0_bind [r0_intros]:
  "keeps_r0 z m \<Longrightarrow> (\<And>x s. GPR s 0 = z \<Longrightarrow> keeps_r0 z (f x s)) \<Longrightarrow> keeps_r0 z (res_bind m f)"
  by (cases m) (simp_all add: keeps_r0_def)

lemma keeps_r0_for [r0_intros]:
  "(\<And>i s. GPR s 0 = z \<Longrightarrow> keeps_r0 z (f i s)) \<Longrightarrow> GPR s 0 = z \<Longrightarrow> keeps_r0 z (res_for f is s)"
  by (induction "is" arbitrary: s) (auto intro!: r0_intros simp: keeps_r0_basic)

lemma keeps_r0_let: "(\<And>x. keeps_r0 z (f x)) \<Longrightarrow> keeps_r0 z (Let a f)"
  by simp

lemma keeps_r0_res_state: "keeps_r0 z r \<Longrightarrow> GPR (res_state r) 0 = z"
  by (simp add: keeps_r0_def)

named_theorems r0_simps

lemma r0_reg_only: "reg_only s s1 \<Longrightarrow> GPR s1 0 = GPR s 0"
  by (rule reg_only_keeps(7))

lemma GPR_cpuException [r0_simps]:
  "GPR (wCP0 r v s) = GPR s" "GPR (cpuException_enter bd c off s) = GPR s" "GPR (cpuException cd bd s) = GPR s"
  "GPR (cpuTlbMissR a bd s) = GPR s" "GPR (cpuTlbMissW a bd s) = GPR s"
  "GPR (cpuSetNextEventDelta d s) = GPR s"
  by (simp_all add: wCP0_def cpuException_enter_def cpuException_def cpuTlbMissR_def cpuTlbMissW_def
      cpuTlbMiss_def cpuSetNextEventDelta_def cpuSetNextEvent_def Let_def)

lemma r0_writes [r0_simps]:
  "r \<noteq> 0 \<Longrightarrow> GPR (wUD r n v s) 0 = GPR s 0"
  "r \<noteq> 0 \<Longrightarrow> GPR (wUL r n v1 s) 0 = GPR s 0"
  "GPR (to_Rd v s) 0 = GPR s 0" "GPR (to_Rt v s) 0 = GPR s 0"
  "r \<noteq> 0 \<Longrightarrow> GPR (wGPR r w s) 0 = GPR s 0"
  by (simp_all add: wUD_def wUL_def to_Rd_def to_Rt_def wGPR_def)

lemma r0_trapping [r0_simps]:
    "GPR (ADDI s) 0 = GPR s 0" "GPR (DADDI s) 0 = GPR s 0" "GPR (ADD s) 0 = GPR s 0"
    "GPR (DADD s) 0 = GPR s 0" "GPR (SUB s) 0 = GPR s 0" "GPR (DSUB s) 0 = GPR s 0"
    "GPR (BREAK s) 0 = GPR s 0" "GPR (TGE s) 0 = GPR s 0" "GPR (TGEU s) 0 = GPR s 0"
    "GPR (TLT s) 0 = GPR s 0" "GPR (TLTU s) 0 = GPR s 0" "GPR (TEQ s) 0 = GPR s 0"
    "GPR (TNE s) 0 = GPR s 0" "GPR (TGEI s) 0 = GPR s 0" "GPR (TLTI s) 0 = GPR s 0"
    "GPR (TEQI s) 0 = GPR s 0" "GPR (TNEI s) 0 = GPR s 0" "GPR (TGEIU s) 0 = GPR s 0"
    "GPR (TLTIU s) 0 = GPR s 0"
  by (simp_all add: ADDI_def DADDI_def ADD_def DADD_def SUB_def DSUB_def BREAK_def TGE_def TGEU_def TLT_def TLTU_def TEQ_def TNE_def TGEI_def TLTI_def TEQI_def TNEI_def TGEIU_def TLTIU_def trap_def
      add32_Overflow_def add64_Overflow_def r0_simps Let_def)

subsection \<open>Memory\<close>

lemma GPR_cache_op [r0_simps]:
  "GPR (wtag i w f s) = GPR s" "GPR (wdata i w dt s) = GPR s" "GPR (line_clear i w s) = GPR s"
  "GPR (writeBackIfNeeded i w s) = GPR s" "GPR (line_load_ppf i w q s) = GPR s"
  by (simp_all add: wtag_def wdata_def writeBackIfNeeded_def line_load_ppf_def line_clear_def)

lemma GPR_getFreeCache: "getFreeCache mem s = (i, w, s') \<Longrightarrow> GPR s' = GPR s"
  by (auto simp: getFreeCache_def Let_def r0_simps split: option.splits)

lemma GPR_cache [r0_simps]:
  "GPR (writeCache mem v s) = GPR s" "readCache mem s = (x, s2) \<Longrightarrow> GPR s2 = GPR s"
proof -
  obtain i w s1 where g: "getFreeCache mem s = (i, w, s1)" by (metis prod_cases3)
  note g = g GPR_getFreeCache [OF g]
  show "GPR (writeCache mem v s) = GPR s" "readCache mem s = (x, s2) \<Longrightarrow> GPR s2 = GPR s"
    using g by (auto simp: writeCache_def readCache_def prepareCacheAccess_def Let_def r0_simps)
qed

lemma GPR_CACHE [r0_simps]: "GPR (CACHE s) = GPR s"
  by (simp add: CACHE_def CACHE_op_def doCacheHitOp_def Let_def r0_simps split: option.split)

text \<open>The handlers behind the memory map are asked to leave register 0 alone.\<close>

definition devs_r0 :: "'a ee_mem_scheme devs \<Rightarrow> bool" where
  "devs_r0 d \<longleftrightarrow> (\<forall>h a s.
     keeps_r0 (GPR s 0) (devR8 d h a s) \<and> keeps_r0 (GPR s 0) (devR16 d h a s) \<and>
     keeps_r0 (GPR s 0) (devR32 d h a s) \<and> keeps_r0 (GPR s 0) (devR64 d h a s) \<and>
     keeps_r0 (GPR s 0) (devR128 d h a s) \<and>
     (\<forall>v. keeps_r0 (GPR s 0) (devW8 d h a v s)) \<and> (\<forall>v. keeps_r0 (GPR s 0) (devW16 d h a v s)) \<and>
     (\<forall>v. keeps_r0 (GPR s 0) (devW32 d h a v s)) \<and> (\<forall>v. keeps_r0 (GPR s 0) (devW64 d h a v s)) \<and>
     (\<forall>v. keeps_r0 (GPR s 0) (devW128 d h a v s)))"

lemma keeps_r0_vtlb_read:
  assumes "\<And>h a s. keeps_r0 (GPR s 0) (dev h a s)" and "GPR s 0 = z"
  shows "keeps_r0 z (vtlb_read dev addr s)"
  using assms(2) unfolding vtlb_read_def Let_def vtlb_handlerRead_def vtlb_Miss_def
  by (auto split: prod.splits simp: r0_simps intro!: r0_intros assms(1))

lemma keeps_r0_vtlb_write:
  assumes "\<And>h a v s. keeps_r0 (GPR s 0) (dev h a v s)" and "GPR s 0 = z"
  shows "keeps_r0 z (vtlb_write dev addr data s)"
  using assms(2) unfolding vtlb_write_def Let_def vtlb_handlerWrite_def vtlb_Miss_def
  by (auto simp: r0_simps intro!: r0_intros assms(1))

lemma keeps_r0_mem [r0_intros]:
  assumes "devs_r0 d" "GPR s 0 = z"
  shows "keeps_r0 z (memRead8 d a s)" "keeps_r0 z (memRead16 d a s)" "keeps_r0 z (memRead32 d a s)"
    "keeps_r0 z (memRead64 d a s)" "keeps_r0 z (memRead128 d a s)"
    "keeps_r0 z (memWrite8 d a v8 s)" "keeps_r0 z (memWrite16 d a v16 s)"
    "keeps_r0 z (memWrite32 d a v32 s)" "keeps_r0 z (memWrite64 d a v64 s)"
    "keeps_r0 z (memWrite128 d a v128 s)"
  using assms unfolding mem_access_defs devs_r0_def
  by (auto intro!: keeps_r0_vtlb_read keeps_r0_vtlb_write)

lemma keeps_r0_load_store [r0_intros]:
  assumes "devs_r0 d" "GPR s 0 = z"
  shows
    "keeps_r0 z (LB d s)" "keeps_r0 z (LBU d s)" "keeps_r0 z (LH d s)" "keeps_r0 z (LHU d s)"
    "keeps_r0 z (LW d s)" "keeps_r0 z (LWU d s)" "keeps_r0 z (LWL d s)" "keeps_r0 z (LWR d s)"
    "keeps_r0 z (LD d s)" "keeps_r0 z (LDL d s)" "keeps_r0 z (LDR d s)" "keeps_r0 z (LQ d s)"
    "keeps_r0 z (SB d s)" "keeps_r0 z (SH d s)" "keeps_r0 z (SW d s)" "keeps_r0 z (SWL d s)"
    "keeps_r0 z (SWR d s)" "keeps_r0 z (SD d s)" "keeps_r0 z (SDL d s)" "keeps_r0 z (SDR d s)"
    "keeps_r0 z (SQ d s)"
  using assms unfolding Let_def LB_def LBU_def LH_def LHU_def LW_def LWU_def LWL_def LWR_def LD_def LDL_def LDR_def 
    LQ_def SB_def SH_def SW_def SWL_def SWR_def SD_def SDL_def SDR_def SQ_def 
  by (auto intro!: r0_intros simp: r0_simps)

subsection \<open>The TLB and coprocessor 0\<close>

lemma GPR_maps [r0_simps]:
  "GPR (VMap_pages n vaddr paddr s) = GPR s" "GPR (VMapBuffer_pages n vaddr b s) = GPR s"
  "GPR (VMapUnmap_pages n vaddr s) = GPR s"
proof -
  show "GPR (VMap_pages n vaddr paddr s) = GPR s"
    by (induction n vaddr paddr s rule: VMap_pages.induct) (simp_all add: Let_def split: option.split)
  show "GPR (VMapBuffer_pages n vaddr b s) = GPR s"
    by (induction n vaddr b s rule: VMapBuffer_pages.induct) simp_all
  show "GPR (VMapUnmap_pages n vaddr s) = GPR s"
    by (induction n vaddr s rule: VMapUnmap_pages.induct) simp_all
qed

lemma keeps_r0_maps [r0_intros]:
  assumes "GPR s 0 = z"
  shows "keeps_r0 z (vtlb_VMap vaddr paddr sz s)" "keeps_r0 z (vtlb_VMapBuffer vaddr b sz s)"
    "keeps_r0 z (vtlb_VMapUnmap vaddr sz s)" "keeps_r0 z (memSetPageAddr vaddr paddr s)"
    "keeps_r0 z (memClearPageAddr vaddr s)"
  using assms by (auto simp: vtlb_VMap_def vtlb_VMapBuffer_def vtlb_VMapUnmap_def memSetPageAddr_def
      memClearPageAddr_def r0_simps intro!: r0_intros)

lemma keeps_r0_halves [r0_intros]:
  assumes "GPR s 0 = z"
  shows "keeps_r0 z (MapTLB_half t saddr pfn s)" "keeps_r0 z (UnmapTLB_half t saddr s)"
  using assms by (auto simp: MapTLB_half_def UnmapTLB_half_def Let_def intro!: r0_intros)

lemma keeps_r0_TLB [r0_intros]:
  assumes "GPR s 0 = z"
  shows "keeps_r0 z (UnmapTLB i s)" "keeps_r0 z (MapTLB i s)" "keeps_r0 z (TLB_write i s)"
    "keeps_r0 z (TLBWI s)" "keeps_r0 z (TLBWR s)" "keeps_r0 z (TLBR s)"
  unfolding TLBWI_def TLBWR_def TLB_write_def WriteTLB_def UnmapTLB_def MapTLB_def TLBR_def set_tlb_def
  by (rule r0_intros keeps_r0_let | assumption | simp add: r0_simps assms; fail)+

lemma r0_COP0 [r0_simps]:
  "GPR (TLBP s) = GPR s" "GPR (COP0_UpdatePCCR s) = GPR s" "GPR (MFC0 s) 0 = GPR s 0" "GPR (MTC0 s) = GPR s"
  "GPR (ERET s) = GPR s" "GPR (DI s) = GPR s" "GPR (EI s) = GPR s"
proof -
  show p: "GPR (COP0_UpdatePCCR s) = GPR s" for s :: "'b ee_cpu_scheme"
    by (simp add: COP0_UpdatePCCR_def UpdatePCR0_def UpdatePCR1_def Let_def)
  have rt: "Rt (COP0_UpdatePCCR s) = Rt s" for s :: "'b ee_cpu_scheme"
    by (simp add: COP0_UpdatePCCR_def UpdatePCR0_def UpdatePCR1_def Let_def Rt_def)
  show "GPR (TLBP s) = GPR s" by (simp add: TLBP_def r0_simps split: option.split)
  show "GPR (MTC0 s) = GPR s"
    by (simp add: MTC0_def WriteCP0Status_def WriteCP0Config_def r0_simps Let_def p)
  show "GPR (MFC0 s) 0 = GPR s 0" for s :: "'b ee_cpu_scheme"
    by (simp add: MFC0_def Let_def r0_simps p rt)
  show "GPR (ERET s) = GPR s" by (simp add: ERET_def intSetBranch_def Let_def r0_simps)
  show "GPR (DI s) = GPR s" "GPR (EI s) = GPR s" by (simp_all add: DI_def EI_def r0_simps)
qed

lemmas r0_reg_ops [r0_simps] = reg_only_PDIVBW [THEN r0_reg_only] reg_only_ALU [THEN r0_reg_only]
  reg_only_MMI0 [THEN r0_reg_only] reg_only_MMI1 [THEN r0_reg_only] reg_only_MMI2 [THEN r0_reg_only]

subsection \<open>Floating point\<close>

lemma GPR_fpu_writes [r0_simps]:
  "GPR (wFd v s) = GPR s" "GPR (wFA v s) = GPR s" "GPR (wFPR r v s) = GPR s"
  "GPR (setFPUFlags f s) = GPR s" "GPR (clearFPUFlags f s) = GPR s"
  by (simp_all add: wFd_def wFA_def wFPR_def setFPUFlags_def clearFPUFlags_def)

lemma GPR_fpuResult [r0_simps]:
  "GPR (fpuResult wFd f1 f2 v s) = GPR s" "GPR (fpuResult wFA f1 f2 v s) = GPR s"
  by (simp_all add: fpuResult_def checkOverflow_def checkUnderflow_def r0_simps)

lemma r0_FPU [r0_simps]:
    "GPR (ABS_S s) 0 = GPR s 0" "GPR (ADD_S h s) 0 = GPR s 0" "GPR (ADDA_S h s) 0 = GPR s 0"
    "GPR (C_EQ h s) 0 = GPR s 0" "GPR (C_F s) 0 = GPR s 0" "GPR (C_LE h s) 0 = GPR s 0"
    "GPR (C_LT h s) 0 = GPR s 0" "GPR (CFC1 s) 0 = GPR s 0" "GPR (CTC1 s) 0 = GPR s 0"
    "GPR (CVT_S h s) 0 = GPR s 0" "GPR (CVT_W h s) 0 = GPR s 0" "GPR (DIV_S h s) 0 = GPR s 0"
    "GPR (MADD_S h s) 0 = GPR s 0" "GPR (MADDA_S h s) 0 = GPR s 0" "GPR (MAX_S h s) 0 = GPR s 0"
    "GPR (MFC1 s) 0 = GPR s 0" "GPR (MIN_S h s) 0 = GPR s 0" "GPR (MOV_S s) 0 = GPR s 0"
    "GPR (MSUB_S h s) 0 = GPR s 0" "GPR (MSUBA_S h s) 0 = GPR s 0" "GPR (MTC1 s) 0 = GPR s 0"
    "GPR (MUL_S h s) 0 = GPR s 0" "GPR (MULA_S h s) 0 = GPR s 0" "GPR (NEG_S s) 0 = GPR s 0"
    "GPR (RSQRT_S h s) 0 = GPR s 0" "GPR (SQRT_S h s) 0 = GPR s 0" "GPR (SUB_S h s) 0 = GPR s 0"
    "GPR (SUBA_S h s) 0 = GPR s 0"
  unfolding ABS_S_def ADD_S_def ADDA_S_def C_EQ_def C_F_def C_LE_def C_LT_def CFC1_def CTC1_def 
    CVT_S_def CVT_W_def DIV_S_def MADD_S_def MADDA_S_def MAX_S_def MFC1_def MIN_S_def 
    MOV_S_def MSUB_S_def MSUBA_S_def MTC1_def MUL_S_def MULA_S_def NEG_S_def RSQRT_S_def 
    SQRT_S_def SUB_S_def SUBA_S_def 
  by (simp_all add: Let_def C_cond_S_def checkDivideByZero_def r0_simps)

lemma keeps_r0_FPU_mem [r0_intros]:
  assumes "devs_r0 d" "GPR s 0 = z"
  shows "keeps_r0 z (LWC1 d s)" "keeps_r0 z (SWC1 d s)"
  using assms unfolding Let_def LWC1_def SWC1_def by (auto intro!: r0_intros simp: r0_simps)

subsection \<open>Branches\<close>

definition env_r0 :: "'a ee_mem_scheme ee_env \<Rightarrow> bool" where
  "env_r0 env \<longleftrightarrow> devs_r0 (env_devs env) \<and>
     (\<forall>s. keeps_r0 (GPR s 0) (env_cpuEventTest_Shared env s) \<and> keeps_r0 (GPR s 0) (env_SYSCALL_hle env s) \<and>
          keeps_r0 (GPR s 0) (env_COP2 env s) \<and> keeps_r0 (GPR s 0) (env_LQC2 env s) \<and>
          keeps_r0 (GPR s 0) (env_SQC2 env s))"

definition step_r0 :: "('a cpuRegisters_scheme \<Rightarrow> ('a cpuRegisters_scheme, 'b) res) \<Rightarrow> bool" where
  "step_r0 f \<longleftrightarrow> (\<forall>s. keeps_r0 (GPR s 0) (f s))"

lemma step_r0D: "step_r0 f \<Longrightarrow> GPR s 0 = z \<Longrightarrow> keeps_r0 z (f s)"
  by (auto simp: step_r0_def)

lemma keeps_r0_execI [r0_intros]:
  "step_r0 (env_execI env) \<Longrightarrow> GPR s 0 = z \<Longrightarrow> keeps_r0 z (env_execI env s)"
  by (rule step_r0D)

lemma env_r0_steps [r0_intros]:
  assumes "env_r0 env" "GPR s 0 = z"
  shows "keeps_r0 z (env_cpuEventTest_Shared env s)" "keeps_r0 z (env_SYSCALL_hle env s)"
    "keeps_r0 z (env_COP2 env s)" "keeps_r0 z (env_LQC2 env s)" "keeps_r0 z (env_SQC2 env s)"
  using assms by (auto simp: env_r0_def)

lemma GPR_SetLink [r0_simps]: "r \<noteq> 0 \<Longrightarrow> GPR (SetLink r s) 0 = GPR s 0"
  by (simp add: SetLink_def r0_simps)

lemma GPR_addBlockCycles [r0_simps]: "GPR (addBlockCycles s) = GPR s"
  by (simp add: addBlockCycles_def)

lemma keeps_r0_doBranch [r0_intros]:
  assumes "env_r0 env" "step_r0 (env_execI env)" "GPR s 0 = z"
  shows "keeps_r0 z (intEventTest env s)" "keeps_r0 z (doBranch env t s)" "keeps_r0 z (intDoBranch env t s)"
  using assms by (auto simp: intEventTest_def doBranch_def intDoBranch_def doBranch_shared_def r0_simps
      intro!: r0_intros)

lemma keeps_r0_Goemon [r0_intros]:
  assumes "GPR s 0 = z"
  shows "keeps_r0 z (GoemonPreloadTlb s)" "keeps_r0 z (GoemonUnloadTlb k s)"
  unfolding GoemonPreloadTlb_def GoemonUnloadTlb_def GoemonPreload_entry_def GoemonUnload_entry_def
  by (rule r0_intros keeps_r0_let | assumption | simp add: r0_simps set_goemon_field_def assms; fail)+

lemma keeps_r0_branches [r0_intros]:
  assumes "env_r0 env" "step_r0 (env_execI env)" "GPR s 0 = z"
  shows
    "keeps_r0 z (J env s)" "keeps_r0 z (JAL env s)" "keeps_r0 z (JR env s)"
    "keeps_r0 z (JALR env s)" "keeps_r0 z (skipDelaySlot env s)" "keeps_r0 z (BEQ env s)"
    "keeps_r0 z (BNE env s)" "keeps_r0 z (BGEZ env s)" "keeps_r0 z (BGTZ env s)"
    "keeps_r0 z (BLEZ env s)" "keeps_r0 z (BLTZ env s)" "keeps_r0 z (BGEZAL env s)"
    "keeps_r0 z (BLTZAL env s)" "keeps_r0 z (BEQL env s)" "keeps_r0 z (BNEL env s)"
    "keeps_r0 z (BLEZL env s)" "keeps_r0 z (BGTZL env s)" "keeps_r0 z (BLTZL env s)"
    "keeps_r0 z (BGEZL env s)" "keeps_r0 z (BLTZALL env s)" "keeps_r0 z (BGEZALL env s)"
    "keeps_r0 z (BC0F env s)" "keeps_r0 z (BC0T env s)" "keeps_r0 z (BC0FL env s)"
    "keeps_r0 z (BC0TL env s)" "keeps_r0 z (BC1F env s)" "keeps_r0 z (BC1T env s)"
    "keeps_r0 z (BC1FL env s)" "keeps_r0 z (BC1TL env s)" "keeps_r0 z (SYSCALL env s)"
  using assms unfolding Let_def J_def JAL_def JR_def JALR_def skipDelaySlot_def BEQ_def BNE_def BGEZ_def BGTZ_def 
    BLEZ_def BLTZ_def BGEZAL_def BLTZAL_def BEQL_def BNEL_def BLEZL_def BGTZL_def BLTZL_def 
    BGEZL_def BLTZALL_def BGEZALL_def BC0F_def BC0T_def BC0FL_def BC0TL_def BC1F_def 
    BC1T_def BC1FL_def BC1TL_def SYSCALL_def 
  by (auto intro!: r0_intros simp: r0_simps)

subsection \<open>The whole machine\<close>

text \<open>Register 0 is left alone in every environment that does so, whatever the outcome.\<close>

definition handler_r0 :: "('a ee_fpu_scheme ee_env \<Rightarrow> 'a ee_step) \<Rightarrow> bool" where
  "handler_r0 h \<longleftrightarrow>
     (\<forall>env s z. env_r0 env \<longrightarrow> step_r0 (env_execI env) \<longrightarrow> GPR s 0 = z \<longrightarrow> keeps_r0 z (h env s))"

lemma handler_r0I:
  "(\<And>env s z. env_r0 env \<Longrightarrow> step_r0 (env_execI env) \<Longrightarrow> GPR s 0 = z \<Longrightarrow> keeps_r0 z (h env s)) \<Longrightarrow> handler_r0 h"
  by (simp add: handler_r0_def)

lemma handler_r0D:
  "handler_r0 h \<Longrightarrow> env_r0 env \<Longrightarrow> step_r0 (env_execI env) \<Longrightarrow> GPR s 0 = z \<Longrightarrow> keeps_r0 z (h env s)"
  unfolding handler_r0_def by blast

lemma env_r0_devs [r0_intros]: "env_r0 env \<Longrightarrow> devs_r0 (env_devs env)"
  by (simp add: env_r0_def)

definition OPCODE_r0 :: "'a ee_fpu_scheme OPCODE \<Rightarrow> bool" where
  "OPCODE_r0 o' \<longleftrightarrow> (\<forall>h. op_interpret o' = Some h \<longrightarrow> handler_r0 h)"

lemma OPCODE_r0_Make:
  "OPCODE_r0 (MakeOpcode n c f h) \<longleftrightarrow> handler_r0 h" "OPCODE_r0 (MakeOpcodeClass n cl) \<longleftrightarrow> True"
  by (simp_all add: OPCODE_r0_def MakeOpcode_def MakeOpcodeClass_def)

lemma tables_r0:
  "list_all OPCODE_r0 tbl_Standard"
  "list_all OPCODE_r0 tbl_Special"
  "list_all OPCODE_r0 tbl_RegImm"
  "list_all OPCODE_r0 tbl_MMI"
  "list_all OPCODE_r0 tbl_MMI0"
  "list_all OPCODE_r0 tbl_MMI1"
  "list_all OPCODE_r0 tbl_MMI2"
  "list_all OPCODE_r0 tbl_MMI3"
  "list_all OPCODE_r0 tbl_COP0"
  "list_all OPCODE_r0 tbl_COP0_BC0"
  "list_all OPCODE_r0 tbl_COP0_C0"
  "list_all OPCODE_r0 tbl_COP1"
  "list_all OPCODE_r0 tbl_COP1_BC1"
  "list_all OPCODE_r0 tbl_COP1_S"
  "list_all OPCODE_r0 tbl_COP1_W"
  unfolding tbl_defs op_Unknown_defs
  by (simp_all only: list.pred_inject OPCODE_r0_Make simp_thms,
      (intro conjI handler_r0I; auto intro!: r0_intros simp: r0_simps)+)

lemma instructions_r0: "(o' :: 'a ee_fpu_scheme OPCODE) \<in> instructions \<Longrightarrow> op_interpret o' = Some h \<Longrightarrow> handler_r0 h"
proof (rule instructions_induct)
  show "handler_r0 h" if "o' \<in> set tbl_Standard" "op_interpret o' = Some h" for o' :: "'a ee_fpu_scheme OPCODE" and h
    using that tables_r0(1) by (auto simp: list_all_iff OPCODE_r0_def)
  show "handler_r0 h" if "o' \<in> set (Class_table c)" "op_interpret o' = Some h" for c and o' :: "'a ee_fpu_scheme OPCODE" and h
    using that tables_r0 by (cases c) (auto simp: list_all_iff Class_table_def OPCODE_r0_def)
qed

lemma dispatch_r0:
  fixes env :: "'a ee_fpu_scheme ee_env"
  assumes "env_r0 env" "step_r0 (env_execI env)" shows "step_r0 (dispatch env)"
  unfolding step_r0_def
proof
  fix s :: "'a ee_fpu_scheme"
  obtain o' :: "'a ee_fpu_scheme OPCODE" and h where o: "GetCurrentInstruction s = Some o'" "o' \<in> instructions" "op_interpret o' = Some h"
    unfolding GetCurrentInstruction_eq using GetInstruction_in instructions_handler by blast
  then have "handler_r0 h" by (blast intro: instructions_r0)
  then have "keeps_r0 (GPR s 0) (h env (s\<lparr>cpuBlockCycles := cpuBlockCycles s + op_cycles o'\<rparr>))"
    by (intro handler_r0D [OF _ assms]) simp_all
  then show "keeps_r0 (GPR s 0) (dispatch env s)"
    by (simp add: dispatch_def o)
qed

lemma execI_step_r0: "env_r0 env \<Longrightarrow> step_r0 (execI n env)"
proof (induction n)
  case 0
  then show ?case by (simp add: step_r0_def keeps_r0_basic)
next
  case (Suc n)
  let ?env = "env\<lparr>env_execI := execI n env\<rparr>"
  have "env_r0 ?env" using Suc.prems by (simp add: env_r0_def)
  moreover have "step_r0 (env_execI ?env)" using Suc by simp
  ultimately have d: "step_r0 (dispatch ?env)" by (rule dispatch_r0)
  show ?case unfolding step_r0_def execI.simps
    using Suc.prems d by (auto intro!: r0_intros step_r0D [OF d])
qed

text \<open>
  A concrete environment: devices that read zero and ignore writes, an event test and system
  calls that do nothing, no vector unit, and a host whose arithmetic returns zero.
\<close>

definition hostfpu0 :: hostfpu where
  "hostfpu0 = \<lparr>f_add = \<lambda>_ _. 0, f_sub = \<lambda>_ _. 0, f_mul = \<lambda>_ _. 0, f_div = \<lambda>_ _. 0, f_sqrt = \<lambda>_. 0,
     f_eq = \<lambda>_ _. False, f_lt = \<lambda>_ _. False, f_le = \<lambda>_ _. False, s32_to_f = \<lambda>_. 0, f_to_s32 = \<lambda>_. 0\<rparr>"

definition devs0 :: "'s devs" where
  "devs0 = \<lparr>devR8 = \<lambda>_ _. Ok 0, devR16 = \<lambda>_ _. Ok 0, devR32 = \<lambda>_ _. Ok 0, devR64 = \<lambda>_ _. Ok 0,
     devR128 = \<lambda>_ _. Ok 0, devW8 = \<lambda>_ _ _. Ok (), devW16 = \<lambda>_ _ _. Ok (), devW32 = \<lambda>_ _ _. Ok (),
     devW64 = \<lambda>_ _ _. Ok (), devW128 = \<lambda>_ _ _. Ok ()\<rparr>"

definition ee_env0 :: "'s ee_env" where
  "ee_env0 = \<lparr>env_devs = devs0, env_host = hostfpu0, env_cpuEventTest_Shared = Ok (),
     env_SYSCALL_hle = Ok False, env_COP2 = Ok (), env_LQC2 = Ok (), env_SQC2 = Ok (), env_execI = Ok ()\<rparr>"

definition ee_fpu0 :: ee_fpu where
  "ee_fpu0 = ee_mem.extend ee_mem0
     \<lparr>s_iLastCOP0Cycle = 0, s_iLastPERFCycle0 = 0, s_iLastPERFCycle1 = 0, eeHw = \<lambda>_. 0,
      branch2 = 0, cpuBlockCycles = 0, intExitExecution = False, fpr = \<lambda>_. 0, fprc = \<lambda>_. 0, FACC = 0\<rparr>"

text \<open>
  Register 0 in any environment that leaves it alone; the machine of \<open>EE_Machine\<close> is one.
\<close>

theorem execI_r0: "env_r0 env \<Longrightarrow> GPR (res_state (execI n env s)) 0 = GPR s 0"
  using execI_step_r0 [of env n] by (simp add: step_r0_def keeps_r0_def)

end
