(* ===== verification/EE_ALU_Spec.thy ===== *)
theory EE_ALU_Spec
  imports MMI
begin

text \<open>
  What the integer instructions compute, in terms of the integers their operands stand for:
  the overflow exceptions, division and multiplication with their result registers, the
  leading sign bits and the funnel shift.
\<close>

unbundle bit_operations_syntax

section \<open>Overflow\<close>

lemma add32_Overflow_iff:
  "add32_Overflow x y s =
     (if - (2 ^ 31) \<le> sint x + sint y \<and> sint x + sint y < 2 ^ 31
      then (Some (word_of_int (sint x + sint y)), s) else (None, cpuException 0x30 (branch s) s))"
proof -
  define r :: u64 where "r = scast x + scast y"
  have r: "r = word_of_int (sint x + sint y)" by (simp add: r_def)
  have "drop_bit 31 (ucast r :: u32) = of_bool (bit r 31)" "(ucast (drop_bit 32 r) :: u32) AND 1 = of_bool (bit r 32)"
    by (rule bit_word_eqI; auto simp: bit_simps)+
  then have "drop_bit 31 (ucast r :: u32) \<noteq> (ucast (drop_bit 32 r) :: u32) AND 1 \<longleftrightarrow> bit r 31 \<noteq> bit r 32"
    by auto
  also have "\<dots> \<longleftrightarrow> bit (sint x + sint y) 31 \<noteq> bit (sint x + sint y) 32"
    unfolding r by (simp only: bit_word_of_int_iff) simp
  also have "\<dots> \<longleftrightarrow> \<not> (- (2 ^ 31) \<le> sint x + sint y \<and> sint x + sint y < 2 ^ 31)"
    using two_bits_differ [of 31 "sint x + sint y"] sint32_range [of x] sint32_range [of y] by simp
  finally have c: "drop_bit 31 (ucast r :: u32) \<noteq> (ucast (drop_bit 32 r) :: u32) AND 1 \<longleftrightarrow>
    \<not> (- (2 ^ 31) \<le> sint x + sint y \<and> sint x + sint y < 2 ^ 31)" .
  show ?thesis unfolding add32_Overflow_def Let_def r_def [symmetric] c using r by simp
qed

lemma add64_Overflow_iff:
  "add64_Overflow x y s =
     (if - (2 ^ 63) \<le> sint x + sint y \<and> sint x + sint y < 2 ^ 63
      then (Some (x + y), s) else (None, cpuException 0x30 (branch s) s))"
proof -
  let ?z = "sint x + sint y"
  have "bit (x + y) 63 \<longleftrightarrow> bit (word_of_int ?z :: u64) 63" by simp
  then have b: "bit (x + y) 63 \<longleftrightarrow> bit ?z 63"
    by (simp only: bit_word_of_int_iff) simp
  have top: "bit ?z 64 \<longleftrightarrow> ?z < 0"
    using sint64_range [of x] sint64_range [of y] by (intro bit_top_int) simp_all
  have "(NOT (x XOR y) AND (x XOR (x + y))) <s 0 \<longleftrightarrow> bit x 63 = bit y 63 \<and> bit x 63 \<noteq> bit (x + y) 63"
    by (auto simp: neg_iff_bit bit_simps)
  also have "\<dots> \<longleftrightarrow> \<not> (- (2 ^ 63) \<le> ?z \<and> ?z < 2 ^ 63)"
    using two_bits_differ [of 63 ?z] top sint64_range [of x] sint64_range [of y]
    by (auto simp: b bit63_sint [of x] bit63_sint [of y])
  finally show ?thesis by (simp add: add64_Overflow_def Let_def)
qed
definition fits :: "nat \<Rightarrow> int \<Rightarrow> bool" where
  "fits w i \<longleftrightarrow> - (2 ^ (w - 1)) \<le> i \<and> i < 2 ^ (w - 1)"

text \<open>An addition with overflow exception: the sum goes to its register when it fits.\<close>

definition checked_to ::
  "nat \<Rightarrow> (u64 \<Rightarrow> 'a cpuRegisters_scheme \<Rightarrow> 'a cpuRegisters_scheme) \<Rightarrow> int \<Rightarrow> 'a cpuRegisters_scheme \<Rightarrow> 'a cpuRegisters_scheme" where
  "checked_to w put i s =
     (if fits w i then put (word_of_int i) s else cpuException 0x30 (branch s) s)"

lemma ucast_rsD: "ucast (rsD s) = rsL s" "ucast (rtD s) = rtL s"
  using UL_even [of 0 "GPR s (Rs s)"] UL_even [of 0 "GPR s (Rt s)"]
  by (simp_all add: rsD_def rtD_def rsL_def rtL_def)

lemma ucast_neg_rtD: "ucast (- rtD s) = - rtL s"
  using ucast_minus_down [of 0 "rtD s", where 'b = 32] by (simp add: ucast_rsD)

lemma sint_neg_u32: "sint (- x :: u32) = (if x = 0x80000000 then - (2 ^ 31) else - sint x)"
proof (cases "x = 0x80000000")
  case False
  have "sint x \<noteq> - (2 ^ 31)"
  proof
    assume "sint x = - (2 ^ 31)"
    then have "sint x = sint (0x80000000 :: u32)" by simp
    then have "x = 0x80000000" by (rule signed_word_eqI)
    with False show False by simp
  qed
  then have "- (2 ^ 31) < sint x" using sint32_range [of x] by simp
  then have "sint (word_of_int (- sint x) :: u32) = - sint x"
    using sint32_range [of x] by (intro sint_word_of_int) simp_all
  with False show ?thesis by simp
qed simp

lemma sint_neg_u64: "sint (- x :: u64) = (if x = 0x8000000000000000 then - (2 ^ 63) else - sint x)"
proof (cases "x = 0x8000000000000000")
  case False
  have "sint x \<noteq> - (2 ^ 63)"
  proof
    assume "sint x = - (2 ^ 63)"
    then have "sint x = sint (0x8000000000000000 :: u64)" by simp
    then have "x = 0x8000000000000000" by (rule signed_word_eqI)
    with False show False by simp
  qed
  then have "- (2 ^ 63) < sint x" using sint64_range [of x] by simp
  then have "sint (word_of_int (- sint x) :: u64) = - sint x"
    using sint64_range [of x] by (intro sint_word_of_int) simp_all
  with False show ?thesis by simp
qed simp

lemma add_checked:
  "ADD s = checked_to 32 to_Rd (sint (rsL s) + sint (rtL s)) s \<and>
   ADDI s = checked_to 32 to_Rt (sint (rsL s) + sint (Imm s)) s \<and>
   DADD s = checked_to 64 to_Rd (sint (rsD s) + sint (rtD s)) s \<and>
   DADDI s = checked_to 64 to_Rt (sint (rsD s) + sint (Imm s)) s"
  by (simp_all add: ADD_def ADDI_def DADD_def DADDI_def checked_to_def fits_def add32_Overflow_iff
      add64_Overflow_iff ucast_rsD sint_scast_up)

text \<open>
  C5: \<open>ADD\<close>, \<open>ADDI\<close>, \<open>DADD\<close> and \<open>DADDI\<close> enter the overflow exception exactly when the sum of the
  signed operands does not fit their width, and store the sum, sign extended, when it does.
\<close>

theorem add_overflow_exact:
  "ADD s = checked_to 32 to_Rd (sint (rsL s) + sint (rtL s)) s \<and>
   ADDI s = checked_to 32 to_Rt (sint (rsL s) + sint (Imm s)) s \<and>
   DADD s = checked_to 64 to_Rd (sint (rsD s) + sint (rtD s)) s \<and>
   DADDI s = checked_to 64 to_Rt (sint (rsD s) + sint (Imm s)) s"
  by (rule add_checked)

text \<open>
  \<open>SUB\<close> and \<open>DSUB\<close> are additions of the negated operand.  They subtract with an exact overflow
  check, except when the operand to subtract is the smallest value, which is its own
  negation and is added instead.
\<close>

lemma sub_overflow:
  "SUB s = checked_to 32 to_Rd
     (if rtL s = 0x80000000 then sint (rsL s) - 2 ^ 31 else sint (rsL s) - sint (rtL s)) s \<and>
   DSUB s = checked_to 64 to_Rd
     (if rtD s = 0x8000000000000000 then sint (rsD s) - 2 ^ 63 else sint (rsD s) - sint (rtD s)) s"
  by (simp_all add: SUB_def DSUB_def checked_to_def fits_def add32_Overflow_iff add64_Overflow_iff
      ucast_rsD ucast_neg_rtD sint_neg_u32 sint_neg_u64)

section \<open>Division and multiplication\<close>

lemma UD_HI_LO [lane_simps]:
  "n < 2 \<Longrightarrow> UD (HI (wHI_UD n v s)) n = v" "n < 2 \<Longrightarrow> UD (LO (wLO_UD n v s)) n = v"
  "HI (wLO_UD n v s) = HI s" "LO (wHI_UD n v s) = LO s" "GPR (wHI_UD n v s) = GPR s" "GPR (wLO_UD n v s) = GPR s"
  by (simp_all add: wHI_UD_def wLO_UD_def UD.get_put)

text \<open>The quotient and the remainder, as read back from \<open>LO\<close> and \<open>HI\<close>.\<close>

definition quot :: "nat \<Rightarrow> 'a cpuRegisters_scheme \<Rightarrow> int" where "quot n s = sint (UD (LO s) n)"
definition rem :: "nat \<Rightarrow> 'a cpuRegisters_scheme \<Rightarrow> int" where "rem n s = sint (UD (HI s) n)"

definition truncated_division :: "int \<Rightarrow> int \<Rightarrow> int \<Rightarrow> int \<Rightarrow> bool" where
  "truncated_division a b q r \<longleftrightarrow> a = q * b + r \<and> \<bar>r\<bar> < \<bar>b\<bar> \<and> (r = 0 \<or> sgn r = sgn a)"

lemma truncated_division_sdiv:
  fixes a b :: int
  assumes "b \<noteq> 0" shows "truncated_division a b (a sdiv b) (a smod b)"
proof -
  have "\<bar>a smod b\<bar> < \<bar>b\<bar>"
    using assms by (simp add: signed_modulo_int_def abs_mult)
  moreover have "a smod b = 0 \<or> sgn (a smod b) = sgn a"
  proof (cases "\<bar>a\<bar> mod \<bar>b\<bar> = 0")
    case False
    then have "0 < \<bar>a\<bar> mod \<bar>b\<bar>" using assms pos_mod_sign [of "\<bar>b\<bar>" "\<bar>a\<bar>"] by linarith
    then show ?thesis by (simp add: signed_modulo_int_def sgn_mult)
  qed (simp add: signed_modulo_int_def)
  moreover have "a = a sdiv b * b + a smod b" by (simp add: sdiv_mult_smod_eq)
  ultimately show ?thesis by (simp add: truncated_division_def)
qed

lemma sint_div_s32:
  assumes "\<not> (x = 0x80000000 \<and> y = 0xffffffff)"
  shows "sint (div_s32 x y) = sint x sdiv sint y"
proof -
  let ?a = "sint x" and ?b = "sint y"
  have r: "\<bar>?a sdiv ?b\<bar> \<le> \<bar>?a\<bar>" using sdiv_int_range [of ?a ?b] by auto
  have "?a sdiv ?b < 2 ^ 31"
  proof (rule ccontr)
    assume "\<not> ?a sdiv ?b < 2 ^ 31"
    then have "2147483648 \<le> ?a sdiv ?b" by simp
    with r sint32_range [of x] have a: "?a = - 2147483648" "?a sdiv ?b = - ?a" by linarith+
    then have "?a \<noteq> 0" by simp
    with a have "?b = - 1" using int_sdiv_negated_is_minus1 by metis
    with a have "?a = sint (0x80000000 :: u32)" "?b = sint (0xffffffff :: u32)" by simp_all
    then show False using assms signed_word_eqI by metis
  qed
  moreover have "- (2 ^ 31) \<le> ?a sdiv ?b" using r sint32_range [of x] by simp
  ultimately show ?thesis by (simp add: div_s32_def sint_word_of_int)
qed

lemma sint_mod_s32: "sint (mod_s32 x y) = sint x smod sint y"
proof -
  have "\<bar>sint x smod sint y\<bar> \<le> \<bar>sint x\<bar>"
  proof (cases "sint y = 0")
    case False
    then have "\<bar>sint x\<bar> mod \<bar>sint y\<bar> \<le> \<bar>sint x\<bar>" by (intro zmod_le_nonneg_dividend) simp
    moreover have "0 \<le> \<bar>sint x\<bar> mod \<bar>sint y\<bar>" using False by simp
    ultimately show ?thesis by (auto simp: signed_modulo_int_def abs_mult abs_sgn_eq)
  qed simp
  moreover have "sint x smod sint y \<noteq> 2 ^ 31"
  proof
    assume e: "sint x smod sint y = 2 ^ 31"
    then have "0 < sint x"
      using truncated_division_sdiv [of "sint y" "sint x"] sint32_range [of x]
      by (cases "sint y = 0") (auto simp: truncated_division_def sgn_1_pos)
    with e \<open>\<bar>sint x smod sint y\<bar> \<le> \<bar>sint x\<bar>\<close> sint32_range [of x] show False by simp
  qed
  ultimately show ?thesis
    using sint32_range [of x] unfolding mod_s32_def by (intro sint_word_of_int) auto
qed

text \<open>
  for a divisor other than zero \<open>DIV\<close> and \<open>DIV1\<close> leave the truncated quotient in \<open>LO\<close> and a
  remainder with the sign of the dividend in \<open>HI\<close>, both as sign extended double words of
  their own pipeline, except for the one quotient that does not fit.
\<close>

lemma DIV_truncates:
  assumes "rtL s \<noteq> 0" and "\<not> (rsL s = 0x80000000 \<and> rtL s = 0xffffffff)"
  shows "truncated_division (sint (rsL s)) (sint (rtL s)) (quot 0 (DIV s)) (rem 0 (DIV s)) \<and>
    truncated_division (sint (rsL s)) (sint (rtL s)) (quot 1 (DIV1 s)) (rem 1 (DIV1 s))"
proof -
  have "truncated_division (sint (rsL s)) (sint (rtL s)) (quot n (DIV_op n s)) (rem n (DIV_op n s))" if "n < 2" for n
  proof -
    have "sint (rtL s) \<noteq> 0" using assms(1) signed_word_eqI [of "rtL s" 0] by auto
    from truncated_division_sdiv [OF this, of "sint (rsL s)"] show ?thesis
      using assms that unfolding DIV_op_def if_not_P [OF assms(2)]
      by (simp add: quot_def rem_def lane_simps sint_scast_up sint_div_s32 sint_mod_s32)
  qed
  then show ?thesis by (simp add: DIV_def DIV1_def)
qed

text \<open>A register state, and one whose instruction names registers 1, 2 and 3 with the given low words.\<close>

definition regs0 :: cpuRegisters where
  "regs0 = \<lparr>GPR = \<lambda>_. 0, HI = 0, LO = 0, CP0 = \<lambda>_. 0, sa = 0, IsDelaySlot = 0, pc = 0, code = 0,
     pccr = 0, pcr0 = 0, pcr1 = 0, eCycle = \<lambda>_. 0, sCycle = \<lambda>_. 0, cycle = 0, interrupt = 0,
     branch = 0, opmode = 0, nextEventCycle = 0, pcWriteback = 0\<rparr>"

definition regs_rs_rt :: "u128 \<Rightarrow> u128 \<Rightarrow> cpuRegisters" where
  "regs_rs_rt x y = regs0\<lparr>code := 0x00221800, GPR := (\<lambda>_. 0)(1 := x, 2 := y)\<rparr>"

lemma regs_rs_rt_fields:
  "Rs (regs_rs_rt x y) = 1" "Rt (regs_rs_rt x y) = 2" "Rd (regs_rs_rt x y) = 3" "Sa (regs_rs_rt x y) = 0"
  "GPR (regs_rs_rt x y) 1 = x" "GPR (regs_rs_rt x y) 2 = y"
  by (simp_all add: regs_rs_rt_def Rs_def Rt_def Rd_def Sa_def)

lemma regs_rs_rt_words: "rsL (regs_rs_rt x y) = UL x 0" "rtL (regs_rs_rt x y) = UL y 0"
  by (simp_all add: rsL_def rtL_def regs_rs_rt_fields)

theorem DIV_truncates_witness:
  "truncated_division (- 7) 2 (quot 0 (DIV (regs_rs_rt 0xfffffff9 2))) (rem 0 (DIV (regs_rs_rt 0xfffffff9 2)))"
proof -
  have "UL (0xfffffff9 :: u128) 0 = 0xfffffff9" "UL (2 :: u128) 0 = 2"
    by (simp_all add: lane_def)
  then show ?thesis using DIV_truncates [of "regs_rs_rt 0xfffffff9 2"] by (simp add: regs_rs_rt_words)
qed

text \<open>
  What a multiplication leaves: the 64 bit value \<open>t\<close> in the pair \<open>HI\<close>, \<open>LO\<close> of pipeline \<open>n\<close>, each half sign
  extended, the other pipeline as it was, and the low half in the destination register.
\<close>

definition hilo :: "nat \<Rightarrow> 'a cpuRegisters_scheme \<Rightarrow> u64" where
  "hilo n s = HILO64 (2 * n) s"

definition mul_post :: "nat \<Rightarrow> u64 \<Rightarrow> 'a cpuRegisters_scheme \<Rightarrow> 'a cpuRegisters_scheme \<Rightarrow> bool" where
  "mul_post n t s s' \<longleftrightarrow>
     hilo n s' = t \<and>
     UD (LO s') n = scast (UL (LO s') (2 * n)) \<and> UD (HI s') n = scast (UL (HI s') (2 * n)) \<and>
     UD (LO s') (1 - n) = UD (LO s) (1 - n) \<and> UD (HI s') (1 - n) = UD (HI s) (1 - n) \<and>
     GPR s' = (if Rd s = 0 then GPR s else (GPR s)(Rd s := set_UD 0 (UD (LO s') n) (GPR s (Rd s))))"

lemma ucast_and_mask32: "(ucast (t AND 0xffffffff :: u64) :: u32) = ucast t"
proof -
  have "t AND 0xffffffff = take_bit 32 t" by (simp add: take_bit_eq_mask mask_numeral)
  then have "(ucast (t AND 0xffffffff) :: u32) = ucast (take_bit 32 t)" by simp
  also have "\<dots> = ucast t" by (rule bit_word_eqI) (auto simp: bit_simps)
  finally show ?thesis .
qed

lemma ucast_signed_drop_bit32: "(ucast (signed_drop_bit 32 (t :: u64)) :: u32) = ucast (drop_bit 32 t)"
  by (rule bit_word_eqI) (auto simp: bit_simps)

lemma ucast_scast_u32: "(ucast (scast (x :: u32) :: u64) :: u32) = x"
  by (rule bit_word_eqI) (auto simp: bit_simps)

lemma hilo_of_parts: "ucast (ucast t :: u32) OR push_bit 32 (ucast (ucast (drop_bit 32 t) :: u32)) = (t :: u64)"
  by (rule bit_word_eqI) (auto simp: bit_simps)

lemma Rd_hilo: "Rd (wHI_UD n v s) = Rd s" "Rd (wLO_UD n v s) = Rd s"
  by (simp_all add: Rd_def wHI_UD_def wLO_UD_def)

lemma mul_post_write:
  assumes "n < 2" and "s1 = wHI_UD n (scast (ucast (drop_bit 32 t) :: u32)) (wLO_UD n (scast (ucast t :: u32)) s)"
    and "s' = (if Rd s1 \<noteq> 0 then wUD (Rd s1) 0 (UD (LO s1) n) s1 else s1)"
  shows "mul_post n t s s'"
proof -
  have LH: "LO s' = set_UD n (scast (ucast t :: u32)) (LO s)" "HI s' = set_UD n (scast (ucast (drop_bit 32 t) :: u32)) (HI s)"
    using assms(2,3) by (simp_all add: wHI_UD_def wLO_UD_def wUD_def)
  have R: "GPR s' = (if Rd s = 0 then GPR s else (GPR s)(Rd s := set_UD 0 (UD (LO s') n) (GPR s (Rd s))))"
    using assms(2,3) by (simp add: wHI_UD_def wLO_UD_def wUD_def Rd_def)
  have "1 - n \<noteq> n" using assms(1) by (cases n) simp_all
  then show ?thesis
    using R assms(1) hilo_of_parts [of t]
    by (auto simp: mul_post_def hilo_def HILO64_def LH lane_simps ucast_scast_u32 UD.get_put)
qed

lemma mul_post_MULT: "n < 2 \<Longrightarrow> mul_post n t s (MULT_res n t s)"
  by (rule mul_post_write) (simp_all add: MULT_res_def Let_def ucast_and_mask32 ucast_signed_drop_bit32)

lemma mul_post_MADD: "n < 2 \<Longrightarrow> mul_post n t s (MADD_op n t s)"
  by (rule mul_post_write) (simp_all add: MADD_op_def Let_def ucast_and_mask32 ucast_signed_drop_bit32)

text \<open>
  C6: the multiplications leave the exact 64 bit product of the two words, signed or
  unsigned, and the multiply-adds the old pair plus the product, in the pipeline they name
  and nowhere else.
\<close>

theorem multiply_exact:
  "mul_post 0 (word_of_int (sint (rsL s) * sint (rtL s))) s (MULT s) \<and>
   mul_post 1 (word_of_int (sint (rsL s) * sint (rtL s))) s (MULT1 s) \<and>
   mul_post 0 (word_of_nat (unat (rsL s) * unat (rtL s))) s (MULTU s) \<and>
   mul_post 1 (word_of_nat (unat (rsL s) * unat (rtL s))) s (MULTU1 s) \<and>
   mul_post 0 (hilo 0 s + word_of_int (sint (rsL s) * sint (rtL s))) s (MADD s) \<and>
   mul_post 1 (hilo 1 s + word_of_int (sint (rsL s) * sint (rtL s))) s (MADD1 s) \<and>
   mul_post 0 (hilo 0 s + word_of_nat (unat (rsL s) * unat (rtL s))) s (MADDU s) \<and>
   mul_post 1 (hilo 1 s + word_of_nat (unat (rsL s) * unat (rtL s))) s (MADDU1 s)"
  by (simp add: mul_post_MULT mul_post_MADD MULT_def MULT1_def MULTU_def MULTU1_def MADD_def MADD1_def MADDU_def MADDU1_def hilo_def)

section \<open>Leading sign bits and the funnel shift\<close>

lemma clz_from_le: "clz_from k x \<le> k"
  by (induction k) auto

lemma clz_from_zero: "k - clz_from k x \<le> i \<Longrightarrow> i < k \<Longrightarrow> \<not> bit x i"
  by (induction k) (auto simp: less_Suc_eq split: if_splits)

lemma clz_from_one: "clz_from k x < k \<Longrightarrow> bit x (k - 1 - clz_from k x)"
  by (induction k) (auto split: if_splits)

text \<open>The number of bits below the sign bit that are copies of it.\<close>

definition sign_copies :: "u32 \<Rightarrow> nat \<Rightarrow> bool" where
  "sign_copies x c \<longleftrightarrow> c \<le> 31 \<and> (\<forall>i. 31 - c \<le> i \<and> i < 31 \<longrightarrow> bit x i = bit x 31) \<and>
     (c = 31 \<or> bit x (30 - c) \<noteq> bit x 31)"

lemma sign_copies_clsb: "sign_copies x (unat (count_leading_sign_bits x - 1))"
proof -
  define n where "n = (if x <s 0 then NOT x else x)"
  have bn: "bit n i \<longleftrightarrow> bit x i \<noteq> bit x 31" if "i < 32" for i
    using that by (auto simp: n_def neg_iff_bit bit_simps)
  have clsb: "count_leading_sign_bits x = (if n = 0 then 32 else of_nat (clz32 n))"
    unfolding count_leading_sign_bits_def Let_def n_def ..
  show ?thesis
  proof (cases "n = 0")
    case True
    then have c: "bit x i = bit x 31" if "i < 32" for i using bn [OF that] by simp
    have u: "unat (count_leading_sign_bits x - 1) = 31" unfolding clsb if_P [OF True] by simp
    have "\<forall>i. 31 - 31 \<le> i \<and> i < 31 \<longrightarrow> bit x i = bit x 31" by (intro allI impI, rule c) simp
    then show ?thesis by (simp add: u sign_copies_def)
  next
    case False
    let ?c = "clz32 n"
    have z: "\<not> bit n i" if "32 - ?c \<le> i" "i < 32" for i
      using that clz_from_zero by (auto simp: clz32_def)
    have lt: "?c < 32"
    proof (rule ccontr)
      assume "\<not> ?c < 32"
      then have "\<not> bit n i" if "i < 32" for i using z that by simp
      then have "n = 0" by (intro bit_word_eqI) auto
      with False show False by simp
    qed
    then have o: "bit n (31 - ?c)" using clz_from_one [of 32 n] by (simp add: clz32_def)
    have pos: "0 < ?c" using o bn [of 31] by (cases "?c = 0") simp_all
    have "(of_nat ?c - 1 :: u32) = of_nat (?c - 1)" using pos by (simp add: of_nat_diff)
    then have u: "unat (count_leading_sign_bits x - 1) = ?c - 1"
      using lt unfolding clsb if_not_P [OF False] by (simp add: unat_of_nat)
    have "bit x i = bit x 31" if "31 - (?c - 1) \<le> i" "i < 31" for i
      using z [of i] bn [of i] that pos lt by auto
    moreover have "bit x (30 - (?c - 1)) \<noteq> bit x 31"
      using o bn [of "31 - ?c"] pos lt by simp
    ultimately show ?thesis using lt by (simp add: u sign_copies_def)
  qed
qed

text \<open>
  \<open>PLZCW\<close> stores, for each of the two low words of the source, how many bits below the sign
  bit repeat it, also when source and destination are the same register.
\<close>

theorem PLZCW_counts:
  assumes "Rd s \<noteq> 0" and "n < 2"
  shows "sign_copies (UL (GPR s (Rs s)) n) (unat (UL (GPR (PLZCW s) (Rd s)) n))"
proof -
  have "UL (GPR (PLZCW s) (Rd s)) n = count_leading_sign_bits (UL (GPR s (Rs s)) n) - 1"
    using assms less_2_cases [of n]
    by (auto simp: PLZCW_def Let_def wUL_def lane_simps Rd_def Rs_def)
  then show ?thesis by (simp add: sign_copies_clsb)
qed

theorem PLZCW_counts_witness:
  "sign_copies 0x00ffffff (unat (UL (GPR (PLZCW (regs_rs_rt 0x00ffffff 0)) 3) 0))"
  using PLZCW_counts [of "regs_rs_rt 0x00ffffff 0" 0] by (simp add: regs_rs_rt_fields lane_def)

definition funnel :: "u128 \<Rightarrow> u128 \<Rightarrow> nat \<Rightarrow> u128" where
  "funnel x y n = ucast (drop_bit n (push_bit 128 (ucast x) OR ucast y :: 256 word))"

lemma bit_funnel:
  "k < 128 \<Longrightarrow> n < 128 \<Longrightarrow> bit (funnel x y n) k = (if n + k < 128 then bit y (n + k) else bit x (n + k - 128))"
  by (auto simp: funnel_def bit_simps dest: bit_imp_le_length)

lemma bit_set_pair:
  "k < 128 \<Longrightarrow> bit (set_UD 1 d1 (set_UD 0 d0 r)) k = (if k < 64 then bit d0 k else bit d1 (k - 64))"
  by (auto simp: bit_set_lane)

lemma bit_UD: "k < 64 \<Longrightarrow> bit (UD r n) k = (bit r (64 * n + k))"
  by (auto simp: bit_lane)

lemma funnel_by_parts:
  assumes "n < 128"
    and "\<And>k. k < 64 \<Longrightarrow> bit d0 k = bit (funnel x y n) k"
    and "\<And>k. k < 64 \<Longrightarrow> bit d1 k = bit (funnel x y n) (64 + k)"
  shows "set_UD 1 d1 (set_UD 0 d0 r) = funnel x y n"
proof (rule bit_word_eqI)
  fix k :: nat assume "k < LENGTH(128)"
  then show "bit (set_UD 1 d1 (set_UD 0 d0 r)) k = bit (funnel x y n) k"
    using assms(2) [of k] assms(3) [of "k - 64"] by (cases "k < 64") (simp_all add: bit_set_pair [simplified])
qed

lemma bit_shift_pair:
  assumes "n + m = 64" "0 < n" "0 < m" "k < 64"
  shows "bit (drop_bit n a OR push_bit m b :: u64) k = (if n + k < 64 then bit a (n + k) else bit b (n + k - 64))"
proof -
  have "bit a (n + k) \<Longrightarrow> n + k < 64" using bit_imp_le_length [of a "n + k"] by simp
  moreover have "m \<le> k \<longleftrightarrow> \<not> n + k < 64" using assms by auto
  moreover have "k - m = n + k - 64" using assms by auto
  ultimately show ?thesis using assms(4) by (auto simp: bit_or_iff bit_drop_bit_eq bit_push_bit_iff)
qed

lemma QFSRV_low:
  assumes "0 < n" "n < 64"
  shows "set_UD 1 (drop_bit n (UD y 1) OR push_bit (64 - n) (UD x 0))
           (set_UD 0 (drop_bit n (UD y 0) OR push_bit (64 - n) (UD y 1)) r) = funnel x y n"
proof (rule funnel_by_parts)
  fix k :: nat assume k: "k < 64"
  show "bit (drop_bit n (UD y 0) OR push_bit (64 - n) (UD y 1)) k = bit (funnel x y n) k"
    using assms k by (simp add: bit_shift_pair bit_UD bit_funnel)
  show "bit (drop_bit n (UD y 1) OR push_bit (64 - n) (UD x 0)) k = bit (funnel x y n) (64 + k)"
    using assms k by (simp add: bit_shift_pair bit_UD bit_funnel add.left_commute)
qed (use assms in simp)

lemma QFSRV_high:
  assumes "0 < n" "n < 64"
  shows "set_UD 1 (drop_bit n (UD x 0) OR push_bit (64 - n) (UD x 1))
           (set_UD 0 (drop_bit n (UD y 1) OR push_bit (64 - n) (UD x 0)) r) = funnel x y (64 + n)"
proof (rule funnel_by_parts)
  fix k :: nat assume k: "k < 64"
  show "bit (drop_bit n (UD y 1) OR push_bit (64 - n) (UD x 0)) k = bit (funnel x y (64 + n)) k"
    using assms k by (simp add: bit_shift_pair bit_UD bit_funnel add.assoc)
  have "64 + n + (64 + k) - 128 = n + k" by simp
  then show "bit (drop_bit n (UD x 0) OR push_bit (64 - n) (UD x 1)) k = bit (funnel x y (64 + n)) (64 + k)"
    using assms k by (simp add: bit_shift_pair bit_UD bit_funnel)
qed (use assms in simp)

lemma QFSRV_mid: "set_UD 1 (UD x 0) (set_UD 0 (UD y 1) r) = funnel x y 64"
  by (rule funnel_by_parts) (simp_all add: bit_UD bit_funnel)

lemma QFSRV_zero: "funnel x y 0 = y"
  by (rule bit_word_eqI) (simp add: bit_funnel)

lemma set_UD_pair: "set_UD 1 (UD y 1) (set_UD 0 (UD y 0) r) = y"
  by (rule bit_word_eqI) (simp add: bit_set_pair [simplified] bit_UD)

lemma wUD_pair: "wUD r 1 d1 (wUD r 0 d0 s) = wGPR r (set_UD 1 d1 (set_UD 0 d0 (GPR s r))) s"
  by (simp add: wUD_def wGPR_def)

text \<open>
  \<open>QFSRV\<close> with a byte count below 16 is the funnel shift: the low 128 bits of the 256 bit
  concatenation of the two sources shifted right by that many bytes.
\<close>

lemma QFSRV_funnel:
  assumes "Rd s \<noteq> 0" and "sa s < 16"
  shows "GPR (QFSRV s) (Rd s) = funnel (GPR s (Rs s)) (GPR s (Rt s)) (8 * unat (sa s))"
proof -
  let ?n = "8 * unat (sa s)" and ?x = "GPR s (Rs s)" and ?y = "GPR s (Rt s)"
  define a where "a = push_bit 3 (sa s)"
  have u: "unat (sa s) < 16" using assms(2) by (simp add: word_less_nat_alt)
  then have n: "unat a = ?n" by (simp add: a_def push_bit_eq_mult unat_word_ariths mult.commute)
  have eq: "a = w \<longleftrightarrow> ?n = unat w" "a < w \<longleftrightarrow> ?n < unat w" "w \<le> a \<longleftrightarrow> unat w \<le> ?n" for w
    by (auto simp: word_less_nat_alt word_le_nat_alt simp flip: n intro: word_unat_eqI)
  show ?thesis
  proof (cases "?n < 64")
    case True
    then show ?thesis
      using assms(1) QFSRV_low [of ?n ?y ?x]
      by (auto simp: QFSRV_def Let_def simp flip: a_def)
         (simp_all add: eq n wUD_def wGPR_def Rd_def Rt_def Rs_def QFSRV_zero set_UD_pair [simplified] lane_simps)
  next
    case False
    then have le: "64 \<le> a" by (simp add: eq)
    have "a \<le> 128" using u by (simp add: word_le_nat_alt n)
    then have "unat (a - 64) = ?n - 64" "unat (128 - a) = 128 - ?n"
      using le by (simp_all add: unat_sub n)
    then show ?thesis
      using assms(1) False u QFSRV_high [of "?n - 64" ?x ?y] QFSRV_mid [of ?x ?y]
      by (auto simp: QFSRV_def Let_def wGPR_def simp flip: a_def) (simp_all add: eq)
  qed
qed

theorem QFSRV_funnel_witness:
  "GPR (QFSRV ((regs_rs_rt 0x0123456789abcdef 0xfedcba98765432100000000000000000)\<lparr>sa := 12\<rparr>)) 3 =
     funnel 0x0123456789abcdef 0xfedcba98765432100000000000000000 96"
  using QFSRV_funnel [of "(regs_rs_rt 0x0123456789abcdef 0xfedcba98765432100000000000000000)\<lparr>sa := 12\<rparr>"]
  by (simp add: regs_rs_rt_def Rs_def Rt_def Rd_def)

end
