(* ===== verification/EE_Exceptions.thy ===== *)
theory EE_Exceptions
  imports EE_FPU EE_ALU_Spec
begin

text \<open>
  Exception entry and return, the address each kind of exception reports, and the range of
  the results of the floating point coprocessor.
\<close>

unbundle bit_operations_syntax

section \<open>Entry and return\<close>

text \<open>The processor outside of any exception handler.\<close>

definition user_level :: "'a cpuRegisters_scheme \<Rightarrow> bool" where
  "user_level s \<longleftrightarrow> \<not> Status_ERL s \<and> \<not> Status_EXL s"

lemma exception_fields:
  assumes "user_level s"
  shows "CP0 (cpuException c bd s) =
     (CP0 s)(cop0_Cause := (if bd \<noteq> 0 then (c AND 0xffff) OR 0x80000000 else (c AND 0xffff) AND NOT 0x80000000),
             cop0_EPC := (if bd \<noteq> 0 then pc s - 4 else pc s),
             cop0_Status := set_bit 1 (CP0 s cop0_Status))"
    and "GPR (cpuException c bd s) = GPR s" "HI (cpuException c bd s) = HI s" "LO (cpuException c bd s) = LO s"
    "branch (cpuException c bd s) = 0"
  using assms
  by (auto simp: cpuException_def cpuException_enter_def Let_def wCP0_def user_level_def Status_bits fun_eq_iff)

lemma Status_again: "\<not> bit (x :: u32) 1 \<Longrightarrow> unset_bit 1 (set_bit 1 x) = x"
  by (rule bit_word_eqI) (auto simp: bit_simps)

lemma ERET_fields:
  assumes "\<not> Status_ERL s"
  shows "pc (ERET s) = CP0 s cop0_EPC" "GPR (ERET s) = GPR s" "HI (ERET s) = HI s" "LO (ERET s) = LO s"
    "CP0 (ERET s) = (CP0 s)(cop0_Status := unset_bit 1 (CP0 s cop0_Status))"
  using assms
  by (simp_all add: ERET_def Let_def intSetBranch_def cpuSetNextEventDelta_def cpuSetNextEvent_def wCP0_def)

text \<open>
  C11: an exception taken outside of a handler and the \<open>ERET\<close> that ends its handler resume at
  the address the exception was raised for, or at the branch whose delay slot raised it, and
  give back the registers and all of coprocessor 0 but \<open>Cause\<close> and \<open>EPC\<close>.  An exception in
  a handler leaves \<open>EPC\<close> alone and enters at the general vector.
\<close>

theorem exception_return:
  fixes s :: "'a ee_cpu_scheme"
  assumes "user_level s"
  shows "pc (ERET (cpuException c bd s)) = (if bd \<noteq> 0 then pc s - 4 else pc s) \<and>
    GPR (ERET (cpuException c bd s)) = GPR s \<and> HI (ERET (cpuException c bd s)) = HI s \<and>
    LO (ERET (cpuException c bd s)) = LO s \<and>
    (\<forall>r. r = cop0_Cause \<or> r = cop0_EPC \<or> CP0 (ERET (cpuException c bd s)) r = CP0 s r) \<and>
    (\<forall>c' bd'. CP0 (cpuException c' bd' (cpuException c bd s)) cop0_EPC = CP0 (cpuException c bd s) cop0_EPC \<and>
       pc (cpuException c' bd' (cpuException c bd s)) = (if Status_BEV s then 0xBFC00380 else 0x80000180))"
proof -
  note f = exception_fields [OF assms, of c bd]
  have l: "\<not> Status_ERL (cpuException c bd s)" "Status_EXL (cpuException c bd s)" "Status_BEV (cpuException c bd s) = Status_BEV s"
    using assms by (auto simp: f Status_bits user_level_def bit_simps)
  have "unset_bit 1 (set_bit 1 (CP0 s cop0_Status)) = CP0 s cop0_Status"
    using assms by (intro Status_again) (simp add: user_level_def Status_bits)
  moreover have "CP0 (cpuException c' bd' t) cop0_EPC = CP0 t cop0_EPC \<and>
      pc (cpuException c' bd' t) = (if Status_BEV t then 0xBFC00380 else 0x80000180)"
    if "\<not> Status_ERL t" "Status_EXL t" for c' bd' and t :: "'a ee_cpu_scheme"
    using that by (simp add: cpuException_def cpuException_enter_def Let_def wCP0_def Status_bits)
  ultimately show ?thesis
    using l by (auto simp: ERET_fields [OF l(1)] f)
qed

definition ee_cpu0 :: ee_cpu where
  "ee_cpu0 = ee_mem.extend ee_mem0
     \<lparr>s_iLastCOP0Cycle = 0, s_iLastPERFCycle0 = 0, s_iLastPERFCycle1 = 0, eeHw = \<lambda>_. 0,
      branch2 = 0, cpuBlockCycles = 0, intExitExecution = False\<rparr>"

theorem exception_return_witness:
  "pc (ERET (cpuException 0x20 1 (ee_cpu0\<lparr>pc := 0x1008\<rparr>))) = 0x1004"
  using exception_return [of "ee_cpu0\<lparr>pc := 0x1008\<rparr>" "0x20" 1]
  by (simp add: user_level_def Status_bits ee_cpu0_def ee_mem0_def ee_mem.extend_def)

section \<open>The address an exception reports\<close>

text \<open>
  C12: for an instruction fetched from address \<open>A\<close>, \<open>BREAK\<close>, the traps and a TLB miss report
  \<open>A\<close>, or the address of the branch when it is in a delay slot.  The integer overflow of
  \<open>ADD\<close>, \<open>SUB\<close> and their kin does not step the program counter back first, and reports the
  next instruction, or the delay slot itself.
\<close>

theorem exception_epc:
  assumes "user_level s" and "pc s = A + 4"
  shows "CP0 (BREAK s) cop0_EPC = (if branch s \<noteq> 0 then A - 4 else A) \<and>
    (rsD s = rtD s \<longrightarrow> CP0 (TEQ s) cop0_EPC = (if branch s \<noteq> 0 then A - 4 else A)) \<and>
    CP0 (cpuTlbMissR v (branch s) s) cop0_EPC = (if branch s \<noteq> 0 then A - 4 else A) \<and>
    (\<not> fits 32 (sint (rsL s) + sint (rtL s)) \<longrightarrow> CP0 (ADD s) cop0_EPC = (if branch s \<noteq> 0 then A else A + 4)) \<and>
    (\<not> fits 64 (sint (rsD s) + sint (Imm s)) \<longrightarrow> CP0 (DADDI s) cop0_EPC = (if branch s \<noteq> 0 then A else A + 4))"
proof -
  have u: "user_level (s\<lparr>pc := q\<rparr>)" "user_level (wCP0 cop0_BadVAddr a (wCP0 cop0_Context b (wCP0 cop0_EntryHi d s)))" for q a b d
    using assms(1) by (simp_all add: user_level_def Status_bits wCP0_def)
  have b: "CP0 (cpuException c (branch s) (s\<lparr>pc := pc s - 4\<rparr>)) cop0_EPC = (if branch s \<noteq> 0 then A - 4 else A)" for c
    using assms(2) by (simp add: exception_fields [OF u(1)])
  have m: "user_level (t\<lparr>pc := q\<rparr>)" if "CP0 t cop0_Status = CP0 s cop0_Status" for t :: "'a cpuRegisters_scheme" and q
    using assms(1) that by (simp add: user_level_def Status_bits)
  have "CP0 (cpuTlbMissR v (branch s) s) cop0_EPC = (if branch s \<noteq> 0 then A - 4 else A)"
    unfolding cpuTlbMissR_def cpuTlbMiss_def Let_def
    by (subst exception_fields(1), rule m) (simp_all add: wCP0_def assms(2))
  moreover have "CP0 (cpuException 0x30 (branch s) s) cop0_EPC = (if branch s \<noteq> 0 then A else A + 4)"
    using assms by (simp add: exception_fields)
  ultimately show ?thesis
    using b add_checked [of s]
    by (simp add: BREAK_def TEQ_def trap_def Let_def checked_to_def)
qed

theorem exception_epc_witness:
  "CP0 (BREAK ((regs_rs_rt 0x7fffffff 1)\<lparr>pc := 0x1004\<rparr>)) cop0_EPC = 0x1000 \<and>
   CP0 (ADD ((regs_rs_rt 0x7fffffff 1)\<lparr>pc := 0x1004\<rparr>)) cop0_EPC = 0x1004"
proof -
  let ?s = "(regs_rs_rt 0x7fffffff 1)\<lparr>pc := 0x1004\<rparr>"
  have "user_level ?s" "branch ?s = 0" "\<not> fits 32 (sint (rsL ?s) + sint (rtL ?s))"
    by (simp_all add: user_level_def Status_bits regs_rs_rt_def regs0_def fits_def rsL_def rtL_def Rs_def Rt_def lane_def)
  with exception_epc [of ?s "0x1000"] show ?thesis by simp
qed

end
