(* ===== verification/EE_Delay.thy ===== *)
theory EE_Delay
  imports EE_Frame EE_Exceptions EE_Events
begin

text \<open>
  The nesting bound of \<open>execI\<close> and the delay slot.  \<open>execI_mono\<close>: a bound that is large
  enough gives the result of every larger bound.
\<close>

unbundle bit_operations_syntax

section \<open>The nesting bound\<close>

definition res_le :: "('s, 'x) res \<Rightarrow> ('s, 'x) res \<Rightarrow> bool" where
  "res_le r r' \<longleftrightarrow> (\<forall>s. r \<noteq> Throw NestedTooDeep s) \<longrightarrow> r' = r"

named_theorems le_intros

lemma res_le_refl [le_intros]: "res_le r r" by (simp add: res_le_def)

lemma res_le_bind [le_intros]:
  assumes "res_le r r'" and "\<And>x s. res_le (k x s) (k' x s)"
  shows "res_le (res_bind r k) (res_bind r' k')"
  using assms by (cases r; cases r') (auto simp: res_le_def)

definition handler_le :: "('a ee_fpu_scheme ee_env \<Rightarrow> 'a ee_step) \<Rightarrow> bool" where
  "handler_le h \<longleftrightarrow> (\<forall>env f g s. (\<forall>t. res_le (f t) (g t)) \<longrightarrow>
     res_le (h (env\<lparr>env_execI := f\<rparr>) s) (h (env\<lparr>env_execI := g\<rparr>) s))"

lemma handler_leI:
  "(\<And>env f g s. (\<And>t. res_le (f t) (g t)) \<Longrightarrow>
     res_le (h (env\<lparr>env_execI := f\<rparr>) s) (h (env\<lparr>env_execI := g\<rparr>) s)) \<Longrightarrow> handler_le h"
  by (simp add: handler_le_def)

lemma intEventTest_env: "intEventTest (env\<lparr>env_execI := f\<rparr>) = intEventTest env"
  by (simp add: intEventTest_def fun_eq_iff)

lemma doBranch_le [le_intros]:
  assumes "\<And>t. res_le (f t) (g t)"
  shows "res_le (doBranch (env\<lparr>env_execI := f\<rparr>) tar s) (doBranch (env\<lparr>env_execI := g\<rparr>) tar s)"
    "res_le (intDoBranch (env\<lparr>env_execI := f\<rparr>) tar s) (intDoBranch (env\<lparr>env_execI := g\<rparr>) tar s)"
  unfolding doBranch_def intDoBranch_def doBranch_shared_def intEventTest_env
  by (auto intro!: le_intros assms)

lemma branches_le [le_intros]:
  assumes "\<And>t. res_le (f t) (g t)"
  shows
    "res_le (J (env\<lparr>env_execI := f\<rparr>) s) (J (env\<lparr>env_execI := g\<rparr>) s)"
    "res_le (JAL (env\<lparr>env_execI := f\<rparr>) s) (JAL (env\<lparr>env_execI := g\<rparr>) s)"
    "res_le (JR (env\<lparr>env_execI := f\<rparr>) s) (JR (env\<lparr>env_execI := g\<rparr>) s)"
    "res_le (JALR (env\<lparr>env_execI := f\<rparr>) s) (JALR (env\<lparr>env_execI := g\<rparr>) s)"
    "res_le (BEQ (env\<lparr>env_execI := f\<rparr>) s) (BEQ (env\<lparr>env_execI := g\<rparr>) s)"
    "res_le (BNE (env\<lparr>env_execI := f\<rparr>) s) (BNE (env\<lparr>env_execI := g\<rparr>) s)"
    "res_le (BGEZ (env\<lparr>env_execI := f\<rparr>) s) (BGEZ (env\<lparr>env_execI := g\<rparr>) s)"
    "res_le (BGTZ (env\<lparr>env_execI := f\<rparr>) s) (BGTZ (env\<lparr>env_execI := g\<rparr>) s)"
    "res_le (BLEZ (env\<lparr>env_execI := f\<rparr>) s) (BLEZ (env\<lparr>env_execI := g\<rparr>) s)"
    "res_le (BLTZ (env\<lparr>env_execI := f\<rparr>) s) (BLTZ (env\<lparr>env_execI := g\<rparr>) s)"
    "res_le (BGEZAL (env\<lparr>env_execI := f\<rparr>) s) (BGEZAL (env\<lparr>env_execI := g\<rparr>) s)"
    "res_le (BLTZAL (env\<lparr>env_execI := f\<rparr>) s) (BLTZAL (env\<lparr>env_execI := g\<rparr>) s)"
    "res_le (BEQL (env\<lparr>env_execI := f\<rparr>) s) (BEQL (env\<lparr>env_execI := g\<rparr>) s)"
    "res_le (BNEL (env\<lparr>env_execI := f\<rparr>) s) (BNEL (env\<lparr>env_execI := g\<rparr>) s)"
    "res_le (BLEZL (env\<lparr>env_execI := f\<rparr>) s) (BLEZL (env\<lparr>env_execI := g\<rparr>) s)"
    "res_le (BGTZL (env\<lparr>env_execI := f\<rparr>) s) (BGTZL (env\<lparr>env_execI := g\<rparr>) s)"
    "res_le (BLTZL (env\<lparr>env_execI := f\<rparr>) s) (BLTZL (env\<lparr>env_execI := g\<rparr>) s)"
    "res_le (BGEZL (env\<lparr>env_execI := f\<rparr>) s) (BGEZL (env\<lparr>env_execI := g\<rparr>) s)"
    "res_le (BLTZALL (env\<lparr>env_execI := f\<rparr>) s) (BLTZALL (env\<lparr>env_execI := g\<rparr>) s)"
    "res_le (BGEZALL (env\<lparr>env_execI := f\<rparr>) s) (BGEZALL (env\<lparr>env_execI := g\<rparr>) s)"
    "res_le (BC0F (env\<lparr>env_execI := f\<rparr>) s) (BC0F (env\<lparr>env_execI := g\<rparr>) s)"
    "res_le (BC0T (env\<lparr>env_execI := f\<rparr>) s) (BC0T (env\<lparr>env_execI := g\<rparr>) s)"
    "res_le (BC0FL (env\<lparr>env_execI := f\<rparr>) s) (BC0FL (env\<lparr>env_execI := g\<rparr>) s)"
    "res_le (BC0TL (env\<lparr>env_execI := f\<rparr>) s) (BC0TL (env\<lparr>env_execI := g\<rparr>) s)"
  unfolding J_def JAL_def JR_def JALR_def BEQ_def BNE_def BGEZ_def BGTZ_def BLEZ_def BLTZ_def BGEZAL_def
    BLTZAL_def BEQL_def BNEL_def BLEZL_def BGTZL_def BLTZL_def BGEZL_def BLTZALL_def BGEZALL_def
    BC0F_def BC0T_def BC0FL_def BC0TL_def Let_def skipDelaySlot_def intEventTest_env
  by (auto intro!: le_intros assms)

lemma branches1_le [le_intros]:
  assumes "\<And>t. res_le (f t) (g t)"
  shows
    "res_le (BC1F (env\<lparr>env_execI := f\<rparr>) s) (BC1F (env\<lparr>env_execI := g\<rparr>) s)"
    "res_le (BC1T (env\<lparr>env_execI := f\<rparr>) s) (BC1T (env\<lparr>env_execI := g\<rparr>) s)"
    "res_le (BC1FL (env\<lparr>env_execI := f\<rparr>) s) (BC1FL (env\<lparr>env_execI := g\<rparr>) s)"
    "res_le (BC1TL (env\<lparr>env_execI := f\<rparr>) s) (BC1TL (env\<lparr>env_execI := g\<rparr>) s)"
  unfolding BC1F_def BC1T_def BC1FL_def BC1TL_def
  by (auto intro!: le_intros assms)

definition OPCODE_le :: "'a ee_fpu_scheme OPCODE \<Rightarrow> bool" where
  "OPCODE_le o' \<longleftrightarrow> (\<forall>h. op_interpret o' = Some h \<longrightarrow> handler_le h)"

lemma OPCODE_le_Make:
  "OPCODE_le (MakeOpcode n c f h) \<longleftrightarrow> handler_le h" "OPCODE_le (MakeOpcodeClass n cl) \<longleftrightarrow> True"
  by (simp_all add: OPCODE_le_def MakeOpcode_def MakeOpcodeClass_def)

lemma tables_le:
  "list_all OPCODE_le tbl_Standard"
  "list_all OPCODE_le tbl_Special"
  "list_all OPCODE_le tbl_RegImm"
  "list_all OPCODE_le tbl_MMI"
  "list_all OPCODE_le tbl_MMI0"
  "list_all OPCODE_le tbl_MMI1"
  "list_all OPCODE_le tbl_MMI2"
  "list_all OPCODE_le tbl_MMI3"
  "list_all OPCODE_le tbl_COP0"
  "list_all OPCODE_le tbl_COP0_BC0"
  "list_all OPCODE_le tbl_COP0_C0"
  "list_all OPCODE_le tbl_COP1"
  "list_all OPCODE_le tbl_COP1_BC1"
  "list_all OPCODE_le tbl_COP1_S"
  "list_all OPCODE_le tbl_COP1_W"
  unfolding tbl_defs op_Unknown_defs
  by (simp_all only: list.pred_inject OPCODE_le_Make simp_thms,
      (intro conjI handler_leI; auto intro!: le_intros simp: SYSCALL_def)+)

lemma instructions_le: "(o' :: 'a ee_fpu_scheme OPCODE) \<in> instructions \<Longrightarrow> op_interpret o' = Some h \<Longrightarrow> handler_le h"
proof (rule instructions_induct)
  show "handler_le h" if "o' \<in> set tbl_Standard" "op_interpret o' = Some h" for o' :: "'a ee_fpu_scheme OPCODE" and h
    using that tables_le(1) by (auto simp: list_all_iff OPCODE_le_def)
  show "handler_le h" if "o' \<in> set (Class_table c)" "op_interpret o' = Some h" for c and o' :: "'a ee_fpu_scheme OPCODE" and h
    using that tables_le by (cases c) (auto simp: list_all_iff Class_table_def OPCODE_le_def)
qed

lemma dispatch_le:
  fixes env :: "'a ee_fpu_scheme ee_env"
  assumes "\<And>t. res_le (f t) (g t)"
  shows "res_le (dispatch (env\<lparr>env_execI := f\<rparr>) s) (dispatch (env\<lparr>env_execI := g\<rparr>) s)"
proof -
  obtain o' :: "'a ee_fpu_scheme OPCODE" and h where o: "GetCurrentInstruction s = Some o'" "o' \<in> instructions" "op_interpret o' = Some h"
    unfolding GetCurrentInstruction_eq using GetInstruction_in instructions_handler by blast
  then have "handler_le h" by (blast intro: instructions_le)
  with assms show ?thesis by (simp add: dispatch_def o handler_le_def)
qed

lemma execI_Suc_le: "res_le (execI n env s) (execI (Suc n) env s)"
proof (induction n arbitrary: s)
  case 0
  show ?case by (simp add: res_le_def)
next
  case (Suc n)
  show ?case
    unfolding execI.simps by (intro le_intros dispatch_le Suc [unfolded execI.simps])
qed

lemma res_le_trans: "res_le r1 r2 \<Longrightarrow> res_le r2 r3 \<Longrightarrow> res_le r1 r3"
  by (auto simp: res_le_def)

text \<open>
  A result of \<open>execI\<close> other than the report that the delay slots nest too deeply does not
  depend on the bound on the nesting.
\<close>

theorem execI_mono:
  assumes "n \<le> m" and "\<forall>t. execI n env s \<noteq> Throw NestedTooDeep t"
  shows "execI m env s = execI n env s"
proof -
  have "res_le (execI n env s) (execI m env s)"
    using assms(1) by (induction rule: dec_induct) (rule res_le_refl, erule res_le_trans, rule execI_Suc_le)
  with assms(2) show ?thesis by (simp add: res_le_def)
qed

section \<open>The delay slot\<close>

text \<open>
  The conditional branches on general registers: the handler, the condition, whether the branch is a
  likely one, and whether it runs the event test when it is not taken.
\<close>

definition cond_branches ::
  "(('a ee_fpu_scheme ee_env \<Rightarrow> 'a ee_step) \<times> ('a ee_fpu_scheme \<Rightarrow> bool) \<times> bool \<times> bool) list" where
  "cond_branches =
   [(BEQ, \<lambda>s. rsD s = rtD s, False, True), (BNE, \<lambda>s. rsD s \<noteq> rtD s, False, True),
    (BGEZ, \<lambda>s. 0 \<le> sint (rsD s), False, False), (BGTZ, \<lambda>s. 0 < sint (rsD s), False, False),
    (BLEZ, \<lambda>s. sint (rsD s) \<le> 0, False, False), (BLTZ, \<lambda>s. sint (rsD s) < 0, False, False),
    (BEQL, \<lambda>s. rsD s = rtD s, True, True), (BNEL, \<lambda>s. rsD s \<noteq> rtD s, True, True),
    (BGEZL, \<lambda>s. 0 \<le> sint (rsD s), True, True), (BGTZL, \<lambda>s. 0 < sint (rsD s), True, True),
    (BLEZL, \<lambda>s. sint (rsD s) \<le> 0, True, True), (BLTZL, \<lambda>s. sint (rsD s) < 0, True, True)]"

lemma cond_branches_eq:
  assumes "(h, cond, likely, tests) \<in> set cond_branches"
  shows "h env s = (if cond s then doBranch env (BranchTarget s) s
      else if tests then intEventTest env (if likely then s\<lparr>pc := pc s + 4\<rparr> else s) else Ok () s)"
  using assms unfolding cond_branches_def
  by (auto simp: BEQ_def BNE_def BGEZ_def BGTZ_def BLEZ_def BLTZ_def BEQL_def BNEL_def BGEZL_def BGTZL_def
      BLEZL_def BLTZL_def skipDelaySlot_def word_sle_eq word_sless_alt not_le not_less)

definition mem_word :: "'a ee_mem_scheme \<Rightarrow> u32 \<Rightarrow> u32" where
  "mem_word s a = load_le 4 (hostmem s) (assumePtr (vmap s (vpage a)) a)"

lemma fetch: "direct a s \<Longrightarrow> memRead32 d a s = Ok (mem_word s a) s"
  by (simp add: memRead32_def vtlb_read_direct mem_word_def)

lemma direct_frame:
  "direct a (s\<lparr>pc := x\<rparr>) = direct a s" "direct a (s\<lparr>code := w\<rparr>) = direct a s" "direct a (s\<lparr>branch := b\<rparr>) = direct a s"
  "mem_word (s\<lparr>pc := x\<rparr>) a = mem_word s a" "mem_word (s\<lparr>code := w\<rparr>) a = mem_word s a"
  "mem_word (s\<lparr>branch := b\<rparr>) a = mem_word s a"
  by (simp_all add: direct_def CheckCache_def mem_word_def)

lemma direct_frame_cpu:
  "direct a (t\<lparr>cpuBlockCycles := c\<rparr>) = direct a t" "direct a (t\<lparr>branch2 := b\<rparr>) = direct a t"
  "mem_word (t\<lparr>cpuBlockCycles := c\<rparr>) a = mem_word t a" "mem_word (t\<lparr>branch2 := b\<rparr>) a = mem_word t a"
  by (simp_all add: direct_def CheckCache_def mem_word_def)

lemma execI_direct:
  assumes "direct (pc s) s" "GetInstruction (mem_word s (pc s)) (mem_word s (pc s)) = Some o'" "op_interpret o' = Some h"
  shows "execI (Suc n) env s = h (env\<lparr>env_execI := execI n env\<rparr>)
    (s\<lparr>pc := pc s + 4, code := mem_word s (pc s), cpuBlockCycles := cpuBlockCycles s + op_cycles o'\<rparr>)"
  using assms by (simp add: fetch direct_frame dispatch_def GetCurrentInstruction_eq)

lemma intExitExecution_more:
  fixes s t :: "'a ee_cpu_scheme"
  shows "cpuRegisters.more s = cpuRegisters.more t \<Longrightarrow> intExitExecution s = intExitExecution t"
  by (cases s rule: ee_cpu.cases_scheme; cases t rule: ee_cpu.cases_scheme) simp

text \<open>A taken branch: the result of the slot, then control passes unless an exception took it.\<close>

lemma doBranch_slot:
  "env_execI env (s\<lparr>branch := 1, branch2 := 1\<rparr>) = r \<Longrightarrow>
     doBranch env tar s =
       (case r of Throw e w \<Rightarrow> Throw e w
        | Ok _ w \<Rightarrow> intEventTest env (addBlockCycles (if branch w \<noteq> 0 then w\<lparr>pc := tar, branch := 0\<rparr> else w)))"
  by (cases r) (simp_all add: doBranch_def doBranch_shared_def)


section \<open>The event test of the machine\<close>

text \<open>
  \<open>_cpuEventTest_Shared\<close> as the event test of the interpreter.  Its bound is on the loop that runs the
  events before the game starts; a bound that is too small is reported as \<open>NestedTooDeep\<close>.
\<close>

definition eventTest_step :: "nat \<Rightarrow> 'a ee_io_scheme callbacks \<Rightarrow> 'a ee_io_scheme \<Rightarrow> ('a ee_io_scheme, unit) res" where
  "eventTest_step fuel cb s =
     (case cpuEventTest_Shared fuel cb s of None \<Rightarrow> Throw NestedTooDeep s | Some t \<Rightarrow> Ok () t)"

text \<open>A branch to itself plus 16 with an addition in its slot.\<close>

definition delay_example :: ee_io where
  "delay_example = ee_io0\<lparr>vmap := \<lambda>_. 0x10000000, pc := 0x100,
     hostmem := (\<lambda>_. 0)(0x10000100 := 0x03, 0x10000103 := 0x10, 0x10000104 := 0x05, 0x10000106 := 0x02, 0x10000107 := 0x24)\<rparr>"

definition delay_env :: "ee_io ee_env" where
  "delay_env = ee_env0\<lparr>env_cpuEventTest_Shared := eventTest_step 1 idle_callbacks\<rparr>"

lemma load_le_4: "load_le 4 m a = ucast (m a) OR push_bit 8 (ucast (m (a + 1)) OR push_bit 8 (ucast (m (a + 2)) OR push_bit 8 (ucast (m (a + 3)))))"
  by (simp add: numeral_eq_Suc add.assoc)

lemmas ee_io0_defs = ee_io0_def ee_sys.extend_def ee_fpu.extend_def ee_cpu.extend_def ee_mem.extend_def ee_mem0_def

lemma delay_example_words:
  "mem_word delay_example 0x100 = 0x10000003" "mem_word delay_example (0x100 + 4) = 0x24020005"
  by (simp_all add: mem_word_def load_le_4 delay_example_def assumePtr_def)

lemma delay_example_direct: "direct 0x100 delay_example" "direct (0x100 + 4) delay_example"
  by (simp_all add: delay_example_def direct_def isHandler_def neg64_iff ee_io0_defs)

lemma delay_example_ADDIU:
  "GetInstruction 0x24020005 0x24020005 = Some (MakeOpcode ''ADDIU'' C_Default (IS_ALU OR ALUTYPE_ADDI)
    (\<lambda>_ s. Ok () (ADDIU s)) :: ee_io OPCODE)"
  by (simp add: GetInstruction_def descend.simps tbl_Standard_def MakeOpcode_def)


theorem execI_mono_witness: "\<exists>s'. execI 7 ee_env0 (delay_example\<lparr>pc := 0x104\<rparr>) = Ok () s'"
proof -
  let ?s = "delay_example\<lparr>pc := 0x104\<rparr>"
  have d: "direct (pc ?s) ?s" "mem_word ?s (pc ?s) = 0x24020005"
    using delay_example_direct(2) delay_example_words(2) by (simp_all add: direct_frame)
  let ?a = "MakeOpcode ''ADDIU'' C_Default (IS_ALU OR ALUTYPE_ADDI) (\<lambda>_ s. Ok () (ADDIU s)) :: ee_io OPCODE"
  have "execI (Suc 0) ee_env0 ?s = (\<lambda>_ s. Ok () (ADDIU s)) (ee_env0\<lparr>env_execI := execI 0 ee_env0\<rparr>)
      (?s\<lparr>pc := pc ?s + 4, code := mem_word ?s (pc ?s), cpuBlockCycles := cpuBlockCycles ?s + op_cycles ?a\<rparr>)"
    by (rule execI_direct [OF d(1)]) (unfold d(2), rule delay_example_ADDIU, simp add: MakeOpcode_def)
  then obtain s' where "execI (Suc 0) ee_env0 ?s = Ok () s'" by blast
  then show ?thesis using execI_mono [of "Suc 0" 7 ee_env0 ?s] by simp
qed

end
