(* ===== verification/Vu_Gpr.thy ===== *)
theory Vu_Gpr
  imports Vu_Frame EE_Delay
begin

text \<open>
  The general registers of the main processor while the vector units run: no instruction and no program
  of a unit changes them, and the instructions of the second coprocessor write only the register they
  name, never register 0.
\<close>

unbundle bit_operations_syntax

text \<open>The calls of the graphics interface and of the second unit's thread leave them alone.\<close>

definition vu_env_regs :: "'a vu_sys_scheme vu_env \<Rightarrow> bool" where
  "vu_env_regs env \<longleftrightarrow>
     (\<forall>a f n s. GPR (snd (GetGSPacketSize env a f s)) = GPR s \<and> GPR (TransferGSPacketData env a n s) = GPR s) \<and>
     (\<forall>s. GPR (mtvu_WaitVU env s) = GPR s \<and> GPR (mtvu_Get_Changes env s) = GPR s) \<and>
     (\<forall>a b c d s. GPR (mtvu_ExecuteVU env a b c d s) = GPR s)"

section \<open>Instructions\<close>

lemma GPR_scheduling [simp]:
  "GPR (cpuSetNextEvent c d s) = GPR s" "GPR (cpuSetNextEventDelta d s) = GPR s" "GPR (wHu32 a v u) = GPR u"
  "GPR (CPU_INT n e w) = GPR w" "GPR (break_iop w) = GPR w" "GPR (cpuTestINTCInts w) = GPR w" "GPR (cpuTestDMACInts w) = GPR w"
  "GPR (hwIntcIrq k w) = GPR w"
  by (simp_all add: cpuSetNextEvent_def cpuSetNextEventDelta_def wHu32_def CPU_INT_def break_iop_def cpuTestINTCInts_def
      cpuTestDMACInts_def hwIntcIrq_def Let_def)

lemma GPR_VPU_STAT [simp]: "GPR (wVPU_STAT x s) = GPR s" "GPR (wFBRST x s) = GPR s"
  by (simp_all add: wVPU_STAT_def wFBRST_def)

lemma GPR_set_vu_word [simp]: "GPR (set_vu_word p k x t) = GPR t"
  by (cases p) simp_all

lemma GPR_stores [simp]:
  "GPR (vu_store_lane i p f l t) = GPR t" "GPR (vu_store_lanes i a f t) = GPR t"
  "GPR (vu_store_Fs i a t) = GPR t" "GPR (vu_load_Ft i a t) = GPR t" "GPR (vu_load_It i a t) = GPR t"
  by (simp_all add: vu_store_lane_def vu_store_lanes_def vu_store_Fs_def vu_load_Ft_def vu_load_It_def Let_def)

lemma GPR_memory [simp]:
  "GPR (vuLQ i t) = GPR t" "GPR (vuLQD i t) = GPR t" "GPR (vuLQI i t) = GPR t" "GPR (vuSQ i t) = GPR t"
  "GPR (vuSQD i t) = GPR t" "GPR (vuSQI i t) = GPR t" "GPR (vuILW i t) = GPR t" "GPR (vuISW i t) = GPR t"
  "GPR (vuILWR i t) = GPR t" "GPR (vuISWR i t) = GPR t"
  by (simp_all add: vuLQ_def vuLQD_def vuLQI_def vuSQ_def vuSQD_def vuSQI_def vuILW_def vuISW_def vuILWR_def vuISWR_def Let_def)

lemma GPR_xgkick:
  assumes e: "vu_env_regs env"
  shows "GPR (xgkick_finish s) = GPR s" "GPR (xgkick_move env f s) = GPR s" "GPR (snd (xgkick_tag env f s)) = GPR s"
    "GPR (xgkick_start s) = GPR s"
proof -
  show fin: "GPR (xgkick_finish s) = GPR s" for s :: "'a vu_sys_scheme" by (simp add: xgkick_finish_def Let_def)
  show "GPR (xgkick_move env f s) = GPR s" using e by (simp add: xgkick_move_def Let_def fin vu_env_regs_def)
  have "GPR (snd (GetGSPacketSize env a f s)) = GPR s" for a using e by (simp add: vu_env_regs_def)
  then show "GPR (snd (xgkick_tag env f s)) = GPR s"
    by (simp add: xgkick_tag_def Let_def split: prod.splits) (metis snd_conv)
  show "GPR (xgkick_start s) = GPR s" by (simp add: xgkick_start_def Let_def)
qed

lemma GPR_xgkick_loop:
  assumes e: "vu_env_regs env"
  shows "xgkick_loop n env f s = Some t \<Longrightarrow> GPR t = GPR s"
proof (induction n arbitrary: s)
  case (Suc n)
  have tag: "GPR s1 = GPR s" if "xgkick_tag env f s = (b, s1)" for b s1
    using GPR_xgkick(3) [OF e, of f s] that by simp
  show ?case
    using Suc.prems Suc.IH
    by (auto split: if_splits prod.splits dest: tag dest!: Suc.IH simp: GPR_xgkick(2) [OF e])
qed simp

lemma GPR_kick_pipes:
  assumes e: "vu_env_regs env"
  shows "(XGKICKTransfer_n n env c f s = Some t \<longrightarrow> GPR t = GPR s) \<and> (TestPipes_n n env i s' = Some t' \<longrightarrow> GPR t' = GPR s')"
proof (induction n arbitrary: c f s t i s' t')
  case (Suc n)
  note kick = Suc.IH [THEN conjunct1, rule_format] and pipes = Suc.IH [THEN conjunct2, rule_format]
  show ?case
    by (auto simp: Let_def split: if_splits option.splits dest!: kick pipes GPR_xgkick_loop [OF e])
qed simp

lemma GPR_TestPipes: "vu_env_regs env \<Longrightarrow> vuTestPipes env i s = Some t \<Longrightarrow> GPR t = GPR s"
  using GPR_kick_pipes unfolding vuTestPipes_def by blast

lemma GPR_XGKICKTransfer: "vu_env_regs env \<Longrightarrow> vuXGKICKTransfer env c f s = Some t \<Longrightarrow> GPR t = GPR s"
  using GPR_kick_pipes unfolding vuXGKICKTransfer_def by blast

lemma GPR_vuXGKICK:
  assumes "vu_env_regs env" "vuXGKICK env s = Some t" shows "GPR t = GPR s"
  using assms(2) GPR_XGKICKTransfer [OF assms(1)] by (auto simp: vuXGKICK_def GPR_xgkick(4) [OF assms(1)] split: if_splits)

lemma GPR_LOWER_OPCODE:
  assumes "vu_env_regs env" "fst (LOWER_OPCODE ! unat (drop_bit 25 (c :: u32))) env i s = Some t"
  shows "GPR t = GPR s"
proof -
  have "\<forall>t. fst (LOWER_OPCODE ! unat (drop_bit 25 c)) env i s = Some t \<longrightarrow> GPR t = GPR s"
    by (rule all_lower_exec [where P = "\<lambda>r. \<forall>t. r = Some t \<longrightarrow> GPR t = GPR s"])
      (auto simp: lower_tables lower_instrs vuXITOP_def vuXTOP_def split: if_splits dest: GPR_vuXGKICK [OF assms(1)])
  then show ?thesis using assms(2) by blast
qed

section \<open>Steps and programs\<close>

lemma GPR_ExecUpper [simp]: "GPR (vuExecUpper env i up s) = GPR s"
  by (simp add: vuExecUpper_def)

lemma GPR_ExecPair:
  assumes "vu_env_regs env" "vuExecPair env i clip u l up lo s = Some t" shows "GPR t = GPR s"
  using assms(2) by (auto simp: vuExecPair_def vuExecLower_def Let_def split: if_splits dest!: GPR_LOWER_OPCODE [OF assms(1)])

lemma GPR_RunPair:
  assumes "vu_env_regs env" "vuRunPair env i clip up lo s = Some (u, l, t)" shows "GPR t = GPR s"
  using assms(2)
  by (auto simp: vuRunPair_def Let_def split: if_splits option.splits dest!: GPR_TestPipes [OF assms(1)] GPR_ExecPair [OF assms(1)])

lemma GPR_flags [simp]: "GPR (vu0_flags up s) = GPR s" "GPR (vu1_flags up s) = GPR s"
  by (simp_all add: vu0_flags_def vu1_flags_def Let_def)

lemma GPR_ebit_step:
  assumes "\<And>s t. finish s = Some t \<Longrightarrow> GPR t = GPR s" "ebit_step i finish s = Some t"
  shows "GPR t = GPR s"
  using assms(2) by (auto simp: ebit_step_def Let_def split: if_splits dest!: assms(1))

lemma GPR_vu0_finish: "vu0_finish s = Some t \<Longrightarrow> GPR t = GPR s"
  by (auto simp: vu0_finish_def Let_def)

lemma GPR_vu1_finish:
  assumes e: "vu_env_regs env" and f: "vu1_finish env s = Some t" shows "GPR t = GPR s"
proof -
  let ?s1 = "wVPU_STAT (VPU_STAT s AND NOT 0x100) s"
  let ?s2 = "wHu32 VIF1_STAT (psHu32 VIF1_STAT ?s1 AND NOT 0x4) ?s1"
  obtain r where r: "(if xgkickenable (vuRegs ?s2 VU1) then vuXGKICKTransfer env 0 True ?s2 else Some ?s2) = Some r"
    and t: "t = (if INSTANT_VU1 env then on_vu VU1 (\<lambda>v. v\<lparr>xgkicklastcycle := cycle r\<rparr>) r else r)"
    using f unfolding vu1_finish_def Let_def by (auto simp only: map_option_eq_Some)
  have "GPR r = GPR ?s2"
    using r GPR_XGKICKTransfer [OF e, of 0 True ?s2 r] by (cases "xgkickenable (vuRegs ?s2 VU1)") simp_all
  then show ?thesis using t by simp
qed

lemma GPR_ebit_steps:
  "ebit_step VU0 vu0_finish s = Some t \<Longrightarrow> GPR t = GPR s"
  "vu_env_regs env \<Longrightarrow> ebit_step VU1 (vu1_finish env) s = Some t \<Longrightarrow> GPR t = GPR s"
  by (rule GPR_ebit_step [where finish = vu0_finish], erule GPR_vu0_finish, assumption)
    (rule GPR_ebit_step [where finish = "vu1_finish env"], erule GPR_vu1_finish, assumption+)

lemma GPR_step:
  assumes e: "vu_env_regs env"
  shows "vu0Exec env s = Some t \<Longrightarrow> GPR t = GPR s" "vu1Step env s = Some t \<Longrightarrow> GPR t = GPR s"
proof -
  assume s: "vu0Exec env s = Some t"
  show "GPR t = GPR s"
    using s unfolding vu0Exec_def vu0_Exec_def Let_def
    by (auto split: option.splits dest!: GPR_RunPair [OF e] GPR_ebit_steps(1))
next
  assume s: "vu1Step env s = Some t"
  show "GPR t = GPR s"
    using s unfolding vu1Step_def vu1Exec_def vu1_Exec_def Let_def
    by (auto split: option.splits dest!: GPR_RunPair [OF e] GPR_ebit_steps(2) [OF e])
qed

lemma GPR_loops:
  assumes e: "vu_env_regs env"
  shows "vu0_loop n env a c s = Some t \<Longrightarrow> GPR t = GPR s" "vu1_loop n env a c s = Some t \<Longrightarrow> GPR t = GPR s"
  by (induction n arbitrary: s) (auto split: if_splits option.splits dest!: GPR_step [OF e])

lemma GPR_execute_end [simp]: "GPR (execute_end i s) = GPR s"
  by (simp add: execute_end_def)

lemma GPR_Execute:
  assumes e: "vu_env_regs env"
  shows "vu0Execute env c s = Some t \<Longrightarrow> GPR t = GPR s" "vu1Execute env c s = Some t \<Longrightarrow> GPR t = GPR s"
    "vuExecute env i c s = Some t \<Longrightarrow> GPR t = GPR s"
proof -
  show 0: "vu0Execute env c s = Some t \<Longrightarrow> GPR t = GPR s" by (auto simp: vu0Execute_def Let_def dest!: GPR_loops [OF e])
  show 1: "vu1Execute env c s = Some t \<Longrightarrow> GPR t = GPR s" by (auto simp: vu1Execute_def Let_def dest!: GPR_loops [OF e])
  show "vuExecute env i c s = Some t \<Longrightarrow> GPR t = GPR s" using 0 1 by (cases i) simp_all
qed

lemma GPR_ExecuteBlock:
  assumes e: "vu_env_regs env" shows "ExecuteBlock env i b s = Some t \<Longrightarrow> GPR t = GPR s"
  using e by (auto simp: ExecuteBlock_def vu_env_regs_def split: if_splits dest!: GPR_Execute [OF e])

lemma GPR_vu0run_loop:
  assumes e: "vu_env_regs env" shows "vu0run_loop n env b s = Some t \<Longrightarrow> GPR t = GPR s"
  by (induction n arbitrary: s) (auto split: if_splits option.splits dest!: GPR_Execute [OF e])

lemma GPR_vu0run:
  assumes e: "vu_env_regs env" shows "vu0run env b a s = Some t \<Longrightarrow> GPR t = GPR s"
  by (auto simp: vu0run_def split: if_splits option.splits dest!: GPR_vu0run_loop [OF e] GPR_ExecuteBlock [OF e])

lemma GPR_waits:
  assumes e: "vu_env_regs env"
  shows "vu0WaitMicro env s = Some t \<Longrightarrow> GPR t = GPR s" "vu0FinishMicro env s = Some t \<Longrightarrow> GPR t = GPR s"
    "vu0Finish env s = Some t \<Longrightarrow> GPR t = GPR s"
  using GPR_vu0run [OF e] by (simp_all add: vu0WaitMicro_def vu0FinishMicro_def vu0Finish_def)

lemma GPR_vu0ExecMicro:
  assumes e: "vu_env_regs env" shows "vu0ExecMicro env a s = Some t \<Longrightarrow> GPR t = GPR s"
  by (auto simp: vu0ExecMicro_def Let_def split: if_splits option.splits dest!: GPR_waits [OF e] GPR_ExecuteBlock [OF e])

lemma GPR_vu1Finish:
  assumes e: "vu_env_regs env" shows "vu1Finish env b s = Some t \<Longrightarrow> GPR t = GPR s"
  using e by (auto simp: vu1Finish_def vu_env_regs_def Let_def split: if_splits option.splits dest!: GPR_Execute [OF e])

lemma GPR_vu1ExecMicro:
  assumes e: "vu_env_regs env" shows "vu1ExecMicro env a s = Some t \<Longrightarrow> GPR t = GPR s"
  using e by (auto simp: vu1ExecMicro_def vu_env_regs_def Let_def split: if_splits option.splits
    dest!: GPR_vu1Finish [OF e] GPR_ExecuteBlock [OF e] GPR_Execute [OF e])

section \<open>The second coprocessor\<close>

text \<open>An instruction of the coprocessor in a processor whose other parts leave register 0 alone.\<close>

definition cop2_r0 :: "'a vu_sys_scheme cop2_op \<Rightarrow> bool" where
  "cop2_r0 p \<longleftrightarrow> (\<forall>ee env s r. env_r0 ee \<longrightarrow> step_r0 (env_execI ee) \<longrightarrow> vu_env_regs env \<longrightarrow> p ee env s = Some r \<longrightarrow> keeps_r0 (GPR s 0) r)"

lemma cop2_r0I:
  "(\<And>ee env s r. env_r0 ee \<Longrightarrow> step_r0 (env_execI ee) \<Longrightarrow> vu_env_regs env \<Longrightarrow> p ee env s = Some r \<Longrightarrow> keeps_r0 (GPR s 0) r) \<Longrightarrow> cop2_r0 p"
  by (simp add: cop2_r0_def)

lemma GPR_wGPR_0 [simp]: "r \<noteq> 0 \<Longrightarrow> GPR (wGPR r q s) 0 = GPR s 0" "r \<noteq> 0 \<Longrightarrow> GPR (wUL r n v s) 0 = GPR s 0"
  by (simp_all add: wGPR_def wUL_def)

text \<open>The moves to the main processor test the register they write.\<close>

lemma interlock_r0:
  assumes w: "\<And>env s t. vu_env_regs env \<Longrightarrow> wait env s = Some t \<Longrightarrow> GPR t = GPR s" and f: "\<And>s t. f s = Some t \<Longrightarrow> GPR t 0 = GPR s 0"
  shows "cop2_r0 (interlock wait f)"
  by (rule cop2_r0I) (auto simp: interlock_def keeps_r0_def split: if_splits option.splits dest!: w f)

lemma GPR_CTC2_write:
  assumes e: "vu_env_regs env" shows "CTC2_write env s = Some t \<Longrightarrow> GPR t = GPR s"
  by (auto simp: CTC2_write_def write_FBRST_def vu0ResetRegs_def vu1ResetRegs_def Let_def split: if_splits option.splits
      dest!: GPR_vu1Finish [OF e] GPR_vu1ExecMicro [OF e])

lemma moves_r0: "cop2_r0 QMFC2" "cop2_r0 QMTC2" "cop2_r0 CFC2" "cop2_r0 CTC2"
proof -
  show "cop2_r0 QMFC2" unfolding QMFC2_def by (rule interlock_r0) (auto dest: GPR_waits split: if_splits)
  show "cop2_r0 QMTC2" unfolding QMTC2_def by (rule interlock_r0) (auto dest: GPR_waits split: if_splits)
  show "cop2_r0 CFC2" unfolding CFC2_def by (rule interlock_r0) (auto dest: GPR_waits split: if_splits simp: Let_def)
  show "cop2_r0 CTC2"
  proof (rule cop2_r0I)
    fix ee and env :: "'z vu_sys_scheme vu_env" and s r
    assume e: "vu_env_regs env" and x: "CTC2 ee env s = Some r"
    show "keeps_r0 (GPR s 0) r"
      using x by (auto simp: CTC2_def interlock_def keeps_r0_def split: if_splits option.splits
          dest!: GPR_waits [OF e] GPR_CTC2_write [OF e])
  qed
qed

lemma calls_r0: "cop2_r0 VCALLMS" "cop2_r0 VCALLMSR" "cop2_r0 COP2_Unknown"
proof -
  have "keeps_r0 (GPR s 0) r" if e: "vu_env_regs env" and x: "VCALLMS ee env s = Some r \<or> VCALLMSR ee env s = Some r"
    for ee and env :: "'z vu_sys_scheme vu_env" and s r
    using x by (auto simp: VCALLMS_def VCALLMSR_def keeps_r0_def split: option.splits
        dest!: GPR_waits [OF e] GPR_vu0ExecMicro [OF e])
  then show "cop2_r0 VCALLMS" "cop2_r0 VCALLMSR" by (auto intro!: cop2_r0I)
qed (auto intro!: cop2_r0I simp: COP2_Unknown_def keeps_r0_def)

lemma branches_r0: "cop2_r0 BC2F" "cop2_r0 BC2T" "cop2_r0 BC2FL" "cop2_r0 BC2TL"
  by (auto intro!: cop2_r0I r0_intros simp: BC2F_def BC2T_def BC2FL_def BC2TL_def)

lemma macros_r0:
  "cop2_r0 VABS" "cop2_r0 VADD" "cop2_r0 VADDi" "cop2_r0 VADDq" "cop2_r0 VADDx" "cop2_r0 VADDy" "cop2_r0 VADDz"
  "cop2_r0 VADDw" "cop2_r0 VADDA" "cop2_r0 VADDAi" "cop2_r0 VADDAq" "cop2_r0 VADDAx" "cop2_r0 VADDAy" "cop2_r0 VADDAz"
  "cop2_r0 VADDAw" "cop2_r0 VSUB" "cop2_r0 VSUBi" "cop2_r0 VSUBq" "cop2_r0 VSUBx" "cop2_r0 VSUBy" "cop2_r0 VSUBz"
  "cop2_r0 VSUBw" "cop2_r0 VSUBA" "cop2_r0 VSUBAi" "cop2_r0 VSUBAq" "cop2_r0 VSUBAx" "cop2_r0 VSUBAy" "cop2_r0 VSUBAz"
  "cop2_r0 VSUBAw" "cop2_r0 VMUL" "cop2_r0 VMULi" "cop2_r0 VMULq" "cop2_r0 VMULx" "cop2_r0 VMULy" "cop2_r0 VMULz"
  "cop2_r0 VMULw" "cop2_r0 VMULA" "cop2_r0 VMULAi" "cop2_r0 VMULAq" "cop2_r0 VMULAx" "cop2_r0 VMULAy" "cop2_r0 VMULAz"
  "cop2_r0 VMULAw" "cop2_r0 VMADD" "cop2_r0 VMADDi" "cop2_r0 VMADDq" "cop2_r0 VMADDx" "cop2_r0 VMADDy" "cop2_r0 VMADDz"
  "cop2_r0 VMADDw" "cop2_r0 VMADDA" "cop2_r0 VMADDAi" "cop2_r0 VMADDAq" "cop2_r0 VMADDAx" "cop2_r0 VMADDAy"
  "cop2_r0 VMADDAz" "cop2_r0 VMADDAw" "cop2_r0 VMSUB" "cop2_r0 VMSUBi" "cop2_r0 VMSUBq" "cop2_r0 VMSUBx" "cop2_r0 VMSUBy"
  "cop2_r0 VMSUBz" "cop2_r0 VMSUBw" "cop2_r0 VMSUBA" "cop2_r0 VMSUBAi" "cop2_r0 VMSUBAq" "cop2_r0 VMSUBAx" "cop2_r0 VMSUBAy"
  "cop2_r0 VMSUBAz" "cop2_r0 VMSUBAw" "cop2_r0 VMAX" "cop2_r0 VMAXi" "cop2_r0 VMAXx" "cop2_r0 VMAXy" "cop2_r0 VMAXz"
  "cop2_r0 VMAXw" "cop2_r0 VMINI" "cop2_r0 VMINIi" "cop2_r0 VMINIx" "cop2_r0 VMINIy" "cop2_r0 VMINIz" "cop2_r0 VMINIw"
  "cop2_r0 VOPMULA" "cop2_r0 VOPMSUB" "cop2_r0 VNOP" "cop2_r0 VFTOI0" "cop2_r0 VFTOI4" "cop2_r0 VFTOI12" "cop2_r0 VFTOI15"
  "cop2_r0 VITOF0" "cop2_r0 VITOF4" "cop2_r0 VITOF12" "cop2_r0 VITOF15" "cop2_r0 VCLIPw" "cop2_r0 VDIV" "cop2_r0 VSQRT"
  "cop2_r0 VRSQRT" "cop2_r0 VIADD" "cop2_r0 VIADDI" "cop2_r0 VIADDIU" "cop2_r0 VIAND" "cop2_r0 VIOR" "cop2_r0 VISUB"
  "cop2_r0 VISUBIU" "cop2_r0 VMOVE" "cop2_r0 VMFIR" "cop2_r0 VMTIR" "cop2_r0 VMR32" "cop2_r0 VLQ" "cop2_r0 VLQD"
  "cop2_r0 VLQI" "cop2_r0 VSQ" "cop2_r0 VSQD" "cop2_r0 VSQI" "cop2_r0 VILW" "cop2_r0 VISW" "cop2_r0 VILWR" "cop2_r0 VISWR"
  "cop2_r0 VRINIT" "cop2_r0 VRGET" "cop2_r0 VRNEXT" "cop2_r0 VRXOR" "cop2_r0 VWAITQ" "cop2_r0 VFSAND" "cop2_r0 VFSEQ"
  "cop2_r0 VFSOR" "cop2_r0 VFSSET" "cop2_r0 VFMAND" "cop2_r0 VFMEQ" "cop2_r0 VFMOR" "cop2_r0 VFCAND" "cop2_r0 VFCEQ"
  "cop2_r0 VFCOR" "cop2_r0 VFCSET" "cop2_r0 VFCGET" "cop2_r0 VXITOP"
  unfolding cop2_r0_def
  by (simp_all add: macro_V_def macro_S_def keeps_r0_def vuXITOP_def
    VABS_def VADD_def VADDi_def VADDq_def VADDx_def VADDy_def VADDz_def VADDw_def VADDA_def VADDAi_def VADDAq_def VADDAx_def
    VADDAy_def VADDAz_def VADDAw_def VSUB_def VSUBi_def VSUBq_def VSUBx_def VSUBy_def VSUBz_def VSUBw_def VSUBA_def
    VSUBAi_def VSUBAq_def VSUBAx_def VSUBAy_def VSUBAz_def VSUBAw_def VMUL_def VMULi_def VMULq_def VMULx_def VMULy_def
    VMULz_def VMULw_def VMULA_def VMULAi_def VMULAq_def VMULAx_def VMULAy_def VMULAz_def VMULAw_def VMADD_def VMADDi_def
    VMADDq_def VMADDx_def VMADDy_def VMADDz_def VMADDw_def VMADDA_def VMADDAi_def VMADDAq_def VMADDAx_def VMADDAy_def
    VMADDAz_def VMADDAw_def VMSUB_def VMSUBi_def VMSUBq_def VMSUBx_def VMSUBy_def VMSUBz_def VMSUBw_def VMSUBA_def
    VMSUBAi_def VMSUBAq_def VMSUBAx_def VMSUBAy_def VMSUBAz_def VMSUBAw_def VMAX_def VMAXi_def VMAXx_def VMAXy_def VMAXz_def
    VMAXw_def VMINI_def VMINIi_def VMINIx_def VMINIy_def VMINIz_def VMINIw_def VOPMULA_def VOPMSUB_def VNOP_def VFTOI0_def
    VFTOI4_def VFTOI12_def VFTOI15_def VITOF0_def VITOF4_def VITOF12_def VITOF15_def VCLIPw_def VDIV_def VSQRT_def
    VRSQRT_def VIADD_def VIADDI_def VIADDIU_def VIAND_def VIOR_def VISUB_def VISUBIU_def VMOVE_def VMFIR_def VMTIR_def
    VMR32_def VLQ_def VLQD_def VLQI_def VSQ_def VSQD_def VSQI_def VILW_def VISW_def VILWR_def VISWR_def VRINIT_def VRGET_def
    VRNEXT_def VRXOR_def VWAITQ_def VFSAND_def VFSEQ_def VFSOR_def VFSSET_def VFMAND_def VFMEQ_def VFMOR_def VFCAND_def
    VFCEQ_def VFCOR_def VFCSET_def VFCGET_def VXITOP_def)

text \<open>The tables.\<close>

lemma cop2_tables_r0:
  "\<forall>p \<in> set Int_COP2SPECIAL2PrintTable. cop2_r0 p"
  "\<forall>p \<in> set Int_COP2SPECIAL1PrintTable. p = COP2_SPECIAL2 \<or> cop2_r0 p"
  "\<forall>p \<in> set Int_COP2BC2PrintTable. cop2_r0 p"
  "\<forall>p \<in> set Int_COP2PrintTable. p = COP2_BC2 \<or> p = COP2_SPECIAL \<or> cop2_r0 p"
  by (simp_all add: Int_COP2SPECIAL2PrintTable_def Int_COP2SPECIAL1PrintTable_def Int_COP2BC2PrintTable_def Int_COP2PrintTable_def
      moves_r0 calls_r0 branches_r0 macros_r0)

lemma cop2_lengths:
  "length Int_COP2SPECIAL2PrintTable = 128" "length Int_COP2SPECIAL1PrintTable = 64" "length Int_COP2BC2PrintTable = 32"
  "length Int_COP2PrintTable = 32"
  by (simp_all add: Int_COP2SPECIAL2PrintTable_def Int_COP2SPECIAL1PrintTable_def Int_COP2BC2PrintTable_def Int_COP2PrintTable_def)

lemma special2_index: "unat ((c AND 0x3) OR (drop_bit 4 c AND 0x7c) :: u32) < 128"
proof -
  have "(c AND 0x3) OR (drop_bit 4 c AND 0x7c) = ((c AND 0x3) OR (drop_bit 4 c AND 0x7c)) AND 0x7f"
    by (simp add: bit.conj_disj_distrib2 and.assoc)
  also have "\<dots> \<le> 0x7f" by (rule word_and_le1)
  finally have "unat ((c AND 0x3) OR (drop_bit 4 c AND 0x7c)) \<le> unat (0x7f :: u32)" by (simp only: word_le_nat_alt)
  then show ?thesis by simp
qed

lemma cop2_r0_nth:
  assumes "\<And>ee env s. \<exists>q. cop2_r0 q \<and> p ee env s = q ee env s" shows "cop2_r0 p"
  using assms unfolding cop2_r0_def by metis

lemma COP2_SPECIAL2_r0: "cop2_r0 (COP2_SPECIAL2 :: 'a vu_sys_scheme cop2_op)"
proof (rule cop2_r0_nth)
  fix ee env and s :: "'a vu_sys_scheme"
  let ?op = "Int_COP2SPECIAL2PrintTable ! unat ((code s AND 0x3) OR (drop_bit 4 (code s) AND 0x7c)) :: 'a vu_sys_scheme cop2_op"
  have "?op \<in> set Int_COP2SPECIAL2PrintTable" using special2_index by (intro nth_mem) (simp add: cop2_lengths)
  then have "cop2_r0 ?op" using cop2_tables_r0(1) by blast
  then show "\<exists>q. cop2_r0 q \<and> COP2_SPECIAL2 ee env s = q ee env s" by (auto simp: COP2_SPECIAL2_def)
qed

lemma COP2_SPECIAL_r0: "cop2_r0 (COP2_SPECIAL :: 'a vu_sys_scheme cop2_op)"
proof (rule cop2_r0_nth)
  fix ee env and s :: "'a vu_sys_scheme"
  have "Int_COP2SPECIAL1PrintTable ! unat (Funct s) \<in> set (Int_COP2SPECIAL1PrintTable :: 'a vu_sys_scheme cop2_op list)"
    using and_63_less [of "code s"] by (intro nth_mem) (simp add: cop2_lengths Funct_def)
  then have "cop2_r0 (Int_COP2SPECIAL1PrintTable ! unat (Funct s) :: 'a vu_sys_scheme cop2_op)"
    using cop2_tables_r0(2) COP2_SPECIAL2_r0 by auto
  then show "\<exists>q. cop2_r0 q \<and> COP2_SPECIAL ee env s = q ee env s" by (auto simp: COP2_SPECIAL_def)
qed

lemma COP2_BC2_r0: "cop2_r0 (COP2_BC2 :: 'a vu_sys_scheme cop2_op)"
proof (rule cop2_r0_nth)
  fix ee env and s :: "'a vu_sys_scheme"
  have "Int_COP2BC2PrintTable ! unat (Rt s) \<in> set (Int_COP2BC2PrintTable :: 'a vu_sys_scheme cop2_op list)"
    using unat_5_less [of "Rt s"] by (intro nth_mem) (simp add: cop2_lengths)
  then have "cop2_r0 (Int_COP2BC2PrintTable ! unat (Rt s) :: 'a vu_sys_scheme cop2_op)" using cop2_tables_r0(3) by blast
  then show "\<exists>q. cop2_r0 q \<and> COP2_BC2 ee env s = q ee env s" by (auto simp: COP2_BC2_def)
qed

lemma COP2_r0: "cop2_r0 (COP2 :: 'a vu_sys_scheme cop2_op)"
proof (rule cop2_r0_nth)
  fix ee env and s :: "'a vu_sys_scheme"
  have "Int_COP2PrintTable ! unat (Rs s) \<in> set (Int_COP2PrintTable :: 'a vu_sys_scheme cop2_op list)"
    using unat_5_less [of "Rs s"] by (intro nth_mem) (simp add: cop2_lengths)
  then have "cop2_r0 (Int_COP2PrintTable ! unat (Rs s) :: 'a vu_sys_scheme cop2_op)"
    using cop2_tables_r0(4) COP2_BC2_r0 COP2_SPECIAL_r0 by auto
  then show "\<exists>q. cop2_r0 q \<and> COP2 ee env s = q ee env s" by (auto simp: COP2_def)
qed

lemma LQC2_SQC2_r0:
  assumes "devs_r0 d" shows "keeps_r0 (GPR s 0) (LQC2 d s)" "keeps_r0 (GPR s 0) (SQC2 d s)"
  using assms by (auto simp: LQC2_def SQC2_def intro!: r0_intros)

end
