(* ===== verification/EE_Syscall.thy ===== *)
theory EE_Syscall
  imports Vu_Frame
begin

text \<open>
  The emulation of system calls: the switch of \<open>SYSCALL\<close> and \<open>__Deci2Call\<close> of
  pcsx2/R5900OpcodeImpl.cpp, which look at a call before the kernel gets it.

  What the calls print is left out: \<open>sceSifSetDma\<close> and \<open>SetVTLBRefillHandler\<close> only log, and of the
  calls that print a string what remains is the memory access that finds it.  The read of the settings in
  the console's memory and the two calls into the graphics synthesizer are parameters.
\<close>

unbundle bit_operations_syntax

section \<open>State\<close>

datatype GS_VideoMode =
    VM_Uninitialized | VM_Unknown | VM_NTSC | VM_PAL | VM_VESA | VM_SDTV_480P | VM_SDTV_576P | VM_HDTV_720P
  | VM_HDTV_1080I | VM_HDTV_1080P | VM_DVD_NTSC | VM_DVD_PAL

record ee_bios = vu_sys +
  gsVideoMode :: GS_VideoMode
  gsIsInterlaced :: bool
  NoOSD :: bool
  AllowParams1 :: bool
  AllowParams2 :: bool
  threadListAddr :: u32
  deci2addr :: u32
  deci2handler :: u32

record 's hle =
  UpdateVSyncRate :: "'s \<Rightarrow> 's"
  set_CSR_FIELD :: "'s \<Rightarrow> 's"
  LanguageParams :: "'s \<Rightarrow> nat \<Rightarrow> u8"

section \<open>The host pointer of a physical address\<close>

definition vtlb_GetPhyPtr :: "u32 \<Rightarrow> 'a ee_mem_scheme \<Rightarrow> u64 option" where
  "vtlb_GetPhyPtr paddr s =
     (if VTLB_PMAP_SZ \<le> paddr \<or> VTLBPhysical_isHandler (pmap s (ppage paddr)) then None
      else Some (pmap s (ppage paddr) + ucast (paddr AND VTLB_PAGE_MASK)))"

definition PSM :: "u32 \<Rightarrow> 'a ee_mem_scheme \<Rightarrow> u64 option" where
  "PSM mem s = vtlb_GetPhyPtr (mem AND 0x1fffffff) s"

section \<open>The debug interface\<close>

text \<open>\<open>addr\<close> is the host pointer, \<open>None\<close> the null pointer; the write through a null one is \<open>ArrayBounds\<close>.\<close>

definition Deci2Call :: "u32 \<Rightarrow> u64 option \<Rightarrow> 'a ee_bios_scheme \<Rightarrow> ('a ee_bios_scheme, unit) res" where
  "Deci2Call call addr s =
     (if 0x10 <s call then Ok () s
      else if call = 1 then Ok () (case addr of
          Some a \<Rightarrow> s\<lparr>deci2addr := load_le 4 (hostmem s) (a + 4), deci2handler := load_le 4 (hostmem s) (a + 8)\<rparr>
        | None \<Rightarrow> s\<lparr>deci2handler := 0\<rparr>)
      else if call = 2 then Ok () (s\<lparr>deci2addr := 0, deci2handler := 0\<rparr>)
      else if call = 3 \<and> deci2addr s \<noteq> 0 then
        (case PSM (deci2addr s) s of
           None \<Rightarrow> Throw ArrayBounds s
         | Some p \<Rightarrow> Ok () (s\<lparr>hostmem := store_le 4 (hostmem s) (p + 12) (0 :: u32)\<rparr>))
      else Ok () s)"

section \<open>The calls\<close>

definition gsSetVideoMode :: "'a ee_bios_scheme hle \<Rightarrow> GS_VideoMode \<Rightarrow> 'a ee_bios_scheme \<Rightarrow> 'a ee_bios_scheme" where
  "gsSetVideoMode h mode s = set_CSR_FIELD h (UpdateVSyncRate h (s\<lparr>gsVideoMode := mode\<rparr>))"

definition video_mode :: "u8 \<Rightarrow> GS_VideoMode" where
  "video_mode m =
     (if m \<in> {0x0, 0x2} then VM_NTSC else if m \<in> {0x1, 0x3} then VM_PAL
      else if m \<in> {0x1A, 0x1B, 0x1C, 0x1D, 0x2A, 0x2B, 0x2C, 0x2D, 0x2E, 0x3B, 0x3C, 0x3D, 0x3E, 0x4A, 0x4B} then VM_VESA
      else if m = 0x50 then VM_SDTV_480P else if m = 0x51 then VM_HDTV_1080I else if m = 0x52 then VM_HDTV_720P
      else if m = 0x53 then VM_SDTV_576P else if m = 0x54 then VM_HDTV_1080P
      else if m = 0x72 then VM_DVD_NTSC else if m = 0x73 then VM_DVD_PAL else VM_Unknown)"

definition osdconf :: "(nat \<Rightarrow> u8) \<Rightarrow> u32" where
  "osdconf params =
     (let timezone = ucast (params 4) OR push_bit 8 (ucast (params 3 AND 0x7)) :: u32
      in ucast (params 1 AND 0x1F) OR push_bit 5 (ucast (params 0)) OR push_bit 13 (ucast (drop_bit 5 (params 2 AND 0xE0)))
         OR push_bit 16 (ucast (params 2 AND 0x1F)) OR push_bit 21 timezone)"

definition osdconf2 :: "(nat \<Rightarrow> u8) \<Rightarrow> u32" where
  "osdconf2 params = push_bit 1 (ucast (params 3 AND 0x78))"

text \<open>The search for the kernel's list of threads, with the offsets that are left.\<close>

fun find_thread_list :: "'a ee_bios_scheme devs \<Rightarrow> u32 list \<Rightarrow> 'a ee_bios_scheme \<Rightarrow> ('a ee_bios_scheme, unit) res" where
  "find_thread_list d [] s = Ok () s"
| "find_thread_list d (offset # offsets) s =
     res_bind (memRead32 d (0x80000000 + offset) s) (\<lambda>inst1 s1.
     res_bind (memRead32 d (0x80000000 + offset + 4) s1) (\<lambda>inst2 s2.
     res_bind (memRead32 d (0x80000000 + offset + 8) s2) (\<lambda>inst3 s3.
       if inst1 = 0xac420000 \<and> inst2 = 0 \<and> inst3 = 0
       then res_bind (memRead32 d (0x80000000 + offset + 24) s3) (\<lambda>oper s4.
              Ok () (s4\<lparr>threadListAddr := 0x80010000 + (oper AND 0xFFFF) - 8\<rparr>))
       else find_thread_list d offsets s3)))"

definition thread_list_call :: "'a ee_bios_scheme devs \<Rightarrow> 'a ee_bios_scheme \<Rightarrow> ('a ee_bios_scheme, unit) res" where
  "thread_list_call d s =
     (if threadListAddr s = 0
      then res_bind (find_thread_list d (map (\<lambda>k. 4 * of_nat k) [0..<0x1400]) s) (\<lambda>_ s1.
             Ok () (if threadListAddr s1 = 0 then s1\<lparr>threadListAddr := 0xFFFFFFFF\<rparr> else s1))
      else Ok () s)"

text \<open>The number of a call is negative for those an interrupt handler makes.\<close>

definition syscall_number :: "u32 \<Rightarrow> u8" where
  "syscall_number v1 = (if v1 <s 0 then ucast (- v1) else ucast v1)"

text \<open>The switch; the result says whether the call is served here.\<close>

definition SYSCALL_switch :: "'a ee_bios_scheme hle \<Rightarrow> 'a ee_bios_scheme devs \<Rightarrow> 'a ee_bios_scheme \<Rightarrow> ('a ee_bios_scheme, bool) res" where
  "SYSCALL_switch h d s =
     (let call = syscall_number (UL (GPR s 3) 0); a0 = UL (GPR s 4) 0; a1 = UL (GPR s 5) 0
      in if call = 2
         then Ok False (gsSetVideoMode h (video_mode (UC (GPR s 5) 0)) (s\<lparr>gsIsInterlaced := bit a0 0\<rparr>))
         else if call = 74 then Ok False (s\<lparr>AllowParams1 := True\<rparr>)
         else if call = 75 \<and> \<not> NoOSD s \<and> g_SkipBiosHack s \<and> \<not> AllowParams1 s
         then res_bind (memWrite32 d a0 (osdconf (LanguageParams h s)) s) (\<lambda>_. Ok True)
         else if call = 110 then Ok False (s\<lparr>AllowParams2 := True\<rparr>)
         else if call = 111 \<and> \<not> NoOSD s \<and> g_SkipBiosHack s \<and> \<not> AllowParams2 s
         then res_bind (memWrite32 d a0 (osdconf2 (LanguageParams h s)) s) (\<lambda>_. Ok True)
         else if call = 34 \<or> call = 41 then res_bind (thread_list_call d s) (\<lambda>_. Ok False)
         else if call = 124
         then (if a0 = 0x10 then res_bind (memRead32 d a1 s) (\<lambda>_. Ok False)
               else res_bind (Deci2Call a0 (PSM a1 s) s) (\<lambda>_. Ok False))
         else Ok False s)"

end
