(* ===== verification/Vu_Pipes.thy ===== *)
theory Vu_Pipes
  imports Vu_Frame
begin

text \<open>
  The pipelines of a vector unit as queues: the rings of pcsx2/VUops.cpp hold the entries in the
  order in which they were added, retiring takes the entries off the front that are old enough,
  and no ring ever holds more entries than it has room for.
\<close>

unbundle bit_operations_syntax

section \<open>Rings of four\<close>

definition ring_list :: "(u32 \<Rightarrow> 'e) \<Rightarrow> u32 \<Rightarrow> nat \<Rightarrow> 'e list" where
  "ring_list f r n = map (\<lambda>k. f ((r + of_nat k) AND 3)) [0..<n]"

lemma and_3_nat: "unat ((x :: u32) AND 3) = unat x mod 4"
proof -
  have "x AND 3 = take_bit 2 x" by (simp add: take_bit_eq_mask mask_numeral)
  then have "unat (x AND 3) = take_bit 2 (unat x)" by (simp only: unsigned_take_bit_eq)
  then show ?thesis by (simp only: take_bit_eq_mod) simp
qed

lemma unat_add_mod4: "unat (x + y :: u32) mod 4 = (unat x + unat y) mod 4"
  by (simp add: unat_word_ariths mod_mod_cancel)

lemma and_3_add: "(x AND 3) + y AND 3 = (x + y :: u32) AND 3"
  by (rule word_unat_eqI) (simp only: and_3_nat unat_add_mod4 mod_add_left_eq)

lemma ring_pos_nat: "n < 4 \<Longrightarrow> unat ((r + of_nat n :: u32) AND 3) = (unat r + n) mod 4"
  by (simp add: and_3_nat unat_add_mod4 unsigned_of_nat take_bit_eq_mod)

lemma ring_pos_inj: "k < 4 \<Longrightarrow> n < 4 \<Longrightarrow> (r + of_nat k :: u32) AND 3 = (r + of_nat n) AND 3 \<Longrightarrow> k = n"
  using ring_pos_nat [of k r] ring_pos_nat [of n r] by presburger

lemma ring_list_0 [simp]: "ring_list f r 0 = []"
  by (simp add: ring_list_def)

lemma length_ring_list [simp]: "length (ring_list f r n) = n"
  by (simp add: ring_list_def)

lemma ring_list_Suc: "ring_list f r (Suc n) = f (r AND 3) # ring_list f ((r + 1) AND 3) n"
proof -
  have "map (\<lambda>k. f ((r + of_nat k) AND 3)) [0..<Suc n] = f (r AND 3) # map (\<lambda>k. f ((r + of_nat (Suc k)) AND 3)) [0..<n]"
    by (simp only: upt_conv_Cons map_Suc_upt [symmetric]) simp
  moreover have "(r + of_nat (Suc k)) AND 3 = ((r + 1) AND 3) + of_nat k AND 3" for k
    by (simp add: and_3_add add.assoc)
  ultimately show ?thesis by (simp only: ring_list_def)
qed

lemma ring_list_snoc: "ring_list f r (Suc n) = ring_list f r n @ [f ((r + of_nat n) AND 3)]"
  by (simp add: ring_list_def)

lemma ring_list_upd: "n < 4 \<Longrightarrow> m \<le> n \<Longrightarrow> ring_list (f((r + of_nat n) AND 3 := x)) r m = ring_list f r m"
  by (auto simp: ring_list_def dest!: ring_pos_inj [rotated 2])

lemma ring_list_add: "n < 4 \<Longrightarrow> ring_list (f((r + of_nat n) AND 3 := x)) r (Suc n) = ring_list f r n @ [x]"
  by (simp add: ring_list_snoc ring_list_upd)

section \<open>The queues of a unit\<close>

definition FM :: "VURegs \<Rightarrow> fmacPipe list" where "FM v = ring_list (VURegs.fmac v) (fmacreadpos v) (unat (fmaccount v))"
definition IA :: "VURegs \<Rightarrow> ialuPipe list" where "IA v = ring_list (ialu v) (ialureadpos v) (unat (ialucount v))"

text \<open>An entry is old enough to retire.\<close>

definition due :: "('e \<Rightarrow> u32) \<Rightarrow> ('e \<Rightarrow> u32) \<Rightarrow> u32 \<Rightarrow> 'e \<Rightarrow> bool" where
  "due sc cy c f \<longleftrightarrow> cy f \<le> c - sc f"

abbreviation fm_due :: "u32 \<Rightarrow> fmacPipe \<Rightarrow> bool" where "fm_due \<equiv> due fm_sCycle fm_Cycle"
abbreviation ia_due :: "u32 \<Rightarrow> ialuPipe \<Rightarrow> bool" where "ia_due \<equiv> due ia_sCycle ia_Cycle"

text \<open>What retiring FMAC entries leaves, and what retiring IALU entries leaves.\<close>

definition not_fm :: "VURegs \<Rightarrow> u32 \<times> (u32 \<Rightarrow> fmacPipe) \<times> u32 \<times> fdivPipe \<times> efuPipe \<times> (u32 \<Rightarrow> ialuPipe) \<times> u32 \<times> u32 \<times> u32" where
  "not_fm v = (vcycle v, VURegs.fmac v, fmacwritepos v, fdiv v, efu v, ialu v, ialureadpos v, ialuwritepos v, ialucount v)"

lemma and_3_less: "(x :: u32) AND 3 < 4"
  by (simp add: word_less_nat_alt and_3_nat)

lemma and_3_id: "(x :: u32) < 4 \<Longrightarrow> x AND 3 = x"
  by (rule word_unat_eqI) (simp add: and_3_nat word_less_nat_alt)

lemma FM_Cons:
  "unat (fmaccount s) = Suc n \<Longrightarrow> fmacreadpos s < 4 \<Longrightarrow>
     FM s = VURegs.fmac s (fmacreadpos s) # FM (fmac_pop s)"
  by (simp add: FM_def ring_list_Suc fmac_pop_def unat_pred and_3_id)

lemma IA_Cons:
  "unat (ialucount s) = Suc n \<Longrightarrow> ialureadpos s < 4 \<Longrightarrow> IA s = ialu s (ialureadpos s) # IA (ialu_pop s)"
  by (simp add: IA_def ring_list_Suc ialu_pop_def unat_pred and_3_id)

lemma FM_retire [simp]: "FM (fmac_pop (fmac_retire f s)) = FM (fmac_pop s)"
  by (simp add: FM_def fmac_pop_def fmac_retire_def wVI_def Let_def)

lemma not_fm_retire [simp]: "not_fm (fmac_pop (fmac_retire f s)) = not_fm s"
  by (simp add: not_fm_def fmac_pop_def fmac_retire_def wVI_def Let_def)

lemma fmac_retire_pos [simp]: "fmacreadpos (fmac_retire f s) = fmacreadpos s" "VI (fmac_retire f s) REG_MAC_FLAG = fm_macflag f"
  by (simp_all add: fmac_retire_def wVI_def Let_def)

definition mac_after :: "fmacPipe list \<Rightarrow> u32 \<Rightarrow> u32" where
  "mac_after fs m = (if fs = [] then m else fm_macflag (last fs))"

lemma FMACflush_n:
  assumes "unat (fmaccount s) = n" "fmacreadpos s < 4"
  shows "FM (snd (vuFMACflush_n n s)) = dropWhile (fm_due (vcycle s)) (FM s) \<and>
         not_fm (snd (vuFMACflush_n n s)) = not_fm s \<and> fmacreadpos (snd (vuFMACflush_n n s)) < 4 \<and>
         (fmacreadpos (snd (vuFMACflush_n n s)) + fmaccount (snd (vuFMACflush_n n s))) AND 3 = (fmacreadpos s + fmaccount s) AND 3 \<and>
         VI (snd (vuFMACflush_n n s)) REG_MAC_FLAG = mac_after (takeWhile (fm_due (vcycle s)) (FM s)) (VI s REG_MAC_FLAG) \<and>
         fst (vuFMACflush_n n s) = (FM s \<noteq> [] \<and> fm_due (vcycle s) (hd (FM s)))"
  using assms
proof (induction n arbitrary: s)
  case 0
  then show ?case by (simp add: FM_def mac_after_def)
next
  case (Suc n)
  let ?f = "VURegs.fmac s (fmacreadpos s)"
  let ?u = "fmac_pop (fmac_retire ?f s)"
  have fm: "FM s = ?f # FM ?u" using FM_Cons [OF Suc.prems] by simp
  have n: "unat (fmaccount ?u) = n" using Suc.prems(1) by (simp add: fmac_pop_def unat_pred)
  have r: "fmacreadpos ?u < 4" by (simp add: fmac_pop_def and_3_less)
  have c: "vcycle ?u = vcycle s" by (simp add: fmac_pop_def fmac_retire_def wVI_def Let_def)
  have sum: "(fmacreadpos ?u + fmaccount ?u) AND 3 = (fmacreadpos s + fmaccount s) AND 3"
    by (simp add: fmac_pop_def and_3_add)
  have m: "VI ?u REG_MAC_FLAG = fm_macflag ?f" by (simp add: fmac_pop_def)
  show ?case
    using Suc.IH [OF n r] fm Suc.prems(2)
    by (cases "fm_due (vcycle s) ?f") (simp_all add: Let_def due_def not_less c sum m mac_after_def)
qed

text \<open>The same queues after the other pipelines have retired.\<close>

definition not_ia :: "VURegs \<Rightarrow> u32 \<times> (u32 \<Rightarrow> fmacPipe) \<times> u32 \<times> u32 \<times> u32 \<times> fdivPipe \<times> efuPipe \<times> (u32 \<Rightarrow> ialuPipe) \<times> u32 \<times> (reg \<Rightarrow> u32)" where
  "not_ia v = (vcycle v, VURegs.fmac v, fmacreadpos v, fmacwritepos v, fmaccount v, fdiv v, efu v, ialu v, ialuwritepos v, VI v)"

lemma IALUflush_n:
  assumes "unat (ialucount s) = n" "ialureadpos s < 4"
  shows "IA (snd (vuIALUflush_n n s)) = dropWhile (ia_due (vcycle s)) (IA s) \<and>
         not_ia (snd (vuIALUflush_n n s)) = not_ia s \<and> ialureadpos (snd (vuIALUflush_n n s)) < 4 \<and>
         (ialureadpos (snd (vuIALUflush_n n s)) + ialucount (snd (vuIALUflush_n n s))) AND 3 = (ialureadpos s + ialucount s) AND 3 \<and>
         fst (vuIALUflush_n n s) = (IA s \<noteq> [] \<and> ia_due (vcycle s) (hd (IA s)))"
  using assms
proof (induction n arbitrary: s)
  case 0
  then show ?case by (simp add: IA_def)
next
  case (Suc n)
  have ia: "IA s = ialu s (ialureadpos s) # IA (ialu_pop s)" by (rule IA_Cons [OF Suc.prems])
  have n: "unat (ialucount (ialu_pop s)) = n" using Suc.prems(1) by (simp add: ialu_pop_def unat_pred)
  have r: "ialureadpos (ialu_pop s) < 4" by (simp add: ialu_pop_def and_3_less)
  have c: "vcycle (ialu_pop s) = vcycle s" "not_ia (ialu_pop s) = not_ia s" by (simp_all add: ialu_pop_def not_ia_def)
  have sum: "(ialureadpos (ialu_pop s) + ialucount (ialu_pop s)) AND 3 = (ialureadpos s + ialucount s) AND 3"
    by (simp add: ialu_pop_def and_3_add)
  show ?case
    using Suc.IH [OF n r] ia Suc.prems(2)
    by (cases "ia_due (vcycle s) (ialu s (ialureadpos s))") (simp_all add: Let_def due_def not_less c sum)
qed

section \<open>Well-formed pipelines\<close>

text \<open>
  The counters of a ring, where \<open>d\<close> is 1 between adding an FMAC entry and moving the write
  position; the entries, oldest first, no two of one cycle; and the single entries of the others.
\<close>

definition ring_wf :: "u32 \<Rightarrow> u32 \<Rightarrow> u32 \<Rightarrow> u32 \<Rightarrow> bool" where
  "ring_wf d r w n \<longleftrightarrow> r < 4 \<and> w < 4 \<and> n \<le> 4 \<and> (w + d) AND 3 = (r + n) AND 3"

definition ages_wf :: "('e \<Rightarrow> u32) \<Rightarrow> ('e \<Rightarrow> u32) \<Rightarrow> u32 \<Rightarrow> 'e list \<Rightarrow> bool" where
  "ages_wf sc cy c fs \<longleftrightarrow> sorted_wrt (\<lambda>f g. sc f < sc g) fs \<and> (\<forall>f \<in> set fs. cy f = 4 \<and> sc f \<le> c)"

abbreviation FM_wf :: "u32 \<Rightarrow> fmacPipe list \<Rightarrow> bool" where "FM_wf \<equiv> ages_wf fm_sCycle fm_Cycle"
abbreviation IA_wf :: "u32 \<Rightarrow> ialuPipe list \<Rightarrow> bool" where "IA_wf \<equiv> ages_wf ia_sCycle ia_Cycle"

definition fdiv_wf :: "u32 \<Rightarrow> fdivPipe \<Rightarrow> bool" where
  "fdiv_wf c f \<longleftrightarrow> fd_enable f \<longrightarrow> fd_sCycle f \<le> c \<and> fd_Cycle f \<le> 13"
definition efu_wf :: "u32 \<Rightarrow> efuPipe \<Rightarrow> bool" where
  "efu_wf c f \<longleftrightarrow> ef_enable f \<longrightarrow> ef_sCycle f \<le> c \<and> ef_Cycle f \<le> 54"
definition efu_pos :: "efuPipe \<Rightarrow> bool" where "efu_pos f \<longleftrightarrow> ef_enable f \<longrightarrow> ef_Cycle f \<noteq> 0"

definition pipes_wf :: "u32 \<Rightarrow> VURegs \<Rightarrow> bool" where
  "pipes_wf d v \<longleftrightarrow>
     ring_wf d (fmacreadpos v) (fmacwritepos v) (fmaccount v) \<and> ring_wf 0 (ialureadpos v) (ialuwritepos v) (ialucount v) \<and>
     FM_wf (vcycle v) (FM v) \<and> IA_wf (vcycle v) (IA v) \<and> fdiv_wf (vcycle v) (fdiv v) \<and> efu_wf (vcycle v) (efu v)"

definition vu_wf :: "VURegs \<Rightarrow> bool" where "vu_wf v \<longleftrightarrow> pipes_wf 0 v \<and> efu_pos (efu v)"

lemma length_FM [simp]: "length (FM v) = unat (fmaccount v)" and length_IA [simp]: "length (IA v) = unat (ialucount v)"
  by (simp_all add: FM_def IA_def)

lemma sorted_wrt_dropWhile: "sorted_wrt R xs \<Longrightarrow> sorted_wrt R (dropWhile P xs)"
  by (metis dropWhile_eq_drop sorted_wrt_drop)

lemma ages_wf_dropWhile: "ages_wf sc cy c fs \<Longrightarrow> ages_wf sc cy c (dropWhile P fs)"
  by (auto simp: ages_wf_def sorted_wrt_dropWhile dest: set_dropWhileD)

lemma ring_wf_flush:
  assumes "ring_wf d r w n" "(r' + n') AND 3 = (r + n) AND 3" "r' < 4" "unat n' \<le> unat n"
  shows "ring_wf d r' w n'"
  using assms by (auto simp: ring_wf_def word_le_nat_alt)

lemma FMACflush_wf:
  assumes "pipes_wf d s"
  shows "pipes_wf d (snd (vuFMACflush s)) \<and> vcycle (snd (vuFMACflush s)) = vcycle s \<and> efu (snd (vuFMACflush s)) = efu s \<and>
    IA (snd (vuFMACflush s)) = IA s \<and> fdiv (snd (vuFMACflush s)) = fdiv s"
proof -
  let ?t = "snd (vuFMACflush s)"
  have r: "fmacreadpos s < 4" using assms by (simp add: pipes_wf_def ring_wf_def)
  note F = FMACflush_n [OF refl r, folded vuFMACflush_def]
  have eq: "vcycle ?t = vcycle s" "fmacwritepos ?t = fmacwritepos s" "fdiv ?t = fdiv s" "efu ?t = efu s" "ialu ?t = ialu s"
    "ialureadpos ?t = ialureadpos s" "ialuwritepos ?t = ialuwritepos s" "ialucount ?t = ialucount s"
    using F by (simp_all add: not_fm_def)
  have "length (FM ?t) \<le> length (FM s)" using F by (simp only: length_dropWhile_le)
  then have n: "unat (fmaccount ?t) \<le> unat (fmaccount s)" by simp
  have "ring_wf d (fmacreadpos ?t) (fmacwritepos ?t) (fmaccount ?t)"
    by (rule ring_wf_flush [of d "fmacreadpos s" _ "fmaccount s"]) (use assms F n in \<open>simp_all add: pipes_wf_def eq\<close>)
  moreover have "FM_wf (vcycle s) (FM ?t)" using assms F by (simp add: pipes_wf_def ages_wf_dropWhile)
  moreover have "IA ?t = IA s" by (simp add: IA_def eq)
  ultimately show ?thesis using assms by (simp add: pipes_wf_def eq)
qed

lemma IALUflush_wf:
  assumes "pipes_wf d s"
  shows "pipes_wf d (snd (vuIALUflush s)) \<and> vcycle (snd (vuIALUflush s)) = vcycle s \<and> efu (snd (vuIALUflush s)) = efu s \<and>
    FM (snd (vuIALUflush s)) = FM s \<and> fdiv (snd (vuIALUflush s)) = fdiv s \<and> VI (snd (vuIALUflush s)) = VI s"
proof -
  let ?t = "snd (vuIALUflush s)"
  have r: "ialureadpos s < 4" using assms by (simp add: pipes_wf_def ring_wf_def)
  note F = IALUflush_n [OF refl r, folded vuIALUflush_def]
  have eq: "vcycle ?t = vcycle s" "fmacwritepos ?t = fmacwritepos s" "fdiv ?t = fdiv s" "efu ?t = efu s" "VURegs.fmac ?t = VURegs.fmac s"
    "fmacreadpos ?t = fmacreadpos s" "ialuwritepos ?t = ialuwritepos s" "fmaccount ?t = fmaccount s" "VI ?t = VI s"
    using F by (simp_all add: not_ia_def)
  have "length (IA ?t) \<le> length (IA s)" using F by (simp only: length_dropWhile_le)
  then have n: "unat (ialucount ?t) \<le> unat (ialucount s)" by simp
  have "ring_wf 0 (ialureadpos ?t) (ialuwritepos ?t) (ialucount ?t)"
    by (rule ring_wf_flush [of 0 "ialureadpos s" _ "ialucount s"]) (use assms F n in \<open>simp_all add: pipes_wf_def eq\<close>)
  moreover have "IA_wf (vcycle s) (IA ?t)" using assms F by (simp add: pipes_wf_def ages_wf_dropWhile)
  moreover have "FM ?t = FM s" by (simp add: FM_def eq)
  ultimately show ?thesis using assms by (simp add: pipes_wf_def eq)
qed

lemma retire_one_pipes:
  "pipes_wf d (fdiv_retire s) = pipes_wf d (s\<lparr>fdiv := (fdiv s)\<lparr>fd_enable := False\<rparr>\<rparr>)"
  "pipes_wf d (efu_retire s) = pipes_wf d (s\<lparr>efu := (efu s)\<lparr>ef_enable := False\<rparr>\<rparr>)"
  by (simp_all add: pipes_wf_def fdiv_retire_def efu_retire_def wVI_def Let_def FM_def IA_def)

lemma retire_one_wf: "pipes_wf d s \<Longrightarrow> pipes_wf d (fdiv_retire s)" "pipes_wf d s \<Longrightarrow> pipes_wf d (efu_retire s)"
  by (simp_all add: retire_one_pipes) (simp_all add: pipes_wf_def fdiv_wf_def efu_wf_def FM_def IA_def)

lemma retire_one_frame [simp]:
  "vcycle (fdiv_retire s) = vcycle s" "vcycle (efu_retire s) = vcycle s" "FM (fdiv_retire s) = FM s" "FM (efu_retire s) = FM s"
  "IA (fdiv_retire s) = IA s" "IA (efu_retire s) = IA s" "VI (fdiv_retire s) REG_MAC_FLAG = VI s REG_MAC_FLAG"
  "VI (efu_retire s) REG_MAC_FLAG = VI s REG_MAC_FLAG"
  by (simp_all add: fdiv_retire_def efu_retire_def wVI_def Let_def FM_def IA_def)

section \<open>Retiring\<close>

definition efu_after :: "u32 \<Rightarrow> efuPipe \<Rightarrow> efuPipe" where
  "efu_after c e = (if ef_enable e \<and> ef_Cycle e \<le> c - ef_sCycle e then e\<lparr>ef_enable := False\<rparr> else e)"

text \<open>What one round, and then the loop, does to well-formed pipelines.\<close>

definition retired :: "u32 \<Rightarrow> VURegs \<Rightarrow> VURegs \<Rightarrow> bool" where
  "retired d s t \<longleftrightarrow>
     pipes_wf d t \<and> vcycle t = vcycle s \<and> FM t = dropWhile (fm_due (vcycle s)) (FM s) \<and>
     VI t REG_MAC_FLAG = mac_after (takeWhile (fm_due (vcycle s)) (FM s)) (VI s REG_MAC_FLAG) \<and>
     IA t = dropWhile (ia_due (vcycle s)) (IA s) \<and> efu t = efu_after (vcycle s) (efu s)"

lemma takeWhile_dropWhile_same: "takeWhile P (dropWhile P xs) = []"
  by (induction xs) auto

lemma retired_trans: "retired d s t \<Longrightarrow> retired d t u \<Longrightarrow> retired d s u"
  by (auto simp: retired_def takeWhile_dropWhile_same mac_after_def efu_after_def)

lemma FDIVflush_step:
  assumes "pipes_wf d s"
  shows "pipes_wf d (snd (vuFDIVflush s)) \<and> vcycle (snd (vuFDIVflush s)) = vcycle s \<and> FM (snd (vuFDIVflush s)) = FM s \<and>
    IA (snd (vuFDIVflush s)) = IA s \<and> efu (snd (vuFDIVflush s)) = efu s \<and>
    VI (snd (vuFDIVflush s)) REG_MAC_FLAG = VI s REG_MAC_FLAG"
  using assms by (auto simp: vuFDIVflush_def retire_one_wf)

lemma EFUflush_step:
  assumes "pipes_wf d s"
  shows "pipes_wf d (snd (vuEFUflush s)) \<and> vcycle (snd (vuEFUflush s)) = vcycle s \<and> FM (snd (vuEFUflush s)) = FM s \<and>
    IA (snd (vuEFUflush s)) = IA s \<and> efu (snd (vuEFUflush s)) = efu_after (vcycle s) (efu s) \<and>
    VI (snd (vuEFUflush s)) REG_MAC_FLAG = VI s REG_MAC_FLAG"
  using assms by (auto simp: vuEFUflush_def retire_one_wf efu_after_def) (auto simp: efu_retire_def wVI_def)

lemma flush_once_retired:
  assumes "pipes_wf d s"
  shows "retired d s (snd (vuFlush_once s))"
proof -
  let ?a = "snd (vuFMACflush s)"
  let ?b = "snd (vuFDIVflush ?a)"
  let ?c = "snd (vuEFUflush ?b)"
  have r: "fmacreadpos s < 4" "ialureadpos s < 4" using assms by (simp_all add: pipes_wf_def ring_wf_def)
  note F = FMACflush_n [OF refl r(1), folded vuFMACflush_def] and a = FMACflush_wf [OF assms]
  have b: "pipes_wf d ?b" "vcycle ?b = vcycle s" "FM ?b = FM ?a" "IA ?b = IA s" "efu ?b = efu s" "VI ?b REG_MAC_FLAG = VI ?a REG_MAC_FLAG"
    using FDIVflush_step [of d ?a] a by auto
  have c: "pipes_wf d ?c" "vcycle ?c = vcycle s" "FM ?c = FM ?a" "IA ?c = IA s" "efu ?c = efu_after (vcycle s) (efu s)"
    "VI ?c REG_MAC_FLAG = VI ?a REG_MAC_FLAG"
    using EFUflush_step [OF b(1)] b by auto
  have ri: "ialureadpos ?c < 4" using c(1) by (simp add: pipes_wf_def ring_wf_def)
  note I = IALUflush_n [OF refl ri, folded vuIALUflush_def] and d = IALUflush_wf [OF c(1)]
  have "snd (vuFlush_once s) = snd (vuIALUflush ?c)" by (simp add: vuFlush_once_def prod.case_eq_if)
  then show ?thesis using F I d c by (simp add: retired_def)
qed

lemma flush_loop_retired: "pipes_wf d s \<Longrightarrow> retired d s (vuFlush_loop s)"
proof (induction s rule: vuFlush_loop.induct)
  case (1 s)
  let ?t = "snd (vuFlush_once s)"
  have t: "retired d s ?t" by (rule flush_once_retired [OF "1.prems"])
  show ?case
  proof (cases "fst (vuFlush_once s)")
    case True
    have "retired d ?t (vuFlush_loop ?t)"
      by (rule "1.IH" [OF prod.collapse True]) (use t in \<open>simp add: retired_def\<close>)
    then have "retired d s (vuFlush_loop ?t)" by (rule retired_trans [OF t])
    then show ?thesis using True by (subst vuFlush_loop.simps) (simp add: prod.case_eq_if)
  next
    case False
    then show ?thesis using t by (subst vuFlush_loop.simps) (simp add: prod.case_eq_if)
  qed
qed

text \<open>After the loop no entry of a ring is older than three cycles.\<close>

lemma hd_dropWhile_not: "dropWhile P xs = y # ys \<Longrightarrow> \<not> P y"
  by (metis hd_dropWhile list.sel(1) list.discI)

lemma not_due_age:
  assumes wf: "ages_wf sc cy c fs" and not: "fs = dropWhile (due sc cy c) gs" and f: "f \<in> set fs"
  shows "unat c < unat (sc f) + 4"
proof -
  obtain g hs where fs: "fs = g # hs" using f by (cases fs) auto
  have g: "\<not> due sc cy c g" using not fs by (metis hd_dropWhile_not)
  have cyc: "cy g = 4" "sc g \<le> c" "sc g \<le> sc f"
    using wf f fs by (auto simp: ages_wf_def)
  have "c - sc g < 4" using g cyc by (simp add: due_def not_le)
  moreover have "unat (c - sc g) = unat c - unat (sc g)" using cyc(2) by (simp add: unat_sub)
  ultimately show ?thesis using cyc by (simp add: word_less_nat_alt word_le_nat_alt)
qed

lemma length_sorted_interval:
  assumes "sorted_wrt (<) (xs :: nat list)" "\<forall>x \<in> set xs. a \<le> x \<and> x < a + n"
  shows "length xs \<le> n"
proof -
  have "distinct xs" using assms(1) by (simp add: strict_sorted_iff)
  then have "length xs = card (set xs)" by (simp add: distinct_card)
  also have "\<dots> \<le> card {a..<a + n}" using assms(2) by (intro card_mono) auto
  finally show ?thesis by simp
qed

text \<open>With all of them from earlier cycles there are at most three.\<close>

lemma ages_room:
  assumes "ages_wf sc cy c fs" "fs = dropWhile (due sc cy c) gs" "\<forall>f \<in> set fs. sc f < c"
  shows "length fs \<le> 3"
proof -
  have "length (map (\<lambda>f. unat (sc f)) fs) \<le> 3"
  proof (rule length_sorted_interval)
    show "sorted_wrt (<) (map (\<lambda>f. unat (sc f)) fs)"
      using assms(1) by (simp add: ages_wf_def sorted_wrt_map word_less_nat_alt)
    show "\<forall>x \<in> set (map (\<lambda>f. unat (sc f)) fs). unat c - 3 \<le> x \<and> x < unat c - 3 + 3"
      using not_due_age [OF assms(1,2)] assms(3) by (fastforce simp: word_less_nat_alt)
  qed
  then show ?thesis by simp
qed

end
