(* ===== verification/Vu_Step.thy ===== *)
theory Vu_Step
  imports Vu_Pipes
begin

text \<open>
  A step of the first unit on its pipelines: the waits move the clock by less than the longest
  latency, the pair adds at most one entry to each ring, and the rings stay well-formed.
\<close>

unbundle bit_operations_syntax

section \<open>Waits\<close>

text \<open>Nothing that is in flight ends later than \<open>B\<close>.\<close>

definition targets :: "nat \<Rightarrow> VURegs \<Rightarrow> bool" where
  "targets B v \<longleftrightarrow>
     (\<forall>f \<in> set (FM v). fm_Cycle f = 4 \<and> unat (fm_sCycle f) + 4 \<le> B) \<and>
     (\<forall>f \<in> set (IA v). ia_Cycle f = 4 \<and> unat (ia_sCycle f) + 4 \<le> B) \<and>
     (fd_enable (fdiv v) \<longrightarrow> unat (fd_sCycle (fdiv v)) + unat (fd_Cycle (fdiv v)) \<le> B) \<and>
     (ef_enable (efu v) \<longrightarrow> unat (ef_sCycle (efu v)) + unat (ef_Cycle (efu v)) \<le> B)"

text \<open>Only the clock has moved, forward and not beyond \<open>B\<close>.\<close>

definition waited :: "nat \<Rightarrow> VURegs \<Rightarrow> VURegs \<Rightarrow> bool" where
  "waited B s t \<longleftrightarrow> (\<exists>x. t = s\<lparr>vcycle := x\<rparr> \<and> unat (vcycle s) \<le> unat x \<and> unat x \<le> max (unat (vcycle s)) B)"

lemma waited_refl [simp]: "waited B s s"
  unfolding waited_def by (rule exI [of _ "vcycle s"]) simp

lemma waited_trans: "waited B s t \<Longrightarrow> waited B t u \<Longrightarrow> waited B s u"
  unfolding waited_def by (elim exE conjE, rule_tac x = xa in exI) auto

lemma waited_queues [simp]: "FM (s\<lparr>vcycle := x\<rparr>) = FM s" "IA (s\<lparr>vcycle := x\<rparr>) = IA s"
  by (simp_all add: FM_def IA_def)

lemma waited_targets: "waited B s t \<Longrightarrow> targets B t = targets B s"
  by (auto simp: waited_def targets_def)

lemma waited_same: "waited B s t \<Longrightarrow> fdiv t = fdiv s \<and> efu t = efu s \<and> VURegs.fmac t = VURegs.fmac s \<and> ialu t = ialu s \<and>
    fmacreadpos t = fmacreadpos s \<and> ialureadpos t = ialureadpos s \<and> fmaccount t = fmaccount s \<and> ialucount t = ialucount s \<and>
    FM t = FM s \<and> IA t = IA s"
  by (auto simp: waited_def)

lemma unat_plus_le: "unat a + unat b \<le> B \<Longrightarrow> B < 2 ^ 32 \<Longrightarrow> unat (a + b :: u32) = unat a + unat b"
  by (simp add: unat_word_ariths)

lemma waited_code: "waited B (v\<lparr>vcode := a\<rparr>) w \<Longrightarrow> waited B (v\<lparr>vcode := b\<rparr>) (w\<lparr>vcode := b\<rparr>)"
  by (cases v) (auto simp: waited_def)

lemma stall_to_waited: "unat t \<le> B \<Longrightarrow> waited B s (stall_to t s)"
  unfolding waited_def stall_to_def
  by (rule exI [of _ "if vcycle s < t then t else vcycle s"]) (auto simp: word_less_nat_alt)

lemma fmac_stalls_waited:
  assumes B: "B < 2 ^ 32" and "pos < 4" "\<forall>f \<in> set (ring_list (VURegs.fmac s) pos n). fm_Cycle f = 4 \<and> unat (fm_sCycle f) + 4 \<le> B"
  shows "waited B s (fmac_stalls n pos r m s)"
  using assms(2,3)
proof (induction n arbitrary: pos s)
  case (Suc n)
  let ?f = "VURegs.fmac s pos"
  let ?p = "(pos + 1) AND 3"
  have f: "fm_Cycle ?f = 4" "unat (fm_sCycle ?f) + 4 \<le> B"
    and rest: "\<forall>f \<in> set (ring_list (VURegs.fmac s) ?p n). fm_Cycle f = 4 \<and> unat (fm_sCycle f) + 4 \<le> B"
    using Suc.prems by (simp_all add: ring_list_Suc and_3_id)
  have "unat (fm_Cycle ?f + fm_sCycle ?f) = unat (fm_sCycle ?f) + 4"
    using f B unat_plus_le [of "fm_Cycle ?f" "fm_sCycle ?f" B] by simp
  then have w: "waited B s (stall_to (fm_Cycle ?f + fm_sCycle ?f) s)" using f by (intro stall_to_waited) simp
  have ih: "waited B t (fmac_stalls n ?p r m t)" if "waited B s t" for t
    using Suc.IH [OF and_3_less [of "pos + 1"], of t] rest waited_same [OF that] by simp
  show ?case using waited_trans [OF w ih [OF w]] ih [OF waited_refl] by (simp add: Let_def)
qed simp

lemma ialu_stalls_waited:
  assumes B: "B < 2 ^ 32" and "pos < 4" "\<forall>f \<in> set (ring_list (ialu s) pos n). ia_Cycle f = 4 \<and> unat (ia_sCycle f) + 4 \<le> B"
  shows "waited B s (ialu_stalls n pos r s)"
  using assms(2,3)
proof (induction n arbitrary: pos s)
  case (Suc n)
  let ?f = "ialu s pos"
  let ?p = "(pos + 1) AND 3"
  have f: "ia_Cycle ?f = 4" "unat (ia_sCycle ?f) + 4 \<le> B"
    and rest: "\<forall>f \<in> set (ring_list (ialu s) ?p n). ia_Cycle f = 4 \<and> unat (ia_sCycle f) + 4 \<le> B"
    using Suc.prems by (simp_all add: ring_list_Suc and_3_id)
  have "unat (ia_Cycle ?f + ia_sCycle ?f) = unat (ia_sCycle ?f) + 4"
    using f B unat_plus_le [of "ia_Cycle ?f" "ia_sCycle ?f" B] by simp
  then have w: "waited B s (stall_to (ia_Cycle ?f + ia_sCycle ?f) s)" using f by (intro stall_to_waited) simp
  have ih: "waited B t (ialu_stalls n ?p r t)" if "waited B s t" for t
    using Suc.IH [OF and_3_less [of "pos + 1"], of t] rest waited_same [OF that] by simp
  show ?case using waited_trans [OF w ih [OF w]] ih [OF waited_refl] by (simp add: Let_def)
qed simp

lemma FMACTestStall_waited:
  assumes "B < 2 ^ 32" "fmacreadpos s < 4" "targets B s"
  shows "waited B s (vuFMACTestStall r m s)"
  unfolding vuFMACTestStall_def
  by (rule fmac_stalls_waited [OF assms(1,2)]) (use assms(3) in \<open>simp add: targets_def FM_def\<close>)

lemma TestFMACStalls_waited:
  assumes "B < 2 ^ 32" "fmacreadpos s < 4" "targets B s"
  shows "waited B s (vuTestFMACStalls n s)"
proof -
  note w = FMACTestStall_waited [OF assms, of "VFread0 n" "VFr0xyzw n"]
  have "waited B t (vuFMACTestStall (VFread1 n) (VFr1xyzw n) t)" if "waited B s t" for t
    using FMACTestStall_waited [OF assms(1), of t] assms waited_same [OF that] waited_targets [OF that] by simp
  then show ?thesis using w waited_refl waited_trans by (simp add: vuTestFMACStalls_def Let_def)
qed

lemma TestUpperStalls_waited:
  assumes "B < 2 ^ 32" "fmacreadpos s < 4" "targets B s"
  shows "waited B s (vuTestUpperStalls n s)"
  using TestFMACStalls_waited [OF assms] by (simp add: vuTestUpperStalls_def split: VUPipeState.split)

text \<open>A lower instruction for the elementary functions also takes one cycle off the entry it waits for.\<close>

definition shorter :: "VURegs \<Rightarrow> VURegs" where "shorter s = s\<lparr>efu := (efu s)\<lparr>ef_Cycle := ef_Cycle (efu s) - 1\<rparr>\<rparr>"

definition waited_efu :: "nat \<Rightarrow> VURegs \<Rightarrow> VURegs \<Rightarrow> bool" where
  "waited_efu B s t \<longleftrightarrow> waited B s t \<or>
     (ef_enable (efu s) \<and> waited B (shorter s) t \<and> unat (ef_sCycle (efu t)) + unat (ef_Cycle (efu t)) \<le> unat (vcycle t))"

lemma FDIVStalls_waited:
  assumes "B < 2 ^ 32" "fmacreadpos s < 4" "targets B s"
  shows "waited B s (vuTestFDIVStalls n s)"
proof -
  let ?t = "vuTestFMACStalls n s"
  note w = TestFMACStalls_waited [OF assms, of n]
  have "waited B ?t (stall_to (fd_Cycle (fdiv ?t) + fd_sCycle (fdiv ?t)) ?t)" if "fd_enable (fdiv ?t)"
  proof (rule stall_to_waited)
    have *: "unat (fd_Cycle (fdiv ?t)) + unat (fd_sCycle (fdiv ?t)) \<le> B"
      using assms(3) waited_targets [OF w] that by (simp add: targets_def add.commute)
    show "unat (fd_Cycle (fdiv ?t) + fd_sCycle (fdiv ?t)) \<le> B" using unat_plus_le [OF * assms(1)] * by simp
  qed
  then show ?thesis using w waited_trans by (auto simp: vuTestFDIVStalls_def Let_def)
qed

lemma unat_stall_to: "unat t \<le> unat (vcycle (stall_to t s))"
  by (auto simp: stall_to_def word_less_nat_alt)

lemma EFUStalls_waited:
  assumes "B < 2 ^ 32" "fmacreadpos s < 4" "targets B s" "efu_pos (efu s)"
  shows "waited_efu B s (vuTestEFUStalls n s)"
proof -
  let ?t = "vuTestFMACStalls n s"
  note w = TestFMACStalls_waited [OF assms(1-3), of n]
  have e: "efu ?t = efu s" using waited_same [OF w] by simp
  show ?thesis
  proof (cases "ef_enable (efu s)")
    case False
    then show ?thesis using w e by (simp add: vuTestEFUStalls_def waited_efu_def)
  next
    case True
    let ?u = "shorter ?t"
    let ?r = "stall_to (ef_sCycle (efu ?u) + ef_Cycle (efu ?u)) ?u"
    have c: "unat (ef_Cycle (efu s) - 1) = unat (ef_Cycle (efu s)) - 1"
      using assms(4) True by (simp add: efu_pos_def unat_minus_one)
    have *: "unat (ef_sCycle (efu ?u)) + unat (ef_Cycle (efu ?u)) \<le> B"
    proof -
      have "unat (ef_sCycle (efu s)) + unat (ef_Cycle (efu s)) \<le> B" using assms(3) True by (simp add: targets_def)
      then show ?thesis using c e by (simp add: shorter_def)
    qed
    have sum: "unat (ef_sCycle (efu ?u) + ef_Cycle (efu ?u)) = unat (ef_sCycle (efu ?u)) + unat (ef_Cycle (efu ?u))"
      by (rule unat_plus_le [OF * assms(1)])
    have "waited B ?u ?r" using * sum by (intro stall_to_waited) simp
    moreover have "waited B (shorter s) ?u"
    proof -
      obtain x where x: "?t = s\<lparr>vcycle := x\<rparr>" "unat (vcycle s) \<le> unat x" "unat x \<le> max (unat (vcycle s)) B"
        using w by (auto simp: waited_def)
      have "?u = (shorter s)\<lparr>vcycle := x\<rparr>" by (simp only: x(1)) (simp add: shorter_def)
      moreover have "vcycle (shorter s) = vcycle s" by (simp add: shorter_def)
      ultimately show ?thesis unfolding waited_def using x(2,3) by (intro exI [of _ x]) simp
    qed
    ultimately have "waited B (shorter s) ?r" using waited_trans by blast
    moreover have "efu ?r = efu ?u" by (simp add: stall_to_def)
    moreover have "vuTestEFUStalls n s = ?r" using True e by (simp add: vuTestEFUStalls_def shorter_def)
    ultimately show ?thesis using True unat_stall_to [of "ef_sCycle (efu ?u) + ef_Cycle (efu ?u)" ?u] sum
      by (simp add: waited_efu_def)
  qed
qed

lemma TestLowerStalls_waited:
  assumes "B < 2 ^ 32" "fmacreadpos s < 4" "ialureadpos s < 4" "targets B s" "efu_pos (efu s)"
  shows "waited_efu B s (vuTestLowerStalls n s)"
proof -
  have "waited B s (vuTestALUStalls n s)"
    unfolding vuTestALUStalls_def
    by (rule ialu_stalls_waited [OF assms(1,3)]) (use assms(4) in \<open>simp add: targets_def IA_def\<close>)
  then show ?thesis
    using TestFMACStalls_waited [OF assms(1,2,4), of n] FDIVStalls_waited [OF assms(1,2,4), of n]
      EFUStalls_waited [OF assms(1,2,4,5), of n] waited_refl [of B s]
    by (auto simp: vuTestLowerStalls_def waited_efu_def split: VUPipeState.split)
qed

section \<open>Pipelines that are ready for the next pair\<close>

text \<open>The state after the clock has moved: well-formed, and all entries are of earlier cycles.\<close>

definition older :: "VURegs \<Rightarrow> bool" where
  "older v \<longleftrightarrow> (\<forall>f \<in> set (FM v). fm_sCycle f < vcycle v) \<and> (\<forall>f \<in> set (IA v). ia_sCycle f < vcycle v)"

lemma ages_wf_mono: "ages_wf sc cy c fs \<Longrightarrow> c \<le> c' \<Longrightarrow> ages_wf sc cy c' fs"
  by (auto simp: ages_wf_def dest: order_trans)

lemma waited_wf:
  assumes "pipes_wf d s" "waited B s t"
  shows "pipes_wf d t" "older s \<Longrightarrow> older t"
proof -
  obtain x where x: "t = s\<lparr>vcycle := x\<rparr>" "vcycle s \<le> x" using assms(2) by (auto simp: waited_def word_le_nat_alt)
  show "pipes_wf d t"
    using assms(1) x(2) by (auto simp: x(1) pipes_wf_def fdiv_wf_def efu_wf_def intro: ages_wf_mono dest: order_trans)
  show "older s \<Longrightarrow> older t" using x(2) by (auto simp: x(1) older_def intro: less_le_trans)
qed

lemma shorter_wf: "pipes_wf d s \<Longrightarrow> efu_pos (efu s) \<Longrightarrow> ef_enable (efu s) \<Longrightarrow> pipes_wf d (shorter s)"
  by (auto simp: pipes_wf_def shorter_def FM_def IA_def efu_wf_def efu_pos_def word_le_nat_alt unat_minus_one)

lemma shorter_older [simp]: "older (shorter s) = older s"
  by (simp add: older_def shorter_def FM_def IA_def)

lemma waited_efu_wf:
  assumes "pipes_wf d s" "efu_pos (efu s)" "waited_efu B s t"
  shows "pipes_wf d t" "older s \<Longrightarrow> older t" "efu_pos (efu_after (vcycle t) (efu t))" "unat (vcycle s) \<le> unat (vcycle t)"
    "unat (vcycle t) \<le> max (unat (vcycle s)) B"
proof -
  consider (1) "waited B s t" | (2) "ef_enable (efu s)" "waited B (shorter s) t" "unat (ef_sCycle (efu t)) + unat (ef_Cycle (efu t)) \<le> unat (vcycle t)"
    using assms(3) by (auto simp: waited_efu_def)
  then have "pipes_wf d t \<and> (older s \<longrightarrow> older t) \<and> efu_pos (efu_after (vcycle t) (efu t)) \<and> unat (vcycle s) \<le> unat (vcycle t) \<and>
    unat (vcycle t) \<le> max (unat (vcycle s)) B"
  proof cases
    case 1
    then show ?thesis using waited_wf [OF assms(1) 1] assms(2) waited_same [OF 1]
      by (auto simp: efu_after_def efu_pos_def waited_def)
  next
    case 2
    note w = waited_wf [OF shorter_wf [OF assms(1,2) 2(1)] 2(2)]
    have "vcycle (shorter s) = vcycle s" by (simp add: shorter_def)
    moreover have "efu_pos (efu_after (vcycle t) (efu t))"
    proof -
      have "ef_sCycle (efu t) \<le> vcycle t" using 2(3) by (simp add: word_le_nat_alt)
      then have "unat (vcycle t - ef_sCycle (efu t)) = unat (vcycle t) - unat (ef_sCycle (efu t))" by (simp add: unat_sub)
      then have "ef_Cycle (efu t) \<le> vcycle t - ef_sCycle (efu t)" using 2(3) by (simp add: word_le_nat_alt)
      then show ?thesis by (auto simp: efu_after_def efu_pos_def)
    qed
    ultimately show ?thesis using w 2(2) by (auto simp: waited_def)
  qed
  then show "pipes_wf d t" "older s \<Longrightarrow> older t" "efu_pos (efu_after (vcycle t) (efu t))" "unat (vcycle s) \<le> unat (vcycle t)"
    "unat (vcycle t) \<le> max (unat (vcycle s)) B" by auto
qed

text \<open>After retiring there is room in both rings.\<close>

definition ready :: "VURegs \<Rightarrow> bool" where
  "ready v \<longleftrightarrow> pipes_wf 0 v \<and> older v \<and> efu_pos (efu v) \<and> fmaccount v \<le> 3 \<and> ialucount v \<le> 3"

lemma retired_ready:
  assumes "retired 0 s t" "older s" "efu_pos (efu_after (vcycle s) (efu s))"
  shows "ready t"
proof -
  have o: "older t" using assms(1,2) by (auto simp: retired_def older_def dest: set_dropWhileD)
  have wf: "pipes_wf 0 t" and c: "vcycle t = vcycle s" using assms(1) by (simp_all add: retired_def)
  have f: "FM t = dropWhile (fm_due (vcycle t)) (FM s)" "IA t = dropWhile (ia_due (vcycle t)) (IA s)"
    using assms(1) by (simp_all add: retired_def)
  have "length (FM t) \<le> 3" by (rule ages_room [OF _ f(1)]) (use wf o in \<open>simp_all add: pipes_wf_def older_def\<close>)
  moreover have "length (IA t) \<le> 3" by (rule ages_room [OF _ f(2)]) (use wf o in \<open>simp_all add: pipes_wf_def older_def\<close>)
  ultimately show ?thesis using wf o assms(1,3) by (simp add: ready_def retired_def word_le_nat_alt)
qed

section \<open>Adding the entries of a pair\<close>

definition lower_cycles_ok :: "VURegsNum \<Rightarrow> bool" where
  "lower_cycles_ok l \<longleftrightarrow>
     (rn_pipe l = VUPIPE_IALU \<longrightarrow> rn_cycles l = 0 \<or> rn_cycles l = 4) \<and>
     (rn_pipe l = VUPIPE_FDIV \<longrightarrow> rn_cycles l \<le> 13) \<and>
     (rn_pipe l = VUPIPE_EFU \<longrightarrow> rn_cycles l \<le> 54 \<and> (bit (VIwrite l) 23 \<longrightarrow> rn_cycles l \<noteq> 0))"

lemma pair_pipes_frame:
  "vcycle (pair_pipes u l v) = vcycle v" "fmacreadpos (pair_pipes u l v) = fmacreadpos v"
  "fmacwritepos (pair_pipes u l v) = fmacwritepos v" "ialureadpos (pair_pipes u l v) = ialureadpos v"
  by (simp_all add: pair_pipes_def vuAddLowerStalls_def vuAddUpperStalls_def vuClearFMAC_def vuAddFMACStalls_def vuAddFDIVStalls_def
      vuAddEFUStalls_def vuAddIALUStalls_def vuFDIVAdd_def vuEFUAdd_def Let_def split: VUPipeState.split)

lemma pair_pipes_fmac:
  "\<exists>e. fm_sCycle e = vcycle v \<and> fm_Cycle e = 4 \<and>
     VURegs.fmac (pair_pipes u l v) = (if is_fmac u l then (VURegs.fmac v)(fmacwritepos v := e) else VURegs.fmac v) \<and>
     fmaccount (pair_pipes u l v) = fmaccount v + (if is_fmac u l then 1 else 0)"
proof (cases "is_fmac u l")
  case True
  let ?e = "VURegs.fmac (pair_pipes u l v) (fmacwritepos v)"
  have "fm_sCycle ?e = vcycle v \<and> fm_Cycle ?e = 4 \<and> VURegs.fmac (pair_pipes u l v) = (VURegs.fmac v)(fmacwritepos v := ?e) \<and>
    fmaccount (pair_pipes u l v) = fmaccount v + 1"
    using True
    by (cases "rn_pipe u"; cases "rn_pipe l")
      (simp_all add: is_fmac_def pair_pipes_def vuAddLowerStalls_def vuAddUpperStalls_def vuClearFMAC_def vuAddFMACStalls_def
        vuAddFDIVStalls_def vuAddEFUStalls_def vuAddIALUStalls_def vuFDIVAdd_def vuEFUAdd_def Let_def)
  with True show ?thesis by (intro exI [of _ ?e]) simp
next
  case False
  then have "VURegs.fmac (pair_pipes u l v) = VURegs.fmac v \<and> fmaccount (pair_pipes u l v) = fmaccount v"
    by (cases "rn_pipe u"; cases "rn_pipe l")
      (simp_all add: is_fmac_def pair_pipes_def vuAddLowerStalls_def vuAddUpperStalls_def vuClearFMAC_def vuAddFMACStalls_def
        vuAddFDIVStalls_def vuAddEFUStalls_def vuAddIALUStalls_def vuFDIVAdd_def vuEFUAdd_def Let_def)
  with False show ?thesis by (intro exI [of _ "fmac_empty\<lparr>fm_sCycle := vcycle v, fm_Cycle := 4\<rparr>"]) simp
qed

definition adds_ialu :: "VURegsNum \<Rightarrow> bool" where "adds_ialu l \<longleftrightarrow> rn_pipe l = VUPIPE_IALU \<and> rn_cycles l \<noteq> 0"

lemma pair_pipes_others:
  "ialu (pair_pipes u l v) =
     (if adds_ialu l then (ialu v)(ialuwritepos v := \<lparr>ia_reg = VIwrite l, ia_sCycle = vcycle v, ia_Cycle = rn_cycles l\<rparr>) else ialu v)"
  "ialuwritepos (pair_pipes u l v) = (if adds_ialu l then (ialuwritepos v + 1) AND 3 else ialuwritepos v)"
  "ialucount (pair_pipes u l v) = (if adds_ialu l then ialucount v + 1 else ialucount v)"
  "fd_enable (fdiv (pair_pipes u l v)) \<Longrightarrow> fdiv (pair_pipes u l v) = fdiv v \<or>
     (rn_pipe l = VUPIPE_FDIV \<and> fd_sCycle (fdiv (pair_pipes u l v)) = vcycle v \<and> fd_Cycle (fdiv (pair_pipes u l v)) = rn_cycles l)"
  "ef_enable (efu (pair_pipes u l v)) \<Longrightarrow> efu (pair_pipes u l v) = efu v \<or>
     (rn_pipe l = VUPIPE_EFU \<and> bit (VIwrite l) 23 \<and> ef_sCycle (efu (pair_pipes u l v)) = vcycle v \<and>
      ef_Cycle (efu (pair_pipes u l v)) = rn_cycles l)"
  by (cases "rn_pipe u"; cases "rn_pipe l";
      simp add: adds_ialu_def is_fmac_def pair_pipes_def vuAddLowerStalls_def vuAddUpperStalls_def vuClearFMAC_def vuAddFMACStalls_def
        vuAddFDIVStalls_def vuAddEFUStalls_def vuAddIALUStalls_def vuFDIVAdd_def vuEFUAdd_def Let_def)+

lemma ages_wf_snoc:
  assumes "ages_wf sc cy c fs" "\<forall>f \<in> set fs. sc f < c" "sc e = c" "cy e = 4"
  shows "ages_wf sc cy c (fs @ [e])"
  using assms by (auto simp: ages_wf_def sorted_wrt_append)

lemma ring_pos_of_nat: "r + n = (r + of_nat (unat n) :: u32)"
  by simp

lemma ring_wf_writepos: "ring_wf 0 r w n \<Longrightarrow> w = (r + of_nat (unat n)) AND 3"
  using and_3_id [of w] by (simp add: ring_wf_def)

lemma FM_pair_pipes:
  assumes "ready v"
  shows "FM_wf (vcycle v) (FM (pair_pipes u l v))"
    "ring_wf (if is_fmac u l then 1 else 0) (fmacreadpos v) (fmacwritepos v) (fmaccount (pair_pipes u l v))"
proof -
  obtain e where e: "fm_sCycle e = vcycle v" "fm_Cycle e = 4"
    "VURegs.fmac (pair_pipes u l v) = (if is_fmac u l then (VURegs.fmac v)(fmacwritepos v := e) else VURegs.fmac v)"
    "fmaccount (pair_pipes u l v) = fmaccount v + (if is_fmac u l then 1 else 0)"
    using pair_pipes_fmac by blast
  have ring: "ring_wf 0 (fmacreadpos v) (fmacwritepos v) (fmaccount v)" and n: "unat (fmaccount v) < 4"
    using assms by (simp_all add: ready_def pipes_wf_def word_le_nat_alt)
  have n1: "unat (fmaccount v + 1) = Suc (unat (fmaccount v))" using n by (simp add: unat_word_ariths)
  have w: "fmacwritepos v = (fmacreadpos v + of_nat (unat (fmaccount v))) AND 3"
    by (rule ring_wf_writepos [OF ring])
  have fm: "FM (pair_pipes u l v) = FM v @ (if is_fmac u l then [e] else [])"
    using e n1 ring_list_add [OF n, of "VURegs.fmac v" "fmacreadpos v" e] by (simp add: FM_def pair_pipes_frame w)
  have wf: "FM_wf (vcycle v) (FM v)" and o: "\<forall>f \<in> set (FM v). fm_sCycle f < vcycle v"
    using assms by (simp_all add: ready_def pipes_wf_def older_def)
  show "FM_wf (vcycle v) (FM (pair_pipes u l v))" using fm ages_wf_snoc [OF wf o e(1,2)] wf by simp
  show "ring_wf (if is_fmac u l then 1 else 0) (fmacreadpos v) (fmacwritepos v) (fmaccount (pair_pipes u l v))"
    using ring e(4) n n1 and_3_add [of "fmacreadpos v + fmaccount v" 1]
    by (auto simp: ring_wf_def word_le_nat_alt and_3_id add.assoc)
qed

lemma IA_pair_pipes:
  assumes "ready v" "lower_cycles_ok l"
  shows "IA_wf (vcycle v) (IA (pair_pipes u l v))"
    "ring_wf 0 (ialureadpos v) (ialuwritepos (pair_pipes u l v)) (ialucount (pair_pipes u l v))"
proof -
  let ?e = "\<lparr>ia_reg = VIwrite l, ia_sCycle = vcycle v, ia_Cycle = rn_cycles l\<rparr>"
  have ring: "ring_wf 0 (ialureadpos v) (ialuwritepos v) (ialucount v)" and n: "unat (ialucount v) < 4"
    using assms by (simp_all add: ready_def pipes_wf_def word_le_nat_alt)
  have n1: "unat (ialucount v + 1) = Suc (unat (ialucount v))" using n by (simp add: unat_word_ariths)
  have w: "ialuwritepos v = (ialureadpos v + of_nat (unat (ialucount v))) AND 3"
    by (rule ring_wf_writepos [OF ring])
  have ia: "IA (pair_pipes u l v) = IA v @ (if adds_ialu l then [?e] else [])"
    using n1 ring_list_add [OF n, of "ialu v" "ialureadpos v" ?e] by (simp add: IA_def pair_pipes_frame pair_pipes_others w)
  have wf: "IA_wf (vcycle v) (IA v)" and o: "\<forall>f \<in> set (IA v). ia_sCycle f < vcycle v"
    using assms by (simp_all add: ready_def pipes_wf_def older_def)
  show "IA_wf (vcycle v) (IA (pair_pipes u l v))"
    using ia ages_wf_snoc [OF wf o, of ?e] wf assms(2) by (auto simp: lower_cycles_ok_def adds_ialu_def)
  show "ring_wf 0 (ialureadpos v) (ialuwritepos (pair_pipes u l v)) (ialucount (pair_pipes u l v))"
    using ring n n1 and_3_add [of "ialureadpos v + ialucount v" 1] and_3_less [of "ialuwritepos v + 1"]
    by (auto simp: ring_wf_def word_le_nat_alt and_3_id add.assoc pair_pipes_others)
qed

lemma pair_pipes_wf:
  assumes "ready v" "lower_cycles_ok l"
  shows "pipes_wf (if is_fmac u l then 1 else 0) (pair_pipes u l v) \<and> efu_pos (efu (pair_pipes u l v)) \<and>
    vcycle (pair_pipes u l v) = vcycle v"
proof -
  have wf: "fdiv_wf (vcycle v) (fdiv v)" "efu_wf (vcycle v) (efu v)" "efu_pos (efu v)"
    using assms(1) by (simp_all add: ready_def pipes_wf_def)
  have "fdiv_wf (vcycle v) (fdiv (pair_pipes u l v))"
    using wf(1) assms(2) pair_pipes_others(4) [of u l v] by (auto simp: fdiv_wf_def lower_cycles_ok_def)
  moreover have "efu_wf (vcycle v) (efu (pair_pipes u l v))" "efu_pos (efu (pair_pipes u l v))"
    using wf(2,3) assms(2) pair_pipes_others(5) [of u l v] by (auto simp: efu_wf_def efu_pos_def lower_cycles_ok_def)
  ultimately show ?thesis
    using FM_pair_pipes [OF assms(1), of u l] IA_pair_pipes [OF assms, of u] by (simp add: pipes_wf_def pair_pipes_frame)
qed

lemma lower_regs_ok:
  assumes "rn_pipe (stack_lregs env) \<noteq> VUPIPE_EFU"
  shows "lower_cycles_ok (lower_regs env lo v)"
proof -
  let ?n = "(stack_lregs env)\<lparr>rn_cycles := 0\<rparr>"
  have n: "rn_pipe ?n \<noteq> VUPIPE_EFU" "rn_cycles ?n = 0" using assms by simp_all
  show ?thesis
    unfolding lower_regs_def
    by (rule all_lower_regs [where P = lower_cycles_ok])
      (use n in \<open>auto simp: lower_tables lower_instrs MI_unknown_L_def lower_cycles_ok_def vuRegsLQ_def vuRegsSQ_def vuRegsILW_def vuRegsISW_def
        vuRegsIADDIU_def vuRegsISUBIU_def vuRegsFCEQ_def vuRegsFCSET_def vuRegsFCAND_def vuRegsFCOR_def vuRegsFSEQ_def vuRegsFSSET_def
        vuRegsFSAND_def vuRegsFSOR_def vuRegsFMEQ_def vuRegsFMAND_def vuRegsFMOR_def vuRegsFCGET_def vuRegsB_def vuRegsBAL_def vuRegsJR_def
        vuRegsJALR_def vuRegsIBEQ_def vuRegsIBNE_def vuRegsIBLTZ_def vuRegsIBGTZ_def vuRegsIBLEZ_def vuRegsIBGEZ_def vuRegsIADD_def
        vuRegsISUB_def vuRegsIADDI_def vuRegsIAND_def vuRegsIOR_def vuRegsMOVE_def vuRegsLQI_def vuRegsDIV_def vuRegsMTIR_def vuRegsRNEXT_def
        vuRegsMFP_def vuRegsXTOP_def vuRegsXGKICK_def vuRegsESADD_def vuRegsEATANxy_def vuRegsESQRT_def vuRegsESIN_def vuRegsMR32_def
        vuRegsSQI_def vuRegsSQRT_def vuRegsMFIR_def vuRegsRGET_def vuRegsXITOP_def vuRegsERSADD_def vuRegsEATANxz_def vuRegsERSQRT_def
        vuRegsEATAN_def vuRegsLQD_def vuRegsRSQRT_def vuRegsILWR_def vuRegsRINIT_def vuRegsELENG_def vuRegsESUM_def vuRegsERCPR_def
        vuRegsEEXP_def vuRegsSQD_def vuRegsWAITQ_def vuRegsISWR_def vuRegsRXOR_def vuRegsERLENG_def vuRegsWAITP_def VUREGS_IDISIT_def
        VUREGS_ITIS_def VUREGS_PFS_xyzw_def VUREGS_PFS_fsf_def\<close>)
qed

lemma no_regs_ok: "lower_cycles_ok no_regs"
  by (simp add: lower_cycles_ok_def no_regs_def)

section \<open>The end of a program\<close>

lemma wait_until_waited:
  assumes "sc \<le> vcycle s" "unat sc + unat c \<le> B" "B < 2 ^ 32"
  shows "waited B s (wait_until sc c s)"
proof -
  have sum: "unat (sc + c) = unat sc + unat c" by (rule unat_plus_le [OF assms(2,3)])
  have "unat (vcycle s) \<le> unat (sc + c)" if "vcycle s - sc < c"
    using that assms(1) sum by (simp add: word_less_nat_alt word_le_nat_alt unat_sub)
  then show ?thesis using assms(2) sum
    by (auto simp: waited_def wait_until_def intro: exI [of _ "sc + c"] exI [of _ "vcycle s"])
qed

text \<open>Emptying a ring.\<close>

definition flushed :: "nat \<Rightarrow> u32 \<Rightarrow> VURegs \<Rightarrow> VURegs \<Rightarrow> bool" where
  "flushed B d s t \<longleftrightarrow> pipes_wf d t \<and> unat (vcycle s) \<le> unat (vcycle t) \<and> unat (vcycle t) \<le> max (unat (vcycle s)) B"

lemma flushed_trans: "flushed B d s t \<Longrightarrow> flushed B d t u \<Longrightarrow> flushed B d s u"
  by (auto simp: flushed_def)

lemma waited_flushed: "pipes_wf d s \<Longrightarrow> waited B s t \<Longrightarrow> flushed B d s t"
  using waited_wf [of d s B t] by (auto simp: flushed_def waited_def)

lemma fmac_retire_writepos [simp]: "fmacwritepos (fmac_retire f s) = fmacwritepos s"
  by (simp add: fmac_retire_def wVI_def Let_def)

lemma pipes_wf_pop_fmac:
  assumes wf: "pipes_wf d s" and n: "unat (fmaccount s) = Suc n"
  shows "pipes_wf d (fmac_pop (fmac_retire f s))" "FM s = VURegs.fmac s (fmacreadpos s) # FM (fmac_pop (fmac_retire f s))"
proof -
  have r: "fmacreadpos s < 4" using wf by (simp add: pipes_wf_def ring_wf_def)
  show fm: "FM s = VURegs.fmac s (fmacreadpos s) # FM (fmac_pop (fmac_retire f s))" using FM_Cons [OF n r] by simp
  let ?u = "fmac_pop (fmac_retire f s)"
  have "not_fm ?u = not_fm s" by simp
  then have eq: "vcycle ?u = vcycle s" "fmacwritepos ?u = fmacwritepos s" "fdiv ?u = fdiv s" "efu ?u = efu s" "ialu ?u = ialu s"
    "ialureadpos ?u = ialureadpos s" "ialuwritepos ?u = ialuwritepos s" "ialucount ?u = ialucount s"
    by (simp_all add: not_fm_def)
  have "ring_wf d (fmacreadpos ?u) (fmacwritepos ?u) (fmaccount ?u)"
    by (rule ring_wf_flush [of d "fmacreadpos s" _ "fmaccount s"])
      (use wf n in \<open>simp_all add: pipes_wf_def eq fmac_pop_def and_3_add and_3_less unat_pred\<close>)
  moreover have "FM_wf (vcycle s) (FM ?u)" using wf fm by (simp add: pipes_wf_def ages_wf_def)
  moreover have "IA ?u = IA s" by (simp add: IA_def eq)
  ultimately show "pipes_wf d ?u" using wf by (simp add: pipes_wf_def eq)
qed

lemma pipes_wf_pop_ialu:
  assumes wf: "pipes_wf d s" and n: "unat (ialucount s) = Suc n"
  shows "pipes_wf d (ialu_pop s)" "IA s = ialu s (ialureadpos s) # IA (ialu_pop s)"
proof -
  have r: "ialureadpos s < 4" using wf by (simp add: pipes_wf_def ring_wf_def)
  show ia: "IA s = ialu s (ialureadpos s) # IA (ialu_pop s)" by (rule IA_Cons [OF n r])
  let ?u = "ialu_pop s"
  have "ring_wf 0 (ialureadpos ?u) (ialuwritepos ?u) (ialucount ?u)"
    by (rule ring_wf_flush [of 0 "ialureadpos s" _ "ialucount s"])
      (use wf n in \<open>simp_all add: pipes_wf_def ialu_pop_def and_3_add and_3_less unat_pred\<close>)
  moreover have "IA_wf (vcycle s) (IA ?u)" using wf ia by (simp add: pipes_wf_def ages_wf_def)
  moreover have "FM ?u = FM s" by (simp add: FM_def ialu_pop_def)
  ultimately show "pipes_wf d ?u" using wf by (simp add: pipes_wf_def ialu_pop_def)
qed

lemma targets_pop:
  assumes "pipes_wf d s" "targets B s"
  shows "unat (fmaccount s) = Suc n \<Longrightarrow> targets B (fmac_pop (fmac_retire f s))" "unat (ialucount s) = Suc n \<Longrightarrow> targets B (ialu_pop s)"
proof -
  assume n: "unat (fmaccount s) = Suc n"
  have "not_fm (fmac_pop (fmac_retire f s)) = not_fm s" by simp
  then show "targets B (fmac_pop (fmac_retire f s))"
    using assms(2) pipes_wf_pop_fmac(2) [OF assms(1) n, of f] by (simp add: targets_def not_fm_def IA_def)
next
  assume n: "unat (ialucount s) = Suc n"
  have "FM (ialu_pop s) = FM s" by (simp add: FM_def ialu_pop_def)
  moreover have "fdiv (ialu_pop s) = fdiv s" "efu (ialu_pop s) = efu s" by (simp_all add: ialu_pop_def)
  ultimately show "targets B (ialu_pop s)"
    using assms(2) pipes_wf_pop_ialu(2) [OF assms(1) n] by (simp add: targets_def)
qed

lemma fmac_flush_all_flushed:
  assumes B: "B < 2 ^ 32"
  shows "unat (fmaccount s) = n \<Longrightarrow> pipes_wf d s \<Longrightarrow> targets B s \<Longrightarrow>
    flushed B d s (fmac_flush_all n s) \<and> targets B (fmac_flush_all n s) \<and> efu (fmac_flush_all n s) = efu s"
proof (induction n arbitrary: s)
  case 0
  then show ?case by (simp add: flushed_def)
next
  case (Suc n)
  let ?f = "VURegs.fmac s (fmacreadpos s)"
  let ?u = "fmac_pop (fmac_retire ?f s)"
  let ?t = "wait_until (fm_sCycle ?f) (fm_Cycle ?f) ?u"
  note pop = pipes_wf_pop_fmac [OF Suc.prems(2,1), of ?f] and tu = targets_pop(1) [OF Suc.prems(2,3,1), of ?f]
  have c: "vcycle ?u = vcycle s" "efu ?u = efu s" by (simp_all add: fmac_pop_def fmac_retire_def wVI_def Let_def)
  have f: "fm_sCycle ?f \<le> vcycle s" "fm_Cycle ?f = 4" "unat (fm_sCycle ?f) + 4 \<le> B"
    using Suc.prems(2,3) pop(2) by (simp_all add: pipes_wf_def ages_wf_def targets_def)
  have w: "waited B ?u ?t" by (rule wait_until_waited [OF _ _ B]) (use f c in simp_all)
  have n: "unat (fmaccount ?t) = n" using waited_same [OF w] Suc.prems(1) by (simp add: fmac_pop_def unat_pred)
  have "flushed B d ?u ?t" by (rule waited_flushed [OF pop(1) w])
  then have st: "flushed B d s ?t" using c by (simp add: flushed_def)
  then have wft: "pipes_wf d ?t" by (simp add: flushed_def)
  have tt: "targets B ?t" using tu waited_targets [OF w] by simp
  show ?case using Suc.IH [OF n wft tt] flushed_trans [OF st] waited_same [OF w] c by (simp add: Let_def)
qed

lemma ialu_flush_all_flushed:
  assumes B: "B < 2 ^ 32"
  shows "unat (ialucount s) = n \<Longrightarrow> pipes_wf d s \<Longrightarrow> targets B s \<Longrightarrow>
    flushed B d s (ialu_flush_all n s) \<and> targets B (ialu_flush_all n s) \<and> efu (ialu_flush_all n s) = efu s"
proof (induction n arbitrary: s)
  case 0
  then show ?case by (simp add: flushed_def)
next
  case (Suc n)
  let ?f = "ialu s (ialureadpos s)"
  let ?u = "ialu_pop s"
  let ?t = "wait_until (ia_sCycle ?f) (ia_Cycle ?f) ?u"
  note pop = pipes_wf_pop_ialu [OF Suc.prems(2,1)] and tu = targets_pop(2) [OF Suc.prems(2,3,1)]
  have c: "vcycle ?u = vcycle s" "efu ?u = efu s" by (simp_all add: ialu_pop_def)
  have f: "ia_sCycle ?f \<le> vcycle s" "ia_Cycle ?f = 4" "unat (ia_sCycle ?f) + 4 \<le> B"
    using Suc.prems(2,3) pop(2) by (simp_all add: pipes_wf_def ages_wf_def targets_def)
  have w: "waited B ?u ?t" by (rule wait_until_waited [OF _ _ B]) (use f c in simp_all)
  have n: "unat (ialucount ?t) = n" using waited_same [OF w] Suc.prems(1) by (simp add: ialu_pop_def unat_pred)
  have "flushed B d ?u ?t" by (rule waited_flushed [OF pop(1) w])
  then have st: "flushed B d s ?t" using c by (simp add: flushed_def)
  then have wft: "pipes_wf d ?t" by (simp add: flushed_def)
  have tt: "targets B ?t" using tu waited_targets [OF w] by simp
  show ?case using Suc.IH [OF n wft tt] flushed_trans [OF st] waited_same [OF w] c by (simp add: Let_def)
qed

lemma wf_targets: "pipes_wf d v \<Longrightarrow> targets (unat (vcycle v) + 54) v"
  by (auto simp: pipes_wf_def targets_def ages_wf_def fdiv_wf_def efu_wf_def word_le_nat_alt intro: add_mono)

lemma vuFlushAll_flushed:
  assumes B: "B < 2 ^ 32" and "pipes_wf d s" "targets B s"
  shows "flushed B d s (vuFlushAll s)" "efu_pos (efu (vuFlushAll s))"
proof -
  define a where "a = (if fd_enable (fdiv s) then wait_until (fd_sCycle (fdiv s)) (fd_Cycle (fdiv s)) (fdiv_retire s) else s)"
  define b where "b = (if ef_enable (efu a) then wait_until (ef_sCycle (efu a)) (ef_Cycle (efu a)) (efu_retire a) else a)"
  let ?c = "fmac_flush_all (unat (fmaccount b)) b"
  have w1: "flushed B d s a \<and> targets B a"
  proof (cases "fd_enable (fdiv s)")
    case True
    then have "waited B (fdiv_retire s) a"
      unfolding a_def using assms by (simp, intro wait_until_waited) (simp_all add: pipes_wf_def fdiv_wf_def targets_def)
    moreover have "targets B (fdiv_retire s)" using assms(3) by (simp add: targets_def fdiv_retire_def wVI_def Let_def FM_def IA_def)
    ultimately show ?thesis
      using waited_flushed [OF retire_one_wf(1) [OF assms(2)]] waited_targets by (auto simp: flushed_def)
  next
    case False
    then show ?thesis using assms(2,3) by (simp add: a_def flushed_def)
  qed
  then have a: "pipes_wf d a" "targets B a" by (simp_all add: flushed_def)
  have w2: "flushed B d a b \<and> targets B b \<and> \<not> ef_enable (efu b)"
  proof (cases "ef_enable (efu a)")
    case True
    then have "waited B (efu_retire a) b"
      unfolding b_def using a B by (simp, intro wait_until_waited) (simp_all add: pipes_wf_def efu_wf_def targets_def)
    moreover have "targets B (efu_retire a)" "\<not> ef_enable (efu (efu_retire a))"
      using a(2) by (simp_all add: targets_def efu_retire_def wVI_def Let_def FM_def IA_def)
    ultimately show ?thesis
      using waited_flushed [OF retire_one_wf(2) [OF a(1)]] waited_targets waited_same by (auto simp: flushed_def)
  next
    case False
    then show ?thesis using a by (simp add: b_def flushed_def)
  qed
  then have b: "pipes_wf d b" "targets B b" by (simp_all add: flushed_def)
  note w3 = fmac_flush_all_flushed [OF B refl b]
  then have c: "pipes_wf d ?c" "targets B ?c" by (simp_all add: flushed_def)
  note w4 = ialu_flush_all_flushed [OF B refl c]
  have all: "vuFlushAll s = ialu_flush_all (unat (ialucount ?c)) ?c"
    by (simp add: vuFlushAll_def Let_def a_def b_def)
  show "flushed B d s (vuFlushAll s)"
    unfolding all using w1 w2 w3 w4 flushed_trans by blast
  show "efu_pos (efu (vuFlushAll s))" unfolding all using w2 w3 w4 by (simp add: efu_pos_def)
qed

section \<open>A step of the first unit\<close>

lemma pipes_cong:
  assumes "pipes v = pipes w"
  shows "pipes_wf d v = pipes_wf d w" "targets B v = targets B w" "older v = older w" "efu v = efu w" "vcycle v = vcycle w"
    "fmaccount v = fmaccount w" "ialucount v = ialucount w" "ready v = ready w" "vu_wf v = vu_wf w"
proof -
  have "FM v = FM w" "IA v = IA w" using assms by (simp_all add: pipes_def FM_def IA_def)
  then show "pipes_wf d v = pipes_wf d w" "targets B v = targets B w" "older v = older w" "efu v = efu w" "vcycle v = vcycle w"
    "fmaccount v = fmaccount w" "ialucount v = ialucount w" "ready v = ready w" "vu_wf v = vu_wf w"
    using assms by (simp_all add: pipes_def pipes_wf_def targets_def older_def ready_def vu_wf_def)
qed

lemma vuRegs_io [simp]:
  "vuRegs (wHu32 a x s) = vuRegs s" "vuRegs (hwIntcIrq n s) = vuRegs s" "vuRegs (break_iop s) = vuRegs s"
  by (simp_all add: wHu32_def hwIntcIrq_def cpuTestINTCInts_def break_iop_def cpuSetNextEventDelta_def cpuSetNextEvent_def Let_def)

lemma pipes_wVPU_STAT [simp]: "pipes (vuRegs (wVPU_STAT x s) i) = pipes (vuRegs s i)"
  by (simp add: wVPU_STAT_def)

lemma pipes_vu0_flags [simp]: "pipes (vuRegs (vu0_flags up s) VU0) = pipes (vuRegs s VU0)"
  by (simp add: vu0_flags_def Let_def)

lemma TestPipes_VU0: "vu_fuel env = Suc n \<Longrightarrow> vuTestPipes env VU0 s = Some (on_vu VU0 vuFlush_loop s)"
  by (simp add: vuTestPipes_def)

lemma pipes_age_backup [simp]: "pipes (age_backup b v) = pipes v"
  by (simp add: age_backup_def)

lemma pipes_exchange [simp]: "pipes (exchange a b w v) = pipes v"
  by (simp add: exchange_def Let_def)

lemma pipes_ExecUpper [simp]: "pipes (vuRegs (vuExecUpper env i up s) i) = pipes (vuRegs s i)"
  by (simp add: vuExecUpper_def)

lemma ExecLower_VU0: "\<exists>t. vuExecLower env VU0 lo s = Some t \<and> pipes (vuRegs t VU0) = pipes (vuRegs s VU0)"
  using lower_exec_VU0 [of lo env "on_vu VU0 (\<lambda>v. v\<lparr>vcode := lo\<rparr>) s"] by (simp add: vuExecLower_def)

lemma ExecPair_VU0: "\<exists>t. vuExecPair env VU0 clip u l up lo s = Some t \<and> pipes (vuRegs t VU0) = pipes (vuRegs s VU0)"
proof (cases "pair_discard clip u l")
  case False
  let ?s1 = "vuExecUpper env VU0 up s"
  obtain t where "vuExecLower env VU0 lo (on_vu VU0 (exchange (pair_vfreg u l) (pair_vireg clip l) (vuRegs s VU0)) ?s1) = Some t"
    "pipes (vuRegs t VU0) = pipes (vuRegs s VU0)"
    using ExecLower_VU0 [of env lo "on_vu VU0 (exchange (pair_vfreg u l) (pair_vireg clip l) (vuRegs s VU0)) ?s1"] by auto
  with False show ?thesis by (simp add: vuExecPair_def Let_def)
qed (simp add: vuExecPair_def Let_def)

lemma flush_ready:
  assumes "pipes_wf 0 v" "efu_pos (efu v)" "older v" "waited_efu B v w" "pipes t = pipes (vuFlush_loop w)"
  shows "ready t \<and> unat (vcycle v) \<le> unat (vcycle t) \<and> unat (vcycle t) \<le> max (unat (vcycle v)) B"
proof -
  note w = waited_efu_wf [OF assms(1,2,4)]
  have r: "retired 0 w (vuFlush_loop w)" by (rule flush_loop_retired [OF w(1)])
  then have "ready (vuFlush_loop w)" by (rule retired_ready) (use w assms(3) in simp_all)
  then show ?thesis using w r pipes_cong [OF assms(5)] by (simp add: retired_def)
qed

lemma waited_waited_efu: "waited B s t \<Longrightarrow> waited_efu B t u \<Longrightarrow> waited_efu B s u"
proof -
  assume st: "waited B s t" and tu: "waited_efu B t u"
  obtain x where x: "t = s\<lparr>vcycle := x\<rparr>" "unat (vcycle s) \<le> unat x" "unat x \<le> max (unat (vcycle s)) B"
    using st by (auto simp: waited_def)
  have "shorter t = (shorter s)\<lparr>vcycle := x\<rparr>" "vcycle (shorter s) = vcycle s" by (simp_all add: x(1) shorter_def)
  then have "waited B (shorter s) (shorter t)" unfolding waited_def using x(2,3) by (intro exI [of _ x]) simp
  then show "waited_efu B s u"
    using st tu waited_trans waited_same [OF st] by (fastforce simp: waited_efu_def)
qed

text \<open>The pair at the program counter returns, and leaves pipelines that are ready for its entries.\<close>

lemma RunPair_VU0:
  assumes env: "vu_fuel env \<noteq> 0" "rn_pipe (stack_lregs env) \<noteq> VUPIPE_EFU"
    and v: "pipes_wf 0 (vuRegs s VU0)" "efu_pos (efu (vuRegs s VU0))" "older (vuRegs s VU0)" "targets B (vuRegs s VU0)"
    and B: "B < 2 ^ 32"
  shows "\<exists>u l t. vuRunPair env VU0 clip up lo s = Some (u, l, t) \<and> lower_cycles_ok l \<and> ready (vuRegs t VU0) \<and>
    unat (vcycle (vuRegs s VU0)) \<le> unat (vcycle (vuRegs t VU0)) \<and>
    unat (vcycle (vuRegs t VU0)) \<le> max (unat (vcycle (vuRegs s VU0))) B"
proof -
  define u where "u = upper_regs env up (vuRegs s VU0)"
  define s1 where "s1 = on_vu VU0 (\<lambda>v. vuTestUpperStalls u (v\<lparr>vcode := up\<rparr>)) s"
  define l where "l = lower_regs env lo (vuRegs s1 VU0)"
  define before where "before = vcycle (vuRegs s VU0) - 1"
  obtain n where n: "vu_fuel env = Suc n" using env(1) by (cases "vu_fuel env") auto
  let ?v = "(vuRegs s VU0)\<lparr>vcode := up\<rparr>"
  have cong: "pipes ?v = pipes (vuRegs s VU0)" by simp
  note v' = v [folded pipes_cong [OF cong]]
  have ring: "fmacreadpos ?v < 4" "ialureadpos ?v < 4" using v(1) by (simp_all add: pipes_wf_def ring_wf_def)
  have w1: "waited B ?v (vuRegs s1 VU0)" unfolding s1_def using TestUpperStalls_waited [OF B ring(1) v'(4)] by simp
  note ws = waited_same [OF w1]
  show ?thesis
  proof (cases "bit up 31")
    case True
    let ?t = "on_vu VU0 (wVI REG_I lo) (vuExecUpper env VU0 up (on_vu VU0 (age_backup before) (on_vu VU0 vuFlush_loop s1)))"
    have run: "vuRunPair env VU0 clip up lo s = Some (u, no_regs, ?t)"
      using True by (simp add: vuRunPair_def TestPipes_VU0 [OF n] u_def s1_def before_def Let_def)
    have "waited_efu B ?v (vuRegs s1 VU0)" using w1 by (simp add: waited_efu_def)
    then have "ready (vuRegs ?t VU0) \<and> unat (vcycle ?v) \<le> unat (vcycle (vuRegs ?t VU0)) \<and>
        unat (vcycle (vuRegs ?t VU0)) \<le> max (unat (vcycle ?v)) B"
      by (intro flush_ready [OF v'(1-3)]) simp_all
    then show ?thesis using run no_regs_ok by auto
  next
    case False
    let ?w = "(vuRegs s1 VU0)\<lparr>vcode := lo\<rparr>"
    let ?s2 = "on_vu VU0 (\<lambda>v. vuTestLowerStalls l (v\<lparr>vcode := lo\<rparr>)) s1"
    let ?s3 = "on_vu VU0 (age_backup before) (on_vu VU0 vuFlush_loop ?s2)"
    obtain t where t: "vuExecPair env VU0 (clip u) u l up lo ?s3 = Some t" "pipes (vuRegs t VU0) = pipes (vuRegs ?s3 VU0)"
      using ExecPair_VU0 by blast
    have run: "vuRunPair env VU0 clip up lo s = Some (u, l, t)"
      using False t(1) by (simp add: vuRunPair_def TestPipes_VU0 [OF n] u_def s1_def before_def l_def Let_def)
    have w2: "waited B ((vuRegs s VU0)\<lparr>vcode := lo\<rparr>) ?w"
      by (rule waited_code [OF w1])
    have cong2: "pipes ((vuRegs s VU0)\<lparr>vcode := lo\<rparr>) = pipes (vuRegs s VU0)" by simp
    note v2 = v [folded pipes_cong [OF cong2]]
    have tw: "targets B ?w" using v2(4) waited_targets [OF w2] by simp
    have "efu_pos (efu ?w)" "fmacreadpos ?w < 4" "ialureadpos ?w < 4" using v(2) ring ws by simp_all
    then have "waited_efu B ?w (vuTestLowerStalls l ?w)" by (intro TestLowerStalls_waited [OF B _ _ tw])
    then have w3: "waited_efu B ((vuRegs s VU0)\<lparr>vcode := lo\<rparr>) (vuTestLowerStalls l ?w)"
      by (rule waited_waited_efu [OF w2])
    have "ready (vuRegs t VU0) \<and> unat (vcycle ((vuRegs s VU0)\<lparr>vcode := lo\<rparr>)) \<le> unat (vcycle (vuRegs t VU0)) \<and>
        unat (vcycle (vuRegs t VU0)) \<le> max (unat (vcycle ((vuRegs s VU0)\<lparr>vcode := lo\<rparr>))) B"
      by (rule flush_ready [OF v2(1-3) w3]) (simp add: t(2))
    then show ?thesis using run lower_regs_ok [OF env(2)] by (auto simp: l_def)
  qed
qed

lemma pipes_branch_step [simp]: "(\<And>v. pipes (clear v) = pipes v) \<Longrightarrow> pipes (branch_step clear v) = pipes v"
  by (simp add: branch_step_def Let_def)

lemma fmac_advance_wf:
  assumes "pipes_wf (if is_fmac u l then 1 else 0) v"
  shows "pipes_wf 0 (fmac_advance u l v)"
  using assms and_3_less [of "fmacwritepos v + 1"] and_3_add [of "fmacwritepos v + 1" 0]
  by (auto simp: fmac_advance_def pipes_wf_def ring_wf_def FM_def IA_def)

lemma fmac_advance_frame [simp]: "vcycle (fmac_advance u l v) = vcycle v" "efu (fmac_advance u l v) = efu v"
  by (simp_all add: fmac_advance_def)

lemma ebit_step_VU0:
  assumes "pipes_wf d (vuRegs s VU0)" "efu_pos (efu (vuRegs s VU0))" "unat (vcycle (vuRegs s VU0)) + 54 < 2 ^ 32"
  shows "\<exists>t. ebit_step VU0 vu0_finish s = Some t \<and> flushed (unat (vcycle (vuRegs s VU0)) + 54) d (vuRegs s VU0) (vuRegs t VU0) \<and>
    efu_pos (efu (vuRegs t VU0))"
proof -
  let ?v = "vuRegs s VU0"
  consider (none) "vebit ?v = 0" | (one) "vebit ?v = 1" | (more) "vebit ?v \<noteq> 0" "vebit ?v \<noteq> 1" by blast
  then show ?thesis
  proof cases
    case none
    then show ?thesis using assms by (simp add: ebit_step_def flushed_def)
  next
    case more
    let ?w = "?v\<lparr>vebit := vebit ?v - 1\<rparr>"
    have "pipes ?w = pipes ?v" by simp
    note c = pipes_cong [OF this]
    have "flushed (unat (vcycle ?v) + 54) d ?v ?w" using assms(1) c by (simp add: flushed_def)
    then show ?thesis using more assms(2) by (simp add: ebit_step_def)
  next
    case one
    let ?w = "?v\<lparr>vebit := vebit ?v - 1, VIBackupCycles := 0\<rparr>"
    have "pipes ?w = pipes ?v" by simp
    note c = pipes_cong [OF this]
    have wf: "pipes_wf d ?w" and tg: "targets (unat (vcycle ?v) + 54) ?w" using assms(1) wf_targets [OF assms(1)] c by simp_all
    note F = vuFlushAll_flushed [OF assms(3) wf tg]
    obtain t where t: "ebit_step VU0 vu0_finish s = Some t" "pipes (vuRegs t VU0) = pipes (vuFlushAll ?w)"
      using one by (simp add: ebit_step_def vu0_finish_def Let_def)
    show ?thesis using t(1) F c pipes_cong [OF t(2)] by (simp add: flushed_def)
  qed
qed

lemma vu0_Exec_wf:
  assumes env: "vu_fuel env \<noteq> 0" "rn_pipe (stack_lregs env) \<noteq> VUPIPE_EFU"
    and v: "pipes_wf 0 (vuRegs s VU0)" "efu_pos (efu (vuRegs s VU0))" "older (vuRegs s VU0)" "unat (vcycle (vuRegs s VU0)) + 108 < 2 ^ 32"
  shows "\<exists>t. vu0_Exec env s = Some t \<and> vu_wf (vuRegs t VU0) \<and> unat (vcycle (vuRegs s VU0)) \<le> unat (vcycle (vuRegs t VU0)) \<and>
    unat (vcycle (vuRegs t VU0)) \<le> unat (vcycle (vuRegs s VU0)) + 108"
proof -
  let ?c = "unat (vcycle (vuRegs s VU0))"
  let ?tpc = "VI (vuRegs s VU0) REG_TPC"
  let ?lo = "micro_word ?tpc 0 (vuRegs s VU0)" and ?up = "micro_word ?tpc 1 (vuRegs s VU0)"
  let ?s1 = "vu0_flags ?up (on_vu VU0 (wVI REG_TPC (?tpc + 8)) s)"
  have "pipes (vuRegs ?s1 VU0) = pipes (vuRegs s VU0)" by simp
  note c1 = pipes_cong [OF this]
  note v1 = v(1-3) [folded c1]
  have tg: "targets (?c + 54) (vuRegs ?s1 VU0)" using wf_targets [OF v(1)] c1 by simp
  have B: "?c + 54 < 2 ^ 32" using v(4) by simp
  obtain u l s2 where run: "vuRunPair env VU0 (\<lambda>u. bit (VIread u) 18) ?up ?lo ?s1 = Some (u, l, s2)"
    and l: "lower_cycles_ok l" and s2: "ready (vuRegs s2 VU0)" "?c \<le> unat (vcycle (vuRegs s2 VU0))" "unat (vcycle (vuRegs s2 VU0)) \<le> ?c + 54"
    using RunPair_VU0 [OF env v1 tg B, of "\<lambda>u. bit (VIread u) 18" ?up ?lo] c1 by auto
  let ?s3 = "on_vu VU0 (\<lambda>v. branch_step (\<lambda>v. v\<lparr>vblockhasmbit := False\<rparr>) (pair_pipes u l v)) s2"
  have "pipes (vuRegs ?s3 VU0) = pipes (pair_pipes u l (vuRegs s2 VU0))" by simp
  note c3 = pipes_cong [OF this] and pp = pair_pipes_wf [OF s2(1) l, of u]
  let ?d = "if is_fmac u l then 1 else 0 :: u32"
  have w3: "pipes_wf ?d (vuRegs ?s3 VU0)" "efu_pos (efu (vuRegs ?s3 VU0))" "vcycle (vuRegs ?s3 VU0) = vcycle (vuRegs s2 VU0)"
    using pp c3 by simp_all
  have "unat (vcycle (vuRegs ?s3 VU0)) + 54 < 2 ^ 32" using w3(3) s2(3) v(4) by simp
  then obtain t where t: "ebit_step VU0 vu0_finish ?s3 = Some t"
    "flushed (unat (vcycle (vuRegs ?s3 VU0)) + 54) ?d (vuRegs ?s3 VU0) (vuRegs t VU0)" "efu_pos (efu (vuRegs t VU0))"
    using ebit_step_VU0 [OF w3(1,2)] by blast
  let ?r = "on_vu VU0 (fmac_advance u l) t"
  have "vu0_Exec env s = Some ?r" using run t(1) by (simp add: vu0_Exec_def Let_def)
  moreover have "vu_wf (vuRegs ?r VU0)"
    using t(2,3) fmac_advance_wf [of u l "vuRegs t VU0"] by (simp add: vu_wf_def flushed_def)
  moreover have "?c \<le> unat (vcycle (vuRegs ?r VU0))" "unat (vcycle (vuRegs ?r VU0)) \<le> ?c + 108"
    using t(2) s2(2,3) w3(3) by (simp_all add: flushed_def)
  ultimately show ?thesis by blast
qed

text \<open>
  A step of the first unit: it returns, its pipelines stay well-formed, and its clock moves forward.
\<close>

lemma vu0Exec_step:
  assumes env: "vu_fuel env \<noteq> 0" "rn_pipe (stack_lregs env) \<noteq> VUPIPE_EFU"
    and v: "vu_wf (vuRegs s VU0)" "unat (vcycle (vuRegs s VU0)) + 128 < 2 ^ 32"
  shows "\<exists>t. vu0Exec env s = Some t \<and> vu_wf (vuRegs t VU0) \<and> unat (vcycle (vuRegs s VU0)) < unat (vcycle (vuRegs t VU0)) \<and>
    unat (vcycle (vuRegs t VU0)) \<le> unat (vcycle (vuRegs s VU0)) + 109"
proof -
  let ?v = "vuRegs s VU0"
  let ?s = "on_vu VU0 (\<lambda>v. (wVI REG_TPC (VI v REG_TPC AND VU0_PROGMASK) v)\<lparr>vcycle := vcycle v + 1\<rparr>) s"
  have c: "unat (vcycle ?v + 1) = unat (vcycle ?v) + 1" using v(2) by (simp add: unat_word_ariths)
  have "pipes (vuRegs ?s VU0) = pipes (?v\<lparr>vcycle := vcycle ?v + 1\<rparr>)" by (simp add: pipes_def wVI_def)
  note cong = pipes_cong [OF this]
  have w: "waited (unat (vcycle ?v) + 1) ?v (?v\<lparr>vcycle := vcycle ?v + 1\<rparr>)"
    unfolding waited_def using c by (intro exI [of _ "vcycle ?v + 1"]) simp
  have wf: "pipes_wf 0 ?v" using v(1) by (simp add: vu_wf_def)
  have lt: "vcycle ?v < vcycle ?v + 1" using c by (simp add: word_less_nat_alt)
  have "older (?v\<lparr>vcycle := vcycle ?v + 1\<rparr>)"
    using wf lt by (auto simp: older_def pipes_wf_def ages_wf_def intro: le_less_trans)
  then have s: "pipes_wf 0 (vuRegs ?s VU0)" "efu_pos (efu (vuRegs ?s VU0))" "older (vuRegs ?s VU0)"
    using waited_wf(1) [OF wf w] v(1) by (simp_all only: cong) (simp_all add: vu_wf_def)
  have cs: "unat (vcycle (vuRegs ?s VU0)) = unat (vcycle ?v) + 1" by (simp only: cong) (simp add: c)
  then have "unat (vcycle (vuRegs ?s VU0)) + 108 < 2 ^ 32" using v(2) by linarith
  from vu0_Exec_wf [OF env s this] show ?thesis unfolding vu0Exec_def cs by auto
qed

end
