(* ===== verification/Vu_Zero.thy ===== *)
theory Vu_Zero
  imports Vu_Step
begin

text \<open>
  The constant registers of a vector unit: \<open>VF[0]\<close> and \<open>VI[0]\<close> are ordinary storage in the source,
  and every instruction has a guard that keeps it from writing them.  The guards of \<open>LQI\<close>, \<open>SQI\<close> and
  \<open>SQD\<close> test the five bit field where the register number is its low four bits, so that the field 16
  reaches \<open>VI[0]\<close>; \<open>vi0_step\<close> says which codes count it and by how much.
\<close>

unbundle bit_operations_syntax

definition zero :: "VURegs \<Rightarrow> VECTOR \<times> u32" where "zero v = (VF v 0, VI v 0)"

lemma zero_updates [simp]:
  "zero (s\<lparr>VIpad := a\<rparr>) = zero s" "zero (s\<lparr>VACC := c\<rparr>) = zero s" "zero (s\<lparr>vq := d\<rparr>) = zero s" "zero (s\<lparr>vp := d\<rparr>) = zero s"
  "zero (s\<lparr>vcode := d\<rparr>) = zero s" "zero (s\<lparr>vmacflag := d\<rparr>) = zero s" "zero (s\<lparr>vstatusflag := d\<rparr>) = zero s"
  "zero (s\<lparr>vclipflag := d\<rparr>) = zero s" "zero (s\<lparr>vbranch := d\<rparr>) = zero s" "zero (s\<lparr>vbranchpc := d\<rparr>) = zero s"
  "zero (s\<lparr>vdelaybranchpc := d\<rparr>) = zero s" "zero (s\<lparr>vtakedelaybranch := e\<rparr>) = zero s"
  "zero (s\<lparr>vMem := m\<rparr>) = zero s" "zero (s\<lparr>VIBackupCycles := g\<rparr>) = zero s" "zero (s\<lparr>VIOldValue := d\<rparr>) = zero s"
  "zero (s\<lparr>VIRegNumber := d\<rparr>) = zero s" "zero (s\<lparr>vebit := d\<rparr>) = zero s" "zero (s\<lparr>vflags := d\<rparr>) = zero s"
  "zero (s\<lparr>vblockhasmbit := e\<rparr>) = zero s" "zero (s\<lparr>vcycle := d\<rparr>) = zero s" "zero (s\<lparr>VURegs.fmac := f\<rparr>) = zero s"
  "zero (s\<lparr>fmacreadpos := d\<rparr>) = zero s" "zero (s\<lparr>fmacwritepos := d\<rparr>) = zero s" "zero (s\<lparr>fmaccount := d\<rparr>) = zero s"
  "zero (s\<lparr>fdiv := p\<rparr>) = zero s" "zero (s\<lparr>efu := q\<rparr>) = zero s" "zero (s\<lparr>ialu := r\<rparr>) = zero s"
  "zero (s\<lparr>ialureadpos := d\<rparr>) = zero s" "zero (s\<lparr>ialuwritepos := d\<rparr>) = zero s" "zero (s\<lparr>ialucount := d\<rparr>) = zero s"
  by (simp_all add: zero_def)

lemma zero_writes [simp]:
  "r \<noteq> 0 \<Longrightarrow> zero (wVF r l x s) = zero s" "zero (wACC l x s) = zero s" "r \<noteq> 0 \<Longrightarrow> zero (wVI r x s) = zero s"
  "r \<noteq> 0 \<Longrightarrow> zero (wVI16 r y s) = zero s" "zero (vuBackupVI r s) = zero s" "zero (VU_MAC_CLEAR n s) = zero s"
  "zero (VU_STAT_UPDATE s) = zero s" "zero (snd (VU_MAC_UPDATE h n x s)) = zero s" "zero (wDst l x s) = zero s"
  by (simp_all add: wVF_def wACC_def wVI_def wVI16_def vuBackupVI_def VU_MAC_CLEAR_def VU_STAT_UPDATE_def VU_MAC_UPDATE_def
      wDst_def Let_def zero_def)

lemma zero_fmac [simp]:
  assumes "\<And>l x s. zero (w l x s) = zero s"
  shows "zero (Vu_Upper.fmac h w f s) = zero s" "zero (fmac_write h w l x s) = zero s"
proof -
  have lane: "zero (fmac_lane h w f l s) = zero s" for l s
    by (simp add: fmac_lane_def prod.case_eq_if assms)
  show "zero (Vu_Upper.fmac h w f s) = zero s" by (simp add: fmac_def lane)
  show "zero (fmac_write h w l x s) = zero s" by (simp add: fmac_write_def prod.case_eq_if assms)
qed

lemma zero_vlanes [simp]:
  "r \<noteq> 0 \<Longrightarrow> zero (vlanes r f s) = zero s" "zero (vlanes_Fd f s) = zero s" "zero (vlanes_Ft f s) = zero s"
  by (simp_all add: vlanes_def vlane_to_def vlanes_Fd_def vlanes_Ft_def)

lemma zero_lower_writes [simp]:
  "zero (wVIb r y s) = zero s" "zero (wIt y s) = zero s" "zero (AdvanceLFSR s) = zero s" "zero (setBranch d s) = zero s"
  "zero (branch_if c i s) = zero s" "zero (vu_link s) = zero s" "zero (clip_test h a b c' s) = zero s"
  by (simp_all add: wVIb_def wIt_def AdvanceLFSR_def setBranch_def branch_if_def vu_link_def clip_test_def Let_def)

lemma vcode_writes [simp]: "vcode (wVI16 r y s) = vcode s" "vcode (vuBackupVI r s) = vcode s" "vcode (wVI r x s) = vcode s" "vcode (wVF r l z s) = vcode s"
  by (simp_all add: wVI16_def wVI_def vuBackupVI_def wVF_def)

lemma field_writes [simp]:
  "vFt (wVI16 r y s) = vFt s" "vFs (wVI16 r y s) = vFs s" "vFt (vuBackupVI r s) = vFt s" "vFs (vuBackupVI r s) = vFs s"
  by (simp_all add: vFt_def vFs_def)

lemma zero_upper [simp]:
  "zero (vuABS h s) = zero s" "zero (vuADD h s) = zero s" "zero (vuADDi h s) = zero s" "zero (vuADDq h s) = zero s"
  "zero (vuADDx h s) = zero s" "zero (vuADDy h s) = zero s" "zero (vuADDz h s) = zero s" "zero (vuADDw h s) = zero s"
  "zero (vuADDA h s) = zero s" "zero (vuADDAi h s) = zero s" "zero (vuADDAq h s) = zero s"
  "zero (vuADDAx h s) = zero s" "zero (vuADDAy h s) = zero s" "zero (vuADDAz h s) = zero s"
  "zero (vuADDAw h s) = zero s" "zero (vuSUB h s) = zero s" "zero (vuSUBi h s) = zero s" "zero (vuSUBq h s) = zero s"
  "zero (vuSUBx h s) = zero s" "zero (vuSUBy h s) = zero s" "zero (vuSUBz h s) = zero s" "zero (vuSUBw h s) = zero s"
  "zero (vuSUBA h s) = zero s" "zero (vuSUBAi h s) = zero s" "zero (vuSUBAq h s) = zero s"
  "zero (vuSUBAx h s) = zero s" "zero (vuSUBAy h s) = zero s" "zero (vuSUBAz h s) = zero s"
  "zero (vuSUBAw h s) = zero s" "zero (vuMUL h s) = zero s" "zero (vuMULi h s) = zero s" "zero (vuMULq h s) = zero s"
  "zero (vuMULx h s) = zero s" "zero (vuMULy h s) = zero s" "zero (vuMULz h s) = zero s" "zero (vuMULw h s) = zero s"
  "zero (vuMULA h s) = zero s" "zero (vuMULAi h s) = zero s" "zero (vuMULAq h s) = zero s"
  "zero (vuMULAx h s) = zero s" "zero (vuMULAy h s) = zero s" "zero (vuMULAz h s) = zero s"
  "zero (vuMULAw h s) = zero s" "zero (vuMADD h s) = zero s" "zero (vuMADDi h s) = zero s"
  "zero (vuMADDq h s) = zero s" "zero (vuMADDx h s) = zero s" "zero (vuMADDy h s) = zero s"
  "zero (vuMADDz h s) = zero s" "zero (vuMADDw h s) = zero s" "zero (vuMADDA h s) = zero s"
  "zero (vuMADDAi h s) = zero s" "zero (vuMADDAq h s) = zero s" "zero (vuMADDAx h s) = zero s"
  "zero (vuMADDAy h s) = zero s" "zero (vuMADDAz h s) = zero s" "zero (vuMADDAw h s) = zero s"
  "zero (vuMSUB h s) = zero s" "zero (vuMSUBi h s) = zero s" "zero (vuMSUBq h s) = zero s"
  "zero (vuMSUBx h s) = zero s" "zero (vuMSUBy h s) = zero s" "zero (vuMSUBz h s) = zero s"
  "zero (vuMSUBw h s) = zero s" "zero (vuMSUBA h s) = zero s" "zero (vuMSUBAi h s) = zero s"
  "zero (vuMSUBAq h s) = zero s" "zero (vuMSUBAx h s) = zero s" "zero (vuMSUBAy h s) = zero s"
  "zero (vuMSUBAz h s) = zero s" "zero (vuMSUBAw h s) = zero s" "zero (vuMAX s) = zero s" "zero (vuMAXi s) = zero s"
  "zero (vuMAXx s) = zero s" "zero (vuMAXy s) = zero s" "zero (vuMAXz s) = zero s" "zero (vuMAXw s) = zero s"
  "zero (vuMINI s) = zero s" "zero (vuMINIi s) = zero s" "zero (vuMINIx s) = zero s" "zero (vuMINIy s) = zero s"
  "zero (vuMINIz s) = zero s" "zero (vuMINIw s) = zero s" "zero (vuOPMULA h s) = zero s" "zero (vuOPMSUB h s) = zero s"
  "zero (vuNOP s) = zero s" "zero (vuFTOI0 h s) = zero s" "zero (vuFTOI4 h s) = zero s" "zero (vuFTOI12 h s) = zero s"
  "zero (vuFTOI15 h s) = zero s" "zero (vuITOF0 h s) = zero s" "zero (vuITOF4 h s) = zero s"
  "zero (vuITOF12 h s) = zero s" "zero (vuITOF15 h s) = zero s" "zero (vuCLIP h s) = zero s"
  by (simp_all only: vuABS_def vuADD_def vuADDi_def vuADDq_def vuADDx_def vuADDy_def vuADDz_def vuADDw_def vuADDA_def vuADDAi_def
      vuADDAq_def vuADDAx_def vuADDAy_def vuADDAz_def vuADDAw_def vuSUB_def vuSUBi_def vuSUBq_def vuSUBx_def vuSUBy_def
      vuSUBz_def vuSUBw_def vuSUBA_def vuSUBAi_def vuSUBAq_def vuSUBAx_def vuSUBAy_def vuSUBAz_def vuSUBAw_def vuMUL_def
      vuMULi_def vuMULq_def vuMULx_def vuMULy_def vuMULz_def vuMULw_def vuMULA_def vuMULAi_def vuMULAq_def vuMULAx_def
      vuMULAy_def vuMULAz_def vuMULAw_def vuMADD_def vuMADDi_def vuMADDq_def vuMADDx_def vuMADDy_def vuMADDz_def
      vuMADDw_def vuMADDA_def vuMADDAi_def vuMADDAq_def vuMADDAx_def vuMADDAy_def vuMADDAz_def vuMADDAw_def vuMSUB_def
      vuMSUBi_def vuMSUBq_def vuMSUBx_def vuMSUBy_def vuMSUBz_def vuMSUBw_def vuMSUBA_def vuMSUBAi_def vuMSUBAq_def
      vuMSUBAx_def vuMSUBAy_def vuMSUBAz_def vuMSUBAw_def vuMAX_def vuMAXi_def vuMAXx_def vuMAXy_def vuMAXz_def vuMAXw_def
      vuMINI_def vuMINIi_def vuMINIx_def vuMINIy_def vuMINIz_def vuMINIw_def vuOPMULA_def vuOPMSUB_def vuNOP_def
      vuFTOI0_def vuFTOI4_def vuFTOI12_def vuFTOI15_def vuITOF0_def vuITOF4_def vuITOF12_def vuITOF15_def vuCLIP_def
      Let_def zero_fmac zero_writes zero_vlanes zero_lower_writes zero_updates if_distrib [of zero] if_cancel)

lemma zero_lower [simp]:
  "zero (vuDIV h s) = zero s" "zero (vuSQRT h s) = zero s" "zero (vuRSQRT h s) = zero s" "zero (vuIADD s) = zero s"
  "zero (vuIADDI s) = zero s" "zero (vuIADDIU s) = zero s" "zero (vuIAND s) = zero s" "zero (vuIOR s) = zero s"
  "zero (vuISUB s) = zero s" "zero (vuISUBIU s) = zero s" "zero (vuMOVE s) = zero s" "zero (vuMFIR s) = zero s"
  "zero (vuMTIR s) = zero s" "zero (vuMR32 s) = zero s" "zero (vuRINIT s) = zero s" "zero (vuRGET s) = zero s"
  "zero (vuRNEXT s) = zero s" "zero (vuRXOR s) = zero s" "zero (vuWAITQ s) = zero s" "zero (vuFSAND s) = zero s"
  "zero (vuFSEQ s) = zero s" "zero (vuFSOR s) = zero s" "zero (vuFSSET s) = zero s" "zero (vuFMAND s) = zero s"
  "zero (vuFMEQ s) = zero s" "zero (vuFMOR s) = zero s" "zero (vuFCAND s) = zero s" "zero (vuFCEQ s) = zero s"
  "zero (vuFCOR s) = zero s" "zero (vuFCSET s) = zero s" "zero (vuFCGET s) = zero s" "zero (vuIBEQ i s) = zero s"
  "zero (vuIBGEZ i s) = zero s" "zero (vuIBGTZ i s) = zero s" "zero (vuIBLTZ i s) = zero s"
  "zero (vuIBLEZ i s) = zero s" "zero (vuIBNE i s) = zero s" "zero (vuB i s) = zero s" "zero (vuBAL i s) = zero s"
  "zero (vuJR s) = zero s" "zero (vuJALR s) = zero s" "zero (vuMFP s) = zero s" "zero (vuWAITP s) = zero s"
  "zero (vuESADD h s) = zero s" "zero (vuERSADD h s) = zero s" "zero (vuELENG h s) = zero s"
  "zero (vuERLENG h s) = zero s" "zero (vuEATANxy h s) = zero s" "zero (vuEATANxz h s) = zero s"
  "zero (vuESUM h s) = zero s" "zero (vuERCPR h s) = zero s" "zero (vuESQRT h s) = zero s"
  "zero (vuERSQRT h s) = zero s" "zero (vuESIN h s) = zero s" "zero (vuEATAN h s) = zero s"
  "zero (vuEEXP h s) = zero s"
  by (simp_all add: vuDIV_def vuSQRT_def vuRSQRT_def vuIADD_def vuIADDI_def vuIADDIU_def vuIAND_def vuIOR_def vuISUB_def vuISUBIU_def
      vuMOVE_def vuMFIR_def vuMTIR_def vuMR32_def vuRINIT_def vuRGET_def vuRNEXT_def vuRXOR_def vuWAITQ_def vuFSAND_def
      vuFSEQ_def vuFSOR_def vuFSSET_def vuFMAND_def vuFMEQ_def vuFMOR_def vuFCAND_def vuFCEQ_def vuFCOR_def vuFCSET_def
      vuFCGET_def vuIBEQ_def vuIBGEZ_def vuIBGTZ_def vuIBLTZ_def vuIBLEZ_def vuIBNE_def vuB_def vuBAL_def vuJR_def
      vuJALR_def vuMFP_def vuWAITP_def vuESADD_def vuERSADD_def vuELENG_def vuERLENG_def vuEATANxy_def vuEATANxz_def
      vuESUM_def vuERCPR_def vuESQRT_def vuERSQRT_def vuESIN_def vuEATAN_def vuEEXP_def Let_def)

text \<open>The integer field is four bits of the five: only 16 is not 0 and means register 0.\<close>

lemma field_16: "(x :: reg) \<noteq> 0 \<Longrightarrow> x \<noteq> 16 \<Longrightarrow> x AND 0xF \<noteq> 0"
proof
  assume x: "x \<noteq> 0" "x \<noteq> 16" and 0: "x AND 0xF = 0"
  have "take_bit 4 x = 0" using 0 by (simp add: take_bit_eq_mask mask_numeral)
  moreover have "unat (take_bit 4 x) = take_bit 4 (unat x)" by (simp only: unsigned_take_bit_eq)
  ultimately have "take_bit 4 (unat x) = 0" by simp
  then have "unat x mod 16 = 0" by (simp only: take_bit_eq_mod) simp
  moreover have "unat x < 32" using unsigned_less [of x, where 'a = nat] by simp
  ultimately have "unat x = 0 \<or> unat x = 16" by presburger
  then have "x = 0 \<or> x = 16" by (auto intro!: word_unat_eqI [of x 0] word_unat_eqI [of x 16])
  with x show False by simp
qed

lemma zero_set_vu_word [simp]: "zero (vuRegs (set_vu_word (GET_VU_MEM i a) k x t) i) = zero (vuRegs t i)"
  by (cases i) (simp_all add: GET_VU_MEM_def)

lemma vcode_set_vu_word [simp]: "vcode (vuRegs (set_vu_word (GET_VU_MEM i a) k x t) i) = vcode (vuRegs t i)"
  by (cases i) (simp_all add: GET_VU_MEM_def)

lemma zero_stores [simp]:
  "zero (vuRegs (vu_store_lane i (GET_VU_MEM i a) f l t) i) = zero (vuRegs t i)"
  "zero (vuRegs (vu_store_lanes i a f t) i) = zero (vuRegs t i)" "zero (vuRegs (vu_store_Fs i a t) i) = zero (vuRegs t i)"
  by (simp_all add: vu_store_lane_def vu_store_lanes_def vu_store_Fs_def Let_def)

lemma VI_stores [simp]: "VI (vuRegs (vu_store_Fs i a t) i) 0 = VI (vuRegs t i) 0"
  using zero_stores(3) [of i a t] by (simp only: zero_def prod.inject)

lemma zero_load_Ft [simp]: "vFt (vuRegs t i) \<noteq> 0 \<Longrightarrow> zero (vuRegs (vu_load_Ft i a t) i) = zero (vuRegs t i)"
  by (simp add: vu_load_Ft_def)

lemma zero_load_It: "vIt (vuRegs t i) \<noteq> 0 \<Longrightarrow> zero (vuRegs (vu_load_It i a t) i) = zero (vuRegs t i)"
  by (simp add: vu_load_It_def Let_def vIt_def vFt_def)

text \<open>\<open>VI[0]\<close> counted by \<open>d\<close>, in its low half.\<close>

definition count0 :: "u16 \<Rightarrow> VECTOR \<times> u32 \<Rightarrow> VECTOR \<times> u32" where
  "count0 d = (\<lambda>(f, x). (f, (x AND 0xFFFF0000) OR ucast (ucast x + d)))"

lemma zero_count0: "zero (wVI16 0 (VI16 v 0 + d) w) = count0 d (zero v)" if "zero w = zero v"
  using that by (simp add: zero_def count0_def wVI16_def wVI_def VI16_def)

lemma zero_memory [simp]:
  "zero (vuRegs (vuLQ i t) i) = zero (vuRegs t i)" "zero (vuRegs (vuLQD i t) i) = zero (vuRegs t i)"
  "zero (vuRegs (vuSQ i t) i) = zero (vuRegs t i)"
  "zero (vuRegs (vuILW i t) i) = zero (vuRegs t i)" "zero (vuRegs (vuISW i t) i) = zero (vuRegs t i)"
  "zero (vuRegs (vuILWR i t) i) = zero (vuRegs t i)" "zero (vuRegs (vuISWR i t) i) = zero (vuRegs t i)"
  by (simp_all add: vuLQ_def vuLQD_def vuSQ_def vuILW_def vuISW_def vuILWR_def vuISWR_def Let_def zero_load_It)

lemma zero_steps:
  "zero (vuRegs (vuLQI i t) i) = (if vFs (vuRegs t i) = 16 then count0 1 (zero (vuRegs t i)) else zero (vuRegs t i))"
  "zero (vuRegs (vuSQI i t) i) = (if vFt (vuRegs t i) = 16 then count0 1 (zero (vuRegs t i)) else zero (vuRegs t i))"
  "zero (vuRegs (vuSQD i t) i) = (if vFt (vuRegs t i) = 16 then count0 (- 1) (zero (vuRegs t i)) else zero (vuRegs t i))"
proof -
  have VI: "VI w 0 = VI v 0" if "zero w = zero v" for v w using that by (simp add: zero_def)
  have c: "zero (wVI16 0 (VI16 w 0 + d) w) = count0 d (zero v)" "zero (wVI16 0 (VI16 w 0 - 1) w) = count0 (- 1) (zero v)"
    if "zero w = zero v" for d v w
    using that zero_count0 [of w w d] zero_count0 [of w w "- 1"] by simp_all
  show "zero (vuRegs (vuLQI i t) i) = (if vFs (vuRegs t i) = 16 then count0 1 (zero (vuRegs t i)) else zero (vuRegs t i))"
    "zero (vuRegs (vuSQI i t) i) = (if vFt (vuRegs t i) = 16 then count0 1 (zero (vuRegs t i)) else zero (vuRegs t i))"
    "zero (vuRegs (vuSQD i t) i) = (if vFt (vuRegs t i) = 16 then count0 (- 1) (zero (vuRegs t i)) else zero (vuRegs t i))"
    by (simp_all add: vuLQI_def vuSQD_def vuSQI_def Let_def vIs_def vIt_def field_16 c)
qed

lemma zero_UPPER_OPCODE [simp]: "zero (fst (UPPER_OPCODE ! unat ((c :: u32) AND 0x3f)) h v) = zero v"
  by (rule all_upper) (auto simp: upper_tables upper_instrs MI_unknown_U_def)


section \<open>Stalls and pipelines\<close>

lemma zero_stall_to [simp]: "zero (stall_to t s) = zero s"
  by (simp add: stall_to_def)

lemma zero_stalls [simp]: "zero (fmac_stalls n p r m s) = zero s" "zero (ialu_stalls n p r s) = zero s"
  by (induction n arbitrary: p s) (simp_all add: Let_def)

lemma zero_tests [simp]: "zero (vuTestUpperStalls n s) = zero s" "zero (vuTestLowerStalls n s) = zero s"
  by (simp_all add: vuTestUpperStalls_def vuTestLowerStalls_def vuTestFMACStalls_def vuFMACTestStall_def vuTestFDIVStalls_def
      vuTestEFUStalls_def vuTestALUStalls_def Let_def split: VUPipeState.split)

lemma zero_retire [simp]:
  "zero (fmac_retire f s) = zero s" "zero (fdiv_retire s) = zero s" "zero (efu_retire s) = zero s" "zero (fmac_pop s) = zero s"
  "zero (ialu_pop s) = zero s" "zero (wait_until a b s) = zero s"
  by (simp_all add: fmac_retire_def fdiv_retire_def efu_retire_def fmac_pop_def ialu_pop_def wait_until_def Let_def)

lemma zero_flushes [simp]: "zero (snd (vuFMACflush_n n s)) = zero s" "zero (snd (vuIALUflush_n n s)) = zero s"
  "zero (fmac_flush_all n s) = zero s" "zero (ialu_flush_all n s) = zero s"
  by (induction n arbitrary: s) (simp_all add: Let_def)

lemma zero_flush_once [simp]: "zero (snd (vuFlush_once s)) = zero s"
  by (simp add: vuFlush_once_def vuFMACflush_def vuFDIVflush_def vuEFUflush_def vuIALUflush_def prod.case_eq_if)

lemma zero_flush_loop [simp]: "zero (vuFlush_loop s) = zero s"
proof (induction s rule: vuFlush_loop.induct)
  case (1 s)
  have "fst (vuFlush_once s) \<Longrightarrow> zero (vuFlush_loop (snd (vuFlush_once s))) = zero (snd (vuFlush_once s))"
    by (rule "1.IH" [OF prod.collapse])
  then show ?case by (subst vuFlush_loop.simps) (simp add: prod.case_eq_if)
qed

lemma zero_bookkeeping [simp]:
  "zero (vuFlushAll s) = zero s" "zero (age_backup b s) = zero s" "zero (exchange a r w s) = zero s" "zero (pair_pipes u l s) = zero s"
  "zero (fmac_advance u l s) = zero s" "(\<And>v. zero (clear v) = zero v) \<Longrightarrow> zero (branch_step clear s) = zero s"
  by (simp_all add: vuFlushAll_def age_backup_def fmac_advance_def branch_step_def Let_def)
    (simp_all add: exchange_def zero_def Let_def pair_pipes_def vuAddLowerStalls_def vuAddUpperStalls_def vuClearFMAC_def vuAddFMACStalls_def
      vuAddFDIVStalls_def vuAddEFUStalls_def vuAddIALUStalls_def vuFDIVAdd_def vuEFUAdd_def split: VUPipeState.split)

section \<open>The codes that count \<open>VI[0]\<close>\<close>

text \<open>\<open>LQI\<close>, \<open>SQI\<close> and \<open>SQD\<close>, when the field of the address register is 16.\<close>

definition vi0_step :: "u32 \<Rightarrow> u16 option" where
  "vi0_step lo =
     (if drop_bit 25 lo = 0x40 \<and> lo AND 0x7ff = 0x37C \<and> drop_bit 11 lo AND 0x1F = 16 then Some 1
      else if drop_bit 25 lo = 0x40 \<and> lo AND 0x7ff = 0x37D \<and> drop_bit 16 lo AND 0x1F = 16 then Some 1
      else if drop_bit 25 lo = 0x40 \<and> lo AND 0x7ff = 0x37F \<and> drop_bit 16 lo AND 0x1F = 16 then Some (- 1)
      else None)"

definition stepped :: "u32 \<Rightarrow> VECTOR \<times> u32 \<Rightarrow> VECTOR \<times> u32" where
  "stepped lo z = (case vi0_step lo of None \<Rightarrow> z | Some d \<Rightarrow> count0 d z)"

text \<open>The calls of the graphics interface leave the registers of the second unit alone.\<close>

definition gif_frame :: "'a vu_sys_scheme vu_env \<Rightarrow> bool" where
  "gif_frame env \<longleftrightarrow> (\<forall>a f n s. vuRegs (snd (GetGSPacketSize env a f s)) VU1 = vuRegs s VU1 \<and>
     vuRegs (TransferGSPacketData env a n s) VU1 = vuRegs s VU1)"

lemma vuRegs_CPU_INT [simp]: "vuRegs (CPU_INT n d s) = vuRegs s"
  by (simp add: CPU_INT_def break_iop_def cpuSetNextEventDelta_def cpuSetNextEvent_def Let_def)

lemma zero_kick [simp]:
  "zero (v\<lparr>xgkickenable := b\<rparr>) = zero v" "zero (v\<lparr>xgkickaddr := a\<rparr>) = zero v" "zero (v\<lparr>xgkickdiff := a\<rparr>) = zero v"
  "zero (v\<lparr>xgkicksizeremaining := a\<rparr>) = zero v" "zero (v\<lparr>xgkickendpacket := b\<rparr>) = zero v"
  "zero (v\<lparr>xgkicklastcycle := a\<rparr>) = zero v" "zero (v\<lparr>xgkickcyclecount := a\<rparr>) = zero v"
  by (simp_all add: zero_def)

lemma zero_wVPU_STAT [simp]: "zero (vuRegs (wVPU_STAT x s) i) = zero (vuRegs s i)"
  by (simp add: wVPU_STAT_def)

lemma zero_xgkick_finish [simp]: "zero (vuRegs (xgkick_finish s) VU1) = zero (vuRegs s VU1)"
  by (simp add: xgkick_finish_def Let_def)

lemma zero_xgkick_move:
  assumes "gif_frame env" shows "zero (vuRegs (xgkick_move env f s) VU1) = zero (vuRegs s VU1)"
  using assms by (simp add: xgkick_move_def Let_def gif_frame_def)

lemma zero_xgkick_tag:
  assumes "gif_frame env" shows "zero (vuRegs (snd (xgkick_tag env f s)) VU1) = zero (vuRegs s VU1)"
proof -
  have "zero (vuRegs (snd (GetGSPacketSize env a f s)) VU1) = zero (vuRegs s VU1)" for a using assms by (simp add: gif_frame_def)
  then show ?thesis by (simp add: xgkick_tag_def Let_def split: prod.splits) (metis snd_conv)
qed

lemma zero_xgkick_loop:
  assumes g: "gif_frame env"
  shows "xgkick_loop n env f s = Some t \<Longrightarrow> zero (vuRegs t VU1) = zero (vuRegs s VU1)"
proof (induction n arbitrary: s)
  case (Suc n)
  have tag: "zero (vuRegs s1 VU1) = zero (vuRegs s VU1)" if "xgkick_tag env f s = (b, s1)" for b s1
    using zero_xgkick_tag [OF g, of f s] that by simp
  show ?case
    using Suc.prems Suc.IH zero_xgkick_move [OF g]
    by (auto split: if_splits prod.splits dest: tag dest!: Suc.IH simp: zero_xgkick_move [OF g])
qed simp


lemma zero_kick_pipes:
  assumes g: "gif_frame env"
  shows "(XGKICKTransfer_n n env c f s = Some t \<longrightarrow> zero (vuRegs t VU1) = zero (vuRegs s VU1)) \<and>
    (TestPipes_n n env VU1 s' = Some t' \<longrightarrow> zero (vuRegs t' VU1) = zero (vuRegs s' VU1))"
proof (induction n arbitrary: c f s t s' t')
  case (Suc n)
  note kick = Suc.IH [THEN conjunct1, rule_format] and pipes = Suc.IH [THEN conjunct2, rule_format]
  show ?case
    by (auto simp: Let_def split: if_splits option.splits dest!: kick pipes zero_xgkick_loop [OF g])
qed simp

lemma zero_TestPipes:
  assumes "i = VU1 \<longrightarrow> gif_frame env" "vuTestPipes env i s = Some t"
  shows "zero (vuRegs t i) = zero (vuRegs s i)"
proof (cases i)
  case VU0
  then show ?thesis using assms(2) by (cases "vu_fuel env") (auto simp: vuTestPipes_def)
next
  case VU1
  then show ?thesis using assms zero_kick_pipes by (metis vuTestPipes_def)
qed

lemma zero_vuXGKICK:
  assumes "gif_frame env" "vuXGKICK env s = Some t"
  shows "zero (vuRegs t VU1) = zero (vuRegs s VU1)"
proof -
  have start: "zero (vuRegs (xgkick_start u) VU1) = zero (vuRegs u VU1)" for u :: "'a vu_sys_scheme"
    by (simp add: xgkick_start_def Let_def)
  show ?thesis
    using assms(2) zero_kick_pipes [OF assms(1)]
    by (auto simp: vuXGKICK_def vuXGKICKTransfer_def start split: if_splits)
qed

section \<open>The tables\<close>

lemma nth_enumerate:
  assumes "list_all (\<lambda>(k, p). Q k p) (List.enumerate 0 xs)" and "n < length xs"
  shows "Q n (xs ! n)"
  using assms by (auto simp: list_all_iff in_set_enumerate_eq)

definition keeps_zero :: "'a vu_sys_scheme vu_env \<Rightarrow> vu_idx \<Rightarrow> 'a vu_sys_scheme vu_lower \<Rightarrow> bool" where
  "keeps_zero env i p \<longleftrightarrow> (\<forall>s t. fst p env i s = Some t \<longrightarrow> zero (vuRegs t i) = zero (vuRegs s i))"

lemma T3_tables:
  assumes g: "i = VU1 \<longrightarrow> gif_frame env"
  shows "list_all (\<lambda>(k, p). if k = 13 then p = MI_LQI else keeps_zero env i p) (List.enumerate 0 LowerOP_T3_00_OPCODE)"
    "list_all (\<lambda>(k, p). if k = 13 then p = MI_SQI else keeps_zero env i p) (List.enumerate 0 LowerOP_T3_01_OPCODE)"
    "list_all (\<lambda>(k, p). keeps_zero env i p) (List.enumerate 0 LowerOP_T3_10_OPCODE)"
    "list_all (\<lambda>(k, p). if k = 13 then p = MI_SQD else keeps_zero env i p) (List.enumerate 0 LowerOP_T3_11_OPCODE)"
  by (simp_all add: lower_tables keeps_zero_def lower_instrs vuXITOP_def vuXTOP_def) (use zero_vuXGKICK g in blast)

lemma Lower_tables:
  "list_all (\<lambda>(k, p). if k = 60 then p = LowerOP_T3_00 else if k = 61 then p = LowerOP_T3_01 else if k = 62 then p = LowerOP_T3_10
     else if k = 63 then p = LowerOP_T3_11 else keeps_zero env i p) (List.enumerate 0 LowerOP_OPCODE)"
  "list_all (\<lambda>(k, p). if k = 64 then p = LowerOP else keeps_zero env i p) (List.enumerate 0 LOWER_OPCODE)"
  by (simp_all add: lower_tables keeps_zero_def lower_instrs vuXITOP_def vuXTOP_def)

text \<open>A code of eleven bits as the index of a table and of the table in it.\<close>

lemma low_11_bits: "(c :: u32) AND 0x7ff = push_bit 6 (drop_bit 6 c AND 0x1f) OR (c AND 0x3f)"
proof -
  have "c AND 0x7ff = take_bit 11 c" "drop_bit 6 c AND 0x1f = take_bit 5 (drop_bit 6 c)" "c AND 0x3f = take_bit 6 c"
    by (simp_all add: take_bit_eq_mask mask_numeral)
  moreover have "take_bit 11 c = push_bit 6 (take_bit 5 (drop_bit 6 c)) OR take_bit 6 c"
    by (rule bit_word_eqI) (auto simp: bit_simps)
  ultimately show ?thesis by simp
qed

lemma sub_13: "op_sub c = 13 \<longleftrightarrow> drop_bit 6 c AND 0x1f = (13 :: u32)"
  by (auto simp: op_sub_def word_unat_eq_iff)

lemma code_parts:
  "(c :: u32) AND 0x7ff = 0x37C \<longleftrightarrow> unat (c AND 0x3f) = 60 \<and> op_sub c = 13"
  "(c :: u32) AND 0x7ff = 0x37D \<longleftrightarrow> unat (c AND 0x3f) = 61 \<and> op_sub c = 13"
  "(c :: u32) AND 0x7ff = 0x37F \<longleftrightarrow> unat (c AND 0x3f) = 63 \<and> op_sub c = 13"
proof -
  have u: "unat (c AND 0x3f) = 60 \<longleftrightarrow> c AND 0x3f = 0x3c" "unat (c AND 0x3f) = 61 \<longleftrightarrow> c AND 0x3f = 0x3d"
    "unat (c AND 0x3f) = 63 \<longleftrightarrow> c AND 0x3f = 0x3f"
    by (simp_all add: word_unat_eq_iff)
  have down: "c AND 0x3f = v AND 0x3f \<and> drop_bit 6 c AND 0x1f = drop_bit 6 v AND 0x1f" if "c AND 0x7ff = v" for v
  proof -
    have "(c AND 0x7ff) AND 0x3f = c AND 0x3f" "drop_bit 6 (c AND 0x7ff) AND 0x1f = drop_bit 6 c AND 0x1f"
      by (simp_all add: and.assoc drop_bit_and)
    then show ?thesis by (simp only: that)
  qed
  have up: "c AND 0x7ff = push_bit 6 x OR y" if "c AND 0x3f = y" "drop_bit 6 c AND 0x1f = x" for x y
    using low_11_bits [of c] by (simp only: that)
  show "c AND 0x7ff = 0x37C \<longleftrightarrow> unat (c AND 0x3f) = 60 \<and> op_sub c = 13"
    unfolding u sub_13 using down [of "0x37C"] up [of "0x3c" 13] by auto
  show "c AND 0x7ff = 0x37D \<longleftrightarrow> unat (c AND 0x3f) = 61 \<and> op_sub c = 13"
    unfolding u sub_13 using down [of "0x37D"] up [of "0x3d" 13] by auto
  show "c AND 0x7ff = 0x37F \<longleftrightarrow> unat (c AND 0x3f) = 63 \<and> op_sub c = 13"
    unfolding u sub_13 using down [of "0x37F"] up [of "0x3f" 13] by auto
qed

lemma zero_LowerOP:
  fixes env :: "'a vu_sys_scheme vu_env"
  assumes g: "i = VU1 \<longrightarrow> gif_frame env" and e: "fst LowerOP env i s = Some t" and c: "vcode (vuRegs s i) = c"
  shows "zero (vuRegs t i) =
    (if c AND 0x7ff = 0x37C \<and> vFs (vuRegs s i) = 16 \<or> c AND 0x7ff = 0x37D \<and> vFt (vuRegs s i) = 16 then count0 1 (zero (vuRegs s i))
     else if c AND 0x7ff = 0x37F \<and> vFt (vuRegs s i) = 16 then count0 (- 1) (zero (vuRegs s i))
     else zero (vuRegs s i))"
proof -
  let ?k = "unat (c AND 0x3f)" and ?j = "op_sub c"
  have x: "fst (LowerOP_OPCODE ! ?k) env i s = Some t" using e c by (simp add: LowerOP_def)
  let ?low = "LowerOP_OPCODE ! ?k :: 'a vu_sys_scheme vu_lower"
  let ?t0 = "LowerOP_T3_00_OPCODE ! ?j :: 'a vu_sys_scheme vu_lower" and ?t1 = "LowerOP_T3_01_OPCODE ! ?j :: 'a vu_sys_scheme vu_lower"
    and ?t2 = "LowerOP_T3_10_OPCODE ! ?j :: 'a vu_sys_scheme vu_lower" and ?t3 = "LowerOP_T3_11_OPCODE ! ?j :: 'a vu_sys_scheme vu_lower"
  have L: "if ?k = 60 then ?low = LowerOP_T3_00 else if ?k = 61 then ?low = LowerOP_T3_01 else if ?k = 62 then ?low = LowerOP_T3_10
      else if ?k = 63 then ?low = LowerOP_T3_11 else keeps_zero env i ?low"
    using nth_enumerate [OF Lower_tables(1) [of env i], of ?k] unfolding length_lower_tables by (simp only: and_63_less True_implies_equals)
  have T: "if ?j = 13 then ?t0 = MI_LQI else keeps_zero env i ?t0" "if ?j = 13 then ?t1 = MI_SQI else keeps_zero env i ?t1"
    "keeps_zero env i ?t2" "if ?j = 13 then ?t3 = MI_SQD else keeps_zero env i ?t3"
    using T3_tables [OF g, THEN nth_enumerate, where n = ?j] unfolding length_lower_tables by (simp_all only: op_sub_less True_implies_equals)
  have t3: "fst LowerOP_T3_00 env i s = fst (LowerOP_T3_00_OPCODE ! ?j) env i s"
    "fst LowerOP_T3_01 env i s = fst (LowerOP_T3_01_OPCODE ! ?j) env i s"
    "fst LowerOP_T3_10 env i s = fst (LowerOP_T3_10_OPCODE ! ?j) env i s"
    "fst LowerOP_T3_11 env i s = fst (LowerOP_T3_11_OPCODE ! ?j) env i s"
    using c by (simp_all add: LowerOP_T3_00_def LowerOP_T3_01_def LowerOP_T3_10_def LowerOP_T3_11_def)
  have k: "keeps_zero env i p \<Longrightarrow> fst p env i s = Some t \<Longrightarrow> zero (vuRegs t i) = zero (vuRegs s i)" for p
    by (simp add: keeps_zero_def)
  note m = MI_LQI_def MI_SQI_def MI_SQD_def fst_conv option.inject
  consider "?k = 60" | "?k = 61" | "?k = 62" | "?k = 63" | "?k \<noteq> 60" "?k \<noteq> 61" "?k \<noteq> 62" "?k \<noteq> 63" by blast
  then show ?thesis
  proof cases
    case 1
    then have e1: "fst (LowerOP_T3_00_OPCODE ! ?j) env i s = Some t" using x L t3(1) by simp
    show ?thesis
      using T(1) e1 k [OF _ e1] 1 by (cases "?j = 13") (auto simp: code_parts m zero_steps)
  next
    case 2
    then have e1: "fst (LowerOP_T3_01_OPCODE ! ?j) env i s = Some t" using x L t3(2) by simp
    show ?thesis
      using T(2) e1 k [OF _ e1] 2 by (cases "?j = 13") (auto simp: code_parts m zero_steps)
  next
    case 3
    then have e1: "fst (LowerOP_T3_10_OPCODE ! ?j) env i s = Some t" using x L t3(3) by simp
    show ?thesis using T(3) k [OF _ e1] 3 by (simp add: code_parts)
  next
    case 4
    then have e1: "fst (LowerOP_T3_11_OPCODE ! ?j) env i s = Some t" using x L t3(4) by simp
    show ?thesis
      using T(4) e1 k [OF _ e1] 4 by (cases "?j = 13") (auto simp: code_parts m zero_steps)
  next
    case 5
    then show ?thesis using L k [OF _ x] by (simp add: code_parts)
  qed
qed

text \<open>The register fields of an instruction, as the lower instructions read them.\<close>

lemma ucast_16: "(ucast (x AND 0x1F :: u32) :: reg) = 16 \<longleftrightarrow> x AND 0x1F = 16"
proof
  assume a: "(ucast (x AND 0x1F) :: reg) = 16"
  have m: "take_bit 5 (x AND 0x1F) = x AND 0x1F" by (simp add: take_bit_eq_mask mask_numeral and.assoc)
  have "ucast (ucast (x AND 0x1F) :: reg) = take_bit 5 (x AND 0x1F)" by (simp add: unsigned_ucast_eq)
  then show "x AND 0x1F = 16" using a m by simp
qed simp

lemma zero_LOWER_OPCODE:
  fixes env :: "'a vu_sys_scheme vu_env"
  assumes g: "i = VU1 \<longrightarrow> gif_frame env" and c: "vcode (vuRegs s i) = lo"
    and e: "fst (LOWER_OPCODE ! unat (drop_bit 25 lo)) env i s = Some t"
  shows "zero (vuRegs t i) = stepped lo (zero (vuRegs s i))"
proof -
  let ?k = "unat (drop_bit 25 lo)" and ?op = "LOWER_OPCODE ! unat (drop_bit 25 lo) :: 'a vu_sys_scheme vu_lower"
  have L: "if ?k = 64 then ?op = LowerOP else keeps_zero env i ?op"
    using nth_enumerate [OF Lower_tables(2) [of env i], of ?k] unfolding length_lower_tables by (simp only: drop_25_less True_implies_equals)
  have k: "?k = 64 \<longleftrightarrow> drop_bit 25 lo = 0x40" by (auto simp: word_unat_eq_iff)
  have f: "vFs (vuRegs s i) = 16 \<longleftrightarrow> drop_bit 11 lo AND 0x1F = 16" "vFt (vuRegs s i) = 16 \<longleftrightarrow> drop_bit 16 lo AND 0x1F = 16"
    using c by (simp_all add: vFs_def vFt_def ucast_16)
  show ?thesis
  proof (cases "?k = 64")
    case True
    then have "fst LowerOP env i s = Some t" using L e by simp
    from zero_LowerOP [OF g this c] show ?thesis
      using True k by (auto simp: stepped_def vi0_step_def f)
  next
    case False
    then have "zero (vuRegs t i) = zero (vuRegs s i)" using L e by (simp add: keeps_zero_def)
    then show ?thesis using False k by (simp add: stepped_def vi0_step_def)
  qed
qed

section \<open>A step\<close>

lemma zero_ExecUpper [simp]: "zero (vuRegs (vuExecUpper env i up s) i) = zero (vuRegs s i)"
  by (simp add: vuExecUpper_def)

lemma zero_ExecPair:
  assumes g: "i = VU1 \<longrightarrow> gif_frame env" and e: "vuExecPair env i clip u l up lo s = Some t"
  shows "zero (vuRegs t i) \<in> {zero (vuRegs s i), stepped lo (zero (vuRegs s i))}"
proof (cases "pair_discard clip u l")
  case False
  let ?x = "exchange (pair_vfreg u l) (pair_vireg clip l)"
  let ?s1 = "vuExecUpper env i up s"
  let ?s2 = "on_vu i (\<lambda>v. v\<lparr>vcode := lo\<rparr>) (on_vu i (?x (vuRegs s i)) ?s1)"
  obtain r where r: "fst (LOWER_OPCODE ! unat (drop_bit 25 lo)) env i ?s2 = Some r" "t = on_vu i (?x (vuRegs ?s1 i)) r"
    using False e by (auto simp: vuExecPair_def vuExecLower_def Let_def)
  have "vcode (vuRegs ?s2 i) = lo" by simp
  from zero_LOWER_OPCODE [OF g this r(1)] show ?thesis using r(2) by simp
next
  case True
  then have "t = vuExecUpper env i up s" using e by (simp add: vuExecPair_def Let_def)
  then show ?thesis by simp
qed

lemma zero_RunPair:
  assumes g: "i = VU1 \<longrightarrow> gif_frame env" and r: "vuRunPair env i clip up lo s = Some (u, l, t)"
  shows "zero (vuRegs t i) = zero (vuRegs s i) \<or> \<not> bit up 31 \<and> zero (vuRegs t i) = stepped lo (zero (vuRegs s i))"
  using r
  by (auto simp: vuRunPair_def Let_def split: if_splits option.splits dest!: zero_TestPipes [OF g] zero_ExecPair [OF g])

lemma zero_flags [simp]: "zero (vuRegs (vu0_flags up s) VU0) = zero (vuRegs s VU0)" "zero (vuRegs (vu1_flags up s) VU1) = zero (vuRegs s VU1)"
  by (simp_all add: vu0_flags_def vu1_flags_def Let_def)

lemma zero_ebit_step:
  assumes "\<And>s t. finish s = Some t \<Longrightarrow> zero (vuRegs t i) = zero (vuRegs s i)" "ebit_step i finish s = Some t"
  shows "zero (vuRegs t i) = zero (vuRegs s i)"
  using assms(2) by (auto simp: ebit_step_def Let_def split: if_splits dest!: assms(1))

lemma zero_finish:
  "vu0_finish s = Some t \<Longrightarrow> zero (vuRegs t VU0) = zero (vuRegs s VU0)"
  "gif_frame env \<Longrightarrow> vu1_finish env s = Some t \<Longrightarrow> zero (vuRegs t VU1) = zero (vuRegs s VU1)"
proof -
  show "vu0_finish s = Some t \<Longrightarrow> zero (vuRegs t VU0) = zero (vuRegs s VU0)"
    by (auto simp: vu0_finish_def Let_def)
  assume g: "gif_frame env" and f: "vu1_finish env s = Some t"
  let ?s1 = "wVPU_STAT (VPU_STAT s AND NOT 0x100) s"
  let ?s2 = "wHu32 VIF1_STAT (psHu32 VIF1_STAT ?s1 AND NOT 0x4) ?s1"
  obtain r where r: "(if xgkickenable (vuRegs ?s2 VU1) then vuXGKICKTransfer env 0 True ?s2 else Some ?s2) = Some r"
    and t: "t = (if INSTANT_VU1 env then on_vu VU1 (\<lambda>v. v\<lparr>xgkicklastcycle := cycle r\<rparr>) r else r)"
    using f unfolding vu1_finish_def Let_def by (auto simp only: map_option_eq_Some)
  have "zero (vuRegs r VU1) = zero (vuRegs ?s2 VU1)"
    using r zero_kick_pipes [OF g, THEN conjunct1, rule_format, of "vu_fuel env" 0 True ?s2 r]
    unfolding vuXGKICKTransfer_def by (cases "xgkickenable (vuRegs ?s2 VU1)") simp_all
  then show "zero (vuRegs t VU1) = zero (vuRegs s VU1)" using t by simp
qed

lemma micro_word_TPC [simp]: "micro_word a k (wVI r x v) = micro_word a k v" "micro_word a k (v\<lparr>vcycle := c\<rparr>) = micro_word a k v"
  by (simp_all add: micro_word_def wVI_def)

lemma vu0Exec_zero:
  assumes s: "vu0Exec env s = Some t" and tpc: "tpc = VI (vuRegs s VU0) REG_TPC AND VU0_PROGMASK"
  shows "zero (vuRegs t VU0) = zero (vuRegs s VU0) \<or> \<not> bit (micro_word tpc 1 (vuRegs s VU0)) 31 \<and>
    zero (vuRegs t VU0) = stepped (micro_word tpc 0 (vuRegs s VU0)) (zero (vuRegs s VU0))"
proof -
  let ?s0 = "on_vu VU0 (\<lambda>v. (wVI REG_TPC (VI v REG_TPC AND VU0_PROGMASK) v)\<lparr>vcycle := vcycle v + 1\<rparr>) s"
  let ?up = "micro_word tpc 1 (vuRegs s VU0)" and ?lo = "micro_word tpc 0 (vuRegs s VU0)"
  have p: "VI (vuRegs ?s0 VU0) REG_TPC = tpc" "micro_word a k (vuRegs ?s0 VU0) = micro_word a k (vuRegs s VU0)" for a k
    by (simp_all add: micro_word_TPC) (simp add: wVI_def tpc)
  obtain u l s2 r where run: "vuRunPair env VU0 (\<lambda>u. bit (VIread u) 18) ?up ?lo
        (vu0_flags ?up (on_vu VU0 (wVI REG_TPC (tpc + 8)) ?s0)) = Some (u, l, s2)"
    and e: "ebit_step VU0 vu0_finish (on_vu VU0 (\<lambda>v. branch_step (\<lambda>v. v\<lparr>vblockhasmbit := False\<rparr>) (pair_pipes u l v)) s2) = Some r"
    and t: "t = on_vu VU0 (fmac_advance u l) r"
    using s unfolding vu0Exec_def vu0_Exec_def Let_def p by (auto split: option.splits)
  have "zero (vuRegs t VU0) = zero (vuRegs s2 VU0)"
    using zero_ebit_step [OF zero_finish(1) e] t by simp
  then show ?thesis using zero_RunPair [OF _ run] by simp
qed

lemma vu1Step_zero:
  assumes g: "gif_frame env" and s: "vu1Step env s = Some t" and tpc: "tpc = VI (vuRegs s VU1) REG_TPC AND VU1_PROGMASK"
  shows "zero (vuRegs t VU1) = zero (vuRegs s VU1) \<or> \<not> bit (micro_word tpc 1 (vuRegs s VU1)) 31 \<and>
    zero (vuRegs t VU1) = stepped (micro_word tpc 0 (vuRegs s VU1)) (zero (vuRegs s VU1))"
proof -
  let ?s0 = "on_vu VU1 (\<lambda>v. v\<lparr>vcycle := vcycle v + 1\<rparr>) (on_vu VU1 (\<lambda>v. wVI REG_TPC (VI v REG_TPC AND VU1_PROGMASK) v) s)"
  let ?up = "micro_word tpc 1 (vuRegs s VU1)" and ?lo = "micro_word tpc 0 (vuRegs s VU1)"
  have p: "VI (vuRegs ?s0 VU1) REG_TPC = tpc" "micro_word a k (vuRegs ?s0 VU1) = micro_word a k (vuRegs s VU1)" for a k
    by (simp_all add: micro_word_TPC) (simp add: wVI_def tpc)
  obtain u l s2 r where run: "vuRunPair env VU1 (\<lambda>u. bit (VIwrite u) 18) ?up ?lo
        (vu1_flags ?up (on_vu VU1 (wVI REG_TPC (tpc + 8)) ?s0)) = Some (u, l, s2)"
    and e: "ebit_step VU1 (vu1_finish env) (on_vu VU1 (\<lambda>v. branch_step (\<lambda>v. v) (pair_pipes u l v)) s2) = Some r"
    and t: "t = on_vu VU1 (fmac_advance u l) r"
    using s unfolding vu1Step_def vu1Exec_def vu1_Exec_def Let_def p by (auto split: option.splits)
  have "zero (vuRegs t VU1) = zero (vuRegs s2 VU1)"
    using zero_ebit_step [OF zero_finish(2) [OF g] e] t by simp
  then show ?thesis using zero_RunPair [OF _ run] g by simp
qed

end
