(* ===== verification/Vu_Spec.thy ===== *)
theory Vu_Spec
  imports Vu_Zero
begin

text \<open>
  What the vector units promise: a step of the first one returns and keeps its pipelines in order,
  running a program returns, the constant registers stay constant, an FMAC instruction computes its
  lanes at once, its flags appear when its entry retires, and the two instructions of a pair read
  their operands before either writes.
\<close>

unbundle bit_operations_syntax

section \<open>Running a program\<close>

lemma take_branch_wf [simp]: "vu_wf (take_branch v) = vu_wf v"
proof -
  have "pipes (take_branch v) = pipes v" by (simp add: take_branch_def)
  then show ?thesis by (rule pipes_cong)
qed

lemma take_branch_cycle [simp]: "vcycle (take_branch v) = vcycle v"
  by (simp add: take_branch_def wVI_def)

lemma take_branch_flags [simp]: "VI (take_branch v) REG_VPU_STAT = VI v REG_VPU_STAT" "vflags (take_branch v) = vflags v"
  by (simp_all add: take_branch_def wVI_def)

text \<open>Why the loop has ended: the time is up, or the program has, or it has met the M flag.\<close>

definition vu0_ended :: "u32 \<Rightarrow> u32 \<Rightarrow> 'a vu_sys_scheme \<Rightarrow> bool" where
  "vu0_ended start cycles s \<longleftrightarrow>
     cycles \<le> vcycle (vuRegs s VU0) - start \<or> \<not> bit (VPU_STAT s) 0 \<or> bit (vflags (vuRegs s VU0)) 1"

lemma vu0_loop_returns:
  assumes env: "vu_fuel env \<noteq> 0" "rn_pipe (stack_lregs env) \<noteq> VUPIPE_EFU"
    and room: "unat start + unat cycles + 240 < 2 ^ 32"
  shows "vu_wf (vuRegs s VU0) \<Longrightarrow> unat start \<le> unat (vcycle (vuRegs s VU0)) \<Longrightarrow>
    unat (vcycle (vuRegs s VU0)) < unat start + unat cycles + 110 \<Longrightarrow>
    unat start + unat cycles - unat (vcycle (vuRegs s VU0)) < n \<Longrightarrow>
    \<exists>t. vu0_loop n env start cycles s = Some t \<and> vu_wf (vuRegs t VU0) \<and> vu0_ended start cycles t \<and>
      unat (vcycle (vuRegs t VU0)) < unat start + unat cycles + 110"
proof (induction n arbitrary: s)
  case (Suc n)
  let ?v = "vuRegs s VU0"
  have sub: "unat (vcycle ?v - start) = unat (vcycle ?v) - unat start" using Suc.prems(2) by (simp add: unat_sub word_le_nat_alt)
  consider (time) "\<not> vcycle ?v - start < cycles" | (stop) "vcycle ?v - start < cycles" "\<not> bit (VPU_STAT s) 0"
    | (mflag) "vcycle ?v - start < cycles" "bit (VPU_STAT s) 0" "bit (vflags ?v) 1"
    | (run) "vcycle ?v - start < cycles" "bit (VPU_STAT s) 0" "\<not> bit (vflags ?v) 1" by blast
  then show ?case
  proof cases
    case time
    then show ?thesis using Suc.prems by (simp add: vu0_ended_def not_less)
  next
    case stop
    then show ?thesis using Suc.prems by (auto simp: vu0_ended_def VPU_STAT_def)
  next
    case mflag
    then show ?thesis using Suc.prems by (simp add: vu0_ended_def)
  next
    case run
    have lt: "unat (vcycle ?v) < unat start + unat cycles" using run(1) sub Suc.prems(2) by (simp add: word_less_nat_alt)
    then obtain t where t: "vu0Exec env s = Some t" "vu_wf (vuRegs t VU0)" "unat (vcycle ?v) < unat (vcycle (vuRegs t VU0))"
      "unat (vcycle (vuRegs t VU0)) \<le> unat (vcycle ?v) + 109"
      using vu0Exec_step [OF env Suc.prems(1)] room by auto
    have "\<exists>r. vu0_loop n env start cycles t = Some r \<and> vu_wf (vuRegs r VU0) \<and> vu0_ended start cycles r \<and>
        unat (vcycle (vuRegs r VU0)) < unat start + unat cycles + 110"
      by (rule Suc.IH [OF t(2)]) (use t(3,4) lt Suc.prems in linarith)+
    then show ?thesis using run t(1) by simp
  qed
qed simp

section \<open>Multiply-add instructions\<close>

text \<open>The stored value of a result, and the four conditions its lane reports.\<close>

definition mac_value :: "vu_host \<Rightarrow> u32 \<Rightarrow> u32" where
  "mac_value h x =
     (if f_eq h x 0 then x
      else if drop_bit 23 x AND 0xff = 0 then x AND 0x80000000
      else if drop_bit 23 x AND 0xff = 255 \<and> CHECK_VU_OVERFLOW h then (x AND 0x80000000) OR 0x7f7fffff
      else x)"
definition mac_zero :: "vu_host \<Rightarrow> u32 \<Rightarrow> bool" where "mac_zero h x \<longleftrightarrow> f_eq h x 0 \<or> drop_bit 23 x AND 0xff = 0"
definition mac_underflow :: "vu_host \<Rightarrow> u32 \<Rightarrow> bool" where
  "mac_underflow h x \<longleftrightarrow> \<not> f_eq h x 0 \<and> drop_bit 23 x AND 0xff = 0"
definition mac_overflow :: "vu_host \<Rightarrow> u32 \<Rightarrow> bool" where
  "mac_overflow h x \<longleftrightarrow> \<not> f_eq h x 0 \<and> drop_bit 23 x AND 0xff = 255"

text \<open>The flags of a lane: zero, sign, underflow, overflow.\<close>

definition lane_flags :: "VURegs \<Rightarrow> vlane \<Rightarrow> bool \<times> bool \<times> bool \<times> bool" where
  "lane_flags v l =
     (bit (vmacflag v) (lane_shift l), bit (vmacflag v) (lane_shift l + 4), bit (vmacflag v) (lane_shift l + 8),
      bit (vmacflag v) (lane_shift l + 12))"

definition mac_flags :: "vu_host \<Rightarrow> u32 \<Rightarrow> bool \<times> bool \<times> bool \<times> bool" where
  "mac_flags h x = (mac_zero h x, bit x 31, mac_underflow h x, mac_overflow h x)"

lemma MAC_UPDATE_value: "fst (VU_MAC_UPDATE h n x v) = mac_value h x"
  by (simp add: VU_MAC_UPDATE_def mac_value_def Let_def)

lemma and_sign: "(x :: u32) AND 0x80000000 \<noteq> 0 \<longleftrightarrow> bit x 31"
  using and_exp_eq_0_iff_not_bit [of x 31] by simp

lemma MAC_UPDATE_flags:
  "lane_flags (snd (VU_MAC_UPDATE h (lane_shift l) x v)) k = (if k = l then mac_flags h x else lane_flags v k)"
  by (cases l; cases k)
    (simp_all add: VU_MAC_UPDATE_def lane_flags_def mac_flags_def mac_zero_def mac_underflow_def mac_overflow_def and_sign Let_def bit_simps)

lemma MAC_CLEAR_flags:
  "lane_flags (VU_MAC_CLEAR (lane_shift l) v) k = (if k = l then (False, False, False, False) else lane_flags v k)"
  by (cases l; cases k) (simp_all add: VU_MAC_CLEAR_def lane_flags_def bit_simps)

text \<open>
  The contract of the family: the selected lanes of the destination hold the stored values of the
  results \<open>x\<close>, every lane reports its flags, and the status flags sum them up.
\<close>

definition fmac_spec :: "vu_host \<Rightarrow> (vlane \<Rightarrow> u32) \<Rightarrow> VURegs \<Rightarrow> VURegs \<Rightarrow> bool" where
  "fmac_spec h x s t \<longleftrightarrow>
     (\<forall>r l. VF t r l = (if r = vFd s \<and> r \<noteq> 0 \<and> has_lane l s then mac_value h (x l) else VF s r l)) \<and>
     (\<forall>l. lane_flags t l = (if has_lane l s then mac_flags h (x l) else (False, False, False, False))) \<and>
     (bit (vstatusflag t) 0 \<longleftrightarrow> (\<exists>l. has_lane l s \<and> mac_zero h (x l))) \<and>
     (bit (vstatusflag t) 1 \<longleftrightarrow> (\<exists>l. has_lane l s \<and> bit (x l) 31)) \<and>
     (bit (vstatusflag t) 2 \<longleftrightarrow> (\<exists>l. has_lane l s \<and> mac_underflow h (x l))) \<and>
     (bit (vstatusflag t) 3 \<longleftrightarrow> (\<exists>l. has_lane l s \<and> mac_overflow h (x l)))"

lemma nibble_nonzero: "m AND push_bit n 0xF \<noteq> (0 :: u32) \<longleftrightarrow> n < 32 \<and> (\<exists>k < 4. n + k < 32 \<and> bit m (n + k))"
proof -
  have "bit (m AND push_bit n 0xF) j \<longleftrightarrow> j < 32 \<and> n \<le> j \<and> j - n < 4 \<and> bit m j" for j
    using bit_mask_iff [where 'a = u32, of 4 "j - n"] by (auto simp: bit_simps mask_numeral)
  then have "m AND push_bit n 0xF \<noteq> 0 \<longleftrightarrow> (\<exists>j. j < 32 \<and> n \<le> j \<and> j - n < 4 \<and> bit m j)"
    by (metis bit_eq_iff bit_0_eq bot_apply bot_bool_def)
  also have "\<dots> \<longleftrightarrow> n < 32 \<and> (\<exists>k < 4. n + k < 32 \<and> bit m (n + k))"
    by (auto intro: exI [of _ "j - n" for j] simp: le_add_diff_inverse)
  finally show ?thesis .
qed

lemma ex_lane: "(\<exists>l. P l) \<longleftrightarrow> P LX \<or> P LY \<or> P LZ \<or> P LW"
  by (metis vlane.exhaust)

lemma less_4: "(\<exists>k < (4 :: nat). P k) \<longleftrightarrow> P 0 \<or> P 1 \<or> P 2 \<or> P 3"
  by (simp add: numeral_eq_Suc less_Suc_eq) blast

lemma STAT_UPDATE_bits:
  "bit (vstatusflag (VU_STAT_UPDATE v)) 0 \<longleftrightarrow> (\<exists>l. fst (lane_flags v l))"
  "bit (vstatusflag (VU_STAT_UPDATE v)) 1 \<longleftrightarrow> (\<exists>l. fst (snd (lane_flags v l)))"
  "bit (vstatusflag (VU_STAT_UPDATE v)) 2 \<longleftrightarrow> (\<exists>l. fst (snd (snd (lane_flags v l))))"
  "bit (vstatusflag (VU_STAT_UPDATE v)) 3 \<longleftrightarrow> (\<exists>l. snd (snd (snd (lane_flags v l))))"
  using nibble_nonzero [of "vmacflag v" 0] nibble_nonzero [of "vmacflag v" 4] nibble_nonzero [of "vmacflag v" 8]
    nibble_nonzero [of "vmacflag v" 12]
  by (auto simp: VU_STAT_UPDATE_def lane_flags_def bit_simps ex_lane less_4)

lemma VU_STAT_UPDATE_frame [simp]: "VF (VU_STAT_UPDATE v) = VF v" "lane_flags (VU_STAT_UPDATE v) l = lane_flags v l"
  by (simp_all add: VU_STAT_UPDATE_def lane_flags_def)

text \<open>After the lanes \<open>D\<close>.\<close>

definition fmac_inv :: "vu_host \<Rightarrow> (vlane \<Rightarrow> u32) \<Rightarrow> VURegs \<Rightarrow> vlane set \<Rightarrow> VURegs \<Rightarrow> bool" where
  "fmac_inv h x s D v \<longleftrightarrow> vcode v = vcode s \<and> VACC v = VACC s \<and> VI v = VI s \<and>
     (\<forall>r l. VF v r l = (if r = vFd s \<and> r \<noteq> 0 \<and> has_lane l s \<and> l \<in> D then mac_value h (x l) else VF s r l)) \<and>
     (\<forall>l \<in> D. lane_flags v l = (if has_lane l s then mac_flags h (x l) else (False, False, False, False)))"

lemma MAC_UPDATE_frame:
  "VF (snd (VU_MAC_UPDATE h n x v)) = VF v" "vcode (snd (VU_MAC_UPDATE h n x v)) = vcode v"
  "VACC (snd (VU_MAC_UPDATE h n x v)) = VACC v" "VI (snd (VU_MAC_UPDATE h n x v)) = VI v"
  by (simp_all add: VU_MAC_UPDATE_def Let_def)

lemma lane_flags_wVF [simp]: "lane_flags (wVF r l x v) k = lane_flags v k"
  by (simp add: lane_flags_def wVF_def)

lemma fmac_inv_lane:
  assumes inv: "fmac_inv h x s D v" and l: "l \<notin> D" and f: "f l v = x l"
  shows "fmac_inv h x s (insert l D) (fmac_lane h wDst f l v)"
proof -
  have code: "vcode v = vcode s" using inv by (simp add: fmac_inv_def)
  have fd: "vFd w = vFd s" if "vcode w = vcode s" for w using that by (simp add: vFd_def)
  have hl: "has_lane k v = has_lane k s" for k using code by (simp add: has_lane_def)
  show ?thesis
  proof (cases "has_lane l s")
    case True
    let ?u = "snd (VU_MAC_UPDATE h (lane_shift l) (x l) v)"
    have e: "fmac_lane h wDst f l v = wDst l (mac_value h (x l)) ?u"
      using True hl f by (simp add: fmac_lane_def prod.case_eq_if MAC_UPDATE_value)
    have "vFd ?u = vFd s" by (rule fd) (simp add: MAC_UPDATE_frame code)
    then show ?thesis
      using inv l True by (auto simp: e fmac_inv_def wDst_def MAC_UPDATE_frame MAC_UPDATE_flags) (auto simp: wVF_def MAC_UPDATE_frame)
  next
    case False
    have e: "fmac_lane h wDst f l v = VU_MAC_CLEAR (lane_shift l) v" using False hl by (simp add: fmac_lane_def)
    show ?thesis using inv l False by (auto simp: e fmac_inv_def MAC_CLEAR_flags) (auto simp: VU_MAC_CLEAR_def)
  qed
qed

lemma fmac_Fd:
  assumes f: "\<And>l v. vcode v = vcode s \<Longrightarrow> VACC v = VACC s \<Longrightarrow> VI v = VI s \<Longrightarrow> (\<And>r. VF v r l = VF s r l) \<Longrightarrow> f l v = x l"
  shows "fmac_spec h x s (Vu_Upper.fmac h wDst f s)"
proof -
  have step: "fmac_inv h x s (insert l D) (fmac_lane h wDst f l v)" if "fmac_inv h x s D v" "l \<notin> D" for D l v
    by (rule fmac_inv_lane [OF that]) (rule f, use that in \<open>simp_all add: fmac_inv_def\<close>)
  have "fmac_inv h x s {} s" by (simp add: fmac_inv_def)
  then have "fmac_inv h x s {LX} (fmac_lane h wDst f LX s)" by (rule step) simp
  then have "fmac_inv h x s {LY, LX} (fmac_lane h wDst f LY (fmac_lane h wDst f LX s))" by (rule step) simp
  then have "fmac_inv h x s {LZ, LY, LX} (fmac_lane h wDst f LZ (fmac_lane h wDst f LY (fmac_lane h wDst f LX s)))" by (rule step) simp
  then have "fmac_inv h x s {LW, LZ, LY, LX}
      (fmac_lane h wDst f LW (fmac_lane h wDst f LZ (fmac_lane h wDst f LY (fmac_lane h wDst f LX s))))" by (rule step) simp
  moreover have "{LW, LZ, LY, LX} = UNIV" by (auto intro: vlane.exhaust)
  ultimately show ?thesis
    unfolding fmac_spec_def fmac_def STAT_UPDATE_bits by (auto simp: fmac_inv_def mac_flags_def)
qed

text \<open>The operands of a lane are not written by the lanes before it.\<close>

lemma operand_frame:
  "vcode v = vcode s \<Longrightarrow> (\<And>r. VF v r l = VF s r l) \<Longrightarrow> VDs h v l = VDs h s l"
  "vcode v = vcode s \<Longrightarrow> (\<And>r. VF v r l = VF s r l) \<Longrightarrow> VDt h v l = VDt h s l"
  "VACC v = VACC s \<Longrightarrow> VDacc h v l = VDacc h s l" "VI v = VI s \<Longrightarrow> VDq h v = VDq h s" "VI v = VI s \<Longrightarrow> VDi h v = VDi h s"
  by (simp_all add: VDs_def VDt_def VDacc_def VDq_def VDi_def vFs_def vFt_def)

section \<open>Pairs\<close>

lemma code_bits:
  assumes "lo AND 0x7ff = (0x33c :: u32)"
  shows "lo AND 0x3f = 0x3c" "drop_bit 6 lo AND 0x1f = 0xc"
proof -
  have "lo AND 0x3f = (lo AND 0x7ff) AND 0x3f" by (simp add: and.assoc)
  then show "lo AND 0x3f = 0x3c" using assms by simp
  have "drop_bit 6 lo AND 0x1f = drop_bit 6 (lo AND 0x7ff) AND 0x1f" by (rule bit_word_eqI) (auto simp: bit_simps)
  then show "drop_bit 6 lo AND 0x1f = 0xc" using assms by simp
qed

text \<open>The codes of \<open>ADD\<close> in the upper half and of \<open>MOVE\<close> in the lower half of a pair.\<close>

definition is_ADD :: "u32 \<Rightarrow> bool" where "is_ADD up \<longleftrightarrow> up AND 0x3f = 0x28"
definition is_MOVE :: "u32 \<Rightarrow> bool" where "is_MOVE lo \<longleftrightarrow> drop_bit 25 lo = 0x40 \<and> lo AND 0x7ff = 0x33c"

lemma upper_ADD: "is_ADD up \<Longrightarrow> UPPER_OPCODE ! unat (up AND 0x3f) = MI_ADD"
  by (simp add: is_ADD_def UPPER_OPCODE_def)

lemma lower_LowerOP: "is_MOVE lo \<Longrightarrow> (LOWER_OPCODE ! unat (drop_bit 25 lo) :: 'a vu_sys_scheme vu_lower) = LowerOP"
  by (simp add: is_MOVE_def LOWER_OPCODE_def)

lemma lower_MOVE:
  assumes "is_MOVE lo"
  shows "fst LowerOP env i (on_vu i (\<lambda>v. v\<lparr>vcode := lo\<rparr>) s) = Some (on_vu i (\<lambda>v. vuMOVE (v\<lparr>vcode := lo\<rparr>)) s)"
    "snd (LowerOP :: 'a vu_sys_scheme vu_lower) (v\<lparr>vcode := lo\<rparr>) n = vuRegsMOVE (v\<lparr>vcode := lo\<rparr>) n"
proof -
  have c: "lo AND 0x3f = 0x3c" "drop_bit 6 lo AND 0x1f = 0xc" using assms code_bits by (simp_all add: is_MOVE_def)
  have o: "op_sub lo = 12" by (simp add: op_sub_def c)
  have l: "(LowerOP_OPCODE ! 60 :: 'a vu_sys_scheme vu_lower) = LowerOP_T3_00" by (simp add: LowerOP_OPCODE_def)
  have l': "(LowerOP_OPCODE ! 60 :: 'b vu_sys_scheme vu_lower) = LowerOP_T3_00" by (simp add: LowerOP_OPCODE_def)
  have t: "(LowerOP_T3_00_OPCODE ! 12 :: 'a vu_sys_scheme vu_lower) = MI_MOVE" by (simp add: LowerOP_T3_00_OPCODE_def)
  have t': "(LowerOP_T3_00_OPCODE ! 12 :: 'b vu_sys_scheme vu_lower) = MI_MOVE" by (simp add: LowerOP_T3_00_OPCODE_def)
  show "fst LowerOP env i (on_vu i (\<lambda>v. v\<lparr>vcode := lo\<rparr>) s) = Some (on_vu i (\<lambda>v. vuMOVE (v\<lparr>vcode := lo\<rparr>)) s)"
    by (simp add: LowerOP_def c l' LowerOP_T3_00_def o t' MI_MOVE_def)
  show "snd (LowerOP :: 'a vu_sys_scheme vu_lower) (v\<lparr>vcode := lo\<rparr>) n = vuRegsMOVE (v\<lparr>vcode := lo\<rparr>) n"
    by (simp add: LowerOP_def c l LowerOP_T3_00_def o t MI_MOVE_def)
qed

lemma GET_VF0_FLAG_18: "\<not> bit (GET_VF0_FLAG r) 18"
  by (simp add: GET_VF0_FLAG_def rbit_def bit_simps)

lemma vuADD_spec: "fmac_spec h (\<lambda>l. f_add h (VDs h v l) (VDt h v l)) v (vuADD h v)"
  unfolding vuADD_def by (rule fmac_Fd, intro arg_cong2 [where f = "f_add h"] operand_frame)

text \<open>An instruction without flags whose operands are in other registers.\<close>

lemma vlane_to_inv:
  assumes "vcode v = vcode s" "\<forall>q l. VF v q l = (if q = r \<and> has_lane l s \<and> l \<in> D then x l else VF s q l)" "f k v = x k"
  shows "vcode (vlane_to r f k v) = vcode s \<and>
    (\<forall>q l. VF (vlane_to r f k v) q l = (if q = r \<and> has_lane l s \<and> l \<in> insert k D then x l else VF s q l))"
proof -
  have "has_lane k v = has_lane k s" using assms(1) by (simp add: has_lane_def)
  then show ?thesis using assms by (auto simp: vlane_to_def wVF_def)
qed

lemma vlanes_VF:
  assumes f: "\<And>l v. vcode v = vcode s \<Longrightarrow> (\<And>q. q \<noteq> r \<Longrightarrow> VF v q = VF s q) \<Longrightarrow> f l v = x l"
  shows "VF (vlanes r f s) q l = (if q = r \<and> has_lane l s then x l else VF s q l)"
proof -
  define J :: "vlane set \<Rightarrow> VURegs \<Rightarrow> bool" where "J D v \<longleftrightarrow> vcode v = vcode s \<and> (\<forall>q l. VF v q l = (if q = r \<and> has_lane l s \<and> l \<in> D then x l else VF s q l))" for D v
  have step: "J (insert k D) (vlane_to r f k v)" if "J D v" for k D v
  proof -
    have "f k v = x k" by (rule f) (use that in \<open>auto simp: J_def fun_eq_iff\<close>)
    then show ?thesis using that vlane_to_inv [of v s r D x f k] by (simp add: J_def)
  qed
  have "J {} s" by (simp add: J_def)
  then have "J {LW, LZ, LY, LX} (vlanes r f s)" unfolding vlanes_def by (intro step)
  moreover have "l \<in> {LW, LZ, LY, LX}" by (cases l) simp_all
  ultimately show ?thesis by (simp add: J_def)
qed

lemma vuMOVE_VF:
  assumes "vFt v \<noteq> 0" "vFs v \<noteq> vFt v"
  shows "VF (vuMOVE v) r l = (if r = vFt v \<and> has_lane l v then VF v (vFs v) l else VF v r l)"
proof -
  have "VF (vlanes (vFt v) (\<lambda>l s. VF s (vFs s) l) v) r l = (if r = vFt v \<and> has_lane l v then VF v (vFs v) l else VF v r l)"
    by (rule vlanes_VF) (use assms(2) in \<open>simp add: vFs_def\<close>)
  then show ?thesis using assms(1) by (simp add: vuMOVE_def vlanes_Ft_def)
qed

lemma exchange_VF:
  "VF (exchange a 0 w v) r = (if r = a \<and> a \<noteq> 0 then VF w r else VF v r)" "vcode (exchange a 0 w v) = vcode v"
  by (simp_all add: exchange_def)

lemma pair_ADD_MOVE:
  fixes s :: "'a vu_sys_scheme"
  assumes up: "is_ADD up" and lo: "is_MOVE lo"
    and regs: "vFd ((vuRegs s i)\<lparr>vcode := up\<rparr>) = a" "vFs ((vuRegs s i)\<lparr>vcode := lo\<rparr>) = a" "vFt ((vuRegs s i)\<lparr>vcode := lo\<rparr>) = b"
    and ab: "a \<noteq> 0" "b \<noteq> 0" "b \<noteq> a"
  shows "\<exists>t. vuExecPair env i clip (upper_regs env up (vuRegs s i)) (lower_regs env lo (vuRegs s i)) up lo s = Some t \<and>
    (\<forall>l. VF (vuRegs t i) b l = (if has_lane l ((vuRegs s i)\<lparr>vcode := lo\<rparr>) then VF (vuRegs s i) a l else VF (vuRegs s i) b l)) \<and>
    VF (vuRegs t i) a = VF (vuADD (vu_host_of env) ((vuRegs s i)\<lparr>vcode := up\<rparr>)) a"
proof -
  let ?v = "vuRegs s i"
  let ?w = "vuADD (vu_host_of env) (?v\<lparr>vcode := up\<rparr>)"
  let ?u = "upper_regs env up ?v" and ?l = "lower_regs env lo ?v"
  have u: "VFwrite ?u = ucast a" by (simp add: upper_regs_def upper_ADD [OF up] MI_ADD_def vuRegsADD_def VUREGS_FDFSFT_def regs)
  have l: "VFwrite ?l = ucast b" "VFread0 ?l = ucast a" "\<not> bit (VIwrite ?l) 18" "\<not> bit (VIread ?l) 18"
    by (simp_all add: lower_regs_def lower_LowerOP [OF lo] lower_MOVE [OF lo] vuRegsMOVE_def regs GET_VF0_FLAG_18)
  have inj: "(ucast x :: u8) = ucast y \<longleftrightarrow> x = y" for x y :: reg
  proof -
    have "unat (ucast z :: u8) = unat z" for z :: reg by (simp add: unat_ucast_up)
    then show ?thesis by (metis word_unat_eqI)
  qed
  have ua: "ucast (ucast a :: u8) = a" by (rule bit_word_eqI) (auto simp: bit_simps dest: bit_imp_le_length)
  have a8: "(ucast a :: u8) \<noteq> 0" using inj [of a 0] ab(1) by simp
  have vf: "pair_discard clip ?u ?l = False" "pair_vfreg ?u ?l = a" "pair_vireg clip ?l = 0"
    using u l a8 ab inj ua by (simp_all add: pair_discard_def pair_vfreg_def pair_vireg_def)
  let ?x = "(exchange a 0 ?v ?w)\<lparr>vcode := lo\<rparr>"
  have s1: "vuExecUpper env i up s = on_vu i (\<lambda>v. vuADD (vu_host_of env) (v\<lparr>vcode := up\<rparr>)) s"
    by (simp add: vuExecUpper_def upper_ADD [OF up] MI_ADD_def)
  have t: "vuExecPair env i clip ?u ?l up lo s = Some (on_vu i (\<lambda>_. exchange a 0 ?w (vuMOVE ?x)) s)"
    using lower_MOVE(1) [OF lo, of env i "on_vu i (\<lambda>_. exchange a 0 ?v ?w) s"]
    by (simp add: vuExecPair_def vf s1 vuExecLower_def lower_LowerOP [OF lo] Let_def)
  have old: "VF ?w b = VF ?v b" using vuADD_spec [of "vu_host_of env" "?v\<lparr>vcode := up\<rparr>"] ab(3) regs(1)
    by (auto simp: fmac_spec_def)
  have x: "vFt ?x = b" "vFs ?x = a" "has_lane k ?x = has_lane k (?v\<lparr>vcode := lo\<rparr>)" for k
    using regs by (simp_all add: vFt_def vFs_def has_lane_def)
  have "VF (vuMOVE ?x) r k = (if r = b \<and> has_lane k (?v\<lparr>vcode := lo\<rparr>) then VF ?v a k else VF (exchange a 0 ?v ?w) r k)" for r k
    using vuMOVE_VF [of ?x r k] x ab by (simp add: exchange_VF)
  then show ?thesis unfolding t using ab old by (simp add: exchange_VF)
qed

section \<open>Example\<close>

text \<open>A reset unit, and an environment with a host that computes on the bit patterns.\<close>

definition vu_regs0 :: VURegs where
  "vu_regs0 = \<lparr>VF = (\<lambda>_ _. 0)(0 := (\<lambda>_. 0)(LW := 0x3F800000)), VI = \<lambda>_. 0, VIpad = \<lambda>_ _. 0, VACC = \<lambda>_. 0, vq = 0, vp = 0, vcycle = 0, vflags = 0,
     vcode = 0, vstart_pc = 0, vbranch = 0, vbranchpc = 0, vdelaybranchpc = 0, vtakedelaybranch = False, vebit = 0, vblockhasmbit = False,
     vmicro_macflags = 0, vmicro_clipflags = 0, vmicro_statusflags = 0, vmacflag = 0, vstatusflag = 0, vclipflag = 0, vnextBlockCycles = 0,
     vMem = \<lambda>_. 0, vMicro = \<lambda>_. 0, xgkickaddr = 0, xgkickdiff = 0, xgkicksizeremaining = 0, xgkicklastcycle = 0, xgkickcyclecount = 0,
     xgkickenable = False, xgkickendpacket = False, VIBackupCycles = 0, VIOldValue = 0, VIRegNumber = 0, fmac = \<lambda>_. fmac_empty,
     fmacreadpos = 0, fmacwritepos = 0, fmaccount = 0,
     fdiv = \<lparr>fd_enable = False, fd_reg = 0, fd_sCycle = 0, fd_Cycle = 0, fd_statusflag = 0\<rparr>,
     efu = \<lparr>ef_enable = False, ef_reg = 0, ef_sCycle = 0, ef_Cycle = 0\<rparr>, ialu = \<lambda>_. \<lparr>ia_reg = 0, ia_sCycle = 0, ia_Cycle = 0\<rparr>,
     ialureadpos = 0, ialuwritepos = 0, ialucount = 0\<rparr>"

definition vu_sys0 :: vu_sys where "vu_sys0 = ee_io.extend ee_io0 \<lparr>vuRegs = \<lambda>_. vu_regs0\<rparr>"

definition vu_host0 :: vu_host where
  "vu_host0 = \<lparr>f_add = (+), f_sub = (-), f_mul = (*), f_div = (div), f_sqrt = \<lambda>x. x, f_eq = (=), f_lt = (<), f_le = (\<le>),
     s32_to_f = \<lambda>x. x, f_to_s32 = \<lambda>x. x, d_of_f = ucast, f_of_d = ucast, d_add = (+), d_mul = (*), d_div = (div), d_pow = (^), d_le = (\<le>),
     CHECK_VU_OVERFLOW = True, CHECK_VUADDSUBHACK = False\<rparr>"

definition vu_env0 :: "nat \<Rightarrow> 's vu_env" where
  "vu_env0 n = \<lparr>vu_host_of = vu_host0, THREAD_VU1 = False, INSTANT_VU1 = False, mtvu_itop = \<lambda>_. 0, mtvu_top = \<lambda>_. 0,
     GetGSPacketSize = \<lambda>_ _ s. (0, s), TransferGSPacketData = \<lambda>_ _ s. s, stack_uregs = no_regs, stack_lregs = no_regs,
     mtvu_WaitVU = \<lambda>s. s, mtvu_Get_Changes = \<lambda>s. s, mtvu_ExecuteVU = \<lambda>_ _ _ _ s. s, vu_fuel = n\<rparr>"

lemma vu_regs0_wf: "vu_wf vu_regs0"
  by (simp add: vu_wf_def pipes_wf_def vu_regs0_def ring_wf_def FM_def IA_def ages_wf_def fdiv_wf_def efu_wf_def efu_pos_def)

lemma vu_sys0_regs [simp]: "vuRegs vu_sys0 i = vu_regs0"
  by (simp add: vu_sys0_def ee_io.extend_def)

lemma vu_env0_ok: "n \<noteq> 0 \<Longrightarrow> vu_fuel (vu_env0 n) \<noteq> 0" "rn_pipe (stack_lregs (vu_env0 n)) \<noteq> VUPIPE_EFU"
  by (simp_all add: vu_env0_def no_regs_def)

section \<open>Properties\<close>

text \<open>
  C30: the pipelines of the first vector unit are always in order.  From well-formed pipelines a step
  returns, whatever the two instructions are, and leaves well-formed pipelines: the rings of flag
  results and integer loads hold their entries oldest first, one a cycle, never more than the four
  they have room for, and the clock has moved forward by at most the longest latencies.  The clock is
  assumed not to be about to wrap around.
\<close>

theorem vu0_step_pipelines:
  "vu_fuel env \<noteq> 0 \<Longrightarrow> rn_pipe (stack_lregs env) \<noteq> VUPIPE_EFU \<Longrightarrow> vu_wf (vuRegs s VU0) \<Longrightarrow>
   unat (vcycle (vuRegs s VU0)) + 128 < 2 ^ 32 \<Longrightarrow>
     \<exists>t. vu0Exec env s = Some t \<and> vu_wf (vuRegs t VU0) \<and> fmaccount (vuRegs t VU0) \<le> 4 \<and> ialucount (vuRegs t VU0) \<le> 4 \<and>
       unat (vcycle (vuRegs s VU0)) < unat (vcycle (vuRegs t VU0)) \<and>
       unat (vcycle (vuRegs t VU0)) \<le> unat (vcycle (vuRegs s VU0)) + 109"
  using vu0Exec_step [of env s] by (fastforce simp: vu_wf_def pipes_wf_def ring_wf_def)

theorem vu0_step_pipelines_witness:
  "\<exists>t. vu0Exec (vu_env0 1) vu_sys0 = Some t \<and> fmaccount (vuRegs t VU0) \<le> 4"
proof -
  have c: "unat (vcycle (vuRegs vu_sys0 VU0)) + 128 < 2 ^ 32" by (simp add: vu_regs0_def)
  show ?thesis
    using vu0_step_pipelines [OF vu_env0_ok(1) vu_env0_ok(2), of 1 vu_sys0, OF _ _ c] vu_regs0_wf by auto
qed

text \<open>Leaving the loop does not touch the pipelines.\<close>

lemma execute_end_frame [simp]:
  "vu_wf (vuRegs (execute_end VU0 s) VU0) = vu_wf (vuRegs s VU0)" "vu0_ended a b (execute_end VU0 s) = vu0_ended a b s"
  "vcycle (vuRegs (execute_end VU0 s) VU0) = vcycle (vuRegs s VU0)"
proof -
  have "pipes (vuRegs (execute_end VU0 s) VU0) = pipes (vuRegs s VU0)" by (simp add: execute_end_def pipes_def wVI_def)
  then show "vu_wf (vuRegs (execute_end VU0 s) VU0) = vu_wf (vuRegs s VU0)" "vcycle (vuRegs (execute_end VU0 s) VU0) = vcycle (vuRegs s VU0)"
    by (rule pipes_cong)+
  then show "vu0_ended a b (execute_end VU0 s) = vu0_ended a b s"
    by (simp add: vu0_ended_def) (simp add: execute_end_def VPU_STAT_def wVI_def)
qed

text \<open>
  C31: running a program on the first unit returns.  With fuel for as many steps as there are cycles,
  \<open>Execute\<close> ends: because the cycles are used up, the program has ended, or it has met the M
  flag; it overruns its cycles by less than the longest waits of one step.
\<close>

theorem vu0_execute_returns:
  "unat cycles < vu_fuel env \<Longrightarrow> rn_pipe (stack_lregs env) \<noteq> VUPIPE_EFU \<Longrightarrow> vu_wf (vuRegs s VU0) \<Longrightarrow>
   unat (vcycle (vuRegs s VU0)) + unat cycles + 240 < 2 ^ 32 \<Longrightarrow>
     \<exists>t. vu0Execute env cycles s = Some t \<and> vu_wf (vuRegs t VU0) \<and> vu0_ended (vcycle (vuRegs s VU0)) cycles t \<and>
       unat (vcycle (vuRegs t VU0)) < unat (vcycle (vuRegs s VU0)) + unat cycles + 110"
proof -
  assume fuel: "unat cycles < vu_fuel env" and l: "rn_pipe (stack_lregs env) \<noteq> VUPIPE_EFU" and wf: "vu_wf (vuRegs s VU0)"
    and room: "unat (vcycle (vuRegs s VU0)) + unat cycles + 240 < 2 ^ 32"
  let ?s = "on_vu VU0 (\<lambda>v. (wVI REG_TPC (push_bit 3 (VI v REG_TPC)) v)\<lparr>vflags := vflags v AND NOT 2\<rparr>) s"
  have "pipes (vuRegs ?s VU0) = pipes (vuRegs s VU0)" by simp
  note c = pipes_cong(5,9) [OF this]
  have n: "vu_fuel env \<noteq> 0" using fuel by simp
  have "\<exists>t. vu0_loop (vu_fuel env) env (vcycle (vuRegs ?s VU0)) cycles ?s = Some t \<and> vu_wf (vuRegs t VU0) \<and>
      vu0_ended (vcycle (vuRegs ?s VU0)) cycles t \<and> unat (vcycle (vuRegs t VU0)) < unat (vcycle (vuRegs ?s VU0)) + unat cycles + 110"
    by (rule vu0_loop_returns [OF n l]) (use wf room fuel c in simp_all)
  then show ?thesis using c by (auto simp: vu0Execute_def Let_def)
qed

theorem vu0_execute_returns_witness: "\<exists>t. vu0Execute (vu_env0 17) 16 vu_sys0 = Some t \<and> vu_wf (vuRegs t VU0)"
proof -
  have f: "unat (16 :: u32) < vu_fuel (vu_env0 17 :: vu_sys vu_env)" by (simp add: vu_env0_def)
  have c: "unat (vcycle (vuRegs vu_sys0 VU0)) + unat (16 :: u32) + 240 < 2 ^ 32" by (simp add: vu_regs0_def)
  show ?thesis using vu0_execute_returns [OF f vu_env0_ok(2) _ c] vu_regs0_wf by auto
qed

text \<open>A unit that starts with a pair whose I flag makes the lower word a float.\<close>

definition vu_regs1 :: VURegs where
  "vu_regs1 = vu_regs0\<lparr>vMicro := (\<lambda>_. 0)(4 := 0xFF, 5 := 0x02, 7 := 0x80)\<rparr>"

definition vu_sys1 :: vu_sys where "vu_sys1 = ee_io.extend ee_io0 \<lparr>vuRegs = \<lambda>_. vu_regs1\<rparr>"

lemma vu_regs1_simps: "VI vu_regs1 = (\<lambda>_. 0)" "VF vu_regs1 = VF vu_regs0" "micro_word 0 1 vu_regs1 = 0x800002FF" "micro_word 0 0 vu_regs1 = 0"
  by (simp_all add: vu_regs1_def vu_regs0_def micro_word_def load_le_numeral)

lemma vuFlush_loop_empty: "fmaccount v = 0 \<Longrightarrow> ialucount v = 0 \<Longrightarrow> \<not> fd_enable (fdiv v) \<Longrightarrow> \<not> ef_enable (efu v) \<Longrightarrow> vuFlush_loop v = v"
  by (subst vuFlush_loop.simps)
    (simp add: vuFlush_once_def vuFMACflush_def vuFDIVflush_def vuEFUflush_def vuIALUflush_def prod.case_eq_if numeral_eq_Suc)

lemma nop_regs: "upper_regs (vu_env0 1) 0x800002FF v = no_regs" "fst (UPPER_OPCODE ! 63) h (w\<lparr>vcode := 0x800002FF\<rparr>) = w\<lparr>vcode := 0x800002FF\<rparr>"
  by (simp_all add: upper_regs_def vu_env0_def upper_tables upper_instrs UPPER_FD_11_def op_sub_def vuRegsNOP_def no_regs_def vuNOP_def)

lemma no_stalls: "vuTestUpperStalls no_regs v = v" "pair_pipes no_regs no_regs v = v" "fmac_advance no_regs no_regs v = v"
  by (simp_all add: vuTestUpperStalls_def pair_pipes_def vuAddUpperStalls_def vuAddLowerStalls_def fmac_advance_def is_fmac_def no_regs_def)

lemma vu_env0_fuel: "vu_fuel (vu_env0 n) = n"
  by (simp add: vu_env0_def)

lemma nop_flags: "vu1_flags 0x800002FF s = s"
  by (simp add: vu1_flags_def)

lemma age_backup_fields: "vebit (age_backup b v) = vebit v" "vbranch (age_backup b v) = vbranch v"
  by (simp_all add: age_backup_def Let_def)

lemma nop_pair:
  assumes "fmaccount (vuRegs s VU1) = 0" "ialucount (vuRegs s VU1) = 0" "\<not> fd_enable (fdiv (vuRegs s VU1))" "\<not> ef_enable (efu (vuRegs s VU1))"
    and "\<not> xgkickenable (vuRegs s VU1)"
  shows "\<exists>t. vuRunPair (vu_env0 1) VU1 clip 0x800002FF lo s = Some (no_regs, no_regs, t) \<and>
    vebit (vuRegs t VU1) = vebit (vuRegs s VU1) \<and> vbranch (vuRegs t VU1) = vbranch (vuRegs s VU1)"
proof -
  have "vuTestPipes (vu_env0 1) VU1 (on_vu VU1 (\<lambda>v. v\<lparr>vcode := 0x800002FF\<rparr>) s) = Some (on_vu VU1 (\<lambda>v. v\<lparr>vcode := 0x800002FF\<rparr>) s)"
    using assms by (simp add: vuTestPipes_def Let_def vuFlush_loop_empty vu_env0_fuel)
  then show ?thesis
    by (simp add: vuRunPair_def Let_def nop_regs nop_regs(1) [simplified] no_stalls vuExecUpper_def age_backup_fields wVI_def)
qed

lemma vu1Step_example: "\<exists>t. vu1Step (vu_env0 1) vu_sys1 = Some t"
proof -
  let ?s = "on_vu VU1 (wVI REG_TPC (0 + 8)) (on_vu VU1 (\<lambda>v. v\<lparr>vcycle := vcycle v + 1\<rparr>) (on_vu VU1 (\<lambda>v. wVI REG_TPC (VI v REG_TPC AND VU1_PROGMASK) v) vu_sys1))"
  have r: "vuRegs vu_sys1 i = vu_regs1" for i by (simp add: vu_sys1_def ee_io.extend_def)
  have "\<exists>t. vuRunPair (vu_env0 1) VU1 (\<lambda>u. bit (VIwrite u) 18) 0x800002FF 0 ?s = Some (no_regs, no_regs, t) \<and>
      vebit (vuRegs t VU1) = vebit (vuRegs ?s VU1) \<and> vbranch (vuRegs t VU1) = vbranch (vuRegs ?s VU1)"
    by (rule nop_pair) (simp_all add: r vu_regs1_def vu_regs0_def wVI_def)
  then obtain t where t: "vuRunPair (vu_env0 1) VU1 (\<lambda>u. bit (VIwrite u) 18) 0x800002FF 0 ?s = Some (no_regs, no_regs, t)"
      "vebit (vuRegs t VU1) = 0" "vbranch (vuRegs t VU1) = 0"
    by (auto simp: r vu_regs1_def vu_regs0_def wVI_def)
  have "VI (wVI REG_TPC 0 vu_regs1) REG_TPC = 0" "micro_word 0 k (wVI REG_TPC 0 vu_regs1) = micro_word 0 k vu_regs1" for k
    by (simp_all add: wVI_def micro_word_def)
  then show ?thesis
    using t by (simp add: vu1Step_def vu1Exec_def vu1_Exec_def Let_def r vu_regs1_simps nop_flags no_stalls branch_step_def ebit_step_def)
qed



text \<open>The exception is real: \<open>LQI\<close> with the field 16 counts the register that reads as zero.\<close>

lemma LQI_field_16: "vFs (vuRegs s VU0) = 16 \<Longrightarrow> vFt (vuRegs s VU0) = 0 \<Longrightarrow> VI (vuRegs s VU0) 0 = 0 \<Longrightarrow> VI (vuRegs (vuLQI VU0 s) VU0) 0 = 1"
  by (simp add: vuLQI_def vIs_def Let_def wVI16_def wVI_def VI16_def vuBackupVI_def vFt_def vFs_def)

text \<open>
  C33: the flags of an instruction appear when its entry retires.  Testing the pipelines takes exactly
  the entries off the front of the queue that are at least four cycles old, and the MAC flag that
  programs read becomes the one of the youngest of these; without any it stays.
\<close>

theorem vu_flags_retire:
  "pipes_wf 0 v \<Longrightarrow>
     FM (vuFlush_loop v) = dropWhile (\<lambda>f. 4 \<le> vcycle v - fm_sCycle f) (FM v) \<and>
     VI (vuFlush_loop v) REG_MAC_FLAG =
       (case rev (takeWhile (\<lambda>f. 4 \<le> vcycle v - fm_sCycle f) (FM v)) of [] \<Rightarrow> VI v REG_MAC_FLAG | f # _ \<Rightarrow> fm_macflag f) \<and>
     pipes_wf 0 (vuFlush_loop v)"
proof -
  assume wf: "pipes_wf 0 v"
  have four: "\<forall>f \<in> set (FM v). fm_Cycle f = 4" using wf by (simp add: pipes_wf_def ages_wf_def)
  let ?E = "\<lambda>f. 4 \<le> vcycle v - fm_sCycle f"
  have E: "dropWhile (fm_due (vcycle v)) (FM v) = dropWhile ?E (FM v)" "takeWhile (fm_due (vcycle v)) (FM v) = takeWhile ?E (FM v)"
    using four by (auto simp: due_def cong: dropWhile_cong takeWhile_cong)
  have "mac_after fs m = (case rev fs of [] \<Rightarrow> m | f # _ \<Rightarrow> fm_macflag f)" for fs m
    by (cases fs rule: rev_cases) (simp_all add: mac_after_def)
  then show ?thesis using flush_loop_retired [OF wf] by (simp add: retired_def E)
qed

theorem vu_flags_retire_witness: "FM (vuFlush_loop vu_regs0) = []"
  using vu_flags_retire [of vu_regs0] vu_regs0_wf by (simp add: vu_wf_def) (simp add: FM_def vu_regs0_def)

text \<open>
  C34: a multiply-add instruction computes its four lanes at once.  The source goes through them one
  after the other and may write the register it reads; still each selected lane gets the result of
  the operands before the instruction, also when the destination is an operand or the register whose
  lane is broadcast, the others keep theirs, and the MAC and status flags are those of the results.
\<close>

theorem vu_fmac_lanes:
  "fmac_spec h (\<lambda>l. f_add h (VDs h s l) (VDt h s l)) s (vuADD h s) \<and>
   fmac_spec h (\<lambda>l. f_sub h (VDs h s l) (VDq h s)) s (vuSUBq h s) \<and>
   fmac_spec h (\<lambda>l. f_mul h (VDs h s l) (VDt h s LX)) s (vuMULx h s) \<and>
   fmac_spec h (\<lambda>l. f_add h (VDacc h s l) (f_mul h (VDs h s l) (VDt h s LW))) s (vuMADDw h s) \<and>
   fmac_spec h (\<lambda>l. f_sub h (VDacc h s l) (f_mul h (VDs h s l) (VDt h s l))) s (vuMSUB h s)"
proof (intro conjI)
  show "fmac_spec h (\<lambda>l. f_add h (VDs h s l) (VDt h s l)) s (vuADD h s)" by (rule vuADD_spec)
  show "fmac_spec h (\<lambda>l. f_sub h (VDs h s l) (VDq h s)) s (vuSUBq h s)"
    unfolding vuSUBq_def by (rule fmac_Fd, intro arg_cong2 [where f = "f_sub h"] operand_frame)
  show "fmac_spec h (\<lambda>l. f_mul h (VDs h s l) (VDt h s LX)) s (vuMULx h s)"
    unfolding vuMULx_def Let_def by (rule fmac_Fd, intro arg_cong2 [where f = "f_mul h"] operand_frame refl)
  show "fmac_spec h (\<lambda>l. f_add h (VDacc h s l) (f_mul h (VDs h s l) (VDt h s LW))) s (vuMADDw h s)"
    unfolding vuMADDw_def Let_def
    by (rule fmac_Fd, intro arg_cong2 [where f = "f_add h"] arg_cong2 [where f = "f_mul h"] operand_frame refl)
  show "fmac_spec h (\<lambda>l. f_sub h (VDacc h s l) (f_mul h (VDs h s l) (VDt h s l))) s (vuMSUB h s)"
    unfolding vuMSUB_def
    by (rule fmac_Fd, intro arg_cong2 [where f = "f_sub h"] arg_cong2 [where f = "f_mul h"] operand_frame)
qed

text \<open>
  C35: the two instructions of a pair read their operands before either writes.  When the upper one is
  an addition to a register that the lower one, a move, copies, the move gets the value from before
  the pair, and after the pair the register holds the sum, on either unit.
\<close>

theorem vu_pair_reads_old:
  fixes s :: "'a vu_sys_scheme"
  assumes "is_ADD up" "is_MOVE lo"
    and "vFd ((vuRegs s i)\<lparr>vcode := up\<rparr>) = a" "vFs ((vuRegs s i)\<lparr>vcode := lo\<rparr>) = a" "vFt ((vuRegs s i)\<lparr>vcode := lo\<rparr>) = b"
    and "a \<noteq> 0" "b \<noteq> 0" "b \<noteq> a"
  shows "\<exists>t. vuExecPair env i clip (upper_regs env up (vuRegs s i)) (lower_regs env lo (vuRegs s i)) up lo s = Some t \<and>
    (\<forall>l. VF (vuRegs t i) b l = (if has_lane l ((vuRegs s i)\<lparr>vcode := lo\<rparr>) then VF (vuRegs s i) a l else VF (vuRegs s i) b l)) \<and>
    (let h = vu_host_of env; v = (vuRegs s i)\<lparr>vcode := up\<rparr>
     in \<forall>l. VF (vuRegs t i) a l = (if has_lane l v then mac_value h (f_add h (VDs h v l) (VDt h v l)) else VF (vuRegs s i) a l))"
  using pair_ADD_MOVE [OF assms, of env clip] vuADD_spec [of "vu_host_of env" "(vuRegs s i)\<lparr>vcode := up\<rparr>"] assms(3,6)
  by (auto simp: fmac_spec_def Let_def)

text \<open>\<open>ADD.xyzw vf1, vf1, vf2\<close> with \<open>MOVE.xyzw vf3, vf1\<close>.\<close>

theorem vu_pair_reads_old_witness:
  "\<exists>t. vuExecPair (vu_env0 1 :: vu_sys vu_env) VU0 False (upper_regs (vu_env0 1 :: vu_sys vu_env) 0x01E20868 (vuRegs vu_sys0 VU0))
     (lower_regs (vu_env0 1 :: vu_sys vu_env) 0x81E30B3C (vuRegs vu_sys0 VU0)) 0x01E20868 0x81E30B3C vu_sys0 = Some t \<and>
     (\<forall>l. VF (vuRegs t VU0) 3 l = VF (vuRegs vu_sys0 VU0) 1 l \<or> VF (vuRegs t VU0) 3 l = VF (vuRegs vu_sys0 VU0) 3 l)"
  using vu_pair_reads_old [where up = "0x01E20868" and lo = "0x81E30B3C" and s = vu_sys0 and i = VU0 and a = 1 and b = 3
    and env = "vu_env0 1 :: vu_sys vu_env" and clip = False]
  by (auto simp: is_ADD_def is_MOVE_def vFd_def vFs_def vFt_def)

end
