(* ===== verification/EE_Machine.thy ===== *)
theory EE_Machine
  imports Vu_Gpr EE_Syscall Vu_Spec
begin

text \<open>
  The main processor in the machine: \<open>execI\<close> with the event test, the second coprocessor with both vector
  units, and the system calls in their places.  What is left as a parameter is what lies beyond them: the
  memory mapped devices, the handlers of the DMA events, the counters, the run of the I/O processor, the
  graphics interface, the second unit's thread and the host's floating point.
\<close>

unbundle bit_operations_syntax

section \<open>The machine\<close>

record 's machine =
  mach_devs :: "'s devs"
  mach_host :: hostfpu
  mach_cb :: "'s callbacks"
  mach_hle :: "'s hle"
  mach_vu :: "'s vu_env"
  mach_fuel :: nat

text \<open>\<open>_cpuEventTest_Shared\<close> with the two units; \<open>NestedTooDeep\<close> when a loop needs more than its bound.\<close>

definition vu_blocks :: "'a vu_sys_scheme vu_env \<Rightarrow> 'a vu_sys_scheme \<Rightarrow> 'a vu_sys_scheme option" where
  "vu_blocks env s = (case ExecuteBlock env VU0 False s of None \<Rightarrow> None | Some t \<Rightarrow> ExecuteBlock env VU1 False t)"

definition machine_eventTest :: "'a ee_bios_scheme machine \<Rightarrow> 'a ee_bios_scheme \<Rightarrow> ('a ee_bios_scheme, unit) res" where
  "machine_eventTest m s =
     (let s1 = s\<lparr>eeEventTestIsActive := True, nextEventCycle := cycle s + eeWaitCycles\<rparr>
      in case eventTest_events (mach_fuel m) (mach_cb m) (eventTest_counters (mach_cb m) (eventTest_interrupts (mach_cb m) s1)) of
           None \<Rightarrow> Throw NestedTooDeep s
         | Some t \<Rightarrow>
             (case vu_blocks (mach_vu m) (eventTest_iop (mach_cb m) t) of
                None \<Rightarrow> Throw NestedTooDeep s
              | Some u \<Rightarrow> Ok () (eventTest_next u)))"

text \<open>It is the event test of \<open>EE_Events\<close>, with the units in the place of its parameter.\<close>

lemma machine_eventTest_shared:
  assumes "\<And>u. vu_blocks (mach_vu m) u = Some (cb_VU_ExecuteBlock (mach_cb m) u)"
  shows "machine_eventTest m s = eventTest_step (mach_fuel m) (mach_cb m) s"
  by (simp add: machine_eventTest_def eventTest_step_def cpuEventTest_Shared_def Let_def assms split: option.split)

definition core_env :: "'a ee_bios_scheme machine \<Rightarrow> ('a ee_bios_scheme \<Rightarrow> ('a ee_bios_scheme, unit) res) \<Rightarrow> 'a ee_bios_scheme ee_env" where
  "core_env m ex =
     \<lparr>env_devs = mach_devs m, env_host = mach_host m, env_cpuEventTest_Shared = machine_eventTest m,
      env_SYSCALL_hle = SYSCALL_switch (mach_hle m) (mach_devs m), env_COP2 = Ok (), env_LQC2 = LQC2 (mach_devs m),
      env_SQC2 = SQC2 (mach_devs m), env_execI = ex\<rparr>"

definition machine_env :: "'a ee_bios_scheme machine \<Rightarrow> ('a ee_bios_scheme \<Rightarrow> ('a ee_bios_scheme, unit) res) \<Rightarrow> 'a ee_bios_scheme ee_env" where
  "machine_env m ex =
     (core_env m ex)\<lparr>env_COP2 := \<lambda>s. case COP2 (core_env m ex) (mach_vu m) s of None \<Rightarrow> Throw NestedTooDeep s | Some r \<Rightarrow> r\<rparr>"

fun machine_execI :: "nat \<Rightarrow> 'a ee_bios_scheme machine \<Rightarrow> 'a ee_bios_scheme \<Rightarrow> ('a ee_bios_scheme, unit) res" where
  "machine_execI 0 m s = Throw NestedTooDeep s"
| "machine_execI (Suc n) m s =
     res_bind (memRead32 (mach_devs m) (pc s) (s\<lparr>pc := pc s + 4\<rparr>)) (\<lambda>v s1.
       dispatch (machine_env m (\<lambda>t. machine_execI n m t)) (s1\<lparr>code := v\<rparr>))"

section \<open>Register 0\<close>

text \<open>What lies beyond leaves the general registers alone; the devices, register 0.\<close>

definition callbacks_regs :: "'a ee_io_scheme callbacks \<Rightarrow> bool" where
  "callbacks_regs cb \<longleftrightarrow>
     (\<forall>n s. GPR (cb_event cb n s) = GPR s \<and> GPR (cb_iop_event cb n s) = GPR s) \<and>
     (\<forall>s. GPR (cb_hold cb s) = GPR s \<and> GPR (cb_rcntUpdate cb s) = GPR s \<and> GPR (cb_rcntUpdate_hScanline cb s) = GPR s \<and>
          GPR (cb_psxRcntUpdate cb s) = GPR s) \<and>
     (\<forall>n s. GPR (snd (cb_psx_ExecuteBlock cb n s)) = GPR s)"

definition machine_regs :: "'a ee_bios_scheme machine \<Rightarrow> bool" where
  "machine_regs m \<longleftrightarrow> devs_r0 (mach_devs m) \<and> callbacks_regs (mach_cb m) \<and> vu_env_regs (mach_vu m) \<and>
     (\<forall>s. GPR (UpdateVSyncRate (mach_hle m) s) = GPR s \<and> GPR (set_CSR_FIELD (mach_hle m) s) = GPR s)"

lemma GPR_TESTINT:
  assumes "callbacks_regs cb" shows "GPR (TESTINT n (cb_event cb n) s) = GPR s" "GPR (IopTestEvent n (cb_iop_event cb n) s) = GPR s"
  using assms by (simp_all add: TESTINT_def IopTestEvent_def cpuClearInt_def callbacks_regs_def Let_def)

lemma GPR_fold: "(\<And>n s. GPR (f n s) = GPR s) \<Longrightarrow> GPR (fold f ns s) = GPR s"
  by (induction ns arbitrary: s) simp_all

lemma GPR_TestInterrupts:
  assumes cb: "callbacks_regs cb"
  shows "GPR (cpuTestInterrupts cb s) = GPR s" "GPR (psxTestInterrupts cb s) = GPR s"
    "cpuTestInterrupts_loop k cb s = Some t \<Longrightarrow> GPR t = GPR s"
proof -
  show 1: "GPR (cpuTestInterrupts cb s) = GPR s" for s
    by (simp add: cpuTestInterrupts_def Let_def GPR_fold GPR_TESTINT [OF cb])
  show "GPR (psxTestInterrupts cb s) = GPR s"
    by (simp add: psxTestInterrupts_def Let_def GPR_fold GPR_TESTINT [OF cb])
  show "cpuTestInterrupts_loop k cb s = Some t \<Longrightarrow> GPR t = GPR s"
    by (induction k arbitrary: s) (auto split: if_splits simp: 1)
qed

lemma GPR_eventTest:
  assumes cb: "callbacks_regs cb"
  shows "GPR (eventTest_interrupts cb s) = GPR s" "GPR (eventTest_counters cb s) = GPR s" "GPR (eventTest_iop cb s) = GPR s"
    "GPR (eventTest_next s) = GPR s" "eventTest_events k cb s = Some t \<Longrightarrow> GPR t = GPR s"
proof -
  note f = GPR_TestInterrupts [OF cb]
  show "GPR (eventTest_interrupts cb s) = GPR s"
    using cb by (simp add: eventTest_interrupts_def intcInterrupt_def callbacks_regs_def Let_def r0_simps)
  show "GPR (eventTest_counters cb s) = GPR s"
    using cb by (simp add: eventTest_counters_def cpuTestTIMR_def callbacks_regs_def Let_def r0_simps)
  show "GPR (eventTest_next s) = GPR s" by (simp add: eventTest_next_def Let_def)
  show "eventTest_events k cb s = Some t \<Longrightarrow> GPR t = GPR s" by (auto simp: eventTest_events_def f(1) split: if_splits dest!: f(3))
  have "GPR (iopEventTest cb u) = GPR u" for u
    using cb by (simp add: iopEventTest_def Let_def f(2) callbacks_regs_def)
  moreover have "GPR v = GPR u" if "cb_psx_ExecuteBlock cb n u = (r, v)" for n u r v
    using cb that by (metis callbacks_regs_def snd_conv)
  ultimately show "GPR (eventTest_iop cb s) = GPR s"
    by (auto simp: eventTest_iop_def Let_def split: prod.splits)
qed

lemma machine_eventTest_r0:
  assumes "machine_regs m" shows "keeps_r0 (GPR s 0) (machine_eventTest m s)"
proof -
  have cb: "callbacks_regs (mach_cb m)" and vu: "vu_env_regs (mach_vu m)" using assms by (simp_all add: machine_regs_def)
  have b: "GPR t = GPR u" if "vu_blocks (mach_vu m) u = Some t" for t u
    using that by (auto simp: vu_blocks_def split: option.splits dest!: GPR_ExecuteBlock [OF vu])
  note e = GPR_eventTest [OF cb]
  show ?thesis
    unfolding machine_eventTest_def Let_def keeps_r0_def
    by (auto split: option.splits simp: e(1,2,3,4) dest!: b e(5))
qed

lemma find_thread_list_r0: "devs_r0 d \<Longrightarrow> GPR s 0 = z \<Longrightarrow> keeps_r0 z (find_thread_list d os s)"
  by (induction os arbitrary: s) (auto intro!: r0_intros)

lemma Deci2Call_r0: "keeps_r0 (GPR s 0) (Deci2Call c a s)"
  by (auto simp: Deci2Call_def keeps_r0_def split: option.splits)

lemma SYSCALL_switch_r0:
  assumes "machine_regs m" shows "keeps_r0 (GPR s 0) (SYSCALL_switch (mach_hle m) (mach_devs m) s)"
proof -
  have d: "devs_r0 (mach_devs m)" using assms by (simp add: machine_regs_def)
  have g: "GPR (gsSetVideoMode (mach_hle m) v t) = GPR t" for v t using assms by (simp add: machine_regs_def gsSetVideoMode_def)
  have t: "keeps_r0 (GPR s 0) (thread_list_call (mach_devs m) s)"
    unfolding thread_list_call_def by (auto intro!: r0_intros find_thread_list_r0 d)
  show ?thesis
    unfolding SYSCALL_switch_def Let_def by (auto intro!: r0_intros t d Deci2Call_r0 simp: g)
qed

lemma machine_env_r0:
  assumes m: "machine_regs m" and ex: "step_r0 ex"
  shows "env_r0 (machine_env m ex)" "step_r0 (env_execI (machine_env m ex))"
proof -
  have d: "devs_r0 (mach_devs m)" and vu: "vu_env_regs (mach_vu m)" using m by (simp_all add: machine_regs_def)
  have core: "env_r0 (core_env m ex)" "step_r0 (env_execI (core_env m ex))"
    using machine_eventTest_r0 [OF m] SYSCALL_switch_r0 [OF m] LQC2_SQC2_r0 [OF d] d ex
    by (simp_all add: env_r0_def core_env_def keeps_r0_basic)
  have "keeps_r0 (GPR s 0) (case COP2 (core_env m ex) (mach_vu m) s of None \<Rightarrow> Throw NestedTooDeep s | Some r \<Rightarrow> r)" for s
    using COP2_r0 core vu unfolding cop2_r0_def by (auto split: option.split intro: keeps_r0_basic)
  then show "env_r0 (machine_env m ex)" using core(1) by (simp add: machine_env_def env_r0_def)
  show "step_r0 (env_execI (machine_env m ex))" using ex by (simp add: machine_env_def core_env_def)
qed

lemma machine_execI_step_r0: "machine_regs m \<Longrightarrow> step_r0 (machine_execI n m)"
proof (induction n)
  case 0
  show ?case by (simp add: step_r0_def keeps_r0_basic)
next
  case (Suc n)
  then have "step_r0 (machine_execI n m)" by blast
  then have d: "step_r0 (dispatch (machine_env m (\<lambda>t. machine_execI n m t)))"
    by (intro dispatch_r0 machine_env_r0 Suc.prems)
  have "devs_r0 (mach_devs m)" using Suc.prems by (simp add: machine_regs_def)
  then have "keeps_r0 (GPR s 0) (machine_execI (Suc n) m s)" for s
    unfolding machine_execI.simps by (auto intro!: r0_intros step_r0D [OF d])
  then show ?case unfolding step_r0_def by blast
qed

text \<open>
  C4: register 0 is hardwired.  No instruction of the main processor changes it, on any path: normal
  completion, an exception, a delay slot nested to any depth, a system call that is emulated, an instruction
  of the second coprocessor that waits for a program of a vector unit, and the event test behind a branch,
  with the exceptions it raises and the programs of the units it runs.  Assumed is only that what
  the processor calls beyond that, the devices, the handlers of DMA events and counters, the I/O processor's
  run, the graphics interface and the second unit's thread, does not reach into the registers.
\<close>

theorem machine_r0:
  fixes s :: "'a ee_bios_scheme"
  shows "machine_regs m \<Longrightarrow> GPR (res_state (machine_execI n m s)) 0 = GPR s 0"
  using machine_execI_step_r0 [of m n] by (simp add: step_r0_def keeps_r0_def)

text \<open>A move of the vector register 1, all ones, into register 0, in a machine with idle devices.\<close>

definition machine0 :: "ee_bios machine" where
  "machine0 = \<lparr>mach_devs = devs0, mach_host = hostfpu0,
     mach_cb = \<lparr>cb_event = \<lambda>n. CPU_INT n 8, cb_iop_event = \<lambda>_ s. s, cb_hold = \<lambda>s. s, cb_rcntUpdate = \<lambda>s. s,
       cb_rcntUpdate_hScanline = \<lambda>s. s, cb_psxRcntUpdate = \<lambda>s. s, cb_psx_ExecuteBlock = \<lambda>n s. (n, s), cb_VU_ExecuteBlock = \<lambda>s. s\<rparr>,
     mach_hle = \<lparr>UpdateVSyncRate = \<lambda>s. s, set_CSR_FIELD = \<lambda>s. s, LanguageParams = \<lambda>_ _. 0\<rparr>, mach_vu = vu_env0 100, mach_fuel = 10\<rparr>"

definition qmfc2_state :: ee_bios where
  "qmfc2_state = (vu_sys.extend vu_sys0 \<lparr>gsVideoMode = VM_NTSC, gsIsInterlaced = False, NoOSD = False, AllowParams1 = False,
       AllowParams2 = False, threadListAddr = 0, deci2addr = 0, deci2handler = 0\<rparr>)
     \<lparr>vmap := \<lambda>_. 0x10000000, pc := 0x100, hostmem := (\<lambda>_. 0)(0x10000101 := 0x08, 0x10000102 := 0x20, 0x10000103 := 0x48),
      vuRegs := \<lambda>_. vu_regs0\<lparr>VF := \<lambda>_ _. 0xFFFFFFFF\<rparr>\<rparr>"

theorem machine_r0_witness: "GPR (res_state (machine_execI 3 machine0 qmfc2_state)) 0 = 0"
proof -
  have "machine_regs machine0"
    by (simp add: machine_regs_def machine0_def devs_r0_def devs0_def keeps_r0_basic callbacks_regs_def vu_env_regs_def vu_env0_def)
  from machine_r0 [OF this, of 3 qmfc2_state] show ?thesis
    by (simp add: qmfc2_state_def vu_sys0_def vu_sys.extend_def ee_io.extend_def ee_io0_defs)
qed

end
