(* ===== verification/EE_Deliver.thy ===== *)
theory EE_Deliver
  imports EE_Events
begin

text \<open>
  The events of the EE from their schedule to their handler: \<open>CPU_INT\<close>, \<open>_cpuTestInterrupts\<close> with its
  shortcut for the rare events, and the next event test (pcsx2/R5900.cpp).

  The cycle counter wraps around, so that times are offsets from now.  They are exact as long as the
  schedules are within \<open>2 ^ 29\<close> cycles of it (\<open>near_events\<close>), which is about two seconds of the machine.
\<close>

unbundle bit_operations_syntax

section \<open>Times as offsets from now\<close>

definition next_in :: "'a cpuRegisters_scheme \<Rightarrow> int" where "next_in u = sint (nextEventCycle u - cycle u)"

definition due_in :: "5 word \<Rightarrow> 'a cpuRegisters_scheme \<Rightarrow> int" where
  "due_in n u = sint (eCycle u n) - sint (cycle u - sCycle u n)"

definition near_events :: "'a cpuRegisters_scheme \<Rightarrow> bool" where
  "near_events u \<longleftrightarrow> \<bar>next_in u\<bar> < 2 ^ 29 \<and>
     (\<forall>n. event_pending n u \<longrightarrow> \<bar>sint (cycle u - sCycle u n)\<bar> < 2 ^ 29 \<and> \<bar>sint (eCycle u n)\<bar> < 2 ^ 29)"

lemma sint_plus_near: "\<bar>sint x + sint y\<bar> < 2 ^ 31 \<Longrightarrow> sint (x + y) = sint x + sint (y :: u32)"
  by (simp add: sint_word_ariths signed_take_bit_int_eq_self)

lemma next_in_cpuSetNextEvent:
  assumes "\<bar>next_in u\<bar> < 2 ^ 29" "\<bar>sint (cycle u - c)\<bar> < 2 ^ 29" "\<bar>sint d\<bar> < 2 ^ 29"
  shows "next_in (cpuSetNextEvent c d u) = min (next_in u) (sint d - sint (cycle u - c))"
proof -
  have a: "sint (nextEventCycle u - c) = next_in u + sint (cycle u - c)"
    using sint_plus_near [of "nextEventCycle u - cycle u" "cycle u - c"] assms by (simp add: next_in_def)
  have "sint (c - cycle u) = - sint (cycle u - c)"
    using assms(2) by (simp add: sint_word_ariths(4) [of "cycle u - c", simplified] signed_take_bit_int_eq_self)
  then have b: "sint (c + d - cycle u) = sint d - sint (cycle u - c)"
    using sint_plus_near [of "c - cycle u" d] assms by (simp add: algebra_simps)
  show ?thesis
    using a b by (auto simp: cpuSetNextEvent_def next_in_def min_def)
qed

section \<open>The tests of all events\<close>

text \<open>The order in which \<open>_cpuTestInterrupts\<close> names the events.  The SIF2 channel is not among them.\<close>

definition test_order :: "5 word list" where
  "test_order = [DMAC_VIF1, DMAC_GIF, DMAC_SIF0, DMAC_SIF1, DMAC_VIF0, DMAC_FROM_IPU, DMAC_TO_IPU, DMAC_FROM_SPR,
     DMAC_TO_SPR, DMAC_MFIFO_VIF, DMAC_MFIFO_GIF, VIF_VU0_FINISH, VIF_VU1_FINISH]"

definition run_tests :: "'a ee_io_scheme callbacks \<Rightarrow> 5 word list \<Rightarrow> 'a ee_io_scheme \<Rightarrow> 'a ee_io_scheme" where
  "run_tests cb ns u = fold (\<lambda>n. TESTINT n (cb_event cb n)) ns u"

lemma run_tests_Cons [simp]: "run_tests cb [] u = u" "run_tests cb (n # ns) u = run_tests cb ns (TESTINT n (cb_event cb n) u)"
  by (simp_all add: run_tests_def)

lemma run_tests_append: "run_tests cb (ms @ ns) u = run_tests cb ns (run_tests cb ms u)"
  by (simp add: run_tests_def)

lemma run_tests_idle: "\<forall>n \<in> set ns. \<not> event_pending n u \<Longrightarrow> run_tests cb ns u = u"
  by (induction ns) (simp_all add: TESTINT_def)

text \<open>The shortcut for the rare events changes nothing: without one pending their tests are idle.\<close>

lemma cpuTestInterrupts_run:
  assumes "ctrl_DMAE u" "ENABLER_2 u AND 1 = 0"
  shows "cpuTestInterrupts cb u = run_tests cb test_order u"
proof -
  have "cpuTestInterrupts cb u = run_tests cb (frequent_events @ rare_events) u"
    using assms run_tests_idle [of rare_events "run_tests cb frequent_events u" cb]
    by (auto simp: cpuTestInterrupts_def Let_def run_tests_append list_ex_iff) (simp_all add: run_tests_def)
  then show ?thesis by (simp add: frequent_events_def rare_events_def test_order_def)
qed

text \<open>
  What the handlers of the other events do not do to the event \<open>n\<close> during a test: reschedule it or
  take it away, postpone the next test, move the clock; their own schedules stay near.
\<close>

definition spares_event :: "5 word \<Rightarrow> 'a ee_io_scheme callbacks \<Rightarrow> bool" where
  "spares_event n cb \<longleftrightarrow>
     (\<forall>m u. m \<noteq> n \<longrightarrow> near_events u \<longrightarrow>
       (let v = cb_event cb m u
        in near_events v \<and> next_in v \<le> next_in u \<and> cycle v = cycle u \<and> g_GameStarted v = g_GameStarted u \<and>
           event_pending n v = event_pending n u \<and> sCycle v n = sCycle u n \<and> eCycle v n = eCycle u n))"

definition spared :: "5 word \<Rightarrow> 'a ee_io_scheme \<Rightarrow> 'a ee_io_scheme \<Rightarrow> bool" where
  "spared n u v \<longleftrightarrow> near_events v \<and> next_in v \<le> next_in u \<and> cycle v = cycle u \<and> g_GameStarted v = g_GameStarted u \<and>
     event_pending n v = event_pending n u \<and> sCycle v n = sCycle u n \<and> eCycle v n = eCycle u n"

lemma spared_refl: "near_events u \<Longrightarrow> spared n u u"
  by (simp add: spared_def)

lemma spared_trans: "spared n u v \<Longrightarrow> spared n v w \<Longrightarrow> spared n u w"
  by (auto simp: spared_def)

lemma spares_eventD: "spares_event n cb \<Longrightarrow> m \<noteq> n \<Longrightarrow> near_events u \<Longrightarrow> spared n u (cb_event cb m u)"
  by (simp add: spares_event_def spared_def Let_def)

lemma cpuClearInt_keeps [simp]:
  "cycle (cpuClearInt i u) = cycle u" "sCycle (cpuClearInt i u) = sCycle u" "eCycle (cpuClearInt i u) = eCycle u"
  "nextEventCycle (cpuClearInt i u) = nextEventCycle u" "g_GameStarted (cpuClearInt i (w :: 'a ee_io_scheme)) = g_GameStarted w"
  by (simp_all add: cpuClearInt_def)

lemma event_pending_cpuClearInt: "event_pending m (cpuClearInt (unat n) u) \<longleftrightarrow> event_pending m u \<and> m \<noteq> n"
proof (cases "m = n")
  case False
  then have "unat m \<noteq> unat n" by (blast dest: word_unat_eqI)
  with False show ?thesis by (simp add: event_pending_bit cpuClearInt_def bit_simps unat_5_less)
qed simp

lemma spared_clear: "near_events u \<Longrightarrow> m \<noteq> n \<Longrightarrow> spared n u (cpuClearInt (unat m) u)"
  by (auto simp: spared_def near_events_def next_in_def event_pending_cpuClearInt)

lemma g_GameStarted_cpuSetNextEvent [simp]: "g_GameStarted (cpuSetNextEvent c d w) = g_GameStarted (w :: 'a ee_io_scheme)"
  by (simp add: cpuSetNextEvent_def)

text \<open>An event that is not due keeps its schedule, and the next test comes no later.\<close>

lemma TESTINT_waits:
  fixes u :: "'a ee_io_scheme"
  assumes near: "near_events u" and pending: "event_pending m u" and "g_GameStarted u" and wait: "0 < due_in m u"
  shows "spared n u (TESTINT m cb u) \<and> next_in (TESTINT m cb u) \<le> due_in m u"
proof -
  have t: "TESTINT m cb u = cpuSetNextEvent (sCycle u m) (eCycle u m) u"
    using assms by (auto simp: TESTINT_def cpuTestCycle_def due_in_def)
  have "next_in (cpuSetNextEvent (sCycle u m) (eCycle u m) u) = min (next_in u) (due_in m u)"
    using near pending next_in_cpuSetNextEvent [of u "sCycle u m" "eCycle u m"] by (simp add: near_events_def due_in_def)
  then show ?thesis
    using near wait by (auto simp: t spared_def near_events_def)
qed

lemma TESTINT_spared:
  fixes u :: "'a ee_io_scheme"
  assumes h: "spares_event n cb" and m: "m \<noteq> n" and near: "near_events u" and g: "g_GameStarted u"
  shows "spared n u (TESTINT m (cb_event cb m) u)"
proof (cases "event_pending m u")
  case True
  show ?thesis
  proof (cases "0 < due_in m u")
    case True
    then show ?thesis using TESTINT_waits [OF near \<open>event_pending m u\<close> g] by blast
  next
    case False
    then have t: "TESTINT m (cb_event cb m) u = cb_event cb m (cpuClearInt (unat m) u)"
      using True by (simp add: TESTINT_def cpuTestCycle_def due_in_def)
    have "spared n u (cpuClearInt (unat m) u)" using spared_clear [OF near m] .
    moreover from this have "spared n (cpuClearInt (unat m) u) (cb_event cb m (cpuClearInt (unat m) u))"
      using spares_eventD [OF h m] by (simp add: spared_def)
    ultimately show ?thesis unfolding t by (rule spared_trans)
  qed
qed (simp add: TESTINT_def spared_refl near)

lemma run_tests_spared:
  fixes u :: "'a ee_io_scheme"
  assumes h: "spares_event n cb"
  shows "n \<notin> set ms \<Longrightarrow> near_events u \<Longrightarrow> g_GameStarted u \<Longrightarrow> spared n u (run_tests cb ms u)"
proof (induction ms arbitrary: u)
  case (Cons m ms)
  then have 1: "spared n u (TESTINT m (cb_event cb m) u)" using TESTINT_spared [OF h, of m u] by auto
  then have "spared n (TESTINT m (cb_event cb m) u) (run_tests cb ms (TESTINT m (cb_event cb m) u))"
    using Cons by (simp add: spared_def)
  with 1 show ?case by (auto intro: spared_trans)
qed (simp add: spared_refl)

text \<open>What \<open>CPU_INT\<close> leaves: the event, its schedule, and a next test no later than that.\<close>

definition int_delay :: "u32 \<Rightarrow> 'a ee_io_scheme \<Rightarrow> u32" where
  "int_delay d s = (if CHECK_EETIMINGHACK s then 8 else d)"

lemma CPU_INT_schedules:
  fixes s :: "'a ee_io_scheme"
  assumes "t = CPU_INT n d s"
  shows "event_pending m t \<longleftrightarrow> m = n \<or> event_pending m s" "sCycle t = (sCycle s)(n := cycle s)" "eCycle t = (eCycle s)(n := int_delay d s)"
    "cycle t = cycle s" "g_GameStarted t = g_GameStarted s" "sint (nextEventCycle t - cycle s) \<le> sint (int_delay d s)"
    "\<bar>next_in s\<bar> < 2 ^ 29 \<Longrightarrow> \<bar>sint (int_delay d s)\<bar> < 2 ^ 29 \<Longrightarrow> next_in t = min (next_in s) (sint (int_delay d s))"
proof -
  define s1 where "s1 = s\<lparr>interrupt := interrupt s OR push_bit (unat n) 1, sCycle := (sCycle s)(n := cycle s),
    eCycle := (eCycle s)(n := int_delay d s)\<rparr>"
  define s2 where "s2 = (if sint (int_delay d s) \<le> 28 \<and> iop_running s1 then break_iop s1 else s1)"
  have t: "t = cpuSetNextEvent (cycle s2) (eCycle s2 n) s2"
    using assms by (simp add: CPU_INT_def s1_def s2_def Let_def int_delay_def cpuSetNextEventDelta_def)
  have p: "unat m = unat n \<longleftrightarrow> m = n" for m by (auto dest: word_unat_eqI)
  have s2: "event_pending m s2 \<longleftrightarrow> m = n \<or> event_pending m s" "sCycle s2 = (sCycle s)(n := cycle s)" "eCycle s2 = (eCycle s)(n := int_delay d s)"
    "cycle s2 = cycle s" "g_GameStarted s2 = g_GameStarted s" "nextEventCycle s2 = nextEventCycle s" for m
    by (auto simp: s2_def s1_def event_pending_bit bit_simps unat_5_less p break_iop_def)
  show "event_pending m t \<longleftrightarrow> m = n \<or> event_pending m s" "sCycle t = (sCycle s)(n := cycle s)" "eCycle t = (eCycle s)(n := int_delay d s)"
    "cycle t = cycle s" "g_GameStarted t = g_GameStarted s"
    by (simp_all add: t s2)
  show "sint (nextEventCycle t - cycle s) \<le> sint (int_delay d s)"
    using cpuSetNextEvent_le [of "cycle s2" "eCycle s2 n" s2] by (simp add: t s2)
  show "next_in t = min (next_in s) (sint (int_delay d s))" if "\<bar>next_in s\<bar> < 2 ^ 29" "\<bar>sint (int_delay d s)\<bar> < 2 ^ 29"
    using next_in_cpuSetNextEvent [of s2 "cycle s2" "eCycle s2 n"] that by (simp add: t next_in_def s2)
qed


text \<open>Handlers that schedule their event again, as those of the DMA channels do.\<close>

definition resched_callbacks :: "ee_io callbacks" where
  "resched_callbacks = idle_callbacks\<lparr>cb_event := \<lambda>m. CPU_INT m 8\<rparr>"

lemma resched_spares: "spares_event n resched_callbacks"
  unfolding spares_event_def
proof (intro allI impI)
  fix m and u :: ee_io
  assume m: "m \<noteq> n" and near: "near_events u"
  have d: "sint (int_delay 8 u) = 8" by (simp add: int_delay_def)
  note c = CPU_INT_schedules [where t = "CPU_INT m 8 u" and n = m and d = 8 and s = u, OF refl]
  have nx: "next_in (CPU_INT m 8 u) = min (next_in u) 8" using c(7) near d by (simp add: near_events_def)
  have "near_events (CPU_INT m 8 u)"
    using near nx d by (auto simp: near_events_def c)
  then show "let v = cb_event resched_callbacks m u in near_events v \<and> next_in v \<le> next_in u \<and> cycle v = cycle u \<and>
      g_GameStarted v = g_GameStarted u \<and> event_pending n v = event_pending n u \<and> sCycle v n = sCycle u n \<and> eCycle v n = eCycle u n"
    using m nx by (simp add: resched_callbacks_def c)
qed

text \<open>
  The counter wraps between the call and the delivery at 84, and the event of VIF1 is due as well; a
  cycle before nothing is delivered.
\<close>

definition wrap_base :: ee_io where
  "wrap_base = ee_io0\<lparr>cycle := 0xFFFFFFF0, nextEventCycle := 0xFFFFFFF0, eeHw := (\<lambda>_. 1)(ucast (drop_bit 2 DMAC_ENABLER) := 0)\<rparr>"

definition wrap_state :: ee_io where "wrap_state = CPU_INT DMAC_VIF1 16 wrap_base"

lemma wrap_base: "cycle wrap_base = 0xFFFFFFF0" "\<not> event_pending n wrap_base" "\<not> CHECK_EETIMINGHACK wrap_base" "g_GameStarted wrap_base"
  "next_in wrap_base = 0" "ctrl_DMAE wrap_base" "ENABLER_2 wrap_base = 0"
  by (simp_all add: wrap_base_def ee_io0_def ee_sys.extend_def ee_fpu.extend_def ee_cpu.extend_def ee_mem.extend_def ee_mem0_def
      event_pending_def next_in_def ctrl_DMAE_def ENABLER_2_def psHu32_def)

lemma CPU_INT_frame: "eeHw (CPU_INT n d s) = eeHw s" "CHECK_EETIMINGHACK (CPU_INT n d s) = CHECK_EETIMINGHACK s"
  by (simp_all add: CPU_INT_def cpuSetNextEventDelta_def cpuSetNextEvent_def break_iop_def Let_def)

lemma wrap_state:
  "cycle wrap_state = 0xFFFFFFF0" "event_pending n wrap_state \<longleftrightarrow> n = DMAC_VIF1" "\<not> CHECK_EETIMINGHACK wrap_state" "g_GameStarted wrap_state"
  "next_in wrap_state = 0" "sCycle wrap_state DMAC_VIF1 = 0xFFFFFFF0" "eCycle wrap_state DMAC_VIF1 = 16" "eeHw wrap_state = eeHw wrap_base"
proof -
  have d: "int_delay 16 wrap_base = 16" by (simp add: int_delay_def wrap_base)
  note c = CPU_INT_schedules [OF wrap_state_def]
  show "cycle wrap_state = 0xFFFFFFF0" "event_pending n wrap_state \<longleftrightarrow> n = DMAC_VIF1" "\<not> CHECK_EETIMINGHACK wrap_state" "g_GameStarted wrap_state"
    "next_in wrap_state = 0" "sCycle wrap_state DMAC_VIF1 = 0xFFFFFFF0" "eCycle wrap_state DMAC_VIF1 = 16" "eeHw wrap_state = eeHw wrap_base"
    using c(7) by (simp_all add: c d wrap_base) (simp_all add: wrap_state_def CPU_INT_frame wrap_base)
qed

lemma event_pending_cycle: "event_pending m (w\<lparr>cycle := c\<rparr>) = event_pending m w"
  by (simp add: event_pending_def)

definition wrap_test :: "u32 \<Rightarrow> ee_io" where "wrap_test c = (CPU_INT DMAC_SIF0 100 wrap_state)\<lparr>cycle := c\<rparr>"

lemma wrap_test:
  assumes "c \<in> {83, 84}"
  shows "event_pending DMAC_SIF0 (wrap_test c)" "sCycle (wrap_test c) = sCycle (CPU_INT DMAC_SIF0 100 wrap_state)"
    "eCycle (wrap_test c) = eCycle (CPU_INT DMAC_SIF0 100 wrap_state)" "near_events (wrap_test c)" "g_GameStarted (wrap_test c)"
    "ctrl_DMAE (wrap_test c)" "ENABLER_2 (wrap_test c) = 0" "cycle (wrap_test c) = c"
proof -
  let ?t = "CPU_INT DMAC_SIF0 100 wrap_state"
  have d: "int_delay 100 wrap_state = 100" by (simp add: int_delay_def wrap_state)
  note c = CPU_INT_schedules [of ?t, OF refl]
  have "next_in ?t = 0" using c(7) by (simp add: d wrap_state)
  then have "sint (nextEventCycle ?t - cycle ?t) = sint (0 :: u32)" by (simp add: next_in_def)
  then have "nextEventCycle ?t - cycle ?t = 0" by (rule signed_word_eqI)
  then have n: "nextEventCycle ?t = 0xFFFFFFF0" using c(4) by (simp add: wrap_state)
  have p: "event_pending m (wrap_test c) \<longleftrightarrow> m = DMAC_SIF0 \<or> m = DMAC_VIF1" for m
    using c(1) by (simp add: wrap_test_def wrap_state event_pending_cycle)
  show "near_events (wrap_test c)"
    using assms n by (auto simp: near_events_def next_in_def p) (simp_all add: wrap_test_def c d wrap_state)
  show "event_pending DMAC_SIF0 (wrap_test c)" "sCycle (wrap_test c) = sCycle ?t" "eCycle (wrap_test c) = eCycle ?t"
    "g_GameStarted (wrap_test c)" "ctrl_DMAE (wrap_test c)" "ENABLER_2 (wrap_test c) = 0" "cycle (wrap_test c) = c"
    using wrap_base(6,7) p by (simp_all add: wrap_test_def c wrap_state ctrl_DMAE_def ENABLER_2_def psHu32_def CPU_INT_frame)
qed


end
