(* ===== verification/MMI_Spec.thy ===== *)
theory MMI_Spec
  imports EE_ALU_Spec
begin

text \<open>
  The element-wise multimedia instructions against their specification: one function on
  elements per instruction, applied to the two sources as they were before the instruction.
  The code writes the destination element by element while it reads the sources, and the
  destination may be one of them; \<open>alias_fold\<close>, proved once for any array of elements, shows
  that this makes no difference.
\<close>

unbundle bit_operations_syntax

section \<open>Aliasing\<close>

context lane_array begin

lemma alias_fold:
  assumes "distinct ns" and "\<forall>n \<in> set ns. n < N"
  shows "get m (fold (\<lambda>n g. g(d := put n (f (get n (g a)) (get n (g b))) (g d))) ns g d) =
     (if m \<in> set ns then f (get m (g a)) (get m (g b)) else get m (g d))"
  using assms
proof (induction ns arbitrary: g)
  case (Cons n ns)
  let ?g = "g(d := put n (f (get n (g a)) (get n (g b))) (g d))"
  have "get m (?g x) = (if x = d \<and> m = n then f (get n (g a)) (get n (g b)) else get m (g x))" for x
    using Cons.prems by (simp add: get_put_if)
  moreover have "distinct ns" "n \<notin> set ns" "\<forall>n \<in> set ns. n < N" using Cons.prems by auto
  ultimately show ?case using Cons.IH [of ?g] by (simp only: fold_simps) auto
qed simp

lemma alias_fold_other:
  "r \<noteq> d \<Longrightarrow> fold (\<lambda>n g. g(d := put n (f (get n (g a)) (get n (g b))) (g d))) ns g r = g r"
  by (induction ns arbitrary: g) auto

end

definition lanewise ::
  "(nat \<Rightarrow> u128 \<Rightarrow> 'w) \<Rightarrow> nat \<Rightarrow> ('a cpuRegisters_scheme \<Rightarrow> 'a cpuRegisters_scheme) \<Rightarrow> ('w \<Rightarrow> 'w \<Rightarrow> 'w) \<Rightarrow>
     'a cpuRegisters_scheme \<Rightarrow> bool" where
  "lanewise get N op f s \<longleftrightarrow>
     (if Rd s = 0 then op s = s
      else (\<forall>n \<in> {0..<N}. get n (GPR (op s) (Rd s)) = f (get n (GPR s (Rs s))) (get n (GPR s (Rt s)))) \<and>
           (\<forall>r. r = Rd s \<or> GPR (op s) r = GPR s r))"

lemma fold_lanes_GPR:
  assumes "\<And>n s. Rd (L n s) = Rd s \<and> Rs (L n s) = Rs s \<and> Rt (L n s) = Rt s"
    and "\<And>n s. GPR (L n s) = (GPR s)(Rd s := put n (f (get n (GPR s (Rs s))) (get n (GPR s (Rt s)))) (GPR s (Rd s)))"
  shows "GPR (fold L ns s) =
     fold (\<lambda>n g. g(Rd s := put n (f (get n (g (Rs s))) (get n (g (Rt s)))) (g (Rd s)))) ns (GPR s)"
proof (induction ns arbitrary: s)
  case (Cons n ns)
  show ?case using Cons.IH [of "L n s"] assms(1) [of n s] by (simp add: assms(2))
qed simp

lemma wU_fields:
  "Rd (wUL r n v s) = Rd s" "Rs (wUL r n v s) = Rs s" "Rt (wUL r n v s) = Rt s"
  "Rd (wUS r n v2 s) = Rd s" "Rs (wUS r n v2 s) = Rs s" "Rt (wUS r n v2 s) = Rt s"
  "Rd (wUC r n v3 s) = Rd s" "Rs (wUC r n v3 s) = Rs s" "Rt (wUC r n v3 s) = Rt s"
  "GPR (wUL r n v s) = (GPR s)(r := set_UL n v (GPR s r))"
  "GPR (wUS r n v2 s) = (GPR s)(r := set_US n v2 (GPR s r))"
  "GPR (wUC r n v3 s) = (GPR s)(r := set_UC n v3 (GPR s r))"
  by (simp_all add: wUL_def wUS_def wUC_def Rd_def Rs_def Rt_def)

lemma lanewise_UL:
  assumes op: "op = (\<lambda>s. if Rd s = 0 then s else fold L ns s)" and ns: "distinct ns" "set ns = {0..<4}"
    and L: "\<And>n s. L n s = wUL (Rd s) n (f (UL (GPR s (Rs s)) n) (UL (GPR s (Rt s)) n)) s"
  shows "lanewise lane 4 op f s"
proof -
  have G: "GPR (fold L ns s) = fold (\<lambda>n g. g(Rd s := set_UL n (f (UL (g (Rs s)) n) (UL (g (Rt s)) n)) (g (Rd s)))) ns (GPR s)"
    by (rule fold_lanes_GPR) (simp_all add: L wU_fields)
  show ?thesis
    using ns unfolding lanewise_def op by (auto simp: G UL.alias_fold intro!: UL.alias_fold_other)
qed

lemma lanewise_US:
  assumes op: "op = (\<lambda>s. if Rd s = 0 then s else fold L ns s)" and ns: "distinct ns" "set ns = {0..<8}"
    and L: "\<And>n s. L n s = wUS (Rd s) n (f (US (GPR s (Rs s)) n) (US (GPR s (Rt s)) n)) s"
  shows "lanewise lane 8 op f s"
proof -
  have G: "GPR (fold L ns s) = fold (\<lambda>n g. g(Rd s := set_US n (f (US (g (Rs s)) n) (US (g (Rt s)) n)) (g (Rd s)))) ns (GPR s)"
    by (rule fold_lanes_GPR) (simp_all add: L wU_fields)
  show ?thesis
    using ns unfolding lanewise_def op by (auto simp: G US.alias_fold intro!: US.alias_fold_other)
qed

lemma lanewise_UC:
  assumes op: "op = (\<lambda>s. if Rd s = 0 then s else fold L ns s)" and ns: "distinct ns" "set ns = {0..<16}"
    and L: "\<And>n s. L n s = wUC (Rd s) n (f (UC (GPR s (Rs s)) n) (UC (GPR s (Rt s)) n)) s"
  shows "lanewise lane 16 op f s"
proof -
  have G: "GPR (fold L ns s) = fold (\<lambda>n g. g(Rd s := set_UC n (f (UC (g (Rs s)) n) (UC (g (Rt s)) n)) (g (Rd s)))) ns (GPR s)"
    by (rule fold_lanes_GPR) (simp_all add: L wU_fields)
  show ?thesis
    using ns unfolding lanewise_def op by (auto simp: G UC.alias_fold intro!: UC.alias_fold_other)
qed

section \<open>Saturation\<close>

definition sat_s :: "int \<Rightarrow> 'w::len word" where
  "sat_s i = word_of_int (max (- (2 ^ (LENGTH('w) - 1))) (min (2 ^ (LENGTH('w) - 1) - 1) i))"
definition sat_u :: "int \<Rightarrow> 'w::len word" where
  "sat_u i = word_of_int (max 0 (min (2 ^ LENGTH('w) - 1) i))"

lemma sat_signed:
  assumes "t = word_of_int i" "sint (t :: 'b::len word) = i" "LENGTH('w::len) \<le> LENGTH('b)"
    and "sint hi = 2 ^ (LENGTH('w) - 1) - 1" "sint lo = - (2 ^ (LENGTH('w) - 1))"
    and "h = word_of_int (2 ^ (LENGTH('w) - 1) - 1)" "l = word_of_int (- (2 ^ (LENGTH('w) - 1)))"
  shows "(if hi <s t then h else if t <s lo then l else ucast t) = (sat_s i :: 'w word)"
    and "(if hi \<le>s t then h else if t <s lo then l else ucast t) = (sat_s i :: 'w word)"
proof -
  have u: "(ucast t :: 'w word) = word_of_int i"
    unfolding assms(1) using assms(3) by (intro bit_word_eqI) (simp add: bit_simps)
  show "(if hi <s t then h else if t <s lo then l else ucast t) = (sat_s i :: 'w word)"
    "(if hi \<le>s t then h else if t <s lo then l else ucast t) = (sat_s i :: 'w word)"
    using assms(2,4-7) by (auto simp: word_sless_alt word_sle_eq sat_s_def u max_def min_def)
qed

lemma sat_unsigned:
  assumes "t = word_of_int i" "sint (t :: 'b::len word) = i" "LENGTH('w::len) \<le> LENGTH('b)"
  shows "0 \<le> i \<Longrightarrow> sint hi = 2 ^ LENGTH('w) - 1 \<Longrightarrow> h = - 1 \<Longrightarrow>
      (if hi <s t then h else ucast t) = (sat_u i :: 'w word)"
    and "i < 2 ^ LENGTH('w) \<Longrightarrow> (if t \<le>s 0 then 0 else ucast t) = (sat_u i :: 'w word)"
proof -
  have u: "(ucast t :: 'w word) = word_of_int i"
    unfolding assms(1) using assms(3) by (intro bit_word_eqI) (simp add: bit_simps)
  have m: "(word_of_int (2 ^ LENGTH('w) - 1) :: 'w word) = - 1"
    by (simp add: word_of_int_2p_len)
  show "0 \<le> i \<Longrightarrow> sint hi = 2 ^ LENGTH('w) - 1 \<Longrightarrow> h = - 1 \<Longrightarrow>
      (if hi <s t then h else ucast t) = (sat_u i :: 'w word)"
    using assms(2) by (auto simp: word_sless_alt sat_u_def u m max_def min_def)
  have "min (2 ^ LENGTH('w) - 1) i = i" if "i < 2 ^ LENGTH('w)" using that by simp
  then show "i < 2 ^ LENGTH('w) \<Longrightarrow> (if t \<le>s 0 then 0 else ucast t) = (sat_u i :: 'w word)"
    using assms(2) by (auto simp: word_sle_eq sat_u_def u max_def)
qed

lemma wide_sums:
  fixes x y :: "'w::len word"
  assumes "2 * LENGTH('w) \<le> LENGTH('b::len)"
  shows "sint (scast x + scast y :: 'b word) = sint x + sint y"
    and "sint (scast x - scast y :: 'b word) = sint x - sint y"
    and "2 \<le> LENGTH('w) \<Longrightarrow> sint (ucast x + ucast y :: 'b word) = uint x + uint y"
    and "sint (ucast x - ucast y :: 'b word) = uint x - uint y"
proof -
  define P Q :: int where "P = 2 ^ (LENGTH('w) - 1)" and "Q = 2 ^ (LENGTH('b) - 1)"
  have l: "0 < LENGTH('w)" by simp
  have PQ: "2 * P \<le> Q"
  proof -
    have "LENGTH('w) \<le> LENGTH('b) - 1" using assms l by linarith
    then have "(2::int) ^ LENGTH('w) \<le> Q" unfolding Q_def by (intro power_increasing) auto
    moreover have "(2::int) ^ LENGTH('w) = 2 * P" unfolding P_def by (metis l power_minus_mult mult.commute)
    ultimately show ?thesis by simp
  qed
  have U: "(2::int) ^ LENGTH('w) = 2 * P" unfolding P_def by (metis l power_minus_mult mult.commute)
  have x: "- P \<le> sint x" "sint x < P" "- P \<le> sint y" "sint y < P" 
    using sint_bounds [of x] sint_bounds [of y] by (simp_all add: P_def)
  have ux: "0 \<le> uint x" "uint x < 2 * P" "0 \<le> uint y" "uint y < 2 * P" 
    using uint_bounded [of x] uint_bounded [of y] U by simp_all
  have "sint (word_of_int i :: 'b word) = i" if "- Q \<le> i" "i < Q" for i
    using that by (intro sint_word_of_int) (simp_all add: Q_def)
  note w = this
  show "sint (scast x + scast y :: 'b word) = sint x + sint y" 
    using w [of "sint x + sint y"] x PQ by simp
  show "sint (scast x - scast y :: 'b word) = sint x - sint y"
    using w [of "sint x - sint y"] x PQ by simp
  have "4 * P \<le> Q" if "2 \<le> LENGTH('w)"
  proof -
    have "LENGTH('w) + 1 \<le> LENGTH('b) - 1" using assms that by linarith
    then have "(2::int) ^ (LENGTH('w) + 1) \<le> Q" unfolding Q_def by (intro power_increasing) auto
    then show ?thesis using U by simp
  qed
  then show "2 \<le> LENGTH('w) \<Longrightarrow> sint (ucast x + ucast y :: 'b word) = uint x + uint y" 
    using w [of "uint x + uint y"] ux by simp
  show "sint (ucast x - ucast y :: 'b word) = uint x - uint y"
    using w [of "uint x - uint y"] ux PQ by simp
qed

lemma wide_add_s:
  fixes x y :: "'w::len word"
  assumes "2 * LENGTH('w) \<le> LENGTH('b::len)"
    and "sint (hi :: 'b word) = 2 ^ (LENGTH('w) - 1) - 1" "sint lo = - (2 ^ (LENGTH('w) - 1))"
    and "h = word_of_int (2 ^ (LENGTH('w) - 1) - 1)" "l = word_of_int (- (2 ^ (LENGTH('w) - 1)))"
  shows "(let t = scast x + scast y in if hi <s t then h else if t <s lo then l else ucast t) = (sat_s (sint x + sint y) :: 'w word)"
    and "(let t = scast x - scast y in if hi \<le>s t then h else if t <s lo then l else ucast t) = (sat_s (sint x - sint y) :: 'w word)"
  unfolding Let_def
  using sat_signed [OF _ wide_sums(1) [OF assms(1), of x y], of hi lo h l]
    sat_signed [OF _ wide_sums(2) [OF assms(1), of x y], of hi lo h l] assms
  by simp_all

lemma wide_add_u:
  fixes x y :: "'w::len word"
  assumes "2 * LENGTH('w) \<le> LENGTH('b::len)" "2 \<le> LENGTH('w)"
    and "sint (hi :: 'b word) = 2 ^ LENGTH('w) - 1" "h = - 1"
  shows "(let t = ucast x + ucast y in if hi <s t then h else ucast t) = (sat_u (uint x + uint y) :: 'w word)"
  using assms sat_unsigned(1) [OF _ wide_sums(3) [OF assms(1,2), of x y], of hi h] unfolding Let_def
  by simp

lemma wide_sub_u:
  fixes x y :: "'w::len word"
  assumes "2 * LENGTH('w) \<le> LENGTH('b::len)"
  shows "(let t = ucast x - ucast y :: 'b word in if t \<le>s 0 then 0 else ucast t) = (sat_u (uint x - uint y) :: 'w word)"
proof -
  have "uint x - uint y < 2 ^ LENGTH('w)"
    using uint_bounded [of x] uint_bounded [of y] by (smt (verit) uint_nonnegative)
  then show ?thesis
    using assms wide_sums(4) [OF assms(1), of x y] unfolding Let_def
    by (intro sat_unsigned(2)) simp_all
qed

lemma abs_sat:
  fixes y :: "'w::len word"
  assumes "lo = word_of_int (- (2 ^ (LENGTH('w) - 1)))" "hi = word_of_int (2 ^ (LENGTH('w) - 1) - 1)"
  shows "(if y = lo then hi else if y <s 0 then - y else y) = (sat_s \<bar>sint y\<bar> :: 'w word)"
proof -
  define P :: int where "P = 2 ^ (LENGTH('w) - 1)"
  have b: "- P \<le> sint y" "sint y < P" using sint_bounds [of y] by (simp_all add: P_def)
  have lo: "y = lo \<longleftrightarrow> sint y = - P"
  proof -
    have "sint lo = - P" unfolding assms(1) P_def by (rule sint_word_of_int) simp_all
    then show ?thesis by (metis signed_word_eqI)
  qed
  have n: "(word_of_int \<bar>sint y\<bar> :: 'w word) = (if sint y < 0 then - y else y)"
    by (simp add: abs_if)
  show ?thesis
  proof (cases "sint y = - P")
    case True
    then have "max (- P) (min (P - 1) \<bar>sint y\<bar>) = P - 1" using b by linarith
    moreover have "y = lo" using True lo by simp
    ultimately show ?thesis by (simp only: sat_s_def assms(2) P_def [symmetric] if_True refl)
  next
    case False
    then have "max (- P) (min (P - 1) \<bar>sint y\<bar>) = \<bar>sint y\<bar>" using b by linarith
    then show ?thesis using False lo n by (simp only: sat_s_def P_def [symmetric] word_sless_alt sint_0 if_False)
  qed
qed

text \<open>The expressions of the source at the three widths.\<close>

lemma sat_words:
  fixes x y :: u32
  shows "(let t = scast x + scast y :: u64 in if 0x7FFFFFFF <s t then 0x7FFFFFFF
      else if t <s scast (0x80000000 :: u32) then 0x80000000 else ucast t) = (sat_s (sint x + sint y) :: u32)"
    and "(let t = scast x - scast y :: u64 in if 0x7FFFFFFF \<le>s t then 0x7FFFFFFF
      else if t <s scast (0x80000000 :: u32) then 0x80000000 else ucast t) = (sat_s (sint x - sint y) :: u32)"
    and "(let t = ucast x + ucast y :: u64 in if 0xffffffff <s t then 0xffffffff else ucast t) =
      (sat_u (uint x + uint y) :: u32)"
    and "(let t = ucast x - ucast y :: u64 in if t \<le>s 0 then 0 else ucast t) = (sat_u (uint x - uint y) :: u32)"
  by (rule wide_add_s wide_add_u wide_sub_u; simp)+

lemma sat_halves:
  fixes x y :: u16
  shows "(let t = scast x + scast y :: u32 in if 0x7FFF <s t then 0x7FFF
      else if t <s scast (0x8000 :: u16) then 0x8000 else ucast t) = (sat_s (sint x + sint y) :: u16)"
    and "(let t = scast x - scast y :: u32 in if 0x7FFF \<le>s t then 0x7FFF
      else if t <s scast (0x8000 :: u16) then 0x8000 else ucast t) = (sat_s (sint x - sint y) :: u16)"
    and "(let t = ucast x + ucast y :: u32 in if 0xFFFF <s t then 0xFFFF else ucast t) =
      (sat_u (uint x + uint y) :: u16)"
    and "(let t = ucast x - ucast y :: u32 in if t \<le>s 0 then 0 else ucast t) = (sat_u (uint x - uint y) :: u16)"
  by (rule wide_add_s wide_add_u wide_sub_u; simp)+

lemma sat_bytes:
  fixes x y :: u8
  shows "(let t = scast x + scast y :: u16 in if 0x7F <s t then 0x7F
      else if t <s scast (0x80 :: u8) then 0x80 else ucast t) = (sat_s (sint x + sint y) :: u8)"
    and "(let t = scast x - scast y :: u16 in if 0x7F \<le>s t then 0x7F
      else if t <s scast (0x80 :: u8) then 0x80 else ucast t) = (sat_s (sint x - sint y) :: u8)"
    and "(let t = ucast x + ucast y :: u16 in if 0xFF < t then 0xFF else ucast t) =
      (sat_u (uint x + uint y) :: u8)"
    and "(let t = ucast x - ucast y :: u16 in if t \<le>s 0 then 0 else ucast t) = (sat_u (uint x - uint y) :: u8)"
proof -
  have s: "sint (ucast x + ucast y :: u16) = uint x + uint y" by (rule wide_sums) simp_all
  have b: "uint x + uint y < 2 ^ 15" using uint_bounded [of x] uint_bounded [of y] by simp
  have "uint (ucast x + ucast y :: u16) = uint x + uint y"
    using b by (simp add: uint_word_ariths take_bit_eq_mod uint_up_ucast is_up)
  then have "(0xFF < (ucast x + ucast y :: u16)) = (0xFF <s (ucast x + ucast y :: u16))"
    unfolding word_less_def word_sless_alt s by simp
  moreover have "(let t = ucast x + ucast y :: u16 in if 0xFF <s t then 0xFF else ucast t) =
      (sat_u (uint x + uint y) :: u8)" by (rule wide_add_u; simp)
  ultimately show "(let t = ucast x + ucast y :: u16 in if 0xFF < t then 0xFF else ucast t) =
      (sat_u (uint x + uint y) :: u8)" by (simp only: Let_def)
qed (rule wide_add_s wide_add_u wide_sub_u; simp)+

lemma abs_words: "(if y = 0x80000000 then 0x7fffffff else if y <s 0 then - y else y) = (sat_s \<bar>sint y\<bar> :: u32)"
  by (rule abs_sat) simp_all

lemma abs_halves: "(if y = 0x8000 then 0x7fff else if y <s 0 then - y else y) = (sat_s \<bar>sint y\<bar> :: u16)"
  by (rule abs_sat) simp_all

section \<open>The instructions\<close>

definition ones_if :: "bool \<Rightarrow> 'w::len word" where "ones_if P = (if P then - 1 else 0)"

definition mmi_words ::
    "(('a cpuRegisters_scheme \<Rightarrow> 'a cpuRegisters_scheme) \<times> (u32 \<Rightarrow> u32 \<Rightarrow> u32)) list" where
  "mmi_words =
  [(PADDW, (+)),
   (PSUBW, (-)),
   (PADDSW, \<lambda>x y. sat_s (sint x + sint y)),
   (PSUBSW, \<lambda>x y. sat_s (sint x - sint y)),
   (PADDUW, \<lambda>x y. sat_u (uint x + uint y)),
   (PSUBUW, \<lambda>x y. sat_u (uint x - uint y)),
   (PCGTW, \<lambda>x y. ones_if (sint y < sint x)),
   (PCEQW, \<lambda>x y. ones_if (x = y)),
   (PMAXW, \<lambda>x y. of_int (max (sint x) (sint y))),
   (PMINW, \<lambda>x y. of_int (min (sint x) (sint y))),
   (PABSW, \<lambda>x y. sat_s \<bar>sint y\<bar>)]"

definition mmi_halves ::
    "(('a cpuRegisters_scheme \<Rightarrow> 'a cpuRegisters_scheme) \<times> (u16 \<Rightarrow> u16 \<Rightarrow> u16)) list" where
  "mmi_halves =
  [(PADDH, (+)),
   (PSUBH, (-)),
   (PADDSH, \<lambda>x y. sat_s (sint x + sint y)),
   (PSUBSH, \<lambda>x y. sat_s (sint x - sint y)),
   (PADDUH, \<lambda>x y. sat_u (uint x + uint y)),
   (PSUBUH, \<lambda>x y. sat_u (uint x - uint y)),
   (PCGTH, \<lambda>x y. ones_if (sint y < sint x)),
   (PCEQH, \<lambda>x y. ones_if (x = y)),
   (PMAXH, \<lambda>x y. of_int (max (sint x) (sint y))),
   (PMINH, \<lambda>x y. of_int (min (sint x) (sint y))),
   (PABSH, \<lambda>x y. sat_s \<bar>sint y\<bar>)]"

definition mmi_bytes ::
    "(('a cpuRegisters_scheme \<Rightarrow> 'a cpuRegisters_scheme) \<times> (u8 \<Rightarrow> u8 \<Rightarrow> u8)) list" where
  "mmi_bytes =
  [(PADDB, (+)),
   (PSUBB, (-)),
   (PADDSB, \<lambda>x y. sat_s (sint x + sint y)),
   (PSUBSB, \<lambda>x y. sat_s (sint x - sint y)),
   (PADDUB, \<lambda>x y. sat_u (uint x + uint y)),
   (PSUBUB, \<lambda>x y. sat_u (uint x - uint y)),
   (PCGTB, \<lambda>x y. ones_if (sint y < sint x)),
   (PCEQB, \<lambda>x y. ones_if (x = y))]"

lemma element_of_words:
  fixes x y :: "'w::len word"
  shows "(if y <s x then x else y) = of_int (max (sint x) (sint y))"
    and "(if x <s y then x else y) = of_int (min (sint x) (sint y))"
    and "(if y <s x then - 1 else 0) = (ones_if (sint y < sint x) :: 'v::len word)"
    and "(if x = y then - 1 else 0) = (ones_if (x = y) :: 'v::len word)"
  by (auto simp: word_sless_alt max_def min_def ones_if_def)

lemma all_ones: "(0xFFFFFFFF :: u32) = - 1" "(0xFFFF :: u16) = - 1" "(0xFF :: u8) = - 1"
  by simp_all

lemma lanes: "distinct [0, 1, 2, 3 :: nat]" "set [0, 1, 2, 3 :: nat] = {0..<4}"
  "distinct [0, 1, 2, 3, 4, 5, 6, 7 :: nat]" "set [0, 1, 2, 3, 4, 5, 6, 7 :: nat] = {0..<8}"
  "distinct [0..<16]" "set [0..<16] = {0..<16}"
  by (simp_all only: set_upt [symmetric] distinct_upt) (simp_all add: upt_rec numeral_eq_Suc)


lemmas words_ops = PADDW_def PSUBW_def PADDSW_def PSUBSW_def PADDUW_def PSUBUW_def PCGTW_def PCEQW_def PMAXW_def PMINW_def PABSW_def
lemmas words_elements = PADDW_lane_def PSUBW_lane_def PADDSW_lane_def PSUBSW_lane_def PADDUW_lane_def PSUBUW_lane_def PCGTW_lane_def PCEQW_lane_def PMAXW_lane_def PMINW_lane_def PABSW_lane_def

lemma mmi_words_lanewise:
  "\<forall>(op, f) \<in> set mmi_words. lanewise lane 4 op f s"
  unfolding mmi_words_def list.set ball_simps prod.case
  by (intro conjI TrueI; rule lanewise_UL, rule ext, rule words_ops, rule lanes, rule lanes,
      simp only: words_elements element_of_words all_ones sat_words sat_words(3) [unfolded all_ones] abs_words)

lemmas halves_ops = PADDH_def PSUBH_def PADDSH_def PSUBSH_def PADDUH_def PSUBUH_def PCGTH_def PCEQH_def PMAXH_def PMINH_def PABSH_def
lemmas halves_elements = PADDH_lane_def PSUBH_lane_def PADDSH_lane_def PSUBSH_lane_def PADDUH_lane_def PSUBUH_lane_def PCGTH_lane_def PCEQH_lane_def PMAXH_lane_def PMINH_lane_def PABSH_lane_def

lemma mmi_halves_lanewise:
  "\<forall>(op, f) \<in> set mmi_halves. lanewise lane 8 op f s"
  unfolding mmi_halves_def list.set ball_simps prod.case
  by (intro conjI TrueI; rule lanewise_US, rule ext, rule halves_ops, rule lanes, rule lanes,
      simp only: halves_elements element_of_words all_ones sat_halves sat_halves(3) [unfolded all_ones] abs_halves)

lemmas bytes_ops = PADDB_def PSUBB_def PADDSB_def PSUBSB_def PADDUB_def PSUBUB_def PCGTB_def PCEQB_def
lemmas bytes_elements = PADDB_lane_def PSUBB_lane_def PADDSB_lane_def PSUBSB_lane_def PADDUB_lane_def PSUBUB_lane_def PCGTB_lane_def PCEQB_lane_def

lemma mmi_bytes_lanewise:
  "\<forall>(op, f) \<in> set mmi_bytes. lanewise lane 16 op f s"
  unfolding mmi_bytes_def list.set ball_simps prod.case
  by (intro conjI TrueI; rule lanewise_UC, rule ext, rule bytes_ops, rule lanes, rule lanes,
      simp only: bytes_elements element_of_words all_ones sat_bytes sat_bytes(3) [unfolded all_ones])

text \<open>
  C7: Every parallel instruction that computes element by element, on words, halfwords or
  bytes, gives each element of \<open>Rd\<close> the specified function of the elements of \<open>Rs\<close> and
  \<open>Rt\<close> as they were before the instruction, also where \<open>Rd\<close> is one of the sources, and
  changes no other register: \<open>PADD\<close> and \<open>PSUB\<close> wrap around, \<open>PADDS\<close> and \<open>PSUBS\<close> saturate
  the signed integer result, \<open>PADDU\<close> and \<open>PSUBU\<close> the unsigned one, the comparisons give all
  ones or zero, \<open>PABS\<close> saturates the absolute value.
\<close>

theorem mmi_lanewise:
  "(\<forall>(op, f) \<in> set mmi_words. lanewise lane 4 op f s) \<and>
   (\<forall>(op, f) \<in> set mmi_halves. lanewise lane 8 op f s) \<and>
   (\<forall>(op, f) \<in> set mmi_bytes. lanewise lane 16 op f s)"
  by (intro conjI mmi_words_lanewise mmi_halves_lanewise mmi_bytes_lanewise)

lemma lanewiseD:
  "lanewise get N op f s \<Longrightarrow> Rd s \<noteq> 0 \<Longrightarrow> n < N \<Longrightarrow>
     get n (GPR (op s) (Rd s)) = f (get n (GPR s (Rs s))) (get n (GPR s (Rt s)))"
  unfolding lanewise_def by simp

theorem mmi_lanewise_witness:
  "UL (GPR (PADDSW (regs_rs_rt 0x7fffffff 1)) 3) 0 = 0x7fffffff"
proof -
  have "(PADDSW, \<lambda>x y. sat_s (sint x + sint y)) \<in> set mmi_words" by (simp add: mmi_words_def)
  then have "lanewise lane 4 PADDSW (\<lambda>x y :: u32. sat_s (sint x + sint y)) (regs_rs_rt 0x7fffffff 1)"
    using mmi_lanewise [of "regs_rs_rt 0x7fffffff 1"] by fastforce
  from lanewiseD [OF this, of 0] show ?thesis by (simp add: regs_rs_rt_fields sat_s_def lane_def)
qed

end
