(* ===== verification/EE_Unaligned.thy ===== *)
theory EE_Unaligned
  imports EE_LoadStore EE_ALU_Spec
begin

text \<open>
  The partial loads and stores in pairs, as compilers use them: \<open>LWL\<close> with \<open>LWR\<close> and
  \<open>LDL\<close> with \<open>LDR\<close> load from an address of any alignment, \<open>SWL\<close> with \<open>SWR\<close> and
  \<open>SDL\<close> with \<open>SDR\<close> store there.
\<close>

unbundle bit_operations_syntax

section \<open>Addresses\<close>

lemma and_parts: "(x AND mask e) + (x AND NOT (mask e)) = (x :: 'w::len word)"
proof -
  have "(x AND mask e) AND (x AND NOT (mask e)) = 0" by (rule bit_word_eqI) (simp add: bit_simps)
  then have "(x AND mask e) + (x AND NOT (mask e)) = (x AND mask e) OR (x AND NOT (mask e))"
    by (rule disjunctive_add_eq_or)
  also have "\<dots> = x" by (rule bit_word_eqI) (auto simp: bit_simps)
  finally show ?thesis .
qed

lemma take_bit_plus_word:
  fixes x y :: "'w::len word"
  assumes "e < LENGTH('w)"
  shows "take_bit e (x + y) = take_bit e (take_bit e x + take_bit e y)"
proof -
  have m: "min e LENGTH('w) = e" "min LENGTH('w) e = e" using assms by simp_all
  have "uint (take_bit e (x + y)) = uint (take_bit e (take_bit e x + take_bit e y))"
    by (simp add: unsigned_take_bit_eq uint_word_ariths m flip: take_bit_eq_mod)
       (metis take_bit_add)
  then show ?thesis by (rule unsigned_word_eqI)
qed

lemma aligned_plus:
  fixes A :: "'w::len word"
  assumes "take_bit e A = 0" "j < 2 ^ e" "e < LENGTH('w)"
  shows "(A + of_nat j) AND NOT (mask e) = A" "unat ((A + of_nat j) AND mask e) = j"
proof -
  have j: "j < 2 ^ LENGTH('w)"
    using assms(2,3) by (meson le_less_trans less_imp_le less_le_trans one_le_numeral power_increasing)
  have t: "take_bit e (of_nat j :: 'w word) = of_nat j"
    using assms(2) by (simp add: take_bit_of_nat take_bit_nat_eq_self)
  have "take_bit e (A + of_nat j) = take_bit e (take_bit e A + take_bit e (of_nat j))"
    by (rule take_bit_plus_word [OF assms(3)])
  then have m: "(A + of_nat j) AND mask e = of_nat j"
    using t by (simp add: assms(1) flip: take_bit_eq_mask)
  show "(A + of_nat j) AND NOT (mask e) = A"
    using and_parts [of "A + of_nat j" e] unfolding m by simp
  show "unat ((A + of_nat j) AND mask e) = j"
    unfolding m using j by (simp add: unat_of_nat take_bit_nat_eq_self)
qed

text \<open>
  An address is an aligned one and an offset; the last byte of an access of that width is in
  the next aligned word, unless the offset is zero.
\<close>

lemma unaligned_cases:
  fixes a :: "'w::len word"
  assumes e: "e < LENGTH('w)"
  obtains A k where "a = A + of_nat k" "k < 2 ^ e" "a AND NOT (mask e) = A" "unat (a AND mask e) = k"
    "(a + of_nat (2 ^ e - 1)) AND NOT (mask e) = (if k = 0 then A else A + of_nat (2 ^ e))"
    "unat ((a + of_nat (2 ^ e - 1)) AND mask e) = (if k = 0 then 2 ^ e - 1 else k - 1)"
proof -
  define A where "A = a AND NOT (mask e)"
  define k where "k = unat (a AND mask e)"
  have a: "a = A + of_nat k" using and_parts [of a e] by (simp add: A_def k_def add.commute)
  have k: "k < 2 ^ e"
    unfolding k_def by (simp flip: take_bit_eq_mask) (simp add: unsigned_take_bit_eq)
  have A: "take_bit e A = 0" unfolding A_def by (rule bit_word_eqI) (simp add: bit_simps)
  have "take_bit e (A + of_nat (2 ^ e)) = take_bit e (take_bit e A + take_bit e (of_nat (2 ^ e)))"
    by (rule take_bit_plus_word [OF e])
  also have "take_bit e (of_nat (2 ^ e) :: 'w word) = 0" by (intro bit_word_eqI) (simp add: bit_simps)
  finally have A2: "take_bit e (A + of_nat (2 ^ e)) = 0" by (simp add: A)
  have last: "a + of_nat (2 ^ e - 1) = (A + of_nat (2 ^ e)) + of_nat (k - 1)" if "k \<noteq> 0"
    using that by (simp add: a of_nat_diff)
  have first: "a + of_nat (2 ^ e - 1) = A + of_nat (2 ^ e - 1)" if "k = 0"
    using that by (simp add: a)
  have "2 ^ e - 1 < (2 :: nat) ^ e" "k - 1 < 2 ^ e" using k by auto
  note lo = aligned_plus [OF A this(1) e] and hi = aligned_plus [OF A2 this(2) e]
  have "(a + of_nat (2 ^ e - 1)) AND NOT (mask e) = (if k = 0 then A else A + of_nat (2 ^ e)) \<and>
    unat ((a + of_nat (2 ^ e - 1)) AND mask e) = (if k = 0 then 2 ^ e - 1 else k - 1)"
  proof (cases "k = 0")
    case True
    then show ?thesis using lo by (simp only: first if_True simp_thms)
  next
    case False
    then show ?thesis using hi by (simp only: last if_False simp_thms)
  qed
  then show thesis using that [OF a k A_def [symmetric] k_def [symmetric]] by blast
qed

section \<open>Loads\<close>

text \<open>The left part of one word and the right part of the word before are the word between.\<close>

lemma merge_load:
  fixes f :: "'a::len word \<Rightarrow> u8" and M0 M1 :: "'w::len word"
  assumes "LENGTH('w) = 8 * n" "k < n"
    and "M1 = load_le n f (A + of_nat n)" "M0 = load_le n f A"
  shows "((r AND mask (8 * n - 8 * k)) OR push_bit (8 * n - 8 * k) M1) AND NOT (mask (8 * n - 8 * k))
      OR drop_bit (8 * k) M0 = load_le n f (A + of_nat k)"
proof (rule bit_word_eqI)
  fix i
  assume i: "i < LENGTH('w)"
  let ?m = "8 * n - 8 * k"
  have lo: "(i + 8 * k) div 8 = i div 8 + k" "(i + 8 * k) mod 8 = i mod 8" by simp_all
  have hi: "(i - ?m) div 8 + n = i div 8 + k" "(i - ?m) mod 8 = i mod 8" if "?m \<le> i"
  proof -
    obtain c where "i = ?m + c" using le_Suc_ex \<open>?m \<le> i\<close> by blast
    moreover have "?m = 8 * (n - k)" by (simp add: diff_mult_distrib2)
    ultimately show "(i - ?m) div 8 + n = i div 8 + k" "(i - ?m) mod 8 = i mod 8"
      using assms(2) by simp_all
  qed
  show "bit (((r AND mask ?m) OR push_bit ?m M1) AND NOT (mask ?m) OR drop_bit (8 * k) M0) i =
    bit (load_le n f (A + of_nat k) :: 'w word) i"
  proof (cases "i < ?m")
    case True
    then have "bit (((r AND mask ?m) OR push_bit ?m M1) AND NOT (mask ?m) OR drop_bit (8 * k) M0) i = bit M0 (i + 8 * k)"
      using i by (simp add: bit_simps add.commute)
    moreover have "i + 8 * k < 8 * n" using True by simp
    ultimately show ?thesis using True i assms(1)
      by (simp add: assms(4) bit_load_le lo add.assoc add.commute)
  next
    case False
    have last: "i - ?m < 8 * n" using i assms(1) by simp
    from False have "\<not> bit M0 (8 * k + i)" using assms(1) bit_imp_le_length [of M0] by fastforce
    with False i have "bit (((r AND mask ?m) OR push_bit ?m M1) AND NOT (mask ?m) OR drop_bit (8 * k) M0) i = bit M1 (i - ?m)"
      by (simp add: bit_simps)
    also have "\<dots> = bit (f (A + of_nat ((i - ?m) div 8 + n))) ((i - ?m) mod 8)"
      using i assms(1) last by (simp add: assms(3) bit_load_le add.assoc add.commute)
    also have "\<dots> = bit (f (A + of_nat (i div 8 + k))) (i mod 8)"
      using False by (simp only: hi not_less)
    finally show ?thesis using i assms(1) by (simp add: bit_load_le add.assoc add.commute)
  qed
qed


lemma below_4: "k < 4 \<Longrightarrow> k \<in> {0, 1, 2, 3 :: nat}" by auto
lemma below_8: "k < 8 \<Longrightarrow> k \<in> {0, 1, 2, 3, 4, 5, 6, 7 :: nat}" by auto

lemma tables_LWL_LWR:
  assumes "k < 4"
  shows "LWL_MASK ! k = mask (24 - 8 * k)" "LWL_SHIFT ! k = 24 - 8 * k"
    "LWR_MASK ! k = NOT (mask (32 - 8 * k))" "LWR_SHIFT ! k = 8 * k"
    "SWL_MASK ! k = NOT (mask (8 * k + 8))" "SWL_SHIFT ! k = 24 - 8 * k"
    "SWR_MASK ! k = mask (8 * k)" "SWR_SHIFT ! k = 8 * k"
  using below_4 [OF assms]
  by (auto simp: LWL_MASK_def LWL_SHIFT_def LWR_MASK_def LWR_SHIFT_def
      SWL_MASK_def SWL_SHIFT_def SWR_MASK_def SWR_SHIFT_def mask_eq_exp_minus_1)

lemma tables_LDL_LDR:
  assumes "k < 8"
  shows "LDL_MASK ! k = mask (56 - 8 * k)" "LDL_SHIFT ! k = 56 - 8 * k"
    "LDR_MASK ! k = NOT (mask (64 - 8 * k))" "LDR_SHIFT ! k = 8 * k"
    "SDL_MASK ! k = NOT (mask (8 * k + 8))" "SDL_SHIFT ! k = 56 - 8 * k"
    "SDR_MASK ! k = mask (8 * k)" "SDR_SHIFT ! k = 8 * k"
  using below_8 [OF assms]
  by (auto simp: LDL_MASK_def LDL_SHIFT_def LDR_MASK_def LDR_SHIFT_def
      SDL_MASK_def SDL_SHIFT_def SDR_MASK_def SDR_SHIFT_def mask_eq_exp_minus_1)

lemma masks_3_7: "(3 :: u32) = mask 2" "(7 :: u32) = mask 3" by (simp_all add: mask_eq_exp_minus_1)

lemma aligned_and: "(a AND NOT (mask e)) AND (2 ^ e - 1) = (0 :: 'w::len word)"
  by (rule bit_word_eqI) (simp add: bit_simps flip: mask_eq_exp_minus_1)

lemma memRead_direct:
  "direct (a AND NOT 3) s \<Longrightarrow> memRead32 d (a AND NOT 3) s = Ok (load_le 4 (vbyte s) (a AND NOT 3)) s"
  "direct (a AND NOT 7) s \<Longrightarrow> memRead64 d (a AND NOT 7) s = Ok (load_le 8 (vbyte s) (a AND NOT 7)) s"
  using load_vbyte [OF aligned_and, of 2 s a] load_vbyte [OF aligned_and, of 3 s a]
  by (simp_all add: memRead32_def memRead64_def vtlb_read_direct masks_3_7)

lemma regs_frame [frame_simps]:
  "direct a (to_Rt v s) = direct a s" "vbyte (to_Rt v s) = vbyte s"
  "direct a (s\<lparr>code := c\<rparr>) = direct a s" "vbyte (s\<lparr>code := c\<rparr>) = vbyte s"
  by (simp_all add: fun_eq_iff to_Rt_def wUD_def direct_def vbyte_def CheckCache_def)

text \<open>The second instruction of the pair computes its address from the same register.\<close>

lemma second_operands:
  "Rs (s\<lparr>code := c\<rparr>) \<noteq> Rt s \<Longrightarrow> ea ((to_Rt v s)\<lparr>code := c\<rparr>) = ea (s\<lparr>code := c\<rparr>)"
  "Rt ((to_Rt v s)\<lparr>code := c\<rparr>) = Rt (s\<lparr>code := c\<rparr>)"
  by (simp_all add: ea_def rsL_def to_Rt_def wUD_def Rs_def Rt_def Imm_def)

lemma word_keeps_extension:
  fixes x m :: u32
  assumes "bit m 31 = bit x 31"
  shows "set_UL 0 m (set_UD 0 (scast x) g) = set_UD 0 (scast m) g"
  using assms by (intro bit_word_eqI) (auto simp: bit_set_lane bit_simps not_less)

lemma unaligned_4:
  fixes a :: u32
  obtains A k where "a = A + of_nat k" "k < 4" "a AND NOT 3 = A" "unat (a AND 3) = k"
    "(a + 3) AND NOT 3 = (if k = 0 then A else A + 4)"
    "unat ((a + 3) AND 3) = (if k = 0 then 3 else k - 1)"
proof (rule unaligned_cases [of 2 a])
  fix A k
  assume "a = A + of_nat k" "k < 2 ^ 2" "a AND NOT (mask 2) = A" "unat (a AND mask 2) = k"
    "(a + of_nat (2 ^ 2 - 1)) AND NOT (mask 2) = (if k = 0 then A else A + of_nat (2 ^ 2))"
    "unat ((a + of_nat (2 ^ 2 - 1)) AND mask 2) = (if k = 0 then 2 ^ 2 - 1 else k - 1)"
  then show thesis using that [of A k] by (simp add: mask_eq_exp_minus_1)
qed simp

lemma unaligned_8:
  fixes a :: u32
  obtains A k where "a = A + of_nat k" "k < 8" "a AND NOT 7 = A" "unat (a AND 7) = k"
    "(a + 7) AND NOT 7 = (if k = 0 then A else A + 8)"
    "unat ((a + 7) AND 7) = (if k = 0 then 7 else k - 1)"
proof (rule unaligned_cases [of 3 a])
  fix A k
  assume "a = A + of_nat k" "k < 2 ^ 3" "a AND NOT (mask 3) = A" "unat (a AND mask 3) = k"
    "(a + of_nat (2 ^ 3 - 1)) AND NOT (mask 3) = (if k = 0 then A else A + of_nat (2 ^ 3))"
    "unat ((a + of_nat (2 ^ 3 - 1)) AND mask 3) = (if k = 0 then 2 ^ 3 - 1 else k - 1)"
  then show thesis using that [of A k] by (simp add: mask_eq_exp_minus_1)
qed simp

lemma full_masks: "mask 32 = (- 1 :: u32)" "mask 64 = (- 1 :: u64)"
  by (simp_all add: mask_eq_exp_minus_1)

lemma set_UD_again: "set_UD 0 x (set_UD 0 y g) = set_UD 0 x g"
  by (rule bit_word_eqI) (simp add: bit_set_lane)

lemma LWL_LWR:
  fixes s :: "'a ee_mem_scheme"
  assumes second: "ea (s\<lparr>code := c\<rparr>) = a" "Rt (s\<lparr>code := c\<rparr>) = Rt s"
    and regs: "Rt s \<noteq> 0" "Rs (s\<lparr>code := c\<rparr>) \<noteq> Rt s"
    and ea: "ea s = a + 3" and d0: "direct (a AND NOT 3) s" and d1: "direct ((a + 3) AND NOT 3) s"
  shows "\<exists>s'. res_bind (LWL d s) (\<lambda>_ s1. LWR d (s1\<lparr>code := c\<rparr>)) = Ok () s' \<and>
      GPR s' = (GPR s)(Rt s := set_UD 0 (scast (load_le 4 (vbyte s) a :: u32)) (GPR s (Rt s)))"
proof -
  obtain A k where a: "a = A + of_nat k" "k < 4" "a AND NOT 3 = A" "unat (a AND 3) = k"
    and l: "(a + 3) AND NOT 3 = (if k = 0 then A else A + 4)" "unat ((a + 3) AND 3) = (if k = 0 then 3 else k - 1)"
    by (rule unaligned_4)
  define j where "j = (if k = 0 then 3 else k - 1)"
  define X where "X = (rtL s AND LWL_MASK ! j) OR push_bit (LWL_SHIFT ! j) (load_le 4 (vbyte s) ((a + 3) AND NOT 3))"
  define M where "M = (X AND LWR_MASK ! k) OR drop_bit (LWR_SHIFT ! k) (load_le 4 (vbyte s) A)"
  have L: "LWL d s = Ok () (to_Rt (scast X) s)"
    by (simp add: LWL_def Let_def ea memRead_direct(1) [OF d1, simplified] X_def j_def l(2))
  have M: "M = load_le 4 (vbyte s) a"
  proof (cases "k = 0")
    case True
    then show ?thesis using a by (simp add: M_def tables_LWL_LWR full_masks)
  next
    case False
    then have "24 - 8 * j = 32 - 8 * k" "j < 4" using a(2) by (auto simp: j_def)
    with False a(2) merge_load [of 4 k "load_le 4 (vbyte s) (A + 4)" "vbyte s" A "load_le 4 (vbyte s) A" "rtL s"]
    show ?thesis unfolding M_def X_def l(1) unfolding a(1) by (simp add: tables_LWL_LWR)
  qed
  have top: "bit M 31 = bit X 31" if "k \<noteq> 0"
    using that a(2) by (auto simp: M_def tables_LWL_LWR bit_simps bit_load_le)
  have rt: "rtL ((to_Rt (scast X) s)\<lparr>code := c\<rparr>) = X"
    using regs second by (simp add: rtL_def to_Rt_def wUD_def Rt_def lane_simps ucast_scast_u32)
  have R: "LWR d ((to_Rt (scast X) s)\<lparr>code := c\<rparr>) =
      Ok () (if k = 0 then wUD (Rt s) 0 (scast M) ((to_Rt (scast X) s)\<lparr>code := c\<rparr>)
             else wUL (Rt s) 0 M ((to_Rt (scast X) s)\<lparr>code := c\<rparr>))"
    using d0 regs second
    by (simp add: LWR_def Let_def frame_simps second_operands memRead_direct(1) [of a, unfolded a(3)] a(3) [simplified] a(4) rt M_def)
  show ?thesis
    using regs top M unfolding L res_bind.simps R
    by (simp add: to_Rt_def wUD_def wUL_def set_UD_again word_keeps_extension)
qed

lemma LDL_LDR:
  fixes s :: "'a ee_mem_scheme"
  assumes second: "ea (s\<lparr>code := c\<rparr>) = a" "Rt (s\<lparr>code := c\<rparr>) = Rt s"
    and regs: "Rt s \<noteq> 0" "Rs (s\<lparr>code := c\<rparr>) \<noteq> Rt s"
    and ea: "ea s = a + 7" and d0: "direct (a AND NOT 7) s" and d1: "direct ((a + 7) AND NOT 7) s"
  shows "\<exists>s'. res_bind (LDL d s) (\<lambda>_ s1. LDR d (s1\<lparr>code := c\<rparr>)) = Ok () s' \<and>
      GPR s' = (GPR s)(Rt s := set_UD 0 (load_le 8 (vbyte s) a) (GPR s (Rt s)))"
proof -
  obtain A k where a: "a = A + of_nat k" "k < 8" "a AND NOT 7 = A" "unat (a AND 7) = k"
    and l: "(a + 7) AND NOT 7 = (if k = 0 then A else A + 8)" "unat ((a + 7) AND 7) = (if k = 0 then 7 else k - 1)"
    by (rule unaligned_8)
  define j where "j = (if k = 0 then 7 else k - 1)"
  define X where "X = (rtD s AND LDL_MASK ! j) OR push_bit (LDL_SHIFT ! j) (load_le 8 (vbyte s) ((a + 7) AND NOT 7))"
  define M where "M = (X AND LDR_MASK ! k) OR drop_bit (LDR_SHIFT ! k) (load_le 8 (vbyte s) A)"
  have L: "LDL d s = Ok () (to_Rt X s)"
    by (simp add: LDL_def Let_def ea memRead_direct(2) [OF d1, simplified] X_def j_def l(2))
  have M: "M = load_le 8 (vbyte s) a"
  proof (cases "k = 0")
    case True
    then show ?thesis using a by (simp add: M_def tables_LDL_LDR full_masks)
  next
    case False
    then have "56 - 8 * j = 64 - 8 * k" "j < 8" using a(2) by (auto simp: j_def)
    with False a(2) merge_load [of 8 k "load_le 8 (vbyte s) (A + 8)" "vbyte s" A "load_le 8 (vbyte s) A" "rtD s"]
    show ?thesis unfolding M_def X_def l(1) unfolding a(1) by (simp add: tables_LDL_LDR)
  qed
  have rt: "rtD ((to_Rt X s)\<lparr>code := c\<rparr>) = X"
    using regs second by (simp add: rtD_def to_Rt_def wUD_def Rt_def lane_simps)
  have R: "LDR d ((to_Rt X s)\<lparr>code := c\<rparr>) = Ok () (to_Rt M ((to_Rt X s)\<lparr>code := c\<rparr>))"
    using d0 regs second
    by (simp add: LDR_def Let_def frame_simps second_operands memRead_direct(2) [of a, unfolded a(3)] a(3) [simplified] a(4) rt M_def)
  show ?thesis
    using regs second M unfolding L res_bind.simps R by (simp add: to_Rt_def wUD_def Rt_def set_UD_again)
qed

text \<open>
  C8: \<open>LWL\<close> at the last byte followed by \<open>LWR\<close> at the first byte of a word of any alignment,
  and \<open>LDL\<close> and \<open>LDR\<close> of a double word, load the little-endian value of the bytes there,
  sign extended in the first case, and change no other register.  The bytes are those at
  the guest addresses, so the access may cross into another page.
\<close>

theorem unaligned_loads:
  fixes s :: "'a ee_mem_scheme"
  assumes "ea (s\<lparr>code := c\<rparr>) = a" "Rt (s\<lparr>code := c\<rparr>) = Rt s" "Rt s \<noteq> 0" "Rs (s\<lparr>code := c\<rparr>) \<noteq> Rt s"
  shows "(ea s = a + 3 \<and> direct (a AND NOT 3) s \<and> direct ((a + 3) AND NOT 3) s \<longrightarrow>
      (\<exists>s'. res_bind (LWL d s) (\<lambda>_ s1. LWR d (s1\<lparr>code := c\<rparr>)) = Ok () s' \<and>
        GPR s' = (GPR s)(Rt s := set_UD 0 (scast (load_le 4 (vbyte s) a :: u32)) (GPR s (Rt s))))) \<and>
    (ea s = a + 7 \<and> direct (a AND NOT 7) s \<and> direct ((a + 7) AND NOT 7) s \<longrightarrow>
      (\<exists>s'. res_bind (LDL d s) (\<lambda>_ s1. LDR d (s1\<lparr>code := c\<rparr>)) = Ok () s' \<and>
        GPR s' = (GPR s)(Rt s := set_UD 0 (load_le 8 (vbyte s) a) (GPR s (Rt s)))))"
  using LWL_LWR [OF assms] LDL_LDR [OF assms] by blast

definition unaligned_example :: ee_mem where
  "unaligned_example = ee_mem0\<lparr>vmap := \<lambda>_. 0x10000000, code := 0x88220005,
     GPR := (\<lambda>_. 0)(1 := 0x100), hostmem := \<lambda>p. ucast (p - 0x10000000)\<rparr>"

theorem unaligned_loads_witness:
  "\<forall>d. \<exists>s'. res_bind (LWL d unaligned_example) (\<lambda>_ s1. LWR d (s1\<lparr>code := 0x98220002\<rparr>)) = Ok () s' \<and>
     UD (GPR s' 2) 0 = 0x05040302"
  (is "\<forall>d. ?P d")
proof (rule allI)
  fix d :: "ee_mem devs"
  let ?s = unaligned_example
  have o: "Rs ?s = 1" "Rt ?s = 2" "Rs (?s\<lparr>code := 0x98220002\<rparr>) = 1" "Rt (?s\<lparr>code := 0x98220002\<rparr>) = 2"
    "ea ?s = 0x105" "ea (?s\<lparr>code := 0x98220002\<rparr>) = 0x102"
    by (simp_all add: unaligned_example_def Rs_def Rt_def ea_def rsL_def Imm_def lane_def)
  have d: "direct (0x102 AND NOT 3) ?s" "direct ((0x102 + 3) AND NOT 3) ?s"
    by (simp_all add: unaligned_example_def direct_def isHandler_def neg64_iff ee_mem0_def)
  have v: "load_le 4 (vbyte ?s) 0x102 = (0x05040302 :: u32)"
    by (simp add: load_le_numeral vbyte_def unaligned_example_def assumePtr_def)
  show "?P d"
    using unaligned_loads [where s = ?s and c = "0x98220002" and a = "0x102" and d = d] d v by (auto simp: o lane_simps)
qed

section \<open>Stores\<close>

lemma offset_less:
  fixes b P :: "'a::len word"
  assumes "j + n \<le> 2 ^ LENGTH('a)"
  shows "unat (b - (P + of_nat j)) < n \<longleftrightarrow> j \<le> unat (b - P) \<and> unat (b - P) < j + n"
    and "j \<le> unat (b - P) \<Longrightarrow> unat (b - (P + of_nat j)) = unat (b - P) - j"
proof -
  define x where "x = b - P"
  have x: "b - (P + of_nat j) = x - of_nat j" by (simp add: x_def)
  show le: "unat (b - (P + of_nat j)) = unat (b - P) - j" if "j \<le> unat (b - P)"
  proof -
    have u: "unat (of_nat j :: 'a word) = j"
      using le_less_trans [OF that unsigned_less] by (simp add: unat_of_nat)
    moreover have "of_nat j \<le> x" using that u by (simp add: word_le_nat_alt x_def)
    ultimately show ?thesis by (simp add: x unat_sub flip: x_def)
  qed
  show "unat (b - (P + of_nat j)) < n \<longleftrightarrow> j \<le> unat (b - P) \<and> unat (b - P) < j + n"
  proof (cases "j \<le> unat (b - P)")
    case True
    then show ?thesis using le by auto
  next
    case False
    show ?thesis
    proof (cases "j = 2 ^ LENGTH('a)")
      case True
      then have "n = 0" using assms by simp
      with False show ?thesis by simp
    next
      case j: False
      then have u: "unat (of_nat j :: 'a word) = j" 
        using assms by (simp add: unat_of_nat take_bit_nat_eq_self)
      then have "\<not> of_nat j \<le> x" using False by (simp add: word_le_nat_alt x_def)
      then have "unat (x - of_nat j) = unat x + 2 ^ LENGTH('a) - j" 
        using u by (simp add: unat_sub_if_size word_size word_le_nat_alt)
      then show ?thesis using False assms by (simp add: x)
    qed
  qed
qed

lemma store_le_at:
  fixes v :: "'w::len word" and P :: "'a::len word"
  assumes "j + n \<le> 2 ^ LENGTH('a)"
  shows "store_le n m (P + of_nat j) v b =
    (if j \<le> unat (b - P) \<and> unat (b - P) < j + n then ucast (drop_bit (8 * (unat (b - P) - j)) v) else m b)"
  using assms offset_less [OF assms, of b P] by (simp add: store_le_byte)

text \<open>Storing the upper bytes into the next word and the lower ones into this one.\<close>

lemma merge_store:
  fixes v :: "'w::len word" and P :: "'a::len word"
  assumes w: "LENGTH('w) = 8 * n" and k: "0 < k" "k < n" and n: "2 * n \<le> 2 ^ LENGTH('a)"
    and m1: "m1 = store_le n m (P + of_nat n) 
      (drop_bit (8 * n - 8 * k) v OR (load_le n m (P + of_nat n) AND NOT (mask (8 * k))))"
  shows "store_le n m1 P (push_bit (8 * k) v OR (load_le n m1 P AND mask (8 * k))) =
      store_le n m (P + of_nat k) v"
proof
  fix b
  define d where "d = unat (b - P)"
  have st: "store_le n f (P + of_nat j) V b = (if j \<le> d \<and> d < j + n then ucast (drop_bit (8 * (d - j)) V) else f b)"
    if "j \<le> n" for j f and V :: "'w word"
    using that n by (simp add: store_le_at d_def)
  note st0 = st [of 0, simplified]
  have b: "P + of_nat d = b" "n \<le> d \<Longrightarrow> P + of_nat n + of_nat (d - n) = b" by (simp_all add: d_def of_nat_diff)
  have byte: "ucast (drop_bit (8 * i) (load_le n f p :: 'w word)) = f (p + of_nat i)" if "i < n" for i f and p :: "'a word"
    by (rule bit_word_eqI) (use that w in \<open>auto simp: bit_simps bit_load_le\<close>)
  consider (a) "d < k" | (b) "k \<le> d" "d < n" | (c) "n \<le> d" "d < k + n" | (d) "k + n \<le> d" "d < n + n" | (e) "n + n \<le> d" by linarith
  then show "store_le n m1 P (push_bit (8 * k) v OR (load_le n m1 P AND mask (8 * k))) b =
      store_le n m (P + of_nat k) v b"
  proof cases
    case a
    then have "ucast (drop_bit (8 * d) (push_bit (8 * k) v OR (load_le n m1 P AND mask (8 * k)))) = 
       (ucast (drop_bit (8 * d) (load_le n m1 P :: 'w word)) :: u8)"
      by (intro bit_word_eqI) (use k w in \<open>auto simp: bit_simps\<close>)
    then show ?thesis using a k byte [of d m1 P] by (simp add: st0 st b m1)
  next
    case b
    then have "ucast (drop_bit (8 * d) (push_bit (8 * k) v OR (load_le n m1 P AND mask (8 * k)))) = 
       (ucast (drop_bit (8 * (d - k)) v) :: u8)"
      by (intro bit_word_eqI) (use k w in \<open>auto simp: bit_simps diff_mult_distrib2\<close>)
    then show ?thesis using b k by (simp add: st0 st)
  next
    case c
    then have "ucast (drop_bit (8 * (d - n)) (drop_bit (8 * n - 8 * k) v OR (load_le n m (P + of_nat n) AND NOT (mask (8 * k))))) = 
       (ucast (drop_bit (8 * (d - k)) v) :: u8)"
      by (intro bit_word_eqI) (use k w in \<open>auto simp: bit_simps diff_mult_distrib2\<close>)
    then show ?thesis using c k by (simp add: st0 st m1)
  next
    case d
    then have "ucast (drop_bit (8 * (d - n)) (drop_bit (8 * n - 8 * k) v OR (load_le n m (P + of_nat n) AND NOT (mask (8 * k))))) = 
       (ucast (drop_bit (8 * (d - n)) (load_le n m (P + of_nat n) :: 'w word)) :: u8)"
      by (intro bit_word_eqI) (use k w in \<open>auto simp: bit_simps diff_mult_distrib2 dest: bit_imp_le_length\<close>)
    then show ?thesis using d k byte [of "d - n" m "P + of_nat n"] by (simp add: st0 st m1 b)
  next
    case e
    then show ?thesis using k by (simp add: st0 st m1)
  qed
qed

lemma memWrite_direct:
  "direct a s \<Longrightarrow> memWrite32 d a v s = Ok () (s\<lparr>hostmem := store_le 4 (hostmem s) (assumePtr (vmap s (vpage a)) a) v\<rparr>)"
  "direct a s \<Longrightarrow> memWrite64 d a v' s = Ok () (s\<lparr>hostmem := store_le 8 (hostmem s) (assumePtr (vmap s (vpage a)) a) v'\<rparr>)"
  by (simp_all add: memWrite32_def memWrite64_def vtlb_write_direct)

lemma memRead_ptr:
  "direct a s \<Longrightarrow> memRead32 d a s = Ok (load_le 4 (hostmem s) (assumePtr (vmap s (vpage a)) a)) s"
  "direct a s \<Longrightarrow> memRead64 d a s = Ok (load_le 8 (hostmem s) (assumePtr (vmap s (vpage a)) a)) s"
  by (simp_all add: memRead32_def memRead64_def vtlb_read_direct)

lemma host_ptr:
  fixes A :: u32
  assumes "vpage (A + of_nat j) = vpage A" "unat A + j < 2 ^ 32"
  shows "assumePtr (vmap s (vpage (A + of_nat j))) (A + of_nat j) = assumePtr (vmap s (vpage A)) A + of_nat j"
proof -
  have j: "j < 2 ^ 32" using assms(2) by simp
  have u: "unat (A + of_nat j) = unat A + j"
    using assms(2) j by (simp add: unat_word_ariths unat_of_nat take_bit_nat_eq_self)
  have "(ucast (A + of_nat j) :: u64) = ucast A + of_nat j"
  proof (rule word_unat_eqI)
    have up: "unat (ucast x :: u64) = unat x" for x :: u32
    proof -
      have "unat x < 2 ^ LENGTH(32)" by (rule unsigned_less)
      then show ?thesis by (simp add: unsigned_ucast_eq take_bit_nat_eq_self)
    qed
    show "unat (ucast (A + of_nat j) :: u64) = unat (ucast A + of_nat j :: u64)"
      using assms(2) j by (simp add: up u unat_word_ariths unat_of_nat take_bit_nat_eq_self)
  qed
  then show ?thesis by (simp add: assumePtr_def assms(1))
qed

lemma unaligned_ptrs:
  fixes a A :: u32
  defines "ptr x s \<equiv> assumePtr (vmap s (vpage x)) x"
  assumes a: "a = A + of_nat k" "k < 2 ^ e" "a AND NOT (mask e) = A" "e \<le> 12"
    and page: "k \<noteq> 0 \<Longrightarrow> vpage (A + of_nat (2 ^ e)) = vpage a" "unat a + (2 ^ e - 1) < 2 ^ 32"
  shows "ptr a s = ptr A s + of_nat k" "k \<noteq> 0 \<Longrightarrow> ptr (A + of_nat (2 ^ e)) s = ptr A s + of_nat (2 ^ e)"
proof -
  have A: "A AND (2 ^ e - 1) = 0" unfolding a(3) [symmetric] by (rule aligned_and)
  have vA: "vpage a = vpage A" using vpage_low(1) [OF A a(4,2)] by (simp only: a(1))
  have "take_bit e A = 0" using A by (simp add: take_bit_eq_mask mask_eq_exp_minus_1)
  then have "take_bit e (unat A) = 0" by (metis unsigned_0 unsigned_take_bit_eq)
  then obtain q where q: "unat A = q * 2 ^ e" by (auto simp: take_bit_eq_mod)
  have "unat A < 2 ^ LENGTH(32)" by (rule unsigned_less)
  also have "(2 :: nat) ^ LENGTH(32) = 2 ^ (32 - e) * 2 ^ e" using a(4) by (simp flip: power_add)
  finally have "Suc q * 2 ^ e \<le> 2 ^ (32 - e) * 2 ^ e" unfolding q by (intro mult_le_mono1) simp
  also have "\<dots> = 2 ^ 32" using a(4) by (simp flip: power_add)
  finally have "unat A + 2 ^ e \<le> 2 ^ 32" by (simp add: q add.commute)
  then have nw: "unat A + k < 2 ^ 32" using a(2) by linarith
  then have ua: "unat a = unat A + k"
    using a(2) by (simp add: a(1) unat_word_ariths unat_of_nat)
  show "ptr a s = ptr A s + of_nat k"
    unfolding ptr_def a(1) using vA nw unfolding a(1) by (intro host_ptr)
  show "ptr (A + of_nat (2 ^ e)) s = ptr A s + of_nat (2 ^ e)" if "k \<noteq> 0"
    unfolding ptr_def using that page vA by (intro host_ptr) (simp_all add: ua)
qed

lemma store_le_again: "k \<le> 2 ^ LENGTH('a) \<Longrightarrow>
    store_le k (store_le k m p v) (p :: 'a::len word) v = store_le k m p v"
  by (rule ext) (simp add: store_le_byte)

lemma SWL_SWR:
  fixes s :: "'a ee_mem_scheme"
  assumes second: "ea (s\<lparr>code := c\<rparr>) = a" "Rt (s\<lparr>code := c\<rparr>) = Rt s"
    and ea: "ea s = a + 3" and d0: "direct (a AND NOT 3) s" and d1: "direct ((a + 3) AND NOT 3) s"
    and page: "vpage (a + 3) = vpage a" "unat a + 3 < 2 ^ 32"
  shows "\<exists>s'. res_bind (SWL d s) (\<lambda>_ s1. SWR d (s1\<lparr>code := c\<rparr>)) = Ok () s' \<and> GPR s' = GPR s \<and>
      hostmem s' = store_le 4 (hostmem s) (assumePtr (vmap s (vpage a)) a) (rtL s)"
proof -
  obtain A k where a: "a = A + of_nat k" "k < 4" "a AND NOT 3 = A" "unat (a AND 3) = k"
    and l: "(a + 3) AND NOT 3 = (if k = 0 then A else A + 4)" "unat ((a + 3) AND 3) = (if k = 0 then 3 else k - 1)"
    by (rule unaligned_4)
  have "vpage ((a + 3) AND NOT 3) = vpage (a + 3)"
    unfolding vpage_def masks_3_7 by (intro bit_word_eqI) (simp add: bit_simps)
  then have "k \<noteq> 0 \<Longrightarrow> vpage (A + 4) = vpage a" using page unfolding l(1) by simp
  then have e: "k < 2 ^ 2" "a AND NOT (mask 2) = A" "((2 :: nat) \<le> 12)"
    "k \<noteq> 0 \<Longrightarrow> vpage (A + of_nat (2 ^ 2)) = vpage a" "unat a + (2 ^ 2 - 1) < 2 ^ 32"
    using a(2,3) page(2) by (simp_all add: mask_eq_exp_minus_1)
  note p = unaligned_ptrs [OF a(1) e, where s = s, simplified]
  let ?P = "assumePtr (vmap s (vpage A)) A"
  define j where "j = (if k = 0 then 3 else k - 1)"
  define Q where "Q = (if k = 0 then ?P else ?P + 4)"
  have Q: "assumePtr (vmap s (vpage ((a + 3) AND NOT 3))) ((a + 3) AND NOT 3) = Q"
    using p(2) unfolding l(1) by (simp add: Q_def)
  define m1 where "m1 = store_le 4 (hostmem s) Q
    (drop_bit (SWL_SHIFT ! j) (rtL s) OR (load_le 4 (hostmem s) Q AND SWL_MASK ! j))"
  have L: "SWL d s = Ok () (s\<lparr>hostmem := m1\<rparr>)"
    unfolding SWL_def Let_def ea memRead_ptr(1) [OF d1] res_bind.simps memWrite_direct(1) [OF d1] Q l(2) m1_def j_def ..
  let ?s1 = "s\<lparr>hostmem := m1, code := c\<rparr>"
  have "direct (a AND NOT 3) ?s1" using d0 by (simp add: frame_simps)
  moreover have "rtL ?s1 = rtL s" using second by (simp add: rtL_def Rt_def)
  moreover have "ea ?s1 = a" using second by (simp add: ea_def rsL_def Rs_def Imm_def)
  ultimately have R: "SWR d ?s1 = Ok () (?s1\<lparr>hostmem := store_le 4 m1 ?P
      (push_bit (SWR_SHIFT ! k) (rtL s) OR (load_le 4 m1 ?P AND SWR_MASK ! k))\<rparr>)"
    by (simp add: SWR_def memRead_ptr(1) [of "a AND NOT 3", unfolded a(3)]
        memWrite_direct(1) [of "a AND NOT 3", unfolded a(3)] a(3) [simplified] a(4))
  have "store_le 4 m1 ?P (push_bit (SWR_SHIFT ! k) (rtL s) OR (load_le 4 m1 ?P AND SWR_MASK ! k)) =
      store_le 4 (hostmem s) (?P + of_nat k) (rtL s)"
  proof (cases "k = 0")
    case True
    then show ?thesis
      by (simp add: m1_def Q_def j_def tables_LWL_LWR full_masks store_le_again)
  next
    case False
    then have "24 - 8 * j = 32 - 8 * k" "8 * j + 8 = 8 * k" "j < 4" using a(2) by (auto simp: j_def)
    with False a(2) merge_store [of 4 k m1 "hostmem s" ?P "rtL s"] show ?thesis
      by (simp add: m1_def Q_def tables_LWL_LWR)
  qed
  with p(1) show ?thesis by (simp add: L R)
qed

lemma SDL_SDR:
  fixes s :: "'a ee_mem_scheme"
  assumes second: "ea (s\<lparr>code := c\<rparr>) = a" "Rt (s\<lparr>code := c\<rparr>) = Rt s"
    and ea: "ea s = a + 7" and d0: "direct (a AND NOT 7) s" and d1: "direct ((a + 7) AND NOT 7) s"
    and page: "vpage (a + 7) = vpage a" "unat a + 7 < 2 ^ 32"
  shows "\<exists>s'. res_bind (SDL d s) (\<lambda>_ s1. SDR d (s1\<lparr>code := c\<rparr>)) = Ok () s' \<and> GPR s' = GPR s \<and>
      hostmem s' = store_le 8 (hostmem s) (assumePtr (vmap s (vpage a)) a) (rtD s)"
proof -
  obtain A k where a: "a = A + of_nat k" "k < 8" "a AND NOT 7 = A" "unat (a AND 7) = k"
    and l: "(a + 7) AND NOT 7 = (if k = 0 then A else A + 8)" "unat ((a + 7) AND 7) = (if k = 0 then 7 else k - 1)"
    by (rule unaligned_8)
  have "vpage ((a + 7) AND NOT 7) = vpage (a + 7)"
    unfolding vpage_def masks_3_7 by (intro bit_word_eqI) (simp add: bit_simps)
  then have "k \<noteq> 0 \<Longrightarrow> vpage (A + 8) = vpage a" using page unfolding l(1) by simp
  then have e: "k < 2 ^ 3" "a AND NOT (mask 3) = A" "((3 :: nat) \<le> 12)"
    "k \<noteq> 0 \<Longrightarrow> vpage (A + of_nat (2 ^ 3)) = vpage a" "unat a + (2 ^ 3 - 1) < 2 ^ 32"
    using a(2,3) page(2) by (simp_all add: mask_eq_exp_minus_1)
  note p = unaligned_ptrs [OF a(1) e, where s = s, simplified]
  let ?P = "assumePtr (vmap s (vpage A)) A"
  define j where "j = (if k = 0 then 7 else k - 1)"
  define Q where "Q = (if k = 0 then ?P else ?P + 8)"
  have Q: "assumePtr (vmap s (vpage ((a + 7) AND NOT 7))) ((a + 7) AND NOT 7) = Q"
    using p(2) unfolding l(1) by (simp add: Q_def)
  define m1 where "m1 = store_le 8 (hostmem s) Q
    (drop_bit (SDL_SHIFT ! j) (rtD s) OR (load_le 8 (hostmem s) Q AND SDL_MASK ! j))"
  have L: "SDL d s = Ok () (s\<lparr>hostmem := m1\<rparr>)"
    unfolding SDL_def Let_def ea memRead_ptr(2) [OF d1] res_bind.simps memWrite_direct(2) [OF d1] Q l(2) m1_def j_def ..
  let ?s1 = "s\<lparr>hostmem := m1, code := c\<rparr>"
  have "direct (a AND NOT 7) ?s1" using d0 by (simp add: frame_simps)
  moreover have "rtD ?s1 = rtD s" using second by (simp add: rtD_def Rt_def)
  moreover have "ea ?s1 = a" using second by (simp add: ea_def rsL_def Rs_def Imm_def)
  ultimately have R: "SDR d ?s1 = Ok () (?s1\<lparr>hostmem := store_le 8 m1 ?P
      (push_bit (SDR_SHIFT ! k) (rtD s) OR (load_le 8 m1 ?P AND SDR_MASK ! k))\<rparr>)"
    by (simp add: SDR_def memRead_ptr(2) [of "a AND NOT 7", unfolded a(3)]
        memWrite_direct(2) [of "a AND NOT 7", unfolded a(3)] a(3) [simplified] a(4))
  have "store_le 8 m1 ?P (push_bit (SDR_SHIFT ! k) (rtD s) OR (load_le 8 m1 ?P AND SDR_MASK ! k)) =
      store_le 8 (hostmem s) (?P + of_nat k) (rtD s)"
  proof (cases "k = 0")
    case True
    then show ?thesis
      by (simp add: m1_def Q_def j_def tables_LDL_LDR full_masks store_le_again)
  next
    case False
    then have "56 - 8 * j = 64 - 8 * k" "8 * j + 8 = 8 * k" "j < 8" using a(2) by (auto simp: j_def)
    with False a(2) merge_store [of 8 k m1 "hostmem s" ?P "rtD s"] show ?thesis
      by (simp add: m1_def Q_def tables_LDL_LDR)
  qed
  with p(1) show ?thesis by (simp add: L R)
qed

text \<open>
  \<open>SWL\<close> at the last byte followed by \<open>SWR\<close> at the first byte of a word of any alignment
  store the word in the four bytes of host memory that the page of the address is mapped
  to, in little-endian order, and change no other byte and no register; so do \<open>SDL\<close> and
  \<open>SDR\<close> with a double word.
\<close>

lemma unaligned_stores:
  fixes s :: "'a ee_mem_scheme"
  assumes "ea (s\<lparr>code := c\<rparr>) = a" "Rt (s\<lparr>code := c\<rparr>) = Rt s"
  shows "(ea s = a + 3 \<and> direct (a AND NOT 3) s \<and> direct ((a + 3) AND NOT 3) s \<and>
        vpage (a + 3) = vpage a \<and> unat a + 3 < 2 ^ 32 \<longrightarrow>
      (\<exists>s'. res_bind (SWL d s) (\<lambda>_ s1. SWR d (s1\<lparr>code := c\<rparr>)) = Ok () s' \<and> GPR s' = GPR s \<and>
        hostmem s' = store_le 4 (hostmem s) (assumePtr (vmap s (vpage a)) a) (rtL s))) \<and>
    (ea s = a + 7 \<and> direct (a AND NOT 7) s \<and> direct ((a + 7) AND NOT 7) s \<and>
        vpage (a + 7) = vpage a \<and> unat a + 7 < 2 ^ 32 \<longrightarrow>
      (\<exists>s'. res_bind (SDL d s) (\<lambda>_ s1. SDR d (s1\<lparr>code := c\<rparr>)) = Ok () s' \<and> GPR s' = GPR s \<and>
        hostmem s' = store_le 8 (hostmem s) (assumePtr (vmap s (vpage a)) a) (rtD s)))"
  using SWL_SWR [OF assms] SDL_SDR [OF assms] by blast

definition unaligned_example2 :: ee_mem where
  "unaligned_example2 = ee_mem0\<lparr>vmap := \<lambda>_. 0x10000000, code := 0xb0220009,
     GPR := (\<lambda>_. 0)(1 := 0x100, 2 := 0x1122334455667788)\<rparr>"

theorem unaligned_stores_witness:
  "\<forall>d. \<exists>s'. res_bind (SDL d unaligned_example2) (\<lambda>_ s1. SDR d (s1\<lparr>code := 0xb4220002\<rparr>)) = Ok () s' \<and>
     hostmem s' 0x10000102 = 0x88 \<and> hostmem s' 0x10000109 = 0x11"
  (is "\<forall>d. ?P d")
proof (rule allI)
  fix d :: "ee_mem devs"
  let ?s = unaligned_example2
  have o: "Rt ?s = 2" "Rt (?s\<lparr>code := 0xb4220002\<rparr>) = 2" "ea ?s = 0x109" "ea (?s\<lparr>code := 0xb4220002\<rparr>) = 0x102"
    "rtD ?s = 0x1122334455667788"
    by (simp_all add: unaligned_example2_def Rs_def Rt_def ea_def rsL_def rtD_def Imm_def lane_def)
  have d: "direct (0x102 AND NOT 7) ?s" "direct ((0x102 + 7) AND NOT 7) ?s"
    by (simp_all add: unaligned_example2_def direct_def isHandler_def neg64_iff ee_mem0_def)
  have v: "vpage 0x109 = vpage 0x102" by (simp add: vpage_def)
  have p: "assumePtr (vmap ?s (vpage 0x102)) 0x102 = 0x10000102"
    by (simp add: unaligned_example2_def assumePtr_def)
  show "?P d"
    using unaligned_stores [where s = ?s and c = "0xb4220002" and a = "0x102" and d = d] d v
    by (auto simp: o p store_le_byte)
qed

end
