(* ===== verification/EE_FPU_Spec.thy ===== *)
theory EE_FPU_Spec
  imports EE_Exceptions EE_Frame
begin

text \<open>
  The range of the results of the floating point coprocessor.  The coprocessor of the
  console has no infinities, no NaNs and no denormals.  The code makes the operands of the
  host's arithmetic finite and replaces infinite and denormal results; a NaN would pass its
  checks, so that there is none rests on the host: its arithmetic gives a NaN only where
  IEEE 754 says so, which is what \<open>ieee_host\<close> states.
\<close>

unbundle bit_operations_syntax

section \<open>Classes of floats\<close>

definition is_inf :: "u32 \<Rightarrow> bool" where "is_inf x \<longleftrightarrow> x AND 0x7FFFFFFF = 0x7F800000"
definition is_nan :: "u32 \<Rightarrow> bool" where
  "is_nan x \<longleftrightarrow> x AND 0x7F800000 = 0x7F800000 \<and> x AND 0x007FFFFF \<noteq> 0"
definition is_denormal :: "u32 \<Rightarrow> bool" where
  "is_denormal x \<longleftrightarrow> x AND 0x7F800000 = 0 \<and> x AND 0x007FFFFF \<noteq> 0"
definition is_normal :: "u32 \<Rightarrow> bool" where
  "is_normal x \<longleftrightarrow> x AND 0x7F800000 \<noteq> 0 \<and> x AND 0x7F800000 \<noteq> 0x7F800000"
definition is_zero :: "u32 \<Rightarrow> bool" where "is_zero x \<longleftrightarrow> x AND 0x7FFFFFFF = 0"
definition ps2_float :: "u32 \<Rightarrow> bool" where
  "ps2_float x \<longleftrightarrow> \<not> is_inf x \<and> \<not> is_nan x \<and> \<not> is_denormal x"

text \<open>
  IEEE 754 on the host: where a NaN can come from, and that the square root of a positive
  normal number is one.
\<close>

definition ieee_host :: "hostfpu \<Rightarrow> bool" where
  "ieee_host h \<longleftrightarrow>
     (\<forall>x y. is_nan (f_add h x y) \<or> is_nan (f_sub h x y) \<longrightarrow> is_nan x \<or> is_nan y \<or> is_inf x \<and> is_inf y) \<and>
     (\<forall>x y. is_nan (f_mul h x y) \<longrightarrow> is_nan x \<or> is_nan y \<or> is_inf x \<and> is_zero y \<or> is_zero x \<and> is_inf y) \<and>
     (\<forall>x y. is_nan (f_div h x y) \<longrightarrow> is_nan x \<or> is_nan y \<or> is_inf x \<and> is_inf y \<or> is_zero x \<and> is_zero y) \<and>
     (\<forall>x. is_normal x \<and> \<not> bit x 31 \<longrightarrow> is_normal (f_sqrt h x) \<and> \<not> bit (f_sqrt h x) 31)"

lemma not_sign: "(- 2147483649 :: u32) = 0x7FFFFFFF" by simp

lemma abs_split: "x AND (0x7FFFFFFF :: u32) = (x AND 0x7F800000) OR (x AND 0x007FFFFF)"
  by (simp flip: bit.conj_disj_distrib)

lemma is_inf_fields: "is_inf x \<longleftrightarrow> x AND 0x7F800000 = 0x7F800000 \<and> x AND 0x007FFFFF = 0"
proof
  assume i: "is_inf x"
  have "x AND 0x7F800000 = (x AND 0x7FFFFFFF) AND 0x7F800000" "x AND 0x007FFFFF = (x AND 0x7FFFFFFF) AND 0x007FFFFF"
    by (simp_all add: and.assoc)
  with i show "x AND 0x7F800000 = 0x7F800000 \<and> x AND 0x007FFFFF = 0" by (simp add: is_inf_def)
qed (simp add: is_inf_def abs_split)

lemma is_zero_fields: "is_zero x \<longleftrightarrow> x AND 0x7F800000 = 0 \<and> x AND 0x007FFFFF = 0"
  by (simp add: is_zero_def abs_split or_eq_0_iff)

lemmas float_classes = is_inf_fields is_zero_fields is_nan_def is_denormal_def is_normal_def

lemma ps2_float_iff: "ps2_float x \<longleftrightarrow> is_normal x \<or> is_zero x"
  by (auto simp: ps2_float_def float_classes)

lemma sign_or:
  "((x AND 0x80000000) OR 0x7F7FFFFF) AND (0x7F800000 :: u32) = 0x7F000000"
  "(x AND 0x80000000) AND (0x7F800000 :: u32) = 0" "(x AND 0x80000000) AND (0x7FFFFF :: u32) = 0"
  by (simp_all add: and.assoc bit.conj_disj_distrib2)

lemma ps2_float_signed:
  "ps2_float ((x AND 0x80000000) OR posFmax)" "ps2_float (x AND 0x80000000)" "ps2_float 0"
  by (simp_all add: ps2_float_iff float_classes sign_or)

text \<open>The operands of the host's arithmetic.\<close>

lemma ps2_float_fpuDouble: "ps2_float (fpuDouble x)"
  using ps2_float_signed by (auto simp: fpuDouble_def) (simp add: ps2_float_iff is_normal_def)

lemma normal_fpuDouble: "x AND 0x7F800000 \<noteq> 0 \<Longrightarrow> is_normal (fpuDouble x)"
  by (simp add: fpuDouble_def is_normal_def sign_or)

lemma normal_fabs: "is_normal x \<Longrightarrow> is_normal (f_fabs x) \<and> \<not> bit (f_fabs x) 31"
  by (simp add: is_normal_def and.assoc) (simp add: bit_simps)

lemma fpuDouble_normal: "is_normal x \<Longrightarrow> fpuDouble x = x"
  by (simp add: is_normal_def fpuDouble_def)

lemma sign_fpuDouble: "bit (fpuDouble x) 31 \<longleftrightarrow> bit x 31"
  by (simp add: fpuDouble_def bit_simps)

lemma sign_bit: "x AND 0x80000000 = 0 \<longleftrightarrow> \<not> bit (x :: u32) 31"
  using and_exp_eq_0_iff_not_bit [of x 31] by simp

text \<open>What the host can return for them.\<close>

lemma ps2_not_nan: "ps2_float x \<Longrightarrow> \<not> is_nan x \<and> \<not> is_inf x" "is_normal x \<Longrightarrow> \<not> is_nan x \<and> \<not> is_inf x \<and> \<not> is_zero x"
  by (auto simp: ps2_float_def float_classes)

lemma host_results:
  assumes h: "ieee_host h" and x: "ps2_float x" 
  shows "\<not> is_nan y \<Longrightarrow> \<not> is_nan (f_add h x y)" "\<not> is_nan y \<Longrightarrow> \<not> is_nan (f_sub h x y)"
    "ps2_float y \<Longrightarrow> \<not> is_nan (f_mul h x y)" "is_normal y \<Longrightarrow> \<not> is_nan (f_div h x y)"
  using h ps2_not_nan(1) [OF x] ps2_not_nan(1) [of y] ps2_not_nan(2) [of y] unfolding ieee_host_def by blast+

lemma host_sqrt: "ieee_host h \<Longrightarrow> is_normal x \<Longrightarrow> \<not> bit x 31 \<Longrightarrow> is_normal (f_sqrt h x)"
  by (simp add: ieee_host_def)

section \<open>Results and flags\<close>

text \<open>What \<open>fpuResult\<close> stores and the flags it raises.\<close>

definition clamp :: "u32 \<Rightarrow> u32" where
  "clamp v = (if is_inf v then (v AND 0x80000000) OR posFmax else if is_denormal v then v AND 0x80000000 else v)"

definition raised :: "u32 \<Rightarrow> u32 \<Rightarrow> u32 \<Rightarrow> u32" where
  "raised fo fu v = (if is_inf v then fo else if is_denormal v then fu else 0)"

lemma ps2_float_clamp: "\<not> is_nan v \<Longrightarrow> ps2_float (clamp v)"
  using ps2_float_signed by (auto simp: clamp_def ps2_float_def)

lemma fpu_writes:
  "fpr (wFd v s) = (fpr s)(Fd s := v)" "fprc (wFd v s) = fprc s" "FACC (wFd v s) = FACC s"
  "fpr (wFA v s) = fpr s" "fprc (wFA v s) = fprc s" "FACC (wFA v s) = v"
  "fpr (setFPUFlags f s) = fpr s" "fprc (setFPUFlags f s) = (fprc s)(31 := ContVal s OR f)" "FACC (setFPUFlags f s) = FACC s"
  "Fd (wFd v s) = Fd s" "Fd (setFPUFlags f s) = Fd s"
  by (simp_all add: wFd_def wFPR_def wFA_def setFPUFlags_def Fd_def)

lemma fpuResult_fields:
  "fpr (fpuResult wFd fo fu v s) = (fpr s)(Fd s := clamp v)" "FACC (fpuResult wFd fo fu v s) = FACC s"
  "fpr (fpuResult wFA fo fu v s) = fpr s" "FACC (fpuResult wFA fo fu v s) = clamp v"
  "ContVal (fpuResult wFd fo fu v s) = ContVal s OR raised fo fu v"
  "ContVal (fpuResult wFA fo fu v s) = ContVal s OR raised fo fu v"
  by (auto simp: fpuResult_def checkOverflow_def checkUnderflow_def fpu_writes clamp_def raised_def
      is_inf_def is_denormal_def not_sign)

lemma setFPUFlags_fields: "ContVal (setFPUFlags f s) = ContVal s OR f" "ContVal (wFd v s) = ContVal s"
  "ContVal (clearFPUFlags f s) = ContVal s AND NOT f" "fpr (clearFPUFlags f s) = fpr s" "FACC (clearFPUFlags f s) = FACC s"
  "Fd (clearFPUFlags f s) = Fd s" "Fs (setFPUFlags f s) = Fs s" "Ft (setFPUFlags f s) = Ft s"
  by (simp_all add: setFPUFlags_def clearFPUFlags_def wFd_def wFPR_def Fd_def Fs_def Ft_def)

lemma normal_ps2: "is_normal x \<Longrightarrow> ps2_float x" by (simp add: ps2_float_iff)

definition fd_ops :: "hostfpu \<Rightarrow> ('a ee_fpu_scheme \<Rightarrow> 'a ee_fpu_scheme) list" where
  "fd_ops h = [ADD_S h, SUB_S h, MUL_S h, MADD_S h, MSUB_S h, DIV_S h, SQRT_S h, RSQRT_S h, CVT_S h]"
definition facc_ops :: "hostfpu \<Rightarrow> ('a ee_fpu_scheme \<Rightarrow> 'a ee_fpu_scheme) list" where
  "facc_ops h = [ADDA_S h, SUBA_S h, MULA_S h, MADDA_S h, MSUBA_S h]"

text \<open>The last operation of the host in each of the instructions that report overflow and underflow.\<close>

definition host_result :: "hostfpu \<Rightarrow> (('a ee_fpu_scheme \<Rightarrow> 'a ee_fpu_scheme) \<times> ('a ee_fpu_scheme \<Rightarrow> u32)) list" where
  "host_result h =
     (let x = (\<lambda>s. fpuDouble (FsVal s)); y = (\<lambda>s. fpuDouble (FtVal s)); m = (\<lambda>s. f_mul h (x s) (y s));
          acc = (\<lambda>s. fpuDouble (FACC s))
      in [(ADD_S h, \<lambda>s. f_add h (x s) (y s)), (ADDA_S h, \<lambda>s. f_add h (x s) (y s)),
          (SUB_S h, \<lambda>s. f_sub h (x s) (y s)), (SUBA_S h, \<lambda>s. f_sub h (x s) (y s)), (MUL_S h, m), (MULA_S h, m),
          (MADD_S h, \<lambda>s. f_add h (acc s) (fpuDouble (m s))), (MSUB_S h, \<lambda>s. f_sub h (acc s) (fpuDouble (m s))),
          (MADDA_S h, \<lambda>s. f_add h (FACC s) (m s)), (MSUBA_S h, \<lambda>s. f_sub h (FACC s) (m s))])"

text \<open>The flags of the divisions and roots: \<open>zero_divide\<close> of a divisor, \<open>invalid_root\<close> of an argument.\<close>

definition zero_divide :: "u32 \<Rightarrow> u32 \<Rightarrow> u32" where
  "zero_divide x y =
     (if y AND 0x7F800000 \<noteq> 0 then 0 else if x AND 0x7F800000 = 0 then FPUflagI OR FPUflagSI else FPUflagD OR FPUflagSD)"
definition invalid_root :: "u32 \<Rightarrow> u32" where
  "invalid_root y = (if y AND 0x7F800000 \<noteq> 0 \<and> bit y 31 then FPUflagI OR FPUflagSI else 0)"

lemma fd_ops_ps2:
  fixes s :: "'a ee_fpu_scheme"
  assumes h: "ieee_host h"
  shows "\<forall>op \<in> set (fd_ops h). ps2_float (fpr (op s) (Fd s)) \<and> FACC (op s) = FACC s \<and>
    (\<forall>r. r = Fd s \<or> fpr (op s) r = fpr s r)"
proof -
  note d = ps2_float_fpuDouble [THEN ps2_not_nan(1), THEN conjunct1]
  note n = host_results [OF h ps2_float_fpuDouble, THEN ps2_float_clamp]
  have root: "is_normal (f_sqrt h (f_fabs (fpuDouble y)))" if "y AND 0x7F800000 \<noteq> 0" for y
    using host_sqrt [OF h] normal_fabs [OF normal_fpuDouble [OF that]] by blast
  have root': "is_normal (f_sqrt h (fpuDouble y))" if "y AND 0x7F800000 \<noteq> 0" "y AND 0x80000000 = 0" for y
    using host_sqrt [OF h normal_fpuDouble [OF that(1)]] that(2) by (simp add: sign_fpuDouble sign_bit)
  show ?thesis
    using root [of "FtVal s"] root' [of "FtVal s"] n ps2_float_fpuDouble d
    by (simp add: fd_ops_def ADD_S_def SUB_S_def MUL_S_def MADD_S_def MSUB_S_def DIV_S_def SQRT_S_def
      RSQRT_S_def CVT_S_def Let_def checkDivideByZero_def fpuResult_fields fpu_writes setFPUFlags_fields
      ps2_float_signed normal_fpuDouble fpuDouble_normal normal_ps2)
qed


lemma facc_ops_ps2:
  fixes s :: "'a ee_fpu_scheme"
  assumes h: "ieee_host h" and acc: "ps2_float (FACC s)"
  shows "\<forall>op \<in> set (facc_ops h). ps2_float (FACC (op s)) \<and> fpr (op s) = fpr s"
proof -
  note n = host_results [OF h ps2_float_fpuDouble] host_results [OF h acc]
  have d: "\<not> is_nan (fpuDouble x)" for x using ps2_not_nan(1) [OF ps2_float_fpuDouble] by blast
  show ?thesis
    using n d ps2_float_fpuDouble
    by (simp add: facc_ops_def ADDA_S_def SUBA_S_def MULA_S_def MADDA_S_def MSUBA_S_def Let_def fpuResult_fields ps2_float_clamp)
qed

lemma overflow_flags:
  "\<forall>(op, v) \<in> set (host_result h). ContVal (op s) = ContVal s OR raised (FPUflagO OR FPUflagSO) (FPUflagU OR FPUflagSU) (v s)"
  by (simp add: host_result_def ADD_S_def SUB_S_def MUL_S_def MADD_S_def MSUB_S_def ADDA_S_def SUBA_S_def MULA_S_def
      MADDA_S_def MSUBA_S_def Let_def fpuResult_fields)

lemma divide_flags:
  "ContVal (DIV_S h s) = ContVal s OR zero_divide (FsVal s) (FtVal s)"
  "ContVal (SQRT_S h s) = (ContVal s OR invalid_root (FtVal s)) AND NOT FPUflagD"
  "ContVal (RSQRT_S h s) = ContVal s OR
     (if FtVal s AND 0x7F800000 = 0 then FPUflagD OR FPUflagSD else invalid_root (FtVal s))"
  "ContVal (CVT_S h s) = ContVal s"
  by (auto simp: DIV_S_def SQRT_S_def RSQRT_S_def CVT_S_def checkDivideByZero_def zero_divide_def invalid_root_def Let_def
      fpuResult_fields setFPUFlags_fields raised_def sign_bit)

text \<open>
  C13: on a host with IEEE 754 arithmetic the fourteen instructions that compute a float (additions,
  subtractions, products, their accumulating forms, quotient, roots, conversion from an integer)
  leave neither an infinity nor a NaN nor a denormal in their destination, whatever the operands, and
  change no other register; the accumulator stays such a number.  The ten with overflow flags raise
  them exactly when the host's result was infinite and replaced, and those for underflow when it was
  denormal; quotient and roots raise the flags for a division by zero and an invalid argument.
\<close>

theorem fpu_results_clamped:
  fixes s :: "'a ee_fpu_scheme"
  assumes "ieee_host h" and "ps2_float (FACC s)"
  shows "(\<forall>op \<in> set (fd_ops h). ps2_float (fpr (op s) (Fd s)) \<and> FACC (op s) = FACC s \<and>
      (\<forall>r. r = Fd s \<or> fpr (op s) r = fpr s r)) \<and>
   (\<forall>op \<in> set (facc_ops h). ps2_float (FACC (op s)) \<and> fpr (op s) = fpr s) \<and>
   (\<forall>(op, v) \<in> set (host_result h).
      ContVal (op s) = ContVal s OR raised (FPUflagO OR FPUflagSO) (FPUflagU OR FPUflagSU) (v s)) \<and>
   ContVal (DIV_S h s) = ContVal s OR zero_divide (FsVal s) (FtVal s) \<and>
   ContVal (SQRT_S h s) = (ContVal s OR invalid_root (FtVal s)) AND NOT FPUflagD \<and>
   ContVal (RSQRT_S h s) = ContVal s OR
     (if FtVal s AND 0x7F800000 = 0 then FPUflagD OR FPUflagSD else invalid_root (FtVal s)) \<and>
   ContVal (CVT_S h s) = ContVal s"
  using fd_ops_ps2 [OF assms(1)] facc_ops_ps2 [OF assms] overflow_flags divide_flags by blast

text \<open>A host whose every sum overflows to negative infinity.\<close>

definition overflowing_host :: hostfpu where
  "overflowing_host = hostfpu0\<lparr>f_add := \<lambda>x y. if is_nan x then x else if is_nan y then y else 0xff800000,
     f_sqrt := \<lambda>_. 0x3f800000\<rparr>"

lemma ieee_overflowing_host: "ieee_host overflowing_host"
  by (simp add: ieee_host_def overflowing_host_def hostfpu0_def float_classes)

theorem fpu_results_clamped_witness:
  "ps2_float (fpr (ADD_S overflowing_host ee_fpu0) 0) \<and> ContVal (ADD_S overflowing_host ee_fpu0) = 0x8010 \<and>
   ContVal (DIV_S overflowing_host ee_fpu0) = 0x20040"
proof -
  have s: "Fd ee_fpu0 = 0" "ContVal ee_fpu0 = 0" "FACC ee_fpu0 = 0" "FsVal ee_fpu0 = 0" "FtVal ee_fpu0 = 0"
    by (simp_all add: Fd_def ee_fpu0_def ee_mem0_def ee_mem.extend_def)
  then have "ps2_float (FACC ee_fpu0)" by (simp add: ps2_float_signed)
  from fpu_results_clamped [OF ieee_overflowing_host this] show ?thesis
    by (simp add: fd_ops_def host_result_def Let_def s)
      (simp add: overflowing_host_def fpuDouble_def raised_def zero_divide_def float_classes)
qed

end
