(* ===== verification/Dmac.thy ===== *)
theory Dmac
  imports EE_Events
begin

text \<open>
  The DMA controller of the EE: the channels of pcsx2/Dmac.h, addresses and channel starts
  of pcsx2/Dmac.cpp, and the chain tags of pcsx2/Hw.cpp.  A channel is named by the address
  of its CHCR register; its other registers follow at fixed offsets.

  The transfer a channel starts is a parameter \<open>dma\<close>, a function per channel number.
\<close>

unbundle bit_operations_syntax

section \<open>Registers\<close>

record ee_dma = ee_io +
  CHECK_DMABUSYHACK :: bool
  QueuedDMA :: u16
  oldvalue :: u32

abbreviation D5_CHCR :: u32 where "D5_CHCR \<equiv> 0x1000C000"
abbreviation D6_CHCR :: u32 where "D6_CHCR \<equiv> 0x1000C400"
abbreviation DMAC_STADR :: u32 where "DMAC_STADR \<equiv> 0x1000E060"
abbreviation SBUS_F240 :: u32 where "SBUS_F240 \<equiv> 0x1000F240"

definition chcr :: "u32 \<Rightarrow> 'a ee_cpu_scheme \<Rightarrow> u32" where "chcr ch s = psHu32 ch s"
definition madr :: "u32 \<Rightarrow> 'a ee_cpu_scheme \<Rightarrow> u32" where "madr ch s = psHu32 (ch + 0x10) s"
definition qwc :: "u32 \<Rightarrow> 'a ee_cpu_scheme \<Rightarrow> u32" where "qwc ch s = psHu32 (ch + 0x20) s"
definition tadr :: "u32 \<Rightarrow> 'a ee_cpu_scheme \<Rightarrow> u32" where "tadr ch s = psHu32 (ch + 0x30) s"
definition asr0 :: "u32 \<Rightarrow> 'a ee_cpu_scheme \<Rightarrow> u32" where "asr0 ch s = psHu32 (ch + 0x40) s"
definition asr1 :: "u32 \<Rightarrow> 'a ee_cpu_scheme \<Rightarrow> u32" where "asr1 ch s = psHu32 (ch + 0x50) s"

definition set_chcr :: "u32 \<Rightarrow> u32 \<Rightarrow> 'a ee_cpu_scheme \<Rightarrow> 'a ee_cpu_scheme" where "set_chcr ch v = wHu32 ch v"
definition set_madr :: "u32 \<Rightarrow> u32 \<Rightarrow> 'a ee_cpu_scheme \<Rightarrow> 'a ee_cpu_scheme" where "set_madr ch v = wHu32 (ch + 0x10) v"
definition set_qwc :: "u32 \<Rightarrow> u32 \<Rightarrow> 'a ee_cpu_scheme \<Rightarrow> 'a ee_cpu_scheme" where "set_qwc ch v = wHu32 (ch + 0x20) v"
definition set_tadr :: "u32 \<Rightarrow> u32 \<Rightarrow> 'a ee_cpu_scheme \<Rightarrow> 'a ee_cpu_scheme" where "set_tadr ch v = wHu32 (ch + 0x30) v"
definition set_asr0 :: "u32 \<Rightarrow> u32 \<Rightarrow> 'a ee_cpu_scheme \<Rightarrow> 'a ee_cpu_scheme" where "set_asr0 ch v = wHu32 (ch + 0x40) v"
definition set_asr1 :: "u32 \<Rightarrow> u32 \<Rightarrow> 'a ee_cpu_scheme \<Rightarrow> 'a ee_cpu_scheme" where "set_asr1 ch v = wHu32 (ch + 0x50) v"

text \<open>Fields of CHCR (\<open>tDMA_CHCR\<close>), of a tag (\<open>tDMA_TAG\<close>) and of CTRL (\<open>tDMAC_CTRL\<close>).\<close>

definition chcr_MOD :: "u32 \<Rightarrow> nat" where "chcr_MOD c = unat (drop_bit 2 c AND 3)"
definition chcr_ASP :: "u32 \<Rightarrow> nat" where "chcr_ASP c = unat (drop_bit 4 c AND 3)"
definition chcr_TTE :: "u32 \<Rightarrow> bool" where "chcr_TTE c = bit c 6"
definition chcr_TIE :: "u32 \<Rightarrow> bool" where "chcr_TIE c = bit c 7"
definition chcr_STR :: "u32 \<Rightarrow> bool" where "chcr_STR c = bit c 8"
definition chcr_TAG :: "u32 \<Rightarrow> u32" where "chcr_TAG c = drop_bit 16 c"
definition with_ASP :: "nat \<Rightarrow> u32 \<Rightarrow> u32" where
  "with_ASP n c = (c AND NOT 0x30) OR push_bit 4 (of_nat n AND 3)"
definition with_MOD :: "nat \<Rightarrow> u32 \<Rightarrow> u32" where
  "with_MOD n c = (c AND NOT 0xC) OR push_bit 2 (of_nat n AND 3)"

definition tag_QWC :: "u32 \<Rightarrow> u32" where "tag_QWC t = t AND 0xFFFF"
definition tag_ID :: "u32 \<Rightarrow> nat" where "tag_ID t = unat (drop_bit 28 t AND 7)"
definition tag_IRQ :: "u32 \<Rightarrow> bool" where "tag_IRQ t = bit t 31"
definition tag_SPR :: "u32 \<Rightarrow> bool" where "tag_SPR t = bit t 31"

abbreviation TAG_CNTS :: nat where "TAG_CNTS \<equiv> 0"
abbreviation TAG_REFE :: nat where "TAG_REFE \<equiv> 0"
abbreviation TAG_CNT :: nat where "TAG_CNT \<equiv> Suc 0"
abbreviation TAG_NEXT :: nat where "TAG_NEXT \<equiv> 2"
abbreviation TAG_REF :: nat where "TAG_REF \<equiv> 3"
abbreviation TAG_REFS :: nat where "TAG_REFS \<equiv> 4"
abbreviation TAG_CALL :: nat where "TAG_CALL \<equiv> 5"
abbreviation TAG_RET :: nat where "TAG_RET \<equiv> 6"
abbreviation TAG_END :: nat where "TAG_END \<equiv> 7"
abbreviation NORMAL_MODE :: nat where "NORMAL_MODE \<equiv> 0"
abbreviation CHAIN_MODE :: nat where "CHAIN_MODE \<equiv> Suc 0"

definition ctrl_STS :: "'a ee_cpu_scheme \<Rightarrow> nat" where
  "ctrl_STS s = unat (drop_bit 4 (psHu32 DMAC_CTRL s) AND 3)"
definition ctrl_STD :: "'a ee_cpu_scheme \<Rightarrow> nat" where
  "ctrl_STD s = unat (drop_bit 6 (psHu32 DMAC_CTRL s) AND 3)"
definition stadr_ADDR :: "'a ee_cpu_scheme \<Rightarrow> u32" where
  "stadr_ADDR s = psHu32 DMAC_STADR s AND 0x7FFFFFFF"
definition set_stadr_ADDR :: "u32 \<Rightarrow> 'a ee_cpu_scheme \<Rightarrow> 'a ee_cpu_scheme" where
  "set_stadr_ADDR a s =
     wHu32 DMAC_STADR ((psHu32 DMAC_STADR s AND 0x80000000) OR (a AND 0x7FFFFFFF)) s"

section \<open>Channels\<close>

definition chcrTransfer :: "u32 \<Rightarrow> u32 \<Rightarrow> 'a ee_cpu_scheme \<Rightarrow> 'a ee_cpu_scheme" where
  "chcrTransfer ch ptag s = set_chcr ch ((chcr ch s AND 0xFFFF) OR (ptag AND 0xFFFF0000)) s"

definition qwcTransfer :: "u32 \<Rightarrow> u32 \<Rightarrow> 'a ee_cpu_scheme \<Rightarrow> 'a ee_cpu_scheme" where
  "qwcTransfer ch ptag = set_qwc ch (tag_QWC ptag)"

definition unsafeTransfer :: "u32 \<Rightarrow> u32 \<Rightarrow> 'a ee_cpu_scheme \<Rightarrow> 'a ee_cpu_scheme" where
  "unsafeTransfer ch ptag s = qwcTransfer ch ptag (chcrTransfer ch ptag s)"

definition set_STR :: "bool \<Rightarrow> u32 \<Rightarrow> 'a ee_cpu_scheme \<Rightarrow> 'a ee_cpu_scheme" where
  "set_STR b ch s = set_chcr ch (if b then chcr ch s OR 0x100 else chcr ch s AND NOT 0x100) s"

definition throwBusError :: "'a ee_cpu_scheme \<Rightarrow> 'a ee_cpu_scheme" where
  "throwBusError s = wHu32 DMAC_STAT (psHu32 DMAC_STAT s OR 0x8000) s"

definition setDmacStat :: "nat \<Rightarrow> 'a ee_cpu_scheme \<Rightarrow> 'a ee_cpu_scheme" where
  "setDmacStat num s = wHu32 DMAC_STAT (psHu32 DMAC_STAT s OR push_bit num 1) s"

definition dmaGetAddr :: "u32 \<Rightarrow> bool \<Rightarrow> 'a ee_io_scheme \<Rightarrow> u64 option" where
  "dmaGetAddr addr write s =
     (if tag_SPR addr then Some (eeMem_Scratch s + ucast (addr AND 0x3ff0))
      else let addr = addr AND 0x1ffffff0
           in if addr < 0x2000000 then Some (eeMem_Main s + ucast addr)
              else if addr < 0x10000000 then Some (if write then eeMem_ZeroWrite s else eeMem_ZeroRead s)
              else if addr < 0x10004000 then Some (eeMem_Scratch s + ucast (addr AND 0x3ff0))
              else None)"

text \<open>\<open>getAddr\<close> reports an address that is none, and stops the channel.\<close>

definition getAddr :: "u32 \<Rightarrow> u32 \<Rightarrow> nat \<Rightarrow> bool \<Rightarrow> 'a ee_io_scheme \<Rightarrow> u64 option \<times> 'a ee_io_scheme" where
  "getAddr ch addr num write s =
     (case dmaGetAddr addr write s of
        None \<Rightarrow> (None, set_STR False ch (setDmacStat num (throwBusError s)))
      | Some p \<Rightarrow> (Some p, s))"

definition DMAtransfer :: "u32 \<Rightarrow> u32 \<Rightarrow> nat \<Rightarrow> 'a ee_io_scheme \<Rightarrow> u64 option \<times> 'a ee_io_scheme" where
  "DMAtransfer ch addr num s =
     (case getAddr ch addr num False s of
        (None, s1) \<Rightarrow> (None, s1)
      | (Some p, s1) \<Rightarrow> (Some p, unsafeTransfer ch (load_le 4 (hostmem s1) p) s1))"

section \<open>Source chains\<close>

text \<open>\<open>True\<close> is the end of the transfer.\<close>

definition hwDmacSrcChain :: "u32 \<Rightarrow> nat \<Rightarrow> 'a ee_cpu_scheme \<Rightarrow> bool \<times> 'a ee_cpu_scheme" where
  "hwDmacSrcChain ch ident s =
     (if ident = TAG_REFE then (True, set_tadr ch (tadr ch s + 16) s)
      else if ident = TAG_CNT then
        (let s1 = set_madr ch (tadr ch s + 16) s in (False, set_tadr ch (madr ch s1) s1))
      else if ident = TAG_NEXT then
        (let temp = madr ch s; s1 = set_madr ch (tadr ch s + 16) s in (False, set_tadr ch temp s1))
      else if ident = TAG_REF \<or> ident = TAG_REFS then (False, set_tadr ch (tadr ch s + 16) s)
      else if ident = TAG_END then (True, set_madr ch (tadr ch s + 16) s)
      else (True, s))"

definition hwDmacSrcChainWithStack :: "u32 \<Rightarrow> nat \<Rightarrow> 'a ee_cpu_scheme \<Rightarrow> bool \<times> 'a ee_cpu_scheme" where
  "hwDmacSrcChainWithStack ch ident s =
     (if ident = TAG_REFE then (True, set_tadr ch (tadr ch s + 16) s)
      else if ident = TAG_CNT then
        (let s1 = set_tadr ch (tadr ch s + 16) s in (False, set_madr ch (tadr ch s1) s1))
      else if ident = TAG_NEXT then
        (let temp = madr ch s; s1 = set_madr ch (tadr ch s + 16) s in (False, set_tadr ch temp s1))
      else if ident = TAG_REF \<or> ident = TAG_REFS then (False, set_tadr ch (tadr ch s + 16) s)
      else if ident = TAG_CALL then
        (let temp = madr ch s; s1 = set_madr ch (tadr ch s + 16) s;
             ret = madr ch s1 + push_bit 4 (qwc ch s1); push = set_chcr ch (with_ASP (chcr_ASP (chcr ch s1) + 1) (chcr ch s1))
         in if chcr_ASP (chcr ch s1) = 0 then (False, set_tadr ch temp (push (set_asr0 ch ret s1)))
            else if chcr_ASP (chcr ch s1) = 1 then (False, set_tadr ch temp (push (set_asr1 ch ret s1)))
            else (True, s1))
      else if ident = TAG_RET then
        (let s1 = set_madr ch (tadr ch s + 16) s; pop = set_chcr ch (with_ASP (chcr_ASP (chcr ch s1) - 1) (chcr ch s1))
         in if chcr_ASP (chcr ch s1) = 2 then (False, pop (set_asr1 ch 0 (set_tadr ch (asr1 ch s1) s1)))
            else if chcr_ASP (chcr ch s1) = 1 then (False, pop (set_asr0 ch 0 (set_tadr ch (asr0 ch s1) s1)))
            else (True, s1))
      else if ident = TAG_END then (True, set_madr ch (tadr ch s + 16) s)
      else (False, s))"

definition hwDmacSrcTadrInc :: "u32 \<Rightarrow> 'a ee_cpu_scheme \<Rightarrow> 'a ee_cpu_scheme" where
  "hwDmacSrcTadrInc ch s =
     (if \<not> chcr_STR (chcr ch s) then s
      else if chcr_MOD (chcr ch s) \<noteq> 1 then s
      else if unat (drop_bit 12 (chcr_TAG (chcr ch s)) AND 7) = TAG_CNT then set_tadr ch (madr ch s) s
      else s)"

section \<open>Starting a channel\<close>

definition dma_enabled :: "'a ee_cpu_scheme \<Rightarrow> bool" where
  "dma_enabled s \<longleftrightarrow> ctrl_DMAE s \<and> ENABLER_2 s = 0"

definition QuickDmaExec :: "('a ee_dma_scheme \<Rightarrow> 'a ee_dma_scheme) \<Rightarrow> u32 \<Rightarrow> 'a ee_dma_scheme \<Rightarrow> bool \<times> 'a ee_dma_scheme" where
  "QuickDmaExec func mem s =
     (if chcr_STR (chcr mem s) \<and> dma_enabled s then (True, func s) else (False, s))"

text \<open>The CHCR addresses of the channels 0 to 9, and the channel of an address (\<open>ChannelNumber\<close>).\<close>

definition channel_addrs :: "u32 list" where
  "channel_addrs = [0x10008000, 0x10009000, 0x1000A000, 0x1000B000, 0x1000B400, 0x1000C000, 0x1000C400,
     0x1000C800, 0x1000D000, 0x1000D400]"

definition ChannelNumber :: "u32 \<Rightarrow> nat" where
  "ChannelNumber addr = (case find (\<lambda>i. channel_addrs ! i = addr) [0..<10] of Some i \<Rightarrow> i | None \<Rightarrow> 51)"

definition queue_clear :: "nat \<Rightarrow> 'a ee_dma_scheme \<Rightarrow> 'a ee_dma_scheme" where
  "queue_clear i s = s\<lparr>QueuedDMA := QueuedDMA s AND NOT (push_bit i 1)\<rparr>"
definition queue_set :: "nat \<Rightarrow> 'a ee_dma_scheme \<Rightarrow> 'a ee_dma_scheme" where
  "queue_set i s = s\<lparr>QueuedDMA := QueuedDMA s OR push_bit i 1\<rparr>"

definition StartQueuedDMA :: "(nat \<Rightarrow> 'a ee_dma_scheme \<Rightarrow> 'a ee_dma_scheme) \<Rightarrow> 'a ee_dma_scheme \<Rightarrow> 'a ee_dma_scheme" where
  "StartQueuedDMA dma =
     fold (\<lambda>i s. if bit (QueuedDMA s) i
       then (case QuickDmaExec (dma i) (channel_addrs ! i) s of (r, s1) \<Rightarrow> if r then queue_clear i s1 else queue_set i s1)
       else s) [0..<10]"

definition DmaExec :: "('a ee_dma_scheme \<Rightarrow> 'a ee_dma_scheme) \<Rightarrow> u32 \<Rightarrow> u32 \<Rightarrow> 'a ee_dma_scheme \<Rightarrow> 'a ee_dma_scheme" where
  "DmaExec func mem value s =
     (if chcr_STR (chcr mem s)
      then if \<not> chcr_STR value
        then (let channel = ChannelNumber mem; s1 = set_STR False mem s;
                  s2 = (if channel = 1 then queue_clear 10 (cpuClearInt 10 s1)
                        else if channel = 2 then queue_clear 11 (cpuClearInt 11 s1) else s1)
              in queue_clear channel (cpuClearInt channel s2))
        else s
      else
        (let s1 = set_chcr mem value s;
             s2 = (if chcr_MOD (chcr mem s1) = 3 then set_chcr mem (with_MOD 1 (chcr mem s1)) s1 else s1);
             s3 = (if chcr_STR (chcr mem s2) \<and> chcr_MOD (chcr mem s2) = 0 \<and> qwc mem s2 = 0
                   then set_qwc mem 0x10000 s2 else s2)
         in if chcr_STR (chcr mem s3) \<and> dma_enabled s3 then func s3
            else if chcr_STR (chcr mem s3) then queue_set (ChannelNumber mem) s3 else s3))"

section \<open>Register writes\<close>

text \<open>
  \<open>dmacWrite32\<close>: \<open>True\<close> leaves the write to the caller.  The pages the template splits the
  switch into do not change which case an address selects.

  A game fix finishes a busy channel before a write to its registers.  \<open>irq\<close> is the handler
  of each channel's event (for VIF1 with the switch to the end of the vector unit's program);
  the loop over it is given a number of passes.
\<close>

abbreviation fromSPR_MADR :: u32 where "fromSPR_MADR \<equiv> 0x1000D010"
abbreviation toSPR_MADR :: u32 where "toSPR_MADR \<equiv> 0x1000D410"
abbreviation fromSPR_SADR :: u32 where "fromSPR_SADR \<equiv> 0x1000D080"
abbreviation toSPR_SADR :: u32 where "toSPR_SADR \<equiv> 0x1000D480"
abbreviation DMAC_FAKESTAT :: u32 where "DMAC_FAKESTAT \<equiv> 0x1000E100"

definition DMAC_STAT_write :: "u32 \<Rightarrow> 'a ee_io_scheme \<Rightarrow> 'a ee_io_scheme" where
  "DMAC_STAT_write value s =
     cpuTestDMACInts (wHu32 DMAC_STAT ((psHu32 DMAC_STAT s AND NOT (value AND 0xFFFF)) XOR (value AND 0xFFFF0000)) s)"

definition channel_event :: "u32 \<Rightarrow> nat option" where
  "channel_event mem = (let n = drop_bit 8 mem AND 0xFF
     in if n = 0x80 then Some 0 else if n = 0x90 then Some 1 else if n = 0xA0 then Some 2
        else if n = 0xD0 then Some 8 else if n = 0xD4 then Some 9 else None)"

fun dmaBusyLoop :: "nat \<Rightarrow> (nat \<Rightarrow> 'a ee_dma_scheme \<Rightarrow> 'a ee_dma_scheme) \<Rightarrow> u32 \<Rightarrow> 'a ee_dma_scheme \<Rightarrow>
    (bool \<times> 'a ee_dma_scheme) option" where
  "dmaBusyLoop 0 irq mem s = None"
| "dmaBusyLoop (Suc k) irq mem s =
     (if psHu32 (mem AND NOT 0xFF) s AND 0x100 = 0 then Some (True, s)
      else case channel_event mem of
          Some n \<Rightarrow> (let s1 = irq n s in dmaBusyLoop k irq mem (s1\<lparr>interrupt := interrupt s1 AND NOT (push_bit n 1)\<rparr>))
        | None \<Rightarrow> Some ((drop_bit 8 mem AND 0xFF = 0xB0 \<or> drop_bit 8 mem AND 0xFF = 0xB4) \<and> mem AND 0xFF = 0x20, s))"

definition dmaBusyHack :: "nat \<Rightarrow> (nat \<Rightarrow> 'a ee_dma_scheme \<Rightarrow> 'a ee_dma_scheme) \<Rightarrow> u32 \<Rightarrow> 'a ee_dma_scheme \<Rightarrow>
    (bool \<times> 'a ee_dma_scheme) option" where
  "dmaBusyHack fuel irq mem s =
     (if CHECK_DMABUSYHACK s \<and> mem AND 0xF0 \<noteq> 0 \<and> 0x10008000 \<le> mem \<and> mem \<le> 0x1000E000
         \<and> psHu32 (mem AND NOT 0xFF) s AND 0x100 \<noteq> 0 \<and> dma_enabled s
      then dmaBusyLoop fuel irq mem s else Some (True, s))"

definition dmacWrite_switch ::
  "(nat \<Rightarrow> 'a ee_dma_scheme \<Rightarrow> 'a ee_dma_scheme) \<Rightarrow> u32 \<Rightarrow> u32 \<Rightarrow> 'a ee_dma_scheme \<Rightarrow> bool \<times> 'a ee_dma_scheme" where
  "dmacWrite_switch dma mem value s =
     (if mem \<in> set channel_addrs then (False, DmaExec (dma (ChannelNumber mem)) mem value s)
      else if mem - 0x20 \<in> set channel_addrs then (False, wHu32 mem (value AND 0xFFFF) s)
      else if mem = fromSPR_MADR \<or> mem = toSPR_MADR then (False, wHu32 mem (value AND 0x7FFFFFFF) s)
      else if mem = fromSPR_SADR \<or> mem = toSPR_SADR then (False, wHu32 mem (value AND 0x3FF0) s)
      else if mem = DMAC_CTRL then
        (let old = psHu32 mem s; s1 = wHu32 mem value s
         in (False, if old AND 1 = 0 \<and> value AND 1 = 1 \<and> QueuedDMA s1 \<noteq> 0 then StartQueuedDMA dma s1 else s1))
      else if mem = DMAC_FAKESTAT \<or> mem = DMAC_STAT then (False, DMAC_STAT_write value s)
      else if mem = DMAC_ENABLEW then
        (let s1 = s\<lparr>oldvalue := drop_bit 16 (psHu32 DMAC_ENABLEW s) AND 0xFF\<rparr>;
             s2 = wHu32 DMAC_ENABLER value (wHu32 DMAC_ENABLEW value s1)
         in (False, if oldvalue s2 AND 1 = 1 \<and> drop_bit 16 value AND 1 = 0 \<and> QueuedDMA s2 \<noteq> 0
                    then StartQueuedDMA dma s2 else s2))
      else (True, s))"

definition dmacWrite32 ::
  "nat \<Rightarrow> (nat \<Rightarrow> 'a ee_dma_scheme \<Rightarrow> 'a ee_dma_scheme) \<Rightarrow> (nat \<Rightarrow> 'a ee_dma_scheme \<Rightarrow> 'a ee_dma_scheme) \<Rightarrow>
    u32 \<Rightarrow> u32 \<Rightarrow> 'a ee_dma_scheme \<Rightarrow> (bool \<times> 'a ee_dma_scheme) option" where
  "dmacWrite32 fuel irq dma mem value s =
     (case dmaBusyHack fuel irq mem s of
        None \<Rightarrow> None
      | Some (False, s1) \<Rightarrow> Some (False, s1)
      | Some (True, s1) \<Rightarrow> Some (dmacWrite_switch dma mem value s1))"

section \<open>Calls in a chain\<close>

lemmas channel_defs = chcr_def madr_def qwc_def tadr_def asr0_def asr1_def set_chcr_def set_madr_def set_qwc_def
  set_tadr_def set_asr0_def set_asr1_def psHu32_def wHu32_def

lemma bit_ASP: "bit (3 :: u32) i \<longleftrightarrow> i < 2" "bit (0x30 :: u32) i \<longleftrightarrow> 4 \<le> i \<and> i < 6"
proof -
  have "(3 :: u32) = mask 2" by (simp add: mask_eq_exp_minus_1)
  then show "bit (3 :: u32) i \<longleftrightarrow> i < 2" by (simp only: bit_mask_iff) auto
  have "(0x30 :: u32) = push_bit 4 (mask 2)" by (simp add: mask_eq_exp_minus_1)
  then show "bit (0x30 :: u32) i \<longleftrightarrow> 4 \<le> i \<and> i < 6" by (simp only: bit_push_bit_iff bit_mask_iff) auto
qed

lemma chcr_ASP_with: "n < 4 \<Longrightarrow> chcr_ASP (with_ASP n c) = n"
proof -
  assume n: "n < 4"
  have "drop_bit 4 (with_ASP n c) AND 3 = of_nat n AND 3"
    unfolding with_ASP_def
    by (rule bit_word_eqI, simp only: bit_ASP bit_and_iff bit_or_iff bit_not_iff bit_push_bit_iff bit_drop_bit_eq o_def)
      auto
  moreover have "n = 0 \<or> n = 1 \<or> n = 2 \<or> n = 3" using n by auto
  ultimately show ?thesis by (auto simp: chcr_ASP_def)
qed

text \<open>
  a CALL tag goes on at the address in the tag, and a RET tag that finds the same
  address stack goes on behind the data of the CALL, for two calls deep; a third CALL ends
  the transfer, and so does a RET without a CALL.
\<close>

lemma chain_call_return:
  fixes s s1 s2 s3 :: "'a ee_cpu_scheme"
  assumes ch: "ch \<in> set channel_addrs"
    and call: "hwDmacSrcChainWithStack ch TAG_CALL s = (e1, s1)"
    and same: "chcr_ASP (chcr ch s2) = chcr_ASP (chcr ch s1)" "asr0 ch s2 = asr0 ch s1" "asr1 ch s2 = asr1 ch s1"
    and ret: "hwDmacSrcChainWithStack ch TAG_RET s2 = (e2, s3)"
  shows "if chcr_ASP (chcr ch s) < 2
    then \<not> e1 \<and> tadr ch s1 = madr ch s \<and> madr ch s1 = tadr ch s + 16 \<and>
      \<not> e2 \<and> tadr ch s3 = tadr ch s + 16 + 16 * qwc ch s \<and> chcr_ASP (chcr ch s3) = chcr_ASP (chcr ch s)
    else e1 \<and> tadr ch s1 = tadr ch s \<and> chcr ch s1 = chcr ch s"
proof -
  have d: "chcr ch (set_chcr ch v t) = v" "chcr ch (set_madr ch v t) = chcr ch t" "chcr ch (set_tadr ch v t) = chcr ch t"
    "chcr ch (set_asr0 ch v t) = chcr ch t" "chcr ch (set_asr1 ch v t) = chcr ch t"
    "madr ch (set_chcr ch v t) = madr ch t" "madr ch (set_madr ch v t) = v" "madr ch (set_tadr ch v t) = madr ch t"
    "madr ch (set_asr0 ch v t) = madr ch t" "madr ch (set_asr1 ch v t) = madr ch t"
    "tadr ch (set_chcr ch v t) = tadr ch t" "tadr ch (set_madr ch v t) = tadr ch t" "tadr ch (set_tadr ch v t) = v"
    "tadr ch (set_asr0 ch v t) = tadr ch t" "tadr ch (set_asr1 ch v t) = tadr ch t"
    "qwc ch (set_madr ch v t) = qwc ch t"
    "asr0 ch (set_madr ch v t) = asr0 ch t" "asr0 ch (set_tadr ch v t) = asr0 ch t" "asr0 ch (set_chcr ch v t) = asr0 ch t"
    "asr0 ch (set_asr0 ch v t) = v"
    "asr1 ch (set_madr ch v t) = asr1 ch t" "asr1 ch (set_tadr ch v t) = asr1 ch t" "asr1 ch (set_chcr ch v t) = asr1 ch t"
    "asr1 ch (set_asr1 ch v t) = v"
    for v and t :: "'a ee_cpu_scheme"
    using ch by (auto simp: channel_addrs_def channel_defs)
  have m: "push_bit 4 q = 16 * q" for q :: u32 by (simp add: push_bit_eq_mult)
  consider "chcr_ASP (chcr ch s) = 0" | "chcr_ASP (chcr ch s) = 1" | "2 \<le> chcr_ASP (chcr ch s)" by linarith
  then show ?thesis
    using call ret same by cases (auto simp: hwDmacSrcChainWithStack_def Let_def d chcr_ASP_with m)
qed

theorem chain_call_return_witness:
  "tadr 0x10009000 (snd (hwDmacSrcChainWithStack 0x10009000 TAG_RET (snd (hwDmacSrcChainWithStack 0x10009000 TAG_CALL
     (ee_io0\<lparr>eeHw := (\<lambda>_. 0)(0x2404 := 0x8000, 0x2408 := 3, 0x240C := 0x1000)\<rparr>))))) = 0x1040"
proof -
  let ?s = "ee_io0\<lparr>eeHw := (\<lambda>_. 0)(0x2404 := 0x8000, 0x2408 := 3, 0x240C := 0x1000)\<rparr>"
  let ?c = "hwDmacSrcChainWithStack 0x10009000 TAG_CALL ?s"
  have "0x10009000 \<in> set channel_addrs" by (simp add: channel_addrs_def)
  from chain_call_return [OF this surjective_pairing [of ?c] refl refl refl surjective_pairing]
  show ?thesis by (simp add: channel_defs chcr_ASP_def)
qed

end
