(* ===== verification/Sif_Fifo.thy ===== *)
theory Sif_Fifo
  imports Prelude
begin

text \<open>
  The FIFO between the two processors (\<open>struct sifFifo\<close> of pcsx2/Sif.h): a ring of 128 words
  with its operations, and the bounded queue it implements.  Positions and the fill level
  are C++ \<open>s32\<close> values far from the ends of the type, here integers.  \<open>None\<close> is a
  \<open>memcpy\<close> that leaves one of the two arrays.

  The locale \<open>bounded_queue\<close> is what a transfer relies on; what it proves of a schedule of
  transfers holds for the FIFO by interpretation.
\<close>

unbundle bit_operations_syntax

section \<open>Bounded queues\<close>

datatype 'x queue_op = Push "'x list" | Pop nat

fun pushed :: "'x queue_op list \<Rightarrow> 'x list" where
  "pushed [] = []"
| "pushed (Push xs # ops) = xs @ pushed ops"
| "pushed (Pop n # ops) = pushed ops"

fun popped :: "'x queue_op list \<Rightarrow> nat" where
  "popped [] = 0"
| "popped (Push xs # ops) = popped ops"
| "popped (Pop n # ops) = n + popped ops"

text \<open>A schedule that neither overfills nor overdraws a queue holding \<open>k\<close> elements.\<close>

fun fits_queue :: "nat \<Rightarrow> nat \<Rightarrow> 'x queue_op list \<Rightarrow> bool" where
  "fits_queue c k [] \<longleftrightarrow> True"
| "fits_queue c k (Push xs # ops) \<longleftrightarrow> k + length xs \<le> c \<and> fits_queue c (k + length xs) ops"
| "fits_queue c k (Pop n # ops) \<longleftrightarrow> n \<le> k \<and> fits_queue c (k - n) ops"

fun run_queue ::
  "('x list \<Rightarrow> 'q \<Rightarrow> 'q option) \<Rightarrow> (nat \<Rightarrow> 'q \<Rightarrow> ('x list \<times> 'q) option) \<Rightarrow>
     'x queue_op list \<Rightarrow> 'q \<Rightarrow> ('x list \<times> 'q) option" where
  "run_queue push pop [] q = Some ([], q)"
| "run_queue push pop (Push xs # ops) q =
     (case push xs q of None \<Rightarrow> None | Some q' \<Rightarrow> run_queue push pop ops q')"
| "run_queue push pop (Pop n # ops) q =
     (case pop n q of None \<Rightarrow> None | Some (xs, q') \<Rightarrow>
        (case run_queue push pop ops q' of None \<Rightarrow> None | Some (ys, q'') \<Rightarrow> Some (xs @ ys, q'')))"

locale bounded_queue =
  fixes contents :: "'q \<Rightarrow> 'x list"
    and invar :: "'q \<Rightarrow> bool"
    and capacity :: nat
    and push :: "'x list \<Rightarrow> 'q \<Rightarrow> 'q option"
    and pop :: "nat \<Rightarrow> 'q \<Rightarrow> ('x list \<times> 'q) option"
  assumes bounded: "invar q \<Longrightarrow> length (contents q) \<le> capacity"
    and push: "invar q \<Longrightarrow> length (contents q) + length xs \<le> capacity \<Longrightarrow>
      \<exists>q'. push xs q = Some q' \<and> invar q' \<and> contents q' = contents q @ xs"
    and pop: "invar q \<Longrightarrow> n \<le> length (contents q) \<Longrightarrow>
      \<exists>q'. pop n q = Some (take n (contents q), q') \<and> invar q' \<and> contents q' = drop n (contents q)"
begin

lemma pushE:
  assumes "invar q" and "length (contents q) + length xs \<le> capacity"
  obtains q' where "push xs q = Some q'" "invar q'" "contents q' = contents q @ xs"
  using push [OF assms] by blast

lemma popE:
  assumes "invar q" and "n \<le> length (contents q)"
  obtains q' where "pop n q = Some (take n (contents q), q')" "invar q'" "contents q' = drop n (contents q)"
  using pop [OF assms] by blast

text \<open>Nothing is lost, duplicated or reordered between the pushes and the pops of a schedule.\<close>

lemma run_conserves:
  assumes "invar q" and "fits_queue capacity (length (contents q)) ops"
  shows "\<exists>out q'. run_queue push pop ops q = Some (out, q') \<and> invar q' \<and>
    length out = popped ops \<and> out @ contents q' = contents q @ pushed ops"
  using assms
proof (induction ops arbitrary: q)
  case Nil
  then show ?case by simp
next
  case (Cons op ops)
  show ?case
  proof (cases op)
    case (Push xs)
    from Cons.prems Push obtain q1 where q1: "push xs q = Some q1" "invar q1" "contents q1 = contents q @ xs"
      by (auto elim: pushE)
    then show ?thesis using Cons.IH [of q1] Cons.prems Push by auto
  next
    case (Pop n)
    from Cons.prems Pop obtain q1 where q1: "pop n q = Some (take n (contents q), q1)" "invar q1"
        "contents q1 = drop n (contents q)"
      by (auto elim: popE)
    with Cons.IH [of q1] Cons.prems Pop obtain out q' where
      "run_queue push pop ops q1 = Some (out, q')" "invar q'" "length out = popped ops"
      "out @ contents q' = drop n (contents q) @ pushed ops"
      by auto
    with q1 Pop Cons.prems show ?thesis
      by (auto simp: min_absorb2)
  qed
qed

end

section \<open>The FIFO\<close>

abbreviation FIFO_SIF_W :: int where "FIFO_SIF_W \<equiv> 128"

record sifFifo =
  fifo_data :: "u32 list"
  fifo_junk :: "u32 list"
  readPos :: int
  writePos :: int
  fifo_size :: int

definition sif_free :: "sifFifo \<Rightarrow> int" where
  "sif_free f = FIFO_SIF_W - fifo_size f"

text \<open>\<open>memcpy\<close> of words into an array at an index, and out of one.\<close>

definition memcpy_to :: "int \<Rightarrow> 'a list \<Rightarrow> 'a list \<Rightarrow> 'a list option" where
  "memcpy_to p xs d =
     (if 0 \<le> p \<and> nat p + length xs \<le> length d
      then Some (take (nat p) d @ xs @ drop (nat p + length xs) d) else None)"

definition memcpy_from :: "int \<Rightarrow> int \<Rightarrow> 'a list \<Rightarrow> 'a list option" where
  "memcpy_from p n d =
     (if 0 \<le> p \<and> 0 \<le> n \<and> nat p + nat n \<le> length d then Some (take (nat n) (drop (nat p) d)) else None)"

text \<open>\<open>sifFifo_put\<close> is the part that \<open>write\<close> and \<open>writeJunk\<close> share; \<open>from\<close> are the words copied.\<close>

definition sifFifo_put :: "u32 list \<Rightarrow> sifFifo \<Rightarrow> sifFifo option" where
  "sifFifo_put from f =
     (let words = int (length from); wP0 = min (FIFO_SIF_W - writePos f) words
      in case memcpy_to (writePos f) (take (nat wP0) from) (fifo_data f) of None \<Rightarrow> None | Some d1 \<Rightarrow>
         (case memcpy_to 0 (drop (nat wP0) from) d1 of None \<Rightarrow> None | Some d2 \<Rightarrow>
           Some (f\<lparr>fifo_data := d2, writePos := (writePos f + words) AND (FIFO_SIF_W - 1),
             fifo_size := fifo_size f + words\<rparr>)))"

definition sifFifo_write :: "u32 list \<Rightarrow> sifFifo \<Rightarrow> sifFifo option" where
  "sifFifo_write from f =
     (let words = int (length from)
      in if words > 0 then
        (if fifo_size f < 4
         then (case memcpy_to (fifo_size f) (take (nat (min (4 - fifo_size f) words)) from) (fifo_junk f) of
             None \<Rightarrow> None | Some j \<Rightarrow> sifFifo_put from (f\<lparr>fifo_junk := j\<rparr>))
         else sifFifo_put from f)
      else Some f)"

definition sifFifo_writeJunk :: "int \<Rightarrow> sifFifo \<Rightarrow> sifFifo option" where
  "sifFifo_writeJunk words f =
     (if words > 0
      then (case memcpy_from (4 - words) words (fifo_junk f) of
          None \<Rightarrow> None | Some from \<Rightarrow> sifFifo_put from f)
      else Some f)"

definition sifFifo_read :: "int \<Rightarrow> sifFifo \<Rightarrow> (u32 list \<times> sifFifo) option" where
  "sifFifo_read words f =
     (if words > 0
      then (let wP0 = min (FIFO_SIF_W - readPos f) words; wP1 = words - wP0
            in case memcpy_from (readPos f) wP0 (fifo_data f) of None \<Rightarrow> None | Some t0 \<Rightarrow>
              (case memcpy_from 0 wP1 (fifo_data f) of None \<Rightarrow> None | Some t1 \<Rightarrow>
                Some (t0 @ t1, f\<lparr>readPos := (readPos f + words) AND (FIFO_SIF_W - 1),
                  fifo_size := fifo_size f - words\<rparr>)))
      else Some ([], f))"

definition sifFifo_clear :: "sifFifo \<Rightarrow> sifFifo" where
  "sifFifo_clear f = f\<lparr>fifo_data := replicate 128 0, readPos := 0, writePos := 0, fifo_size := 0\<rparr>"

definition sifFifo_zero :: sifFifo where
  "sifFifo_zero = \<lparr>fifo_data = replicate 128 0, fifo_junk = replicate 4 0, readPos = 0, writePos = 0, fifo_size = 0\<rparr>"

section \<open>The queue the FIFO implements\<close>

definition fifo_ok :: "sifFifo \<Rightarrow> bool" where
  "fifo_ok f \<longleftrightarrow> length (fifo_data f) = 128 \<and> length (fifo_junk f) = 4 \<and>
     0 \<le> readPos f \<and> readPos f < 128 \<and> 0 \<le> fifo_size f \<and> fifo_size f \<le> 128 \<and>
     writePos f = (readPos f + fifo_size f) mod 128"

definition fifo_items :: "sifFifo \<Rightarrow> u32 list" where
  "fifo_items f = map (\<lambda>i. fifo_data f ! ((nat (readPos f) + i) mod 128)) [0..<nat (fifo_size f)]"

lemma length_fifo_items [simp]: "length (fifo_items f) = nat (fifo_size f)"
  by (simp add: fifo_items_def)

lemma and_127: "x AND 127 = x mod (128 :: int)"
  using take_bit_eq_mask [of 7 x] by (simp add: take_bit_eq_mod mask_eq_exp_minus_1)

lemma memcpy_to_Some:
  assumes "p + length xs \<le> length d"
  obtains d' where "memcpy_to (int p) xs d = Some d'" "length d' = length d"
    "\<And>i. i < length d \<Longrightarrow> d' ! i = (if p \<le> i \<and> i < p + length xs then xs ! (i - p) else d ! i)"
proof
  let ?d = "take p d @ xs @ drop (p + length xs) d"
  show "memcpy_to (int p) xs d = Some ?d" "length ?d = length d"
    using assms by (simp_all add: memcpy_to_def)
  show "?d ! i = (if p \<le> i \<and> i < p + length xs then xs ! (i - p) else d ! i)" if "i < length d" for i
    using assms that by (auto simp: nth_append min_absorb2 not_less intro!: arg_cong [where f = "(!) d"])
qed

lemma memcpy_to_length:
  "p + length xs \<le> length d \<Longrightarrow> \<exists>d'. memcpy_to (int p) xs d = Some d' \<and> length d' = length d"
  by (simp add: memcpy_to_def)

text \<open>The two copies of a ring write store the words from the write position on, modulo the size.\<close>

lemma ring_write:
  fixes d xs :: "'a list"
  assumes d: "length d = 128" and w: "w < 128" and xs: "length xs \<le> 128"
  obtains d1 d2 where
    "memcpy_to (int w) (take (nat (min (128 - int w) (int (length xs)))) xs) d = Some d1"
    "memcpy_to 0 (drop (nat (min (128 - int w) (int (length xs)))) xs) d1 = Some d2"
    "length d2 = 128"
    "\<And>j. j < 128 \<Longrightarrow> d2 ! ((w + j) mod 128) = (if j < length xs then xs ! j else d ! ((w + j) mod 128))"
proof -
  define n where "n = min (128 - w) (length xs)"
  have n: "nat (min (128 - int w) (int (length xs))) = n" using w unfolding n_def by arith
  have nl: "n \<le> length xs" "w + n \<le> 128" "length xs - n \<le> 128" using w xs by (simp_all add: n_def)
  obtain d1 where d1: "memcpy_to (int w) (take n xs) d = Some d1" "length d1 = 128"
    "\<And>i. i < 128 \<Longrightarrow> d1 ! i = (if w \<le> i \<and> i < w + n then xs ! (i - w) else d ! i)"
  proof (rule memcpy_to_Some [of w "take n xs" d], goal_cases)
    case 1
    show ?case using d nl by simp
  next
    case (2 d')
    then show ?case using d nl by (intro 2(1)) auto
  qed
  obtain d2 where d2: "memcpy_to 0 (drop n xs) d1 = Some d2" "length d2 = 128"
    "\<And>i. i < 128 \<Longrightarrow> d2 ! i = (if i < length xs - n then xs ! (n + i) else d1 ! i)"
  proof (rule memcpy_to_Some [of 0 "drop n xs" d1], goal_cases)
    case 1
    show ?case using d1(2) nl by simp
  next
    case (2 d')
    then show ?case using d1(2) nl by (intro 2(1)) auto
  qed
  have "d2 ! ((w + j) mod 128) = (if j < length xs then xs ! j else d ! ((w + j) mod 128))" if j: "j < 128" for j
  proof (cases "w + j < 128")
    case True
    have "\<not> w + j < length xs - n" using True xs unfolding n_def by arith
    moreover have "j < n \<longleftrightarrow> j < length xs" using True unfolding n_def by arith
    ultimately show ?thesis using True by (simp add: d2(3) d1(3))
  next
    case False
    define i where "i = w + j - 128"
    have i: "(w + j) mod 128 = i" "i < w" "j = i + (128 - w)"
      using False j w by (simp_all add: i_def mod_if)
    have "i < length xs - n \<longleftrightarrow> j < length xs" "j < length xs \<Longrightarrow> n = 128 - w"
      using i w xs unfolding n_def by arith+
    then show ?thesis using i w by (auto simp: d2(3) d1(3) add.commute)
  qed
  with d1(1) d2(1,2) that show thesis by (simp add: n)
qed

lemma sifFifo_put:
  assumes ok: "fifo_ok f" and fit: "fifo_size f + int (length xs) \<le> 128"
  obtains f' where "sifFifo_put xs f = Some f'" "fifo_ok f'" "fifo_items f' = fifo_items f @ xs"
    "fifo_junk f' = fifo_junk f"
proof -
  let ?r = "nat (readPos f)" and ?w = "nat (writePos f)" and ?k = "nat (fifo_size f)"
  have f: "length (fifo_data f) = 128" "?r < 128" "?k \<le> 128" "?k + length xs \<le> 128" "0 \<le> writePos f" "?w < 128"
    using ok fit by (auto simp: fifo_ok_def)
  have w: "?w = (?r + ?k) mod 128"
    using ok by (auto simp: fifo_ok_def nat_mod_distrib nat_add_distrib)
  have w': "int ?w = writePos f" using f(5) by simp
  obtain d1 d2 where d:
    "memcpy_to (int ?w) (take (nat (min (128 - int ?w) (int (length xs)))) xs) (fifo_data f) = Some d1"
    "memcpy_to 0 (drop (nat (min (128 - int ?w) (int (length xs)))) xs) d1 = Some d2"
    "length d2 = 128"
    "\<And>j. j < 128 \<Longrightarrow> d2 ! ((?w + j) mod 128) = (if j < length xs then xs ! j else fifo_data f ! ((?w + j) mod 128))"
    using ring_write [of "fifo_data f" ?w xs] f by auto
  let ?f = "f\<lparr>fifo_data := d2, writePos := (writePos f + int (length xs)) AND (FIFO_SIF_W - 1),
    fifo_size := fifo_size f + int (length xs)\<rparr>"
  have "sifFifo_put xs f = Some ?f"
    using d(1,2) unfolding w' by (simp add: sifFifo_put_def Let_def)
  moreover have "fifo_ok ?f"
    using ok fit d(3) by (auto simp: fifo_ok_def and_127 mod_simps add_ac)
  moreover have "fifo_items ?f = fifo_items f @ xs"
  proof (rule nth_equalityI)
    fix i assume "i < length (fifo_items ?f)"
    then have i: "i < ?k + length xs" using ok by (simp add: fifo_ok_def nat_add_distrib)
    have "?r + i + 128 = ?r + ?k + (128 - ?k + i)" using f(3) by simp
    then have r: "(?r + i) mod 128 = (?w + (128 - ?k + i)) mod 128"
      unfolding w by (metis mod_add_left_eq mod_add_self2)
    have at: "fifo_items ?f ! i = d2 ! ((?r + i) mod 128)" 
      using i ok by (simp add: fifo_items_def fifo_ok_def nat_add_distrib)
    show "fifo_items ?f ! i = (fifo_items f @ xs) ! i"
    proof (cases "i < ?k")
      case True
      with f(4) have "d2 ! ((?r + i) mod 128) = fifo_data f ! ((?r + i) mod 128)"
        unfolding r by (subst d(4)) auto
      with True at show ?thesis by (simp add: nth_append fifo_items_def)
    next
      case False
      then have "?r + i = ?r + ?k + (i - ?k)" by simp
      then have "(?r + i) mod 128 = (?w + (i - ?k)) mod 128"
        unfolding w by (metis mod_add_left_eq)
      moreover have j: "i - ?k < length xs" "i - ?k < 128" using False i f(4) by arith+
      ultimately have "d2 ! ((?r + i) mod 128) = xs ! (i - ?k)" using d(4) [OF j(2)] by simp
      with False i at show ?thesis by (simp add: nth_append)
    qed
  qed (use ok in \<open>simp add: fifo_ok_def nat_add_distrib\<close>)
  ultimately show thesis by (rule that) simp
qed

lemma sifFifo_write:
  assumes ok: "fifo_ok f" and fit: "fifo_size f + int (length xs) \<le> 128"
  obtains f' where "sifFifo_write xs f = Some f'" "fifo_ok f'" "fifo_items f' = fifo_items f @ xs"
proof (cases "xs = [] \<or> 4 \<le> fifo_size f")
  case True
  obtain f' where "sifFifo_put xs f = Some f'" "fifo_ok f'" "fifo_items f' = fifo_items f @ xs"
    using sifFifo_put [OF assms] by blast
  show ?thesis
  proof (cases "xs = []")
    case True
    with that [of f] ok show ?thesis by (simp add: sifFifo_write_def)
  next
    case ne: False
    with True have "sifFifo_write xs f = Some f'" using \<open>sifFifo_put xs f = Some f'\<close> by (simp add: sifFifo_write_def)
    then show ?thesis using \<open>fifo_ok f'\<close> \<open>fifo_items f' = fifo_items f @ xs\<close> by (rule that)
  qed
next
  case False
  let ?a = "take (nat (min (4 - fifo_size f) (int (length xs)))) xs"
  have "0 \<le> fifo_size f" "length (fifo_junk f) = 4" using ok by (simp_all add: fifo_ok_def)
  with False have "nat (fifo_size f) + length ?a \<le> length (fifo_junk f)" "int (nat (fifo_size f)) = fifo_size f"
    by auto
  with memcpy_to_length [of "nat (fifo_size f)" ?a "fifo_junk f"]
  obtain j where j: "memcpy_to (fifo_size f) ?a (fifo_junk f) = Some j" "length j = length (fifo_junk f)"
    by auto
  have "fifo_ok (f\<lparr>fifo_junk := j\<rparr>)" "fifo_items (f\<lparr>fifo_junk := j\<rparr>) = fifo_items f"
    using ok j(2) by (simp_all add: fifo_ok_def fifo_items_def)
  with fit obtain f' where "sifFifo_put xs (f\<lparr>fifo_junk := j\<rparr>) = Some f'" "fifo_ok f'" "fifo_items f' = fifo_items f @ xs"
    using sifFifo_put [of "f\<lparr>fifo_junk := j\<rparr>" xs] by auto
  with False j(1) that show ?thesis by (simp add: sifFifo_write_def)
qed

lemma sifFifo_writeJunk:
  assumes ok: "fifo_ok f" and "0 \<le> n" "n \<le> 4" and fit: "fifo_size f + n \<le> 128"
  obtains f' where "sifFifo_writeJunk n f = Some f'" "fifo_ok f'"
    "fifo_items f' = fifo_items f @ drop (nat (4 - n)) (fifo_junk f)"
proof -
  let ?j = "drop (nat (4 - n)) (fifo_junk f)"
  have l4: "length (fifo_junk f) = 4" using ok by (simp add: fifo_ok_def)
  then have l: "int (length ?j) = n" using assms(2,3) by simp
  then obtain f' where f': "sifFifo_put ?j f = Some f'" "fifo_ok f'" "fifo_items f' = fifo_items f @ ?j"
    using sifFifo_put [OF ok, of ?j] fit by metis
  show thesis
  proof (cases "0 < n")
    case True
    then have "memcpy_from (4 - n) n (fifo_junk f) = Some ?j"
      using l4 assms(3) by (simp add: memcpy_from_def)
    with True f' that [of f'] show thesis by (simp add: sifFifo_writeJunk_def)
  next
    case False
    with l that [of f] ok show thesis by (simp add: sifFifo_writeJunk_def)
  qed
qed

lemma sifFifo_read:
  assumes ok: "fifo_ok f" and n: "int n \<le> fifo_size f"
  obtains f' where "sifFifo_read (int n) f = Some (take n (fifo_items f), f')" "fifo_ok f'"
    "fifo_items f' = drop n (fifo_items f)"
proof -
  let ?r = "nat (readPos f)" and ?k = "nat (fifo_size f)"
  let ?f = "f\<lparr>readPos := (readPos f + int n) AND (FIFO_SIF_W - 1), fifo_size := fifo_size f - int n\<rparr>"
  define p where "p = min (128 - ?r) n"
  have f: "length (fifo_data f) = 128" "?r < 128" "n \<le> ?k" "?k \<le> 128" "0 \<le> readPos f"
    using ok n by (auto simp: fifo_ok_def)
  have p: "min (128 - readPos f) (int n) = int p" "?r + p \<le> 128" "p \<le> n" "n - p \<le> 128"
    using f unfolding p_def by arith+
  have m: "memcpy_from (readPos f) (int p) (fifo_data f) = Some (take p (drop ?r (fifo_data f)))"
    "memcpy_from 0 (int n - int p) (fifo_data f) = Some (take (n - p) (fifo_data f))"
    using f p by (simp_all add: memcpy_from_def nat_diff_distrib)
  have "take p (drop ?r (fifo_data f)) @ take (n - p) (fifo_data f) = take n (fifo_items f)"
  proof (rule nth_equalityI)
    show "length (take p (drop ?r (fifo_data f)) @ take (n - p) (fifo_data f)) = length (take n (fifo_items f))"
      using f p by simp
    fix i assume "i < length (take p (drop ?r (fifo_data f)) @ take (n - p) (fifo_data f))"
    then have i: "i < n" using f p by simp
    have "(?r + i) mod 128 = (if i < p then ?r + i else i - p)"
    proof (cases "i < p")
      case True
      then show ?thesis using p(2) by simp
    next
      case False
      then have "?r + i = (i - p) + 128" "i - p < 128" using i f unfolding p_def by arith+
      then show ?thesis using False by (simp only: mod_add_self2 mod_less if_False)
    qed
    then show "(take p (drop ?r (fifo_data f)) @ take (n - p) (fifo_data f)) ! i = take n (fifo_items f) ! i"
      using i f(1,3) p(2,3) by (cases "i < p") (simp_all add: nth_append fifo_items_def min_absorb2)
  qed
  then have "sifFifo_read (int n) f = Some (take n (fifo_items f), ?f)" if "n \<noteq> 0"
    using that m by (simp add: sifFifo_read_def Let_def p(1))
  moreover have "fifo_ok ?f"
    using ok n by (auto simp: fifo_ok_def and_127 mod_simps)
  moreover have "fifo_items ?f = drop n (fifo_items f)"
  proof (rule nth_equalityI)
    fix i assume "i < length (fifo_items ?f)"
    then have i: "n + i < ?k" using f by simp
    have "(nat (readPos ?f) + i) mod 128 = (?r + (n + i)) mod 128"
      using f by (simp add: and_127 nat_mod_distrib nat_add_distrib mod_simps add.assoc)
    then show "fifo_items ?f ! i = drop n (fifo_items f) ! i"
      using i f by (simp add: fifo_items_def)
  qed (use f in \<open>simp add: nat_diff_distrib\<close>)
  ultimately show thesis
    using that ok by (cases "n = 0") (auto simp: sifFifo_read_def)
qed

interpretation sif: bounded_queue fifo_items fifo_ok 128 sifFifo_write "\<lambda>n. sifFifo_read (int n)"
proof
  fix f and xs :: "u32 list" and n
  show "length (fifo_items f) \<le> 128" if "fifo_ok f" using that by (auto simp: fifo_ok_def)
  show "\<exists>f'. sifFifo_write xs f = Some f' \<and> fifo_ok f' \<and> fifo_items f' = fifo_items f @ xs"
    if "fifo_ok f" "length (fifo_items f) + length xs \<le> 128"
  proof -
    have "fifo_size f + int (length xs) \<le> 128" using that by (simp add: fifo_ok_def)
    with that(1) show ?thesis by (blast elim: sifFifo_write)
  qed
  show "\<exists>f'. sifFifo_read (int n) f = Some (take n (fifo_items f), f') \<and> fifo_ok f' \<and>
      fifo_items f' = drop n (fifo_items f)" if "fifo_ok f" "n \<le> length (fifo_items f)"
  proof -
    have "int n \<le> fifo_size f" using that by (auto simp: fifo_ok_def)
    with that(1) show ?thesis by (blast elim: sifFifo_read)
  qed
qed

lemma fifo_zero: "fifo_ok sifFifo_zero" "fifo_items sifFifo_zero = []"
  by (simp_all add: fifo_ok_def sifFifo_zero_def fifo_items_def)

lemma sifFifo_clear: "fifo_ok f \<Longrightarrow> fifo_ok (sifFifo_clear f) \<and> fifo_items (sifFifo_clear f) = []"
  by (simp add: fifo_ok_def sifFifo_clear_def fifo_items_def)

text \<open>
  C14: for every schedule of writes and reads that keeps the fill level between 0 and 128,
  the FIFO never copies outside of its arrays, and what was read followed by what is left is
  what was in it followed by what was written, whatever the position of the ring.
\<close>

theorem sif_fifo_conserves:
  assumes "fifo_ok f" and "fits_queue 128 (nat (fifo_size f)) ops"
  shows "\<exists>out f'. run_queue sifFifo_write (\<lambda>n. sifFifo_read (int n)) ops f = Some (out, f') \<and>
    fifo_ok f' \<and> length out = popped ops \<and> out @ fifo_items f' = fifo_items f @ pushed ops"
  using sif.run_conserves [of f ops] assms by simp

theorem sif_fifo_conserves_witness:
  "\<exists>f'. run_queue sifFifo_write (\<lambda>n. sifFifo_read (int n))
     [Push (replicate 100 1), Pop 98, Push (replicate 60 2), Pop 62] sifFifo_zero = Some (replicate 100 1 @ replicate 60 2, f') \<and>
     fifo_items f' = []"
proof -
  let ?ops = "[Push (replicate 100 1), Pop 98, Push (replicate 60 2), Pop 62] :: u32 queue_op list"
  have "fits_queue 128 (nat (fifo_size sifFifo_zero)) ?ops" by (simp add: sifFifo_zero_def)
  with sif_fifo_conserves [of sifFifo_zero ?ops] fifo_zero obtain out f' where
    "run_queue sifFifo_write (\<lambda>n. sifFifo_read (int n)) ?ops sifFifo_zero = Some (out, f')"
    "length out = 160" "out @ fifo_items f' = replicate 100 1 @ replicate 60 2"
    by auto
  moreover have "out = replicate 100 1 @ replicate 60 2 \<and> fifo_items f' = []"
    using append_eq_append_conv [of out "replicate 100 1 @ replicate 60 2" "fifo_items f'" "[]"] calculation(2,3) by simp
  ultimately show ?thesis by auto
qed

end
