(* ===== verification/Sif.thy ===== *)
theory Sif
  imports Dmac Sif_Fifo
begin

text \<open>
  The transfers between the two processors: SIF0 of pcsx2/Sif0.cpp from the I/O processor
  to the EE, and SIF1 of pcsx2/Sif1.cpp the other way, over the FIFOs of \<open>Sif_Fifo\<close>.  Each
  is a loop that lets the two sides move what the FIFO allows until neither does anything.
  The chains are in the machine's memory and need not end, so the loops are given a number
  of passes; \<open>None\<close> is a loop that has not ended after them.

  \<open>done\<close> is assigned but never read and is left out, like the messages.
\<close>

unbundle bit_operations_syntax

section \<open>State\<close>

record sif =
  sif_fifo :: sifFifo
  sif_ee_end :: bool
  sif_ee_busy :: bool
  sif_ee_cycles :: u32
  sif_iop_end :: bool
  sif_iop_busy :: bool
  sif_iop_cycles :: u32
  sif_iop_writeJunk :: int
  sif_iop_counter :: int
  sif_iop_data :: u32
  sif_iop_words :: u32

record ee_sif = ee_dma +
  sif0 :: sif
  sif1 :: sif
  sif1_dma_stall :: bool

abbreviation upd0 :: "(sif \<Rightarrow> sif) \<Rightarrow> 'a ee_sif_scheme \<Rightarrow> 'a ee_sif_scheme" where
  "upd0 f s \<equiv> s\<lparr>sif0 := f (sif0 s)\<rparr>"
abbreviation upd1 :: "(sif \<Rightarrow> sif) \<Rightarrow> 'a ee_sif_scheme \<Rightarrow> 'a ee_sif_scheme" where
  "upd1 f s \<equiv> s\<lparr>sif1 := f (sif1 s)\<rparr>"

abbreviation sif0ch :: u32 where "sif0ch \<equiv> 0x1000C000"
abbreviation sif1ch :: u32 where "sif1ch \<equiv> 0x1000C400"

definition sif_zero :: sif where
  "sif_zero = \<lparr>sif_fifo = sifFifo_zero, sif_ee_end = False, sif_ee_busy = False, sif_ee_cycles = 0, sif_iop_end = False,
     sif_iop_busy = False, sif_iop_cycles = 0, sif_iop_writeJunk = 0, sif_iop_counter = 0, sif_iop_data = 0,
     sif_iop_words = 0\<rparr>"

definition sifReset :: "'a ee_sif_scheme \<Rightarrow> 'a ee_sif_scheme" where
  "sifReset s = s\<lparr>sif0 := sif_zero, sif1 := sif_zero\<rparr>"

text \<open>Words of host memory, the I/O processor's memory and its DMA registers.\<close>

definition host_words :: "u64 \<Rightarrow> nat \<Rightarrow> (u64 \<Rightarrow> u8) \<Rightarrow> u32 list" where
  "host_words p n m = map (\<lambda>i. load_le 4 m (p + 4 * of_nat i)) [0..<n]"

fun store_words :: "u64 \<Rightarrow> u32 list \<Rightarrow> (u64 \<Rightarrow> u8) \<Rightarrow> u64 \<Rightarrow> u8" where
  "store_words p [] m = m"
| "store_words p (w # ws) m = store_words (p + 4) ws (store_le 4 m p w)"

definition iopPhysMem :: "u32 \<Rightarrow> 'a ee_io_scheme \<Rightarrow> u64" where
  "iopPhysMem addr s = iopMem_Main s + ucast (addr AND 0x1fffff)"

abbreviation HW_DMA9_MADR :: u32 where "HW_DMA9_MADR \<equiv> 0x1520"
abbreviation HW_DMA9_CHCR :: u32 where "HW_DMA9_CHCR \<equiv> 0x1528"
abbreviation HW_DMA9_TADR :: u32 where "HW_DMA9_TADR \<equiv> 0x152c"
abbreviation HW_DMA10_MADR :: u32 where "HW_DMA10_MADR \<equiv> 0x1530"
abbreviation HW_DMA10_CHCR :: u32 where "HW_DMA10_CHCR \<equiv> 0x1538"

definition psx_reg :: "u32 \<Rightarrow> 'a ee_io_scheme \<Rightarrow> u32" where "psx_reg r s = psxHu32 r (psx s)"
definition set_psx_reg :: "u32 \<Rightarrow> u32 \<Rightarrow> 'a ee_io_scheme \<Rightarrow> 'a ee_io_scheme" where
  "set_psx_reg r v = on_psx (wPsxHu32 r v)"

abbreviation BIAS :: u32 where "BIAS \<equiv> 2"

section \<open>SIF0\<close>

definition sif0_write :: "u32 list \<Rightarrow> 'a ee_sif_scheme \<Rightarrow> ('a ee_sif_scheme, unit) res" where
  "sif0_write ws s = (case sifFifo_write ws (sif_fifo (sif0 s)) of None \<Rightarrow> Throw ArrayBounds s
     | Some f \<Rightarrow> Ok () (upd0 (\<lambda>x. x\<lparr>sif_fifo := f\<rparr>) s))"
definition sif0_writeJunk :: "int \<Rightarrow> 'a ee_sif_scheme \<Rightarrow> ('a ee_sif_scheme, unit) res" where
  "sif0_writeJunk n s = (case sifFifo_writeJunk n (sif_fifo (sif0 s)) of None \<Rightarrow> Throw ArrayBounds s
     | Some f \<Rightarrow> Ok () (upd0 (\<lambda>x. x\<lparr>sif_fifo := f\<rparr>) s))"
definition sif0_read :: "int \<Rightarrow> 'a ee_sif_scheme \<Rightarrow> ('a ee_sif_scheme, u32 list) res" where
  "sif0_read n s = (case sifFifo_read n (sif_fifo (sif0 s)) of None \<Rightarrow> Throw ArrayBounds s
     | Some (ws, f) \<Rightarrow> Ok ws (upd0 (\<lambda>x. x\<lparr>sif_fifo := f\<rparr>) s))"

abbreviation size0 :: "'a ee_sif_scheme \<Rightarrow> int" where "size0 s \<equiv> fifo_size (sif_fifo (sif0 s))"
abbreviation free0 :: "'a ee_sif_scheme \<Rightarrow> int" where "free0 s \<equiv> sif_free (sif_fifo (sif0 s))"

definition Sif0Init :: "'a ee_sif_scheme \<Rightarrow> 'a ee_sif_scheme" where
  "Sif0Init = upd0 (\<lambda>x. x\<lparr>sif_ee_cycles := 0, sif_iop_cycles := 0\<rparr>)"

text \<open>
  The tag a CHCR register holds has 16 bits, so that the shift by 28 in the test for a tag
  with stall control, written out as in the source, leaves nothing of it.
\<close>

definition WriteFifoToEE0 :: "'a ee_sif_scheme \<Rightarrow> ('a ee_sif_scheme, bool) res" where
  "WriteFifoToEE0 s =
     (let readSize = min (sint (qwc sif0ch s)) (drop_bit 2 (size0 s))
      in case getAddr sif0ch (madr sif0ch s) 5 True s of
           (None, s1) \<Rightarrow> Ok False s1
         | (Some ptag, s1) \<Rightarrow>
             res_bind (sif0_read (push_bit 2 readSize) s1) (\<lambda>ws s2.
             let s3 = s2\<lparr>hostmem := store_words ptag ws (hostmem s2)\<rparr>;
                 s4 = set_madr sif0ch (madr sif0ch s3 + word_of_int (push_bit 4 readSize)) s3;
                 s5 = upd0 (\<lambda>x. x\<lparr>sif_ee_cycles := sif_ee_cycles x + word_of_int readSize\<rparr>) s4;
                 s6 = set_qwc sif0ch (qwc sif0ch s5 - word_of_int readSize) s5
             in Ok True (if qwc sif0ch s6 = 0 \<and> ctrl_STS s6 = 1
                    \<and> (chcr_MOD (chcr sif0ch s6) = NORMAL_MODE
                       \<or> unat (drop_bit 28 (chcr_TAG (chcr sif0ch s6)) AND 7) = TAG_CNTS)
                  then set_stadr_ADDR (madr sif0ch s6) s6 else s6)))"

definition WriteIOPtoFifo0 :: "'a ee_sif_scheme \<Rightarrow> ('a ee_sif_scheme, bool) res" where
  "WriteIOPtoFifo0 s =
     (let writeSize = min (sif_iop_counter (sif0 s)) (free0 s);
          from = host_words (iopPhysMem (psx_reg HW_DMA9_MADR s) s) (nat writeSize) (hostmem s)
      in res_bind (sif0_write from s) (\<lambda>_ s1.
         let s2 = set_psx_reg HW_DMA9_MADR (psx_reg HW_DMA9_MADR s1 + word_of_int (push_bit 2 writeSize)) s1
         in Ok True (upd0 (\<lambda>x. x\<lparr>sif_iop_cycles := sif_iop_cycles x + word_of_int writeSize,
              sif_iop_counter := sif_iop_counter x - writeSize\<rparr>) s2)))"

definition ProcessEETag0 :: "'a ee_sif_scheme \<Rightarrow> ('a ee_sif_scheme, bool) res" where
  "ProcessEETag0 s =
     res_bind (sif0_read 2 s) (\<lambda>tag s1.
     let ptag = tag ! 0;
         s2 = set_madr sif0ch (tag ! 1) (unsafeTransfer sif0ch ptag s1);
         s3 = (if chcr_TIE (chcr sif0ch s2) \<and> tag_IRQ ptag then upd0 (\<lambda>x. x\<lparr>sif_ee_end := True\<rparr>) s2 else s2)
     in Ok True (if tag_ID ptag = TAG_CNTS
                 then (if ctrl_STS s3 = 1 then set_stadr_ADDR (madr sif0ch s3) s3 else s3)
                 else if tag_ID ptag = TAG_END then upd0 (\<lambda>x. x\<lparr>sif_ee_end := True\<rparr>) s3
                 else s3))"

definition ProcessIOPTag0 :: "'a ee_sif_scheme \<Rightarrow> ('a ee_sif_scheme, bool) res" where
  "ProcessIOPTag0 s =
     (let t = iopPhysMem (psx_reg HW_DMA9_TADR s) s;
          s1 = upd0 (\<lambda>x. x\<lparr>sif_iop_data := load_le 4 (hostmem s) t, sif_iop_words := load_le 4 (hostmem s) (t + 4)\<rparr>) s
      in res_bind (sif0_write (host_words (iopPhysMem (psx_reg HW_DMA9_TADR s1 + 8) s1) 2 (hostmem s1)) s1) (\<lambda>_ s2.
         let s3 = set_psx_reg HW_DMA9_TADR (psx_reg HW_DMA9_TADR s2 + 16) s2;
             s4 = set_psx_reg HW_DMA9_MADR (sif_iop_data (sif0 s3) AND 0xFFFFFF) s3;
             s5 = upd0 (\<lambda>x. x\<lparr>sif_iop_counter := uint (sif_iop_words x AND 0xFFFFF)\<rparr>) s4;
             s6 = upd0 (\<lambda>x. x\<lparr>sif_iop_writeJunk :=
                    if sif_iop_counter x AND 3 \<noteq> 0 then (4 - sif_iop_counter x) AND 3 else 0\<rparr>) s5;
             t0 = sif_iop_data (sif0 s6)
         in Ok True (if tag_IRQ t0 \<or> of_nat (tag_ID t0) AND 4 \<noteq> (0 :: u32)
                     then upd0 (\<lambda>x. x\<lparr>sif_iop_end := True\<rparr>) s6 else s6)))"

definition EndEE0 :: "'a ee_sif_scheme \<Rightarrow> 'a ee_sif_scheme" where
  "EndEE0 s =
     (let s1 = upd0 (\<lambda>x. x\<lparr>sif_ee_end := False, sif_ee_busy := False,
              sif_ee_cycles := if sif_ee_cycles x = 0 then 1 else sif_ee_cycles x\<rparr>) s
      in CPU_INT DMAC_SIF0 (sif_ee_cycles (sif0 s1) * BIAS) s1)"

definition EndIOP0 :: "'a ee_sif_scheme \<Rightarrow> 'a ee_sif_scheme" where
  "EndIOP0 s =
     (let s1 = upd0 (\<lambda>x. x\<lparr>sif_iop_data := 0, sif_iop_end := False, sif_iop_busy := False,
              sif_iop_cycles := if sif_iop_cycles x = 0 then 1 else sif_iop_cycles x\<rparr>) s;
          s2 = upd0 (\<lambda>x. x\<lparr>sif_iop_cycles :=
              if sint (sif_iop_cycles x) > 1000 then signed_drop_bit 1 (sif_iop_cycles x) else sif_iop_cycles x\<rparr>) s1
      in PSX_INT IopEvt_SIF0 (sif_iop_cycles (sif0 s2)) s2)"

definition HandleEETransfer0 :: "'a ee_sif_scheme \<Rightarrow> ('a ee_sif_scheme, unit) res" where
  "HandleEETransfer0 s =
     (if \<not> chcr_STR (chcr sif0ch s) then Ok () (upd0 (\<lambda>x. x\<lparr>sif_ee_end := False, sif_ee_busy := False\<rparr>) s)
      else res_bind
        (if qwc sif0ch s \<le> 0
         then if chcr_MOD (chcr sif0ch s) = NORMAL_MODE \<or> sif_ee_end (sif0 s) then Ok () (EndEE0 s)
              else if size0 s \<ge> 4 then res_bind (ProcessEETag0 s) (\<lambda>_. Ok ()) else Ok () s
         else Ok () s)
        (\<lambda>_ s1. if qwc sif0ch s1 > 0 \<and> size0 s1 \<ge> 4 then res_bind (WriteFifoToEE0 s1) (\<lambda>_. Ok ()) else Ok () s1))"

definition HandleIOPTransfer0 :: "'a ee_sif_scheme \<Rightarrow> ('a ee_sif_scheme, unit) res" where
  "HandleIOPTransfer0 s =
     (if sif_iop_counter (sif0 s) \<le> 0
      then if sif_iop_end (sif0 s) then Ok () (EndIOP0 s) else res_bind (ProcessIOPTag0 s) (\<lambda>_. Ok ())
      else if free0 s > 0 then res_bind (WriteIOPtoFifo0 s) (\<lambda>_. Ok ()) else Ok () s)"

definition Sif0End :: "'a ee_sif_scheme \<Rightarrow> 'a ee_sif_scheme" where
  "Sif0End s =
     (let s1 = wHu32 SBUS_F240 (psHu32 SBUS_F240 s AND NOT 0x20) s
      in wHu32 SBUS_F240 (psHu32 SBUS_F240 s1 AND NOT 0x2000) s1)"

text \<open>One pass of the loop; the result is \<open>BusyCheck > 0\<close>.\<close>

definition sif0_junk :: "'a ee_sif_scheme \<Rightarrow> ('a ee_sif_scheme, unit) res" where
  "sif0_junk s =
     (let j = sif_iop_writeJunk (sif0 s)
      in if sif_iop_counter (sif0 s) = 0 \<and> j \<noteq> 0 \<and> free0 s \<ge> j
         then res_bind (sif0_writeJunk j s) (\<lambda>_ s1. Ok () (upd0 (\<lambda>x. x\<lparr>sif_iop_writeJunk := 0\<rparr>) s1))
         else Ok () s)"

definition sif0_iop_turn :: "'a ee_sif_scheme \<Rightarrow> bool" where
  "sif0_iop_turn s \<longleftrightarrow> sif_iop_busy (sif0 s) \<and> (free0 s > 0 \<or> sif_iop_end (sif0 s) \<and> sif_iop_counter (sif0 s) = 0)"

definition sif0_ee_turn :: "'a ee_sif_scheme \<Rightarrow> bool" where
  "sif0_ee_turn s \<longleftrightarrow> sif_ee_busy (sif0 s) \<and> (size0 s \<ge> 4 \<or> sif_ee_end (sif0 s) \<and> qwc sif0ch s = 0)"

definition sif0_pass :: "'a ee_sif_scheme \<Rightarrow> ('a ee_sif_scheme, bool) res" where
  "sif0_pass s =
     res_bind (sif0_junk s) (\<lambda>_ s1.
     res_bind (if sif0_iop_turn s1 then HandleIOPTransfer0 s1 else Ok () s1) (\<lambda>_ s2.
     res_bind (if sif0_ee_turn s2 then HandleEETransfer0 s2 else Ok () s2) (\<lambda>_ s3.
     Ok (sif0_iop_turn s1 \<or> sif0_ee_turn s2) s3)))"

fun sif0_loop :: "nat \<Rightarrow> 'a ee_sif_scheme \<Rightarrow> ('a ee_sif_scheme, unit) res option" where
  "sif0_loop 0 s = None"
| "sif0_loop (Suc k) s =
     (case sif0_pass s of Throw e t \<Rightarrow> Some (Throw e t)
      | Ok b t \<Rightarrow> if b then sif0_loop k t else Some (Ok () t))"

definition SIF0Dma :: "nat \<Rightarrow> 'a ee_sif_scheme \<Rightarrow> ('a ee_sif_scheme, unit) res option" where
  "SIF0Dma fuel s = map_option (\<lambda>r. res_bind r (\<lambda>_ t. Ok () (Sif0End t))) (sif0_loop fuel (Sif0Init s))"

definition sif0Interrupt :: "'a ee_sif_scheme \<Rightarrow> 'a ee_sif_scheme" where
  "sif0Interrupt s = psxDmaInterrupt2 2 (set_psx_reg HW_DMA9_CHCR (psx_reg HW_DMA9_CHCR s AND NOT 0x01000000) s)"

definition EEsif0Interrupt :: "'a ee_sif_scheme \<Rightarrow> 'a ee_sif_scheme" where
  "EEsif0Interrupt s = set_STR False sif0ch (hwDmacIrq 5 s)"

definition dmaSIF0 :: "nat \<Rightarrow> 'a ee_sif_scheme \<Rightarrow> ('a ee_sif_scheme, unit) res option" where
  "dmaSIF0 fuel s =
     (let s1 = wHu32 SBUS_F240 (psHu32 SBUS_F240 s OR 0x2000) s
      in SIF0Dma fuel (upd0 (\<lambda>x. x\<lparr>sif_ee_busy := True, sif_ee_end := False\<rparr>) s1))"

definition psxDma9 :: "nat \<Rightarrow> 'a ee_sif_scheme \<Rightarrow> ('a ee_sif_scheme, unit) res option" where
  "psxDma9 fuel s = SIF0Dma fuel (upd0 (\<lambda>x. x\<lparr>sif_iop_busy := True, sif_iop_end := False\<rparr>) s)"

end
