(* ===== verification/Sif1.thy ===== *)
theory Sif1
  imports Sif
begin

text \<open>
  The transfer from the EE to the I/O processor (pcsx2/Sif1.cpp), with the stall control
  that holds it back at the address in STADR.  \<open>psxCpu->Clear\<close> does nothing in the
  interpreter.
\<close>

unbundle bit_operations_syntax

definition sif1_write :: "u32 list \<Rightarrow> 'a ee_sif_scheme \<Rightarrow> ('a ee_sif_scheme, unit) res" where
  "sif1_write ws s = (case sifFifo_write ws (sif_fifo (sif1 s)) of None \<Rightarrow> Throw ArrayBounds s
     | Some f \<Rightarrow> Ok () (upd1 (\<lambda>x. x\<lparr>sif_fifo := f\<rparr>) s))"
definition sif1_read :: "int \<Rightarrow> 'a ee_sif_scheme \<Rightarrow> ('a ee_sif_scheme, u32 list) res" where
  "sif1_read n s = (case sifFifo_read n (sif_fifo (sif1 s)) of None \<Rightarrow> Throw ArrayBounds s
     | Some (ws, f) \<Rightarrow> Ok ws (upd1 (\<lambda>x. x\<lparr>sif_fifo := f\<rparr>) s))"

abbreviation size1 :: "'a ee_sif_scheme \<Rightarrow> int" where "size1 s \<equiv> fifo_size (sif_fifo (sif1 s))"
abbreviation free1 :: "'a ee_sif_scheme \<Rightarrow> int" where "free1 s \<equiv> sif_free (sif_fifo (sif1 s))"

definition Sif1Init :: "'a ee_sif_scheme \<Rightarrow> 'a ee_sif_scheme" where
  "Sif1Init = upd1 (\<lambda>x. x\<lparr>sif_ee_cycles := 0, sif_iop_cycles := 0\<rparr>)"

text \<open>How many quadwords the EE can send, and whether they reach beyond STADR.\<close>

definition sif1_writeSize :: "'a ee_sif_scheme \<Rightarrow> int" where
  "sif1_writeSize s = min (sint (qwc sif1ch s)) (drop_bit 2 (free1 s))"

definition sif1_beyond_stadr :: "'a ee_sif_scheme \<Rightarrow> bool" where
  "sif1_beyond_stadr s \<longleftrightarrow> madr sif1ch s + word_of_int (sif1_writeSize s * 16) > stadr_ADDR s"

definition WriteEEtoFifo1 :: "'a ee_sif_scheme \<Rightarrow> ('a ee_sif_scheme, bool) res" where
  "WriteEEtoFifo1 s =
     (let writeSize = sif1_writeSize s
      in case getAddr sif1ch (madr sif1ch s) 6 False s of
           (None, s1) \<Rightarrow> Ok False s1
         | (Some ptag, s1) \<Rightarrow>
             res_bind (sif1_write (host_words ptag (nat (push_bit 2 writeSize)) (hostmem s1)) s1) (\<lambda>_ s2.
             let s3 = set_madr sif1ch (madr sif1ch s2 + word_of_int (push_bit 4 writeSize)) s2;
                 s4 = hwDmacSrcTadrInc sif1ch s3;
                 s5 = upd1 (\<lambda>x. x\<lparr>sif_ee_cycles := sif_ee_cycles x + word_of_int writeSize\<rparr>) s4
             in Ok True (set_qwc sif1ch (qwc sif1ch s5 - word_of_int writeSize) s5)))"

definition WriteFifoToIOP1 :: "'a ee_sif_scheme \<Rightarrow> ('a ee_sif_scheme, bool) res" where
  "WriteFifoToIOP1 s =
     (let readSize = min (sif_iop_counter (sif1 s)) (size1 s)
      in res_bind (sif1_read readSize s) (\<lambda>ws s1.
         let s2 = s1\<lparr>hostmem := store_words (iopPhysMem (psx_reg HW_DMA10_MADR s1) s1) ws (hostmem s1)\<rparr>;
             s3 = set_psx_reg HW_DMA10_MADR (psx_reg HW_DMA10_MADR s2 + word_of_int (push_bit 2 readSize)) s2
         in Ok True (upd1 (\<lambda>x. x\<lparr>sif_iop_cycles := sif_iop_cycles x + word_of_int (drop_bit 2 readSize),
              sif_iop_counter := sif_iop_counter x - readSize\<rparr>) s3)))"

definition ProcessEETag1 :: "'a ee_sif_scheme \<Rightarrow> ('a ee_sif_scheme, bool) res" where
  "ProcessEETag1 s =
     (case DMAtransfer sif1ch (tadr sif1ch s) 6 s of
        (None, s1) \<Rightarrow> Ok False s1
      | (Some p, s1) \<Rightarrow>
          res_bind (if chcr_TTE (chcr sif1ch s1) then sif1_write (host_words (p + 8) 2 (hostmem s1)) s1 else Ok () s1) (\<lambda>_ s2.
          let ptag = load_le 4 (hostmem s2) p;
              s3 = set_madr sif1ch (load_le 4 (hostmem s2) (p + 4)) s2
          in case hwDmacSrcChain sif1ch (tag_ID ptag) s3 of (e, s4) \<Rightarrow>
            let s5 = upd1 (\<lambda>x. x\<lparr>sif_ee_end := e\<rparr>) s4
            in Ok True (if chcr_TIE (chcr sif1ch s5) \<and> tag_IRQ ptag then upd1 (\<lambda>x. x\<lparr>sif_ee_end := True\<rparr>) s5 else s5)))"

text \<open>The four words read are \<open>data\<close>, \<open>words\<close> and the EE's tag, which is not used.\<close>

definition SIFIOPReadTag1 :: "'a ee_sif_scheme \<Rightarrow> ('a ee_sif_scheme, bool) res" where
  "SIFIOPReadTag1 s =
     res_bind (sif1_read 4 s) (\<lambda>ws s1.
     let s2 = upd1 (\<lambda>x. x\<lparr>sif_iop_data := ws ! 0, sif_iop_words := ws ! 1\<rparr>) s1;
         s3 = set_psx_reg HW_DMA10_MADR (sif_iop_data (sif1 s2) AND 0xffffff) s2;
         s4 = upd1 (\<lambda>x. x\<lparr>sif_iop_counter := uint (sif_iop_words x AND 0xFFFFC)\<rparr>) s3;
         t0 = sif_iop_data (sif1 s4)
     in Ok True (if tag_IRQ t0 \<or> of_nat (tag_ID t0) AND 4 \<noteq> (0 :: u32)
                 then upd1 (\<lambda>x. x\<lparr>sif_iop_end := True\<rparr>) s4 else s4))"

definition EndEE1 :: "'a ee_sif_scheme \<Rightarrow> 'a ee_sif_scheme" where
  "EndEE1 s =
     (let s1 = upd1 (\<lambda>x. x\<lparr>sif_ee_end := False, sif_ee_busy := False,
              sif_ee_cycles := if sif_ee_cycles x = 0 then 1 else sif_ee_cycles x\<rparr>) s
      in CPU_INT DMAC_SIF1 (sif_ee_cycles (sif1 s1) * BIAS) s1)"

definition EndIOP1 :: "'a ee_sif_scheme \<Rightarrow> 'a ee_sif_scheme" where
  "EndIOP1 s =
     (let s1 = upd1 (\<lambda>x. x\<lparr>sif_iop_data := 0, sif_iop_end := False, sif_iop_busy := False,
              sif_iop_cycles := if sif_iop_cycles x = 0 then 1 else sif_iop_cycles x\<rparr>) s
      in PSX_INT IopEvt_SIF1 (sif_iop_cycles (sif1 s1)) s1)"

definition HandleEETransfer1 :: "'a ee_sif_scheme \<Rightarrow> ('a ee_sif_scheme, unit) res" where
  "HandleEETransfer1 s =
     (if \<not> chcr_STR (chcr sif1ch s) then Ok () (upd1 (\<lambda>x. x\<lparr>sif_ee_end := False, sif_ee_busy := False\<rparr>) s)
      else if qwc sif1ch s \<le> 0
      then if chcr_MOD (chcr sif1ch s) = NORMAL_MODE \<or> sif_ee_end (sif1 s) then Ok () (EndEE1 s)
           else res_bind (ProcessEETag1 s) (\<lambda>_. Ok ())
      else if ctrl_STD s = 3
              \<and> (chcr_MOD (chcr sif1ch s) = NORMAL_MODE \<or> unat (drop_bit 28 (chcr_TAG (chcr sif1ch s)) AND 7) = TAG_REFS)
              \<and> sif1_beyond_stadr s
      then Ok () ((hwDmacIrq 13 s)\<lparr>sif1_dma_stall := True\<rparr>)
      else if free1 s > 0 then res_bind (WriteEEtoFifo1 s) (\<lambda>_. Ok ()) else Ok () s)"

definition HandleIOPTransfer1 :: "'a ee_sif_scheme \<Rightarrow> ('a ee_sif_scheme, unit) res" where
  "HandleIOPTransfer1 s =
     res_bind (if sif_iop_counter (sif1 s) > 0 \<and> size1 s > 0 then res_bind (WriteFifoToIOP1 s) (\<lambda>_. Ok ()) else Ok () s) (\<lambda>_ s1.
     if sif_iop_counter (sif1 s1) \<le> 0
     then if sif_iop_end (sif1 s1) then Ok () (EndIOP1 s1)
          else if size1 s1 \<ge> 4 then res_bind (SIFIOPReadTag1 s1) (\<lambda>_. Ok ()) else Ok () s1
     else Ok () s1)"

definition Sif1End :: "'a ee_sif_scheme \<Rightarrow> 'a ee_sif_scheme" where
  "Sif1End s =
     (let s1 = wHu32 SBUS_F240 (psHu32 SBUS_F240 s AND NOT 0x40) s
      in wHu32 SBUS_F240 (psHu32 SBUS_F240 s1 AND NOT 0x4000) s1)"

definition sif1_ee_turn :: "'a ee_sif_scheme \<Rightarrow> bool" where
  "sif1_ee_turn s \<longleftrightarrow> sif_ee_busy (sif1 s) \<and> \<not> sif1_dma_stall s
     \<and> (free1 s > 0 \<or> sif_ee_end (sif1 s) \<and> qwc sif1ch s = 0)"

definition sif1_iop_turn :: "'a ee_sif_scheme \<Rightarrow> bool" where
  "sif1_iop_turn s \<longleftrightarrow> sif_iop_busy (sif1 s) \<and> (size1 s \<ge> 4 \<or> sif_iop_end (sif1 s) \<and> sif_iop_counter (sif1 s) = 0)"

definition sif1_pass :: "'a ee_sif_scheme \<Rightarrow> ('a ee_sif_scheme, bool) res" where
  "sif1_pass s =
     res_bind (if sif1_ee_turn s then HandleEETransfer1 s else Ok () s) (\<lambda>_ s1.
     res_bind (if sif1_iop_turn s1 then HandleIOPTransfer1 s1 else Ok () s1) (\<lambda>_ s2.
     Ok (sif1_ee_turn s \<or> sif1_iop_turn s1) s2))"

fun sif1_loop :: "nat \<Rightarrow> 'a ee_sif_scheme \<Rightarrow> ('a ee_sif_scheme, unit) res option" where
  "sif1_loop 0 s = None"
| "sif1_loop (Suc k) s =
     (case sif1_pass s of Throw e t \<Rightarrow> Some (Throw e t)
      | Ok b t \<Rightarrow> if b then sif1_loop k t else Some (Ok () t))"

definition SIF1Dma :: "nat \<Rightarrow> 'a ee_sif_scheme \<Rightarrow> ('a ee_sif_scheme, unit) res option" where
  "SIF1Dma fuel s =
     (if sif1_dma_stall s \<and> sif1_beyond_stadr s then Some (Ok () s)
      else map_option (\<lambda>r. res_bind r (\<lambda>_ t. Ok () (Sif1End t))) (sif1_loop fuel (Sif1Init (s\<lparr>sif1_dma_stall := False\<rparr>))))"

definition sif1Interrupt :: "'a ee_sif_scheme \<Rightarrow> 'a ee_sif_scheme" where
  "sif1Interrupt s = psxDmaInterrupt2 3 (set_psx_reg HW_DMA10_CHCR (psx_reg HW_DMA10_CHCR s AND NOT 0x01000000) s)"

definition EEsif1Interrupt :: "'a ee_sif_scheme \<Rightarrow> 'a ee_sif_scheme" where
  "EEsif1Interrupt s = set_STR False sif1ch (hwDmacIrq 6 s)"

abbreviation vif1ch :: u32 where "vif1ch \<equiv> 0x10009000"

definition dmaSIF1 :: "nat \<Rightarrow> 'a ee_sif_scheme \<Rightarrow> ('a ee_sif_scheme, unit) res option" where
  "dmaSIF1 fuel s =
     (let s1 = wHu32 SBUS_F240 (psHu32 SBUS_F240 s OR 0x4000) s;
          s2 = upd1 (\<lambda>x. x\<lparr>sif_ee_busy := True, sif_ee_end := False\<rparr>) s1;
          c = chcr sif1ch s2;
          s3 = (if chcr_MOD c = CHAIN_MODE \<and> qwc sif1ch s2 > 0
                   \<and> (tag_ID c = TAG_REFE \<or> tag_ID c = TAG_END \<or> tag_IRQ c \<and> chcr_TIE (chcr vif1ch s2))
                then upd1 (\<lambda>x. x\<lparr>sif_ee_end := True\<rparr>) s2 else s2)
      in SIF1Dma fuel s3)"

definition psxDma10 :: "nat \<Rightarrow> 'a ee_sif_scheme \<Rightarrow> ('a ee_sif_scheme, unit) res option" where
  "psxDma10 fuel s = SIF1Dma fuel (upd1 (\<lambda>x. x\<lparr>sif_iop_busy := True, sif_iop_end := False\<rparr>) s)"

end
