(* ===== verification/Sif_Spec.thy ===== *)
theory Sif_Spec
  imports Sif1
begin

text \<open>
  What the transfers between the processors guarantee: the FIFO of SIF0 stays within its
  bounds except in one situation, which is characterised; and where stall control and the
  free space of SIF1 go wrong.
\<close>

unbundle bit_operations_syntax

section \<open>What the parts of a transfer leave alone\<close>

named_theorems sif_frame \<open>fields that scheduling and register writes leave alone\<close>

lemma cpuSetNextEvent_sif [sif_frame]:
  "sif0 (cpuSetNextEvent c d s) = sif0 s" "sif1 (cpuSetNextEvent c d s) = sif1 s"
  "sif1_dma_stall (cpuSetNextEvent c d s) = sif1_dma_stall s" "hostmem (cpuSetNextEvent c d s) = hostmem s"
  "eeHw (cpuSetNextEvent c d s) = eeHw s" "psx (cpuSetNextEvent c d s) = psx s"
  by (simp_all add: cpuSetNextEvent_def)

lemma CPU_INT_sif [sif_frame]:
  "sif0 (CPU_INT n d s) = sif0 s" "sif1 (CPU_INT n d s) = sif1 s"
  "sif1_dma_stall (CPU_INT n d s) = sif1_dma_stall s" "hostmem (CPU_INT n d s) = hostmem s"
  "eeHw (CPU_INT n d s) = eeHw s"
  by (simp_all add: CPU_INT_def Let_def cpuSetNextEventDelta_def sif_frame break_iop_def)

lemma psxSetNextBranch_hw [sif_frame]: "iopHw (psxSetNextBranch c d p) = iopHw p"
  by (simp add: psxSetNextBranch_def)

lemma PSX_INT_sif [sif_frame]:
  "sif0 (PSX_INT n d s) = sif0 s" "sif1 (PSX_INT n d s) = sif1 s"
  "sif1_dma_stall (PSX_INT n d s) = sif1_dma_stall s" "hostmem (PSX_INT n d s) = hostmem s"
  "eeHw (PSX_INT n d s) = eeHw s" "iopHw (psx (PSX_INT n d s)) = iopHw (psx s)"
  by (simp_all add: PSX_INT_def Let_def cpuSetNextEventDelta_def psxSetNextBranchDelta_def sif_frame)

lemma wHu32_sif [sif_frame]:
  "sif0 (wHu32 a v s) = sif0 s" "sif1 (wHu32 a v s) = sif1 s"
  "sif1_dma_stall (wHu32 a v s) = sif1_dma_stall s" "hostmem (wHu32 a v s) = hostmem s" "psx (wHu32 a v s) = psx s"
  by (simp_all add: wHu32_def)

lemma channel_sif [sif_frame]:
  "sif0 (set_chcr ch v s) = sif0 s" "sif1 (set_chcr ch v s) = sif1 s" "sif1_dma_stall (set_chcr ch v s) = sif1_dma_stall s"
  "sif0 (set_madr ch v s) = sif0 s" "sif1 (set_madr ch v s) = sif1 s" "sif1_dma_stall (set_madr ch v s) = sif1_dma_stall s"
  "sif0 (set_qwc ch v s) = sif0 s" "sif1 (set_qwc ch v s) = sif1 s" "sif1_dma_stall (set_qwc ch v s) = sif1_dma_stall s"
  "sif0 (set_tadr ch v s) = sif0 s" "sif1 (set_tadr ch v s) = sif1 s" "sif1_dma_stall (set_tadr ch v s) = sif1_dma_stall s"
  by (simp_all add: set_chcr_def set_madr_def set_qwc_def set_tadr_def sif_frame)

lemma tag_sif [sif_frame]:
  "sif0 (unsafeTransfer ch t s) = sif0 s" "sif1 (unsafeTransfer ch t s) = sif1 s"
  "sif1_dma_stall (unsafeTransfer ch t s) = sif1_dma_stall s"
  "sif0 (set_STR b ch s) = sif0 s" "sif1 (set_STR b ch s) = sif1 s" "sif1_dma_stall (set_STR b ch s) = sif1_dma_stall s"
  "sif0 (set_stadr_ADDR a s) = sif0 s" "sif1 (set_stadr_ADDR a s) = sif1 s"
  "sif1_dma_stall (set_stadr_ADDR a s) = sif1_dma_stall s"
  by (simp_all add: unsafeTransfer_def qwcTransfer_def chcrTransfer_def set_STR_def set_stadr_ADDR_def sif_frame)

lemma error_sif [sif_frame]:
  "sif0 (throwBusError s) = sif0 s" "sif1 (throwBusError s) = sif1 s" "sif1_dma_stall (throwBusError s) = sif1_dma_stall s"
  "sif0 (setDmacStat n s) = sif0 s" "sif1 (setDmacStat n s) = sif1 s" "sif1_dma_stall (setDmacStat n s) = sif1_dma_stall s"
  by (simp_all add: throwBusError_def setDmacStat_def sif_frame)

lemma psx_upd [sif_frame]:
  "psx_reg r (s\<lparr>sif0 := x\<rparr>) = psx_reg r s" "iopPhysMem a (s\<lparr>sif0 := x\<rparr>) = iopPhysMem a s"
  by (simp_all add: psx_reg_def iopPhysMem_def)

lemma getAddr_sif:
  assumes "getAddr ch a n w s = (p, t)"
  shows "sif0 t = sif0 s" "sif1 t = sif1 s" "sif1_dma_stall t = sif1_dma_stall s" "p \<noteq> None \<Longrightarrow> t = s"
  using assms by (auto simp: getAddr_def sif_frame split: option.splits)

section \<open>SIF1: stall control and a partly filled FIFO\<close>

text \<open>A CHCR register holds 16 bits of a tag.\<close>

lemma chcr_TAG_shifted: "unat (drop_bit 28 (chcr_TAG c) AND 7) = 0"
proof -
  have "drop_bit 28 (chcr_TAG c) = 0"
    by (rule bit_word_eqI) (auto simp: chcr_TAG_def bit_simps)
  then show ?thesis by simp
qed

lemma sif1_write_stall: "sif1_dma_stall (res_state (sif1_write ws t)) = sif1_dma_stall t"
  by (simp add: sif1_write_def split: option.split)

lemma res_bind_stall:
  "sif1_dma_stall (res_state m) = b \<Longrightarrow> (\<And>x t. sif1_dma_stall t = b \<Longrightarrow> sif1_dma_stall (res_state (f x t)) = b) \<Longrightarrow>
    sif1_dma_stall (res_state (res_bind m f)) = b"
  by (cases m) simp_all

lemma hwDmacSrcTadrInc_sif [sif_frame]:
  "sif0 (hwDmacSrcTadrInc ch s) = sif0 s" "sif1 (hwDmacSrcTadrInc ch s) = sif1 s"
  "sif1_dma_stall (hwDmacSrcTadrInc ch s) = sif1_dma_stall s"
  by (simp_all add: hwDmacSrcTadrInc_def sif_frame)

lemma WriteEEtoFifo1_stall: "sif1_dma_stall (res_state (WriteEEtoFifo1 s)) = sif1_dma_stall s"
proof (cases "getAddr sif1ch (madr sif1ch s) 6 False s")
  case (Pair p t)
  from getAddr_sif [OF this] this show ?thesis
    by (auto simp: WriteEEtoFifo1_def Let_def sif_frame sif1_write_stall
        intro!: res_bind_stall split: option.split)
qed

lemma hwDmacSrcChain_sif [sif_frame]:
  "sif0 (snd (hwDmacSrcChain ch i s)) = sif0 s" "sif1 (snd (hwDmacSrcChain ch i s)) = sif1 s"
  "sif1_dma_stall (snd (hwDmacSrcChain ch i s)) = sif1_dma_stall s"
  by (simp_all add: hwDmacSrcChain_def Let_def sif_frame)

lemma DMAtransfer_sif:
  assumes "DMAtransfer ch a n s = (p, t)"
  shows "sif0 t = sif0 s" "sif1 t = sif1 s" "sif1_dma_stall t = sif1_dma_stall s"
  using assms getAddr_sif [of ch a n False s]
  by (auto simp: DMAtransfer_def sif_frame split: option.splits prod.splits)

lemma ProcessEETag1_stall: "sif1_dma_stall (res_state (ProcessEETag1 s)) = sif1_dma_stall s"
proof (cases "DMAtransfer sif1ch (tadr sif1ch s) 6 s")
  case (Pair p t)
  show ?thesis
  proof (cases p)
    case (Some q)
    have "sif1_dma_stall (res_state (ProcessEETag1 s)) = sif1_dma_stall t"
      unfolding ProcessEETag1_def Pair prod.case option.case Some
      by (intro res_bind_stall) (simp_all add: Let_def case_prod_beta sif_frame sif1_write_stall)
    with DMAtransfer_sif(3) [OF Pair] show ?thesis by simp
  qed (use Pair DMAtransfer_sif(3) [OF Pair] in \<open>simp add: ProcessEETag1_def\<close>)
qed

text \<open>
  In chain mode SIF1 never stalls, whatever the tag: the test for a REFS tag reads
  bits the 16 bit field does not have.  SIF0 for the same reason treats every tag as one
  that moves the stall address.
\<close>

theorem sif1_chain_never_stalls:
  assumes "chcr_MOD (chcr sif1ch s) \<noteq> NORMAL_MODE"
  shows "sif1_dma_stall (res_state (HandleEETransfer1 s)) = sif1_dma_stall s"
proof -
  have "sif1_dma_stall (EndEE1 s) = sif1_dma_stall s" by (simp add: EndEE1_def Let_def sif_frame)
  then show ?thesis
    using assms by (auto simp: HandleEETransfer1_def chcr_TAG_shifted ProcessEETag1_stall WriteEEtoFifo1_stall
        simp del: res_bind.simps intro!: res_bind_stall)
qed

text \<open>A machine with both FIFOs empty.\<close>

definition ee_sif0 :: ee_sif where
  "ee_sif0 = ee_dma.extend (ee_io.extend ee_io0 \<lparr>CHECK_DMABUSYHACK = False, QueuedDMA = 0, oldvalue = 0\<rparr>)
     \<lparr>sif0 = sif_zero, sif1 = sif_zero, sif1_dma_stall = False\<rparr>"

lemmas ee_sif0_defs = ee_sif0_def ee_dma.extend_def ee_io.extend_def ee_io0_def ee_sys.extend_def ee_fpu.extend_def
  ee_cpu.extend_def ee_mem.extend_def ee_mem0_def

text \<open>
  The witness: a REFS tag in CHCR, chain mode, SIF1 as the stall drain, and the address of
  the transfer beyond a stall address of 0.
\<close>

theorem sif1_chain_never_stalls_witness:
  "ctrl_STD (ee_sif0\<lparr>eeHw := (\<lambda>_. 0)(0x3100 := 0x40000104, 0x3104 := 0x1000, 0x3108 := 8, 0x3800 := 0xC1)\<rparr>) = 3 \<and>
   sif1_beyond_stadr (ee_sif0\<lparr>eeHw := (\<lambda>_. 0)(0x3100 := 0x40000104, 0x3104 := 0x1000, 0x3108 := 8, 0x3800 := 0xC1)\<rparr>) \<and>
   \<not> sif1_dma_stall (res_state (HandleEETransfer1
     (ee_sif0\<lparr>eeHw := (\<lambda>_. 0)(0x3100 := 0x40000104, 0x3104 := 0x1000, 0x3108 := 8, 0x3800 := 0xC1)\<rparr>)))"
proof -
  let ?s = "ee_sif0\<lparr>eeHw := (\<lambda>_. 0)(0x3100 := 0x40000104, 0x3104 := 0x1000, 0x3108 := 8, 0x3800 := 0xC1)\<rparr>"
  have "chcr_MOD (chcr sif1ch ?s) \<noteq> NORMAL_MODE" by (simp add: channel_defs chcr_MOD_def)
  from sif1_chain_never_stalls [OF this] have "\<not> sif1_dma_stall (res_state (HandleEETransfer1 ?s))"
    by (simp add: ee_sif0_defs)
  moreover have "ctrl_STD ?s = 3" by (simp add: ctrl_STD_def psHu32_def)
  moreover have "sif1_beyond_stadr ?s"
    by (simp add: sif1_beyond_stadr_def sif1_writeSize_def channel_defs stadr_ADDR_def)
      (simp add: ee_sif0_defs sif_zero_def sifFifo_zero_def sif_free_def)
  ultimately show ?thesis by blast
qed

lemma dmaGetAddr_None: "dmaGetAddr a w s = None \<longleftrightarrow> \<not> tag_SPR a \<and> a AND 0x1ffffff0 \<ge> 0x10004000"
  by (auto simp: dmaGetAddr_def Let_def intro: order_le_less_trans order_less_trans)

text \<open>A state in which the EE has more to send than the FIFO takes, but less than four words fit.\<close>

definition sif1_stuck :: "'a ee_sif_scheme \<Rightarrow> bool" where
  "sif1_stuck s \<longleftrightarrow> chcr_STR (chcr sif1ch s) \<and> 0 < sint (qwc sif1ch s) \<and> 0 < free1 s \<and> free1 s < 4 \<and>
     sif_ee_busy (sif1 s) \<and> \<not> sif_iop_busy (sif1 s) \<and> \<not> sif1_dma_stall s \<and> ctrl_STD s \<noteq> 3 \<and>
     dmaGetAddr (madr sif1ch s) False s \<noteq> None"

lemma sif1_stuck_pass:
  assumes "sif1_stuck s"
  obtains t where "sif1_pass s = Ok True t" "sif1_stuck t"
proof -
  have w: "sif1_writeSize s = 0" using assms by (simp add: sif1_writeSize_def sif1_stuck_def drop_bit_eq_div)
  obtain p where p: "dmaGetAddr (madr sif1ch s) False s = Some p" using assms by (auto simp: sif1_stuck_def)
  have q: "\<not> qwc sif1ch s \<le> 0" using assms by (auto simp: sif1_stuck_def)
  let ?s2 = "upd1 (\<lambda>x. x\<lparr>sif_fifo := sif_fifo (sif1 s)\<rparr>) s"
  let ?s4 = "hwDmacSrcTadrInc sif1ch (set_madr sif1ch (madr sif1ch ?s2) ?s2)"
  let ?s5 = "upd1 (\<lambda>x. x\<lparr>sif_ee_cycles := sif_ee_cycles x + word_of_int 0\<rparr>) ?s4"
  let ?t = "set_qwc sif1ch (qwc sif1ch ?s5) ?s5"
  have e: "WriteEEtoFifo1 s = Ok True ?t"
    using p by (simp add: WriteEEtoFifo1_def w getAddr_def sif1_write_def sifFifo_write_def host_words_def Let_def)
  have "HandleEETransfer1 s = Ok () ?t"
    using assms q e by (auto simp: HandleEETransfer1_def sif1_stuck_def)
  moreover have "sif1_ee_turn s" using assms by (simp add: sif1_ee_turn_def sif1_stuck_def)
  moreover have b: "\<not> sif_iop_busy (sif1 ?t)" using assms by (simp add: sif_frame sif1_stuck_def)
  ultimately have "sif1_pass s = Ok True ?t" by (simp add: sif1_pass_def sif1_iop_turn_def)
  moreover have "sif1_stuck ?t"
    using assms b by (auto simp: sif1_stuck_def sif_frame channel_defs hwDmacSrcTadrInc_def ctrl_STD_def dmaGetAddr_None)
  ultimately show thesis by (rule that)
qed

text \<open>
  C17: when the free space of the SIF1 FIFO is not a multiple of four words, the EE side
  copies nothing and counts as busy, and the loop of the transfer does not end.
\<close>

theorem sif1_livelock:
  assumes "sif1_stuck s"
  shows "SIF1Dma k s = None"
proof -
  have "sif1_loop k t = None" if "sif1_stuck t" for t :: "'a ee_sif_scheme"
    using that
  proof (induction k arbitrary: t)
    case (Suc k)
    from sif1_stuck_pass [OF Suc.prems] obtain t' where "sif1_pass t = Ok True t'" "sif1_stuck t'" by blast
    with Suc.IH [OF this(2)] show ?case by simp
  qed simp
  moreover have "sif1_stuck (Sif1Init (s\<lparr>sif1_dma_stall := False\<rparr>))"
    using assms by (simp add: sif1_stuck_def Sif1Init_def channel_defs ctrl_STD_def dmaGetAddr_None)
  ultimately show ?thesis using assms by (simp add: SIF1Dma_def sif1_stuck_def)
qed

theorem sif1_livelock_witness:
  "SIF1Dma 1000 (ee_sif0\<lparr>eeHw := (\<lambda>_. 0)(0x3100 := 0x104, 0x3104 := 0x1000, 0x3108 := 8),
     sif1 := sif_zero\<lparr>sif_fifo := sifFifo_zero\<lparr>fifo_size := 126, writePos := 126\<rparr>, sif_ee_busy := True\<rparr>\<rparr>) = None"
proof -
  let ?s = "ee_sif0\<lparr>eeHw := (\<lambda>_. 0)(0x3100 := 0x104, 0x3104 := 0x1000, 0x3108 := 8),
     sif1 := sif_zero\<lparr>sif_fifo := sifFifo_zero\<lparr>fifo_size := 126, writePos := 126\<rparr>, sif_ee_busy := True\<rparr>\<rparr>"
  have "sif1_stuck ?s"
    by (simp add: sif1_stuck_def channel_defs chcr_STR_def ctrl_STD_def dmaGetAddr_None tag_SPR_def sif_free_def)
      (simp add: ee_sif0_defs sif_zero_def)
  then show ?thesis by (rule sif1_livelock)
qed

section \<open>SIF0: the FIFO stays within its bounds\<close>

text \<open>
  The invariant: the FIFO is sound, and what is in it, what the current packet still brings
  and what fills the packet up to quadwords make an even number of words.
\<close>

definition sif_ok :: "sif \<Rightarrow> bool" where
  "sif_ok x \<longleftrightarrow> fifo_ok (sif_fifo x) \<and> 0 \<le> sif_iop_counter x \<and> 0 \<le> sif_iop_writeJunk x \<and> sif_iop_writeJunk x < 4 \<and>
     even (fifo_size (sif_fifo x) + sif_iop_counter x + sif_iop_writeJunk x)"

text \<open>A tag is due, the FIFO has one free word, and the filling of the last packet did not fit.\<close>

definition sif0_tag_overflow :: "'a ee_sif_scheme \<Rightarrow> bool" where
  "sif0_tag_overflow s \<longleftrightarrow> sif_iop_busy (sif0 s) \<and> \<not> sif_iop_end (sif0 s) \<and> sif_iop_counter (sif0 s) = 0 \<and>
     sif_iop_writeJunk (sif0 s) = 3 \<and> free0 s = 1"

lemma fifo_size_items: "fifo_ok f \<Longrightarrow> fifo_size f = int (length (fifo_items f))"
  by (simp add: fifo_ok_def)

lemma sif0_read_ok:
  assumes "fifo_ok (sif_fifo (sif0 s))" and "n \<le> size0 s"
  obtains ws f where "sif0_read n s = Ok ws (upd0 (\<lambda>x. x\<lparr>sif_fifo := f\<rparr>) s)" "fifo_ok f"
    "fifo_size f = (if 0 \<le> n then size0 s - n else size0 s)" "int (length ws) = (if 0 \<le> n then n else 0)"
proof (cases "0 < n")
  case True
  then have n: "n = int (nat n)" by simp
  obtain f where f: "sifFifo_read n (sif_fifo (sif0 s)) = Some (take (nat n) (fifo_items (sif_fifo (sif0 s))), f)"
      "fifo_ok f" "fifo_items f = drop (nat n) (fifo_items (sif_fifo (sif0 s)))"
    using sifFifo_read [OF assms(1), of "nat n"] assms(2) True by auto
  have "0 \<le> size0 s" using assms(1) by (simp add: fifo_ok_def)
  moreover have "fifo_size f = size0 s - n"
    using fifo_size_items [OF f(2)] fifo_size_items [OF assms(1)] f(3) assms(2) True by (simp del: length_fifo_items)
  ultimately show thesis using f(2) assms(2) True
    by (intro that [of "take (nat n) (fifo_items (sif_fifo (sif0 s)))" f]) (simp_all add: sif0_read_def f(1))
next
  case False
  then have "sif0_read n s = Ok [] (upd0 (\<lambda>x. x\<lparr>sif_fifo := sif_fifo (sif0 s)\<rparr>) s)"
    by (simp add: sif0_read_def sifFifo_read_def)
  with assms(1) False show thesis by (intro that [of "[]" "sif_fifo (sif0 s)"]) simp_all
qed

lemma sif0_read_pos:
  assumes "fifo_ok (sif_fifo (sif0 s))" and "n \<le> size0 s" and "0 \<le> n"
  obtains ws f where "sif0_read n s = Ok ws (upd0 (\<lambda>x. x\<lparr>sif_fifo := f\<rparr>) s)" "fifo_ok f"
    "fifo_size f = size0 s - n" "int (length ws) = n"
  using sif0_read_ok [OF assms(1,2)] assms(3) by metis

lemma sif0_write_ok:
  assumes "fifo_ok (sif_fifo (sif0 s))" and "size0 s + int (length ws) \<le> 128"
  obtains f where "sif0_write ws s = Ok () (upd0 (\<lambda>x. x\<lparr>sif_fifo := f\<rparr>) s)" "fifo_ok f"
    "fifo_items f = fifo_items (sif_fifo (sif0 s)) @ ws" "fifo_size f = size0 s + int (length ws)"
proof -
  obtain f where f: "sifFifo_write ws (sif_fifo (sif0 s)) = Some f" "fifo_ok f"
      "fifo_items f = fifo_items (sif_fifo (sif0 s)) @ ws"
    using assms by (rule sifFifo_write)
  have "fifo_size f = size0 s + int (length ws)"
    using fifo_size_items [OF f(2)] fifo_size_items [OF assms(1)] f(3) by (simp del: length_fifo_items)
  with f(2,3) show thesis by (intro that) (simp_all add: sif0_write_def f(1))
qed

lemma length_host_words [simp]: "length (host_words p n m) = n"
  by (simp add: host_words_def)

lemma EndEE0_sif: "sif_ok (sif0 s) \<Longrightarrow> sif_ok (sif0 (EndEE0 s))"
  by (simp add: EndEE0_def Let_def sif_frame sif_ok_def)

lemma EndIOP0_sif: "sif_ok (sif0 s) \<Longrightarrow> sif_ok (sif0 (EndIOP0 s))"
  by (simp add: EndIOP0_def Let_def sif_frame sif_ok_def)

lemma ProcessEETag0_ok:
  assumes "sif_ok (sif0 s)" and "4 \<le> size0 s"
  obtains b t where "ProcessEETag0 s = Ok b t" "sif_ok (sif0 t)"
proof -
  have ok: "fifo_ok (sif_fifo (sif0 s))" using assms(1) by (simp add: sif_ok_def)
  obtain ws f where f: "sif0_read 2 s = Ok ws (upd0 (\<lambda>x. x\<lparr>sif_fifo := f\<rparr>) s)" "fifo_ok f" "fifo_size f = size0 s - 2"
  proof (rule sif0_read_pos [OF ok])
    show "2 \<le> size0 s" using assms(2) by simp
  qed simp_all
  have "sif_ok ((sif0 s)\<lparr>sif_fifo := f\<rparr>)" using assms(1) f by (simp add: sif_ok_def)
  then show thesis
    by (intro that) (simp add: ProcessEETag0_def f(1) Let_def,
      simp add: sif_frame sif_ok_def if_distrib [of sif0] cong: if_cong)
qed

lemma WriteFifoToEE0_ok:
  assumes "sif_ok (sif0 s)"
  obtains b t where "WriteFifoToEE0 s = Ok b t" "sif_ok (sif0 t)"
proof (cases "getAddr sif0ch (madr sif0ch s) 5 True s")
  case (Pair p s1)
  note g = getAddr_sif [OF Pair]
  have ok: "fifo_ok (sif_fifo (sif0 s))" using assms by (simp add: sif_ok_def)
  then have sz: "0 \<le> size0 s" by (simp add: fifo_ok_def)
  show thesis
  proof (cases p)
    case None
    with Pair g(1) assms show thesis by (intro that [of False s1]) (simp_all add: WriteFifoToEE0_def Let_def)
  next
    case (Some q)
    define r where "r = push_bit 2 (min (sint (qwc sif0ch s)) (drop_bit 2 (size0 s)))"
    have r: "r \<le> size0 s" "even r"
      using sz by (auto simp: r_def push_bit_eq_mult drop_bit_eq_div min_def)
    have s1: "s1 = s" using g(4) Some by simp
    obtain ws f where f: "sif0_read r s = Ok ws (upd0 (\<lambda>x. x\<lparr>sif_fifo := f\<rparr>) s)" "fifo_ok f"
        "fifo_size f = (if 0 \<le> r then size0 s - r else size0 s)"
      using sif0_read_ok [OF ok r(1)] by metis
    have "sif_ok ((sif0 s)\<lparr>sif_fifo := f\<rparr>)" using assms f r(2) by (auto simp: sif_ok_def)
    then show thesis
      by (intro that) (simp add: WriteFifoToEE0_def Pair Some s1 f(1) [unfolded r_def] Let_def,
        simp add: sif_frame sif_ok_def if_distrib [of sif0] cong: if_cong)
  qed
qed

lemma WriteIOPtoFifo0_ok:
  assumes "sif_ok (sif0 s)" and "0 < sif_iop_counter (sif0 s)" and "0 < free0 s"
  obtains b t where "WriteIOPtoFifo0 s = Ok b t" "sif_ok (sif0 t)"
proof -
  have ok: "fifo_ok (sif_fifo (sif0 s))" using assms(1) by (simp add: sif_ok_def)
  define w where "w = min (sif_iop_counter (sif0 s)) (free0 s)"
  define ws where "ws = host_words (iopPhysMem (psx_reg HW_DMA9_MADR s) s) (nat w) (hostmem s)"
  have w: "0 < w" "w \<le> sif_iop_counter (sif0 s)" "size0 s + w \<le> 128"
    using assms(2,3) by (auto simp: w_def sif_free_def)
  have l: "int (length ws) = w" using w(1) by (simp add: ws_def)
  obtain f where f: "sif0_write ws s = Ok () (upd0 (\<lambda>x. x\<lparr>sif_fifo := f\<rparr>) s)" "fifo_ok f" "fifo_size f = size0 s + w"
    using sif0_write_ok [OF ok, of ws] w(3) unfolding l by metis
  from f(1) have e: "WriteIOPtoFifo0 s = Ok True (upd0 (\<lambda>x. x\<lparr>sif_iop_cycles := sif_iop_cycles x + word_of_int w,
      sif_iop_counter := sif_iop_counter x - w\<rparr>) (set_psx_reg HW_DMA9_MADR
        (psx_reg HW_DMA9_MADR (upd0 (\<lambda>x. x\<lparr>sif_fifo := f\<rparr>) s) + word_of_int (push_bit 2 w)) (upd0 (\<lambda>x. x\<lparr>sif_fifo := f\<rparr>) s)))"
    unfolding WriteIOPtoFifo0_def ws_def w_def Let_def by simp
  show thesis
    by (rule that [OF e]) (use assms(1) w f(2,3) in \<open>auto simp: sif_ok_def set_psx_reg_def\<close>)
qed

lemma writeJunk_residue: "(c :: int) AND 3 \<noteq> 0 \<Longrightarrow> 0 \<le> (4 - c) AND 3 \<and> (4 - c) AND 3 < 4 \<and> even (c + ((4 - c) AND 3))"
proof -
  have a: "x AND 3 = x mod 4" for x :: int
    using take_bit_eq_mask [of 2 x] by (simp add: take_bit_eq_mod mask_eq_exp_minus_1)
  show ?thesis unfolding a by presburger
qed

lemma even_and_3: "(c :: int) AND 3 = 0 \<Longrightarrow> even c"
proof -
  have "c AND 3 = c mod 4" using take_bit_eq_mask [of 2 c] by (simp add: take_bit_eq_mod mask_eq_exp_minus_1)
  then show "c AND 3 = 0 \<Longrightarrow> even c" by presburger
qed

lemma ProcessIOPTag0_ok:
  assumes "fifo_ok (sif_fifo (sif0 s))" and "even (size0 s)" and "2 \<le> free0 s"
  obtains b t where "ProcessIOPTag0 s = Ok b t" "sif_ok (sif0 t)"
proof -
  let ?t = "iopPhysMem (psx_reg HW_DMA9_TADR s) s"
  let ?s = "upd0 (\<lambda>x. x\<lparr>sif_iop_data := load_le 4 (hostmem s) ?t, sif_iop_words := load_le 4 (hostmem s) (?t + 4)\<rparr>) s"
  define ws where "ws = host_words (iopPhysMem (psx_reg HW_DMA9_TADR s + 8) s) 2 (hostmem s)"
  have l: "int (length ws) = 2" by (simp add: ws_def)
  obtain f where f: "sif0_write ws ?s = Ok () (upd0 (\<lambda>x. x\<lparr>sif_fifo := f\<rparr>) ?s)" "fifo_ok f" "fifo_size f = size0 s + 2"
    using sif0_write_ok [of ?s ws] assms(1,3) unfolding l by (auto simp: sif_free_def)
  let ?c = "uint (load_le 4 (hostmem s) (?t + 4) AND 0xFFFFF :: u32)"
  have c: "0 \<le> ?c" by simp
  show thesis
    using f(2,3) assms(2) c writeJunk_residue [of ?c] even_and_3 [of ?c]
    by (intro that) (simp add: ProcessIOPTag0_def sif_frame f(1) [unfolded ws_def] Let_def,
      simp add: sif_ok_def set_psx_reg_def if_distrib [of sif0] cong: if_cong)
qed

lemma sif0_junk_ok:
  assumes "sif_ok (sif0 s)"
  obtains t where "sif0_junk s = Ok () t" "sif_ok (sif0 t)" "sif_iop_counter (sif0 t) = sif_iop_counter (sif0 s)"
    "sif_iop_busy (sif0 t) = sif_iop_busy (sif0 s)" "sif_iop_end (sif0 t) = sif_iop_end (sif0 s)"
    "sif_iop_writeJunk (sif0 t) = 0 \<or> t = s \<and> (sif_iop_counter (sif0 s) \<noteq> 0 \<or> free0 s < sif_iop_writeJunk (sif0 s))"
proof -
  let ?j = "sif_iop_writeJunk (sif0 s)"
  have ok: "fifo_ok (sif_fifo (sif0 s))" and j: "0 \<le> ?j" "?j \<le> 4" using assms by (auto simp: sif_ok_def)
  show thesis
  proof (cases "sif_iop_counter (sif0 s) = 0 \<and> ?j \<noteq> 0 \<and> free0 s \<ge> ?j")
    case True
    then have fit: "size0 s + ?j \<le> 128" by (simp add: sif_free_def)
    obtain f where f: "sifFifo_writeJunk ?j (sif_fifo (sif0 s)) = Some f" "fifo_ok f"
        "fifo_items f = fifo_items (sif_fifo (sif0 s)) @ drop (nat (4 - ?j)) (fifo_junk (sif_fifo (sif0 s)))"
      by (rule sifFifo_writeJunk [OF ok j fit])
    have "length (fifo_junk (sif_fifo (sif0 s))) = 4" using ok by (simp add: fifo_ok_def)
    then have "fifo_size f = size0 s + ?j"
      using fifo_size_items [OF f(2)] fifo_size_items [OF ok] j unfolding f(3) by (simp del: length_fifo_items)
    with True f assms show thesis
      by (intro that [of "upd0 (\<lambda>x. x\<lparr>sif_fifo := f, sif_iop_writeJunk := 0\<rparr>) s"])
        (auto simp: sif0_junk_def sif0_writeJunk_def sif_ok_def)
  next
    case False
    with assms j show thesis by (intro that [of s]) (auto simp: sif0_junk_def)
  qed
qed

lemma HandleIOPTransfer0_ok:
  assumes "sif_ok (sif0 s)" and "sif_iop_counter (sif0 s) = 0 \<Longrightarrow> \<not> sif_iop_end (sif0 s) \<Longrightarrow>
    even (size0 s) \<and> 2 \<le> free0 s"
  obtains t where "HandleIOPTransfer0 s = Ok () t" "sif_ok (sif0 t)"
proof (cases "sif_iop_counter (sif0 s) \<le> 0")
  case True
  then have c: "sif_iop_counter (sif0 s) = 0" using assms(1) by (simp add: sif_ok_def)
  show thesis
  proof (cases "sif_iop_end (sif0 s)")
    case e: True
    with c assms(1) show thesis by (intro that [of "EndIOP0 s"]) (simp_all add: HandleIOPTransfer0_def EndIOP0_sif)
  next
    case False
    have ok: "fifo_ok (sif_fifo (sif0 s))" using assms(1) by (simp add: sif_ok_def)
    note r = assms(2) [OF c False]
    obtain b t where t: "ProcessIOPTag0 s = Ok b t" "sif_ok (sif0 t)"
      by (rule ProcessIOPTag0_ok [OF ok conjunct1 [OF r] conjunct2 [OF r]])
    have "HandleIOPTransfer0 s = Ok () t"
      unfolding HandleIOPTransfer0_def if_P [OF True] if_not_P [OF False] t(1) by simp
    then show thesis using t(2) by (rule that)
  qed
next
  case False
  show thesis
  proof (cases "0 < free0 s")
    case True
    have "0 < sif_iop_counter (sif0 s)" using False by simp
    from assms(1) this True obtain b t where "WriteIOPtoFifo0 s = Ok b t" "sif_ok (sif0 t)"
      by (rule WriteIOPtoFifo0_ok)
    with False True show thesis by (intro that [of t]) (simp_all add: HandleIOPTransfer0_def)
  qed (use False assms(1) in \<open>intro that [of s], simp_all add: HandleIOPTransfer0_def\<close>)
qed

lemma HandleEETransfer0_ok:
  assumes "sif_ok (sif0 s)"
  obtains t where "HandleEETransfer0 s = Ok () t" "sif_ok (sif0 t)"
proof -
  have W: "\<exists>t. (if qwc sif0ch u > 0 \<and> size0 u \<ge> 4 then res_bind (WriteFifoToEE0 u) (\<lambda>_. Ok ()) else Ok () u) = Ok () t
      \<and> sif_ok (sif0 t)" if "sif_ok (sif0 u)" for u :: "'a ee_sif_scheme"
    using WriteFifoToEE0_ok [OF that] that by (metis res_bind.simps(1))
  have "\<exists>u. (if qwc sif0ch s \<le> 0
       then if chcr_MOD (chcr sif0ch s) = NORMAL_MODE \<or> sif_ee_end (sif0 s) then Ok () (EndEE0 s)
            else if size0 s \<ge> 4 then res_bind (ProcessEETag0 s) (\<lambda>_. Ok ()) else Ok () s
       else Ok () s) = Ok () u \<and> sif_ok (sif0 u)"
    using ProcessEETag0_ok [OF assms] EndEE0_sif [OF assms] assms by (metis res_bind.simps(1))
  then obtain u where "(if qwc sif0ch s \<le> 0
       then if chcr_MOD (chcr sif0ch s) = NORMAL_MODE \<or> sif_ee_end (sif0 s) then Ok () (EndEE0 s)
            else if size0 s \<ge> 4 then res_bind (ProcessEETag0 s) (\<lambda>_. Ok ()) else Ok () s
       else Ok () s) = Ok () u" "sif_ok (sif0 u)" by blast
  moreover obtain t where "(if qwc sif0ch u > 0 \<and> size0 u \<ge> 4 then res_bind (WriteFifoToEE0 u) (\<lambda>_. Ok ()) else Ok () u) = Ok () t"
      "sif_ok (sif0 t)" using W [OF calculation(2)] by blast
  ultimately have "HandleEETransfer0 s = (if \<not> chcr_STR (chcr sif0ch s)
      then Ok () (upd0 (\<lambda>x. x\<lparr>sif_ee_end := False, sif_ee_busy := False\<rparr>) s) else Ok () t)"
    by (simp only: HandleEETransfer0_def res_bind.simps)
  moreover have "sif_ok (sif0 (upd0 (\<lambda>x. x\<lparr>sif_ee_end := False, sif_ee_busy := False\<rparr>) s))"
    using assms by (simp add: sif_ok_def)
  ultimately show thesis using that \<open>sif_ok (sif0 t)\<close> by (cases "chcr_STR (chcr sif0ch s)") auto
qed

text \<open>
  C16: a pass of the SIF0 loop copies only within the arrays of the FIFO and keeps its fill
  level between 0 and 128, with one exception: a tag that comes up when a single word is free
  because the last packet, one word longer than a multiple of four, could not be filled up.
\<close>

theorem sif0_pass_safe:
  assumes "sif_ok (sif0 s)" and "\<not> sif0_tag_overflow s"
  shows "\<exists>b t. sif0_pass s = Ok b t \<and> sif_ok (sif0 t)"
proof -
  obtain s1 where s1: "sif0_junk s = Ok () s1" "sif_ok (sif0 s1)" "sif_iop_counter (sif0 s1) = sif_iop_counter (sif0 s)"
    "sif_iop_busy (sif0 s1) = sif_iop_busy (sif0 s)" "sif_iop_end (sif0 s1) = sif_iop_end (sif0 s)"
    "sif_iop_writeJunk (sif0 s1) = 0 \<or> s1 = s \<and> (sif_iop_counter (sif0 s) \<noteq> 0 \<or> free0 s < sif_iop_writeJunk (sif0 s))"
    using sif0_junk_ok [OF assms(1)] by metis
  have t: "even (size0 s1) \<and> 2 \<le> free0 s1"
    if "sif0_iop_turn s1" and c: "sif_iop_counter (sif0 s1) = 0" "\<not> sif_iop_end (sif0 s1)"
  proof -
    let ?j = "sif_iop_writeJunk (sif0 s1)"
    have p: "even (size0 s1 + ?j)" "0 \<le> ?j" "?j < 4" "size0 s1 + free0 s1 = 128" "0 < free0 s1" "sif_iop_busy (sif0 s1)"
      using that s1(2) by (auto simp: sif_ok_def sif_free_def sif0_iop_turn_def)
    have no: "\<not> (?j = 3 \<and> free0 s1 = 1)" if "s1 = s"
      using assms(2) p(6) c that by (auto simp: sif0_tag_overflow_def)
    from s1(6) consider "?j = 0" | "s1 = s" "free0 s1 < ?j" using c s1(3) by auto
    then show ?thesis
    proof cases
      case 1
      then have "even (size0 s1)" using p(1) by simp
      moreover have "2 \<le> free0 s1" using calculation p(4,5) by presburger
      ultimately show ?thesis by blast
    next
      case 2
      have "?j = 3 \<and> free0 s1 = 1"
        using p(1-5) 2(2) by presburger
      with no [OF 2(1)] show ?thesis by blast
    qed
  qed
  obtain s2 where s2: "(if sif0_iop_turn s1 then HandleIOPTransfer0 s1 else Ok () s1) = Ok () s2" "sif_ok (sif0 s2)"
    using HandleIOPTransfer0_ok [OF s1(2)] t s1(2) by metis
  obtain s3 where "(if sif0_ee_turn s2 then HandleEETransfer0 s2 else Ok () s2) = Ok () s3" "sif_ok (sif0 s3)"
    using HandleEETransfer0_ok [OF s2(2)] s2(2) by metis
  with s1(1) s2(1) show ?thesis by (simp add: sif0_pass_def)
qed

text \<open>
  In that one situation the tag's two words are written all the same: the FIFO then
  counts 129 words and the oldest word that was not read yet has been overwritten.
\<close>

theorem sif0_tag_overflow_loses:
  assumes "sif_ok (sif0 s)" and "sif0_tag_overflow s"
  shows "\<exists>t. HandleIOPTransfer0 s = Ok () t \<and> size0 t = 129 \<and>
    fifo_data (sif_fifo (sif0 t)) ! nat (readPos (sif_fifo (sif0 s))) =
      load_le 4 (hostmem s) (iopPhysMem (psx_reg HW_DMA9_TADR s + 8) s + 4)"
proof -
  let ?f = "sif_fifo (sif0 s)"
  define w0 :: u32 where "w0 = load_le 4 (hostmem s) (iopPhysMem (psx_reg HW_DMA9_TADR s + 8) s)"
  define w1 :: u32 where "w1 = load_le 4 (hostmem s) (iopPhysMem (psx_reg HW_DMA9_TADR s + 8) s + 4)"
  let ?r = "nat (readPos ?f)" and ?w = "nat (writePos ?f)"
  have f: "length (fifo_data ?f) = 128" "?r < 128" "?w < 128" "int ?w = writePos ?f" "size0 s = 127"
    "(?w + 1) mod 128 = ?r"
  proof -
    have a: "fifo_ok ?f" "size0 s = 127" using assms by (auto simp: sif_ok_def sif0_tag_overflow_def sif_free_def)
    then show "length (fifo_data ?f) = 128" "?r < 128" "?w < 128" "int ?w = writePos ?f" "size0 s = 127"
      by (auto simp: fifo_ok_def)
    have "(writePos ?f + 1) mod 128 = readPos ?f" using a by (simp add: fifo_ok_def mod_simps)
    then have "nat ((writePos ?f + 1) mod 128) = ?r" by simp
    moreover have "0 \<le> writePos ?f" using a by (simp add: fifo_ok_def)
    ultimately show "(?w + 1) mod 128 = ?r" by (simp add: nat_mod_distrib nat_add_distrib)
  qed
  obtain d1 d2 where d:
    "memcpy_to (int ?w) (take (nat (min (128 - int ?w) (int (length [w0, w1])))) [w0, w1]) (fifo_data ?f) = Some d1"
    "memcpy_to 0 (drop (nat (min (128 - int ?w) (int (length [w0, w1])))) [w0, w1]) d1 = Some d2" "length d2 = 128"
    "\<And>j. j < 128 \<Longrightarrow> d2 ! ((?w + j) mod 128) = (if j < length [w0, w1] then [w0, w1] ! j else fifo_data ?f ! ((?w + j) mod 128))"
    by (rule ring_write [OF f(1,3), of "[w0, w1]"]) simp_all
  let ?g = "?f\<lparr>fifo_data := d2, writePos := (writePos ?f + 2) AND 127, fifo_size := 129\<rparr>"
  have "sifFifo_write [w0, w1] ?f = Some ?g"
    using d(1,2) f(5) unfolding f(4) by (simp add: sifFifo_write_def sifFifo_put_def Let_def)
  moreover have "host_words (iopPhysMem (psx_reg HW_DMA9_TADR s + 8) s) 2 (hostmem s) = [w0, w1]"
    by (simp add: host_words_def w0_def w1_def upt_rec)
  ultimately obtain t where "ProcessIOPTag0 s = Ok True t" "sif_fifo (sif0 t) = ?g"
    by (simp add: ProcessIOPTag0_def sif0_write_def sif_frame Let_def set_psx_reg_def if_distrib [of sif0] cong: if_cong)
  moreover have "d2 ! ?r = w1" using d(4) [of 1] f(6) by simp
  ultimately show ?thesis
    using assms(2) by (intro exI [of _ t]) (simp add: HandleIOPTransfer0_def sif0_tag_overflow_def w1_def)
qed

text \<open>
  The witnesses: an empty FIFO, and one that 127 words fill while the EE does not read.
\<close>

theorem sif0_pass_safe_witness:
  "\<exists>b t. sif0_pass (ee_sif0\<lparr>sif0 := sif_zero\<lparr>sif_iop_busy := True\<rparr>\<rparr>) = Ok b t \<and> sif_ok (sif0 t)"
proof -
  let ?s = "ee_sif0\<lparr>sif0 := sif_zero\<lparr>sif_iop_busy := True\<rparr>\<rparr>"
  have "sif_ok (sif0 ?s)" by (simp add: sif_ok_def sif_zero_def fifo_zero) (simp add: sifFifo_zero_def)
  moreover have "\<not> sif0_tag_overflow ?s" by (simp add: sif0_tag_overflow_def sif_zero_def)
  ultimately show ?thesis by (rule sif0_pass_safe)
qed

theorem sif0_tag_overflow_loses_witness:
  "\<exists>t. HandleIOPTransfer0 (ee_sif0\<lparr>sif0 := sif_zero\<lparr>sif_iop_busy := True, sif_iop_writeJunk := 3,
      sif_fifo := sifFifo_zero\<lparr>fifo_data := replicate 128 7, fifo_size := 127, writePos := 127\<rparr>\<rparr>\<rparr>) = Ok () t \<and>
    size0 t = 129 \<and> fifo_data (sif_fifo (sif0 t)) ! 0 = 0"
proof -
  let ?s = "ee_sif0\<lparr>sif0 := sif_zero\<lparr>sif_iop_busy := True, sif_iop_writeJunk := 3,
      sif_fifo := sifFifo_zero\<lparr>fifo_data := replicate 128 7, fifo_size := 127, writePos := 127\<rparr>\<rparr>\<rparr>"
  have "sif_ok (sif0 ?s)" "sif0_tag_overflow ?s" "readPos (sif_fifo (sif0 ?s)) = 0" "hostmem ?s = (\<lambda>_. 0)"
    by (simp_all add: sif_ok_def sif0_tag_overflow_def sif_zero_def sifFifo_zero_def fifo_ok_def sif_free_def)
      (simp add: ee_sif0_defs)
  moreover have "load_le 4 (\<lambda>_. 0) p = (0 :: u32)" for p :: u64 by (simp add: load_le_numeral)
  ultimately show ?thesis using sif0_tag_overflow_loses [of ?s] by simp
qed

end
