(* ===== verification/Iop_Gte.thy ===== *)
theory Iop_Gte
  imports Iop_Regs
begin

text \<open>
  The geometry transformation engine, coprocessor 2 of the I/O processor: the register
  views, the limiters and the operations of pcsx2/IopGte.cpp.

  The macros of the source read \<open>CP2D\<close> and \<open>CP2C\<close> as arrays of bytes, halfwords or words;
  here a register view returns its value as an \<open>int\<close>, an assignment to it truncates, and
  \<open>i32\<close> stands wherever the C expression is of type \<open>int\<close>.  The value computed in a signed
  overflow (undefined in C++) is the wrapped one.  \<open>long\<close> has 64 bits on the Unix hosts and 32
  on Windows: the host is an argument of the two operations where that shows, as it is for the
  conversion of a \<open>double\<close> that does not fit in \<open>gteCDP\<close>.  That operation computes in
  \<open>double\<close>, but only adds and multiplies integers whose results stay below \<open>2 ^ 53\<close> when the
  registers \<open>IR\<close> are in range, so its values are integers too.

  A statement of the source is a function on the register file, a body the list of its
  statements.  The \<open>GTE_DUMP\<close> and \<open>GTE_LOG\<close> traces are left out.
\<close>

unbundle bit_operations_syntax

section \<open>Values and statements\<close>

record gte_host =
  long64 :: bool
  dbl_oob :: "int \<Rightarrow> int"

type_synonym gte_stm = "psxRegisters \<Rightarrow> psxRegisters"
type_synonym gte_expr = "psxRegisters \<Rightarrow> int \<times> psxRegisters"

definition i16 :: "int \<Rightarrow> int" where "i16 x = signed_take_bit 15 x"
definition i32 :: "int \<Rightarrow> int" where "i32 x = signed_take_bit 31 x"
definition i64 :: "int \<Rightarrow> int" where "i64 x = signed_take_bit 63 x"

text \<open>A value of type \<open>long\<close>, and a \<open>double\<close> stored in an \<open>s32\<close>.\<close>

definition c_long :: "gte_host \<Rightarrow> int \<Rightarrow> int" where
  "c_long h x = (if long64 h then i64 x else i32 x)"

definition dbl_s32 :: "gte_host \<Rightarrow> int \<Rightarrow> int" where
  "dbl_s32 h x = (if - (2 ^ 31) \<le> x \<and> x < 2 ^ 31 then x else dbl_oob h x)"

primrec gte_run :: "gte_stm list \<Rightarrow> gte_stm" where
  "gte_run [] s = s"
| "gte_run (f # fs) s = gte_run fs (f s)"

definition gte_set :: "(int \<Rightarrow> gte_stm) \<Rightarrow> gte_expr \<Rightarrow> gte_stm" where
  "gte_set w e s = (case e s of (v, s1) \<Rightarrow> w v s1)"

section \<open>Register views\<close>

definition D32 :: "5 word \<Rightarrow> psxRegisters \<Rightarrow> int" where
  "D32 r s = sint (psxCP2D s r)"
definition D16 :: "nat \<Rightarrow> psxRegisters \<Rightarrow> int" where
  "D16 k s = sint (lane (k mod 2) (psxCP2D s (of_nat (k div 2))) :: u16)"
definition Du16 :: "nat \<Rightarrow> psxRegisters \<Rightarrow> int" where
  "Du16 k s = uint (lane (k mod 2) (psxCP2D s (of_nat (k div 2))) :: u16)"
definition Du8 :: "nat \<Rightarrow> psxRegisters \<Rightarrow> int" where
  "Du8 k s = uint (lane (k mod 4) (psxCP2D s (of_nat (k div 4))) :: u8)"
definition C32 :: "5 word \<Rightarrow> psxRegisters \<Rightarrow> int" where
  "C32 r s = sint (psxCP2C s r)"
definition C16 :: "nat \<Rightarrow> psxRegisters \<Rightarrow> int" where
  "C16 k s = sint (lane (k mod 2) (psxCP2C s (of_nat (k div 2))) :: u16)"
definition Cu16 :: "nat \<Rightarrow> psxRegisters \<Rightarrow> int" where
  "Cu16 k s = uint (lane (k mod 2) (psxCP2C s (of_nat (k div 2))) :: u16)"

definition wD32 :: "5 word \<Rightarrow> int \<Rightarrow> gte_stm" where
  "wD32 r v s = s\<lparr>psxCP2D := (psxCP2D s)(r := word_of_int v)\<rparr>"
definition wD16 :: "nat \<Rightarrow> int \<Rightarrow> gte_stm" where
  "wD16 k v s = (let r = of_nat (k div 2)
     in s\<lparr>psxCP2D := (psxCP2D s)(r := set_lane (k mod 2) (word_of_int v :: u16) (psxCP2D s r))\<rparr>)"
definition wD8 :: "nat \<Rightarrow> int \<Rightarrow> gte_stm" where
  "wD8 k v s = (let r = of_nat (k div 4)
     in s\<lparr>psxCP2D := (psxCP2D s)(r := set_lane (k mod 4) (word_of_int v :: u8) (psxCP2D s r))\<rparr>)"

text \<open>The vectors \<open>V0\<close> to \<open>V2\<close>, the screen coordinates and depths, the accumulators.\<close>

definition gteVX :: "nat \<Rightarrow> psxRegisters \<Rightarrow> int" where "gteVX n = D16 (4 * n)"
definition gteVY :: "nat \<Rightarrow> psxRegisters \<Rightarrow> int" where "gteVY n = D16 (4 * n + 1)"
definition gteVZ :: "nat \<Rightarrow> psxRegisters \<Rightarrow> int" where "gteVZ n = D16 (4 * n + 2)"
definition gteSX :: "nat \<Rightarrow> psxRegisters \<Rightarrow> int" where "gteSX n = D16 ((12 + n) * 2)"
definition gteSY :: "nat \<Rightarrow> psxRegisters \<Rightarrow> int" where "gteSY n = D16 ((12 + n) * 2 + 1)"
definition gteSZ :: "nat \<Rightarrow> psxRegisters \<Rightarrow> int" where "gteSZ n = Du16 ((17 + n) * 2)"
definition gteSZx :: "psxRegisters \<Rightarrow> int" where "gteSZx = Du16 (16 * 2)"
definition gteIR :: "5 word \<Rightarrow> psxRegisters \<Rightarrow> int" where "gteIR k = D32 (8 + k)"
definition gteMAC :: "5 word \<Rightarrow> psxRegisters \<Rightarrow> int" where "gteMAC k = D32 (24 + k)"
definition gteSXY :: "5 word \<Rightarrow> psxRegisters \<Rightarrow> int" where "gteSXY n = D32 (12 + n)"

definition set_gteSX :: "nat \<Rightarrow> int \<Rightarrow> gte_stm" where "set_gteSX n = wD16 ((12 + n) * 2)"
definition set_gteSY :: "nat \<Rightarrow> int \<Rightarrow> gte_stm" where "set_gteSY n = wD16 ((12 + n) * 2 + 1)"
definition set_gteSZ :: "nat \<Rightarrow> int \<Rightarrow> gte_stm" where "set_gteSZ n = wD16 ((17 + n) * 2)"
definition set_gteSZx :: "int \<Rightarrow> gte_stm" where "set_gteSZx = wD16 (16 * 2)"
definition set_gteOTZ :: "int \<Rightarrow> gte_stm" where "set_gteOTZ = wD16 (7 * 2)"
definition set_gteIR :: "5 word \<Rightarrow> int \<Rightarrow> gte_stm" where "set_gteIR k = wD32 (8 + k)"
definition set_gteMAC :: "5 word \<Rightarrow> int \<Rightarrow> gte_stm" where "set_gteMAC k = wD32 (24 + k)"
definition set_gteSXY :: "5 word \<Rightarrow> int \<Rightarrow> gte_stm" where "set_gteSXY n = wD32 (12 + n)"
definition set_gteSXYP :: "int \<Rightarrow> gte_stm" where "set_gteSXYP = wD32 15"

text \<open>The colour \<open>RGB\<close> and the colours \<open>RGB0\<close> to \<open>RGB2\<close>: red, green, blue and code.\<close>

definition gteR :: "psxRegisters \<Rightarrow> int" where "gteR = Du8 (6 * 4)"
definition gteG :: "psxRegisters \<Rightarrow> int" where "gteG = Du8 (6 * 4 + 1)"
definition gteB :: "psxRegisters \<Rightarrow> int" where "gteB = Du8 (6 * 4 + 2)"
definition gteCODE :: "psxRegisters \<Rightarrow> int" where "gteCODE = Du8 (6 * 4 + 3)"
definition gteR0 :: "psxRegisters \<Rightarrow> int" where "gteR0 = Du8 (20 * 4)"
definition gteG0 :: "psxRegisters \<Rightarrow> int" where "gteG0 = Du8 (20 * 4 + 1)"
definition gteB0 :: "psxRegisters \<Rightarrow> int" where "gteB0 = Du8 (20 * 4 + 2)"
definition gteRGB :: "5 word \<Rightarrow> psxRegisters \<Rightarrow> int" where "gteRGB n = D32 (20 + n)"
definition set_gteRGB :: "5 word \<Rightarrow> int \<Rightarrow> gte_stm" where "set_gteRGB n = wD32 (20 + n)"
definition set_gteR :: "nat \<Rightarrow> int \<Rightarrow> gte_stm" where "set_gteR n = wD8 ((20 + n) * 4)"
definition set_gteG :: "nat \<Rightarrow> int \<Rightarrow> gte_stm" where "set_gteG n = wD8 ((20 + n) * 4 + 1)"
definition set_gteB :: "nat \<Rightarrow> int \<Rightarrow> gte_stm" where "set_gteB n = wD8 ((20 + n) * 4 + 2)"
definition set_gteCODE :: "nat \<Rightarrow> int \<Rightarrow> gte_stm" where "set_gteCODE n = wD8 ((20 + n) * 4 + 3)"

text \<open>
  The control registers: the rotation, light and colour matrices (element \<open>i\<close>, \<open>j\<close>, from 1),
  the translation, background and far colour vectors, and the projection's constants.
\<close>

definition gteRm :: "nat \<Rightarrow> nat \<Rightarrow> psxRegisters \<Rightarrow> int" where "gteRm i j = C16 (3 * (i - 1) + (j - 1))"
definition gteLm :: "nat \<Rightarrow> nat \<Rightarrow> psxRegisters \<Rightarrow> int" where "gteLm i j = C16 (16 + 3 * (i - 1) + (j - 1))"
definition gteCm :: "nat \<Rightarrow> nat \<Rightarrow> psxRegisters \<Rightarrow> int" where "gteCm i j = C16 (32 + 3 * (i - 1) + (j - 1))"
definition gteTR :: "5 word \<Rightarrow> psxRegisters \<Rightarrow> int" where "gteTR k = C32 (4 + k)"
definition gteBK :: "5 word \<Rightarrow> psxRegisters \<Rightarrow> int" where "gteBK k = C32 (12 + k)"
definition gteFC :: "5 word \<Rightarrow> psxRegisters \<Rightarrow> int" where "gteFC k = C32 (20 + k)"
definition gteOFX :: "psxRegisters \<Rightarrow> int" where "gteOFX = C32 24"
definition gteOFY :: "psxRegisters \<Rightarrow> int" where "gteOFY = C32 25"
definition gteH :: "psxRegisters \<Rightarrow> int" where "gteH = Cu16 52"
definition gteDQA :: "psxRegisters \<Rightarrow> int" where "gteDQA = C16 54"
definition gteDQB :: "psxRegisters \<Rightarrow> int" where "gteDQB = C32 28"
definition gteZSF3 :: "psxRegisters \<Rightarrow> int" where "gteZSF3 = C16 58"
definition gteZSF4 :: "psxRegisters \<Rightarrow> int" where "gteZSF4 = C16 60"

definition gteFLAG :: "psxRegisters \<Rightarrow> u32" where "gteFLAG s = psxCP2C s 31"
definition set_gteFLAG :: "u32 \<Rightarrow> gte_stm" where
  "set_gteFLAG v s = s\<lparr>psxCP2C := (psxCP2C s)(31 := v)\<rparr>"
definition or_gteFLAG :: "nat \<Rightarrow> gte_stm" where
  "or_gteFLAG b s = set_gteFLAG (gteFLAG s OR push_bit b 1) s"

definition SUM_FLAG :: gte_stm where
  "SUM_FLAG s = (if gteFLAG s AND 0x7F87E000 \<noteq> 0 then set_gteFLAG (gteFLAG s OR 0x80000000) s else s)"

section \<open>Limiters\<close>

definition FNC_OVERFLOW :: "nat \<Rightarrow> nat \<Rightarrow> int \<Rightarrow> gte_expr" where
  "FNC_OVERFLOW neg pos x s =
     (i32 x, if x < - (2 ^ 31) then or_gteFLAG neg s else if 2147483647 < x then or_gteFLAG pos s else s)"

definition FNC_OVERFLOW1 :: "int \<Rightarrow> gte_expr" where "FNC_OVERFLOW1 = FNC_OVERFLOW 29 26"
definition FNC_OVERFLOW2 :: "int \<Rightarrow> gte_expr" where "FNC_OVERFLOW2 = FNC_OVERFLOW 28 25"
definition FNC_OVERFLOW3 :: "int \<Rightarrow> gte_expr" where "FNC_OVERFLOW3 = FNC_OVERFLOW 27 24"

text \<open>The same tests on a \<open>double\<close>, which is returned as it is.\<close>

definition NC_OVERFLOW :: "nat \<Rightarrow> nat \<Rightarrow> int \<Rightarrow> gte_expr" where
  "NC_OVERFLOW neg pos x s =
     (x, if x < - (2 ^ 31) then or_gteFLAG neg s else if 2147483647 < x then or_gteFLAG pos s else s)"

definition NC_OVERFLOW1 :: "int \<Rightarrow> gte_expr" where "NC_OVERFLOW1 = NC_OVERFLOW 29 26"
definition NC_OVERFLOW2 :: "int \<Rightarrow> gte_expr" where "NC_OVERFLOW2 = NC_OVERFLOW 28 25"
definition NC_OVERFLOW3 :: "int \<Rightarrow> gte_expr" where "NC_OVERFLOW3 = NC_OVERFLOW 27 24"

definition LIMX :: "int \<Rightarrow> int \<Rightarrow> nat \<Rightarrow> int \<Rightarrow> gte_expr" where
  "LIMX negv posv flagb x s =
     (if x < negv then (negv, or_gteFLAG flagb s)
      else if posv < x then (posv, or_gteFLAG flagb s) else (x, s))"

definition limA1S :: "int \<Rightarrow> gte_expr" where "limA1S = LIMX (-32768) 32767 24"
definition limA2S :: "int \<Rightarrow> gte_expr" where "limA2S = LIMX (-32768) 32767 23"
definition limA3S :: "int \<Rightarrow> gte_expr" where "limA3S = LIMX (-32768) 32767 22"

definition F12limA1S :: "int \<Rightarrow> gte_expr" where "F12limA1S = LIMX (- push_bit 12 32768) (push_bit 12 32767) 24"
definition F12limA2S :: "int \<Rightarrow> gte_expr" where "F12limA2S = LIMX (- push_bit 12 32768) (push_bit 12 32767) 23"
definition F12limA3S :: "int \<Rightarrow> gte_expr" where "F12limA3S = LIMX (- push_bit 12 32768) (push_bit 12 32767) 22"
definition F12limA1U :: "int \<Rightarrow> gte_expr" where "F12limA1U = LIMX 0 (push_bit 12 32767) 24"
definition F12limA2U :: "int \<Rightarrow> gte_expr" where "F12limA2U = LIMX 0 (push_bit 12 32767) 23"
definition F12limA3U :: "int \<Rightarrow> gte_expr" where "F12limA3U = LIMX 0 (push_bit 12 32767) 22"

definition FlimA1S :: "int \<Rightarrow> gte_expr" where "FlimA1S x = LIMX (-32768) 32767 24 (i32 x)"
definition FlimA2S :: "int \<Rightarrow> gte_expr" where "FlimA2S x = LIMX (-32768) 32767 23 (i32 x)"
definition FlimA3S :: "int \<Rightarrow> gte_expr" where "FlimA3S x = LIMX (-32768) 32767 22 (i32 x)"
definition FlimB1 :: "int \<Rightarrow> gte_expr" where "FlimB1 x = LIMX 0 255 21 (i32 x)"
definition FlimB2 :: "int \<Rightarrow> gte_expr" where "FlimB2 x = LIMX 0 255 20 (i32 x)"
definition FlimB3 :: "int \<Rightarrow> gte_expr" where "FlimB3 x = LIMX 0 255 19 (i32 x)"
definition FlimC :: "int \<Rightarrow> gte_expr" where "FlimC x = LIMX 0 65535 18 (i32 x)"
definition FlimE :: "int \<Rightarrow> gte_expr" where "FlimE x = LIMX 0 65535 12 (i32 x)"

text \<open>The screen coordinates: a 32-bit overflow test, then the limit.\<close>

definition FlimG :: "nat \<Rightarrow> int \<Rightarrow> gte_expr" where
  "FlimG flagb x s =
     LIMX (-1024) 1023 flagb x
       (if 2147483647 < x then or_gteFLAG 16 s else if x < - (2 ^ 31) then or_gteFLAG 15 s else s)"

definition FlimG1 :: "int \<Rightarrow> gte_expr" where "FlimG1 = FlimG 14"
definition FlimG2 :: "int \<Rightarrow> gte_expr" where "FlimG2 = FlimG 13"

definition mac_to_ir :: "int \<Rightarrow> 5 word \<Rightarrow> nat \<Rightarrow> gte_stm" where
  "mac_to_ir lo k flagb = gte_set (set_gteIR k) (\<lambda>s. LIMX lo 32767 flagb (gteMAC k s) s)"

definition MAC2IR :: gte_stm where
  "MAC2IR = gte_run [mac_to_ir (-32768) 1 24, mac_to_ir (-32768) 2 23, mac_to_ir (-32768) 3 22]"
definition MAC2IR1 :: gte_stm where
  "MAC2IR1 = gte_run [mac_to_ir 0 1 24, mac_to_ir 0 2 23, mac_to_ir 0 3 22]"

section \<open>Perspective transformation\<close>

text \<open>The sum of three products, an \<open>int\<close>.\<close>

definition dot3 :: "int \<Rightarrow> int \<Rightarrow> int \<Rightarrow> int \<Rightarrow> int \<Rightarrow> int \<Rightarrow> int" where
  "dot3 a1 x1 a2 x2 a3 x3 = i32 (a1 * x1 + a2 * x2 + a3 * x3)"

definition rtps_row :: "gte_host \<Rightarrow> nat \<Rightarrow> nat \<Rightarrow> 5 word \<Rightarrow> psxRegisters \<Rightarrow> int" where
  "rtps_row h n i k s =
     c_long h (drop_bit 12 (dot3 (gteRm i 1 s) (gteVX n s) (gteRm i 2 s) (gteVY n s) (gteRm i 3 s) (gteVZ n s)) + gteTR k s)"

definition GTE_RTPS1 :: "gte_host \<Rightarrow> nat \<Rightarrow> gte_stm" where
  "GTE_RTPS1 h n = gte_run
     [gte_set (set_gteMAC 1) (\<lambda>s. FNC_OVERFLOW1 (rtps_row h n 1 1 s) s),
      gte_set (set_gteMAC 2) (\<lambda>s. FNC_OVERFLOW2 (rtps_row h n 2 2 s) s),
      gte_set (set_gteMAC 3) (\<lambda>s. FNC_OVERFLOW3 (rtps_row h n 3 3 s) s)]"

text \<open>The quotient \<open>FDSZ\<close> of the projection plane's distance and the depth, at most 2.\<close>

definition rtps_fdsz :: "nat \<Rightarrow> gte_expr" where
  "rtps_fdsz n s =
     (if gteSZ n s = 0 then (push_bit 16 2, or_gteFLAG 17 s)
      else let FDSZ = push_bit 32 (gteH s) div push_bit 16 (gteSZ n s)
           in if push_bit 16 2 < FDSZ then (push_bit 16 2, or_gteFLAG 17 s) else (FDSZ, s))"

definition GTE_RTPS2 :: "nat \<Rightarrow> gte_expr" where
  "GTE_RTPS2 n s =
     (case rtps_fdsz n s of (FDSZ, s1) \<Rightarrow>
        (FDSZ, gte_run
           [gte_set (set_gteSX n) (\<lambda>s. FlimG1 (drop_bit 16 (gteOFX s + drop_bit 16 (i64 (push_bit 16 (gteIR 1 s) * FDSZ)))) s),
            gte_set (set_gteSY n) (\<lambda>s. FlimG2 (drop_bit 16 (gteOFY s + drop_bit 16 (i64 (push_bit 16 (gteIR 2 s) * FDSZ)))) s)]
           s1))"

definition GTE_RTPS3 :: "int \<Rightarrow> gte_stm" where
  "GTE_RTPS3 f s =
     (let FDSZ = i64 (gteDQB s + drop_bit 8 (i64 (push_bit 8 (gteDQA s) * f)))
      in gte_set (set_gteIR 0) (FlimE (drop_bit 12 FDSZ)) (set_gteMAC 0 FDSZ s))"

definition gteRTPS :: "gte_host \<Rightarrow> gte_stm" where
  "gteRTPS h s =
     (case GTE_RTPS2 2 (gte_run
         [set_gteFLAG 0, GTE_RTPS1 h 0, MAC2IR,
          (\<lambda>s. set_gteSZx (gteSZ 0 s) s), (\<lambda>s. set_gteSZ 0 (gteSZ 1 s) s), (\<lambda>s. set_gteSZ 1 (gteSZ 2 s) s),
          gte_set (set_gteSZ 2) (\<lambda>s. FlimC (gteMAC 3 s) s),
          (\<lambda>s. set_gteSXY 0 (gteSXY 1 s) s), (\<lambda>s. set_gteSXY 1 (gteSXY 2 s) s)] s)
      of (FDSZ, s1) \<Rightarrow> gte_run [(\<lambda>s. set_gteSXYP (gteSXY 2 s) s), GTE_RTPS3 FDSZ, SUM_FLAG] s1)"

text \<open>The first two vertices of \<open>gteRTPT\<close>: their quotients are not used.\<close>

definition rtpt_vertex :: "gte_host \<Rightarrow> nat \<Rightarrow> gte_stm" where
  "rtpt_vertex h n = gte_run
     [GTE_RTPS1 h n,
      gte_set (set_gteSZ n) (\<lambda>s. FlimC (gteMAC 3 s) s),
      gte_set (set_gteIR 1) (\<lambda>s. FlimA1S (gteMAC 1 s) s),
      gte_set (set_gteIR 2) (\<lambda>s. FlimA2S (gteMAC 2 s) s),
      (\<lambda>s. snd (GTE_RTPS2 n s))]"

definition gteRTPT :: "gte_host \<Rightarrow> gte_stm" where
  "gteRTPT h s =
     (case GTE_RTPS2 2 (gte_run
         [set_gteFLAG 0, (\<lambda>s. set_gteSZx (gteSZ 2 s) s), rtpt_vertex h 0, rtpt_vertex h 1,
          GTE_RTPS1 h 2, MAC2IR, gte_set (set_gteSZ 2) (\<lambda>s. FlimC (gteMAC 3 s) s)] s)
      of (FDSZ, s1) \<Rightarrow> gte_run [(\<lambda>s. set_gteSXYP (gteSXY 2 s) s), GTE_RTPS3 FDSZ, SUM_FLAG] s1)"

section \<open>Matrix and vector operations\<close>

text \<open>The vector, the matrix and the translation that the instruction selects.\<close>

definition mvmva_vec :: "psxRegisters \<Rightarrow> int \<times> int \<times> int" where
  "mvmva_vec s =
     (let v = psx_code s AND 0x18000
      in if v = 0x18000 then (i16 (gteIR 1 s), i16 (gteIR 2 s), i16 (gteIR 3 s))
         else let n = (if v = 0 then 0 else if v = 0x8000 then 1 else 2) in (gteVX n s, gteVY n s, gteVZ n s))"

definition mvmva_row :: "nat \<Rightarrow> psxRegisters \<Rightarrow> int" where
  "mvmva_row i s =
     (case mvmva_vec s of (x, y, z) \<Rightarrow>
        let m = psx_code s AND 0x60000
        in if m = 0 then dot3 x (gteRm i 1 s) y (gteRm i 2 s) z (gteRm i 3 s)
           else if m = 0x20000 then dot3 x (gteLm i 1 s) y (gteLm i 2 s) z (gteLm i 3 s)
           else if m = 0x40000 then dot3 x (gteCm i 1 s) y (gteCm i 2 s) z (gteCm i 3 s)
           else 0)"

definition mvmva_shift :: "psxRegisters \<Rightarrow> int \<Rightarrow> int" where
  "mvmva_shift s x = (if psx_code s AND 0x80000 \<noteq> 0 then drop_bit 12 x else x)"

definition mvmva_base :: "5 word \<Rightarrow> psxRegisters \<Rightarrow> int" where
  "mvmva_base k s =
     (let b = psx_code s AND 0x6000
      in if b = 0 then gteTR k s else if b = 0x2000 then gteBK k s else if b = 0x4000 then gteFC k s else 0)"

definition gteMVMVA :: gte_stm where
  "gteMVMVA s =
     (let SSX = mvmva_shift s (mvmva_row 1 s) + mvmva_base 1 s;
          SSY = mvmva_shift s (mvmva_row 2 s) + mvmva_base 2 s;
          SSZ = mvmva_shift s (mvmva_row 3 s) + mvmva_base 3 s
      in gte_run
        [set_gteFLAG 0, gte_set (set_gteMAC 1) (FNC_OVERFLOW1 SSX), gte_set (set_gteMAC 2) (FNC_OVERFLOW2 SSY),
         gte_set (set_gteMAC 3) (FNC_OVERFLOW3 SSZ),
         if psx_code s AND 0x400 \<noteq> 0 then MAC2IR1 else MAC2IR, SUM_FLAG] s)"

definition gteNCLIP :: gte_stm where
  "gteNCLIP = gte_run
     [set_gteFLAG 0,
      (\<lambda>s. set_gteMAC 0 (i32 (gteSX 0 s * (gteSY 1 s - gteSY 2 s) + gteSX 1 s * (gteSY 2 s - gteSY 0 s) +
                             gteSX 2 s * (gteSY 0 s - gteSY 1 s))) s),
      SUM_FLAG]"

definition gteAVSZ3 :: gte_stm where
  "gteAVSZ3 = gte_run
     [set_gteFLAG 0,
      (\<lambda>s. set_gteMAC 0 (drop_bit 12 (i32 ((gteSZ 0 s + gteSZ 1 s + gteSZ 2 s) * gteZSF3 s))) s),
      gte_set set_gteOTZ (\<lambda>s. FlimC (gteMAC 0 s) s), SUM_FLAG]"

definition gteAVSZ4 :: gte_stm where
  "gteAVSZ4 = gte_run
     [set_gteFLAG 0,
      (\<lambda>s. set_gteMAC 0 (drop_bit 12 (i32 ((gteSZx s + gteSZ 0 s + gteSZ 1 s + gteSZ 2 s) * gteZSF4 s))) s),
      gte_set set_gteOTZ (\<lambda>s. FlimC (gteMAC 0 s) s), SUM_FLAG]"

text \<open>A result of type \<open>int\<close>, shifted when the instruction asks for it.\<close>

definition sf :: "psxRegisters \<Rightarrow> int \<Rightarrow> int" where
  "sf s x = (if psx_code s AND 0x80000 \<noteq> 0 then drop_bit 12 (i32 x) else i32 x)"

definition gteSQR :: gte_stm where
  "gteSQR = gte_run
     [set_gteFLAG 0,
      gte_set (set_gteMAC 1) (\<lambda>s. FNC_OVERFLOW1 (sf s (gteIR 1 s * gteIR 1 s)) s),
      gte_set (set_gteMAC 2) (\<lambda>s. FNC_OVERFLOW2 (sf s (gteIR 2 s * gteIR 2 s)) s),
      gte_set (set_gteMAC 3) (\<lambda>s. FNC_OVERFLOW3 (sf s (gteIR 3 s * gteIR 3 s)) s),
      MAC2IR1, SUM_FLAG]"

definition gteOP :: gte_stm where
  "gteOP = gte_run
     [set_gteFLAG 0,
      gte_set (set_gteMAC 1) (\<lambda>s. FNC_OVERFLOW1 (sf s (gteRm 2 2 s * gteIR 3 s - gteRm 3 3 s * gteIR 2 s)) s),
      gte_set (set_gteMAC 2) (\<lambda>s. FNC_OVERFLOW2 (sf s (gteRm 3 3 s * gteIR 1 s - gteRm 1 1 s * gteIR 3 s)) s),
      gte_set (set_gteMAC 3) (\<lambda>s. FNC_OVERFLOW3 (sf s (gteRm 1 1 s * gteIR 2 s - gteRm 2 2 s * gteIR 1 s)) s),
      MAC2IR, SUM_FLAG]"

section \<open>Colours\<close>

text \<open>The colour of the accumulators, into \<open>RGBn\<close> and at the end of the colour queue.\<close>

definition gte_colour :: "nat \<Rightarrow> gte_stm" where
  "gte_colour n = gte_run
     [gte_set (set_gteR n) (\<lambda>s. FlimB1 (drop_bit 4 (gteMAC 1 s)) s),
      gte_set (set_gteG n) (\<lambda>s. FlimB2 (drop_bit 4 (gteMAC 2 s)) s),
      gte_set (set_gteB n) (\<lambda>s. FlimB3 (drop_bit 4 (gteMAC 3 s)) s),
      (\<lambda>s. set_gteCODE n (gteCODE s) s)]"

definition gte_push_colour :: gte_stm where
  "gte_push_colour = gte_run
     [(\<lambda>s. set_gteRGB 0 (gteRGB 1 s) s), (\<lambda>s. set_gteRGB 1 (gteRGB 2 s) s), gte_colour 2]"

text \<open>
  The light colour at vertex \<open>n\<close>, which the macros \<open>GTE_NCCS\<close>, \<open>GTE_NCDS\<close> and
  \<open>GTE_NCS\<close> all begin with.
\<close>

definition light_row :: "nat \<Rightarrow> nat \<Rightarrow> psxRegisters \<Rightarrow> int" where
  "light_row i n s =
     drop_bit 12 (dot3 (gteLm i 1 s) (gteVX n s) (gteLm i 2 s) (gteVY n s) (gteLm i 3 s) (gteVZ n s))"

definition colour_row :: "nat \<Rightarrow> 5 word \<Rightarrow> int \<Rightarrow> int \<Rightarrow> int \<Rightarrow> psxRegisters \<Rightarrow> int" where
  "colour_row i k x y z s =
     i32 (gteBK k s + drop_bit 12 (dot3 (gteCm i 1 s) x (gteCm i 2 s) y (gteCm i 3 s) z))"

definition gte_light :: "nat \<Rightarrow> psxRegisters \<Rightarrow> (int \<times> int \<times> int) \<times> psxRegisters" where
  "gte_light n s =
     (case F12limA1U (light_row 1 n s) s of (LL1, s1) \<Rightarrow>
      case F12limA2U (light_row 2 n s1) s1 of (LL2, s2) \<Rightarrow>
      case F12limA3U (light_row 3 n s2) s2 of (LL3, s3) \<Rightarrow>
      case F12limA1U (colour_row 1 1 LL1 LL2 LL3 s3) s3 of (RRLT, s4) \<Rightarrow>
      case F12limA2U (colour_row 2 2 LL1 LL2 LL3 s4) s4 of (GGLT, s5) \<Rightarrow>
      case F12limA3U (colour_row 3 3 LL1 LL2 LL3 s5) s5 of (BBLT, s6) \<Rightarrow> ((RRLT, GGLT, BBLT), s6))"

definition GTE_NCCS :: "nat \<Rightarrow> gte_stm" where
  "GTE_NCCS n s =
     (case gte_light n s of ((RRLT, GGLT, BBLT), s1) \<Rightarrow> gte_run
        [(\<lambda>s. set_gteMAC 1 (drop_bit 20 (push_bit 12 (gteR s) * RRLT)) s),
         (\<lambda>s. set_gteMAC 2 (drop_bit 20 (push_bit 12 (gteG s) * GGLT)) s),
         (\<lambda>s. set_gteMAC 3 (drop_bit 20 (push_bit 12 (gteB s) * BBLT)) s)] s1)"

definition gteNCCS :: gte_stm where
  "gteNCCS = gte_run [set_gteFLAG 0, GTE_NCCS 0, gte_push_colour, MAC2IR1, SUM_FLAG]"

definition gteNCCT :: gte_stm where
  "gteNCCT = gte_run
     [set_gteFLAG 0, GTE_NCCS 0, gte_colour 0, GTE_NCCS 1, gte_colour 1, GTE_NCCS 2, gte_colour 2, MAC2IR1, SUM_FLAG]"

text \<open>A colour moved towards the far colour by \<open>IR0\<close>.\<close>

definition ncds_mac :: "(int \<Rightarrow> gte_expr) \<Rightarrow> 5 word \<Rightarrow> int \<Rightarrow> gte_stm" where
  "ncds_mac lim k c = gte_set (set_gteMAC k)
     (\<lambda>s. case lim (i32 (push_bit 8 (gteFC k s)) - c) s of (v, s1) \<Rightarrow>
        (drop_bit 8 (c + drop_bit 12 (gteIR 0 s * v)), s1))"

definition GTE_NCDS :: "nat \<Rightarrow> gte_stm" where
  "GTE_NCDS n s =
     (case gte_light n s of ((RRLT, GGLT, BBLT), s1) \<Rightarrow>
        let RR0 = i32 (drop_bit 12 (push_bit 12 (gteR s1) * RRLT));
            GG0 = i32 (drop_bit 12 (push_bit 12 (gteG s1) * GGLT));
            BB0 = i32 (drop_bit 12 (push_bit 12 (gteB s1) * BBLT))
        in gte_run [ncds_mac F12limA1S 1 RR0, ncds_mac F12limA2S 2 GG0, ncds_mac F12limA3S 3 BB0] s1)"

definition gteNCDS :: gte_stm where
  "gteNCDS = gte_run [set_gteFLAG 0, GTE_NCDS 0, gte_push_colour, MAC2IR1, SUM_FLAG]"

definition gteNCDT :: gte_stm where
  "gteNCDT = gte_run
     [set_gteFLAG 0, GTE_NCDS 0, gte_colour 0, GTE_NCDS 1, gte_colour 1, GTE_NCDS 2, gte_colour 2, MAC2IR1, SUM_FLAG]"

definition GTE_NCS :: "nat \<Rightarrow> gte_stm" where
  "GTE_NCS n s =
     (case gte_light n s of ((RRLT, GGLT, BBLT), s1) \<Rightarrow>
        gte_run [set_gteMAC 1 RRLT, set_gteMAC 2 GGLT, set_gteMAC 3 BBLT] s1)"

definition gteNCS :: gte_stm where
  "gteNCS = gte_run [set_gteFLAG 0, GTE_NCS 0, gte_push_colour, MAC2IR1, SUM_FLAG]"

definition gteNCT :: gte_stm where
  "gteNCT = gte_run
     [set_gteFLAG 0, GTE_NCS 0, gte_colour 0, GTE_NCS 1, gte_colour 1, GTE_NCS 2, gte_colour 2, MAC2IR1, SUM_FLAG]"

text \<open>
  \<open>gteDCPL\<close>, \<open>gteDPCS\<close>, \<open>gteDPCT\<close> and \<open>gteINTPL\<close> clear the flags after the limiters of the
  accumulators ran.
\<close>

definition dcpl_mac :: "gte_host \<Rightarrow> (int \<Rightarrow> gte_expr) \<Rightarrow> (psxRegisters \<Rightarrow> int) \<Rightarrow> 5 word \<Rightarrow> gte_stm" where
  "dcpl_mac h lim col k = gte_set (set_gteMAC k)
     (\<lambda>s. case lim (gteFC k s - drop_bit 12 (i32 (col s * gteIR k s))) s of (v, s1) \<Rightarrow>
        (drop_bit 8 (c_long h (col s * gteIR k s + i32 (gteIR 0 s * v))), s1))"

definition gteDCPL :: "gte_host \<Rightarrow> gte_stm" where
  "gteDCPL h = gte_run
     [dcpl_mac h FlimA1S gteR 1, dcpl_mac h FlimA2S gteG 2, dcpl_mac h FlimA3S gteB 3,
      set_gteFLAG 0, MAC2IR, gte_push_colour, SUM_FLAG]"

definition gteGPF :: gte_stm where
  "gteGPF = gte_run
     [set_gteFLAG 0,
      gte_set (set_gteMAC 1) (\<lambda>s. FNC_OVERFLOW1 (sf s (gteIR 0 s * gteIR 1 s)) s),
      gte_set (set_gteMAC 2) (\<lambda>s. FNC_OVERFLOW2 (sf s (gteIR 0 s * gteIR 2 s)) s),
      gte_set (set_gteMAC 3) (\<lambda>s. FNC_OVERFLOW3 (sf s (gteIR 0 s * gteIR 3 s)) s),
      MAC2IR, gte_push_colour, SUM_FLAG]"

definition gteGPL :: gte_stm where
  "gteGPL = gte_run
     [set_gteFLAG 0,
      gte_set (set_gteMAC 1) (\<lambda>s. FNC_OVERFLOW1 (i32 (gteMAC 1 s + sf s (gteIR 0 s * gteIR 1 s))) s),
      gte_set (set_gteMAC 2) (\<lambda>s. FNC_OVERFLOW2 (i32 (gteMAC 2 s + sf s (gteIR 0 s * gteIR 2 s))) s),
      gte_set (set_gteMAC 3) (\<lambda>s. FNC_OVERFLOW3 (i32 (gteMAC 3 s + sf s (gteIR 0 s * gteIR 3 s))) s),
      MAC2IR, gte_push_colour, SUM_FLAG]"

definition dpcs_mac :: "(int \<Rightarrow> gte_expr) \<Rightarrow> (psxRegisters \<Rightarrow> int) \<Rightarrow> 5 word \<Rightarrow> gte_stm" where
  "dpcs_mac lim col k = gte_set (set_gteMAC k)
     (\<lambda>s. case lim (gteFC k s - push_bit 4 (col s)) s of (v, s1) \<Rightarrow>
        (push_bit 4 (col s) + drop_bit 12 (i32 (gteIR 0 s * v)), s1))"

definition gteDPCS :: gte_stm where
  "gteDPCS = gte_run
     [dpcs_mac FlimA1S gteR 1, dpcs_mac FlimA2S gteG 2, dpcs_mac FlimA3S gteB 3,
      set_gteFLAG 0, MAC2IR, gte_push_colour, SUM_FLAG]"

definition dpct_macs :: gte_stm where
  "dpct_macs = gte_run [dpcs_mac FlimA1S gteR0 1, dpcs_mac FlimA2S gteG0 2, dpcs_mac FlimA3S gteB0 3]"

definition gteDPCT :: gte_stm where
  "gteDPCT = gte_run
     [dpct_macs, gte_push_colour, dpct_macs, gte_push_colour, dpct_macs, set_gteFLAG 0, MAC2IR, gte_push_colour, SUM_FLAG]"

definition cc_mac :: "5 word \<Rightarrow> (psxRegisters \<Rightarrow> int) \<Rightarrow> int \<Rightarrow> gte_stm" where
  "cc_mac k col v s = set_gteMAC k (drop_bit 8 (i32 (col s * v))) s"

definition cc_row :: "nat \<Rightarrow> 5 word \<Rightarrow> psxRegisters \<Rightarrow> int" where
  "cc_row i k s = colour_row i k (gteIR 1 s) (gteIR 2 s) (gteIR 3 s) s"

definition gteCC :: gte_stm where
  "gteCC s =
     (case FNC_OVERFLOW1 (cc_row 1 1 (set_gteFLAG 0 s)) (set_gteFLAG 0 s) of (RR0, s1) \<Rightarrow>
      case FNC_OVERFLOW2 (cc_row 2 2 s1) s1 of (GG0, s2) \<Rightarrow>
      case FNC_OVERFLOW3 (cc_row 3 3 s2) s2 of (BB0, s3) \<Rightarrow> gte_run
        [cc_mac 1 gteR RR0, cc_mac 2 gteG GG0, cc_mac 3 gteB BB0, MAC2IR1, gte_push_colour, SUM_FLAG] s3)"

definition intpl_mac :: "(int \<Rightarrow> gte_expr) \<Rightarrow> 5 word \<Rightarrow> gte_stm" where
  "intpl_mac lim k = gte_set (set_gteMAC k)
     (\<lambda>s. case lim (gteFC k s - gteIR k s) s of (v, s1) \<Rightarrow>
        (gteIR k s + drop_bit 12 (i32 (gteIR 0 s * v)), s1))"

definition gteINTPL :: gte_stm where
  "gteINTPL = gte_run
     [intpl_mac FlimA1S 1, intpl_mac FlimA2S 2, intpl_mac FlimA3S 3, set_gteFLAG 0, MAC2IR, gte_push_colour, SUM_FLAG]"

definition cdp_row :: "nat \<Rightarrow> 5 word \<Rightarrow> psxRegisters \<Rightarrow> int" where
  "cdp_row i k s =
     i32 (gteBK k s + dot3 (gteCm i 1 s) (gteIR 1 s) (gteCm i 2 s) (gteIR 2 s) (gteCm i 3 s) (gteIR 3 s))"

definition cdp_mac :: "gte_host \<Rightarrow> (int \<Rightarrow> gte_expr) \<Rightarrow> (psxRegisters \<Rightarrow> int) \<Rightarrow> 5 word \<Rightarrow> int \<Rightarrow> gte_stm" where
  "cdp_mac h lim col k c = gte_set (set_gteMAC k)
     (\<lambda>s. case lim (gteFC k s - col s * c) s of (v, s1) \<Rightarrow> (dbl_s32 h (col s * c + gteIR 0 s * v), s1))"

definition gteCDP :: "gte_host \<Rightarrow> gte_stm" where
  "gteCDP h s =
     (case NC_OVERFLOW1 (cdp_row 1 1 (set_gteFLAG 0 s)) (set_gteFLAG 0 s) of (RR0, s1) \<Rightarrow>
      case NC_OVERFLOW2 (cdp_row 2 2 s1) s1 of (GG0, s2) \<Rightarrow>
      case NC_OVERFLOW3 (cdp_row 3 3 s2) s2 of (BB0, s3) \<Rightarrow> gte_run
        [cdp_mac h limA1S gteR 1 RR0, cdp_mac h limA2S gteG 2 GG0, cdp_mac h limA3S gteB 3 BB0,
         MAC2IR1, gte_push_colour, SUM_FLAG] s3)"

end
