(* ===== verification/Iop_Gte_Safety.thy ===== *)
theory Iop_Gte_Safety
  imports Iop_Gte
begin

text \<open>
  What every operation of the geometry engine keeps.  A body only ORs flags, limits values
  and writes the registers of its results: the locale \<open>gte_closed\<close> is a predicate that these
  writes keep, and every macro keeps it too; \<open>gte_stable\<close> adds the clearing of the flags at the
  start, and every operation then establishes the predicate before its final \<open>SUM_FLAG\<close>.  The
  interpretations are the flags an operation can raise, the ranges of the registers it writes
  and the state it leaves alone.
\<close>

unbundle bit_operations_syntax

section \<open>Values\<close>

lemma signed_take_bit_bounds:
  "- (2 ^ n) \<le> signed_take_bit n (x :: int)" "signed_take_bit n (x :: int) < 2 ^ n"
  by (rule signed_take_bit_int_greater_eq_minus_exp, rule signed_take_bit_int_less_exp)

lemma i32_bounds: "- 2147483648 \<le> i32 x" "i32 x < 2147483648"
  using signed_take_bit_bounds [of 31 x] by (simp_all add: i32_def)

lemma i32_id: "- 2147483648 \<le> x \<Longrightarrow> x < 2147483648 \<Longrightarrow> i32 x = x"
  by (simp add: i32_def signed_take_bit_int_eq_self)

lemma i64_id: "- 9223372036854775808 \<le> x \<Longrightarrow> x < 9223372036854775808 \<Longrightarrow> i64 x = x"
  by (simp add: i64_def signed_take_bit_int_eq_self)

lemma drop_bit_range:
  fixes x :: int
  assumes "lo \<le> x" and "x < hi" and "lo \<le> 0" and "0 \<le> hi"
  shows "lo \<le> drop_bit n x" and "drop_bit n x < hi"
proof -
  have p: "(1 :: int) \<le> 2 ^ n" by simp
  have "lo * 2 ^ n \<le> lo" using p assms(3) by (metis mult.right_neutral mult_left_mono_neg)
  then have "(lo * 2 ^ n) div 2 ^ n \<le> x div 2 ^ n" using assms(1) by (intro zdiv_mono1) auto
  then show "lo \<le> drop_bit n x" by (simp add: drop_bit_eq_div)
  have "hi \<le> hi * 2 ^ n" using p assms(4) by (metis mult.right_neutral mult_left_mono)
  then have "x < hi * 2 ^ n" using assms(2) by linarith
  moreover have "(x div 2 ^ n) * 2 ^ n \<le> x"
    using p by (metis minus_mod_eq_div_mult diff_le_eq le_add_same_cancel1 pos_mod_sign zero_less_numeral zero_less_power)
  ultimately have "(x div 2 ^ n) * 2 ^ n < hi * 2 ^ n" by linarith
  then show "drop_bit n x < hi" by (simp add: drop_bit_eq_div)
qed

lemma sf_range: "- 2147483648 \<le> sf s x" "sf s x < 2147483648"
  using i32_bounds [of x] drop_bit_range [where x = "i32 x" and lo = "- 2147483648" and hi = 2147483648 and n = 12]
  by (auto simp: sf_def)

text \<open>A value of 32 bits is not an overflow, so its test raises no flag.\<close>

lemma FNC_OVERFLOW_in_range:
  "- 2147483648 \<le> x \<Longrightarrow> x < 2147483648 \<Longrightarrow> FNC_OVERFLOW neg pos x s = (x, s)"
  by (simp add: FNC_OVERFLOW_def i32_id)

lemma FNC_OVERFLOW_i32: "FNC_OVERFLOW neg pos (i32 x) s = (i32 x, s)"
  by (rule FNC_OVERFLOW_in_range) (rule i32_bounds)+

lemma FNC_OVERFLOW_sf: "FNC_OVERFLOW neg pos (sf s x) t = (sf s x, t)"
  by (rule FNC_OVERFLOW_in_range) (rule sf_range)+

lemma FNC_OVERFLOW_colour: "FNC_OVERFLOW neg pos (colour_row i k x y z s) t = (colour_row i k x y z s, t)"
  by (simp add: colour_row_def FNC_OVERFLOW_i32)

lemma NC_OVERFLOW_i32: "NC_OVERFLOW neg pos (i32 x) s = (i32 x, s)"
  using i32_bounds [of x] by (simp add: NC_OVERFLOW_def)

lemma rtps_row_long32: "\<not> long64 h \<Longrightarrow> FNC_OVERFLOW neg pos (rtps_row h n i k s) t = (rtps_row h n i k s, t)"
  by (simp add: rtps_row_def c_long_def FNC_OVERFLOW_i32)

section \<open>The writes of a body\<close>

text \<open>
  \<open>P\<close> is kept by raising a flag of \<open>ok\<close>, by writing an accumulator, a screen coordinate, a
  depth or a colour, and by writing an \<open>IR\<close> register with a value of its range.
\<close>

locale gte_closed =
  fixes P :: "psxRegisters \<Rightarrow> bool" and ok :: "nat set"
  assumes flag: "P s \<Longrightarrow> b \<in> ok \<Longrightarrow> P (or_gteFLAG b s)"
    and mac: "P s \<Longrightarrow> k \<in> {0, 1, 2, 3} \<Longrightarrow> P (set_gteMAC k v s)"
    and ir: "P s \<Longrightarrow> k \<in> {1, 2, 3} \<Longrightarrow> - 32768 \<le> v \<Longrightarrow> v \<le> 32767 \<Longrightarrow> P (set_gteIR k v s)"
    and ir0: "P s \<Longrightarrow> 0 \<le> v \<Longrightarrow> v \<le> 65535 \<Longrightarrow> P (set_gteIR 0 v s)"
    and sz: "P s \<Longrightarrow> n \<le> 2 \<Longrightarrow> P (set_gteSZ n v s)"
    and szx: "P s \<Longrightarrow> P (set_gteSZx v s)"
    and sx: "P s \<Longrightarrow> n \<le> 2 \<Longrightarrow> P (set_gteSX n v s)"
    and sy: "P s \<Longrightarrow> n \<le> 2 \<Longrightarrow> P (set_gteSY n v s)"
    and sxy: "P s \<Longrightarrow> k \<in> {0, 1} \<Longrightarrow> P (set_gteSXY k v s)"
    and sxyp: "P s \<Longrightarrow> P (set_gteSXYP v s)"
    and otz: "P s \<Longrightarrow> P (set_gteOTZ v s)"
    and rgb: "P s \<Longrightarrow> k \<in> {0, 1} \<Longrightarrow> P (set_gteRGB k v s)"
    and red: "P s \<Longrightarrow> n \<le> 2 \<Longrightarrow> P (set_gteR n v s)"
    and green: "P s \<Longrightarrow> n \<le> 2 \<Longrightarrow> P (set_gteG n v s)"
    and blue: "P s \<Longrightarrow> n \<le> 2 \<Longrightarrow> P (set_gteB n v s)"
    and code: "P s \<Longrightarrow> n \<le> 2 \<Longrightarrow> P (set_gteCODE n v s)"
begin

lemmas writes = flag mac ir ir0 sz szx sx sy sxy sxyp otz rgb red green blue code

lemma LIMX_kept: "P s \<Longrightarrow> b \<in> ok \<Longrightarrow> P (snd (LIMX lo hi b x s))"
  by (simp add: LIMX_def flag)

lemma OVERFLOW_kept:
  "P s \<Longrightarrow> n \<in> ok \<Longrightarrow> p \<in> ok \<Longrightarrow> P (snd (FNC_OVERFLOW n p x s))"
  "P s \<Longrightarrow> n \<in> ok \<Longrightarrow> p \<in> ok \<Longrightarrow> P (snd (NC_OVERFLOW n p x s))"
  by (simp_all add: FNC_OVERFLOW_def NC_OVERFLOW_def flag)

lemma FlimG_kept: "P s \<Longrightarrow> {b, 15, 16} \<subseteq> ok \<Longrightarrow> P (snd (FlimG b x s))"
  by (simp add: FlimG_def LIMX_kept flag)

lemma set_kept:
  assumes "P (snd (e s))" and "\<And>t. P t \<Longrightarrow> P (w (fst (e s)) t)"
  shows "P (gte_set w e s)"
  using assms by (simp add: gte_set_def split_beta)

lemma set_ir_kept:
  "P s \<Longrightarrow> k \<in> {1, 2, 3} \<Longrightarrow> b \<in> ok \<Longrightarrow> lo \<in> {- 32768, 0} \<Longrightarrow>
     P (gte_set (set_gteIR k) (\<lambda>s. LIMX lo 32767 b (x s) s) s)"
  by (rule set_kept) (auto simp: LIMX_def intro!: ir flag)

lemma mac_to_ir_kept:
  "P s \<Longrightarrow> k \<in> {1, 2, 3} \<Longrightarrow> b \<in> ok \<Longrightarrow> lo \<in> {- 32768, 0} \<Longrightarrow> P (mac_to_ir lo k b s)"
  unfolding mac_to_ir_def by (rule set_ir_kept)

lemma MAC2IR_kept: "P s \<Longrightarrow> {22, 23, 24} \<subseteq> ok \<Longrightarrow> P (MAC2IR s) \<and> P (MAC2IR1 s)"
  by (simp add: MAC2IR_def MAC2IR1_def mac_to_ir_kept)

lemma colour_kept: "P s \<Longrightarrow> n \<le> 2 \<Longrightarrow> {19, 20, 21} \<subseteq> ok \<Longrightarrow> P (gte_colour n s)"
  by (auto simp: gte_colour_def FlimB1_def FlimB2_def FlimB3_def intro!: set_kept red green blue code LIMX_kept)

lemma push_colour_kept: "P s \<Longrightarrow> {19, 20, 21} \<subseteq> ok \<Longrightarrow> P (gte_push_colour s)"
  by (simp add: gte_push_colour_def colour_kept rgb)

lemma light_kept: "P s \<Longrightarrow> {22, 23, 24} \<subseteq> ok \<Longrightarrow> P (snd (gte_light n s))"
  by (simp add: gte_light_def split_beta F12limA1U_def F12limA2U_def F12limA3U_def LIMX_kept)

lemma NCCS_kept: "P s \<Longrightarrow> {22, 23, 24} \<subseteq> ok \<Longrightarrow> P (GTE_NCCS n s)"
  using light_kept [of s n] by (simp add: GTE_NCCS_def split_beta mac)

lemma NCS_kept: "P s \<Longrightarrow> {22, 23, 24} \<subseteq> ok \<Longrightarrow> P (GTE_NCS n s)"
  using light_kept [of s n] by (simp add: GTE_NCS_def split_beta mac)

lemma NCDS_kept: "P s \<Longrightarrow> {22, 23, 24} \<subseteq> ok \<Longrightarrow> P (GTE_NCDS n s)"
  using light_kept [of s n]
  by (auto simp: GTE_NCDS_def split_beta Let_def ncds_mac_def F12limA1S_def F12limA2S_def F12limA3S_def
      intro!: set_kept mac LIMX_kept)

lemma macs_kept:
  "P s \<Longrightarrow> {22, 23, 24} \<subseteq> ok \<Longrightarrow> P (dcpl_mac h FlimA1S c 1 s) \<and> P (dcpl_mac h FlimA2S c 2 s) \<and> P (dcpl_mac h FlimA3S c 3 s)"
  "P s \<Longrightarrow> {22, 23, 24} \<subseteq> ok \<Longrightarrow> P (dpcs_mac FlimA1S c 1 s) \<and> P (dpcs_mac FlimA2S c 2 s) \<and> P (dpcs_mac FlimA3S c 3 s)"
  "P s \<Longrightarrow> {22, 23, 24} \<subseteq> ok \<Longrightarrow> P (intpl_mac FlimA1S 1 s) \<and> P (intpl_mac FlimA2S 2 s) \<and> P (intpl_mac FlimA3S 3 s)"
  "P s \<Longrightarrow> {22, 23, 24} \<subseteq> ok \<Longrightarrow> P (cdp_mac h limA1S c 1 x s) \<and> P (cdp_mac h limA2S c 2 x s) \<and> P (cdp_mac h limA3S c 3 x s)"
  by (auto simp: dcpl_mac_def dpcs_mac_def intpl_mac_def cdp_mac_def FlimA1S_def FlimA2S_def FlimA3S_def
      limA1S_def limA2S_def limA3S_def split_beta intro!: set_kept mac LIMX_kept)

lemma cc_mac_kept: "P s \<Longrightarrow> k \<in> {0, 1, 2, 3} \<Longrightarrow> P (cc_mac k c v s)"
  by (simp only: cc_mac_def mac)

lemma fdsz_kept: "P s \<Longrightarrow> 17 \<in> ok \<Longrightarrow> P (snd (rtps_fdsz n s))"
  by (simp add: rtps_fdsz_def Let_def flag)

lemma RTPS2_kept: "P s \<Longrightarrow> n \<le> 2 \<Longrightarrow> {13, 14, 15, 16, 17} \<subseteq> ok \<Longrightarrow> P (snd (GTE_RTPS2 n s))"
  using fdsz_kept [of s n]
  by (auto simp: GTE_RTPS2_def split_beta FlimG1_def FlimG2_def intro!: set_kept sx sy FlimG_kept)

lemma RTPS3_kept: "P s \<Longrightarrow> 12 \<in> ok \<Longrightarrow> P (GTE_RTPS3 f s)"
  by (auto simp: GTE_RTPS3_def Let_def FlimE_def LIMX_def intro!: set_kept ir0 flag mac)

text \<open>The accumulators of the transformation, whose overflow shows on a host with a 64-bit \<open>long\<close>.\<close>

lemma RTPS1_kept:
  assumes "P s" and "long64 h \<longrightarrow> {24, 25, 26, 27, 28, 29} \<subseteq> ok"
  shows "P (GTE_RTPS1 h n s)"
proof (cases "long64 h")
  case True
  then have "{24, 25, 26, 27, 28, 29} \<subseteq> ok" using assms(2) by blast
  then show ?thesis
    using assms(1)
    by (auto simp: GTE_RTPS1_def FNC_OVERFLOW1_def FNC_OVERFLOW2_def FNC_OVERFLOW3_def intro!: set_kept mac OVERFLOW_kept)
next
  case False
  then show ?thesis
    using assms(1)
    by (auto simp: GTE_RTPS1_def FNC_OVERFLOW1_def FNC_OVERFLOW2_def FNC_OVERFLOW3_def rtps_row_long32 intro!: set_kept mac)
qed

lemma depth_kept: "P s \<Longrightarrow> n \<le> 2 \<Longrightarrow> 18 \<in> ok \<Longrightarrow> P (gte_set (set_gteSZ n) (\<lambda>s. FlimC (gteMAC 3 s) s) s)"
  by (auto simp: FlimC_def LIMX_kept intro!: set_kept sz)

lemma rtpt_vertex_kept:
  "P s \<Longrightarrow> n \<le> 2 \<Longrightarrow> {13, 14, 15, 16, 17, 18, 22, 23, 24} \<subseteq> ok \<Longrightarrow> (long64 h \<longrightarrow> {24, 25, 26, 27, 28, 29} \<subseteq> ok) \<Longrightarrow>
     P (rtpt_vertex h n s)"
  by (auto simp: rtpt_vertex_def FlimA1S_def FlimA2S_def
      intro!: set_ir_kept RTPS2_kept RTPS1_kept depth_kept)

end

section \<open>The operations\<close>

text \<open>The operations, each with the flags that it can raise besides the summary bit 31.\<close>

definition gte_ops :: "gte_host \<Rightarrow> (gte_stm \<times> u32) list" where
  "gte_ops h =
    [(gteRTPS h, if long64 h then 0x3FC7F000 else 0x01C7F000), (gteRTPT h, if long64 h then 0x3FC7F000 else 0x01C7F000),
     (gteMVMVA, 0x3FC00000), (gteNCLIP, 0), (gteAVSZ3, 0x00040000), (gteAVSZ4, 0x00040000),
     (gteSQR, 0x01C00000), (gteOP, 0x01C00000), (gteGPF, 0x01F80000), (gteGPL, 0x01F80000),
     (gteNCCS, 0x01F80000), (gteNCCT, 0x01F80000), (gteNCDS, 0x01F80000), (gteNCDT, 0x01F80000),
     (gteNCS, 0x01F80000), (gteNCT, 0x01F80000), (gteDCPL h, 0x01F80000), (gteDPCS, 0x01F80000),
     (gteDPCT, 0x01F80000), (gteINTPL, 0x01F80000), (gteCC, 0x01F80000), (gteCDP h, 0x01F80000)]"

text \<open>
  \<open>P0\<close> holds before the operation, whatever the flags are; after the flags are cleared \<open>P\<close> holds,
  and it is kept up to the final \<open>SUM_FLAG\<close>.
\<close>

definition summed :: "(psxRegisters \<Rightarrow> bool) \<Rightarrow> psxRegisters \<Rightarrow> bool" where
  "summed P s \<longleftrightarrow> (\<exists>t. P t \<and> s = SUM_FLAG t)"

lemma summedI: "P t \<Longrightarrow> summed P (SUM_FLAG t)"
  by (auto simp: summed_def)

locale gte_stable = gte_closed P ok + pre: gte_closed P0 UNIV
  for P :: "psxRegisters \<Rightarrow> bool" and ok :: "nat set" and P0 :: "psxRegisters \<Rightarrow> bool" +
  assumes clear: "P0 s \<Longrightarrow> P (set_gteFLAG 0 s)"
begin

text \<open>The flags: of an accumulator's overflow, of the limits of \<open>IR\<close>, of the colours, of a vertex.\<close>

definition "f_mac \<longleftrightarrow> {24, 25, 26, 27, 28, 29} \<subseteq> ok"
definition "f_ir \<longleftrightarrow> {22, 23, 24} \<subseteq> ok"
definition "f_col \<longleftrightarrow> {19, 20, 21, 22, 23, 24} \<subseteq> ok"
definition "f_vertex h \<longleftrightarrow> {12, 13, 14, 15, 16, 17, 18, 22, 23, 24} \<subseteq> ok \<and> (long64 h \<longrightarrow> f_mac)"

lemmas flag_sets = f_mac_def f_ir_def f_col_def f_vertex_def

lemma RTPS: "P0 s \<Longrightarrow> f_vertex h \<Longrightarrow> summed P (gteRTPS h s)"
  by (auto simp: gteRTPS_def split_beta flag_sets
      intro!: summedI RTPS3_kept RTPS2_kept RTPS1_kept depth_kept clear szx sz sxy sxyp conjunct1 [OF MAC2IR_kept])

lemma RTPT: "P0 s \<Longrightarrow> f_vertex h \<Longrightarrow> summed P (gteRTPT h s)"
  by (auto simp: gteRTPT_def split_beta flag_sets
      intro!: summedI RTPS3_kept RTPS2_kept RTPS1_kept depth_kept rtpt_vertex_kept clear szx sxyp conjunct1 [OF MAC2IR_kept])

lemma MVMVA: "P0 s \<Longrightarrow> f_mac \<Longrightarrow> f_ir \<Longrightarrow> summed P (gteMVMVA s)"
  by (auto simp: gteMVMVA_def Let_def flag_sets FNC_OVERFLOW1_def FNC_OVERFLOW2_def FNC_OVERFLOW3_def
      intro!: summedI set_kept mac OVERFLOW_kept clear conjunct1 [OF MAC2IR_kept] conjunct2 [OF MAC2IR_kept])

lemma NCLIP: "P0 s \<Longrightarrow> summed P (gteNCLIP s)"
  by (simp add: gteNCLIP_def summedI mac clear)

lemma AVSZ: "P0 s \<Longrightarrow> 18 \<in> ok \<Longrightarrow> summed P (gteAVSZ3 s) \<and> summed P (gteAVSZ4 s)"
  by (auto simp: gteAVSZ3_def gteAVSZ4_def FlimC_def intro!: summedI set_kept otz LIMX_kept mac clear)

lemma SQR: "P0 s \<Longrightarrow> f_ir \<Longrightarrow> summed P (gteSQR s)"
  by (auto simp: gteSQR_def flag_sets FNC_OVERFLOW1_def FNC_OVERFLOW2_def FNC_OVERFLOW3_def FNC_OVERFLOW_sf
      intro!: summedI set_kept mac clear conjunct2 [OF MAC2IR_kept])

lemma OP: "P0 s \<Longrightarrow> f_ir \<Longrightarrow> summed P (gteOP s)"
  by (auto simp: gteOP_def flag_sets FNC_OVERFLOW1_def FNC_OVERFLOW2_def FNC_OVERFLOW3_def FNC_OVERFLOW_sf
      intro!: summedI set_kept mac clear conjunct1 [OF MAC2IR_kept])

lemma GPF: "P0 s \<Longrightarrow> f_col \<Longrightarrow> summed P (gteGPF s)"
  by (auto simp: gteGPF_def flag_sets FNC_OVERFLOW1_def FNC_OVERFLOW2_def FNC_OVERFLOW3_def FNC_OVERFLOW_sf
      intro!: summedI set_kept mac clear push_colour_kept conjunct1 [OF MAC2IR_kept])

lemma GPL: "P0 s \<Longrightarrow> f_col \<Longrightarrow> summed P (gteGPL s)"
  by (auto simp: gteGPL_def flag_sets FNC_OVERFLOW1_def FNC_OVERFLOW2_def FNC_OVERFLOW3_def FNC_OVERFLOW_i32
      intro!: summedI set_kept mac clear push_colour_kept conjunct1 [OF MAC2IR_kept])

lemma NC_single:
  "P0 s \<Longrightarrow> f_col \<Longrightarrow> summed P (gteNCCS s) \<and> summed P (gteNCDS s) \<and> summed P (gteNCS s)"
  by (auto simp: gteNCCS_def gteNCDS_def gteNCS_def flag_sets
      intro!: summedI NCCS_kept NCDS_kept NCS_kept clear push_colour_kept conjunct2 [OF MAC2IR_kept])

lemma NC_triple:
  "P0 s \<Longrightarrow> f_col \<Longrightarrow> summed P (gteNCCT s) \<and> summed P (gteNCDT s) \<and> summed P (gteNCT s)"
  by (auto simp: gteNCCT_def gteNCDT_def gteNCT_def flag_sets
      intro!: summedI NCCS_kept NCDS_kept NCS_kept clear colour_kept conjunct2 [OF MAC2IR_kept])

lemma DCPL: "P0 s \<Longrightarrow> f_col \<Longrightarrow> summed P (gteDCPL h s)"
  by (auto simp: gteDCPL_def flag_sets pre.macs_kept
      intro!: summedI clear push_colour_kept conjunct1 [OF MAC2IR_kept])

lemma DPCS: "P0 s \<Longrightarrow> f_col \<Longrightarrow> summed P (gteDPCS s) \<and> summed P (gteDPCT s)"
  by (auto simp: gteDPCS_def gteDPCT_def dpct_macs_def flag_sets pre.macs_kept pre.push_colour_kept
      intro!: summedI clear push_colour_kept conjunct1 [OF MAC2IR_kept])

lemma INTPL: "P0 s \<Longrightarrow> f_col \<Longrightarrow> summed P (gteINTPL s)"
  by (auto simp: gteINTPL_def flag_sets pre.macs_kept
      intro!: summedI clear push_colour_kept conjunct1 [OF MAC2IR_kept])

lemma CC: "P0 s \<Longrightarrow> f_col \<Longrightarrow> summed P (gteCC s)"
  by (auto simp: gteCC_def flag_sets FNC_OVERFLOW1_def FNC_OVERFLOW2_def FNC_OVERFLOW3_def cc_row_def FNC_OVERFLOW_colour
      intro!: summedI clear push_colour_kept cc_mac_kept conjunct2 [OF MAC2IR_kept])

lemma CDP: "P0 s \<Longrightarrow> f_col \<Longrightarrow> summed P (gteCDP h s)"
  by (auto simp: gteCDP_def flag_sets NC_OVERFLOW1_def NC_OVERFLOW2_def NC_OVERFLOW3_def cdp_row_def NC_OVERFLOW_i32
      macs_kept clear intro!: summedI push_colour_kept conjunct2 [OF MAC2IR_kept])

lemma all_ops:
  assumes "P0 s" and "ok = UNIV"
  shows "list_all (\<lambda>(f, m). summed P (f s)) (gte_ops h)"
proof -
  have "f_mac" "f_ir" "f_col" "f_vertex h" "18 \<in> ok"
    unfolding flag_sets by (simp_all add: assms(2))
  with assms(1) show ?thesis
    by (simp add: gte_ops_def RTPS RTPT MVMVA NCLIP AVSZ SQR OP GPF GPL NC_single NC_triple DCPL DPCS INTPL CC CDP)
qed

end

section \<open>What the operations keep\<close>

lemmas gte_writes =
  or_gteFLAG_def set_gteFLAG_def set_gteMAC_def set_gteIR_def set_gteSZ_def set_gteSZx_def set_gteSX_def set_gteSY_def
  set_gteSXY_def set_gteSXYP_def set_gteOTZ_def set_gteRGB_def set_gteR_def set_gteG_def set_gteB_def set_gteCODE_def
  wD32_def wD16_def wD8_def

text \<open>The state apart from the result registers and the flags.\<close>

definition gte_rest :: "psxRegisters \<Rightarrow> psxRegisters" where
  "gte_rest s = s\<lparr>psxCP2D := \<lambda>r. if r < 6 then psxCP2D s r else 0, psxCP2C := (psxCP2C s)(31 := 0)\<rparr>"

lemma le2_cases: "(n :: nat) \<le> 2 \<longleftrightarrow> n = 0 \<or> n = 1 \<or> n = 2"
  by auto

interpretation gte_frame: gte_stable "\<lambda>s. gte_rest s = r" UNIV "\<lambda>s. gte_rest s = r" for r
  by unfold_locales (auto simp: gte_rest_def gte_writes Let_def le2_cases fun_eq_iff)

text \<open>The flags that can be up are among those of \<open>m\<close>.\<close>

lemma within_mask: "x AND NOT m = (0 :: 'a::len word) \<longleftrightarrow> (\<forall>n. bit x n \<longrightarrow> bit m n)"
  by (auto simp: bit_eq_iff bit_simps dest: bit_imp_le_length)

interpretation gte_flags: gte_stable "\<lambda>s. gteFLAG s AND NOT m = 0" "{b. bit m b}" "\<lambda>_. True" for m :: u32
  by unfold_locales (auto simp: gteFLAG_def gte_writes Let_def within_mask bit_simps)

text \<open>\<open>IR1\<close> to \<open>IR3\<close> hold 16-bit values, \<open>IR0\<close> a 17-bit one, the depths have a clear upper half.\<close>

definition gte_inv :: "psxRegisters \<Rightarrow> bool" where
  "gte_inv s \<longleftrightarrow> (\<forall>k \<in> {9, 10, 11}. - 32768 \<le> D32 k s \<and> D32 k s \<le> 32767) \<and> - 32768 \<le> D32 8 s \<and> D32 8 s \<le> 65535 \<and>
     (\<forall>k \<in> {16, 17, 18, 19}. drop_bit 16 (psxCP2D s k) = 0)"

lemma upper_half_set: "drop_bit 16 r = 0 \<Longrightarrow> drop_bit 16 (set_lane 0 (v :: u16) (r :: u32)) = 0"
proof (rule bit_word_eqI)
  fix n assume "drop_bit 16 r = 0" and "n < LENGTH(32)"
  then have "\<not> bit r (16 + n)" by (metis bit_drop_bit_eq bit_0_eq bot_apply bot_bool_def comp_apply)
  then show "bit (drop_bit 16 (set_lane 0 v r)) n = bit (0 :: u32) n"
    by (simp add: bit_simps bit_set_lane)
qed

lemma sint_s32: "- 2147483648 \<le> v \<Longrightarrow> v < 2147483648 \<Longrightarrow> sint (word_of_int v :: u32) = v"
  by (simp add: sint_word_of_int)

lemma gte_inv_other:
  "gte_inv s \<Longrightarrow> r \<notin> {8, 9, 10, 11, 16, 17, 18, 19} \<Longrightarrow> gte_inv (s\<lparr>psxCP2D := (psxCP2D s)(r := v)\<rparr>)"
  by (simp add: gte_inv_def D32_def)

lemma gte_inv_control: "gte_inv (s\<lparr>psxCP2C := c\<rparr>) = gte_inv s"
  by (simp add: gte_inv_def D32_def)

lemma gte_inv_depth:
  "gte_inv s \<Longrightarrow> r \<in> {16, 17, 18, 19} \<Longrightarrow>
     gte_inv (s\<lparr>psxCP2D := (psxCP2D s)(r := set_lane 0 (v :: u16) (psxCP2D s r))\<rparr>)"
  by (auto simp: gte_inv_def D32_def upper_half_set)

lemma gte_inv_ir:
  "gte_inv s \<Longrightarrow> r \<in> {9, 10, 11} \<Longrightarrow> - 32768 \<le> v \<Longrightarrow> v \<le> 32767 \<Longrightarrow>
     gte_inv (s\<lparr>psxCP2D := (psxCP2D s)(r := word_of_int v)\<rparr>)"
  by (auto simp: gte_inv_def D32_def sint_s32)

lemma gte_inv_ir0:
  "gte_inv s \<Longrightarrow> - 32768 \<le> v \<Longrightarrow> v \<le> 65535 \<Longrightarrow> gte_inv (s\<lparr>psxCP2D := (psxCP2D s)(8 := word_of_int v)\<rparr>)"
  by (simp add: gte_inv_def D32_def sint_s32)

interpretation gte_ranges: gte_stable gte_inv UNIV gte_inv
proof unfold_locales
  fix s v and k :: "5 word" and n :: nat and b :: nat
  assume s: "gte_inv s"
  show "gte_inv (or_gteFLAG b s)" "gte_inv (set_gteFLAG 0 s)"
    using s by (simp_all add: or_gteFLAG_def set_gteFLAG_def gte_inv_control)
  show "gte_inv (set_gteMAC k v s)" if "k \<in> {0, 1, 2, 3}"
    using that s by (auto simp: set_gteMAC_def wD32_def intro: gte_inv_other)
  show "gte_inv (set_gteIR k v s)" if "k \<in> {1, 2, 3}" "- 32768 \<le> v" "v \<le> 32767"
    using that s by (auto simp: set_gteIR_def wD32_def intro: gte_inv_ir)
  show "gte_inv (set_gteIR 0 v s)" if "0 \<le> v" "v \<le> 65535"
    using that s by (simp add: set_gteIR_def wD32_def gte_inv_ir0)
  show "gte_inv (set_gteSZ n v s)" if "n \<le> 2"
    using that s by (auto simp: set_gteSZ_def wD16_def Let_def le2_cases intro: gte_inv_depth)
  show "gte_inv (set_gteSZx v s)"
    using s by (simp add: set_gteSZx_def wD16_def gte_inv_depth)
  show "gte_inv (set_gteSX n v s)" "gte_inv (set_gteSY n v s)" if "n \<le> 2"
    using that s by (auto simp: set_gteSX_def set_gteSY_def wD16_def Let_def le2_cases intro: gte_inv_other)
  show "gte_inv (set_gteSXY k v s)" "gte_inv (set_gteRGB k v s)" if "k \<in> {0, 1}"
    using that s by (auto simp: set_gteSXY_def set_gteRGB_def wD32_def intro: gte_inv_other)
  show "gte_inv (set_gteSXYP v s)" "gte_inv (set_gteOTZ v s)"
    using s by (simp_all add: set_gteSXYP_def set_gteOTZ_def wD32_def wD16_def gte_inv_other)
  show "gte_inv (set_gteR n v s)" "gte_inv (set_gteG n v s)" "gte_inv (set_gteB n v s)" "gte_inv (set_gteCODE n v s)"
    if "n \<le> 2"
    using that s
    by (auto simp: set_gteR_def set_gteG_def set_gteB_def set_gteCODE_def wD8_def Let_def le2_cases intro: gte_inv_other)
qed

section \<open>All operations\<close>

definition flag_report :: "u32 \<Rightarrow> u32 \<Rightarrow> bool" where
  "flag_report m F \<longleftrightarrow> F AND NOT (m OR 0x80000000) = 0 \<and> (F AND 0x80000000 \<noteq> 0 \<longleftrightarrow> F AND 0x7F87E000 \<noteq> 0)"

lemma bit31_test: "F AND 0x80000000 \<noteq> 0 \<longleftrightarrow> bit (F :: u32) 31"
proof -
  have "(0x80000000 :: u32) = push_bit 31 1" by simp
  then show ?thesis by (metis bit_iff_and_push_bit_not_eq_0)
qed

lemma bit31_not_error: "(F OR 0x80000000) AND 0x7F87E000 = F AND (0x7F87E000 :: u32)"
  by (simp add: bit.conj_disj_distrib2)

lemma sum_flag_report:
  assumes "summed (\<lambda>s. gteFLAG s AND NOT m = 0) s" and "\<not> bit m 31"
  shows "flag_report m (gteFLAG s)"
proof -
  obtain t where t: "gteFLAG t AND NOT m = 0" and s: "s = SUM_FLAG t"
    using assms(1) by (auto simp: summed_def)
  have m: "gteFLAG t AND NOT (m OR 0x80000000) = 0"
    using t unfolding within_mask bit_or_iff by blast
  have c: "\<not> bit (gteFLAG t) 31" using t assms(2) by (auto simp: within_mask)
  show ?thesis
  proof (cases "gteFLAG t AND 0x7F87E000 = 0")
    case True
    then show ?thesis using s m c bit31_test [of "gteFLAG t"] by (simp add: SUM_FLAG_def flag_report_def)
  next
    case False
    then have F: "gteFLAG s = gteFLAG t OR 0x80000000"
      using s by (simp add: SUM_FLAG_def set_gteFLAG_def gteFLAG_def)
    have "(gteFLAG t OR 0x80000000) AND NOT (m OR 0x80000000) = 0"
      using t unfolding within_mask bit_or_iff by blast
    moreover have "(gteFLAG t OR 0x80000000) AND 0x80000000 \<noteq> 0"
      by (simp add: bit31_test bit_or_iff)
    ultimately show ?thesis using F False by (simp add: flag_report_def bit31_not_error)
  qed
qed

text \<open>The flags of each kind, in the masks of the table.\<close>

lemma mask_ir: "gte_stable.f_ir {b. bit (0x01C00000 :: u32) b}"
  unfolding gte_flags.flag_sets by simp
lemma mask_mvmva: "gte_stable.f_mac {b. bit (0x3FC00000 :: u32) b}" "gte_stable.f_ir {b. bit (0x3FC00000 :: u32) b}"
  unfolding gte_flags.flag_sets by simp_all
lemma mask_col: "gte_stable.f_col {b. bit (0x01F80000 :: u32) b}"
  unfolding gte_flags.flag_sets by simp
lemma mask_vertex: "gte_stable.f_vertex {b. bit (if long64 h then 0x3FC7F000 else 0x01C7F000 :: u32) b} h"
  unfolding gte_flags.flag_sets by simp
lemma mask_depth: "18 \<in> {b. bit (0x00040000 :: u32) b}"
  by simp

lemma flag_reportI:
  "(\<And>s. summed (\<lambda>s. gteFLAG s AND NOT m = 0) (f s)) \<Longrightarrow> \<not> bit m 31 \<Longrightarrow> \<forall>s. flag_report m (gteFLAG (f s))"
  by (blast intro: sum_flag_report)

text \<open>
  C25: After every operation the flags are only those of its row of the table, and bit 31 is up
  exactly when one of the error bits 30 to 23 and 18 to 13 is.  So bit 30 never is, and
  of the operations that test their accumulators for overflow only MVMVA and, on a host
  with a 64-bit \<open>long\<close>, RTPS and RTPT can report one.
\<close>

theorem gte_flags_reported: "list_all (\<lambda>(f, m). \<forall>s. flag_report m (gteFLAG (f s))) (gte_ops h)"
proof -
  note col = TrueI mask_col
  note ops = gte_flags.RTPS [OF TrueI mask_vertex] gte_flags.RTPT [OF TrueI mask_vertex]
    gte_flags.MVMVA [OF TrueI mask_mvmva] gte_flags.NCLIP [OF TrueI] gte_flags.AVSZ [OF TrueI mask_depth, THEN conjunct1]
    gte_flags.AVSZ [OF TrueI mask_depth, THEN conjunct2] gte_flags.SQR [OF TrueI mask_ir] gte_flags.OP [OF TrueI mask_ir]
    gte_flags.GPF [OF col] gte_flags.GPL [OF col] gte_flags.NC_single [OF col, THEN conjunct1]
    gte_flags.NC_single [OF col, THEN conjunct2, THEN conjunct1] gte_flags.NC_single [OF col, THEN conjunct2, THEN conjunct2]
    gte_flags.NC_triple [OF col, THEN conjunct1] gte_flags.NC_triple [OF col, THEN conjunct2, THEN conjunct1]
    gte_flags.NC_triple [OF col, THEN conjunct2, THEN conjunct2] gte_flags.DCPL [OF col]
    gte_flags.DPCS [OF col, THEN conjunct1] gte_flags.DPCS [OF col, THEN conjunct2] gte_flags.INTPL [OF col]
    gte_flags.CC [OF col] gte_flags.CDP [OF col]
  show ?thesis
    unfolding gte_ops_def list.pred_inject prod.case
    by (intro conjI TrueI flag_reportI ops) simp_all
qed

lemma SUM_FLAG_frame: "gte_rest (SUM_FLAG s) = gte_rest s"
  by (auto simp: SUM_FLAG_def set_gteFLAG_def gte_rest_def fun_eq_iff)

lemma SUM_FLAG_inv: "gte_inv (SUM_FLAG s) = gte_inv s"
  by (simp add: SUM_FLAG_def set_gteFLAG_def gte_inv_control)

text \<open>
  An operation changes data registers 6 to 31 and the flag register only: the vectors, the
  other control registers and the rest of the processor are as before.
\<close>

theorem gte_ops_frame: "list_all (\<lambda>(f, m). gte_rest (f s) = gte_rest s) (gte_ops h)"
proof -
  have "list_all (\<lambda>(f, m). summed (\<lambda>t. gte_rest t = gte_rest s) (f s)) (gte_ops h)"
    by (rule gte_frame.all_ops) simp_all
  then show ?thesis
    by (rule list.pred_mono_strong) (auto simp: summed_def SUM_FLAG_frame)
qed

lemma gte_ops_inv:
  assumes "gte_inv s"
  shows "list_all (\<lambda>(f, m). gte_inv (f s)) (gte_ops h)"
proof -
  have "list_all (\<lambda>(f, m). summed gte_inv (f s)) (gte_ops h)"
    using assms by (rule gte_ranges.all_ops) simp
  then show ?thesis
    by (rule list.pred_mono_strong) (auto simp: summed_def SUM_FLAG_inv)
qed

end
