(* ===== verification/Iop_Gte_Spec.thy ===== *)
theory Iop_Gte_Spec
  imports Iop_Gte_Safety
begin

text \<open>
  What the operations of the geometry engine compute: the perspective transformation against
  a reference in exact arithmetic, the triple operations against three single ones, and the
  test for the side of a triangle.
\<close>

unbundle bit_operations_syntax

section \<open>Reading after writing\<close>

lemma sint_i32: "sint (word_of_int v :: u32) = i32 v"
  by (simp add: i32_def signed_of_int)

lemma sint_i16: "sint (word_of_int v :: u16) = i16 v"
  by (simp add: i16_def signed_of_int)

lemma uint_u16: "0 \<le> v \<Longrightarrow> v \<le> 65535 \<Longrightarrow> uint (word_of_int v :: u16) = v"
  by (simp add: unsigned_of_int take_bit_int_eq_self)

lemma i16_id: "- 32768 \<le> x \<Longrightarrow> x < 32768 \<Longrightarrow> i16 x = x"
  by (simp add: i16_def signed_take_bit_int_eq_self)

lemma half_index: "k < 64 \<Longrightarrow> k' < 64 \<Longrightarrow> (of_nat (k div 2) :: 5 word) = of_nat (k' div 2) \<longleftrightarrow> k div 2 = k' div 2"
  by (simp add: word_of_nat_eq_iff take_bit_eq_mod)

lemma lane_half_other: "k mod 2 \<noteq> k' mod 2 \<Longrightarrow> lane (k mod 2) (set_lane (k' mod 2) (v :: u16) (r :: u32)) = (lane (k mod 2) r :: u16)"
  by (rule lane_set_lane_other) simp_all

lemma lane_half_same: "lane (k mod 2) (set_lane (k mod 2) (v :: u16) (r :: u32)) = v"
  by (rule lane_set_lane) (simp add: mod_2_eq_odd)

lemma half_neq: "(k :: nat) \<noteq> k' \<Longrightarrow> k div 2 = k' div 2 \<Longrightarrow> k mod 2 \<noteq> k' mod 2"
  by (metis mult_div_mod_eq)

lemma D32_wD32: "D32 r (wD32 r' v s) = (if r = r' then i32 v else D32 r s)"
  by (simp add: D32_def wD32_def sint_i32)

lemma D16_wD16: "k < 64 \<Longrightarrow> k' < 64 \<Longrightarrow> D16 k (wD16 k' v s) = (if k = k' then i16 v else D16 k s)"
  using half_neq [of k k']
  by (auto simp: D16_def wD16_def Let_def half_index lane_half_same lane_half_other sint_i16)

lemma Du16_wD16:
  "k < 64 \<Longrightarrow> k' < 64 \<Longrightarrow> Du16 k (wD16 k' v s) = (if k = k' then uint (word_of_int v :: u16) else Du16 k s)"
  using half_neq [of k k']
  by (auto simp: Du16_def wD16_def Let_def half_index lane_half_same lane_half_other)

lemma D32_wD16: "r \<noteq> of_nat (k div 2) \<Longrightarrow> D32 r (wD16 k v s) = D32 r s"
  by (simp add: D32_def wD16_def Let_def)

lemma D16_wD32: "of_nat (k div 2) \<noteq> r \<Longrightarrow> D16 k (wD32 r v s) = D16 k s"
  by (simp add: D16_def wD32_def)

lemma Du16_wD32: "of_nat (k div 2) \<noteq> r \<Longrightarrow> Du16 k (wD32 r v s) = Du16 k s"
  by (simp add: Du16_def wD32_def)

lemma D32_eq_halves:
  assumes "D16 (2 * i) s = D16 (2 * j) t" and "D16 (Suc (2 * i)) s = D16 (Suc (2 * j)) t"
  shows "D32 (of_nat i) s = D32 (of_nat j) t"
proof -
  have "lane k (psxCP2D s (of_nat i)) = (lane k (psxCP2D t (of_nat j)) :: u16)" if "k < 2" for k
    using that assms by (auto simp: D16_def less_2_cases_iff intro: signed_word_eqI)
  then have "psxCP2D s (of_nat i) = psxCP2D t (of_nat j)"
    by (rule lane_eqI [where N = 2, rotated]) simp_all
  then show ?thesis by (simp add: D32_def)
qed

section \<open>Statements that limit a value\<close>

definition limited :: "int \<Rightarrow> int \<Rightarrow> int \<Rightarrow> int" where "limited lo hi x = max lo (min hi x)"

lemma limited_bounds: "lo \<le> hi \<Longrightarrow> lo \<le> limited lo hi x" "lo \<le> hi \<Longrightarrow> limited lo hi x \<le> hi"
  by (auto simp: limited_def)

lemma set_LIMX:
  "lo \<le> hi \<Longrightarrow> gte_set w (\<lambda>s. LIMX lo hi b (x s) s) s = w (limited lo hi (x s)) (snd (LIMX lo hi b (x s) s))"
  by (auto simp: gte_set_def LIMX_def limited_def)

lemma set_OVERFLOW:
  "gte_set w (\<lambda>s. FNC_OVERFLOW n p (x s) s) s = w (i32 (x s)) (snd (FNC_OVERFLOW n p (x s) s))"
  by (simp add: gte_set_def FNC_OVERFLOW_def)

lemma data_of_flags:
  "psxCP2D (or_gteFLAG b s) = psxCP2D s" "psxCP2D (set_gteFLAG F s) = psxCP2D s"
  "psxCP2D (SUM_FLAG s) = psxCP2D s" "psxCP2D (snd (LIMX lo hi b x s)) = psxCP2D s"
  "psxCP2D (snd (FNC_OVERFLOW n p x s)) = psxCP2D s" "psxCP2D (snd (rtps_fdsz n s)) = psxCP2D s"
  by (simp_all add: or_gteFLAG_def set_gteFLAG_def SUM_FLAG_def LIMX_def FNC_OVERFLOW_def rtps_fdsz_def Let_def)

lemma view_cong:
  assumes "psxCP2D t = psxCP2D s"
  shows "D32 r t = D32 r s" and "D16 k t = D16 k s" and "Du16 k t = Du16 k s"
  by (simp_all add: D32_def D16_def Du16_def assms)

lemmas flag_views = data_of_flags [THEN view_cong(1)] data_of_flags [THEN view_cong(2)] data_of_flags [THEN view_cong(3)]

text \<open>The inputs that no operation writes.\<close>

lemma rest_control: "gte_rest t = gte_rest s \<Longrightarrow> r \<noteq> 31 \<Longrightarrow> psxCP2C t r = psxCP2C s r"
  by (drule arg_cong [where f = psxCP2C], drule fun_cong [where x = r]) (simp add: gte_rest_def)

lemma rest_vector: "gte_rest t = gte_rest s \<Longrightarrow> r < 6 \<Longrightarrow> psxCP2D t r = psxCP2D s r"
  by (drule arg_cong [where f = psxCP2D], drule fun_cong [where x = r]) (simp add: gte_rest_def)

section \<open>The perspective transformation in exact arithmetic\<close>

text \<open>
  Row \<open>i\<close> of the transformed vertex \<open>n\<close>, its depth, the quotient of the projection, the
  screen coordinates and the depth cue.
\<close>

definition vertex_mac :: "nat \<Rightarrow> nat \<Rightarrow> psxRegisters \<Rightarrow> int" where
  "vertex_mac n i s =
     i32 (i32 (gteRm i 1 s * gteVX n s + gteRm i 2 s * gteVY n s + gteRm i 3 s * gteVZ n s) div 4096 + C32 (of_nat (4 + i)) s)"
definition vertex_ir :: "nat \<Rightarrow> nat \<Rightarrow> psxRegisters \<Rightarrow> int" where
  "vertex_ir n i s = limited (- 32768) 32767 (vertex_mac n i s)"
definition vertex_sz :: "nat \<Rightarrow> psxRegisters \<Rightarrow> int" where
  "vertex_sz n s = limited 0 65535 (vertex_mac n 3 s)"
definition vertex_q :: "nat \<Rightarrow> psxRegisters \<Rightarrow> int" where
  "vertex_q n s = (if vertex_sz n s = 0 then 131072 else min 131072 (gteH s * 65536 div vertex_sz n s))"
definition vertex_sx :: "nat \<Rightarrow> psxRegisters \<Rightarrow> int" where
  "vertex_sx n s = limited (- 1024) 1023 ((gteOFX s + vertex_ir n 1 s * vertex_q n s) div 65536)"
definition vertex_sy :: "nat \<Rightarrow> psxRegisters \<Rightarrow> int" where
  "vertex_sy n s = limited (- 1024) 1023 ((gteOFY s + vertex_ir n 2 s * vertex_q n s) div 65536)"
definition vertex_cue :: "nat \<Rightarrow> psxRegisters \<Rightarrow> int" where
  "vertex_cue n s = gteDQB s + gteDQA s * vertex_q n s"

lemmas vertex_defs = vertex_mac_def vertex_ir_def vertex_sz_def vertex_q_def vertex_sx_def vertex_sy_def vertex_cue_def

lemma vertex_rest:
  assumes "gte_rest t = gte_rest s" and "n \<le> 2"
  shows "i \<in> {1, 2, 3} \<Longrightarrow> vertex_mac n i t = vertex_mac n i s"
    and "gteH t = gteH s" and "gteOFX t = gteOFX s" and "gteOFY t = gteOFY s" and "gteDQA t = gteDQA s" and "gteDQB t = gteDQB s"
  using assms(2) rest_control [OF assms(1)] rest_vector [OF assms(1)]
  by (auto simp: vertex_mac_def gteRm_def gteVX_def gteVY_def gteVZ_def gteH_def gteOFX_def gteOFY_def gteDQA_def gteDQB_def
      C32_def C16_def Cu16_def D16_def le2_cases)

lemma vertex_rest_all:
  assumes "gte_rest t = gte_rest s" and "n \<le> 2"
  shows "i \<in> {1, 2, 3} \<Longrightarrow> vertex_ir n i t = vertex_ir n i s" and "vertex_sz n t = vertex_sz n s"
    and "vertex_q n t = vertex_q n s" and "vertex_sx n t = vertex_sx n s" and "vertex_sy n t = vertex_sy n s"
    and "vertex_cue n t = vertex_cue n s"
  by (simp_all add: vertex_defs(2-) vertex_rest [OF assms])

section \<open>The macros\<close>

lemma i32_c_long: "- 9223372036854775808 \<le> x \<Longrightarrow> x < 9223372036854775808 \<Longrightarrow> i32 (c_long h x) = i32 x"
  by (simp add: c_long_def i64_id) (simp add: i32_def)

lemma vertex_mac_row:
  assumes "i \<in> {1, 2, 3}"
  shows "i32 (rtps_row h n i (of_nat i) s) = vertex_mac n i s"
proof -
  let ?d = "i32 (gteRm i 1 s * gteVX n s + gteRm i 2 s * gteVY n s + gteRm i 3 s * gteVZ n s)"
  let ?T = "gteTR (of_nat i) s"
  have "- 2147483648 \<le> drop_bit 12 ?d" "drop_bit 12 ?d < 2147483648"
    using drop_bit_range [where x = ?d and lo = "- 2147483648" and hi = 2147483648 and n = 12] i32_bounds by auto
  moreover have "- 2147483648 \<le> ?T" "?T < 2147483648"
    by (simp_all add: gteTR_def C32_def sint32_range)
  ultimately have "i32 (c_long h (drop_bit 12 ?d + ?T)) = i32 (drop_bit 12 ?d + ?T)"
    by (intro i32_c_long) linarith+
  then show ?thesis
    using assms by (auto simp: rtps_row_def vertex_mac_def dot3_def gteTR_def drop_bit_eq_div)
qed

lemma vertex_mac_i32: "i32 (vertex_mac n i s) = vertex_mac n i s"
  by (simp add: vertex_mac_def i32_def)

lemmas RTPS1_unfold = GTE_RTPS1_def gte_run.simps FNC_OVERFLOW1_def FNC_OVERFLOW2_def FNC_OVERFLOW3_def set_OVERFLOW
  set_gteMAC_def

lemma RTPS1_other:
  "r \<notin> {25, 26, 27} \<Longrightarrow> D32 r (GTE_RTPS1 h n s) = D32 r s"
  "k < 50 \<Longrightarrow> of_nat (k div 2) \<notin> {25, 26, 27 :: 5 word} \<Longrightarrow> D16 k (GTE_RTPS1 h n s) = D16 k s"
  "k < 50 \<Longrightarrow> of_nat (k div 2) \<notin> {25, 26, 27 :: 5 word} \<Longrightarrow> Du16 k (GTE_RTPS1 h n s) = Du16 k s"
  by (simp_all add: RTPS1_unfold D32_wD32 D16_wD32 Du16_wD32 flag_views)

lemma rtps_row_rest:
  assumes "gte_rest t = gte_rest s" and "n \<le> 2" and "i \<in> {1, 2, 3}"
  shows "i32 (rtps_row h n i (of_nat i) t) = vertex_mac n i s"
  using assms by (simp only: vertex_mac_row vertex_rest(1) [OF assms])

lemma RTPS1_mac:
  assumes "n \<le> 2"
  shows "D32 25 (GTE_RTPS1 h n s) = vertex_mac n 1 s" and "D32 26 (GTE_RTPS1 h n s) = vertex_mac n 2 s"
    and "D32 27 (GTE_RTPS1 h n s) = vertex_mac n 3 s"
proof -
  let ?s1 = "set_gteMAC 1 (i32 (rtps_row h n 1 1 s)) (snd (FNC_OVERFLOW 29 26 (rtps_row h n 1 1 s) s))"
  let ?s2 = "set_gteMAC 2 (i32 (rtps_row h n 2 2 ?s1)) (snd (FNC_OVERFLOW 28 25 (rtps_row h n 2 2 ?s1) ?s1))"
  have f1: "gte_rest ?s1 = gte_rest s"
    by (rule gte_frame.mac, rule gte_frame.OVERFLOW_kept) simp_all
  have f2: "gte_rest ?s2 = gte_rest s"
    by (rule gte_frame.mac, rule gte_frame.OVERFLOW_kept) (use f1 in simp_all)
  note r = vertex_mac_row [of 1 h n s] rtps_row_rest [OF f1 assms, of 2 h] rtps_row_rest [OF f2 assms, of 3 h]
  have e: "GTE_RTPS1 h n s = set_gteMAC 3 (i32 (rtps_row h n 3 3 ?s2)) (snd (FNC_OVERFLOW 27 24 (rtps_row h n 3 3 ?s2) ?s2))"
    by (simp add: RTPS1_unfold)
  note i = vertex_mac_i32
  show "D32 25 (GTE_RTPS1 h n s) = vertex_mac n 1 s"
    unfolding e using r by (simp add: set_gteMAC_def D32_wD32 flag_views i)
  show "D32 26 (GTE_RTPS1 h n s) = vertex_mac n 2 s"
    unfolding e using r by (simp add: set_gteMAC_def D32_wD32 flag_views i)
  show "D32 27 (GTE_RTPS1 h n s) = vertex_mac n 3 s"
    unfolding e using r by (simp add: set_gteMAC_def D32_wD32 flag_views i)
qed

lemma i32_clamp: "- 2147483648 \<le> lo \<Longrightarrow> lo \<le> hi \<Longrightarrow> hi < 2147483648 \<Longrightarrow> i32 (limited lo hi x) = limited lo hi x"
  by (rule i32_id) (auto simp: limited_def)

lemma MAC2IR_view:
  "D32 9 (MAC2IR s) = limited (- 32768) 32767 (D32 25 s)"
  "D32 10 (MAC2IR s) = limited (- 32768) 32767 (D32 26 s)"
  "D32 11 (MAC2IR s) = limited (- 32768) 32767 (D32 27 s)"
  "r \<notin> {9, 10, 11} \<Longrightarrow> D32 r (MAC2IR s) = D32 r s"
  "of_nat (k div 2) \<notin> {9, 10, 11 :: 5 word} \<Longrightarrow> D16 k (MAC2IR s) = D16 k s"
  "of_nat (k div 2) \<notin> {9, 10, 11 :: 5 word} \<Longrightarrow> Du16 k (MAC2IR s) = Du16 k s"
  by (simp_all add: MAC2IR_def mac_to_ir_def set_LIMX set_gteIR_def gteMAC_def D32_wD32 D16_wD32 Du16_wD32 flag_views i32_clamp)

lemma fdsz_value:
  "fst (rtps_fdsz n s) = (if gteSZ n s = 0 then 131072 else min 131072 (gteH s * 65536 div gteSZ n s))"
proof -
  have "push_bit 32 (gteH s) div push_bit 16 (gteSZ n s) = gteH s * 65536 div gteSZ n s"
    using div_mult_mult1 [of 65536 "gteH s * 65536" "gteSZ n s"] by (simp add: push_bit_eq_mult mult.commute)
  then show ?thesis by (simp add: rtps_fdsz_def Let_def min_def)
qed

lemma vertex_q_bounds: "0 \<le> vertex_q n s" "vertex_q n s \<le> 131072"
proof -
  have "0 \<le> gteH s" by (simp add: gteH_def Cu16_def)
  moreover have "0 \<le> vertex_sz n s" by (simp add: vertex_sz_def limited_def)
  ultimately show "0 \<le> vertex_q n s" "vertex_q n s \<le> 131072"
    by (simp_all add: vertex_q_def pos_imp_zdiv_nonneg_iff)
qed

lemma product_bounds:
  fixes a b :: int
  assumes "- A \<le> a" and "a \<le> A" and "0 \<le> b" and "b \<le> B"
  shows "- (A * B) \<le> a * b" and "a * b \<le> A * B"
proof -
  have "\<bar>a * b\<bar> \<le> A * B"
    using assms by (auto simp: abs_mult intro!: mult_mono)
  then show "- (A * B) \<le> a * b" "a * b \<le> A * B" by linarith+
qed

text \<open>The 64-bit product does not overflow, and the shift undoes the one before it.\<close>

lemma screen_value:
  assumes "- 32768 \<le> a" and "a \<le> 32767" and "0 \<le> q" and "q \<le> 131072"
  shows "drop_bit 16 (x + drop_bit 16 (i64 (push_bit 16 a * q))) = (x + a * q) div 65536"
proof -
  have "- (32768 * 131072) \<le> a * q" "a * q \<le> 32768 * 131072"
    using product_bounds [of 32768 a q 131072] assms by linarith+
  then have i: "i64 (65536 * (a * q)) = 65536 * (a * q)" by (intro i64_id) linarith+
  have p: "push_bit 16 a * q = 65536 * (a * q)" by (simp add: push_bit_eq_mult)
  show ?thesis unfolding p i by (simp add: drop_bit_eq_div)
qed

lemma set_FlimG:
  "gte_set w (\<lambda>s. FlimG b (x s) s) s = w (limited (- 1024) 1023 (x s)) (snd (FlimG b (x s) s))"
  by (auto simp: gte_set_def FlimG_def LIMX_def limited_def)

lemma data_of_FlimG: "psxCP2D (snd (FlimG b x s)) = psxCP2D s"
  by (simp add: FlimG_def data_of_flags)

lemmas G_views = data_of_FlimG [THEN view_cong(1)] data_of_FlimG [THEN view_cong(2)] data_of_FlimG [THEN view_cong(3)]

lemma i16_clamp: "- 32768 \<le> lo \<Longrightarrow> lo \<le> hi \<Longrightarrow> hi < 32768 \<Longrightarrow> i16 (limited lo hi x) = limited lo hi x"
  by (rule i16_id) (auto simp: limited_def)

lemma RTPS2_other:
  assumes "n \<le> 2"
  shows "r \<noteq> of_nat (12 + n) \<Longrightarrow> D32 r (snd (GTE_RTPS2 n s)) = D32 r s"
    and "k < 64 \<Longrightarrow> k \<notin> {24 + 2 * n, 25 + 2 * n} \<Longrightarrow> D16 k (snd (GTE_RTPS2 n s)) = D16 k s"
    and "k < 64 \<Longrightarrow> k \<notin> {24 + 2 * n, 25 + 2 * n} \<Longrightarrow> Du16 k (snd (GTE_RTPS2 n s)) = Du16 k s"
  using assms
  by (auto simp: GTE_RTPS2_def split_beta FlimG1_def FlimG2_def set_FlimG set_gteSX_def set_gteSY_def le2_cases
      D32_wD16 D16_wD16 Du16_wD16 G_views flag_views)

lemma RTPS2_screen:
  assumes n: "n \<le> 2" and m: "m \<le> 2" and rest: "gte_rest s = gte_rest s0" and sz: "gteSZ n s = vertex_sz m s0"
    and ir: "D32 9 s = vertex_ir m 1 s0" "D32 10 s = vertex_ir m 2 s0"
  shows "fst (GTE_RTPS2 n s) = vertex_q m s0"
    and "D16 (24 + 2 * n) (snd (GTE_RTPS2 n s)) = vertex_sx m s0"
    and "D16 (25 + 2 * n) (snd (GTE_RTPS2 n s)) = vertex_sy m s0"
proof -
  note v = vertex_rest [OF rest m]
  have q: "fst (rtps_fdsz n s) = vertex_q m s0"
    by (simp add: fdsz_value vertex_q_def sz v)
  let ?s1 = "snd (rtps_fdsz n s)"
  let ?x = "\<lambda>s. drop_bit 16 (gteOFX s + drop_bit 16 (i64 (push_bit 16 (gteIR 1 s) * vertex_q m s0)))"
  let ?y = "\<lambda>s. drop_bit 16 (gteOFY s + drop_bit 16 (i64 (push_bit 16 (gteIR 2 s) * vertex_q m s0)))"
  let ?s2 = "set_gteSX n (limited (- 1024) 1023 (?x ?s1)) (snd (FlimG 14 (?x ?s1) ?s1))"
  have e: "snd (GTE_RTPS2 n s) = set_gteSY n (limited (- 1024) 1023 (?y ?s2)) (snd (FlimG 13 (?y ?s2) ?s2))"
    by (simp add: GTE_RTPS2_def split_beta q FlimG1_def FlimG2_def set_FlimG)
  have r1: "gte_rest ?s1 = gte_rest s0" using gte_frame.fdsz_kept [OF rest, of n] by simp
  have r2: "gte_rest ?s2 = gte_rest s0"
    by (rule gte_frame.sx, rule gte_frame.FlimG_kept) (use r1 n in simp_all)
  have irb: "- 32768 \<le> vertex_ir m i s0" "vertex_ir m i s0 \<le> 32767" for i by (simp_all add: vertex_ir_def limited_def)
  note sv = screen_value [OF irb vertex_q_bounds]
  have i1: "gteIR 1 ?s1 = vertex_ir m 1 s0" by (simp add: gteIR_def flag_views ir)
  have i2: "gteIR 2 ?s2 = vertex_ir m 2 s0"
    using n by (auto simp: gteIR_def set_gteSX_def D32_wD16 G_views flag_views ir le2_cases)
  have X: "limited (- 1024) 1023 (?x ?s1) = vertex_sx m s0"
    using i1 vertex_rest(3) [OF r1 m] by (simp add: sv vertex_sx_def)
  have Y: "limited (- 1024) 1023 (?y ?s2) = vertex_sy m s0"
    using i2 vertex_rest(4) [OF r2 m] by (simp add: sv vertex_sy_def)
  have b: "i16 (vertex_sx m s0) = vertex_sx m s0" "i16 (vertex_sy m s0) = vertex_sy m s0"
    by (simp_all add: vertex_sx_def vertex_sy_def i16_clamp)
  show "fst (GTE_RTPS2 n s) = vertex_q m s0" by (simp add: GTE_RTPS2_def split_beta q)
  show "D16 (24 + 2 * n) (snd (GTE_RTPS2 n s)) = vertex_sx m s0"
    unfolding e [unfolded Y] using n by (auto simp: set_gteSX_def set_gteSY_def D16_wD16 G_views X b le2_cases)
  show "D16 (25 + 2 * n) (snd (GTE_RTPS2 n s)) = vertex_sy m s0"
    unfolding e [unfolded Y] using n by (auto simp: set_gteSY_def D16_wD16 G_views b le2_cases)
qed

text \<open>The depth cue.\<close>

lemma set_FlimE:
  "gte_set w (FlimE x) s = w (limited 0 65535 (i32 x)) (snd (LIMX 0 65535 12 (i32 x) s))"
  by (auto simp: gte_set_def FlimE_def LIMX_def limited_def)

lemma RTPS3_other:
  "r \<notin> {8, 24} \<Longrightarrow> D32 r (GTE_RTPS3 f s) = D32 r s"
  "of_nat (k div 2) \<notin> {8, 24 :: 5 word} \<Longrightarrow> D16 k (GTE_RTPS3 f s) = D16 k s"
  "of_nat (k div 2) \<notin> {8, 24 :: 5 word} \<Longrightarrow> Du16 k (GTE_RTPS3 f s) = Du16 k s"
  by (simp_all add: GTE_RTPS3_def Let_def set_FlimE set_gteIR_def set_gteMAC_def D32_wD32 D16_wD32 Du16_wD32 flag_views)

lemma cue_bounds: "- 6442450944 \<le> vertex_cue n s" "vertex_cue n s \<le> 6442450944"
proof -
  have "- 32768 \<le> gteDQA s" "gteDQA s < 32768"
    using sint_bounds [of "lane (54 mod 2) (psxCP2C s (of_nat (54 div 2))) :: u16"] by (simp_all add: gteDQA_def C16_def)
  then have "- (32768 * 131072) \<le> gteDQA s * vertex_q n s" "gteDQA s * vertex_q n s \<le> 32768 * 131072"
    using product_bounds [of 32768 "gteDQA s" "vertex_q n s" 131072] vertex_q_bounds [of n s] by linarith+
  moreover have "- 2147483648 \<le> gteDQB s" "gteDQB s < 2147483648"
    by (simp_all add: gteDQB_def C32_def sint32_range)
  ultimately show "- 6442450944 \<le> vertex_cue n s" "vertex_cue n s \<le> 6442450944"
    by (simp_all add: vertex_cue_def)
qed

lemma RTPS3_cue:
  assumes n: "n \<le> 2" and rest: "gte_rest s = gte_rest s0"
  shows "D32 24 (GTE_RTPS3 (vertex_q n s0) s) = i32 (vertex_cue n s0)"
    and "D32 8 (GTE_RTPS3 (vertex_q n s0) s) = limited 0 65535 (vertex_cue n s0 div 4096)"
proof -
  let ?q = "vertex_q n s0"
  have v: "gteDQA s = gteDQA s0" "gteDQB s = gteDQB s0" using vertex_rest [OF rest n] by simp_all
  have "- 32768 \<le> gteDQA s0" "gteDQA s0 < 32768"
    using sint_bounds [of "lane (54 mod 2) (psxCP2C s0 (of_nat (54 div 2))) :: u16"] by (simp_all add: gteDQA_def C16_def)
  then have "- (32768 * 131072) \<le> gteDQA s0 * ?q" "gteDQA s0 * ?q \<le> 32768 * 131072"
    using product_bounds [of 32768 "gteDQA s0" ?q 131072] vertex_q_bounds [of n s0] by linarith+
  then have i: "i64 (256 * (gteDQA s0 * ?q)) = 256 * (gteDQA s0 * ?q)" by (intro i64_id) linarith+
  have p: "push_bit 8 (gteDQA s0) * ?q = 256 * (gteDQA s0 * ?q)" by (simp add: push_bit_eq_mult)
  have "i64 (gteDQB s0 + drop_bit 8 (i64 (push_bit 8 (gteDQA s0) * ?q))) = i64 (vertex_cue n s0)"
    unfolding p i by (simp add: drop_bit_eq_div vertex_cue_def)
  moreover have "i64 (vertex_cue n s0) = vertex_cue n s0"
    using cue_bounds [of n s0] by (intro i64_id) linarith+
  ultimately have f: "i64 (gteDQB s + drop_bit 8 (i64 (push_bit 8 (gteDQA s) * ?q))) = vertex_cue n s0"
    by (simp add: v)
  have "i32 (vertex_cue n s0 div 4096) = vertex_cue n s0 div 4096"
    using cue_bounds [of n s0] by (intro i32_id) linarith+
  then show "D32 24 (GTE_RTPS3 ?q s) = i32 (vertex_cue n s0)"
    and "D32 8 (GTE_RTPS3 ?q s) = limited 0 65535 (vertex_cue n s0 div 4096)"
    unfolding GTE_RTPS3_def Let_def f
    by (simp_all add: set_FlimE set_gteIR_def set_gteMAC_def D32_wD32 flag_views drop_bit_eq_div i32_clamp)
qed

section \<open>One vertex\<close>

text \<open>The registers before the projection of the screen coordinates.\<close>

definition rtps_push :: "gte_host \<Rightarrow> gte_stm" where
  "rtps_push h = gte_run
     [set_gteFLAG 0, GTE_RTPS1 h 0, MAC2IR,
      (\<lambda>s. set_gteSZx (gteSZ 0 s) s), (\<lambda>s. set_gteSZ 0 (gteSZ 1 s) s), (\<lambda>s. set_gteSZ 1 (gteSZ 2 s) s),
      gte_set (set_gteSZ 2) (\<lambda>s. FlimC (gteMAC 3 s) s),
      (\<lambda>s. set_gteSXY 0 (gteSXY 1 s) s), (\<lambda>s. set_gteSXY 1 (gteSXY 2 s) s)]"

lemma set_FlimC:
  "gte_set w (\<lambda>s. FlimC (x s) s) s = w (limited 0 65535 (i32 (x s))) (snd (LIMX 0 65535 18 (i32 (x s)) s))"
  by (auto simp: gte_set_def FlimC_def LIMX_def limited_def)

lemma Du16_clamp: "uint (word_of_int (limited 0 65535 x) :: u16) = limited 0 65535 x"
  by (rule uint_u16) (auto simp: limited_def)

lemma Du16_id: "uint (word_of_int (Du16 k s) :: u16) = Du16 k s"
  by (simp add: Du16_def)

lemma D32_id: "i32 (D32 r s) = D32 r s"
  unfolding D32_def by (rule i32_id) (simp_all add: sint32_range)

lemmas gte_views = set_gteSZ_def set_gteSZx_def gteSZ_def gteSZx_def set_gteSXY_def gteSXY_def gteMAC_def gteIR_def
  D32_wD32 D32_wD16 D16_wD16 D16_wD32 Du16_wD16 Du16_wD32 RTPS1_other MAC2IR_view flag_views

lemma rtps_push_views:
  "D32 25 (rtps_push h s) = vertex_mac 0 1 s" "D32 26 (rtps_push h s) = vertex_mac 0 2 s" "D32 27 (rtps_push h s) = vertex_mac 0 3 s"
  "D32 9 (rtps_push h s) = vertex_ir 0 1 s" "D32 10 (rtps_push h s) = vertex_ir 0 2 s" "D32 11 (rtps_push h s) = vertex_ir 0 3 s"
  "Du16 32 (rtps_push h s) = gteSZ 0 s" "Du16 34 (rtps_push h s) = gteSZ 1 s" "Du16 36 (rtps_push h s) = gteSZ 2 s"
  "Du16 38 (rtps_push h s) = vertex_sz 0 s"
  "D32 12 (rtps_push h s) = gteSXY 1 s" "D32 13 (rtps_push h s) = gteSXY 2 s"
proof -
  have m: "vertex_mac 0 i (set_gteFLAG 0 s) = vertex_mac 0 i s" if "i \<in> {1, 2, 3}" for i
    using vertex_rest(1) [OF gte_frame.clear [OF refl], of 0 i s] that by simp
  note mac = RTPS1_mac [of 0 h "set_gteFLAG 0 s", simplified m, simplified]
  show "D32 25 (rtps_push h s) = vertex_mac 0 1 s" "D32 26 (rtps_push h s) = vertex_mac 0 2 s"
    "D32 27 (rtps_push h s) = vertex_mac 0 3 s"
    by (simp_all add: rtps_push_def set_FlimC gte_views mac m)
  show "D32 9 (rtps_push h s) = vertex_ir 0 1 s" "D32 10 (rtps_push h s) = vertex_ir 0 2 s" "D32 11 (rtps_push h s) = vertex_ir 0 3 s"
    by (simp_all add: rtps_push_def set_FlimC gte_views mac m vertex_ir_def)
  show "Du16 32 (rtps_push h s) = gteSZ 0 s" "Du16 34 (rtps_push h s) = gteSZ 1 s" "Du16 36 (rtps_push h s) = gteSZ 2 s"
    "D32 12 (rtps_push h s) = gteSXY 1 s" "D32 13 (rtps_push h s) = gteSXY 2 s"
    by (simp_all add: rtps_push_def set_FlimC gte_views Du16_id D32_id)
  show "Du16 38 (rtps_push h s) = vertex_sz 0 s"
    by (simp add: rtps_push_def set_FlimC gte_views mac m vertex_sz_def Du16_clamp vertex_mac_i32)
qed

lemma rtps_push_rest: "gte_rest (rtps_push h s) = gte_rest s"
  by (auto simp: rtps_push_def
      intro!: gte_frame.clear gte_frame.RTPS1_kept gte_frame.szx gte_frame.sz gte_frame.sxy gte_frame.depth_kept
        conjunct1 [OF gte_frame.MAC2IR_kept])

lemma gteRTPS_stages:
  "gteRTPS h s = (let s1 = rtps_push h s
     in SUM_FLAG (GTE_RTPS3 (fst (GTE_RTPS2 2 s1)) (set_gteSXYP (gteSXY 2 (snd (GTE_RTPS2 2 s1))) (snd (GTE_RTPS2 2 s1)))))"
  by (simp add: gteRTPS_def rtps_push_def split_beta Let_def)

text \<open>The last part of \<open>gteRTPS\<close> and of \<open>gteRTPT\<close>: the third vertex on the screen, and the cue.\<close>

definition rtps_end :: gte_stm where
  "rtps_end s =
     (case GTE_RTPS2 2 s of (FDSZ, s1) \<Rightarrow> gte_run [(\<lambda>s. set_gteSXYP (gteSXY 2 s) s), GTE_RTPS3 FDSZ, SUM_FLAG] s1)"

lemma gteRTPS_end: "gteRTPS h s = rtps_end (rtps_push h s)"
  by (simp add: gteRTPS_def rtps_push_def rtps_end_def)

lemma rtps_end_other:
  "r \<notin> {8, 14, 15, 24} \<Longrightarrow> D32 r (rtps_end s) = D32 r s"
  "k < 48 \<Longrightarrow> of_nat (k div 2) \<notin> {8, 14, 15 :: 5 word} \<Longrightarrow> D16 k (rtps_end s) = D16 k s"
  "k < 48 \<Longrightarrow> of_nat (k div 2) \<notin> {8, 14, 15 :: 5 word} \<Longrightarrow> Du16 k (rtps_end s) = Du16 k s"
proof -
  have k: "k \<noteq> 28 \<and> k \<noteq> 29 \<and> of_nat (k div 2) \<noteq> (24 :: 5 word)"
    if "k < 48" "of_nat (k div 2) \<notin> {8, 14, 15 :: 5 word}"
    using that by (auto simp: half_index [of k 48, simplified])
  note v = rtps_end_def split_beta set_gteSXYP_def RTPS3_other D32_wD32 D16_wD32 Du16_wD32 RTPS2_other flag_views
  show "r \<notin> {8, 14, 15, 24} \<Longrightarrow> D32 r (rtps_end s) = D32 r s"
    by (simp add: v)
  show "k < 48 \<Longrightarrow> of_nat (k div 2) \<notin> {8, 14, 15 :: 5 word} \<Longrightarrow> D16 k (rtps_end s) = D16 k s"
    using k by (simp add: v)
  show "k < 48 \<Longrightarrow> of_nat (k div 2) \<notin> {8, 14, 15 :: 5 word} \<Longrightarrow> Du16 k (rtps_end s) = Du16 k s"
    using k by (simp add: v)
qed

lemma rtps_end_result:
  assumes m: "m \<le> 2" and rest: "gte_rest s = gte_rest s0" and sz: "gteSZ 2 s = vertex_sz m s0"
    and ir: "D32 9 s = vertex_ir m 1 s0" "D32 10 s = vertex_ir m 2 s0"
  shows "gteSX 2 (rtps_end s) = vertex_sx m s0" and "gteSY 2 (rtps_end s) = vertex_sy m s0"
    and "D32 15 (rtps_end s) = D32 14 (rtps_end s)"
    and "D32 24 (rtps_end s) = i32 (vertex_cue m s0)"
    and "D32 8 (rtps_end s) = limited 0 65535 (vertex_cue m s0 div 4096)"
proof -
  let ?t = "snd (GTE_RTPS2 2 s)"
  note r = RTPS2_screen [OF order_refl m rest sz ir]
  have "gte_rest ?t = gte_rest s0" by (rule gte_frame.RTPS2_kept) (simp_all add: rest)
  then have t: "gte_rest (set_gteSXYP (gteSXY 2 ?t) ?t) = gte_rest s0" by (rule gte_frame.sxyp)
  note c = RTPS3_cue [OF m t]
  note v = rtps_end_def split_beta r(1) RTPS3_other D32_wD32 D16_wD32 flag_views
  show "gteSX 2 (rtps_end s) = vertex_sx m s0" "gteSY 2 (rtps_end s) = vertex_sy m s0"
    using r by (simp_all add: v gteSX_def gteSY_def set_gteSXYP_def)
  show "D32 15 (rtps_end s) = D32 14 (rtps_end s)"
    by (simp add: v set_gteSXYP_def gteSXY_def D32_id)
  show "D32 24 (rtps_end s) = i32 (vertex_cue m s0)" "D32 8 (rtps_end s) = limited 0 65535 (vertex_cue m s0 div 4096)"
    using c by (simp_all add: v)
qed

lemma rtps_result:
  "gteMAC 1 (gteRTPS h s) = vertex_mac 0 1 s \<and> gteMAC 2 (gteRTPS h s) = vertex_mac 0 2 s \<and>
   gteMAC 3 (gteRTPS h s) = vertex_mac 0 3 s \<and>
   gteIR 1 (gteRTPS h s) = vertex_ir 0 1 s \<and> gteIR 2 (gteRTPS h s) = vertex_ir 0 2 s \<and>
   gteIR 3 (gteRTPS h s) = vertex_ir 0 3 s \<and>
   gteSZx (gteRTPS h s) = gteSZ 0 s \<and> gteSZ 0 (gteRTPS h s) = gteSZ 1 s \<and> gteSZ 1 (gteRTPS h s) = gteSZ 2 s \<and>
   gteSZ 2 (gteRTPS h s) = vertex_sz 0 s \<and>
   gteSXY 0 (gteRTPS h s) = gteSXY 1 s \<and> gteSXY 1 (gteRTPS h s) = gteSXY 2 s \<and>
   gteSX 2 (gteRTPS h s) = vertex_sx 0 s \<and> gteSY 2 (gteRTPS h s) = vertex_sy 0 s \<and>
   D32 15 (gteRTPS h s) = gteSXY 2 (gteRTPS h s) \<and>
   gteMAC 0 (gteRTPS h s) = i32 (vertex_cue 0 s) \<and> gteIR 0 (gteRTPS h s) = limited 0 65535 (vertex_cue 0 s div 4096)"
proof -
  have sz: "gteSZ 2 (rtps_push h s) = vertex_sz 0 s" by (simp add: gteSZ_def rtps_push_views)
  note e = rtps_end_result [OF _ rtps_push_rest sz rtps_push_views(4,5), simplified]
  show ?thesis
    unfolding gteRTPS_end using e
    by (simp add: gteMAC_def gteIR_def gteSZ_def gteSZx_def gteSXY_def rtps_end_other rtps_push_views [unfolded gteSZ_def gteSXY_def])
qed

text \<open>
  C21: \<open>gteRTPS\<close> on any host and any registers: the accumulators are the rows of the transformed
  vertex modulo \<open>2 ^ 32\<close>, the \<open>IR\<close> registers their saturations, the depth and the screen
  point enter their queues, and the screen point and the depth cue are those of the
  reference, computed without shifts and without overflow.
\<close>

theorem rtps_projects:
  "gteMAC 1 (gteRTPS h s) = vertex_mac 0 1 s \<and> gteMAC 2 (gteRTPS h s) = vertex_mac 0 2 s \<and>
   gteMAC 3 (gteRTPS h s) = vertex_mac 0 3 s \<and>
   gteIR 1 (gteRTPS h s) = vertex_ir 0 1 s \<and> gteIR 2 (gteRTPS h s) = vertex_ir 0 2 s \<and>
   gteIR 3 (gteRTPS h s) = vertex_ir 0 3 s \<and>
   gteSZx (gteRTPS h s) = gteSZ 0 s \<and> gteSZ 0 (gteRTPS h s) = gteSZ 1 s \<and> gteSZ 1 (gteRTPS h s) = gteSZ 2 s \<and>
   gteSZ 2 (gteRTPS h s) = vertex_sz 0 s \<and>
   gteSXY 0 (gteRTPS h s) = gteSXY 1 s \<and> gteSXY 1 (gteRTPS h s) = gteSXY 2 s \<and>
   gteSX 2 (gteRTPS h s) = vertex_sx 0 s \<and> gteSY 2 (gteRTPS h s) = vertex_sy 0 s \<and>
   D32 15 (gteRTPS h s) = gteSXY 2 (gteRTPS h s) \<and>
   gteMAC 0 (gteRTPS h s) = i32 (vertex_cue 0 s) \<and> gteIR 0 (gteRTPS h s) = limited 0 65535 (vertex_cue 0 s div 4096)"
  by (rule rtps_result)

section \<open>Three vertices\<close>

lemma rtpt_vertex_rest: "n \<le> 2 \<Longrightarrow> gte_rest (rtpt_vertex h n s) = gte_rest s"
  by (rule gte_frame.rtpt_vertex_kept) simp_all

lemma set_FlimA:
  "gte_set w (\<lambda>s. FlimA1S (x s) s) s = w (limited (- 32768) 32767 (i32 (x s))) (snd (LIMX (- 32768) 32767 24 (i32 (x s)) s))"
  "gte_set w (\<lambda>s. FlimA2S (x s) s) s = w (limited (- 32768) 32767 (i32 (x s))) (snd (LIMX (- 32768) 32767 23 (i32 (x s)) s))"
  by (auto simp: gte_set_def FlimA1S_def FlimA2S_def LIMX_def limited_def)

lemma rtpt_vertex_views:
  assumes n: "n \<le> 1" and rest: "gte_rest s = gte_rest s0"
  shows "D16 (24 + 2 * n) (rtpt_vertex h n s) = vertex_sx n s0" and "D16 (25 + 2 * n) (rtpt_vertex h n s) = vertex_sy n s0"
    and "Du16 (34 + 2 * n) (rtpt_vertex h n s) = vertex_sz n s0"
proof -
  have n2: "n \<le> 2" and nc: "n = 0 \<or> n = 1" using n by auto
  let ?s1 = "gte_run [GTE_RTPS1 h n, gte_set (set_gteSZ n) (\<lambda>s. FlimC (gteMAC 3 s) s),
      gte_set (set_gteIR 1) (\<lambda>s. FlimA1S (gteMAC 1 s) s), gte_set (set_gteIR 2) (\<lambda>s. FlimA2S (gteMAC 2 s) s)] s"
  have e: "rtpt_vertex h n s = snd (GTE_RTPS2 n ?s1)" by (simp add: rtpt_vertex_def)
  have m: "vertex_mac n i s = vertex_mac n i s0" if "i \<in> {1, 2, 3}" for i
    using vertex_rest(1) [OF rest n2 that] .
  note mac = RTPS1_mac [OF n2, of h s, simplified m, simplified]
  have r1: "gte_rest ?s1 = gte_rest s0"
    unfolding gte_run.simps FlimA1S_def FlimA2S_def
    using n2 by (auto intro!: gte_frame.set_ir_kept gte_frame.depth_kept gte_frame.RTPS1_kept rest)
  have "gteSZ n ?s1 = vertex_sz n s0" and ir: "D32 9 ?s1 = vertex_ir n 1 s0" "D32 10 ?s1 = vertex_ir n 2 s0"
    using nc mac by (auto simp: set_FlimC set_FlimA set_gteIR_def gte_views m vertex_mac_i32 Du16_clamp i32_clamp
        vertex_sz_def vertex_ir_def)
  note r = RTPS2_screen [OF n2 n2 r1 this]
  show "D16 (24 + 2 * n) (rtpt_vertex h n s) = vertex_sx n s0" "D16 (25 + 2 * n) (rtpt_vertex h n s) = vertex_sy n s0"
    unfolding e by (rule r)+
  show "Du16 (34 + 2 * n) (rtpt_vertex h n s) = vertex_sz n s0"
    unfolding e using \<open>gteSZ n ?s1 = vertex_sz n s0\<close> n by (simp add: RTPS2_other gteSZ_def mult.commute)
qed

lemma rtpt_vertex_other:
  assumes "n \<le> 1"
  shows "k \<in> {24, 25, 26, 27, 28, 29} \<Longrightarrow> k \<noteq> 24 + 2 * n \<Longrightarrow> k \<noteq> 25 + 2 * n \<Longrightarrow> D16 k (rtpt_vertex h n s) = D16 k s"
    and "k \<in> {32, 34, 36, 38} \<Longrightarrow> k \<noteq> 34 + 2 * n \<Longrightarrow> Du16 k (rtpt_vertex h n s) = Du16 k s"
proof -
  have "n = 0 \<or> n = 1" using assms by auto
  then show "k \<in> {24, 25, 26, 27, 28, 29} \<Longrightarrow> k \<noteq> 24 + 2 * n \<Longrightarrow> k \<noteq> 25 + 2 * n \<Longrightarrow> D16 k (rtpt_vertex h n s) = D16 k s"
    and "k \<in> {32, 34, 36, 38} \<Longrightarrow> k \<noteq> 34 + 2 * n \<Longrightarrow> Du16 k (rtpt_vertex h n s) = Du16 k s"
    by (auto simp: rtpt_vertex_def RTPS2_other set_FlimC set_FlimA set_gteIR_def gte_views)
qed

definition rtpt_push :: "gte_host \<Rightarrow> gte_stm" where
  "rtpt_push h = gte_run
     [set_gteFLAG 0, (\<lambda>s. set_gteSZx (gteSZ 2 s) s), rtpt_vertex h 0, rtpt_vertex h 1,
      GTE_RTPS1 h 2, MAC2IR, gte_set (set_gteSZ 2) (\<lambda>s. FlimC (gteMAC 3 s) s)]"

lemma gteRTPT_end: "gteRTPT h s = rtps_end (rtpt_push h s)"
  by (simp add: gteRTPT_def rtpt_push_def rtps_end_def)

lemma rtpt_push_views:
  "D32 25 (rtpt_push h s) = vertex_mac 2 1 s" "D32 26 (rtpt_push h s) = vertex_mac 2 2 s" "D32 27 (rtpt_push h s) = vertex_mac 2 3 s"
  "D32 9 (rtpt_push h s) = vertex_ir 2 1 s" "D32 10 (rtpt_push h s) = vertex_ir 2 2 s" "D32 11 (rtpt_push h s) = vertex_ir 2 3 s"
  "Du16 32 (rtpt_push h s) = gteSZ 2 s" "Du16 34 (rtpt_push h s) = vertex_sz 0 s" "Du16 36 (rtpt_push h s) = vertex_sz 1 s"
  "Du16 38 (rtpt_push h s) = vertex_sz 2 s"
  "D16 24 (rtpt_push h s) = vertex_sx 0 s" "D16 25 (rtpt_push h s) = vertex_sy 0 s"
  "D16 26 (rtpt_push h s) = vertex_sx 1 s" "D16 27 (rtpt_push h s) = vertex_sy 1 s"
  "gte_rest (rtpt_push h s) = gte_rest s"
proof -
  let ?a = "set_gteSZx (gteSZ 2 (set_gteFLAG 0 s)) (set_gteFLAG 0 s)"
  let ?b = "rtpt_vertex h 0 ?a" and ?c = "rtpt_vertex h 1 (rtpt_vertex h 0 ?a)"
  have e: "rtpt_push h s = gte_set (set_gteSZ 2) (\<lambda>s. FlimC (gteMAC 3 s) s) (MAC2IR (GTE_RTPS1 h 2 ?c))"
    by (simp add: rtpt_push_def)
  have a: "gte_rest ?a = gte_rest s" by (intro gte_frame.szx gte_frame.clear refl)
  have b: "gte_rest ?b = gte_rest s" using rtpt_vertex_rest [of 0 h ?a] a by simp
  have c: "gte_rest ?c = gte_rest s" using rtpt_vertex_rest [of 1 h ?b] b by simp
  have m: "vertex_mac 2 i ?c = vertex_mac 2 i s" if "i \<in> {1, 2, 3}" for i
    using vertex_rest(1) [OF c _ that, of 2] by simp
  note mac = RTPS1_mac [of 2 h ?c, simplified m, simplified]
  note v0 = rtpt_vertex_views [of 0 ?a s h, OF _ a, simplified] and v1 = rtpt_vertex_views [of 1 ?b s h, OF _ b, simplified]
  show "D32 25 (rtpt_push h s) = vertex_mac 2 1 s" "D32 26 (rtpt_push h s) = vertex_mac 2 2 s"
    "D32 27 (rtpt_push h s) = vertex_mac 2 3 s"
    unfolding e using mac m by (simp_all add: set_FlimC gte_views)
  show "D32 9 (rtpt_push h s) = vertex_ir 2 1 s" "D32 10 (rtpt_push h s) = vertex_ir 2 2 s" "D32 11 (rtpt_push h s) = vertex_ir 2 3 s"
    unfolding e using mac m by (simp_all add: set_FlimC gte_views vertex_ir_def)
  show "Du16 38 (rtpt_push h s) = vertex_sz 2 s"
    unfolding e using mac m by (simp add: set_FlimC gte_views vertex_sz_def Du16_clamp vertex_mac_i32)
  show "D16 24 (rtpt_push h s) = vertex_sx 0 s" "D16 25 (rtpt_push h s) = vertex_sy 0 s"
    "D16 26 (rtpt_push h s) = vertex_sx 1 s" "D16 27 (rtpt_push h s) = vertex_sy 1 s"
    unfolding e using v0 v1 by (simp_all add: set_FlimC gte_views rtpt_vertex_other)
  show "Du16 34 (rtpt_push h s) = vertex_sz 0 s" "Du16 36 (rtpt_push h s) = vertex_sz 1 s"
    unfolding e using v0 v1 by (simp_all add: set_FlimC gte_views rtpt_vertex_other)
  show "Du16 32 (rtpt_push h s) = gteSZ 2 s"
    unfolding e by (simp add: set_FlimC gte_views rtpt_vertex_other Du16_id)
  show "gte_rest (rtpt_push h s) = gte_rest s"
    unfolding e
    by (intro gte_frame.depth_kept conjunct1 [OF gte_frame.MAC2IR_kept] gte_frame.RTPS1_kept c) simp_all
qed

lemma rtpt_projects:
  "gteMAC 1 (gteRTPT h s) = vertex_mac 2 1 s" "gteMAC 2 (gteRTPT h s) = vertex_mac 2 2 s" "gteMAC 3 (gteRTPT h s) = vertex_mac 2 3 s"
  "gteIR 1 (gteRTPT h s) = vertex_ir 2 1 s" "gteIR 2 (gteRTPT h s) = vertex_ir 2 2 s" "gteIR 3 (gteRTPT h s) = vertex_ir 2 3 s"
  "gteSZx (gteRTPT h s) = gteSZ 2 s" "gteSZ 0 (gteRTPT h s) = vertex_sz 0 s" "gteSZ 1 (gteRTPT h s) = vertex_sz 1 s"
  "gteSZ 2 (gteRTPT h s) = vertex_sz 2 s"
  "gteSX 0 (gteRTPT h s) = vertex_sx 0 s" "gteSY 0 (gteRTPT h s) = vertex_sy 0 s"
  "gteSX 1 (gteRTPT h s) = vertex_sx 1 s" "gteSY 1 (gteRTPT h s) = vertex_sy 1 s"
  "gteSX 2 (gteRTPT h s) = vertex_sx 2 s" "gteSY 2 (gteRTPT h s) = vertex_sy 2 s"
  "D32 15 (gteRTPT h s) = D32 14 (gteRTPT h s)"
  "gteMAC 0 (gteRTPT h s) = i32 (vertex_cue 2 s)" "gteIR 0 (gteRTPT h s) = limited 0 65535 (vertex_cue 2 s div 4096)"
proof -
  have sz: "gteSZ 2 (rtpt_push h s) = vertex_sz 2 s" by (simp add: gteSZ_def rtpt_push_views)
  note e = rtps_end_result [OF order_refl rtpt_push_views(15) sz rtpt_push_views(4,5)]
  note v = gteMAC_def gteIR_def gteSZ_def gteSZx_def gteSX_def gteSY_def rtps_end_other
    rtpt_push_views [unfolded gteSZ_def]
  show "gteMAC 1 (gteRTPT h s) = vertex_mac 2 1 s" "gteMAC 2 (gteRTPT h s) = vertex_mac 2 2 s"
    "gteMAC 3 (gteRTPT h s) = vertex_mac 2 3 s"
    "gteIR 1 (gteRTPT h s) = vertex_ir 2 1 s" "gteIR 2 (gteRTPT h s) = vertex_ir 2 2 s" "gteIR 3 (gteRTPT h s) = vertex_ir 2 3 s"
    "gteSZx (gteRTPT h s) = gteSZ 2 s" "gteSZ 0 (gteRTPT h s) = vertex_sz 0 s" "gteSZ 1 (gteRTPT h s) = vertex_sz 1 s"
    "gteSZ 2 (gteRTPT h s) = vertex_sz 2 s"
    "gteSX 0 (gteRTPT h s) = vertex_sx 0 s" "gteSY 0 (gteRTPT h s) = vertex_sy 0 s"
    "gteSX 1 (gteRTPT h s) = vertex_sx 1 s" "gteSY 1 (gteRTPT h s) = vertex_sy 1 s"
    unfolding gteRTPT_end by (simp_all add: v)
  show "gteSX 2 (gteRTPT h s) = vertex_sx 2 s" "gteSY 2 (gteRTPT h s) = vertex_sy 2 s"
    "D32 15 (gteRTPT h s) = D32 14 (gteRTPT h s)"
    "gteMAC 0 (gteRTPT h s) = i32 (vertex_cue 2 s)" "gteIR 0 (gteRTPT h s) = limited 0 65535 (vertex_cue 2 s div 4096)"
    unfolding gteRTPT_end using e by (simp_all add: gteMAC_def gteIR_def)
qed

text \<open>Vector \<open>n\<close> moved to \<open>V0\<close>, as the program does before each single transformation.\<close>

definition load_vector :: "nat \<Rightarrow> gte_stm" where
  "load_vector n s = s\<lparr>psxCP2D := (psxCP2D s)(0 := psxCP2D s (of_nat (2 * n)), 1 := psxCP2D s (of_nat (2 * n + 1)))\<rparr>"

lemma load_vector_views:
  "r \<notin> {0, 1} \<Longrightarrow> D32 r (load_vector n s) = D32 r s"
  "4 \<le> k \<Longrightarrow> k < 64 \<Longrightarrow> Du16 k (load_vector n s) = Du16 k s"
proof -
  show "r \<notin> {0, 1} \<Longrightarrow> D32 r (load_vector n s) = D32 r s" by (simp add: load_vector_def D32_def)
  assume k: "4 \<le> k" "k < 64"
  then have "of_nat (k div 2) \<noteq> (0 :: 5 word)" "of_nat (k div 2) \<noteq> (1 :: 5 word)"
    using half_index [of k 0] half_index [of k 2] by auto
  then show "Du16 k (load_vector n s) = Du16 k s" by (simp add: load_vector_def Du16_def)
qed

lemma load_vector_mac: "n \<le> 2 \<Longrightarrow> vertex_mac 0 i (load_vector n s) = vertex_mac n i s"
  by (auto simp: vertex_mac_def load_vector_def le2_cases gteRm_def gteVX_def gteVY_def gteVZ_def C16_def C32_def D16_def)

lemma load_vector_vertex:
  assumes "n \<le> 2"
  shows "vertex_ir 0 i (load_vector n s) = vertex_ir n i s" "vertex_sz 0 (load_vector n s) = vertex_sz n s"
    "vertex_sx 0 (load_vector n s) = vertex_sx n s" "vertex_sy 0 (load_vector n s) = vertex_sy n s"
    "vertex_cue 0 (load_vector n s) = vertex_cue n s"
proof -
  have "gteH (load_vector n s) = gteH s" "gteOFX (load_vector n s) = gteOFX s" "gteOFY (load_vector n s) = gteOFY s"
    "gteDQA (load_vector n s) = gteDQA s" "gteDQB (load_vector n s) = gteDQB s"
    by (simp_all add: load_vector_def gteH_def gteOFX_def gteOFY_def gteDQA_def gteDQB_def Cu16_def C16_def C32_def)
  then show "vertex_ir 0 i (load_vector n s) = vertex_ir n i s" "vertex_sz 0 (load_vector n s) = vertex_sz n s"
    "vertex_sx 0 (load_vector n s) = vertex_sx n s" "vertex_sy 0 (load_vector n s) = vertex_sy n s"
    "vertex_cue 0 (load_vector n s) = vertex_cue n s"
    by (simp_all add: vertex_defs(2-) load_vector_mac [OF assms])
qed

text \<open>A vector that was not loaded yet is as it was.\<close>

lemma load_vector_keeps_2:
  "i \<in> {1, 2, 3} \<Longrightarrow> vertex_mac 2 i (load_vector (Suc 0) s) = vertex_mac 2 i s"
  "gteH (load_vector n s) = gteH s" "gteOFX (load_vector n s) = gteOFX s" "gteOFY (load_vector n s) = gteOFY s"
  "gteDQA (load_vector n s) = gteDQA s" "gteDQB (load_vector n s) = gteDQB s"
  by (auto simp: vertex_mac_def load_vector_def gteRm_def gteVX_def gteVY_def gteVZ_def C16_def C32_def D16_def Cu16_def
      gteH_def gteOFX_def gteOFY_def gteDQA_def gteDQB_def)

lemma load_vector_other:
  "i \<in> {1, 2, 3} \<Longrightarrow> vertex_ir 2 i (load_vector (Suc 0) s) = vertex_ir 2 i s"
  "vertex_sz 2 (load_vector (Suc 0) s) = vertex_sz 2 s" "vertex_sx 2 (load_vector (Suc 0) s) = vertex_sx 2 s"
  "vertex_sy 2 (load_vector (Suc 0) s) = vertex_sy 2 s" "vertex_cue 2 (load_vector (Suc 0) s) = vertex_cue 2 s"
  by (simp_all add: vertex_defs(2-) load_vector_keeps_2)

lemma gteRTPS_rest: "gte_rest (gteRTPS h s) = gte_rest s"
proof -
  have "summed (\<lambda>t. gte_rest t = gte_rest s) (gteRTPS h s)"
    by (rule gte_frame.RTPS) (simp_all add: gte_frame.f_vertex_def gte_frame.f_mac_def)
  then show ?thesis by (auto simp: summed_def SUM_FLAG_frame)
qed

lemma rtps_keeps_vertices:
  assumes "n \<le> 2"
  shows "i \<in> {1, 2, 3} \<Longrightarrow> vertex_mac n i (gteRTPS h s) = vertex_mac n i s"
    "i \<in> {1, 2, 3} \<Longrightarrow> vertex_ir n i (gteRTPS h s) = vertex_ir n i s"
    "vertex_sz n (gteRTPS h s) = vertex_sz n s" "vertex_sx n (gteRTPS h s) = vertex_sx n s"
    "vertex_sy n (gteRTPS h s) = vertex_sy n s" "vertex_cue n (gteRTPS h s) = vertex_cue n s"
  by (simp_all only: vertex_rest(1) [OF gteRTPS_rest assms] vertex_rest_all [OF gteRTPS_rest assms])

text \<open>
  The single transformation of a loaded vector, for a state whose vectors are those of \<open>s0\<close>:
  its screen point, and the queues it pushes.
\<close>

lemma rtps_loaded:
  assumes n: "n \<le> 2"
  shows "gteMAC 1 (gteRTPS h (load_vector n s)) = vertex_mac n 1 s" "gteMAC 2 (gteRTPS h (load_vector n s)) = vertex_mac n 2 s"
    "gteMAC 3 (gteRTPS h (load_vector n s)) = vertex_mac n 3 s"
    "gteIR 1 (gteRTPS h (load_vector n s)) = vertex_ir n 1 s" "gteIR 2 (gteRTPS h (load_vector n s)) = vertex_ir n 2 s"
    "gteIR 3 (gteRTPS h (load_vector n s)) = vertex_ir n 3 s"
    "gteSZx (gteRTPS h (load_vector n s)) = gteSZ 0 s" "gteSZ 0 (gteRTPS h (load_vector n s)) = gteSZ 1 s"
    "gteSZ 1 (gteRTPS h (load_vector n s)) = gteSZ 2 s" "gteSZ 2 (gteRTPS h (load_vector n s)) = vertex_sz n s"
    "D32 12 (gteRTPS h (load_vector n s)) = D32 13 s" "D32 13 (gteRTPS h (load_vector n s)) = D32 14 s"
    "gteSX 2 (gteRTPS h (load_vector n s)) = vertex_sx n s" "gteSY 2 (gteRTPS h (load_vector n s)) = vertex_sy n s"
    "D32 15 (gteRTPS h (load_vector n s)) = D32 14 (gteRTPS h (load_vector n s))"
    "gteMAC 0 (gteRTPS h (load_vector n s)) = i32 (vertex_cue n s)"
    "gteIR 0 (gteRTPS h (load_vector n s)) = limited 0 65535 (vertex_cue n s div 4096)"
  using rtps_result [of h "load_vector n s"]
  by (simp_all add: load_vector_mac [OF n] load_vector_vertex [OF n] gteSXY_def gteSZ_def gteSZx_def load_vector_views)

lemma screen_word:
  assumes "gteSX i s = gteSX j t" and "gteSY i s = gteSY j t"
  shows "D32 (of_nat (12 + i)) s = D32 (of_nat (12 + j)) t"
  by (rule D32_eq_halves) (use assms in \<open>simp_all add: gteSX_def gteSY_def mult.commute\<close>)

definition same_results :: "psxRegisters \<Rightarrow> psxRegisters \<Rightarrow> bool" where
  "same_results s t \<longleftrightarrow>
     list_all (\<lambda>r. psxCP2D s r = psxCP2D t r) [8, 9, 10, 11, 12, 13, 14, 15, 24, 25, 26, 27] \<and>
     gteSZx s = gteSZx t \<and> gteSZ 0 s = gteSZ 0 t \<and> gteSZ 1 s = gteSZ 1 t \<and> gteSZ 2 s = gteSZ 2 t"

lemma D32_eq: "psxCP2D s r = psxCP2D t r \<longleftrightarrow> D32 r s = D32 r t"
  by (auto simp: D32_def intro: signed_word_eqI)

text \<open>
  C22: \<open>gteRTPT\<close> leaves the accumulators, the \<open>IR\<close> registers, the screen points and the depths that
  three \<open>gteRTPS\<close> leave, of \<open>V0\<close> and then of \<open>V1\<close> and \<open>V2\<close> loaded into \<open>V0\<close>, although it
  computes them in place and keeps only the last quotient.
\<close>

theorem rtpt_is_three_rtps:
  "same_results (gteRTPT h s) (gteRTPS h (load_vector 2 (gteRTPS h (load_vector 1 (gteRTPS h s)))))"
proof -
  define x1 where "x1 = gteRTPS h s"
  define x2 where "x2 = gteRTPS h (load_vector 1 x1)"
  define x3 where "x3 = gteRTPS h (load_vector 2 x2)"
  note k1 = rtps_keeps_vertices [where n = 1 and h = h and s = s, folded x1_def]
    rtps_keeps_vertices [where n = 2 and h = h and s = s, folded x1_def]
  have k2: "vertex_mac 2 i x2 = vertex_mac 2 i s" "vertex_ir 2 i x2 = vertex_ir 2 i s" if "i \<in> {1, 2, 3}" for i
    using that k1 by (simp_all add: x2_def rtps_keeps_vertices load_vector_keeps_2 load_vector_other)
  have k3: "vertex_sz 2 x2 = vertex_sz 2 s" "vertex_sx 2 x2 = vertex_sx 2 s" "vertex_sy 2 x2 = vertex_sy 2 s"
    "vertex_cue 2 x2 = vertex_cue 2 s"
    using k1 by (simp_all add: x2_def rtps_keeps_vertices load_vector_keeps_2 load_vector_other)
  note l0 = rtps_result [of h s, folded x1_def]
  note l1 = rtps_loaded [of 1 h x1, folded x2_def]
  note l2 = rtps_loaded [of 2 h x2, folded x3_def]
  note T = rtpt_projects [of h s]
  have s0: "D32 12 (gteRTPT h s) = D32 14 x1"
    using screen_word [of 0 "gteRTPT h s" 2 x1] T(11,12) l0 by simp
  have s1: "D32 13 (gteRTPT h s) = D32 14 x2"
    using screen_word [of 1 "gteRTPT h s" 2 x2] T(13,14) l1(13,14) k1 by simp
  have s2: "D32 14 (gteRTPT h s) = D32 14 x3"
    using screen_word [of 2 "gteRTPT h s" 2 x3] T(15,16) l2(13,14) k3 by simp
  have q: "D32 12 x3 = D32 14 x1" "D32 13 x3 = D32 14 x2" "D32 15 x3 = D32 14 x3"
    using l1(12) l2(11,12,15) by simp_all
  have z: "gteSZx x3 = gteSZ 2 s" "gteSZ 0 x3 = vertex_sz 0 s" "gteSZ 1 x3 = vertex_sz 1 s" "gteSZ 2 x3 = vertex_sz 2 s"
    using l2(7-10) l1(7-10) l0 k1 k3 by simp_all
  have a: "D32 25 x3 = D32 25 (gteRTPT h s)" "D32 26 x3 = D32 26 (gteRTPT h s)" "D32 27 x3 = D32 27 (gteRTPT h s)"
    "D32 9 x3 = D32 9 (gteRTPT h s)" "D32 10 x3 = D32 10 (gteRTPT h s)" "D32 11 x3 = D32 11 (gteRTPT h s)"
    "D32 24 x3 = D32 24 (gteRTPT h s)" "D32 8 x3 = D32 8 (gteRTPT h s)"
    using l2(1-6,16,17) T(1-6,18,19) k2 k3 by (simp_all add: gteMAC_def gteIR_def)
  have "same_results (gteRTPT h s) x3"
    unfolding same_results_def D32_eq list.pred_inject
    using s0 s1 s2 q z a T(7-10,17) by simp
  then show ?thesis by (simp add: x1_def x2_def x3_def)
qed

section \<open>The side of a triangle\<close>

text \<open>
  C24: After \<open>gteRTPT\<close> the accumulator that \<open>gteNCLIP\<close> leaves is exactly twice the signed area of
  the triangle on the screen, and no flag is up: the limits of the screen coordinates keep
  the products within 32 bits.
\<close>

theorem nclip_after_rtpt:
  "gteMAC 0 (gteNCLIP (gteRTPT h s)) =
     (vertex_sx 1 s - vertex_sx 0 s) * (vertex_sy 2 s - vertex_sy 0 s) -
     (vertex_sx 2 s - vertex_sx 0 s) * (vertex_sy 1 s - vertex_sy 0 s) \<and>
   gteFLAG (gteNCLIP (gteRTPT h s)) = 0"
proof -
  let ?t = "set_gteFLAG 0 (gteRTPT h s)"
  have v: "gteSX n ?t = gteSX n (gteRTPT h s)" "gteSY n ?t = gteSY n (gteRTPT h s)" for n
    by (simp_all add: gteSX_def gteSY_def flag_views)
  have bx: "- 1024 \<le> vertex_sx n s" "vertex_sx n s \<le> 1023" and b_y: "- 1024 \<le> vertex_sy n s" "vertex_sy n s \<le> 1023" for n
    by (simp_all add: vertex_sx_def vertex_sy_def limited_def)
  have p: "- (1024 * 2047) \<le> vertex_sx i s * (vertex_sy j s - vertex_sy k s)"
    "vertex_sx i s * (vertex_sy j s - vertex_sy k s) \<le> 1024 * 2047" for i j k
  proof -
    have "\<bar>vertex_sx i s * (vertex_sy j s - vertex_sy k s)\<bar> \<le> 1024 * 2047"
      unfolding abs_mult using bx [of i] b_y [of j] b_y [of k] by (intro mult_mono) auto
    then show "- (1024 * 2047) \<le> vertex_sx i s * (vertex_sy j s - vertex_sy k s)"
      "vertex_sx i s * (vertex_sy j s - vertex_sy k s) \<le> 1024 * 2047" by linarith+
  qed
  let ?a = "vertex_sx 0 s * (vertex_sy 1 s - vertex_sy 2 s) + vertex_sx 1 s * (vertex_sy 2 s - vertex_sy 0 s) +
    vertex_sx 2 s * (vertex_sy 0 s - vertex_sy 1 s)"
  have a: "i32 ?a = ?a"
    using p [of 0 1 2] p [of 1 2 0] p [of 2 0 1] by (intro i32_id) linarith+
  have "gteMAC 0 (gteNCLIP (gteRTPT h s)) = i32 (i32 ?a)"
    using rtpt_projects(11-16) [of h s]
    by (simp add: gteNCLIP_def v set_gteMAC_def gteMAC_def D32_wD32 flag_views)
  moreover have "gteFLAG (gteNCLIP (gteRTPT h s)) = 0"
    by (simp add: gteNCLIP_def SUM_FLAG_def set_gteMAC_def wD32_def set_gteFLAG_def gteFLAG_def)
  moreover have "?a = (vertex_sx 1 s - vertex_sx 0 s) * (vertex_sy 2 s - vertex_sy 0 s) -
     (vertex_sx 2 s - vertex_sx 0 s) * (vertex_sy 1 s - vertex_sy 0 s)"
    by (simp add: algebra_simps)
  ultimately show ?thesis unfolding a by (simp only: simp_thms)
qed

end
