(* ===== verification/Iop_Gte_Light.thy ===== *)
theory Iop_Gte_Light
  imports Iop_Gte_Spec
begin

text \<open>
  The lighting operations: \<open>gteNCCT\<close>, \<open>gteNCDT\<close> and \<open>gteNCT\<close> against three \<open>gteNCCS\<close>,
  \<open>gteNCDS\<close> and \<open>gteNCS\<close>.  The locale \<open>gte_shader\<close> is the contract of the macros that compute
  the accumulators at a vertex; it is interpreted on the three of them.
\<close>

unbundle bit_operations_syntax

section \<open>Colours\<close>

definition colour_word :: "int \<Rightarrow> int \<Rightarrow> int \<Rightarrow> int \<Rightarrow> u32" where
  "colour_word r g b c =
     set_lane 3 (word_of_int c :: u8) (set_lane 2 (word_of_int b :: u8)
       (set_lane 1 (word_of_int g :: u8) (set_lane 0 (word_of_int r :: u8) 0)))"

lemma colour_bytes:
  "set_lane 3 c (set_lane 2 b (set_lane 1 g (set_lane 0 r (w :: u32)))) =
   set_lane 3 (c :: u8) (set_lane 2 (b :: u8) (set_lane 1 (g :: u8) (set_lane 0 (r :: u8) (w' :: u32))))"
  by (rule bit_word_eqI) (auto simp: bit_set_lane)

text \<open>The colour of the accumulators \<open>m1\<close>, \<open>m2\<close> and \<open>m3\<close> with the code of \<open>RGB\<close>.\<close>

definition shade :: "int \<Rightarrow> int \<Rightarrow> int \<Rightarrow> psxRegisters \<Rightarrow> u32" where
  "shade m1 m2 m3 s =
     colour_word (limited 0 255 (m1 div 16)) (limited 0 255 (m2 div 16)) (limited 0 255 (m3 div 16)) (gteCODE s)"

lemma set_FlimB:
  "gte_set w (\<lambda>s. FlimB1 (x s) s) s = w (limited 0 255 (i32 (x s))) (snd (LIMX 0 255 21 (i32 (x s)) s))"
  "gte_set w (\<lambda>s. FlimB2 (x s) s) s = w (limited 0 255 (i32 (x s))) (snd (LIMX 0 255 20 (i32 (x s)) s))"
  "gte_set w (\<lambda>s. FlimB3 (x s) s) s = w (limited 0 255 (i32 (x s))) (snd (LIMX 0 255 19 (i32 (x s)) s))"
  by (auto simp: gte_set_def FlimB1_def FlimB2_def FlimB3_def LIMX_def limited_def)

lemma i32_drop_mac: "i32 (drop_bit 4 (D32 r s)) = D32 r s div 16"
proof -
  have "- 2147483648 \<le> D32 r s" "D32 r s < 2147483648" by (simp_all add: D32_def sint32_range)
  then have "- 2147483648 \<le> drop_bit 4 (D32 r s)" "drop_bit 4 (D32 r s) < 2147483648"
    using drop_bit_range [where x = "D32 r s" and lo = "- 2147483648" and hi = 2147483648 and n = 4] by auto
  then show ?thesis by (simp add: i32_id drop_bit_eq_div)
qed

lemma D32_wD8: "r \<noteq> of_nat (k div 4) \<Longrightarrow> D32 r (wD8 k v s) = D32 r s"
  by (simp add: D32_def wD8_def Let_def)

lemma Du8_wD8: "of_nat (j div 4) \<noteq> (of_nat (k div 4) :: 5 word) \<Longrightarrow> Du8 j (wD8 k v s) = Du8 j s"
  by (simp add: Du8_def wD8_def Let_def)

lemma data_wD8:
  "psxCP2D (wD8 k v s) r =
     (if r = of_nat (k div 4) then set_lane (k mod 4) (word_of_int v :: u8) (psxCP2D s r) else psxCP2D s r)"
  by (simp add: wD8_def Let_def)

lemma Du8_data: "psxCP2D t = psxCP2D s \<Longrightarrow> Du8 k t = Du8 k s"
  by (simp add: Du8_def)

lemmas Du8_flags = data_of_flags [THEN Du8_data]

lemma colour_other: "n \<le> 2 \<Longrightarrow> r \<noteq> of_nat (20 + n) \<Longrightarrow> D32 r (gte_colour n s) = D32 r s"
  by (auto simp: gte_colour_def set_FlimB set_gteR_def set_gteG_def set_gteB_def set_gteCODE_def le2_cases D32_wD8 flag_views)

lemma colour_result:
  "n \<le> 2 \<Longrightarrow> psxCP2D (gte_colour n s) (of_nat (20 + n)) = shade (D32 25 s) (D32 26 s) (D32 27 s) s"
  unfolding shade_def colour_word_def
  by (subst colour_bytes [where w' = "psxCP2D s (of_nat (20 + n))"])
    (auto simp: gte_colour_def set_FlimB gteMAC_def i32_drop_mac set_gteR_def set_gteG_def set_gteB_def set_gteCODE_def
      gteCODE_def le2_cases D32_wD8 Du8_wD8 flag_views Du8_flags data_wD8 data_of_flags)


text \<open>The saturation of the accumulators.\<close>

lemma MAC2IR1_view:
  "D32 9 (MAC2IR1 s) = limited 0 32767 (D32 25 s)" "D32 10 (MAC2IR1 s) = limited 0 32767 (D32 26 s)"
  "D32 11 (MAC2IR1 s) = limited 0 32767 (D32 27 s)" "r \<notin> {9, 10, 11} \<Longrightarrow> D32 r (MAC2IR1 s) = D32 r s"
  by (simp_all add: MAC2IR1_def mac_to_ir_def set_LIMX set_gteIR_def gteMAC_def D32_wD32 flag_views i32_clamp)

section \<open>Shading at one vertex and at three\<close>

text \<open>The registers that the light at a vertex depends on.\<close>

definition shade_inputs :: "psxRegisters \<Rightarrow> psxRegisters \<Rightarrow> bool" where
  "shade_inputs s t \<longleftrightarrow> gte_rest s = gte_rest t \<and> D32 6 s = D32 6 t \<and> D32 8 s = D32 8 t"

text \<open>
  A macro \<open>M\<close> that writes the accumulators, with \<open>acc n i s\<close> for accumulator \<open>i\<close> at vertex \<open>n\<close>.
\<close>

locale gte_shader =
  fixes M :: "nat \<Rightarrow> psxRegisters \<Rightarrow> psxRegisters" and acc :: "nat \<Rightarrow> nat \<Rightarrow> psxRegisters \<Rightarrow> int"
  assumes result: "D32 25 (M n s) = acc n 1 s" "D32 26 (M n s) = acc n 2 s" "D32 27 (M n s) = acc n 3 s"
    and other: "r \<notin> {25, 26, 27} \<Longrightarrow> D32 r (M n s) = D32 r s"
    and rest: "gte_rest (M n s) = gte_rest s"
    and inputs: "shade_inputs t s \<Longrightarrow> n \<le> 2 \<Longrightarrow> i \<in> {1, 2, 3} \<Longrightarrow> acc n i t = acc n i s"
    and loaded: "n \<le> 2 \<Longrightarrow> i \<in> {1, 2, 3} \<Longrightarrow> acc 0 i (load_vector n s) = acc n i s"
    and later: "i \<in> {1, 2, 3} \<Longrightarrow> acc 2 i (load_vector 1 s) = acc 2 i s"
begin

definition "single = gte_run [set_gteFLAG 0, M 0, gte_push_colour, MAC2IR1, SUM_FLAG]"
definition "triple = gte_run
  [set_gteFLAG 0, M 0, gte_colour 0, M 1, gte_colour 1, M 2, gte_colour 2, MAC2IR1, SUM_FLAG]"

definition "colour n s = shade (acc n 1 s) (acc n 2 s) (acc n 3 s) s"

lemma code_eq: "D32 6 t = D32 6 s \<Longrightarrow> gteCODE t = gteCODE s"
  by (drule D32_eq [THEN iffD2]) (simp add: gteCODE_def Du8_def)

lemma colour_inputs:
  assumes t: "shade_inputs t s" and n: "n \<le> 2"
  shows "colour n t = colour n s"
proof -
  have "gteCODE t = gteCODE s" using t by (intro code_eq) (simp add: shade_inputs_def)
  then show ?thesis by (simp add: colour_def shade_def inputs [OF t n])
qed

lemma load_inputs: "D32 6 (load_vector n s) = D32 6 s" "D32 8 (load_vector n s) = D32 8 s"
  by (simp_all add: load_vector_views)

lemma colour_loaded: "n \<le> 2 \<Longrightarrow> colour 0 (load_vector n s) = colour n s" "colour 2 (load_vector 1 s) = colour 2 s"
  using code_eq [OF load_inputs(1)] loaded later by (simp_all add: colour_def shade_def)

lemma M_inputs: "shade_inputs (M n s) s"
  by (simp add: shade_inputs_def rest other)

lemma clear_inputs: "shade_inputs (set_gteFLAG 0 s) s"
  by (simp add: shade_inputs_def gte_frame.clear flag_views)

lemma colour_step_inputs: "n \<le> 2 \<Longrightarrow> shade_inputs (gte_colour n s) s"
  by (auto simp: shade_inputs_def gte_frame.colour_kept colour_other le2_cases)

lemma inputs_trans: "shade_inputs s t \<Longrightarrow> shade_inputs t u \<Longrightarrow> shade_inputs s u"
  by (simp add: shade_inputs_def)

text \<open>The colour that follows the macro at vertex \<open>n\<close>.\<close>

lemma colour_after_M:
  assumes "k \<le> 2"
  shows "psxCP2D (gte_colour k (M n s)) (of_nat (20 + k)) = colour n s"
proof -
  have "gteCODE (M n s) = gteCODE s" by (rule code_eq) (simp add: other)
  then show ?thesis unfolding colour_result [OF assms] by (simp add: result colour_def shade_def)
qed

lemma data_eqI: "D32 r s = D32 r t \<Longrightarrow> psxCP2D s r = psxCP2D t r"
  by (rule D32_eq [THEN iffD2])

lemma single_results:
  "D32 25 (single s) = acc 0 1 s" "D32 26 (single s) = acc 0 2 s" "D32 27 (single s) = acc 0 3 s"
  "D32 9 (single s) = limited 0 32767 (acc 0 1 s)" "D32 10 (single s) = limited 0 32767 (acc 0 2 s)"
  "D32 11 (single s) = limited 0 32767 (acc 0 3 s)"
  "D32 20 (single s) = D32 21 s" "D32 21 (single s) = D32 22 s" "psxCP2D (single s) 22 = colour 0 s"
  "shade_inputs (single s) s"
proof -
  let ?a = "M 0 (set_gteFLAG 0 s)"
  let ?b = "set_gteRGB 1 (gteRGB 2 (set_gteRGB 0 (gteRGB 1 ?a) ?a)) (set_gteRGB 0 (gteRGB 1 ?a) ?a)"
  have e: "single s = SUM_FLAG (MAC2IR1 (gte_colour 2 ?b))"
    by (simp add: single_def gte_push_colour_def)
  note i = inputs [OF clear_inputs, of 0]
  note v = MAC2IR1_view colour_other set_gteRGB_def gteRGB_def D32_wD32 result other i flag_views D32_id
  show "D32 25 (single s) = acc 0 1 s" "D32 26 (single s) = acc 0 2 s" "D32 27 (single s) = acc 0 3 s"
    "D32 9 (single s) = limited 0 32767 (acc 0 1 s)" "D32 10 (single s) = limited 0 32767 (acc 0 2 s)"
    "D32 11 (single s) = limited 0 32767 (acc 0 3 s)"
    "D32 20 (single s) = D32 21 s" "D32 21 (single s) = D32 22 s"
    unfolding e by (simp_all add: v)
  have "D32 22 (single s) = D32 22 (gte_colour 2 ?b)" unfolding e by (simp add: v)
  then have "psxCP2D (single s) 22 = psxCP2D (gte_colour 2 ?b) 22"
    by (rule data_eqI)
  also have "\<dots> = psxCP2D (gte_colour 2 ?b) (of_nat (20 + 2))" by simp
  also have "\<dots> = shade (D32 25 ?b) (D32 26 ?b) (D32 27 ?b) ?b" by (rule colour_result) simp
  also have "\<dots> = shade (acc 0 1 s) (acc 0 2 s) (acc 0 3 s) ?b" by (simp add: v)
  also have "\<dots> = colour 0 s"
  proof -
    have "gteCODE ?b = gteCODE s" by (rule code_eq) (simp add: v)
    then show ?thesis by (simp add: colour_def shade_def)
  qed
  finally show "psxCP2D (single s) 22 = colour 0 s" .
  have "gte_rest (single s) = gte_rest s"
    unfolding e SUM_FLAG_frame
    by (intro conjunct2 [OF gte_frame.MAC2IR_kept] gte_frame.colour_kept gte_frame.rgb) (simp_all add: rest gte_frame.clear)
  moreover have "D32 6 (single s) = D32 6 s" "D32 8 (single s) = D32 8 s" unfolding e by (simp_all add: v)
  ultimately show "shade_inputs (single s) s" by (simp add: shade_inputs_def)
qed

lemma triple_results:
  "D32 25 (triple s) = acc 2 1 s" "D32 26 (triple s) = acc 2 2 s" "D32 27 (triple s) = acc 2 3 s"
  "D32 9 (triple s) = limited 0 32767 (acc 2 1 s)" "D32 10 (triple s) = limited 0 32767 (acc 2 2 s)"
  "D32 11 (triple s) = limited 0 32767 (acc 2 3 s)"
  "psxCP2D (triple s) 20 = colour 0 s" "psxCP2D (triple s) 21 = colour 1 s" "psxCP2D (triple s) 22 = colour 2 s"
proof -
  define c where "c = set_gteFLAG 0 s"
  define d where "d = gte_colour 0 (M 0 c)"
  define f where "f = gte_colour 1 (M 1 d)"
  define g where "g = M 2 f"
  have e: "triple s = SUM_FLAG (MAC2IR1 (gte_colour 2 g))"
    by (simp add: triple_def c_def d_def f_def g_def)
  have c: "shade_inputs c s" unfolding c_def by (rule clear_inputs)
  have d: "shade_inputs d s"
    unfolding d_def by (rule inputs_trans [OF colour_step_inputs inputs_trans [OF M_inputs c]]) simp
  have f: "shade_inputs f s"
    unfolding f_def by (rule inputs_trans [OF colour_step_inputs inputs_trans [OF M_inputs d]]) simp
  note v = MAC2IR1_view colour_other result other flag_views
  have r: "D32 25 g = acc 2 1 s" "D32 26 g = acc 2 2 s" "D32 27 g = acc 2 3 s"
    by (simp_all add: g_def result inputs [OF f])
  show "D32 25 (triple s) = acc 2 1 s" "D32 26 (triple s) = acc 2 2 s" "D32 27 (triple s) = acc 2 3 s"
    "D32 9 (triple s) = limited 0 32767 (acc 2 1 s)" "D32 10 (triple s) = limited 0 32767 (acc 2 2 s)"
    "D32 11 (triple s) = limited 0 32767 (acc 2 3 s)"
    unfolding e by (simp_all add: v r)
  have "D32 20 (triple s) = D32 20 d" unfolding e by (simp add: v g_def f_def)
  then have "psxCP2D (triple s) 20 = psxCP2D d 20" by (rule data_eqI)
  also have "\<dots> = colour 0 s" using colour_after_M [of 0 0 c] colour_inputs [OF c, of 0] by (simp add: d_def)
  finally show "psxCP2D (triple s) 20 = colour 0 s" .
  have "D32 21 (triple s) = D32 21 f" unfolding e by (simp add: v g_def)
  then have "psxCP2D (triple s) 21 = psxCP2D f 21" by (rule data_eqI)
  also have "\<dots> = colour 1 s" using colour_after_M [of 1 1 d] colour_inputs [OF d, of 1] by (simp add: f_def)
  finally show "psxCP2D (triple s) 21 = colour 1 s" .
  have "D32 22 (triple s) = D32 22 (gte_colour 2 g)" unfolding e by (simp add: v)
  then have "psxCP2D (triple s) 22 = psxCP2D (gte_colour 2 g) 22" by (rule data_eqI)
  also have "\<dots> = colour 2 s" using colour_after_M [of 2 2 f] colour_inputs [OF f, of 2] by (simp add: g_def)
  finally show "psxCP2D (triple s) 22 = colour 2 s" .
qed

text \<open>Three single operations, each on its vector loaded into \<open>V0\<close>.\<close>

lemma triple_is_three_single:
  "list_all (\<lambda>r. psxCP2D (triple s) r = psxCP2D (single (load_vector 2 (single (load_vector 1 (single s))))) r)
     [9, 10, 11, 20, 21, 22, 25, 26, 27]"
proof -
  define x1 where "x1 = single s"
  define x2 where "x2 = single (load_vector 1 x1)"
  define x3 where "x3 = single (load_vector 2 x2)"
  have i1: "shade_inputs x1 s" unfolding x1_def by (rule single_results)
  have i2: "shade_inputs x2 (load_vector 1 x1)" unfolding x2_def by (rule single_results)
  have a: "acc 0 i (load_vector 2 x2) = acc 2 i s" if i: "i \<in> {1, 2, 3}" for i
  proof -
    have "acc 0 i (load_vector 2 x2) = acc 2 i x2" by (rule loaded) (use i in simp_all)
    also have "\<dots> = acc 2 i (load_vector 1 x1)" by (rule inputs [OF i2 _ i]) simp
    also have "\<dots> = acc 2 i x1" by (rule later [OF i])
    also have "\<dots> = acc 2 i s" by (rule inputs [OF i1 _ i]) simp
    finally show ?thesis .
  qed
  have c1: "colour 0 (load_vector 1 x1) = colour 1 s"
    using colour_loaded(1) [of 1 x1] colour_inputs [OF i1, of 1] by simp
  have c2: "colour 0 (load_vector 2 x2) = colour 2 s"
    using colour_loaded(1) [of 2 x2] colour_inputs [OF i2, of 2] colour_loaded(2) [of x1] colour_inputs [OF i1, of 2]
    by simp
  note x3 = single_results(1-6) [of "load_vector 2 x2", folded x3_def]
  have q20: "D32 20 x3 = D32 22 x1"
    using single_results(7) [of "load_vector 2 x2"] single_results(8) [of "load_vector 1 x1"]
    by (simp add: x3_def x2_def load_vector_views)
  have q21: "D32 21 x3 = D32 22 x2"
    using single_results(8) [of "load_vector 2 x2"] by (simp add: x3_def load_vector_views)
  have k: "psxCP2D x3 20 = colour 0 s" "psxCP2D x3 21 = colour 1 s" "psxCP2D x3 22 = colour 2 s"
  proof -
    have "psxCP2D x3 20 = psxCP2D x1 22" using q20 by (simp add: D32_def signed_word_eqI)
    then show "psxCP2D x3 20 = colour 0 s" using single_results(9) [of s] by (simp add: x1_def)
    have "psxCP2D x3 21 = psxCP2D x2 22" using q21 by (simp add: D32_def signed_word_eqI)
    then show "psxCP2D x3 21 = colour 1 s" using single_results(9) [of "load_vector 1 x1"] c1 by (simp add: x2_def)
    show "psxCP2D x3 22 = colour 2 s" using single_results(9) [of "load_vector 2 x2"] c2 by (simp add: x3_def)
  qed
  have d: "psxCP2D (triple s) r = psxCP2D x3 r" if "r \<in> {9, 10, 11, 25, 26, 27}" for r
    by (rule data_eqI, use that in \<open>elim insertE\<close>) (simp_all add: x3 a triple_results(1-6) [of s])
  show ?thesis
    unfolding list.pred_inject x1_def [symmetric] x2_def [symmetric] x3_def [symmetric]
    using d k triple_results(7-9) [of s] by simp
qed

end

section \<open>The light at a vertex\<close>

definition vertex_light :: "nat \<Rightarrow> nat \<Rightarrow> psxRegisters \<Rightarrow> int" where
  "vertex_light n i s = limited 0 134213632 (light_row i n s)"

definition vertex_colour :: "nat \<Rightarrow> nat \<Rightarrow> psxRegisters \<Rightarrow> int" where
  "vertex_colour n i s =
     limited 0 134213632 (colour_row i (of_nat i) (vertex_light n 1 s) (vertex_light n 2 s) (vertex_light n 3 s) s)"

text \<open>States that differ in the flags only.\<close>

definition but_flags :: "psxRegisters \<Rightarrow> psxRegisters \<Rightarrow> bool" where
  "but_flags t s \<longleftrightarrow> psxCP2D t = psxCP2D s \<and> (\<forall>r. r \<noteq> 31 \<longrightarrow> psxCP2C t r = psxCP2C s r)"

text \<open>The state after a limiter of the light.\<close>

definition light_flag :: "nat \<Rightarrow> int \<Rightarrow> gte_stm" where
  "light_flag b x s = snd (LIMX 0 134213632 b x s)"

lemma F12limU:
  "F12limA1U x s = (limited 0 134213632 x, light_flag 24 x s)"
  "F12limA2U x s = (limited 0 134213632 x, light_flag 23 x s)"
  "F12limA3U x s = (limited 0 134213632 x, light_flag 22 x s)"
  by (auto simp: F12limA1U_def F12limA2U_def F12limA3U_def light_flag_def LIMX_def limited_def)

lemma but_flags_light: "but_flags (light_flag b x t) s \<longleftrightarrow> but_flags t s"
  by (simp add: but_flags_def light_flag_def LIMX_def or_gteFLAG_def set_gteFLAG_def)

lemma but_flags_rows:
  assumes "but_flags t s" and "i \<in> {1, 2, 3}"
  shows "light_row i n t = light_row i n s" and "colour_row i (of_nat i) x y z t = colour_row i (of_nat i) x y z s"
  using assms
  by (auto simp: but_flags_def light_row_def colour_row_def gteLm_def gteCm_def gteBK_def gteVX_def gteVY_def gteVZ_def
      C16_def C32_def D16_def)

lemma gte_light_value:
  "fst (gte_light n s) = (vertex_colour n 1 s, vertex_colour n 2 s, vertex_colour n 3 s)"
  "but_flags (snd (gte_light n s)) s"
proof -
  define s1 where "s1 = light_flag 24 (light_row 1 n s) s"
  define s2 where "s2 = light_flag 23 (light_row 2 n s1) s1"
  define s3 where "s3 = light_flag 22 (light_row 3 n s2) s2"
  let ?c = "\<lambda>i k. colour_row i k (limited 0 134213632 (light_row 1 n s)) (limited 0 134213632 (light_row 2 n s1))
    (limited 0 134213632 (light_row 3 n s2))"
  define s4 where "s4 = light_flag 24 (?c 1 1 s3) s3"
  define s5 where "s5 = light_flag 23 (?c 2 2 s4) s4"
  have e: "gte_light n s = ((limited 0 134213632 (?c 1 1 s3), limited 0 134213632 (?c 2 2 s4), limited 0 134213632 (?c 3 3 s5)),
     light_flag 22 (?c 3 3 s5) s5)"
    by (simp add: gte_light_def F12limU s1_def s2_def s3_def s4_def s5_def)
  have b: "but_flags s1 s" "but_flags s2 s" "but_flags s3 s" "but_flags s4 s" "but_flags s5 s"
    by (simp_all add: s1_def s2_def s3_def s4_def s5_def but_flags_light) (simp_all add: but_flags_def)
  show "but_flags (snd (gte_light n s)) s" unfolding e by (simp add: but_flags_light b)
  have l: "light_row 2 n s1 = light_row 2 n s" "light_row 3 n s2 = light_row 3 n s"
    using but_flags_rows(1) [OF b(1), of 2] but_flags_rows(1) [OF b(2), of 3] by simp_all
  show "fst (gte_light n s) = (vertex_colour n 1 s, vertex_colour n 2 s, vertex_colour n 3 s)"
    unfolding e l vertex_colour_def vertex_light_def
    using but_flags_rows(2) [OF b(3), of 1] but_flags_rows(2) [OF b(4), of 2] but_flags_rows(2) [OF b(5), of 3]
    by simp
qed

lemma vertex_colour_inputs:
  assumes t: "gte_rest t = gte_rest s" and n: "n \<le> 2" and i: "i \<in> {1, 2, 3}"
  shows "vertex_colour n i t = vertex_colour n i s"
proof -
  have l: "light_row j n t = light_row j n s" if "j \<in> {1, 2, 3}" for j
    using that n rest_control [OF t] rest_vector [OF t]
    by (auto simp: light_row_def gteLm_def gteVX_def gteVY_def gteVZ_def C16_def D16_def le2_cases)
  have "colour_row i (of_nat i) x y z t = colour_row i (of_nat i) x y z s" for x y z
    using i rest_control [OF t] by (auto simp: colour_row_def gteCm_def gteBK_def C16_def C32_def)
  then show ?thesis by (simp add: vertex_colour_def vertex_light_def l)
qed

lemma vertex_colour_loaded:
  assumes i: "i \<in> {1, 2, 3}"
  shows "n \<le> 2 \<Longrightarrow> vertex_colour 0 i (load_vector n s) = vertex_colour n i s"
    and "vertex_colour 2 i (load_vector 1 s) = vertex_colour 2 i s"
proof -
  have c: "colour_row i (of_nat i) x y z (load_vector n s) = colour_row i (of_nat i) x y z s" for x y z n
    by (simp add: colour_row_def gteCm_def gteBK_def C16_def C32_def load_vector_def)
  show "vertex_colour 0 i (load_vector n s) = vertex_colour n i s" if "n \<le> 2"
  proof -
    have "light_row j 0 (load_vector n s) = light_row j n s" for j
      using that by (auto simp: light_row_def gteLm_def gteVX_def gteVY_def gteVZ_def C16_def D16_def load_vector_def le2_cases)
    then show ?thesis by (simp add: vertex_colour_def vertex_light_def c)
  qed
  have "light_row j 2 (load_vector 1 s) = light_row j 2 s" for j
    by (simp add: light_row_def gteLm_def gteVX_def gteVY_def gteVZ_def C16_def D16_def load_vector_def)
  then show "vertex_colour 2 i (load_vector 1 s) = vertex_colour 2 i s"
    by (simp add: vertex_colour_def vertex_light_def c)
qed

section \<open>The three shadings\<close>

lemma Du8_wD32: "of_nat (k div 4) \<noteq> r \<Longrightarrow> Du8 k (wD32 r v s) = Du8 k s"
  by (simp add: Du8_def wD32_def)

definition light_base :: "nat \<Rightarrow> psxRegisters \<Rightarrow> int" where
  "light_base i s = Du8 (6 * 4 + (i - 1)) s"

lemma light_base_RGB: "gteR s = light_base 1 s" "gteG s = light_base 2 s" "gteB s = light_base 3 s"
  by (simp_all add: light_base_def gteR_def gteG_def gteB_def)

lemma light_base_inputs: "D32 6 t = D32 6 s \<Longrightarrow> i \<in> {1, 2, 3} \<Longrightarrow> light_base i t = light_base i s"
  by (drule D32_eq [THEN iffD2]) (auto simp: light_base_def Du8_def)

definition acc_NCS :: "nat \<Rightarrow> nat \<Rightarrow> psxRegisters \<Rightarrow> int" where
  "acc_NCS n i s = i32 (vertex_colour n i s)"

definition acc_NCCS :: "nat \<Rightarrow> nat \<Rightarrow> psxRegisters \<Rightarrow> int" where
  "acc_NCCS n i s = i32 (drop_bit 20 (push_bit 12 (light_base i s) * vertex_colour n i s))"

definition fogged :: "5 word \<Rightarrow> int \<Rightarrow> psxRegisters \<Rightarrow> int" where
  "fogged k c s =
     i32 (drop_bit 8 (c + drop_bit 12 (gteIR 0 s * limited (- 134217728) 134213632 (i32 (push_bit 8 (gteFC k s)) - c))))"

definition acc_NCDS :: "nat \<Rightarrow> nat \<Rightarrow> psxRegisters \<Rightarrow> int" where
  "acc_NCDS n i s = fogged (of_nat i) (i32 (drop_bit 12 (push_bit 12 (light_base i s) * vertex_colour n i s))) s"

lemma light_state:
  "D32 r (snd (gte_light n s)) = D32 r s" "Du8 k (snd (gte_light n s)) = Du8 k s"
proof -
  have "psxCP2D (snd (gte_light n s)) = psxCP2D s" using gte_light_value(2) [of n s] by (simp add: but_flags_def)
  then show "D32 r (snd (gte_light n s)) = D32 r s" "Du8 k (snd (gte_light n s)) = Du8 k s"
    by (rule view_cong(1), rule Du8_data)
qed

lemma base_views:
  "light_base i (snd (gte_light n s)) = light_base i s"
  "r \<noteq> 6 \<Longrightarrow> light_base 1 (wD32 r v s) = light_base 1 s" "r \<noteq> 6 \<Longrightarrow> light_base 2 (wD32 r v s) = light_base 2 s"
  "r \<noteq> 6 \<Longrightarrow> light_base 3 (wD32 r v s) = light_base 3 s"
  using Du8_wD32 [of 24 r v s] Du8_wD32 [of 25 r v s] Du8_wD32 [of 26 r v s]
  by (simp_all add: light_base_def light_state)

interpretation NCS: gte_shader GTE_NCS acc_NCS
proof unfold_locales
  fix n i r and s t :: psxRegisters
  note v = GTE_NCS_def split_beta gte_light_value(1) set_gteMAC_def D32_wD32 light_state
  show "D32 25 (GTE_NCS n s) = acc_NCS n 1 s" "D32 26 (GTE_NCS n s) = acc_NCS n 2 s" "D32 27 (GTE_NCS n s) = acc_NCS n 3 s"
    by (simp_all add: v acc_NCS_def)
  show "D32 r (GTE_NCS n s) = D32 r s" if "r \<notin> {25, 26, 27}" using that by (simp add: v)
  show "gte_rest (GTE_NCS n s) = gte_rest s" by (rule gte_frame.NCS_kept) simp_all
  show "acc_NCS n i t = acc_NCS n i s" if "shade_inputs t s" "n \<le> 2" "i \<in> {1, 2, 3}"
    using that vertex_colour_inputs [of t s n i] by (simp add: acc_NCS_def shade_inputs_def)
  show "acc_NCS 0 i (load_vector n s) = acc_NCS n i s" if "n \<le> 2" "i \<in> {1, 2, 3}"
    using that by (simp only: acc_NCS_def vertex_colour_loaded)
  show "acc_NCS 2 i (load_vector 1 s) = acc_NCS 2 i s" if "i \<in> {1, 2, 3}"
    using that by (simp only: acc_NCS_def vertex_colour_loaded)
qed

lemma light_base_loaded: "i \<in> {1, 2, 3} \<Longrightarrow> light_base i (load_vector n s) = light_base i s"
  by (rule light_base_inputs) (simp_all add: load_vector_views)

interpretation NCCS: gte_shader GTE_NCCS acc_NCCS
proof unfold_locales
  fix n i r and s t :: psxRegisters
  note v = GTE_NCCS_def split_beta gte_light_value(1) set_gteMAC_def D32_wD32 light_state light_base_RGB base_views
  show "D32 25 (GTE_NCCS n s) = acc_NCCS n 1 s" "D32 26 (GTE_NCCS n s) = acc_NCCS n 2 s" "D32 27 (GTE_NCCS n s) = acc_NCCS n 3 s"
    unfolding v acc_NCCS_def by (simp_all add: v)
  show "D32 r (GTE_NCCS n s) = D32 r s" if "r \<notin> {25, 26, 27}" using that by (simp add: v)
  show "gte_rest (GTE_NCCS n s) = gte_rest s" by (rule gte_frame.NCCS_kept) simp_all
  show "acc_NCCS n i t = acc_NCCS n i s" if "shade_inputs t s" "n \<le> 2" "i \<in> {1, 2, 3}"
    using that vertex_colour_inputs [of t s n i] light_base_inputs [of t s i] by (simp add: acc_NCCS_def shade_inputs_def)
  show "acc_NCCS 0 i (load_vector n s) = acc_NCCS n i s" if "n \<le> 2" "i \<in> {1, 2, 3}"
    using that by (simp only: acc_NCCS_def vertex_colour_loaded light_base_loaded)
  show "acc_NCCS 2 i (load_vector 1 s) = acc_NCCS 2 i s" if "i \<in> {1, 2, 3}"
    using that by (simp only: acc_NCCS_def vertex_colour_loaded light_base_loaded)
qed

lemma fogged_inputs:
  assumes "shade_inputs t s" and "k \<in> {1, 2, 3}"
  shows "fogged k c t = fogged k c s"
proof -
  have "gteFC k t = gteFC k s"
    using assms rest_control [of t s] by (auto simp: shade_inputs_def gteFC_def C32_def)
  then show ?thesis using assms(1) by (simp add: fogged_def shade_inputs_def gteIR_def)
qed

lemma fogged_loaded: "fogged k c (load_vector n s) = fogged k c s"
  by (simp add: fogged_def gteIR_def load_vector_views) (simp add: gteFC_def C32_def load_vector_def)

text \<open>The far colour's part of \<open>GTE_NCDS\<close>, for each of the three limiters.\<close>

lemma ncds_mac_views:
  assumes "lim = LIMX (- push_bit 12 32768) (push_bit 12 32767) b" and "k \<in> {1, 2, 3}"
  shows "D32 (24 + k) (ncds_mac lim k c s) = fogged k c s" and "r \<noteq> 24 + k \<Longrightarrow> D32 r (ncds_mac lim k c s) = D32 r s"
    and "gte_rest (ncds_mac lim k c s) = gte_rest s"
proof -
  let ?x = "i32 (push_bit 8 (gteFC k s)) - c"
  have e: "ncds_mac lim k c s = wD32 (24 + k) (drop_bit 8 (c + drop_bit 12 (gteIR 0 s * limited (- 134217728) 134213632 ?x)))
      (snd (LIMX (- 134217728) 134213632 b ?x s))"
    by (auto simp: assms(1) ncds_mac_def gte_set_def set_gteMAC_def LIMX_def limited_def)
  show "D32 (24 + k) (ncds_mac lim k c s) = fogged k c s" "r \<noteq> 24 + k \<Longrightarrow> D32 r (ncds_mac lim k c s) = D32 r s"
    unfolding e by (simp_all add: D32_wD32 flag_views fogged_def)
  show "gte_rest (ncds_mac lim k c s) = gte_rest s"
    unfolding assms(1) ncds_mac_def split_beta
    by (rule gte_frame.set_kept) (use assms(2) in \<open>auto simp: gte_frame.LIMX_kept intro!: gte_frame.mac\<close>)
qed

lemmas ncds_1 = ncds_mac_views [OF F12limA1S_def, of 1, simplified]
lemmas ncds_2 = ncds_mac_views [OF F12limA2S_def, of 2, simplified]
lemmas ncds_3 = ncds_mac_views [OF F12limA3S_def, of 3, simplified]

lemma ncds_inputs:
  "shade_inputs (ncds_mac F12limA1S 1 c s) s" "shade_inputs (ncds_mac F12limA2S 2 c s) s"
  by (simp_all add: shade_inputs_def ncds_1 ncds_2)

interpretation NCDS: gte_shader GTE_NCDS acc_NCDS
proof unfold_locales
  fix n i r and s t :: psxRegisters
  let ?c = "\<lambda>i. i32 (drop_bit 12 (push_bit 12 (light_base i s) * vertex_colour n i s))"
  let ?a = "snd (gte_light n s)"
  let ?b = "ncds_mac F12limA1S 1 (?c 1) ?a"
  let ?d = "ncds_mac F12limA2S 2 (?c 2) ?b"
  have e: "GTE_NCDS n s = ncds_mac F12limA3S 3 (?c 3) ?d"
    by (simp add: GTE_NCDS_def split_beta gte_light_value(1) Let_def light_base_RGB base_views(1))
  have a: "shade_inputs ?a s"
    using gte_frame.light_kept [of s "gte_rest s" n] by (simp add: shade_inputs_def light_state)
  have b: "shade_inputs ?b s" using ncds_inputs(1) [of "?c 1" ?a] a by (simp add: shade_inputs_def)
  have d: "shade_inputs ?d s" using ncds_inputs(2) [of "?c 2" ?b] b by (simp add: shade_inputs_def)
  note f = fogged_inputs [OF a, of 1] fogged_inputs [OF b, of 2] fogged_inputs [OF d, of 3]
  show "D32 25 (GTE_NCDS n s) = acc_NCDS n 1 s" "D32 26 (GTE_NCDS n s) = acc_NCDS n 2 s" "D32 27 (GTE_NCDS n s) = acc_NCDS n 3 s"
    unfolding e acc_NCDS_def using f by (simp_all add: ncds_1 ncds_2 ncds_3)
  show "D32 r (GTE_NCDS n s) = D32 r s" if "r \<notin> {25, 26, 27}"
    unfolding e using that by (simp add: ncds_1 ncds_2 ncds_3 light_state)
  show "gte_rest (GTE_NCDS n s) = gte_rest s" by (rule gte_frame.NCDS_kept) simp_all
  show "acc_NCDS n i t = acc_NCDS n i s" if "shade_inputs t s" "n \<le> 2" "i \<in> {1, 2, 3}"
  proof -
    have k: "(of_nat i :: 5 word) \<in> {1, 2, 3}" using that by auto
    have "vertex_colour n i t = vertex_colour n i s" "light_base i t = light_base i s"
      using vertex_colour_inputs [of t s n i] light_base_inputs [of t s i] that unfolding shade_inputs_def by blast+
    then show ?thesis by (simp only: acc_NCDS_def fogged_inputs [OF that(1) k])
  qed
  show "acc_NCDS 0 i (load_vector n s) = acc_NCDS n i s" if "n \<le> 2" "i \<in> {1, 2, 3}"
    using that by (simp only: acc_NCDS_def vertex_colour_loaded light_base_loaded fogged_loaded)
  show "acc_NCDS 2 i (load_vector 1 s) = acc_NCDS 2 i s" if "i \<in> {1, 2, 3}"
    using that by (simp only: acc_NCDS_def vertex_colour_loaded light_base_loaded fogged_loaded)
qed

lemma shader_operations:
  "NCS.single = gteNCS" "NCS.triple = gteNCT" "NCCS.single = gteNCCS" "NCCS.triple = gteNCCT"
  "NCDS.single = gteNCDS" "NCDS.triple = gteNCDT"
  by (simp_all add: NCS.single_def NCS.triple_def NCCS.single_def NCCS.triple_def NCDS.single_def NCDS.triple_def
      gteNCS_def gteNCT_def gteNCCS_def gteNCCT_def gteNCDS_def gteNCDT_def)

definition shading_agrees :: "gte_stm \<Rightarrow> gte_stm \<Rightarrow> psxRegisters \<Rightarrow> bool" where
  "shading_agrees f g s \<longleftrightarrow>
     list_all (\<lambda>r. psxCP2D (f s) r = psxCP2D (g (load_vector 2 (g (load_vector 1 (g s))))) r)
       [9, 10, 11, 20, 21, 22, 25, 26, 27]"

text \<open>
  C23: \<open>gteNCT\<close>, \<open>gteNCCT\<close> and \<open>gteNCDT\<close> leave the accumulators, the \<open>IR\<close> registers and the colour
  queue that three \<open>gteNCS\<close>, \<open>gteNCCS\<close> and \<open>gteNCDS\<close> leave, of \<open>V0\<close> and then of \<open>V1\<close> and
  \<open>V2\<close> loaded into \<open>V0\<close>.
\<close>

theorem lighting_triples:
  "shading_agrees gteNCT gteNCS s \<and> shading_agrees gteNCCT gteNCCS s \<and> shading_agrees gteNCDT gteNCDS s"
  using NCS.triple_is_three_single [of s] NCCS.triple_is_three_single [of s] NCDS.triple_is_three_single [of s]
  unfolding shader_operations shading_agrees_def by blast

end
