(* ===== verification/Iop_Mem.thy ===== *)
theory Iop_Mem
  imports EE_Events
begin

text \<open>
  The I/O processor's memory (pcsx2/IopMem.cpp): two tables of host pointers, one per 64 KB
  page of its 29 bit physical space, and in front of them the hardware register page, the
  link registers shared with the EE and the devices.

  \<open>iopMemReset\<close> is what \<open>iopMemoryReserve::Reset\<close> does with the tables; it also clears the
  memory itself.  The devices behind the register pages and the expansion bus are parameters.  The code for
  recompiled blocks that the stores invalidate does not exist in the interpreter.
\<close>

unbundle bit_operations_syntax

section \<open>Devices and tables\<close>

record 's iop_devs =
  iopHwRead8_Page :: "nat \<Rightarrow> u32 \<Rightarrow> 's \<Rightarrow> u8 \<times> 's"
  iopHwRead16_Page :: "nat \<Rightarrow> u32 \<Rightarrow> 's \<Rightarrow> u16 \<times> 's"
  iopHwRead32_Page :: "nat \<Rightarrow> u32 \<Rightarrow> 's \<Rightarrow> u32 \<times> 's"
  iopHwWrite8_Page :: "nat \<Rightarrow> u32 \<Rightarrow> u8 \<Rightarrow> 's \<Rightarrow> 's"
  iopHwWrite16_Page :: "nat \<Rightarrow> u32 \<Rightarrow> u16 \<Rightarrow> 's \<Rightarrow> 's"
  iopHwWrite32_Page :: "nat \<Rightarrow> u32 \<Rightarrow> u32 \<Rightarrow> 's \<Rightarrow> 's"
  psxHw4Read8 :: "u32 \<Rightarrow> 's \<Rightarrow> u8 \<times> 's"
  psxHw4Write8 :: "u32 \<Rightarrow> u8 \<Rightarrow> 's \<Rightarrow> 's"
  DEV9read8 :: "u32 \<Rightarrow> 's \<Rightarrow> u8 \<times> 's"
  DEV9read16 :: "u32 \<Rightarrow> 's \<Rightarrow> u16 \<times> 's"
  DEV9read32 :: "u32 \<Rightarrow> 's \<Rightarrow> u32 \<times> 's"
  DEV9write8 :: "u32 \<Rightarrow> u8 \<Rightarrow> 's \<Rightarrow> 's"
  DEV9write16 :: "u32 \<Rightarrow> u16 \<Rightarrow> 's \<Rightarrow> 's"
  DEV9write32 :: "u32 \<Rightarrow> u32 \<Rightarrow> 's \<Rightarrow> 's"
  SPU2read :: "u32 \<Rightarrow> 's \<Rightarrow> u16 \<times> 's"
  SPU2write :: "u32 \<Rightarrow> u16 \<Rightarrow> 's \<Rightarrow> 's"

abbreviation SBUS_F200 :: u32 where "SBUS_F200 \<equiv> 0x1000F200"
abbreviation SBUS_F210 :: u32 where "SBUS_F210 \<equiv> 0x1000F210"
abbreviation SBUS_F220 :: u32 where "SBUS_F220 \<equiv> 0x1000F220"
abbreviation SBUS_F230 :: u32 where "SBUS_F230 \<equiv> 0x1000F230"
abbreviation SBUS_F240 :: u32 where "SBUS_F240 \<equiv> 0x1000F240"
abbreviation SBUS_F260 :: u32 where "SBUS_F260 \<equiv> 0x1000F260"

text \<open>Host memory as an array of words of \<open>n\<close> bytes.\<close>

definition host_read :: "nat \<Rightarrow> u64 \<Rightarrow> 'a ee_io_scheme \<Rightarrow> 'w::len word" where
  "host_read n p s = load_le n (hostmem s) p"
definition host_write :: "nat \<Rightarrow> u64 \<Rightarrow> 'w::len word \<Rightarrow> 'a ee_io_scheme \<Rightarrow> 'a ee_io_scheme" where
  "host_write n p v s = s\<lparr>hostmem := store_le n (hostmem s) p v\<rparr>"

text \<open>The pointers of \<open>iopMemoryReserve::Reset\<close>; \<open>base\<close> is the address of a 64 KB array.\<close>

definition page_ptr :: "u64 \<Rightarrow> 13 word \<Rightarrow> u64" where
  "page_ptr base i = base + push_bit 16 (ucast i)"

definition iopReset_WLUT :: "u64 \<Rightarrow> 'a ee_io_scheme \<Rightarrow> 13 word \<Rightarrow> u64" where
  "iopReset_WLUT iopHw_ptr s i =
     (if i < 0x80 then page_ptr (iopMem_Main s) (i AND 0x1f)
      else if i = 0x1f00 then iopMem_P s
      else if i = 0x1f80 then iopHw_ptr
      else 0)"

definition iopReset_RLUT :: "u64 \<Rightarrow> 'a ee_io_scheme \<Rightarrow> 13 word \<Rightarrow> u64" where
  "iopReset_RLUT iopHw_ptr s i =
     (if i < 0x80 \<or> i = 0x1f00 \<or> i = 0x1f80 then iopReset_WLUT iopHw_ptr s i
      else if 0x1fc0 \<le> i then page_ptr (eeMem_ROM s) (i - 0x1fc0)
      else if 0x1e00 \<le> i \<and> i < 0x1e04 then page_ptr (eeMem_ROM1 s) (i - 0x1e00)
      else if 0x1e40 \<le> i \<and> i < 0x1e48 then page_ptr (eeMem_ROM2 s) (i - 0x1e40)
      else if i = 0x1d00 then iopMem_Sif s
      else 0)"

definition iopMemReset :: "u64 \<Rightarrow> 'a ee_io_scheme \<Rightarrow> 'a ee_io_scheme" where
  "iopMemReset iopHw_ptr s = s\<lparr>psxMemWLUT := iopReset_WLUT iopHw_ptr s, psxMemRLUT := iopReset_RLUT iopHw_ptr s\<rparr>"

section \<open>Accesses\<close>

text \<open>The physical address, its page, and the pointer of a page with the offset added.\<close>

definition iop_phys :: "u32 \<Rightarrow> u32" where "iop_phys mem = mem AND 0x1fffffff"
definition iop_page :: "u32 \<Rightarrow> 13 word" where "iop_page mem = ucast (drop_bit 16 mem)"
definition iop_ptr :: "u64 \<Rightarrow> u32 \<Rightarrow> u64" where "iop_ptr p mem = p + ucast (mem AND 0xffff)"

text \<open>\<open>Some\<close> page of the register area with handlers of its own.\<close>

definition hw_page :: "u32 \<Rightarrow> nat option" where
  "hw_page mem = (let p = mem AND 0xf000
     in if p = 0x1000 then Some 1 else if p = 0x3000 then Some 3 else if p = 0x8000 then Some 8 else None)"

definition iopMemRead8 :: "'a ee_io_scheme iop_devs \<Rightarrow> u32 \<Rightarrow> 'a ee_io_scheme \<Rightarrow> u8 \<times> 'a ee_io_scheme" where
  "iopMemRead8 d addr s =
     (let mem = iop_phys addr; t = iop_page mem; p = psxMemRLUT s t
      in if t = 0x1f80
         then (case hw_page mem of Some n \<Rightarrow> iopHwRead8_Page d n mem s | None \<Rightarrow> (psxHu8 mem (psx s), s))
         else if t = 0x1f40 then psxHw4Read8 d mem s
         else if p \<noteq> 0 then (host_read 1 (iop_ptr p mem) s, s)
         else if t = 0x1000 then DEV9read8 d mem s
         else (0, s))"

definition sif_read16 :: "u32 \<Rightarrow> 'a ee_io_scheme \<Rightarrow> u16" where
  "sif_read16 mem s =
     (let r = mem AND 0xF0
      in if r = 0 then ucast (psHu32 SBUS_F200 s)
         else if r = 0x10 then ucast (psHu32 SBUS_F210 s)
         else if r = 0x40 then ucast (psHu32 SBUS_F240 s) OR 0x0002
         else if r = 0x60 then 0
         else psxHu16 mem (psx s))"

definition iopMemRead16 :: "'a ee_io_scheme iop_devs \<Rightarrow> u32 \<Rightarrow> 'a ee_io_scheme \<Rightarrow> u16 \<times> 'a ee_io_scheme" where
  "iopMemRead16 d addr s =
     (let mem = iop_phys addr; t = iop_page mem; p = psxMemRLUT s t
      in if t = 0x1f80
         then (case hw_page mem of Some n \<Rightarrow> iopHwRead16_Page d n mem s | None \<Rightarrow> (psxHu16 mem (psx s), s))
         else if p \<noteq> 0 then (if t = 0x1d00 then sif_read16 mem s else host_read 2 (iop_ptr p mem) s, s)
         else if t = 0x1f90 then SPU2read d mem s
         else if t = 0x1000 then DEV9read16 d mem s
         else (0, s))"

definition sif_read32 :: "u32 \<Rightarrow> 'a ee_io_scheme \<Rightarrow> u32" where
  "sif_read32 mem s =
     (let r = mem AND 0x8F0
      in if r = 0 then psHu32 SBUS_F200 s
         else if r = 0x10 then psHu32 SBUS_F210 s
         else if r = 0x20 then psHu32 SBUS_F220 s
         else if r = 0x30 then psHu32 SBUS_F230 s
         else if r = 0x40 then psHu32 SBUS_F240 s OR 0xF0000002
         else if r = 0x60 then 0
         else psxHu32 mem (psx s))"

definition iopMemRead32 :: "'a ee_io_scheme iop_devs \<Rightarrow> u32 \<Rightarrow> 'a ee_io_scheme \<Rightarrow> u32 \<times> 'a ee_io_scheme" where
  "iopMemRead32 d addr s =
     (let mem = iop_phys addr; t = iop_page mem; p = psxMemRLUT s t
      in if t = 0x1f80
         then (case hw_page mem of Some n \<Rightarrow> iopHwRead32_Page d n mem s | None \<Rightarrow> (psxHu32 mem (psx s), s))
         else if p \<noteq> 0 then (if t = 0x1d00 then sif_read32 mem s else host_read 4 (iop_ptr p mem) s, s)
         else if t = 0x1000 then DEV9read32 d mem s
         else (0, s))"

text \<open>A store reaches memory only while the cache is not isolated (bit 16 of Status).\<close>

definition iop_store :: "nat \<Rightarrow> u32 \<Rightarrow> 'w::len word \<Rightarrow> 'a ee_io_scheme \<Rightarrow> 'a ee_io_scheme option" where
  "iop_store n mem value s =
     (let p = psxMemWLUT s (iop_page mem)
      in if p \<noteq> 0 \<and> psxCP0 (psx s) cop0_Status AND 0x10000 = 0
         then Some (host_write n (iop_ptr p mem) value s) else None)"

definition sif_ptr :: "u32 \<Rightarrow> 'a ee_io_scheme \<Rightarrow> u64" where
  "sif_ptr mem s = iopMem_Sif s + ucast (mem AND 0xff)"

definition iopMemWrite8 :: "'a ee_io_scheme iop_devs \<Rightarrow> u32 \<Rightarrow> u8 \<Rightarrow> 'a ee_io_scheme \<Rightarrow> 'a ee_io_scheme" where
  "iopMemWrite8 d addr value s =
     (let mem = iop_phys addr; t = iop_page mem
      in if t = 0x1f80
         then (case hw_page mem of Some n \<Rightarrow> iopHwWrite8_Page d n mem value s | None \<Rightarrow> on_psx (wPsxHu8 mem value) s)
         else if t = 0x1f40 then psxHw4Write8 d mem value s
         else case iop_store 1 mem value s of
             Some s1 \<Rightarrow> s1
           | None \<Rightarrow> if t = 0x1d00 then host_write 1 (sif_ptr mem s) value s
                     else if t = 0x1000 then DEV9write8 d mem value s
                     else s)"

text \<open>\<open>psHu16\<close> of a register at a multiple of four is its low half.\<close>

definition wHu16_lo :: "u32 \<Rightarrow> u16 \<Rightarrow> 'a ee_io_scheme \<Rightarrow> 'a ee_io_scheme" where
  "wHu16_lo mem v s = wHu32 mem ((psHu32 mem s AND 0xffff0000) OR ucast v) s"

definition sif_F240_clear :: "u32 \<Rightarrow> 'a ee_io_scheme \<Rightarrow> 'a ee_io_scheme" where
  "sif_F240_clear value s =
     (if value AND 0x20 \<noteq> 0 \<or> value AND 0x80 \<noteq> 0
      then wHu32 SBUS_F240 ((psHu32 SBUS_F240 s AND NOT 0xF000) OR 0x2000) s else s)"

definition sif_F240_toggle :: "u32 \<Rightarrow> 'a ee_io_scheme \<Rightarrow> 'a ee_io_scheme" where
  "sif_F240_toggle temp s =
     (if psHu32 SBUS_F240 s AND temp \<noteq> 0
      then wHu32 SBUS_F240 (psHu32 SBUS_F240 s AND NOT temp) s
      else wHu32 SBUS_F240 (psHu32 SBUS_F240 s OR temp) s)"

definition sif_write16 :: "u32 \<Rightarrow> u16 \<Rightarrow> 'a ee_io_scheme \<Rightarrow> 'a ee_io_scheme" where
  "sif_write16 mem value s =
     (let r = mem AND 0x8F0
      in if r = 0x10 then wHu16_lo SBUS_F210 value s
         else if r = 0x40 then sif_F240_toggle (ucast value AND 0xF0) (sif_F240_clear (ucast value) s)
         else if r = 0x60 then wHu32 SBUS_F260 0 s
         else host_write 2 (sif_ptr mem s) value s)"

definition iopMemWrite16 :: "'a ee_io_scheme iop_devs \<Rightarrow> u32 \<Rightarrow> u16 \<Rightarrow> 'a ee_io_scheme \<Rightarrow> 'a ee_io_scheme" where
  "iopMemWrite16 d addr value s =
     (let mem = iop_phys addr; t = iop_page mem
      in if t = 0x1f80
         then (case hw_page mem of Some n \<Rightarrow> iopHwWrite16_Page d n mem value s | None \<Rightarrow> on_psx (wPsxHu16 mem value) s)
         else case iop_store 2 mem value s of
             Some s1 \<Rightarrow> s1
           | None \<Rightarrow> if t = 0x1d00 then sif_write16 mem value s
                     else if t = 0x1f90 then SPU2write d mem value s
                     else if t = 0x1000 then DEV9write16 d mem value s
                     else s)"

definition sif_write32 :: "u32 \<Rightarrow> u32 \<Rightarrow> 'a ee_io_scheme \<Rightarrow> 'a ee_io_scheme" where
  "sif_write32 mem value s =
     (let r = mem AND 0x8F0
      in if r = 0 then s
         else if r = 0x10 then wHu32 SBUS_F210 value s
         else if r = 0x20 then wHu32 SBUS_F220 (psHu32 SBUS_F220 s AND NOT value) s
         else if r = 0x30 then wHu32 SBUS_F230 (psHu32 SBUS_F230 s OR value) s
         else if r = 0x40 then sif_F240_toggle (value AND 0xF0) (sif_F240_clear value s)
         else if r = 0x60 then wHu32 SBUS_F260 0 s
         else host_write 4 (sif_ptr mem s) value s)"

definition iopMemWrite32 :: "'a ee_io_scheme iop_devs \<Rightarrow> u32 \<Rightarrow> u32 \<Rightarrow> 'a ee_io_scheme \<Rightarrow> 'a ee_io_scheme" where
  "iopMemWrite32 d addr value s =
     (let mem = iop_phys addr; t = iop_page mem
      in if t = 0x1f80
         then (case hw_page mem of Some n \<Rightarrow> iopHwWrite32_Page d n mem value s | None \<Rightarrow> on_psx (wPsxHu32 mem value) s)
         else case iop_store 4 mem value s of
             Some s1 \<Rightarrow> s1
           | None \<Rightarrow> if t = 0x1d00 then sif_write32 mem value s
                     else if t = 0x1000 then DEV9write32 d mem value s
                     else s)"

end
