(* ===== verification/Iop_Opcodes.thy ===== *)
theory Iop_Opcodes
  imports Iop_Mem
begin

text \<open>
  The instructions of pcsx2/R3000AOpcodeTables.cpp that need nothing but the processor and
  its memory.  Operands come from \<open>psx_code\<close> as in the source.  A shift by a register does not
  mask the amount: 32 and more is \<open>UndefinedShift\<close>.
\<close>

unbundle bit_operations_syntax

type_synonym 's psx_step = "'s \<Rightarrow> ('s, unit) res"

text \<open>An operation of the register file as a step of the machine.\<close>

definition on_regs :: "(psxRegisters \<Rightarrow> psxRegisters) \<Rightarrow> 'a ee_io_scheme psx_step" where
  "on_regs f s = Ok () (on_psx f s)"

section \<open>Arithmetic\<close>

text \<open>Writes to Rt and Rd that leave register 0 alone.\<close>

definition wRt :: "u32 \<Rightarrow> 'a psxRegisters_scheme \<Rightarrow> 'a psxRegisters_scheme" where
  "wRt v s = (if pRt s = 0 then s else wpGPR (pRt s) v s)"
definition wRd :: "u32 \<Rightarrow> 'a psxRegisters_scheme \<Rightarrow> 'a psxRegisters_scheme" where
  "wRd v s = (if pRd s = 0 then s else wpGPR (pRd s) v s)"

definition psxADDI :: "'a psxRegisters_scheme \<Rightarrow> 'a psxRegisters_scheme" where
  "psxADDI s = wRt (prRs s + pImm s) s"
definition psxADDIU :: "'a psxRegisters_scheme \<Rightarrow> 'a psxRegisters_scheme" where
  "psxADDIU s = wRt (prRs s + pImm s) s"
definition psxANDI :: "'a psxRegisters_scheme \<Rightarrow> 'a psxRegisters_scheme" where
  "psxANDI s = wRt (prRs s AND pImmU s) s"
definition psxORI :: "'a psxRegisters_scheme \<Rightarrow> 'a psxRegisters_scheme" where
  "psxORI s = wRt (prRs s OR pImmU s) s"
definition psxXORI :: "'a psxRegisters_scheme \<Rightarrow> 'a psxRegisters_scheme" where
  "psxXORI s = wRt (prRs s XOR pImmU s) s"
definition psxSLTI :: "'a psxRegisters_scheme \<Rightarrow> 'a psxRegisters_scheme" where
  "psxSLTI s = wRt ((if prRs s <s pImm s then 1 else 0)) s"
definition psxSLTIU :: "'a psxRegisters_scheme \<Rightarrow> 'a psxRegisters_scheme" where
  "psxSLTIU s = wRt ((if prRs s < pImm s then 1 else 0)) s"
definition psxLUI :: "'a psxRegisters_scheme \<Rightarrow> 'a psxRegisters_scheme" where
  "psxLUI s = wRt (push_bit 16 (psx_code s)) s"

definition psxADD :: "'a psxRegisters_scheme \<Rightarrow> 'a psxRegisters_scheme" where
  "psxADD s = wRd (prRs s + prRt s) s"
definition psxADDU :: "'a psxRegisters_scheme \<Rightarrow> 'a psxRegisters_scheme" where
  "psxADDU s = wRd (prRs s + prRt s) s"
definition psxSUB :: "'a psxRegisters_scheme \<Rightarrow> 'a psxRegisters_scheme" where
  "psxSUB s = wRd (prRs s - prRt s) s"
definition psxSUBU :: "'a psxRegisters_scheme \<Rightarrow> 'a psxRegisters_scheme" where
  "psxSUBU s = wRd (prRs s - prRt s) s"
definition psxAND :: "'a psxRegisters_scheme \<Rightarrow> 'a psxRegisters_scheme" where
  "psxAND s = wRd (prRs s AND prRt s) s"
definition psxOR :: "'a psxRegisters_scheme \<Rightarrow> 'a psxRegisters_scheme" where
  "psxOR s = wRd (prRs s OR prRt s) s"
definition psxXOR :: "'a psxRegisters_scheme \<Rightarrow> 'a psxRegisters_scheme" where
  "psxXOR s = wRd (prRs s XOR prRt s) s"
definition psxNOR :: "'a psxRegisters_scheme \<Rightarrow> 'a psxRegisters_scheme" where
  "psxNOR s = wRd (NOT (prRs s OR prRt s)) s"
definition psxSLT :: "'a psxRegisters_scheme \<Rightarrow> 'a psxRegisters_scheme" where
  "psxSLT s = wRd ((if prRs s <s prRt s then 1 else 0)) s"
definition psxSLTU :: "'a psxRegisters_scheme \<Rightarrow> 'a psxRegisters_scheme" where
  "psxSLTU s = wRd ((if prRs s < prRt s then 1 else 0)) s"
definition psxSLL :: "'a psxRegisters_scheme \<Rightarrow> 'a psxRegisters_scheme" where
  "psxSLL s = wRd (push_bit (pSa s) (prRt s)) s"
definition psxSRA :: "'a psxRegisters_scheme \<Rightarrow> 'a psxRegisters_scheme" where
  "psxSRA s = wRd (signed_drop_bit (pSa s) (prRt s)) s"
definition psxSRL :: "'a psxRegisters_scheme \<Rightarrow> 'a psxRegisters_scheme" where
  "psxSRL s = wRd (drop_bit (pSa s) (prRt s)) s"
definition psxMFHI :: "'a psxRegisters_scheme \<Rightarrow> 'a psxRegisters_scheme" where
  "psxMFHI s = wRd (psx_hi s) s"
definition psxMFLO :: "'a psxRegisters_scheme \<Rightarrow> 'a psxRegisters_scheme" where
  "psxMFLO s = wRd (psx_lo s) s"

definition wHiLo :: "u32 \<Rightarrow> u32 \<Rightarrow> 'a psxRegisters_scheme \<Rightarrow> 'a psxRegisters_scheme" where
  "wHiLo hi lo s = s\<lparr>psx_lo := lo, psx_hi := hi\<rparr>"

definition psxDIV :: "'a psxRegisters_scheme \<Rightarrow> 'a psxRegisters_scheme" where
  "psxDIV s =
     (if prRt s = 0 then wHiLo (prRs s) (if prRs s <s 0 then 1 else 0xFFFFFFFF) s
      else if prRs s = 0x80000000 \<and> prRt s = 0xFFFFFFFF then wHiLo 0 0x80000000 s
      else wHiLo (word_of_int (sint (prRs s) smod sint (prRt s))) (word_of_int (sint (prRs s) sdiv sint (prRt s))) s)"

definition psxDIVU :: "'a psxRegisters_scheme \<Rightarrow> 'a psxRegisters_scheme" where
  "psxDIVU s = (if prRt s = 0 then wHiLo (prRs s) 0xFFFFFFFF s else wHiLo (prRs s mod prRt s) (prRs s div prRt s) s)"

definition wHiLo64 :: "u64 \<Rightarrow> 'a psxRegisters_scheme \<Rightarrow> 'a psxRegisters_scheme" where
  "wHiLo64 res s = wHiLo (ucast (drop_bit 32 res)) (ucast res) s"

definition psxMULT :: "'a psxRegisters_scheme \<Rightarrow> 'a psxRegisters_scheme" where
  "psxMULT s = wHiLo64 (scast (prRs s) * scast (prRt s)) s"
definition psxMULTU :: "'a psxRegisters_scheme \<Rightarrow> 'a psxRegisters_scheme" where
  "psxMULTU s = wHiLo64 (ucast (prRs s) * ucast (prRt s)) s"
definition psxMTHI :: "'a psxRegisters_scheme \<Rightarrow> 'a psxRegisters_scheme" where "psxMTHI s = s\<lparr>psx_hi := prRs s\<rparr>"
definition psxMTLO :: "'a psxRegisters_scheme \<Rightarrow> 'a psxRegisters_scheme" where "psxMTLO s = s\<lparr>psx_lo := prRs s\<rparr>"

definition shift_by_reg :: "(nat \<Rightarrow> u32 \<Rightarrow> u32) \<Rightarrow> 'a ee_io_scheme psx_step" where
  "shift_by_reg f s =
     (let p = psx s in
      if pRd p = 0 then Ok () s
      else if 32 \<le> prRs p then Throw UndefinedShift s
      else Ok () (on_psx (wpGPR (pRd p) (f (unat (prRs p)) (prRt p))) s))"

definition psxSLLV :: "'a ee_io_scheme psx_step" where "psxSLLV = shift_by_reg push_bit"
definition psxSRAV :: "'a ee_io_scheme psx_step" where "psxSRAV = shift_by_reg signed_drop_bit"
definition psxSRLV :: "'a ee_io_scheme psx_step" where "psxSRLV = shift_by_reg drop_bit"

section \<open>System instructions\<close>

definition psxBREAK :: "'a psxRegisters_scheme \<Rightarrow> 'a psxRegisters_scheme" where
  "psxBREAK s = psxException 0x24 (iopIsDelaySlot s) (s\<lparr>psx_pc := psx_pc s - 4\<rparr>)"
definition psxSYSCALL :: "'a psxRegisters_scheme \<Rightarrow> 'a psxRegisters_scheme" where
  "psxSYSCALL s = psxException 0x20 (iopIsDelaySlot s) (s\<lparr>psx_pc := psx_pc s - 4\<rparr>)"
definition psxRFE :: "'a psxRegisters_scheme \<Rightarrow> 'a psxRegisters_scheme" where
  "psxRFE s = wpCP0 cop0_Status ((psxCP0 s cop0_Status AND 0xfffffff0) OR drop_bit 2 (psxCP0 s cop0_Status AND 0x3c)) s"
definition psxMFC0 :: "'a psxRegisters_scheme \<Rightarrow> 'a psxRegisters_scheme" where "psxMFC0 s = wRt (psxCP0 s (pRd s)) s"
definition psxCFC0 :: "'a psxRegisters_scheme \<Rightarrow> 'a psxRegisters_scheme" where "psxCFC0 s = wRt (psxCP0 s (pRd s)) s"
definition psxMTC0 :: "'a psxRegisters_scheme \<Rightarrow> 'a psxRegisters_scheme" where "psxMTC0 s = wpCP0 (pRd s) (prRt s) s"
definition psxCTC0 :: "'a psxRegisters_scheme \<Rightarrow> 'a psxRegisters_scheme" where "psxCTC0 s = wpCP0 (pRd s) (prRt s) s"
definition psxNULL :: "'a psxRegisters_scheme \<Rightarrow> 'a psxRegisters_scheme" where "psxNULL s = s"

section \<open>Loads and stores\<close>

text \<open>The address \<open>_oB_\<close>; the aligned address and the bit offset of the partial accesses.\<close>

definition oB :: "'a ee_io_scheme \<Rightarrow> u32" where "oB s = prRs (psx s) + pImm (psx s)"
definition oB_word :: "'a ee_io_scheme \<Rightarrow> u32" where "oB_word s = oB s AND 0xfffffffc"
definition oB_shift :: "'a ee_io_scheme \<Rightarrow> nat" where "oB_shift s = unat (push_bit 3 (oB s AND 3))"

definition load :: "('x \<Rightarrow> u32) \<Rightarrow> 'x \<times> 'a ee_io_scheme \<Rightarrow> 'a ee_io_scheme" where
  "load ext r = (case r of (v, s) \<Rightarrow> on_psx (wRt (ext v)) s)"

definition psxLB :: "'a ee_io_scheme iop_devs \<Rightarrow> 'a ee_io_scheme \<Rightarrow> 'a ee_io_scheme" where
  "psxLB d s = load scast (iopMemRead8 d (oB s) s)"
definition psxLBU :: "'a ee_io_scheme iop_devs \<Rightarrow> 'a ee_io_scheme \<Rightarrow> 'a ee_io_scheme" where
  "psxLBU d s = load ucast (iopMemRead8 d (oB s) s)"
definition psxLH :: "'a ee_io_scheme iop_devs \<Rightarrow> 'a ee_io_scheme \<Rightarrow> 'a ee_io_scheme" where
  "psxLH d s = load scast (iopMemRead16 d (oB s) s)"
definition psxLHU :: "'a ee_io_scheme iop_devs \<Rightarrow> 'a ee_io_scheme \<Rightarrow> 'a ee_io_scheme" where
  "psxLHU d s = load ucast (iopMemRead16 d (oB s) s)"
definition psxLW :: "'a ee_io_scheme iop_devs \<Rightarrow> 'a ee_io_scheme \<Rightarrow> 'a ee_io_scheme" where
  "psxLW d s = load id (iopMemRead32 d (oB s) s)"

definition psxLWL :: "'a ee_io_scheme iop_devs \<Rightarrow> 'a ee_io_scheme \<Rightarrow> 'a ee_io_scheme" where
  "psxLWL d s =
     (let shift = oB_shift s
      in case iopMemRead32 d (oB_word s) s of (mem, s1) \<Rightarrow>
           on_psx (\<lambda>p. wRt ((prRt p AND drop_bit shift 0x00ffffff) OR push_bit (24 - shift) mem) p) s1)"

definition psxLWR :: "'a ee_io_scheme iop_devs \<Rightarrow> 'a ee_io_scheme \<Rightarrow> 'a ee_io_scheme" where
  "psxLWR d s =
     (let shift = oB_shift s
      in case iopMemRead32 d (oB_word s) s of (mem, s1) \<Rightarrow>
           on_psx (\<lambda>p. wRt ((prRt p AND push_bit (24 - shift) 0xffffff00) OR drop_bit shift mem) p) s1)"

definition psxSB :: "'a ee_io_scheme iop_devs \<Rightarrow> 'a ee_io_scheme \<Rightarrow> 'a ee_io_scheme" where
  "psxSB d s = iopMemWrite8 d (oB s) (ucast (prRt (psx s))) s"
definition psxSH :: "'a ee_io_scheme iop_devs \<Rightarrow> 'a ee_io_scheme \<Rightarrow> 'a ee_io_scheme" where
  "psxSH d s = iopMemWrite16 d (oB s) (ucast (prRt (psx s))) s"
definition psxSW :: "'a ee_io_scheme iop_devs \<Rightarrow> 'a ee_io_scheme \<Rightarrow> 'a ee_io_scheme" where
  "psxSW d s = iopMemWrite32 d (oB s) (prRt (psx s)) s"

definition psxSWL :: "'a ee_io_scheme iop_devs \<Rightarrow> 'a ee_io_scheme \<Rightarrow> 'a ee_io_scheme" where
  "psxSWL d s =
     (let shift = oB_shift s
      in case iopMemRead32 d (oB_word s) s of (mem, s1) \<Rightarrow>
           iopMemWrite32 d (oB_word s1) (drop_bit (24 - shift) (prRt (psx s1)) OR (mem AND push_bit shift 0xffffff00)) s1)"

definition psxSWR :: "'a ee_io_scheme iop_devs \<Rightarrow> 'a ee_io_scheme \<Rightarrow> 'a ee_io_scheme" where
  "psxSWR d s =
     (let shift = oB_shift s
      in case iopMemRead32 d (oB_word s) s of (mem, s1) \<Rightarrow>
           iopMemWrite32 d (oB_word s1) (push_bit shift (prRt (psx s1)) OR (mem AND drop_bit (24 - shift) 0x00ffffff)) s1)"

end
