(* ===== verification/Iop_Interp.thy ===== *)
theory Iop_Interp
  imports Iop_Opcodes Iop_Gte
begin

text \<open>
  The I/O processor's interpreter: the branches, the loop and the block execution of
  pcsx2/R3000AInterpreter.cpp, the tables of pcsx2/R3000AOpcodeTables.cpp, and the register
  moves of the geometry coprocessor (pcsx2/IopGte.cpp).

  As on the EE a branch calls \<open>execI\<close> for its delay slot, and the model counts the nesting.
  Parameters are the devices, the emulated library and BIOS calls, the event test and the
  host's arithmetic in the geometry operations.
\<close>

unbundle bit_operations_syntax

record 's psx_env =
  psx_devs :: "'s iop_devs"
  irxImportExec :: "u32 \<Rightarrow> u16 \<Rightarrow> 's \<Rightarrow> ('s, bool) res"
  psxBiosCall :: "'s \<Rightarrow> ('s, unit) res"
  psx_EventTest :: "'s \<Rightarrow> ('s, unit) res"
  gte_cpu :: gte_host
  psx_execI :: "'s \<Rightarrow> ('s, unit) res"

section \<open>Moves of the geometry coprocessor\<close>

definition MFC2 :: "5 word \<Rightarrow> psxRegisters \<Rightarrow> u32 \<times> psxRegisters" where
  "MFC2 reg s =
     (let ir = (\<lambda>n. signed_drop_bit 7 (psxCP2D s n) AND 0x1f)
      in if reg = 29
         then (let v = ir 9 OR push_bit 5 (ir 10) OR push_bit 10 (ir 11)
               in (v, s\<lparr>psxCP2D := (psxCP2D s)(29 := v)\<rparr>))
         else (psxCP2D s reg, s))"

definition wCP2D :: "5 word \<Rightarrow> u32 \<Rightarrow> psxRegisters \<Rightarrow> psxRegisters" where
  "wCP2D reg v s = s\<lparr>psxCP2D := (psxCP2D s)(reg := v)\<rparr>"

definition MTC2 :: "u32 \<Rightarrow> 5 word \<Rightarrow> psxRegisters \<Rightarrow> psxRegisters" where
  "MTC2 value reg s =
     (let D = psxCP2D s
      in if 8 \<le> reg \<and> reg \<le> 11 then wCP2D reg (scast (ucast value :: u16)) s
         else if reg = 15 then s\<lparr>psxCP2D := D(12 := D 13, 13 := D 14, 14 := value, 15 := value)\<rparr>
         else if 16 \<le> reg \<and> reg \<le> 19 then wCP2D reg (value AND 0xffff) s
         else if reg = 28 then s\<lparr>psxCP2D := D(28 := value, 9 := push_bit 7 (value AND 0x1f),
             10 := push_bit 7 (drop_bit 5 value AND 0x1f), 11 := push_bit 7 (drop_bit 10 value AND 0x1f))\<rparr>
         else if reg = 30 then s\<lparr>psxCP2D := D(30 := value, 31 := count_leading_sign_bits value)\<rparr>
         else wCP2D reg value s)"

definition gteMFC2 :: "psxRegisters \<Rightarrow> psxRegisters" where
  "gteMFC2 s = (if pRt s = 0 then s else case MFC2 (pRd s) s of (v, s1) \<Rightarrow> wpGPR (pRt s1) v s1)"
definition gteCFC2 :: "psxRegisters \<Rightarrow> psxRegisters" where "gteCFC2 s = wRt (psxCP2C s (pRd s)) s"
definition gteMTC2 :: "psxRegisters \<Rightarrow> psxRegisters" where "gteMTC2 s = MTC2 (prRt s) (pRd s) s"
definition gteCTC2 :: "psxRegisters \<Rightarrow> psxRegisters" where
  "gteCTC2 s = s\<lparr>psxCP2C := (psxCP2C s)(pRd s := prRt s)\<rparr>"

definition gteLWC2 :: "'a ee_io_scheme iop_devs \<Rightarrow> 'a ee_io_scheme \<Rightarrow> 'a ee_io_scheme" where
  "gteLWC2 d s = (case iopMemRead32 d (oB s) s of (v, s1) \<Rightarrow> on_psx (\<lambda>p. MTC2 v (pRt p) p) s1)"
definition gteSWC2 :: "'a ee_io_scheme iop_devs \<Rightarrow> 'a ee_io_scheme \<Rightarrow> 'a ee_io_scheme" where
  "gteSWC2 d s = (case MFC2 (pRt (psx s)) (psx s) of (v, p) \<Rightarrow> iopMemWrite32 d (oB s) v (s\<lparr>psx := p\<rparr>))"

section \<open>Branches\<close>

definition psx_doBranch :: "'a ee_io_scheme psx_env \<Rightarrow> u32 \<Rightarrow> 'a ee_io_scheme psx_step" where
  "psx_doBranch env tar s =
     res_bind (psx_execI env (on_psx (\<lambda>p. p\<lparr>psx_branch2 := True, iopIsDelaySlot := True, branchPC := tar\<rparr>) s)) (\<lambda>_ s1.
       psx_EventTest env (on_psx (\<lambda>p. p\<lparr>iopIsDelaySlot := False, psx_pc := branchPC p\<rparr>) s1))"

definition psx_branch_if :: "bool \<Rightarrow> 'a ee_io_scheme psx_env \<Rightarrow> 'a ee_io_scheme psx_step" where
  "psx_branch_if c env s = (if c then psx_doBranch env (pBranchTarget (psx s)) s else Ok () s)"

definition psxBGEZ :: "'a ee_io_scheme psx_env \<Rightarrow> 'a ee_io_scheme psx_step" where
  "psxBGEZ env s = psx_branch_if (0 <=s prRs (psx s)) env s"
definition psxBGTZ :: "'a ee_io_scheme psx_env \<Rightarrow> 'a ee_io_scheme psx_step" where
  "psxBGTZ env s = psx_branch_if (0 <s prRs (psx s)) env s"
definition psxBLEZ :: "'a ee_io_scheme psx_env \<Rightarrow> 'a ee_io_scheme psx_step" where
  "psxBLEZ env s = psx_branch_if (prRs (psx s) <=s 0) env s"
definition psxBLTZ :: "'a ee_io_scheme psx_env \<Rightarrow> 'a ee_io_scheme psx_step" where
  "psxBLTZ env s = psx_branch_if (prRs (psx s) <s 0) env s"
definition psxBEQ :: "'a ee_io_scheme psx_env \<Rightarrow> 'a ee_io_scheme psx_step" where
  "psxBEQ env s = psx_branch_if (prRs (psx s) = prRt (psx s)) env s"
definition psxBNE :: "'a ee_io_scheme psx_env \<Rightarrow> 'a ee_io_scheme psx_step" where
  "psxBNE env s = psx_branch_if (prRs (psx s) \<noteq> prRt (psx s)) env s"

definition psxBGEZAL :: "'a ee_io_scheme psx_env \<Rightarrow> 'a ee_io_scheme psx_step" where
  "psxBGEZAL env s = (let s1 = on_psx (pSetLink 31) s in psx_branch_if (0 <=s prRs (psx s1)) env s1)"
definition psxBLTZAL :: "'a ee_io_scheme psx_env \<Rightarrow> 'a ee_io_scheme psx_step" where
  "psxBLTZAL env s = (let s1 = on_psx (pSetLink 31) s in psx_branch_if (prRs (psx s1) <s 0) env s1)"

text \<open>The search for the head of an import table, at most 2043 words back.\<close>

fun irxImportTable_search :: "nat \<Rightarrow> 'a ee_io_scheme iop_devs \<Rightarrow> u32 \<Rightarrow> u32 \<Rightarrow> 'a ee_io_scheme \<Rightarrow> u32 \<times> 'a ee_io_scheme" where
  "irxImportTable_search 0 d entrypc i s = (0, s)"
| "irxImportTable_search (Suc n) d entrypc i s =
     (if entrypc - i < 0x2000
      then (case iopMemRead32 d i s of (v, s1) \<Rightarrow>
        if v = 0x41e00000 then (i, s1) else irxImportTable_search n d entrypc (i - 4) s1)
      else (0, s))"

definition irxImportTableAddr :: "'a ee_io_scheme iop_devs \<Rightarrow> u32 \<Rightarrow> 'a ee_io_scheme \<Rightarrow> u32 \<times> 'a ee_io_scheme" where
  "irxImportTableAddr d entrypc = irxImportTable_search 2043 d entrypc (entrypc - 0x18)"

definition psxJ :: "'a ee_io_scheme psx_env \<Rightarrow> 'a ee_io_scheme psx_step" where
  "psxJ env s =
     (case iopMemRead32 (psx_devs env) (psx_pc (psx s)) s of (delayslot, s1) \<Rightarrow>
      res_bind (if drop_bit 16 delayslot = 0x2400
                then (case irxImportTableAddr (psx_devs env) (psx_pc (psx s1)) s1 of (t, s2) \<Rightarrow>
                        irxImportExec env t (ucast delayslot) s2)
                else Ok False s1) (\<lambda>hle s2.
      if hle then Ok () s2 else psx_doBranch env (pJumpTarget (psx s2)) s2))"

definition psxJAL :: "'a ee_io_scheme psx_env \<Rightarrow> 'a ee_io_scheme psx_step" where
  "psxJAL env s = (let s1 = on_psx (pSetLink 31) s in psx_doBranch env (pJumpTarget (psx s1)) s1)"
definition psxJR :: "'a ee_io_scheme psx_env \<Rightarrow> 'a ee_io_scheme psx_step" where
  "psxJR env s = psx_doBranch env (prRs (psx s)) s"
definition psxJALR :: "'a ee_io_scheme psx_env \<Rightarrow> 'a ee_io_scheme psx_step" where
  "psxJALR env s =
     (let s1 = (if pRd (psx s) \<noteq> 0 then on_psx (pSetLink (pRd (psx s))) s else s)
      in psx_doBranch env (prRs (psx s1)) s1)"

section \<open>Tables\<close>

text \<open>A handler of the register file, of the machine, of the memory, and a geometry operation that depends on the host.\<close>

abbreviation Reg :: "(psxRegisters \<Rightarrow> psxRegisters) \<Rightarrow> 'a ee_io_scheme psx_env \<Rightarrow> 'a ee_io_scheme psx_step" where
  "Reg f env \<equiv> on_regs f"
abbreviation Mac :: "'a ee_io_scheme psx_step \<Rightarrow> 'a ee_io_scheme psx_env \<Rightarrow> 'a ee_io_scheme psx_step" where
  "Mac f env \<equiv> f"
abbreviation Mem :: "('a ee_io_scheme iop_devs \<Rightarrow> 'a ee_io_scheme \<Rightarrow> 'a ee_io_scheme) \<Rightarrow> 'a ee_io_scheme psx_env \<Rightarrow>
    'a ee_io_scheme psx_step" where
  "Mem f env s \<equiv> Ok () (f (psx_devs env) s)"
abbreviation Gte :: "(gte_host \<Rightarrow> psxRegisters \<Rightarrow> psxRegisters) \<Rightarrow> 'a ee_io_scheme psx_env \<Rightarrow> 'a ee_io_scheme psx_step" where
  "Gte f env \<equiv> on_regs (f (gte_cpu env))"

definition psxSPC :: "('a ee_io_scheme psx_env \<Rightarrow> 'a ee_io_scheme psx_step) list" where
  "psxSPC =
    [Reg psxSLL, Reg psxNULL, Reg psxSRL, Reg psxSRA, Mac psxSLLV, Reg psxNULL, Mac psxSRLV, Mac psxSRAV, psxJR, psxJALR,
     Reg psxNULL, Reg psxNULL, Reg psxSYSCALL, Reg psxBREAK, Reg psxNULL, Reg psxNULL, Reg psxMFHI, Reg psxMTHI, Reg psxMFLO,
     Reg psxMTLO, Reg psxNULL, Reg psxNULL, Reg psxNULL, Reg psxNULL, Reg psxMULT, Reg psxMULTU, Reg psxDIV, Reg psxDIVU,
     Reg psxNULL, Reg psxNULL, Reg psxNULL, Reg psxNULL, Reg psxADD, Reg psxADDU, Reg psxSUB, Reg psxSUBU, Reg psxAND, Reg psxOR,
     Reg psxXOR, Reg psxNOR, Reg psxNULL, Reg psxNULL, Reg psxSLT, Reg psxSLTU, Reg psxNULL, Reg psxNULL, Reg psxNULL, Reg psxNULL,
     Reg psxNULL, Reg psxNULL, Reg psxNULL, Reg psxNULL, Reg psxNULL, Reg psxNULL, Reg psxNULL, Reg psxNULL, Reg psxNULL,
     Reg psxNULL, Reg psxNULL, Reg psxNULL, Reg psxNULL, Reg psxNULL, Reg psxNULL, Reg psxNULL]"

definition psxSPECIAL :: "'a ee_io_scheme psx_env \<Rightarrow> 'a ee_io_scheme psx_step" where
  "psxSPECIAL env s = (psxSPC ! pFunct (psx s)) env s"

definition psxREG :: "('a ee_io_scheme psx_env \<Rightarrow> 'a ee_io_scheme psx_step) list" where
  "psxREG =
    [psxBLTZ, psxBGEZ, Reg psxNULL, Reg psxNULL, Reg psxNULL, Reg psxNULL, Reg psxNULL, Reg psxNULL, Reg psxNULL, Reg psxNULL,
     Reg psxNULL, Reg psxNULL, Reg psxNULL, Reg psxNULL, Reg psxNULL, Reg psxNULL, psxBLTZAL, psxBGEZAL, Reg psxNULL,
     Reg psxNULL, Reg psxNULL, Reg psxNULL, Reg psxNULL, Reg psxNULL, Reg psxNULL, Reg psxNULL, Reg psxNULL, Reg psxNULL,
     Reg psxNULL, Reg psxNULL, Reg psxNULL, Reg psxNULL]"

definition psxREGIMM :: "'a ee_io_scheme psx_env \<Rightarrow> 'a ee_io_scheme psx_step" where
  "psxREGIMM env s = (psxREG ! unat (pRt (psx s))) env s"

definition psxCP0_tbl :: "('a ee_io_scheme psx_env \<Rightarrow> 'a ee_io_scheme psx_step) list" where
  "psxCP0_tbl =
    [Reg psxMFC0, Reg psxNULL, Reg psxCFC0, Reg psxNULL, Reg psxMTC0, Reg psxNULL, Reg psxCTC0, Reg psxNULL, Reg psxNULL,
     Reg psxNULL, Reg psxNULL, Reg psxNULL, Reg psxNULL, Reg psxNULL, Reg psxNULL, Reg psxNULL, Reg psxRFE, Reg psxNULL,
     Reg psxNULL, Reg psxNULL, Reg psxNULL, Reg psxNULL, Reg psxNULL, Reg psxNULL, Reg psxNULL, Reg psxNULL, Reg psxNULL,
     Reg psxNULL, Reg psxNULL, Reg psxNULL, Reg psxNULL, Reg psxNULL]"

definition psxCOP0 :: "'a ee_io_scheme psx_env \<Rightarrow> 'a ee_io_scheme psx_step" where
  "psxCOP0 env s = (psxCP0_tbl ! unat (pRs (psx s))) env s"

definition psxCP2BSC :: "('a ee_io_scheme psx_env \<Rightarrow> 'a ee_io_scheme psx_step) list" where
  "psxCP2BSC =
    [Reg gteMFC2, Reg psxNULL, Reg gteCFC2, Reg psxNULL, Reg gteMTC2, Reg psxNULL, Reg gteCTC2, Reg psxNULL, Reg psxNULL,
     Reg psxNULL, Reg psxNULL, Reg psxNULL, Reg psxNULL, Reg psxNULL, Reg psxNULL, Reg psxNULL, Reg psxNULL, Reg psxNULL,
     Reg psxNULL, Reg psxNULL, Reg psxNULL, Reg psxNULL, Reg psxNULL, Reg psxNULL, Reg psxNULL, Reg psxNULL, Reg psxNULL,
     Reg psxNULL, Reg psxNULL, Reg psxNULL, Reg psxNULL, Reg psxNULL]"

definition psxBASIC :: "'a ee_io_scheme psx_env \<Rightarrow> 'a ee_io_scheme psx_step" where
  "psxBASIC env s = (psxCP2BSC ! unat (pRs (psx s))) env s"

definition psxCP2 :: "('a ee_io_scheme psx_env \<Rightarrow> 'a ee_io_scheme psx_step) list" where
  "psxCP2 =
    [psxBASIC, Gte gteRTPS, Reg psxNULL, Reg psxNULL, Reg psxNULL, Reg psxNULL, Reg gteNCLIP, Reg psxNULL, Reg psxNULL,
     Reg psxNULL, Reg psxNULL, Reg psxNULL, Reg gteOP, Reg psxNULL, Reg psxNULL, Reg psxNULL, Reg gteDPCS, Reg gteINTPL,
     Reg gteMVMVA, Reg gteNCDS, Gte gteCDP, Reg psxNULL, Reg gteNCDT, Reg psxNULL, Reg psxNULL, Reg psxNULL, Reg psxNULL,
     Reg gteNCCS, Reg gteCC, Reg psxNULL, Reg gteNCS, Reg psxNULL, Reg gteNCT, Reg psxNULL, Reg psxNULL, Reg psxNULL,
     Reg psxNULL, Reg psxNULL, Reg psxNULL, Reg psxNULL, Reg gteSQR, Gte gteDCPL, Reg gteDPCT, Reg psxNULL, Reg psxNULL,
     Reg gteAVSZ3, Reg gteAVSZ4, Reg psxNULL, Gte gteRTPT, Reg psxNULL, Reg psxNULL, Reg psxNULL, Reg psxNULL, Reg psxNULL,
     Reg psxNULL, Reg psxNULL, Reg psxNULL, Reg psxNULL, Reg psxNULL, Reg psxNULL, Reg psxNULL, Reg gteGPF, Reg gteGPL,
     Reg gteNCCT]"

definition psxCOP2 :: "'a ee_io_scheme psx_env \<Rightarrow> 'a ee_io_scheme psx_step" where
  "psxCOP2 env s = (psxCP2 ! pFunct (psx s)) env s"

definition psxBSC :: "('a ee_io_scheme psx_env \<Rightarrow> 'a ee_io_scheme psx_step) list" where
  "psxBSC =
    [psxSPECIAL, psxREGIMM, psxJ, psxJAL, psxBEQ, psxBNE, psxBLEZ, psxBGTZ, Reg psxADDI, Reg psxADDIU, Reg psxSLTI,
     Reg psxSLTIU, Reg psxANDI, Reg psxORI, Reg psxXORI, Reg psxLUI, psxCOP0, Reg psxNULL, psxCOP2, Reg psxNULL, Reg psxNULL,
     Reg psxNULL, Reg psxNULL, Reg psxNULL, Reg psxNULL, Reg psxNULL, Reg psxNULL, Reg psxNULL, Reg psxNULL, Reg psxNULL,
     Reg psxNULL, Reg psxNULL, Mem psxLB, Mem psxLH, Mem psxLWL, Mem psxLW, Mem psxLBU, Mem psxLHU, Mem psxLWR, Reg psxNULL,
     Mem psxSB, Mem psxSH, Mem psxSWL, Mem psxSW, Reg psxNULL, Reg psxNULL, Mem psxSWR, Reg psxNULL, Reg psxNULL, Reg psxNULL,
     Mem gteLWC2, Reg psxNULL, Reg psxNULL, Reg psxNULL, Reg psxNULL, Reg psxNULL, Reg psxNULL, Reg psxNULL, Mem gteSWC2,
     Reg psxNULL, Reg psxNULL, Reg psxNULL, Reg psxNULL, Reg psxNULL]"

section \<open>Execution\<close>

text \<open>The hook that injects a module when the boot reaches 0x1630.\<close>

definition inject_irx :: "'a ee_io_scheme psx_env \<Rightarrow> 'a ee_io_scheme \<Rightarrow> 'a ee_io_scheme" where
  "inject_irx env s =
     (if psx_pc (psx s) = 0x1630 \<and> CurrentIRX_length (psx s) > 3
      then (case iopMemRead32 (psx_devs env) 0x20018 s of (v, s1) \<Rightarrow>
             if v = 0x1F then iopMemWrite32 (psx_devs env) 0x20094 0xbffc0000 s1 else s1)
      else s)"

definition psx_fetch :: "'a ee_io_scheme psx_env \<Rightarrow> 'a ee_io_scheme \<Rightarrow> 'a ee_io_scheme" where
  "psx_fetch env s =
     (let s1 = inject_irx env s
      in case iopMemRead32 (psx_devs env) (psx_pc (psx s1)) s1 of (v, s2) \<Rightarrow>
           on_psx (\<lambda>p. let p1 = p\<lparr>psx_code := v, psx_pc := psx_pc p + 4, psx_cycle := psx_cycle p + 1\<rparr>
             in p1\<lparr>iopCycleEE := iopCycleEE p1 - (if psxHu32 HW_ICFG p1 AND push_bit 3 1 \<noteq> 0 then 9 else 8)\<rparr>) s2)"

fun psx_exec :: "nat \<Rightarrow> 'a ee_io_scheme psx_env \<Rightarrow> 'a ee_io_scheme psx_step" where
  "psx_exec 0 env s = Throw NestedTooDeep s"
| "psx_exec (Suc n) env s =
     (let s1 = psx_fetch env s
      in (psxBSC ! unat (drop_bit 26 (psx_code (psx s1)))) (env\<lparr>psx_execI := psx_exec n env\<rparr>) s1)"

text \<open>
  \<open>intExecuteBlock\<close>: with \<open>inner\<close> the loop that waits for a branch runs.  The first argument
  bounds the number of steps of the two loops.
\<close>

definition psx_bios_entry :: "'a ee_io_scheme \<Rightarrow> bool" where
  "psx_bios_entry s \<longleftrightarrow> psxHu32 HW_ICFG (psx s) AND 8 \<noteq> 0 \<and> psx_pc (psx s) AND 0x1fffffff \<in> {0xa0, 0xb0, 0xc0}"

fun psx_run :: "nat \<Rightarrow> nat \<Rightarrow> 'a ee_io_scheme psx_env \<Rightarrow> bool \<Rightarrow> 'a ee_io_scheme \<Rightarrow> ('a ee_io_scheme, unit) res option" where
  "psx_run 0 d env inner s = None"
| "psx_run (Suc n) d env True s =
     (if psx_branch2 (psx s) then psx_run n d env False s
      else case psx_exec d env s of Ok _ s1 \<Rightarrow> psx_run n d env True s1 | Throw e s1 \<Rightarrow> Some (Throw e s1))"
| "psx_run (Suc n) d env False s =
     (if 0 <s iopCycleEE (psx s)
      then (case (if psx_bios_entry s then psxBiosCall env s else Ok () s) of
              Ok _ s1 \<Rightarrow> psx_run n d env True (on_psx (\<lambda>p. p\<lparr>psx_branch2 := False\<rparr>) s1)
            | Throw e s1 \<Rightarrow> Some (Throw e s1))
      else Some (Ok () s))"

definition psx_intExecuteBlock ::
  "nat \<Rightarrow> nat \<Rightarrow> 'a ee_io_scheme psx_env \<Rightarrow> u32 \<Rightarrow> 'a ee_io_scheme \<Rightarrow> ('a ee_io_scheme, u32) res option" where
  "psx_intExecuteBlock n d env eeCycles s =
     map_option (\<lambda>r.
       res_bind (case r of Throw ExitCpuExecute s1 \<Rightarrow> intSafeExitExecution (eeEventTestIsActive s1) s1 | _ \<Rightarrow> r) (\<lambda>_ s1.
         Ok (iopBreak (psx s1) + iopCycleEE (psx s1)) s1))
       (psx_run n d env False (on_psx (\<lambda>p. p\<lparr>iopBreak := 0, iopCycleEE := eeCycles\<rparr>) s))"

end
