(* ===== verification/Iop_Spec.thy ===== *)
theory Iop_Spec
  imports Iop_Interp
begin

text \<open>
  Properties of the I/O processor: its main memory with its mirrors, the gate of its
  interrupts, and exceptions in delay slots.
\<close>

unbundle bit_operations_syntax

section \<open>Main memory\<close>

text \<open>The tables as \<open>iopMemReset\<close> leaves them, and a main memory that is not at the ends of
  the host's address space.\<close>

definition iop_mapped :: "'a ee_io_scheme \<Rightarrow> bool" where
  "iop_mapped s \<longleftrightarrow> (\<exists>h. psxMemWLUT s = iopReset_WLUT h s \<and> psxMemRLUT s = iopReset_RLUT h s) \<and>
     0 < iopMem_Main s \<and> iopMem_Main s < 0x7FFFFFFFFFE00000"

lemma iopMemReset_mapped:
  assumes "0 < iopMem_Main s" "iopMem_Main s < 0x7FFFFFFFFFE00000"
  shows "iop_mapped (iopMemReset h s)"
  using assms by (auto simp: iop_mapped_def iopMemReset_def iopReset_WLUT_def iopReset_RLUT_def fun_eq_iff)

text \<open>The place of an address of main memory in the host's memory.\<close>

definition main_ptr :: "u32 \<Rightarrow> 'a ee_io_scheme \<Rightarrow> u64" where
  "main_ptr addr s = iopMem_Main s + ucast (addr AND 0x1fffff)"

definition in_main :: "u32 \<Rightarrow> bool" where
  "in_main addr \<longleftrightarrow> addr AND 0x1fffffff < 0x800000"

lemma in_main_page: "in_main addr \<longleftrightarrow> iop_page (iop_phys addr) < 0x80"
proof -
  let ?m = "addr AND 0x1fffffff"
  have "?m \<le> 0x1fffffff" by (rule word_and_le1)
  then have m: "unat ?m < 2 ^ 29" by (simp add: word_le_nat_alt)
  have "unat (iop_page ?m) = unat ?m div 2 ^ 16"
    using m by (simp only: iop_page_def unsigned_ucast_eq unat_drop_bit_eq drop_bit_eq_div [where 'a = nat])
      (simp add: take_bit_nat_eq_self div_less_iff_less_mult)
  then show ?thesis
    by (simp add: in_main_def iop_phys_def word_less_nat_alt div_less_iff_less_mult)
qed

lemma numeral_masks:
  "(0xffff :: u32) = mask 16" "(0x1fffff :: u32) = mask 21" "(0x1fffffff :: u32) = mask 29" "(0x1f :: 13 word) = mask 5"
  by (simp_all add: mask_eq_exp_minus_1)

lemma main_ptr_page:
  "iop_ptr (page_ptr base (iop_page (iop_phys addr) AND 0x1f)) (iop_phys addr) = base + ucast (addr AND 0x1fffff)"
proof -
  let ?hi = "push_bit 16 (ucast (iop_page (iop_phys addr) AND 0x1f)) :: u64" and ?lo = "ucast (iop_phys addr AND 0xffff) :: u64"
  have "?hi AND ?lo = 0"
    unfolding numeral_masks iop_phys_def iop_page_def by (rule bit_word_eqI) (auto simp: bit_simps)
  then have "?hi + ?lo = ?hi OR ?lo" by (rule disjunctive_add_eq_or)
  also have "\<dots> = ucast (addr AND 0x1fffff)"
    unfolding numeral_masks iop_phys_def iop_page_def by (rule bit_word_eqI) (auto simp: bit_simps)
  finally show ?thesis by (simp add: iop_ptr_def page_ptr_def add.assoc)
qed

lemma page_ptr_main_nonzero:
  assumes "0 < base" "base < (0x7FFFFFFFFFE00000 :: u64)"
  shows "page_ptr base (i AND 0x1f) \<noteq> 0"
proof -
  have "i AND 0x1f \<le> 0x1f" by (rule word_and_le1)
  then have "unat (i AND 0x1f) \<le> 31" by (simp add: word_le_nat_alt)
  moreover define n where "n = unat (i AND 0x1f)"
  ultimately have n: "n \<le> 31" by simp
  define z where "z = uint base + 65536 * int n"
  have "page_ptr base (i AND 0x1f) = word_of_int z"
    by (simp add: page_ptr_def push_bit_eq_mult n_def z_def)
  moreover have "0 < z" "z < 2 ^ 64"
    using assms n by (auto simp: word_less_def z_def)
  then have "uint (word_of_int z :: u64) = z" by (simp add: uint_word_of_int_eq take_bit_int_eq_self)
  ultimately show ?thesis using \<open>0 < z\<close> by (metis less_irrefl unsigned_0)
qed

lemma main_page_ptr:
  assumes "iop_mapped s" "in_main addr"
  defines "i \<equiv> iop_page (iop_phys addr)"
  shows "psxMemRLUT s i = page_ptr (iopMem_Main s) (i AND 0x1f)" "psxMemWLUT s i = page_ptr (iopMem_Main s) (i AND 0x1f)"
    "page_ptr (iopMem_Main s) (i AND 0x1f) \<noteq> 0" "i \<noteq> 0x1f80" "i \<noteq> 0x1f40" "i \<noteq> 0x1d00" "i \<noteq> 0x1000"
  using assms page_ptr_main_nonzero [of "iopMem_Main s" i]
  by (auto simp: in_main_page iop_mapped_def iopReset_RLUT_def iopReset_WLUT_def)

lemma iopMemRead32_main:
  assumes "iop_mapped s" "in_main addr"
  shows "iopMemRead32 d addr s = (load_le 4 (hostmem s) (main_ptr addr s), s)"
  using main_page_ptr [OF assms] by (simp add: iopMemRead32_def Let_def host_read_def main_ptr_page main_ptr_def)

lemma iopMemWrite32_main:
  assumes "iop_mapped s" "in_main addr"
  shows "iopMemWrite32 d addr v s =
    (if psxCP0 (psx s) cop0_Status AND 0x10000 = 0 then s\<lparr>hostmem := store_le 4 (hostmem s) (main_ptr addr s) v\<rparr>
     else s)"
  using main_page_ptr [OF assms]
  by (simp add: iopMemWrite32_def Let_def iop_store_def host_write_def main_ptr_page main_ptr_def)

lemma aligned_apart:
  assumes "x < 2 ^ 21" "y < 2 ^ 21" "x mod 4 = 0" "y mod 4 = 0" "x \<noteq> y" "k < 4"
  shows "4 \<le> unat (of_nat x + of_nat k - of_nat y :: u64)"
proof -
  have "4 \<le> (int x + int k - int y) mod 2 ^ 64"
  proof (cases "y \<le> x + k")
    case True
    then have "y + 4 \<le> x" using assms by presburger
    with assms show ?thesis by simp
  next
    case False
    then have "(int x + int k - int y) mod 2 ^ 64 = int x + int k - int y + 2 ^ 64"
      using assms by (intro int_mod_pos_eq [of _ _ "-1"]) auto
    with False assms show ?thesis by simp
  qed
  moreover have "uint (of_nat x + of_nat k - of_nat y :: u64) = (int x + int k - int y) mod 2 ^ 64"
  proof -
    have "(of_nat x + of_nat k - of_nat y :: u64) = word_of_int (int x + int k - int y)" by simp
    then show ?thesis by (simp only: uint_word_of_int_eq take_bit_eq_mod) simp
  qed
  ultimately show ?thesis by (simp add: unat_eq_nat_uint)
qed

lemma main_offset:
  fixes addr :: u32
  assumes "addr AND 3 = 0"
  shows "unat (addr AND 0x1fffff) mod 4 = 0" "unat (addr AND 0x1fffff) < 2 ^ 21"
proof -
  have "addr AND 0x1fffff \<le> 0x1fffff" by (rule word_and_le1)
  then show "unat (addr AND 0x1fffff) < 2 ^ 21" by (simp add: word_le_nat_alt)
  have "(addr AND 0x1fffff) AND 3 = (addr AND 3) AND 0x1fffff" by (simp only: ac_simps)
  with assms have "take_bit 2 (addr AND 0x1fffff) = 0" by (simp add: take_bit_eq_mask mask_eq_exp_minus_1)
  then have "take_bit 2 (unat (addr AND 0x1fffff)) = 0" by (metis unsigned_take_bit_eq unsigned_0)
  then show "unat (addr AND 0x1fffff) mod 4 = 0" by (simp add: take_bit_eq_mod)
qed

lemma main_apart:
  assumes "a AND 3 = 0" "b AND 3 = 0" "a AND 0x1fffff \<noteq> b AND 0x1fffff" "k < 4"
  shows "4 \<le> unat (main_ptr b s + of_nat k - main_ptr a s)"
proof -
  have e: "main_ptr b s + of_nat k - main_ptr a s =
      of_nat (unat (b AND 0x1fffff)) + of_nat k - of_nat (unat (a AND 0x1fffff))"
    by (simp add: main_ptr_def)
  show ?thesis
    unfolding e by (rule aligned_apart) (use main_offset [OF assms(1)] main_offset [OF assms(2)] assms in \<open>auto dest: word_unat_eqI\<close>)
qed

text \<open>
  C18: main memory appears four times in the first 8 MB of the physical space and in each of
  the eight segments; a word stored at one of its addresses is read at all addresses of the
  same offset, and no other word changes.  While the cache is isolated a store has no effect.
\<close>

theorem iop_main_memory:
  assumes s: "iop_mapped s" and a: "in_main a" "a AND 3 = 0" and b: "in_main b" "b AND 3 = 0"
  shows "if psxCP0 (psx s) cop0_Status AND 0x10000 = 0
    then iopMemRead32 d b (iopMemWrite32 d a v s) =
      (if a AND 0x1fffff = b AND 0x1fffff then v else fst (iopMemRead32 d b s), iopMemWrite32 d a v s)
    else iopMemWrite32 d a v s = s"
proof (cases "psxCP0 (psx s) cop0_Status AND 0x10000 = 0")
  case True
  let ?t = "s\<lparr>hostmem := store_le 4 (hostmem s) (main_ptr a s) v\<rparr>"
  have w: "iopMemWrite32 d a v s = ?t" using True by (simp add: iopMemWrite32_main [OF s a(1)])
  have t: "iop_mapped ?t" "main_ptr b ?t = main_ptr b s"
    using s by (auto simp: iop_mapped_def iopReset_WLUT_def iopReset_RLUT_def main_ptr_def fun_eq_iff)
  have "load_le 4 (store_le 4 (hostmem s) (main_ptr a s) v) (main_ptr b s) =
      (if a AND 0x1fffff = b AND 0x1fffff then v else load_le 4 (hostmem s) (main_ptr b s))"
  proof (cases "a AND 0x1fffff = b AND 0x1fffff")
    case True
    then have "main_ptr b s = main_ptr a s" by (simp add: main_ptr_def)
    with True show ?thesis by (simp add: load_store_same)
  next
    case False
    have "store_le 4 (hostmem s) (main_ptr a s) v (main_ptr b s + of_nat k) = hostmem s (main_ptr b s + of_nat k)"
      if "k < 4" for k
      using main_apart [OF a(2) b(2) False that, of s] by (simp add: store_le_byte not_less)
    then have "load_le 4 (store_le 4 (hostmem s) (main_ptr a s) v) (main_ptr b s) = load_le 4 (hostmem s) (main_ptr b s)"
      by (rule load_le_cong)
    with False show ?thesis by simp
  qed
  with True t show ?thesis by (simp add: w iopMemRead32_main [OF _ b(1)] s)
next
  case False
  then show ?thesis by (simp add: iopMemWrite32_main [OF s a(1)])
qed

section \<open>Interrupts\<close>

lemma bits_FE01: "bit (0xFE01 :: u32) i \<longleftrightarrow> i = 0 \<or> 9 \<le> i \<and> i < 16"
proof -
  have "(0xFE01 :: u32) = push_bit 9 (mask 7) OR mask 1" 
    by (simp_all add: mask_eq_exp_minus_1)
  then show "bit (0xFE01 :: u32) i \<longleftrightarrow> i = 0 \<or> 9 \<le> i \<and> i < 16" 
    by (simp_all only: bit_or_iff bit_push_bit_iff bit_mask_iff) auto
qed
lemma bits_F800: "bit (0xF800 :: u32) i \<longleftrightarrow> 11 \<le> i \<and> i < 16"
proof -
  have "(0xF800 :: u32) = push_bit 11 (mask 5)"
    by (simp_all add: mask_eq_exp_minus_1)
  then show "bit (0xF800 :: u32) i \<longleftrightarrow> 11 \<le> i \<and> i < 16"
    by (simp_all only: bit_or_iff bit_push_bit_iff bit_mask_iff) auto
qed
lemma nonzero_bit: "(w :: 'a::len word) \<noteq> 0 \<longleftrightarrow> (\<exists>i. bit w i)"
  by (auto simp: bit_eq_iff dest: bit_imp_le_length)

lemma status_gate: "0x401 \<le> (st :: u32) AND 0xFE01 \<longleftrightarrow> st AND 0xF800 \<noteq> 0 \<or> bit st 10 \<and> (bit st 9 \<or> bit st 0)"
proof -
  have z: "0 < unat x \<longleftrightarrow> x \<noteq> 0" for x :: u32 by (metis gr0I less_irrefl unsigned_0 word_unat_eqI)
  define w where "w = st AND 0xFE01"
  have b: "bit w i \<longleftrightarrow> bit st i \<and> (i = 0 \<or> 9 \<le> i \<and> i < 16)" for i
    by (simp only: w_def bit_and_iff bits_FE01)
  have "1025 \<le> unat w \<longleftrightarrow> unat w div 2048 \<noteq> 0 \<or> odd (unat w div 1024) \<and> unat w mod 1024 \<noteq> 0"
  proof -
    define q r where "q = unat w div 1024" and "r = unat w mod 1024"
    have "unat w = 1024 * q + r" "r < 1024" by (simp_all add: q_def r_def)
    then have "1025 \<le> unat w \<longleftrightarrow> 2 \<le> q \<or> q = 1 \<and> r \<noteq> 0" by auto
    moreover have "unat w div 2048 = q div 2" by (simp add: q_def flip: div_mult2_eq)
    moreover have "2 \<le> q \<or> q = 1 \<and> r \<noteq> 0 \<longleftrightarrow> q div 2 \<noteq> 0 \<or> odd q \<and> r \<noteq> 0" by presburger
    ultimately show ?thesis by (simp add: q_def r_def)
  qed
  also have "unat w div 2048 \<noteq> 0 \<longleftrightarrow> drop_bit 11 w \<noteq> 0"
    using unat_drop_bit_eq [of 11 w] by (simp add: drop_bit_eq_div [where 'a = nat] flip: z)
  also have "\<dots> \<longleftrightarrow> st AND 0xF800 \<noteq> 0"
    unfolding nonzero_bit bit_drop_bit_eq bit_and_iff bits_F800 o_def b
  proof
    assume "\<exists>i. bit st i \<and> 11 \<le> i \<and> i < 16"
    then obtain i where "bit st i" "11 \<le> i" "i < 16" by blast
    then show "\<exists>i. bit st (11 + i) \<and> (11 + i = 0 \<or> 9 \<le> 11 + i \<and> 11 + i < 16)"
      by (intro exI [of _ "i - 11"]) simp
  qed auto
  also have "odd (unat w div 1024) \<longleftrightarrow> bit st 10"
    using b [of 10] bit_iff_odd [of "unat w" 10] by (simp add: bit_unsigned_iff)
  also have "unat w mod 1024 \<noteq> 0 \<longleftrightarrow> take_bit 10 w \<noteq> 0"
    using unsigned_take_bit_eq [of 10 w, where 'a = nat] by (simp add: take_bit_eq_mod [where 'a = nat] flip: z)
  also have "\<dots> \<longleftrightarrow> bit st 9 \<or> bit st 0"
    unfolding nonzero_bit bit_take_bit_iff b by (auto simp: less_Suc_eq numeral_eq_Suc)
  finally show ?thesis by (simp add: w_def word_le_nat_alt)
qed

text \<open>No event is scheduled and no counter is due.\<close>

definition iop_quiet :: "'a ee_io_scheme \<Rightarrow> bool" where
  "iop_quiet s \<longleftrightarrow> psx_interrupt (psx s) = 0 \<and> \<not> psxTestCycle (psxNextsCounter s) (psxNextCounter s) (psx s)"

definition iop_irq_pending :: "'a ee_io_scheme \<Rightarrow> bool" where
  "iop_irq_pending s \<longleftrightarrow> psxHu32 0x1078 (psx s) \<noteq> 0 \<and> psxHu32 0x1070 (psx s) AND psxHu32 0x1074 (psx s) \<noteq> 0"

text \<open>
  C19: when a controller interrupt is pending, the event test of the I/O processor takes it
  exactly if interrupts are enabled (bit 0 of Status) and its line is (bit 10), as long as no
  other line is enabled; but with one of the lines 11 to 15 enabled it takes it whatever bit 0
  says, and with line 9 enabled next to line 10 as well.
\<close>

theorem iop_interrupt_gate:
  assumes "iop_quiet s" "iop_irq_pending s"
  defines "st \<equiv> psxCP0 (psx s) cop0_Status"
    and "p \<equiv> (psx s)\<lparr>g_iopNextEventCycle := psxNextsCounter s + psxNextCounter s\<rparr>"
  shows "psx (iopEventTest cb s) =
    (if st AND 0xF800 \<noteq> 0 \<or> bit st 10 \<and> (bit st 9 \<or> bit st 0)
     then (psxException 0 False p)\<lparr>iopEventAction := True\<rparr> else p)"
  using assms(1,2) status_gate [of st]
  by (auto simp: iopEventTest_def iop_quiet_def iop_irq_pending_def Let_def p_def psxHu32_def simp flip: st_def)

section \<open>Delay slots\<close>

lemma psxException_fields:
  "psx_pc (psxException c True p) = (if psxCP0 p cop0_Status AND 0x400000 \<noteq> 0 then 0xbfc00180 else 0x80000080)"
  "branchPC (psxException c True p) = branchPC p"
  "psxCP0 (psxException c True p) cop0_EPC = psx_pc p - 4"
  "bit (psxCP0 (psxException c True p) cop0_Cause) 31"
  by (simp_all add: psxException_def Let_def wpCP0_def bit_or_iff)

text \<open>
  C20: a \<open>SYSCALL\<close> or \<open>BREAK\<close> in the delay slot of a taken branch or jump enters the exception
  in the coprocessor, with the address of the branch in EPC, but control then goes to the
  target of the branch and not to the handler.
\<close>

theorem psx_delay_exception_lost:
  fixes s u :: "'a ee_io_scheme"
  assumes u: "u = psx_fetch env (on_psx (\<lambda>p. p\<lparr>psx_branch2 := True, iopIsDelaySlot := True, branchPC := tar\<rparr>) s)"
    and slot: "psx_code (psx u) = 0xC \<or> psx_code (psx u) = 0xD"
    and kept: "iopIsDelaySlot (psx u)" "branchPC (psx u) = tar"
  shows "\<exists>t. psx_doBranch (env\<lparr>psx_execI := psx_exec (Suc n) env\<rparr>) tar s = psx_EventTest env t \<and>
    psx_pc (psx t) = tar \<and> psxCP0 (psx t) cop0_EPC = psx_pc (psx u) - 8 \<and> bit (psxCP0 (psx t) cop0_Cause) 31"
proof -
  define h where "h = (if psx_code (psx u) = 0xC then psxSYSCALL else psxBREAK :: psxRegisters \<Rightarrow> psxRegisters)"
  let ?t = "on_psx (\<lambda>p. p\<lparr>iopIsDelaySlot := False, psx_pc := branchPC p\<rparr>) (on_psx h u)"
  have "psx_exec (Suc n) env (on_psx (\<lambda>p. p\<lparr>psx_branch2 := True, iopIsDelaySlot := True, branchPC := tar\<rparr>) s) =
      Ok () (on_psx h u)"
    using slot by (auto simp: Let_def psxBSC_def psxSPECIAL_def psxSPC_def pFunct_def on_regs_def h_def simp flip: u)
  then have "psx_doBranch (env\<lparr>psx_execI := psx_exec (Suc n) env\<rparr>) tar s = psx_EventTest env ?t"
    by (simp add: psx_doBranch_def)
  moreover have "branchPC (h (psx u)) = tar" "psxCP0 (h (psx u)) cop0_EPC = psx_pc (psx u) - 8"
      "bit (psxCP0 (h (psx u)) cop0_Cause) 31"
    using kept by (simp_all add: h_def psxSYSCALL_def psxBREAK_def psxException_fields)
  ultimately show ?thesis by (intro exI [of _ ?t]) simp
qed

section \<open>Concrete cases\<close>

text \<open>Devices that do nothing, and the parameters that go with them.\<close>

definition idle_devs :: "ee_io iop_devs" where
  "idle_devs = \<lparr>iopHwRead8_Page = \<lambda>_ _ s. (0, s), iopHwRead16_Page = \<lambda>_ _ s. (0, s), iopHwRead32_Page = \<lambda>_ _ s. (0, s),
     iopHwWrite8_Page = \<lambda>_ _ _ s. s, iopHwWrite16_Page = \<lambda>_ _ _ s. s, iopHwWrite32_Page = \<lambda>_ _ _ s. s,
     psxHw4Read8 = \<lambda>_ s. (0, s), psxHw4Write8 = \<lambda>_ _ s. s, DEV9read8 = \<lambda>_ s. (0, s), DEV9read16 = \<lambda>_ s. (0, s),
     DEV9read32 = \<lambda>_ s. (0, s), DEV9write8 = \<lambda>_ _ s. s, DEV9write16 = \<lambda>_ _ s. s, DEV9write32 = \<lambda>_ _ s. s,
     SPU2read = \<lambda>_ s. (0, s), SPU2write = \<lambda>_ _ s. s\<rparr>"

definition idle_psx_env :: "ee_io psx_env" where
  "idle_psx_env = \<lparr>psx_devs = idle_devs, irxImportExec = \<lambda>_ _ s. Ok False s, psxBiosCall = Ok (),
     psx_EventTest = \<lambda>s. Ok () (iopEventTest idle_callbacks s), gte_cpu = \<lparr>long64 = True, dbl_oob = \<lambda>_. 0\<rparr>, psx_execI = Ok ()\<rparr>"

lemmas ee_io0_fields = ee_io0_def ee_sys.extend_def ee_fpu.extend_def ee_cpu.extend_def ee_mem.extend_def ee_mem0_def

lemma ee_io0_mapped: "iop_mapped (iopMemReset h ee_io0)"
  by (rule iopMemReset_mapped) (simp_all add: ee_io0_fields)

theorem iop_main_memory_witness:
  "fst (iopMemRead32 idle_devs 0xA0201000 (iopMemWrite32 idle_devs 0x80001000 0x12345678 (iopMemReset 0x1000 ee_io0))) = 0x12345678"
proof -
  have "psxCP0 (psx (iopMemReset 0x1000 ee_io0)) cop0_Status AND 0x10000 = 0" by (simp add: iopMemReset_def ee_io0_fields)
  then show ?thesis
    using iop_main_memory [OF ee_io0_mapped, of "0x80001000" "0xA0201000" "0x1000" idle_devs "0x12345678"]
    by (simp add: in_main_def)
qed

text \<open>Line 11 is enabled, interrupts are not.\<close>

theorem iop_interrupt_gate_witness:
  "psx_pc (psx (iopEventTest idle_callbacks (ee_io0\<lparr>psxNextCounter := 8, psx := (psx ee_io0)\<lparr>iopHw := \<lambda>_. 1,
     psxCP0 := (\<lambda>_. 0)(cop0_Status := 0x800)\<rparr>\<rparr>))) = 0x80000080"
proof -
  let ?s = "ee_io0\<lparr>psxNextCounter := 8, psx := (psx ee_io0)\<lparr>iopHw := \<lambda>_. 1, psxCP0 := (\<lambda>_. 0)(cop0_Status := 0x800)\<rparr>\<rparr>"
  have "iop_quiet ?s" by (simp add: iop_quiet_def psxTestCycle_def) (simp add: ee_io0_fields)
  moreover have "iop_irq_pending ?s" by (simp add: iop_irq_pending_def psxHu32_def load_le_numeral)
  ultimately show ?thesis
    by (simp add: iop_interrupt_gate) (simp add: psxException_def Let_def wpCP0_def)
qed

text \<open>The memory holds \<open>SYSCALL\<close> at 0x1000, the delay slot of a jump to 0x2000.\<close>

theorem psx_delay_exception_lost_witness:
  "\<exists>t. psx_doBranch (idle_psx_env\<lparr>psx_execI := psx_exec 1 idle_psx_env\<rparr>) 0x2000 ((iopMemReset 0x1000 ee_io0)\<lparr>
      psx := (psx ee_io0)\<lparr>psx_pc := 0x1000\<rparr>, hostmem := (\<lambda>_. 0)(0x30001000 := 0xC)\<rparr>) =
      Ok () (iopEventTest idle_callbacks t) \<and> psx_pc (psx t) = 0x2000 \<and> psxCP0 (psx t) cop0_EPC = 0xFFC"
proof -
  let ?s = "(iopMemReset 0x1000 ee_io0)\<lparr>psx := (psx ee_io0)\<lparr>psx_pc := 0x1000\<rparr>, hostmem := (\<lambda>_. 0)(0x30001000 := 0xC)\<rparr>"
  let ?v = "on_psx (\<lambda>p. p\<lparr>psx_branch2 := True, iopIsDelaySlot := True, branchPC := 0x2000\<rparr>) ?s"
  have "iop_mapped ?v"
    using ee_io0_mapped [of "0x1000"] by (auto simp: iop_mapped_def iopReset_WLUT_def iopReset_RLUT_def fun_eq_iff)
  moreover have "main_ptr 0x1000 ?v = 0x30001000" by (simp add: main_ptr_def iopMemReset_def ee_io0_fields)
  ultimately have "iopMemRead32 d 0x1000 ?v = (0xC, ?v)" for d
    by (simp add: iopMemRead32_main in_main_def load_le_numeral)
  then have "psx_code (psx (psx_fetch idle_psx_env ?v)) = 0xC \<and> iopIsDelaySlot (psx (psx_fetch idle_psx_env ?v)) \<and>
      branchPC (psx (psx_fetch idle_psx_env ?v)) = 0x2000 \<and> psx_pc (psx (psx_fetch idle_psx_env ?v)) = 0x1004"
    by (simp add: psx_fetch_def inject_irx_def Let_def)
  with psx_delay_exception_lost [OF refl, of idle_psx_env "0x2000" ?s 0] show ?thesis
    by (auto simp: idle_psx_env_def)
qed

end
