(* ===== verification/Iop_Gte_Machine.thy ===== *)
theory Iop_Gte_Machine
  imports Iop_Gte_Light Iop_Spec
begin

text \<open>
  The geometry engine in the interpreter: every instruction of coprocessor 2 keeps the ranges
  of the registers, which are what makes the arithmetic of \<open>gteCDP\<close> exact.
\<close>

unbundle bit_operations_syntax

section \<open>The moves\<close>

lemma ir_numbers: "8 \<le> (r :: 5 word) \<and> r \<le> 11 \<longleftrightarrow> r \<in> {8, 9, 10, 11}"
proof
  assume "8 \<le> r \<and> r \<le> 11"
  then have "unat r \<in> {8, 9, 10, 11}" by (auto simp: word_le_nat_alt)
  then show "r \<in> {8, 9, 10, 11}" by (auto intro: word_unat_eqI)
qed auto

lemma depth_numbers: "16 \<le> (r :: 5 word) \<and> r \<le> 19 \<longleftrightarrow> r \<in> {16, 17, 18, 19}"
proof
  assume "16 \<le> r \<and> r \<le> 19"
  then have "unat r \<in> {16, 17, 18, 19}" by (auto simp: word_le_nat_alt)
  then show "r \<in> {16, 17, 18, 19}" by (auto intro: word_unat_eqI)
qed auto

lemma short_bounds: "- 32768 \<le> sint (scast (x :: u16) :: u32)" "sint (scast (x :: u16) :: u32) \<le> 32767"
  using sint_bounds [of x] by (simp_all add: sint_scast_up)

lemma push_small:
  assumes "uint (y :: u32) \<le> 31"
  shows "sint (push_bit 7 y) = 128 * uint y"
proof -
  have "0 \<le> uint y" by simp
  then have "sint (word_of_int (128 * uint y) :: u32) = 128 * uint y"
    using assms by (intro sint_s32) linarith+
  moreover have "push_bit 7 y = word_of_int (128 * uint y)" by (simp add: push_bit_eq_mult mult.commute)
  ultimately show ?thesis by metis
qed

lemma colour_field_bounds:
  "- 32768 \<le> sint (push_bit 7 (x AND 0x1f) :: u32)" "sint (push_bit 7 (x AND 0x1f) :: u32) \<le> 32767"
proof -
  have "uint (x AND 0x1f) = uint x AND 31" by (simp add: uint_and)
  then have u: "uint (x AND 0x1f) \<le> 31" by (simp add: AND_upper2)
  have p: "0 \<le> uint (x AND 0x1f)" by (rule unsigned_greater_eq)
  show "- 32768 \<le> sint (push_bit 7 (x AND 0x1f) :: u32)" "sint (push_bit 7 (x AND 0x1f) :: u32) \<le> 32767"
    unfolding push_small [OF u] using u p by linarith+
qed

lemma low_half: "drop_bit 16 (x AND 0xffff :: u32) = 0"
  by (rule bit_word_eqI) (auto simp: bit_simps)

lemma gte_inv_MTC2:
  assumes "gte_inv s"
  shows "gte_inv (MTC2 v r s)"
  using assms low_half [of v] short_bounds [of "ucast v"] colour_field_bounds
  by (auto simp: MTC2_def Let_def ir_numbers depth_numbers wCP2D_def gte_inv_def D32_def)

lemma gte_inv_MFC2: "gte_inv s \<Longrightarrow> gte_inv (snd (MFC2 r s))"
  by (auto simp: MFC2_def Let_def gte_inv_def D32_def)

lemma gte_inv_move_from: "gte_inv s \<Longrightarrow> gte_inv (gteMFC2 s) \<and> gte_inv (gteCFC2 s)"
  using gte_inv_MFC2 [of s "pRd s"]
  by (simp add: gteMFC2_def gteCFC2_def wRt_def wpGPR_def split_beta gte_inv_def D32_def)

lemma gte_inv_move_to: "gte_inv s \<Longrightarrow> gte_inv (gteMTC2 s) \<and> gte_inv (gteCTC2 s)"
  by (simp add: gteMTC2_def gteCTC2_def gte_inv_MTC2 gte_inv_control)

section \<open>The arithmetic of gteCDP\<close>

text \<open>Every sum and product that \<open>gteCDP\<close> forms in \<open>double\<close> has at most 53 bits.\<close>

lemma cdp_exact:
  assumes "gte_inv s" and "0 \<le> col" and "col \<le> 255" and "- 32768 \<le> v" and "v \<le> 32767"
  shows "\<bar>col * cdp_row i k t\<bar> < 2 ^ 53" and "\<bar>gteFC k s - col * cdp_row i k t\<bar> < 2 ^ 53"
    and "\<bar>gteIR 0 s * v\<bar> < 2 ^ 53" and "\<bar>col * cdp_row i k t + gteIR 0 s * v\<bar> < 2 ^ 53"
proof -
  have "\<bar>cdp_row i k t\<bar> \<le> 2147483648" using i32_bounds by (simp add: cdp_row_def abs_le_iff) (smt (verit))
  then have c: "\<bar>col * cdp_row i k t\<bar> \<le> 255 * 2147483648"
    unfolding abs_mult using assms(2,3) by (intro mult_mono) auto
  have "\<bar>gteIR 0 s\<bar> \<le> 65535" using assms(1) by (simp add: gte_inv_def gteIR_def) linarith
  then have r: "\<bar>gteIR 0 s * v\<bar> \<le> 65535 * 32768"
    unfolding abs_mult using assms(4,5) by (intro mult_mono) auto
  have f: "- 2147483648 \<le> gteFC k s" "gteFC k s < 2147483648" by (simp_all add: gteFC_def C32_def sint32_range)
  show "\<bar>col * cdp_row i k t\<bar> < 2 ^ 53" using c by simp
  show "\<bar>gteFC k s - col * cdp_row i k t\<bar> < 2 ^ 53" using c f by simp
  show "\<bar>gteIR 0 s * v\<bar> < 2 ^ 53" using r by simp
  show "\<bar>col * cdp_row i k t + gteIR 0 s * v\<bar> < 2 ^ 53" using c r by simp
qed

section \<open>Every instruction of the coprocessor\<close>

text \<open>A step that ends normally with the registers in range.\<close>

definition keeps_ranges :: "'a ee_io_scheme psx_step \<Rightarrow> bool" where
  "keeps_ranges f \<longleftrightarrow> (\<forall>s. gte_inv (psx s) \<longrightarrow> (\<exists>t. f s = Ok () t \<and> gte_inv (psx t)))"

lemma keeps_on_regs: "(\<And>p. gte_inv p \<Longrightarrow> gte_inv (f p)) \<Longrightarrow> keeps_ranges (on_regs f)"
  by (simp add: keeps_ranges_def on_regs_def)

lemma op_inv: "(f, m) \<in> set (gte_ops h) \<Longrightarrow> gte_inv p \<Longrightarrow> gte_inv (f p)"
  using gte_ops_inv [of p h] by (auto simp: list_all_iff)

lemma keeps_null: "keeps_ranges (on_regs psxNULL)"
  by (rule keeps_on_regs) (simp add: psxNULL_def)

lemma keeps_moves:
  "keeps_ranges (on_regs gteMFC2)" "keeps_ranges (on_regs gteCFC2)" "keeps_ranges (on_regs gteMTC2)" "keeps_ranges (on_regs gteCTC2)"
  by (rule keeps_on_regs, erule conjunct1 [OF gte_inv_move_from] conjunct2 [OF gte_inv_move_from]
      conjunct1 [OF gte_inv_move_to] conjunct2 [OF gte_inv_move_to])+

lemma keeps_ops: "list_all (\<lambda>(f, m). keeps_ranges (on_regs f)) (gte_ops h)"
  using op_inv [of _ _ h] by (auto simp: list_all_iff intro: keeps_on_regs)

lemma keeps_basic: "keeps_ranges (psxBASIC env)"
proof -
  have "list_all (\<lambda>f. keeps_ranges (f env)) psxCP2BSC"
    unfolding psxCP2BSC_def list.pred_inject
    by (intro conjI keeps_null keeps_moves list.pred_inject(1))
  moreover have "unat (pRs p) < length (psxCP2BSC :: ('a ee_io_scheme psx_env \<Rightarrow> 'a ee_io_scheme psx_step) list)" for p :: psxRegisters
    using unat_bound [of "pRs p"] by (simp add: psxCP2BSC_def)
  ultimately show ?thesis by (auto simp: keeps_ranges_def psxBASIC_def list_all_length)
qed

lemma keeps_table:
  fixes env :: "'a ee_io_scheme psx_env"
  shows "list_all (\<lambda>f. keeps_ranges (f env)) psxCP2"
proof -
  note ops = keeps_ops [where h = "gte_cpu env" and ?'a = 'a, unfolded gte_ops_def list.pred_inject prod.case]
  show ?thesis
    unfolding psxCP2_def list.pred_inject using ops by (simp only: keeps_null keeps_basic simp_thms list.pred_inject(1))
qed

text \<open>
  C26: Every instruction of coprocessor 2, a move or an operation, ends normally and keeps
  the ranges that hold after a reset: \<open>IR1\<close> to \<open>IR3\<close> are 16-bit values, \<open>IR0\<close> at most 65535, and
  the depths are unsigned 16-bit values in 32-bit registers.
\<close>

theorem cop2_keeps_ranges:
  assumes "gte_inv (psx s)"
  shows "\<exists>t. psxCOP2 env s = Ok () t \<and> gte_inv (psx t)"
proof -
  have "pFunct (psx s) < 64"
  proof -
    have "unat (psx_code (psx s) AND 0x3F) \<le> unat (0x3F :: u32)"
      by (simp only: word_le_nat_alt [symmetric] word_and_le1)
    then show ?thesis by (simp add: pFunct_def)
  qed
  then have "keeps_ranges ((psxCP2 ! pFunct (psx s)) env)"
    using keeps_table [of env] by (simp add: list_all_length psxCP2_def)
  with assms show ?thesis by (auto simp: keeps_ranges_def psxCOP2_def)
qed

text \<open>\<open>RTPT\<close> on a reset machine.\<close>

theorem cop2_keeps_ranges_witness:
  "\<exists>t. psxCOP2 idle_psx_env (ee_io0\<lparr>psx := (psx ee_io0)\<lparr>psx_code := 0x4A280030\<rparr>\<rparr>) = Ok () t \<and> gte_inv (psx t)"
  by (rule cop2_keeps_ranges) (simp add: gte_inv_def D32_def ee_io0_fields)

section \<open>Flags that are not raised\<close>

text \<open>
  The vector of the light is limited to \<open>32767 << 12\<close> after it was shifted right by 12, so that
  limit is never reached.
\<close>

lemma light_limit_not_reached: "light_row i n s < push_bit 12 32767"
proof -
  have "i32 x div 4096 \<le> 2147483647 div 4096" for x
    using i32_bounds(2) [of x] by (intro zdiv_mono1) linarith+
  then have "light_row i n s \<le> 524287" by (simp add: light_row_def dot3_def drop_bit_eq_div)
  then show ?thesis by simp
qed

text \<open>
  \<open>GPL\<close> adds to the accumulator modulo \<open>2 ^ 32\<close>: its overflow test sees the wrapped sum and
  never raises a flag of bits 29 to 25.
\<close>

lemma i32_i32: "i32 (i32 x) = i32 x"
  by (simp add: i32_def)

lemma sf_clear: "sf (set_gteFLAG F s) x = sf s x"
  by (simp add: sf_def set_gteFLAG_def)

lemma gpl_wraps_unreported:
  "gteMAC 1 (gteGPL s) = i32 (gteMAC 1 s + sf s (gteIR 0 s * gteIR 1 s)) \<and> gteFLAG (gteGPL s) AND 0x3E000000 = 0"
proof -
  have "summed (\<lambda>s. gteFLAG s AND NOT 0x01F80000 = 0) (gteGPL s)"
    by (rule gte_flags.GPL [OF TrueI mask_col])
  then have "flag_report 0x01F80000 (gteFLAG (gteGPL s))" by (rule sum_flag_report) simp
  then have "gteFLAG (gteGPL s) AND NOT (0x01F80000 OR 0x80000000) = 0" by (simp only: flag_report_def)
  moreover have "gteFLAG (gteGPL s) AND 0x3E000000 = (gteFLAG (gteGPL s) AND NOT (0x01F80000 OR 0x80000000)) AND 0x3E000000"
    by (simp add: and.assoc)
  ultimately have "gteFLAG (gteGPL s) AND 0x3E000000 = 0" by (simp only: bit.conj_zero_left)
  moreover have "gteMAC 1 (gteGPL s) = i32 (gteMAC 1 s + sf s (gteIR 0 s * gteIR 1 s))"
    by (simp add: gteGPL_def FNC_OVERFLOW1_def FNC_OVERFLOW2_def FNC_OVERFLOW3_def set_OVERFLOW gte_push_colour_def
        set_gteRGB_def set_gteMAC_def gteMAC_def gteIR_def colour_other D32_wD32 MAC2IR_view flag_views i32_i32 sf_clear)
  ultimately show ?thesis by blast
qed

end
