(* ===== verification/Mtvu.thy ===== *)
theory Mtvu
  imports Prelude
begin

text \<open>
  The ring buffer that hands work of the second vector unit to a thread of its own
  (pcsx2/MTVU.cpp, pcsx2/MTVU.h).  The EE thread writes packets of 32 bit words, publishes its
  position and goes on; the VU thread executes what lies between its own position and the
  published one.  The two positions are atomics; everything else belongs to one thread.

  The buffer is an array of bytes, positions count words.  A step is one atomic access with
  the local code around it, in any interleaving of the two threads; a loop that waits is a
  step that cannot be taken yet.  The semaphore that puts the VU thread to sleep while there
  is nothing to do is left out: a sleeping thread is one that takes no step.

  Parameters are the run of a vector program and the unpacking of VIF data.
\<close>

unbundle bit_operations_syntax

section \<open>Words and bytes of the buffer\<close>

abbreviation buffer_size :: nat where "buffer_size \<equiv> 4194304"

type_synonym buffer = "nat \<Rightarrow> u8"

definition size_u32 :: "nat \<Rightarrow> nat" where "size_u32 x = (x + 3) div 4"

definition u32_bytes :: "u32 \<Rightarrow> u8 list" where
  "u32_bytes v = [ucast v, ucast (drop_bit 8 v), ucast (drop_bit 16 v), ucast (drop_bit 24 v)]"
definition bytes_u32 :: "u8 list \<Rightarrow> u32" where
  "bytes_u32 bs = ucast (bs ! 0) OR push_bit 8 (ucast (bs ! 1)) OR push_bit 16 (ucast (bs ! 2)) OR push_bit 24 (ucast (bs ! 3))"

text \<open>\<open>memcpy\<close> to and from the word at a position.\<close>

definition put_bytes :: "u8 list \<Rightarrow> buffer \<Rightarrow> nat \<Rightarrow> buffer" where
  "put_bytes bs b pos = (\<lambda>i. if 4 * pos \<le> i \<and> i < 4 * pos + length bs then bs ! (i - 4 * pos) else b i)"
definition get_bytes :: "buffer \<Rightarrow> nat \<Rightarrow> nat \<Rightarrow> u8 list" where
  "get_bytes b pos n = map (\<lambda>i. b (4 * pos + i)) [0..<n]"

text \<open>The two forms of \<open>Read\<close>.\<close>

definition mtvu_Read :: "buffer \<Rightarrow> nat \<Rightarrow> u32 \<times> nat" where
  "mtvu_Read b pos = (bytes_u32 (get_bytes b pos 4), pos + 1)"
definition mtvu_Read_bytes :: "buffer \<Rightarrow> nat \<Rightarrow> nat \<Rightarrow> u8 list \<times> nat" where
  "mtvu_Read_bytes b n pos = (get_bytes b pos n, pos + size_u32 n)"

section \<open>The VU thread\<close>

text \<open>Its copy of the vector unit and of the VIF; registers and memories as bytes.\<close>

record vu1_thread =
  mt_Micro :: buffer
  mt_Mem :: buffer
  mt_VI :: buffer
  mt_VF :: buffer
  mt_MaskCol :: buffer
  mt_MaskRow :: buffer
  mt_vif :: "u8 list"
  mt_vifCycle :: u32
  mt_vifMode :: u32
  mt_vifNum :: u32
  mt_vifMask :: u32
  mt_vifItop :: u32
  mt_vifTop :: u32
  mt_vuFBRST :: u32
  mt_cycle :: u32
  mt_vuCycles :: "nat \<Rightarrow> u32"
  mt_vuCycleIdx :: nat

record mtvu_cpu =
  vu_Execute :: "u32 \<Rightarrow> vu1_thread \<Rightarrow> vu1_thread"
  vif_Unpack :: "u8 list \<Rightarrow> vu1_thread \<Rightarrow> vu1_thread"

text \<open>\<open>vuRegs.VI[REG_TPC].UL\<close>: register 26, at 16 bytes each.\<close>

definition mt_TPC :: "vu1_thread \<Rightarrow> u32" where "mt_TPC v = bytes_u32 (get_bytes (mt_VI v) 104 4)"
definition set_TPC :: "u32 \<Rightarrow> vu1_thread \<Rightarrow> vu1_thread" where
  "set_TPC pc v = v\<lparr>mt_VI := put_bytes (u32_bytes pc) (mt_VI v) 104\<rparr>"

text \<open>Bytes to an address of the micro or data memory.\<close>

definition mem_put :: "u8 list \<Rightarrow> nat \<Rightarrow> buffer \<Rightarrow> buffer" where
  "mem_put bs addr m = (\<lambda>i. if addr \<le> i \<and> i < addr + length bs then bs ! (i - addr) else m i)"

definition run_vu :: "mtvu_cpu \<Rightarrow> u32 \<Rightarrow> u32 \<Rightarrow> u32 \<Rightarrow> u32 \<Rightarrow> vu1_thread \<Rightarrow> vu1_thread" where
  "run_vu P addr vtop vitop vfbrst v =
     (let v1 = v\<lparr>mt_cycle := 0, mt_vifTop := vtop, mt_vifItop := vitop, mt_vuFBRST := vfbrst\<rparr>;
          v2 = (if addr \<noteq> - 1 then set_TPC (addr AND 0x7FF) v1 else v1);
          v3 = vu_Execute P (push_bit 3 (mt_TPC v2)) v2
      in v3\<lparr>mt_vuCycles := (mt_vuCycles v3)(mt_vuCycleIdx v3 := mt_cycle v3),
            mt_vuCycleIdx := (mt_vuCycleIdx v3 + 1) mod 4\<rparr>)"

definition Get_vuCycles :: "vu1_thread \<Rightarrow> u32" where
  "Get_vuCycles v = drop_bit 2 (mt_vuCycles v 0 + mt_vuCycles v 1 + mt_vuCycles v 2 + mt_vuCycles v 3)"

abbreviation MTVU_VU_EXECUTE :: u32 where "MTVU_VU_EXECUTE \<equiv> 0"
abbreviation MTVU_VU_WRITE_MICRO :: u32 where "MTVU_VU_WRITE_MICRO \<equiv> 1"
abbreviation MTVU_VU_WRITE_DATA :: u32 where "MTVU_VU_WRITE_DATA \<equiv> 2"
abbreviation MTVU_VU_WRITE_VIREGS :: u32 where "MTVU_VU_WRITE_VIREGS \<equiv> 3"
abbreviation MTVU_VU_WRITE_VFREGS :: u32 where "MTVU_VU_WRITE_VFREGS \<equiv> 4"
abbreviation MTVU_VIF_WRITE_COL :: u32 where "MTVU_VIF_WRITE_COL \<equiv> 5"
abbreviation MTVU_VIF_WRITE_ROW :: u32 where "MTVU_VIF_WRITE_ROW \<equiv> 6"
abbreviation MTVU_VIF_UNPACK :: u32 where "MTVU_VIF_UNPACK \<equiv> 7"
abbreviation MTVU_NULL_PACKET :: u32 where "MTVU_NULL_PACKET \<equiv> 8"

text \<open>The part of \<open>vifStruct\<close> from \<open>tag\<close> to \<open>StructEnd\<close>, in bytes.\<close>

abbreviation vif_copy_size :: nat where "vif_copy_size \<equiv> 30"

definition ReadRegs :: "buffer \<Rightarrow> vu1_thread \<times> nat \<Rightarrow> vu1_thread \<times> nat" where
  "ReadRegs b = (\<lambda>(v, pos).
     case mtvu_Read b pos of (c, pos) \<Rightarrow>
     case mtvu_Read b pos of (mode, pos) \<Rightarrow>
     case mtvu_Read b pos of (num, pos) \<Rightarrow>
     case mtvu_Read b pos of (vmask, pos) \<Rightarrow>
     case mtvu_Read b pos of (vitop, pos) \<Rightarrow>
     case mtvu_Read b pos of (vtop, pos) \<Rightarrow>
       (v\<lparr>mt_vifCycle := c, mt_vifMode := mode, mt_vifNum := num, mt_vifMask := vmask, mt_vifItop := vitop,
          mt_vifTop := vtop\<rparr>, pos))"

text \<open>The body of the loop of \<open>ExecuteRingBuffer\<close>; \<open>None\<close> is a tag the switch does not have.\<close>

definition mtvu_dispatch :: "mtvu_cpu \<Rightarrow> buffer \<Rightarrow> nat \<Rightarrow> vu1_thread \<Rightarrow> (vu1_thread \<times> nat) option" where
  "mtvu_dispatch P b pos v =
     (case mtvu_Read b pos of (tag, pos) \<Rightarrow>
      if tag = MTVU_VU_EXECUTE then
        (case mtvu_Read b pos of (addr, pos) \<Rightarrow>
         case mtvu_Read b pos of (vtop, pos) \<Rightarrow>
         case mtvu_Read b pos of (vitop, pos) \<Rightarrow>
         case mtvu_Read b pos of (vfbrst, pos) \<Rightarrow> Some (run_vu P addr vtop vitop vfbrst v, pos))
      else if tag = MTVU_VU_WRITE_MICRO then
        (case mtvu_Read b pos of (addr, pos) \<Rightarrow>
         case mtvu_Read b pos of (sz, pos) \<Rightarrow>
         case mtvu_Read_bytes b (unat sz) pos of (bs, pos) \<Rightarrow> Some (v\<lparr>mt_Micro := mem_put bs (unat addr) (mt_Micro v)\<rparr>, pos))
      else if tag = MTVU_VU_WRITE_DATA then
        (case mtvu_Read b pos of (addr, pos) \<Rightarrow>
         case mtvu_Read b pos of (sz, pos) \<Rightarrow>
         case mtvu_Read_bytes b (unat sz) pos of (bs, pos) \<Rightarrow> Some (v\<lparr>mt_Mem := mem_put bs (unat addr) (mt_Mem v)\<rparr>, pos))
      else if tag = MTVU_VU_WRITE_VIREGS then
        (case mtvu_Read_bytes b (size_u32 32) pos of (bs, pos) \<Rightarrow> Some (v\<lparr>mt_VI := mem_put bs 0 (mt_VI v)\<rparr>, pos))
      else if tag = MTVU_VU_WRITE_VFREGS then
        (case mtvu_Read_bytes b (size_u32 (4 * 32)) pos of (bs, pos) \<Rightarrow> Some (v\<lparr>mt_VF := mem_put bs 0 (mt_VF v)\<rparr>, pos))
      else if tag = MTVU_VIF_WRITE_COL then
        (case mtvu_Read_bytes b 16 pos of (bs, pos) \<Rightarrow> Some (v\<lparr>mt_MaskCol := mem_put bs 0 (mt_MaskCol v)\<rparr>, pos))
      else if tag = MTVU_VIF_WRITE_ROW then
        (case mtvu_Read_bytes b 16 pos of (bs, pos) \<Rightarrow> Some (v\<lparr>mt_MaskRow := mem_put bs 0 (mt_MaskRow v)\<rparr>, pos))
      else if tag = MTVU_VIF_UNPACK then
        (case mtvu_Read_bytes b vif_copy_size pos of (vif, pos) \<Rightarrow>
         case ReadRegs b (v\<lparr>mt_vif := vif\<rparr>, pos) of (v1, pos) \<Rightarrow>
         case mtvu_Read b pos of (sz, pos) \<Rightarrow>
           Some (vif_Unpack P (get_bytes b pos (unat sz)) v1, pos + size_u32 (unat sz)))
      else if tag = MTVU_NULL_PACKET then Some (v, 0)
      else None)"

section \<open>The EE thread\<close>

text \<open>
  The calls of the EE thread, with the bytes they copy.  \<open>WriteVIRegs\<close> and \<open>WriteVFRegs\<close> pass
  \<open>size_u32\<close> of a number of registers as the number of bytes.
\<close>

datatype packet =
    ExecuteVU u32 u32 u32 u32
  | WriteMicroMem u32 "u8 list"
  | WriteDataMem u32 "u8 list"
  | WriteVIRegs "u8 list"
  | WriteVFRegs "u8 list"
  | WriteCol "u8 list"
  | WriteRow "u8 list"
  | VifUnpack "u8 list" "u32 list" "u8 list"

text \<open>The arguments of the calls of \<open>Write\<close>, and the words the call reserves.\<close>

fun packet_writes :: "packet \<Rightarrow> u8 list list" where
  "packet_writes (ExecuteVU a t i f) = map u32_bytes [MTVU_VU_EXECUTE, a, t, i, f]"
| "packet_writes (WriteMicroMem a d) = map u32_bytes [MTVU_VU_WRITE_MICRO, a, of_nat (length d)] @ [d]"
| "packet_writes (WriteDataMem a d) = map u32_bytes [MTVU_VU_WRITE_DATA, a, of_nat (length d)] @ [d]"
| "packet_writes (WriteVIRegs d) = [u32_bytes MTVU_VU_WRITE_VIREGS, d]"
| "packet_writes (WriteVFRegs d) = [u32_bytes MTVU_VU_WRITE_VFREGS, d]"
| "packet_writes (WriteCol d) = [u32_bytes MTVU_VIF_WRITE_COL, d]"
| "packet_writes (WriteRow d) = [u32_bytes MTVU_VIF_WRITE_ROW, d]"
| "packet_writes (VifUnpack vif regs d) =
     u32_bytes MTVU_VIF_UNPACK # vif # map u32_bytes regs @ [u32_bytes (of_nat (length d)), d]"

fun reserve :: "packet \<Rightarrow> nat" where
  "reserve (ExecuteVU a t i f) = 5"
| "reserve (WriteMicroMem a d) = 3 + size_u32 (length d)"
| "reserve (WriteDataMem a d) = 3 + size_u32 (length d)"
| "reserve (WriteVIRegs d) = 1 + size_u32 32"
| "reserve (WriteVFRegs d) = 1 + size_u32 (32 * 4)"
| "reserve (WriteCol d) = 1 + size_u32 16"
| "reserve (WriteRow d) = 1 + size_u32 16"
| "reserve (VifUnpack vif regs d) = 1 + size_u32 vif_copy_size + size_u32 24 + 1 + size_u32 (length d)"

text \<open>What the types of the arguments and the assertions of \<open>ReserveSpace\<close> say of a call.\<close>

fun packet_lengths :: "packet \<Rightarrow> bool" where
  "packet_lengths (WriteVIRegs d) \<longleftrightarrow> length d = size_u32 32"
| "packet_lengths (WriteVFRegs d) \<longleftrightarrow> length d = size_u32 (32 * 4)"
| "packet_lengths (WriteCol d) \<longleftrightarrow> length d = 16"
| "packet_lengths (WriteRow d) \<longleftrightarrow> length d = 16"
| "packet_lengths (VifUnpack vif regs d) \<longleftrightarrow> length vif = vif_copy_size \<and> length regs = 6"
| "packet_lengths _ \<longleftrightarrow> True"

definition packet_ok :: "packet \<Rightarrow> bool" where
  "packet_ok p \<longleftrightarrow> packet_lengths p \<and> reserve p < buffer_size"

section \<open>The two threads\<close>

text \<open>Where the EE thread is in a call: the two waits of \<open>ReserveSpace\<close>, its commit of the
  position after the jump back, and the writes that are left.\<close>

datatype ee_pc =
    EE_Idle
  | EE_WaitNull packet
  | EE_CommitNull packet
  | EE_WaitSize packet
  | EE_Write packet "u8 list list"

datatype vu_pc = VU_Test | VU_Commit

text \<open>\<open>sent\<close> records the calls that have published their packet.\<close>

record mtvu =
  ring :: buffer
  m_ato_read_pos :: nat
  m_ato_write_pos :: nat
  m_read_pos :: nat
  m_write_pos :: nat
  ee_at :: ee_pc
  vu_at :: vu_pc
  vu1 :: vu1_thread
  sent :: "packet list"

text \<open>\<open>Reset\<close>: the positions, and the parts of the thread's state it clears.\<close>

definition mtvu_Reset :: "mtvu \<Rightarrow> mtvu" where
  "mtvu_Reset s = s\<lparr>m_ato_read_pos := 0, m_ato_write_pos := 0, m_read_pos := 0, m_write_pos := 0,
     vu1 := (vu1 s)\<lparr>mt_MaskRow := \<lambda>_. 0, mt_MaskCol := \<lambda>_. 0, mt_vif := replicate vif_copy_size 0, mt_vifCycle := 0,
       mt_vifMode := 0, mt_vifNum := 0, mt_vifMask := 0, mt_vifItop := 0, mt_vifTop := 0,
       mt_vuCycles := (mt_vuCycles (vu1 s))(0 := 0, 1 := 0, 2 := 0, 3 := 0), mt_vuCycleIdx := 0\<rparr>\<rparr>"

text \<open>The test that ends \<open>WaitOnSize\<close>.\<close>

definition enough_space :: "nat \<Rightarrow> mtvu \<Rightarrow> bool" where
  "enough_space n s \<longleftrightarrow> m_ato_read_pos s \<le> m_write_pos s \<or> m_ato_read_pos s > m_write_pos s + n + 4096"

definition IsDone :: "mtvu \<Rightarrow> bool" where
  "IsDone s \<longleftrightarrow> m_ato_read_pos s = m_ato_write_pos s"

inductive mtvu_step :: "mtvu_cpu \<Rightarrow> mtvu \<Rightarrow> mtvu \<Rightarrow> bool" for P where
  Call: "ee_at s = EE_Idle \<Longrightarrow> packet_ok p \<Longrightarrow>
    mtvu_step P s (s\<lparr>ee_at := if m_write_pos s + reserve p > buffer_size - 1 then EE_WaitNull p else EE_WaitSize p\<rparr>)"
| Null: "ee_at s = EE_WaitNull p \<Longrightarrow> enough_space 1 s \<Longrightarrow>
    mtvu_step P s (s\<lparr>ring := put_bytes (u32_bytes MTVU_NULL_PACKET) (ring s) (m_write_pos s), m_write_pos := 0,
      ee_at := EE_CommitNull p\<rparr>)"
| CommitNull: "ee_at s = EE_CommitNull p \<Longrightarrow>
    mtvu_step P s (s\<lparr>m_ato_write_pos := m_write_pos s, ee_at := EE_WaitSize p\<rparr>)"
| Reserve: "ee_at s = EE_WaitSize p \<Longrightarrow> enough_space (reserve p) s \<Longrightarrow>
    mtvu_step P s (s\<lparr>ee_at := EE_Write p (packet_writes p)\<rparr>)"
| Write: "ee_at s = EE_Write p (c # cs) \<Longrightarrow>
    mtvu_step P s (s\<lparr>ring := put_bytes c (ring s) (m_write_pos s), m_write_pos := m_write_pos s + size_u32 (length c),
      ee_at := EE_Write p cs\<rparr>)"
| CommitWrite: "ee_at s = EE_Write p [] \<Longrightarrow>
    mtvu_step P s (s\<lparr>m_ato_write_pos := m_write_pos s, ee_at := EE_Idle, sent := sent s @ [p]\<rparr>)"
| Execute: "vu_at s = VU_Test \<Longrightarrow> m_ato_read_pos s \<noteq> m_ato_write_pos s \<Longrightarrow>
    mtvu_dispatch P (ring s) (m_read_pos s) (vu1 s) = Some (v, pos) \<Longrightarrow>
    mtvu_step P s (s\<lparr>vu1 := v, m_read_pos := pos, vu_at := VU_Commit\<rparr>)"
| CommitRead: "vu_at s = VU_Commit \<Longrightarrow>
    mtvu_step P s (s\<lparr>m_ato_read_pos := m_read_pos s, vu_at := VU_Test\<rparr>)"

inductive_cases mtvu_stepE: "mtvu_step P s t"

text \<open>States reached by steps from states that satisfy \<open>A\<close>.\<close>

inductive mtvu_reach :: "mtvu_cpu \<Rightarrow> (mtvu \<Rightarrow> bool) \<Rightarrow> mtvu \<Rightarrow> mtvu \<Rightarrow> bool" for P A s0 where
  reach_refl: "mtvu_reach P A s0 s0"
| reach_step: "mtvu_reach P A s0 s \<Longrightarrow> A s \<Longrightarrow> mtvu_step P s t \<Longrightarrow> mtvu_reach P A s0 t"

end
