(* ===== verification/Mtvu_Spec.thy ===== *)
theory Mtvu_Spec
  imports Mtvu
begin

text \<open>
  The ring between the EE and the VU thread delivers the packets in order, for every
  interleaving, as long as the EE does not jump back to the start of the buffer while the
  published read position is there; and if it does, the packets in the buffer are lost.
\<close>

unbundle bit_operations_syntax

section \<open>Reading what was written\<close>

lemma bytes_u32_bytes [simp]: "bytes_u32 (u32_bytes v) = v"
proof (rule bit_word_eqI)
  fix n
  assume "n < LENGTH(32)"
  then consider "n < 8" | "8 \<le> n \<and> n < 16" | "16 \<le> n \<and> n < 24" | "24 \<le> n \<and> n < 32" by fastforce
  then show "bit (bytes_u32 (u32_bytes v)) n = bit v n"
    by cases (auto simp: bytes_u32_def u32_bytes_def bit_simps)
qed

lemma length_u32_bytes [simp]: "length (u32_bytes v) = 4" by (simp add: u32_bytes_def)

lemma size_u32_simps [simp]: "size_u32 4 = 1" "size_u32 0 = 0" "size_u32 24 = 6" "size_u32 16 = 4" "size_u32 30 = 8"
  "size_u32 32 = 8" "size_u32 128 = 32" "size_u32 8 = 2"
  by (simp_all add: size_u32_def)

lemma size_u32_bound: "n \<le> 4 * size_u32 n" by (simp add: size_u32_def)

lemma get_put_bytes [simp]: "get_bytes (put_bytes c b pos) pos (length c) = c"
  by (rule nth_equalityI) (simp_all add: get_bytes_def put_bytes_def)

text \<open>The words of a list of writes, and the writes at a position of the buffer.\<close>

definition words :: "u8 list list \<Rightarrow> nat" where "words cs = sum_list (map (size_u32 \<circ> length) cs)"

lemma words_simps [simp]: "words [] = 0" "words (c # cs) = size_u32 (length c) + words cs" "words (cs @ ds) = words cs + words ds"
  by (simp_all add: words_def)

fun writes_at :: "buffer \<Rightarrow> nat \<Rightarrow> u8 list list \<Rightarrow> bool" where
  "writes_at b pos [] \<longleftrightarrow> True"
| "writes_at b pos (c # cs) \<longleftrightarrow> get_bytes b pos (length c) = c \<and> writes_at b (pos + size_u32 (length c)) cs"

lemma writes_at_append [simp]: "writes_at b pos (cs @ ds) \<longleftrightarrow> writes_at b pos cs \<and> writes_at b (pos + words cs) ds"
  by (induction cs arbitrary: pos) (simp_all add: add.assoc)

lemma get_bytes_cong:
  "(\<And>i. 4 * pos \<le> i \<Longrightarrow> i < 4 * (pos + size_u32 n) \<Longrightarrow> b i = b' i) \<Longrightarrow> get_bytes b pos n = get_bytes b' pos n"
  using size_u32_bound [of n] by (auto simp: get_bytes_def)

lemma writes_at_cong:
  "(\<And>i. 4 * pos \<le> i \<Longrightarrow> i < 4 * (pos + words cs) \<Longrightarrow> b i = b' i) \<Longrightarrow> writes_at b pos cs = writes_at b' pos cs"
proof (induction cs arbitrary: pos)
  case (Cons c cs)
  have "get_bytes b pos (length c) = get_bytes b' pos (length c)"
    by (rule get_bytes_cong) (use Cons.prems in auto)
  moreover have "writes_at b (pos + size_u32 (length c)) cs = writes_at b' (pos + size_u32 (length c)) cs"
    by (rule Cons.IH) (use Cons.prems in auto)
  ultimately show ?case by simp
qed simp

section \<open>Packets\<close>

abbreviation packet_words :: "packet \<Rightarrow> nat" where "packet_words p \<equiv> words (packet_writes p)"

lemma words_u32 [simp]: "words (map u32_bytes vs) = length vs"
  by (induction vs) simp_all

lemma packet_words_bounds:
  assumes "packet_ok p"
  shows "packet_words p \<le> reserve p" "0 < packet_words p"
  using assms by (cases p; simp add: packet_ok_def size_u32_def)+

text \<open>What a call means for the thread: the specification of \<open>ExecuteRingBuffer\<close>.\<close>

fun packet_effect :: "mtvu_cpu \<Rightarrow> packet \<Rightarrow> vu1_thread \<Rightarrow> vu1_thread" where
  "packet_effect P (ExecuteVU a t i f) v = run_vu P a t i f v"
| "packet_effect P (WriteMicroMem a d) v = v\<lparr>mt_Micro := mem_put d (unat a) (mt_Micro v)\<rparr>"
| "packet_effect P (WriteDataMem a d) v = v\<lparr>mt_Mem := mem_put d (unat a) (mt_Mem v)\<rparr>"
| "packet_effect P (WriteVIRegs d) v = v\<lparr>mt_VI := mem_put d 0 (mt_VI v)\<rparr>"
| "packet_effect P (WriteVFRegs d) v = v\<lparr>mt_VF := mem_put d 0 (mt_VF v)\<rparr>"
| "packet_effect P (WriteCol d) v = v\<lparr>mt_MaskCol := mem_put d 0 (mt_MaskCol v)\<rparr>"
| "packet_effect P (WriteRow d) v = v\<lparr>mt_MaskRow := mem_put d 0 (mt_MaskRow v)\<rparr>"
| "packet_effect P (VifUnpack vif regs d) v =
     vif_Unpack P d (v\<lparr>mt_vif := vif, mt_vifCycle := regs ! 0, mt_vifMode := regs ! 1, mt_vifNum := regs ! 2,
       mt_vifMask := regs ! 3, mt_vifItop := regs ! 4, mt_vifTop := regs ! 5\<rparr>)"

lemma read_at:
  assumes "get_bytes b pos 4 = u32_bytes v"
  shows "mtvu_Read b pos = (v, pos + 1)"
  using assms by (simp add: mtvu_Read_def)

lemma size_u32_small:
  assumes "k + size_u32 n < buffer_size"
  shows "unat (of_nat n :: u32) = n"
proof -
  have "n < 4294967296" using size_u32_bound [of n] assms by linarith
  then show ?thesis by (simp add: unat_of_nat)
qed

lemma reserve_length:
  assumes "packet_ok p"
  shows "p = WriteMicroMem a d \<Longrightarrow> unat (of_nat (length d) :: u32) = length d"
    "p = WriteDataMem a d \<Longrightarrow> unat (of_nat (length d) :: u32) = length d"
    "p = VifUnpack v r d \<Longrightarrow> unat (of_nat (length d) :: u32) = length d"
  using assms unfolding packet_ok_def by (metis size_u32_small reserve.simps)+

lemma dispatch_packet:
  assumes "packet_ok p" "writes_at b pos (packet_writes p)"
  shows "mtvu_dispatch P b pos v = Some (packet_effect P p v, pos + packet_words p)"
proof (cases p)
  case (VifUnpack vif regs d)
  then have "length regs = 6" using assms(1) by (simp add: packet_ok_def)
  then obtain a0 a1 a2 a3 a4 a5 where r: "regs = [a0, a1, a2, a3, a4, a5]"
    by (auto simp: length_Suc_conv numeral_eq_Suc)
  show ?thesis
    using assms VifUnpack r reserve_length(3) [OF assms(1) VifUnpack]
    by (simp add: mtvu_dispatch_def ReadRegs_def packet_ok_def read_at mtvu_Read_bytes_def)
next
  case (WriteMicroMem a d)
  then show ?thesis
    using assms reserve_length(1) [OF assms(1) WriteMicroMem] by (simp add: mtvu_dispatch_def read_at mtvu_Read_bytes_def)
next
  case (WriteDataMem a d)
  then show ?thesis
    using assms reserve_length(2) [OF assms(1) WriteDataMem] by (simp add: mtvu_dispatch_def read_at mtvu_Read_bytes_def)
qed (use assms in \<open>simp_all add: mtvu_dispatch_def packet_ok_def read_at mtvu_Read_bytes_def\<close>)

lemma dispatch_null:
  "get_bytes b pos 4 = u32_bytes MTVU_NULL_PACKET \<Longrightarrow> mtvu_dispatch P b pos v = Some (v, 0)"
  by (simp add: mtvu_dispatch_def read_at)

section \<open>The buffer as a queue of packets\<close>

text \<open>Packets one after the other between two positions.\<close>

fun seg :: "buffer \<Rightarrow> nat \<Rightarrow> nat \<Rightarrow> packet list \<Rightarrow> bool" where
  "seg b r w [] \<longleftrightarrow> r = w"
| "seg b r w (p # ps) \<longleftrightarrow> packet_ok p \<and> writes_at b r (packet_writes p) \<and> seg b (r + packet_words p) w ps"

lemma seg_le: "seg b r w ps \<Longrightarrow> r \<le> w"
  by (induction ps arbitrary: r) (auto dest: add_leD1)

lemma seg_empty: "seg b r r ps \<Longrightarrow> ps = []"
  by (cases ps) (auto dest!: seg_le packet_words_bounds(2))

lemma seg_append: "seg b r w ps \<Longrightarrow> packet_ok p \<Longrightarrow> writes_at b w (packet_writes p) \<Longrightarrow> seg b r (w + packet_words p) (ps @ [p])"
  by (induction ps arbitrary: r) auto

lemma seg_cong:
  "seg b r w ps \<Longrightarrow> (\<And>i. 4 * r \<le> i \<Longrightarrow> i < 4 * w \<Longrightarrow> b' i = b i) \<Longrightarrow> seg b' r w ps"
proof (induction ps arbitrary: r)
  case (Cons p ps)
  have w: "r + packet_words p \<le> w" using Cons.prems(1) by (auto dest: seg_le)
  have "writes_at b' r (packet_writes p) = writes_at b r (packet_writes p)"
    by (rule writes_at_cong) (use Cons.prems(2) w in auto)
  moreover have "seg b' (r + packet_words p) w ps"
    by (rule Cons.IH) (use Cons.prems in auto)
  ultimately show ?case using Cons.prems(1) by simp
qed simp

text \<open>The packets between a read position and a write position: in one piece, or up to a null
  packet and again from the start.\<close>

definition wrapped :: "buffer \<Rightarrow> nat \<Rightarrow> nat \<Rightarrow> packet list \<Rightarrow> bool" where
  "wrapped b m w ps \<longleftrightarrow> (\<exists>n ps1 ps2. ps = ps1 @ ps2 \<and> seg b m n ps1 \<and> n < buffer_size \<and>
     get_bytes b n 4 = u32_bytes MTVU_NULL_PACKET \<and> seg b 0 w ps2)"

definition ring_at :: "buffer \<Rightarrow> nat \<Rightarrow> nat \<Rightarrow> packet list \<Rightarrow> bool" where
  "ring_at b m w ps \<longleftrightarrow> (if m \<le> w then seg b m w ps else wrapped b m w ps)"

lemma ring_at_read_bound: "ring_at b m w ps \<Longrightarrow> w < buffer_size \<Longrightarrow> m < buffer_size"
  by (auto simp: ring_at_def wrapped_def dest!: seg_le split: if_splits)

lemma ring_at_write:
  assumes "ring_at b m w ps" "w \<le> lo" "m \<le> w \<or> lo + size_u32 (length c) \<le> m"
  shows "ring_at (put_bytes c b lo) m w ps"
proof (cases "m \<le> w")
  case True
  then have "seg b m w ps" using assms(1) by (simp add: ring_at_def)
  then have "seg (put_bytes c b lo) m w ps"
    by (rule seg_cong) (use assms(2) in \<open>auto simp: put_bytes_def\<close>)
  then show ?thesis using True by (simp add: ring_at_def)
next
  case False
  then obtain n ps1 ps2 where w: "ps = ps1 @ ps2" "seg b m n ps1" "n < buffer_size"
      "get_bytes b n 4 = u32_bytes MTVU_NULL_PACKET" "seg b 0 w ps2"
    using assms(1) by (auto simp: ring_at_def wrapped_def)
  have c: "lo + size_u32 (length c) \<le> m" using assms(3) False by simp
  have out: "put_bytes c b lo i = b i" if "4 * m \<le> i \<or> i < 4 * w" for i
    using that c assms(2) size_u32_bound [of "length c"] by (auto simp: put_bytes_def)
  have "seg (put_bytes c b lo) m n ps1" by (rule seg_cong [OF w(2)]) (use out in auto)
  moreover have "seg (put_bytes c b lo) 0 w ps2" by (rule seg_cong [OF w(5)]) (use out in auto)
  moreover have "get_bytes (put_bytes c b lo) n 4 = get_bytes b n 4"
    by (rule get_bytes_cong) (use out seg_le [OF w(2)] in auto)
  ultimately have "wrapped (put_bytes c b lo) m w ps" using w by (auto simp: wrapped_def)
  then show ?thesis using False by (simp add: ring_at_def)
qed

lemma ring_at_send:
  assumes "ring_at b m w ps" "packet_ok p" "writes_at b w (packet_writes p)" "m \<le> w \<or> w + packet_words p < m"
  shows "ring_at b m (w + packet_words p) (ps @ [p])"
proof (cases "m \<le> w")
  case True
  then show ?thesis using assms seg_append by (auto simp: ring_at_def)
next
  case False
  then obtain n ps1 ps2 where w: "ps = ps1 @ ps2" "seg b m n ps1" "n < buffer_size"
      "get_bytes b n 4 = u32_bytes MTVU_NULL_PACKET" "seg b 0 w ps2"
    using assms(1) by (auto simp: ring_at_def wrapped_def)
  have "seg b 0 (w + packet_words p) (ps2 @ [p])" using seg_append [OF w(5) assms(2,3)] .
  then have "wrapped b m (w + packet_words p) (ps @ [p])"
    unfolding wrapped_def using w by (intro exI [of _ n] exI [of _ ps1] exI [of _ "ps2 @ [p]"]) simp
  then show ?thesis using False assms(4) by (simp add: ring_at_def)
qed

text \<open>What the VU thread finds at its position.\<close>

lemma ring_at_execute:
  assumes "ring_at b m w ps" "m \<noteq> w"
  obtains p ps' where "ps = p # ps'" "mtvu_dispatch P b m v = Some (packet_effect P p v, m + packet_words p)"
      "ring_at b (m + packet_words p) w ps'" "m \<le> w \<Longrightarrow> m + packet_words p \<le> w"
    | "w < m" "mtvu_dispatch P b m v = Some (v, 0)" "ring_at b 0 w ps"
proof (cases "m \<le> w")
  case True
  then have "seg b m w ps" using assms(1) by (simp add: ring_at_def)
  then obtain p ps' where p: "ps = p # ps'" "packet_ok p" "writes_at b m (packet_writes p)" "seg b (m + packet_words p) w ps'"
    using assms(2) by (cases ps) auto
  show ?thesis by (rule that(1) [OF p(1) dispatch_packet [OF p(2,3)]]) (use p(4) seg_le [OF p(4)] in \<open>simp_all add: ring_at_def\<close>)
next
  case False
  then obtain n ps1 ps2 where w: "ps = ps1 @ ps2" "seg b m n ps1" "n < buffer_size"
      "get_bytes b n 4 = u32_bytes MTVU_NULL_PACKET" "seg b 0 w ps2"
    using assms(1) by (auto simp: ring_at_def wrapped_def)
  show ?thesis
  proof (cases ps1)
    case Nil
    then have "ring_at b 0 w ps" using w by (simp add: ring_at_def)
    then show ?thesis using that(2) False w Nil by (simp add: dispatch_null)
  next
    case (Cons p ps')
    then have p: "packet_ok p" "writes_at b m (packet_writes p)" "seg b (m + packet_words p) n ps'" using w(2) by simp_all
    have "wrapped b (m + packet_words p) w (ps' @ ps2)" unfolding wrapped_def using w p(3) by blast
    then have "ring_at b (m + packet_words p) w (ps' @ ps2)" using False by (simp add: ring_at_def)
    then show ?thesis using that(1) [OF _ dispatch_packet [OF p(1,2)]] w(1) Cons False by simp
  qed
qed

section \<open>The invariant\<close>

definition mtvu_init :: "mtvu \<Rightarrow> bool" where
  "mtvu_init s \<longleftrightarrow> m_ato_read_pos s = 0 \<and> m_ato_write_pos s = 0 \<and> m_read_pos s = 0 \<and> m_write_pos s = 0 \<and>
     ee_at s = EE_Idle \<and> vu_at s = VU_Test \<and> sent s = []"

text \<open>
  States from which a step is harmless: the EE does not publish position 0 while the read
  position is 0, and no call that has to jump back is longer than the safety margin of 4096
  words and the null packet allow.
\<close>

definition mtvu_safe :: "mtvu \<Rightarrow> bool" where
  "mtvu_safe s \<longleftrightarrow>
     (case ee_at s of EE_CommitNull p \<Rightarrow> m_ato_read_pos s \<noteq> 0 | EE_WaitNull p \<Rightarrow> reserve p \<le> 4098 | _ \<Rightarrow> True)"

definition reader_ok :: "mtvu \<Rightarrow> bool" where
  "reader_ok s \<longleftrightarrow> (vu_at s = VU_Test \<longrightarrow> m_read_pos s = m_ato_read_pos s) \<and>
     (if m_ato_read_pos s \<le> m_ato_write_pos s then m_ato_read_pos s \<le> m_read_pos s \<and> m_read_pos s \<le> m_ato_write_pos s
      else m_ato_read_pos s \<le> m_read_pos s \<or> m_read_pos s = 0)"

fun writer_ok :: "ee_pc \<Rightarrow> mtvu \<Rightarrow> bool" where
  "writer_ok EE_Idle s \<longleftrightarrow> m_write_pos s = m_ato_write_pos s"
| "writer_ok (EE_WaitNull p) s \<longleftrightarrow> packet_ok p \<and> m_write_pos s = m_ato_write_pos s \<and> m_write_pos s + reserve p > buffer_size - 1"
| "writer_ok (EE_CommitNull p) s \<longleftrightarrow> packet_ok p \<and> m_write_pos s = 0 \<and> m_ato_read_pos s \<le> m_ato_write_pos s \<and>
     get_bytes (ring s) (m_ato_write_pos s) 4 = u32_bytes MTVU_NULL_PACKET"
| "writer_ok (EE_WaitSize p) s \<longleftrightarrow> packet_ok p \<and> m_write_pos s = m_ato_write_pos s \<and> m_write_pos s + reserve p \<le> buffer_size - 1"
| "writer_ok (EE_Write p cs) s \<longleftrightarrow> packet_ok p \<and> m_ato_write_pos s + reserve p \<le> buffer_size - 1 \<and>
     (m_ato_read_pos s \<le> m_ato_write_pos s \<or> m_ato_write_pos s + reserve p < m_ato_read_pos s) \<and>
     (\<exists>ds. packet_writes p = ds @ cs \<and> writes_at (ring s) (m_ato_write_pos s) ds \<and> m_write_pos s = m_ato_write_pos s + words ds)"

definition mtvu_inv :: "mtvu_cpu \<Rightarrow> vu1_thread \<Rightarrow> packet list \<Rightarrow> packet list \<Rightarrow> mtvu \<Rightarrow> bool" where
  "mtvu_inv P v0 e ps s \<longleftrightarrow> sent s = e @ ps \<and> vu1 s = fold (packet_effect P) e v0 \<and>
     ring_at (ring s) (m_read_pos s) (m_ato_write_pos s) ps \<and>
     m_ato_read_pos s < buffer_size \<and> m_ato_write_pos s < buffer_size \<and> reader_ok s \<and> writer_ok (ee_at s) s"

lemma mtvu_inv_init: "mtvu_init s \<Longrightarrow> mtvu_inv P (vu1 s) [] [] s"
  by (simp add: mtvu_init_def mtvu_inv_def ring_at_def reader_ok_def)

text \<open>The steps of the VU thread do not touch what the writer relies on.\<close>

lemma writer_ok_vu:
  "writer_ok pc s \<Longrightarrow> writer_ok pc (s\<lparr>vu1 := v, m_read_pos := m, vu_at := a\<rparr>)"
  by (cases "(pc, s)" rule: writer_ok.cases) simp_all

lemma mtvu_inv_execute:
  assumes "mtvu_inv P v0 e ps s" "vu_at s = VU_Test" "m_ato_read_pos s \<noteq> m_ato_write_pos s"
  obtains p ps' v pos where "ps = p # ps'" "mtvu_dispatch P (ring s) (m_read_pos s) (vu1 s) = Some (v, pos)"
      "mtvu_inv P v0 (e @ [p]) ps' (s\<lparr>vu1 := v, m_read_pos := pos, vu_at := VU_Commit\<rparr>)"
    | v where "m_ato_write_pos s < m_ato_read_pos s" "mtvu_dispatch P (ring s) (m_read_pos s) (vu1 s) = Some (v, 0)"
      "mtvu_inv P v0 e ps (s\<lparr>vu1 := v, m_read_pos := 0, vu_at := VU_Commit\<rparr>)"
proof -
  note I = assms(1) [unfolded mtvu_inv_def]
  have m: "m_read_pos s = m_ato_read_pos s" using I assms(2) by (simp add: reader_ok_def)
  have r: "ring_at (ring s) (m_read_pos s) (m_ato_write_pos s) ps" using I by simp
  have ne: "m_read_pos s \<noteq> m_ato_write_pos s" using m assms(3) by simp
  have w: "writer_ok (ee_at s) (s\<lparr>vu1 := v, m_read_pos := pos, vu_at := VU_Commit\<rparr>)" for v pos using I by (simp add: writer_ok_vu)
  show ?thesis
    using r ne
  proof (cases rule: ring_at_execute [where P = P and v = "vu1 s"])
    case (1 p ps')
    have "mtvu_inv P v0 (e @ [p]) ps' (s\<lparr>vu1 := packet_effect P p (vu1 s), m_read_pos := m_read_pos s + packet_words p, vu_at := VU_Commit\<rparr>)"
      using 1 I m w by (auto simp: mtvu_inv_def reader_ok_def split: if_splits)
    then show ?thesis using 1 that(1) by blast
  next
    case 2
    have "mtvu_inv P v0 e ps (s\<lparr>vu1 := vu1 s, m_read_pos := 0, vu_at := VU_Commit\<rparr>)"
      using 2 I m w by (auto simp: mtvu_inv_def reader_ok_def split: if_splits)
    then show ?thesis using 2 m that(2) by simp
  qed
qed

lemma mtvu_inv_commit_read:
  assumes "mtvu_inv P v0 e ps s"
  shows "mtvu_inv P v0 e ps (s\<lparr>m_ato_read_pos := m_read_pos s, vu_at := VU_Test\<rparr>)"
proof -
  note I = assms [unfolded mtvu_inv_def]
  have b: "m_read_pos s < buffer_size" using I by (blast dest: ring_at_read_bound)
  have "writer_ok (ee_at s) (s\<lparr>m_ato_read_pos := m_read_pos s, vu_at := VU_Test\<rparr>)"
    using I by (cases "(ee_at s, s)" rule: writer_ok.cases) (auto simp: reader_ok_def split: if_splits)
  then show ?thesis using I b by (simp add: mtvu_inv_def reader_ok_def)
qed

text \<open>The steps of the EE thread.\<close>

lemma mtvu_inv_null:
  assumes "mtvu_inv P v0 e ps s" "mtvu_safe s" "ee_at s = EE_WaitNull p" "enough_space 1 s"
  shows "mtvu_inv P v0 e ps (s\<lparr>ring := put_bytes (u32_bytes MTVU_NULL_PACKET) (ring s) (m_write_pos s), m_write_pos := 0,
    ee_at := EE_CommitNull p\<rparr>)"
proof -
  note I = assms(1) [unfolded mtvu_inv_def]
  have w: "m_write_pos s = m_ato_write_pos s" "packet_ok p" "m_write_pos s + reserve p > buffer_size - 1"
    using I assms(3) by simp_all
  have le: "m_ato_read_pos s \<le> m_ato_write_pos s"
    using I assms(2-4) w by (auto simp: mtvu_safe_def enough_space_def)
  then have m: "m_read_pos s \<le> m_ato_write_pos s" using I by (simp add: reader_ok_def)
  have "ring_at (put_bytes (u32_bytes MTVU_NULL_PACKET) (ring s) (m_write_pos s)) (m_read_pos s) (m_ato_write_pos s) ps"
    by (rule ring_at_write) (use I w m in simp_all)
  moreover have "get_bytes (put_bytes (u32_bytes MTVU_NULL_PACKET) (ring s) (m_write_pos s)) (m_write_pos s) 4 = u32_bytes MTVU_NULL_PACKET"
    using get_put_bytes [of "u32_bytes MTVU_NULL_PACKET"] by simp
  ultimately show ?thesis using I w le by (simp add: mtvu_inv_def reader_ok_def)
qed

lemma mtvu_inv_commit_null:
  assumes "mtvu_inv P v0 e ps s" "mtvu_safe s" "ee_at s = EE_CommitNull p"
  shows "mtvu_inv P v0 e ps (s\<lparr>m_ato_write_pos := m_write_pos s, ee_at := EE_WaitSize p\<rparr>)"
proof -
  note I = assms(1) [unfolded mtvu_inv_def]
  have w: "packet_ok p" "m_write_pos s = 0" "m_ato_read_pos s \<le> m_ato_write_pos s"
      "get_bytes (ring s) (m_ato_write_pos s) 4 = u32_bytes MTVU_NULL_PACKET" "m_ato_read_pos s \<noteq> 0"
    using I assms(2,3) by (simp_all add: mtvu_safe_def)
  have m: "m_ato_read_pos s \<le> m_read_pos s" "m_read_pos s \<le> m_ato_write_pos s" using I w by (simp_all add: reader_ok_def)
  have "seg (ring s) (m_read_pos s) (m_ato_write_pos s) ps" using I m by (simp add: ring_at_def)
  then have "wrapped (ring s) (m_read_pos s) 0 ps"
    unfolding wrapped_def using w I
    by (intro exI [of _ "m_ato_write_pos s"] exI [of _ ps] exI [of _ "[]"]) simp
  then have "ring_at (ring s) (m_read_pos s) 0 ps" using m w by (simp add: ring_at_def)
  moreover have "reserve p \<le> buffer_size - 1" using w(1) by (simp add: packet_ok_def)
  ultimately show ?thesis using I w m by (simp add: mtvu_inv_def reader_ok_def)
qed

lemma mtvu_inv_write:
  assumes "mtvu_inv P v0 e ps s" "ee_at s = EE_Write p (c # cs)"
  shows "mtvu_inv P v0 e ps (s\<lparr>ring := put_bytes c (ring s) (m_write_pos s),
    m_write_pos := m_write_pos s + size_u32 (length c), ee_at := EE_Write p cs\<rparr>)"
proof -
  note I = assms(1) [unfolded mtvu_inv_def]
  obtain ds where w: "packet_ok p" "m_ato_write_pos s + reserve p \<le> buffer_size - 1"
      "m_ato_read_pos s \<le> m_ato_write_pos s \<or> m_ato_write_pos s + reserve p < m_ato_read_pos s"
      "packet_writes p = ds @ c # cs" "writes_at (ring s) (m_ato_write_pos s) ds" "m_write_pos s = m_ato_write_pos s + words ds"
    using I assms(2) by auto
  have len: "words ds + size_u32 (length c) \<le> reserve p" using packet_words_bounds(1) [OF w(1)] w(4) by simp
  have mw: "m_read_pos s \<le> m_ato_write_pos s \<or> m_write_pos s + size_u32 (length c) \<le> m_read_pos s"
    using w(3,6) len I by (auto simp: reader_ok_def split: if_splits)
  have "ring_at (put_bytes c (ring s) (m_write_pos s)) (m_read_pos s) (m_ato_write_pos s) ps"
    by (rule ring_at_write) (use I w mw in simp_all)
  moreover have "writes_at (put_bytes c (ring s) (m_write_pos s)) (m_ato_write_pos s) ds = writes_at (ring s) (m_ato_write_pos s) ds"
    by (rule writes_at_cong) (use w(6) in \<open>auto simp: put_bytes_def\<close>)
  ultimately show ?thesis using I w by (auto simp: mtvu_inv_def reader_ok_def intro!: exI [of _ "ds @ [c]"])
qed

lemma mtvu_inv_commit_write:
  assumes "mtvu_inv P v0 e ps s" "ee_at s = EE_Write p []"
  shows "mtvu_inv P v0 e (ps @ [p]) (s\<lparr>m_ato_write_pos := m_write_pos s, ee_at := EE_Idle, sent := sent s @ [p]\<rparr>)"
proof -
  note I = assms(1) [unfolded mtvu_inv_def]
  have w: "packet_ok p" "m_ato_write_pos s + reserve p \<le> buffer_size - 1"
      "m_ato_read_pos s \<le> m_ato_write_pos s \<or> m_ato_write_pos s + reserve p < m_ato_read_pos s"
      "writes_at (ring s) (m_ato_write_pos s) (packet_writes p)" "m_write_pos s = m_ato_write_pos s + packet_words p"
    using I assms(2) by auto
  note len = packet_words_bounds(1) [OF w(1)]
  have mw: "m_read_pos s \<le> m_ato_write_pos s \<or> m_ato_write_pos s + packet_words p < m_read_pos s \<or> m_read_pos s = 0"
    using w(3) len I by (auto simp: reader_ok_def split: if_splits)
  have "ring_at (ring s) (m_read_pos s) (m_ato_write_pos s + packet_words p) (ps @ [p])"
    by (rule ring_at_send) (use I w mw in auto)
  then show ?thesis using I w len by (auto simp: mtvu_inv_def reader_ok_def split: if_splits)
qed

lemma mtvu_inv_step:
  assumes "mtvu_inv P v0 e ps s" "mtvu_safe s" "mtvu_step P s t"
  shows "\<exists>e ps. mtvu_inv P v0 e ps t"
  using assms(3)
proof cases
  case (Call p)
  then show ?thesis using assms(1) by (auto simp: mtvu_inv_def reader_ok_def)
next
  case (Null p)
  then show ?thesis using mtvu_inv_null [OF assms(1,2)] by blast
next
  case (CommitNull p)
  then show ?thesis using mtvu_inv_commit_null [OF assms(1,2)] by blast
next
  case (Reserve p)
  have "writer_ok (EE_Write p (packet_writes p)) s"
    using assms(1) Reserve by (auto simp: mtvu_inv_def enough_space_def)
  then show ?thesis using assms(1) Reserve by (fastforce simp: mtvu_inv_def reader_ok_def)
next
  case (Write p c cs)
  then show ?thesis using mtvu_inv_write [OF assms(1)] by blast
next
  case (CommitWrite p)
  then show ?thesis using mtvu_inv_commit_write [OF assms(1)] by blast
next
  case (Execute v pos)
  show ?thesis by (rule mtvu_inv_execute [OF assms(1) Execute(2,3)]) (use Execute in auto)
next
  case CommitRead
  then show ?thesis using mtvu_inv_commit_read [OF assms(1)] by blast
qed

lemma mtvu_reach_inv:
  assumes "mtvu_reach P mtvu_safe s0 s" "mtvu_init s0"
  shows "\<exists>e ps. mtvu_inv P (vu1 s0) e ps s"
  using assms(1)
  by induction (use mtvu_inv_init [OF assms(2)] mtvu_inv_step in blast)+

text \<open>
  C27: For every interleaving of the two threads from the start in which the EE does not jump
  back while the read position is 0, the VU thread has executed a prefix of the packets sent,
  in order, each with its own effect and nothing else; when it has caught up nothing is
  pending, and otherwise the tag it reads next is one it can execute.
\<close>

theorem mtvu_fifo:
  assumes "mtvu_init s0" "mtvu_reach P mtvu_safe s0 s"
  shows "\<exists>executed pending. sent s = executed @ pending \<and>
    vu1 s = fold (packet_effect P) executed (vu1 s0) \<and>
    (vu_at s = VU_Test \<longrightarrow>
       (if IsDone s then pending = [] else mtvu_dispatch P (ring s) (m_read_pos s) (vu1 s) \<noteq> None))"
proof -
  obtain e ps where inv: "mtvu_inv P (vu1 s0) e ps s" using mtvu_reach_inv [OF assms(2,1)] by blast
  then have r: "ring_at (ring s) (m_read_pos s) (m_ato_write_pos s) ps" by (simp add: mtvu_inv_def)
  have m: "m_read_pos s = m_ato_read_pos s" if "vu_at s = VU_Test" using inv that by (simp add: mtvu_inv_def reader_ok_def)
  have "ps = []" if "vu_at s = VU_Test" "IsDone s"
    using r m [OF that(1)] that(2) by (auto simp: IsDone_def ring_at_def dest: seg_empty)
  moreover have "mtvu_dispatch P (ring s) (m_read_pos s) (vu1 s) \<noteq> None" if "vu_at s = VU_Test" "\<not> IsDone s"
  proof -
    have "m_read_pos s \<noteq> m_ato_write_pos s" using m [OF that(1)] that(2) by (simp add: IsDone_def)
    then show ?thesis by (rule ring_at_execute [OF r, where P = P and v = "vu1 s"]) simp_all
  qed
  ultimately show ?thesis using inv unfolding mtvu_inv_def by (intro exI [of _ e] exI [of _ ps]) simp
qed

section \<open>Draining\<close>

lemma mtvu_reach_trans: "mtvu_reach P A s1 s2 \<Longrightarrow> mtvu_reach P A s0 s1 \<Longrightarrow> mtvu_reach P A s0 s2"
  by (induction rule: mtvu_reach.induct) (auto intro: reach_step)

abbreviation (input) any_state :: "mtvu \<Rightarrow> bool" where "any_state \<equiv> \<lambda>_. True"

lemma reach_one: "mtvu_step P s t \<Longrightarrow> mtvu_reach P any_state s t"
  by (rule reach_step [OF reach_refl TrueI])

lemma drain:
  assumes "mtvu_inv P v0 e ps s" "vu_at s = VU_Test"
  shows "\<exists>t. mtvu_reach P any_state s t \<and> IsDone t \<and> vu_at t = VU_Test \<and> ee_at t = ee_at s \<and> sent t = sent s \<and>
    vu1 t = fold (packet_effect P) (e @ ps) v0"
  using assms
proof (induction "2 * length ps + (if m_ato_write_pos s < m_ato_read_pos s then 1 else 0)" arbitrary: e ps s rule: less_induct)
  case less
  note I = less.prems(1) [unfolded mtvu_inv_def]
  show ?case
  proof (cases "IsDone s")
    case True
    have "ps = []" using I less.prems(2) True by (auto simp: IsDone_def reader_ok_def ring_at_def dest: seg_empty)
    then show ?thesis using True I less.prems(2) reach_refl by fastforce
  next
    case False
    then have ne: "m_ato_read_pos s \<noteq> m_ato_write_pos s" by (simp add: IsDone_def)
    define step where "step v pos = s\<lparr>vu1 := v, m_read_pos := pos, vu_at := VU_Commit\<rparr>\<lparr>m_ato_read_pos := pos, vu_at := VU_Test\<rparr>" for v pos
    have two: "mtvu_reach P any_state s (step v pos)" if "mtvu_dispatch P (ring s) (m_read_pos s) (vu1 s) = Some (v, pos)" for v pos
    proof -
      have "mtvu_step P s (s\<lparr>vu1 := v, m_read_pos := pos, vu_at := VU_Commit\<rparr>)"
        using mtvu_step.Execute [OF less.prems(2) ne that] .
      moreover have "mtvu_step P (s\<lparr>vu1 := v, m_read_pos := pos, vu_at := VU_Commit\<rparr>) (step v pos)"
        using mtvu_step.CommitRead [of "s\<lparr>vu1 := v, m_read_pos := pos, vu_at := VU_Commit\<rparr>"] by (simp add: step_def)
      ultimately show ?thesis by (rule reach_step [OF reach_one TrueI])
    qed
    show ?thesis
      using less.prems ne
    proof (cases rule: mtvu_inv_execute)
      case (1 p ps' v pos)
      have "mtvu_inv P v0 (e @ [p]) ps' (step v pos)" using mtvu_inv_commit_read [OF 1(3)] by (simp add: step_def)
      moreover have "2 * length ps' + (if m_ato_write_pos (step v pos) < m_ato_read_pos (step v pos) then 1 else 0)
          < 2 * length ps + (if m_ato_write_pos s < m_ato_read_pos s then 1 else 0)" using 1(1) by simp
      ultimately obtain t where "mtvu_reach P any_state (step v pos) t" "IsDone t" "vu_at t = VU_Test" "ee_at t = ee_at (step v pos)"
          "sent t = sent (step v pos)" "vu1 t = fold (packet_effect P) ((e @ [p]) @ ps') v0"
        using less.hyps [of ps' "step v pos" "e @ [p]"] by (auto simp: step_def)
      then show ?thesis using mtvu_reach_trans [OF _ two [OF 1(2)]] 1(1) by (auto simp: step_def)
    next
      case (2 v)
      have "mtvu_inv P v0 e ps (step v 0)" using mtvu_inv_commit_read [OF 2(3)] by (simp add: step_def)
      moreover have "2 * length ps + (if m_ato_write_pos (step v 0) < m_ato_read_pos (step v 0) then 1 else 0)
          < 2 * length ps + (if m_ato_write_pos s < m_ato_read_pos s then 1 else 0)" using 2(1) by (simp add: step_def)
      ultimately obtain t where "mtvu_reach P any_state (step v 0) t" "IsDone t" "vu_at t = VU_Test" "ee_at t = ee_at (step v 0)"
          "sent t = sent (step v 0)" "vu1 t = fold (packet_effect P) (e @ ps) v0"
        using less.hyps [of ps "step v 0" e] by (auto simp: step_def)
      then show ?thesis using mtvu_reach_trans [OF _ two [OF 2(2)]] by (auto simp: step_def)
    qed
  qed
qed

text \<open>
  C29: From every state the two threads reach safely, steps of the VU thread alone end with
  everything executed that the EE has sent; so the wait for the VU thread returns.
\<close>

theorem mtvu_drains:
  assumes "mtvu_init s0" "mtvu_reach P mtvu_safe s0 s"
  shows "\<exists>t. mtvu_reach P (\<lambda>_. True) s t \<and> IsDone t \<and> ee_at t = ee_at s \<and> sent t = sent s \<and>
    vu1 t = fold (packet_effect P) (sent s) (vu1 s0)"
proof -
  obtain e ps where inv: "mtvu_inv P (vu1 s0) e ps s" using mtvu_reach_inv [OF assms(2,1)] by blast
  then have sent: "sent s = e @ ps" by (simp add: mtvu_inv_def)
  show ?thesis
  proof (cases "vu_at s")
    case VU_Test
    then show ?thesis using drain [OF inv] sent by auto
  next
    case VU_Commit
    let ?u = "s\<lparr>m_ato_read_pos := m_read_pos s, vu_at := VU_Test\<rparr>"
    have u: "mtvu_reach P any_state s ?u" using VU_Commit by (intro reach_one mtvu_step.CommitRead)
    show ?thesis using drain [OF mtvu_inv_commit_read [OF inv]] mtvu_reach_trans [OF _ u] sent by auto
  qed
qed

section \<open>Sending without a jump\<close>

text \<open>The parts of a state a call of the EE leaves alone, and where it ends.\<close>

definition sent_from :: "mtvu \<Rightarrow> packet list \<Rightarrow> nat \<Rightarrow> mtvu \<Rightarrow> bool" where
  "sent_from s ps w t \<longleftrightarrow> ee_at t = EE_Idle \<and> m_write_pos t = w \<and> m_ato_write_pos t = w \<and> sent t = sent s @ ps \<and>
     m_ato_read_pos t = m_ato_read_pos s \<and> m_read_pos t = m_read_pos s \<and> vu_at t = vu_at s \<and> vu1 t = vu1 s"

text \<open>Stated for any condition on the states that holds outside a jump.\<close>

definition no_jump :: "mtvu \<Rightarrow> bool" where
  "no_jump s \<longleftrightarrow> (case ee_at s of EE_WaitNull p \<Rightarrow> False | EE_CommitNull p \<Rightarrow> False | _ \<Rightarrow> True)"

lemma no_jump_safe: "no_jump s \<Longrightarrow> mtvu_safe s"
  by (simp add: no_jump_def mtvu_safe_def split: ee_pc.splits)

lemma reach_no_jump: "(\<And>u. no_jump u \<Longrightarrow> A u) \<Longrightarrow> no_jump s \<Longrightarrow> mtvu_step P s t \<Longrightarrow> mtvu_reach P A s t"
  by (rule reach_step [OF reach_refl]) simp_all

lemma send_writes:
  assumes A: "\<And>u. no_jump u \<Longrightarrow> A u" and "ee_at s = EE_Write p cs"
  shows "\<exists>t. mtvu_reach P A s t \<and> sent_from s [p] (m_write_pos s + words cs) t"
  using assms(2)
proof (induction cs arbitrary: s)
  case Nil
  let ?t = "s\<lparr>m_ato_write_pos := m_write_pos s, ee_at := EE_Idle, sent := sent s @ [p]\<rparr>"
  have "mtvu_reach P A s ?t" using Nil by (intro reach_no_jump [OF A] mtvu_step.CommitWrite) (simp_all add: no_jump_def)
  moreover have "sent_from s [p] (m_write_pos s + words []) ?t" by (simp add: sent_from_def)
  ultimately show ?case by blast
next
  case (Cons c cs)
  let ?u = "s\<lparr>ring := put_bytes c (ring s) (m_write_pos s), m_write_pos := m_write_pos s + size_u32 (length c),
    ee_at := EE_Write p cs\<rparr>"
  have u: "mtvu_reach P A s ?u" using Cons.prems by (intro reach_no_jump [OF A] mtvu_step.Write) (simp_all add: no_jump_def)
  obtain t where t: "mtvu_reach P A ?u t" "sent_from ?u [p] (m_write_pos ?u + words cs) t"
    using Cons.IH [of ?u] by auto
  have "sent_from s [p] (m_write_pos s + words (c # cs)) t" using t(2) by (simp add: sent_from_def add.assoc)
  then show ?case using mtvu_reach_trans [OF t(1) u] by blast
qed

lemma send_packet:
  assumes A: "\<And>u. no_jump u \<Longrightarrow> A u" and "ee_at s = EE_Idle" "packet_ok p" "m_write_pos s + reserve p \<le> buffer_size - 1" "m_ato_read_pos s \<le> m_write_pos s"
  shows "\<exists>t. mtvu_reach P A s t \<and> sent_from s [p] (m_write_pos s + packet_words p) t"
proof -
  let ?u = "s\<lparr>ee_at := EE_WaitSize p\<rparr>"
  let ?v = "?u\<lparr>ee_at := EE_Write p (packet_writes p)\<rparr>"
  have "mtvu_step P s ?u" using mtvu_step.Call [of s p P] assms(2-4) by simp
  moreover have "mtvu_step P ?u ?v" by (rule mtvu_step.Reserve) (use assms(5) in \<open>simp_all add: enough_space_def\<close>)
  ultimately have v: "mtvu_reach P A s ?v"
    by (intro reach_step [OF reach_no_jump [OF A]]) (use assms(2) in \<open>simp_all add: A no_jump_def\<close>)
  obtain t where t: "mtvu_reach P A ?v t" "sent_from ?v [p] (m_write_pos ?v + packet_words p) t"
    using send_writes [of A ?v p "packet_writes p" P, OF A] by auto
  have "sent_from s [p] (m_write_pos s + packet_words p) t" using t(2) by (simp add: sent_from_def)
  then show ?thesis using mtvu_reach_trans [OF t(1) v] by blast
qed

lemma send_packets:
  assumes "ee_at s = EE_Idle" "m_write_pos s = m_ato_write_pos s" "packet_ok p" "packet_words p = reserve p" "m_ato_read_pos s \<le> m_write_pos s"
    and "m_write_pos s + k * reserve p \<le> buffer_size - 1"
  shows "\<exists>t. mtvu_reach P any_state s t \<and> sent_from s (replicate k p) (m_write_pos s + k * reserve p) t"
  using assms(6)
proof (induction k)
  case 0
  have "sent_from s (replicate 0 p) (m_write_pos s + 0 * reserve p) s" using assms(1,2) by (simp add: sent_from_def)
  then show ?case using reach_refl by blast
next
  case (Suc k)
  obtain t where t: "mtvu_reach P any_state s t" "sent_from s (replicate k p) (m_write_pos s + k * reserve p) t"
    using Suc by auto
  obtain u where u: "mtvu_reach P any_state t u" "sent_from t [p] (m_write_pos t + packet_words p) u"
    using send_packet [of any_state t p P] t(2) assms(3-5) Suc.prems by (auto simp: sent_from_def)
  have "sent_from s (replicate (Suc k) p) (m_write_pos s + Suc k * reserve p) u"
    using t(2) u(2) assms(4) by (simp add: sent_from_def replicate_append_same)
  then show ?case using mtvu_reach_trans [OF u(1) t(1)] by blast
qed

lemma jump_back:
  assumes "ee_at s = EE_Idle" "packet_ok p" "m_write_pos s + reserve p > buffer_size - 1" "m_ato_read_pos s \<le> m_write_pos s"
  shows "\<exists>t. mtvu_reach P any_state s t \<and> ee_at t = EE_WaitSize p \<and> m_ato_write_pos t = 0 \<and> m_ato_read_pos t = m_ato_read_pos s \<and>
    vu_at t = vu_at s \<and> vu1 t = vu1 s \<and> sent t = sent s"
proof -
  let ?u = "s\<lparr>ee_at := EE_WaitNull p\<rparr>"
  let ?v = "?u\<lparr>ring := put_bytes (u32_bytes MTVU_NULL_PACKET) (ring ?u) (m_write_pos ?u), m_write_pos := 0, ee_at := EE_CommitNull p\<rparr>"
  let ?w = "?v\<lparr>m_ato_write_pos := m_write_pos ?v, ee_at := EE_WaitSize p\<rparr>"
  have "mtvu_step P s ?u" using mtvu_step.Call [of s p P] assms(1-3) by simp
  moreover have "mtvu_step P ?u ?v" by (rule mtvu_step.Null) (use assms(4) in \<open>simp_all add: enough_space_def\<close>)
  moreover have "mtvu_step P ?v ?w" by (rule mtvu_step.CommitNull) simp
  ultimately have "mtvu_reach P any_state s ?w" by (blast intro: reach_one reach_step)
  then show ?thesis by (intro exI [of _ ?w]) simp
qed

section \<open>The jump back onto the read position\<close>

definition big_packet :: packet where "big_packet = WriteMicroMem 0 (replicate 16372 0)"

lemma big_packet: "packet_ok big_packet" "reserve big_packet = 4096" "packet_words big_packet = 4096"
  by (simp_all add: big_packet_def packet_ok_def size_u32_def)

text \<open>
  C28: The EE can fill the buffer before the VU thread has read anything.  It then jumps back
  to position 0, where the read position still is, and the buffer counts as empty: the 1023
  packets in it are lost, because the VU thread sees nothing to do.
\<close>

theorem mtvu_overrun:
  assumes "mtvu_init s0"
  shows "\<exists>s. mtvu_reach P (\<lambda>_. True) s0 s \<and> sent s = replicate 1023 big_packet \<and>
    IsDone s \<and> vu_at s = VU_Test \<and> vu1 s = vu1 s0"
proof -
  note i = assms [unfolded mtvu_init_def]
  obtain t where t: "mtvu_reach P any_state s0 t" "sent_from s0 (replicate 1023 big_packet) 4190208 t"
    using send_packets [of s0 big_packet 1023 P] i by (auto simp: big_packet)
  obtain u where u: "mtvu_reach P any_state t u" "m_ato_write_pos u = 0" "m_ato_read_pos u = 0" "vu_at u = VU_Test"
      "vu1 u = vu1 s0" "sent u = replicate 1023 big_packet"
    using jump_back [of t big_packet P] t(2) i by (auto simp: sent_from_def big_packet)
  then show ?thesis using mtvu_reach_trans [OF u(1) t(1)] by (auto simp: IsDone_def)
qed

section \<open>Witnesses\<close>

definition mtvu_start :: mtvu where
  "mtvu_start = \<lparr>ring = \<lambda>_. 0, m_ato_read_pos = 0, m_ato_write_pos = 0, m_read_pos = 0, m_write_pos = 0,
     ee_at = EE_Idle, vu_at = VU_Test,
     vu1 = \<lparr>mt_Micro = \<lambda>_. 0, mt_Mem = \<lambda>_. 0, mt_VI = \<lambda>_. 0, mt_VF = \<lambda>_. 0, mt_MaskCol = \<lambda>_. 0, mt_MaskRow = \<lambda>_. 0,
       mt_vif = [], mt_vifCycle = 0, mt_vifMode = 0, mt_vifNum = 0, mt_vifMask = 0, mt_vifItop = 0, mt_vifTop = 0,
       mt_vuFBRST = 0, mt_cycle = 0, mt_vuCycles = \<lambda>_. 0, mt_vuCycleIdx = 0\<rparr>, sent = []\<rparr>"

definition idle_vu :: mtvu_cpu where
  "idle_vu = \<lparr>vu_Execute = \<lambda>pc v. v\<lparr>mt_cycle := pc + 1\<rparr>, vif_Unpack = \<lambda>d v. v\<lparr>mt_Mem := mem_put d 0 (mt_Mem v)\<rparr>\<rparr>"

lemma mtvu_start_init: "mtvu_init mtvu_start" by (simp add: mtvu_start_def mtvu_init_def)

text \<open>A packet on its way.\<close>

lemma mtvu_start_sends:
  "\<exists>s. mtvu_reach idle_vu mtvu_safe mtvu_start s \<and> sent s = [ExecuteVU 3 1 2 0] \<and> \<not> IsDone s"
proof -
  have "packet_ok (ExecuteVU 3 1 2 0)" by (simp add: packet_ok_def)
  moreover obtain w where w: "w = m_write_pos mtvu_start + packet_words (ExecuteVU 3 1 2 0)" "w \<noteq> 0" by simp
  ultimately obtain t where t: "mtvu_reach idle_vu mtvu_safe mtvu_start t" "sent_from mtvu_start [ExecuteVU 3 1 2 0] w t"
    using send_packet [of mtvu_safe mtvu_start "ExecuteVU 3 1 2 0" idle_vu, OF no_jump_safe] mtvu_start_init
    by (auto simp: mtvu_init_def)
  then show ?thesis using w(2) by (intro exI [of _ t]) (use mtvu_start_init in \<open>auto simp: sent_from_def mtvu_init_def IsDone_def\<close>)
qed

theorem mtvu_fifo_witness:
  "\<exists>s. sent s = [ExecuteVU 3 1 2 0] \<and> \<not> IsDone s \<and>
    (\<exists>executed pending. sent s = executed @ pending \<and> vu1 s = fold (packet_effect idle_vu) executed (vu1 mtvu_start) \<and>
      (vu_at s = VU_Test \<longrightarrow> (if IsDone s then pending = [] else mtvu_dispatch idle_vu (ring s) (m_read_pos s) (vu1 s) \<noteq> None)))"
  using mtvu_start_sends mtvu_fifo [OF mtvu_start_init] by blast

theorem mtvu_drains_witness:
  "\<exists>t. sent t = [ExecuteVU 3 1 2 0] \<and> IsDone t \<and> vu1 t = run_vu idle_vu 3 1 2 0 (vu1 mtvu_start)"
proof -
  obtain s where s: "mtvu_reach idle_vu mtvu_safe mtvu_start s" "sent s = [ExecuteVU 3 1 2 0]" using mtvu_start_sends by blast
  show ?thesis using mtvu_drains [OF mtvu_start_init s(1)] s(2) by auto
qed

theorem mtvu_overrun_witness:
  "\<exists>s. mtvu_reach idle_vu (\<lambda>_. True) mtvu_start s \<and> sent s = replicate 1023 big_packet \<and> IsDone s \<and> vu_at s = VU_Test \<and>
    vu1 s = vu1 mtvu_start"
  by (rule mtvu_overrun [OF mtvu_start_init])

end
