(* ===== verification/Gs_Offset.thy ===== *)
theory Gs_Offset
  imports Gs_Tables
begin

text \<open>
  Addresses of pixels and numbers of blocks (\<open>GSSwizzleInfo\<close> and \<open>GSOffset\<close> of
  pcsx2/GS/GSLocalMemory.h).  The C++ computes with \<open>int\<close>; the register fields that reach these
  functions (14 bits of base, 6 bits of width, 11 bits of coordinates) keep every intermediate
  value below \<open>2 ^ 31\<close>, so the integers here are unbounded.

  The optimised routines look an offset up for the column and one for the row and add them.  The
  interface \<open>swizzle\<close> states what the tables of a format promise, and proves that this is the page,
  block and column arithmetic of the format, and that no two pixels of a page share an address.
\<close>

unbundle bit_operations_syntax

abbreviation (input) "MAX_PAGES \<equiv> (512 :: int)"
abbreviation (input) "MAX_BLOCKS \<equiv> (16384 :: int)"

section \<open>Swizzle information\<close>

record GSSwizzleInfo =
  m_blockSwizzle :: "nat list list"
  m_pixelSwizzleCol :: "int list"
  m_pixelSwizzleRow :: "(nat \<Rightarrow> int) list"
  m_pageMask :: "int \<times> int"
  m_blockMask :: "int \<times> int"
  m_pixelRowMask :: int
  m_pageShiftX :: nat
  m_pageShiftY :: nat
  m_blockShiftX :: nat
  m_blockShiftY :: nat

fun ilog2 :: "nat \<Rightarrow> nat" where "ilog2 i = (if i < 2 then 0 else 1 + ilog2 (i div 2))"
declare ilog2.simps [simp del]

text \<open>The constructor: the sizes are template parameters of the tables.\<close>

definition mkSwizzleInfo :: "nat list list \<Rightarrow> int list \<Rightarrow> (nat \<Rightarrow> int) list \<Rightarrow> nat \<Rightarrow> nat \<Rightarrow> nat \<Rightarrow> nat \<Rightarrow> int \<Rightarrow> GSSwizzleInfo" where
  "mkSwizzleInfo block col row PageHeight PageWidth BlocksHigh BlocksWide PixelRowMask =
     \<lparr>m_blockSwizzle = block, m_pixelSwizzleCol = col, m_pixelSwizzleRow = row,
      m_pageMask = (int PageWidth - 1, int PageHeight - 1),
      m_blockMask = (int (PageWidth div BlocksWide) - 1, int (PageHeight div BlocksHigh) - 1),
      m_pixelRowMask = PixelRowMask, m_pageShiftX = ilog2 PageWidth, m_pageShiftY = ilog2 PageHeight,
      m_blockShiftX = ilog2 (PageWidth div BlocksWide), m_blockShiftY = ilog2 (PageHeight div BlocksHigh)\<rparr>"

definition swizzle32 :: GSSwizzleInfo where
  "swizzle32 = mkSwizzleInfo blockTable32 pixelColOffset32 pixelRowOffset32 32 64 4 8 0"
definition swizzle32Z :: GSSwizzleInfo where
  "swizzle32Z = mkSwizzleInfo blockTable32Z pixelColOffset32Z pixelRowOffset32Z 32 64 4 8 0"
definition swizzle16 :: GSSwizzleInfo where
  "swizzle16 = mkSwizzleInfo blockTable16 pixelColOffset16 pixelRowOffset16 64 64 8 4 0"
definition swizzle16S :: GSSwizzleInfo where
  "swizzle16S = mkSwizzleInfo blockTable16S pixelColOffset16S pixelRowOffset16S 64 64 8 4 0"
definition swizzle16Z :: GSSwizzleInfo where
  "swizzle16Z = mkSwizzleInfo blockTable16Z pixelColOffset16Z pixelRowOffset16Z 64 64 8 4 0"
definition swizzle16SZ :: GSSwizzleInfo where
  "swizzle16SZ = mkSwizzleInfo blockTable16SZ pixelColOffset16SZ pixelRowOffset16SZ 64 64 8 4 0"
definition swizzle8 :: GSSwizzleInfo where
  "swizzle8 = mkSwizzleInfo blockTable8 pixelColOffset8 pixelRowOffset8 64 128 4 8 7"
definition swizzle4 :: GSSwizzleInfo where
  "swizzle4 = mkSwizzleInfo blockTable4 pixelColOffset4 pixelRowOffset4 128 128 8 4 7"

record GSOffset =
  off_swz :: GSSwizzleInfo
  m_bp :: int
  m_bwPg :: int

definition mkGSOffset :: "GSSwizzleInfo \<Rightarrow> int \<Rightarrow> int \<Rightarrow> GSOffset" where
  "mkGSOffset swz bp bw = \<lparr>off_swz = swz, m_bp = bp, m_bwPg = drop_bit (m_pageShiftX swz - 6) bw\<rparr>"

section \<open>Block numbers\<close>

definition lookup :: "nat list list \<Rightarrow> int \<Rightarrow> int \<Rightarrow> int" where
  "lookup t x y = int (t ! nat (y AND 7) ! nat (x AND 7))"

record BNHelper =
  bh_blockSwizzle :: "nat list list"
  bh_baseBP :: int
  bh_bp :: int
  bh_baseBlkX :: int
  bh_blkX :: int
  bh_blkY :: int
  bh_pageMaskX :: int
  bh_pageMaskY :: int
  bh_addY :: int

definition mkBNHelper :: "GSOffset \<Rightarrow> int \<Rightarrow> int \<Rightarrow> BNHelper" where
  "mkBNHelper off x y =
     (let z = off_swz off;
          yAmt = (drop_bit (m_pageShiftY z - 5) y AND NOT 0x1f) * m_bwPg off;
          xAmt = drop_bit (m_pageShiftX z - 5) x AND NOT 0x1f
      in \<lparr>bh_blockSwizzle = m_blockSwizzle z, bh_baseBP = m_bp off + yAmt + xAmt, bh_bp = m_bp off + yAmt + xAmt,
          bh_baseBlkX = drop_bit (m_blockShiftX z) x, bh_blkX = drop_bit (m_blockShiftX z) x,
          bh_blkY = drop_bit (m_blockShiftY z) y,
          bh_pageMaskX = push_bit (m_pageShiftX z - m_blockShiftX z) 1 - 1,
          bh_pageMaskY = push_bit (m_pageShiftY z - m_blockShiftY z) 1 - 1, bh_addY = 32 * m_bwPg off\<rparr>)"

definition nextBlockX :: "BNHelper \<Rightarrow> BNHelper" where
  "nextBlockX h =
     (let h1 = h\<lparr>bh_blkX := bh_blkX h + 1\<rparr>
      in if bh_blkX h1 AND bh_pageMaskX h1 = 0 then h1\<lparr>bh_bp := bh_bp h1 + 32\<rparr> else h1)"

definition nextBlockY :: "BNHelper \<Rightarrow> BNHelper" where
  "nextBlockY h =
     (let h1 = h\<lparr>bh_blkY := bh_blkY h + 1\<rparr>;
          h2 = (if bh_blkY h1 AND bh_pageMaskY h1 = 0 then h1\<lparr>bh_baseBP := bh_baseBP h1 + bh_addY h1\<rparr> else h1)
      in h2\<lparr>bh_blkX := bh_baseBlkX h2, bh_bp := bh_baseBP h2\<rparr>)"

definition valueNoWrap :: "BNHelper \<Rightarrow> int" where
  "valueNoWrap h = bh_bp h + lookup (bh_blockSwizzle h) (bh_blkX h) (bh_blkY h)"

definition bn_value :: "BNHelper \<Rightarrow> int" where "bn_value h = valueNoWrap h mod MAX_BLOCKS"

definition bn :: "GSOffset \<Rightarrow> int \<Rightarrow> int \<Rightarrow> int" where "bn off x y = bn_value (mkBNHelper off x y)"

text \<open>The blocks of a rectangle, in the order of the scan.\<close>

fun loopBlocksX :: "nat \<Rightarrow> int \<Rightarrow> BNHelper \<Rightarrow> int list \<times> BNHelper" where
  "loopBlocksX 0 right h = ([], h)"
| "loopBlocksX (Suc n) right h =
     (if bh_blkX h < right then (case loopBlocksX n right (nextBlockX h) of (bs, t) \<Rightarrow> (bn_value h # bs, t)) else ([], h))"

fun loopBlocksY :: "nat \<Rightarrow> int \<Rightarrow> int \<Rightarrow> BNHelper \<Rightarrow> int list" where
  "loopBlocksY 0 right bottom h = []"
| "loopBlocksY (Suc n) right bottom h =
     (if bh_blkY h < bottom
      then (case loopBlocksX (nat (right - bh_blkX h)) right h of (bs, t) \<Rightarrow> bs @ loopBlocksY n right bottom (nextBlockY t)) else [])"

definition loopBlocks :: "GSOffset \<Rightarrow> int \<times> int \<times> int \<times> int \<Rightarrow> int list" where
  "loopBlocks off rect =
     (case rect of (left, tp, r, b) \<Rightarrow>
        let z = off_swz off; h = mkBNHelper off left tp;
            right = drop_bit (m_blockShiftX z) (r + fst (m_blockMask z));
            bottom = drop_bit (m_blockShiftY z) (b + snd (m_blockMask z))
        in loopBlocksY (nat (bottom - bh_blkY h)) right bottom h)"

section \<open>Addresses of pixels\<close>

definition pixelAddressZeroX :: "GSOffset \<Rightarrow> int \<Rightarrow> int" where
  "pixelAddressZeroX off y =
     (let z = off_swz off;
          base = push_bit (m_pageShiftX z + m_pageShiftY z - 5) (m_bp off);
          base = base + push_bit (m_pageShiftX z) ((y AND NOT (snd (m_pageMask z))) * m_bwPg off);
          base = base AND (push_bit (m_pageShiftX z + m_pageShiftY z) MAX_PAGES - 1)
      in base + m_pixelSwizzleCol z ! nat (y AND snd (m_pageMask z)))"

text \<open>A line of pixels from \<open>x0\<close>; the table of the line has 4096 entries, and a read past it is \<open>None\<close>.\<close>

definition row_entry :: "(nat \<Rightarrow> int) \<Rightarrow> int \<Rightarrow> int option" where
  "row_entry t x = (if 0 \<le> x \<and> x < 4096 then Some (t (nat x)) else None)"

record PAHelper =
  pa_row :: "nat \<Rightarrow> int"
  pa_x :: int
  pa_base :: int

definition paMulti :: "GSOffset \<Rightarrow> int \<Rightarrow> int \<Rightarrow> PAHelper" where
  "paMulti off x y =
     \<lparr>pa_row = m_pixelSwizzleRow (off_swz off) ! nat (y AND m_pixelRowMask (off_swz off)), pa_x = x,
      pa_base = pixelAddressZeroX off y\<rparr>"

definition pa_value :: "PAHelper \<Rightarrow> int \<Rightarrow> u32 option" where
  "pa_value p x = map_option (\<lambda>r. word_of_int (pa_base p + r)) (row_entry (pa_row p) (pa_x p + x))"

definition pa :: "GSOffset \<Rightarrow> int \<Rightarrow> int \<Rightarrow> u32 option" where "pa off x y = pa_value (paMulti off 0 y) x"

end
