(* ===== verification/Gs_Address.thy ===== *)
theory Gs_Address
  imports Gs_Offset
begin

text \<open>
  The interface \<open>swizzle\<close> between the tables of a storage format and the address arithmetic, its
  consequences, and its instances for the eight formats.
\<close>

unbundle bit_operations_syntax

section \<open>Masks and shifts of integers\<close>

lemma and_mask_mod: "(x :: int) AND (2 ^ n - 1) = x mod 2 ^ n"
  by (simp add: take_bit_eq_mod flip: take_bit_eq_mask mask_eq_exp_minus_1)

lemma and_not_mask: "(x :: int) AND NOT (2 ^ n - 1) = 2 ^ n * (x div 2 ^ n)"
proof -
  have "x AND NOT (mask n) = push_bit n (drop_bit n x)" by (rule bit_eqI) (auto simp: bit_simps)
  then show ?thesis by (simp add: mask_eq_exp_minus_1 push_bit_eq_mult drop_bit_eq_div mult.commute)
qed

lemmas shift_simps = push_bit_eq_mult drop_bit_eq_div

lemma div_less: "0 < k \<Longrightarrow> x < b * k \<Longrightarrow> x div k < (b :: int)"
proof (rule ccontr)
  assume k: "0 < k" "x < b * k" and "\<not> x div k < b"
  then have "b * k \<le> x div k * k" by (simp add: mult_right_mono)
  also have "\<dots> \<le> x" using k by (simp flip: minus_mod_eq_div_mult)
  finally show False using k by simp
qed

section \<open>Tables\<close>

text \<open>An entry in row \<open>y\<close> and column \<open>x\<close>; a table whose entries a map sends to their places is injective.\<close>

abbreviation tab :: "nat list list \<Rightarrow> nat \<Rightarrow> nat \<Rightarrow> nat" where "tab t y x \<equiv> t ! y ! x"

lemma tab_inj:
  assumes inv: "map (map g) t = map (\<lambda>y. map (\<lambda>x. y * W + x) [0..<W]) [0..<H]"
    and y: "y < H" "y' < H" and x: "x < W" "x' < W" and eq: "tab t y x = tab t y' x'"
  shows "y = y' \<and> x = x'"
proof -
  have *: "g (tab t b a) = b * W + a" if "b < H" "a < W" for a b
  proof -
    have l: "length t = H" using arg_cong [OF inv, of length] by simp
    have r: "map g (t ! b) = map (\<lambda>x. b * W + x) [0..<W]"
      using arg_cong [OF inv, of "\<lambda>t. t ! b"] that l by simp
    have "length (t ! b) = W" using arg_cong [OF r, of length] by (simp only: length_map length_upt)
    with that show ?thesis using arg_cong [OF r, of "\<lambda>t. t ! a"] by simp
  qed
  have e: "y * W + x = y' * W + x'" using eq * [OF y(1) x(1)] * [OF y(2) x(2)] by simp
  have "(y * W + x) div W = y" "(y' * W + x') div W = y'" "(y * W + x) mod W = x" "(y' * W + x') mod W = x'"
    using x by simp_all
  then show ?thesis using e by metis
qed

section \<open>The interface\<close>

locale swizzle =
  fixes z :: GSSwizzleInfo and bt ct :: "nat list list" and rep :: "nat \<Rightarrow> nat"
    and BH BW CH CW sx sy cx cy :: nat
  assumes bt_dims: "length bt = BH" "length (hd bt) = BW" "BH * BW = 32" "BH dvd 8" "BW dvd 8"
    and ct_dims: "length ct = CH" "length (hd ct) = CW" "CW = 2 ^ cx" "CH = 2 ^ cy"
    and page: "BW * CW = 2 ^ sx" "BH * CH = 2 ^ sy" "6 \<le> sx" "sx \<le> 7" "5 \<le> sy" "sy \<le> 7" "cx \<le> sx" "cy \<le> sy"
    and bt_sum: "y < BH \<Longrightarrow> x < BW \<Longrightarrow> tab bt y x + tab bt 0 0 = tab bt y 0 + tab bt 0 x"
    and ct_sum: "y < CH \<Longrightarrow> x < CW \<Longrightarrow> tab ct y x + tab ct (rep y) 0 = tab ct y 0 + tab ct (rep y) x"
    and bt_bound: "y < BH \<Longrightarrow> x < BW \<Longrightarrow> tab bt y x < 32"
    and ct_bound: "y < CH \<Longrightarrow> x < CW \<Longrightarrow> tab ct y x < CH * CW"
    and bt_inj: "y < BH \<Longrightarrow> y' < BH \<Longrightarrow> x < BW \<Longrightarrow> x' < BW \<Longrightarrow> tab bt y x = tab bt y' x' \<Longrightarrow> y = y' \<and> x = x'"
    and ct_inj: "y < CH \<Longrightarrow> y' < CH \<Longrightarrow> x < CW \<Longrightarrow> x' < CW \<Longrightarrow> tab ct y x = tab ct y' x' \<Longrightarrow> y = y' \<and> x = x'"
    and rep: "rep y < CH" "rep (y mod CH) = rep y"
    and info: "m_blockSwizzle z = makeSwizzleTable bt" "m_pixelSwizzleCol z = makeColOffsetTable bt ct"
      "m_pageMask z = (2 ^ sx - 1, 2 ^ sy - 1)" "m_blockMask z = (2 ^ cx - 1, 2 ^ cy - 1)"
      "m_pageShiftX z = sx" "m_pageShiftY z = sy" "m_blockShiftX z = cx" "m_blockShiftY z = cy"
    and rows: "0 \<le> (i :: int) \<Longrightarrow> m_pixelSwizzleRow z ! nat (i AND m_pixelRowMask z) = makeRowOffsetTable bt ct (rep (nat i))"
begin

text \<open>The pixels of a block and of a page, and where a pixel is in its page.\<close>

definition "BPX = CH * CW"
definition "PPX = 32 * BPX"

definition inpage :: "nat \<Rightarrow> nat \<Rightarrow> nat" where
  "inpage x y = tab bt (y div CH) (x div CW) * BPX + tab ct (y mod CH) (x mod CW)"

lemma CW_pos [simp]: "0 < CW" and CH_pos [simp]: "0 < CH"
  by (simp_all add: ct_dims)
lemma BPX_pos: "0 < BPX"
  by (simp add: BPX_def)

lemma PPX_alt: "PPX = 2 ^ (sx + sy)"
proof -
  have "PPX = (BW * CW) * (BH * CH)" using bt_dims(3) by (simp add: PPX_def BPX_def ac_simps)
  then show ?thesis by (simp add: page power_add)
qed

lemma BPX_alt: "BPX = 2 ^ (sx + sy - 5)"
proof -
  have "32 * BPX = 2 ^ (sx + sy)" using PPX_alt by (simp add: PPX_def)
  also have "\<dots> = 32 * 2 ^ (sx + sy - 5)"
  proof -
    have "sx + sy = 5 + (sx + sy - 5)" using page by simp
    then have "(2 :: nat) ^ (sx + sy) = 2 ^ 5 * 2 ^ (sx + sy - 5)" by (metis power_add)
    then show ?thesis by simp
  qed
  finally show ?thesis by simp
qed

lemma block_idx: "y < BH * CH \<Longrightarrow> y div CH < BH" "x < BW * CW \<Longrightarrow> x div CW < BW"
  by (simp_all add: less_mult_imp_div_less)

lemma inpage_bound: "x < BW * CW \<Longrightarrow> y < BH * CH \<Longrightarrow> inpage x y < PPX"
proof -
  assume xy: "x < BW * CW" "y < BH * CH"
  have b: "tab bt (y div CH) (x div CW) \<le> 31" using bt_bound [OF block_idx(1) [OF xy(2)] block_idx(2) [OF xy(1)]] by simp
  have c: "tab ct (y mod CH) (x mod CW) < BPX" using ct_bound by (simp add: BPX_def)
  have "tab bt (y div CH) (x div CW) * BPX \<le> 31 * BPX" using b by (rule mult_le_mono1)
  then show ?thesis unfolding inpage_def PPX_def using c by linarith
qed

lemma inpage_parts:
  assumes "y < BH * CH" "x < BW * CW"
  shows "inpage x y div BPX = tab bt (y div CH) (x div CW)" "inpage x y mod BPX = tab ct (y mod CH) (x mod CW)"
proof -
  have c: "tab ct (y mod CH) (x mod CW) < BPX" using ct_bound by (simp add: BPX_def)
  then show "inpage x y div BPX = tab bt (y div CH) (x div CW)" "inpage x y mod BPX = tab ct (y mod CH) (x mod CW)"
    by (simp_all add: inpage_def)
qed

lemma inpage_inj:
  assumes xy: "x < BW * CW" "y < BH * CH" "x' < BW * CW" "y' < BH * CH" and eq: "inpage x y = inpage x' y'"
  shows "x = x' \<and> y = y'"
proof -
  have "tab bt (y div CH) (x div CW) = tab bt (y' div CH) (x' div CW)"
    using eq inpage_parts(1) [OF xy(2,1)] inpage_parts(1) [OF xy(4,3)] by simp
  then have b: "y div CH = y' div CH \<and> x div CW = x' div CW"
    using bt_inj block_idx xy by blast
  have "tab ct (y mod CH) (x mod CW) = tab ct (y' mod CH) (x' mod CW)"
    using eq inpage_parts(2) [OF xy(2,1)] inpage_parts(2) [OF xy(4,3)] by simp
  then have "y mod CH = y' mod CH \<and> x mod CW = x' mod CW"
    using ct_inj [of "y mod CH" "y' mod CH" "x mod CW" "x' mod CW"] by simp
  with b show ?thesis by (metis div_mult_mod_eq)
qed

text \<open>The offset tables and their sum.\<close>

lemma pxOffset_eq:
  "pxOffset bt ct x y = int (x div (BW * CW) * PPX + (tab bt (y div CH) (x mod (BW * CW) div CW) * BPX + tab ct (y mod CH) (x mod CW)))"
proof -
  have "CH * CW * BH * BW = PPX" using bt_dims(3) by (simp add: PPX_def BPX_def ac_simps)
  then have "int CH * int CW * int BH * int BW = int PPX" by (metis of_nat_mult)
  moreover have "x mod (BW * CW) mod CW = x mod CW" by (simp add: mod_mod_cancel)
  ultimately show ?thesis by (simp add: pxOffset_def bt_dims ct_dims(1,2) BPX_def Let_def)
qed

lemma col_plus_row:
  assumes y: "y < BH * CH"
  shows "pxOffset bt ct 0 y + (pxOffset bt ct x (rep y) - pxOffset bt ct 0 (rep y)) = pxOffset bt ct x y"
proof -
  have r: "rep y div CH = 0" "rep y mod CH = rep y" using rep(1) [of y] by simp_all
  have "0 < BW" using bt_dims(3) by (cases BW) simp_all
  then have xb: "x mod (BW * CW) div CW < BW" by (simp add: less_mult_imp_div_less)
  have b: "tab bt (y div CH) (x mod (BW * CW) div CW) + tab bt 0 0 = tab bt (y div CH) 0 + tab bt 0 (x mod (BW * CW) div CW)"
    by (rule bt_sum [OF block_idx(1) [OF y] xb])
  have c: "tab ct (y mod CH) (x mod CW) + tab ct (rep y) 0 = tab ct (y mod CH) 0 + tab ct (rep y) (x mod CW)"
    using ct_sum [of "y mod CH" "x mod CW"] by (simp add: rep)
  have "int (tab bt (y div CH) (x mod (BW * CW) div CW)) * int BPX + int (tab bt 0 0) * int BPX =
      int (tab bt (y div CH) 0) * int BPX + int (tab bt 0 (x mod (BW * CW) div CW)) * int BPX"
    unfolding distrib_right [symmetric] of_nat_add [symmetric] b ..
  then show ?thesis unfolding pxOffset_eq r using arg_cong [OF c, of int] by simp
qed

section \<open>Addresses\<close>

text \<open>The page of a pixel in the buffer, and its address before it wraps at the end of the memory.\<close>

definition page_of :: "int \<Rightarrow> int \<Rightarrow> int \<Rightarrow> int" where
  "page_of bwPg x y = (y div 2 ^ sy) * bwPg + x div 2 ^ sx"

definition in_page :: "int \<Rightarrow> int \<Rightarrow> nat" where
  "in_page x y = inpage (nat (x mod 2 ^ sx)) (nat (y mod 2 ^ sy))"

definition flat :: "GSOffset \<Rightarrow> int \<Rightarrow> int \<Rightarrow> int" where
  "flat off x y = m_bp off * int BPX + page_of (m_bwPg off) x y * int PPX + int (in_page x y)"

definition mem_pixels :: int where "mem_pixels = MAX_PAGES * int PPX"

lemma mem_pixels_pos: "0 < mem_pixels"
  by (simp add: mem_pixels_def PPX_alt)

lemma in_page_bound: "in_page x y < PPX"
  unfolding in_page_def by (rule inpage_bound) (simp_all add: page nat_less_iff)

lemma zeroX_eq:
  assumes "off_swz off = z"
  shows "pixelAddressZeroX off y =
    (m_bp off * int BPX + (y div 2 ^ sy) * m_bwPg off * int PPX) mod mem_pixels + pxOffset bt ct 0 (nat (y mod 2 ^ sy))"
proof -
  have len: "nat (y mod 2 ^ sy) < BH * CH" by (simp add: page nat_less_iff)
  have m: "push_bit (sx + sy) MAX_PAGES = 2 ^ (9 + sx + sy)" by (simp add: push_bit_eq_mult power_add)
  have M: "mem_pixels = 2 ^ (9 + sx + sy)" by (simp add: mem_pixels_def PPX_alt power_add)
  have b: "push_bit (sx + sy - 5) (m_bp off) = m_bp off * int BPX" by (simp add: push_bit_eq_mult BPX_alt)
  have p: "push_bit sx ((y AND NOT (2 ^ sy - 1)) * m_bwPg off) = (y div 2 ^ sy) * m_bwPg off * int PPX"
    by (simp only: and_not_mask push_bit_eq_mult PPX_alt of_nat_mult of_nat_power of_nat_numeral power_add ac_simps)
  show ?thesis
    unfolding pixelAddressZeroX_def Let_def assms info snd_conv m b p and_mask_mod makeColOffsetTable_def M
    using len by (simp add: bt_dims ct_dims)
qed

lemma rep_line: "0 \<le> y \<Longrightarrow> rep (nat y) = rep (nat (y mod 2 ^ sy))"
proof -
  assume y: "0 \<le> y"
  have "nat (y mod 2 ^ sy) = nat y mod (BH * CH)" using y by (simp add: page nat_mod_distrib nat_power_eq)
  then have "nat (y mod 2 ^ sy) mod CH = nat y mod CH" by (simp add: mod_mod_cancel)
  then show ?thesis using rep(2) by metis
qed

text \<open>The address of a pixel, as the sum of the two table entries and as page, block and column.\<close>

definition address :: "GSOffset \<Rightarrow> int \<Rightarrow> int \<Rightarrow> int" where
  "address off x y =
     (m_bp off * int BPX + (y div 2 ^ sy) * m_bwPg off * int PPX) mod mem_pixels + (x div 2 ^ sx) * int PPX + int (in_page x y)"

lemma pa_eq:
  assumes off: "off_swz off = z" and x: "0 \<le> x" "x < 2048" and y: "0 \<le> y"
  shows "pa off x y = Some (word_of_int (address off x y))"
proof -
  let ?y = "nat (y mod 2 ^ sy)"
  have "?y < BH * CH" by (simp add: page nat_less_iff)
  note c = col_plus_row [OF this, of "nat x"]
  have row: "row_entry (m_pixelSwizzleRow z ! nat (y AND m_pixelRowMask z)) x =
      Some (pxOffset bt ct (nat x) (rep ?y) - pxOffset bt ct 0 (rep ?y))"
    using x y by (simp add: row_entry_def rows makeRowOffsetTable_def rep_line [OF y] nat_less_iff)
  have xd: "int (nat x div (BW * CW)) = x div 2 ^ sx" "nat x mod (BW * CW) = nat (x mod 2 ^ sx)"
    using x by (simp_all add: page zdiv_int nat_mod_distrib nat_power_eq)
  have "pxOffset bt ct (nat x) ?y = (x div 2 ^ sx) * int PPX + int (in_page x y)"
    unfolding pxOffset_eq in_page_def inpage_def of_nat_add of_nat_mult xd
    by (simp flip: xd(2) add: mod_mod_cancel)
  then have "pixelAddressZeroX off y + (pxOffset bt ct (nat x) (rep ?y) - pxOffset bt ct 0 (rep ?y)) = address off x y"
    using c by (simp add: zeroX_eq [OF off] address_def)
  then show ?thesis by (simp only: pa_def pa_value_def paMulti_def off PAHelper.simps add_0 row option.map)
qed

lemma address_mod: "address off x y mod mem_pixels = flat off x y mod mem_pixels"
proof -
  have "(u mod m + c + d) mod m = (u + c + d) mod m" for u c d m :: int by (simp add: mod_simps add.assoc)
  then show ?thesis unfolding address_def flat_def page_of_def by (simp add: algebra_simps)
qed

lemma address_bound:
  assumes "0 \<le> x" "x < 2048"
  shows "0 \<le> address off x y" "address off x y < mem_pixels + 33 * int PPX"
proof -
  let ?b = "(m_bp off * int BPX + (y div 2 ^ sy) * m_bwPg off * int PPX) mod mem_pixels"
  have b: "0 \<le> ?b" "?b < mem_pixels" using mem_pixels_pos by simp_all
  have "x div 2 ^ sx \<le> x div 2 ^ 6"
    using assms power_increasing [OF page(3), of "2 :: int"] by (intro zdiv_mono2) simp_all
  then have "0 \<le> x div 2 ^ sx" "x div 2 ^ sx \<le> 31" using assms by (simp_all add: pos_imp_zdiv_nonneg_iff)
  then have "0 \<le> (x div 2 ^ sx) * int PPX" "(x div 2 ^ sx) * int PPX \<le> 31 * int PPX"
    by (simp_all add: mult_right_mono)
  moreover have "int (in_page x y) < int PPX" using in_page_bound by simp
  ultimately show "0 \<le> address off x y" "address off x y < mem_pixels + 33 * int PPX"
    unfolding address_def using b by linarith+
qed

text \<open>The number of the block is the address without the pixels of the block.\<close>

lemma lookup_eq: "0 \<le> x \<Longrightarrow> 0 \<le> y \<Longrightarrow> lookup (makeSwizzleTable bt) x y = int (tab bt (nat y mod BH) (nat x mod BW))"
proof -
  assume "0 \<le> x" "0 \<le> y"
  then have n: "nat (x AND 7) = nat x mod 8" "nat (y AND 7) = nat y mod 8"
    using and_mask_mod [of x 3] and_mask_mod [of y 3] by (simp_all add: nat_mod_distrib)
  have "nat y mod 8 mod BH = nat y mod BH" "nat x mod 8 mod BW = nat x mod BW"
    using bt_dims by (simp_all add: mod_mod_cancel)
  then show ?thesis by (simp add: lookup_def n makeSwizzleTable_def bt_dims)
qed

lemma block_of_pixel:
  "0 \<le> y \<Longrightarrow> nat (y div 2 ^ cy) mod BH = nat (y mod 2 ^ sy) div CH"
  "0 \<le> x \<Longrightarrow> nat (x div 2 ^ cx) mod BW = nat (x mod 2 ^ sx) div CW"
proof -
  have *: "(n div c) mod b = (n mod (b * c)) div c" if "0 < c" for n b c :: nat
    using that by (simp add: mod_mult2_eq mult.commute [of b c])
  show "0 \<le> y \<Longrightarrow> nat (y div 2 ^ cy) mod BH = nat (y mod 2 ^ sy) div CH"
    using * [of CH "nat y" BH] page(2) by (simp add: ct_dims nat_div_distrib nat_mod_distrib nat_power_eq)
  show "0 \<le> x \<Longrightarrow> nat (x div 2 ^ cx) mod BW = nat (x mod 2 ^ sx) div CW"
    using * [of CW "nat x" BW] page(1) by (simp add: ct_dims nat_div_distrib nat_mod_distrib nat_power_eq)
qed

lemma bn_eq:
  assumes off: "off_swz off = z" and x: "0 \<le> x" and y: "0 \<le> y"
  shows "bn off x y = (m_bp off + 32 * page_of (m_bwPg off) x y + int (in_page x y div BPX)) mod MAX_BLOCKS"
proof -
  have p: "drop_bit (sy - 5) y AND NOT 0x1f = 32 * (y div 2 ^ sy)" "drop_bit (sx - 5) x AND NOT 0x1f = 32 * (x div 2 ^ sx)"
  proof -
    have e: "sy = (sy - 5) + 5" "sx = (sx - 5) + 5" using page by simp_all
    have "y div 2 ^ (sy - 5) div 2 ^ 5 = y div 2 ^ sy" "x div 2 ^ (sx - 5) div 2 ^ 5 = x div 2 ^ sx"
      by (subst (2) e, simp add: power_add zdiv_zmult2_eq)+
    then show "drop_bit (sy - 5) y AND NOT 0x1f = 32 * (y div 2 ^ sy)" "drop_bit (sx - 5) x AND NOT 0x1f = 32 * (x div 2 ^ sx)"
      using and_not_mask [of _ 5] by (simp_all add: drop_bit_eq_div)
  qed
  have b: "lookup (makeSwizzleTable bt) (x div 2 ^ cx) (y div 2 ^ cy) = int (in_page x y div BPX)"
    using x y
    by (simp add: lookup_eq pos_imp_zdiv_nonneg_iff block_of_pixel in_page_def inpage_parts page nat_less_iff)
  show ?thesis
    unfolding bn_def bn_value_def valueNoWrap_def mkBNHelper_def Let_def off info p
    by (simp add: b drop_bit_eq_div page_of_def algebra_simps)
qed

lemma block_address:
  assumes off: "off_swz off = z" and x: "0 \<le> x" and y: "0 \<le> y"
  shows "address off x y mod mem_pixels = bn off x y * int BPX + int (in_page x y mod BPX)"
proof -
  let ?B = "m_bp off + 32 * page_of (m_bwPg off) x y + int (in_page x y div BPX)"
  have f: "flat off x y = ?B * int BPX + int (in_page x y mod BPX)"
  proof -
    have "int (in_page x y) = int (in_page x y div BPX) * int BPX + int (in_page x y mod BPX)"
      by (metis div_mult_mod_eq of_nat_add of_nat_mult)
    then show ?thesis by (simp add: flat_def PPX_def algebra_simps)
  qed
  have m: "mem_pixels = MAX_BLOCKS * int BPX" by (simp add: mem_pixels_def PPX_def)
  have r: "0 \<le> int (in_page x y mod BPX)" "int (in_page x y mod BPX) < int BPX" using BPX_pos by simp_all
  have "(?B * int BPX + int (in_page x y mod BPX)) mod (MAX_BLOCKS * int BPX) = ?B mod MAX_BLOCKS * int BPX + int (in_page x y mod BPX)"
  proof -
    have "(?B * int BPX + int (in_page x y mod BPX)) div int BPX = ?B" "(?B * int BPX + int (in_page x y mod BPX)) mod int BPX = int (in_page x y mod BPX)"
      using r BPX_pos by (simp_all add: div_add1_eq)
    then show ?thesis by (simp add: mult.commute [of MAX_BLOCKS] zmod_zmult2_eq mult.commute)
  qed
  then show ?thesis using address_mod [of off x y] by (simp only: f m bn_eq [OF off x y])
qed

text \<open>Two pixels of a buffer that does not wrap around the memory have different addresses.\<close>

definition fits :: "int \<Rightarrow> int \<Rightarrow> int \<Rightarrow> bool" where
  "fits bwPg x y \<longleftrightarrow> 0 \<le> x \<and> x < bwPg * 2 ^ sx \<and> 0 \<le> y \<and> page_of bwPg x y < MAX_PAGES"

lemma address_inj:
  assumes f: "fits (m_bwPg off) x y" "fits (m_bwPg off) x' y'"
    and eq: "address off x y mod mem_pixels = address off x' y' mod mem_pixels"
  shows "x = x' \<and> y = y'"
proof -
  let ?o = "\<lambda>x y. page_of (m_bwPg off) x y * int PPX + int (in_page x y)"
  have xq: "x div 2 ^ sx < m_bwPg off \<and> 0 \<le> x div 2 ^ sx" if "fits (m_bwPg off) x y" for x y
    using that by (simp add: fits_def pos_imp_zdiv_nonneg_iff div_less)
  have pg: "0 \<le> page_of (m_bwPg off) x y" if "fits (m_bwPg off) x y" for x y
  proof -
    have "0 \<le> m_bwPg off" "0 \<le> x div 2 ^ sx" using xq [OF that] by linarith+
    moreover have "0 \<le> y div 2 ^ sy" using that by (simp add: fits_def pos_imp_zdiv_nonneg_iff)
    ultimately show ?thesis by (simp add: page_of_def)
  qed
  have lt: "0 \<le> ?o x y \<and> ?o x y < mem_pixels" if "fits (m_bwPg off) x y" for x y
  proof -
    have "page_of (m_bwPg off) x y * int PPX \<le> 511 * int PPX"
      using that by (intro mult_right_mono) (simp_all add: fits_def)
    moreover have "int (in_page x y) < int PPX" using in_page_bound by simp
    moreover have "0 \<le> page_of (m_bwPg off) x y * int PPX" using pg [OF that] by simp
    ultimately show ?thesis unfolding mem_pixels_def by linarith
  qed
  have "flat off x y mod mem_pixels = flat off x' y' mod mem_pixels" using eq by (simp add: address_mod)
  then have "(flat off x y - m_bp off * int BPX) mod mem_pixels = (flat off x' y' - m_bp off * int BPX) mod mem_pixels"
    by (rule mod_diff_cong) simp
  then have "?o x y mod mem_pixels = ?o x' y' mod mem_pixels" by (simp add: flat_def)
  then have e: "?o x y = ?o x' y'" using lt [OF f(1)] lt [OF f(2)] by simp
  have PP: "int (in_page x y) < int PPX" for x y using in_page_bound by simp
  have "page_of (m_bwPg off) x y = ?o x y div int PPX" "int (in_page x y) = ?o x y mod int PPX" for x y
    using PP [of x y] by simp_all
  then have pe: "page_of (m_bwPg off) x y = page_of (m_bwPg off) x' y'" and ie: "in_page x y = in_page x' y'"
    using e by (metis, metis of_nat_eq_iff)
  have "(y div 2 ^ sy * m_bwPg off + x div 2 ^ sx) div m_bwPg off = y div 2 ^ sy \<and>
      (y div 2 ^ sy * m_bwPg off + x div 2 ^ sx) mod m_bwPg off = x div 2 ^ sx" if "fits (m_bwPg off) x y" for x y
    using xq [OF that] by simp
  then have q: "y div 2 ^ sy = y' div 2 ^ sy" "x div 2 ^ sx = x' div 2 ^ sx"
    using f pe unfolding page_of_def by metis+
  have "nat (x mod 2 ^ sx) = nat (x' mod 2 ^ sx) \<and> nat (y mod 2 ^ sy) = nat (y' mod 2 ^ sy)"
    using ie unfolding in_page_def by (intro inpage_inj) (simp_all add: page nat_less_iff)
  then have "x mod 2 ^ sx = x' mod 2 ^ sx" "y mod 2 ^ sy = y' mod 2 ^ sy" by (simp_all add: eq_nat_nat_iff)
  with q show ?thesis by (metis div_mult_mod_eq)
qed

end

section \<open>The formats\<close>

lemma ilog2_vals: "ilog2 8 = 3" "ilog2 16 = 4" "ilog2 32 = 5" "ilog2 64 = 6" "ilog2 128 = 7"
  by (simp_all add: ilog2.simps)

text \<open>The row that stands for the rows of a block with the same offsets.\<close>

definition same_row :: "nat \<Rightarrow> nat" where "same_row y = 0"
definition row_kind :: "nat \<Rightarrow> nat" where "row_kind y = (if 2 \<le> y mod 8 \<and> y mod 8 \<le> 5 then 2 else 0)"

lemma row_list:
  "makeRowOffsetTableList2 a b ! nat (i AND 7) = (if row_kind (nat i) = 0 then a else b)" if "0 \<le> (i :: int)"
proof -
  have "nat (i AND 7) = nat i mod 8" using that and_mask_mod [of i 3] by (simp add: nat_mod_distrib)
  moreover have "n mod 8 = 0 \<or> n mod 8 = 1 \<or> n mod 8 = 2 \<or> n mod 8 = 3 \<or> n mod 8 = 4 \<or> n mod 8 = 5 \<or> n mod 8 = 6 \<or> n mod 8 = 7"
    for n :: nat by presburger
  then have "nat i mod 8 \<in> {0, 1, 2, 3, 4, 5, 6, 7}" by simp
  ultimately show ?thesis by (auto simp: makeRowOffsetTableList2_def row_kind_def)
qed

text \<open>
  Checks of a table as a list: its rows are those of the representative rows shifted by a constant,
  its entries are bounded, and a map sends each entry back to its place.
\<close>

definition rows_shifted :: "(nat \<Rightarrow> nat) \<Rightarrow> nat list list \<Rightarrow> bool" where
  "rows_shifted rep t = list_all2 (\<lambda>row r. map (\<lambda>v. v + hd r) row = map (\<lambda>v. v + hd row) r) t (map (\<lambda>y. t ! rep y) [0..<length t])"

definition shaped :: "nat list list \<Rightarrow> nat \<Rightarrow> nat \<Rightarrow> nat \<Rightarrow> bool" where
  "shaped t H W n \<longleftrightarrow> length t = H \<and> list_all (\<lambda>row. length row = W \<and> list_all (\<lambda>v. v < n) row) t"

lemma rows_shiftedD:
  assumes "rows_shifted rep t" "shaped t H W n" "y < H" "x < W" "rep y < H"
  shows "tab t y x + tab t (rep y) 0 = tab t y 0 + tab t (rep y) x"
proof -
  have l: "length t = H" "\<And>y. y < H \<Longrightarrow> length (t ! y) = W" using assms(2) by (simp_all add: shaped_def list_all_length)
  have "map (\<lambda>v. v + hd (t ! rep y)) (t ! y) = map (\<lambda>v. v + hd (t ! y)) (t ! rep y)"
    using assms(1,3) by (simp add: rows_shifted_def list_all2_conv_all_nth l)
  then have "map (\<lambda>v. v + hd (t ! rep y)) (t ! y) ! x = map (\<lambda>v. v + hd (t ! y)) (t ! rep y) ! x" by (rule arg_cong)
  moreover have "hd (t ! rep y) = t ! rep y ! 0" "hd (t ! y) = t ! y ! 0"
    using l(2) [OF assms(5)] l(2) [OF assms(3)] assms(4) by (simp_all add: hd_conv_nth flip: length_greater_0_conv)
  ultimately show ?thesis using l(2) [OF assms(5)] l(2) [OF assms(3)] assms(4) by simp
qed

lemma shapedD: "shaped t H W n \<Longrightarrow> y < H \<Longrightarrow> x < W \<Longrightarrow> tab t y x < n"
  by (auto simp: shaped_def list_all_length)

text \<open>The checks, table by table.\<close>

lemma blockTable32_rows_shaped: "shaped blockTable32_rows 4 8 32"
  by (simp add: shaped_def blockTable32_rows_def)
lemma blockTable32_rows_shifted: "rows_shifted same_row blockTable32_rows"
  by (simp add: rows_shifted_def blockTable32_rows_def same_row_def upt_rec)
lemma blockTable32_rows_places:
  "map (map (\<lambda>v. ((v) mod 2) + 2 * ((v div 4) mod 2) + 4 * ((v div 16) mod 2) + 8 * ((v div 2) mod 2) + 16 * ((v div 8) mod 2))) blockTable32_rows =
     map (\<lambda>y. map (\<lambda>x. y * 8 + x) [0..<8]) [0..<4]"
  by (simp add: blockTable32_rows_def upt_rec)

lemma blockTable32Z_rows_shaped: "shaped blockTable32Z_rows 4 8 32"
  by (simp add: shaped_def blockTable32Z_rows_def)
lemma blockTable32Z_rows_shifted: "rows_shifted same_row blockTable32Z_rows"
  by (simp add: rows_shifted_def blockTable32Z_rows_def same_row_def upt_rec)
lemma blockTable32Z_rows_places:
  "map (map (\<lambda>v. ((v) mod 2) + 2 * ((v div 4) mod 2) + 4 * ((v div 16 + 1) mod 2) + 8 * ((v div 2) mod 2) + 16 * ((v div 8 + 1) mod 2))) blockTable32Z_rows =
     map (\<lambda>y. map (\<lambda>x. y * 8 + x) [0..<8]) [0..<4]"
  by (simp add: blockTable32Z_rows_def upt_rec)

lemma blockTable16_rows_shaped: "shaped blockTable16_rows 8 4 32"
  by (simp add: shaped_def blockTable16_rows_def)
lemma blockTable16_rows_shifted: "rows_shifted same_row blockTable16_rows"
  by (simp add: rows_shifted_def blockTable16_rows_def same_row_def upt_rec)
lemma blockTable16_rows_places:
  "map (map (\<lambda>v. ((v div 2) mod 2) + 2 * ((v div 8) mod 2) + 4 * ((v) mod 2) + 8 * ((v div 4) mod 2) + 16 * ((v div 16) mod 2))) blockTable16_rows =
     map (\<lambda>y. map (\<lambda>x. y * 4 + x) [0..<4]) [0..<8]"
  by (simp add: blockTable16_rows_def upt_rec)

lemma blockTable16S_rows_shaped: "shaped blockTable16S_rows 8 4 32"
  by (simp add: shaped_def blockTable16S_rows_def)
lemma blockTable16S_rows_shifted: "rows_shifted same_row blockTable16S_rows"
  by (simp add: rows_shifted_def blockTable16S_rows_def same_row_def upt_rec)
lemma blockTable16S_rows_places:
  "map (map (\<lambda>v. ((v div 2) mod 2) + 2 * ((v div 16) mod 2) + 4 * ((v) mod 2) + 8 * ((v div 8) mod 2) + 16 * ((v div 4) mod 2))) blockTable16S_rows =
     map (\<lambda>y. map (\<lambda>x. y * 4 + x) [0..<4]) [0..<8]"
  by (simp add: blockTable16S_rows_def upt_rec)

lemma blockTable16Z_rows_shaped: "shaped blockTable16Z_rows 8 4 32"
  by (simp add: shaped_def blockTable16Z_rows_def)
lemma blockTable16Z_rows_shifted: "rows_shifted same_row blockTable16Z_rows"
  by (simp add: rows_shifted_def blockTable16Z_rows_def same_row_def upt_rec)
lemma blockTable16Z_rows_places:
  "map (map (\<lambda>v. ((v div 2) mod 2) + 2 * ((v div 8 + 1) mod 2) + 4 * ((v) mod 2) + 8 * ((v div 4) mod 2) + 16 * ((v div 16 + 1) mod 2))) blockTable16Z_rows =
     map (\<lambda>y. map (\<lambda>x. y * 4 + x) [0..<4]) [0..<8]"
  by (simp add: blockTable16Z_rows_def upt_rec)

lemma blockTable16SZ_rows_shaped: "shaped blockTable16SZ_rows 8 4 32"
  by (simp add: shaped_def blockTable16SZ_rows_def)
lemma blockTable16SZ_rows_shifted: "rows_shifted same_row blockTable16SZ_rows"
  by (simp add: rows_shifted_def blockTable16SZ_rows_def same_row_def upt_rec)
lemma blockTable16SZ_rows_places:
  "map (map (\<lambda>v. ((v div 2) mod 2) + 2 * ((v div 16 + 1) mod 2) + 4 * ((v) mod 2) + 8 * ((v div 8 + 1) mod 2) + 16 * ((v div 4) mod 2))) blockTable16SZ_rows =
     map (\<lambda>y. map (\<lambda>x. y * 4 + x) [0..<4]) [0..<8]"
  by (simp add: blockTable16SZ_rows_def upt_rec)

lemma blockTable8_rows_shaped: "shaped blockTable8_rows 4 8 32"
  by (simp add: shaped_def blockTable8_rows_def)
lemma blockTable8_rows_shifted: "rows_shifted same_row blockTable8_rows"
  by (simp add: rows_shifted_def blockTable8_rows_def same_row_def upt_rec)
lemma blockTable8_rows_places:
  "map (map (\<lambda>v. ((v) mod 2) + 2 * ((v div 4) mod 2) + 4 * ((v div 16) mod 2) + 8 * ((v div 2) mod 2) + 16 * ((v div 8) mod 2))) blockTable8_rows =
     map (\<lambda>y. map (\<lambda>x. y * 8 + x) [0..<8]) [0..<4]"
  by (simp add: blockTable8_rows_def upt_rec)

lemma blockTable4_rows_shaped: "shaped blockTable4_rows 8 4 32"
  by (simp add: shaped_def blockTable4_rows_def)
lemma blockTable4_rows_shifted: "rows_shifted same_row blockTable4_rows"
  by (simp add: rows_shifted_def blockTable4_rows_def same_row_def upt_rec)
lemma blockTable4_rows_places:
  "map (map (\<lambda>v. ((v div 2) mod 2) + 2 * ((v div 8) mod 2) + 4 * ((v) mod 2) + 8 * ((v div 4) mod 2) + 16 * ((v div 16) mod 2))) blockTable4_rows =
     map (\<lambda>y. map (\<lambda>x. y * 4 + x) [0..<4]) [0..<8]"
  by (simp add: blockTable4_rows_def upt_rec)

lemma columnTable32_shaped: "shaped columnTable32 8 8 64"
  by (simp add: shaped_def columnTable32_def)
lemma columnTable32_shifted: "rows_shifted same_row columnTable32"
  by (simp add: rows_shifted_def columnTable32_def same_row_def upt_rec)
lemma columnTable32_places:
  "map (map (\<lambda>v. ((v) mod 2) + 2 * ((v div 4) mod 2) + 4 * ((v div 8) mod 2) + 8 * ((v div 2) mod 2) + 16 * ((v div 16) mod 2) + 32 * ((v div 32) mod 2))) columnTable32 =
     map (\<lambda>y. map (\<lambda>x. y * 8 + x) [0..<8]) [0..<8]"
  by (simp add: columnTable32_def upt_rec)

lemma columnTable16_shaped: "shaped columnTable16 8 16 128"
  by (simp add: shaped_def columnTable16_def)
lemma columnTable16_shifted: "rows_shifted same_row columnTable16"
  by (simp add: rows_shifted_def columnTable16_def same_row_def upt_rec)
lemma columnTable16_places:
  "map (map (\<lambda>v. ((v div 2) mod 2) + 2 * ((v div 8) mod 2) + 4 * ((v div 16) mod 2) + 8 * ((v) mod 2) + 16 * ((v div 4) mod 2) + 32 * ((v div 32) mod 2) + 64 * ((v div 64) mod 2))) columnTable16 =
     map (\<lambda>y. map (\<lambda>x. y * 16 + x) [0..<16]) [0..<8]"
  by (simp add: columnTable16_def upt_rec)

lemma columnTable8_shaped: "shaped columnTable8 16 16 256"
  by (simp add: shaped_def columnTable8_def)
lemma columnTable8_shifted: "rows_shifted row_kind columnTable8"
  by (simp add: rows_shifted_def columnTable8_def row_kind_def upt_rec)
lemma columnTable8_places:
  "map (map (\<lambda>v. ((v div 4) mod 2) + 2 * ((v div 16) mod 2) + 4 * ((v + v div 32 + v div 64) mod 2) + 8 * ((v div 2) mod 2) + 16 * ((v div 8) mod 2) + 32 * ((v) mod 2) + 64 * ((v div 64) mod 2) + 128 * ((v div 128) mod 2))) columnTable8 =
     map (\<lambda>y. map (\<lambda>x. y * 16 + x) [0..<16]) [0..<16]"
  by (simp add: columnTable8_def upt_rec)

lemma columnTable4_shaped: "shaped columnTable4 16 32 512"
  by (simp add: shaped_def columnTable4_def)
lemma columnTable4_shifted: "rows_shifted row_kind columnTable4"
  by (simp add: rows_shifted_def columnTable4_def row_kind_def upt_rec)
lemma columnTable4_places:
  "map (map (\<lambda>v. ((v div 8) mod 2) + 2 * ((v div 32) mod 2) + 4 * ((v + v div 64 + v div 128) mod 2) + 8 * ((v div 2) mod 2) + 16 * ((v div 4) mod 2) + 32 * ((v div 16) mod 2) + 64 * ((v) mod 2) + 128 * ((v div 128) mod 2) + 256 * ((v div 256) mod 2))) columnTable4 =
     map (\<lambda>y. map (\<lambda>x. y * 32 + x) [0..<32]) [0..<16]"
  by (simp add: columnTable4_def upt_rec)

text \<open>The eight instances.\<close>

interpretation sw32: swizzle swizzle32 blockTable32_rows columnTable32 same_row 4 8 8 8 6 5 3 3
proof
  show "tab blockTable32_rows y x + tab blockTable32_rows 0 0 = tab blockTable32_rows y 0 + tab blockTable32_rows 0 x" if "y < 4" "x < 8" for y x
    using rows_shiftedD [OF blockTable32_rows_shifted blockTable32_rows_shaped that] by (simp add: same_row_def)
  show "tab columnTable32 y x + tab columnTable32 (same_row y) 0 = tab columnTable32 y 0 + tab columnTable32 (same_row y) x" if "y < 8" "x < 8" for y x
    using rows_shiftedD [OF columnTable32_shifted columnTable32_shaped that] by (simp add: same_row_def)
  show "m_pixelSwizzleRow swizzle32 ! nat (i AND m_pixelRowMask swizzle32) = makeRowOffsetTable blockTable32_rows columnTable32 (same_row (nat i))"
    if "0 \<le> i" for i :: int
    by (simp add: swizzle32_def mkSwizzleInfo_def pixelRowOffset32_def makeRowOffsetTableList_def same_row_def)
qed (rule shapedD [OF blockTable32_rows_shaped] shapedD [THEN less_le_trans, OF columnTable32_shaped] tab_inj [OF blockTable32_rows_places] tab_inj [OF columnTable32_places] |
     simp add: same_row_def blockTable32_rows_def columnTable32_def pixelColOffset32_def blockTable32_def swizzle32_def mkSwizzleInfo_def ilog2_vals mod_mod_cancel; fail)+

interpretation sw32Z: swizzle swizzle32Z blockTable32Z_rows columnTable32 same_row 4 8 8 8 6 5 3 3
proof
  show "tab blockTable32Z_rows y x + tab blockTable32Z_rows 0 0 = tab blockTable32Z_rows y 0 + tab blockTable32Z_rows 0 x" if "y < 4" "x < 8" for y x
    using rows_shiftedD [OF blockTable32Z_rows_shifted blockTable32Z_rows_shaped that] by (simp add: same_row_def)
  show "tab columnTable32 y x + tab columnTable32 (same_row y) 0 = tab columnTable32 y 0 + tab columnTable32 (same_row y) x" if "y < 8" "x < 8" for y x
    using rows_shiftedD [OF columnTable32_shifted columnTable32_shaped that] by (simp add: same_row_def)
  show "m_pixelSwizzleRow swizzle32Z ! nat (i AND m_pixelRowMask swizzle32Z) = makeRowOffsetTable blockTable32Z_rows columnTable32 (same_row (nat i))"
    if "0 \<le> i" for i :: int
    by (simp add: swizzle32Z_def mkSwizzleInfo_def pixelRowOffset32Z_def makeRowOffsetTableList_def same_row_def)
qed (rule shapedD [OF blockTable32Z_rows_shaped] shapedD [THEN less_le_trans, OF columnTable32_shaped] tab_inj [OF blockTable32Z_rows_places] tab_inj [OF columnTable32_places] |
     simp add: same_row_def blockTable32Z_rows_def columnTable32_def pixelColOffset32Z_def blockTable32Z_def swizzle32Z_def mkSwizzleInfo_def ilog2_vals mod_mod_cancel; fail)+

interpretation sw16: swizzle swizzle16 blockTable16_rows columnTable16 same_row 8 4 8 16 6 6 4 3
proof
  show "tab blockTable16_rows y x + tab blockTable16_rows 0 0 = tab blockTable16_rows y 0 + tab blockTable16_rows 0 x" if "y < 8" "x < 4" for y x
    using rows_shiftedD [OF blockTable16_rows_shifted blockTable16_rows_shaped that] by (simp add: same_row_def)
  show "tab columnTable16 y x + tab columnTable16 (same_row y) 0 = tab columnTable16 y 0 + tab columnTable16 (same_row y) x" if "y < 8" "x < 16" for y x
    using rows_shiftedD [OF columnTable16_shifted columnTable16_shaped that] by (simp add: same_row_def)
  show "m_pixelSwizzleRow swizzle16 ! nat (i AND m_pixelRowMask swizzle16) = makeRowOffsetTable blockTable16_rows columnTable16 (same_row (nat i))"
    if "0 \<le> i" for i :: int
    by (simp add: swizzle16_def mkSwizzleInfo_def pixelRowOffset16_def makeRowOffsetTableList_def same_row_def)
qed (rule shapedD [OF blockTable16_rows_shaped] shapedD [THEN less_le_trans, OF columnTable16_shaped] tab_inj [OF blockTable16_rows_places] tab_inj [OF columnTable16_places] |
     simp add: same_row_def blockTable16_rows_def columnTable16_def pixelColOffset16_def blockTable16_def swizzle16_def mkSwizzleInfo_def ilog2_vals mod_mod_cancel; fail)+

interpretation sw16S: swizzle swizzle16S blockTable16S_rows columnTable16 same_row 8 4 8 16 6 6 4 3
proof
  show "tab blockTable16S_rows y x + tab blockTable16S_rows 0 0 = tab blockTable16S_rows y 0 + tab blockTable16S_rows 0 x" if "y < 8" "x < 4" for y x
    using rows_shiftedD [OF blockTable16S_rows_shifted blockTable16S_rows_shaped that] by (simp add: same_row_def)
  show "tab columnTable16 y x + tab columnTable16 (same_row y) 0 = tab columnTable16 y 0 + tab columnTable16 (same_row y) x" if "y < 8" "x < 16" for y x
    using rows_shiftedD [OF columnTable16_shifted columnTable16_shaped that] by (simp add: same_row_def)
  show "m_pixelSwizzleRow swizzle16S ! nat (i AND m_pixelRowMask swizzle16S) = makeRowOffsetTable blockTable16S_rows columnTable16 (same_row (nat i))"
    if "0 \<le> i" for i :: int
    by (simp add: swizzle16S_def mkSwizzleInfo_def pixelRowOffset16S_def makeRowOffsetTableList_def same_row_def)
qed (rule shapedD [OF blockTable16S_rows_shaped] shapedD [THEN less_le_trans, OF columnTable16_shaped] tab_inj [OF blockTable16S_rows_places] tab_inj [OF columnTable16_places] |
     simp add: same_row_def blockTable16S_rows_def columnTable16_def pixelColOffset16S_def blockTable16S_def swizzle16S_def mkSwizzleInfo_def ilog2_vals mod_mod_cancel; fail)+

interpretation sw16Z: swizzle swizzle16Z blockTable16Z_rows columnTable16 same_row 8 4 8 16 6 6 4 3
proof
  show "tab blockTable16Z_rows y x + tab blockTable16Z_rows 0 0 = tab blockTable16Z_rows y 0 + tab blockTable16Z_rows 0 x" if "y < 8" "x < 4" for y x
    using rows_shiftedD [OF blockTable16Z_rows_shifted blockTable16Z_rows_shaped that] by (simp add: same_row_def)
  show "tab columnTable16 y x + tab columnTable16 (same_row y) 0 = tab columnTable16 y 0 + tab columnTable16 (same_row y) x" if "y < 8" "x < 16" for y x
    using rows_shiftedD [OF columnTable16_shifted columnTable16_shaped that] by (simp add: same_row_def)
  show "m_pixelSwizzleRow swizzle16Z ! nat (i AND m_pixelRowMask swizzle16Z) = makeRowOffsetTable blockTable16Z_rows columnTable16 (same_row (nat i))"
    if "0 \<le> i" for i :: int
    by (simp add: swizzle16Z_def mkSwizzleInfo_def pixelRowOffset16Z_def makeRowOffsetTableList_def same_row_def)
qed (rule shapedD [OF blockTable16Z_rows_shaped] shapedD [THEN less_le_trans, OF columnTable16_shaped] tab_inj [OF blockTable16Z_rows_places] tab_inj [OF columnTable16_places] |
     simp add: same_row_def blockTable16Z_rows_def columnTable16_def pixelColOffset16Z_def blockTable16Z_def swizzle16Z_def mkSwizzleInfo_def ilog2_vals mod_mod_cancel; fail)+

interpretation sw16SZ: swizzle swizzle16SZ blockTable16SZ_rows columnTable16 same_row 8 4 8 16 6 6 4 3
proof
  show "tab blockTable16SZ_rows y x + tab blockTable16SZ_rows 0 0 = tab blockTable16SZ_rows y 0 + tab blockTable16SZ_rows 0 x" if "y < 8" "x < 4" for y x
    using rows_shiftedD [OF blockTable16SZ_rows_shifted blockTable16SZ_rows_shaped that] by (simp add: same_row_def)
  show "tab columnTable16 y x + tab columnTable16 (same_row y) 0 = tab columnTable16 y 0 + tab columnTable16 (same_row y) x" if "y < 8" "x < 16" for y x
    using rows_shiftedD [OF columnTable16_shifted columnTable16_shaped that] by (simp add: same_row_def)
  show "m_pixelSwizzleRow swizzle16SZ ! nat (i AND m_pixelRowMask swizzle16SZ) = makeRowOffsetTable blockTable16SZ_rows columnTable16 (same_row (nat i))"
    if "0 \<le> i" for i :: int
    by (simp add: swizzle16SZ_def mkSwizzleInfo_def pixelRowOffset16SZ_def makeRowOffsetTableList_def same_row_def)
qed (rule shapedD [OF blockTable16SZ_rows_shaped] shapedD [THEN less_le_trans, OF columnTable16_shaped] tab_inj [OF blockTable16SZ_rows_places] tab_inj [OF columnTable16_places] |
     simp add: same_row_def blockTable16SZ_rows_def columnTable16_def pixelColOffset16SZ_def blockTable16SZ_def swizzle16SZ_def mkSwizzleInfo_def ilog2_vals mod_mod_cancel; fail)+

interpretation sw8: swizzle swizzle8 blockTable8_rows columnTable8 row_kind 4 8 16 16 7 6 4 4
proof
  show "tab blockTable8_rows y x + tab blockTable8_rows 0 0 = tab blockTable8_rows y 0 + tab blockTable8_rows 0 x" if "y < 4" "x < 8" for y x
    using rows_shiftedD [OF blockTable8_rows_shifted blockTable8_rows_shaped that] by (simp add: same_row_def)
  show "tab columnTable8 y x + tab columnTable8 (row_kind y) 0 = tab columnTable8 y 0 + tab columnTable8 (row_kind y) x" if "y < 16" "x < 16" for y x
    using rows_shiftedD [OF columnTable8_shifted columnTable8_shaped that] by (simp add: row_kind_def)
  show "m_pixelSwizzleRow swizzle8 ! nat (i AND m_pixelRowMask swizzle8) = makeRowOffsetTable blockTable8_rows columnTable8 (row_kind (nat i))"
    if "0 \<le> i" for i :: int
    by (simp add: swizzle8_def mkSwizzleInfo_def pixelRowOffset8_def row_list [OF that]) (simp add: row_kind_def)
qed (rule shapedD [OF blockTable8_rows_shaped] shapedD [THEN less_le_trans, OF columnTable8_shaped] tab_inj [OF blockTable8_rows_places] tab_inj [OF columnTable8_places] |
     simp add: row_kind_def blockTable8_rows_def columnTable8_def pixelColOffset8_def blockTable8_def swizzle8_def mkSwizzleInfo_def ilog2_vals mod_mod_cancel; fail)+

interpretation sw4: swizzle swizzle4 blockTable4_rows columnTable4 row_kind 8 4 16 32 7 7 5 4
proof
  show "tab blockTable4_rows y x + tab blockTable4_rows 0 0 = tab blockTable4_rows y 0 + tab blockTable4_rows 0 x" if "y < 8" "x < 4" for y x
    using rows_shiftedD [OF blockTable4_rows_shifted blockTable4_rows_shaped that] by (simp add: same_row_def)
  show "tab columnTable4 y x + tab columnTable4 (row_kind y) 0 = tab columnTable4 y 0 + tab columnTable4 (row_kind y) x" if "y < 16" "x < 32" for y x
    using rows_shiftedD [OF columnTable4_shifted columnTable4_shaped that] by (simp add: row_kind_def)
  show "m_pixelSwizzleRow swizzle4 ! nat (i AND m_pixelRowMask swizzle4) = makeRowOffsetTable blockTable4_rows columnTable4 (row_kind (nat i))"
    if "0 \<le> i" for i :: int
    by (simp add: swizzle4_def mkSwizzleInfo_def pixelRowOffset4_def row_list [OF that]) (simp add: row_kind_def)
qed (rule shapedD [OF blockTable4_rows_shaped] shapedD [THEN less_le_trans, OF columnTable4_shaped] tab_inj [OF blockTable4_rows_places] tab_inj [OF columnTable4_places] |
     simp add: row_kind_def blockTable4_rows_def columnTable4_def pixelColOffset4_def blockTable4_def swizzle4_def mkSwizzleInfo_def ilog2_vals mod_mod_cancel; fail)+

end
