(* ===== verification/Gs_Mem.thy ===== *)
theory Gs_Mem
  imports Gs_Address
begin

text \<open>
  The local memory of the graphics synthesizer (\<open>GSLocalMemory\<close> of pcsx2/GS/GSLocalMemory.h and
  GSLocalMemory.cpp): reading and writing pixels and texels of every storage format, the table of
  the formats, and the transfers of an image pixel by pixel.

  The memory has 4 MB.  The source reserves 16 MB of addresses, either one piece or the same 4 MB
  four times (\<open>use_fifo_alloc\<close>); the addresses of pixels stay below that (\<open>address_bound\<close>).  \<open>vm8\<close>
  is the storage behind them.  The palette is what \<open>m_clut\<close> converts to, 32 bit colours.
\<close>

unbundle bit_operations_syntax

section \<open>Memory\<close>

record gs_mem =
  vm8 :: "u32 \<Rightarrow> u8"
  use_fifo_alloc :: bool
  clut_buff32 :: "u32 \<Rightarrow> u32"

definition vm_off :: "gs_mem \<Rightarrow> u32 \<Rightarrow> u32" where
  "vm_off m a = (if use_fifo_alloc m then a AND 0x3FFFFF else a)"

definition m_vm32 :: "u32 \<Rightarrow> gs_mem \<Rightarrow> u32" where "m_vm32 a m = load_le 4 (vm8 m) (vm_off m (4 * a))"
definition m_vm16 :: "u32 \<Rightarrow> gs_mem \<Rightarrow> u16" where "m_vm16 a m = load_le 2 (vm8 m) (vm_off m (2 * a))"
definition m_vm8 :: "u32 \<Rightarrow> gs_mem \<Rightarrow> u8" where "m_vm8 a m = vm8 m (vm_off m a)"
definition w_vm32 :: "u32 \<Rightarrow> u32 \<Rightarrow> gs_mem \<Rightarrow> gs_mem" where "w_vm32 a v m = m\<lparr>vm8 := store_le 4 (vm8 m) (vm_off m (4 * a)) v\<rparr>"
definition w_vm16 :: "u32 \<Rightarrow> u16 \<Rightarrow> gs_mem \<Rightarrow> gs_mem" where "w_vm16 a v m = m\<lparr>vm8 := store_le 2 (vm8 m) (vm_off m (2 * a)) v\<rparr>"
definition w_vm8 :: "u32 \<Rightarrow> u8 \<Rightarrow> gs_mem \<Rightarrow> gs_mem" where "w_vm8 a v m = m\<lparr>vm8 := (vm8 m)(vm_off m a := v)\<rparr>"

text \<open>The alpha of textures without one.\<close>

record GIFRegTEXA =
  TA0 :: u8
  AEM :: bool
  TA1 :: u8

definition Expand24To32 :: "GIFRegTEXA \<Rightarrow> u32 \<Rightarrow> u32" where
  "Expand24To32 t c = push_bit 24 (if \<not> AEM t \<or> c AND 0xffffff \<noteq> 0 then ucast (TA0 t) else 0) OR (c AND 0xffffff)"

definition Expand16To32 :: "GIFRegTEXA \<Rightarrow> u16 \<Rightarrow> u32" where
  "Expand16To32 t c16 =
     (let c = ucast c16 :: u32
      in push_bit 24 (if c AND 0x8000 \<noteq> 0 then ucast (TA1 t) else if \<not> AEM t \<or> c \<noteq> 0 then ucast (TA0 t) else 0) OR
         push_bit 9 (c AND 0x7c00) OR push_bit 6 (c AND 0x03e0) OR push_bit 3 (c AND 0x001f))"

section \<open>Blocks and pixels by coordinates\<close>

definition BlockNumber32 :: "int \<Rightarrow> int \<Rightarrow> int \<Rightarrow> int \<Rightarrow> int" where "BlockNumber32 x y bp bw = bn (mkGSOffset swizzle32 bp bw) x y"
definition BlockNumber16 :: "int \<Rightarrow> int \<Rightarrow> int \<Rightarrow> int \<Rightarrow> int" where "BlockNumber16 x y bp bw = bn (mkGSOffset swizzle16 bp bw) x y"
definition BlockNumber16S :: "int \<Rightarrow> int \<Rightarrow> int \<Rightarrow> int \<Rightarrow> int" where "BlockNumber16S x y bp bw = bn (mkGSOffset swizzle16S bp bw) x y"
definition BlockNumber8 :: "int \<Rightarrow> int \<Rightarrow> int \<Rightarrow> int \<Rightarrow> int" where "BlockNumber8 x y bp bw = bn (mkGSOffset swizzle8 bp bw) x y"
definition BlockNumber4 :: "int \<Rightarrow> int \<Rightarrow> int \<Rightarrow> int \<Rightarrow> int" where "BlockNumber4 x y bp bw = bn (mkGSOffset swizzle4 bp bw) x y"
definition BlockNumber32Z :: "int \<Rightarrow> int \<Rightarrow> int \<Rightarrow> int \<Rightarrow> int" where "BlockNumber32Z x y bp bw = bn (mkGSOffset swizzle32Z bp bw) x y"
definition BlockNumber16Z :: "int \<Rightarrow> int \<Rightarrow> int \<Rightarrow> int \<Rightarrow> int" where "BlockNumber16Z x y bp bw = bn (mkGSOffset swizzle16Z bp bw) x y"
definition BlockNumber16SZ :: "int \<Rightarrow> int \<Rightarrow> int \<Rightarrow> int \<Rightarrow> int" where "BlockNumber16SZ x y bp bw = bn (mkGSOffset swizzle16SZ bp bw) x y"

text \<open>The byte a block starts at.\<close>

definition BlockPtr :: "int \<Rightarrow> u32" where "BlockPtr bp = push_bit 8 (word_of_int (bp mod MAX_BLOCKS))"
definition BlockPtr32 :: "int \<Rightarrow> int \<Rightarrow> int \<Rightarrow> int \<Rightarrow> u32" where "BlockPtr32 x y bp bw = push_bit 8 (word_of_int (BlockNumber32 x y bp bw))"
definition BlockPtr16 :: "int \<Rightarrow> int \<Rightarrow> int \<Rightarrow> int \<Rightarrow> u32" where "BlockPtr16 x y bp bw = push_bit 8 (word_of_int (BlockNumber16 x y bp bw))"
definition BlockPtr16S :: "int \<Rightarrow> int \<Rightarrow> int \<Rightarrow> int \<Rightarrow> u32" where "BlockPtr16S x y bp bw = push_bit 8 (word_of_int (BlockNumber16S x y bp bw))"
definition BlockPtr8 :: "int \<Rightarrow> int \<Rightarrow> int \<Rightarrow> int \<Rightarrow> u32" where "BlockPtr8 x y bp bw = push_bit 8 (word_of_int (BlockNumber8 x y bp bw))"
definition BlockPtr4 :: "int \<Rightarrow> int \<Rightarrow> int \<Rightarrow> int \<Rightarrow> u32" where "BlockPtr4 x y bp bw = push_bit 8 (word_of_int (BlockNumber4 x y bp bw))"
definition BlockPtr32Z :: "int \<Rightarrow> int \<Rightarrow> int \<Rightarrow> int \<Rightarrow> u32" where "BlockPtr32Z x y bp bw = push_bit 8 (word_of_int (BlockNumber32Z x y bp bw))"
definition BlockPtr16Z :: "int \<Rightarrow> int \<Rightarrow> int \<Rightarrow> int \<Rightarrow> u32" where "BlockPtr16Z x y bp bw = push_bit 8 (word_of_int (BlockNumber16Z x y bp bw))"
definition BlockPtr16SZ :: "int \<Rightarrow> int \<Rightarrow> int \<Rightarrow> int \<Rightarrow> u32" where "BlockPtr16SZ x y bp bw = push_bit 8 (word_of_int (BlockNumber16SZ x y bp bw))"

definition PixelAddress32 :: "int \<Rightarrow> int \<Rightarrow> int \<Rightarrow> int \<Rightarrow> u32 option" where "PixelAddress32 x y bp bw = pa (mkGSOffset swizzle32 bp bw) x y"
definition PixelAddress16 :: "int \<Rightarrow> int \<Rightarrow> int \<Rightarrow> int \<Rightarrow> u32 option" where "PixelAddress16 x y bp bw = pa (mkGSOffset swizzle16 bp bw) x y"
definition PixelAddress16S :: "int \<Rightarrow> int \<Rightarrow> int \<Rightarrow> int \<Rightarrow> u32 option" where "PixelAddress16S x y bp bw = pa (mkGSOffset swizzle16S bp bw) x y"
definition PixelAddress8 :: "int \<Rightarrow> int \<Rightarrow> int \<Rightarrow> int \<Rightarrow> u32 option" where "PixelAddress8 x y bp bw = pa (mkGSOffset swizzle8 bp bw) x y"
definition PixelAddress4 :: "int \<Rightarrow> int \<Rightarrow> int \<Rightarrow> int \<Rightarrow> u32 option" where "PixelAddress4 x y bp bw = pa (mkGSOffset swizzle4 bp bw) x y"
definition PixelAddress32Z :: "int \<Rightarrow> int \<Rightarrow> int \<Rightarrow> int \<Rightarrow> u32 option" where "PixelAddress32Z x y bp bw = pa (mkGSOffset swizzle32Z bp bw) x y"
definition PixelAddress16Z :: "int \<Rightarrow> int \<Rightarrow> int \<Rightarrow> int \<Rightarrow> u32 option" where "PixelAddress16Z x y bp bw = pa (mkGSOffset swizzle16Z bp bw) x y"
definition PixelAddress16SZ :: "int \<Rightarrow> int \<Rightarrow> int \<Rightarrow> int \<Rightarrow> u32 option" where "PixelAddress16SZ x y bp bw = pa (mkGSOffset swizzle16SZ bp bw) x y"

section \<open>Pixels by address\<close>

definition ReadPixel32_at :: "u32 \<Rightarrow> gs_mem \<Rightarrow> u32" where "ReadPixel32_at a m = m_vm32 a m"
definition ReadPixel24_at :: "u32 \<Rightarrow> gs_mem \<Rightarrow> u32" where "ReadPixel24_at a m = m_vm32 a m AND 0x00ffffff"
definition ReadPixel16_at :: "u32 \<Rightarrow> gs_mem \<Rightarrow> u32" where "ReadPixel16_at a m = ucast (m_vm16 a m)"
definition ReadPixel8_at :: "u32 \<Rightarrow> gs_mem \<Rightarrow> u32" where "ReadPixel8_at a m = ucast (m_vm8 a m)"
definition ReadPixel4_at :: "u32 \<Rightarrow> gs_mem \<Rightarrow> u32" where
  "ReadPixel4_at a m = drop_bit (if bit a 0 then 4 else 0) (ucast (m_vm8 (drop_bit 1 a) m)) AND 0x0f"
definition ReadPixel8H_at :: "u32 \<Rightarrow> gs_mem \<Rightarrow> u32" where "ReadPixel8H_at a m = drop_bit 24 (m_vm32 a m)"
definition ReadPixel4HL_at :: "u32 \<Rightarrow> gs_mem \<Rightarrow> u32" where "ReadPixel4HL_at a m = drop_bit 24 (m_vm32 a m) AND 0x0f"
definition ReadPixel4HH_at :: "u32 \<Rightarrow> gs_mem \<Rightarrow> u32" where "ReadPixel4HH_at a m = drop_bit 28 (m_vm32 a m) AND 0x0f"
definition ReadFrame24_at :: "u32 \<Rightarrow> gs_mem \<Rightarrow> u32" where "ReadFrame24_at a m = 0x80000000 OR (m_vm32 a m AND 0xffffff)"
definition ReadFrame16_at :: "u32 \<Rightarrow> gs_mem \<Rightarrow> u32" where
  "ReadFrame16_at a m =
     (let c = ucast (m_vm16 a m) :: u32
      in push_bit 16 (c AND 0x8000) OR push_bit 9 (c AND 0x7c00) OR push_bit 6 (c AND 0x03e0) OR push_bit 3 (c AND 0x001f))"

definition WritePixel32_at :: "u32 \<Rightarrow> u32 \<Rightarrow> gs_mem \<Rightarrow> gs_mem" where "WritePixel32_at a c m = w_vm32 a c m"
definition WritePixel24_at :: "u32 \<Rightarrow> u32 \<Rightarrow> gs_mem \<Rightarrow> gs_mem" where
  "WritePixel24_at a c m = w_vm32 a ((m_vm32 a m AND 0xff000000) OR (c AND 0x00ffffff)) m"
definition WritePixel16_at :: "u32 \<Rightarrow> u32 \<Rightarrow> gs_mem \<Rightarrow> gs_mem" where "WritePixel16_at a c m = w_vm16 a (ucast c) m"
definition WritePixel8_at :: "u32 \<Rightarrow> u32 \<Rightarrow> gs_mem \<Rightarrow> gs_mem" where "WritePixel8_at a c m = w_vm8 a (ucast c) m"
definition WritePixel4_at :: "u32 \<Rightarrow> u32 \<Rightarrow> gs_mem \<Rightarrow> gs_mem" where
  "WritePixel4_at a c m =
     (let n = (if bit a 0 then 4 else 0); a1 = drop_bit 1 a
      in w_vm8 a1 (ucast ((ucast (m_vm8 a1 m) AND drop_bit n 0xf0) OR push_bit n (c AND 0x0f))) m)"
definition WritePixel8H_at :: "u32 \<Rightarrow> u32 \<Rightarrow> gs_mem \<Rightarrow> gs_mem" where
  "WritePixel8H_at a c m = w_vm32 a ((m_vm32 a m AND 0x00ffffff) OR push_bit 24 c) m"
definition WritePixel4HL_at :: "u32 \<Rightarrow> u32 \<Rightarrow> gs_mem \<Rightarrow> gs_mem" where
  "WritePixel4HL_at a c m = w_vm32 a ((m_vm32 a m AND 0xf0ffffff) OR push_bit 24 (c AND 0x0f)) m"
definition WritePixel4HH_at :: "u32 \<Rightarrow> u32 \<Rightarrow> gs_mem \<Rightarrow> gs_mem" where
  "WritePixel4HH_at a c m = w_vm32 a ((m_vm32 a m AND 0x0fffffff) OR push_bit 28 (c AND 0x0f)) m"
definition WriteFrame16_at :: "u32 \<Rightarrow> u32 \<Rightarrow> gs_mem \<Rightarrow> gs_mem" where
  "WriteFrame16_at a c m =
     (let rb = c AND 0x00f800f8; ga = c AND 0x8000f800
      in WritePixel16_at a (drop_bit 16 ga OR drop_bit 9 rb OR drop_bit 6 ga OR drop_bit 3 rb) m)"

definition ReadTexel32_at :: "GIFRegTEXA \<Rightarrow> u32 \<Rightarrow> gs_mem \<Rightarrow> u32" where "ReadTexel32_at t a m = m_vm32 a m"
definition ReadTexel24_at :: "GIFRegTEXA \<Rightarrow> u32 \<Rightarrow> gs_mem \<Rightarrow> u32" where "ReadTexel24_at t a m = Expand24To32 t (m_vm32 a m)"
definition ReadTexel16_at :: "GIFRegTEXA \<Rightarrow> u32 \<Rightarrow> gs_mem \<Rightarrow> u32" where "ReadTexel16_at t a m = Expand16To32 t (m_vm16 a m)"
definition ReadTexel8_at :: "GIFRegTEXA \<Rightarrow> u32 \<Rightarrow> gs_mem \<Rightarrow> u32" where "ReadTexel8_at t a m = clut_buff32 m (ReadPixel8_at a m)"
definition ReadTexel4_at :: "GIFRegTEXA \<Rightarrow> u32 \<Rightarrow> gs_mem \<Rightarrow> u32" where "ReadTexel4_at t a m = clut_buff32 m (ReadPixel4_at a m)"
definition ReadTexel8H_at :: "GIFRegTEXA \<Rightarrow> u32 \<Rightarrow> gs_mem \<Rightarrow> u32" where "ReadTexel8H_at t a m = clut_buff32 m (ReadPixel8H_at a m)"
definition ReadTexel4HL_at :: "GIFRegTEXA \<Rightarrow> u32 \<Rightarrow> gs_mem \<Rightarrow> u32" where "ReadTexel4HL_at t a m = clut_buff32 m (ReadPixel4HL_at a m)"
definition ReadTexel4HH_at :: "GIFRegTEXA \<Rightarrow> u32 \<Rightarrow> gs_mem \<Rightarrow> u32" where "ReadTexel4HH_at t a m = clut_buff32 m (ReadPixel4HH_at a m)"

section \<open>Pixels by coordinates\<close>

type_synonym gs_read = "int \<Rightarrow> int \<Rightarrow> int \<Rightarrow> int \<Rightarrow> gs_mem \<Rightarrow> u32 option"
type_synonym gs_write = "int \<Rightarrow> int \<Rightarrow> u32 \<Rightarrow> int \<Rightarrow> int \<Rightarrow> gs_mem \<Rightarrow> gs_mem option"

definition ReadPixel32 :: gs_read where "ReadPixel32 x y bp bw m = map_option (\<lambda>a. ReadPixel32_at a m) (PixelAddress32 x y bp bw)"
definition ReadPixel24 :: gs_read where "ReadPixel24 x y bp bw m = map_option (\<lambda>a. ReadPixel24_at a m) (PixelAddress32 x y bp bw)"
definition ReadPixel16 :: gs_read where "ReadPixel16 x y bp bw m = map_option (\<lambda>a. ReadPixel16_at a m) (PixelAddress16 x y bp bw)"
definition ReadPixel16S :: gs_read where "ReadPixel16S x y bp bw m = map_option (\<lambda>a. ReadPixel16_at a m) (PixelAddress16S x y bp bw)"
definition ReadPixel8 :: gs_read where "ReadPixel8 x y bp bw m = map_option (\<lambda>a. ReadPixel8_at a m) (PixelAddress8 x y bp bw)"
definition ReadPixel4 :: gs_read where "ReadPixel4 x y bp bw m = map_option (\<lambda>a. ReadPixel4_at a m) (PixelAddress4 x y bp bw)"
definition ReadPixel8H :: gs_read where "ReadPixel8H x y bp bw m = map_option (\<lambda>a. ReadPixel8H_at a m) (PixelAddress32 x y bp bw)"
definition ReadPixel4HL :: gs_read where "ReadPixel4HL x y bp bw m = map_option (\<lambda>a. ReadPixel4HL_at a m) (PixelAddress32 x y bp bw)"
definition ReadPixel4HH :: gs_read where "ReadPixel4HH x y bp bw m = map_option (\<lambda>a. ReadPixel4HH_at a m) (PixelAddress32 x y bp bw)"
definition ReadPixel32Z :: gs_read where "ReadPixel32Z x y bp bw m = map_option (\<lambda>a. ReadPixel32_at a m) (PixelAddress32Z x y bp bw)"
definition ReadPixel24Z :: gs_read where "ReadPixel24Z x y bp bw m = map_option (\<lambda>a. ReadPixel24_at a m) (PixelAddress32Z x y bp bw)"
definition ReadPixel16Z :: gs_read where "ReadPixel16Z x y bp bw m = map_option (\<lambda>a. ReadPixel16_at a m) (PixelAddress16Z x y bp bw)"
definition ReadPixel16SZ :: gs_read where "ReadPixel16SZ x y bp bw m = map_option (\<lambda>a. ReadPixel16_at a m) (PixelAddress16SZ x y bp bw)"
definition ReadFrame24 :: gs_read where "ReadFrame24 x y bp bw m = map_option (\<lambda>a. ReadFrame24_at a m) (PixelAddress32 x y bp bw)"
definition ReadFrame16 :: gs_read where "ReadFrame16 x y bp bw m = map_option (\<lambda>a. ReadFrame16_at a m) (PixelAddress16 x y bp bw)"
definition ReadFrame16S :: gs_read where "ReadFrame16S x y bp bw m = map_option (\<lambda>a. ReadFrame16_at a m) (PixelAddress16S x y bp bw)"
definition ReadFrame24Z :: gs_read where "ReadFrame24Z x y bp bw m = map_option (\<lambda>a. ReadFrame24_at a m) (PixelAddress32Z x y bp bw)"
definition ReadFrame16Z :: gs_read where "ReadFrame16Z x y bp bw m = map_option (\<lambda>a. ReadFrame16_at a m) (PixelAddress16Z x y bp bw)"
definition ReadFrame16SZ :: gs_read where "ReadFrame16SZ x y bp bw m = map_option (\<lambda>a. ReadFrame16_at a m) (PixelAddress16SZ x y bp bw)"

definition WritePixel32 :: gs_write where "WritePixel32 x y c bp bw m = map_option (\<lambda>a. WritePixel32_at a c m) (PixelAddress32 x y bp bw)"
definition WritePixel24 :: gs_write where "WritePixel24 x y c bp bw m = map_option (\<lambda>a. WritePixel24_at a c m) (PixelAddress32 x y bp bw)"
definition WritePixel16 :: gs_write where "WritePixel16 x y c bp bw m = map_option (\<lambda>a. WritePixel16_at a c m) (PixelAddress16 x y bp bw)"
definition WritePixel16S :: gs_write where "WritePixel16S x y c bp bw m = map_option (\<lambda>a. WritePixel16_at a c m) (PixelAddress16S x y bp bw)"
definition WritePixel8 :: gs_write where "WritePixel8 x y c bp bw m = map_option (\<lambda>a. WritePixel8_at a c m) (PixelAddress8 x y bp bw)"
definition WritePixel4 :: gs_write where "WritePixel4 x y c bp bw m = map_option (\<lambda>a. WritePixel4_at a c m) (PixelAddress4 x y bp bw)"
definition WritePixel8H :: gs_write where "WritePixel8H x y c bp bw m = map_option (\<lambda>a. WritePixel8H_at a c m) (PixelAddress32 x y bp bw)"
definition WritePixel4HL :: gs_write where "WritePixel4HL x y c bp bw m = map_option (\<lambda>a. WritePixel4HL_at a c m) (PixelAddress32 x y bp bw)"
definition WritePixel4HH :: gs_write where "WritePixel4HH x y c bp bw m = map_option (\<lambda>a. WritePixel4HH_at a c m) (PixelAddress32 x y bp bw)"
definition WritePixel32Z :: gs_write where "WritePixel32Z x y c bp bw m = map_option (\<lambda>a. WritePixel32_at a c m) (PixelAddress32Z x y bp bw)"
definition WritePixel24Z :: gs_write where "WritePixel24Z x y c bp bw m = map_option (\<lambda>a. WritePixel24_at a c m) (PixelAddress32Z x y bp bw)"
definition WritePixel16Z :: gs_write where "WritePixel16Z x y c bp bw m = map_option (\<lambda>a. WritePixel16_at a c m) (PixelAddress16Z x y bp bw)"
definition WritePixel16SZ :: gs_write where "WritePixel16SZ x y c bp bw m = map_option (\<lambda>a. WritePixel16_at a c m) (PixelAddress16SZ x y bp bw)"
definition WriteFrame16 :: gs_write where "WriteFrame16 x y c bp bw m = map_option (\<lambda>a. WriteFrame16_at a c m) (PixelAddress16 x y bp bw)"
definition WriteFrame16S :: gs_write where "WriteFrame16S x y c bp bw m = map_option (\<lambda>a. WriteFrame16_at a c m) (PixelAddress16S x y bp bw)"
definition WriteFrame16Z :: gs_write where "WriteFrame16Z x y c bp bw m = map_option (\<lambda>a. WriteFrame16_at a c m) (PixelAddress16Z x y bp bw)"
definition WriteFrame16SZ :: gs_write where "WriteFrame16SZ x y c bp bw m = map_option (\<lambda>a. WriteFrame16_at a c m) (PixelAddress16SZ x y bp bw)"

definition ReadTexel32 :: "GIFRegTEXA \<Rightarrow> gs_read" where "ReadTexel32 t x y bp bw m = map_option (\<lambda>a. ReadTexel32_at t a m) (PixelAddress32 x y bp bw)"
definition ReadTexel24 :: "GIFRegTEXA \<Rightarrow> gs_read" where "ReadTexel24 t x y bp bw m = map_option (\<lambda>a. ReadTexel24_at t a m) (PixelAddress32 x y bp bw)"
definition ReadTexel16 :: "GIFRegTEXA \<Rightarrow> gs_read" where "ReadTexel16 t x y bp bw m = map_option (\<lambda>a. ReadTexel16_at t a m) (PixelAddress16 x y bp bw)"
definition ReadTexel16S :: "GIFRegTEXA \<Rightarrow> gs_read" where "ReadTexel16S t x y bp bw m = map_option (\<lambda>a. ReadTexel16_at t a m) (PixelAddress16S x y bp bw)"
definition ReadTexel8 :: "GIFRegTEXA \<Rightarrow> gs_read" where "ReadTexel8 t x y bp bw m = map_option (\<lambda>a. ReadTexel8_at t a m) (PixelAddress8 x y bp bw)"
definition ReadTexel4 :: "GIFRegTEXA \<Rightarrow> gs_read" where "ReadTexel4 t x y bp bw m = map_option (\<lambda>a. ReadTexel4_at t a m) (PixelAddress4 x y bp bw)"
definition ReadTexel8H :: "GIFRegTEXA \<Rightarrow> gs_read" where "ReadTexel8H t x y bp bw m = map_option (\<lambda>a. ReadTexel8H_at t a m) (PixelAddress32 x y bp bw)"
definition ReadTexel4HL :: "GIFRegTEXA \<Rightarrow> gs_read" where "ReadTexel4HL t x y bp bw m = map_option (\<lambda>a. ReadTexel4HL_at t a m) (PixelAddress32 x y bp bw)"
definition ReadTexel4HH :: "GIFRegTEXA \<Rightarrow> gs_read" where "ReadTexel4HH t x y bp bw m = map_option (\<lambda>a. ReadTexel4HH_at t a m) (PixelAddress32 x y bp bw)"
definition ReadTexel32Z :: "GIFRegTEXA \<Rightarrow> gs_read" where "ReadTexel32Z t x y bp bw m = map_option (\<lambda>a. ReadTexel32_at t a m) (PixelAddress32Z x y bp bw)"
definition ReadTexel24Z :: "GIFRegTEXA \<Rightarrow> gs_read" where "ReadTexel24Z t x y bp bw m = map_option (\<lambda>a. ReadTexel24_at t a m) (PixelAddress32Z x y bp bw)"
definition ReadTexel16Z :: "GIFRegTEXA \<Rightarrow> gs_read" where "ReadTexel16Z t x y bp bw m = map_option (\<lambda>a. ReadTexel16_at t a m) (PixelAddress16Z x y bp bw)"
definition ReadTexel16SZ :: "GIFRegTEXA \<Rightarrow> gs_read" where "ReadTexel16SZ t x y bp bw m = map_option (\<lambda>a. ReadTexel16_at t a m) (PixelAddress16SZ x y bp bw)"

section \<open>The table of the formats\<close>

text \<open>The accesses by coordinates and by address (\<open>rp\<close>, \<open>rpa\<close>, and so on), and the sizes.\<close>

record psm_t =
  psm_info :: GSSwizzleInfo
  rp :: gs_read
  rpa :: "u32 \<Rightarrow> gs_mem \<Rightarrow> u32"
  wp :: gs_write
  wpa :: "u32 \<Rightarrow> u32 \<Rightarrow> gs_mem \<Rightarrow> gs_mem"
  rt :: "GIFRegTEXA \<Rightarrow> gs_read"
  rta :: "GIFRegTEXA \<Rightarrow> u32 \<Rightarrow> gs_mem \<Rightarrow> u32"
  wfa :: "u32 \<Rightarrow> u32 \<Rightarrow> gs_mem \<Rightarrow> gs_mem"
  psm_bpp :: nat
  trbpp :: nat
  psm_pal :: nat
  psm_fmt :: nat
  psm_bs :: "nat \<times> nat"
  psm_pgs :: "nat \<times> nat"
  psm_msk :: u8
  psm_depth :: bool
  fmsk :: u32

abbreviation (input) "PSM_PSMCT32 \<equiv> (0 :: nat)"
abbreviation (input) "PSM_PSMCT24 \<equiv> (1 :: nat)"
abbreviation (input) "PSM_PSMCT16 \<equiv> (2 :: nat)"
abbreviation (input) "PSM_PSMCT16S \<equiv> (10 :: nat)"
abbreviation (input) "PSM_PSGPU24 \<equiv> (18 :: nat)"
abbreviation (input) "PSM_PSMT8 \<equiv> (19 :: nat)"
abbreviation (input) "PSM_PSMT4 \<equiv> (20 :: nat)"
abbreviation (input) "PSM_PSMT8H \<equiv> (27 :: nat)"
abbreviation (input) "PSM_PSMT4HL \<equiv> (36 :: nat)"
abbreviation (input) "PSM_PSMT4HH \<equiv> (44 :: nat)"
abbreviation (input) "PSM_PSMZ32 \<equiv> (48 :: nat)"
abbreviation (input) "PSM_PSMZ24 \<equiv> (49 :: nat)"
abbreviation (input) "PSM_PSMZ16 \<equiv> (50 :: nat)"
abbreviation (input) "PSM_PSMZ16S \<equiv> (58 :: nat)"

definition psm_default :: psm_t where
  "psm_default =
     \<lparr>psm_info = swizzle32,
      rp = ReadPixel32, rpa = ReadPixel32_at, wp = WritePixel32, wpa = WritePixel32_at,
      rt = ReadTexel32, rta = ReadTexel32_at, wfa = WritePixel32_at, psm_bpp = 32,
      trbpp = 32, psm_pal = 0, psm_fmt = 3, psm_bs = (8, 8), psm_pgs = (64, 32), psm_msk = 0xff, psm_depth = False, fmsk = 0xffffffff\<rparr>"

definition m_psm :: "nat \<Rightarrow> psm_t" where
  "m_psm = (\<lambda>_. psm_default)
     (PSM_PSMCT32 := psm_default\<lparr>wp := WritePixel32, wpa := WritePixel32_at, psm_fmt := 0\<rparr>,
      PSM_PSMCT24 := psm_default\<lparr>rp := ReadPixel24, rpa := ReadPixel24_at, wp := WritePixel24, wpa := WritePixel24_at,
        rt := ReadTexel24, rta := ReadTexel24_at, wfa := WritePixel24_at, trbpp := 24, psm_fmt := 1, psm_msk := 0x3f, fmsk :=
        0x00FFFFFF\<rparr>,
      PSM_PSMCT16 := psm_default\<lparr>psm_info := swizzle16, rp := ReadPixel16, rpa := ReadPixel16_at, wp := WritePixel16,
        wpa := WritePixel16_at, rt := ReadTexel16, rta := ReadTexel16_at, wfa := WriteFrame16_at, psm_bpp := 16, trbpp := 16,
        psm_fmt := 2, psm_bs := (16, 8), psm_pgs := (64, 64), fmsk := 0x80F8F8F8\<rparr>,
      PSM_PSMCT16S := psm_default\<lparr>psm_info := swizzle16S, rp := ReadPixel16S, rpa := ReadPixel16_at, wp :=
        WritePixel16S, wpa := WritePixel16_at, rt := ReadTexel16S, rta := ReadTexel16_at, wfa := WriteFrame16_at, psm_bpp := 16,
        trbpp := 16, psm_fmt := 2, psm_bs := (16, 8), psm_pgs := (64, 64), fmsk := 0x80F8F8F8\<rparr>,
      PSM_PSGPU24 := psm_default\<lparr>psm_info := swizzle16, psm_bpp := 16, trbpp := 16, psm_bs := (16, 8), psm_pgs := (64,
        64), fmsk := 0x00FFFFFF\<rparr>,
      PSM_PSMT8 := psm_default\<lparr>psm_info := swizzle8, rp := ReadPixel8, rpa := ReadPixel8_at, wp := WritePixel8, wpa :=
        WritePixel8_at, rt := ReadTexel8, rta := ReadTexel8_at, psm_bpp := 8, trbpp := 8, psm_pal := 256, psm_bs := (16, 16),
        psm_pgs := (128, 64)\<rparr>,
      PSM_PSMT4 := psm_default\<lparr>psm_info := swizzle4, rp := ReadPixel4, rpa := ReadPixel4_at, wp := WritePixel4, wpa :=
        WritePixel4_at, rt := ReadTexel4, rta := ReadTexel4_at, psm_bpp := 4, trbpp := 4, psm_pal := 16, psm_bs := (32, 16),
        psm_pgs := (128, 128)\<rparr>,
      PSM_PSMT8H := psm_default\<lparr>rp := ReadPixel8H, rpa := ReadPixel8H_at, wp := WritePixel8H, wpa := WritePixel8H_at,
        rt := ReadTexel8H, rta := ReadTexel8H_at, trbpp := 8, psm_pal := 256, psm_msk := 0xc0, fmsk := 0xFF000000\<rparr>,
      PSM_PSMT4HL := psm_default\<lparr>rp := ReadPixel4HL, rpa := ReadPixel4HL_at, wp := WritePixel4HL, wpa :=
        WritePixel4HL_at, rt := ReadTexel4HL, rta := ReadTexel4HL_at, trbpp := 4, psm_pal := 16, psm_msk := 0x40, fmsk :=
        0x0F000000\<rparr>,
      PSM_PSMT4HH := psm_default\<lparr>rp := ReadPixel4HH, rpa := ReadPixel4HH_at, wp := WritePixel4HH, wpa :=
        WritePixel4HH_at, rt := ReadTexel4HH, rta := ReadTexel4HH_at, trbpp := 4, psm_pal := 16, psm_msk := 0x80, fmsk :=
        0xF0000000\<rparr>,
      PSM_PSMZ32 := psm_default\<lparr>psm_info := swizzle32Z, rp := ReadPixel32Z, rpa := ReadPixel32_at, wp := WritePixel32Z,
        wpa := WritePixel32_at, rt := ReadTexel32Z, psm_fmt := 0, psm_depth := True\<rparr>,
      PSM_PSMZ24 := psm_default\<lparr>psm_info := swizzle32Z, rp := ReadPixel24Z, rpa := ReadPixel24_at, wp := WritePixel24Z,
        wpa := WritePixel24_at, rt := ReadTexel24Z, rta := ReadTexel24_at, wfa := WritePixel24_at, trbpp := 24, psm_fmt := 1,
        psm_msk := 0x3f, psm_depth := True, fmsk := 0x00FFFFFF\<rparr>,
      PSM_PSMZ16 := psm_default\<lparr>psm_info := swizzle16Z, rp := ReadPixel16Z, rpa := ReadPixel16_at, wp := WritePixel16Z,
        wpa := WritePixel16_at, rt := ReadTexel16Z, rta := ReadTexel16_at, wfa := WriteFrame16_at, psm_bpp := 16, trbpp := 16,
        psm_fmt := 2, psm_bs := (16, 8), psm_pgs := (64, 64), psm_depth := True, fmsk := 0x80F8F8F8\<rparr>,
      PSM_PSMZ16S := psm_default\<lparr>psm_info := swizzle16SZ, rp := ReadPixel16SZ, rpa := ReadPixel16_at, wp :=
        WritePixel16SZ, wpa := WritePixel16_at, rt := ReadTexel16SZ, rta := ReadTexel16_at, wfa := WriteFrame16_at, psm_bpp :=
        16, trbpp := 16, psm_fmt := 2, psm_bs := (16, 8), psm_pgs := (64, 64), psm_depth := True, fmsk := 0x80F8F8F8\<rparr>)"

definition GetOffset :: "int \<Rightarrow> int \<Rightarrow> nat \<Rightarrow> GSOffset" where "GetOffset bp bw psm = mkGSOffset (psm_info (m_psm psm)) bp bw"

text \<open>\<open>fromKnownPSM\<close>, a switch over the same formats.\<close>

definition fromKnownPSM :: "int \<Rightarrow> int \<Rightarrow> nat \<Rightarrow> GSOffset" where
  "fromKnownPSM bp bw psm = mkGSOffset
     (if psm \<in> {PSM_PSMCT16, PSM_PSGPU24} then swizzle16 else if psm = PSM_PSMCT16S then swizzle16S
      else if psm = PSM_PSMT8 then swizzle8 else if psm = PSM_PSMT4 then swizzle4
      else if psm \<in> {PSM_PSMZ32, PSM_PSMZ24} then swizzle32Z else if psm = PSM_PSMZ16 then swizzle16Z
      else if psm = PSM_PSMZ16S then swizzle16SZ else swizzle32) bp bw"

end
