(* ===== verification/Gs_Cells.thy ===== *)
theory Gs_Cells
  imports Gs_Mem
begin

text \<open>
  Cells of the local memory: what a write of a word, a half word, a byte or a group of bits does to
  the other cells, and the contract \<open>store\<close> that every storage format has.
\<close>

unbundle bit_operations_syntax

section \<open>Words, half words and bytes\<close>

text \<open>Two aligned groups of \<open>k\<close> bytes do not overlap.\<close>

lemma load_store_aligned:
  fixes mem :: "u32 \<Rightarrow> u8" and v :: "'w::len word"
  assumes k: "0 < k" and p: "k * Suc p \<le> 2 ^ 32" and q: "k * Suc q \<le> 2 ^ 32" and ne: "p \<noteq> q"
  shows "(load_le k (store_le k mem (of_nat (k * p)) v) (of_nat (k * q)) :: 'w word) = load_le k mem (of_nat (k * q))"
proof (rule load_le_cong)
  fix i assume i: "i < k"
  have kq: "k * q + i < 2 ^ 32" using q i by simp
  have "\<not> unat (of_nat (k * q) + of_nat i - of_nat (k * p) :: u32) < k"
  proof
    let ?d = "of_nat (k * q) + of_nat i - of_nat (k * p) :: u32"
    assume d: "unat ?d < k"
    then have kp: "k * p + unat ?d < 2 ^ 32" using p by simp
    have "(of_nat (k * p + unat ?d) :: u32) = of_nat (k * q + i)" by simp
    then have "unat (of_nat (k * p + unat ?d) :: u32) = unat (of_nat (k * q + i) :: u32)" by (rule arg_cong)
    then have "k * p + unat ?d = k * q + i"
      using kp kq by (simp only: unat_of_nat) (simp add: take_bit_nat_eq_self)
    then have "(k * p + unat ?d) div k = (k * q + i) div k" by simp
    with d i k ne show False by simp
  qed
  moreover have "k \<le> 2 ^ LENGTH(32)" using p by simp
  ultimately show "store_le k mem (of_nat (k * p)) v (of_nat (k * q) + of_nat i) = mem (of_nat (k * q) + of_nat i)"
    by (simp add: store_le_byte)
qed

text \<open>The offset of a cell of \<open>2 ^ j\<close> bytes is the cell's number times its size, in both layouts.\<close>

definition cell :: "gs_mem \<Rightarrow> nat \<Rightarrow> u32 \<Rightarrow> nat" where
  "cell m j a = (if use_fifo_alloc m then unat a mod 2 ^ (22 - j) else unat a)"

lemma vm_off_cell:
  assumes "unat a < 2 ^ (32 - j)" "j \<le> 2"
  shows "vm_off m (2 ^ j * a) = of_nat (2 ^ j * cell m j a)" "2 ^ j * Suc (cell m j a) \<le> 2 ^ 32"
proof -
  have e: "(2 :: nat) ^ j * 2 ^ (32 - j) = 2 ^ 32" "(2 :: nat) ^ j * 2 ^ (22 - j) = 2 ^ 22"
    using assms(2) by (simp_all flip: power_add)
  have a: "2 ^ j * a = of_nat (2 ^ j * unat a)" by simp
  have m: "(of_nat n :: u32) AND 0x3FFFFF = of_nat (n mod 2 ^ 22)" for n :: nat
  proof -
    have "(0x3FFFFF :: u32) = mask 22" by (simp add: mask_eq_exp_minus_1)
    then have "(of_nat n :: u32) AND 0x3FFFFF = take_bit 22 (of_nat n)" by (simp only: take_bit_eq_mask)
    also have "\<dots> = of_nat (take_bit 22 n)" by (simp add: take_bit_of_nat unsigned_take_bit_eq)
    finally show ?thesis by (simp only: take_bit_eq_mod)
  qed
  show "vm_off m (2 ^ j * a) = of_nat (2 ^ j * cell m j a)"
    by (cases "use_fifo_alloc m") (simp_all only: vm_off_def cell_def a m if_True if_False mult_mod_right e(2))
  have "cell m j a \<le> unat a" by (simp add: cell_def)
  then have "Suc (cell m j a) \<le> 2 ^ (32 - j)" using assms(1) by simp
  then have "2 ^ j * Suc (cell m j a) \<le> (2 :: nat) ^ j * 2 ^ (32 - j)" by (rule mult_le_mono2)
  then show "2 ^ j * Suc (cell m j a) \<le> 2 ^ 32" by (simp only: e)
qed

lemma cell_differs: "unat a mod 2 ^ (22 - j) \<noteq> unat b mod 2 ^ (22 - j) \<Longrightarrow> cell m j a \<noteq> cell m j b"
  by (auto simp: cell_def)

lemma vm8_upd: "vm8 (m\<lparr>vm8 := f\<rparr>) = f"
  by simp

lemma vm_off_upd [simp]: "vm_off (m\<lparr>vm8 := f\<rparr>) a = vm_off m a"
  by (simp add: vm_off_def)

lemma m_vm32_same [simp]: "m_vm32 a (w_vm32 a v m) = v"
  by (simp add: m_vm32_def w_vm32_def load_store_same)
lemma m_vm16_same [simp]: "m_vm16 a (w_vm16 a v m) = v"
  by (simp add: m_vm16_def w_vm16_def load_store_same)
lemma m_vm8_same [simp]: "m_vm8 a (w_vm8 a v m) = v"
  by (simp add: m_vm8_def w_vm8_def)

lemma m_vm32_other:
  assumes "unat a < 2 ^ 30" "unat b < 2 ^ 30" "unat a mod 2 ^ 20 \<noteq> unat b mod 2 ^ 20"
  shows "m_vm32 b (w_vm32 a v m) = m_vm32 b m"
proof -
  have a: "vm_off m (4 * a) = of_nat (4 * cell m 2 a)" "4 * Suc (cell m 2 a) \<le> 2 ^ 32"
    and b: "vm_off m (4 * b) = of_nat (4 * cell m 2 b)" "4 * Suc (cell m 2 b) \<le> 2 ^ 32"
    using vm_off_cell [of a 2 m] vm_off_cell [of b 2 m] assms by simp_all
  have "cell m 2 a \<noteq> cell m 2 b" using cell_differs [of a 2 b m] assms(3) by simp
  then show ?thesis
    unfolding m_vm32_def w_vm32_def vm_off_upd a(1) b(1) vm8_upd
    by (intro load_store_aligned a(2) b(2)) simp_all
qed

lemma m_vm16_other:
  assumes "unat a < 2 ^ 31" "unat b < 2 ^ 31" "unat a mod 2 ^ 21 \<noteq> unat b mod 2 ^ 21"
  shows "m_vm16 b (w_vm16 a v m) = m_vm16 b m"
proof -
  have a: "vm_off m (2 * a) = of_nat (2 * cell m 1 a)" "2 * Suc (cell m 1 a) \<le> 2 ^ 32"
    and b: "vm_off m (2 * b) = of_nat (2 * cell m 1 b)" "2 * Suc (cell m 1 b) \<le> 2 ^ 32"
    using vm_off_cell [of a 1 m] vm_off_cell [of b 1 m] assms by simp_all
  have "cell m 1 a \<noteq> cell m 1 b" using cell_differs [of a 1 b m] assms(3) by simp
  then show ?thesis
    unfolding m_vm16_def w_vm16_def vm_off_upd a(1) b(1) vm8_upd
    by (intro load_store_aligned a(2) b(2)) simp_all
qed

lemma m_vm8_other:
  assumes "unat a mod 2 ^ 22 \<noteq> unat b mod 2 ^ 22"
  shows "m_vm8 b (w_vm8 a v m) = m_vm8 b m"
proof -
  have a: "vm_off m a = of_nat (cell m 0 a)" "Suc (cell m 0 a) \<le> 2 ^ 32"
    and b: "vm_off m b = of_nat (cell m 0 b)" "Suc (cell m 0 b) \<le> 2 ^ 32"
    using vm_off_cell [of a 0 m] vm_off_cell [of b 0 m] unsigned_less [of a] unsigned_less [of b] by simp_all
  have "cell m 0 a \<noteq> cell m 0 b" using cell_differs [of a 0 b m] assms by simp
  moreover have "unat (of_nat (cell m 0 a) :: u32) = cell m 0 a" "unat (of_nat (cell m 0 b) :: u32) = cell m 0 b"
    using a(2) b(2) by (simp_all add: unat_of_nat take_bit_nat_eq_self)
  ultimately have "(of_nat (cell m 0 a) :: u32) \<noteq> of_nat (cell m 0 b)" by metis
  then show ?thesis by (simp add: m_vm8_def w_vm8_def a(1) b(1))
qed

section \<open>The contract of a storage format\<close>

text \<open>
  A format has \<open>n\<close> bits for each pixel.  A pixel that was written is read back, and the others keep
  their value; \<open>M\<close> is how many there are in the memory, and \<open>L\<close> bounds the addresses.
\<close>

locale pixel_store =
  fixes rd :: "u32 \<Rightarrow> gs_mem \<Rightarrow> u32" and wr :: "u32 \<Rightarrow> u32 \<Rightarrow> gs_mem \<Rightarrow> gs_mem" and n M L :: nat
  assumes rd_wr: "rd a (wr a c m) = c AND mask n"
    and rd_other: "unat a < L \<Longrightarrow> unat b < L \<Longrightarrow> unat a mod M \<noteq> unat b mod M \<Longrightarrow> rd b (wr a c m) = rd b m"
begin

text \<open>A list of writes to different pixels.\<close>

lemma rd_fold_other:
  assumes "\<forall>(a, c)\<in>set ws. unat a < L \<and> unat a mod M \<noteq> unat b mod M" "unat b < L"
  shows "rd b (fold (\<lambda>(a, c). wr a c) ws m) = rd b m"
  using assms by (induction ws arbitrary: m) (auto simp: rd_other split: prod.splits)

lemma rd_fold_same:
  assumes "\<forall>(a, c)\<in>set ws. unat a < L" "distinct (map (\<lambda>(a, c). unat a mod M) ws)" "(a, c) \<in> set ws"
  shows "rd a (fold (\<lambda>(a, c). wr a c) ws m) = c AND mask n"
  using assms
proof (induction ws arbitrary: m)
  case (Cons w ws)
  show ?case
  proof (cases "(a, c) = w")
    case True
    have "rd a (fold (\<lambda>(a, c). wr a c) ws (wr a c m)) = rd a (wr a c m)"
      using Cons.prems True by (intro rd_fold_other) force+
    with True show ?thesis by (auto simp: rd_wr)
  next
    case False
    then show ?thesis using Cons by (auto split: prod.splits)
  qed
qed simp

end

text \<open>The formats that keep a pixel in a field of a 32 bit word: \<open>n\<close> bits from bit \<open>k\<close>.\<close>

definition rd_field :: "nat \<Rightarrow> nat \<Rightarrow> u32 \<Rightarrow> gs_mem \<Rightarrow> u32" where
  "rd_field k n a m = drop_bit k (m_vm32 a m) AND mask n"
definition wr_field :: "nat \<Rightarrow> nat \<Rightarrow> u32 \<Rightarrow> u32 \<Rightarrow> gs_mem \<Rightarrow> gs_mem" where
  "wr_field k n a c m = w_vm32 a ((m_vm32 a m AND NOT (push_bit k (mask n))) OR push_bit k (c AND mask n)) m"

lemma bit_u32: "bit (v :: u32) i \<Longrightarrow> i < 32"
  by (drule bit_imp_le_length) simp

lemma bit_rd_field: "bit (rd_field k n a m) i \<longleftrightarrow> i < n \<and> bit (m_vm32 a m) (k + i)"
  by (auto simp: rd_field_def bit_simps dest: bit_u32)

lemma bit_wr_field:
  "bit (m_vm32 a (wr_field k n a c m)) i \<longleftrightarrow>
     (if k \<le> i \<and> i < k + n \<and> i < 32 then bit c (i - k) else bit (m_vm32 a m) i)"
  by (auto simp: wr_field_def bit_simps dest: bit_u32)

lemma field_store: "k + n \<le> 32 \<Longrightarrow> pixel_store (rd_field k n) (wr_field k n) n (2 ^ 20) (2 ^ 30)"
proof
  show "rd_field k n a (wr_field k n a c m) = c AND mask n" if "k + n \<le> 32" for a c m
    using that by (intro bit_word_eqI) (auto simp: bit_rd_field bit_wr_field bit_simps)
  show "rd_field k n b (wr_field k n a c m) = rd_field k n b m"
    if "unat a < 2 ^ 30" "unat b < 2 ^ 30" "unat a mod 2 ^ 20 \<noteq> unat b mod 2 ^ 20" for a b c m
    by (simp only: rd_field_def wr_field_def m_vm32_other [OF that])
qed

text \<open>Fields that do not overlap are independent, at the same pixel and at others.\<close>

lemma field_independent:
  assumes "k + n \<le> k' \<or> k' + n' \<le> k"
    and "a = b \<or> unat a < 2 ^ 30 \<and> unat b < 2 ^ 30 \<and> unat a mod 2 ^ 20 \<noteq> unat b mod 2 ^ 20"
  shows "rd_field k n b (wr_field k' n' a c m) = rd_field k n b m"
proof (cases "a = b")
  case True
  then show ?thesis using assms(1) by (intro bit_word_eqI) (auto simp: bit_rd_field bit_wr_field)
next
  case False
  then show ?thesis using assms(2) by (auto simp: rd_field_def wr_field_def m_vm32_other)
qed

lemma fields:
  "ReadPixel32_at = rd_field 0 32" "WritePixel32_at = wr_field 0 32"
  "ReadPixel24_at = rd_field 0 24" "WritePixel24_at = wr_field 0 24"
  "ReadPixel8H_at = rd_field 24 8" "WritePixel8H_at = wr_field 24 8"
  "ReadPixel4HL_at = rd_field 24 4" "WritePixel4HL_at = wr_field 24 4"
  "ReadPixel4HH_at = rd_field 28 4" "WritePixel4HH_at = wr_field 28 4"
proof -
  note d = fun_eq_iff rd_field_def wr_field_def ReadPixel32_at_def WritePixel32_at_def ReadPixel24_at_def WritePixel24_at_def
    ReadPixel8H_at_def WritePixel8H_at_def ReadPixel4HL_at_def WritePixel4HL_at_def ReadPixel4HH_at_def WritePixel4HH_at_def
  have m: "(0xff000000 :: u32) = NOT (push_bit 0 (mask 24))" "(0xf0ffffff :: u32) = NOT (push_bit 24 (mask 4))"
    "(0x0fffffff :: u32) = NOT (push_bit 28 (mask 4))" "(0x00ffffff :: u32) = NOT (push_bit 24 (mask 8))"
    "(0 :: u32) = NOT (mask 32)" "(0x0f :: u32) = mask 4"
    by (simp_all add: mask_eq_exp_minus_1 push_bit_eq_mult)
  have m24: "(0x00ffffff :: u32) = mask 24" by (simp add: mask_eq_exp_minus_1)
  have all: "v AND mask 32 = v" for v :: u32 by (rule bit_word_eqI) (auto simp: bit_simps)
  have b8: "bit (v :: u32) i \<Longrightarrow> i < 32" for v i by (drule bit_imp_le_length) simp
  show "ReadPixel32_at = rd_field 0 32" "WritePixel32_at = wr_field 0 32"
    using m(5) by (simp_all add: d all)
  show "ReadPixel24_at = rd_field 0 24" "WritePixel24_at = wr_field 0 24"
    by (simp_all only: d m(1) m24 drop_bit_0 push_bit_0_id id_apply simp_thms)
  show "ReadPixel4HL_at = rd_field 24 4" "WritePixel4HL_at = wr_field 24 4"
    "ReadPixel4HH_at = rd_field 28 4" "WritePixel4HH_at = wr_field 28 4"
    by (simp_all only: d m(2,3,6) simp_thms)
  have "drop_bit 24 c = drop_bit 24 c AND mask 8" "push_bit 24 c = push_bit 24 (c AND mask 8)" for c :: u32
    by (rule bit_word_eqI, use bit_imp_le_length [of c] in \<open>force simp: bit_simps\<close>)+
  then show "ReadPixel8H_at = rd_field 24 8" "WritePixel8H_at = wr_field 24 8"
    by (simp_all only: d m(4) simp_thms)
qed

interpretation st32: pixel_store ReadPixel32_at WritePixel32_at 32 "2 ^ 20" "2 ^ 30" by (simp only: fields) (rule field_store, simp)
interpretation st24: pixel_store ReadPixel24_at WritePixel24_at 24 "2 ^ 20" "2 ^ 30" by (simp only: fields) (rule field_store, simp)
interpretation st8H: pixel_store ReadPixel8H_at WritePixel8H_at 8 "2 ^ 20" "2 ^ 30" by (simp only: fields) (rule field_store, simp)
interpretation st4HL: pixel_store ReadPixel4HL_at WritePixel4HL_at 4 "2 ^ 20" "2 ^ 30" by (simp only: fields) (rule field_store, simp)
interpretation st4HH: pixel_store ReadPixel4HH_at WritePixel4HH_at 4 "2 ^ 20" "2 ^ 30" by (simp only: fields) (rule field_store, simp)

interpretation st16: pixel_store ReadPixel16_at WritePixel16_at 16 "2 ^ 21" "2 ^ 31"
proof
  show "ReadPixel16_at a (WritePixel16_at a c m) = c AND mask 16" for a c m
    by (simp add: ReadPixel16_at_def WritePixel16_at_def) (rule bit_word_eqI, auto simp: bit_simps)
qed (simp add: ReadPixel16_at_def WritePixel16_at_def m_vm16_other)

interpretation st8: pixel_store ReadPixel8_at WritePixel8_at 8 "2 ^ 22" "2 ^ 32"
proof
  show "ReadPixel8_at a (WritePixel8_at a c m) = c AND mask 8" for a c m
    by (simp add: ReadPixel8_at_def WritePixel8_at_def) (rule bit_word_eqI, auto simp: bit_simps)
qed (simp add: ReadPixel8_at_def WritePixel8_at_def m_vm8_other)

text \<open>Two pixels of four bits share a byte.\<close>

lemma bit15: "bit (15 :: u32) i \<longleftrightarrow> i < 4"
proof -
  have "(15 :: u32) = mask 4" by (simp add: mask_eq_exp_minus_1)
  then show ?thesis by (simp only: bit_mask_iff possible_bit_word) auto
qed

lemma bit240: "bit (240 :: u32) i \<longleftrightarrow> 4 \<le> i \<and> i < 8"
proof -
  have "(240 :: u32) = push_bit 4 15" by (simp add: push_bit_eq_mult)
  then show ?thesis by (simp only: bit_push_bit_iff bit15 possible_bit_word) auto
qed

lemma bit4: "bit (ReadPixel4_at a m) i \<longleftrightarrow> i < 4 \<and> bit (m_vm8 (drop_bit (Suc 0) a) m) (i + (if bit a 0 then 4 else 0))"
  by (cases "i < 4") (simp_all add: ReadPixel4_at_def bit_and_iff bit15 bit_drop_bit_eq bit_ucast_iff add.commute del: bit_numeral_word_iff)

lemma bit_write4:
  "bit (m_vm8 (drop_bit (Suc 0) a) (WritePixel4_at a c m)) i \<longleftrightarrow> i < 8 \<and>
     (if bit a 0 then (if i < 4 then bit (m_vm8 (drop_bit (Suc 0) a) m) i else bit c (i - 4))
      else (if i < 4 then bit c i else bit (m_vm8 (drop_bit (Suc 0) a) m) i))"
  by (auto simp: WritePixel4_at_def Let_def bit_simps bit15 bit240 simp del: bit_numeral_word_iff)

interpretation st4: pixel_store ReadPixel4_at WritePixel4_at 4 "2 ^ 23" "2 ^ 32"
proof
  show "ReadPixel4_at a (WritePixel4_at a c m) = c AND mask 4" for a c m
    by (rule bit_word_eqI) (auto simp: bit4 bit_write4 bit_simps)
  show "ReadPixel4_at b (WritePixel4_at a c m) = ReadPixel4_at b m" if "unat a mod 2 ^ 23 \<noteq> unat b mod 2 ^ 23" for a b c m
  proof (cases "vm_off m (drop_bit 1 a) = vm_off m (drop_bit 1 b)")
    case True
    have c: "vm_off m (drop_bit 1 v) = of_nat (cell m 0 (drop_bit 1 v))" "cell m 0 (drop_bit 1 v) < 2 ^ 32" for v :: u32
      using vm_off_cell [of "drop_bit 1 v" 0 m] unsigned_less [of "drop_bit 1 v"] by (simp_all add: Suc_le_eq)
    have "unat (of_nat (cell m 0 (drop_bit 1 a)) :: u32) = unat (of_nat (cell m 0 (drop_bit 1 b)) :: u32)"
      using True c(1) by metis
    then have "cell m 0 (drop_bit 1 a) = cell m 0 (drop_bit 1 b)"
      using c(2) by (simp add: unat_of_nat take_bit_nat_eq_self)
    then have e: "unat (drop_bit 1 a) mod 2 ^ 22 = unat (drop_bit 1 b) mod 2 ^ 22"
      using cell_differs [of "drop_bit 1 a" 0 "drop_bit 1 b" m] by auto
    have v: "unat v mod 2 ^ 23 = 2 * (unat (drop_bit 1 v) mod 2 ^ 22) + (if bit v 0 then 1 else 0)" for v :: u32
    proof -
      have "unat (drop_bit 1 v) = unat v div 2" by (simp add: drop_bit_eq_div unat_div)
      moreover have "bit v 0 = odd (unat v)" using bit_unsigned_iff [where 'a = nat, of v 0] by (simp add: bit_0)
      moreover have "n mod 2 ^ 23 = 2 * (n div 2 mod 2 ^ 22) + n mod 2" for n :: nat
        using mod_mult2_eq [of n 2 "2 ^ 22"] by simp
      ultimately show ?thesis by (simp add: odd_iff_mod_2_eq_one)
    qed
    have "bit a 0 \<noteq> bit b 0"
    proof
      assume "bit a 0 = bit b 0"
      with e have "unat a mod 2 ^ 23 = unat b mod 2 ^ 23" by (simp only: v)
      with that show False by simp
    qed
    moreover have "m_vm8 (drop_bit 1 b) n = m_vm8 (drop_bit 1 a) n" if "use_fifo_alloc n = use_fifo_alloc m" for n
      using True that by (simp add: m_vm8_def vm_off_def)
    moreover have "use_fifo_alloc (WritePixel4_at a c m) = use_fifo_alloc m" by (simp add: WritePixel4_at_def w_vm8_def Let_def)
    ultimately show ?thesis by (intro bit_word_eqI) (auto simp: bit4 bit_write4)
  next
    case False
    then show ?thesis by (simp add: ReadPixel4_at_def WritePixel4_at_def Let_def m_vm8_def w_vm8_def)
  qed
qed

end
