(* ===== verification/Gs_Image.thy ===== *)
theory Gs_Image
  imports Gs_Mem
begin

text \<open>
  The transfers of an image between the host and the local memory (\<open>WriteImageX\<close>, \<open>ReadImageX\<close> and
  their helpers in pcsx2/GS/GSLocalMemory.cpp).  A transfer comes in pieces of any length; the
  position in the rectangle is kept from one piece to the next.

  The buffer of the host is a map from the offset to the byte; the pointers of the source are the
  offset of the next byte in it.
\<close>

unbundle bit_operations_syntax

section \<open>Registers of a transfer\<close>

record GIFRegBITBLTBUF =
  SBP :: int
  SBW :: int
  SPSM :: nat
  DBP :: int
  DBW :: int
  DPSM :: nat

record GIFRegTRXPOS =
  SSAX :: int
  SSAY :: int
  DSAX :: int
  DSAY :: int

record GIFRegTRXREG =
  RRW :: int
  RRH :: int

text \<open>\<open>assertSizesMatch\<close> replaces the sizes by those of a known format.\<close>

definition assertSizesMatch :: "GSSwizzleInfo \<Rightarrow> GSOffset \<Rightarrow> GSOffset" where
  "assertSizesMatch swz off = off\<lparr>off_swz := (off_swz off)\<lparr>m_pageMask := m_pageMask swz, m_blockMask := m_blockMask swz,
     m_pixelRowMask := m_pixelRowMask swz, m_pageShiftX := m_pageShiftX swz, m_pageShiftY := m_pageShiftY swz,
     m_blockShiftX := m_blockShiftX swz, m_blockShiftY := m_blockShiftY swz\<rparr>\<rparr>"

section \<open>The loop over the pixels\<close>

text \<open>\<open>xinc\<close> pixels at a time along a line, from \<open>x\<close> up to \<open>stop\<close>.\<close>

fun rw_line :: "nat \<Rightarrow> (int \<Rightarrow> 's \<Rightarrow> 's option) \<Rightarrow> int \<Rightarrow> int \<Rightarrow> int \<Rightarrow> 's \<Rightarrow> 's option" where
  "rw_line 0 f xinc x stop s = Some s"
| "rw_line (Suc n) f xinc x stop s =
     (if x < stop then (case f x s of None \<Rightarrow> None | Some t \<Rightarrow> rw_line n f xinc (x + xinc) stop t) else Some s)"

text \<open>
  The lines.  With a width of 0 the source loops for ever, so this is a partial function; it gives the
  line, the pixels that remain in it, and the state.
\<close>

partial_function (option) rwHelper ::
    "(PAHelper \<Rightarrow> int \<Rightarrow> 's \<Rightarrow> 's option) \<Rightarrow> GSOffset \<Rightarrow> int \<Rightarrow> int \<Rightarrow> int \<Rightarrow> int \<Rightarrow> int \<Rightarrow> int \<Rightarrow> PAHelper \<Rightarrow> 's \<Rightarrow> (int \<times> int \<times> 's) option" where
  "rwHelper f off xinc sx w y remX len p s =
     (if len > 0
      then (let stop = min remX len; len1 = len - stop; remX1 = remX - stop
            in Option.bind (rw_line (nat stop) (f p) xinc 0 stop s)
                 (\<lambda>t. if remX1 = 0 then rwHelper f off xinc sx w (y + 1) w len1 (paMulti off sx (y + 1)) t
                      else rwHelper f off xinc sx w y remX1 len1 p t))
      else Some (y, remX, s))"

definition readWriteHelper ::
    "int \<Rightarrow> int \<Rightarrow> int \<Rightarrow> int \<Rightarrow> int \<Rightarrow> int \<Rightarrow> GSOffset \<Rightarrow> (PAHelper \<Rightarrow> int \<Rightarrow> 's \<Rightarrow> 's option) \<Rightarrow> 's \<Rightarrow> (int \<times> int \<times> 's) option" where
  "readWriteHelper tx ty len xinc sx w off f s =
     (let ex = sx + w
      in map_option (\<lambda>(y, remX, t). (ex - remX, y, t)) (rwHelper f off xinc sx w ty (ex - tx) len (paMulti off tx ty) s))"

section \<open>Writing\<close>

text \<open>The state of a write is the memory and the offset of the next byte of the source.\<close>

type_synonym gs_src = "nat \<Rightarrow> u8"
type_synonym gs_wr = "gs_mem \<times> nat"

definition src16 :: "gs_src \<Rightarrow> nat \<Rightarrow> u16" where "src16 b k = ucast (b k) OR push_bit 8 (ucast (b (k + 1)))"
definition src32 :: "gs_src \<Rightarrow> nat \<Rightarrow> u32" where
  "src32 b k = ucast (b k) OR push_bit 8 (ucast (b (k + 1))) OR push_bit 16 (ucast (b (k + 2))) OR push_bit 24 (ucast (b (k + 3)))"

text \<open>A pixel of \<open>n\<close> bytes, and two pixels of four bits in one byte.\<close>

definition write_one :: "nat \<Rightarrow> (u32 \<Rightarrow> nat \<Rightarrow> gs_mem \<Rightarrow> gs_mem) \<Rightarrow> PAHelper \<Rightarrow> int \<Rightarrow> gs_wr \<Rightarrow> gs_wr option" where
  "write_one n wr p x = (\<lambda>(m, k). map_option (\<lambda>a. (wr a k m, k + n)) (pa_value p x))"

definition write_two :: "(u32 \<Rightarrow> u32 \<Rightarrow> gs_mem \<Rightarrow> gs_mem) \<Rightarrow> gs_src \<Rightarrow> PAHelper \<Rightarrow> int \<Rightarrow> gs_wr \<Rightarrow> gs_wr option" where
  "write_two wr b p x = (\<lambda>(m, k).
     case pa_value p x of None \<Rightarrow> None
     | Some a0 \<Rightarrow> map_option (\<lambda>a1. (wr a1 (ucast (drop_bit 4 (b k))) (wr a0 (ucast (b k AND 0xf)) m), k + 1)) (pa_value p (x + 1)))"

definition WriteImageX :: "int \<Rightarrow> int \<Rightarrow> gs_src \<Rightarrow> int \<Rightarrow> GIFRegBITBLTBUF \<Rightarrow> GIFRegTRXPOS \<Rightarrow> GIFRegTRXREG \<Rightarrow> gs_mem \<Rightarrow>
    (int \<times> int \<times> gs_mem) option" where
  "WriteImageX tx ty b len BITBLTBUF TRXPOS TRXREG m =
     (if len \<le> 0 then Some (tx, ty, m)
      else (let bp = DBP BITBLTBUF; bw = DBW BITBLTBUF; psm = DPSM BITBLTBUF; sx = DSAX TRXPOS; w = RRW TRXREG;
                off = GetOffset bp bw psm;
                go = (\<lambda>len xinc off f. map_option (\<lambda>(x, y, t, _). (x, y, t)) (readWriteHelper tx ty len xinc sx w off f (m, 0)))
            in if psm \<in> {PSM_PSMCT32, PSM_PSMZ32}
               then go (len div 4) 1 (assertSizesMatch swizzle32 off) (write_one 4 (\<lambda>a k. WritePixel32_at a (src32 b k)))
               else if psm \<in> {PSM_PSMCT24, PSM_PSMZ24}
               then go (len div 3) 1 (assertSizesMatch swizzle32 off) (write_one 3 (\<lambda>a k. WritePixel24_at a (src32 b k)))
               else if psm \<in> {PSM_PSMCT16, PSM_PSMCT16S, PSM_PSMZ16, PSM_PSMZ16S}
               then go (len div 2) 1 (assertSizesMatch swizzle16 off) (write_one 2 (\<lambda>a k. WritePixel16_at a (ucast (src16 b k))))
               else if psm = PSM_PSMT8
               then go len 1 (fromKnownPSM bp bw PSM_PSMT8) (write_one 1 (\<lambda>a k. WritePixel8_at a (ucast (b k))))
               else if psm = PSM_PSMT4
               then go (len * 2) 2 (fromKnownPSM bp bw PSM_PSMT4) (write_two WritePixel4_at b)
               else if psm = PSM_PSMT8H
               then go len 1 (fromKnownPSM bp bw PSM_PSMT8H) (write_one 1 (\<lambda>a k. WritePixel8H_at a (ucast (b k))))
               else if psm = PSM_PSMT4HL
               then go (len * 2) 2 (fromKnownPSM bp bw PSM_PSMT4HL) (write_two WritePixel4HL_at b)
               else if psm = PSM_PSMT4HH
               then go (len * 2) 2 (fromKnownPSM bp bw PSM_PSMT4HH) (write_two WritePixel4HH_at b)
               else Some (tx, ty, m)))"

section \<open>Reading\<close>

text \<open>The state of a read is the destination and the offset of its next byte.\<close>

type_synonym gs_rd = "gs_src \<times> nat"

definition put8 :: "nat \<Rightarrow> u8 \<Rightarrow> gs_src \<Rightarrow> gs_src" where "put8 k v d = d(k := v)"
definition put16 :: "nat \<Rightarrow> u16 \<Rightarrow> gs_src \<Rightarrow> gs_src" where "put16 k v d = d(k := ucast v, k + 1 := ucast (drop_bit 8 v))"
definition put24 :: "nat \<Rightarrow> u32 \<Rightarrow> gs_src \<Rightarrow> gs_src" where
  "put24 k v d = d(k := ucast v, k + 1 := ucast (drop_bit 8 v), k + 2 := ucast (drop_bit 16 v))"
definition put32 :: "nat \<Rightarrow> u32 \<Rightarrow> gs_src \<Rightarrow> gs_src" where
  "put32 k v d = d(k := ucast v, k + 1 := ucast (drop_bit 8 v), k + 2 := ucast (drop_bit 16 v), k + 3 := ucast (drop_bit 24 v))"

definition read_one :: "nat \<Rightarrow> (u32 \<Rightarrow> nat \<Rightarrow> gs_src \<Rightarrow> gs_src) \<Rightarrow> PAHelper \<Rightarrow> int \<Rightarrow> gs_rd \<Rightarrow> gs_rd option" where
  "read_one n rd p x = (\<lambda>(d, k). map_option (\<lambda>a. (rd a k d, k + n)) (pa_value p x))"

text \<open>Two pixels into one byte; \<open>n\<close> is by how much the pointer moves, which is 0 for \<open>PSMT4\<close> in the source.\<close>

definition read_two :: "nat \<Rightarrow> (u32 \<Rightarrow> u8) \<Rightarrow> (u32 \<Rightarrow> u8) \<Rightarrow> PAHelper \<Rightarrow> int \<Rightarrow> gs_rd \<Rightarrow> gs_rd option" where
  "read_two n rd0 rd1 p x = (\<lambda>(d, k).
     case pa_value p x of None \<Rightarrow> None
     | Some a0 \<Rightarrow> map_option (\<lambda>a1. (put8 k (rd0 a0 OR rd1 a1) d, k + n)) (pa_value p (x + 1)))"

text \<open>
  32 bit pixels have a loop of their own, which takes eight pixels of a column at once where it can.
  The three inner loops give the pixels left, the position and the destination.
\<close>

fun read32_single :: "nat \<Rightarrow> (int \<Rightarrow> bool) \<Rightarrow> gs_mem \<Rightarrow> int \<Rightarrow> PAHelper \<Rightarrow> int \<Rightarrow> int \<Rightarrow> gs_rd \<Rightarrow> (int \<times> int \<times> gs_rd) option" where
  "read32_single 0 cont m ex p len x s = Some (len, x, s)"
| "read32_single (Suc n) cont m ex p len x s =
     (if len > 0 \<and> x < ex \<and> cont x
      then (case read_one 4 (\<lambda>a k. put32 k (m_vm32 a m)) p x s of None \<Rightarrow> None
            | Some t \<Rightarrow> read32_single n cont m ex p (len - 1) (x + 1) t)
      else Some (len, x, s))"

definition read32_eight :: "gs_mem \<Rightarrow> PAHelper \<Rightarrow> int \<Rightarrow> gs_rd \<Rightarrow> gs_rd option" where
  "read32_eight m p x = (\<lambda>(d, k). map_option
     (\<lambda>a. (fold (\<lambda>(i, j). put32 (k + 4 * i) (m_vm32 (a + of_nat j) m)) [(0, 0), (1, 1), (2, 4), (3, 5), (4, 8), (5, 9), (6, 12), (7, 13)] d, k + 32))
     (pa_value p x))"

fun read32_column :: "nat \<Rightarrow> gs_mem \<Rightarrow> int \<Rightarrow> PAHelper \<Rightarrow> int \<Rightarrow> int \<Rightarrow> gs_rd \<Rightarrow> (int \<times> int \<times> gs_rd) option" where
  "read32_column 0 m ex p len x s = Some (len, x, s)"
| "read32_column (Suc n) m ex p len x s =
     (if len \<ge> 8 \<and> x \<le> ex - 8
      then (case read32_eight m p x s of None \<Rightarrow> None | Some t \<Rightarrow> read32_column n m ex p (len - 8) (x + 8) t)
      else Some (len, x, s))"

definition read32_line :: "gs_mem \<Rightarrow> int \<Rightarrow> PAHelper \<Rightarrow> int \<Rightarrow> int \<Rightarrow> gs_rd \<Rightarrow> (int \<times> int \<times> gs_rd) option" where
  "read32_line m ex p len x s =
     (case read32_single (nat len) (\<lambda>x. x AND 7 \<noteq> 0) m ex p len x s of None \<Rightarrow> None
      | Some (len1, x1, s1) \<Rightarrow>
     (case read32_column (nat len1) m ex p len1 x1 s1 of None \<Rightarrow> None
      | Some (len2, x2, s2) \<Rightarrow> read32_single (nat len2) (\<lambda>_. True) m ex p len2 x2 s2))"

partial_function (option) read32_loop ::
    "gs_mem \<Rightarrow> GSOffset \<Rightarrow> int \<Rightarrow> int \<Rightarrow> int \<Rightarrow> int \<Rightarrow> int \<Rightarrow> PAHelper \<Rightarrow> gs_rd \<Rightarrow> (int \<times> int \<times> gs_rd) option" where
  "read32_loop m off sx ex x y len p s =
     (if len > 0
      then Option.bind (read32_line m ex p len x s)
             (\<lambda>(len1, x1, t). if x1 = ex then read32_loop m off sx ex sx (y + 1) len1 (paMulti off 0 (y + 1)) t
                              else read32_loop m off sx ex x1 y len1 p t)
      else Some (x, y, s))"

definition ReadImageX :: "int \<Rightarrow> int \<Rightarrow> gs_src \<Rightarrow> int \<Rightarrow> GIFRegBITBLTBUF \<Rightarrow> GIFRegTRXPOS \<Rightarrow> GIFRegTRXREG \<Rightarrow> gs_mem \<Rightarrow>
    (int \<times> int \<times> gs_src) option" where
  "ReadImageX tx ty d len BITBLTBUF TRXPOS TRXREG m =
     (if len \<le> 0 then Some (tx, ty, d)
      else (let bp = SBP BITBLTBUF; bw = SBW BITBLTBUF; psm = SPSM BITBLTBUF; sx = SSAX TRXPOS; w = RRW TRXREG;
                off = GetOffset bp bw psm;
                go = (\<lambda>len xinc off f. map_option (\<lambda>(x, y, t, _). (x, y, t)) (readWriteHelper tx ty len xinc sx w off f (d, 0)))
            in if psm \<in> {PSM_PSMCT32, PSM_PSMZ32}
               then map_option (\<lambda>(x, y, t, _). (x, y, t))
                      (read32_loop m (assertSizesMatch swizzle32 off) sx (sx + w) tx ty (len div 4)
                        (paMulti (assertSizesMatch swizzle32 off) 0 ty) (d, 0))
               else if psm \<in> {PSM_PSMCT24, PSM_PSMZ24}
               then go (len div 3) 1 (assertSizesMatch swizzle32 off) (read_one 3 (\<lambda>a k. put24 k (m_vm32 a m)))
               else if psm \<in> {PSM_PSMCT16, PSM_PSMCT16S, PSM_PSMZ16, PSM_PSMZ16S}
               then go (len div 2) 1 (assertSizesMatch swizzle16 off) (read_one 2 (\<lambda>a k. put16 k (m_vm16 a m)))
               else if psm = PSM_PSMT8
               then go len 1 (fromKnownPSM bp bw PSM_PSMT8) (read_one 1 (\<lambda>a k. put8 k (m_vm8 a m)))
               else if psm = PSM_PSMT4
               then go (len * 2) 2 (fromKnownPSM bp bw PSM_PSMT4)
                      (read_two 0 (\<lambda>a. ucast (ReadPixel4_at a m)) (\<lambda>a. push_bit 4 (ucast (ReadPixel4_at a m))))
               else if psm = PSM_PSMT8H
               then go len 1 (fromKnownPSM bp bw PSM_PSMT8H) (read_one 1 (\<lambda>a k. put8 k (ucast (drop_bit 24 (m_vm32 a m)))))
               else if psm = PSM_PSMT4HL
               then go (len * 2) 2 (fromKnownPSM bp bw PSM_PSMT4HL)
                      (read_two 1 (\<lambda>a. ucast (drop_bit 24 (m_vm32 a m) AND 0x0f)) (\<lambda>a. ucast (drop_bit 20 (m_vm32 a m) AND 0xf0)))
               else if psm = PSM_PSMT4HH
               then go (len * 2) 2 (fromKnownPSM bp bw PSM_PSMT4HH)
                      (read_two 1 (\<lambda>a. ucast (drop_bit 28 (m_vm32 a m) AND 0x0f)) (\<lambda>a. ucast (drop_bit 24 (m_vm32 a m) AND 0xf0)))
               else Some (tx, ty, d)))"

end
