(* ===== verification/Gs_Spec.thy ===== *)
theory Gs_Spec
  imports Gs_Cells Gs_Image
begin

text \<open>
  What the local memory promises: the addresses are those of the layout in pages, blocks and
  columns, and pixels, fields of pixels and images are read as they were written.
\<close>

unbundle bit_operations_syntax

section \<open>The layout\<close>

text \<open>
  The pixels of a buffer that can be addressed without going around the memory: the offset tables of
  a line are good for 2048 pixels, and the page of the pixel is in the memory.
\<close>

definition inside :: "GSOffset \<Rightarrow> int \<Rightarrow> int \<Rightarrow> bool" where
  "inside off x y \<longleftrightarrow> 0 \<le> x \<and> x < 2048 \<and> x < m_bwPg off * 2 ^ m_pageShiftX (off_swz off) \<and> 0 \<le> y \<and>
     (y div 2 ^ m_pageShiftY (off_swz off)) * m_bwPg off + x div 2 ^ m_pageShiftX (off_swz off) < MAX_PAGES"

text \<open>
  The layout as the hardware has it: the page in the buffer, the block in the page by the block table,
  the pixel in the block by the column table.
\<close>

definition layout :: "nat list list \<Rightarrow> nat list list \<Rightarrow> int \<Rightarrow> int \<Rightarrow> int \<Rightarrow> int \<Rightarrow> int" where
  "layout bt ct bp bwPg x y =
     (let CH = length ct; CW = length (hd ct); BH = length bt; BW = length (hd bt);
          page = (y div int (BH * CH)) * bwPg + x div int (BW * CW);
          blk = bt ! nat (y div int CH mod int BH) ! nat (x div int CW mod int BW);
          px = ct ! nat (y mod int CH) ! nat (x mod int CW)
      in (bp + 32 * page + int blk) * int (CH * CW) + int px)"

text \<open>The formats, with the tables they are made of.\<close>

definition gs_layouts :: "(GSSwizzleInfo \<times> nat list list \<times> nat list list) list" where
  "gs_layouts =
     [(swizzle32, blockTable32_rows, columnTable32), (swizzle32Z, blockTable32Z_rows, columnTable32),
      (swizzle16, blockTable16_rows, columnTable16), (swizzle16S, blockTable16S_rows, columnTable16),
      (swizzle16Z, blockTable16Z_rows, columnTable16), (swizzle16SZ, blockTable16SZ_rows, columnTable16),
      (swizzle8, blockTable8_rows, columnTable8), (swizzle4, blockTable4_rows, columnTable4)]"

context swizzle
begin

lemma inside_fits: "off_swz off = z \<Longrightarrow> inside off x y \<longleftrightarrow> fits (m_bwPg off) x y \<and> x < 2048"
  by (auto simp: inside_def fits_def page_of_def info)

lemma flat_layout: "0 \<le> x \<Longrightarrow> 0 \<le> y \<Longrightarrow> flat off x y = layout bt ct (m_bp off) (m_bwPg off) x y"
proof -
  assume xy: "0 \<le> x" "0 \<le> y"
  have d: "(v mod (b * c)) div c = v div c mod b" "v mod (b * c) mod c = v mod c" if "0 < c" for v b c :: nat
    using that by (simp_all add: mod_mult2_eq mult.commute [of b c] mod_mod_cancel)
  have p: "(2 :: int) ^ sx = int (BW * CW)" "(2 :: int) ^ sy = int (BH * CH)" by (simp_all only: page of_nat_power of_nat_numeral)
  obtain i j where ij: "x = int i" "y = int j" using xy nonneg_int_cases by metis
  show ?thesis
    unfolding flat_def layout_def Let_def in_page_def inpage_def page_of_def p ij
    by (simp add: bt_dims ct_dims(1,2) d PPX_def BPX_def flip: of_nat_div of_nat_mod of_nat_mult)
      (simp add: algebra_simps)
qed

lemma uint_address:
  assumes "0 \<le> x" "x < 2048"
  shows "uint (word_of_int (address off x y) :: u32) = address off x y"
proof -
  have "(2 :: int) ^ (sx + sy) \<le> 2 ^ 14" using page by (intro power_increasing) simp_all
  then have "mem_pixels + 33 * int PPX < 2 ^ 32" by (simp add: mem_pixels_def PPX_alt)
  with address_bound [OF assms, of off y] show ?thesis by (simp add: uint_word_of_int)
qed

lemma pa_layout:
  assumes off: "off_swz off = z" and x: "0 \<le> x" "x < 2048" and y: "0 \<le> y"
  shows "\<exists>a. pa off x y = Some a \<and>
     uint a mod (MAX_PAGES * int PPX) = layout bt ct (m_bp off) (m_bwPg off) x y mod (MAX_PAGES * int PPX) \<and>
     bn off x y = uint a mod (MAX_PAGES * int PPX) div int BPX"
proof -
  have "address off x y mod mem_pixels div int BPX = bn off x y"
    using block_address [OF off x(1) y] BPX_pos by simp
  then show ?thesis
    using pa_eq [OF off x y] address_mod [of off x y]
    by (simp add: uint_address [OF x] flat_layout [OF x(1) y] mem_pixels_def)
qed

end

text \<open>
  C36: for every format, the address the emulator computes for a pixel with its precomputed offsets (a
  column of offsets for the line plus a row of offsets for the pixel in the line) is the address of
  the layout in pages, blocks and columns, and the number of its block is the one \<open>bn\<close> gives.
\<close>

theorem pa_is_layout:
  assumes "(z, bt, ct) \<in> set gs_layouts" and "0 \<le> x" "x < 2048" "0 \<le> y"
  shows "\<exists>a. pa (mkGSOffset z bp bw) x y = Some a \<and>
    (let off = mkGSOffset z bp bw; n = int (length ct * length (hd ct))
     in uint a mod (MAX_BLOCKS * n) = layout bt ct bp (m_bwPg off) x y mod (MAX_BLOCKS * n) \<and>
        bn off x y = uint a mod (MAX_BLOCKS * n) div n)"
proof -
  note s = mkGSOffset_def Let_def GSOffset.simps
  from assms(1) consider "z = swizzle32 \<and> bt = blockTable32_rows \<and> ct = columnTable32"
    | "z = swizzle32Z \<and> bt = blockTable32Z_rows \<and> ct = columnTable32"
    | "z = swizzle16 \<and> bt = blockTable16_rows \<and> ct = columnTable16"
    | "z = swizzle16S \<and> bt = blockTable16S_rows \<and> ct = columnTable16"
    | "z = swizzle16Z \<and> bt = blockTable16Z_rows \<and> ct = columnTable16"
    | "z = swizzle16SZ \<and> bt = blockTable16SZ_rows \<and> ct = columnTable16"
    | "z = swizzle8 \<and> bt = blockTable8_rows \<and> ct = columnTable8"
    | "z = swizzle4 \<and> bt = blockTable4_rows \<and> ct = columnTable4"
    by (auto simp: gs_layouts_def)
  then show ?thesis
  proof cases
    case 1
    then show ?thesis
      using sw32.pa_layout [OF _ assms(2-), of "mkGSOffset swizzle32 bp bw"]
      by (simp add: sw32.PPX_def sw32.BPX_def sw32.ct_dims(1,2) s)
  next
    case 2
    then show ?thesis
      using sw32Z.pa_layout [OF _ assms(2-), of "mkGSOffset swizzle32Z bp bw"]
      by (simp add: sw32Z.PPX_def sw32Z.BPX_def sw32Z.ct_dims(1,2) s)
  next
    case 3
    then show ?thesis
      using sw16.pa_layout [OF _ assms(2-), of "mkGSOffset swizzle16 bp bw"]
      by (simp add: sw16.PPX_def sw16.BPX_def sw16.ct_dims(1,2) s)
  next
    case 4
    then show ?thesis
      using sw16S.pa_layout [OF _ assms(2-), of "mkGSOffset swizzle16S bp bw"]
      by (simp add: sw16S.PPX_def sw16S.BPX_def sw16S.ct_dims(1,2) s)
  next
    case 5
    then show ?thesis
      using sw16Z.pa_layout [OF _ assms(2-), of "mkGSOffset swizzle16Z bp bw"]
      by (simp add: sw16Z.PPX_def sw16Z.BPX_def sw16Z.ct_dims(1,2) s)
  next
    case 6
    then show ?thesis
      using sw16SZ.pa_layout [OF _ assms(2-), of "mkGSOffset swizzle16SZ bp bw"]
      by (simp add: sw16SZ.PPX_def sw16SZ.BPX_def sw16SZ.ct_dims(1,2) s)
  next
    case 7
    then show ?thesis
      using sw8.pa_layout [OF _ assms(2-), of "mkGSOffset swizzle8 bp bw"]
      by (simp add: sw8.PPX_def sw8.BPX_def sw8.ct_dims(1,2) s)
  next
    case 8
    then show ?thesis
      using sw4.pa_layout [OF _ assms(2-), of "mkGSOffset swizzle4 bp bw"]
      by (simp add: sw4.PPX_def sw4.BPX_def sw4.ct_dims(1,2) s)
  qed
qed

lemma pa_is_layout_witness:
  "\<exists>a. pa (mkGSOffset swizzle8 7 4) 100 70 = Some a \<and>
    (let off = mkGSOffset swizzle8 7 4; n = int (length columnTable8 * length (hd columnTable8))
     in uint a mod (MAX_BLOCKS * n) = layout blockTable8_rows columnTable8 7 (m_bwPg off) 100 70 mod (MAX_BLOCKS * n) \<and>
        bn off 100 70 = uint a mod (MAX_BLOCKS * n) div n)"
  by (rule pa_is_layout) (simp_all add: gs_layouts_def)

section \<open>Pixels\<close>

context swizzle
begin

text \<open>The address of a pixel as the contract of a storage format needs it.\<close>

lemma pa_unat:
  assumes off: "off_swz off = z" and i: "inside off x y" and M: "int M = MAX_PAGES * int PPX"
  shows "\<exists>a. pa off x y = Some a \<and> unat a < 2 ^ 30 \<and> unat a mod M = nat (address off x y mod mem_pixels)"
proof -
  have x: "0 \<le> x" "x < 2048" and y: "0 \<le> y" using i by (simp_all add: inside_def)
  let ?a = "word_of_int (address off x y) :: u32"
  have u: "unat ?a = nat (address off x y)"
    using uint_address [OF x, of off y] by (simp only: unat_eq_nat_uint)
  have "(2 :: int) ^ (sx + sy) \<le> 2 ^ 14" using page by (intro power_increasing) simp_all
  then have "mem_pixels + 33 * int PPX < 2 ^ 30" by (simp add: mem_pixels_def PPX_alt)
  then have "unat ?a < 2 ^ 30" using address_bound [OF x, of off y] by (simp add: u nat_less_iff)
  moreover have "unat ?a mod M = nat (address off x y mod mem_pixels)"
    using address_bound(1) [OF x, of off y] mem_pixels_pos
    by (simp add: u nat_mod_distrib mem_pixels_def flip: M)
  ultimately show ?thesis using pa_eq [OF off x y] by blast
qed

lemma pixel_differs:
  assumes off: "off_swz off = z" and i: "inside off x y" "inside off x' y'" and M: "int M = MAX_PAGES * int PPX"
    and a: "pa off x y = Some a" "pa off x' y' = Some b" and ne: "(x, y) \<noteq> (x', y')"
  shows "unat a mod M \<noteq> unat b mod M"
proof
  assume "unat a mod M = unat b mod M"
  then have "nat (address off x y mod mem_pixels) = nat (address off x' y' mod mem_pixels)"
    using pa_unat [OF off i(1) M] pa_unat [OF off i(2) M] a by auto
  then have "address off x y mod mem_pixels = address off x' y' mod mem_pixels"
    using mem_pixels_pos by (simp add: eq_nat_nat_iff)
  with address_inj [of off x y x' y'] i ne show False by (simp add: inside_fits [OF off])
qed

text \<open>A pixel is read as it was written, and no other changes.\<close>

lemma pixel_rw:
  assumes st: "pixel_store rd wr n M L" and M: "int M = MAX_PAGES * int PPX" and L: "2 ^ 30 \<le> L"
    and off: "off_swz off = z" and i: "inside off x y" "inside off x' y'"
  shows "\<exists>m'. map_option (\<lambda>a. wr a c m) (pa off x y) = Some m' \<and>
      map_option (\<lambda>a. rd a m') (pa off x y) = Some (c AND mask n) \<and>
      ((x', y') \<noteq> (x, y) \<longrightarrow> map_option (\<lambda>a. rd a m') (pa off x' y') = map_option (\<lambda>a. rd a m) (pa off x' y'))"
proof -
  obtain a b where a: "pa off x y = Some a" "unat a < 2 ^ 30" and b: "pa off x' y' = Some b" "unat b < 2 ^ 30"
    using pa_unat [OF off i(1) M] pa_unat [OF off i(2) M] by blast
  have "rd b (wr a c m) = rd b m" if "(x', y') \<noteq> (x, y)"
    using pixel_differs [OF off i(1) i(2) M a(1) b(1)] that a(2) b(2) L
    by (intro pixel_store.rd_other [OF st]) (auto intro: less_le_trans)
  then show ?thesis by (simp add: a b pixel_store.rd_wr [OF st])
qed

end

text \<open>The formats of the table.\<close>

definition psm_formats :: "nat list" where
  "psm_formats = [PSM_PSMCT32, PSM_PSMCT24, PSM_PSMCT16, PSM_PSMCT16S, PSM_PSMT8, PSM_PSMT4, PSM_PSMT8H, PSM_PSMT4HL,
     PSM_PSMT4HH, PSM_PSMZ32, PSM_PSMZ24, PSM_PSMZ16, PSM_PSMZ16S]"

lemmas psm_access = m_psm_def psm_default_def GetOffset_def
  WritePixel32_def WritePixel24_def WritePixel16_def WritePixel16S_def WritePixel8_def WritePixel4_def WritePixel8H_def WritePixel4HL_def WritePixel4HH_def WritePixel32Z_def WritePixel24Z_def WritePixel16Z_def WritePixel16SZ_def
  ReadPixel32_def ReadPixel24_def ReadPixel16_def ReadPixel16S_def ReadPixel8_def ReadPixel4_def ReadPixel8H_def ReadPixel4HL_def ReadPixel4HH_def ReadPixel32Z_def ReadPixel24Z_def ReadPixel16Z_def ReadPixel16SZ_def
  PixelAddress32_def PixelAddress16_def PixelAddress16S_def PixelAddress8_def PixelAddress4_def PixelAddress32Z_def PixelAddress16Z_def PixelAddress16SZ_def

lemmas pages = sw32.PPX_def sw32Z.PPX_def sw16.PPX_def sw16S.PPX_def sw16Z.PPX_def sw16SZ.PPX_def sw8.PPX_def sw4.PPX_def
  sw32.BPX_def sw32Z.BPX_def sw16.BPX_def sw16S.BPX_def sw16Z.BPX_def sw16SZ.BPX_def sw8.BPX_def sw4.BPX_def

text \<open>
  C37: a pixel written in any of the thirteen formats by the accessors of the table is read back with
  the bits the format keeps, and no other pixel of the buffer changes.
\<close>

theorem pixel_roundtrip:
  assumes p: "psm \<in> set psm_formats" and i: "inside (GetOffset bp bw psm) x y" "inside (GetOffset bp bw psm) x' y'"
  shows "\<exists>m'. wp (m_psm psm) x y c bp bw m = Some m' \<and>
    rp (m_psm psm) x y bp bw m' = Some (c AND mask (trbpp (m_psm psm))) \<and>
    ((x', y') \<noteq> (x, y) \<longrightarrow> rp (m_psm psm) x' y' bp bw m' = rp (m_psm psm) x' y' bp bw m)"
proof -
  have o: "off_swz (mkGSOffset z bp bw) = z" for z by (simp add: mkGSOffset_def)
  from p consider "psm = PSM_PSMCT32" | "psm = PSM_PSMCT24" | "psm = PSM_PSMCT16" | "psm = PSM_PSMCT16S" | "psm = PSM_PSMT8"
    | "psm = PSM_PSMT4" | "psm = PSM_PSMT8H" | "psm = PSM_PSMT4HL" | "psm = PSM_PSMT4HH" | "psm = PSM_PSMZ32"
    | "psm = PSM_PSMZ24" | "psm = PSM_PSMZ16" | "psm = PSM_PSMZ16S"
    by (auto simp: psm_formats_def)
  then show ?thesis
  proof cases
    case 1
    show ?thesis
      using sw32.pixel_rw [OF st32.pixel_store_axioms _ _ o] i by (simp add: 1 psm_access pages)
  next
    case 2
    show ?thesis
      using sw32.pixel_rw [OF st24.pixel_store_axioms _ _ o] i by (simp add: 2 psm_access pages)
  next
    case 3
    show ?thesis
      using sw16.pixel_rw [OF st16.pixel_store_axioms _ _ o] i by (simp add: 3 psm_access pages)
  next
    case 4
    show ?thesis
      using sw16S.pixel_rw [OF st16.pixel_store_axioms _ _ o] i by (simp add: 4 psm_access pages)
  next
    case 5
    show ?thesis
      using sw8.pixel_rw [OF st8.pixel_store_axioms _ _ o] i by (simp add: 5 psm_access pages)
  next
    case 6
    show ?thesis
      using sw4.pixel_rw [OF st4.pixel_store_axioms _ _ o] i by (simp add: 6 psm_access pages)
  next
    case 7
    show ?thesis
      using sw32.pixel_rw [OF st8H.pixel_store_axioms _ _ o] i by (simp add: 7 psm_access pages)
  next
    case 8
    show ?thesis
      using sw32.pixel_rw [OF st4HL.pixel_store_axioms _ _ o] i by (simp add: 8 psm_access pages)
  next
    case 9
    show ?thesis
      using sw32.pixel_rw [OF st4HH.pixel_store_axioms _ _ o] i by (simp add: 9 psm_access pages)
  next
    case 10
    show ?thesis
      using sw32Z.pixel_rw [OF st32.pixel_store_axioms _ _ o] i by (simp add: 10 psm_access pages)
  next
    case 11
    show ?thesis
      using sw32Z.pixel_rw [OF st24.pixel_store_axioms _ _ o] i by (simp add: 11 psm_access pages)
  next
    case 12
    show ?thesis
      using sw16Z.pixel_rw [OF st16.pixel_store_axioms _ _ o] i by (simp add: 12 psm_access pages)
  next
    case 13
    show ?thesis
      using sw16SZ.pixel_rw [OF st16.pixel_store_axioms _ _ o] i by (simp add: 13 psm_access pages)
  qed
qed


lemma pixel_roundtrip_witness:
  "\<forall>m. \<exists>m'. wp (m_psm PSM_PSMT4) 100 70 0x1c 7 4 m = Some m' \<and>
    rp (m_psm PSM_PSMT4) 100 70 7 4 m' = Some (0x1c AND mask (trbpp (m_psm PSM_PSMT4))) \<and>
    rp (m_psm PSM_PSMT4) 101 70 7 4 m' = rp (m_psm PSM_PSMT4) 101 70 7 4 m"
proof
  fix m
  have "m_pageShiftX swizzle4 = 7" "m_pageShiftY swizzle4 = 7" by (simp_all add: sw4.info)
  then have "inside (GetOffset 7 4 PSM_PSMT4) 100 70" "inside (GetOffset 7 4 PSM_PSMT4) 101 70"
    by (simp_all add: GetOffset_def m_psm_def psm_default_def inside_def mkGSOffset_def drop_bit_eq_div)
  then show "\<exists>m'. wp (m_psm PSM_PSMT4) 100 70 0x1c 7 4 m = Some m' \<and>
    rp (m_psm PSM_PSMT4) 100 70 7 4 m' = Some (0x1c AND mask (trbpp (m_psm PSM_PSMT4))) \<and>
    rp (m_psm PSM_PSMT4) 101 70 7 4 m' = rp (m_psm PSM_PSMT4) 101 70 7 4 m"
    using pixel_roundtrip [where psm = PSM_PSMT4 and bp = 7 and bw = 4 and x = 100 and y = 70 and x' = 101 and y' = 70 and c = "0x1c" and m = m] by (simp add: psm_formats_def)
qed

end
