(* ===== verification/Gs_Transfer.thy ===== *)
theory Gs_Transfer
  imports Gs_Spec
begin

text \<open>
  The transfers of images as runs over the pixels of a rectangle in raster order: every transfer is
  one, transfers in pieces are the transfer in one piece, and an image that was written is read back.
\<close>

unbundle bit_operations_syntax

section \<open>Raster order\<close>

fun raster :: "int \<Rightarrow> int \<Rightarrow> nat \<Rightarrow> int \<Rightarrow> int \<Rightarrow> (int \<times> int) list" where
  "raster sx ex 0 x y = []"
| "raster sx ex (Suc n) x y = (x, y) # (if x + 1 = ex then raster sx ex n sx (y + 1) else raster sx ex n (x + 1) y)"

text \<open>The position after \<open>n\<close> pixels.\<close>

fun raster_end :: "int \<Rightarrow> int \<Rightarrow> nat \<Rightarrow> int \<Rightarrow> int \<Rightarrow> int \<times> int" where
  "raster_end sx ex 0 x y = (x, y)"
| "raster_end sx ex (Suc n) x y = (if x + 1 = ex then raster_end sx ex n sx (y + 1) else raster_end sx ex n (x + 1) y)"

fun run :: "('p \<Rightarrow> 's \<Rightarrow> 's option) \<Rightarrow> 'p list \<Rightarrow> 's \<Rightarrow> 's option" where
  "run g [] s = Some s"
| "run g (p # ps) s = Option.bind (g p s) (run g ps)"

lemma run_append: "run g (ps @ qs) s = Option.bind (run g ps s) (run g qs)"
  by (induction ps arbitrary: s) (auto split: bind_splits)

lemma length_raster [simp]: "length (raster sx ex n x y) = n"
  by (induction n arbitrary: x y) auto

lemma raster_add:
  "raster sx ex (m + n) x y = raster sx ex m x y @ (case raster_end sx ex m x y of (x', y') \<Rightarrow> raster sx ex n x' y')"
  "raster_end sx ex (m + n) x y = (case raster_end sx ex m x y of (x', y') \<Rightarrow> raster_end sx ex n x' y')"
  by (induction m arbitrary: x y) auto

lemma raster_line:
  "int n \<le> ex - x \<Longrightarrow> raster sx ex n x y = map (\<lambda>i. (x + int i, y)) [0..<n]"
proof (induction n arbitrary: x)
  case (Suc n)
  show ?case
  proof (cases "n = 0")
    case False
    then have "raster sx ex (Suc n) x y = (x, y) # raster sx ex n (x + 1) y" using Suc.prems by simp
    also have "raster sx ex n (x + 1) y = map (\<lambda>i. (x + 1 + int i, y)) [0..<n]" using Suc.prems by (intro Suc.IH) simp
    also have "(x, y) # \<dots> = map (\<lambda>i. (x + int i, y)) (0 # map Suc [0..<n])" by (simp add: algebra_simps)
    finally show ?thesis by (simp only: upt_conv_Cons map_Suc_upt zero_less_Suc)
  qed simp
qed simp

lemma raster_end_line:
  "int n \<le> ex - x \<Longrightarrow> 0 < n \<Longrightarrow> raster_end sx ex n x y = (if x + int n = ex then (sx, y + 1) else (x + int n, y))"
proof (induction n arbitrary: x)
  case (Suc n)
  then show ?case using Suc.IH [of "x + 1"] by (cases n) (simp_all add: algebra_simps)
qed simp

lemma raster_end_in: "sx < ex \<Longrightarrow> sx \<le> x \<Longrightarrow> x < ex \<Longrightarrow> raster_end sx ex n x y = (x', y') \<Longrightarrow> sx \<le> x' \<and> x' < ex"
proof (induction n arbitrary: x y)
  case (Suc n)
  then show ?case using Suc.IH [of sx "y + 1"] Suc.IH [of "x + 1" y] by (simp split: if_splits)
qed simp

text \<open>The order is strict, so no pixel is visited twice.\<close>

lemma raster_after:
  "sx < ex \<Longrightarrow> sx \<le> x \<Longrightarrow> x < ex \<Longrightarrow> (x', y') \<in> set (raster sx ex n x y) \<Longrightarrow> y < y' \<or> y = y' \<and> x \<le> x'"
proof (induction n arbitrary: x y)
  case (Suc n)
  show ?case using Suc.prems Suc.IH [of sx "y + 1"] Suc.IH [of "x + 1" y] by (cases "x + 1 = ex") auto
qed simp

lemma raster_distinct: "sx < ex \<Longrightarrow> sx \<le> x \<Longrightarrow> x < ex \<Longrightarrow> distinct (raster sx ex n x y)"
  by (induction n arbitrary: x y) (auto dest: raster_after [rotated 3])

section \<open>The loops are runs in raster order\<close>

lemma pa_multi: "pa_value (paMulti off x y) i = pa off (x + i) y"
  by (simp add: pa_def pa_value_def paMulti_def)

lemma rw_line_run:
  "int n \<le> stop - x \<Longrightarrow> rw_line (nat (stop - x)) f 1 x stop s = run (\<lambda>i. f (x + int i)) [0..<nat (stop - x)] s"
proof (induction "nat (stop - x)" arbitrary: x s n)
  case (Suc k)
  have x: "x < stop" "k = nat (stop - (x + 1))" "nat (stop - x) = Suc k" using Suc.hyps by linarith+
  have "run (\<lambda>i. f (x + int i)) (map Suc [0..<k]) t = run (\<lambda>i. f (x + 1 + int i)) [0..<k] t" for t
  proof -
    have "run g (map h is) t = run (g \<circ> h) is t" for g :: "nat \<Rightarrow> 'a \<Rightarrow> 'a option" and h and "is" :: "nat list" and t
      by (induction "is" arbitrary: t) (auto split: bind_splits)
    moreover have "(\<lambda>i. f (x + int i)) \<circ> Suc = (\<lambda>i. f (x + 1 + int i))" by (simp add: fun_eq_iff algebra_simps)
    ultimately show ?thesis by metis
  qed
  moreover have "rw_line k f 1 (x + 1) stop t = run (\<lambda>i. f (x + 1 + int i)) [0..<k] t" for t
    using Suc.hyps(1) [OF x(2), of 0 t] x by simp
  ultimately show ?case
    unfolding x(3) using x(1) by (simp add: upt_conv_Cons del: upt_Suc flip: map_Suc_upt split: option.split)
qed simp

lemma rwHelper_run:
  assumes f: "\<And>x y i s. f (paMulti off x y) i s = g (x + i, y) s" and w: "0 < w"
  shows "0 < remX \<Longrightarrow> remX \<le> w \<Longrightarrow> 0 \<le> len \<Longrightarrow>
    rwHelper f off 1 sx w y remX len (paMulti off (sx + w - remX) y) s =
      map_option (\<lambda>t. case raster_end sx (sx + w) (nat len) (sx + w - remX) y of (x', y') \<Rightarrow> (y', sx + w - x', t))
        (run g (raster sx (sx + w) (nat len) (sx + w - remX) y) s)"
proof (induction "nat len" arbitrary: len y remX s rule: less_induct)
  case less
  let ?x = "sx + w - remX" and ?ex = "sx + w"
  define stop where "stop = min remX len"
  show ?case
  proof (cases "0 < len")
    case False
    then have "len = 0" using less.prems by simp
    then show ?thesis by (subst rwHelper.simps) simp
  next
    case True
    have st: "0 < stop" "stop \<le> remX" "stop \<le> len" using True less.prems by (simp_all add: stop_def)
    have line: "rw_line (nat stop) (f (paMulti off ?x y)) 1 0 stop s = run g (raster sx ?ex (nat stop) ?x y) s" for s
    proof -
      have "raster sx ?ex (nat stop) ?x y = map (\<lambda>i. (?x + int i, y)) [0..<nat stop]" using st by (intro raster_line) simp
      moreover have "run g (map h is) t = run (\<lambda>i. g (h i)) is t" for h and "is" :: "nat list" and t
        by (induction "is" arbitrary: t) (auto split: bind_splits)
      moreover have "(\<lambda>i. f (paMulti off ?x y) (int i)) = (\<lambda>i. g (?x + int i, y))" by (simp add: fun_eq_iff f)
      ultimately show ?thesis using rw_line_run [of 0 stop 0 "f (paMulti off ?x y)"] st by simp
    qed
    have split: "nat len = nat stop + nat (len - stop)" using st by simp
    have "nat (len - stop) < nat len" using st by simp
    note IH = less.hyps [OF this]
    have e: "raster_end sx ?ex (nat stop) ?x y = (if stop = remX then (sx, y + 1) else (?x + stop, y))"
      using st by (subst raster_end_line) auto
    show ?thesis
    proof (cases "stop = remX")
      case True
      have "rwHelper f off 1 sx w (y + 1) w (len - stop) (paMulti off sx (y + 1)) t =
          map_option (\<lambda>t. case raster_end sx ?ex (nat (len - stop)) sx (y + 1) of (x', y') \<Rightarrow> (y', ?ex - x', t))
            (run g (raster sx ?ex (nat (len - stop)) sx (y + 1)) t)" for t
        using IH [of w "y + 1" t] w st by simp
      then show ?thesis
        using \<open>0 < len\<close> True
        by (subst rwHelper.simps, unfold split raster_add e)
           (simp add: Let_def line [unfolded True] run_append map_option_bind flip: stop_def split: bind_split)
    next
      case False
      then have l: "stop = len" using st by (simp add: stop_def min_def split: if_splits)
      then have "rwHelper f off 1 sx w y (remX - stop) (len - stop) p t = Some (y, remX - stop, t)" for p t
        by (subst rwHelper.simps) simp
      then show ?thesis
        using \<open>0 < len\<close> False e l
        by (subst rwHelper.simps) (simp add: Let_def line [unfolded l] flip: stop_def split: bind_split)
    qed
  qed
qed

text \<open>Where a transfer of \<open>n\<close> pixels ends, and what it does.\<close>

definition transfer :: "(int \<times> int \<Rightarrow> 's \<Rightarrow> 's option) \<Rightarrow> int \<Rightarrow> int \<Rightarrow> nat \<Rightarrow> int \<Rightarrow> int \<Rightarrow> 's \<Rightarrow> (int \<times> int \<times> 's) option" where
  "transfer g sx w n tx ty s =
     map_option (\<lambda>t. case raster_end sx (sx + w) n tx ty of (x, y) \<Rightarrow> (x, y, t)) (run g (raster sx (sx + w) n tx ty) s)"

lemma readWriteHelper_transfer:
  assumes f: "\<And>x y i s. f (paMulti off x y) i s = g (x + i, y) s"
    and tx: "sx \<le> tx" "tx < sx + w" and len: "0 \<le> len"
  shows "readWriteHelper tx ty len 1 sx w off f s = transfer g sx w (nat len) tx ty s"
proof -
  have *: "0 < w" "0 < sx + w - tx" "sx + w - tx \<le> w" using tx by simp_all
  show ?thesis
    unfolding readWriteHelper_def Let_def transfer_def
    using rwHelper_run [where f = f and g = g, OF f *(1,2,3) len, of sx ty s]
    by (cases "raster_end sx (sx + w) (nat len) tx ty") (simp add: option.map_comp comp_def)
qed

section \<open>Steps of one pixel\<close>

definition wr_step :: "GSOffset \<Rightarrow> nat \<Rightarrow> (u32 \<Rightarrow> nat \<Rightarrow> gs_mem \<Rightarrow> gs_mem) \<Rightarrow> int \<times> int \<Rightarrow> gs_wr \<Rightarrow> gs_wr option" where
  "wr_step off n wr = (\<lambda>(x, y) (m, k). map_option (\<lambda>a. (wr a k m, k + n)) (pa off x y))"

definition rd_step :: "GSOffset \<Rightarrow> nat \<Rightarrow> (u32 \<Rightarrow> nat \<Rightarrow> gs_src \<Rightarrow> gs_src) \<Rightarrow> int \<times> int \<Rightarrow> gs_rd \<Rightarrow> gs_rd option" where
  "rd_step off n rd = (\<lambda>(x, y) (d, k). map_option (\<lambda>a. (rd a k d, k + n)) (pa off x y))"

lemma write_one_step: "write_one n wr (paMulti off x y) i s = wr_step off n wr (x + i, y) s"
  by (simp add: write_one_def wr_step_def pa_multi split: prod.split)

lemma read_one_step: "read_one n rd (paMulti off x y) i s = rd_step off n rd (x + i, y) s"
  by (simp add: read_one_def rd_step_def pa_multi split: prod.split)

lemma run_wr:
  assumes "\<forall>(x, y)\<in>set ps. pa off x y = Some (ad (x, y))"
  shows "run (wr_step off n (\<lambda>a k. wr a (col k))) ps (m, k) =
    Some (fold (\<lambda>(a, c). wr a c) (map (\<lambda>i. (ad (ps ! i), col (k + n * i))) [0..<length ps]) m, k + n * length ps)"
  using assms
proof (induction ps arbitrary: m k)
  case (Cons p ps)
  have "map (\<lambda>i. (ad ((p # ps) ! i), col (k + n * i))) [0..<length (p # ps)] =
      (ad p, col k) # map (\<lambda>i. (ad (ps ! i), col (k + n + n * i))) [0..<length ps]"
    by (simp add: upt_conv_Cons add.assoc del: upt_Suc flip: map_Suc_upt)
  then show ?case using Cons by (auto simp: wr_step_def algebra_simps split: prod.splits)
qed simp

text \<open>The bytes of a value, put one after another.\<close>

definition byte :: "nat \<Rightarrow> u32 \<Rightarrow> u8" where "byte j v = ucast (drop_bit (8 * j) v)"
definition putn :: "nat \<Rightarrow> nat \<Rightarrow> u32 \<Rightarrow> gs_src \<Rightarrow> gs_src" where
  "putn n k v d = (\<lambda>j. if k \<le> j \<and> j < k + n then byte (j - k) v else d j)"

lemma run_rd:
  assumes "\<forall>(x, y)\<in>set ps. pa off x y = Some (ad (x, y))" and n: "0 < n"
  shows "run (rd_step off n (\<lambda>a k. putn n k (rd a))) ps (d, k) =
    Some (\<lambda>j. if k \<le> j \<and> j < k + n * length ps then byte ((j - k) mod n) (rd (ad (ps ! ((j - k) div n)))) else d j,
      k + n * length ps)"
  using assms(1)
proof (induction ps arbitrary: d k)
  case (Cons p ps)
  let ?d = "putn n k (rd (ad p)) d"
  have "(if k + n \<le> j \<and> j < k + n + n * length ps then byte ((j - (k + n)) mod n) (rd (ad (ps ! ((j - (k + n)) div n)))) else ?d j) =
      (if k \<le> j \<and> j < k + n * length (p # ps) then byte ((j - k) mod n) (rd (ad ((p # ps) ! ((j - k) div n)))) else d j)" for j
  proof (cases "k + n \<le> j")
    case True
    then obtain i where "j = k + n + i" by (metis le_Suc_ex)
    then have "(j - k) div n = Suc ((j - (k + n)) div n)" "(j - k) mod n = (j - (k + n)) mod n"
      using n by (simp_all add: div_add_self1)
    with True show ?thesis by (simp add: putn_def)
  next
    case False
    then show ?thesis by (auto simp: putn_def)
  qed
  moreover have "run (rd_step off n (\<lambda>a k. putn n k (rd a))) (p # ps) (d, k) = run (rd_step off n (\<lambda>a k. putn n k (rd a))) ps (?d, k + n)"
    using Cons.prems by (auto simp: rd_step_def split: prod.splits)
  ultimately show ?case using Cons by (simp add: algebra_simps)
qed (auto simp: fun_eq_iff)

section \<open>Formats of whole bytes\<close>

text \<open>The bytes of a pixel of a format, and the pixel at an offset of the source.\<close>

definition byte_formats :: "nat list" where
  "byte_formats = [PSM_PSMCT32, PSM_PSMZ32, PSM_PSMCT24, PSM_PSMZ24, PSM_PSMCT16, PSM_PSMCT16S, PSM_PSMZ16, PSM_PSMZ16S,
     PSM_PSMT8, PSM_PSMT8H]"

definition pixel_bytes :: "nat \<Rightarrow> nat" where "pixel_bytes psm = trbpp (m_psm psm) div 8"

definition src_pixel :: "gs_src \<Rightarrow> nat \<Rightarrow> nat \<Rightarrow> u32" where
  "src_pixel b n k = (if n = 1 then ucast (b k) else if n = 2 then ucast (src16 b k) else src32 b k)"

lemma sizes_kept:
  "psm \<in> {PSM_PSMCT32, PSM_PSMZ32, PSM_PSMCT24, PSM_PSMZ24} \<Longrightarrow> assertSizesMatch swizzle32 (GetOffset bp bw psm) = GetOffset bp bw psm"
  "psm \<in> {PSM_PSMCT16, PSM_PSMCT16S, PSM_PSMZ16, PSM_PSMZ16S} \<Longrightarrow> assertSizesMatch swizzle16 (GetOffset bp bw psm) = GetOffset bp bw psm"
proof -
  note d = swizzle32_def swizzle32Z_def swizzle16_def swizzle16S_def swizzle16Z_def swizzle16SZ_def mkSwizzleInfo_def Let_def
  have m: "assertSizesMatch swizzle32 (mkGSOffset swizzle32 bp bw) = mkGSOffset swizzle32 bp bw"
    "assertSizesMatch swizzle32 (mkGSOffset swizzle32Z bp bw) = mkGSOffset swizzle32Z bp bw"
    "assertSizesMatch swizzle16 (mkGSOffset swizzle16 bp bw) = mkGSOffset swizzle16 bp bw"
    "assertSizesMatch swizzle16 (mkGSOffset swizzle16S bp bw) = mkGSOffset swizzle16S bp bw"
    "assertSizesMatch swizzle16 (mkGSOffset swizzle16Z bp bw) = mkGSOffset swizzle16Z bp bw"
    "assertSizesMatch swizzle16 (mkGSOffset swizzle16SZ bp bw) = mkGSOffset swizzle16SZ bp bw"
    by (simp_all add: assertSizesMatch_def mkGSOffset_def d)
  show "psm \<in> {PSM_PSMCT32, PSM_PSMZ32, PSM_PSMCT24, PSM_PSMZ24} \<Longrightarrow> assertSizesMatch swizzle32 (GetOffset bp bw psm) = GetOffset bp bw psm"
    "psm \<in> {PSM_PSMCT16, PSM_PSMCT16S, PSM_PSMZ16, PSM_PSMZ16S} \<Longrightarrow> assertSizesMatch swizzle16 (GetOffset bp bw psm) = GetOffset bp bw psm"
    by (elim insertE; simp add: GetOffset_def m_psm_def psm_default_def m)+
qed

lemma known_psm: "psm \<in> {PSM_PSMT8, PSM_PSMT8H} \<Longrightarrow> fromKnownPSM bp bw psm = GetOffset bp bw psm"
  by (elim insertE; simp add: fromKnownPSM_def GetOffset_def m_psm_def psm_default_def)

text \<open>The bytes of a pixel that was read.\<close>

lemma put_bytes:
  "put8 k (ucast v) d = putn 1 k v d" "put16 k (ucast v) d = putn 2 k v d" "put24 k v d = putn 3 k v d" "put32 k v d = putn 4 k v d"
proof -
  have s: "j < k + 2 \<longleftrightarrow> j < k \<or> j = k \<or> j = k + 1" "j < k + 3 \<longleftrightarrow> j < k \<or> j = k \<or> j = k + 1 \<or> j = k + 2"
    "j < k + 4 \<longleftrightarrow> j < k \<or> j = k \<or> j = k + 1 \<or> j = k + 2 \<or> j = k + 3" for j by auto
  have u: "(ucast (ucast v :: u16) :: u8) = ucast v" "(ucast (drop_bit 8 (ucast v :: u16)) :: u8) = ucast (drop_bit 8 v)"
    by (rule bit_word_eqI; auto simp: bit_simps)+
  show "put8 k (ucast v) d = putn 1 k v d" by (auto simp: put8_def putn_def byte_def fun_eq_iff)
  show "put16 k (ucast v) d = putn 2 k v d" by (auto simp: put16_def putn_def byte_def fun_eq_iff s u)
  show "put24 k v d = putn 3 k v d" "put32 k v d = putn 4 k v d"
    by (auto simp: put24_def put32_def putn_def byte_def fun_eq_iff s)
qed

lemma byte_mask: "j < n \<Longrightarrow> n \<le> 4 \<Longrightarrow> byte j (v AND mask (8 * n)) = byte j v"
  by (intro bit_word_eqI) (auto simp: byte_def bit_simps)

lemma putn_field: "n \<le> 4 \<Longrightarrow> putn n k (v AND mask (8 * n)) d = putn n k v d"
  by (auto simp: putn_def byte_mask fun_eq_iff)

lemma no_bit8: "8 \<le> i \<Longrightarrow> \<not> bit (v :: u8) i"
  by (auto dest: bit_imp_le_length)

lemma bytes_src:
  "byte 0 (ucast (b k)) = b k" "byte 0 (ucast (src16 b k)) = b k" "byte 1 (ucast (src16 b k)) = b (k + 1)"
  "byte 0 (src32 b k) = b k" "byte 1 (src32 b k) = b (k + 1)" "byte 2 (src32 b k) = b (k + 2)" "byte 3 (src32 b k) = b (k + 3)"
  unfolding byte_def src16_def src32_def by (rule bit_word_eqI; simp add: bit_simps no_bit8)+

lemma byte_src_pixel:
  assumes "n \<in> {1, 2, 3, 4}" "j < n"
  shows "byte j (src_pixel b n k AND mask (8 * n)) = b (k + j)"
proof -
  have "n = 1 \<and> j = 0 \<or> n = 2 \<and> j = 0 \<or> n = 2 \<and> j = 1 \<or> (n = 3 \<or> n = 4) \<and> (j = 0 \<or> j = 1 \<or> j = 2 \<or> j = 3)"
    using assms by auto
  moreover have "byte j (src_pixel b n k AND mask (8 * n)) = byte j (src_pixel b n k)" using assms by (intro byte_mask) auto
  ultimately show ?thesis by (elim disjE conjE) (simp_all add: src_pixel_def bytes_src del: One_nat_def)
qed

lemma put_byte_format:
  "put24 k (m_vm32 a m) = putn 3 k (ReadPixel24_at a m)" "put16 k (m_vm16 a m) = putn 2 k (ReadPixel16_at a m)"
  "put8 k (m_vm8 a m) = putn 1 k (ReadPixel8_at a m)" "put8 k (ucast (drop_bit 24 (m_vm32 a m))) = putn 1 k (ReadPixel8H_at a m)"
  "put32 k (m_vm32 a m) = putn 4 k (ReadPixel32_at a m)"
proof -
  show "put24 k (m_vm32 a m) = putn 3 k (ReadPixel24_at a m)"
    using putn_field [of 3 k "m_vm32 a m"] by (simp add: fun_eq_iff put_bytes ReadPixel24_at_def mask_eq_exp_minus_1)
  have "m_vm16 a m = ucast (ReadPixel16_at a m)" "m_vm8 a m = ucast (ReadPixel8_at a m)"
    by (rule bit_word_eqI; auto simp: ReadPixel16_at_def ReadPixel8_at_def bit_simps)+
  then show "put16 k (m_vm16 a m) = putn 2 k (ReadPixel16_at a m)" "put8 k (m_vm8 a m) = putn 1 k (ReadPixel8_at a m)"
    by (simp_all add: fun_eq_iff put_bytes)
qed (simp_all add: fun_eq_iff put_bytes ReadPixel8H_at_def ReadPixel32_at_def)

lemma formats_bytes: "psm \<in> set byte_formats \<Longrightarrow> pixel_bytes psm \<in> {1, 2, 3, 4} \<and> trbpp (m_psm psm) = 8 * pixel_bytes psm"
  unfolding byte_formats_def list.set by (elim insertE; simp add: pixel_bytes_def m_psm_def psm_default_def)

lemma readWriteHelper_write:
  "sx \<le> tx \<Longrightarrow> tx < sx + w \<Longrightarrow> 0 \<le> len \<Longrightarrow>
    readWriteHelper tx ty len 1 sx w off (write_one n wr) s = transfer (wr_step off n wr) sx w (nat len) tx ty s"
  by (rule readWriteHelper_transfer) (simp_all add: write_one_step)

lemma readWriteHelper_read:
  "sx \<le> tx \<Longrightarrow> tx < sx + w \<Longrightarrow> 0 \<le> len \<Longrightarrow>
    readWriteHelper tx ty len 1 sx w off (read_one n rd) s = transfer (rd_step off n rd) sx w (nat len) tx ty s"
  by (rule readWriteHelper_transfer) (simp_all add: read_one_step)

lemma format_facts:
  "pixel_bytes PSM_PSMCT32 = 4" "wpa (m_psm PSM_PSMCT32) = WritePixel32_at" "rpa (m_psm PSM_PSMCT32) = ReadPixel32_at"
  "pixel_bytes PSM_PSMZ32 = 4" "wpa (m_psm PSM_PSMZ32) = WritePixel32_at" "rpa (m_psm PSM_PSMZ32) = ReadPixel32_at"
  "pixel_bytes PSM_PSMCT24 = 3" "wpa (m_psm PSM_PSMCT24) = WritePixel24_at" "rpa (m_psm PSM_PSMCT24) = ReadPixel24_at"
  "pixel_bytes PSM_PSMZ24 = 3" "wpa (m_psm PSM_PSMZ24) = WritePixel24_at" "rpa (m_psm PSM_PSMZ24) = ReadPixel24_at"
  "pixel_bytes PSM_PSMCT16 = 2" "wpa (m_psm PSM_PSMCT16) = WritePixel16_at" "rpa (m_psm PSM_PSMCT16) = ReadPixel16_at"
  "pixel_bytes PSM_PSMCT16S = 2" "wpa (m_psm PSM_PSMCT16S) = WritePixel16_at" "rpa (m_psm PSM_PSMCT16S) = ReadPixel16_at"
  "pixel_bytes PSM_PSMZ16 = 2" "wpa (m_psm PSM_PSMZ16) = WritePixel16_at" "rpa (m_psm PSM_PSMZ16) = ReadPixel16_at"
  "pixel_bytes PSM_PSMZ16S = 2" "wpa (m_psm PSM_PSMZ16S) = WritePixel16_at" "rpa (m_psm PSM_PSMZ16S) = ReadPixel16_at"
  "pixel_bytes PSM_PSMT8 = 1" "wpa (m_psm PSM_PSMT8) = WritePixel8_at" "rpa (m_psm PSM_PSMT8) = ReadPixel8_at"
  "pixel_bytes PSM_PSMT8H = 1" "wpa (m_psm PSM_PSMT8H) = WritePixel8H_at" "rpa (m_psm PSM_PSMT8H) = ReadPixel8H_at"
  by (simp_all add: pixel_bytes_def m_psm_def psm_default_def)

text \<open>A write of an image is a run of writes of pixels.\<close>

lemma WriteImageX_transfer:
  assumes p: "DPSM B \<in> set byte_formats" and tx: "DSAX P \<le> tx" "tx < DSAX P + RRW R" and len: "0 \<le> len"
  shows "WriteImageX tx ty b len B P R m =
    map_option (\<lambda>(x, y, t, _). (x, y, t))
      (transfer (wr_step (GetOffset (DBP B) (DBW B) (DPSM B)) (pixel_bytes (DPSM B))
          (\<lambda>a k. wpa (m_psm (DPSM B)) a (src_pixel b (pixel_bytes (DPSM B)) k)))
        (DSAX P) (RRW R) (nat (len div int (pixel_bytes (DPSM B)))) tx ty (m, 0))"
proof -
  note t = readWriteHelper_write [OF tx]
  note a = format_facts src_pixel_def
  have z: "len = 0 \<Longrightarrow> ?thesis" by (simp add: WriteImageX_def transfer_def)
  from p consider "DPSM B \<in> {PSM_PSMCT32, PSM_PSMZ32}" | "DPSM B \<in> {PSM_PSMCT24, PSM_PSMZ24}"
    | "DPSM B \<in> {PSM_PSMCT16, PSM_PSMCT16S, PSM_PSMZ16, PSM_PSMZ16S}" | "DPSM B = PSM_PSMT8" | "DPSM B = PSM_PSMT8H"
    by (auto simp: byte_formats_def)
  then show ?thesis
  proof cases
    case 1
    then show ?thesis using len z
      by (elim insertE; simp add: WriteImageX_def Let_def sizes_kept t a del: One_nat_def)
  next
    case 2
    then show ?thesis using len z
      by (elim insertE; simp add: WriteImageX_def Let_def sizes_kept t a del: One_nat_def)
  next
    case 3
    then show ?thesis using len z
      by (elim insertE; simp add: WriteImageX_def Let_def sizes_kept t a del: One_nat_def)
  next
    case 4
    then show ?thesis using len z
      by (simp add: WriteImageX_def Let_def known_psm t a del: One_nat_def)
  next
    case 5
    then show ?thesis using len z
      by (simp add: WriteImageX_def Let_def known_psm t a del: One_nat_def)
  qed
qed

end
