(* ===== verification/Gs_Read32.thy ===== *)
theory Gs_Read32
  imports Gs_Transfer
begin

text \<open>
  The read of 32 bit pixels, whose loop takes eight pixels of a column at once, is the loop over
  the pixels; with it every read of an image is a run of reads of pixels.
\<close>

unbundle bit_operations_syntax

section \<open>Eight pixels of a column\<close>

definition column_order :: "nat list" where "column_order = [0, 1, 4, 5, 8, 9, 12, 13]"

lemma columnTable32_order: "y < 8 \<Longrightarrow> i < 8 \<Longrightarrow> columnTable32 ! y ! i = columnTable32 ! y ! 0 + column_order ! i"
proof -
  have "list_all (\<lambda>row. list_all (\<lambda>i. row ! i = row ! 0 + column_order ! i) [0..<8]) columnTable32"
    by (simp add: columnTable32_def column_order_def upt_rec)
  then have o: "\<forall>row\<in>set columnTable32. \<forall>i\<in>set [0..<8]. row ! i = row ! 0 + column_order ! i"
    by (simp only: list_all_iff)
  assume "y < 8" "i < 8"
  then have "columnTable32 ! y \<in> set columnTable32" "i \<in> set [0..<8]" by (simp_all add: sw32.ct_dims(1))
  with o show "columnTable32 ! y ! i = columnTable32 ! y ! 0 + column_order ! i" by blast
qed

context swizzle
begin

lemma address_column:
  assumes ct: "\<And>y i. y < CH \<Longrightarrow> i < 8 \<Longrightarrow> ct ! y ! i = ct ! y ! 0 + column_order ! i" and CW: "CW = 8"
    and x: "0 \<le> x" "x mod 8 = 0" and i: "i < 8"
  shows "address off (x + int i) y = address off x y + int (column_order ! i)"
proof -
  have cx: "cx = 3" using CW ct_dims(3) power_inject_exp [of "2 :: nat" cx 3] by simp
  have e: "sx = 3 + (sx - 3)" using page by simp
  obtain q where q: "x = 8 * q" using x(2) by auto
  have p: "(2 :: int) ^ sx = 8 * 2 ^ (sx - 3)" by (subst e, subst power_add) simp
  have d: "(8 * q + int i) div (8 * 2 ^ (sx - 3)) = q div 2 ^ (sx - 3)" "(8 * q + int i) mod (8 * 2 ^ (sx - 3)) = 8 * (q mod 2 ^ (sx - 3)) + int i"
  proof -
    have "(8 * q + int i) div 8 = q" "(8 * q + int i) mod 8 = int i" using i by simp_all
    then show "(8 * q + int i) div (8 * 2 ^ (sx - 3)) = q div 2 ^ (sx - 3)" "(8 * q + int i) mod (8 * 2 ^ (sx - 3)) = 8 * (q mod 2 ^ (sx - 3)) + int i"
      by (simp_all add: zdiv_zmult2_eq zmod_zmult2_eq)
  qed
  define r where "r = nat (q mod 2 ^ (sx - 3))"
  have r: "q mod 2 ^ (sx - 3) = int r" by (simp add: r_def)
  have ip: "in_page (x + int i) y = in_page x y + column_order ! i"
    using i ct [of "nat (y mod 2 ^ sy) mod CH" i]
    unfolding in_page_def inpage_def q p d r
    by (simp add: CW r nat_add_distrib nat_mult_distrib)
  show ?thesis unfolding address_def ip using d by (simp add: q p)
qed

end

lemma pa_column:
  assumes z: "z \<in> {swizzle32, swizzle32Z}" and x: "0 \<le> x" "x + 8 \<le> 2048" "x mod 8 = 0" and y: "0 \<le> y" and i: "i < 8"
  shows "\<exists>a. pa (mkGSOffset z bp bw) x y = Some a \<and> pa (mkGSOffset z bp bw) (x + int i) y = Some (a + of_nat (column_order ! i))"
proof -
  have xi: "0 \<le> x" "x < 2048" "0 \<le> x + int i" "x + int i < 2048" using x i by simp_all
  have w: "(word_of_int (u + int n) :: u32) = word_of_int u + of_nat n" for u n by simp
  have o: "off_swz (mkGSOffset s bp bw) = s" for s by (simp add: mkGSOffset_def)
  from z show ?thesis
  proof (elim insertE emptyE)
    assume s: "z = swizzle32"
    show ?thesis
      unfolding s sw32.pa_eq [OF o xi(1,2) y] sw32.pa_eq [OF o xi(3,4) y]
      by (subst sw32.address_column [OF columnTable32_order _ x(1,3) i]) (simp_all add: w)
  next
    assume s: "z = swizzle32Z"
    show ?thesis
      unfolding s sw32Z.pa_eq [OF o xi(1,2) y] sw32Z.pa_eq [OF o xi(3,4) y]
      by (subst sw32Z.address_column [OF columnTable32_order _ x(1,3) i]) (simp_all add: w)
  qed
qed

section \<open>The loops\<close>

definition span :: "(int \<times> int \<Rightarrow> 's \<Rightarrow> 's option) \<Rightarrow> int \<Rightarrow> int \<Rightarrow> nat \<Rightarrow> 's \<Rightarrow> 's option" where
  "span g x y c = run g (map (\<lambda>i. (x + int i, y)) [0..<c])"

lemma span_0 [simp]: "span g x y 0 s = Some s"
  by (simp add: span_def)

lemma span_add: "span g x y (a + b) s = Option.bind (span g x y a s) (span g (x + int a) y b)"
proof -
  have "map (\<lambda>i. (x + int i, y)) [a..<a + b] = map (\<lambda>i. (x + int a + int i, y)) [0..<b]"
    by (rule nth_equalityI) simp_all
  moreover have "[0..<a + b] = [0..<a] @ [a..<a + b]" by (rule upt_add_eq_append) simp
  ultimately show ?thesis by (simp add: span_def run_append)
qed

lemma span_1 [simp]: "span g x y (Suc 0) s = g (x, y) s"
  by (cases "g (x, y) s") (simp_all add: span_def)

lemma span_trans: "span g x y a s = Some t \<Longrightarrow> span g (x + int a) y b t = r \<Longrightarrow> span g x y (a + b) s = r"
  by (simp add: span_add)

abbreviation step32 :: "gs_mem \<Rightarrow> GSOffset \<Rightarrow> int \<times> int \<Rightarrow> gs_rd \<Rightarrow> gs_rd option" where
  "step32 m off \<equiv> rd_step off 4 (\<lambda>a k. put32 k (m_vm32 a m))"

text \<open>One pixel at a time, until the line or the length is over or the condition fails.\<close>

lemma read32_single_span:
  assumes tot: "\<And>x s. 0 \<le> x \<Longrightarrow> x < ex \<Longrightarrow> step32 m off (x, y) s \<noteq> None"
  shows "nat len \<le> n \<Longrightarrow> 0 \<le> len \<Longrightarrow> 0 \<le> x \<Longrightarrow> x \<le> ex \<Longrightarrow>
    \<exists>c t. read32_single n cont m ex (paMulti off 0 y) len x s = Some (len - int c, x + int c, t) \<and>
      span (step32 m off) x y c s = Some t \<and> int c \<le> len \<and> x + int c \<le> ex \<and>
      (int c = len \<or> x + int c = ex \<or> \<not> cont (x + int c))"
proof (induction n arbitrary: len x s)
  case 0
  then show ?case by (intro exI [of _ 0] exI [of _ s]) auto
next
  case (Suc n)
  show ?case
  proof (cases "len > 0 \<and> x < ex \<and> cont x")
    case False
    then show ?thesis using Suc.prems by (intro exI [of _ 0] exI [of _ s]) auto
  next
    case True
    then obtain t where t: "step32 m off (x, y) s = Some t" using tot [of x s] Suc.prems by auto
    have r: "read_one 4 (\<lambda>a k. put32 k (m_vm32 a m)) (paMulti off 0 y) x s = Some t"
      using t read_one_step [of 4 _ off 0 y x s] by simp
    from True Suc.prems have "nat (len - 1) \<le> n" "0 \<le> len - 1" "0 \<le> x + 1" "x + 1 \<le> ex" by simp_all
    from Suc.IH [OF this, of t] obtain c u where c:
      "read32_single n cont m ex (paMulti off 0 y) (len - 1) (x + 1) t = Some (len - 1 - int c, x + 1 + int c, u)"
      "span (step32 m off) (x + 1) y c t = Some u" "int c \<le> len - 1" "x + 1 + int c \<le> ex"
      "int c = len - 1 \<or> x + 1 + int c = ex \<or> \<not> cont (x + 1 + int c)" by blast
    have "span (step32 m off) x y (Suc 0 + c) s = Some u" by (rule span_trans [where t = t]) (simp_all add: t c)
    then show ?thesis using c True r
      by (intro exI [of _ "Suc c"] exI [of _ u]) (simp add: algebra_simps)
  qed
qed

text \<open>Eight pixels of an aligned column at once.\<close>

lemma read32_eight_span:
  assumes z: "z \<in> {swizzle32, swizzle32Z}" and x: "0 \<le> x" "x + 8 \<le> 2048" "x mod 8 = 0" and y: "0 \<le> y"
  shows "read32_eight m (paMulti (mkGSOffset z bp bw) 0 y) x s = span (step32 m (mkGSOffset z bp bw)) x y 8 s"
proof -
  let ?off = "mkGSOffset z bp bw"
  obtain d k where s: "s = (d, k)" by (cases s)
  obtain a where a: "pa ?off x y = Some a" using pa_column [OF assms, of 0 bp bw] by auto
  have c: "pa ?off (x + int i) y = Some (a + of_nat (column_order ! i))" if "i < 8" for i
    using pa_column [OF assms that, of bp bw] a by auto
  have n: "column_order ! 0 = 0" "column_order ! 1 = 1" "column_order ! 2 = 4" "column_order ! 3 = 5"
    "column_order ! 4 = 8" "column_order ! 5 = 9" "column_order ! 6 = 12" "column_order ! 7 = 13"
    by (simp_all add: column_order_def)
  have p: "pa ?off x y = Some a" "pa ?off (x + 1) y = Some (a + 1)" "pa ?off (x + 2) y = Some (a + 4)" "pa ?off (x + 3) y = Some (a + 5)"
    "pa ?off (x + 4) y = Some (a + 8)" "pa ?off (x + 5) y = Some (a + 9)" "pa ?off (x + 6) y = Some (a + 12)" "pa ?off (x + 7) y = Some (a + 13)"
    using c [of 0] c [of 1] c [of 2] c [of 3] c [of 4] c [of 5] c [of 6] c [of 7] by (simp_all add: n [simplified])
  have "[0..<8] = [0, 1, 2, 3, 4, 5, 6, 7 :: nat]" by (simp add: upt_rec)
  then show ?thesis
    by (simp add: read32_eight_def span_def s rd_step_def pa_multi p) (simp add: add.commute)
qed

lemma read32_column_span:
  assumes z: "z \<in> {swizzle32, swizzle32Z}" and ex: "ex \<le> 2048" and y: "0 \<le> y" and off: "off = mkGSOffset z bp bw"
    and tot: "\<And>x s. 0 \<le> x \<Longrightarrow> x + 8 \<le> ex \<Longrightarrow> span (step32 m off) x y 8 s \<noteq> None"
  shows "nat len \<le> n \<Longrightarrow> 0 \<le> len \<Longrightarrow> 0 \<le> x \<Longrightarrow> x \<le> ex \<Longrightarrow> len < 8 \<or> ex < x + 8 \<or> x mod 8 = 0 \<Longrightarrow>
    \<exists>c t. read32_column n m ex (paMulti off 0 y) len x s = Some (len - int c, x + int c, t) \<and>
      span (step32 m off) x y c s = Some t \<and> int c \<le> len \<and> x + int c \<le> ex"
proof (induction n arbitrary: len x s)
  case 0
  then show ?case by (intro exI [of _ 0] exI [of _ s]) auto
next
  case (Suc n)
  show ?case
  proof (cases "len \<ge> 8 \<and> x \<le> ex - 8")
    case False
    then show ?thesis using Suc.prems by (intro exI [of _ 0] exI [of _ s]) auto
  next
    case True
    then have x: "0 \<le> x" "x + 8 \<le> 2048" "x mod 8 = 0" "x + 8 \<le> ex" using Suc.prems ex by auto
    obtain t where t: "span (step32 m off) x y 8 s = Some t" using tot [OF x(1,4), of s] by auto
    have e: "read32_eight m (paMulti off 0 y) x s = Some t"
      using read32_eight_span [OF z x(1-3) y] t by (simp add: off)
    have "nat (len - 8) \<le> n" "0 \<le> len - 8" "0 \<le> x + 8" "x + 8 \<le> ex" "len - 8 < 8 \<or> ex < x + 8 + 8 \<or> (x + 8) mod 8 = 0"
      using True x Suc.prems by simp_all
    from Suc.IH [OF this, of t] obtain c u where c:
      "read32_column n m ex (paMulti off 0 y) (len - 8) (x + 8) t = Some (len - 8 - int c, x + 8 + int c, u)"
      "span (step32 m off) (x + 8) y c t = Some u" "int c \<le> len - 8" "x + 8 + int c \<le> ex" by blast
    have "span (step32 m off) x y (8 + c) s = Some u" by (rule span_trans [where t = t]) (simp_all add: t c)
    then show ?thesis using c True e
      by (intro exI [of _ "8 + c"] exI [of _ u]) (simp add: algebra_simps)
  qed
qed

text \<open>A line, and the loop over the lines.\<close>

lemma read32_line_span:
  assumes z: "z \<in> {swizzle32, swizzle32Z}" and ex: "ex \<le> 2048" and y: "0 \<le> y" and off: "off = mkGSOffset z bp bw"
    and x: "0 \<le> x" "x \<le> ex" and len: "0 \<le> len"
  shows "\<exists>c t. read32_line m ex (paMulti off 0 y) len x s = Some (len - int c, x + int c, t) \<and>
      span (step32 m off) x y c s = Some t \<and> int c = min len (ex - x)"
proof -
  have pa: "pa off x y \<noteq> None" if "0 \<le> x" "x < ex" for x
    using z that ex y sw32.pa_eq [of off x y] sw32Z.pa_eq [of off x y] by (auto simp: off mkGSOffset_def)
  have one: "step32 m off (x, y) s \<noteq> None" if "0 \<le> x" "x < ex" for x s
    using pa [OF that] by (cases s) (simp add: rd_step_def)
  have "span (step32 m off) x y n s \<noteq> None" if "0 \<le> x" "x + int n \<le> ex" for x n s
    using that
  proof (induction n arbitrary: x s)
    case (Suc n)
    obtain t where t: "step32 m off (x, y) s = Some t" using one [of x s] Suc.prems by auto
    then have "span (step32 m off) x y (Suc 0 + n) s = span (step32 m off) (x + 1) y n t" by (subst span_add) simp
    then show ?case using Suc.IH [of "x + 1" t] Suc.prems by simp
  qed simp
  then have eight: "span (step32 m off) x y 8 s \<noteq> None" if "0 \<le> x" "x + 8 \<le> ex" for x s
    using that by simp
  note single = read32_single_span [where m = m and ex = ex, OF one]
  note column = read32_column_span [where m = m, OF z ex y off eight]
  obtain c1 s1 where 1: "read32_single (nat len) (\<lambda>x. x AND 7 \<noteq> 0) m ex (paMulti off 0 y) len x s = Some (len - int c1, x + int c1, s1)"
    "span (step32 m off) x y c1 s = Some s1" "int c1 \<le> len" "x + int c1 \<le> ex"
    "int c1 = len \<or> x + int c1 = ex \<or> (x + int c1) AND 7 = 0"
    using single [where len = len and n = "nat len" and x = x and cont = "\<lambda>x. x AND 7 \<noteq> 0" and s = s] x len by auto
  have "len - int c1 < 8 \<or> ex < x + int c1 + 8 \<or> (x + int c1) mod 8 = 0"
    using 1(5) and_mask_mod [of "x + int c1" 3] by auto
  then obtain c2 s2 where 2: "read32_column (nat (len - int c1)) m ex (paMulti off 0 y) (len - int c1) (x + int c1) s1 =
      Some (len - int c1 - int c2, x + int c1 + int c2, s2)"
    "span (step32 m off) (x + int c1) y c2 s1 = Some s2" "int c2 \<le> len - int c1" "x + int c1 + int c2 \<le> ex"
    using column [where len = "len - int c1" and n = "nat (len - int c1)" and x = "x + int c1" and s = s1] 1(3,4) x by auto
  obtain c3 s3 where 3: "read32_single (nat (len - int c1 - int c2)) (\<lambda>_. True) m ex (paMulti off 0 y) (len - int c1 - int c2) (x + int c1 + int c2) s2 =
      Some (len - int c1 - int c2 - int c3, x + int c1 + int c2 + int c3, s3)"
    "span (step32 m off) (x + int c1 + int c2) y c3 s2 = Some s3" "int c3 \<le> len - int c1 - int c2" "x + int c1 + int c2 + int c3 \<le> ex"
    "int c3 = len - int c1 - int c2 \<or> x + int c1 + int c2 + int c3 = ex"
    using single [where len = "len - int c1 - int c2" and n = "nat (len - int c1 - int c2)" and x = "x + int c1 + int c2" and cont = "\<lambda>_. True" and s = s2] 2(3,4) x by auto
  have "span (step32 m off) x y (c1 + (c2 + c3)) s = Some s3"
    by (rule span_trans [OF 1(2)], rule span_trans [OF 2(2)], rule 3(2))
  then show ?thesis using 1 2 3
    by (intro exI [of _ "c1 + (c2 + c3)"] exI [of _ s3]) (auto simp: read32_line_def algebra_simps)
qed

lemma read32_loop_transfer:
  assumes z: "z \<in> {swizzle32, swizzle32Z}" and off: "off = mkGSOffset z bp bw" and sx: "0 \<le> sx" and ex: "sx + w \<le> 2048"
  shows "0 \<le> y \<Longrightarrow> sx \<le> x \<Longrightarrow> x < sx + w \<Longrightarrow> 0 \<le> len \<Longrightarrow>
    read32_loop m off sx (sx + w) x y len (paMulti off 0 y) s = transfer (step32 m off) sx w (nat len) x y s"
proof (induction "nat len" arbitrary: len x y s rule: less_induct)
  case less
  let ?ex = "sx + w"
  show ?case
  proof (cases "0 < len")
    case False
    then have "len = 0" using less.prems by simp
    then show ?thesis by (subst read32_loop.simps) (simp add: transfer_def)
  next
    case True
    obtain c t where c: "read32_line m ?ex (paMulti off 0 y) len x s = Some (len - int c, x + int c, t)"
      "span (step32 m off) x y c s = Some t" "int c = min len (?ex - x)"
      using read32_line_span [OF z ex less.prems(1) off _ _ less.prems(4), of x m s] less.prems sx by auto
    have n: "nat len = c + nat (len - int c)" "0 < c" "int c \<le> ?ex - x" using c(3) True less.prems by auto
    have lt: "nat (len - int c) < nat len" "0 \<le> len - int c" using n c(3) by auto
    have r: "run (step32 m off) (raster sx ?ex c x y) s = Some t"
      using c(2) by (simp add: span_def raster_line [OF n(3)])
    have e: "raster_end sx ?ex c x y = (if x + int c = ?ex then (sx, y + 1) else (x + int c, y))"
      by (rule raster_end_line [OF n(3,2)])
    show ?thesis
    proof (cases "x + int c = ?ex")
      case end_line: True
      have "read32_loop m off sx ?ex sx (y + 1) (len - int c) (paMulti off 0 (y + 1)) t =
          transfer (step32 m off) sx w (nat (len - int c)) sx (y + 1) t"
        using less.prems by (intro less.hyps lt) auto
      then show ?thesis using True c(1) end_line
        by (subst read32_loop.simps) (simp add: transfer_def n(1) raster_add run_append r e)
    next
      case False
      then have l: "len = int c" using c(3) by (simp add: min_def split: if_splits)
      have "read32_loop m off sx ?ex (x + int c) y 0 p t = Some (x + int c, y, t)" for p
        by (subst read32_loop.simps) simp
      then show ?thesis using True c(1) False
        by (subst read32_loop.simps) (simp add: l transfer_def r e)
    qed
  qed
qed

text \<open>A read of an image is a run of reads of pixels.\<close>

lemma ReadImageX_transfer:
  assumes p: "SPSM B \<in> set byte_formats" and tx: "SSAX P \<le> tx" "tx < SSAX P + RRW R" and len: "0 \<le> len"
    and in32: "0 \<le> SSAX P" "SSAX P + RRW R \<le> 2048" "0 \<le> ty"
  shows "ReadImageX tx ty d len B P R m =
    map_option (\<lambda>(x, y, t, _). (x, y, t))
      (transfer (rd_step (GetOffset (SBP B) (SBW B) (SPSM B)) (pixel_bytes (SPSM B))
          (\<lambda>a k. putn (pixel_bytes (SPSM B)) k (rpa (m_psm (SPSM B)) a m)))
        (SSAX P) (RRW R) (nat (len div int (pixel_bytes (SPSM B)))) tx ty (d, 0))"
proof -
  note t = readWriteHelper_read [OF tx]
  note a = format_facts put_byte_format
  have z: "len = 0 \<Longrightarrow> ?thesis" by (simp add: ReadImageX_def transfer_def)
  from p consider "SPSM B = PSM_PSMCT32" | "SPSM B = PSM_PSMZ32" | "SPSM B \<in> {PSM_PSMCT24, PSM_PSMZ24}"
    | "SPSM B \<in> {PSM_PSMCT16, PSM_PSMCT16S, PSM_PSMZ16, PSM_PSMZ16S}" | "SPSM B = PSM_PSMT8" | "SPSM B = PSM_PSMT8H"
    by (auto simp: byte_formats_def)
  then show ?thesis
  proof cases
    case 1
    have "GetOffset (SBP B) (SBW B) PSM_PSMCT32 = mkGSOffset swizzle32 (SBP B) (SBW B)" by (simp add: GetOffset_def m_psm_def psm_default_def)
    note l = read32_loop_transfer [OF _ this in32(1,2,3) tx]
    show ?thesis using 1 len z by (simp add: ReadImageX_def Let_def sizes_kept l a)
  next
    case 2
    have "GetOffset (SBP B) (SBW B) PSM_PSMZ32 = mkGSOffset swizzle32Z (SBP B) (SBW B)" by (simp add: GetOffset_def m_psm_def psm_default_def)
    note l = read32_loop_transfer [OF _ this in32(1,2,3) tx]
    show ?thesis using 2 len z by (simp add: ReadImageX_def Let_def sizes_kept l a)
  next
    case 3
    then show ?thesis using len z
      by (elim insertE; simp add: ReadImageX_def Let_def sizes_kept t a del: One_nat_def)
  next
    case 4
    then show ?thesis using len z
      by (elim insertE; simp add: ReadImageX_def Let_def sizes_kept t a del: One_nat_def)
  next
    case 5
    then show ?thesis using len z
      by (simp add: ReadImageX_def Let_def known_psm t a del: One_nat_def)
  next
    case 6
    then show ?thesis using len z
      by (simp add: ReadImageX_def Let_def known_psm t a del: One_nat_def)
  qed
qed

end
