(* ===== verification/Gs_Round.thy ===== *)
theory Gs_Round
  imports Gs_Read32
begin

text \<open>
  Images: an image that was written is read back, a transfer in two pieces is the transfer in one,
  and formats that share words without sharing bits do not disturb each other.
\<close>

unbundle bit_operations_syntax

section \<open>Images of pixels of whole bytes\<close>

context swizzle
begin

lemma image_rw:
  assumes st: "pixel_store rd wr nb M L" and M: "int M = MAX_PAGES * int PPX" and L: "2 ^ 30 \<le> L" and off: "off_swz off = z"
    and ps: "\<forall>(x, y)\<in>set ps. inside off x y" "distinct ps" and n: "0 < n"
  shows "\<exists>m' d'. run (wr_step off n (\<lambda>a k. wr a (col k))) ps (m, 0) = Some (m', n * length ps) \<and>
    run (rd_step off n (\<lambda>a k. putn n k (rd a m'))) ps (d, 0) = Some (d', n * length ps) \<and>
    (\<forall>j < n * length ps. d' j = byte (j mod n) (col (n * (j div n)) AND mask nb))"
proof -
  define ad where "ad p = the (pa off (fst p) (snd p))" for p
  have pa: "pa off x y = Some (ad (x, y)) \<and> unat (ad (x, y)) < L" if "(x, y) \<in> set ps" for x y
  proof -
    have "inside off x y" using ps(1) that by blast
    then show ?thesis using pa_unat [OF off _ M, of x y] L by (auto simp: ad_def)
  qed
  then have al: "\<forall>(x, y)\<in>set ps. pa off x y = Some (ad (x, y))" by auto
  let ?ws = "map (\<lambda>i. (ad (ps ! i), col (0 + n * i))) [0..<length ps]"
  define m' where "m' = fold (\<lambda>(a, c). wr a c) ?ws m"
  have dist: "distinct (map (\<lambda>(a, c). unat a mod M) ?ws)"
  proof -
    have "unat (ad (ps ! i)) mod M \<noteq> unat (ad (ps ! j)) mod M" if "i < length ps" "j < length ps" "i \<noteq> j" for i j
    proof -
      obtain x y x' y' where e: "ps ! i = (x, y)" "ps ! j = (x', y')" by (cases "ps ! i", cases "ps ! j")
      have s: "(x, y) \<in> set ps" "(x', y') \<in> set ps" "(x, y) \<noteq> (x', y')"
        using that ps(2) e nth_mem [of i ps] nth_mem [of j ps] nth_eq_iff_index_eq [of ps i j] by auto
      then have i: "inside off x y" "inside off x' y'" using ps(1) by auto
      show ?thesis unfolding e using pixel_differs [OF off i M _ _ s(3)] pa s by blast
    qed
    then show ?thesis by (simp add: distinct_map inj_on_def comp_def) fastforce
  qed
  have rd: "rd (ad (ps ! i)) m' = col (n * i) AND mask nb" if "i < length ps" for i
    unfolding m'_def
  proof (rule pixel_store.rd_fold_same [OF st _ dist])
    show "\<forall>(a, c)\<in>set ?ws. unat a < L"
      using pa by (auto simp: set_conv_nth) (metis nth_mem surj_pair)
    show "(ad (ps ! i), col (n * i)) \<in> set ?ws" using that by auto
  qed
  have "byte (j mod n) (rd (ad (ps ! (j div n))) m') = byte (j mod n) (col (n * (j div n)) AND mask nb)" if "j < n * length ps" for j
    using rd [of "j div n"] that by (simp add: less_mult_imp_div_less mult.commute)
  then show ?thesis
    using run_wr [OF al, of n wr col m 0] run_rd [OF al n, of "\<lambda>a. rd a m'" d 0]
    by (simp add: m'_def)
qed

end

lemma format_offsets:
  "GetOffset bp bw PSM_PSMCT32 = mkGSOffset swizzle32 bp bw"
  "GetOffset bp bw PSM_PSMZ32 = mkGSOffset swizzle32Z bp bw"
  "GetOffset bp bw PSM_PSMCT24 = mkGSOffset swizzle32 bp bw"
  "GetOffset bp bw PSM_PSMZ24 = mkGSOffset swizzle32Z bp bw"
  "GetOffset bp bw PSM_PSMCT16 = mkGSOffset swizzle16 bp bw"
  "GetOffset bp bw PSM_PSMCT16S = mkGSOffset swizzle16S bp bw"
  "GetOffset bp bw PSM_PSMZ16 = mkGSOffset swizzle16Z bp bw"
  "GetOffset bp bw PSM_PSMZ16S = mkGSOffset swizzle16SZ bp bw"
  "GetOffset bp bw PSM_PSMT8 = mkGSOffset swizzle8 bp bw"
  "GetOffset bp bw PSM_PSMT8H = mkGSOffset swizzle32 bp bw"
  by (simp_all add: GetOffset_def m_psm_def psm_default_def)

lemma image_formats:
  assumes p: "psm \<in> set byte_formats"
    and ps: "\<forall>(x, y)\<in>set ps. inside (GetOffset bp bw psm) x y" "distinct ps"
  shows "\<exists>m' d'. run (wr_step (GetOffset bp bw psm) (pixel_bytes psm) (\<lambda>a k. wpa (m_psm psm) a (col k))) ps (m, 0) =
      Some (m', pixel_bytes psm * length ps) \<and>
    run (rd_step (GetOffset bp bw psm) (pixel_bytes psm) (\<lambda>a k. putn (pixel_bytes psm) k (rpa (m_psm psm) a m'))) ps (d, 0) =
      Some (d', pixel_bytes psm * length ps) \<and>
    (\<forall>j < pixel_bytes psm * length ps.
       d' j = byte (j mod pixel_bytes psm) (col (pixel_bytes psm * (j div pixel_bytes psm)) AND mask (8 * pixel_bytes psm)))"
proof -
  have o: "off_swz (mkGSOffset z bp bw) = z" for z by (simp add: mkGSOffset_def)
  from p consider "psm = PSM_PSMCT32" | "psm = PSM_PSMZ32" | "psm = PSM_PSMCT24" | "psm = PSM_PSMZ24" | "psm = PSM_PSMCT16" | "psm = PSM_PSMCT16S" | "psm = PSM_PSMZ16" | "psm = PSM_PSMZ16S" | "psm = PSM_PSMT8" | "psm = PSM_PSMT8H"
    by (auto simp: byte_formats_def)
  then show ?thesis
  proof cases
    case 1
    show ?thesis
      using sw32.image_rw [OF st32.pixel_store_axioms _ _ o ps(1) [unfolded 1 format_offsets] ps(2), of 4 col m d]
      by (simp add: 1 format_facts format_offsets pages del: One_nat_def)
  next
    case 2
    show ?thesis
      using sw32Z.image_rw [OF st32.pixel_store_axioms _ _ o ps(1) [unfolded 2 format_offsets] ps(2), of 4 col m d]
      by (simp add: 2 format_facts format_offsets pages del: One_nat_def)
  next
    case 3
    show ?thesis
      using sw32.image_rw [OF st24.pixel_store_axioms _ _ o ps(1) [unfolded 3 format_offsets] ps(2), of 3 col m d]
      by (simp add: 3 format_facts format_offsets pages del: One_nat_def)
  next
    case 4
    show ?thesis
      using sw32Z.image_rw [OF st24.pixel_store_axioms _ _ o ps(1) [unfolded 4 format_offsets] ps(2), of 3 col m d]
      by (simp add: 4 format_facts format_offsets pages del: One_nat_def)
  next
    case 5
    show ?thesis
      using sw16.image_rw [OF st16.pixel_store_axioms _ _ o ps(1) [unfolded 5 format_offsets] ps(2), of 2 col m d]
      by (simp add: 5 format_facts format_offsets pages del: One_nat_def)
  next
    case 6
    show ?thesis
      using sw16S.image_rw [OF st16.pixel_store_axioms _ _ o ps(1) [unfolded 6 format_offsets] ps(2), of 2 col m d]
      by (simp add: 6 format_facts format_offsets pages del: One_nat_def)
  next
    case 7
    show ?thesis
      using sw16Z.image_rw [OF st16.pixel_store_axioms _ _ o ps(1) [unfolded 7 format_offsets] ps(2), of 2 col m d]
      by (simp add: 7 format_facts format_offsets pages del: One_nat_def)
  next
    case 8
    show ?thesis
      using sw16SZ.image_rw [OF st16.pixel_store_axioms _ _ o ps(1) [unfolded 8 format_offsets] ps(2), of 2 col m d]
      by (simp add: 8 format_facts format_offsets pages del: One_nat_def)
  next
    case 9
    show ?thesis
      using sw8.image_rw [OF st8.pixel_store_axioms _ _ o ps(1) [unfolded 9 format_offsets] ps(2), of 1 col m d]
      by (simp add: 9 format_facts format_offsets pages del: One_nat_def)
  next
    case 10
    show ?thesis
      using sw32.image_rw [OF st8H.pixel_store_axioms _ _ o ps(1) [unfolded 10 format_offsets] ps(2), of 1 col m d]
      by (simp add: 10 format_facts format_offsets pages del: One_nat_def)
  qed
qed

text \<open>
  C38: an image of whole bytes that was written by \<open>WriteImageX\<close> is read back by \<open>ReadImageX\<close> byte
  for byte, from any position of the rectangle and for any length, as long as its pixels lie in
  the memory; both end at the same position.
\<close>

theorem image_roundtrip:
  assumes psm: "DPSM B \<in> set byte_formats" and len: "0 \<le> len"
    and x: "0 \<le> DSAX P" "DSAX P \<le> tx" "tx < DSAX P + RRW R" "DSAX P + RRW R \<le> 2048" and y: "0 \<le> ty"
    and inside: "list_all (\<lambda>(x, y). inside (GetOffset (DBP B) (DBW B) (DPSM B)) x y)
      (raster (DSAX P) (DSAX P + RRW R) (nat (len div int (pixel_bytes (DPSM B)))) tx ty)"
    and same: "SPSM B = DPSM B" "SBP B = DBP B" "SBW B = DBW B" "SSAX P = DSAX P"
  shows "\<exists>tx' ty' m' d'. WriteImageX tx ty b len B P R m = Some (tx', ty', m') \<and>
    ReadImageX tx ty d len B P R m' = Some (tx', ty', d') \<and>
    (\<forall>j < pixel_bytes (DPSM B) * nat (len div int (pixel_bytes (DPSM B))). d' j = b j)"
proof -
  let ?n = "pixel_bytes (DPSM B)" and ?off = "GetOffset (DBP B) (DBW B) (DPSM B)"
  let ?ps = "raster (DSAX P) (DSAX P + RRW R) (nat (len div int ?n)) tx ty"
  have n: "?n \<in> {1, 2, 3, 4}" using formats_bytes [OF psm] by simp
  have ps: "\<forall>(x, y)\<in>set ?ps. inside ?off x y" "distinct ?ps"
    using inside raster_distinct [of "DSAX P" "DSAX P + RRW R" tx] x by (simp_all add: list_all_iff)
  have "\<exists>m' d'. run (wr_step ?off ?n (\<lambda>a k. wpa (m_psm (DPSM B)) a (src_pixel b ?n k))) ?ps (m, 0) = Some (m', ?n * length ?ps) \<and>
    run (rd_step ?off ?n (\<lambda>a k. putn ?n k (rpa (m_psm (DPSM B)) a m'))) ?ps (d, 0) = Some (d', ?n * length ?ps) \<and>
    (\<forall>j < ?n * length ?ps. d' j = byte (j mod ?n) (src_pixel b ?n (?n * (j div ?n)) AND mask (8 * ?n)))"
    by (rule image_formats [OF psm ps])
  then obtain m' d' where w: "run (wr_step ?off ?n (\<lambda>a k. wpa (m_psm (DPSM B)) a (src_pixel b ?n k))) ?ps (m, 0) = Some (m', ?n * length ?ps)"
    and r: "run (rd_step ?off ?n (\<lambda>a k. putn ?n k (rpa (m_psm (DPSM B)) a m'))) ?ps (d, 0) = Some (d', ?n * length ?ps)"
    and d: "\<forall>j < ?n * length ?ps. d' j = byte (j mod ?n) (src_pixel b ?n (?n * (j div ?n)) AND mask (8 * ?n))" by blast
  obtain tx' ty' where e: "raster_end (DSAX P) (DSAX P + RRW R) (nat (len div int ?n)) tx ty = (tx', ty')" by fastforce
  have "d' j = b j" if "j < ?n * length ?ps" for j
  proof -
    have "j mod ?n < ?n" using n by auto
    then show ?thesis using d that byte_src_pixel [OF n, of "j mod ?n" b "?n * (j div ?n)"] by simp
  qed
  then show ?thesis
    using WriteImageX_transfer [OF psm x(2,3) len, of ty b m] w
      ReadImageX_transfer [of B P tx R len ty d m'] r psm x y len
    by (intro exI [of _ tx'] exI [of _ ty'] exI [of _ m'] exI [of _ d']) (simp add: transfer_def e same)
qed

lemma image_roundtrip_witness:
  "\<forall>b m d. \<exists>tx' ty' m' d'. WriteImageX 3 0 b 40 \<lparr>SBP = 5, SBW = 1, SPSM = PSM_PSMCT32, DBP = 5, DBW = 1, DPSM = PSM_PSMCT32\<rparr>
      \<lparr>SSAX = 2, SSAY = 0, DSAX = 2, DSAY = 0\<rparr> \<lparr>RRW = 4, RRH = 3\<rparr> m = Some (tx', ty', m') \<and>
    ReadImageX 3 0 d 40 \<lparr>SBP = 5, SBW = 1, SPSM = PSM_PSMCT32, DBP = 5, DBW = 1, DPSM = PSM_PSMCT32\<rparr>
      \<lparr>SSAX = 2, SSAY = 0, DSAX = 2, DSAY = 0\<rparr> \<lparr>RRW = 4, RRH = 3\<rparr> m' = Some (tx', ty', d') \<and>
    (\<forall>j < 4 * 10. d' j = b j)"
proof (intro allI)
  fix b m d
  let ?B = "\<lparr>SBP = 5, SBW = 1, SPSM = PSM_PSMCT32, DBP = 5, DBW = 1, DPSM = PSM_PSMCT32\<rparr>"
  have "10 = Suc (Suc (Suc (Suc (Suc (Suc (Suc (Suc (Suc (Suc 0)))))))))" by simp
  then have r: "raster 2 6 (nat 10) 3 0 = [(3, 0), (4, 0), (5, 0), (2, 1), (3, 1), (4, 1), (5, 1), (2, 2), (3, 2), (4, 2)]"
    by (simp only: nat_numeral raster.simps) simp
  have "m_pageShiftX swizzle32 = 6" "m_pageShiftY swizzle32 = 5" by (simp_all add: sw32.info)
  then have i: "list_all (\<lambda>(x, y). inside (GetOffset 5 1 PSM_PSMCT32) x y) (raster 2 6 (nat 10) 3 0)"
    by (simp only: r) (simp add: format_offsets inside_def mkGSOffset_def)
  show "\<exists>tx' ty' m' d'. WriteImageX 3 0 b 40 \<lparr>SBP = 5, SBW = 1, SPSM = PSM_PSMCT32, DBP = 5, DBW = 1, DPSM = PSM_PSMCT32\<rparr>
      \<lparr>SSAX = 2, SSAY = 0, DSAX = 2, DSAY = 0\<rparr> \<lparr>RRW = 4, RRH = 3\<rparr> m = Some (tx', ty', m') \<and>
    ReadImageX 3 0 d 40 \<lparr>SBP = 5, SBW = 1, SPSM = PSM_PSMCT32, DBP = 5, DBW = 1, DPSM = PSM_PSMCT32\<rparr>
      \<lparr>SSAX = 2, SSAY = 0, DSAX = 2, DSAY = 0\<rparr> \<lparr>RRW = 4, RRH = 3\<rparr> m' = Some (tx', ty', d') \<and>
    (\<forall>j < 4 * 10. d' j = b j)"
    using image_roundtrip [of ?B 40 "\<lparr>SSAX = 2, SSAY = 0, DSAX = 2, DSAY = 0\<rparr>" 3 "\<lparr>RRW = 4, RRH = 3\<rparr>" 0 b m d] i
    by (simp add: byte_formats_def format_facts)
qed

section \<open>Transfers in pieces\<close>

lemma run_wr_pos: "run (wr_step off n wr) ps (m, k) = Some (m', k') \<Longrightarrow> k' = k + n * length ps"
proof (induction ps arbitrary: m k)
  case (Cons p ps)
  then obtain m1 k1 where "wr_step off n wr p (m, k) = Some (m1, k1)" "run (wr_step off n wr) ps (m1, k1) = Some (m', k')"
    by (auto simp: bind_eq_Some_conv)
  moreover have "k1 = k + n" using calculation(1) by (auto simp: wr_step_def split: prod.splits)
  ultimately show ?case using Cons.IH [of m1 k1] by simp
qed simp

lemma run_wr_shift:
  "map_option fst (run (wr_step off n (\<lambda>a k. wr a (col (c + k)))) ps (m, k)) =
   map_option fst (run (wr_step off n (\<lambda>a k. wr a (col k))) ps (m, c + k))"
proof (induction ps arbitrary: m k)
  case (Cons p ps)
  obtain x y where p: "p = (x, y)" by (cases p)
  show ?case
  proof (cases "pa off x y")
    case (Some a)
    then show ?thesis using Cons [of "wr a (col (c + k)) m" "k + n"] by (simp add: wr_step_def p add.assoc)
  qed (simp add: wr_step_def p)
qed simp

lemma src_pixel_shift: "src_pixel (\<lambda>i. b (c + i)) n k = src_pixel b n (c + k)"
  by (simp add: src_pixel_def src16_def src32_def add.assoc)

lemma WriteImageX_run:
  assumes p: "DPSM B \<in> set byte_formats" and tx: "DSAX P \<le> tx" "tx < DSAX P + RRW R" and len: "0 \<le> len"
  shows "WriteImageX tx ty b len B P R m =
    (let n = pixel_bytes (DPSM B); c = nat (len div int n); ex = DSAX P + RRW R
     in map_option (\<lambda>t. case raster_end (DSAX P) ex c tx ty of (x, y) \<Rightarrow> (x, y, t))
          (map_option fst (run (wr_step (GetOffset (DBP B) (DBW B) (DPSM B)) n (\<lambda>a k. wpa (m_psm (DPSM B)) a (src_pixel b n k)))
             (raster (DSAX P) ex c tx ty) (m, 0))))"
  using WriteImageX_transfer [OF assms]
  by (simp add: Let_def transfer_def option.map_comp comp_def case_prod_unfold)

text \<open>The bytes behind the last whole pixel are dropped.\<close>

lemma cut_pixel_dropped:
  assumes psm: "DPSM B \<in> set byte_formats" and x: "DSAX P \<le> tx" "tx < DSAX P + RRW R" and len: "0 \<le> len"
  shows "WriteImageX tx ty b len B P R m = WriteImageX tx ty b (len - len mod int (pixel_bytes (DPSM B))) B P R m"
proof -
  have n: "0 < int (pixel_bytes (DPSM B))" using formats_bytes [OF psm] by auto
  with len have "0 \<le> len - len mod int (pixel_bytes (DPSM B))" by (simp add: zmod_le_nonneg_dividend)
  with n show ?thesis by (simp add: WriteImageX_run [OF psm x len] WriteImageX_run [OF psm x] minus_mod_eq_mult_div)
qed

text \<open>
  C39: in the formats of whole bytes (all but the three 4 bit ones) an image that comes in two pieces is
  written as if it came in one, when the second piece starts with the first byte of a pixel that the
  first one has not completed: with the byte behind the first piece when that ends with a pixel, and
  else at the start of the pixel that it cuts, which is dropped (\<open>len / 4\<close>, \<open>len / 3\<close> and \<open>len / 2\<close>
  round down).  A sender that goes on behind the first piece in the middle of a pixel loses bytes.
\<close>

theorem image_pieces:
  assumes psm: "DPSM B \<in> set byte_formats" and x: "DSAX P \<le> tx" "tx < DSAX P + RRW R"
    and len1: "0 \<le> len1" and len2: "0 \<le> len2"
    and whole: "whole = len1 - len1 mod int (pixel_bytes (DPSM B))"
  shows "WriteImageX tx ty b (whole + len2) B P R m =
    Option.bind (WriteImageX tx ty b len1 B P R m) (\<lambda>(x, y, t). WriteImageX x y (\<lambda>i. b (nat whole + i)) len2 B P R t)"
proof -
  let ?n = "pixel_bytes (DPSM B)" and ?off = "GetOffset (DBP B) (DBW B) (DPSM B)" and ?ex = "DSAX P + RRW R"
  let ?g = "wr_step ?off ?n (\<lambda>a j. wpa (m_psm (DPSM B)) a (src_pixel b ?n j))"
  define k where "k = nat (len1 div int ?n)"
  let ?g' = "wr_step ?off ?n (\<lambda>a j. wpa (m_psm (DPSM B)) a (src_pixel b ?n (?n * k + j)))"
  let ?k2 = "nat (len2 div int ?n)"
  have n: "0 < ?n" using formats_bytes [OF psm] by auto
  have wh: "whole = int (?n * k)"
    using n len1 by (simp add: whole k_def pos_imp_zdiv_nonneg_iff minus_mod_eq_mult_div)
  have k: "nat ((whole + len2) div int ?n) = k + ?k2" "nat whole = ?n * k" "0 \<le> whole"
    using n len2 by (simp_all only: wh nat_int) (simp_all add: nat_add_distrib pos_imp_zdiv_nonneg_iff)
  obtain x' y' where e: "raster_end (DSAX P) ?ex k tx ty = (x', y')" by fastforce
  have x': "DSAX P \<le> x'" "x' < ?ex" using raster_end_in [OF _ x e] x by auto
  have two: "WriteImageX x' y' (\<lambda>i. b (nat whole + i)) len2 B P R t =
      map_option (\<lambda>t. case raster_end (DSAX P) ?ex ?k2 x' y' of (x, y) \<Rightarrow> (x, y, t))
        (map_option fst (run ?g' (raster (DSAX P) ?ex ?k2 x' y') (t, 0)))" for t
    by (simp only: WriteImageX_run [OF psm x' len2] Let_def src_pixel_shift k(2))
  have shift: "map_option fst (run ?g' ps (t, 0)) = map_option fst (run ?g ps (t, ?n * k))" for ps t
    using run_wr_shift [of ?off ?n "wpa (m_psm (DPSM B))" "src_pixel b ?n" "?n * k" ps t 0] by simp
  have one: "WriteImageX tx ty b (whole + len2) B P R m =
      map_option (\<lambda>t. case raster_end (DSAX P) ?ex ?k2 x' y' of (x, y) \<Rightarrow> (x, y, t))
        (map_option fst (Option.bind (run ?g (raster (DSAX P) ?ex k tx ty) (m, 0)) (run ?g (raster (DSAX P) ?ex ?k2 x' y'))))"
    using k(3) len2 by (subst WriteImageX_run [OF psm x]) (simp_all add: Let_def k raster_add run_append e)
  have first: "WriteImageX tx ty b len1 B P R m =
      map_option (\<lambda>t. (x', y', t)) (map_option fst (run ?g (raster (DSAX P) ?ex k tx ty) (m, 0)))"
    by (subst WriteImageX_run [OF psm x len1]) (simp add: Let_def e flip: k_def)
  show ?thesis
  proof (cases "run ?g (raster (DSAX P) ?ex k tx ty) (m, 0)")
    case None
    then show ?thesis by (simp add: one first)
  next
    case (Some t)
    then obtain m' where t: "t = (m', ?n * k)" using run_wr_pos [of ?off ?n _ "raster (DSAX P) ?ex k tx ty" m 0 "fst t" "snd t"] by (cases t) fastforce
    show ?thesis by (simp only: one first Some t two shift Option.bind.simps option.map fst_conv prod.case)
  qed
qed

text \<open>A 24 bit image whose first piece ends with the first byte of the third pixel.\<close>

lemma image_pieces_witness:
  "\<forall>b m. WriteImageX 3 0 b (6 + 24) \<lparr>SBP = 5, SBW = 1, SPSM = PSM_PSMCT24, DBP = 5, DBW = 1, DPSM = PSM_PSMCT24\<rparr>
      \<lparr>SSAX = 2, SSAY = 0, DSAX = 2, DSAY = 0\<rparr> \<lparr>RRW = 4, RRH = 3\<rparr> m =
    Option.bind (WriteImageX 3 0 b 7 \<lparr>SBP = 5, SBW = 1, SPSM = PSM_PSMCT24, DBP = 5, DBW = 1, DPSM = PSM_PSMCT24\<rparr>
      \<lparr>SSAX = 2, SSAY = 0, DSAX = 2, DSAY = 0\<rparr> \<lparr>RRW = 4, RRH = 3\<rparr> m)
      (\<lambda>(x, y, t). WriteImageX x y (\<lambda>i. b (nat 6 + i)) 24 \<lparr>SBP = 5, SBW = 1, SPSM = PSM_PSMCT24, DBP = 5, DBW = 1, DPSM = PSM_PSMCT24\<rparr>
      \<lparr>SSAX = 2, SSAY = 0, DSAX = 2, DSAY = 0\<rparr> \<lparr>RRW = 4, RRH = 3\<rparr> t)"
  by (intro allI, rule image_pieces [where ?len1.0 = 7]) (simp_all add: byte_formats_def format_facts del: One_nat_def)

section \<open>Formats that share words\<close>

text \<open>Pairs of formats that keep their pixels in different bits of the same words.\<close>

definition planes :: "(nat \<times> nat) list" where
  "planes = [(PSM_PSMCT24, PSM_PSMT8H), (PSM_PSMCT24, PSM_PSMT4HL), (PSM_PSMCT24, PSM_PSMT4HH), (PSM_PSMT8H, PSM_PSMCT24),
     (PSM_PSMT4HL, PSM_PSMCT24), (PSM_PSMT4HH, PSM_PSMCT24), (PSM_PSMT4HL, PSM_PSMT4HH), (PSM_PSMT4HH, PSM_PSMT4HL)]"

lemma plane_rw:
  assumes f: "k + n \<le> k' \<or> k' + n' \<le> k" and i: "inside (mkGSOffset swizzle32 bp bw) x y" "inside (mkGSOffset swizzle32 bp bw) x' y'"
  shows "\<exists>m'. map_option (\<lambda>a. wr_field k' n' a c m) (pa (mkGSOffset swizzle32 bp bw) x y) = Some m' \<and>
    map_option (\<lambda>a. rd_field k n a m') (pa (mkGSOffset swizzle32 bp bw) x' y') =
    map_option (\<lambda>a. rd_field k n a m) (pa (mkGSOffset swizzle32 bp bw) x' y')"
proof -
  let ?off = "mkGSOffset swizzle32 bp bw"
  have o: "off_swz ?off = swizzle32" by (simp add: mkGSOffset_def)
  have M: "int (2 ^ 20) = MAX_PAGES * int sw32.PPX" by (simp add: pages)
  obtain a b where a: "pa ?off x y = Some a" "unat a < 2 ^ 30" and b: "pa ?off x' y' = Some b" "unat b < 2 ^ 30"
    using sw32.pa_unat [OF o i(1) M] sw32.pa_unat [OF o i(2) M] by blast
  have "a = b \<or> unat a < 2 ^ 30 \<and> unat b < 2 ^ 30 \<and> unat a mod 2 ^ 20 \<noteq> unat b mod 2 ^ 20"
    using sw32.pixel_differs [OF o i M a(1) b(1)] a b by (cases "(x, y) = (x', y')") auto
  then show ?thesis by (simp add: a b field_independent [OF f])
qed

text \<open>
  C40: a write of a pixel in one of the formats that share the 32 bit words (24 bit colour, and the 8
  and 4 bit formats in the high byte) leaves every pixel of a format in the other bits as it was.
\<close>

theorem planes_independent:
  assumes p: "(p, q) \<in> set planes" and i: "inside (GetOffset bp bw PSM_PSMCT32) x y" "inside (GetOffset bp bw PSM_PSMCT32) x' y'"
  shows "\<exists>m'. wp (m_psm p) x y c bp bw m = Some m' \<and> rp (m_psm q) x' y' bp bw m' = rp (m_psm q) x' y' bp bw m"
proof -
  note r = plane_rw [OF _ i [unfolded format_offsets]]
  have w: "wp (m_psm PSM_PSMCT24) x y c bp bw m = map_option (\<lambda>a. wr_field 0 24 a c m) (pa (mkGSOffset swizzle32 bp bw) x y)"
    "wp (m_psm PSM_PSMT8H) x y c bp bw m = map_option (\<lambda>a. wr_field 24 8 a c m) (pa (mkGSOffset swizzle32 bp bw) x y)"
    "wp (m_psm PSM_PSMT4HL) x y c bp bw m = map_option (\<lambda>a. wr_field 24 4 a c m) (pa (mkGSOffset swizzle32 bp bw) x y)"
    "wp (m_psm PSM_PSMT4HH) x y c bp bw m = map_option (\<lambda>a. wr_field 28 4 a c m) (pa (mkGSOffset swizzle32 bp bw) x y)"
    "rp (m_psm PSM_PSMCT24) x y bp bw m = map_option (\<lambda>a. rd_field 0 24 a m) (pa (mkGSOffset swizzle32 bp bw) x y)"
    "rp (m_psm PSM_PSMT8H) x y bp bw m = map_option (\<lambda>a. rd_field 24 8 a m) (pa (mkGSOffset swizzle32 bp bw) x y)"
    "rp (m_psm PSM_PSMT4HL) x y bp bw m = map_option (\<lambda>a. rd_field 24 4 a m) (pa (mkGSOffset swizzle32 bp bw) x y)"
    "rp (m_psm PSM_PSMT4HH) x y bp bw m = map_option (\<lambda>a. rd_field 28 4 a m) (pa (mkGSOffset swizzle32 bp bw) x y)" for x y m
    by (simp_all add: psm_access fields del: One_nat_def)
  have "p = PSM_PSMCT24 \<and> q \<in> {PSM_PSMT8H, PSM_PSMT4HL, PSM_PSMT4HH} \<or> q = PSM_PSMCT24 \<and> p \<in> {PSM_PSMT8H, PSM_PSMT4HL, PSM_PSMT4HH} \<or>
    p = PSM_PSMT4HL \<and> q = PSM_PSMT4HH \<or> p = PSM_PSMT4HH \<and> q = PSM_PSMT4HL"
    using p by (auto simp: planes_def)
  then show ?thesis
    by (elim disjE conjE insertE emptyE) (simp only: w, rule r, simp)+
qed

lemma planes_independent_witness:
  "\<forall>m. \<exists>m'. wp (m_psm PSM_PSMCT24) 7 9 0x123456 3 2 m = Some m' \<and> rp (m_psm PSM_PSMT8H) 7 9 3 2 m' = rp (m_psm PSM_PSMT8H) 7 9 3 2 m"
proof -
  have "m_pageShiftX swizzle32 = 6" "m_pageShiftY swizzle32 = 5" by (simp_all add: sw32.info)
  then have "inside (GetOffset 3 2 PSM_PSMCT32) 7 9" by (simp add: format_offsets inside_def mkGSOffset_def)
  then show ?thesis by (intro allI planes_independent) (simp_all add: planes_def)
qed

section \<open>The read of 4 bit images\<close>

text \<open>What every step of a transfer keeps, the transfer keeps.\<close>

lemma rw_line_keeps:
  "rw_line n f xinc x stop s = Some t \<Longrightarrow> I s \<Longrightarrow> (\<And>x s t. f x s = Some t \<Longrightarrow> I s \<Longrightarrow> I t) \<Longrightarrow> I t"
  by (induction n arbitrary: x s) (auto split: if_splits option.splits)

lemma rwHelper_keeps:
  assumes r: "rwHelper f off xinc sx w y remX len p s = Some r" and "I s" and "\<And>p x s t. f p x s = Some t \<Longrightarrow> I s \<Longrightarrow> I t"
  shows "I (snd (snd r))"
proof -
  have "I s \<longrightarrow> (\<forall>p x s t. f p x s = Some t \<longrightarrow> I s \<longrightarrow> I t) \<longrightarrow> I (snd (snd r))"
  proof (rule rwHelper.raw_induct [OF _ r, of "\<lambda>f off xinc sx w y remX len p s r. I s \<longrightarrow> (\<forall>p x s t. f p x s = Some t \<longrightarrow> I s \<longrightarrow> I t) \<longrightarrow> I (snd (snd r))"])
    fix rec f off xinc sx w y remX len p s r
    assume IH: "\<And>f off xinc sx w y remX len p s r. rec f off xinc sx w y remX len p s = Some r \<Longrightarrow>
        I s \<longrightarrow> (\<forall>p x s t. f p x s = Some t \<longrightarrow> I s \<longrightarrow> I t) \<longrightarrow> I (snd (snd r))"
      and b: "(if 0 < len
         then let stop = min remX len; len1 = len - stop; remX1 = remX - stop
              in Option.bind (rw_line (nat stop) (f p) xinc 0 stop s)
                  (\<lambda>t. if remX1 = 0 then rec f off xinc sx w (y + 1) w len1 (paMulti off sx (y + 1)) t
                       else rec f off xinc sx w y remX1 len1 p t)
         else Some (y, remX, s)) = Some r"
    have "I (snd (snd r))" if s: "I s" and step: "\<forall>p x s t. f p x s = Some t \<longrightarrow> I s \<longrightarrow> I t"
    proof (cases "len > 0")
      case False
      then show ?thesis using b s by auto
    next
      case True
      then obtain t where t: "rw_line (nat (min remX len)) (f p) xinc 0 (min remX len) s = Some t"
        and r: "(if remX - min remX len = 0 then rec f off xinc sx w (y + 1) w (len - min remX len) (paMulti off sx (y + 1)) t
          else rec f off xinc sx w y (remX - min remX len) (len - min remX len) p t) = Some r"
        using b by (auto simp: Let_def bind_eq_Some_conv)
      have "I t" by (rule rw_line_keeps [where I = I, OF t s]) (use step in blast)
      show ?thesis
      proof (cases "remX - min remX len = 0")
        case True
        then show ?thesis using r IH [of f off xinc sx w "y + 1" w "len - min remX len" _ t r] \<open>I t\<close> step by (simp only: if_True simp_thms)
      next
        case False
        then show ?thesis using r IH [of f off xinc sx w y "remX - min remX len" "len - min remX len" p t r] \<open>I t\<close> step by (simp only: if_False simp_thms)
      qed
    qed
    then show "I s \<longrightarrow> (\<forall>p x s t. f p x s = Some t \<longrightarrow> I s \<longrightarrow> I t) \<longrightarrow> I (snd (snd r))" by blast
  qed
  with assms(2,3) show ?thesis by blast
qed

text \<open>The pointer of the destination stays where it is, so only its first byte is written.\<close>

lemma psmt4_read_one_byte:
  assumes "SPSM B = PSM_PSMT4" and r: "ReadImageX tx ty d len B P R m = Some (tx', ty', d')" and j: "0 < j"
  shows "d' j = d j"
proof (cases "len \<le> 0")
  case False
  define I where "I s \<longleftrightarrow> snd s = 0 \<and> fst s j = d j" for s :: gs_rd
  obtain x y k where h: "readWriteHelper tx ty (len * 2) 2 (SSAX P) (RRW R) (fromKnownPSM (SBP B) (SBW B) PSM_PSMT4)
      (read_two 0 (\<lambda>a. ucast (ReadPixel4_at a m)) (\<lambda>a. push_bit 4 (ucast (ReadPixel4_at a m)))) (d, 0) = Some (x, y, d', k)"
    using r False assms(1) by (auto simp: ReadImageX_def Let_def)
  then obtain r where r: "rwHelper (read_two 0 (\<lambda>a. ucast (ReadPixel4_at a m)) (\<lambda>a. push_bit 4 (ucast (ReadPixel4_at a m))))
      (fromKnownPSM (SBP B) (SBW B) PSM_PSMT4) 2 (SSAX P) (RRW R) ty (SSAX P + RRW R - tx) (len * 2)
      (paMulti (fromKnownPSM (SBP B) (SBW B) PSM_PSMT4) tx ty) (d, 0) = Some r" and e: "snd (snd r) = (d', k)"
    by (auto simp: readWriteHelper_def Let_def)
  have "I (snd (snd r))"
    by (rule rwHelper_keeps [OF r]) (use j in \<open>auto simp: I_def read_two_def put8_def split: option.splits\<close>)
  then show ?thesis by (simp add: e I_def)
qed (use r in \<open>simp add: ReadImageX_def\<close>)

end
