(* ===== verification/Spec2Isabelle.thy ===== *)
theory Spec2Isabelle
  imports EE_Machine EE_Deliver MMI_Spec EE_Unaligned EE_FPU_Spec Sif_Spec Iop_Gte_Machine Mtvu_Spec Gs_Round
begin

text \<open>
  The interpreter core of the PlayStation 2 emulator in src/pcsx2: the main processor (EE,
  an R5900), its memory system, its coprocessors, the two vector units, the interrupt and DMA
  controllers, the link to the I/O processor, and the interpreter of that processor.  The recompilers under src/pcsx2/x86 generate host code for the
  same instructions; the interpreter is the semantics they are to implement.

  How the program works.  \<open>intExecute\<close> (Interpreter.cpp) calls \<open>execI\<close> in a loop: it fetches a
  word through the virtual map (vtlb.cpp, with the data cache of Cache.cpp where the page asks
  for it), finds its handler in the opcode tables (R5900OpcodeTables.cpp) and runs it
  (R5900OpcodeImpl.cpp, MMI.cpp, COP0.cpp, FPU.cpp).  A branch runs its delay slot by calling
  \<open>execI\<close> again and then tests for events: \<open>_cpuEventTest_Shared\<close> (R5900.cpp) raises the
  exceptions of the two interrupt controllers (Hw.cpp), steps the counters, delivers the
  scheduled events of the DMA channels and gives the I/O processor its share of cycles.  The
  DMA controller (Dmac.cpp) starts a channel when its CHCR register is written; the channels
  SIF0 and SIF1 exchange packets with the I/O processor through a FIFO each (Sif.h, Sif0.cpp,
  Sif1.cpp) and schedule the interrupts of both sides.

  The I/O processor runs in the same way with its own interpreter (R3000AInterpreter.cpp) on its
  own memory (IopMem.cpp); its second coprocessor is the geometry engine of the PlayStation 1
  (IopGte.cpp), fixed-point arithmetic with saturations and a flag register.  The first vector unit is also the second coprocessor: macro
  instructions (COP2.cpp, VU0.cpp) work on its registers, and VCALLMS starts a program in its
  memory; both units execute a pair of instructions per step (VU0microInterp.cpp,
  VU1microInterp.cpp, VUops.cpp) and delay results in pipelines.  With the multi-threaded setting
  the second unit runs on a thread of its own, which the main thread feeds through a ring
  (MTVU.cpp).  The graphics synthesizer keeps images in a memory of 4 MB whose layout depends on the
  storage format (GS/GSLocalMemory.h, GS/GSLocalMemory.cpp, GS/GSTables.cpp).

  Theories and sources, in the order of the imports:

    \<^item> \<open>Prelude\<close>: machine integers, lanes of the register unions, little-endian access to a
      byte store, results that may be a C++ exception (\<open>res\<close>), and the lemmas on them.
    \<^item> \<open>EE_Regs\<close>: R5900.h and the exception and clock half of R5900.cpp (\<open>cpuRegisters\<close>).
    \<^item> \<open>VtlbMap\<close>: the physical and virtual page maps of vtlb.cpp and vtlb.h (\<open>ee_map\<close> and on).
    \<^item> \<open>DCache\<close>: Cache.cpp.  \<open>VtlbAccess\<close>: the access functions of vtlb.cpp over both.
    \<^item> \<open>EE_ALU\<close>, \<open>EE_LoadStore\<close>: R5900OpcodeImpl.cpp.  \<open>MMI\<close>: MMI.cpp.  \<open>COP0\<close>: COP0.cpp.
      \<open>EE_FPU\<close>: FPU.cpp.  \<open>EE_Branch\<close>, \<open>EE_Interp\<close>: Interpreter.cpp and the branches of the
      coprocessors.  \<open>EE_Decode\<close>: R5900OpcodeTables.cpp.
    \<^item> \<open>Iop_Regs\<close>: the state of the I/O processor (R3000A.h, R3000A.cpp).  \<open>Iop_Mem\<close>: IopMem.cpp.
      \<open>Iop_Opcodes\<close>: R3000AOpcodeTables.cpp.  \<open>Iop_Gte\<close>: the geometry engine, IopGte.cpp.  \<open>Iop_Interp\<close>:
      R3000AInterpreter.cpp and the register moves of IopGte.cpp.
    \<^item> \<open>Iop_Gte_Safety\<close>: what the operations of the geometry engine keep, by the interfaces
      \<open>gte_closed\<close> and \<open>gte_stable\<close>.  \<open>Iop_Gte_Spec\<close>: the perspective transformation.  \<open>Iop_Gte_Light\<close>:
      the lighting, by the interface \<open>gte_shader\<close>.  \<open>Iop_Gte_Machine\<close>: the instructions of coprocessor 2.
    \<^item> \<open>EE_Events\<close>: interrupt controllers, scheduling and event test (Hw.cpp, R5900.cpp,
      R3000A.cpp, IopIrq.cpp, IopHw.cpp).
    \<^item> \<open>Dmac\<close>: Dmac.h, Dmac.cpp and the chain tags of Hw.cpp.
    \<^item> \<open>Sif_Fifo\<close>: the FIFO of Sif.h.  \<open>Sif\<close>, \<open>Sif1\<close>: Sif0.cpp and Sif1.cpp.
    \<^item> \<open>Mtvu\<close>: MTVU.h and MTVU.cpp.
    \<^item> \<open>Vu_Regs\<close>: VU.h, VUflags.cpp and the pipelines of VUops.cpp.  \<open>Vu_Upper\<close>, \<open>Vu_Lower\<close>: its
      instructions.  \<open>Vu_RegsN\<close>: what each of them reads and writes (\<open>_vuRegs...\<close>).  \<open>Vu_Tables\<close>: the
      opcode tables.  \<open>Vu_Interp\<close>: the interpreters and VUmicro.cpp, VU0micro.cpp, VU1micro.cpp.
      \<open>Vu_Macro\<close>: COP2.cpp, VU0.cpp and the macro instructions at the end of VUops.cpp.
    \<^item> \<open>Vu_Frame\<close>, \<open>Vu_Pipes\<close>, \<open>Vu_Step\<close>, \<open>Vu_Zero\<close>: what instructions and steps leave alone, the
      pipelines as queues, a step of the first unit, and the constant registers of both.
    \<^item> \<open>EE_Syscall\<close>: the switch of \<open>SYSCALL\<close> and \<open>__Deci2Call\<close> (R5900OpcodeImpl.cpp).  \<open>EE_Machine\<close>: \<open>execI\<close> with the
      event test, the vector units and the system calls plugged in, on the general registers they
      leave alone (\<open>Vu_Gpr\<close>).
    \<^item> \<open>Gs_Tables\<close>: GSTables.h and GSTables.cpp.  \<open>Gs_Offset\<close>: \<open>GSSwizzleInfo\<close> and \<open>GSOffset\<close>.  \<open>Gs_Address\<close>: the
      interface \<open>swizzle\<close> of a layout, with an instance for each of the eight.  \<open>Gs_Mem\<close>: the accesses to
      pixels and the table of the formats.  \<open>Gs_Cells\<close>: the interface \<open>pixel_store\<close> of a format, with its
      instances.  \<open>Gs_Image\<close>: \<open>WriteImageX\<close> and \<open>ReadImageX\<close>.
    \<^item> \<open>EE_ALU_Spec\<close>, \<open>MMI_Spec\<close>, \<open>EE_Unaligned\<close>, \<open>EE_Exceptions\<close>, \<open>EE_FPU_Spec\<close>,
      \<open>EE_Frame\<close>, \<open>EE_Delay\<close>, \<open>EE_Deliver\<close>, \<open>Sif_Spec\<close>, \<open>Iop_Spec\<close>, \<open>Mtvu_Spec\<close>, \<open>Vu_Spec\<close>, \<open>Gs_Spec\<close>,
      \<open>Gs_Transfer\<close>, \<open>Gs_Read32\<close>, \<open>Gs_Round\<close>: the properties of these parts.

  State and operations.  The state is one record that grows with the components, so that an
  operation of an early component runs unchanged on the state of a later one: \<open>cpuRegisters\<close>,
  then the maps, the cache and the host memory, the coprocessors, the globals of the
  interpreter, the I/O processor and the DMA and SIF state.  A C++ function is the definition
  of the same name, a function on that state; where the source throws, or would leave an
  array, the result is \<open>Throw\<close> or \<open>None\<close>.  A suffix \<open>0\<close> or \<open>1\<close> separates the static functions
  that Sif0.cpp and Sif1.cpp both have.

  What is a parameter.  The host's floating point arithmetic, the device handlers behind the
  memory map, the handlers of events that are not modelled, the counters, the unit that takes
  the graphics packets, the emulated library calls of the I/O processor, and, where one processor
  calls the other, its run, are arguments of the definitions that call them.  A register usage
  record that the source leaves uninitialised is a parameter too (\<open>stack_lregs\<close>), and the width of
  \<open>long\<close> and the conversion of a large \<open>double\<close> on the host (\<open>gte_host\<close>).  No theorem
  assumes more of them than its statement says: \<open>machine_regs\<close> that they do not reach into the general
  registers, \<open>spares_event\<close> that a handler does not reschedule another event, \<open>gif_frame\<close> that the graphics
  interface leaves the second unit's registers alone, \<open>ieee_host\<close> that the host's arithmetic follows the
  standard on which operands give a NaN.

  What the lemmas show.
    \<^item> Memory: the map is what was mapped, the entries stay translatable, a read returns what
      was written, with and without the cache, and the cache is invisible (a refinement of a
      flat memory, by the interface \<open>byte_store\<close> and its interpretations).
    \<^item> Instructions: register 0 is constant in the whole machine, decoding is total, overflow traps are exact
      except for one operand of the subtractions, division truncates, the multimedia
      instructions are their element functions also when registers coincide, partial accesses
      in pairs are unaligned accesses, results of the floating point unit are normal numbers or
      zero on a host with IEEE 754 arithmetic.
    \<^item> Control: the delay slot runs before the target, for every instruction in it and every event
      test, \<open>ERET\<close> undoes an exception, the nesting bound does not matter.
    \<^item> The link: the FIFO is a bounded queue (the interface \<open>bounded_queue\<close>), every scheduled event
      that is tested for arrives on time, chains return where they were called, SIF0 keeps to its FIFO, and the cases in
      which SIF0, SIF1 and SIF2 lose data or do not end.
    \<^item> The I/O processor: its memory mirrors, its interrupt gate, and what its delay slots do to
      an exception.
    \<^item> The geometry engine: a vertex is projected as by a reference in exact arithmetic, on every
      host; the operations on three vertices are three single ones; which flags an operation can
      raise and which overflows it cannot report; the registers stay in their ranges.
    \<^item> The ring to the vector unit thread: for every interleaving of the two threads the packets
      arrive complete and in order, nothing waits for ever, and the one way to overrun it.
    \<^item> The vector units: a step keeps the pipelines queues of at most four entries and takes a
      bounded number of cycles, programs return, the constant registers are constant, flags
      appear when their entry retires, an instruction computes its lanes at once, and the two
      instructions of a pair read before either writes.
    \<^item> The local memory: the offset tables give the documented layout, a pixel is read as it was
      written and no other changes, formats in different bits are independent, and images of whole
      bytes go through the memory unchanged, in one piece or in two that meet at a pixel.

  Bounds and fuel.  \<open>vu_fuel\<close> bounds the loops of the vector units: each step moves the clock, so
  running for \<open>n\<close> cycles takes at most \<open>n\<close> steps.  \<open>execI\<close> counts the nesting of delay slots; the result does not depend on
  the count once it is not \<open>NestedTooDeep\<close>.  \<open>intExecute\<close>, the two SIF loops, the loop over all
  events and the loop of the DMA game fix take a number of passes, because the guest's
  program or memory decides whether they end; theorems about them are stated for every
  number of passes or for one pass.  The lookup in the opcode tables takes as many steps as
  the tables are deep, and is shown to end within them.

  Not modelled: the recompilers and the emitter (host machine code), the graphics back ends
  and the user interface (host interfaces), the third-party code, and, for now, VIF, GIF, IPU, the drawing and the
  whole-block transfers of the graphics synthesizer, the
  peripherals of the I/O processor, SPU2, CDVD, memory cards and save
  states.
\<close>

end
